(* ===== verification/Prelude.thy ===== *)
theory Prelude
  imports Main "HOL-Library.AList" "HOL-Library.List_Lexorder" "HOL-Library.Char_ord"
begin

text \<open>
  Shared ground of the development: how JavaScript values are represented, the generic lemmas on
  association lists, stable sorting, options and strings the components use, and the locale every
  component with a step relation is an instance of.

  \<^item> A JavaScript \<open>Map\<close> iterates in insertion order and \<open>set\<close> on a present key keeps its place, so it
    is an association list with distinct keys: \<open>get\<close> is \<^term>\<open>map_of m k\<close>, \<open>set\<close> is
    \<^term>\<open>AList.update k v m\<close> and \<open>delete\<close> is \<^term>\<open>AList.delete k m\<close>.
  \<^item> \<open>Array.prototype.sort\<close> is stable, so a sort by a numeric or string key is \<^const>\<open>sort_key\<close>.
  \<^item> \<open>null\<close> and \<open>undefined\<close> are \<^const>\<open>None\<close>; a string test such as \<open>if (key)\<close> is \<^term>\<open>truthy key\<close>,
    false for a missing and for an empty string.
  \<^item> Timestamps and durations are integers (milliseconds). An operation takes the value of
    \<open>Date.now()\<close> as an argument, one argument per synchronous stretch of code; what
    \<open>randomUUID()\<close> returns is an argument as well.
  \<^item> A string is a list of code units; only units below 256 are represented.
\<close>

named_theorems store_simps "rewrite rules for the operations of the stores"

type_synonym 'v jsmap = "(string \<times> 'v) list"

text \<open>JavaScript truthiness of an optional string.\<close>

definition truthy :: "string option \<Rightarrow> bool" where
  "truthy s = (case s of None \<Rightarrow> False | Some t \<Rightarrow> t \<noteq> [])"

lemma truthy_simps [simp]:
  "truthy None = False" "truthy (Some s) = (s \<noteq> [])"
  by (simp_all add: truthy_def)

lemma truthy_SomeE:
  assumes "truthy s"
  obtains t where "s = Some t" "t \<noteq> []"
  using assms by (cases s) auto

text \<open>\<open>a ?? b\<close>.\<close>

definition nullish :: "'a option \<Rightarrow> 'a \<Rightarrow> 'a" where
  "nullish x d = (case x of None \<Rightarrow> d | Some v \<Rightarrow> v)"

lemma nullish_simps [simp]: "nullish None d = d" "nullish (Some v) d = v"
  by (simp_all add: nullish_def)

text \<open>\<open>s.startsWith(p)\<close>.\<close>

fun starts_with :: "'a list \<Rightarrow> 'a list \<Rightarrow> bool" where
  "starts_with s [] = True"
| "starts_with [] (p # ps) = False"
| "starts_with (c # s) (p # ps) = (c = p \<and> starts_with s ps)"

lemma starts_with_iff: "starts_with s p \<longleftrightarrow> (\<exists>t. s = p @ t)"
  by (induction s p rule: starts_with.induct) auto

lemma starts_with_append [simp]: "starts_with (p @ t) p"
  by (auto simp: starts_with_iff)

lemma starts_with_drop: "starts_with s p \<Longrightarrow> p @ drop (length p) s = s"
  by (auto simp: starts_with_iff)

text \<open>\<open>[...new Set(xs)]\<close>: the first occurrence of each element, in order.\<close>

fun dedupe :: "'a list \<Rightarrow> 'a list" where
  "dedupe [] = []"
| "dedupe (x # xs) = x # filter (\<lambda>y. y \<noteq> x) (dedupe xs)"

lemma set_dedupe [simp]: "set (dedupe xs) = set xs"
  by (induction xs) auto

lemma distinct_dedupe [simp]: "distinct (dedupe xs)"
  by (induction xs) auto

text \<open>A separator that does not occur to its right splits a list in one way.\<close>

lemma split_at_first:
  "u @ c # v = u' @ c # v' \<Longrightarrow> c \<notin> set u \<Longrightarrow> c \<notin> set u' \<Longrightarrow> u = u' \<and> v = v'"
proof (induction u arbitrary: u')
  case Nil
  then show ?case by (cases u') auto
next
  case (Cons a u)
  then show ?case by (cases u') auto
qed

lemma split_at_last:
  assumes "x @ c # y = x' @ c # y'" and "c \<notin> set y" and "c \<notin> set y'"
  shows "x = x' \<and> y = y'"
proof -
  from assms(1) have "rev (x @ c # y) = rev (x' @ c # y')" by (rule arg_cong)
  then have "rev y @ c # rev x = rev y' @ c # rev x'" by simp
  from split_at_first[OF this] assms(2,3) show ?thesis by simp
qed

lemma count_list_distinct: "distinct xs \<Longrightarrow> x \<in> set xs \<Longrightarrow> count_list xs x = 1"
  by (induction xs) auto

text \<open>\<open>Number.MAX_SAFE_INTEGER\<close>.\<close>

definition MAX_SAFE_INTEGER :: int where
  "MAX_SAFE_INTEGER = 2 ^ 53 - 1"

section \<open>Decimal numerals in template strings\<close>

text \<open>\<open>`${n}`\<close> for a natural number.\<close>

definition digit_char :: "nat \<Rightarrow> char" where
  "digit_char d = char_of (48 + d)"
fun show_nat :: "nat \<Rightarrow> string" where
  "show_nat n = (if n < 10 then [digit_char n] else show_nat (n div 10) @ [digit_char (n mod 10)])"
declare show_nat.simps [simp del]

definition show_int :: "int \<Rightarrow> string" where
  "show_int i = (if i < 0 then CHR ''-'' # show_nat (nat (- i)) else show_nat (nat i))"

lemma of_char_digit: "d < 10 \<Longrightarrow> of_char (digit_char d) = 48 + d"
  by (simp add: digit_char_def)

lemma digit_char_inj: "a < 10 \<Longrightarrow> b < 10 \<Longrightarrow> digit_char a = digit_char b \<Longrightarrow> a = b"
  by (metis add_left_cancel of_char_digit)

lemma digit_not_colon: "d < 10 \<Longrightarrow> digit_char d \<noteq> CHR '':''"
proof
  assume "d < 10" "digit_char d = CHR '':''"
  then have "of_char (CHR '':'') = 48 + d" using of_char_digit by metis
  with \<open>d < 10\<close> show False by simp
qed

lemma show_nat_no_colon: "CHR '':'' \<notin> set (show_nat n)"
proof (induction n rule: show_nat.induct)
  case (1 n)
  have "CHR '':'' \<noteq> digit_char d" if "d < 10" for d using digit_not_colon[OF that] by metis
  with 1 show ?case by (subst show_nat.simps) auto
qed

lemma show_nat_nonempty [simp]: "show_nat n \<noteq> []" "[] \<noteq> show_nat n"
  by (subst show_nat.simps, simp)+

lemma show_nat_inj: "show_nat m = show_nat n \<Longrightarrow> m = n"
proof (induction m arbitrary: n rule: show_nat.induct)
  case (1 m)
  show ?case
  proof (cases "m < 10")
    case True
    with 1(2) show ?thesis
      by (cases "n < 10") (auto simp: show_nat.simps[of m] show_nat.simps[of n] dest: digit_char_inj)
  next
    case False
    with 1(2) have n: "\<not> n < 10" by (auto simp: show_nat.simps[of m] show_nat.simps[of n])
    with False 1(2) have "show_nat (m div 10) = show_nat (n div 10)"
      and d: "digit_char (m mod 10) = digit_char (n mod 10)"
      by (simp_all add: show_nat.simps[of m] show_nat.simps[of n])
    with 1(1) False have "m div 10 = n div 10" by blast
    moreover from d have "m mod 10 = n mod 10" by (rule digit_char_inj[rotated 2]) simp_all
    ultimately show ?thesis by (metis div_mult_mod_eq)
  qed
qed

section \<open>Association lists as JavaScript maps\<close>

abbreviation keys :: "('k \<times> 'v) list \<Rightarrow> 'k list" where
  "keys m \<equiv> map fst m"

abbreviation vals :: "('k \<times> 'v) list \<Rightarrow> 'v list" where
  "vals m \<equiv> map snd m"

declare map_of_eq_Some_iff [simp del]

lemma map_of_update [simp]: "map_of (AList.update k v m) = (map_of m)(k \<mapsto> v)"
  by (rule update_conv')

lemma map_of_delete [simp]: "map_of (AList.delete k m) = (map_of m)(k := None)"
  by (rule delete_conv')

lemma distinct_keys_update [simp]: "distinct (keys m) \<Longrightarrow> distinct (keys (AList.update k v m))"
  by (rule distinct_update)

lemma distinct_keys_delete [simp]: "distinct (keys m) \<Longrightarrow> distinct (keys (AList.delete k m))"
  by (rule distinct_delete)

text \<open>With distinct keys the entries of the list are exactly the graph of the map, so a loop over
  \<open>m.values()\<close> is a quantifier over lookups.\<close>

lemma vals_iff_map_of:
  "distinct (keys m) \<Longrightarrow> v \<in> set (vals m) \<longleftrightarrow> (\<exists>k. map_of m k = Some v)"
  by (force simp: map_of_eq_Some_iff image_iff)

lemma list_ex_vals:
  "distinct (keys m) \<Longrightarrow> (\<exists>v \<in> set (vals m). P v) \<longleftrightarrow> (\<exists>k v. map_of m k = Some v \<and> P v)"
  by (metis vals_iff_map_of)

lemma update_fresh: "map_of m k = None \<Longrightarrow> AList.update k v m = m @ [(k, v)]"
  by (induction m) (auto split: if_splits)

section \<open>Stable sorting\<close>

text \<open>The head of \<open>sort_key f xs\<close> is the first element of \<open>xs\<close> with the least key.\<close>

lemma sort_key_eq_Nil [simp]: "sort_key f xs = [] \<longleftrightarrow> xs = []"
  by (metis length_0_conv length_sort)

lemma hd_sort_key_in: "xs \<noteq> [] \<Longrightarrow> hd (sort_key f xs) \<in> set xs"
  by (metis hd_in_set set_sort sort_key_eq_Nil)

lemma hd_sort_key_least: "y \<in> set xs \<Longrightarrow> f (hd (sort_key f xs)) \<le> f y"
proof -
  assume y: "y \<in> set xs"
  then have ne: "sort_key f xs \<noteq> []" by auto
  then obtain z zs where zs: "sort_key f xs = z # zs" by (cases "sort_key f xs") auto
  have "sorted (map f (sort_key f xs))" by simp
  moreover have "y \<in> set (z # zs)" using y by (metis set_sort zs)
  ultimately show ?thesis using zs by auto
qed

text \<open>\<open>xs.find(p)\<close>.\<close>

lemma find_SomeD: "find P xs = Some x \<Longrightarrow> x \<in> set xs \<and> P x"
  by (induction xs) (auto split: if_splits)

lemma find_NoneD: "find P xs = None \<Longrightarrow> x \<in> set xs \<Longrightarrow> \<not> P x"
  by (induction xs) (auto split: if_splits)

text \<open>In a list sorted by \<open>f\<close>, \<open>find\<close> returns an element with the least key among the matches.\<close>

lemma find_sorted_least:
  "sorted (map f xs) \<Longrightarrow> find P xs = Some x \<Longrightarrow> y \<in> set xs \<Longrightarrow> P y \<Longrightarrow> f x \<le> f y"
  by (induction xs) (auto split: if_splits)

section \<open>Step relations with an invariant\<close>

text \<open>
  A component is a set of initial states and a step relation; the locale lifts an invariant that
  the initial states have and every step keeps to all reachable states, and a property that is
  stable under steps to all later states.
\<close>

locale invariant_system =
  fixes init :: "'s \<Rightarrow> bool"
    and step :: "'s \<Rightarrow> 's \<Rightarrow> bool"
    and inv :: "'s \<Rightarrow> bool"
  assumes init_inv: "init s \<Longrightarrow> inv s"
    and step_inv: "inv s \<Longrightarrow> step s t \<Longrightarrow> inv t"
begin

lemma steps_inv:
  assumes "step\<^sup>*\<^sup>* s t" and "inv s"
  shows "inv t"
  using assms by (induction rule: rtranclp_induct) (auto intro: step_inv)

lemma reachable_inv:
  assumes "init s" and "step\<^sup>*\<^sup>* s t"
  shows "inv t"
  using assms by (auto intro: steps_inv init_inv)

lemma stable_steps:
  assumes "step\<^sup>*\<^sup>* s t" and "inv s" and "Q s"
    and "\<And>u v. inv u \<Longrightarrow> Q u \<Longrightarrow> step u v \<Longrightarrow> Q v"
  shows "Q t"
proof -
  from assms(1) have "inv t \<and> Q t"
    by (induction rule: rtranclp_induct) (use assms step_inv in auto)
  then show ?thesis by simp
qed

end

section \<open>Fencing tokens\<close>

text \<open>
  Leases and claims are guarded by tokens: an operation presents the token it was given, and is
  refused when the item's current token is another. The step relation is indexed by the set of
  tokens that may still be issued (what \<open>randomUUID()\<close> may yet return). If every step only leaves
  tokens that were there or issues new ones, a token that is not current and will not be issued
  again stays refused forever.
\<close>

locale token_fencing =
  fixes step :: "'t set \<Rightarrow> 's \<Rightarrow> 's \<Rightarrow> bool"
    and inv :: "'s \<Rightarrow> bool"
    and token_of :: "'s \<Rightarrow> 'i \<Rightarrow> 't option"
  assumes step_inv: "inv s \<Longrightarrow> step T s s' \<Longrightarrow> inv s'"
    and issued: "inv s \<Longrightarrow> step T s s' \<Longrightarrow> token_of s' i = Some t \<Longrightarrow>
      token_of s i = Some t \<or> t \<in> T"
begin

lemma stale_stays:
  assumes "(step T)\<^sup>*\<^sup>* s s'" and "inv s" and "token_of s i \<noteq> Some t" and "t \<notin> T"
  shows "token_of s' i \<noteq> Some t"
proof -
  from assms(1) have "inv s' \<and> token_of s' i \<noteq> Some t"
    by (induction rule: rtranclp_induct) (use assms issued step_inv in blast)+
  then show ?thesis by simp
qed

end

end
