(* ===== verification/Json.thy ===== *)
theory Json
  imports Prelude "HOL-Library.Product_Lexorder" "HOL-Library.Multiset"
begin

text \<open>
  JSON values, which the code types as \<open>unknown\<close> and inspects field by field, with the parts of the
  JavaScript library the components use on them: optional field access, \<open>JSON.stringify\<close> on values
  with integral numbers, the white space and letter classes of the regular expressions in the code
  (for code units below 256), \<open>trim\<close>, \<open>toLowerCase\<close>, \<open>findIndex\<close>, \<open>slice\<close> and descending stable sorts.
\<close>

datatype json =
    JNull
  | JBool bool
  | JNum int
  | JStr string
  | JArr "json list"
  | JObj "(string \<times> json) list"

text \<open>\<open>(payload as {k?: unknown} | null)?.k\<close>, \<^const>\<open>None\<close> for \<open>undefined\<close>.\<close>

fun jget :: "json \<Rightarrow> string \<Rightarrow> json option" where
  "jget (JObj fs) k = map_of fs k"
| "jget _ k = None"

definition jtrue :: "json option \<Rightarrow> bool" where
  "jtrue v \<longleftrightarrow> v = Some (JBool True)"

fun jstr :: "json option \<Rightarrow> string option" where
  "jstr (Some (JStr s)) = Some s"
| "jstr _ = None"

fun jnum :: "json option \<Rightarrow> int option" where
  "jnum (Some (JNum n)) = Some n"
| "jnum _ = None"

section \<open>\<open>JSON.stringify\<close>\<close>

definition hex_digit :: "nat \<Rightarrow> char" where
  "hex_digit d = (if d < 10 then char_of (48 + d) else char_of (87 + d))"

definition json_escape_char :: "char \<Rightarrow> string" where
  "json_escape_char c =
     (let n = of_char c :: nat in
      if n = 34 then [CHR 0x5C, CHR 0x22]
      else if n = 92 then [CHR 0x5C, CHR 0x5C]
      else if n = 8 then [CHR 0x5C, CHR ''b'']
      else if n = 12 then [CHR 0x5C, CHR ''f'']
      else if n = 10 then [CHR 0x5C, CHR ''n'']
      else if n = 13 then [CHR 0x5C, CHR ''r'']
      else if n = 9 then [CHR 0x5C, CHR ''t'']
      else if n < 32 then [CHR 0x5C, CHR ''u'', CHR ''0'', CHR ''0'', hex_digit (n div 16), hex_digit (n mod 16)]
      else [c])"

definition json_quote :: "string \<Rightarrow> string" where
  "json_quote s = CHR 0x22 # concat (map json_escape_char s) @ [CHR 0x22]"

fun join_with :: "'a list \<Rightarrow> 'a list list \<Rightarrow> 'a list" where
  "join_with sep [] = []"
| "join_with sep [x] = x"
| "join_with sep (x # y # xs) = x @ sep @ join_with sep (y # xs)"

fun stringify :: "json \<Rightarrow> string" where
  "stringify JNull = ''null''"
| "stringify (JBool b) = (if b then ''true'' else ''false'')"
| "stringify (JNum n) = show_int n"
| "stringify (JStr s) = json_quote s"
| "stringify (JArr xs) = ''['' @ join_with '','' (map stringify xs) @ '']''"
| "stringify (JObj fs) =
     ''{'' @ join_with '','' (map (\<lambda>p. json_quote (fst p) @ '':'' @ stringify (snd p)) fs) @ ''}''"

section \<open>Characters\<close>

text \<open>\<open>\s\<close> below 256: tab, line feed, vertical tab, form feed, carriage return, space, no-break space.\<close>

definition is_space :: "char \<Rightarrow> bool" where
  "is_space c = (let n = of_char c :: nat in (9 \<le> n \<and> n \<le> 13) \<or> n = 32 \<or> n = 160)"

text \<open>\<open>[\p{L}\p{N}]\<close> below 256.\<close>

definition is_alnum :: "char \<Rightarrow> bool" where
  "is_alnum c = (let n = of_char c :: nat in
     (48 \<le> n \<and> n \<le> 57) \<or> (65 \<le> n \<and> n \<le> 90) \<or> (97 \<le> n \<and> n \<le> 122) \<or>
     n \<in> {170, 178, 179, 181, 185, 186, 188, 189, 190} \<or>
     (192 \<le> n \<and> n \<noteq> 215 \<and> n \<noteq> 247))"

definition lower_char :: "char \<Rightarrow> char" where
  "lower_char c = (let n = of_char c :: nat in
     if (65 \<le> n \<and> n \<le> 90) \<or> (192 \<le> n \<and> n \<le> 222 \<and> n \<noteq> 215) then char_of (n + 32) else c)"

definition toLowerCase :: "string \<Rightarrow> string" where
  "toLowerCase s = map lower_char s"

definition trimStart :: "string \<Rightarrow> string" where
  "trimStart s = dropWhile is_space s"

definition trim :: "string \<Rightarrow> string" where
  "trim s = rev (dropWhile is_space (rev (dropWhile is_space s)))"

text \<open>\<open>s.split(re)\<close> where \<open>re\<close> matches maximal runs of characters in a class: the pieces between runs.\<close>

lemma split_runs_decreases:
  assumes "dropWhile (\<lambda>c. \<not> p c) s \<noteq> []"
  shows "length (dropWhile p (dropWhile (\<lambda>c. \<not> p c) s)) < length s"
proof -
  obtain c r where r: "dropWhile (\<lambda>c. \<not> p c) s = c # r" using assms by (cases "dropWhile (\<lambda>c. \<not> p c) s") auto
  then have "p c" by (simp add: dropWhile_eq_Cons_conv)
  then have "length (dropWhile p (c # r)) \<le> length r" by (simp add: length_dropWhile_le)
  moreover have "Suc (length r) \<le> length s" using length_dropWhile_le[of "\<lambda>c. \<not> p c" s] r by simp
  ultimately show ?thesis using r by simp
qed

function split_runs :: "(char \<Rightarrow> bool) \<Rightarrow> string \<Rightarrow> string list" where
  "split_runs p s =
     (if dropWhile (\<lambda>c. \<not> p c) s = [] then [takeWhile (\<lambda>c. \<not> p c) s]
      else takeWhile (\<lambda>c. \<not> p c) s # split_runs p (dropWhile p (dropWhile (\<lambda>c. \<not> p c) s)))"
  by pat_completeness auto

termination
proof (relation "measure (\<lambda>(p, s). length s)")
  show "wf (measure (\<lambda>(p :: char \<Rightarrow> bool, s :: string). length s))" by simp
  fix p :: "char \<Rightarrow> bool" and s
  assume "dropWhile (\<lambda>c. \<not> p c) s \<noteq> []"
  from split_runs_decreases[OF this]
  show "((p, dropWhile p (dropWhile (\<lambda>c. \<not> p c) s)), p, s) \<in> measure (\<lambda>(p, s). length s)"
    by (simp del: dropWhile_eq_Nil_conv)
qed

declare split_runs.simps [simp del]

text \<open>\<open>replace(/\s+/g, " ")\<close>.\<close>

definition collapse_spaces :: "string \<Rightarrow> string" where
  "collapse_spaces s = join_with '' '' (split_runs is_space s)"

section \<open>Arrays\<close>

fun find_index :: "('a \<Rightarrow> bool) \<Rightarrow> 'a list \<Rightarrow> nat option" where
  "find_index p [] = None"
| "find_index p (x # xs) = (if p x then Some 0 else map_option Suc (find_index p xs))"

lemma find_index_Some:
  "find_index p xs = Some i \<Longrightarrow> i < length xs \<and> p (xs ! i) \<and> (\<forall>j < i. \<not> p (xs ! j))"
  by (induction xs arbitrary: i) (auto split: if_splits simp: nth_Cons split: nat.splits)

lemma find_index_None: "find_index p xs = None \<Longrightarrow> x \<in> set xs \<Longrightarrow> \<not> p x"
  by (induction xs) (auto split: if_splits)

text \<open>\<open>xs.slice(-n)\<close>: the last \<open>n\<close> elements, all of them for \<open>n = 0\<close> since \<open>-0\<close> is \<open>0\<close>, and for a
  negative \<open>n\<close> the elements from index \<open>-n\<close>.\<close>

definition slice_neg :: "int \<Rightarrow> 'a list \<Rightarrow> 'a list" where
  "slice_neg n xs = (if n \<le> 0 then drop (nat (- n)) xs else drop (length xs - nat n) xs)"

text \<open>A stable sort by descending key.\<close>

definition sort_desc :: "('a \<Rightarrow> 'k::linorder) \<Rightarrow> 'a list \<Rightarrow> 'a list" where
  "sort_desc f xs = rev (sort_key f (rev xs))"

lemma set_sort_desc [simp]: "set (sort_desc f xs) = set xs"
  by (simp add: sort_desc_def)

lemma length_sort_desc [simp]: "length (sort_desc f xs) = length xs"
  by (simp add: sort_desc_def)

lemma sorted_sort_desc: "sorted (map f (rev (sort_desc f xs)))"
  by (simp add: sort_desc_def)

lemma mset_sort_desc [simp]: "mset (sort_desc f xs) = mset xs"
  by (simp add: sort_desc_def)

text \<open>\<open>Math.max(init, ...xs)\<close>.\<close>

definition max_from :: "int \<Rightarrow> int list \<Rightarrow> int" where
  "max_from a xs = fold max xs a"

lemma max_from_ge: "a \<le> max_from a xs \<and> (\<forall>x \<in> set xs. x \<le> max_from a xs)"
proof -
  have "\<forall>a. a \<le> fold max xs a \<and> (\<forall>x \<in> set xs. x \<le> fold max xs a)"
  proof (induction xs)
    case (Cons x xs)
    then show ?case by (metis (mono_tags, lifting) fold_simps(2) max.bounded_iff set_ConsD)
  qed simp
  then show ?thesis by (simp add: max_from_def)
qed

section \<open>Splitting\<close>

text \<open>\<open>s.split(c)\<close> for one character, and the text before and after the last \<open>c\<close>.\<close>

fun split_char :: "char \<Rightarrow> string \<Rightarrow> string list" where
  "split_char c [] = [[]]"
| "split_char c (x # xs) = (if x = c then [] # split_char c xs else (case split_char c xs of [] \<Rightarrow> [[x]] | w # ws \<Rightarrow> (x # w) # ws))"

definition split_last :: "char \<Rightarrow> string \<Rightarrow> (string \<times> string) option" where
  "split_last c s =
     (if c \<in> set s then Some (rev (tl (dropWhile (\<lambda>x. x \<noteq> c) (rev s))), rev (takeWhile (\<lambda>x. x \<noteq> c) (rev s))) else None)"

end
