(* ===== verification/Scopes.thy ===== *)
theory Scopes
  imports Json
begin

text \<open>
  Scopes, resource references and people (\<open>src/src/types.ts\<close>, \<open>src/src/acl/resource-ref.ts\<close>,
  \<open>src/src/directory/person.ts\<close>): the strings that name who owns something, what is shared and who
  somebody is. The directory a person is looked up in is an argument, a function to an optional row,
  where no row stands for an unknown person and for a lookup that failed, since the code catches
  the failure and goes on with \<open>null\<close>.
\<close>

section \<open>Scopes\<close>

datatype PrincipalType = internal | guest

record Principal =
  p_id :: string
  p_type :: PrincipalType
  teamIds :: "string list option"
  displayName :: "string option"

datatype ScopeKind = personal | channel | team | org | group

type_synonym ScopeId = string

fun kind_name :: "ScopeKind \<Rightarrow> string" where
  "kind_name personal = ''personal''"
| "kind_name channel = ''channel''"
| "kind_name team = ''team''"
| "kind_name org = ''org''"
| "kind_name group = ''group''"

definition SCOPE_KINDS :: "ScopeKind list" where
  "SCOPE_KINDS = [personal, channel, team, org, group]"

text \<open>\<open>isScopeKind(raw) ? raw : null\<close>.\<close>

definition asScopeKind :: "string \<Rightarrow> ScopeKind option" where
  "asScopeKind s = find (\<lambda>k. kind_name k = s) SCOPE_KINDS"

definition scopeId :: "ScopeKind \<Rightarrow> string \<Rightarrow> ScopeId" where
  "scopeId kind r = kind_name kind @ '':'' @ r"

definition personalScope :: "string \<Rightarrow> ScopeId" where
  "personalScope principalId = scopeId personal principalId"

definition parseScopeId :: "ScopeId \<Rightarrow> ScopeKind option \<times> string" where
  "parseScopeId s =
     (case find_index (\<lambda>c. c = CHR '':'') s of
        None \<Rightarrow> (None, [])
      | Some sep \<Rightarrow> (asScopeKind (take sep s), drop (sep + 1) s))"

definition isManageableCreationScope :: "ScopeId option \<Rightarrow> bool" where
  "isManageableCreationScope s =
     (truthy s \<and> fst (parseScopeId (the s)) \<in> {Some channel, Some team})"

definition isSharedScope :: "ScopeId option \<Rightarrow> bool" where
  "isSharedScope s =
     (truthy s \<and> fst (parseScopeId (the s)) \<in> {Some channel, Some group})"

section \<open>Resource references\<close>

datatype ResourceKind = file_kind | skill_kind | deploy_kind | cron_kind | service_cred_kind

record ResourceRef =
  rr_kind :: ResourceKind
  rr_id :: string

text \<open>\<open>PREFIX\<close>; a file has none, which the empty prefix stands for.\<close>

fun refPrefix :: "ResourceKind \<Rightarrow> string" where
  "refPrefix file_kind = []"
| "refPrefix skill_kind = ''skill:''"
| "refPrefix deploy_kind = ''deployment:''"
| "refPrefix cron_kind = ''cron:''"
| "refPrefix service_cred_kind = ''service-cred:''"

definition RESOURCE_KINDS :: "ResourceKind list" where
  "RESOURCE_KINDS = [file_kind, skill_kind, deploy_kind, cron_kind, service_cred_kind]"

definition encodeRef :: "ResourceRef \<Rightarrow> string" where
  "encodeRef r = (if rr_kind r = file_kind then rr_id r else refPrefix (rr_kind r) @ rr_id r)"

fun parse_kinds :: "string \<Rightarrow> ResourceKind list \<Rightarrow> ResourceRef" where
  "parse_kinds s [] = \<lparr>rr_kind = file_kind, rr_id = s\<rparr>"
| "parse_kinds s (k # ks) =
     (if k = file_kind then parse_kinds s ks
      else if starts_with s (refPrefix k) then \<lparr>rr_kind = k, rr_id = drop (length (refPrefix k)) s\<rparr>
      else parse_kinds s ks)"

definition parseRef :: "string \<Rightarrow> ResourceRef" where
  "parseRef s = parse_kinds s RESOURCE_KINDS"

section \<open>People\<close>

definition personKey :: "string option \<Rightarrow> string" where
  "personKey i = (let s = trim (nullish i []) in if CHR ''@'' \<in> set s then toLowerCase s else s)"

definition samePerson :: "string option \<Rightarrow> string option \<Rightarrow> bool" where
  "samePerson a b = (let key = personKey a in key \<noteq> [] \<and> key = personKey b)"

record RosterPerson =
  r_principalId :: "string option"
  r_slackId :: "string option"

definition personKeys :: "RosterPerson option \<Rightarrow> string \<Rightarrow> string list" where
  "personKeys member rawId =
     dedupe (filter (\<lambda>k. k \<noteq> [])
       (map personKey [Some rawId, Option.bind member r_principalId, Option.bind member r_slackId]))"

definition samePersonInDirectory :: "(string \<Rightarrow> RosterPerson option) \<Rightarrow> string \<Rightarrow> string \<Rightarrow> bool" where
  "samePersonInDirectory dir a b =
     (if samePerson (Some a) (Some b) then True
      else if personKey (Some a) = [] \<or> personKey (Some b) = [] then False
      else list_ex (\<lambda>key. key \<in> set (personKeys (dir b) b)) (personKeys (dir a) a))"

definition samePersonMatcher :: "(string \<Rightarrow> RosterPerson option) \<Rightarrow> string \<Rightarrow> string \<Rightarrow> bool" where
  "samePersonMatcher dir actorId =
     (let row = dir actorId; ks = personKeys row actorId in
      (\<lambda>i. if personKey (Some i) \<in> set ks then True
           else if row \<noteq> None then False
           else samePersonInDirectory dir i actorId))"

section \<open>Lemmas\<close>

lemma asScopeKind_name [simp]: "asScopeKind (kind_name k) = Some k"
  by (cases k) (simp_all add: asScopeKind_def SCOPE_KINDS_def)

lemma asScopeKind_SomeD: "asScopeKind s = Some k \<Longrightarrow> kind_name k = s"
  by (auto simp: asScopeKind_def dest: find_SomeD)

lemma kind_name_no_colon: "CHR '':'' \<notin> set (kind_name k)"
  by (cases k) simp_all

lemma find_index_append_Cons:
  "(\<And>x. x \<in> set xs \<Longrightarrow> \<not> p x) \<Longrightarrow> p y \<Longrightarrow> find_index p (xs @ y # ys) = Some (length xs)"
  by (induction xs) auto

lemma parse_scopeId [simp]: "parseScopeId (scopeId k r) = (Some k, r)"
proof -
  have "find_index (\<lambda>c. c = CHR '':'') (kind_name k @ CHR '':'' # r) = Some (length (kind_name k))"
    using kind_name_no_colon[of k] by (intro find_index_append_Cons) auto
  then show ?thesis by (simp add: parseScopeId_def scopeId_def)
qed

lemma scopeId_parse: "parseScopeId s = (Some k, r) \<Longrightarrow> scopeId k r = s"
  by (auto simp: parseScopeId_def scopeId_def split: option.splits dest!: asScopeKind_SomeD find_index_Some)
     (metis Suc_eq_plus1 id_take_nth_drop)

lemma parse_kinds_encode: "encodeRef (parse_kinds s ks) = s"
  by (induction ks) (auto simp: encodeRef_def starts_with_drop)

lemma encode_parse_ref [simp]: "encodeRef (parseRef s) = s"
  by (simp add: parseRef_def parse_kinds_encode)

lemma parse_encode_nonfile: "k \<noteq> file_kind \<Longrightarrow> parseRef (refPrefix k @ i) = \<lparr>rr_kind = k, rr_id = i\<rparr>"
  by (cases k) (simp_all add: parseRef_def RESOURCE_KINDS_def)

lemma parse_file:
  "rr_kind (parseRef s) = file_kind \<longleftrightarrow> (\<forall>k. k \<noteq> file_kind \<longrightarrow> \<not> starts_with s (refPrefix k))"
proof
  assume f: "rr_kind (parseRef s) = file_kind"
  show "\<forall>k. k \<noteq> file_kind \<longrightarrow> \<not> starts_with s (refPrefix k)"
  proof (intro allI impI notI)
    fix k assume k: "k \<noteq> file_kind" and "starts_with s (refPrefix k)"
    then obtain i where "s = refPrefix k @ i" by (auto simp: starts_with_iff)
    with parse_encode_nonfile[OF k, of i] f k show False by simp
  qed
next
  assume "\<forall>k. k \<noteq> file_kind \<longrightarrow> \<not> starts_with s (refPrefix k)"
  then have "\<not> starts_with s (refPrefix skill_kind)" "\<not> starts_with s (refPrefix deploy_kind)"
    "\<not> starts_with s (refPrefix cron_kind)" "\<not> starts_with s (refPrefix service_cred_kind)" by blast+
  then show "rr_kind (parseRef s) = file_kind" by (simp add: parseRef_def RESOURCE_KINDS_def)
qed

lemma parse_file_id: "rr_kind (parseRef s) = file_kind \<Longrightarrow> parseRef s = \<lparr>rr_kind = file_kind, rr_id = s\<rparr>"
  by (metis (full_types) ResourceRef.surjective encodeRef_def encode_parse_ref old.unit.exhaust)

lemma samePerson_sym: "samePerson a b = samePerson b a"
  by (auto simp: samePerson_def Let_def)

lemma samePerson_trans: "samePerson a b \<Longrightarrow> samePerson b c \<Longrightarrow> samePerson a c"
  by (auto simp: samePerson_def Let_def)

lemma personKey_in_keys: "personKey (Some i) \<noteq> [] \<Longrightarrow> personKey (Some i) \<in> set (personKeys m i)"
  by (simp add: personKeys_def)

lemma personKeys_nonempty: "[] \<notin> set (personKeys m i)"
  by (simp add: personKeys_def)

lemma samePersonInDirectory_iff:
  "samePersonInDirectory d a b \<longleftrightarrow>
     personKey (Some a) \<noteq> [] \<and> personKey (Some b) \<noteq> [] \<and>
     set (personKeys (d a) a) \<inter> set (personKeys (d b) b) \<noteq> {}"
  using personKey_in_keys[of a "d a"] personKey_in_keys[of b "d b"]
  by (auto simp: samePersonInDirectory_def samePerson_def Let_def list_ex_iff)

section \<open>Properties\<close>

text \<open>Scope ids and resource references survive the round trip: a scope id written from a
  kind and a reference is read back as exactly these, even when the reference contains colons, and
  a scope id that is read with a kind is rewritten to itself; a reference string is always
  rewritten to itself, and a reference is read back unless it is a file whose path starts with the
  prefix of another kind, in which case, and only then, it is taken for that kind.\<close>

theorem scope_and_ref_roundtrip:
  "parseScopeId (scopeId k r) = (Some k, r)
   \<and> (fst (parseScopeId s) = Some k \<longrightarrow> scopeId k (snd (parseScopeId s)) = s)
   \<and> encodeRef (parseRef s) = s
   \<and> (parseRef (encodeRef \<lparr>rr_kind = rk, rr_id = i\<rparr>) = \<lparr>rr_kind = rk, rr_id = i\<rparr> \<longleftrightarrow>
        (rk = file_kind \<longrightarrow> (\<forall>k'. k' \<noteq> file_kind \<longrightarrow> \<not> starts_with i (refPrefix k'))))"
proof (intro conjI impI)
  show "scopeId k (snd (parseScopeId s)) = s" if "fst (parseScopeId s) = Some k"
    using that scopeId_parse[of s k "snd (parseScopeId s)"] by (simp add: prod_eq_iff)
  show "parseRef (encodeRef \<lparr>rr_kind = rk, rr_id = i\<rparr>) = \<lparr>rr_kind = rk, rr_id = i\<rparr> \<longleftrightarrow>
        (rk = file_kind \<longrightarrow> (\<forall>k'. k' \<noteq> file_kind \<longrightarrow> \<not> starts_with i (refPrefix k')))"
  proof (cases "rk = file_kind")
    case True
    then show ?thesis using parse_file[of i] parse_file_id[of i] by (auto simp: encodeRef_def)
  next
    case False
    then show ?thesis by (simp add: encodeRef_def parse_encode_nonfile)
  qed
qed simp_all

theorem scope_and_ref_roundtrip_witness:
  "parseScopeId (scopeId group ''a:b'') = (Some group, ''a:b'')
   \<and> scopeId group (snd (parseScopeId ''group:a:b'')) = ''group:a:b''
   \<and> encodeRef (parseRef ''skill:x'') = ''skill:x''
   \<and> parseRef (encodeRef \<lparr>rr_kind = cron_kind, rr_id = ''x''\<rparr>) = \<lparr>rr_kind = cron_kind, rr_id = ''x''\<rparr>
   \<and> parseRef (encodeRef \<lparr>rr_kind = file_kind, rr_id = ''cron:x''\<rparr>) \<noteq> \<lparr>rr_kind = file_kind, rr_id = ''cron:x''\<rparr>"
proof -
  have a: "fst (parseScopeId ''group:a:b'') = Some group" by code_simp
  have b: "starts_with ''cron:x'' (refPrefix cron_kind)" by simp
  from scope_and_ref_roundtrip[of group "''a:b''" "''group:a:b''" cron_kind "''x''"] a
    scope_and_ref_roundtrip[of group "''a:b''" "''skill:x''" file_kind "''cron:x''"] b
  show ?thesis by blast
qed

text \<open>The matcher that is made once for an actor never accepts somebody whom the lookup of
  both people in the directory does not identify with the actor, provided the actor's id is not
  blank, and when the actor has no row in the directory it accepts exactly those; being the same
  person is symmetric.\<close>

theorem person_matcher_sound:
  assumes "personKey (Some actor) \<noteq> []"
  shows "(samePersonMatcher d actor i \<longrightarrow> samePersonInDirectory d i actor)
    \<and> (d actor = None \<longrightarrow> samePersonMatcher d actor i = samePersonInDirectory d i actor)
    \<and> samePersonInDirectory d i actor = samePersonInDirectory d actor i"
proof -
  have key: "samePersonInDirectory d i actor" if "personKey (Some i) \<in> set (personKeys (d actor) actor)"
  proof -
    from that have "personKey (Some i) \<noteq> []" using personKeys_nonempty[of "d actor" actor] by metis
    with that personKey_in_keys[of i "d i"] assms show ?thesis by (auto simp: samePersonInDirectory_iff)
  qed
  then have "samePersonMatcher d actor i \<longrightarrow> samePersonInDirectory d i actor"
    and "d actor = None \<longrightarrow> samePersonMatcher d actor i = samePersonInDirectory d i actor"
    by (auto simp: samePersonMatcher_def Let_def split: if_splits)
  moreover have "samePersonInDirectory d i actor = samePersonInDirectory d actor i"
    by (auto simp: samePersonInDirectory_iff)
  ultimately show ?thesis by blast
qed

text \<open>Ann's e-mail address in another case and her id in the chat system are recognised.\<close>

theorem person_matcher_sound_witness:
  "let d = (\<lambda>i. if i = ''ann@x'' then Some \<lparr>r_principalId = Some ''ann@x'', r_slackId = Some ''U1''\<rparr> else None)
   in samePersonInDirectory d ''U1'' ''ann@x'' \<and> samePersonInDirectory d ''ann@x'' ''U1''
      \<and> samePersonMatcher d ''bob@x'' '' BOB@X'' = samePersonInDirectory d '' BOB@X'' ''bob@x''"
proof -
  let ?d = "\<lambda>i. if i = ''ann@x'' then Some \<lparr>r_principalId = Some ''ann@x'', r_slackId = Some ''U1''\<rparr> else None"
  have k: "personKey (Some ''ann@x'') \<noteq> []" "personKey (Some ''bob@x'') \<noteq> []" by code_simp+
  have m: "samePersonMatcher ?d ''ann@x'' ''U1''" by code_simp
  from m person_matcher_sound[OF k(1), of ?d "''U1''"] person_matcher_sound[OF k(2), of ?d "'' BOB@X''"]
  show ?thesis unfolding Let_def by auto
qed

end
