(* ===== verification/Turn_Request.thy ===== *)
theory Turn_Request
  imports Scopes
begin

text \<open>
  The request of a turn as the queue of runs carries it (\<open>OrchestratorInput\<close> of
  \<open>src/src/core/orchestrator/types.ts\<close> over \<open>TurnRequest\<close>, \<open>Conversation\<close> and \<open>TurnOrigin\<close> of \<open>src/src/types.ts\<close>), and the
  scope a conversation belongs to (\<open>conversationScope\<close> of \<open>src/src/resolution/resolution-service.ts\<close>). The fields the
  modelled components read are fields of the record; of all others only the names of those present are kept.
\<close>

datatype ConversationKind = conv_dm | conv_channel | conv_group

record Conversation =
  cv_kind :: ConversationKind
  cv_threadRef :: string
  cv_channelRef :: "string option"
  cv_channelName :: "string option"
  cv_audience :: "Principal list"
  cv_isPrivate :: "bool option"
  cv_isMpim :: "bool option"
  cv_publishMembers :: "Principal list option"

datatype TurnOrigin =
    origin_human "string option" "string option"
  | origin_ambient "string option" "bool option"
  | origin_automation (screenData: "string option") (origin_destination: "json option") (useOwnerKeychain: "bool option")
  | origin_direct

record SwarmTurn =
  st_swarmId :: string
  st_messageId :: string
  st_recipientId :: string

record orch_input =
  oi_text :: string
  oi_displayText :: "string option"
  oi_privateSessionMessage :: bool
  oi_actor :: Principal
  oi_conversation :: Conversation
  oi_origin :: TurnOrigin
  oi_surface :: "string option"
  oi_scopeVersion :: "string option"
  oi_unattendedGrants :: "string list option"
  oi_readOnly :: "bool option"
  oi_skipMemory :: "bool option"
  oi_harness :: "string option"
  oi_model :: "string option"
  oi_thinkingLevel :: "string option"
  oi_fastMode :: "bool option"
  oi_turnWallClockMs :: "int option"
  oi_swarm :: "SwarmTurn option"
  oi_sessionParticipantIds :: "string list option"
  oi_runId :: "string option"
  oi_deliveryTarget :: "string option"
  oi_surfaceTools :: "bool option"
  oi_otherKeys :: "string list"

definition conversationScope :: "Conversation \<Rightarrow> string \<Rightarrow> ScopeId" where
  "conversationScope c actorId =
     (if cv_kind c = conv_dm then scopeId personal actorId
      else let ref = nullish (cv_channelRef c) (cv_threadRef c) in
      if cv_kind c = conv_group then scopeId group ref else scopeId channel ref)"

text \<open>A request with a text and nothing else chosen, for the examples.\<close>

definition plain_request :: "string \<Rightarrow> string \<Rightarrow> string \<Rightarrow> orch_input" where
  "plain_request actorId threadRef msg =
     \<lparr>oi_text = msg, oi_displayText = None, oi_privateSessionMessage = False,
      oi_actor = \<lparr>p_id = actorId, p_type = internal, teamIds = None, displayName = None\<rparr>,
      oi_conversation = \<lparr>cv_kind = conv_dm, cv_threadRef = threadRef, cv_channelRef = None, cv_channelName = None, cv_audience = [],
        cv_isPrivate = None, cv_isMpim = None, cv_publishMembers = None\<rparr>,
      oi_origin = origin_direct, oi_surface = None, oi_scopeVersion = None, oi_unattendedGrants = None, oi_readOnly = None,
      oi_skipMemory = None, oi_harness = None, oi_model = None, oi_thinkingLevel = None, oi_fastMode = None,
      oi_turnWallClockMs = None, oi_swarm = None, oi_sessionParticipantIds = None, oi_runId = None, oi_deliveryTarget = None,
      oi_surfaceTools = None, oi_otherKeys = []\<rparr>"

end
