(* ===== verification/Run_Store.thy ===== *)
theory Run_Store
  imports Turn_Request
begin

text \<open>
  The run queue: \<open>src/src/runs/run-store.ts\<close> (types and predicates) and the in-memory implementation
  \<open>src/src/runs/memory-run-store.ts\<close>. A run is one turn request of a session (a thread); workers
  claim pending runs under a lease token, heartbeat, and complete or fail them; a reaper takes
  runs whose lease lapsed away from their worker. The state is the closure state of
  \<open>createMemoryRunStore\<close>: the maps \<open>runs\<close>, \<open>retryAfter\<close> and \<open>byKey\<close>, the set \<open>returned\<close>, the tool ledger,
  and, for the event emitter and the terminal listeners, the list of runs they were called with.
  Of a result the fields the store reads or writes are modelled.
\<close>

section \<open>Data\<close>

datatype run_status = Pending | Running | Done | Failed

datatype turn_status = TOk | TRefused | TFailed | TPendingApproval | TQueued | TSilent | TReact

datatype refusal_kind = SecurityQuarantine | SessionBusy

record turn_result =
  tr_status :: turn_status
  tr_sessionId :: "string option"
  tr_reply :: "string option"
  tr_reason :: "string option"
  tr_refusalKind :: "refusal_kind option"

record run =
  run_id :: string
  run_sessionId :: string
  run_status :: run_status
  run_request :: orch_input
  run_result :: "turn_result option"
  run_editRef :: "string option option"
  run_turnUserSeq :: "nat option"
  run_dedupKey :: "string option"
  run_attempts :: nat
  run_errorAttempts :: nat
  run_maxAttempts :: nat
  run_leaseToken :: "string option"
  run_leaseExpiresAt :: "int option"
  run_workerId :: "string option"
  run_createdAt :: int
  run_startedAt :: "int option"
  run_finishedAt :: "int option"

record enqueue_input =
  ei_sessionId :: string
  ei_request :: orch_input
  ei_dedupKey :: "string option"
  ei_maxAttempts :: "nat option"

datatype reap_outcome = Requeued | Parked

record reap_event =
  re_runId :: string
  re_sessionId :: string
  re_workerId :: "string option"
  re_attempts :: nat
  re_errorAttempts :: nat
  re_outcome :: reap_outcome

text \<open>\<open>rs_maxClaims = None\<close> is \<open>Number.POSITIVE_INFINITY\<close>; \<open>rs_settled\<close> lists the runs the terminal
  listeners were called with, oldest first.\<close>

record run_store =
  rs_maxClaims :: "nat option"
  rs_runs :: "run jsmap"
  rs_retryAfter :: "int jsmap"
  rs_byKey :: "string jsmap"
  rs_ledger :: "string jsmap"
  rs_returned :: "string list"
  rs_settled :: "run list"

definition FENCE_HOLD_MS :: int where
  "FENCE_HOLD_MS = 600000"

definition createMemoryRunStore :: "nat option \<Rightarrow> run_store" where
  "createMemoryRunStore maxClaims =
     \<lparr>rs_maxClaims = maxClaims, rs_runs = [], rs_retryAfter = [], rs_byKey = [], rs_ledger = [],
      rs_returned = [], rs_settled = []\<rparr>"

section \<open>Predicates of \<open>run-store.ts\<close>\<close>

definition isTerminal :: "run_status \<Rightarrow> bool" where
  "isTerminal s \<longleftrightarrow> s = Done \<or> s = Failed"

definition releasesDedupKey :: "turn_result \<Rightarrow> bool" where
  "releasesDedupKey r \<longleftrightarrow> tr_refusalKind r = Some SessionBusy"

definition errorParks :: "run \<Rightarrow> nat option \<Rightarrow> bool" where
  "errorParks r maxClaims \<longleftrightarrow>
     run_errorAttempts r + 1 \<ge> run_maxAttempts r \<or>
     (case maxClaims of None \<Rightarrow> False | Some m \<Rightarrow> run_attempts r \<ge> m)"

definition leaseLapsed :: "run \<Rightarrow> int \<Rightarrow> bool" where
  "leaseLapsed r asOf \<longleftrightarrow>
     run_status r = Running \<and>
     (case run_leaseExpiresAt r of None \<Rightarrow> False | Some e \<Rightarrow> e \<le> asOf)"

section \<open>Operations of \<open>memory-run-store.ts\<close>\<close>

definition put_run :: "run_store \<Rightarrow> run \<Rightarrow> run_store" where
  "put_run rs r = rs\<lparr>rs_runs := AList.update (run_id r) r (rs_runs rs)\<rparr>"

definition sessionUnavailable :: "run_store \<Rightarrow> string \<Rightarrow> int \<Rightarrow> bool" where
  "sessionUnavailable rs sid now \<longleftrightarrow>
     list_ex (\<lambda>r. run_sessionId r = sid \<and>
       (run_status r = Running \<or>
        (run_status r = Pending \<and> nullish (map_of (rs_retryAfter rs) (run_id r)) 0 > now)))
     (vals (rs_runs rs))"

definition pendingRuns :: "run_store \<Rightarrow> int \<Rightarrow> run list" where
  "pendingRuns rs now =
     sort_key run_createdAt
       (filter (\<lambda>r. run_status r = Pending \<and> \<not> sessionUnavailable rs (run_sessionId r) now)
          (vals (rs_runs rs)))"

definition settle :: "run_store \<Rightarrow> run \<Rightarrow> run_store" where
  "settle rs r =
     (if \<not> isTerminal (run_status r) then rs else rs\<lparr>rs_settled := rs_settled rs @ [r]\<rparr>)"

definition enqueue :: "run_store \<Rightarrow> int \<Rightarrow> string \<Rightarrow> enqueue_input \<Rightarrow> run_store \<times> run \<times> bool" where
  "enqueue rs now uuid i =
     (let existing =
        (if truthy (ei_dedupKey i) then
           (case map_of (rs_byKey rs) (the (ei_dedupKey i)) of
              None \<Rightarrow> None
            | Some existingId \<Rightarrow>
                if existingId = [] then None else map_of (rs_runs rs) existingId)
         else None)
      in case existing of
           Some r \<Rightarrow> (rs, r, True)
         | None \<Rightarrow>
             (let r = \<lparr>run_id = uuid, run_sessionId = ei_sessionId i, run_status = Pending,
                       run_request = ei_request i, run_result = None, run_editRef = None,
                       run_turnUserSeq = None, run_dedupKey = ei_dedupKey i, run_attempts = 0,
                       run_errorAttempts = 0, run_maxAttempts = nullish (ei_maxAttempts i) 3,
                       run_leaseToken = None, run_leaseExpiresAt = None, run_workerId = None,
                       run_createdAt = now, run_startedAt = None, run_finishedAt = None\<rparr>;
                  rs' = put_run rs r
              in (if truthy (ei_dedupKey i)
                  then rs'\<lparr>rs_byKey := AList.update (the (ei_dedupKey i)) uuid (rs_byKey rs')\<rparr>
                  else rs', r, False)))"

text \<open>\<open>tok\<close> is the \<open>randomUUID()\<close> of the lease.\<close>

definition lease_run :: "int \<Rightarrow> string \<Rightarrow> string \<Rightarrow> int \<Rightarrow> run \<Rightarrow> run" where
  "lease_run now tok workerId ttlMs r =
     r\<lparr>run_status := Running, run_leaseToken := Some tok, run_leaseExpiresAt := Some (now + ttlMs),
       run_workerId := Some workerId, run_attempts := run_attempts r + 1,
       run_startedAt := Some (nullish (run_startedAt r) now)\<rparr>"

definition lease :: "run_store \<Rightarrow> int \<Rightarrow> string \<Rightarrow> run \<Rightarrow> string \<Rightarrow> int \<Rightarrow> run_store \<times> run" where
  "lease rs now tok r workerId ttlMs =
     (let r' = lease_run now tok workerId ttlMs r
      in ((put_run rs r')\<lparr>rs_retryAfter := AList.delete (run_id r) (rs_retryAfter rs)\<rparr>, r'))"

definition claim :: "run_store \<Rightarrow> int \<Rightarrow> string \<Rightarrow> string \<Rightarrow> int \<Rightarrow> run_store \<times> run option" where
  "claim rs now tok workerId ttlMs =
     (case pendingRuns rs now of
        [] \<Rightarrow> (rs, None)
      | r # _ \<Rightarrow> map_prod id Some (lease rs now tok r workerId ttlMs))"

definition claimForSession ::
  "run_store \<Rightarrow> int \<Rightarrow> string \<Rightarrow> string \<Rightarrow> string \<Rightarrow> int \<Rightarrow> run_store \<times> run option" where
  "claimForSession rs now tok sid workerId ttlMs =
     (case find (\<lambda>p. run_sessionId p = sid) (pendingRuns rs now) of
        None \<Rightarrow> (rs, None)
      | Some r \<Rightarrow> map_prod id Some (lease rs now tok r workerId ttlMs))"

definition claimById ::
  "run_store \<Rightarrow> int \<Rightarrow> string \<Rightarrow> string \<Rightarrow> string \<Rightarrow> int \<Rightarrow> run_store \<times> run option" where
  "claimById rs now tok rid workerId ttlMs =
     (case map_of (rs_runs rs) rid of
        None \<Rightarrow> (rs, None)
      | Some r \<Rightarrow>
          (if map_option run_id (find (\<lambda>p. run_sessionId p = run_sessionId r) (pendingRuns rs now))
              \<noteq> Some rid
           then (rs, None)
           else map_prod id Some (lease rs now tok r workerId ttlMs)))"

definition heartbeat :: "run_store \<Rightarrow> int \<Rightarrow> string \<Rightarrow> string \<Rightarrow> int \<Rightarrow> run_store \<times> bool" where
  "heartbeat rs now rid tok ttlMs =
     (case map_of (rs_runs rs) rid of
        None \<Rightarrow> (rs, False)
      | Some r \<Rightarrow>
          (if run_status r \<noteq> Running \<or> run_leaseToken r \<noteq> Some tok then (rs, False)
           else (put_run rs (r\<lparr>run_leaseExpiresAt := Some (now + ttlMs)\<rparr>), True)))"

definition releaseLease :: "run_store \<Rightarrow> string \<Rightarrow> string \<Rightarrow> run_store \<times> bool" where
  "releaseLease rs rid tok =
     (case map_of (rs_runs rs) rid of
        None \<Rightarrow> (rs, False)
      | Some r \<Rightarrow>
          (if run_status r \<noteq> Running \<or> run_leaseToken r \<noteq> Some tok then (rs, False)
           else (put_run rs (r\<lparr>run_status := Pending, run_leaseToken := None,
                              run_leaseExpiresAt := None, run_workerId := None\<rparr>), True)))"

definition complete :: "run_store \<Rightarrow> int \<Rightarrow> string \<Rightarrow> string \<Rightarrow> turn_result \<Rightarrow> run_store \<times> bool" where
  "complete rs now rid tok result =
     (case map_of (rs_runs rs) rid of
        None \<Rightarrow> (rs, False)
      | Some r \<Rightarrow>
          (if run_leaseToken r \<noteq> Some tok then (rs, False)
           else
             (let r1 = r\<lparr>run_status := Done, run_result := Some result, run_leaseToken := None,
                        run_leaseExpiresAt := None, run_finishedAt := Some now\<rparr>;
                  release = releasesDedupKey result \<and> truthy (run_dedupKey r1);
                  r2 = (if release then r1\<lparr>run_dedupKey := None\<rparr> else r1);
                  rs1 = put_run rs r2;
                  rs2 = (if release
                         then rs1\<lparr>rs_byKey := AList.delete (the (run_dedupKey r1)) (rs_byKey rs1)\<rparr>
                         else rs1)
              in (settle rs2 r2, True))))"

record retire_opts =
  ro_ifExpiredAt :: "int option"
  ro_countsAsError :: bool
  ro_retryAfterMs :: "int option"

definition no_opts :: retire_opts where
  "no_opts = \<lparr>ro_ifExpiredAt = None, ro_countsAsError = False, ro_retryAfterMs = None\<rparr>"

definition overClaimed :: "nat option \<Rightarrow> run \<Rightarrow> bool" where
  "overClaimed maxClaims r = (case maxClaims of None \<Rightarrow> False | Some m \<Rightarrow> run_attempts r \<ge> m)"

definition crash_loop_reason :: "nat \<Rightarrow> string" where
  "crash_loop_reason n =
     ''run parked after '' @ show_nat n @ '' claims without completing (suspected crash loop)''"

text \<open>The result is the new store, \<open>requeued\<close> and \<open>applied\<close>.\<close>

definition retire ::
  "run_store \<Rightarrow> int \<Rightarrow> run \<Rightarrow> string \<Rightarrow> bool \<Rightarrow> retire_opts \<Rightarrow> run_store \<times> bool \<times> bool" where
  "retire rs now r error retry opts =
     (if run_status r \<noteq> Running then (rs, False, False)
      else if (case ro_ifExpiredAt opts of
                 None \<Rightarrow> False
               | Some a \<Rightarrow> (case run_leaseExpiresAt r of None \<Rightarrow> True | Some e \<Rightarrow> e > a))
      then (rs, False, False)
      else
        (let r1 = r\<lparr>run_leaseToken := None, run_leaseExpiresAt := None, run_workerId := None,
                   run_errorAttempts :=
                     run_errorAttempts r + (if ro_countsAsError opts then 1 else 0)\<rparr>;
             over = overClaimed (rs_maxClaims rs) r1
         in if retry \<and> run_errorAttempts r1 < run_maxAttempts r1 \<and> \<not> over
            then (let rs1 = put_run rs (r1\<lparr>run_status := Pending\<rparr>)
                  in (rs1\<lparr>rs_retryAfter :=
                            AList.update (run_id r) (now + max 0 (nullish (ro_retryAfterMs opts) 0))
                              (rs_retryAfter rs1)\<rparr>, True, True))
            else (let reason =
                        (if \<not> ro_countsAsError opts \<and> over \<and> retry \<and>
                            run_errorAttempts r1 < run_maxAttempts r1
                         then crash_loop_reason (run_attempts r1) else error);
                      r2 = r1\<lparr>run_status := Failed,
                              run_result := Some \<lparr>tr_status = TFailed,
                                tr_sessionId = Some (run_sessionId r1), tr_reply = None,
                                tr_reason = Some reason, tr_refusalKind = None\<rparr>,
                              run_finishedAt := Some now\<rparr>
                  in (settle (put_run rs r2) r2, False, True))))"

text \<open>\<open>retry\<close> is \<open>opts?.retry !== false\<close>.\<close>

definition fail_run ::
  "run_store \<Rightarrow> int \<Rightarrow> string \<Rightarrow> string \<Rightarrow> string \<Rightarrow> bool \<Rightarrow> int option \<Rightarrow> run_store \<times> bool" where
  "fail_run rs now rid tok error retry retryAfterMs =
     (case map_of (rs_runs rs) rid of
        None \<Rightarrow> (rs, False)
      | Some r \<Rightarrow>
          (if run_leaseToken r \<noteq> Some tok then (rs, False)
           else (let (rs', requeued, _) =
                   retire rs now r error retry
                     \<lparr>ro_ifExpiredAt = None, ro_countsAsError = True,
                      ro_retryAfterMs = retryAfterMs\<rparr>
                 in (rs', requeued))))"

definition noteTurnUserSeq :: "run_store \<Rightarrow> string \<Rightarrow> nat \<Rightarrow> run_store \<times> bool" where
  "noteTurnUserSeq rs rid seq =
     (case map_of (rs_runs rs) rid of
        None \<Rightarrow> (rs, False)
      | Some r \<Rightarrow>
          (if run_turnUserSeq r \<noteq> None then (rs, False)
           else (put_run rs (r\<lparr>run_turnUserSeq := Some seq\<rparr>), True)))"

definition setDeliveryState ::
  "run_store \<Rightarrow> string \<Rightarrow> string option \<Rightarrow> string option \<Rightarrow> run_store \<times> bool" where
  "setDeliveryState rs rid tok state =
     (case map_of (rs_runs rs) rid of
        None \<Rightarrow> (rs, False)
      | Some r \<Rightarrow>
          (if tok \<noteq> None \<and> run_leaseToken r \<noteq> tok then (rs, False)
           else (put_run rs (r\<lparr>run_editRef := Some state\<rparr>), True)))"

definition latestForThread :: "run_store \<Rightarrow> string \<Rightarrow> bool \<Rightarrow> run option" where
  "latestForThread rs threadRef excludePrivate =
     (case sort_key (\<lambda>r. - run_createdAt r)
             (filter (\<lambda>r. run_sessionId r = threadRef \<and>
                \<not> (excludePrivate \<and> oi_privateSessionMessage (run_request r)))
                (rev (vals (rs_runs rs)))) of
        [] \<Rightarrow> None
      | r # _ \<Rightarrow> Some r)"

definition pendingReturns :: "run_store \<Rightarrow> nat \<Rightarrow> string \<Rightarrow> run list" where
  "pendingReturns rs limit afterId =
     take limit (sort_key run_id
       (filter (\<lambda>r. isTerminal (run_status r) \<and> run_id r \<notin> set (rs_returned rs) \<and>
          afterId < run_id r \<and> starts_with (run_sessionId r) ''agent:main:subagent:'')
          (vals (rs_runs rs))))"

definition markReturned :: "run_store \<Rightarrow> string \<Rightarrow> run_store" where
  "markReturned rs rid =
     (if rid \<in> set (rs_returned rs) then rs else rs\<lparr>rs_returned := rs_returned rs @ [rid]\<rparr>)"

definition get_run :: "run_store \<Rightarrow> string \<Rightarrow> run option" where
  "get_run rs rid = map_of (rs_runs rs) rid"

definition getByDedupKey :: "run_store \<Rightarrow> string \<Rightarrow> run option" where
  "getByDedupKey rs k =
     (case map_of (rs_byKey rs) k of
        None \<Rightarrow> None
      | Some i \<Rightarrow> if i = [] then None else map_of (rs_runs rs) i)"

definition inFlight :: "run_store \<Rightarrow> string \<Rightarrow> run list" where
  "inFlight rs sid =
     filter (\<lambda>r. run_sessionId r = sid \<and> \<not> isTerminal (run_status r)) (vals (rs_runs rs))"

definition inFlightForThread :: "run_store \<Rightarrow> string \<Rightarrow> run list" where
  "inFlightForThread rs sid = sort_key run_createdAt (inFlight rs sid)"

text \<open>Running runs first, then by creation time: a stable sort by the second key, then the first.\<close>

definition activeForThread :: "run_store \<Rightarrow> string \<Rightarrow> run option" where
  "activeForThread rs sid =
     (case sort_key (\<lambda>r. if run_status r = Running then 0 else (1::nat))
             (sort_key run_createdAt (inFlight rs sid)) of
        [] \<Rightarrow> None
      | r # _ \<Rightarrow> Some r)"

definition shown_text :: "orch_input \<Rightarrow> string" where
  "shown_text q = nullish (oi_displayText q) (oi_text q)"

definition editPendingText :: "run_store \<Rightarrow> string \<Rightarrow> string \<Rightarrow> string \<Rightarrow> run_store \<times> bool" where
  "editPendingText rs rid txt expectedText =
     (case map_of (rs_runs rs) rid of
        None \<Rightarrow> (rs, False)
      | Some r \<Rightarrow>
          (if run_status r \<noteq> Pending \<or> run_attempts r \<noteq> 0 \<or> run_turnUserSeq r \<noteq> None
           then (rs, False)
           else if shown_text (run_request r) \<noteq> expectedText then (rs, False)
           else (put_run rs (r\<lparr>run_request :=
                   (run_request r)\<lparr>oi_text := txt, oi_displayText := Some txt\<rparr>\<rparr>), True)))"

definition drop_pending :: "run_store \<Rightarrow> run \<Rightarrow> run_store" where
  "drop_pending rs r =
     (let rs1 = rs\<lparr>rs_runs := AList.delete (run_id r) (rs_runs rs),
                   rs_retryAfter := AList.delete (run_id r) (rs_retryAfter rs)\<rparr>
      in if truthy (run_dedupKey r)
         then rs1\<lparr>rs_byKey := AList.delete (the (run_dedupKey r)) (rs_byKey rs1)\<rparr> else rs1)"

definition withdraw :: "run_store \<Rightarrow> string \<Rightarrow> run_store \<times> bool" where
  "withdraw rs rid =
     (case map_of (rs_runs rs) rid of
        None \<Rightarrow> (rs, False)
      | Some r \<Rightarrow> (if run_status r \<noteq> Pending then (rs, False) else (drop_pending rs r, True)))"

text \<open>\<open>sigText\<close> is \<open>signal.request?.text\<close>; \<open>sent\<close> is whether \<open>signals.send\<close> resolved (a rejection puts
  the queued run back, at the end of the map, and rethrows: \<^const>\<open>None\<close>).\<close>

definition steerQueued ::
  "run_store \<Rightarrow> string \<Rightarrow> string \<Rightarrow> string option \<Rightarrow> bool \<Rightarrow> run_store \<times> bool option" where
  "steerQueued rs qid tid sigText sent =
     (case (map_of (rs_runs rs) qid, map_of (rs_runs rs) tid) of
        (Some queued, Some target) \<Rightarrow>
          (if run_status queued \<noteq> Pending \<or> isTerminal (run_status target) \<or> qid = tid
           then (rs, Some False)
           else if Some (shown_text (run_request queued)) \<noteq> sigText then (rs, Some False)
           else if sent then (drop_pending rs queued, Some True)
           else (rs\<lparr>rs_runs := AList.update qid queued (AList.delete qid (rs_runs rs))\<rparr>, None))
      | _ \<Rightarrow> (rs, Some False))"

definition activeSessionIds :: "run_store \<Rightarrow> string list" where
  "activeSessionIds rs =
     dedupe (map run_sessionId (filter (\<lambda>r. \<not> isTerminal (run_status r)) (vals (rs_runs rs))))"

definition list_runs :: "run_store \<Rightarrow> nat \<Rightarrow> string option \<Rightarrow> run list" where
  "list_runs rs limit threadRef =
     take limit (sort_key (\<lambda>r. - run_createdAt r)
       (filter (\<lambda>r. \<not> truthy threadRef \<or>
            run_sessionId r = the threadRef \<or>
            starts_with (run_sessionId r) (the threadRef @ '':task:'') \<or>
            starts_with (run_sessionId r) (the threadRef @ '':status:''))
          (vals (rs_runs rs))))"

section \<open>The reaper's pass over lapsed leases\<close>

definition reap_too_old :: "int option \<Rightarrow> int \<Rightarrow> run \<Rightarrow> bool" where
  "reap_too_old maxAgeMs now r =
     (case (maxAgeMs, run_startedAt r) of (Some m, Some s) \<Rightarrow> now - s > m | _ \<Rightarrow> False)"

definition reap_reason :: "bool \<Rightarrow> string" where
  "reap_reason old =
     (if old then ''run exceeded max age (reaped)'' else ''lease expired (reaped)'')"

text \<open>Each iteration is two synchronous stretches with the awaited \<open>onRetired\<close> between them: the
  fence, which re-checks the lease and replaces the token, and the retirement.\<close>

definition reap_fence :: "run_store \<Rightarrow> int \<Rightarrow> string \<Rightarrow> string \<Rightarrow> run_store option" where
  "reap_fence rs now tok rid =
     (case map_of (rs_runs rs) rid of
        None \<Rightarrow> None
      | Some r \<Rightarrow>
          (if leaseLapsed r now
           then Some (put_run rs (r\<lparr>run_leaseToken := Some tok,
                                   run_leaseExpiresAt := Some (now + FENCE_HOLD_MS)\<rparr>))
           else None))"

definition reap_retire ::
  "run_store \<Rightarrow> int \<Rightarrow> string \<Rightarrow> bool \<Rightarrow> string option \<Rightarrow> run_store \<times> reap_event option" where
  "reap_retire rs fin rid old workerId =
     (case map_of (rs_runs rs) rid of
        None \<Rightarrow> (rs, None)
      | Some r \<Rightarrow>
          (let (rs', requeued, applied) = retire rs fin r (reap_reason old) (\<not> old) no_opts
           in if \<not> applied then (rs', None)
              else (rs', map_option (\<lambda>r'. \<lparr>re_runId = rid, re_sessionId = run_sessionId r',
                     re_workerId = workerId, re_attempts = run_attempts r',
                     re_errorAttempts = run_errorAttempts r',
                     re_outcome = (if requeued then Requeued else Parked)\<rparr>)
                     (map_of (rs_runs rs') rid))))"

text \<open>The loop, over the ids of the runs found lapsed at \<open>now\<close>. \<open>tok\<close> gives each run's fence token,
  \<open>fin\<close> the time its retirement runs, \<open>resolves\<close> whether \<open>onRetired\<close> resolves for its session: a
  rejection ends the pass with an error. The result is the store, the events reported and whether
  the pass returned.\<close>

fun reap_loop ::
  "run_store \<Rightarrow> int \<Rightarrow> (string \<Rightarrow> string) \<Rightarrow> (string \<Rightarrow> int) \<Rightarrow> (string \<Rightarrow> bool) \<Rightarrow> int option \<Rightarrow>
   string list \<Rightarrow> run_store \<times> reap_event list \<times> bool" where
  "reap_loop rs now tok fin resolves maxAgeMs [] = (rs, [], True)"
| "reap_loop rs now tok fin resolves maxAgeMs (rid # rids) =
     (case map_of (rs_runs rs) rid of
        None \<Rightarrow> reap_loop rs now tok fin resolves maxAgeMs rids
      | Some r \<Rightarrow>
          (let old = reap_too_old maxAgeMs now r
           in case reap_fence rs now (tok rid) rid of
                None \<Rightarrow> reap_loop rs now tok fin resolves maxAgeMs rids
              | Some rs1 \<Rightarrow>
                  (if \<not> resolves (run_sessionId r) then (rs1, [], False)
                   else (let (rs2, ev) = reap_retire rs1 (fin rid) rid old (run_workerId r);
                             (rs3, evs, ok) = reap_loop rs2 now tok fin resolves maxAgeMs rids
                         in (rs3, (case ev of None \<Rightarrow> evs | Some e \<Rightarrow> e # evs), ok)))))"

definition reapExpired ::
  "run_store \<Rightarrow> int \<Rightarrow> (string \<Rightarrow> string) \<Rightarrow> (string \<Rightarrow> int) \<Rightarrow> (string \<Rightarrow> bool) \<Rightarrow> int option \<Rightarrow>
   run_store \<times> reap_event list \<times> bool" where
  "reapExpired rs now tok fin resolves maxAgeMs =
     reap_loop rs now tok fin resolves maxAgeMs
       (map run_id (filter (\<lambda>r. leaseLapsed r now) (vals (rs_runs rs))))"

definition reap_counts :: "reap_event list \<Rightarrow> nat \<times> nat" where
  "reap_counts evs =
     (length (filter (\<lambda>e. re_outcome e = Requeued) evs),
      length (filter (\<lambda>e. re_outcome e = Parked) evs))"

section \<open>The tool ledger\<close>

definition ledger_key :: "string \<Rightarrow> nat \<Rightarrow> nat \<Rightarrow> string" where
  "ledger_key rid attempt callIndex = rid @ '':'' @ show_nat attempt @ '':'' @ show_nat callIndex"

definition ledger_begin :: "run_store \<Rightarrow> string \<Rightarrow> nat \<Rightarrow> nat \<Rightarrow> string option" where
  "ledger_begin rs rid attempt callIndex = map_of (rs_ledger rs) (ledger_key rid attempt callIndex)"

definition ledger_record :: "run_store \<Rightarrow> string \<Rightarrow> nat \<Rightarrow> nat \<Rightarrow> string \<Rightarrow> run_store" where
  "ledger_record rs rid attempt callIndex output =
     rs\<lparr>rs_ledger := AList.update (ledger_key rid attempt callIndex) output (rs_ledger rs)\<rparr>"

section \<open>The invariant\<close>

text \<open>What the fields of one run say together.\<close>

definition run_ok :: "run \<Rightarrow> bool" where
  "run_ok r \<longleftrightarrow>
     (run_status r = Running \<longleftrightarrow> run_leaseToken r \<noteq> None) \<and>
     (run_leaseToken r = None \<longleftrightarrow> run_leaseExpiresAt r = None) \<and>
     (isTerminal (run_status r) \<longleftrightarrow> run_result r \<noteq> None) \<and>
     (isTerminal (run_status r) \<longleftrightarrow> run_finishedAt r \<noteq> None) \<and>
     (run_status r = Running \<longrightarrow>
        0 < run_attempts r \<and> run_startedAt r \<noteq> None \<and> run_workerId r \<noteq> None) \<and>
     run_errorAttempts r \<le> run_attempts r \<and>
     (run_status r = Running \<longrightarrow> run_errorAttempts r < run_attempts r) \<and>
     run_errorAttempts r \<le> max 1 (run_maxAttempts r) \<and>
     (\<not> isTerminal (run_status r) \<longrightarrow> run_errorAttempts r < max 1 (run_maxAttempts r))"

definition ids_ok :: "run_store \<Rightarrow> bool" where
  "ids_ok rs \<longleftrightarrow> distinct (keys (rs_runs rs)) \<and>
     (\<forall>i r. map_of (rs_runs rs) i = Some r \<longrightarrow> run_id r = i \<and> i \<noteq> [] \<and> run_ok r)"

definition one_running :: "run_store \<Rightarrow> bool" where
  "one_running rs \<longleftrightarrow>
     (\<forall>i j r q. map_of (rs_runs rs) i = Some r \<and> map_of (rs_runs rs) j = Some q \<and>
        run_status r = Running \<and> run_status q = Running \<and> run_sessionId r = run_sessionId q
        \<longrightarrow> i = j)"

definition dedup_ok :: "run_store \<Rightarrow> bool" where
  "dedup_ok rs \<longleftrightarrow>
     (\<forall>i k. k \<noteq> [] \<longrightarrow>
        (map_of (rs_byKey rs) k = Some i \<longleftrightarrow>
         (\<exists>r. map_of (rs_runs rs) i = Some r \<and> run_dedupKey r = Some k)))"

definition settled_ok :: "run_store \<Rightarrow> bool" where
  "settled_ok rs \<longleftrightarrow>
     distinct (map run_id (rs_settled rs)) \<and>
     (\<forall>i. i \<in> run_id ` set (rs_settled rs) \<longleftrightarrow>
        (\<exists>r. map_of (rs_runs rs) i = Some r \<and> isTerminal (run_status r)))"

definition run_inv :: "run_store \<Rightarrow> bool" where
  "run_inv rs \<longleftrightarrow> ids_ok rs \<and> one_running rs \<and> dedup_ok rs \<and> settled_ok rs"

lemmas run_inv_defs = run_inv_def ids_ok_def one_running_def dedup_ok_def settled_ok_def

lemma run_ok_simps [simp]:
  "run_ok (r\<lparr>run_turnUserSeq := a\<rparr>) = run_ok r"
  "run_ok (r\<lparr>run_editRef := b\<rparr>) = run_ok r"
  "run_ok (r\<lparr>run_request := c\<rparr>) = run_ok r"
  "run_ok (r\<lparr>run_dedupKey := d\<rparr>) = run_ok r"
  by (simp_all add: run_ok_def)

lemma run_ok_relet:
  "run_ok r \<Longrightarrow> run_status r = Running \<Longrightarrow> run_ok (r\<lparr>run_leaseExpiresAt := Some e\<rparr>)"
  "run_ok r \<Longrightarrow> run_status r = Running \<Longrightarrow>
     run_ok (r\<lparr>run_leaseToken := Some t, run_leaseExpiresAt := Some e\<rparr>)"
  "run_ok r \<Longrightarrow> run_status r = Running \<Longrightarrow>
     run_ok (r\<lparr>run_status := Pending, run_leaseToken := None, run_leaseExpiresAt := None,
              run_workerId := w\<rparr>)"
  by (auto simp: run_ok_def isTerminal_def)

lemma run_inv_init: "run_inv (createMemoryRunStore m)"
  by (simp add: run_inv_defs createMemoryRunStore_def)

lemma run_invD:
  assumes "run_inv rs" and "map_of (rs_runs rs) i = Some r"
  shows "run_id r = i" and "i \<noteq> []" and "run_ok r"
  using assms by (auto simp: run_inv_def ids_ok_def)

lemma run_inv_unique:
  assumes "run_inv rs" and "map_of (rs_runs rs) i = Some r" and "map_of (rs_runs rs) j = Some q"
    and "run_status r = Running" and "run_status q = Running" and "run_sessionId r = run_sessionId q"
  shows "i = j"
  using assms unfolding run_inv_def one_running_def by blast

lemma run_inv_byKey:
  "run_inv rs \<Longrightarrow> k \<noteq> [] \<Longrightarrow> map_of (rs_byKey rs) k = Some i \<longleftrightarrow>
     (\<exists>r. map_of (rs_runs rs) i = Some r \<and> run_dedupKey r = Some k)"
  by (simp add: run_inv_def dedup_ok_def)

lemma run_inv_key_unique:
  assumes "run_inv rs" and "map_of (rs_runs rs) i = Some r" and "map_of (rs_runs rs) j = Some q"
    and "run_dedupKey r = Some k" and "run_dedupKey q = Some k" and "k \<noteq> []"
  shows "i = j"
  using assms run_inv_byKey[of rs k] by (metis option.inject)

lemma put_run_simps [simp]:
  "rs_maxClaims (put_run rs r) = rs_maxClaims rs"
  "rs_retryAfter (put_run rs r) = rs_retryAfter rs"
  "rs_byKey (put_run rs r) = rs_byKey rs"
  "rs_settled (put_run rs r) = rs_settled rs"
  "map_of (rs_runs (put_run rs r)) = (map_of (rs_runs rs))(run_id r \<mapsto> r)"
  by (simp_all add: put_run_def)

text \<open>The fields outside \<open>runs\<close>, \<open>byKey\<close> and \<open>settled\<close> do not matter to the invariant.\<close>

lemma run_inv_cong:
  assumes "rs_runs rs' = rs_runs rs" "rs_byKey rs' = rs_byKey rs"
    "map run_id (rs_settled rs') = map run_id (rs_settled rs)"
  shows "run_inv rs' = run_inv rs"
proof -
  have "run_id ` set (rs_settled rs') = run_id ` set (rs_settled rs)"
    using assms(3) by (metis set_map)
  with assms show ?thesis by (simp only: run_inv_defs)
qed

lemma one_running_byKey [simp]: "one_running (rs\<lparr>rs_byKey := b\<rparr>) = one_running rs"
  by (simp add: one_running_def)

lemma one_running_put:
  assumes one: "one_running rs" and r: "map_of (rs_runs rs) (run_id r') = Some r"
    and same: "run_sessionId r' = run_sessionId r" "run_status r' = run_status r"
  shows "one_running (put_run rs r')"
proof -
  have lift: "\<exists>q. map_of (rs_runs rs) j = Some q \<and> run_sessionId q = run_sessionId q' \<and>
      run_status q = run_status q'" if "map_of (rs_runs (put_run rs r')) j = Some q'" for j q'
    using that r same by (cases "j = run_id r'") auto
  show ?thesis
    unfolding one_running_def
  proof (intro allI impI, elim conjE)
    fix i j p q
    assume "map_of (rs_runs (put_run rs r')) i = Some p" "map_of (rs_runs (put_run rs r')) j = Some q"
      and h: "run_status p = Running" "run_status q = Running" "run_sessionId p = run_sessionId q"
    with lift obtain p' q' where "map_of (rs_runs rs) i = Some p'" "map_of (rs_runs rs) j = Some q'"
      "run_sessionId p' = run_sessionId p" "run_status p' = run_status p"
      "run_sessionId q' = run_sessionId q" "run_status q' = run_status q" by blast
    with one h show "i = j" unfolding one_running_def by auto
  qed
qed

text \<open>Replacing a stored run by one with the same id, session and key. Becoming \<open>Running\<close> needs the
  session to have no other running run.\<close>

lemma run_inv_put:
  assumes inv: "run_inv rs" and r: "map_of (rs_runs rs) (run_id r') = Some r"
    and ok: "run_ok r'" and key: "run_dedupKey r' = run_dedupKey r"
    and running: "run_status r' = Running \<Longrightarrow>
      \<forall>j q. map_of (rs_runs rs) j = Some q \<and> run_status q = Running \<and>
        run_sessionId q = run_sessionId r' \<longrightarrow> j = run_id r'"
    and tm: "isTerminal (run_status r') = isTerminal (run_status r)"
  shows "run_inv (put_run rs r')"
proof -
  have nz: "run_id r' \<noteq> []" using run_invD[OF inv r] by simp
  have "ids_ok (put_run rs r')"
    using inv ok nz unfolding run_inv_def ids_ok_def by (auto simp: put_run_def)
  moreover have "one_running (put_run rs r')"
    using inv running unfolding run_inv_def one_running_def
    by (simp split: if_splits) metis
  moreover have "dedup_ok (put_run rs r')"
    using inv r key unfolding run_inv_def dedup_ok_def by (auto split: if_splits)
  moreover have "settled_ok (put_run rs r')"
    using inv r tm unfolding run_inv_def settled_ok_def by (auto split: if_splits)
  ultimately show ?thesis by (simp add: run_inv_def)
qed

lemma run_inv_frame:
  assumes inv: "run_inv rs" and r: "map_of (rs_runs rs) i = Some r" and ok: "run_ok r'"
    and same: "run_id r' = run_id r" "run_dedupKey r' = run_dedupKey r"
      "run_sessionId r' = run_sessionId r" "run_status r' = run_status r"
  shows "run_inv (put_run rs r')"
proof -
  have i: "run_id r' = i" using run_invD(1)[OF inv r] same by simp
  show ?thesis
  proof (rule run_inv_put[OF inv _ ok])
    show "map_of (rs_runs rs) (run_id r') = Some r" using r i by simp
    show "\<forall>j q. map_of (rs_runs rs) j = Some q \<and> run_status q = Running \<and>
        run_sessionId q = run_sessionId r' \<longrightarrow> j = run_id r'" if "run_status r' = Running"
      using that same i run_inv_unique[OF inv _ r] by metis
  qed (use same in simp_all)
qed

lemma run_inv_demote:
  assumes inv: "run_inv rs" and r: "map_of (rs_runs rs) i = Some r" and ok: "run_ok r'"
    and same: "run_id r' = run_id r" "run_dedupKey r' = run_dedupKey r"
    and st: "run_status r' = Pending" "\<not> isTerminal (run_status r)"
  shows "run_inv (put_run rs r')"
  using run_inv_put[OF inv _ ok same(2)] run_invD(1)[OF inv r] r same st
  by (simp add: isTerminal_def)

text \<open>A running or pending run is replaced by a terminal one and reported to the listeners.\<close>

lemma run_inv_settle:
  assumes inv: "run_inv rs" and r: "map_of (rs_runs rs) (run_id r') = Some r"
    and ok: "run_ok r'" and key: "run_dedupKey r' = run_dedupKey r"
    and tm: "isTerminal (run_status r')" "\<not> isTerminal (run_status r)"
  shows "run_inv (settle (put_run rs r') r')"
proof -
  have nz: "run_id r' \<noteq> []" using run_invD[OF inv r] by simp
  have nr: "run_status r' \<noteq> Running" using tm by (auto simp: isTerminal_def)
  have new: "run_id r' \<notin> run_id ` set (rs_settled rs)"
    using inv r tm unfolding run_inv_def settled_ok_def by auto
  let ?s = "settle (put_run rs r') r'"
  have s: "rs_runs ?s = AList.update (run_id r') r' (rs_runs rs)" "rs_byKey ?s = rs_byKey rs"
    "rs_settled ?s = rs_settled rs @ [r']"
    using tm by (simp_all add: settle_def put_run_def)
  have "ids_ok ?s" using inv ok nz unfolding run_inv_def ids_ok_def s by auto
  moreover have "one_running ?s"
    using inv nr unfolding run_inv_def one_running_def s by (auto split: if_splits)
  moreover have "dedup_ok ?s"
    using inv r key unfolding run_inv_def dedup_ok_def s by (auto split: if_splits)
  moreover have "settled_ok ?s"
    using inv r tm new unfolding run_inv_def settled_ok_def s by (auto split: if_splits)
  ultimately show ?thesis by (simp add: run_inv_def)
qed

section \<open>Every operation keeps the invariant\<close>

lemma run_inv_enqueue:
  assumes inv: "run_inv rs" and fresh: "map_of (rs_runs rs) uuid = None" "uuid \<noteq> []"
  shows "run_inv (fst (enqueue rs now uuid i))"
proof (cases "snd (snd (enqueue rs now uuid i))")
  case True
  then have "fst (enqueue rs now uuid i) = rs"
    by (auto simp: enqueue_def Let_def split: option.splits if_splits)
  with inv show ?thesis by simp
next
  case False
  let ?k = "ei_dedupKey i"
  let ?r = "fst (snd (enqueue rs now uuid i))"
  let ?s = "fst (enqueue rs now uuid i)"
  have r: "run_id ?r = uuid" "run_dedupKey ?r = ?k" "run_ok ?r" "run_status ?r = Pending"
    and s: "map_of (rs_runs ?s) = (map_of (rs_runs rs))(uuid \<mapsto> ?r)"
      "distinct (keys (rs_runs rs)) \<Longrightarrow> distinct (keys (rs_runs ?s))"
      "rs_settled ?s = rs_settled rs"
      "map_of (rs_byKey ?s) =
         (if truthy ?k then (map_of (rs_byKey rs))(the ?k \<mapsto> uuid) else map_of (rs_byKey rs))"
    using False
    by (auto simp: enqueue_def Let_def put_run_def run_ok_def isTerminal_def
        split: option.splits if_splits)
  have free: "map_of (rs_runs rs) j = None" if "truthy ?k" "map_of (rs_byKey rs) (the ?k) = Some j" for j
  proof -
    have "\<not> ([] \<in> dom (map_of (rs_runs rs)))" using inv by (auto dest: run_invD)
    with False that show ?thesis
      by (auto simp: enqueue_def Let_def truthy_def split: option.splits if_splits)
  qed
  have "ids_ok ?s" using inv r fresh s(2) unfolding run_inv_def ids_ok_def s(1) by auto
  moreover have "one_running ?s"
    using inv r unfolding run_inv_def one_running_def s by (auto split: if_splits)
  moreover have "dedup_ok ?s"
  proof (cases "truthy ?k")
    case True
    then obtain k where k: "?k = Some k" "k \<noteq> []" by (rule truthy_SomeE)
    have "map_of (rs_runs rs) j \<noteq> None" if "map_of (rs_byKey rs) k = Some j" for j
      using that k inv unfolding run_inv_def dedup_ok_def by blast
    with free[OF True] k have no: "map_of (rs_byKey rs) k = None" by fastforce
    then have "run_dedupKey q \<noteq> Some k" if "map_of (rs_runs rs) j = Some q" for j q
      using that k inv unfolding run_inv_def dedup_ok_def by fastforce
    then show ?thesis
      using inv r fresh k no unfolding run_inv_def dedup_ok_def s by auto
  next
    case False
    with inv r fresh show ?thesis unfolding run_inv_def dedup_ok_def s by auto
  qed
  moreover have "settled_ok ?s"
    using inv r fresh unfolding run_inv_def settled_ok_def s by (auto simp: isTerminal_def)
  ultimately show ?thesis by (simp add: run_inv_def)
qed

lemma pendingRuns_iff:
  "r \<in> set (pendingRuns rs now) \<longleftrightarrow>
     r \<in> set (vals (rs_runs rs)) \<and> run_status r = Pending \<and>
     \<not> sessionUnavailable rs (run_sessionId r) now"
  by (auto simp: pendingRuns_def)

lemma sessionUnavailable_iff:
  "ids_ok rs \<Longrightarrow> sessionUnavailable rs sid now \<longleftrightarrow>
     (\<exists>i r. map_of (rs_runs rs) i = Some r \<and> run_sessionId r = sid \<and>
        (run_status r = Running \<or>
         run_status r = Pending \<and> nullish (map_of (rs_retryAfter rs) i) 0 > now))"
proof -
  assume ids: "ids_ok rs"
  then have "distinct (keys (rs_runs rs))" by (simp add: ids_ok_def)
  note ex = list_ex_vals[OF this]
  show ?thesis
    unfolding sessionUnavailable_def list_ex_iff ex
  proof (intro iff_exI conj_cong refl)
    fix k q
    assume "map_of (rs_runs rs) k = Some q"
    with ids have "run_id q = k" by (simp add: ids_ok_def)
    then show "(run_status q = Running \<or>
        run_status q = Pending \<and> now < nullish (map_of (rs_retryAfter rs) (run_id q)) 0) =
      (run_status q = Running \<or> run_status q = Pending \<and> now < nullish (map_of (rs_retryAfter rs) k) 0)"
      by simp
  qed
qed

lemma pendingRunsD:
  assumes "run_inv rs" and "r \<in> set (pendingRuns rs now)"
  shows "map_of (rs_runs rs) (run_id r) = Some r" and "run_status r = Pending"
    and "map_of (rs_runs rs) j = Some q \<Longrightarrow> run_sessionId q = run_sessionId r \<Longrightarrow> run_status q \<noteq> Running"
    and "nullish (map_of (rs_retryAfter rs) (run_id r)) 0 \<le> now"
proof -
  from assms have ids: "ids_ok rs" by (simp add: run_inv_def)
  from assms(2) have v: "r \<in> set (vals (rs_runs rs))" and st: "run_status r = Pending"
    and un: "\<not> sessionUnavailable rs (run_sessionId r) now" by (auto simp: pendingRuns_iff)
  from v ids show m: "map_of (rs_runs rs) (run_id r) = Some r"
  proof -
    from ids have "distinct (keys (rs_runs rs))" by (simp add: ids_ok_def)
    with v obtain k where k: "map_of (rs_runs rs) k = Some r" by (auto simp only: vals_iff_map_of)
    with run_invD(1)[OF assms(1) k] show ?thesis by simp
  qed
  show "run_status r = Pending" by (rule st)
  show "map_of (rs_runs rs) j = Some q \<Longrightarrow> run_sessionId q = run_sessionId r \<Longrightarrow> run_status q \<noteq> Running"
    using un sessionUnavailable_iff[OF ids] by blast
  show "nullish (map_of (rs_retryAfter rs) (run_id r)) 0 \<le> now"
    using un m st sessionUnavailable_iff[OF ids, of "run_sessionId r" now]
    by (auto simp: not_less[symmetric])
qed

lemma lease_run_ok: "run_ok r \<Longrightarrow> run_status r = Pending \<Longrightarrow> run_ok (lease_run now tok w ttl r)"
  by (auto simp: run_ok_def lease_run_def isTerminal_def)

lemma lease_run_simps [simp]:
  "run_id (lease_run now tok w ttl r) = run_id r"
  "run_sessionId (lease_run now tok w ttl r) = run_sessionId r"
  "run_dedupKey (lease_run now tok w ttl r) = run_dedupKey r"
  "run_status (lease_run now tok w ttl r) = Running"
  "run_leaseToken (lease_run now tok w ttl r) = Some tok"
  by (simp_all add: lease_run_def)

lemma run_inv_lease:
  assumes inv: "run_inv rs" and r: "r \<in> set (pendingRuns rs now)"
  shows "run_inv (fst (lease rs t tok r w ttl))"
proof -
  note p = pendingRunsD[OF inv r]
  have "run_inv (put_run rs (lease_run t tok w ttl r))"
    using p by (intro run_inv_put[where r = r] inv lease_run_ok)
      (auto simp: isTerminal_def dest: run_invD[OF inv])
  then show ?thesis
    by (subst run_inv_cong[where rs = "put_run rs (lease_run t tok w ttl r)"])
      (simp_all add: lease_def Let_def put_run_def)
qed

text \<open>The three ways to claim take a run from \<open>pendingRuns\<close> or leave the store alone.\<close>

lemma claim_cases:
  obtains "claim rs now tok w ttl = (rs, None)"
  | r where "r \<in> set (pendingRuns rs now)" "claim rs now tok w ttl = map_prod id Some (lease rs now tok r w ttl)"
  by (cases "pendingRuns rs now") (auto simp: claim_def)

lemma claimForSession_cases:
  obtains "claimForSession rs now tok sid w ttl = (rs, None)"
  | r where "r \<in> set (pendingRuns rs now)" "run_sessionId r = sid"
      "claimForSession rs now tok sid w ttl = map_prod id Some (lease rs now tok r w ttl)"
  by (cases "find (\<lambda>p. run_sessionId p = sid) (pendingRuns rs now)")
    (auto simp: claimForSession_def dest: find_SomeD)

lemma claimById_cases:
  assumes "run_inv rs"
  obtains "claimById rs now tok rid w ttl = (rs, None)"
  | r where "r \<in> set (pendingRuns rs now)" "run_id r = rid"
      "claimById rs now tok rid w ttl = map_prod id Some (lease rs now tok r w ttl)"
proof (cases "map_of (rs_runs rs) rid")
  case None
  then show ?thesis using that(1) by (simp add: claimById_def)
next
  case (Some r)
  let ?f = "find (\<lambda>p. run_sessionId p = run_sessionId r) (pendingRuns rs now)"
  show ?thesis
  proof (cases "map_option run_id ?f = Some rid")
    case True
    then obtain p where p: "?f = Some p" "run_id p = rid" by auto
    then have mem: "p \<in> set (pendingRuns rs now)" by (auto dest: find_SomeD)
    with pendingRunsD(1)[OF assms mem] Some p have "p = r" by simp
    with that(2) mem p Some True show ?thesis by (simp add: claimById_def)
  next
    case False
    with Some that(1) show ?thesis by (simp add: claimById_def)
  qed
qed

lemma run_inv_claim: "run_inv rs \<Longrightarrow> run_inv (fst (claim rs now tok w ttl))"
  by (rule claim_cases[of rs now tok w ttl]) (simp_all add: run_inv_lease)

lemma run_inv_claimForSession: "run_inv rs \<Longrightarrow> run_inv (fst (claimForSession rs now tok sid w ttl))"
  by (rule claimForSession_cases[of rs now tok sid w ttl]) (simp_all add: run_inv_lease)

lemma run_inv_claimById: "run_inv rs \<Longrightarrow> run_inv (fst (claimById rs now tok rid w ttl))"
  by (rule claimById_cases[of rs now tok rid w ttl]) (simp_all add: run_inv_lease)

lemma run_inv_heartbeat: "run_inv rs \<Longrightarrow> run_inv (fst (heartbeat rs now rid tok ttl))"
  by (auto simp: heartbeat_def split: option.split intro!: run_inv_frame run_ok_relet dest: run_invD(3))

lemma run_inv_releaseLease: "run_inv rs \<Longrightarrow> run_inv (fst (releaseLease rs rid tok))"
  by (auto simp: releaseLease_def isTerminal_def split: option.split
      intro!: run_inv_demote run_ok_relet dest: run_invD(3))

lemma run_inv_noteTurnUserSeq: "run_inv rs \<Longrightarrow> run_inv (fst (noteTurnUserSeq rs rid n))"
  by (auto simp: noteTurnUserSeq_def split: option.split intro!: run_inv_frame dest: run_invD(3))

lemma run_inv_setDeliveryState: "run_inv rs \<Longrightarrow> run_inv (fst (setDeliveryState rs rid tok st))"
  by (auto simp: setDeliveryState_def split: option.split intro!: run_inv_frame dest: run_invD(3))

lemma run_inv_editPendingText: "run_inv rs \<Longrightarrow> run_inv (fst (editPendingText rs rid t e))"
  by (auto simp: editPendingText_def split: option.split intro!: run_inv_frame dest: run_invD(3))

lemma run_inv_markReturned: "run_inv rs \<Longrightarrow> run_inv (markReturned rs rid)"
  by (subst run_inv_cong[where rs = rs]) (simp_all add: markReturned_def)

lemma run_inv_retire:
  assumes inv: "run_inv rs" and r: "map_of (rs_runs rs) i = Some r"
  shows "run_inv (fst (retire rs now r err retry opts))"
proof (cases "run_status r = Running")
  case False
  with inv show ?thesis by (simp add: retire_def)
next
  case True
  let ?e = "run_errorAttempts r + (if ro_countsAsError opts then 1 else 0)"
  let ?r1 = "r\<lparr>run_leaseToken := None, run_leaseExpiresAt := None, run_workerId := None,
    run_errorAttempts := ?e\<rparr>"
  let ?f = "\<lambda>res. ?r1\<lparr>run_status := Failed, run_result := Some res, run_finishedAt := Some now\<rparr>"
  note d = run_invD[OF inv r]
  have okp: "run_ok (?r1\<lparr>run_status := Pending\<rparr>)" if "?e < run_maxAttempts r"
    using d(3) True that by (auto simp: run_ok_def isTerminal_def split: if_splits)
  have okf: "run_ok (?f res)" for res
    using d(3) True by (auto simp: run_ok_def isTerminal_def split: if_splits)
  have p: "run_inv (put_run rs (?r1\<lparr>run_status := Pending\<rparr>))" if "?e < run_maxAttempts r"
    by (rule run_inv_demote[OF inv r okp[OF that]]) (use True in \<open>simp_all add: isTerminal_def\<close>)
  have f: "run_inv (settle (put_run rs (?f res)) (?f res))" for res
    by (rule run_inv_settle[OF inv _ okf, of _ r]) (use True r d in \<open>auto simp: isTerminal_def\<close>)
  have pc: "run_inv ((put_run rs (?r1\<lparr>run_status := Pending\<rparr>))\<lparr>rs_retryAfter := ra\<rparr>)"
    if "?e < run_maxAttempts r" for ra
    by (subst run_inv_cong[where rs = "put_run rs (?r1\<lparr>run_status := Pending\<rparr>)"])
      (simp_all add: p that)
  show ?thesis
    using True inv pc f by (auto simp: retire_def Let_def split: option.split)
qed

lemma run_inv_fail: "run_inv rs \<Longrightarrow> run_inv (fst (fail_run rs now rid tok err retry ms))"
  by (auto simp: fail_run_def split_beta split: option.split intro: run_inv_retire)

lemma run_inv_drop_key:
  assumes inv: "run_inv rs" and r: "map_of (rs_runs rs) i = Some r"
    and k: "run_dedupKey r = Some k" "k \<noteq> []"
  shows "run_inv ((put_run rs (r\<lparr>run_dedupKey := None\<rparr>))
    \<lparr>rs_byKey := AList.delete k (rs_byKey rs)\<rparr>)" (is "run_inv ?s")
proof -
  note d = run_invD[OF inv r]
  have "ids_ok ?s" using inv d unfolding run_inv_def ids_ok_def by (auto simp: put_run_def)
  moreover have "one_running ?s"
  proof -
    have "one_running (put_run rs (r\<lparr>run_dedupKey := None\<rparr>))"
      by (rule one_running_put[of _ _ r]) (use inv r d in \<open>simp_all add: run_inv_def\<close>)
    then show ?thesis by simp
  qed
  moreover have "dedup_ok ?s"
    unfolding dedup_ok_def
  proof (intro allI impI)
    fix j k' :: string
    assume "k' \<noteq> []"
    note e = run_inv_byKey[OF inv this, of j]
    have u: "j = i" if "map_of (rs_runs rs) j = Some q" "run_dedupKey q = Some k" for q
      using run_inv_key_unique[OF inv r that(1) k(1) that(2) k(2)] by simp
    show "map_of (rs_byKey ?s) k' = Some j \<longleftrightarrow>
        (\<exists>q. map_of (rs_runs ?s) j = Some q \<and> run_dedupKey q = Some k')"
    proof (cases "k' = k")
      case True
      with u d(1) show ?thesis by auto
    next
      case False
      with e d(1) r k show ?thesis by auto
    qed
  qed
  moreover have "settled_ok ?s"
    using inv d r unfolding run_inv_def settled_ok_def by (auto split: if_splits)
  ultimately show ?thesis by (simp add: run_inv_def)
qed

lemma run_inv_complete: "run_inv rs \<Longrightarrow> run_inv (fst (complete rs now rid tok res))"
proof (cases "map_of (rs_runs rs) rid")
  case None
  then show "run_inv rs \<Longrightarrow> ?thesis" by (simp add: complete_def)
next
  case (Some r)
  assume inv: "run_inv rs"
  note d = run_invD[OF inv Some]
  let ?r1 = "r\<lparr>run_status := Done, run_result := Some res, run_leaseToken := None,
    run_leaseExpiresAt := None, run_finishedAt := Some now\<rparr>"
  let ?s1 = "settle (put_run rs ?r1) ?r1"
  show ?thesis
  proof (cases "run_leaseToken r = Some tok")
    case False
    with inv Some show ?thesis by (simp add: complete_def)
  next
    case True
    with d(3) have ok: "run_ok ?r1" "\<not> isTerminal (run_status r)"
      by (auto simp: run_ok_def isTerminal_def)
    have s1: "run_inv ?s1"
      by (rule run_inv_settle[OF inv _ ok(1)]) (use Some d ok in \<open>simp_all add: isTerminal_def\<close>)
    have m1: "map_of (rs_runs ?s1) rid = Some ?r1"
      using d by (simp add: settle_def isTerminal_def put_run_def)
    show ?thesis
    proof (cases "releasesDedupKey res \<and> truthy (run_dedupKey r)")
      case False
      with True Some s1 show ?thesis by (auto simp: complete_def Let_def)
    next
      case rel: True
      then obtain k where k: "run_dedupKey r = Some k" "k \<noteq> []" by (auto elim: truthy_SomeE)
      have "run_inv ((put_run ?s1 (?r1\<lparr>run_dedupKey := None\<rparr>))
          \<lparr>rs_byKey := AList.delete k (rs_byKey ?s1)\<rparr>)"
        by (rule run_inv_drop_key[OF s1 m1]) (use k in simp_all)
      then show ?thesis
        by (rule run_inv_cong[THEN iffD1, rotated -1])
          (use True Some rel k in \<open>simp_all add: complete_def Let_def settle_def isTerminal_def put_run_def\<close>)
    qed
  qed
qed

lemma run_inv_drop:
  assumes inv: "run_inv rs" and r: "map_of (rs_runs rs) i = Some r" and p: "run_status r = Pending"
  shows "run_inv (drop_pending rs r)"
proof -
  note d = run_invD[OF inv r]
  let ?s = "drop_pending rs r"
  have runs: "map_of (rs_runs ?s) = (map_of (rs_runs rs))(i := None)"
    and dist: "distinct (keys (rs_runs rs)) \<Longrightarrow> distinct (keys (rs_runs ?s))"
    and settled: "rs_settled ?s = rs_settled rs"
    and key: "map_of (rs_byKey ?s) = (if truthy (run_dedupKey r)
        then (map_of (rs_byKey rs))(the (run_dedupKey r) := None) else map_of (rs_byKey rs))"
    using d by (simp_all add: drop_pending_def Let_def)
  have "ids_ok ?s" using inv dist unfolding run_inv_def ids_ok_def runs by auto
  moreover have "one_running ?s"
    using inv unfolding run_inv_def one_running_def runs by (auto split: if_splits)
  moreover have "dedup_ok ?s"
  proof (cases "truthy (run_dedupKey r)")
    case True
    then obtain k where k: "run_dedupKey r = Some k" "k \<noteq> []" by (rule truthy_SomeE)
    have u: "j = i" if "map_of (rs_runs rs) j = Some q" "run_dedupKey q = Some k" for j q
      using run_inv_key_unique[OF inv r that(1) k(1) that(2) k(2)] by simp
    have "map_of (rs_byKey ?s) k' = Some j \<longleftrightarrow>
        (\<exists>q. map_of (rs_runs ?s) j = Some q \<and> run_dedupKey q = Some k')" if "k' \<noteq> []" for j k'
    proof (cases "k' = k")
      case True
      then have "\<not> (\<exists>q. map_of (rs_runs ?s) j = Some q \<and> run_dedupKey q = Some k')"
        unfolding runs using u[of j] by (cases "j = i") auto
      with True k show ?thesis unfolding key by simp
    next
      case False
      with k r run_inv_byKey[OF inv that, of j] show ?thesis unfolding runs key by auto
    qed
    then show ?thesis by (simp add: dedup_ok_def)
  next
    case False
    have "map_of (rs_byKey ?s) k' = Some j \<longleftrightarrow>
        (\<exists>q. map_of (rs_runs ?s) j = Some q \<and> run_dedupKey q = Some k')" if "k' \<noteq> []" for j k'
      unfolding runs key using False that r run_inv_byKey[OF inv that, of j] by auto
    then show ?thesis by (simp add: dedup_ok_def)
  qed
  moreover have "settled_ok ?s"
    using inv r p unfolding run_inv_def settled_ok_def runs settled by (auto simp: isTerminal_def)
  ultimately show ?thesis by (simp add: run_inv_def)
qed

lemma run_inv_withdraw: "run_inv rs \<Longrightarrow> run_inv (fst (withdraw rs rid))"
  by (auto simp: withdraw_def split: option.split intro: run_inv_drop)

end
