(* ===== verification/Run_Lifecycle.thy ===== *)
theory Run_Lifecycle
  imports Run_Store
begin

text \<open>
  The run store as a transition system: one rule per public operation of \<open>memory-run-store.ts\<close>, with
  the two stretches of \<open>reapExpired\<close> as separate steps because other operations run while
  \<open>onRetired\<close> is awaited. The theory instantiates the prelude's locales on it and proves what
  workers and the reaper rely on: one running run per session, fencing of lost leases, terminal
  states that are final and reported once, idempotent enqueueing, fair claiming, the retry bound,
  and the effect of a whole reaping pass.
\<close>

section \<open>Steering, reaping and the step relation\<close>

lemma run_inv_readd:
  assumes inv: "run_inv rs" and r: "map_of (rs_runs rs) i = Some r"
  shows "run_inv (rs\<lparr>rs_runs := AList.update i r (AList.delete i (rs_runs rs))\<rparr>)" (is "run_inv ?s")
proof -
  have same: "map_of (rs_runs ?s) = map_of (rs_runs rs)" using r by auto
  moreover have "distinct (keys (rs_runs rs)) \<Longrightarrow> distinct (keys (rs_runs ?s))" by simp
  ultimately show ?thesis using inv unfolding run_inv_defs by simp
qed

lemma run_inv_steerQueued: "run_inv rs \<Longrightarrow> run_inv (fst (steerQueued rs q t txt sent))"
  by (auto simp: steerQueued_def split: option.split intro: run_inv_drop run_inv_readd)

lemma run_inv_reap_fence: "run_inv rs \<Longrightarrow> reap_fence rs now tok rid = Some rs' \<Longrightarrow> run_inv rs'"
  by (auto simp: reap_fence_def leaseLapsed_def split: option.splits if_splits
      intro!: run_inv_frame run_ok_relet dest: run_invD(3))

lemma run_inv_reap_retire: "run_inv rs \<Longrightarrow> run_inv (fst (reap_retire rs fin rid old w))"
  by (auto simp: reap_retire_def split_beta Let_def split: option.split intro: run_inv_retire)

lemma run_inv_ledger_record: "run_inv rs \<Longrightarrow> run_inv (ledger_record rs rid a c out)"
  by (subst run_inv_cong[where rs = rs]) (simp_all add: ledger_record_def)

text \<open>\<open>T\<close> is the set of values \<open>randomUUID()\<close> may return as lease tokens; run ids are fresh.\<close>

inductive run_step :: "string set \<Rightarrow> run_store \<Rightarrow> run_store \<Rightarrow> bool" for T where
  enqueue: "map_of (rs_runs rs) uuid = None \<Longrightarrow> uuid \<noteq> [] \<Longrightarrow>
    run_step T rs (fst (enqueue rs now uuid i))"
| claim: "tok \<in> T \<Longrightarrow> run_step T rs (fst (claim rs now tok w ttl))"
| claimById: "tok \<in> T \<Longrightarrow> run_step T rs (fst (claimById rs now tok rid w ttl))"
| claimForSession: "tok \<in> T \<Longrightarrow> run_step T rs (fst (claimForSession rs now tok sid w ttl))"
| heartbeat: "run_step T rs (fst (heartbeat rs now rid tok ttl))"
| releaseLease: "run_step T rs (fst (releaseLease rs rid tok))"
| complete: "run_step T rs (fst (complete rs now rid tok res))"
| fail: "run_step T rs (fst (fail_run rs now rid tok err retry ms))"
| noteTurnUserSeq: "run_step T rs (fst (noteTurnUserSeq rs rid n))"
| setDeliveryState: "run_step T rs (fst (setDeliveryState rs rid tko st))"
| editPendingText: "run_step T rs (fst (editPendingText rs rid txt expected))"
| withdraw: "run_step T rs (fst (withdraw rs rid))"
| steerQueued: "run_step T rs (fst (steerQueued rs q t sig sent))"
| markReturned: "run_step T rs (markReturned rs rid)"
| reap_fence: "tok \<in> T \<Longrightarrow> reap_fence rs now tok rid = Some rs' \<Longrightarrow> run_step T rs rs'"
| reap_retire: "run_step T rs (fst (reap_retire rs fin rid old wo))"
| ledger_record: "run_step T rs (ledger_record rs rid a c out)"

lemmas run_inv_ops = run_inv_enqueue run_inv_claim run_inv_claimById run_inv_claimForSession
  run_inv_heartbeat run_inv_releaseLease run_inv_complete run_inv_fail run_inv_noteTurnUserSeq
  run_inv_setDeliveryState run_inv_editPendingText run_inv_withdraw run_inv_steerQueued
  run_inv_markReturned run_inv_reap_fence run_inv_reap_retire run_inv_ledger_record

lemma run_step_inv: "run_step T rs rs' \<Longrightarrow> run_inv rs \<Longrightarrow> run_inv rs'"
  by (induction rule: run_step.induct) (simp_all add: run_inv_ops)

interpretation rs: invariant_system "\<lambda>rs. rs = createMemoryRunStore m" "run_step T" run_inv
  by unfold_locales (auto intro: run_inv_init run_step_inv)

section \<open>Lease tokens\<close>

definition token_of :: "run_store \<Rightarrow> string \<Rightarrow> string option" where
  "token_of rs i = Option.bind (map_of (rs_runs rs) i) run_leaseToken"

lemma token_of_Some: "token_of rs i = Some t \<longleftrightarrow>
    (\<exists>r. map_of (rs_runs rs) i = Some r \<and> run_leaseToken r = Some t)"
  by (auto simp: token_of_def bind_eq_Some_conv)

lemma token_put_run:
  "token_of (put_run rs r) i = (if i = run_id r then run_leaseToken r else token_of rs i)"
  by (simp add: token_of_def)

lemma token_of_cong: "rs_runs rs' = rs_runs rs \<Longrightarrow> token_of rs' = token_of rs"
  by (simp add: token_of_def fun_eq_iff)

lemma settle_runs [simp]: "rs_runs (settle rs r) = rs_runs rs"
  by (simp add: settle_def)

lemma token_settle [simp]: "token_of (settle rs r) = token_of rs"
  by (rule token_of_cong) simp

lemma token_byKey [simp]: "token_of (rs\<lparr>rs_byKey := b\<rparr>) = token_of rs"
  "token_of (rs\<lparr>rs_retryAfter := c\<rparr>) = token_of rs"
  "token_of (rs\<lparr>rs_settled := d\<rparr>) = token_of rs"
  by (simp_all add: token_of_def fun_eq_iff)

lemma token_lease: "token_of (fst (lease rs now tok r w ttl)) i = Some t \<Longrightarrow>
    token_of rs i = Some t \<or> t = tok"
  by (auto simp: lease_def Let_def token_put_run split: if_splits)

lemma token_claims:
  "token_of (fst (claim rs now tok w ttl)) i = Some t \<Longrightarrow> token_of rs i = Some t \<or> t = tok"
  "token_of (fst (claimForSession rs now tok sid w ttl)) i = Some t \<Longrightarrow>
     token_of rs i = Some t \<or> t = tok"
  "token_of (fst (claimById rs now tok rid w ttl)) i = Some t \<Longrightarrow> token_of rs i = Some t \<or> t = tok"
  by (auto simp: claim_def claimForSession_def claimById_def dest!: token_lease
      split: list.splits option.splits if_splits)

lemma token_retire:
  "token_of (fst (retire rs now r err retry opts)) i = Some t \<Longrightarrow> token_of rs i = Some t"
  by (auto simp: retire_def Let_def token_put_run split: if_splits option.splits)

lemma token_drop: "token_of (drop_pending rs r) i = Some t \<Longrightarrow> token_of rs i = Some t"
  by (auto simp: drop_pending_def Let_def token_of_Some split: if_splits)

lemma token_enqueue:
  "token_of (fst (enqueue rs now uuid i)) j = Some t \<Longrightarrow> token_of rs j = Some t"
  by (auto simp: enqueue_def Let_def token_put_run split: option.splits if_splits)

lemma token_updates:
  assumes inv: "run_inv rs"
  shows "token_of (fst (heartbeat rs now rid tok ttl)) i = Some t \<Longrightarrow> token_of rs i = Some t"
    and "token_of (fst (releaseLease rs rid tok)) i = Some t \<Longrightarrow> token_of rs i = Some t"
    and "token_of (fst (complete rs now rid tok res)) i = Some t \<Longrightarrow> token_of rs i = Some t"
    and "token_of (fst (noteTurnUserSeq rs rid n)) i = Some t \<Longrightarrow> token_of rs i = Some t"
    and "token_of (fst (setDeliveryState rs rid tko st)) i = Some t \<Longrightarrow> token_of rs i = Some t"
    and "token_of (fst (editPendingText rs rid txt e)) i = Some t \<Longrightarrow> token_of rs i = Some t"
  using run_invD(1)[OF inv]
  by (auto simp: heartbeat_def releaseLease_def complete_def noteTurnUserSeq_def setDeliveryState_def
      editPendingText_def Let_def token_put_run token_of_Some split: option.splits if_splits)

lemma token_fail: "token_of (fst (fail_run rs now rid tok err retry ms)) i = Some t \<Longrightarrow>
    token_of rs i = Some t"
  by (auto simp: fail_run_def split_beta split: option.splits if_splits dest: token_retire)

lemma token_steer: "token_of (fst (steerQueued rs q u txt sent)) i = Some t \<Longrightarrow> token_of rs i = Some t"
  by (auto simp: steerQueued_def split: option.splits if_splits dest: token_drop)
    (auto simp: token_of_Some split: if_splits)

lemma token_reap_retire:
  "token_of (fst (reap_retire rs fin rid old w)) i = Some t \<Longrightarrow> token_of rs i = Some t"
  by (auto simp: reap_retire_def split_beta Let_def split: option.splits if_splits dest: token_retire)

lemma token_reap_fence:
  "reap_fence rs now tok rid = Some rs' \<Longrightarrow> token_of rs' i = Some t \<Longrightarrow> token_of rs i = Some t \<or> t = tok"
  by (auto simp: reap_fence_def token_put_run split: option.splits if_splits)

lemma token_run_step:
  assumes "run_step T rs rs'" and "run_inv rs" and "token_of rs' i = Some t"
  shows "token_of rs i = Some t \<or> t \<in> T"
  using assms
proof (induction rule: run_step.induct)
  case (markReturned rs rid)
  then show ?case by (simp add: markReturned_def token_of_def split: if_splits)
next
  case (ledger_record rs rid a c out)
  then show ?case by (simp add: ledger_record_def token_of_def)
next
  case (withdraw rs rid)
  then show ?case by (auto simp: withdraw_def dest: token_drop split: option.splits if_splits)
qed (auto dest: token_enqueue token_claims token_updates token_fail token_steer token_reap_retire
    token_reap_fence)

interpretation rs_tok: token_fencing run_step run_inv token_of
  by unfold_locales (auto intro: run_step_inv dest: token_run_step)

text \<open>Without the current token each lease-guarded operation refuses and changes nothing.\<close>

lemma not_holder_refused:
  assumes "token_of rs i \<noteq> Some t"
  shows "heartbeat rs now i t ttl = (rs, False)" and "releaseLease rs i t = (rs, False)"
    and "complete rs now i t res = (rs, False)"
    and "fail_run rs now i t err retry ms = (rs, False)"
    and "setDeliveryState rs i (Some t) st = (rs, False)"
  using assms
  by (auto simp: heartbeat_def releaseLease_def complete_def fail_run_def setDeliveryState_def
      token_of_def split: option.split)

section \<open>Claiming\<close>

text \<open>A run can be claimed at \<open>now\<close>: it is pending, no run of its session is running, and no pending
  run of its session is waiting out a retry delay.\<close>

definition claimable :: "run_store \<Rightarrow> int \<Rightarrow> run \<Rightarrow> bool" where
  "claimable rs now r \<longleftrightarrow> map_of (rs_runs rs) (run_id r) = Some r \<and> run_status r = Pending \<and>
     (\<forall>j q. map_of (rs_runs rs) j = Some q \<and> run_sessionId q = run_sessionId r \<longrightarrow>
        run_status q \<noteq> Running \<and>
        (run_status q = Pending \<longrightarrow> nullish (map_of (rs_retryAfter rs) j) 0 \<le> now))"

lemma pendingRuns_claimable:
  assumes "run_inv rs"
  shows "r \<in> set (pendingRuns rs now) \<longleftrightarrow> claimable rs now r"
proof -
  have ids: "ids_ok rs" and dist: "distinct (keys (rs_runs rs))"
    using assms by (simp_all add: run_inv_def ids_ok_def)
  have "r \<in> set (vals (rs_runs rs)) \<longleftrightarrow> map_of (rs_runs rs) (run_id r) = Some r"
    using vals_iff_map_of[OF dist] run_invD(1)[OF assms] by metis
  then show ?thesis
    unfolding pendingRuns_iff claimable_def sessionUnavailable_iff[OF ids]
    by (auto simp: not_less[symmetric])
qed

lemma pendingRuns_sorted: "sorted (map run_createdAt (pendingRuns rs now))"
  by (simp add: pendingRuns_def)

lemma claim_takes_oldest:
  assumes inv: "run_inv rs" and c: "claim rs now tok w ttl = (rs', Some r')"
  shows "\<exists>r. claimable rs now r \<and> r' = lease_run now tok w ttl r \<and>
    map_of (rs_runs rs') (run_id r) = Some r' \<and>
    (\<forall>q. claimable rs now q \<longrightarrow> run_createdAt r \<le> run_createdAt q)"
proof -
  from c obtain r ps where p: "pendingRuns rs now = r # ps" and l: "lease rs now tok r w ttl = (rs', r')"
    by (auto simp: claim_def map_prod_def split: list.splits prod.splits)
  have "claimable rs now r" using p pendingRuns_claimable[OF inv, of r now] by simp
  moreover have "r' = lease_run now tok w ttl r" "map_of (rs_runs rs') (run_id r) = Some r'"
    using l by (auto simp: lease_def Let_def)
  moreover have "run_createdAt r \<le> run_createdAt q" if "claimable rs now q" for q
    using that p pendingRuns_sorted[of rs now] pendingRuns_claimable[OF inv, of q now] by auto
  ultimately show ?thesis by blast
qed

lemma claim_None_iff:
  assumes "run_inv rs"
  shows "snd (claim rs now tok w ttl) = None \<longleftrightarrow> (\<forall>r. \<not> claimable rs now r)"
proof -
  have "snd (claim rs now tok w ttl) = None \<longleftrightarrow> pendingRuns rs now = []"
    by (auto simp: claim_def split: list.splits)
  then show ?thesis using pendingRuns_claimable[OF assms] by (metis list.set_intros(1) neq_Nil_conv empty_iff list.set(1))
qed

section \<open>Terminal runs\<close>

text \<open>What a terminal run ended with: its status, result and finishing time.\<close>

definition outcome_of :: "run_store \<Rightarrow> string \<Rightarrow> (run_status \<times> turn_result option \<times> int option) option" where
  "outcome_of rs i = Option.bind (map_of (rs_runs rs) i)
     (\<lambda>r. if isTerminal (run_status r) then Some (run_status r, run_result r, run_finishedAt r) else None)"

lemma outcome_of_Some: "outcome_of rs i = Some x \<longleftrightarrow>
    (\<exists>r. map_of (rs_runs rs) i = Some r \<and> isTerminal (run_status r) \<and>
      x = (run_status r, run_result r, run_finishedAt r))"
  by (auto simp: outcome_of_def bind_eq_Some_conv split: if_splits)

lemma outcome_put_run: "outcome_of (put_run rs r) i =
    (if i = run_id r
     then (if isTerminal (run_status r) then Some (run_status r, run_result r, run_finishedAt r) else None)
     else outcome_of rs i)"
  by (simp add: outcome_of_def)

lemma outcome_frame [simp]:
  "outcome_of (settle rs r) = outcome_of rs"
  "outcome_of (rs\<lparr>rs_byKey := b\<rparr>) = outcome_of rs"
  "outcome_of (rs\<lparr>rs_retryAfter := c\<rparr>) = outcome_of rs"
  by (simp_all add: outcome_of_def fun_eq_iff)

lemma not_terminal [simp]: "\<not> isTerminal Pending" "\<not> isTerminal Running"
  by (simp_all add: isTerminal_def)

text \<open>Writing a run that was not terminal leaves every outcome alone.\<close>

lemma outcome_put_other:
  assumes "outcome_of rs i = Some x" and "map_of (rs_runs rs) j = Some r"
    and "\<not> isTerminal (run_status r)" and "run_id r' = j"
  shows "outcome_of (put_run rs r') i = Some x"
  using assms by (auto simp: outcome_put_run outcome_of_Some)

lemma outcome_lease:
  assumes "run_inv rs" and "r \<in> set (pendingRuns rs now)" and "outcome_of rs i = Some x"
  shows "outcome_of (fst (lease rs t tok r w ttl)) i = Some x"
  using outcome_put_other[OF assms(3) pendingRunsD(1)[OF assms(1,2)]] pendingRunsD(2)[OF assms(1,2)]
  by (simp add: lease_def Let_def)

lemma outcome_claims:
  assumes "run_inv rs" and "outcome_of rs i = Some x"
  shows "outcome_of (fst (claim rs now tok w ttl)) i = Some x"
    and "outcome_of (fst (claimForSession rs now tok sid w ttl)) i = Some x"
    and "outcome_of (fst (claimById rs now tok rid w ttl)) i = Some x"
proof -
  note l = outcome_lease[OF assms(1) _ assms(2)]
  show "outcome_of (fst (claim rs now tok w ttl)) i = Some x"
    by (rule claim_cases[of rs now tok w ttl]) (simp_all add: l assms)
  show "outcome_of (fst (claimForSession rs now tok sid w ttl)) i = Some x"
    by (rule claimForSession_cases[of rs now tok sid w ttl]) (simp_all add: l assms)
  show "outcome_of (fst (claimById rs now tok rid w ttl)) i = Some x"
    by (rule claimById_cases[OF assms(1), of now tok rid w ttl]) (simp_all add: l assms)
qed

lemma outcome_retire:
  assumes "run_inv rs" and "map_of (rs_runs rs) j = Some r" and "outcome_of rs i = Some x"
  shows "outcome_of (fst (retire rs now r err retry opts)) i = Some x"
  using assms run_invD(1)[OF assms(1,2)]
  by (auto simp: retire_def Let_def outcome_put_run outcome_of_Some split: option.split)

lemma outcome_drop:
  assumes "run_inv rs" and "map_of (rs_runs rs) j = Some r" and "run_status r = Pending"
    and "outcome_of rs i = Some x"
  shows "outcome_of (drop_pending rs r) i = Some x"
  using assms run_invD(1)[OF assms(1,2)] by (auto simp: drop_pending_def Let_def outcome_of_Some)

lemma outcome_updates:
  assumes inv: "run_inv rs" and x: "outcome_of rs i = Some x"
  shows "outcome_of (fst (heartbeat rs now rid tok ttl)) i = Some x"
    and "outcome_of (fst (releaseLease rs rid tok)) i = Some x"
    and "outcome_of (fst (noteTurnUserSeq rs rid n)) i = Some x"
    and "outcome_of (fst (setDeliveryState rs rid tko st)) i = Some x"
    and "outcome_of (fst (editPendingText rs rid txt e)) i = Some x"
  using x run_invD(1)[OF inv]
  by (auto simp: heartbeat_def releaseLease_def noteTurnUserSeq_def setDeliveryState_def
      editPendingText_def outcome_put_run outcome_of_Some split: option.split)

lemma outcome_complete:
  assumes inv: "run_inv rs" and x: "outcome_of rs i = Some x"
  shows "outcome_of (fst (complete rs now rid tok res)) i = Some x"
proof -
  have "outcome_of (put_run rs r') i = Some x"
    if "map_of (rs_runs rs) rid = Some r" "run_leaseToken r = Some tok" "run_id r' = run_id r" for r r'
    using outcome_put_other[OF x that(1), of r'] run_invD[OF inv that(1)] that(2,3)
    by (simp add: run_ok_def)
  then show ?thesis using x by (auto simp: complete_def Let_def split: option.split)
qed

lemma outcome_enqueue:
  "map_of (rs_runs rs) uuid = None \<Longrightarrow> outcome_of rs j = Some x \<Longrightarrow>
     outcome_of (fst (enqueue rs now uuid i)) j = Some x"
  by (auto simp: enqueue_def Let_def outcome_put_run outcome_of_Some split: option.split)

lemma outcome_steer:
  assumes "run_inv rs" and "outcome_of rs i = Some x"
  shows "outcome_of (fst (steerQueued rs q u txt sent)) i = Some x"
proof -
  have "outcome_of (rs\<lparr>rs_runs := AList.update q r (AList.delete q (rs_runs rs))\<rparr>) i = Some x"
    if "map_of (rs_runs rs) q = Some r" for r
    using assms(2) that by (auto simp: outcome_of_Some)
  then show ?thesis using assms
    by (auto simp: steerQueued_def split: option.split intro: outcome_drop)
qed

lemma outcome_run_step:
  assumes "run_step T rs rs'" and "run_inv rs" and "outcome_of rs i = Some x"
  shows "outcome_of rs' i = Some x"
  using assms
proof (induction rule: run_step.induct)
  case (markReturned rs rid)
  then show ?case by (simp add: markReturned_def outcome_of_def split: if_splits)
next
  case (ledger_record rs rid a c out)
  then show ?case by (simp add: ledger_record_def outcome_of_def)
next
  case (withdraw rs rid)
  then show ?case by (auto simp: withdraw_def intro: outcome_drop split: option.split)
next
  case (fail rs now rid tok err retry ms)
  then show ?case by (auto simp: fail_run_def split_beta intro: outcome_retire split: option.split)
next
  case (reap_retire rs fin rid old wo)
  then show ?case
    by (auto simp: reap_retire_def split_beta Let_def intro: outcome_retire split: option.split)
next
  case (reap_fence tok rs now rid rs')
  then show ?case using run_invD(1)[OF reap_fence.prems(1)]
    by (auto simp: reap_fence_def leaseLapsed_def outcome_put_run outcome_of_Some
        split: option.splits if_splits)
qed (simp_all add: outcome_enqueue outcome_claims outcome_updates outcome_complete outcome_steer)

section \<open>A whole reaping pass\<close>

lemma retire_lookup:
  assumes "run_status r = Running" "ro_ifExpiredAt opts = None"
  shows "\<exists>r'. map_of (rs_runs (fst (retire rs now r err retry opts))) = (map_of (rs_runs rs))(run_id r \<mapsto> r') \<and>
    run_id r' = run_id r \<and> run_status r' \<noteq> Running \<and> run_leaseToken r' = None"
    and "snd (snd (retire rs now r err retry opts))"
  using assms by (auto simp: retire_def Let_def)

lemma reap_fence_lookup:
  assumes "map_of (rs_runs rs) i = Some r" "run_id r = i" "leaseLapsed r now"
  shows "\<exists>rs1 r1. reap_fence rs now tok i = Some rs1 \<and>
    map_of (rs_runs rs1) = (map_of (rs_runs rs))(i \<mapsto> r1) \<and> run_id r1 = i \<and> run_status r1 = Running"
  using assms by (auto simp: reap_fence_def leaseLapsed_def)

lemma reap_one:
  assumes "map_of (rs_runs rs) i = Some r" "run_id r = i" "leaseLapsed r now"
  shows "\<exists>rs1 rs2 r2 e. reap_fence rs now tok i = Some rs1 \<and> reap_retire rs1 fin i old w = (rs2, Some e) \<and>
    map_of (rs_runs rs2) = (map_of (rs_runs rs))(i \<mapsto> r2) \<and> run_id r2 = i \<and>
    run_status r2 \<noteq> Running \<and> run_leaseToken r2 = None \<and> re_runId e = i"
proof -
  obtain rs1 r1 where 1: "reap_fence rs now tok i = Some rs1"
    "map_of (rs_runs rs1) = (map_of (rs_runs rs))(i \<mapsto> r1)" "run_id r1 = i" "run_status r1 = Running"
    using reap_fence_lookup[OF assms] by blast
  let ?t = "retire rs1 fin r1 (reap_reason old) (\<not> old) no_opts"
  have n: "ro_ifExpiredAt no_opts = None" by (simp add: no_opts_def)
  obtain r2 where 2: "map_of (rs_runs (fst ?t)) = (map_of (rs_runs rs1))(i \<mapsto> r2)" "run_id r2 = i"
    "run_status r2 \<noteq> Running" "run_leaseToken r2 = None" and ap: "snd (snd ?t)"
    using retire_lookup[OF 1(4) n] 1(3) by blast
  have "\<exists>e. reap_retire rs1 fin i old w = (fst ?t, Some e) \<and> re_runId e = i"
    using 1 2 ap by (auto simp: reap_retire_def split_beta Let_def)
  with 1 2 show ?thesis by fastforce
qed

lemma reap_loop_pass:
  assumes "distinct rids" and "\<And>i. i \<in> set rids \<Longrightarrow> \<exists>r. map_of (rs_runs rs) i = Some r \<and> run_id r = i \<and> leaseLapsed r now"
    and "\<And>s. resolves s"
    and "reap_loop rs now tok fin resolves maxAge rids = (rs', evs, ok)"
  shows "ok \<and> map re_runId evs = rids \<and>
    (\<forall>i. i \<notin> set rids \<longrightarrow> map_of (rs_runs rs') i = map_of (rs_runs rs) i) \<and>
    (\<forall>i \<in> set rids. \<exists>r. map_of (rs_runs rs') i = Some r \<and> run_status r \<noteq> Running \<and> run_leaseToken r = None)"
  using assms
proof (induction rids arbitrary: rs rs' evs ok)
  case Nil
  then show ?case by simp
next
  case (Cons i rids)
  obtain r where r: "map_of (rs_runs rs) i = Some r" "run_id r = i" "leaseLapsed r now"
    using Cons.prems(2)[of i] by auto
  let ?old = "reap_too_old maxAge now r"
  obtain rs1 rs2 r2 e where 1: "reap_fence rs now (tok i) i = Some rs1"
    "reap_retire rs1 (fin i) i ?old (run_workerId r) = (rs2, Some e)"
    and 2: "map_of (rs_runs rs2) = (map_of (rs_runs rs))(i \<mapsto> r2)" "run_status r2 \<noteq> Running"
      "run_leaseToken r2 = None" "re_runId e = i"
    using reap_one[OF r] by blast
  obtain rs3 evs' ok' where 3: "reap_loop rs2 now tok fin resolves maxAge rids = (rs3, evs', ok')"
    by (metis prod_cases3)
  have res: "rs' = rs3" "evs = e # evs'" "ok = ok'"
    using Cons.prems(4) Cons.prems(3)[of "run_sessionId r"] r 1 3 by (simp_all add: Let_def)
  have "\<exists>q. map_of (rs_runs rs2) j = Some q \<and> run_id q = j \<and> leaseLapsed q now" if "j \<in> set rids" for j
    using that Cons.prems(1,2) 2(1) by auto
  note IH = Cons.IH[OF _ this Cons.prems(3) 3]
  show ?case using IH Cons.prems(1) 2 res by auto
qed

lemma lapsed_ids:
  fixes now :: int
  assumes "run_inv rs"
  defines "ids \<equiv> map run_id (filter (\<lambda>r. leaseLapsed r now) (vals (rs_runs rs)))"
  shows "distinct ids"
    and "i \<in> set ids \<longleftrightarrow> (\<exists>r. map_of (rs_runs rs) i = Some r \<and> leaseLapsed r now)"
proof -
  have dist: "distinct (keys (rs_runs rs))" using assms by (simp add: run_inv_def ids_ok_def)
  have eq: "map run_id (vals (rs_runs rs)) = keys (rs_runs rs)"
    using run_invD(1)[OF assms(1)] map_of_is_SomeI[OF dist] by (auto simp: comp_def)
  then have "distinct (map run_id (vals (rs_runs rs)))" using dist by (simp only: eq)
  then show "distinct ids" unfolding ids_def by (rule distinct_map_filter)
  show "i \<in> set ids \<longleftrightarrow> (\<exists>r. map_of (rs_runs rs) i = Some r \<and> leaseLapsed r now)"
    unfolding ids_def using vals_iff_map_of[OF dist] run_invD(1)[OF assms(1)] by fastforce
qed

section \<open>Properties\<close>

text \<open>C1: in every state the run store can reach, whatever the interleaving of enqueues, claims,
  heartbeats, completions, failures, steering and the two halves of a reaping pass, a session has
  at most one running run, and a run is running exactly while it carries a lease token, with an
  expiry, a worker and at least one counted attempt.\<close>

theorem one_running_run_per_session:
  assumes "(run_step T)\<^sup>*\<^sup>* (createMemoryRunStore m) rs"
    and "map_of (rs_runs rs) i = Some r" and "run_status r = Running"
  shows "run_leaseToken r \<noteq> None \<and> run_leaseExpiresAt r \<noteq> None \<and> run_workerId r \<noteq> None \<and>
    0 < run_attempts r \<and>
    (\<forall>j q. map_of (rs_runs rs) j = Some q \<and> run_status q = Running \<and>
       run_sessionId q = run_sessionId r \<longrightarrow> j = i)"
proof -
  have inv: "run_inv rs" using rs.reachable_inv assms(1) by blast
  with run_invD(3)[OF this assms(2)] assms show ?thesis
    by (auto simp: run_ok_def dest: run_inv_unique)
qed

definition demo_request :: orch_input where
  "demo_request = plain_request ''u'' ''t'' ''hi''"

definition demo_input :: "string \<Rightarrow> enqueue_input" where
  "demo_input k = \<lparr>ei_sessionId = ''s'', ei_request = demo_request, ei_dedupKey = Some k,
     ei_maxAttempts = None\<rparr>"

definition demo_pending :: run_store where
  "demo_pending = fst (enqueue (createMemoryRunStore None) 0 ''a'' (demo_input ''k''))"

definition demo_running :: run_store where
  "demo_running = fst (claim demo_pending 5 ''t'' ''w'' 10)"

lemmas demo_defs = demo_request_def demo_input_def demo_pending_def demo_running_def
  createMemoryRunStore_def enqueue_def claim_def pendingRuns_def sessionUnavailable_def
  lease_def lease_run_def put_run_def Let_def

lemma demo_pending_reachable: "(run_step T)\<^sup>*\<^sup>* (createMemoryRunStore None) demo_pending"
  unfolding demo_pending_def
  by (rule r_into_rtranclp, rule run_step.enqueue) (simp_all add: createMemoryRunStore_def)

lemma demo_running_reachable: "''t'' \<in> T \<Longrightarrow> (run_step T)\<^sup>*\<^sup>* (createMemoryRunStore None) demo_running"
  unfolding demo_running_def
  by (rule rtranclp.rtrancl_into_rtrancl[OF demo_pending_reachable], rule run_step.claim)

lemma demo_running_eq: "map_of (rs_runs demo_running) ''a'' = Some
  \<lparr>run_id = ''a'', run_sessionId = ''s'', run_status = Running, run_request = demo_request,
   run_result = None, run_editRef = None, run_turnUserSeq = None, run_dedupKey = Some ''k'',
   run_attempts = 1, run_errorAttempts = 0, run_maxAttempts = 3, run_leaseToken = Some ''t'',
   run_leaseExpiresAt = Some 15, run_workerId = Some ''w'', run_createdAt = 0,
   run_startedAt = Some 5, run_finishedAt = None\<rparr>"
  by (simp add: demo_defs)

theorem one_running_run_per_session_witness:
  "run_leaseToken (the (map_of (rs_runs demo_running) ''a'')) = Some ''t'' \<and>
   run_workerId (the (map_of (rs_runs demo_running) ''a'')) \<noteq> None"
  using one_running_run_per_session[OF demo_running_reachable[of UNIV] demo_running_eq]
  by (simp add: demo_running_eq)

text \<open>C2: a lease that was lost stays lost. If the token \<open>t\<close> is not the current token of run \<open>i\<close>, then
  after any further steps that do not issue \<open>t\<close> again, a heartbeat, release, completion, failure or
  delivery-state write that presents \<open>t\<close> for run \<open>i\<close> is refused and leaves the store unchanged.\<close>

theorem lost_lease_is_fenced:
  assumes "run_inv rs" and "token_of rs i \<noteq> Some t" and "(run_step T)\<^sup>*\<^sup>* rs rs'" and "t \<notin> T"
  shows "heartbeat rs' now i t ttl = (rs', False) \<and> releaseLease rs' i t = (rs', False) \<and>
    complete rs' now i t res = (rs', False) \<and> fail_run rs' now i t err retry ms = (rs', False) \<and>
    setDeliveryState rs' i (Some t) st = (rs', False)"
  using rs_tok.stale_stays[OF assms(3,1,2,4)] not_holder_refused[of rs' i t] by simp

theorem lost_lease_is_fenced_witness:
  "complete demo_running 9 ''a'' ''old''
     \<lparr>tr_status = TOk, tr_sessionId = None, tr_reply = None, tr_reason = None, tr_refusalKind = None\<rparr>
   = (demo_running, False)"
proof -
  have "run_inv demo_pending"
    using rs.reachable_inv demo_pending_reachable[of "{''t''}"] by blast
  moreover have "token_of demo_pending ''a'' \<noteq> Some ''old''"
    by (simp add: token_of_def demo_defs)
  moreover have "(run_step {''t''})\<^sup>*\<^sup>* demo_pending demo_running"
    unfolding demo_running_def by (rule r_into_rtranclp, rule run_step.claim) simp
  ultimately show ?thesis using lost_lease_is_fenced[of demo_pending "''a''" "''old''"] by blast
qed

text \<open>The reaper's fence takes a lapsed run away from its worker at once: it succeeds exactly on a
  lapsed lease, and from then on the token the worker held is refused by every lease-guarded
  operation of the run (the fence token being a fresh one), while the session stays occupied.\<close>

theorem reap_fence_fences:
  assumes "run_inv rs" and "map_of (rs_runs rs) i = Some r" and "leaseLapsed r now"
    and "run_leaseToken r = Some t" and "tok \<noteq> t"
  shows "\<exists>rs1. reap_fence rs now tok i = Some rs1 \<and> token_of rs1 i = Some tok \<and>
    complete rs1 now' i t res = (rs1, False) \<and> heartbeat rs1 now' i t ttl = (rs1, False) \<and>
    sessionUnavailable rs1 (run_sessionId r) now'"
proof -
  let ?r = "r\<lparr>run_leaseToken := Some tok, run_leaseExpiresAt := Some (now + FENCE_HOLD_MS)\<rparr>"
  let ?s = "put_run rs ?r"
  have f: "reap_fence rs now tok i = Some ?s" using assms by (simp add: reap_fence_def)
  have tk: "token_of ?s i = Some tok" using run_invD(1)[OF assms(1,2)] by (simp add: token_put_run)
  have ids: "ids_ok ?s" using run_inv_reap_fence[OF assms(1) f] by (simp add: run_inv_def)
  have "map_of (rs_runs ?s) i = Some ?r" "run_status ?r = Running" "run_sessionId ?r = run_sessionId r"
    using run_invD(1)[OF assms(1,2)] assms(3) by (simp_all add: leaseLapsed_def)
  then have "sessionUnavailable ?s (run_sessionId r) now'"
    unfolding sessionUnavailable_iff[OF ids] by blast
  moreover have "token_of ?s i \<noteq> Some t" using tk assms(5) by simp
  ultimately show ?thesis using f tk not_holder_refused[of ?s i t] by blast
qed

theorem reap_fence_fences_witness:
  "\<exists>rs1. reap_fence demo_running 20 ''f'' ''a'' = Some rs1 \<and> token_of rs1 ''a'' = Some ''f'' \<and>
     heartbeat rs1 21 ''a'' ''t'' 10 = (rs1, False)"
proof -
  have "run_inv demo_running" using rs.reachable_inv demo_running_reachable[of UNIV] by blast
  from reap_fence_fences[OF this demo_running_eq, of 20 "''t''" "''f''" 21 _ 10]
  show ?thesis by (auto simp: leaseLapsed_def)
qed

text \<open>C3: a run that is done or failed is final: once it has an outcome, every later state shows the same
  status, result and finishing time for it, and the terminal listeners were called for it exactly
  once.\<close>

theorem terminal_runs_are_final:
  assumes "(run_step T)\<^sup>*\<^sup>* (createMemoryRunStore m) rs" and "outcome_of rs i = Some x"
    and "(run_step T)\<^sup>*\<^sup>* rs rs'"
  shows "outcome_of rs' i = Some x \<and> count_list (map run_id (rs_settled rs')) i = 1"
proof -
  have inv: "run_inv rs" using rs.reachable_inv assms(1) by blast
  have fin: "outcome_of rs' i = Some x"
    by (rule rs.stable_steps[OF assms(3) inv, where Q = "\<lambda>s. outcome_of s i = Some x"])
      (auto intro: assms(2) outcome_run_step)
  have "run_inv rs'" using rs.steps_inv[OF assms(3) inv] .
  then have "settled_ok rs'" by (simp add: run_inv_def)
  with fin have "distinct (map run_id (rs_settled rs'))" "i \<in> set (map run_id (rs_settled rs'))"
    by (auto simp: settled_ok_def outcome_of_Some)
  then have "count_list (map run_id (rs_settled rs')) i = 1"
    by (simp add: count_list_distinct)
  with fin show ?thesis by simp
qed

definition demo_done :: run_store where
  "demo_done = fst (complete demo_running 9 ''a'' ''t''
     \<lparr>tr_status = TOk, tr_sessionId = None, tr_reply = None, tr_reason = None, tr_refusalKind = None\<rparr>)"

theorem terminal_runs_are_final_witness:
  "count_list (map run_id (rs_settled demo_done)) ''a'' = 1"
proof -
  have r: "(run_step UNIV)\<^sup>*\<^sup>* (createMemoryRunStore None) demo_done"
    unfolding demo_done_def
    by (rule rtranclp.rtrancl_into_rtrancl[OF demo_running_reachable], simp, rule run_step.complete)
  have "\<exists>x. outcome_of demo_done ''a'' = Some x"
    by (simp add: demo_done_def complete_def demo_running_eq releasesDedupKey_def settle_def
        isTerminal_def outcome_of_def Let_def)
  with terminal_runs_are_final[OF r _ rtranclp.rtrancl_refl] show ?thesis by blast
qed

text \<open>Enqueueing is idempotent in the deduplication key. In a reachable store an enqueue with a
  non-empty key either returns the one stored run that has that key and changes nothing, or stores
  a new pending run under it; either way exactly one run carries the key afterwards, and it is the
  run returned and the one the key looks up.\<close>

theorem enqueue_idempotent:
  assumes "(run_step T)\<^sup>*\<^sup>* (createMemoryRunStore m) rs" and "ei_dedupKey i = Some k" and "k \<noteq> []"
    and "map_of (rs_runs rs) uuid = None" and "uuid \<noteq> []"
    and "enqueue rs now uuid i = (rs', r, deduped)"
  shows "(deduped \<longleftrightarrow> getByDedupKey rs k \<noteq> None) \<and> (deduped \<longrightarrow> rs' = rs) \<and>
    (\<not> deduped \<longrightarrow> run_id r = uuid \<and> run_status r = Pending) \<and>
    getByDedupKey rs' k = Some r \<and> run_dedupKey r = Some k \<and>
    (\<forall>j q. map_of (rs_runs rs') j = Some q \<and> run_dedupKey q = Some k \<longrightarrow> q = r)"
proof -
  have inv: "run_inv rs" using rs.reachable_inv assms(1) by blast
  have inv': "run_inv rs'" using run_inv_enqueue[OF inv assms(4,5), of now i] assms(6) by simp
  have basic: "(deduped \<longleftrightarrow> getByDedupKey rs k \<noteq> None) \<and> (deduped \<longrightarrow> rs' = rs) \<and>
    (\<not> deduped \<longrightarrow> run_id r = uuid \<and> run_status r = Pending) \<and> getByDedupKey rs' k = Some r"
    using assms(2-6)
    by (auto simp: enqueue_def getByDedupKey_def Let_def split: option.splits if_splits)
  then have look: "getByDedupKey rs' k = Some r" by simp
  then obtain j where j: "map_of (rs_byKey rs') k = Some j" "map_of (rs_runs rs') j = Some r"
    by (auto simp: getByDedupKey_def split: option.splits if_splits)
  have key: "run_dedupKey r = Some k" using run_inv_byKey[OF inv' assms(3), of j] j by auto
  have "q = r" if "map_of (rs_runs rs') l = Some q" "run_dedupKey q = Some k" for l q
    using run_inv_key_unique[OF inv' j(2) that(1) key that(2) assms(3)] that(1) j(2) by simp
  with basic key show ?thesis by blast
qed

theorem enqueue_idempotent_witness:
  "getByDedupKey demo_running ''k'' = map_of (rs_runs demo_running) ''a''"
proof -
  have u: "map_of (rs_runs demo_running) ''b'' = None" by (simp add: demo_defs)
  obtain rs' r d where e: "enqueue demo_running 7 ''b'' (demo_input ''k'') = (rs', r, d)"
    by (metis prod_cases3)
  have "d" "r = the (map_of (rs_runs demo_running) ''a'')"
    using e by (auto simp: demo_defs)
  with enqueue_idempotent[OF demo_running_reachable[of UNIV] _ _ u _ e, of "''k''"]
  show ?thesis by (auto simp: demo_input_def demo_running_eq)
qed

text \<open>C6: claiming is fair and makes progress. A claim returns nothing exactly when no run is claimable
  (pending, its session without a running run or an unexpired retry delay); otherwise it leases a
  claimable run of the least creation time to the worker, for \<open>ttl\<close> milliseconds from now.\<close>

theorem claim_oldest_or_none:
  assumes "run_inv rs"
  shows "(snd (claim rs now tok w ttl) = None \<longleftrightarrow> (\<forall>r. \<not> claimable rs now r)) \<and>
    (\<forall>r'. snd (claim rs now tok w ttl) = Some r' \<longrightarrow>
      (\<exists>r. claimable rs now r \<and> r' = lease_run now tok w ttl r \<and>
        map_of (rs_runs (fst (claim rs now tok w ttl))) (run_id r) = Some r' \<and>
        (\<forall>q. claimable rs now q \<longrightarrow> run_createdAt r \<le> run_createdAt q)))"
proof (intro conjI allI impI)
  show "snd (claim rs now tok w ttl) = None \<longleftrightarrow> (\<forall>r. \<not> claimable rs now r)"
    by (rule claim_None_iff[OF assms])
  fix r' assume "snd (claim rs now tok w ttl) = Some r'"
  then have "claim rs now tok w ttl = (fst (claim rs now tok w ttl), Some r')"
    by (metis prod.collapse)
  from claim_takes_oldest[OF assms this] show "\<exists>r. claimable rs now r \<and> r' = lease_run now tok w ttl r \<and>
    map_of (rs_runs (fst (claim rs now tok w ttl))) (run_id r) = Some r' \<and>
    (\<forall>q. claimable rs now q \<longrightarrow> run_createdAt r \<le> run_createdAt q)" by simp
qed

theorem claim_oldest_or_none_witness:
  "\<exists>r. claimable demo_pending 5 r \<and> run_id r = ''a''"
proof -
  have inv: "run_inv demo_pending" using rs.reachable_inv demo_pending_reachable by blast
  have "\<exists>r'. snd (claim demo_pending 5 ''t'' ''w'' 10) = Some r' \<and> run_id r' = ''a''"
    by (simp add: demo_defs)
  with claim_oldest_or_none[OF inv, of 5 "''t''" "''w''" 10] show ?thesis by fastforce
qed

text \<open>C5: the retry bound. For the worker that holds the lease, failing a run with a retry asks for it to
  be queued again exactly when \<open>errorParks\<close> (the predicate the worker consults beforehand) says
  it would not park; requeued, the run is pending with one more counted error and no lease, and
  otherwise it is failed for good with the given error. Failing never counts past
  \<open>max 1 maxAttempts\<close> errors.\<close>

theorem fail_requeues_unless_errorParks:
  assumes "run_inv rs" and "map_of (rs_runs rs) i = Some r" and "run_leaseToken r = Some t"
    and "fail_run rs now i t err retry ms = (rs', requeued)"
  shows "(requeued \<longleftrightarrow> retry \<and> \<not> errorParks r (rs_maxClaims rs)) \<and>
    (\<exists>r'. map_of (rs_runs rs') i = Some r' \<and> run_errorAttempts r' = run_errorAttempts r + 1 \<and>
       run_errorAttempts r' \<le> max 1 (run_maxAttempts r') \<and> run_leaseToken r' = None \<and>
       run_status r' = (if requeued then Pending else Failed) \<and>
       (requeued \<longrightarrow> map_of (rs_retryAfter rs') i = Some (now + max 0 (nullish ms 0))) \<and>
       (\<not> requeued \<longrightarrow> map_option tr_reason (run_result r') = Some (Some err) \<and>
          run_finishedAt r' = Some now))"
proof -
  have d: "run_id r = i" "run_ok r" using run_invD[OF assms(1,2)] by auto
  then have st: "run_status r = Running" using assms(3) by (simp add: run_ok_def)
  let ?o = "\<lparr>ro_ifExpiredAt = None, ro_countsAsError = True, ro_retryAfterMs = ms\<rparr>"
  obtain applied where f: "retire rs now r err retry ?o = (rs', requeued, applied)"
    using assms(2-4) by (auto simp: fail_run_def split: prod.splits)
  have inv': "run_inv rs'" using run_inv_retire[OF assms(1,2), of now err retry ?o] f by (metis fst_conv)
  have "(requeued \<longleftrightarrow> retry \<and> \<not> errorParks r (rs_maxClaims rs)) \<and>
    (\<exists>r'. map_of (rs_runs rs') i = Some r' \<and> run_errorAttempts r' = run_errorAttempts r + 1 \<and>
       run_leaseToken r' = None \<and> run_status r' = (if requeued then Pending else Failed) \<and>
       (requeued \<longrightarrow> map_of (rs_retryAfter rs') i = Some (now + max 0 (nullish ms 0))) \<and>
       (\<not> requeued \<longrightarrow> map_option tr_reason (run_result r') = Some (Some err) \<and>
          run_finishedAt r' = Some now))"
    using f st d
    by (auto simp: retire_def Let_def errorParks_def overClaimed_def settle_def isTerminal_def
        split: if_splits option.splits)
  then show ?thesis using run_invD(3)[OF inv'] by (fastforce simp: run_ok_def)
qed

theorem fail_requeues_unless_errorParks_witness:
  "snd (fail_run demo_running 9 ''a'' ''t'' ''boom'' True None)"
proof -
  have inv: "run_inv demo_running" using rs.reachable_inv demo_running_reachable[of UNIV] by blast
  obtain rs' q where "fail_run demo_running 9 ''a'' ''t'' ''boom'' True None = (rs', q)" by fastforce
  with fail_requeues_unless_errorParks[OF inv demo_running_eq _ this] show ?thesis
    by (simp add: errorParks_def demo_running_def demo_pending_def claim_def enqueue_def
        createMemoryRunStore_def lease_def Let_def put_run_def pendingRuns_def sessionUnavailable_def
        demo_input_def)
qed

text \<open>C4: a reaping pass whose \<open>onRetired\<close> callbacks resolve handles exactly the runs whose lease had
  lapsed: each of them is reported once, is no longer running and has no lease; every other run is
  untouched, so no lease that had lapsed at \<open>now\<close> is left; and the two counters add up to the number
  of lapsed runs.\<close>

theorem reap_pass_clears_lapsed_leases:
  assumes "run_inv rs" and "\<And>s. resolves s"
    and "reapExpired rs now tok fin resolves maxAge = (rs', evs, ok)"
  shows "ok \<and>
    (\<forall>i r. map_of (rs_runs rs) i = Some r \<and> leaseLapsed r now \<longrightarrow>
       i \<in> set (map re_runId evs) \<and>
       (\<exists>r'. map_of (rs_runs rs') i = Some r' \<and> run_status r' \<noteq> Running \<and> run_leaseToken r' = None)) \<and>
    (\<forall>i r. map_of (rs_runs rs) i = Some r \<and> \<not> leaseLapsed r now \<longrightarrow> map_of (rs_runs rs') i = Some r) \<and>
    distinct (map re_runId evs) \<and>
    fst (reap_counts evs) + snd (reap_counts evs) =
      length (filter (\<lambda>r. leaseLapsed r now) (vals (rs_runs rs)))"
proof -
  let ?ids = "map run_id (filter (\<lambda>r. leaseLapsed r now) (vals (rs_runs rs)))"
  note ids = lapsed_ids[OF assms(1), where now = now]
  have lap: "\<exists>r. map_of (rs_runs rs) i = Some r \<and> run_id r = i \<and> leaseLapsed r now" if "i \<in> set ?ids" for i
    using that ids(2)[of i] run_invD(1)[OF assms(1)] by blast
  have loop: "reap_loop rs now tok fin resolves maxAge ?ids = (rs', evs, ok)"
    using assms(3) by (simp add: reapExpired_def)
  note p = reap_loop_pass[OF ids(1) lap assms(2) loop]
  have cnt: "fst (reap_counts evs) + snd (reap_counts evs) = length evs" for evs :: "reap_event list"
    by (induction evs) (auto simp: reap_counts_def, metis (full_types) reap_outcome.exhaust)
  have len: "length evs = length (filter (\<lambda>r. leaseLapsed r now) (vals (rs_runs rs)))"
    using p by (metis length_map)
  have rest: "map_of (rs_runs rs') i = Some r"
    if "map_of (rs_runs rs) i = Some r" "\<not> leaseLapsed r now" for i r
    using that p ids(2)[of i] by auto
  have gone: "i \<in> set (map re_runId evs) \<and> (\<exists>r'. map_of (rs_runs rs') i = Some r' \<and>
      run_status r' \<noteq> Running \<and> run_leaseToken r' = None)"
    if "map_of (rs_runs rs) i = Some r" "leaseLapsed r now" for i r
  proof -
    have "i \<in> set ?ids" using ids(2)[of i] that by blast
    with p show ?thesis by metis
  qed
  have "ok" "distinct (map re_runId evs)" using p ids(1) by simp_all
  moreover have "fst (reap_counts evs) + snd (reap_counts evs) =
      length (filter (\<lambda>r. leaseLapsed r now) (vals (rs_runs rs)))" using cnt[of evs] len by (rule trans)
  ultimately show ?thesis using rest gone by blast
qed

theorem reap_pass_clears_lapsed_leases_witness:
  "fst (reap_counts (fst (snd (reapExpired demo_running 20 (\<lambda>_. ''f'') (\<lambda>_. 21) (\<lambda>_. True) None)))) +
   snd (reap_counts (fst (snd (reapExpired demo_running 20 (\<lambda>_. ''f'') (\<lambda>_. 21) (\<lambda>_. True) None)))) = 1"
proof -
  have inv: "run_inv demo_running" using rs.reachable_inv demo_running_reachable[of UNIV] by blast
  obtain rs' evs ok where
    e: "reapExpired demo_running 20 (\<lambda>_. ''f'') (\<lambda>_. 21) (\<lambda>_. True) None = (rs', evs, ok)"
    by (metis prod_cases3)
  have "length (filter (\<lambda>r. leaseLapsed r 20) (vals (rs_runs demo_running))) = 1"
    by (simp add: demo_defs leaseLapsed_def)
  with reap_pass_clears_lapsed_leases[OF inv TrueI e] show ?thesis by (simp add: e)
qed

text \<open>The tool ledger replays exactly what was recorded: the output recorded for a call is found
  under the same run, attempt and call index, and recording it disturbs no other call, because the
  textual ledger key determines run id, attempt and call index.\<close>

theorem ledger_roundtrip:
  "ledger_begin (ledger_record rs rid a c out) rid' a' c' =
     (if rid' = rid \<and> a' = a \<and> c' = c then Some out else ledger_begin rs rid' a' c')"
proof -
  have "rid' = rid \<and> a' = a \<and> c' = c" if "ledger_key rid' a' c' = ledger_key rid a c"
  proof -
    from that have "(rid' @ CHR '':'' # show_nat a') @ CHR '':'' # show_nat c' =
        (rid @ CHR '':'' # show_nat a) @ CHR '':'' # show_nat c"
      by (simp add: ledger_key_def)
    from split_at_last[OF this show_nat_no_colon show_nat_no_colon]
    have "rid' @ CHR '':'' # show_nat a' = rid @ CHR '':'' # show_nat a"
      and c: "show_nat c' = show_nat c" by simp_all
    from split_at_last[OF this(1) show_nat_no_colon show_nat_no_colon] c show ?thesis
      by (auto dest: show_nat_inj)
  qed
  then show ?thesis by (auto simp: ledger_begin_def ledger_record_def)
qed

end
