(* ===== verification/Durable_Map.thy ===== *)
theory Durable_Map
  imports Prelude
begin

text \<open>
  The key-value store behind most services: the interface \<open>DurableMap\<close> of
  \<open>src/src/persistence/durable-map.ts\<close> and its in-memory implementation \<open>createMemoryMap\<close>. The locale
  \<open>durable_map\<close> states what clients rely on: reads see the last write, conditional writes are atomic,
  and an update whose function throws leaves the map alone. The interpretation at the end shows that
  the memory map keeps these laws.
\<close>

definition dm_entries :: "'v jsmap \<Rightarrow> 'v jsmap" where
  "dm_entries m = sort_key fst m"

definition dm_all :: "'v jsmap \<Rightarrow> 'v list" where
  "dm_all m = vals (dm_entries m)"

definition dm_get :: "'v jsmap \<Rightarrow> string \<Rightarrow> 'v option" where
  "dm_get m i = map_of m i"

definition dm_put :: "'v jsmap \<Rightarrow> string \<Rightarrow> 'v \<Rightarrow> 'v jsmap" where
  "dm_put m i v = AList.update i v m"

definition dm_putIfAbsent :: "'v jsmap \<Rightarrow> string \<Rightarrow> 'v \<Rightarrow> 'v jsmap \<times> 'v" where
  "dm_putIfAbsent m i v =
     (case map_of m i of Some x \<Rightarrow> (m, x) | None \<Rightarrow> (AList.update i v m, v))"

definition dm_insertIfAbsent :: "'v jsmap \<Rightarrow> string \<Rightarrow> 'v \<Rightarrow> 'v jsmap \<times> bool" where
  "dm_insertIfAbsent m i v =
     (case map_of m i of Some x \<Rightarrow> (m, False) | None \<Rightarrow> (AList.update i v m, True))"

text \<open>\<open>merge\<close> with the patch as the function \<open>applyPatch(_, patch)\<close>.\<close>

definition dm_merge :: "'v jsmap \<Rightarrow> string \<Rightarrow> ('v \<Rightarrow> 'v) \<Rightarrow> 'v jsmap \<times> 'v option" where
  "dm_merge m i patch =
     (case map_of m i of None \<Rightarrow> (m, None) | Some v \<Rightarrow> (AList.update i (patch v) m, Some (patch v)))"

text \<open>\<open>update\<close> with a function that may throw (\<^const>\<open>Inl\<close>): the throw happens before \<open>m.set\<close>.\<close>

definition dm_update :: "'v jsmap \<Rightarrow> string \<Rightarrow> ('v \<Rightarrow> 'e + 'v) \<Rightarrow> 'v jsmap \<times> ('e + 'v option)" where
  "dm_update m i f =
     (case map_of m i of
        None \<Rightarrow> (m, Inr None)
      | Some v \<Rightarrow> (case f v of Inl e \<Rightarrow> (m, Inl e) | Inr v' \<Rightarrow> (AList.update i v' m, Inr (Some v'))))"

definition dm_deleteIf :: "'v jsmap \<Rightarrow> string \<Rightarrow> ('v \<Rightarrow> bool) \<Rightarrow> 'v jsmap \<times> bool" where
  "dm_deleteIf m i p =
     (case map_of m i of
        None \<Rightarrow> (m, False)
      | Some v \<Rightarrow> if p v then (AList.delete i m, True) else (m, False))"

definition dm_delete :: "'v jsmap \<Rightarrow> string \<Rightarrow> 'v jsmap" where
  "dm_delete m i = AList.delete i m"

definition dm_take :: "'v jsmap \<Rightarrow> string \<Rightarrow> 'v jsmap \<times> 'v option" where
  "dm_take m i = (AList.delete i m, map_of m i)"

lemmas dm_defs = dm_get_def dm_put_def dm_putIfAbsent_def dm_insertIfAbsent_def dm_merge_def
  dm_update_def dm_deleteIf_def dm_delete_def dm_take_def

section \<open>The interface\<close>

locale durable_map =
  fixes get :: "'m \<Rightarrow> string \<Rightarrow> 'v option"
    and put :: "'m \<Rightarrow> string \<Rightarrow> 'v \<Rightarrow> 'm"
    and putIfAbsent :: "'m \<Rightarrow> string \<Rightarrow> 'v \<Rightarrow> 'm \<times> 'v"
    and update :: "'m \<Rightarrow> string \<Rightarrow> ('v \<Rightarrow> 'e + 'v) \<Rightarrow> 'm \<times> ('e + 'v option)"
    and del :: "'m \<Rightarrow> string \<Rightarrow> 'm"
  assumes get_put: "get (put m i v) j = (if j = i then Some v else get m j)"
    and get_putIfAbsent: "get (fst (putIfAbsent m i v)) j =
      (if j = i then Some (nullish (get m i) v) else get m j)"
    and putIfAbsent_val: "snd (putIfAbsent m i v) = nullish (get m i) v"
    and update_None: "get m i = None \<Longrightarrow> update m i f = (m, Inr None)"
    and update_throw: "get m i = Some v \<Longrightarrow> f v = Inl e \<Longrightarrow> update m i f = (m, Inl e)"
    and update_val: "get m i = Some v \<Longrightarrow> f v = Inr v' \<Longrightarrow> snd (update m i f) = Inr (Some v')"
    and get_update: "get m i = Some v \<Longrightarrow> f v = Inr v' \<Longrightarrow>
      get (fst (update m i f)) j = (if j = i then Some v' else get m j)"
    and get_del: "get (del m i) j = (if j = i then None else get m j)"
begin

text \<open>The idiom of the services: make sure the record exists, then update it atomically.\<close>

lemma init_update:
  assumes "put1 = fst (putIfAbsent m i v0)"
  shows "f (nullish (get m i) v0) = Inr v' \<Longrightarrow>
      snd (update put1 i f) = Inr (Some v') \<and> get (fst (update put1 i f)) i = Some v'"
    and "f (nullish (get m i) v0) = Inl e \<Longrightarrow>
      update put1 i f = (put1, Inl e) \<and> get put1 i = Some (nullish (get m i) v0)"
proof -
  have g: "get put1 i = Some (nullish (get m i) v0)" using assms by (simp add: get_putIfAbsent)
  show "f (nullish (get m i) v0) = Inr v' \<Longrightarrow>
      snd (update put1 i f) = Inr (Some v') \<and> get (fst (update put1 i f)) i = Some v'"
    using g by (simp add: update_val get_update)
  show "f (nullish (get m i) v0) = Inl e \<Longrightarrow>
      update put1 i f = (put1, Inl e) \<and> get put1 i = Some (nullish (get m i) v0)"
    using g by (simp add: update_throw)
qed

end

interpretation dm: durable_map dm_get dm_put dm_putIfAbsent dm_update dm_delete
  by unfold_locales (auto simp: dm_defs split: option.splits)

text \<open>The memory map keeps the contract of \<open>DurableMap\<close> that its conditional operations promise: an
  insertion happens exactly when the key is free, a conditional deletion exactly when the predicate
  holds of the stored value, and taking returns and removes the value; each touches only its key.\<close>

theorem durable_map_conditional_ops:
  "snd (dm_insertIfAbsent m i v) = (dm_get m i = None) \<and>
   dm_get (fst (dm_insertIfAbsent m i v)) j = (if j = i then Some (nullish (dm_get m i) v) else dm_get m j) \<and>
   snd (dm_deleteIf m i p) = (case dm_get m i of None \<Rightarrow> False | Some x \<Rightarrow> p x) \<and>
   dm_get (fst (dm_deleteIf m i p)) j = (if j = i \<and> snd (dm_deleteIf m i p) then None else dm_get m j) \<and>
   snd (dm_take m i) = dm_get m i \<and> dm_get (fst (dm_take m i)) j = (if j = i then None else dm_get m j)"
  by (auto simp: dm_defs split: option.splits)

end
