(* ===== verification/Background_Ownership.thy ===== *)
theory Background_Ownership
  imports Durable_Map
begin

text \<open>
  Which deployment owns background work: \<open>src/src/runs/background-ownership.ts\<close>. One record in a
  durable map holds the generation, the desired deployment and the enrolled instances; every change
  is an atomic update that may throw \<open>BackgroundOwnershipConflict\<close>. A request fingerprint, in the
  code the JSON text of its components, is the tuple of these components.
\<close>

section \<open>Data\<close>

datatype bo_member_state = Admitted | Relinquished | Drained

record bo_member =
  bm_instanceId :: string
  bm_deploymentId :: string
  bm_taskArn :: "string option"
  bm_generation :: int
  bm_state :: bo_member_state
  bm_retired :: bool
  bm_ready :: bool

datatype bo_fingerprint =
    FTransition int "string option" "string list option"
  | FRetire int "(string \<times> string option \<times> int) list"

record bo_ownership =
  bo_enabled :: bool
  bo_generation :: int
  bo_desired :: "string option"
  bo_lastRequestId :: "string option"
  bo_lastRequest :: "bo_fingerprint option"
  bo_members :: "bo_member list"

text \<open>\<open>BackgroundOwnershipConflict\<close> with its message, and the other error of the store.\<close>

datatype bo_error = Conflict string | Disappeared

definition bo_initial :: bo_ownership where
  "bo_initial = \<lparr>bo_enabled = False, bo_generation = 0, bo_desired = None, bo_lastRequestId = None,
     bo_lastRequest = None, bo_members = []\<rparr>"

section \<open>Operations on the record\<close>

definition find_member :: "bo_ownership \<Rightarrow> string \<Rightarrow> bo_member option" where
  "find_member s i = find (\<lambda>m. bm_instanceId m = i) (bo_members s)"

text \<open>Assigning to fields of the member that \<open>find\<close> returned.\<close>

fun set_first :: "('a \<Rightarrow> bool) \<Rightarrow> ('a \<Rightarrow> 'a) \<Rightarrow> 'a list \<Rightarrow> 'a list" where
  "set_first p f [] = []"
| "set_first p f (x # xs) = (if p x then f x # xs else x # set_first p f xs)"

definition set_member :: "string \<Rightarrow> (bo_member \<Rightarrow> bo_member) \<Rightarrow> bo_ownership \<Rightarrow> bo_ownership" where
  "set_member i f s = s\<lparr>bo_members := set_first (\<lambda>m. bm_instanceId m = i) f (bo_members s)\<rparr>"

definition memberOf :: "bo_ownership \<Rightarrow> string \<Rightarrow> bo_error + bo_member" where
  "memberOf s i =
     (case find_member s i of
        None \<Rightarrow> Inl (Conflict ''Instance is missing or retired'')
      | Some m \<Rightarrow> if bm_retired m then Inl (Conflict ''Instance is missing or retired'') else Inr m)"

definition generation_expected :: "bo_ownership \<Rightarrow> int \<Rightarrow> bool" where
  "generation_expected s expected \<longleftrightarrow>
     expected \<le> MAX_SAFE_INTEGER \<and> 0 \<le> expected \<and> bo_generation s = expected"

definition generation_conflict :: bo_error where
  "generation_conflict = Conflict ''Background ownership generation changed''"

definition bo_register :: "string \<Rightarrow> string \<Rightarrow> string option \<Rightarrow> bo_ownership \<Rightarrow> bo_error + bo_ownership" where
  "bo_register inst dep arn s =
     (if truthy arn \<and> list_ex (\<lambda>m. bm_taskArn m = arn \<and> bm_retired m) (bo_members s)
      then Inl (Conflict ''Task has already been retired'')
      else case find_member s inst of
        Some p \<Rightarrow>
          (if bm_deploymentId p \<noteq> dep \<or> bm_taskArn p \<noteq> arn \<or> bm_retired p
           then Inl (Conflict ''Instance identity cannot change'') else Inr s)
      | None \<Rightarrow>
          Inr (s\<lparr>bo_members := bo_members s @
            [\<lparr>bm_instanceId = inst, bm_deploymentId = dep, bm_taskArn = arn,
              bm_generation = bo_generation s, bm_state = Drained, bm_retired = False,
              bm_ready = False\<rparr>]\<rparr>))"

record bo_transition_request =
  bt_expectedGeneration :: int
  bt_requestId :: string
  bt_desired :: "string option"
  bt_bootstrap :: "string list option"

definition transition_fingerprint :: "bo_transition_request \<Rightarrow> bo_fingerprint" where
  "transition_fingerprint q =
     FTransition (bt_expectedGeneration q) (bt_desired q) (map_option sort (bt_bootstrap q))"

definition bootstrap_check :: "bo_ownership \<Rightarrow> string list option \<Rightarrow> bo_error option" where
  "bootstrap_check s bootstrap =
     (if \<not> bo_enabled s then
        (case bootstrap of
           None \<Rightarrow> Some (Conflict ''Bootstrap requires an exact nonempty task cohort'')
         | Some expected \<Rightarrow>
             (if expected = [] \<or> \<not> distinct expected
              then Some (Conflict ''Bootstrap requires an exact nonempty task cohort'')
              else let enrolled = filter (\<lambda>m. \<not> bm_retired m) (bo_members s)
                   in if list_ex (\<lambda>m. \<not> truthy (bm_taskArn m) \<or> the (bm_taskArn m) \<notin> set expected) enrolled \<or>
                         list_ex (\<lambda>a. \<not> list_ex (\<lambda>m. bm_taskArn m = Some a) enrolled) expected
                      then Some (Conflict ''Bootstrap task cohort does not match enrolled instances'')
                      else None))
      else if bootstrap \<noteq> None then Some (Conflict ''Ownership is already enabled'')
      else None)"

definition bo_transition :: "bo_transition_request \<Rightarrow> bo_ownership \<Rightarrow> bo_error + bo_ownership" where
  "bo_transition q s =
     (if bo_lastRequestId s = Some (bt_requestId q)
      then (if bo_lastRequest s \<noteq> Some (transition_fingerprint q) \<or>
               bo_generation s \<noteq> bt_expectedGeneration q + 1 \<or> bo_desired s \<noteq> bt_desired q
            then Inl (Conflict ''Request identity reused for a different transition'') else Inr s)
      else if \<not> generation_expected s (bt_expectedGeneration q) then Inl generation_conflict
      else case bootstrap_check s (bt_bootstrap q) of
        Some e \<Rightarrow> Inl e
      | None \<Rightarrow>
          (if bt_desired q \<noteq> None \<and>
              \<not> list_ex (\<lambda>m. \<not> bm_retired m \<and> Some (bm_deploymentId m) = bt_desired q) (bo_members s)
           then Inl (Conflict ''Desired deployment has no enrolled instances'')
           else Inr (s\<lparr>bo_enabled := True, bo_generation := bo_generation s + 1,
                      bo_desired := bt_desired q, bo_lastRequestId := Some (bt_requestId q),
                      bo_lastRequest := Some (transition_fingerprint q)\<rparr>)))"

definition bo_admit :: "string \<Rightarrow> int \<Rightarrow> bool \<Rightarrow> bo_ownership \<Rightarrow> bo_error + bo_ownership" where
  "bo_admit inst expected legacyEnabled s =
     (if \<not> generation_expected s expected then Inl generation_conflict
      else case memberOf s inst of
        Inl e \<Rightarrow> Inl e
      | Inr m \<Rightarrow>
          (if bo_enabled s \<and> bo_desired s \<noteq> Some (bm_deploymentId m)
           then Inl (Conflict ''Deployment is not the desired owner'')
           else if bo_enabled s \<and>
             list_ex (\<lambda>q. bm_state q = Admitted \<and> bm_generation q \<noteq> bo_generation s) (bo_members s)
           then Inl (Conflict ''Previous owners have not relinquished work'')
           else if \<not> bo_enabled s \<and> \<not> legacyEnabled
           then Inl (Conflict ''Legacy background work is disabled'')
           else Inr (set_member inst (\<lambda>m. m\<lparr>bm_generation := bo_generation s,
                       bm_state := Admitted, bm_ready := False\<rparr>) s)))"

definition bo_markReady :: "string \<Rightarrow> int \<Rightarrow> bo_ownership \<Rightarrow> bo_error + bo_ownership" where
  "bo_markReady inst generation s =
     (if \<not> generation_expected s generation then Inl generation_conflict
      else case memberOf s inst of
        Inl e \<Rightarrow> Inl e
      | Inr m \<Rightarrow>
          (if bm_generation m \<noteq> generation \<or> bm_state m \<noteq> Admitted \<or>
              (bo_enabled s \<and> bo_desired s \<noteq> Some (bm_deploymentId m))
           then Inl (Conflict ''Instance admission changed'')
           else Inr (set_member inst (\<lambda>m. m\<lparr>bm_ready := True\<rparr>) s)))"

text \<open>\<open>acknowledge\<close>: \<open>drained\<close> says whether \<open>next\<close> is \<open>"drained"\<close> rather than \<open>"relinquished"\<close>.\<close>

definition bo_acknowledge :: "string \<Rightarrow> int \<Rightarrow> bool \<Rightarrow> bo_ownership \<Rightarrow> bo_error + bo_ownership" where
  "bo_acknowledge inst generation drained s =
     (let nxt = (if drained then Drained else Relinquished)
      in case memberOf s inst of
        Inl e \<Rightarrow> Inl e
      | Inr m \<Rightarrow>
          (if bm_generation m \<noteq> generation then Inl (Conflict ''Instance admission changed'')
           else if bm_state m = Drained \<or> bm_state m = nxt then Inr s
           else if drained \<and> bm_state m \<noteq> Relinquished
           then Inl (Conflict ''Instance must relinquish before reporting drained'')
           else Inr (set_member inst (\<lambda>m. m\<lparr>bm_state := nxt, bm_ready := False\<rparr>) s)))"

type_synonym bo_proof = "string \<times> string option \<times> int"

definition proof_text :: "bo_proof \<Rightarrow> string" where
  "proof_text p = (case p of (i, a, g) \<Rightarrow> i @ '','' @ nullish a [] @ '','' @ show_int g)"

definition retire_fingerprint :: "int \<Rightarrow> bo_proof list \<Rightarrow> bo_fingerprint" where
  "retire_fingerprint expected proofs = FRetire expected (sort_key proof_text proofs)"

fun retire_members :: "bo_proof list \<Rightarrow> bo_ownership \<Rightarrow> bo_error + bo_ownership" where
  "retire_members [] s = Inr s"
| "retire_members ((i, a, g) # ps) s =
     (case find_member s i of
        None \<Rightarrow> Inl (Conflict ''Termination evidence does not match the enrolled instance'')
      | Some m \<Rightarrow>
          (if \<not> truthy a \<or> bm_taskArn m \<noteq> a \<or> bm_generation m \<noteq> g
           then Inl (Conflict ''Termination evidence does not match the enrolled instance'')
           else retire_members ps (set_member i (\<lambda>m. m\<lparr>bm_state := Drained, bm_retired := True,
                  bm_ready := False\<rparr>) s)))"

definition bo_retire :: "int \<Rightarrow> string \<Rightarrow> bo_proof list \<Rightarrow> bo_ownership \<Rightarrow> bo_error + bo_ownership" where
  "bo_retire expected requestId proofs s =
     (if \<not> generation_expected s expected then Inl generation_conflict
      else if bo_lastRequestId s = Some requestId
      then (if bo_lastRequest s \<noteq> Some (retire_fingerprint expected proofs)
            then Inl (Conflict ''Request identity reused for a different retirement'') else Inr s)
      else if proofs = [] then Inl (Conflict ''Retirement requires exact terminated members'')
      else case retire_members proofs s of
        Inl e \<Rightarrow> Inl e
      | Inr s' \<Rightarrow> Inr (s'\<lparr>bo_lastRequestId := Some requestId,
                       bo_lastRequest := Some (retire_fingerprint expected proofs)\<rparr>))"

section \<open>The store\<close>

definition bo_key :: string where
  "bo_key = ''ownership''"

definition bo_store_update ::
  "bo_ownership jsmap \<Rightarrow> (bo_ownership \<Rightarrow> bo_error + bo_ownership) \<Rightarrow>
   bo_ownership jsmap \<times> (bo_error + bo_ownership)" where
  "bo_store_update m change =
     (let (m', r) = dm_update (fst (dm_putIfAbsent m bo_key bo_initial)) bo_key change
      in (m', case r of Inl e \<Rightarrow> Inl e | Inr None \<Rightarrow> Inl Disappeared | Inr (Some s) \<Rightarrow> Inr s))"

definition bo_store_get :: "bo_ownership jsmap \<Rightarrow> bo_ownership jsmap \<times> bo_ownership" where
  "bo_store_get m =
     (case dm_get m bo_key of
        Some s \<Rightarrow> (m, s) | None \<Rightarrow> dm_putIfAbsent m bo_key bo_initial)"

section \<open>The ownership invariant\<close>

text \<open>Instances are enrolled once; admissions never outrun the generation; only admitted instances are
  ready, retired ones are drained; all admitted instances share one generation and, under enabled
  ownership, one deployment, which is the desired one once the generation is current.\<close>

definition member_ok :: "int \<Rightarrow> bo_member \<Rightarrow> bool" where
  "member_ok g m \<longleftrightarrow> 0 \<le> bm_generation m \<and> bm_generation m \<le> g \<and>
     (bm_ready m \<longrightarrow> bm_state m = Admitted) \<and> (bm_retired m \<longrightarrow> bm_state m = Drained)"

definition owners_ok :: "bo_ownership \<Rightarrow> bool" where
  "owners_ok s \<longleftrightarrow>
     (\<exists>g d. \<forall>m \<in> set (bo_members s). bm_state m = Admitted \<longrightarrow>
        bm_generation m = g \<and> (0 < g \<longrightarrow> bm_deploymentId m = d)) \<and>
     (bo_enabled s \<longrightarrow> (\<forall>m \<in> set (bo_members s). bm_state m = Admitted \<and>
        bm_generation m = bo_generation s \<longrightarrow> bo_desired s = Some (bm_deploymentId m)))"

definition bo_inv :: "bo_ownership \<Rightarrow> bool" where
  "bo_inv s \<longleftrightarrow>
     distinct (map bm_instanceId (bo_members s)) \<and>
     0 \<le> bo_generation s \<and> (\<not> bo_enabled s \<longrightarrow> bo_generation s = 0) \<and>
     (\<forall>m \<in> set (bo_members s). member_ok (bo_generation s) m) \<and> owners_ok s"

lemma bo_inv_initial: "bo_inv bo_initial"
  by (simp add: bo_inv_def bo_initial_def owners_ok_def)

lemma map_set_first:
  "(\<And>x. p x \<Longrightarrow> g (f x) = g x) \<Longrightarrow> map g (set_first p f xs) = map g xs"
  by (induction xs) auto

lemma set_first_mem:
  assumes "distinct (map g xs)" and "x \<in> set (set_first (\<lambda>y. g y = i) f xs)"
  shows "(\<exists>y \<in> set xs. g y = i \<and> x = f y) \<or> (x \<in> set xs \<and> g x \<noteq> i)"
  using assms
proof (induction xs)
  case (Cons a xs)
  show ?case
  proof (cases "g a = i")
    case True
    with Cons.prems have "x = f a \<or> x \<in> set xs" by simp
    then show ?thesis
    proof
      assume "x \<in> set xs"
      moreover from this Cons.prems(1) True have "g x \<noteq> i" by (auto simp: image_iff)
      ultimately show ?thesis by simp
    qed (use True in auto)
  next
    case False
    with Cons show ?thesis by auto
  qed
qed simp

lemma find_member_Some: "find_member s i = Some m \<Longrightarrow> m \<in> set (bo_members s) \<and> bm_instanceId m = i"
  by (auto simp: find_member_def dest: find_SomeD)

lemma memberOf_Inr: "memberOf s i = Inr m \<Longrightarrow>
    m \<in> set (bo_members s) \<and> bm_instanceId m = i \<and> \<not> bm_retired m"
  by (auto simp: memberOf_def dest: find_member_Some split: option.splits if_splits)

lemma distinct_member_eq:
  "distinct (map g xs) \<Longrightarrow> x \<in> set xs \<Longrightarrow> y \<in> set xs \<Longrightarrow> g x = g y \<Longrightarrow> x = y"
  by (simp add: distinct_map inj_on_def)

text \<open>Members of the list after an assignment to member \<open>m0\<close>: \<open>f m0\<close> and the others.\<close>

lemma set_member_mem:
  assumes "distinct (map bm_instanceId (bo_members s))" and "m0 \<in> set (bo_members s)"
    and "bm_instanceId m0 = i" and "x \<in> set (bo_members (set_member i f s))"
  shows "x = f m0 \<or> (x \<in> set (bo_members s) \<and> bm_instanceId x \<noteq> i)"
  using set_first_mem[OF assms(1)] assms distinct_member_eq[OF assms(1)]
  by (force simp: set_member_def)

lemma set_member_frame [simp]:
  "bo_enabled (set_member i f s) = bo_enabled s" "bo_generation (set_member i f s) = bo_generation s"
  "bo_desired (set_member i f s) = bo_desired s"
  by (simp_all add: set_member_def)

lemma set_member_ids:
  "(\<And>m. bm_instanceId (f m) = bm_instanceId m) \<Longrightarrow>
     map bm_instanceId (bo_members (set_member i f s)) = map bm_instanceId (bo_members s)"
  by (simp add: set_member_def map_set_first)

text \<open>A member leaves the admitted state, or never was in it.\<close>

lemma bo_inv_withdraw_member:
  assumes inv: "bo_inv s" and m: "m \<in> set (bo_members s)" "bm_instanceId m = i"
    and f: "\<And>m. bm_instanceId (f m) = bm_instanceId m" "member_ok (bo_generation s) (f m)"
      "bm_state (f m) \<noteq> Admitted"
  shows "bo_inv (set_member i f s)"
proof -
  have d: "distinct (map bm_instanceId (bo_members s))" using inv by (simp add: bo_inv_def)
  note mem = set_member_mem[OF d m, of _ f]
  have pw: "member_ok (bo_generation s) x" if "x \<in> set (bo_members (set_member i f s))" for x
    using mem[OF that] f(2) inv by (auto simp: bo_inv_def)
  have old: "x \<in> set (bo_members s)" if "x \<in> set (bo_members (set_member i f s))" "bm_state x = Admitted" for x
    using mem[OF that(1)] that(2) f(3) by auto
  have "owners_ok s" using inv by (simp add: bo_inv_def)
  then have "owners_ok (set_member i f s)"
    unfolding owners_ok_def using old by (simp, meson)
  with inv pw d set_member_ids[OF f(1)] show ?thesis unfolding bo_inv_def by simp
qed

lemma bo_inv_admit:
  assumes inv: "bo_inv s" and a: "bo_admit inst e leg s = Inr s'"
  shows "bo_inv s'"
proof -
  from a obtain m where m: "memberOf s inst = Inr m"
    and des: "bo_enabled s \<Longrightarrow> bo_desired s = Some (bm_deploymentId m)"
    and none: "bo_enabled s \<Longrightarrow> \<forall>q \<in> set (bo_members s). bm_state q = Admitted \<longrightarrow> bm_generation q = bo_generation s"
    and s': "s' = set_member inst (\<lambda>m. m\<lparr>bm_generation := bo_generation s, bm_state := Admitted,
      bm_ready := False\<rparr>) s" (is "_ = set_member inst ?f s")
    by (auto simp: bo_admit_def list_ex_iff split: if_splits sum.splits)
  have mm: "m \<in> set (bo_members s)" "bm_instanceId m = inst" "\<not> bm_retired m" using memberOf_Inr[OF m] by auto
  have d: "distinct (map bm_instanceId (bo_members s))" and g0: "0 \<le> bo_generation s"
    and mok: "\<And>x. x \<in> set (bo_members s) \<Longrightarrow> member_ok (bo_generation s) x"
    and own: "owners_ok s" and dis: "\<not> bo_enabled s \<Longrightarrow> bo_generation s = 0"
    using inv by (simp_all add: bo_inv_def)
  note mem = set_member_mem[OF d mm(1,2), of _ ?f, folded s']
  have pw: "member_ok (bo_generation s) x" if "x \<in> set (bo_members s')" for x
    using mem[OF that] mok g0 mm(3) by (auto simp: member_ok_def)
  have gen: "bm_generation x = bo_generation s \<and> (bo_enabled s \<longrightarrow> bm_deploymentId x = bm_deploymentId m)"
    if "x \<in> set (bo_members s')" "bm_state x = Admitted" for x
  proof (cases "x = ?f m")
    case False
    with that mem have x: "x \<in> set (bo_members s)" by auto
    show ?thesis
    proof (cases "bo_enabled s")
      case True
      then have g: "bm_generation x = bo_generation s" using none x that(2) by simp
      with own True x that(2) have "bo_desired s = Some (bm_deploymentId x)" by (simp add: owners_ok_def)
      with des[OF True] g show ?thesis by simp
    next
      case False
      with dis mok[OF x] show ?thesis by (simp add: member_ok_def)
    qed
  qed simp
  have "owners_ok s'"
    unfolding owners_ok_def
  proof
    show "\<exists>g d. \<forall>x \<in> set (bo_members s'). bm_state x = Admitted \<longrightarrow>
        bm_generation x = g \<and> (0 < g \<longrightarrow> bm_deploymentId x = d)"
      using gen dis by (metis less_irrefl)
    show "bo_enabled s' \<longrightarrow> (\<forall>x \<in> set (bo_members s'). bm_state x = Admitted \<and>
        bm_generation x = bo_generation s' \<longrightarrow> bo_desired s' = Some (bm_deploymentId x))"
      using gen des s' by simp
  qed
  moreover have "distinct (map bm_instanceId (bo_members s'))" using d set_member_ids[of ?f] s' by simp
  ultimately show ?thesis using pw g0 dis s' unfolding bo_inv_def by simp
qed

lemma bo_inv_register:
  assumes inv: "bo_inv s" and r: "bo_register inst dep arn s = Inr s'"
  shows "bo_inv s'"
proof (cases "find_member s inst")
  case None
  then have new: "inst \<notin> bm_instanceId ` set (bo_members s)"
    unfolding find_member_def by (metis (mono_tags, lifting) find_NoneD imageE)
  from r None have s': "s' = s\<lparr>bo_members := bo_members s @
      [\<lparr>bm_instanceId = inst, bm_deploymentId = dep, bm_taskArn = arn,
        bm_generation = bo_generation s, bm_state = Drained, bm_retired = False, bm_ready = False\<rparr>]\<rparr>"
    by (simp add: bo_register_def split: if_splits)
  show ?thesis using inv new unfolding s' bo_inv_def owners_ok_def by (auto simp: member_ok_def)
next
  case (Some p)
  with r have "s' = s" by (simp add: bo_register_def split: if_splits)
  with inv show ?thesis by simp
qed

lemma bo_inv_transition:
  assumes inv: "bo_inv s" and r: "bo_transition q s = Inr s'"
  shows "bo_inv s'"
proof (cases "s' = s")
  case False
  then have s': "s' = s\<lparr>bo_enabled := True, bo_generation := bo_generation s + 1,
      bo_desired := bt_desired q, bo_lastRequestId := Some (bt_requestId q),
      bo_lastRequest := Some (transition_fingerprint q)\<rparr>"
    using r by (auto simp: bo_transition_def split: if_splits option.splits)
  have le: "bm_generation m \<le> bo_generation s" if "m \<in> set (bo_members s)" for m
    using inv that by (simp add: bo_inv_def member_ok_def)
  have "owners_ok s'"
    using inv le unfolding s' bo_inv_def owners_ok_def by fastforce
  moreover have "member_ok (bo_generation s + 1) m" if "m \<in> set (bo_members s)" for m
    using inv that by (auto simp: bo_inv_def member_ok_def)
  ultimately show ?thesis using inv unfolding s' bo_inv_def by auto
qed (use inv in simp)

lemma bo_inv_markReady:
  assumes inv: "bo_inv s" and r: "bo_markReady inst g s = Inr s'"
  shows "bo_inv s'"
proof -
  from r obtain m where m: "memberOf s inst = Inr m" "bm_state m = Admitted"
    and s': "s' = set_member inst (\<lambda>m. m\<lparr>bm_ready := True\<rparr>) s" (is "_ = set_member inst ?f s")
    by (auto simp: bo_markReady_def split: if_splits sum.splits)
  have mm: "m \<in> set (bo_members s)" "bm_instanceId m = inst" using memberOf_Inr[OF m(1)] by auto
  have d: "distinct (map bm_instanceId (bo_members s))" using inv by (simp add: bo_inv_def)
  note mem = set_member_mem[OF d mm, of _ ?f, folded s']
  have pre: "\<exists>y \<in> set (bo_members s). bm_state y = bm_state x \<and> bm_generation y = bm_generation x \<and>
      bm_deploymentId y = bm_deploymentId x" if "x \<in> set (bo_members s')" for x
    using mem[OF that] mm by force
  have "owners_ok s" using inv by (simp add: bo_inv_def)
  then have "owners_ok s'" unfolding owners_ok_def using pre s' by (simp, metis)
  moreover have "member_ok (bo_generation s) x" if "x \<in> set (bo_members s')" for x
    using mem[OF that] inv mm m(2) by (auto simp: bo_inv_def member_ok_def)
  moreover have "distinct (map bm_instanceId (bo_members s'))" using d set_member_ids[of ?f] s' by simp
  ultimately show ?thesis using inv s' unfolding bo_inv_def by simp
qed

lemma bo_inv_acknowledge:
  assumes inv: "bo_inv s" and r: "bo_acknowledge inst g dr s = Inr s'"
  shows "bo_inv s'"
proof (cases "s' = s")
  case False
  with r obtain m where m: "memberOf s inst = Inr m"
    and s': "s' = set_member inst (\<lambda>m. m\<lparr>bm_state := (if dr then Drained else Relinquished), bm_ready := False\<rparr>) s"
    by (auto simp: bo_acknowledge_def Let_def split: if_splits sum.splits)
  have mm: "m \<in> set (bo_members s)" "bm_instanceId m = inst" "\<not> bm_retired m" using memberOf_Inr[OF m] by auto
  show ?thesis unfolding s'
    by (rule bo_inv_withdraw_member[OF inv mm(1,2)])
      (use inv mm in \<open>auto simp: bo_inv_def member_ok_def\<close>)
qed (use inv in simp)

lemma bo_inv_retire_members: "bo_inv s \<Longrightarrow> retire_members ps s = Inr s' \<Longrightarrow> bo_inv s'"
proof (induction ps s rule: retire_members.induct)
  case (2 i a g ps s)
  from 2(3) obtain m where m: "find_member s i = Some m" "truthy a" "bm_taskArn m = a" "bm_generation m = g"
    and rest: "retire_members ps (set_member i (\<lambda>m. m\<lparr>bm_state := Drained, bm_retired := True,
      bm_ready := False\<rparr>) s) = Inr s'"
    by (auto split: option.splits if_splits)
  have mm: "m \<in> set (bo_members s)" "bm_instanceId m = i" using find_member_Some[OF m(1)] by auto
  have "bo_inv (set_member i (\<lambda>m. m\<lparr>bm_state := Drained, bm_retired := True, bm_ready := False\<rparr>) s)"
    by (rule bo_inv_withdraw_member[OF 2(2) mm])
      (use 2(2) mm in \<open>auto simp: bo_inv_def member_ok_def\<close>)
  with 2(1)[OF m(1) _ this rest] m show ?case by simp
qed simp

lemma bo_inv_retire:
  assumes inv: "bo_inv s" and r: "bo_retire e rid ps s = Inr s'"
  shows "bo_inv s'"
proof (cases "s' = s")
  case False
  with r obtain s1 where "retire_members ps s = Inr s1"
    and s': "s' = s1\<lparr>bo_lastRequestId := Some rid, bo_lastRequest := Some (retire_fingerprint e ps)\<rparr>"
    by (auto simp: bo_retire_def split: if_splits sum.splits)
  with bo_inv_retire_members[OF inv] have "bo_inv s1" by blast
  then show ?thesis unfolding s' bo_inv_def owners_ok_def by simp
qed (use inv in simp)

section \<open>Reachable ownership states\<close>

inductive bo_step :: "bo_ownership \<Rightarrow> bo_ownership \<Rightarrow> bool" where
  register: "bo_register inst dep arn s = Inr s' \<Longrightarrow> bo_step s s'"
| transition: "bo_transition q s = Inr s' \<Longrightarrow> bo_step s s'"
| admit: "bo_admit inst e leg s = Inr s' \<Longrightarrow> bo_step s s'"
| markReady: "bo_markReady inst e s = Inr s' \<Longrightarrow> bo_step s s'"
| acknowledge: "bo_acknowledge inst e dr s = Inr s' \<Longrightarrow> bo_step s s'"
| retire: "bo_retire e rid ps s = Inr s' \<Longrightarrow> bo_step s s'"

lemma bo_step_inv: "bo_step s s' \<Longrightarrow> bo_inv s \<Longrightarrow> bo_inv s'"
  by (induction rule: bo_step.induct)
    (blast intro: bo_inv_register bo_inv_transition bo_inv_admit bo_inv_markReady bo_inv_acknowledge
      bo_inv_retire)+

interpretation bo: invariant_system "\<lambda>s. s = bo_initial" bo_step bo_inv
  by unfold_locales (auto intro: bo_inv_initial bo_step_inv)

section \<open>Properties\<close>

text \<open>C7: background work has one owner at a time. In every reachable ownership state all admitted
  instances share one generation; if that generation was established by a transition they all
  belong to the same deployment; and once ownership is enabled, an instance admitted in the current
  generation belongs to the desired deployment.\<close>

theorem background_single_owner:
  assumes "bo_step\<^sup>*\<^sup>* bo_initial s" and "m \<in> set (bo_members s)" and "q \<in> set (bo_members s)"
    and "bm_state m = Admitted" and "bm_state q = Admitted"
  shows "bm_generation m = bm_generation q \<and>
    (0 < bm_generation m \<longrightarrow> bm_deploymentId m = bm_deploymentId q) \<and>
    (bo_enabled s \<and> bm_generation m = bo_generation s \<longrightarrow> bo_desired s = Some (bm_deploymentId m)) \<and>
    bm_generation m \<le> bo_generation s \<and> \<not> bm_retired m"
proof -
  have inv: "bo_inv s" using bo.reachable_inv assms(1) by blast
  then obtain g d where "\<forall>m \<in> set (bo_members s). bm_state m = Admitted \<longrightarrow>
      bm_generation m = g \<and> (0 < g \<longrightarrow> bm_deploymentId m = d)"
    by (auto simp: bo_inv_def owners_ok_def)
  with assms have "bm_generation m = g" "bm_generation q = g"
    "0 < g \<longrightarrow> bm_deploymentId m = d" "0 < g \<longrightarrow> bm_deploymentId q = d" by auto
  moreover have "bo_enabled s \<and> bm_generation m = bo_generation s \<longrightarrow> bo_desired s = Some (bm_deploymentId m)"
    using inv assms by (simp add: bo_inv_def owners_ok_def)
  moreover have "member_ok (bo_generation s) m" using inv assms by (simp add: bo_inv_def)
  ultimately show ?thesis using assms(4) by (auto simp: member_ok_def)
qed

definition demo_registered :: bo_ownership where
  "demo_registered = bo_initial\<lparr>bo_members := [\<lparr>bm_instanceId = ''i'', bm_deploymentId = ''d'',
     bm_taskArn = Some ''arn'', bm_generation = 0, bm_state = Drained, bm_retired = False,
     bm_ready = False\<rparr>]\<rparr>"

definition demo_transition_request :: bo_transition_request where
  "demo_transition_request = \<lparr>bt_expectedGeneration = 0, bt_requestId = ''r1'', bt_desired = Some ''d'',
     bt_bootstrap = Some [''arn'']\<rparr>"

definition demo_enabled :: bo_ownership where
  "demo_enabled = demo_registered\<lparr>bo_enabled := True, bo_generation := 1, bo_desired := Some ''d'',
     bo_lastRequestId := Some ''r1'', bo_lastRequest := Some (transition_fingerprint demo_transition_request)\<rparr>"

lemmas demo_ownership_defs = demo_registered_def demo_transition_request_def demo_enabled_def bo_initial_def
  bo_register_def find_member_def bo_transition_def bootstrap_check_def bo_admit_def memberOf_def
  generation_expected_def MAX_SAFE_INTEGER_def set_member_def Let_def

lemma demo_register: "bo_register ''i'' ''d'' (Some ''arn'') bo_initial = Inr demo_registered"
  by (simp add: demo_ownership_defs)

lemma demo_transition: "bo_transition demo_transition_request demo_registered = Inr demo_enabled"
  by (simp add: demo_ownership_defs)

lemma demo_enabled_reachable: "bo_step\<^sup>*\<^sup>* bo_initial demo_enabled"
proof -
  have "bo_step bo_initial demo_registered" by (rule bo_step.register[OF demo_register])
  moreover have "bo_step demo_registered demo_enabled" by (rule bo_step.transition[OF demo_transition])
  ultimately show ?thesis by (metis r_into_rtranclp rtranclp.rtrancl_into_rtrancl)
qed

theorem background_single_owner_witness:
  "\<exists>(s :: bo_ownership) (m :: bo_member).
     m \<in> set (bo_members s) \<and> bm_state m = Admitted \<and> bo_desired s = Some (bm_deploymentId m)"
proof -
  obtain s where s: "bo_admit ''i'' 1 False demo_enabled = Inr s" "bo_enabled s" "bo_generation s = 1"
    and "\<exists>m. m \<in> set (bo_members s) \<and> bm_state m = Admitted \<and> bm_generation m = 1"
    by (simp add: demo_ownership_defs)
  then obtain m where m: "m \<in> set (bo_members s)" "bm_state m = Admitted" "bm_generation m = 1" by blast
  have "bo_step demo_enabled s" by (rule bo_step.admit[OF s(1)])
  with demo_enabled_reachable have "bo_step\<^sup>*\<^sup>* bo_initial s" by (rule rtranclp.rtrancl_into_rtrancl)
  from background_single_owner[OF this m(1) m(1) m(2) m(2)] m s
  have "bo_desired s = Some (bm_deploymentId m)" by simp
  with m show ?thesis by blast
qed

text \<open>A transition takes effect once. Repeating an accepted transition request with the same
  request id is answered with the unchanged state, the generation grows by exactly one at the first
  application, and a different request under the same id is refused.\<close>

theorem transition_idempotent:
  assumes "bo_transition q s = Inr s'" and "bo_lastRequestId s \<noteq> Some (bt_requestId q)"
  shows "bo_generation s' = bo_generation s + 1 \<and> bo_enabled s' \<and> bo_desired s' = bt_desired q \<and>
    bo_members s' = bo_members s \<and> bo_transition q s' = Inr s' \<and>
    (bt_requestId q' = bt_requestId q \<and> transition_fingerprint q' \<noteq> transition_fingerprint q \<longrightarrow>
       (\<exists>e. bo_transition q' s' = Inl e))"
proof -
  have s': "s' = s\<lparr>bo_enabled := True, bo_generation := bo_generation s + 1,
      bo_desired := bt_desired q, bo_lastRequestId := Some (bt_requestId q),
      bo_lastRequest := Some (transition_fingerprint q)\<rparr>"
    and g: "bo_generation s = bt_expectedGeneration q"
    using assms by (auto simp: bo_transition_def generation_expected_def split: if_splits option.splits)
  show ?thesis unfolding s' using g by (auto simp: bo_transition_def)
qed

theorem transition_idempotent_witness:
  "bo_transition demo_transition_request demo_enabled = Inr demo_enabled"
  using transition_idempotent[OF demo_transition] by (simp add: demo_registered_def bo_initial_def)

text \<open>An ownership update is atomic in the durable map: a change that throws leaves the stored record
  as it was (or at its initial value when there was none) and the error is returned; one that
  succeeds stores exactly the new record and returns it; no other key is touched.\<close>

theorem ownership_update_atomic:
  "case change (nullish (dm_get m bo_key) bo_initial) of
     Inl e \<Rightarrow> snd (bo_store_update m change) = Inl e \<and>
       dm_get (fst (bo_store_update m change)) bo_key = Some (nullish (dm_get m bo_key) bo_initial)
   | Inr s \<Rightarrow> snd (bo_store_update m change) = Inr s \<and>
       dm_get (fst (bo_store_update m change)) bo_key = Some s"
proof (cases "change (nullish (dm_get m bo_key) bo_initial)")
  case (Inl e)
  then show ?thesis
    using dm.init_update(2)[OF refl, where f = change and i = bo_key and m = m and ?v0.0 = bo_initial]
    by (simp add: bo_store_update_def)
next
  case (Inr s)
  then show ?thesis
    using dm.init_update(1)[OF refl, where f = change and i = bo_key and m = m and ?v0.0 = bo_initial]
    by (simp add: bo_store_update_def split_beta)
qed

end
