(* ===== verification/Session_Model.thy ===== *)
theory Session_Model
  imports Json
begin

text \<open>
  The data of a session and the pure functions on it: \<open>src/src/sessions/session-store.ts\<close>,
  \<open>src/src/sessions/entry-search.ts\<close> and the session types of \<open>src/src/types.ts\<close>. An entry type is the
  string the code uses, since a tape row may carry any string and is cast without a check. The
  ellipsis character, which is not a code unit below 256, is a flag beside the text it would end.
\<close>

section \<open>Entries and context windows\<close>

record session_entry =
  se_sessionId :: string
  se_seq :: int
  se_parentSeq :: "int option"
  se_type :: string
  se_payload :: json
  se_scopeLabel :: string
  se_createdAt :: int

definition contextSummaryPayload :: "session_entry \<Rightarrow> (int \<times> string) option" where
  "contextSummaryPayload e =
     (if se_type e = ''system'' \<and> jget (se_payload e) ''kind'' = Some (JStr ''context_summary'')
      then (case (jnum (jget (se_payload e) ''throughSeq''), jstr (jget (se_payload e) ''text'')) of
              (Some n, Some t) \<Rightarrow> Some (n, t) | _ \<Rightarrow> None)
      else None)"

definition createContextSummaryPayload :: "int \<Rightarrow> string \<Rightarrow> json" where
  "createContextSummaryPayload throughSeq txt =
     JObj [(''kind'', JStr ''context_summary''), (''throughSeq'', JNum throughSeq), (''text'', JStr txt)]"

record context_window =
  cw_entries :: "session_entry list"
  cw_totalEntries :: nat
  cw_hasSecurityTaint :: bool

definition entrySecurityTainted :: "session_entry \<Rightarrow> bool" where
  "entrySecurityTainted e = jtrue (jget (se_payload e) ''securityTainted'')"

definition latest_summary :: "session_entry list \<Rightarrow> (int \<times> string) option" where
  "latest_summary es =
     fold (\<lambda>e latest. case contextSummaryPayload e of Some p \<Rightarrow> Some p | None \<Rightarrow> latest) es None"

definition contextWindowFromEntries :: "session_entry list \<Rightarrow> context_window" where
  "contextWindowFromEntries es =
     \<lparr>cw_entries = (case latest_summary es of
         None \<Rightarrow> es | Some (through, _) \<Rightarrow> filter (\<lambda>e. through < se_seq e) es),
      cw_totalEntries = length es,
      cw_hasSecurityTaint = list_ex entrySecurityTainted es\<rparr>"

section \<open>The tape\<close>

datatype tape_kind = TMessage | TContextEvent | TAnnotation

record tape_record =
  tr_kind :: tape_kind
  tr_payload :: json
  tr_scopeLabel :: string
  tr_harness :: "string option"
  tr_meta :: "json option"
  tr_entrySeq :: "int option"
  tr_coversEntrySeq :: "int option"
  tr_sessionId :: string
  tr_seq :: int
  tr_createdAt :: int

text \<open>A \<open>NewTapeRecord\<close> is given by its fields; \<open>new_tape\<close> stamps it with session, position and time.\<close>

record new_tape_record =
  nt_kind :: tape_kind
  nt_payload :: json
  nt_scopeLabel :: string
  nt_harness :: "string option"
  nt_meta :: "json option"
  nt_entrySeq :: "int option"
  nt_coversEntrySeq :: "int option"

definition stamp_tape :: "new_tape_record \<Rightarrow> string \<Rightarrow> nat \<Rightarrow> int \<Rightarrow> tape_record" where
  "stamp_tape r sid n t =
     \<lparr>tr_kind = nt_kind r, tr_payload = nt_payload r, tr_scopeLabel = nt_scopeLabel r,
      tr_harness = nt_harness r, tr_meta = nt_meta r, tr_entrySeq = nt_entrySeq r,
      tr_coversEntrySeq = nt_coversEntrySeq r, tr_sessionId = sid, tr_seq = int n, tr_createdAt = t\<rparr>"

definition TAPE_RENDER_VERSION :: int where
  "TAPE_RENDER_VERSION = 1"

definition tapeCheckpointPayload ::
    "string \<Rightarrow> (string \<times> json \<times> int) option \<Rightarrow> int option \<Rightarrow> json" where
  "tapeCheckpointPayload bound entry spanStart =
     JObj ([(bound, JBool True), (''render'', JNum TAPE_RENDER_VERSION)] @
       (case entry of None \<Rightarrow> []
        | Some (ty, p, at) \<Rightarrow>
            [(''entry'', JObj [(''type'', JStr ty), (''payload'', p), (''at'', JNum at)])]) @
       (case spanStart of None \<Rightarrow> [] | Some n \<Rightarrow> [(''spanStart'', JNum n)]))"

definition tapeEntryMirrorRecord :: "session_entry \<Rightarrow> new_tape_record" where
  "tapeEntryMirrorRecord e =
     \<lparr>nt_kind = TAnnotation,
      nt_payload = JObj [(''entry'', JObj [(''type'', JStr (se_type e)), (''payload'', se_payload e),
        (''at'', JNum (se_createdAt e))])],
      nt_scopeLabel = se_scopeLabel e, nt_harness = None, nt_meta = None,
      nt_entrySeq = Some (se_seq e), nt_coversEntrySeq = None\<rparr>"

definition tapeTranscriptEntryRecord :: "session_entry \<Rightarrow> new_tape_record" where
  "tapeTranscriptEntryRecord e =
     \<lparr>nt_kind = TAnnotation,
      nt_payload = JObj [(''event'', JStr ''transcript_entry''),
        (''entry'', JObj [(''type'', JStr (se_type e)), (''payload'', se_payload e),
          (''at'', JNum (se_createdAt e)),
          (''parentSeq'', (case se_parentSeq e of None \<Rightarrow> JNull | Some n \<Rightarrow> JNum n))])],
      nt_scopeLabel = se_scopeLabel e, nt_harness = None, nt_meta = None,
      nt_entrySeq = Some (se_seq e), nt_coversEntrySeq = None\<rparr>"

text \<open>\<open>entry.parentSeq\<close> must be \<open>null\<close> or a number; absent it is \<open>undefined\<close> and the row is skipped.\<close>

definition tape_parent :: "json option \<Rightarrow> int option option" where
  "tape_parent v = (case v of Some JNull \<Rightarrow> Some None | Some (JNum n) \<Rightarrow> Some (Some n) | _ \<Rightarrow> None)"

definition transcriptEntryFromTape :: "tape_record \<Rightarrow> session_entry option" where
  "transcriptEntryFromTape row =
     (case (tr_kind row, tr_entrySeq row) of
        (TAnnotation, Some n) \<Rightarrow>
          (if jget (tr_payload row) ''event'' \<noteq> Some (JStr ''transcript_entry'') then None
           else case jget (tr_payload row) ''entry'' of
             None \<Rightarrow> None
           | Some entry \<Rightarrow>
             (case (jstr (jget entry ''type''), jnum (jget entry ''at''), tape_parent (jget entry ''parentSeq'')) of
                (Some ty, Some at, Some parent) \<Rightarrow>
                  Some \<lparr>se_sessionId = tr_sessionId row, se_seq = n, se_parentSeq = parent,
                    se_type = ty, se_payload = nullish (jget entry ''payload'') JNull,
                    se_scopeLabel = tr_scopeLabel row, se_createdAt = at\<rparr>
              | _ \<Rightarrow> None))
      | _ \<Rightarrow> None)"

lemma transcript_roundtrip [simp]:
  "transcriptEntryFromTape (stamp_tape (tapeTranscriptEntryRecord e) (se_sessionId e) n t) = Some e"
  by (cases "se_parentSeq e")
    (simp_all add: transcriptEntryFromTape_def stamp_tape_def tapeTranscriptEntryRecord_def tape_parent_def)

section \<open>Participants\<close>

record window =
  w_validFrom :: int
  w_validTo :: "int option"
  w_validFromSeq :: "int option"
  w_validToSeq :: "int option"
  w_title :: "string option"
  w_archived :: bool
  w_pinned :: bool
  w_color :: "string option"

definition entryWithinTenure :: "int \<Rightarrow> int \<Rightarrow> window \<Rightarrow> bool" where
  "entryWithinTenure seq createdAt w =
     (let fromOk = (case w_validFromSeq w of Some f \<Rightarrow> f \<le> seq | None \<Rightarrow> w_validFrom w \<le> createdAt);
          toOk = (case w_validToSeq w of
                    Some t \<Rightarrow> seq < t
                  | None \<Rightarrow> (case w_validTo w of None \<Rightarrow> True | Some t \<Rightarrow> createdAt < t))
      in fromOk \<and> toOk)"

section \<open>Where a session comes from\<close>

datatype session_origin = OConversation | OCron | OWebhook | OMonitor
datatype session_category = CConversation | CBackground

definition no_colon_word :: "string \<Rightarrow> bool" where
  "no_colon_word s \<longleftrightarrow> s \<noteq> [] \<and> CHR '':'' \<notin> set s"

text \<open>\<open>^agent:main:<origin>:([^:]+)$\<close>: the captured id.\<close>

definition match_stable :: "string \<Rightarrow> string \<Rightarrow> string option" where
  "match_stable origin s =
     (let p = ''agent:main:'' @ origin @ '':''
      in if starts_with s p \<and> no_colon_word (drop (length p) s) then Some (drop (length p) s) else None)"

text \<open>\<open>^<origin>:([^:]+)(:.+)?$\<close>; the dot matches no line terminator.\<close>

definition match_legacy :: "string \<Rightarrow> string \<Rightarrow> string option" where
  "match_legacy origin s =
     (let p = origin @ '':'';
          r = drop (length p) s;
          w = takeWhile (\<lambda>c. c \<noteq> CHR '':'') r;
          tail = drop (length w) r
      in if starts_with s p \<and> w \<noteq> [] \<and>
            (tail = [] \<or> (tl tail \<noteq> [] \<and> list_all (\<lambda>c. c \<noteq> CHR 0x0A \<and> c \<noteq> CHR 0x0D) (tl tail)))
         then Some w else None)"

definition sessionOrigin :: "string \<Rightarrow> session_origin" where
  "sessionOrigin ref =
     (if match_stable ''cron'' ref \<noteq> None then OCron
      else if match_stable ''webhook'' ref \<noteq> None then OWebhook
      else if match_stable ''monitor'' ref \<noteq> None then OMonitor
      else if match_legacy ''cron'' ref \<noteq> None then OCron
      else if match_legacy ''webhook'' ref \<noteq> None then OWebhook
      else if match_legacy ''monitor'' ref \<noteq> None then OMonitor
      else OConversation)"

definition sessionCategory :: "session_origin \<Rightarrow> session_category" where
  "sessionCategory origin = (if origin = OConversation then CConversation else CBackground)"

definition cronIdOf :: "string \<Rightarrow> string option" where
  "cronIdOf ref =
     (case match_stable ''cron'' ref of Some i \<Rightarrow> Some i | None \<Rightarrow> match_legacy ''cron'' ref)"

fun origin_name :: "session_origin \<Rightarrow> string" where
  "origin_name OConversation = ''conversation''"
| "origin_name OCron = ''cron''"
| "origin_name OWebhook = ''webhook''"
| "origin_name OMonitor = ''monitor''"

definition sessionBucket :: "session_origin \<Rightarrow> string \<Rightarrow> string" where
  "sessionBucket origin ty = (if origin = OConversation then ty else origin_name origin)"

text \<open>A session has a cron id exactly when its origin is a cron job.\<close>

lemma match_stable_legacy: "match_legacy ''cron'' s \<noteq> None \<Longrightarrow> match_stable origin s = None"
  by (auto simp: match_legacy_def match_stable_def Let_def starts_with_iff split: if_splits)

lemma sessionOrigin_cron: "sessionOrigin ref = OCron \<longleftrightarrow> cronIdOf ref \<noteq> None"
  using match_stable_legacy[of ref] by (auto simp: sessionOrigin_def cronIdOf_def split: option.splits)

section \<open>Previews and transcripts\<close>

text \<open>\<open>text.split("\n\n")\<close>.\<close>

fun split_paras_aux :: "string \<Rightarrow> string \<Rightarrow> string list" where
  "split_paras_aux acc (c # d # s) =
     (if c = CHR 0x0A \<and> d = CHR 0x0A then rev acc # split_paras_aux [] s
      else split_paras_aux (c # acc) (d # s))"
| "split_paras_aux acc [c] = [rev (c # acc)]"
| "split_paras_aux acc [] = [rev acc]"

definition bracketed :: "string \<Rightarrow> bool" where
  "bracketed p \<longleftrightarrow> starts_with (trimStart p) ''[''"

definition preview_text :: "json \<Rightarrow> string" where
  "preview_text payload = (case payload of JStr s \<Rightarrow> s | _ \<Rightarrow> nullish (jstr (jget payload ''text'')) [])"

text \<open>The preview and whether it is cut, in which case an ellipsis follows the text.\<close>

definition userMessagePreview :: "json \<Rightarrow> nat \<Rightarrow> string \<times> bool" where
  "userMessagePreview payload maxLen =
     (let txt = preview_text payload;
          kept0 = trim (join_with [CHR 0x0A, CHR 0x0A]
                    (filter (\<lambda>p. \<not> bracketed p) (split_paras_aux [] txt)));
          kept = (if kept0 \<noteq> [] then kept0 else trim txt);
          oneLine = trim (collapse_spaces kept)
      in if maxLen < length oneLine then (take (maxLen - 1) oneLine, True) else (oneLine, False))"

definition TRANSCRIPT_BYTE_BUDGET :: int where
  "TRANSCRIPT_BYTE_BUDGET = 400000"
definition ENTRY_STRING_BUDGET :: nat where
  "ENTRY_STRING_BUDGET = 2000"
definition WALK_DEPTH :: nat where
  "WALK_DEPTH = 8"

fun payloadBytes :: "json \<Rightarrow> nat \<Rightarrow> int" where
  "payloadBytes (JStr s) depth = int (length s) + 2"
| "payloadBytes (JArr xs) depth =
     (if WALK_DEPTH \<le> depth then int (length (stringify (JArr xs)))
      else 2 + sum_list (map (\<lambda>x. payloadBytes x (depth + 1) + 1) xs))"
| "payloadBytes (JObj fs) depth =
     (if WALK_DEPTH \<le> depth then int (length (stringify (JObj fs)))
      else 2 + sum_list (map (\<lambda>p. int (length (fst p)) + payloadBytes (snd p) (depth + 1) + 4) fs))"
| "payloadBytes _ depth = 8"

fun shortenStrings :: "json \<Rightarrow> nat \<Rightarrow> json \<times> bool" where
  "shortenStrings (JStr s) depth =
     (if ENTRY_STRING_BUDGET < length s then (JStr (take ENTRY_STRING_BUDGET s), True) else (JStr s, False))"
| "shortenStrings (JArr xs) depth =
     (if WALK_DEPTH \<le> depth
      then (if int ENTRY_STRING_BUDGET < payloadBytes (JArr xs) depth then (JNull, True) else (JArr xs, False))
      else let ws = map (\<lambda>x. shortenStrings x (depth + 1)) xs
           in if list_ex snd ws then (JArr (map fst ws), True) else (JArr xs, False))"
| "shortenStrings (JObj fs) depth =
     (if WALK_DEPTH \<le> depth
      then (if int ENTRY_STRING_BUDGET < payloadBytes (JObj fs) depth then (JNull, True) else (JObj fs, False))
      else let ws = map (\<lambda>p. (fst p, shortenStrings (snd p) (depth + 1))) fs
           in if list_ex (snd \<circ> snd) ws then (JObj (map (\<lambda>w. (fst w, fst (snd w))) ws), True)
              else (JObj fs, False))"
| "shortenStrings v depth = (v, False)"

text \<open>A transcript entry is an entry with the flag \<open>truncated\<close>.\<close>

type_synonym transcript_entry = "session_entry \<times> bool"

definition postsToTheConversation :: "session_entry \<Rightarrow> bool" where
  "postsToTheConversation e \<longleftrightarrow>
     se_type e = ''tool_call'' \<and> jget (se_payload e) ''action'' = Some (JStr ''post'')"

definition projectEntry :: "session_entry \<Rightarrow> transcript_entry" where
  "projectEntry e =
     (if se_type e \<notin> {''tool_call'', ''tool_result''} \<or> postsToTheConversation e then (e, False)
      else let (v, cut) = shortenStrings (se_payload e) 0
           in if cut then (e\<lparr>se_payload := v\<rparr>, True) else (e, False))"

record transcript_window =
  tw_tailTurns :: "int option"
  tw_sinceSeq :: "int option"
  tw_beforeSeq :: "int option"

definition index_or_end :: "('a \<Rightarrow> bool) \<Rightarrow> 'a list \<Rightarrow> nat" where
  "index_or_end p xs = nullish (find_index p xs) (length xs)"

text \<open>The loop over \<open>i\<close> from the end that looks for the start of the last \<open>tailTurns\<close> turns.\<close>

fun tail_turns_cut :: "session_entry list \<Rightarrow> int \<Rightarrow> nat \<Rightarrow> int \<Rightarrow> nat" where
  "tail_turns_cut es want 0 turns = 0"
| "tail_turns_cut es want (Suc i) turns =
     (if se_type (es ! i) \<noteq> ''user'' then tail_turns_cut es want i turns
      else if turns + 1 = want then i else tail_turns_cut es want i (turns + 1))"

text \<open>The loop that spends the byte budget from the end.\<close>

fun spend_budget :: "transcript_entry list \<Rightarrow> nat \<Rightarrow> int \<Rightarrow> nat" where
  "spend_budget ws 0 spend = 0"
| "spend_budget ws (Suc k) spend =
     (let bytes = payloadBytes (se_payload (fst (ws ! k))) 0
      in if TRANSCRIPT_BYTE_BUDGET < spend + bytes \<and> Suc k < length ws then Suc k
         else spend_budget ws k (spend + bytes))"

definition user_boundary :: "transcript_entry list \<Rightarrow> nat \<Rightarrow> nat" where
  "user_boundary ws from =
     (if 0 < from
      then (case find_index (\<lambda>e. se_type (fst e) = ''user'') (drop from ws) of
              None \<Rightarrow> from | Some k \<Rightarrow> from + k)
      else from)"

definition window_base :: "session_entry list \<Rightarrow> transcript_window option \<Rightarrow> session_entry list" where
  "window_base es w =
     (case w of None \<Rightarrow> es
      | Some v \<Rightarrow> (case tw_beforeSeq v of None \<Rightarrow> es
                   | Some b \<Rightarrow> take (index_or_end (\<lambda>e. b \<le> se_seq e) es) es))"

definition window_cut :: "session_entry list \<Rightarrow> transcript_window option \<Rightarrow> nat" where
  "window_cut es w =
     (case w of None \<Rightarrow> 0
      | Some v \<Rightarrow> (case tw_sinceSeq v of
            Some s \<Rightarrow> index_or_end (\<lambda>e. s \<le> se_seq e) es
          | None \<Rightarrow> (case tw_tailTurns v of
                Some n \<Rightarrow> if 0 < n then tail_turns_cut es n (length es) 0 else 0
              | None \<Rightarrow> 0)))"

definition windowedTranscript ::
    "session_entry list \<Rightarrow> transcript_window option \<Rightarrow> transcript_entry list \<times> nat" where
  "windowedTranscript entries w =
     (let base = window_base entries w;
          cut = window_cut base w;
          windowed = map projectEntry (drop cut base)
      in if w = None \<or> tw_sinceSeq (the w) \<noteq> None then (windowed, cut)
         else let from = user_boundary windowed (spend_budget windowed (length windowed) 0)
              in (drop from windowed, cut + from))"

definition transcriptEntries :: "session_entry list \<Rightarrow> session_entry list" where
  "transcriptEntries es = filter (\<lambda>e. se_type e \<noteq> ''soul'') es"

definition isOverheardEntry :: "session_entry \<Rightarrow> bool" where
  "isOverheardEntry e \<longleftrightarrow> se_type e = ''user'' \<and> jtrue (jget (se_payload e) ''overheard'')"

definition entryDeliveryKey :: "session_entry \<Rightarrow> string option" where
  "entryDeliveryKey e = jstr (jget (se_payload e) ''deliveryKey'')"

section \<open>Search\<close>

definition searchable_type :: "string \<Rightarrow> bool" where
  "searchable_type ty \<longleftrightarrow> ty \<in> {''user'', ''assistant'', ''text''}"

definition MAX_TERMS :: nat where
  "MAX_TERMS = 8"

definition MIN_PREFIX_LEN :: nat where
  "MIN_PREFIX_LEN = 3"

definition searchTerms :: "string \<Rightarrow> string list" where
  "searchTerms query =
     take MAX_TERMS (filter (\<lambda>w. w \<noteq> []) (split_runs (\<lambda>c. \<not> is_alnum c) (toLowerCase query)))"

definition tsPrefixQuery :: "string \<Rightarrow> string option" where
  "tsPrefixQuery query =
     (if searchTerms query = [] then None
      else Some (join_with '' & '' (map (\<lambda>t. if MIN_PREFIX_LEN \<le> length t then t @ '':*'' else t) (searchTerms query))))"

definition entrySearchText :: "json \<Rightarrow> string option" where
  "entrySearchText payload = (case payload of JStr s \<Rightarrow> Some s | _ \<Rightarrow> jstr (jget payload ''text''))"

definition entrySearchAuthor :: "session_entry \<Rightarrow> string option" where
  "entrySearchAuthor e =
     (if se_type e \<noteq> ''user'' then None
      else case jstr (jget (se_payload e) ''name'') of
        None \<Rightarrow> None | Some n \<Rightarrow> if trim n \<noteq> [] then Some (trim n) else None)"

definition matchesSearchTerms :: "string \<Rightarrow> string list \<Rightarrow> bool" where
  "matchesSearchTerms txt terms =
     (if terms = [] then False
      else let words = split_runs (\<lambda>c. \<not> is_alnum c) (toLowerCase txt)
           in list_all (\<lambda>t. list_ex (\<lambda>w. if MIN_PREFIX_LEN \<le> length t then starts_with w t else w = t) words) terms)"

end
