(* ===== verification/Session_Store.thy ===== *)
theory Session_Store
  imports Session_Model
begin

text \<open>
  The state of \<open>createMemorySessionStore\<close> (\<open>src/src/sessions/memory-session-store.ts\<close>) and every
  operation that changes it. A session is written under a lease: \<open>append\<close>, \<open>appendTape\<close> and
  \<open>appendSearchEntries\<close> present the lease's token and are refused (\<^const>\<open>Inl\<close>) when it is not the
  current one or has expired. The Web-surface fields of \<open>Session\<close> that no store operation reads or
  writes (working, awaitingInput, backgroundJobs, watches, crons) are left out of the record, and
  \<open>spawnMeta\<close> is an opaque JSON value.
\<close>

record session =
  s_id :: string
  s_type :: string
  s_scopeId :: string
  s_threadRef :: string
  s_surface :: "string option"
  s_createdAt :: int
  s_channelName :: "string option"
  s_title :: "string option"
  s_archived :: bool
  s_pinned :: bool
  s_color :: "string option"
  s_forkedFrom :: "(string \<times> string option) option"
  s_forkBoundarySeq :: "int option"
  s_parentSessionId :: "string option"
  s_spawnMeta :: "json option"
  s_lastActivityAt :: "int option"
  s_hasEntries :: bool

datatype lease_holder = HTurn | HCompaction | HFork | HBackfill

record s_lease =
  l_token :: string
  l_expiresAt :: int
  l_acquiredAt :: int
  l_holder :: "lease_holder option"

type_synonym lease_ref = "string \<times> string"

record lease_attempt =
  la_lease :: "lease_ref option"
  la_heldBy :: "lease_holder option"
  la_heldSince :: "int option"
  la_heldUntil :: "int option"

record search_row =
  sr_seq :: int
  sr_type :: string
  sr_author :: "string option"
  sr_text :: string
  sr_createdAt :: int

record session_pin =
  p_text :: "string option"
  p_entrySeq :: "int option"
  p_addedBy :: string
  p_id :: string
  p_sessionId :: string
  p_createdAt :: int

text \<open>The usage and latency figures of a request, which the store only keeps, are one JSON value.\<close>

record llm_request =
  lr_id :: string
  lr_sessionId :: string
  lr_turnSeq :: "int option"
  lr_step :: int
  lr_model :: string
  lr_scopeLabel :: string
  lr_createdAt :: int
  lr_promptHash :: "string option"
  lr_promptEnvelope :: "json option"
  lr_truncated :: bool
  lr_figures :: json

record sstore =
  ss_leaseTtlMs :: int
  ss_sessions :: "session jsmap"
  ss_entries :: "session_entry list jsmap"
  ss_tape :: "tape_record list jsmap"
  ss_searchIndex :: "search_row list jsmap"
  ss_llmRequests :: "llm_request list jsmap"
  ss_llmRequestSeq :: "nat jsmap"
  ss_llmRequestCount :: nat
  ss_promptEnvelopes :: "json jsmap"
  ss_byThread :: "string jsmap"
  ss_participants :: "string list jsmap"
  ss_pins :: "session_pin list jsmap"
  ss_windows :: "window jsmap jsmap"
  ss_leases :: "s_lease jsmap"

definition createMemorySessionStore :: "int option \<Rightarrow> sstore" where
  "createMemorySessionStore ttl =
     \<lparr>ss_leaseTtlMs = nullish ttl 300000, ss_sessions = [], ss_entries = [], ss_tape = [],
      ss_searchIndex = [], ss_llmRequests = [], ss_llmRequestSeq = [], ss_llmRequestCount = 0,
      ss_promptEnvelopes = [], ss_byThread = [], ss_participants = [], ss_pins = [], ss_windows = [],
      ss_leases = []\<rparr>"

text \<open>\<open>m.get(k) ?? []\<close>.\<close>

definition get_list :: "'a list jsmap \<Rightarrow> string \<Rightarrow> 'a list" where
  "get_list m k = nullish (map_of m k) []"

section \<open>Sessions\<close>

definition keep_if :: "string option \<Rightarrow> string option" where
  "keep_if s = (if truthy s then s else None)"

definition existing_session :: "sstore \<Rightarrow> string \<Rightarrow> session option" where
  "existing_session st ref =
     (case map_of (ss_byThread st) ref of
        None \<Rightarrow> None | Some i \<Rightarrow> if i = [] then None else map_of (ss_sessions st) i)"

definition getOrCreateByThread ::
    "string \<Rightarrow> int \<Rightarrow> string \<Rightarrow> string \<Rightarrow> string \<Rightarrow> string option \<Rightarrow> string option \<Rightarrow> sstore \<Rightarrow> sstore \<times> session" where
  "getOrCreateByThread uuid now ref ty scope channelName surface st =
     (case existing_session st ref of
        Some s \<Rightarrow>
          (let s1 = (if truthy channelName \<and> s_channelName s \<noteq> channelName then s\<lparr>s_channelName := channelName\<rparr> else s);
               s2 = (if truthy surface \<and> \<not> truthy (s_surface s1) then s1\<lparr>s_surface := surface\<rparr> else s1)
           in (st\<lparr>ss_sessions := AList.update (the (map_of (ss_byThread st) ref)) s2 (ss_sessions st)\<rparr>, s2))
      | None \<Rightarrow>
          (let s = \<lparr>s_id = uuid, s_type = ty, s_scopeId = scope, s_threadRef = ref,
                 s_surface = keep_if surface, s_createdAt = now, s_channelName = keep_if channelName,
                 s_title = None, s_archived = False, s_pinned = False, s_color = None,
                 s_forkedFrom = None, s_forkBoundarySeq = None, s_parentSessionId = None,
                 s_spawnMeta = None, s_lastActivityAt = None, s_hasEntries = False\<rparr>
           in (st\<lparr>ss_sessions := AList.update uuid s (ss_sessions st),
                  ss_entries := AList.update uuid [] (ss_entries st),
                  ss_byThread := AList.update ref uuid (ss_byThread st)\<rparr>, s)))"

definition getByThread :: "sstore \<Rightarrow> string \<Rightarrow> session option" where
  "getByThread st ref = existing_session st ref"

definition get_session :: "sstore \<Rightarrow> string \<Rightarrow> session option" where
  "get_session st i = map_of (ss_sessions st) i"

text \<open>The setters: assign to the stored object, if there is one.\<close>

definition modify_session :: "string \<Rightarrow> (session \<Rightarrow> session) \<Rightarrow> sstore \<Rightarrow> sstore" where
  "modify_session sid f st =
     (case map_of (ss_sessions st) sid of
        None \<Rightarrow> st | Some s \<Rightarrow> st\<lparr>ss_sessions := AList.update sid (f s) (ss_sessions st)\<rparr>)"

definition updateTitle :: "string \<Rightarrow> string \<Rightarrow> sstore \<Rightarrow> sstore" where
  "updateTitle sid title = modify_session sid (\<lambda>s. s\<lparr>s_title := Some title\<rparr>)"

definition updateForkProvenance :: "string \<Rightarrow> string \<times> string option \<Rightarrow> int \<Rightarrow> sstore \<Rightarrow> sstore" where
  "updateForkProvenance sid from boundary =
     modify_session sid (\<lambda>s. s\<lparr>s_forkedFrom := Some from, s_forkBoundarySeq := Some boundary\<rparr>)"

definition setParentSession :: "string \<Rightarrow> string option \<Rightarrow> sstore \<Rightarrow> sstore" where
  "setParentSession sid parent = modify_session sid (\<lambda>s. s\<lparr>s_parentSessionId := parent\<rparr>)"

definition setSpawnMeta :: "string \<Rightarrow> json \<Rightarrow> sstore \<Rightarrow> sstore" where
  "setSpawnMeta sid meta = modify_session sid (\<lambda>s. s\<lparr>s_spawnMeta := Some meta\<rparr>)"

definition deleteSession :: "string \<Rightarrow> sstore \<Rightarrow> sstore" where
  "deleteSession sid st =
     st\<lparr>ss_byThread := (case map_of (ss_sessions st) sid of
          None \<Rightarrow> ss_byThread st | Some s \<Rightarrow> AList.delete (s_threadRef s) (ss_byThread st)),
        ss_participants := map (\<lambda>(p, ids).
          (p, if p \<in> set (keys (nullish (map_of (ss_windows st) sid) []))
              then filter (\<lambda>i. i \<noteq> sid) ids else ids)) (ss_participants st),
        ss_sessions := AList.delete sid (ss_sessions st),
        ss_entries := AList.delete sid (ss_entries st),
        ss_tape := AList.delete sid (ss_tape st),
        ss_searchIndex := AList.delete sid (ss_searchIndex st),
        ss_llmRequests := AList.delete sid (ss_llmRequests st),
        ss_windows := AList.delete sid (ss_windows st),
        ss_leases := AList.delete sid (ss_leases st),
        ss_pins := AList.delete sid (ss_pins st)\<rparr>"

section \<open>Leases\<close>

definition acquireLease ::
    "string \<Rightarrow> int \<Rightarrow> string \<Rightarrow> lease_holder option \<Rightarrow> sstore \<Rightarrow> sstore \<times> lease_attempt" where
  "acquireLease uuid now sid holder st =
     (if map_of (ss_sessions st) sid = None
      then (st, \<lparr>la_lease = None, la_heldBy = None, la_heldSince = None, la_heldUntil = None\<rparr>)
      else case map_of (ss_leases st) sid of
        Some held \<Rightarrow>
          (if now < l_expiresAt held
           then (st, \<lparr>la_lease = None, la_heldBy = l_holder held,
                     la_heldSince = Some (l_acquiredAt held), la_heldUntil = Some (l_expiresAt held)\<rparr>)
           else (st\<lparr>ss_leases := AList.update sid \<lparr>l_token = uuid, l_expiresAt = now + ss_leaseTtlMs st,
                     l_acquiredAt = now, l_holder = holder\<rparr> (ss_leases st)\<rparr>,
                 \<lparr>la_lease = Some (sid, uuid), la_heldBy = None, la_heldSince = None, la_heldUntil = None\<rparr>))
      | None \<Rightarrow>
          (st\<lparr>ss_leases := AList.update sid \<lparr>l_token = uuid, l_expiresAt = now + ss_leaseTtlMs st,
                l_acquiredAt = now, l_holder = holder\<rparr> (ss_leases st)\<rparr>,
           \<lparr>la_lease = Some (sid, uuid), la_heldBy = None, la_heldSince = None, la_heldUntil = None\<rparr>))"

definition peekLease :: "sstore \<Rightarrow> string \<Rightarrow> (lease_holder option \<times> int) option" where
  "peekLease st sid = map_option (\<lambda>h. (l_holder h, l_expiresAt h)) (map_of (ss_leases st) sid)"

text \<open>The guard \<open>!held || held.token !== lease.token || now() >= held.expiresAt\<close>, negated.\<close>

definition lease_valid :: "sstore \<Rightarrow> lease_ref \<Rightarrow> int \<Rightarrow> bool" where
  "lease_valid st ls now =
     (case map_of (ss_leases st) (fst ls) of
        None \<Rightarrow> False | Some h \<Rightarrow> l_token h = snd ls \<and> now < l_expiresAt h)"

text \<open>\<open>held.expiresAt = now() + leaseTtlMs\<close>.\<close>

definition extend_lease :: "string \<Rightarrow> int \<Rightarrow> sstore \<Rightarrow> sstore" where
  "extend_lease sid now st =
     (case map_of (ss_leases st) sid of
        None \<Rightarrow> st
      | Some h \<Rightarrow> st\<lparr>ss_leases := AList.update sid (h\<lparr>l_expiresAt := now + ss_leaseTtlMs st\<rparr>) (ss_leases st)\<rparr>)"

definition renewLease :: "lease_ref \<Rightarrow> int \<Rightarrow> sstore \<Rightarrow> sstore \<times> bool" where
  "renewLease ls now st =
     (if lease_valid st ls now then (extend_lease (fst ls) now st, True) else (st, False))"

definition release_lease :: "lease_ref \<Rightarrow> sstore \<Rightarrow> sstore" where
  "release_lease ls st =
     (case map_of (ss_leases st) (fst ls) of
        Some h \<Rightarrow> if l_token h = snd ls then st\<lparr>ss_leases := AList.delete (fst ls) (ss_leases st)\<rparr> else st
      | None \<Rightarrow> st)"

definition forceReleaseLease :: "string \<Rightarrow> sstore \<Rightarrow> sstore" where
  "forceReleaseLease sid st = st\<lparr>ss_leases := AList.delete sid (ss_leases st)\<rparr>"

definition deleteSessionIfEmpty :: "string \<Rightarrow> int \<Rightarrow> sstore \<Rightarrow> sstore \<times> bool" where
  "deleteSessionIfEmpty sid now st =
     (if map_of (ss_sessions st) sid = None then (st, False)
      else if get_list (ss_entries st) sid \<noteq> [] then (st, False)
      else case map_of (ss_leases st) sid of
        Some h \<Rightarrow> if now < l_expiresAt h then (st, False) else (deleteSession sid st, True)
      | None \<Rightarrow> (deleteSession sid st, True))"

section \<open>Writing under a lease\<close>

datatype session_error = NoLease | UnknownSession

record new_entry =
  ne_type :: string
  ne_payload :: json
  ne_scopeLabel :: string

definition push_tape :: "string \<Rightarrow> int \<Rightarrow> new_tape_record \<Rightarrow> sstore \<Rightarrow> sstore" where
  "push_tape sid now r st =
     (let log = get_list (ss_tape st) sid
      in st\<lparr>ss_tape := AList.update sid (log @ [stamp_tape r sid (length log) now]) (ss_tape st)\<rparr>)"

definition index_entry :: "session_entry \<Rightarrow> sstore \<Rightarrow> sstore" where
  "index_entry e st =
     (case (if searchable_type (se_type e) then entrySearchText (se_payload e) else None) of
        None \<Rightarrow> st
      | Some txt \<Rightarrow>
          (if trim txt = [] then st
           else st\<lparr>ss_searchIndex := AList.update (se_sessionId e)
                  (get_list (ss_searchIndex st) (se_sessionId e) @
                   [\<lparr>sr_seq = se_seq e, sr_type = se_type e, sr_author = entrySearchAuthor e,
                     sr_text = txt, sr_createdAt = se_createdAt e\<rparr>]) (ss_searchIndex st)\<rparr>))"

definition new_session_entry :: "string \<Rightarrow> nat \<Rightarrow> int \<Rightarrow> new_entry \<Rightarrow> session_entry" where
  "new_session_entry sid n now e =
     \<lparr>se_sessionId = sid, se_seq = int n, se_parentSeq = (if n = 0 then None else Some (int n - 1)),
      se_type = ne_type e, se_payload = ne_payload e, se_scopeLabel = ne_scopeLabel e, se_createdAt = now\<rparr>"

definition append_entry ::
    "lease_ref \<Rightarrow> int \<Rightarrow> new_entry \<Rightarrow> sstore \<Rightarrow> sstore \<times> (session_error + session_entry)" where
  "append_entry ls now e st =
     (if \<not> lease_valid st ls now then (st, Inl NoLease)
      else let st1 = extend_lease (fst ls) now st
           in case map_of (ss_entries st1) (fst ls) of
                None \<Rightarrow> (st1, Inl UnknownSession)
              | Some log \<Rightarrow>
                  (let full = new_session_entry (fst ls) (length log) now e;
                       st2 = st1\<lparr>ss_entries := AList.update (fst ls) (log @ [full]) (ss_entries st1)\<rparr>;
                       st3 = push_tape (fst ls) now (tapeTranscriptEntryRecord full) st2
                   in (index_entry full st3, Inr full)))"

definition appendTape ::
    "lease_ref \<Rightarrow> int \<Rightarrow> new_tape_record \<Rightarrow> sstore \<Rightarrow> sstore \<times> (session_error + tape_record)" where
  "appendTape ls now r st =
     (if \<not> lease_valid st ls now then (st, Inl NoLease)
      else let st1 = extend_lease (fst ls) now st
           in (push_tape (fst ls) now r st1,
               Inr (stamp_tape r (fst ls) (length (get_list (ss_tape st1) (fst ls))) now)))"

text \<open>The rows whose sequence number is not yet indexed, each number once.\<close>

fun fresh_rows :: "int list \<Rightarrow> search_row list \<Rightarrow> search_row list" where
  "fresh_rows seen [] = []"
| "fresh_rows seen (r # rs) =
     (if sr_seq r \<in> set seen then fresh_rows seen rs else r # fresh_rows (sr_seq r # seen) rs)"

definition appendSearchEntries ::
    "lease_ref \<Rightarrow> int \<Rightarrow> search_row list \<Rightarrow> sstore \<Rightarrow> sstore \<times> (session_error + unit)" where
  "appendSearchEntries ls now rows st =
     (if \<not> lease_valid st ls now then (st, Inl NoLease)
      else let st1 = extend_lease (fst ls) now st;
               index = get_list (ss_searchIndex st1) (fst ls)
           in (st1\<lparr>ss_searchIndex := AList.update (fst ls)
                 (sort_key sr_seq (index @ fresh_rows (map sr_seq index) rows)) (ss_searchIndex st1)\<rparr>, Inr ()))"

text \<open>\<open>clearSecurityTaint\<close>: an object payload that has the field \<open>securityTainted\<close> loses it, and the
  changed entry is mirrored to the tape again.\<close>

fun untaint :: "session_entry \<Rightarrow> session_entry option" where
  "untaint e =
     (case se_payload e of
        JObj fs \<Rightarrow> if map_of fs ''securityTainted'' = None then None
                   else Some (e\<lparr>se_payload := JObj (AList.delete ''securityTainted'' fs)\<rparr>)
      | _ \<Rightarrow> None)"
declare untaint.simps [simp del]

fun clear_loop :: "string \<Rightarrow> int \<Rightarrow> session_entry list \<Rightarrow> sstore \<Rightarrow> sstore \<times> session_entry list" where
  "clear_loop sid now [] st = (st, [])"
| "clear_loop sid now (e # es) st =
     (case untaint e of
        None \<Rightarrow> map_prod id ((#) e) (clear_loop sid now es st)
      | Some e' \<Rightarrow> map_prod id ((#) e') (clear_loop sid now es (push_tape sid now (tapeTranscriptEntryRecord e') st)))"

definition clearSecurityTaint :: "string \<Rightarrow> int \<Rightarrow> sstore \<Rightarrow> sstore \<times> bool" where
  "clearSecurityTaint sid now st =
     (case map_of (ss_entries st) sid of
        None \<Rightarrow> (st, False)
      | Some log \<Rightarrow>
          (let (st1, log') = clear_loop sid now log st
           in (st1\<lparr>ss_entries := AList.update sid log' (ss_entries st1)\<rparr>, True)))"

section \<open>Model requests\<close>

text \<open>\<open>promptEnvelopeBody\<close> hashes the serialised envelope with SHA-256: the parameter \<open>sha\<close> is that
  hash on envelopes. A JSON value always serialises, so the body is kept as the value itself.\<close>

definition recordLlmRequest ::
    "(json \<Rightarrow> string) \<Rightarrow> string \<Rightarrow> int \<Rightarrow> string \<Rightarrow> int option \<Rightarrow> int \<Rightarrow> string \<Rightarrow> string \<Rightarrow> json option \<Rightarrow>
     bool option \<Rightarrow> json \<Rightarrow> sstore \<Rightarrow> sstore \<times> llm_request" where
  "recordLlmRequest sha uuid now sid turnSeq step model scopeLabel env trunc figures st =
     (let env' = (if env = Some JNull then None else env);
          hash = map_option sha env';
          store = (case env' of
              None \<Rightarrow> ss_promptEnvelopes st
            | Some e \<Rightarrow> if map_of (ss_promptEnvelopes st) (sha e) = None
                        then AList.update (sha e) e (ss_promptEnvelopes st) else ss_promptEnvelopes st);
          full = \<lparr>lr_id = uuid, lr_sessionId = sid, lr_turnSeq = turnSeq, lr_step = step, lr_model = model,
            lr_scopeLabel = scopeLabel, lr_createdAt = now, lr_promptHash = hash, lr_promptEnvelope = None,
            lr_truncated = nullish trunc False, lr_figures = figures\<rparr>
      in (st\<lparr>ss_promptEnvelopes := store,
             ss_llmRequests := AList.update sid (get_list (ss_llmRequests st) sid @ [full]) (ss_llmRequests st),
             ss_llmRequestSeq := AList.update uuid (ss_llmRequestCount st + 1) (ss_llmRequestSeq st),
             ss_llmRequestCount := ss_llmRequestCount st + 1\<rparr>,
          full\<lparr>lr_promptEnvelope := env\<rparr>))"

definition listLlmRequests ::
    "sstore \<Rightarrow> string \<Rightarrow> int list option \<Rightarrow> bool \<Rightarrow> bool \<Rightarrow> llm_request list" where
  "listLlmRequests st sid turnSeqs orphans omitRequest =
     (let all = get_list (ss_llmRequests st) sid;
          filtered = (if turnSeqs \<noteq> None \<or> orphans
            then filter (\<lambda>r. (case (turnSeqs, lr_turnSeq r) of (Some w, Some n) \<Rightarrow> n \<in> set w | _ \<Rightarrow> False) \<or>
                            (orphans \<and> lr_turnSeq r = None)) all
            else all)
      in map (\<lambda>r. if omitRequest then r
                  else case Option.bind (lr_promptHash r) (map_of (ss_promptEnvelopes st)) of
                         None \<Rightarrow> r | Some b \<Rightarrow> r\<lparr>lr_promptEnvelope := Some b\<rparr>) filtered)"

section \<open>Participants and pins\<close>

definition add_to_set :: "'a \<Rightarrow> 'a list \<Rightarrow> 'a list" where
  "add_to_set x xs = (if x \<in> set xs then xs else xs @ [x])"

definition set_window :: "string \<Rightarrow> string \<Rightarrow> window \<Rightarrow> sstore \<Rightarrow> sstore" where
  "set_window sid p w st =
     st\<lparr>ss_windows := AList.update sid (AList.update p w (nullish (map_of (ss_windows st) sid) [])) (ss_windows st)\<rparr>"

definition get_window :: "sstore \<Rightarrow> string \<Rightarrow> string \<Rightarrow> window option" where
  "get_window st sid p = map_of (nullish (map_of (ss_windows st) sid) []) p"

definition addParticipant ::
    "string \<Rightarrow> string \<Rightarrow> string option \<Rightarrow> bool \<Rightarrow> int \<Rightarrow> sstore \<Rightarrow> sstore" where
  "addParticipant sid p title includeHistory now st =
     (let st1 = st\<lparr>ss_participants := AList.update p (add_to_set sid (get_list (ss_participants st) p)) (ss_participants st)\<rparr>;
          existing = get_window st1 sid p
      in case existing of
           Some w \<Rightarrow>
             (if w_validTo w \<noteq> None
              then set_window sid p
                \<lparr>w_validFrom = (if includeHistory then 0 else now), w_validTo = None,
                 w_validFromSeq = Some (if includeHistory then 0 else int (length (get_list (ss_entries st) sid))),
                 w_validToSeq = None, w_title = (if title \<noteq> None then title else w_title w),
                 w_archived = w_archived w, w_pinned = w_pinned w, w_color = w_color w\<rparr> st1
              else set_window sid p
                (let w1 = (if includeHistory then w\<lparr>w_validFrom := 0, w_validFromSeq := Some 0\<rparr> else w)
                 in if title \<noteq> None then w1\<lparr>w_title := title\<rparr> else w1) st1)
         | None \<Rightarrow>
             set_window sid p
               \<lparr>w_validFrom = (if includeHistory then 0 else now), w_validTo = None,
                w_validFromSeq = Some (if includeHistory then 0 else int (length (get_list (ss_entries st) sid))),
                w_validToSeq = None, w_title = title, w_archived = False, w_pinned = False, w_color = None\<rparr> st1)"

definition removeParticipant :: "string \<Rightarrow> string \<Rightarrow> int \<Rightarrow> sstore \<Rightarrow> sstore" where
  "removeParticipant sid p now st =
     (case get_window st sid p of
        None \<Rightarrow> st
      | Some w \<Rightarrow>
          (if w_validTo w = None
           then set_window sid p (w\<lparr>w_validTo := Some now,
                  w_validToSeq := Some (int (length (get_list (ss_entries st) sid)))\<rparr>) st
           else st))"

text \<open>A patch field is absent (\<^const>\<open>None\<close>) or present; \<open>title\<close> and \<open>color\<close> may be set to \<open>null\<close>.\<close>

definition updateParticipantView ::
    "string \<Rightarrow> string \<Rightarrow> string option option \<Rightarrow> bool option \<Rightarrow> bool option \<Rightarrow> string option option \<Rightarrow> sstore \<Rightarrow> sstore" where
  "updateParticipantView sid p title archived pinned color st =
     (case get_window st sid p of
        None \<Rightarrow> st
      | Some w \<Rightarrow>
          set_window sid p
            (w\<lparr>w_title := nullish title (w_title w), w_archived := nullish archived (w_archived w),
               w_pinned := nullish pinned (w_pinned w), w_color := nullish color (w_color w)\<rparr>) st)"

definition addPin ::
    "string \<Rightarrow> string \<Rightarrow> string option \<times> int option \<times> string \<Rightarrow> nat option \<Rightarrow> int \<Rightarrow> sstore \<Rightarrow> sstore \<times> session_pin option" where
  "addPin uuid sid pin maxPins now st =
     (let list = get_list (ss_pins st) sid
      in if map_of (ss_sessions st) sid = None then (st, None)
         else if maxPins \<noteq> None \<and> the maxPins \<le> length list then (st, None)
         else case pin of (txt, seq, by) \<Rightarrow>
           (let rec = \<lparr>p_text = txt, p_entrySeq = seq, p_addedBy = by, p_id = uuid, p_sessionId = sid, p_createdAt = now\<rparr>
            in (st\<lparr>ss_pins := AList.update sid (list @ [rec]) (ss_pins st)\<rparr>, Some rec)))"

definition listPins :: "sstore \<Rightarrow> string \<Rightarrow> session_pin list" where
  "listPins st sid = get_list (ss_pins st) sid"

definition removePin :: "string \<Rightarrow> string \<Rightarrow> sstore \<Rightarrow> sstore \<times> bool" where
  "removePin sid pinId st =
     (case map_of (ss_pins st) sid of
        None \<Rightarrow> (st, False)
      | Some list \<Rightarrow>
          (let rest = filter (\<lambda>p. p_id p \<noteq> pinId) list
           in if length rest = length list then (st, False)
              else (st\<lparr>ss_pins := AList.update sid rest (ss_pins st)\<rparr>, True)))"

section \<open>Reading the log\<close>

record get_entries_options =
  go_sinceSeq :: "int option"
  go_beforeSeq :: "int option"
  go_limit :: "int option"

definition in_seq_range :: "get_entries_options \<Rightarrow> session_entry \<Rightarrow> bool" where
  "in_seq_range opts e \<longleftrightarrow>
     nullish (go_sinceSeq opts) 0 \<le> se_seq e \<and> (case go_beforeSeq opts of None \<Rightarrow> True | Some b \<Rightarrow> se_seq e < b)"

definition getEntries :: "sstore \<Rightarrow> string \<Rightarrow> get_entries_options \<Rightarrow> session_entry list" where
  "getEntries st sid opts =
     (let filtered = filter (in_seq_range opts) (get_list (ss_entries st) sid)
      in case go_limit opts of None \<Rightarrow> filtered | Some n \<Rightarrow> slice_neg n filtered)"

definition project_transcript :: "tape_record list \<Rightarrow> (int \<times> session_entry) list" where
  "project_transcript rows =
     fold (\<lambda>row m. case transcriptEntryFromTape row of None \<Rightarrow> m | Some e \<Rightarrow> AList.update (se_seq e) e m) rows []"

definition getTranscriptEntries :: "sstore \<Rightarrow> string \<Rightarrow> get_entries_options \<Rightarrow> session_entry list" where
  "getTranscriptEntries st sid opts =
     (let filtered = sort_key se_seq (filter (in_seq_range opts) (vals (project_transcript (get_list (ss_tape st) sid))))
      in case go_limit opts of
           None \<Rightarrow> filtered | Some n \<Rightarrow> if n = 0 then [] else slice_neg n filtered)"

definition getContextWindow :: "sstore \<Rightarrow> string \<Rightarrow> context_window" where
  "getContextWindow st sid = contextWindowFromEntries (get_list (ss_entries st) sid)"

definition getEntry :: "sstore \<Rightarrow> string \<Rightarrow> int \<Rightarrow> session_entry option" where
  "getEntry st sid n = find (\<lambda>e. se_seq e = n) (get_list (ss_entries st) sid)"

definition latestEntrySeq :: "sstore \<Rightarrow> string \<Rightarrow> int" where
  "latestEntrySeq st sid = int (length (get_list (ss_entries st) sid)) - 1"

definition getTape :: "sstore \<Rightarrow> string \<Rightarrow> int option \<Rightarrow> int option \<Rightarrow> tape_record list" where
  "getTape st sid since limit =
     (let log = get_list (ss_tape st) sid;
          filtered = (case since of None \<Rightarrow> log | Some s \<Rightarrow> filter (\<lambda>r. s < tr_seq r) log)
      in case limit of None \<Rightarrow> filtered | Some n \<Rightarrow> slice_neg n filtered)"

definition row_coverage :: "tape_record \<Rightarrow> int" where
  "row_coverage r =
     max (if tr_kind r = TAnnotation \<and> jtrue (jget (tr_payload r) ''turnEnd'') then nullish (tr_entrySeq r) (-1) else -1)
         (if tr_kind r = TContextEvent \<and> jget (tr_payload r) ''event'' = Some (JStr ''legacy_import'')
          then nullish (tr_coversEntrySeq r) (-1) else -1)"

definition tapeCoverage :: "sstore \<Rightarrow> string \<Rightarrow> int" where
  "tapeCoverage st sid = max_from (-1) (map row_coverage (get_list (ss_tape st) sid))"

definition visibleEntries :: "sstore \<Rightarrow> string \<Rightarrow> string \<Rightarrow> session_entry list" where
  "visibleEntries st sid p =
     (case get_window st sid p of
        None \<Rightarrow> []
      | Some w \<Rightarrow> filter (\<lambda>e. entryWithinTenure (se_seq e) (se_createdAt e) w) (get_list (ss_entries st) sid))"

text \<open>\<open>appendEntryOutsideTurn\<close>: an entry written outside a turn, followed by the model's view of it and
  a checkpoint when the tape covered the log so far.\<close>

definition appendEntryOutsideTurn ::
    "lease_ref \<Rightarrow> int \<Rightarrow> new_entry \<Rightarrow> (session_entry \<Rightarrow> string) option \<Rightarrow> sstore \<Rightarrow>
     sstore \<times> (session_error + session_entry)" where
  "appendEntryOutsideTurn ls now e modelText st =
     (let contiguous = (tapeCoverage st (fst ls) = latestEntrySeq st (fst ls));
          (st1, r) = append_entry ls now e st
      in case r of
           Inl err \<Rightarrow> (st1, Inl err)
         | Inr full \<Rightarrow>
           (if \<not> contiguous then (st1, Inr full)
            else let (st2, r2) = (case modelText of
                       None \<Rightarrow> (st1, Inr ())
                     | Some f \<Rightarrow> map_prod id (map_sum id (\<lambda>_. ()))
                         (appendTape ls now \<lparr>nt_kind = TMessage,
                            nt_payload = JObj [(''role'', JStr ''user''),
                              (''content'', JArr [JObj [(''type'', JStr ''text''), (''text'', JStr (f full))]]),
                              (''timestamp'', JNum (se_createdAt full))],
                            nt_scopeLabel = ne_scopeLabel e, nt_harness = None,
                            nt_meta = Some (JObj [(''entryCreatedAt'', JNum (se_createdAt full))]),
                            nt_entrySeq = None, nt_coversEntrySeq = None\<rparr> st1))
                 in case r2 of
                      Inl err \<Rightarrow> (st2, Inl err)
                    | Inr _ \<Rightarrow>
                        map_prod id (map_sum id (\<lambda>_. full))
                          (appendTape ls now \<lparr>nt_kind = TAnnotation,
                             nt_payload = tapeCheckpointPayload ''turnEnd''
                               (Some (ne_type e, ne_payload e, se_createdAt full)) None,
                             nt_scopeLabel = ne_scopeLabel e, nt_harness = None, nt_meta = None,
                             nt_entrySeq = Some (se_seq full), nt_coversEntrySeq = None\<rparr> st2)))"

end
