(* ===== verification/Session_Lifecycle.thy ===== *)
theory Session_Lifecycle
  imports Session_Store
begin

text \<open>
  What holds of every session store state that operations can reach: the log of a session is numbered
  from zero, the tape mirrors it, leases belong to sessions, threads and sessions correspond, and a
  participant's window lies within the log. The step relation names the two resources a client may
  add: identifiers still to be drawn (\<open>T\<close>) and participants still to be admitted (\<open>A\<close>).
\<close>

section \<open>Invariant\<close>

definition well_numbered :: "string \<Rightarrow> session_entry list \<Rightarrow> bool" where
  "well_numbered sid log \<longleftrightarrow> (\<forall>i < length log. se_seq (log ! i) = int i \<and> se_sessionId (log ! i) = sid \<and>
     se_parentSeq (log ! i) = (if i = 0 then None else Some (int i - 1)))"

definition by_seq :: "session_entry list \<Rightarrow> (int \<times> session_entry) list" where
  "by_seq log = map (\<lambda>e. (se_seq e, e)) log"

definition mirror_ok :: "session_entry list jsmap \<Rightarrow> tape_record list jsmap \<Rightarrow> bool" where
  "mirror_ok E Tp \<longleftrightarrow> (\<forall>sid. well_numbered sid (get_list E sid) \<and>
     project_transcript (get_list Tp sid) = by_seq (get_list E sid))"

definition homes_ok :: "session jsmap \<Rightarrow> session_entry list jsmap \<Rightarrow> s_lease jsmap \<Rightarrow> bool" where
  "homes_ok S E L \<longleftrightarrow> (\<forall>sid. (map_of E sid = None) = (map_of S sid = None) \<and>
     (map_of S sid = None \<longrightarrow> map_of L sid = None))"

definition threads_ok :: "session jsmap \<Rightarrow> string jsmap \<Rightarrow> bool" where
  "threads_ok S B \<longleftrightarrow>
     (\<forall>sid s. map_of S sid = Some s \<longrightarrow> s_id s = sid \<and> sid \<noteq> [] \<and> map_of B (s_threadRef s) = Some sid) \<and>
     (\<forall>ref sid. map_of B ref = Some sid \<longrightarrow> (\<exists>s. map_of S sid = Some s \<and> s_threadRef s = ref))"

definition window_ok :: "nat \<Rightarrow> window \<Rightarrow> bool" where
  "window_ok n w \<longleftrightarrow> (w_validTo w = None) = (w_validToSeq w = None) \<and>
     (\<exists>f. w_validFromSeq w = Some f \<and> 0 \<le> f \<and> f \<le> int n) \<and>
     (\<forall>t. w_validToSeq w = Some t \<longrightarrow> 0 \<le> t \<and> t \<le> int n)"

definition windows_ok :: "sstore \<Rightarrow> bool" where
  "windows_ok st \<longleftrightarrow> (\<forall>sid p w. get_window st sid p = Some w \<longrightarrow> window_ok (length (get_list (ss_entries st) sid)) w)"

definition ss_inv :: "sstore \<Rightarrow> bool" where
  "ss_inv st \<longleftrightarrow> mirror_ok (ss_entries st) (ss_tape st) \<and> homes_ok (ss_sessions st) (ss_entries st) (ss_leases st) \<and>
     threads_ok (ss_sessions st) (ss_byThread st) \<and> windows_ok st"

section \<open>Effects of the helpers\<close>

lemma get_list_update [simp]: "get_list (AList.update k v m) j = (if j = k then v else get_list m j)"
  by (simp add: get_list_def)

lemma get_list_delete [simp]: "get_list (AList.delete k m) j = (if j = k then [] else get_list m j)"
  by (simp add: get_list_def)

lemma get_list_Nil [simp]: "get_list [] k = []"
  by (simp add: get_list_def)

lemma get_list_Some: "map_of m k = Some v \<Longrightarrow> get_list m k = v"
  by (simp add: get_list_def)

lemma get_window_set [simp]:
  "get_window (set_window sid p w st) sid' p' = (if sid' = sid \<and> p' = p then Some w else get_window st sid' p')"
  by (simp add: get_window_def set_window_def)

lemma set_window_frame [simp]:
  "ss_entries (set_window sid p w st) = ss_entries st" "ss_tape (set_window sid p w st) = ss_tape st"
  "ss_sessions (set_window sid p w st) = ss_sessions st" "ss_leases (set_window sid p w st) = ss_leases st"
  "ss_byThread (set_window sid p w st) = ss_byThread st"
  by (simp_all add: set_window_def)

lemma get_window_cong: "ss_windows st = ss_windows st' \<Longrightarrow> get_window st = get_window st'"
  by (auto simp: get_window_def fun_eq_iff)

lemma push_tape_frame [simp]:
  "ss_entries (push_tape sid n r st) = ss_entries st" "ss_sessions (push_tape sid n r st) = ss_sessions st"
  "ss_leases (push_tape sid n r st) = ss_leases st" "ss_byThread (push_tape sid n r st) = ss_byThread st"
  "ss_windows (push_tape sid n r st) = ss_windows st"
  by (simp_all add: push_tape_def Let_def)

lemma push_tape_tape [simp]:
  "get_list (ss_tape (push_tape sid n r st)) k =
     (if k = sid then get_list (ss_tape st) sid @ [stamp_tape r sid (length (get_list (ss_tape st) sid)) n]
      else get_list (ss_tape st) k)"
  by (simp add: push_tape_def Let_def)

lemma index_entry_frame [simp]:
  "ss_entries (index_entry e st) = ss_entries st" "ss_tape (index_entry e st) = ss_tape st"
  "ss_sessions (index_entry e st) = ss_sessions st" "ss_leases (index_entry e st) = ss_leases st"
  "ss_byThread (index_entry e st) = ss_byThread st" "ss_windows (index_entry e st) = ss_windows st"
  by (simp_all add: index_entry_def split: option.splits)

lemma extend_lease_frame [simp]:
  "ss_entries (extend_lease sid n st) = ss_entries st" "ss_tape (extend_lease sid n st) = ss_tape st"
  "ss_sessions (extend_lease sid n st) = ss_sessions st" "ss_windows (extend_lease sid n st) = ss_windows st"
  "ss_byThread (extend_lease sid n st) = ss_byThread st" "ss_searchIndex (extend_lease sid n st) = ss_searchIndex st"
  by (simp_all add: extend_lease_def split: option.splits)

lemma extend_lease_leases [simp]:
  "(map_of (ss_leases (extend_lease sid n st)) k = None) = (map_of (ss_leases st) k = None)"
  "map_option l_token (map_of (ss_leases (extend_lease sid n st)) k) = map_option l_token (map_of (ss_leases st) k)"
  by (auto simp: extend_lease_def split: option.splits)

lemma modify_session_frame [simp]:
  "ss_entries (modify_session sid f st) = ss_entries st" "ss_tape (modify_session sid f st) = ss_tape st"
  "ss_leases (modify_session sid f st) = ss_leases st" "ss_windows (modify_session sid f st) = ss_windows st"
  "ss_byThread (modify_session sid f st) = ss_byThread st"
  by (simp_all add: modify_session_def split: option.splits)

lemma project_snoc:
  "project_transcript (rows @ [row]) =
     (case transcriptEntryFromTape row of None \<Rightarrow> project_transcript rows
      | Some e \<Rightarrow> AList.update (se_seq e) e (project_transcript rows))"
  by (simp add: project_transcript_def split: option.split)

section \<open>Numbered logs\<close>

lemma well_numbered_Nil [simp]: "well_numbered sid []"
  by (simp add: well_numbered_def)

lemma well_numbered_snoc:
  "well_numbered sid log \<Longrightarrow> well_numbered sid (log @ [new_session_entry sid (length log) now e])"
  by (auto simp: well_numbered_def nth_append new_session_entry_def less_Suc_eq)

lemma well_numbered_mem: "well_numbered sid log \<Longrightarrow> e \<in> set log \<Longrightarrow> 0 \<le> se_seq e \<and> se_seq e < int (length log) \<and> log ! nat (se_seq e) = e"
  by (auto simp: well_numbered_def in_set_conv_nth)

lemma well_numbered_update:
  assumes "well_numbered sid log" and "i < length log" and "e' = (log ! i)\<lparr>se_payload := p\<rparr>"
  shows "well_numbered sid (log[i := e'])"
  using assms by (auto simp: well_numbered_def nth_list_update)

lemma by_seq_snoc:
  assumes "well_numbered sid log"
  shows "AList.update (int (length log)) e (by_seq log) = by_seq log @ [(int (length log), e)]"
proof (rule update_fresh)
  have "int (length log) \<notin> set (keys (by_seq log))"
    using well_numbered_mem[OF assms] by (force simp: by_seq_def)
  then show "map_of (by_seq log) (int (length log)) = None" by (simp add: map_of_eq_None_iff)
qed

lemma update_nth_assoc:
  "distinct (keys m) \<Longrightarrow> i < length m \<Longrightarrow> fst (m ! i) = k \<Longrightarrow> AList.update k v m = m[i := (k, v)]"
proof (induction m arbitrary: i)
  case (Cons x m)
  show ?case
  proof (cases i)
    case (Suc j)
    with Cons.prems have "k \<in> set (keys m)" by auto
    moreover have "fst x \<notin> set (keys m)" using Cons.prems by simp
    ultimately have "fst x \<noteq> k" by metis
    with Suc Cons.prems show ?thesis by (cases x) (simp add: Cons.IH)
  qed (use Cons.prems in \<open>cases x, simp\<close>)
qed simp

lemma well_numbered_seqs: "well_numbered sid log \<Longrightarrow> map se_seq log = map int [0..<length log]"
  by (rule nth_equalityI) (auto simp: well_numbered_def)

lemma keys_by_seq: "keys (by_seq log) = map se_seq log"
  by (simp add: by_seq_def)

lemma distinct_by_seq: "well_numbered sid log \<Longrightarrow> distinct (keys (by_seq log))"
  by (simp add: keys_by_seq well_numbered_seqs distinct_map)

lemma by_seq_update:
  assumes "well_numbered sid log" and "i < length log" and "se_seq e' = int i"
  shows "AList.update (se_seq e') e' (by_seq log) = by_seq (log[i := e'])"
proof -
  have "AList.update (int i) e' (by_seq log) = (by_seq log)[i := (int i, e')]"
    by (rule update_nth_assoc)
      (use assms in \<open>auto simp: distinct_by_seq, auto simp: by_seq_def well_numbered_def\<close>)
  then show ?thesis using assms by (simp add: by_seq_def map_update)
qed

section \<open>Every operation keeps the invariant\<close>

text \<open>A change that leaves log, tape, windows and thread index alone and keeps the homes.\<close>

lemma ss_inv_frame:
  assumes "ss_inv st" and "ss_entries st' = ss_entries st" and "ss_tape st' = ss_tape st"
    and "ss_windows st' = ss_windows st" and "ss_byThread st' = ss_byThread st"
    and "ss_sessions st' = ss_sessions st"
    and "\<And>k. map_of (ss_sessions st) k = None \<Longrightarrow> map_of (ss_leases st') k = None"
  shows "ss_inv st'"
  using assms unfolding ss_inv_def homes_ok_def windows_ok_def
  by (simp add: get_window_cong[of st' st])

lemma ss_inv_leaseD: "ss_inv st \<Longrightarrow> map_of (ss_sessions st) k = None \<Longrightarrow> map_of (ss_leases st) k = None"
  by (simp add: ss_inv_def homes_ok_def)

lemma ss_inv_threads:
  assumes "ss_inv st"
  shows "map_of (ss_sessions st) sid = Some s \<Longrightarrow> s_id s = sid \<and> sid \<noteq> [] \<and> map_of (ss_byThread st) (s_threadRef s) = Some sid"
    and "map_of (ss_byThread st) ref = Some sid \<Longrightarrow> \<exists>s. map_of (ss_sessions st) sid = Some s \<and> s_threadRef s = ref"
  using assms unfolding ss_inv_def threads_ok_def by blast+

lemma ss_inv_homes: "ss_inv st \<Longrightarrow> (map_of (ss_entries st) sid = None) = (map_of (ss_sessions st) sid = None)"
  unfolding ss_inv_def homes_ok_def by blast

lemma ss_inv_no_session:
  assumes "ss_inv st" and "map_of (ss_sessions st) sid = None"
  shows "map_of (ss_entries st) sid = None" and "get_list (ss_entries st) sid = []"
proof -
  from ss_inv_homes[OF assms(1)] assms(2) show "map_of (ss_entries st) sid = None" by simp
  then show "get_list (ss_entries st) sid = []" by (simp add: get_list_def)
qed

lemma threads_ok_insert:
  assumes "threads_ok S B" and "map_of S uuid = None" and "map_of B ref = None" and "uuid \<noteq> []"
    and "s_id s = uuid" and "s_threadRef s = ref"
  shows "threads_ok (AList.update uuid s S) (AList.update ref uuid B)"
  unfolding threads_ok_def
proof (intro conjI allI impI)
  fix k x assume k: "map_of (AList.update uuid s S) k = Some x"
  have "s_id x = k \<and> k \<noteq> [] \<and> map_of B (s_threadRef x) = Some k" if "k \<noteq> uuid"
  proof -
    from that k have "map_of S k = Some x" by simp
    with assms(1) show ?thesis unfolding threads_ok_def by blast
  qed
  moreover have "x = s" if "k = uuid" using k that by simp
  ultimately have "s_id x = k \<and> k \<noteq> [] \<and> map_of (AList.update ref uuid B) (s_threadRef x) = Some k"
    using assms(3-6) by (cases "k = uuid") auto
  then show "s_id x = k" "k \<noteq> []" "map_of (AList.update ref uuid B) (s_threadRef x) = Some k" by blast+
next
  fix r k assume r: "map_of (AList.update ref uuid B) r = Some k"
  show "\<exists>x. map_of (AList.update uuid s S) k = Some x \<and> s_threadRef x = r"
  proof (cases "r = ref")
    case True
    with r assms show ?thesis by simp
  next
    case False
    with r have "map_of B r = Some k" by simp
    with assms(1) obtain x where "map_of S k = Some x" "s_threadRef x = r" unfolding threads_ok_def by blast
    with assms(2) show ?thesis by auto
  qed
qed

lemma threads_ok_delete:
  assumes "threads_ok S B" and "map_of S sid = Some s"
  shows "threads_ok (AList.delete sid S) (AList.delete (s_threadRef s) B)"
  unfolding threads_ok_def
proof (intro conjI allI impI)
  fix k x assume k: "map_of (AList.delete sid S) k = Some x"
  then have k': "k \<noteq> sid" "map_of S k = Some x" by (auto split: if_splits)
  have x: "s_id x = k \<and> k \<noteq> [] \<and> map_of B (s_threadRef x) = Some k" and s: "map_of B (s_threadRef s) = Some sid"
    using assms k'(2) unfolding threads_ok_def by blast+
  then show "s_id x = k" "k \<noteq> []" by simp_all
  have "s_threadRef x \<noteq> s_threadRef s" using x s k'(1) by auto
  with x show "map_of (AList.delete (s_threadRef s) B) (s_threadRef x) = Some k" by simp
next
  fix r k assume "map_of (AList.delete (s_threadRef s) B) r = Some k"
  then have r: "r \<noteq> s_threadRef s" "map_of B r = Some k" by (auto split: if_splits)
  then obtain x where "map_of S k = Some x" "s_threadRef x = r" using assms(1) unfolding threads_ok_def by blast
  moreover have "k \<noteq> sid" using assms(2) r calculation by auto
  ultimately show "\<exists>x. map_of (AList.delete sid S) k = Some x \<and> s_threadRef x = r" by auto
qed

lemma ss_inv_create: "ss_inv (createMemorySessionStore ttl)"
  by (simp add: ss_inv_def createMemorySessionStore_def mirror_ok_def homes_ok_def threads_ok_def
      windows_ok_def get_window_def project_transcript_def by_seq_def)

lemma ss_inv_modify:
  assumes inv: "ss_inv st" and "\<And>s. s_id (f s) = s_id s" and "\<And>s. s_threadRef (f s) = s_threadRef s"
  shows "ss_inv (modify_session sid f st)"
proof (cases "map_of (ss_sessions st) sid")
  case None
  then show ?thesis using inv by (simp add: modify_session_def)
next
  case (Some s)
  let ?S = "AList.update sid (f s) (ss_sessions st)"
  note thr = ss_inv_threads[OF inv]
  have "threads_ok ?S (ss_byThread st)"
    unfolding threads_ok_def
  proof (intro conjI allI impI)
    fix k x assume "map_of ?S k = Some x"
    then show "s_id x = k" "k \<noteq> []" "map_of (ss_byThread st) (s_threadRef x) = Some k"
      using thr(1)[of k] thr(1)[OF Some] assms(2,3) by (auto split: if_splits)
  next
    fix ref k assume "map_of (ss_byThread st) ref = Some k"
    from thr(2)[OF this] show "\<exists>s. map_of ?S k = Some s \<and> s_threadRef s = ref"
      using Some assms(3) by auto
  qed
  moreover have "homes_ok ?S (ss_entries st) (ss_leases st)"
    using inv Some unfolding ss_inv_def homes_ok_def by auto
  moreover have "windows_ok (st\<lparr>ss_sessions := ?S\<rparr>)"
    using inv by (simp add: ss_inv_def windows_ok_def get_window_def)
  ultimately show ?thesis using inv Some by (simp add: ss_inv_def modify_session_def)
qed

lemma ss_inv_getOrCreate:
  assumes inv: "ss_inv st" and fresh: "map_of (ss_sessions st) uuid = None" and ne: "uuid \<noteq> []"
  shows "ss_inv (fst (getOrCreateByThread uuid now ref ty scope cn sf st))"
proof (cases "existing_session st ref")
  case (Some s)
  obtain sid where sid: "map_of (ss_byThread st) ref = Some sid" "map_of (ss_sessions st) sid = Some s"
    using Some by (auto simp: existing_session_def split: option.splits if_splits)
  let ?f = "\<lambda>s. let s1 = (if truthy cn \<and> s_channelName s \<noteq> cn then s\<lparr>s_channelName := cn\<rparr> else s)
    in (if truthy sf \<and> \<not> truthy (s_surface s1) then s1\<lparr>s_surface := sf\<rparr> else s1)"
  have "fst (getOrCreateByThread uuid now ref ty scope cn sf st) = modify_session sid ?f st"
    using Some sid by (simp add: getOrCreateByThread_def modify_session_def Let_def)
  moreover have "ss_inv (modify_session sid ?f st)" by (rule ss_inv_modify[OF inv]) (simp_all add: Let_def)
  ultimately show ?thesis by simp
next
  case None
  have nb: "map_of (ss_byThread st) ref = None"
  proof (rule ccontr)
    assume "map_of (ss_byThread st) ref \<noteq> None"
    then obtain sid where sid: "map_of (ss_byThread st) ref = Some sid" by auto
    then obtain s where "map_of (ss_sessions st) sid = Some s" "sid \<noteq> []"
      using inv unfolding ss_inv_def threads_ok_def by blast
    with sid None show False by (simp add: existing_session_def)
  qed
  note e = ss_inv_no_session(2)[OF inv fresh] ss_inv_no_session(1)[OF inv fresh]
  obtain s where s: "fst (getOrCreateByThread uuid now ref ty scope cn sf st) =
      st\<lparr>ss_sessions := AList.update uuid s (ss_sessions st), ss_entries := AList.update uuid [] (ss_entries st),
         ss_byThread := AList.update ref uuid (ss_byThread st)\<rparr>" "s_id s = uuid" "s_threadRef s = ref"
    using None by (simp add: getOrCreateByThread_def Let_def)
  have "threads_ok (AList.update uuid s (ss_sessions st)) (AList.update ref uuid (ss_byThread st))"
    using inv fresh nb s(2,3) ne by (intro threads_ok_insert) (auto simp: ss_inv_def)
  moreover have "mirror_ok (AList.update uuid [] (ss_entries st)) (ss_tape st)"
    using inv e unfolding ss_inv_def mirror_ok_def by (metis get_list_update)
  moreover have "homes_ok (AList.update uuid s (ss_sessions st)) (AList.update uuid [] (ss_entries st)) (ss_leases st)"
    using inv unfolding ss_inv_def homes_ok_def by auto
  moreover have "get_list (AList.update uuid [] (ss_entries st)) = get_list (ss_entries st)" using e by auto
  then have "windows_ok (fst (getOrCreateByThread uuid now ref ty scope cn sf st))"
    using inv unfolding s(1) ss_inv_def windows_ok_def get_window_def by simp
  ultimately show ?thesis unfolding s(1) ss_inv_def by simp
qed

lemma ss_inv_delete:
  assumes inv: "ss_inv st"
  shows "ss_inv (deleteSession sid st)"
proof -
  have "threads_ok (ss_sessions (deleteSession sid st)) (ss_byThread (deleteSession sid st))"
  proof (cases "map_of (ss_sessions st) sid")
    case None
    then have "AList.delete sid (ss_sessions st) = ss_sessions st"
      by (simp add: delete_id map_of_eq_None_iff)
    with None inv show ?thesis by (simp add: deleteSession_def ss_inv_def)
  next
    case (Some s)
    with inv show ?thesis by (simp add: deleteSession_def ss_inv_def threads_ok_delete)
  qed
  moreover have "mirror_ok (ss_entries (deleteSession sid st)) (ss_tape (deleteSession sid st))"
    using inv by (auto simp: deleteSession_def ss_inv_def mirror_ok_def project_transcript_def by_seq_def)
  moreover have "homes_ok (ss_sessions (deleteSession sid st)) (ss_entries (deleteSession sid st))
      (ss_leases (deleteSession sid st))"
    using inv by (auto simp: deleteSession_def ss_inv_def homes_ok_def)
  moreover have "windows_ok (deleteSession sid st)"
    using inv by (auto simp: deleteSession_def ss_inv_def windows_ok_def get_window_def split: if_splits)
  ultimately show ?thesis by (simp add: ss_inv_def)
qed

lemma ss_inv_acquire:
  assumes "ss_inv st"
  shows "ss_inv (fst (acquireLease uuid now sid h st))"
  by (rule ss_inv_frame[OF assms])
    (use ss_inv_leaseD[OF assms] in \<open>auto simp: acquireLease_def split: option.splits if_splits\<close>)

lemma ss_inv_extend: "ss_inv st \<Longrightarrow> ss_inv (extend_lease sid now st)"
  by (rule ss_inv_frame) (use ss_inv_leaseD in auto)

lemma ss_inv_force: "ss_inv st \<Longrightarrow> ss_inv (forceReleaseLease sid st)"
  by (rule ss_inv_frame) (use ss_inv_leaseD in \<open>auto simp: forceReleaseLease_def\<close>)

lemma ss_inv_release: "ss_inv st \<Longrightarrow> ss_inv (release_lease ls st)"
  using ss_inv_force[of st "fst ls"] by (simp add: release_lease_def forceReleaseLease_def split: option.splits)

text \<open>A window is stored that fits the log.\<close>

lemma ss_inv_set_window:
  assumes "ss_inv st" and "window_ok (length (get_list (ss_entries st) sid)) w"
  shows "ss_inv (set_window sid p w st)"
  using assms unfolding ss_inv_def windows_ok_def by auto

lemma ss_inv_participants: "ss_inv st \<Longrightarrow> ss_inv (st\<lparr>ss_participants := P\<rparr>)"
  by (rule ss_inv_frame) (use ss_inv_leaseD in auto)

lemma get_window_ok: "ss_inv st \<Longrightarrow> get_window st sid p = Some w \<Longrightarrow> window_ok (length (get_list (ss_entries st) sid)) w"
  by (simp add: ss_inv_def windows_ok_def)

lemma ss_inv_addParticipant:
  assumes inv: "ss_inv st"
  shows "ss_inv (addParticipant sid p title hist now st)"
proof -
  define st1 where "st1 = st\<lparr>ss_participants := AList.update p (add_to_set sid (get_list (ss_participants st) p)) (ss_participants st)\<rparr>"
  have inv1: "ss_inv st1" unfolding st1_def by (rule ss_inv_participants[OF inv])
  have e: "get_list (ss_entries st1) sid = get_list (ss_entries st) sid" by (simp add: st1_def)
  have "addParticipant sid p title hist now st = set_window sid p w st1 \<Longrightarrow>
      window_ok (length (get_list (ss_entries st) sid)) w \<Longrightarrow> ?thesis" for w
    using ss_inv_set_window[OF inv1, of sid w p] e by simp
  moreover have "\<exists>w. addParticipant sid p title hist now st = set_window sid p w st1 \<and>
      window_ok (length (get_list (ss_entries st) sid)) w"
  proof (cases "get_window st1 sid p")
    case None
    then show ?thesis by (auto simp: addParticipant_def st1_def[symmetric] window_ok_def)
  next
    case (Some w)
    have ok: "window_ok (length (get_list (ss_entries st) sid)) w" using get_window_ok[OF inv1 Some] e by simp
    show ?thesis
    proof (cases "w_validTo w")
      case None
      with Some ok show ?thesis by (auto simp: addParticipant_def st1_def[symmetric] window_ok_def Let_def)
    next
      case Some2: (Some t)
      with Some show ?thesis by (auto simp: addParticipant_def st1_def[symmetric] window_ok_def Let_def)
    qed
  qed
  ultimately show ?thesis by blast
qed

lemma ss_inv_removeParticipant:
  assumes inv: "ss_inv st"
  shows "ss_inv (removeParticipant sid p now st)"
  using inv get_window_ok[OF inv, of sid p]
  by (auto simp: removeParticipant_def window_ok_def intro!: ss_inv_set_window split: option.splits)

lemma ss_inv_updateView:
  assumes inv: "ss_inv st"
  shows "ss_inv (updateParticipantView sid p a b c d st)"
  using inv get_window_ok[OF inv, of sid p]
  by (auto simp: updateParticipantView_def window_ok_def intro!: ss_inv_set_window split: option.splits)

text \<open>Tape rows: one that is no transcript row keeps the mirror, the mirror of an entry updates it.\<close>

definition transcript_free :: "new_tape_record \<Rightarrow> bool" where
  "transcript_free r \<longleftrightarrow> (\<forall>sid n t. transcriptEntryFromTape (stamp_tape r sid n t) = None)"

lemma ss_inv_push_free:
  assumes "ss_inv st" and "transcript_free r"
  shows "ss_inv (push_tape sid now r st)"
proof -
  have W: "get_window (push_tape sid now r st) = get_window st" by (rule get_window_cong) simp
  have "project_transcript (get_list (ss_tape (push_tape sid now r st)) k) = project_transcript (get_list (ss_tape st) k)" for k
    using assms(2) by (simp add: project_snoc transcript_free_def)
  with W assms(1) show ?thesis by (simp add: ss_inv_def mirror_ok_def windows_ok_def)
qed

lemma append_entry_Inr:
  assumes "ss_inv st" and "lease_valid st ls now"
  obtains log where "map_of (ss_entries st) (fst ls) = Some log"
    and "append_entry ls now e st =
      (index_entry (new_session_entry (fst ls) (length log) now e)
        (push_tape (fst ls) now (tapeTranscriptEntryRecord (new_session_entry (fst ls) (length log) now e))
          ((extend_lease (fst ls) now st)\<lparr>ss_entries :=
             AList.update (fst ls) (log @ [new_session_entry (fst ls) (length log) now e]) (ss_entries st)\<rparr>)),
       Inr (new_session_entry (fst ls) (length log) now e))"
proof -
  have "map_of (ss_leases st) (fst ls) \<noteq> None" using assms(2) by (auto simp: lease_valid_def split: option.splits)
  then have "map_of (ss_sessions st) (fst ls) \<noteq> None" using ss_inv_leaseD[OF assms(1), of "fst ls"] by argo
  then have "map_of (ss_entries st) (fst ls) \<noteq> None" using ss_inv_homes[OF assms(1), of "fst ls"] by simp
  then obtain log where log: "map_of (ss_entries st) (fst ls) = Some log" by auto
  have "\<not> \<not> lease_valid st ls now" using assms(2) by simp
  show thesis
    by (rule that[of log, OF log]) (simp only: append_entry_def Let_def if_not_P[OF \<open>\<not> \<not> lease_valid st ls now\<close>]
      extend_lease_frame log option.case)
qed

lemma new_entry_fields [simp]:
  "se_seq (new_session_entry sid n now e) = int n" "se_sessionId (new_session_entry sid n now e) = sid"
  by (simp_all add: new_session_entry_def)

lemma transcript_of_new [simp]:
  "transcriptEntryFromTape (stamp_tape (tapeTranscriptEntryRecord (new_session_entry sid n now e)) sid k t) =
     Some (new_session_entry sid n now e)"
  using transcript_roundtrip[of "new_session_entry sid n now e" k t] by simp

lemma ss_inv_append:
  assumes inv: "ss_inv st"
  shows "ss_inv (fst (append_entry ls now e st))"
proof (cases "lease_valid st ls now")
  case False
  then show ?thesis using inv by (simp add: append_entry_def)
next
  case True
  from inv True obtain log where log: "map_of (ss_entries st) (fst ls) = Some log"
    and app: "append_entry ls now e st =
      (index_entry (new_session_entry (fst ls) (length log) now e)
        (push_tape (fst ls) now (tapeTranscriptEntryRecord (new_session_entry (fst ls) (length log) now e))
          ((extend_lease (fst ls) now st)\<lparr>ss_entries :=
             AList.update (fst ls) (log @ [new_session_entry (fst ls) (length log) now e]) (ss_entries st)\<rparr>)),
       Inr (new_session_entry (fst ls) (length log) now e))"
    by (rule append_entry_Inr)
  let ?st = "fst (append_entry ls now e st)" and ?new = "new_session_entry (fst ls) (length log) now e"
  have E: "ss_entries ?st = AList.update (fst ls) (log @ [?new]) (ss_entries st)"
    and W: "ss_windows ?st = ss_windows st" by (simp_all add: app)
  have gl: "get_list (ss_entries st) (fst ls) = log" by (rule get_list_Some[OF log])
  have wn: "well_numbered (fst ls) log" and pr: "project_transcript (get_list (ss_tape st) (fst ls)) = by_seq log"
    using inv gl unfolding ss_inv_def mirror_ok_def by metis+
  have "mirror_ok (ss_entries ?st) (ss_tape ?st)"
    using inv pr by (auto simp: app mirror_ok_def ss_inv_def project_snoc well_numbered_snoc[OF wn]
        by_seq_snoc[OF wn]) (simp add: by_seq_def)
  moreover have "homes_ok (ss_sessions ?st) (ss_entries ?st) (ss_leases ?st)"
    using inv log by (auto simp: app ss_inv_def homes_ok_def)
  moreover have "windows_ok ?st"
    using inv gl unfolding windows_ok_def get_window_cong[OF W] E ss_inv_def
    by (auto simp: window_ok_def) fastforce+
  ultimately show ?thesis using inv by (simp add: app ss_inv_def)
qed

text \<open>What the removal of the taint mark may change of an entry: its payload only.\<close>

definition entry_core :: "session_entry \<Rightarrow> session_entry" where
  "entry_core e = e\<lparr>se_payload := JNull\<rparr>"

lemma untaint_Some: "untaint e = Some e' \<Longrightarrow> \<exists>p. e' = e\<lparr>se_payload := p\<rparr>"
  by (auto simp: untaint.simps split: json.splits if_splits)

lemma well_numbered_at: "well_numbered sid (pre @ e # es) \<Longrightarrow> se_seq e = int (length pre) \<and> se_sessionId e = sid"
  unfolding well_numbered_def by (metis nth_append_length length_append length_Cons add_Suc_right less_add_Suc1)

lemma clear_loop_effect:
  assumes "well_numbered sid (pre @ es)"
    and "project_transcript (get_list (ss_tape st) sid) = by_seq (pre @ es)"
  shows "project_transcript (get_list (ss_tape (fst (clear_loop sid now es st))) sid) = by_seq (pre @ snd (clear_loop sid now es st)) \<and>
    well_numbered sid (pre @ snd (clear_loop sid now es st)) \<and>
    map entry_core (snd (clear_loop sid now es st)) = map entry_core es \<and>
    (\<exists>Tp. fst (clear_loop sid now es st) = st\<lparr>ss_tape := Tp\<rparr>) \<and>
    (\<forall>k. k \<noteq> sid \<longrightarrow> get_list (ss_tape (fst (clear_loop sid now es st))) k = get_list (ss_tape st) k)"
  using assms
proof (induction es arbitrary: pre st)
  case Nil
  have "\<exists>Tp. st = st\<lparr>ss_tape := Tp\<rparr>" by (rule exI[of _ "ss_tape st"]) simp
  with Nil show ?case by simp
next
  case (Cons e es)
  show ?case
  proof (cases "untaint e")
    case None
    with Cons.IH[of "pre @ [e]" st] Cons.prems show ?thesis by (simp add: map_prod_def split_beta)
  next
    case (Some e')
    obtain q where q: "e' = e\<lparr>se_payload := q\<rparr>" using untaint_Some[OF Some] by blast
    note at = well_numbered_at[OF Cons.prems(1)]
    let ?st = "push_tape sid now (tapeTranscriptEntryRecord e') st"
    have wn: "well_numbered sid ((pre @ [e']) @ es)"
      using well_numbered_update[OF Cons.prems(1), of "length pre" e' q] q by simp
    have tr: "transcriptEntryFromTape (stamp_tape (tapeTranscriptEntryRecord e') sid k now) = Some e'" for k
      using transcript_roundtrip[of e' k now] q at by simp
    have "AList.update (se_seq e') e' (by_seq (pre @ e # es)) = by_seq ((pre @ [e']) @ es)"
      using by_seq_update[OF Cons.prems(1), of "length pre" e'] q at by simp
    then have pr: "project_transcript (get_list (ss_tape ?st) sid) = by_seq ((pre @ [e']) @ es)"
      using Cons.prems(2) by (simp add: project_snoc tr)
    obtain Tp where Tp: "?st = st\<lparr>ss_tape := Tp\<rparr>" by (simp add: push_tape_def Let_def)
    have "get_list Tp k = get_list (ss_tape st) k" if "k \<noteq> sid" for k
      using push_tape_tape[of sid now "tapeTranscriptEntryRecord e'" st k] that unfolding Tp by simp
    with Tp have "?st = st\<lparr>ss_tape := Tp\<rparr>" "\<forall>k. k \<noteq> sid \<longrightarrow> get_list Tp k = get_list (ss_tape st) k" by blast+
    moreover have "entry_core e' = entry_core e" using q by (simp add: entry_core_def)
    ultimately show ?thesis using Cons.IH[OF wn pr] Some by (auto simp: map_prod_def split_beta)
  qed
qed

lemma clearSecurityTaint_effect:
  assumes inv: "ss_inv st" and log: "map_of (ss_entries st) sid = Some log"
  obtains Tp log' where "clearSecurityTaint sid now st =
      (st\<lparr>ss_tape := Tp, ss_entries := AList.update sid log' (ss_entries st)\<rparr>, True)"
    and "project_transcript (get_list Tp sid) = by_seq log'" and "well_numbered sid log'"
    and "map entry_core log' = map entry_core log" and "\<forall>k. k \<noteq> sid \<longrightarrow> get_list Tp k = get_list (ss_tape st) k"
proof -
  have "well_numbered sid log" "project_transcript (get_list (ss_tape st) sid) = by_seq log"
    using inv get_list_Some[OF log] unfolding ss_inv_def mirror_ok_def by metis+
  note eff = clear_loop_effect[of sid "[]" log st now, simplified, OF this]
  from eff obtain Tp where Tp: "fst (clear_loop sid now log st) = st\<lparr>ss_tape := Tp\<rparr>" by blast
  have "clearSecurityTaint sid now st =
      (st\<lparr>ss_tape := Tp, ss_entries := AList.update sid (snd (clear_loop sid now log st)) (ss_entries st)\<rparr>, True)"
    using log Tp by (simp add: clearSecurityTaint_def split_beta Let_def)
  then show thesis by (rule that) (use eff Tp in auto)
qed

lemma ss_inv_clear:
  assumes inv: "ss_inv st"
  shows "ss_inv (fst (clearSecurityTaint sid now st))"
proof (cases "map_of (ss_entries st) sid")
  case None
  then show ?thesis using inv by (simp add: clearSecurityTaint_def)
next
  case (Some log)
  from inv Some obtain Tp log' where c: "clearSecurityTaint sid now st =
      (st\<lparr>ss_tape := Tp, ss_entries := AList.update sid log' (ss_entries st)\<rparr>, True)"
    and p: "project_transcript (get_list Tp sid) = by_seq log'" "well_numbered sid log'"
    and core: "map entry_core log' = map entry_core log" and k: "\<forall>k. k \<noteq> sid \<longrightarrow> get_list Tp k = get_list (ss_tape st) k"
    by (rule clearSecurityTaint_effect[where now = now])
  have len: "length log' = length (get_list (ss_entries st) sid)"
    using core get_list_Some[OF Some] by (metis length_map)
  have "mirror_ok (AList.update sid log' (ss_entries st)) Tp"
    using inv p k unfolding ss_inv_def mirror_ok_def by (metis get_list_update)
  moreover have "windows_ok (st\<lparr>ss_tape := Tp, ss_entries := AList.update sid log' (ss_entries st)\<rparr>)"
    using inv len by (auto simp: ss_inv_def windows_ok_def get_window_def)
  moreover have "homes_ok (ss_sessions st) (AList.update sid log' (ss_entries st)) (ss_leases st)"
    using inv Some ss_inv_homes[OF inv, of sid] unfolding ss_inv_def homes_ok_def by auto
  ultimately show ?thesis using inv by (simp add: c ss_inv_def)
qed

section \<open>Steps\<close>

text \<open>One step of a client: any operation of the store. Identifiers are drawn from \<open>T\<close>, participants are
  admitted from \<open>A\<close>; a new session's identifier is not in use, and no caller writes transcript rows
  to the tape itself (only \<open>tapeTranscriptEntryRecord\<close> makes them).\<close>

inductive ss_step :: "string set \<Rightarrow> (string \<times> string) set \<Rightarrow> sstore \<Rightarrow> sstore \<Rightarrow> bool" for T A where
  getOrCreate: "uuid \<in> T \<Longrightarrow> uuid \<noteq> [] \<Longrightarrow> map_of (ss_sessions st) uuid = None \<Longrightarrow>
    ss_step T A st (fst (getOrCreateByThread uuid now ref ty scope cn sf st))"
| title: "ss_step T A st (updateTitle sid title st)"
| fork: "ss_step T A st (updateForkProvenance sid from boundary st)"
| parent: "ss_step T A st (setParentSession sid par st)"
| spawn: "ss_step T A st (setSpawnMeta sid meta st)"
| delete: "ss_step T A st (deleteSession sid st)"
| deleteIfEmpty: "ss_step T A st (fst (deleteSessionIfEmpty sid now st))"
| acquire: "uuid \<in> T \<Longrightarrow> ss_step T A st (fst (acquireLease uuid now sid h st))"
| renew: "ss_step T A st (fst (renewLease ls now st))"
| release: "ss_step T A st (release_lease ls st)"
| force: "ss_step T A st (forceReleaseLease sid st)"
| append: "ss_step T A st (fst (append_entry ls now e st))"
| appendTape: "transcript_free r \<Longrightarrow> ss_step T A st (fst (appendTape ls now r st))"
| appendSearch: "ss_step T A st (fst (appendSearchEntries ls now rows st))"
| clear: "ss_step T A st (fst (clearSecurityTaint sid now st))"
| llm: "ss_step T A st (fst (recordLlmRequest sha uuid now sid ts n model scope env tr fig st))"
| add: "(sid, p) \<in> A \<Longrightarrow> ss_step T A st (addParticipant sid p title' hist now st)"
| remove: "ss_step T A st (removeParticipant sid p now st)"
| view: "ss_step T A st (updateParticipantView sid p a b c d st)"
| addPin: "ss_step T A st (fst (addPin uuid sid pin mx now st))"
| removePin: "ss_step T A st (fst (removePin sid pid st))"

lemmas session_setters = updateTitle_def updateForkProvenance_def setParentSession_def setSpawnMeta_def

text \<open>Operations that leave sessions, log, tape, windows, threads and leases alone.\<close>

lemma side_ops_frame [simp]:
  "ss_entries (fst (recordLlmRequest sha uuid now sid ts n model scope env tr fig st)) = ss_entries st"
  "ss_tape (fst (recordLlmRequest sha uuid now sid ts n model scope env tr fig st)) = ss_tape st"
  "ss_windows (fst (recordLlmRequest sha uuid now sid ts n model scope env tr fig st)) = ss_windows st"
  "ss_sessions (fst (recordLlmRequest sha uuid now sid ts n model scope env tr fig st)) = ss_sessions st"
  "ss_byThread (fst (recordLlmRequest sha uuid now sid ts n model scope env tr fig st)) = ss_byThread st"
  "ss_leases (fst (recordLlmRequest sha uuid now sid ts n model scope env tr fig st)) = ss_leases st"
  "ss_entries (fst (addPin uuid sid pin mx now st)) = ss_entries st"
  "ss_tape (fst (addPin uuid sid pin mx now st)) = ss_tape st"
  "ss_windows (fst (addPin uuid sid pin mx now st)) = ss_windows st"
  "ss_sessions (fst (addPin uuid sid pin mx now st)) = ss_sessions st"
  "ss_byThread (fst (addPin uuid sid pin mx now st)) = ss_byThread st"
  "ss_leases (fst (addPin uuid sid pin mx now st)) = ss_leases st"
  "ss_entries (fst (removePin sid pid st)) = ss_entries st"
  "ss_tape (fst (removePin sid pid st)) = ss_tape st"
  "ss_windows (fst (removePin sid pid st)) = ss_windows st"
  "ss_sessions (fst (removePin sid pid st)) = ss_sessions st"
  "ss_byThread (fst (removePin sid pid st)) = ss_byThread st"
  "ss_leases (fst (removePin sid pid st)) = ss_leases st"
  by (simp_all add: recordLlmRequest_def addPin_def removePin_def Let_def split: option.splits prod.splits)

lemma ss_inv_side:
  assumes "ss_inv st"
  shows "ss_inv (fst (recordLlmRequest sha uuid now sid ts n model scope env tr fig st))"
    and "ss_inv (fst (addPin uuid sid pin mx now st))" and "ss_inv (fst (removePin sid pid st))"
  by (rule ss_inv_frame[OF assms]; simp add: ss_inv_leaseD[OF assms])+

lemma ss_inv_appendTape:
  assumes "ss_inv st" and "transcript_free r"
  shows "ss_inv (fst (appendTape ls now r st))"
  using assms by (simp add: appendTape_def Let_def ss_inv_push_free ss_inv_extend)

lemma ss_inv_appendSearch:
  assumes "ss_inv st"
  shows "ss_inv (fst (appendSearchEntries ls now rows st))"
  by (rule ss_inv_frame[OF assms])
    (use ss_inv_leaseD[OF assms] in \<open>simp_all add: appendSearchEntries_def Let_def\<close>)

lemma ss_inv_deleteIfEmpty: "ss_inv st \<Longrightarrow> ss_inv (fst (deleteSessionIfEmpty sid now st))"
  by (simp add: deleteSessionIfEmpty_def ss_inv_delete split: option.splits)

lemma ss_inv_renew: "ss_inv st \<Longrightarrow> ss_inv (fst (renewLease ls now st))"
  by (simp add: renewLease_def ss_inv_extend)

lemma ss_inv_setters:
  assumes "ss_inv st"
  shows "ss_inv (updateTitle sid title st)" "ss_inv (updateForkProvenance sid from boundary st)"
    "ss_inv (setParentSession sid par st)" "ss_inv (setSpawnMeta sid meta st)"
  unfolding session_setters by (rule ss_inv_modify[OF assms]; simp)+

lemma ss_step_inv: "ss_step T A st st' \<Longrightarrow> ss_inv st \<Longrightarrow> ss_inv st'"
  by (induction rule: ss_step.induct)
    (blast intro: ss_inv_getOrCreate ss_inv_setters ss_inv_delete ss_inv_deleteIfEmpty ss_inv_acquire
      ss_inv_renew ss_inv_release ss_inv_force ss_inv_append ss_inv_appendTape ss_inv_appendSearch ss_inv_clear
      ss_inv_side ss_inv_addParticipant ss_inv_removeParticipant ss_inv_updateView)+

interpretation sess: invariant_system "\<lambda>s. \<exists>ttl. s = createMemorySessionStore ttl" "ss_step T A" ss_inv
  by unfold_locales (auto intro: ss_inv_create ss_step_inv)

section \<open>What a step may change\<close>

lemma clear_loop_tape_only: "\<exists>Tp. fst (clear_loop sid now es st) = st\<lparr>ss_tape := Tp\<rparr>"
proof (induction es arbitrary: st)
  case Nil
  show ?case by (rule exI[of _ "ss_tape st"]) simp
next
  case (Cons e es)
  show ?case
  proof (cases "untaint e")
    case None
    with Cons[of st] show ?thesis by (simp add: map_prod_def split_beta)
  next
    case (Some e')
    obtain Tp where "push_tape sid now (tapeTranscriptEntryRecord e') st = st\<lparr>ss_tape := Tp\<rparr>"
      by (simp add: push_tape_def Let_def)
    with Some Cons[of "st\<lparr>ss_tape := Tp\<rparr>"] show ?thesis by (auto simp: map_prod_def split_beta)
  qed
qed

lemma clear_frame [simp]:
  "ss_windows (fst (clearSecurityTaint sid now st)) = ss_windows st"
  "ss_leases (fst (clearSecurityTaint sid now st)) = ss_leases st"
proof -
  have "ss_windows (fst (clearSecurityTaint sid now st)) = ss_windows st \<and>
      ss_leases (fst (clearSecurityTaint sid now st)) = ss_leases st"
  proof (cases "map_of (ss_entries st) sid")
    case (Some log)
    obtain Tp where "fst (clear_loop sid now log st) = st\<lparr>ss_tape := Tp\<rparr>" using clear_loop_tape_only by blast
    with Some show ?thesis by (simp add: clearSecurityTaint_def split_beta Let_def)
  qed (simp add: clearSecurityTaint_def)
  then show "ss_windows (fst (clearSecurityTaint sid now st)) = ss_windows st"
    "ss_leases (fst (clearSecurityTaint sid now st)) = ss_leases st" by blast+
qed

lemma getOrCreate_frame [simp]:
  "ss_windows (fst (getOrCreateByThread uuid now ref ty scope cn sf st)) = ss_windows st"
  "ss_leases (fst (getOrCreateByThread uuid now ref ty scope cn sf st)) = ss_leases st"
  by (simp_all add: getOrCreateByThread_def Let_def split: option.splits)

lemma lease_ops_frame [simp]:
  "ss_windows (fst (acquireLease uuid now sid h st)) = ss_windows st"
  "ss_windows (fst (renewLease ls now st)) = ss_windows st"
  "ss_windows (release_lease ls st) = ss_windows st" "ss_windows (forceReleaseLease sid st) = ss_windows st"
  "ss_entries (fst (acquireLease uuid now sid h st)) = ss_entries st"
  "ss_entries (fst (renewLease ls now st)) = ss_entries st"
  "ss_entries (release_lease ls st) = ss_entries st" "ss_entries (forceReleaseLease sid st) = ss_entries st"
  by (simp_all add: acquireLease_def renewLease_def release_lease_def forceReleaseLease_def split: option.splits)

lemma write_ops_windows [simp]:
  "ss_windows (fst (append_entry ls now e st)) = ss_windows st"
  "ss_windows (fst (appendTape ls now r st)) = ss_windows st"
  "ss_windows (fst (appendSearchEntries ls now rows st)) = ss_windows st"
  "ss_entries (fst (appendTape ls now r st)) = ss_entries st"
  "ss_entries (fst (appendSearchEntries ls now rows st)) = ss_entries st"
  by (simp_all add: append_entry_def appendTape_def appendSearchEntries_def Let_def split: option.splits)

lemma participant_ops_frame [simp]:
  "ss_entries (addParticipant sid p title hist now st) = ss_entries st"
  "ss_entries (removeParticipant sid p now st) = ss_entries st"
  "ss_entries (updateParticipantView sid p a b c d st) = ss_entries st"
  "ss_leases (addParticipant sid p title hist now st) = ss_leases st"
  "ss_leases (removeParticipant sid p now st) = ss_leases st"
  "ss_leases (updateParticipantView sid p a b c d st) = ss_leases st"
  by (simp_all add: addParticipant_def removeParticipant_def updateParticipantView_def Let_def split: option.splits)

lemma write_ops_tokens:
  "map_option l_token (map_of (ss_leases (fst (append_entry ls now e st))) k) = map_option l_token (map_of (ss_leases st) k)"
  "map_option l_token (map_of (ss_leases (fst (appendTape ls now r st))) k) = map_option l_token (map_of (ss_leases st) k)"
  "map_option l_token (map_of (ss_leases (fst (appendSearchEntries ls now rows st))) k) = map_option l_token (map_of (ss_leases st) k)"
  "map_option l_token (map_of (ss_leases (fst (renewLease ls now st))) k) = map_option l_token (map_of (ss_leases st) k)"
  by (simp_all add: append_entry_def appendTape_def appendSearchEntries_def renewLease_def Let_def split: option.splits)

text \<open>Tokens: a step leaves a session's token, drops it, or issues one drawn from \<open>T\<close>.\<close>

definition lease_token :: "sstore \<Rightarrow> string \<Rightarrow> string option" where
  "lease_token st sid = map_option l_token (map_of (ss_leases st) sid)"

lemma acquire_token: "lease_token (fst (acquireLease uuid now sid h st)) k = Some t \<Longrightarrow>
    lease_token st k = Some t \<or> t = uuid"
  by (auto simp: lease_token_def acquireLease_def split: option.splits if_splits)

lemma delete_tokens: "lease_token (deleteSession sid st) k = Some t \<Longrightarrow> lease_token st k = Some t"
  by (auto simp: lease_token_def deleteSession_def split: if_splits)

lemma release_tokens:
  "lease_token (forceReleaseLease sid st) k = Some t \<Longrightarrow> lease_token st k = Some t"
  "lease_token (release_lease ls st) k = Some t \<Longrightarrow> lease_token st k = Some t"
  by (auto simp: lease_token_def forceReleaseLease_def release_lease_def split: if_splits option.splits)

lemma deleteIfEmpty_cases: "fst (deleteSessionIfEmpty sid now st) \<in> {st, deleteSession sid st}"
  by (auto simp: deleteSessionIfEmpty_def split: option.splits)

lemma ss_step_tokens:
  assumes "ss_step T A st st'" and "lease_token st' k = Some t"
  shows "lease_token st k = Some t \<or> t \<in> T"
  using assms
proof (induction rule: ss_step.induct)
  case (acquire uuid st now sid h)
  then show ?case using acquire_token by blast
next
  case (deleteIfEmpty st sid now)
  then show ?case using deleteIfEmpty_cases[of sid now st] delete_tokens[of sid st k t] by auto
next
  case (delete st sid)
  then show ?case using delete_tokens by blast
next
  case (release st ls)
  then show ?case using release_tokens(2) by blast
next
  case (force st sid)
  then show ?case using release_tokens(1) by blast
qed (simp_all add: write_ops_tokens session_setters lease_token_def)

interpretation sess_tok: token_fencing "\<lambda>T. ss_step T UNIV" ss_inv lease_token
  by unfold_locales (auto intro: ss_step_inv dest: ss_step_tokens)

end
