(* ===== verification/Session_Properties.thy ===== *)
theory Session_Properties
  imports Session_Lifecycle
begin

text \<open>
  The properties of the session store: the transcript read from the tape is the log, writing is
  fenced by leases, the log of a session only grows, a thread has one session, and a participant
  sees exactly the entries of the time they took part in.
\<close>

section \<open>The log over time\<close>

definition core_log :: "sstore \<Rightarrow> string \<Rightarrow> session_entry list" where
  "core_log st sid = map entry_core (get_list (ss_entries st) sid)"

lemma entry_core_fields [simp]:
  "se_seq (entry_core e) = se_seq e" "se_createdAt (entry_core e) = se_createdAt e"
  by (simp_all add: entry_core_def)

text \<open>One step: the session disappears, or its log is extended.\<close>

definition extends_log :: "sstore \<Rightarrow> sstore \<Rightarrow> string \<Rightarrow> bool" where
  "extends_log st st' sid \<longleftrightarrow> (map_of (ss_entries st') sid \<noteq> None \<longrightarrow>
     map_of (ss_entries st) sid \<noteq> None \<and> (\<exists>x. core_log st' sid = core_log st sid @ x))"

lemma extends_log_same: "ss_entries st' = ss_entries st \<Longrightarrow> extends_log st st' sid"
  by (simp add: extends_log_def core_log_def)

lemma extends_log_delete: "extends_log st (deleteSession k st) sid"
  by (simp add: extends_log_def core_log_def deleteSession_def)

lemma extends_log_append:
  assumes "ss_inv st"
  shows "extends_log st (fst (append_entry ls now e st)) sid"
proof (cases "lease_valid st ls now")
  case True
  from assms True obtain log where "map_of (ss_entries st) (fst ls) = Some log"
    and "append_entry ls now e st =
      (index_entry (new_session_entry (fst ls) (length log) now e)
        (push_tape (fst ls) now (tapeTranscriptEntryRecord (new_session_entry (fst ls) (length log) now e))
          ((extend_lease (fst ls) now st)\<lparr>ss_entries :=
             AList.update (fst ls) (log @ [new_session_entry (fst ls) (length log) now e]) (ss_entries st)\<rparr>)),
       Inr (new_session_entry (fst ls) (length log) now e))"
    by (rule append_entry_Inr)
  then show ?thesis by (simp add: extends_log_def core_log_def get_list_Some)
qed (simp add: append_entry_def extends_log_same)

lemma extends_log_clear:
  assumes "ss_inv st"
  shows "extends_log st (fst (clearSecurityTaint k now st)) sid"
proof (cases "map_of (ss_entries st) k")
  case (Some log)
  from assms Some obtain Tp log' where "clearSecurityTaint k now st =
      (st\<lparr>ss_tape := Tp, ss_entries := AList.update k log' (ss_entries st)\<rparr>, True)"
    and "map entry_core log' = map entry_core log"
    by (rule clearSecurityTaint_effect[where now = now])
  then show ?thesis using Some by (simp add: extends_log_def core_log_def get_list_Some)
qed (simp add: clearSecurityTaint_def extends_log_same)

lemma extends_log_create:
  assumes "sid \<noteq> uuid"
  shows "extends_log st (fst (getOrCreateByThread uuid now ref ty scope cn sf st)) sid"
  using assms
  by (simp add: extends_log_def core_log_def getOrCreateByThread_def Let_def split: option.splits)

lemma ss_step_extends_log:
  assumes "ss_step T A st st'" and "ss_inv st" and "sid \<notin> T"
  shows "extends_log st st' sid"
  using assms
proof (induction rule: ss_step.induct)
  case (getOrCreate uuid st now ref ty scope cn sf)
  then show ?case by (intro extends_log_create) auto
next
  case (deleteIfEmpty st k now)
  then show ?case using deleteIfEmpty_cases[of k now st] extends_log_delete[of st k sid]
      extends_log_same[of st st sid] by auto
qed (simp_all add: extends_log_append extends_log_clear extends_log_delete extends_log_same session_setters)

lemma ss_steps_extend_log:
  assumes "(ss_step T A)\<^sup>*\<^sup>* st st'" and "ss_inv st" and "sid \<notin> T"
  shows "extends_log st st' sid"
  using assms(1)
proof (induction rule: rtranclp_induct)
  case (step u v)
  have "ss_inv u" using sess.steps_inv[OF step(1) assms(2)] .
  from ss_step_extends_log[OF step(2) this assms(3)] step(3) show ?case
    by (auto simp: extends_log_def)
qed (simp add: extends_log_same)

section \<open>Windows over time\<close>

text \<open>Without admission, a window keeps its start, and once it is closed its end.\<close>

definition keeps_window :: "window option \<Rightarrow> window option \<Rightarrow> bool" where
  "keeps_window w w' \<longleftrightarrow> w' = None \<or> (\<exists>a b. w = Some a \<and> w' = Some b \<and> w_validFromSeq b = w_validFromSeq a \<and>
     (w_validToSeq a \<noteq> None \<longrightarrow> w_validToSeq b = w_validToSeq a))"

lemma keeps_window_refl [simp]: "keeps_window w w"
  by (cases w) (auto simp: keeps_window_def)

lemma keeps_window_trans: "keeps_window u v \<Longrightarrow> keeps_window v w \<Longrightarrow> keeps_window u w"
  by (auto simp: keeps_window_def)

lemma ss_step_window:
  assumes "ss_step T A st st'" and "ss_inv st" and "(sid, p) \<notin> A"
  shows "keeps_window (get_window st sid p) (get_window st' sid p)"
  using assms
proof (induction rule: ss_step.induct)
  case (add sid' p' st title' hist now)
  then have "get_window (addParticipant sid' p' title' hist now st) sid p = get_window st sid p"
    by (auto simp: addParticipant_def Let_def get_window_def set_window_def split: option.splits)
  then show ?case by simp
next
  case (remove st sid' p' now)
  show ?case
  proof (cases "get_window st sid' p'")
    case (Some w)
    have "w_validTo w = None \<Longrightarrow> w_validToSeq w = None"
      using get_window_ok[OF remove.prems(1) Some] by (simp add: window_ok_def)
    then show ?thesis using Some
      by (cases "sid = sid' \<and> p = p'") (auto simp: removeParticipant_def keeps_window_def[of "Some _"])
  qed (simp add: removeParticipant_def)
next
  case (view st sid' p' a b c d)
  show ?case
    by (cases "sid = sid' \<and> p = p'")
      (auto simp: updateParticipantView_def keeps_window_def[of "Some _"] split: option.splits)
next
  case (delete st k)
  show ?case by (cases "sid = k") (auto simp: deleteSession_def get_window_def keeps_window_def[of _ None])
next
  case (deleteIfEmpty st k now)
  have "keeps_window (get_window st sid p) (get_window (deleteSession k st) sid p)"
    by (cases "sid = k") (auto simp: deleteSession_def get_window_def keeps_window_def[of _ None])
  then show ?case using deleteIfEmpty_cases[of k now st] by auto
qed (simp_all add: get_window_def session_setters)

lemma ss_steps_window:
  assumes "(ss_step T A)\<^sup>*\<^sup>* st st'" and "ss_inv st" and "(sid, p) \<notin> A"
  shows "keeps_window (get_window st sid p) (get_window st' sid p)"
  using assms(1)
proof (induction rule: rtranclp_induct)
  case (step u v)
  from ss_step_window[OF step(2) sess.steps_inv[OF step(1) assms(2)] assms(3)] step(3) show ?case
    by (blast intro: keeps_window_trans)
qed simp

text \<open>What a participant sees, up to payloads: a slice of the log.\<close>

definition in_tenure :: "int \<Rightarrow> int option \<Rightarrow> session_entry \<Rightarrow> bool" where
  "in_tenure f t e \<longleftrightarrow> f \<le> se_seq e \<and> (case t of None \<Rightarrow> True | Some n \<Rightarrow> se_seq e < n)"

lemma in_tenure_core [simp]: "in_tenure f t (entry_core e) = in_tenure f t e"
  by (simp add: in_tenure_def split: option.splits)

lemma visible_core:
  assumes "ss_inv st" and "get_window st sid p = Some w"
  shows "map entry_core (visibleEntries st sid p) =
    filter (in_tenure (the (w_validFromSeq w)) (w_validToSeq w)) (core_log st sid)"
proof -
  have "window_ok (length (get_list (ss_entries st) sid)) w" by (rule get_window_ok[OF assms])
  then obtain f where "w_validFromSeq w = Some f" "(w_validTo w = None) = (w_validToSeq w = None)"
    by (auto simp: window_ok_def)
  then have "entryWithinTenure (se_seq e) (se_createdAt e) w = in_tenure (the (w_validFromSeq w)) (w_validToSeq w) e" for e
    by (auto simp: entryWithinTenure_def in_tenure_def split: option.splits)
  then show ?thesis using assms(2)
    by (simp add: visibleEntries_def core_log_def filter_map o_def)
qed

lemma core_log_seq:
  assumes "ss_inv st" and "i < length (core_log st sid)"
  shows "se_seq (core_log st sid ! i) = int i"
proof -
  have "well_numbered sid (get_list (ss_entries st) sid)" using assms(1) by (simp add: ss_inv_def mirror_ok_def)
  with assms(2) show ?thesis by (simp add: core_log_def well_numbered_def)
qed

text \<open>The entries past a closed window's end are past it in every later log too.\<close>

lemma filter_closed:
  assumes "ss_inv st'" and "core_log st' sid = core_log st sid @ x" and "t \<le> int (length (core_log st sid))"
  shows "filter (in_tenure f (Some t)) (core_log st' sid) = filter (in_tenure f (Some t)) (core_log st sid)"
proof -
  have "\<not> in_tenure f (Some t) e" if "e \<in> set x" for e
  proof -
    from that obtain j where "j < length x" "x ! j = e" by (auto simp: in_set_conv_nth)
    then have "se_seq e = int (length (core_log st sid) + j)"
      using core_log_seq[OF assms(1), of "length (core_log st sid) + j" sid] assms(2) by simp
    with assms(3) show ?thesis by (simp add: in_tenure_def)
  qed
  then show ?thesis using assms(2) by simp
qed

section \<open>Properties\<close>

text \<open>C8: the transcript that is rebuilt from the tape is the session's log. In every reachable state,
  for every range and every limit other than zero, \<open>getTranscriptEntries\<close> returns what \<open>getEntries\<close>
  returns, although taint marks may have been cleared and other rows interleaved on the tape; and
  entry number \<open>i\<close> of the log has sequence number \<open>i\<close> and its predecessor as parent.\<close>

theorem transcript_is_log:
  assumes "(ss_step T A)\<^sup>*\<^sup>* (createMemorySessionStore ttl) st" and "go_limit opts \<noteq> Some 0"
  shows "getTranscriptEntries st sid opts = getEntries st sid opts \<and>
    well_numbered sid (get_list (ss_entries st) sid)"
proof -
  have inv: "ss_inv st" using sess.reachable_inv assms(1) by blast
  let ?log = "get_list (ss_entries st) sid"
  have wn: "well_numbered sid ?log" and pr: "project_transcript (get_list (ss_tape st) sid) = by_seq ?log"
    using inv by (simp_all add: ss_inv_def mirror_ok_def)
  have "sorted (map se_seq ?log)" by (simp add: well_numbered_seqs[OF wn] sorted_map)
  then have "sorted (map se_seq (filter (in_seq_range opts) ?log))" by (rule sorted_filter)
  then have "sort_key se_seq (filter (in_seq_range opts) ?log) = filter (in_seq_range opts) ?log"
    by (rule sort_key_id_if_sorted)
  moreover have "vals (by_seq ?log) = ?log" by (simp add: by_seq_def o_def)
  ultimately show ?thesis using wn assms(2)
    by (auto simp: getTranscriptEntries_def getEntries_def pr Let_def split: option.splits)
qed

definition demo_lease_ref :: lease_ref where
  "demo_lease_ref = (''s1'', ''tok'')"

definition demo_leased :: sstore where
  "demo_leased = fst (acquireLease ''tok'' 5 ''s1'' (Some HTurn)
     (fst (getOrCreateByThread ''s1'' 5 ''thread'' ''dm'' ''scope'' None None (createMemorySessionStore None))))"

definition demo_tainted :: new_entry where
  "demo_tainted = \<lparr>ne_type = ''user'', ne_payload = JObj [(''text'', JStr ''hi''), (''securityTainted'', JBool True)],
     ne_scopeLabel = ''scope''\<rparr>"

definition demo_session_state :: sstore where
  "demo_session_state = fst (clearSecurityTaint ''s1'' 9 (fst (append_entry demo_lease_ref 7 demo_tainted
     (addParticipant ''s1'' ''u'' None False 6 demo_leased))))"

lemma demo_leased_reachable: "(ss_step {''s1'', ''tok''} {(''s1'', ''u'')})\<^sup>*\<^sup>* (createMemorySessionStore None) demo_leased"
proof -
  let ?a = "createMemorySessionStore None"
  let ?b = "fst (getOrCreateByThread ''s1'' 5 ''thread'' ''dm'' ''scope'' None None ?a)"
  have "ss_step {''s1'', ''tok''} {(''s1'', ''u'')} ?a ?b"
    by (rule ss_step.getOrCreate) (simp_all add: createMemorySessionStore_def)
  moreover have "ss_step {''s1'', ''tok''} {(''s1'', ''u'')} ?b demo_leased"
    unfolding demo_leased_def by (rule ss_step.acquire) simp
  ultimately show ?thesis by (meson r_into_rtranclp rtranclp.rtrancl_into_rtrancl)
qed

lemma demo_session_reachable:
  "(ss_step {''s1'', ''tok''} {(''s1'', ''u'')})\<^sup>*\<^sup>* (createMemorySessionStore None) demo_session_state"
proof -
  let ?c = "addParticipant ''s1'' ''u'' None False 6 demo_leased"
  let ?d = "fst (append_entry demo_lease_ref 7 demo_tainted ?c)"
  have "ss_step {''s1'', ''tok''} {(''s1'', ''u'')} demo_leased ?c" by (rule ss_step.add) simp
  moreover have "ss_step {''s1'', ''tok''} {(''s1'', ''u'')} ?c ?d" by (rule ss_step.append)
  moreover have "ss_step {''s1'', ''tok''} {(''s1'', ''u'')} ?d demo_session_state"
    unfolding demo_session_state_def by (rule ss_step.clear)
  ultimately show ?thesis using demo_leased_reachable by (meson rtranclp.rtrancl_into_rtrancl)
qed

definition demo_all :: get_entries_options where
  "demo_all = \<lparr>go_sinceSeq = None, go_beforeSeq = None, go_limit = None\<rparr>"

theorem transcript_is_log_witness:
  "getTranscriptEntries demo_session_state ''s1'' demo_all = getEntries demo_session_state ''s1'' demo_all \<and>
   map se_payload (getEntries demo_session_state ''s1'' demo_all) = [JObj [(''text'', JStr ''hi'')]]"
proof -
  have "getTranscriptEntries demo_session_state ''s1'' demo_all = getEntries demo_session_state ''s1'' demo_all"
    using transcript_is_log[OF demo_session_reachable, of demo_all "''s1''"] by (simp add: demo_all_def)
  moreover have "map se_payload (getEntries demo_session_state ''s1'' demo_all) = [JObj [(''text'', JStr ''hi'')]]"
    by code_simp
  ultimately show ?thesis by blast
qed

text \<open>C9: a session is written by one lease at a time. A lease is granted only when no unexpired lease is
  held, and then no other token is valid; once a token is not a session's current one, then after
  any further steps that do not draw the same identifier again, appending an entry, a tape row or
  index rows with it is refused without effect, and it cannot be renewed.\<close>

theorem session_lease_fenced:
  assumes "(ss_step T0 UNIV)\<^sup>*\<^sup>* (createMemorySessionStore ttl) st"
    and "la_lease (snd (acquireLease tok now sid h st)) = Some ls" and "old \<noteq> tok" and "old \<notin> T"
    and "(ss_step T UNIV)\<^sup>*\<^sup>* (fst (acquireLease tok now sid h st)) st'"
  shows "(\<forall>l. map_of (ss_leases st) sid = Some l \<longrightarrow> l_expiresAt l \<le> now) \<and> ls = (sid, tok) \<and>
    append_entry (sid, old) t e st' = (st', Inl NoLease) \<and> appendTape (sid, old) t r st' = (st', Inl NoLease) \<and>
    appendSearchEntries (sid, old) t rows st' = (st', Inl NoLease) \<and> renewLease (sid, old) t st' = (st', False)"
proof -
  have "ss_inv st" using sess.reachable_inv assms(1) by blast
  then have inv: "ss_inv (fst (acquireLease tok now sid h st))" by (rule ss_inv_acquire)
  have acq: "lease_token (fst (acquireLease tok now sid h st)) sid = Some tok \<and> ls = (sid, tok) \<and>
      (\<forall>l. map_of (ss_leases st) sid = Some l \<longrightarrow> l_expiresAt l \<le> now)"
    using assms(2) by (auto simp: acquireLease_def lease_token_def split: option.splits if_splits)
  have "lease_token st' sid \<noteq> Some old"
    by (rule sess_tok.stale_stays[OF assms(5) inv]) (use acq assms(3,4) in auto)
  then have "\<not> lease_valid st' (sid, old) t"
    by (auto simp: lease_token_def lease_valid_def split: option.splits)
  then show ?thesis using acq
    by (simp add: append_entry_def appendTape_def appendSearchEntries_def renewLease_def)
qed

theorem session_lease_fenced_witness:
  "append_entry (''s1'', ''old'') 9 demo_tainted demo_leased = (demo_leased, Inl NoLease)"
proof -
  define st where "st = fst (getOrCreateByThread ''s1'' 5 ''thread'' ''dm'' ''scope'' None None (createMemorySessionStore None))"
  have "ss_step {''s1''} UNIV (createMemorySessionStore None) st"
    unfolding st_def by (rule ss_step.getOrCreate) (simp_all add: createMemorySessionStore_def)
  then have r: "(ss_step {''s1''} UNIV)\<^sup>*\<^sup>* (createMemorySessionStore None) st" by (rule r_into_rtranclp)
  have a: "la_lease (snd (acquireLease ''tok'' 5 ''s1'' (Some HTurn) st)) = Some (''s1'', ''tok'')"
    by (simp add: st_def acquireLease_def getOrCreateByThread_def existing_session_def createMemorySessionStore_def Let_def)
  have "(ss_step {} UNIV)\<^sup>*\<^sup>* (fst (acquireLease ''tok'' 5 ''s1'' (Some HTurn) st)) demo_leased"
    by (simp add: demo_leased_def st_def)
  from session_lease_fenced[OF r a _ _ this, of "''old''" 9 demo_tainted] show ?thesis by simp
qed

text \<open>A session's log is append-only. After any further steps, a session that existed is gone, or its
  log has the old one as a prefix: no entry is lost, reordered or changed, except for the removal
  of a taint mark from its payload.\<close>

theorem session_log_append_only:
  assumes "(ss_step T0 A0)\<^sup>*\<^sup>* (createMemorySessionStore ttl) st" and "(ss_step T A)\<^sup>*\<^sup>* st st'" and "sid \<notin> T"
    and "get_session st' sid \<noteq> None"
  shows "get_session st sid \<noteq> None \<and> (\<exists>new. map entry_core (get_list (ss_entries st') sid) =
    map entry_core (get_list (ss_entries st) sid) @ new)"
proof -
  have inv: "ss_inv st" using sess.reachable_inv assms(1) by blast
  have inv': "ss_inv st'" by (rule sess.steps_inv[OF assms(2) inv])
  from ss_steps_extend_log[OF assms(2) inv assms(3)] assms(4)
    ss_inv_homes[OF inv, of sid] ss_inv_homes[OF inv', of sid]
  show ?thesis by (simp add: extends_log_def core_log_def get_session_def)
qed

theorem session_log_append_only_witness:
  "\<exists>new. map entry_core (get_list (ss_entries demo_session_state) ''s1'') =
     map entry_core (get_list (ss_entries demo_leased) ''s1'') @ new"
proof -
  let ?c = "addParticipant ''s1'' ''u'' None False 6 demo_leased"
  let ?d = "fst (append_entry demo_lease_ref 7 demo_tainted ?c)"
  have "ss_step {} UNIV demo_leased ?c" by (rule ss_step.add) simp
  moreover have "ss_step {} UNIV ?c ?d" by (rule ss_step.append)
  moreover have "ss_step {} UNIV ?d demo_session_state" unfolding demo_session_state_def by (rule ss_step.clear)
  ultimately have p: "(ss_step {} UNIV)\<^sup>*\<^sup>* demo_leased demo_session_state"
    by (meson r_into_rtranclp rtranclp.rtrancl_into_rtrancl)
  have "get_session demo_session_state ''s1'' \<noteq> None" by code_simp
  from session_log_append_only[OF demo_leased_reachable p _ this] show ?thesis by simp
qed

text \<open>A participant who is removed sees no more than before. Whatever happens after the removal
  short of admitting them again, the entries visible to them are those that were visible at the
  removal, or none once the session is deleted.\<close>

theorem removed_participant_sees_no_more:
  assumes "(ss_step T0 A0)\<^sup>*\<^sup>* (createMemorySessionStore ttl) st"
    and "(ss_step T A)\<^sup>*\<^sup>* (removeParticipant sid p now st) st'" and "sid \<notin> T" and "(sid, p) \<notin> A"
  shows "visibleEntries st' sid p = [] \<or>
    map entry_core (visibleEntries st' sid p) = map entry_core (visibleEntries st sid p)"
proof (cases "get_window st' sid p")
  case None
  then show ?thesis by (simp add: visibleEntries_def)
next
  case (Some w')
  let ?st = "removeParticipant sid p now st"
  have inv: "ss_inv st" using sess.reachable_inv assms(1) by blast
  have inv1: "ss_inv ?st" by (rule ss_inv_removeParticipant[OF inv])
  have inv': "ss_inv st'" by (rule sess.steps_inv[OF assms(2) inv1])
  from ss_steps_window[OF assms(2) inv1 assms(4)] Some obtain w1 where w1: "get_window ?st sid p = Some w1"
    and from1: "w_validFromSeq w' = w_validFromSeq w1"
    and to1: "w_validToSeq w1 \<noteq> None \<longrightarrow> w_validToSeq w' = w_validToSeq w1"
    by (auto simp: keeps_window_def)
  from w1 obtain w where w: "get_window st sid p = Some w"
    by (auto simp: removeParticipant_def split: option.splits if_splits)
  have ok: "window_ok (length (get_list (ss_entries st) sid)) w" by (rule get_window_ok[OF inv w])
  have rm: "w_validFromSeq w1 = w_validFromSeq w \<and>
      w_validToSeq w1 = Some (nullish (w_validToSeq w) (int (length (get_list (ss_entries st) sid))))"
    using w w1 ok by (auto simp: removeParticipant_def window_ok_def split: if_splits)
  obtain t where t: "w_validToSeq w' = Some t" "w_validToSeq w1 = Some t" using rm to1 by simp
  have tl: "t \<le> int (length (core_log st sid))" using rm t ok
    by (cases "w_validToSeq w") (auto simp: window_ok_def core_log_def)
  have cl: "core_log ?st sid = core_log st sid" by (simp add: core_log_def)
  show ?thesis
  proof (cases "map_of (ss_entries st') sid")
    case None
    then show ?thesis using Some by (simp add: visibleEntries_def get_list_def)
  next
    case log: (Some log')
    then obtain x where x: "core_log st' sid = core_log st sid @ x"
      using ss_steps_extend_log[OF assms(2) inv1 assms(3)] cl by (auto simp: extends_log_def)
    have "map entry_core (visibleEntries st' sid p) =
        filter (in_tenure (the (w_validFromSeq w)) (Some t)) (core_log st sid)"
      using visible_core[OF inv' Some] filter_closed[OF inv' x tl] from1 rm t by simp
    moreover have "filter (in_tenure (the (w_validFromSeq w)) (Some t)) (core_log st sid) =
        filter (in_tenure (the (w_validFromSeq w)) (w_validToSeq w)) (core_log st sid)"
    proof (cases "w_validToSeq w")
      case None
      then have "t = int (length (core_log st sid))" using rm t by (simp add: core_log_def)
      then show ?thesis using None core_log_seq[OF inv, of _ sid]
        by (intro filter_cong) (auto simp: in_tenure_def in_set_conv_nth)
    next
      case (Some b)
      then show ?thesis using rm t by simp
    qed
    ultimately show ?thesis using visible_core[OF inv w] by simp
  qed
qed

theorem removed_participant_sees_no_more_witness:
  "map entry_core (visibleEntries (fst (append_entry demo_lease_ref 10 demo_tainted
       (removeParticipant ''s1'' ''u'' 9 demo_session_state))) ''s1'' ''u'') =
     map entry_core (visibleEntries demo_session_state ''s1'' ''u'') \<and>
   length (get_list (ss_entries (fst (append_entry demo_lease_ref 10 demo_tainted
       (removeParticipant ''s1'' ''u'' 9 demo_session_state)))) ''s1'') = 2"
proof -
  let ?st = "removeParticipant ''s1'' ''u'' 9 demo_session_state"
  have "ss_step {} {} ?st (fst (append_entry demo_lease_ref 10 demo_tainted ?st))" by (rule ss_step.append)
  then have p: "(ss_step {} {})\<^sup>*\<^sup>* ?st (fst (append_entry demo_lease_ref 10 demo_tainted ?st))" by (rule r_into_rtranclp)
  have "visibleEntries (fst (append_entry demo_lease_ref 10 demo_tainted ?st)) ''s1'' ''u'' \<noteq> []" by code_simp
  moreover have "length (get_list (ss_entries (fst (append_entry demo_lease_ref 10 demo_tainted ?st))) ''s1'') = 2" by code_simp
  ultimately show ?thesis using removed_participant_sees_no_more[OF demo_session_reachable p] by simp
qed

text \<open>A thread has one session. Asking again for a thread returns the session that was created for it,
  whatever the type or scope of the second request, and in every reachable state two sessions of
  the same thread are the same.\<close>

theorem one_session_per_thread:
  assumes "(ss_step T A)\<^sup>*\<^sup>* (createMemorySessionStore ttl) st" and "uuid \<noteq> []" and "get_session st uuid = None"
  shows "s_threadRef (snd (getOrCreateByThread uuid now ref ty scope cn sf st)) = ref \<and>
    s_id (snd (getOrCreateByThread uuid2 now2 ref ty2 scope2 cn2 sf2 (fst (getOrCreateByThread uuid now ref ty scope cn sf st)))) =
      s_id (snd (getOrCreateByThread uuid now ref ty scope cn sf st)) \<and>
    (\<forall>i j a b. get_session st i = Some a \<and> get_session st j = Some b \<and> s_threadRef a = s_threadRef b \<longrightarrow> i = j)"
proof -
  have inv: "ss_inv st" using sess.reachable_inv assms(1) by blast
  have "\<forall>i j a b. get_session st i = Some a \<and> get_session st j = Some b \<and> s_threadRef a = s_threadRef b \<longrightarrow> i = j"
    unfolding get_session_def using ss_inv_threads(1)[OF inv] by (metis option.inject)
  moreover have "s_threadRef (snd (getOrCreateByThread uuid now ref ty scope cn sf st)) = ref \<and>
    s_id (snd (getOrCreateByThread uuid2 now2 ref ty2 scope2 cn2 sf2 (fst (getOrCreateByThread uuid now ref ty scope cn sf st)))) =
      s_id (snd (getOrCreateByThread uuid now ref ty scope cn sf st))"
  proof (cases "existing_session st ref")
    case None
    then show ?thesis using assms(2) by (simp add: getOrCreateByThread_def existing_session_def Let_def)
  next
    case (Some s)
    then obtain i where i: "map_of (ss_byThread st) ref = Some i" "i \<noteq> []" "map_of (ss_sessions st) i = Some s"
      by (auto simp: existing_session_def split: option.splits if_splits)
    have "s_threadRef s = ref" using ss_inv_threads(2)[OF inv i(1)] i(3) by auto
    with Some i show ?thesis by (simp add: getOrCreateByThread_def existing_session_def Let_def)
  qed
  ultimately show ?thesis by blast
qed

theorem one_session_per_thread_witness:
  "s_id (snd (getOrCreateByThread ''s3'' 9 ''thread'' ''group'' ''other'' None None
     (fst (getOrCreateByThread ''s2'' 8 ''thread'' ''dm'' ''scope'' None None demo_session_state)))) = ''s1''"
proof -
  have "get_session demo_session_state ''s2'' = None" by code_simp
  from one_session_per_thread[OF demo_session_reachable _ this, of 8 "''thread''" "''dm''" "''scope''" None None
      "''s3''" 9 "''group''" "''other''" None None]
  have "s_id (snd (getOrCreateByThread ''s3'' 9 ''thread'' ''group'' ''other'' None None
     (fst (getOrCreateByThread ''s2'' 8 ''thread'' ''dm'' ''scope'' None None demo_session_state)))) =
     s_id (snd (getOrCreateByThread ''s2'' 8 ''thread'' ''dm'' ''scope'' None None demo_session_state))" by simp
  moreover have "s_id (snd (getOrCreateByThread ''s2'' 8 ''thread'' ''dm'' ''scope'' None None demo_session_state)) = ''s1''"
    by code_simp
  ultimately show ?thesis by simp
qed

text \<open>With a limit of zero the two readers differ: \<open>getEntries\<close> returns the whole range, since
  \<open>slice(-0)\<close> is \<open>slice(0)\<close>, and \<open>getTranscriptEntries\<close> returns nothing.\<close>

lemma getEntries_limit_zero:
  "getEntries st sid \<lparr>go_sinceSeq = a, go_beforeSeq = b, go_limit = Some 0\<rparr> =
     getEntries st sid \<lparr>go_sinceSeq = a, go_beforeSeq = b, go_limit = None\<rparr> \<and>
   getTranscriptEntries st sid \<lparr>go_sinceSeq = a, go_beforeSeq = b, go_limit = Some 0\<rparr> = []"
  by (simp add: getEntries_def getTranscriptEntries_def slice_neg_def in_seq_range_def[abs_def])

end
