(* ===== verification/Transcript_Window.thy ===== *)
theory Transcript_Window
  imports Session_Model "HOL-Library.Sublist"
begin

text \<open>
  The transcript window of \<open>src/src/sessions/session-store.ts\<close> (\<open>windowedTranscript\<close>): a client that asks
  for the tail of a session gets a suffix of the log, projected, within a byte budget.
\<close>

lemma sum_list_ge0: "(\<And>x. x \<in> set xs \<Longrightarrow> 0 \<le> (f x :: int)) \<Longrightarrow> 0 \<le> sum_list (map f xs)"
  by (induction xs) auto

lemma payloadBytes_nonneg: "0 \<le> payloadBytes v d"
proof (induction v d rule: payloadBytes.induct)
  case (2 xs depth)
  then have "0 \<le> sum_list (map (\<lambda>x. payloadBytes x (depth + 1) + 1) xs)" if "\<not> WALK_DEPTH \<le> depth"
    using that by (intro sum_list_ge0) fastforce
  then show ?case by simp
next
  case (3 fs depth)
  then have "0 \<le> sum_list (map (\<lambda>p. int (length (fst p)) + payloadBytes (snd p) (depth + 1) + 4) fs)"
    if "\<not> WALK_DEPTH \<le> depth" using that by (intro sum_list_ge0) fastforce
  then show ?case by simp
qed simp_all

definition entry_bytes :: "transcript_entry \<Rightarrow> int" where
  "entry_bytes e = payloadBytes (se_payload (fst e)) 0"

definition bytes_from :: "transcript_entry list \<Rightarrow> nat \<Rightarrow> int" where
  "bytes_from ws k = sum_list (map entry_bytes (drop k ws))"

lemma bytes_from_Suc: "k < length ws \<Longrightarrow> bytes_from ws k = bytes_from ws (Suc k) + entry_bytes (ws ! k)"
  by (simp add: bytes_from_def Cons_nth_drop_Suc[symmetric])

lemma bytes_from_mono: "j \<le> k \<Longrightarrow> bytes_from ws k \<le> bytes_from ws j"
proof (induction k arbitrary: j)
  case (Suc k)
  have "bytes_from ws (Suc k) \<le> bytes_from ws k"
  proof (cases "k < length ws")
    case True
    then show ?thesis using bytes_from_Suc[OF True] payloadBytes_nonneg by (simp add: entry_bytes_def)
  qed (simp add: bytes_from_def)
  with Suc show ?case by (cases "j = Suc k") (auto intro: order_trans)
qed simp

definition within_budget :: "transcript_entry list \<Rightarrow> nat \<Rightarrow> bool" where
  "within_budget ws k \<longleftrightarrow> bytes_from ws k \<le> TRANSCRIPT_BYTE_BUDGET \<or> length ws - k \<le> 1"

lemma within_budget_mono: "within_budget ws j \<Longrightarrow> j \<le> k \<Longrightarrow> within_budget ws k"
  using bytes_from_mono[of j k ws] by (auto simp: within_budget_def)

lemma spend_budget_within:
  "k \<le> length ws \<Longrightarrow> spend = bytes_from ws k \<Longrightarrow> within_budget ws k \<Longrightarrow>
     within_budget ws (spend_budget ws k spend) \<and> spend_budget ws k spend \<le> k"
proof (induction ws k spend rule: spend_budget.induct)
  case (2 ws k spend)
  have b: "bytes_from ws k = spend + payloadBytes (se_payload (fst (ws ! k))) 0"
    using 2(2,3) bytes_from_Suc[of k ws] by (simp add: entry_bytes_def)
  show ?case
  proof (cases "TRANSCRIPT_BYTE_BUDGET < spend + payloadBytes (se_payload (fst (ws ! k))) 0 \<and> Suc k < length ws")
    case True
    then show ?thesis using 2(4) by simp
  next
    case False
    then have "within_budget ws k" using b 2(2) by (auto simp: within_budget_def)
    with 2(1)[OF refl False] b 2(2) False show ?thesis by (auto simp: Let_def)
  qed
qed simp

lemma spend_budget_all:
  "within_budget ws (spend_budget ws (length ws) 0) \<and> (ws \<noteq> [] \<longrightarrow> spend_budget ws (length ws) 0 < length ws)"
proof (cases ws rule: rev_cases)
  case (snoc ys y)
  let ?b = "payloadBytes (se_payload (fst (ws ! length ys))) 0"
  have "spend_budget ws (length ws) 0 = spend_budget ws (length ys) ?b" using snoc by simp
  moreover have "?b = bytes_from ws (length ys)" using snoc by (simp add: bytes_from_def entry_bytes_def)
  moreover have "within_budget ws (length ys)" using snoc by (simp add: within_budget_def)
  ultimately have "within_budget ws (spend_budget ws (length ws) 0) \<and> spend_budget ws (length ws) 0 \<le> length ys"
    using spend_budget_within[of "length ys" ws ?b] snoc by simp
  then show ?thesis using snoc by (auto intro: le_imp_less_Suc)
qed (simp add: within_budget_def)

lemma user_boundary_bounds:
  "from \<le> user_boundary ws from \<and> (from < length ws \<longrightarrow> user_boundary ws from < length ws)"
  by (auto simp: user_boundary_def less_diff_conv split: option.splits dest!: find_index_Some)

lemma tail_turns_cut_le: "tail_turns_cut es want i turns \<le> i"
  by (induction es want i turns rule: tail_turns_cut.induct) auto

lemma index_or_end_le: "index_or_end p xs \<le> length xs"
  by (cases "find_index p xs") (auto simp: index_or_end_def dest: find_index_Some)

lemma window_cut_le: "window_cut es w \<le> length es"
  using index_or_end_le tail_turns_cut_le[of es _ "length es"]
  by (auto simp: window_cut_def split: option.splits)

lemma spend_budget_stop:
  "k \<le> length ws \<Longrightarrow> spend = bytes_from ws k \<Longrightarrow> 0 < spend_budget ws k spend \<Longrightarrow>
     TRANSCRIPT_BYTE_BUDGET < bytes_from ws (spend_budget ws k spend - 1)"
proof (induction ws k spend rule: spend_budget.induct)
  case (2 ws k spend)
  have b: "bytes_from ws k = spend + payloadBytes (se_payload (fst (ws ! k))) 0"
    using 2(2,3) bytes_from_Suc[of k ws] by (simp add: entry_bytes_def)
  show ?case
  proof (cases "TRANSCRIPT_BYTE_BUDGET < spend + payloadBytes (se_payload (fst (ws ! k))) 0 \<and> Suc k < length ws")
    case False
    with 2(1)[OF refl False] b 2(2,4) show ?thesis by (auto simp: Let_def)
  qed (simp add: b)
qed simp

section \<open>What a window is\<close>

text \<open>The entries before \<open>beforeSeq\<close>, and of these the range a client asks for: since a sequence number; else the last
  \<open>tailTurns\<close> turns, a turn starting at a user's entry, or everything when there are not so many; else everything.\<close>

definition user_entry :: "session_entry \<Rightarrow> bool" where
  "user_entry e \<longleftrightarrow> se_type e = ''user''"

definition before_seq :: "transcript_window option \<Rightarrow> session_entry list \<Rightarrow> session_entry list" where
  "before_seq w es = (case Option.bind w tw_beforeSeq of None \<Rightarrow> es | Some b \<Rightarrow> takeWhile (\<lambda>e. se_seq e < b) es)"

definition last_turns :: "int \<Rightarrow> session_entry list \<Rightarrow> session_entry list \<Rightarrow> bool" where
  "last_turns n es r \<longleftrightarrow> suffix r es \<and>
     (if int (length (filter user_entry es)) < n then r = es
      else r \<noteq> [] \<and> user_entry (hd r) \<and> int (length (filter user_entry r)) = n)"

definition asked_for :: "transcript_window option \<Rightarrow> session_entry list \<Rightarrow> session_entry list \<Rightarrow> bool" where
  "asked_for w es r \<longleftrightarrow>
     (case Option.bind w tw_sinceSeq of
        Some s \<Rightarrow> r = dropWhile (\<lambda>e. se_seq e < s) es
      | None \<Rightarrow>
          (case Option.bind w tw_tailTurns of
             Some n \<Rightarrow> if 0 < n then last_turns n es r else r = es
           | None \<Rightarrow> r = es))"

lemma index_or_end_while:
  "take (index_or_end p es) es = takeWhile (\<lambda>x. \<not> p x) es" "drop (index_or_end p es) es = dropWhile (\<lambda>x. \<not> p x) es"
proof (induction es)
  case (Cons a es)
  { case 1 show ?case using Cons by (cases "find_index p es") (auto simp: index_or_end_def) }
  { case 2 show ?case using Cons by (cases "find_index p es") (auto simp: index_or_end_def) }
qed (simp_all add: index_or_end_def)

lemma window_base_before: "window_base es w = before_seq w es"
  by (auto simp: window_base_def before_seq_def index_or_end_while not_le split: option.splits)

lemma tail_turns_cut_turns:
  assumes "i \<le> length es" "turns = int (length (filter user_entry (drop i es)))" "turns < n"
  shows "last_turns n es (drop (tail_turns_cut es n i turns) es)"
  using assms
proof (induction es n i turns rule: tail_turns_cut.induct)
  case (2 es want i turns)
  have d: "drop i es = es ! i # drop (Suc i) es" using 2(3) by (simp add: Cons_nth_drop_Suc)
  show ?case
  proof (cases "user_entry (es ! i) \<and> turns + 1 = want")
    case True
    have "length (filter user_entry es) = length (filter user_entry (take i es)) + length (filter user_entry (drop i es))"
      by (metis append_take_drop_id filter_append length_append)
    moreover have "tail_turns_cut es want (Suc i) turns = i" using True by (simp add: user_entry_def)
    ultimately show ?thesis using True d 2(4) suffix_drop[of i es] unfolding last_turns_def by auto
  next
    case False
    then show ?thesis using 2(1,2) 2(3-5) d by (auto simp: user_entry_def[symmetric])
  qed
qed (simp add: last_turns_def)

lemma window_cut_asked: "asked_for w es (drop (window_cut es w) es)"
  using tail_turns_cut_turns[of "length es" es 0]
  by (auto simp: asked_for_def window_cut_def index_or_end_while not_le split: option.splits)

lemma projectEntry_type [simp]: "se_type (fst (projectEntry e)) = se_type e"
  by (auto simp: projectEntry_def Let_def split: prod.splits)

lemma user_boundary_cases:
  assumes "from \<le> j" "j < user_boundary ws from"
  shows "0 < from \<and> user_boundary ws from < length ws \<and> se_type (fst (ws ! user_boundary ws from)) = ''user'' \<and> se_type (fst (ws ! j)) \<noteq> ''user''"
proof -
  obtain k where k: "0 < from" "find_index (\<lambda>e. se_type (fst e) = ''user'') (drop from ws) = Some k" "user_boundary ws from = from + k"
    using assms by (auto simp: user_boundary_def split: if_splits option.splits)
  note f = find_index_Some[OF k(2)]
  have "se_type (fst (drop from ws ! (j - from))) \<noteq> ''user''" using f assms k(3) by auto
  with f k assms show ?thesis by (auto simp: less_diff_conv)
qed

text \<open>The window is the longest suffix within the budget, started at a user's entry where it can be.\<close>

definition bytes_of :: "session_entry list \<Rightarrow> int" where
  "bytes_of es = sum_list (map (entry_bytes \<circ> projectEntry) es)"

lemma bytes_of_drop: "bytes_of (drop j r) = bytes_from (map projectEntry r) j"
  by (simp add: bytes_of_def bytes_from_def drop_map)

lemma budget_maximal:
  fixes r :: "session_entry list"
  defines "ws \<equiv> map projectEntry r"
  defines "start \<equiv> user_boundary ws (spend_budget ws (length ws) 0)"
  assumes pre: "pre \<noteq> []" "suffix (pre @ drop start r) r"
  shows "TRANSCRIPT_BYTE_BUDGET < bytes_of (pre @ drop start r) \<or> user_entry (hd (drop start r)) \<and> \<not> list_ex user_entry pre"
proof -
  let ?f = "spend_budget ws (length ws) 0"
  have len: "length ws = length r" by (simp add: ws_def)
  have start: "start \<le> length r"
    using user_boundary_bounds[of ?f ws] spend_budget_all[of ws] by (cases "ws = []") (auto simp: start_def len user_boundary_def)
  obtain j where j: "pre @ drop start r = drop j r" using pre(2) by (metis append_eq_conv_conj suffix_def)
  have pl: "length pre = start - j" using arg_cong[OF j, of length] start pre(1) by simp
  with pre(1) have js: "j < start" by (cases "j < start") auto
  show ?thesis
  proof (cases "j < ?f")
    case True
    then have "TRANSCRIPT_BYTE_BUDGET < bytes_from ws (?f - 1)"
      using spend_budget_stop[of "length ws" ws 0] by (simp add: bytes_from_def)
    also have "\<dots> \<le> bytes_from ws j" using True by (intro bytes_from_mono) simp
    finally show ?thesis by (simp add: j bytes_of_drop ws_def)
  next
    case False
    have b: "start < length ws" "se_type (fst (ws ! start)) = ''user''"
      using user_boundary_cases[of ?f j ws] False js by (auto simp: start_def)
    have "se_type (fst (ws ! i)) \<noteq> ''user''" if "j \<le> i" "i < start" for i
      using user_boundary_cases[of ?f i ws] False that by (auto simp: start_def)
    moreover have "pre = take (start - j) (drop j r)" using j pl by (metis append_eq_conv_conj)
    ultimately have "\<not> list_ex user_entry pre"
      using start by (auto simp: list_ex_iff in_set_conv_nth user_entry_def ws_def)
    moreover have "user_entry (hd (drop start r))" using b by (simp add: hd_drop_conv_nth user_entry_def ws_def)
    ultimately show ?thesis by simp
  qed
qed

text \<open>C10: A transcript window is the end of what the client asks for, projected entry by entry. Of the entries before \<open>beforeSeq\<close>
  the client asks for those since a sequence number, for the last \<open>tailTurns\<close> turns, or for all. With no window, or with
  \<open>sinceSeq\<close>, it gets the whole range, whatever its size. Otherwise what it gets costs at most the byte budget or is a
  single entry, and it is the longest such end of the range, or starts at the first user's entry in it. It is empty only when
  the range is, and \<open>earlier\<close> is the number of entries before \<open>beforeSeq\<close> that it leaves out.\<close>

theorem windowed_transcript_suffix:
  assumes "windowedTranscript entries w = (out, earlier)"
  shows "\<exists>range kept. asked_for w (before_seq w entries) range \<and> suffix kept range \<and> out = map projectEntry kept \<and>
    earlier + length kept = length (before_seq w entries) \<and> (range \<noteq> [] \<longrightarrow> kept \<noteq> []) \<and>
    (if w = None \<or> tw_sinceSeq (the w) \<noteq> None then kept = range
     else (bytes_of kept \<le> TRANSCRIPT_BYTE_BUDGET \<or> length kept = 1) \<and>
       (\<forall>pre. pre \<noteq> [] \<and> suffix (pre @ kept) range \<longrightarrow>
          TRANSCRIPT_BYTE_BUDGET < bytes_of (pre @ kept) \<or> user_entry (hd kept) \<and> \<not> list_ex user_entry pre))"
proof -
  define base where "base = before_seq w entries"
  define range where "range = drop (window_cut base w) base"
  define ws where "ws = map projectEntry range"
  define start where "start = user_boundary ws (spend_budget ws (length ws) 0)"
  have asked: "asked_for w base range" unfolding range_def by (rule window_cut_asked)
  have len: "window_cut base w + length range = length base" using window_cut_le[of base w] by (simp add: range_def)
  note defs = windowedTranscript_def Let_def window_base_before
  show ?thesis
  proof (cases "w = None \<or> tw_sinceSeq (the w) \<noteq> None")
    case True
    with assms have "out = map projectEntry range" "earlier = window_cut base w" by (auto simp: defs base_def range_def)
    with True asked len show ?thesis unfolding base_def[symmetric] by (intro exI[of _ range] exI[of _ range]) simp
  next
    case False
    with assms have out: "out = map projectEntry (drop start range)" "earlier = window_cut base w + start"
      by (auto simp: defs base_def range_def start_def ws_def drop_map)
    note ub = user_boundary_bounds[of "spend_budget ws (length ws) 0" ws, folded start_def]
    have lt: "range \<noteq> [] \<longrightarrow> start < length range" using spend_budget_all[of ws] ub by (simp add: ws_def)
    have le: "start \<le> length range" using lt by (cases "range = []") (auto simp: start_def user_boundary_def ws_def)
    have "within_budget ws start" using spend_budget_all[of ws] ub within_budget_mono by blast
    then have "bytes_of (drop start range) \<le> TRANSCRIPT_BYTE_BUDGET \<or> length (drop start range) = 1"
      by (cases "length range - start") (auto simp: within_budget_def bytes_of_drop ws_def bytes_from_def bytes_of_def TRANSCRIPT_BYTE_BUDGET_def drop_map)
    moreover have "\<forall>pre. pre \<noteq> [] \<and> suffix (pre @ drop start range) range \<longrightarrow> TRANSCRIPT_BYTE_BUDGET < bytes_of (pre @ drop start range) \<or>
        user_entry (hd (drop start range)) \<and> \<not> list_ex user_entry pre"
      using budget_maximal[of _ range] by (auto simp: start_def ws_def)
    ultimately show ?thesis using False asked len le lt unfolding base_def[symmetric] out
      by (intro exI[of _ range] exI[of _ "drop start range"]) (auto simp: suffix_drop)
  qed
qed

definition demo_entry :: "int \<Rightarrow> string \<Rightarrow> session_entry" where
  "demo_entry n ty = \<lparr>se_sessionId = ''s'', se_seq = n, se_parentSeq = None, se_type = ty,
     se_payload = JStr ''hello'', se_scopeLabel = ''scope'', se_createdAt = n\<rparr>"

definition demo_window :: transcript_window where
  "demo_window = \<lparr>tw_tailTurns = Some 1, tw_sinceSeq = None, tw_beforeSeq = Some 3\<rparr>"

theorem windowed_transcript_suffix_witness:
  "windowedTranscript (map (\<lambda>n. demo_entry n ''user'') [0, 1, 2, 3]) (Some demo_window) = ([projectEntry (demo_entry 2 ''user'')], 2) \<and>
   (\<exists>range. asked_for (Some demo_window) (map (\<lambda>n. demo_entry n ''user'') [0, 1, 2]) range \<and> suffix [demo_entry 2 ''user''] range)"
proof -
  let ?es = "map (\<lambda>n. demo_entry n ''user'') [0, 1, 2, 3]"
  have we: "windowedTranscript ?es (Some demo_window) = ([projectEntry (demo_entry 2 ''user'')], 2)" by code_simp
  have b: "before_seq (Some demo_window) ?es = map (\<lambda>n. demo_entry n ''user'') [0, 1, 2]" by code_simp
  obtain range :: "session_entry list" and kept where r: "asked_for (Some demo_window) (map (\<lambda>n. demo_entry n ''user'') [0, 1, 2]) range" "suffix kept range"
    "[projectEntry (demo_entry 2 ''user'')] = map projectEntry kept" "2 + length kept = length (map (\<lambda>n. demo_entry n ''user'') [0, 1, 2::int])"
    using windowed_transcript_suffix[OF we] unfolding b by (elim exE conjE) rule
  have "suffix range (map (\<lambda>n. demo_entry n ''user'') [0, 1, 2])"
    using r(1) by (simp add: asked_for_def demo_window_def last_turns_def)
  with r(2) have "suffix kept (map (\<lambda>n. demo_entry n ''user'') [0, 1, 2])" by (rule suffix_order.trans)
  with r(4) have "kept = [demo_entry 2 ''user'']" by (auto simp: suffix_Cons)
  with r(1,2) we show ?thesis by auto
qed

end
