(* ===== verification/Shell_Scan.thy ===== *)
theory Shell_Scan
  imports Json
begin

text \<open>
  The shell scanner of \<open>src/src/policy/command-policy.ts\<close>: \<open>scanShell\<close> splits a command line into simple
  commands and their words, removing quotes and collecting command substitutions. The input is
  consumed from the front; an index into it is the suffix that remains. \<open>decodeAnsiC\<close> maps escapes to
  code points beyond 255, so the functions take it as the argument \<open>dec\<close>.
\<close>

abbreviation (input) bslash :: char where "bslash \<equiv> CHR 0x5C"
abbreviation (input) squote :: char where "squote \<equiv> CHR 0x27"
abbreviation (input) dquote :: char where "dquote \<equiv> CHR 0x22"
abbreviation (input) btick :: char where "btick \<equiv> CHR 0x60"
abbreviation (input) newline :: char where "newline \<equiv> CHR 0x0A"

definition separator :: "char \<Rightarrow> bool" where
  "separator c \<longleftrightarrow> c \<in> set '';|&(){}''"

text \<open>\<open>input.indexOf(c, i)\<close>: what precedes and what follows the next \<open>c\<close>.\<close>

fun split_once :: "char \<Rightarrow> string \<Rightarrow> (string \<times> string) option" where
  "split_once c [] = None"
| "split_once c (x # s) = (if x = c then Some ([], s) else map_option (map_prod ((#) x) id) (split_once c s))"

text \<open>\<open>commandSubstitution\<close> on what follows \<open>$(\<close>: the body up to the matching parenthesis, and the rest.\<close>

fun commandSubstitution :: "string \<Rightarrow> nat \<Rightarrow> char option \<Rightarrow> string \<Rightarrow> (string \<times> string) option" where
  "commandSubstitution acc depth quote [] = None"
| "commandSubstitution acc depth quote (c # s) =
     (if c = bslash then (case s of [] \<Rightarrow> None | x # s' \<Rightarrow> commandSubstitution (x # c # acc) depth quote s')
      else if quote \<noteq> None then commandSubstitution (c # acc) depth (if Some c = quote then None else quote) s
      else if c = squote \<or> c = dquote then commandSubstitution (c # acc) depth (Some c) s
      else if c = CHR ''$'' \<and> starts_with s ''('' then
        (case s of [] \<Rightarrow> None | x # s' \<Rightarrow> commandSubstitution (x # c # acc) (depth + 1) None s')
      else if c = CHR '')'' then
        (if depth = 1 then Some (rev acc, s) else commandSubstitution (c # acc) (depth - 1) None s)
      else commandSubstitution (c # acc) depth None s)"

lemma split_once_length: "split_once c s = Some (a, r) \<Longrightarrow> length a + length r < length s"
  by (induction s arbitrary: a) (auto split: if_splits)

lemma commandSubstitution_length: "commandSubstitution acc d q s = Some (b, r) \<Longrightarrow> length r < length s"
proof (induction acc d q s rule: commandSubstitution.induct)
  case (2 acc depth quote c s)
  then show ?case by (cases s) (auto split: if_splits simp: less_Suc_eq)
qed simp

section \<open>Words\<close>

text \<open>One round of the loop inside double quotes, at the character \<open>c\<close>: the word so far, the substitutions
  so far, and the input that remains.\<close>

definition dquoted_round :: "string \<Rightarrow> string list \<Rightarrow> char \<Rightarrow> string \<Rightarrow> string \<times> string list \<times> string" where
  "dquoted_round w n c s =
     (if c = bslash \<and> s \<noteq> [] then (w @ [hd s], n, tl s)
      else if c = CHR ''$'' \<and> starts_with s ''('' then
        (case commandSubstitution [] 1 None (tl s) of
           None \<Rightarrow> (w @ [c], n, s)
         | Some (b, r) \<Rightarrow> (w, n @ [b], r))
      else if c = btick then
        (case split_once btick s of
           None \<Rightarrow> (w, n, s)
         | Some (b, r) \<Rightarrow> (w, n @ [b], r))
      else (w @ [c], n, s))"

lemma dquoted_round_size:
  "dquoted_round w n c s = (w', n', r) \<Longrightarrow> length r \<le> length s \<and> length w' + length r \<le> Suc (length w + length s)"
  by (auto simp: dquoted_round_def le_diff_conv split: if_splits option.splits prod.splits
      dest!: commandSubstitution_length split_once_length)

function dquoted :: "string \<Rightarrow> string list \<Rightarrow> string \<Rightarrow> string \<times> string list \<times> string" where
  "dquoted w n [] = (w, n, [])"
| "dquoted w n (c # s) =
     (if c = dquote then (w, n, c # s)
      else case dquoted_round w n c s of (w', n', r) \<Rightarrow> dquoted w' n' r)"
  by pat_completeness auto

termination
  by (relation "measure (\<lambda>(w, n, s). length s)")
    (auto split: prod.splits dest!: dquoted_round_size simp: le_imp_less_Suc)

lemma dquoted_size: "dquoted w n s = (w', n', r) \<Longrightarrow> length r \<le> length s \<and> length w' + length r \<le> length w + length s"
proof (induction w n s rule: dquoted.induct)
  case (2 w n c s)
  obtain w1 n1 r1 where r: "dquoted_round w n c s = (w1, n1, r1)" by (metis prod_cases3)
  show ?case
  proof (cases "c = dquote")
    case False
    then have "dquoted w1 n1 r1 = (w', n', r)" using 2(2) r by simp
    from 2(1)[OF False r[symmetric] refl this] dquoted_round_size[OF r] show ?thesis by simp
  qed (use 2(2) in simp)
qed simp

definition word_ends :: "string \<Rightarrow> char \<Rightarrow> bool" where
  "word_ends w c \<longleftrightarrow> is_space c \<or> (separator c \<and> \<not> (c = CHR ''&'' \<and> w \<noteq> [] \<and> last w \<in> set ''<>''))"

text \<open>One round of the loop over a word, at the character \<open>c\<close>: the word, whether it started, the
  substitutions and the input that remains.\<close>

definition word_round :: "(string \<Rightarrow> string) \<Rightarrow> string \<Rightarrow> bool \<Rightarrow> string list \<Rightarrow> char \<Rightarrow> string \<Rightarrow>
    string \<times> bool \<times> string list \<times> string" where
  "word_round dec w started n c s =
     (if c = bslash then
        (if starts_with s [newline] then (w, started, n, tl s)
         else if s \<noteq> [] then (w @ [hd s], True, n, tl s)
         else (w, started, n, []))
      else if c = squote then
        (case split_once squote s of
           None \<Rightarrow> (w @ s, True, n, [])
         | Some (q, r) \<Rightarrow> (w @ q, True, n, r))
      else if c = CHR ''$'' \<and> starts_with s [squote] then
        (case split_once squote (tl s) of
           None \<Rightarrow> (w @ tl s, True, n, [])
         | Some (q, r) \<Rightarrow> (w @ dec q, True, n, r))
      else if c = dquote then
        (case dquoted w n s of (w', n', r) \<Rightarrow> (w', True, n', if starts_with r [dquote] then tl r else r))
      else if c = CHR ''$'' \<and> starts_with s ''('' then
        (case commandSubstitution [] 1 None (tl s) of
           None \<Rightarrow> (w @ [c], True, n, s)
         | Some (b, r) \<Rightarrow> (w, True, n @ [b], r))
      else if c = btick then
        (case split_once btick s of
           None \<Rightarrow> (w, True, n, s)
         | Some (b, r) \<Rightarrow> (w, True, n @ [b], r))
      else (w @ [c], True, n, s))"

lemma word_round_length: "word_round dec w b n c s = (w', b', n', r) \<Longrightarrow> length r \<le> length s"
  by (auto simp: word_round_def le_diff_conv split: if_splits option.splits prod.splits
      dest!: commandSubstitution_length split_once_length dquoted_size)

function word_loop :: "(string \<Rightarrow> string) \<Rightarrow> string \<Rightarrow> bool \<Rightarrow> string list \<Rightarrow> string \<Rightarrow>
    string \<times> bool \<times> string list \<times> string" where
  "word_loop dec w started n [] = (w, started, n, [])"
| "word_loop dec w started n (c # s) =
     (if word_ends w c then (w, started, n, c # s)
      else case word_round dec w started n c s of (w', b', n', r) \<Rightarrow> word_loop dec w' b' n' r)"
  by pat_completeness auto

termination
  by (relation "measure (\<lambda>(dec, w, st, n, s). length s)")
    (auto split: prod.splits dest!: word_round_length simp: le_imp_less_Suc)

lemma word_loop_length: "word_loop dec w b n s = (w', b', n', r) \<Longrightarrow> length r \<le> length s"
proof (induction dec w b n s rule: word_loop.induct)
  case (2 dec w started n c s)
  obtain w1 b1 n1 r1 where r: "word_round dec w started n c s = (w1, b1, n1, r1)" by (metis prod_cases4)
  show ?case
  proof (cases "word_ends w c")
    case False
    then have "word_loop dec w1 b1 n1 r1 = (w', b', n', r)" using 2(2) r by simp
    from 2(1)[OF False r[symmetric] refl refl this] word_round_length[OF r] show ?thesis by simp
  qed (use 2(2) in simp)
qed simp

lemma word_loop_shrinks:
  assumes "\<not> word_ends w c" and "word_loop dec w b n (c # s) = (w', b', n', r)"
  shows "length r \<le> length s"
proof -
  obtain w1 b1 n1 r1 where r1: "word_round dec w b n c s = (w1, b1, n1, r1)" by (metis prod_cases4)
  with assms have "word_loop dec w1 b1 n1 r1 = (w', b', n', r)" by simp
  from word_loop_length[OF this] word_round_length[OF r1] show ?thesis by simp
qed

section \<open>Commands\<close>

record shell_scan =
  sc_commands :: "string list list"
  sc_nested :: "string list"

definition flush :: "string list list \<Rightarrow> string list \<Rightarrow> string list list" where
  "flush commands words = (if words = [] then commands else commands @ [words])"

lemma word_ends_Nil: "word_ends [] c \<longleftrightarrow> is_space c \<or> separator c"
  by (simp add: word_ends_def)

function scan_loop :: "(string \<Rightarrow> string) \<Rightarrow> string list list \<Rightarrow> string list \<Rightarrow> string list \<Rightarrow> string \<Rightarrow> shell_scan" where
  "scan_loop dec commands nested words [] = \<lparr>sc_commands = flush commands words, sc_nested = nested\<rparr>"
| "scan_loop dec commands nested words (c # s) =
     (if is_space c then
        (if c = newline then scan_loop dec (flush commands words) nested [] s
         else scan_loop dec commands nested words s)
      else if c = CHR ''#'' \<and> words = [] then
        scan_loop dec commands nested words (dropWhile (\<lambda>x. x \<noteq> newline) s)
      else if separator c then scan_loop dec (flush commands words) nested [] (dropWhile separator s)
      else case word_loop dec [] False nested (c # s) of
        (w, started, n, r) \<Rightarrow> scan_loop dec commands n (if started then words @ [w] else words) r)"
  by pat_completeness auto

termination
  by (relation "measure (\<lambda>(dec, cs, n, ws, s). length s)")
    (auto simp: length_dropWhile_le le_imp_less_Suc word_ends_Nil dest!: word_loop_shrinks[rotated, OF sym] simp del: word_loop.simps)

definition scanShell :: "(string \<Rightarrow> string) \<Rightarrow> string \<Rightarrow> shell_scan" where
  "scanShell dec input = scan_loop dec [] [] [] input"

end
