(* ===== verification/Shell_Payloads.thy ===== *)
theory Shell_Payloads
  imports Shell_Scan
begin

text \<open>
  What a shell command line executes besides its own words (\<open>src/src/policy/command-policy.ts\<close>): command
  substitutions, the argument of \<open>bash -c\<close> behind any wrappers, SQL given to a client, text piped or
  here-stringed into a shell or a client, and a command held in a variable. Two of the functions call
  themselves on words that were scanned out of an argument (\<open>env -S\<close>); they are partial functions, and
  the termination theorem shows that they return.
\<close>

section \<open>Patterns on words\<close>

definition is_digit :: "char \<Rightarrow> bool" where
  "is_digit c = (let n = of_char c :: nat in 48 \<le> n \<and> n \<le> 57)"

definition is_ident_start :: "char \<Rightarrow> bool" where
  "is_ident_start c = (let n = of_char c :: nat in (65 \<le> n \<and> n \<le> 90) \<or> (97 \<le> n \<and> n \<le> 122) \<or> n = 95)"

definition is_word_char :: "char \<Rightarrow> bool" where
  "is_word_char c \<longleftrightarrow> is_ident_start c \<or> is_digit c"

definition line_end :: "char \<Rightarrow> bool" where
  "line_end c \<longleftrightarrow> c = CHR 0x0A \<or> c = CHR 0x0D"

text \<open>\<open>/^[A-Za-z_]\w*=/\<close>.\<close>

definition is_assignment :: "string \<Rightarrow> bool" where
  "is_assignment s = (case s of [] \<Rightarrow> False
     | c # r \<Rightarrow> is_ident_start c \<and> starts_with (dropWhile is_word_char r) ''='')"

definition shell_keyword :: "string \<Rightarrow> bool" where
  "shell_keyword w \<longleftrightarrow> w \<in> set [''if'', ''then'', ''elif'', ''else'', ''while'', ''until'', ''do'', ''!'']"

definition redirect_ops :: "string list" where
  "redirect_ops = [''>>'', ''>'', ''<<'', ''<'', ''<>'', ''>&'', ''<&'']"

text \<open>\<open>/^\d*(?:>>?|<<?|<>|>&|<&)$/\<close> and the same followed by \<open>.+\<close>.\<close>

definition redirect_alone :: "string \<Rightarrow> bool" where
  "redirect_alone w \<longleftrightarrow> dropWhile is_digit w \<in> set redirect_ops"

definition redirect_with_target :: "string \<Rightarrow> bool" where
  "redirect_with_target w =
     (let r = dropWhile is_digit w
      in list_ex (\<lambda>op. starts_with r op \<and> drop (length op) r \<noteq> [] \<and> \<not> line_end (hd (drop (length op) r))) redirect_ops)"

text \<open>\<open>/^-[^-]*c/\<close>.\<close>

definition has_c_option :: "string \<Rightarrow> bool" where
  "has_c_option a = (case a of [] \<Rightarrow> False
     | c # r \<Rightarrow> c = CHR ''-'' \<and> CHR ''c'' \<in> set (takeWhile (\<lambda>x. x \<noteq> CHR ''-'') r))"

text \<open>\<open>executableWord.split("/").pop()\<close>.\<close>

definition basename :: "string \<Rightarrow> string" where
  "basename w = rev (takeWhile (\<lambda>c. c \<noteq> CHR ''/'') (rev w))"

section \<open>Finding the command\<close>

fun commandStart :: "string list \<Rightarrow> nat" where
  "commandStart [] = 0"
| "commandStart (w # ws) =
     (if is_assignment w \<or> shell_keyword w then 1 + commandStart ws
      else if redirect_alone w then (case ws of [] \<Rightarrow> 2 | _ # r \<Rightarrow> 2 + commandStart r)
      else if redirect_with_target w then 1 + commandStart ws
      else 0)"

text \<open>\<open>word.replace(/=.*/, "")\<close>.\<close>

definition option_name :: "string \<Rightarrow> string" where
  "option_name w = (if CHR ''='' \<in> set w
     then takeWhile (\<lambda>c. c \<noteq> CHR ''='') w @ dropWhile (\<lambda>c. \<not> line_end c) (dropWhile (\<lambda>c. c \<noteq> CHR ''='') w)
     else w)"

fun option_loop :: "string list \<Rightarrow> string list \<Rightarrow> nat" where
  "option_loop opts [] = 0"
| "option_loop opts (w # ws) =
     (if w = ''--'' then 1
      else if \<not> starts_with w ''-'' \<or> w = ''-'' then 0
      else if option_name w \<in> set opts \<and> CHR ''='' \<notin> set w
      then (case ws of [] \<Rightarrow> 2 | _ # r \<Rightarrow> 2 + option_loop opts r)
      else 1 + option_loop opts ws)"

definition optionCommand :: "string list \<Rightarrow> nat \<Rightarrow> string list \<Rightarrow> nat" where
  "optionCommand words start valueOptions = start + option_loop valueOptions (drop start words)"

text \<open>\<open>args.slice(optionCommand(args, 0, options))\<close>.\<close>

definition after_options :: "string list \<Rightarrow> string list \<Rightarrow> string list" where
  "after_options args opts = drop (optionCommand args 0 opts) args"

definition ENV_OPTIONS :: "string list" where
  "ENV_OPTIONS = [''-u'', ''--unset'', ''-C'', ''--chdir'', ''-S'', ''--split-string'']"
definition SUDO_OPTIONS :: "string list" where
  "SUDO_OPTIONS = [''-u'', ''--user'', ''-g'', ''--group'', ''-h'', ''--host'', ''-p'', ''--prompt'', ''-C'',
     ''--chdir'', ''-T'', ''--command-timeout'', ''-R'', ''--chroot'', ''-t'', ''--type'']"
definition NICE_OPTIONS :: "string list" where
  "NICE_OPTIONS = [''-n'', ''--adjustment'']"
definition TIMEOUT_OPTIONS :: "string list" where
  "TIMEOUT_OPTIONS = [''-s'', ''--signal'', ''-k'', ''--kill-after'']"
definition TIME_OPTIONS :: "string list" where
  "TIME_OPTIONS = [''-o'', ''--output'', ''-f'', ''--format'']"
definition STDBUF_OPTIONS :: "string list" where
  "STDBUF_OPTIONS = [''-i'', ''--input'', ''-o'', ''--output'', ''-e'', ''--error'']"
definition XARGS_OPTIONS :: "string list" where
  "XARGS_OPTIONS = [''-a'', ''--arg-file'', ''-d'', ''--delimiter'', ''-E'', ''--eof'', ''-I'', ''--replace'', ''-L'',
     ''--max-lines'', ''-n'', ''--max-args'', ''-P'', ''--max-procs'', ''-s'', ''--max-chars'']"
definition SHELLS :: "string list" where
  "SHELLS = [''bash'', ''sh'', ''dash'', ''zsh'', ''ksh'']"
definition SHELL_VALUE_OPTIONS :: "string list" where
  "SHELL_VALUE_OPTIONS = [''-O'', ''-o'', ''--rcfile'', ''--init-file'']"

lemmas option_sets = ENV_OPTIONS_def SUDO_OPTIONS_def NICE_OPTIONS_def TIMEOUT_OPTIONS_def TIME_OPTIONS_def
  STDBUF_OPTIONS_def XARGS_OPTIONS_def SHELLS_def SHELL_VALUE_OPTIONS_def

definition splitStringPayload :: "string list \<Rightarrow> nat \<Rightarrow> string option \<times> string list" where
  "splitStringPayload args split =
     (let arg = args ! split;
          compact = (starts_with arg ''-S'' \<and> 2 < length arg);
          eq = (CHR ''='' \<in> set arg);
          value = (if eq then Some (tl (dropWhile (\<lambda>c. c \<noteq> CHR ''='') arg))
                   else if compact then Some (drop 2 arg)
                   else if split + 1 < length args then Some (args ! (split + 1)) else None)
      in (value, drop (split + (if eq \<or> compact then 1 else 2)) args))"

definition split_string_index :: "string list \<Rightarrow> nat option" where
  "split_string_index args =
     find_index (\<lambda>a. starts_with a ''-S'' \<or> a = ''--split-string'' \<or> starts_with a ''--split-string='') args"

definition joined :: "string list \<Rightarrow> string" where
  "joined ws = join_with '' '' ws"

definition envSplitWords :: "(string \<Rightarrow> string) \<Rightarrow> string list \<Rightarrow> string list option" where
  "envSplitWords dec args =
     (case split_string_index args of
        None \<Rightarrow> None
      | Some i \<Rightarrow>
          (case splitStringPayload args i of
             (None, rest) \<Rightarrow> Some []
           | (Some v, rest) \<Rightarrow>
               Some (case sc_commands (scanShell dec (joined (v # rest))) of [] \<Rightarrow> [] | c # _ \<Rightarrow> c)))"

section \<open>\<open>bash -c\<close> behind wrappers\<close>

fun shell_c_payload :: "string list \<Rightarrow> string list" where
  "shell_c_payload [] = []"
| "shell_c_payload (a # as) =
     (if a = ''--'' \<or> \<not> starts_with a ''-'' then []
      else if a \<in> set SHELL_VALUE_OPTIONS then (case as of [] \<Rightarrow> [] | _ # r \<Rightarrow> shell_c_payload r)
      else if has_c_option a then (case as of [] \<Rightarrow> [] | x # _ \<Rightarrow> [x])
      else shell_c_payload as)"

text \<open>The options of the builtin \<open>command\<close>; \<^const>\<open>None\<close> for \<open>-v\<close> and \<open>-V\<close>, which execute nothing.\<close>

fun command_args :: "string list \<Rightarrow> string list option" where
  "command_args [] = Some []"
| "command_args (a # as) =
     (if a = ''--'' then Some as
      else if a = ''-v'' \<or> a = ''-V'' then None
      else if a \<noteq> ''-p'' then Some (a # as)
      else command_args as)"

lemma command_args_length: "command_args as = Some r \<Longrightarrow> length r \<le> length as"
  by (induction as) (auto split: if_splits)

lemma after_options_length: "length (after_options args opts) \<le> length args"
  by (simp add: after_options_def)

text \<open>The words after \<open>start\<close>, when there is a command.\<close>

definition command_words :: "string list \<Rightarrow> (string \<times> string list) option" where
  "command_words words =
     (if length words \<le> commandStart words then None
      else Some (words ! commandStart words, drop (Suc (commandStart words)) words))"

lemma command_words_length: "command_words ws = Some (x, args) \<Longrightarrow> length args < length ws"
  by (auto simp: command_words_def split: if_splits)

text \<open>The arguments the wrapper \<open>executable\<close> passes on to the command it runs.\<close>

datatype segment_kind = SPayload "string list" | SRecurse "string list"

definition segment_step :: "string list \<Rightarrow> segment_kind" where
  "segment_step words =
     (case command_words words of
        None \<Rightarrow> SPayload []
      | Some (word, args) \<Rightarrow>
          (let executable = basename word
           in if executable \<in> set SHELLS then SPayload (shell_c_payload args)
              else if executable = ''eval'' then SPayload (if args = [] then [] else [joined args])
              else if executable = ''env'' then
                (case split_string_index args of
                   Some i \<Rightarrow> (case splitStringPayload args i of
                       (None, rest) \<Rightarrow> SPayload [] | (Some v, rest) \<Rightarrow> SPayload [joined (v # rest)])
                 | None \<Rightarrow> SRecurse (dropWhile is_assignment (after_options args ENV_OPTIONS)))
              else if executable = ''command'' then
                (case command_args args of None \<Rightarrow> SPayload [] | Some r \<Rightarrow> SRecurse r)
              else if executable = ''exec'' then SRecurse (after_options args [''-a''])
              else if executable = ''sudo'' then SRecurse (after_options args SUDO_OPTIONS)
              else if executable = ''nice'' then SRecurse (after_options args NICE_OPTIONS)
              else if executable = ''timeout'' then SRecurse (drop (optionCommand args 0 TIMEOUT_OPTIONS + 1) args)
              else if executable = ''time'' then SRecurse (after_options args TIME_OPTIONS)
              else if executable = ''nohup'' then SRecurse (after_options args [])
              else if executable = ''coproc'' then SRecurse args
              else if executable = ''xargs'' then SRecurse (after_options args XARGS_OPTIONS)
              else SPayload []))"

lemma segment_step_length: "segment_step words = SRecurse r \<Longrightarrow> length r < length words"
  unfolding segment_step_def Let_def
  by (auto split: option.splits if_splits prod.splits
      dest!: command_words_length command_args_length
      intro: le_less_trans[OF length_dropWhile_le] le_less_trans[OF after_options_length] le_less_trans)

function segmentShellPayloads :: "string list \<Rightarrow> string list" where
  "segmentShellPayloads words =
     (case segment_step words of SPayload ps \<Rightarrow> ps | SRecurse r \<Rightarrow> segmentShellPayloads r)"
  by pat_completeness auto

termination
  by (relation "measure length") (simp_all add: segment_step_length)

declare segmentShellPayloads.simps [simp del]

section \<open>Pipelines\<close>

definition finish_segment :: "string \<Rightarrow> string list \<Rightarrow> string list" where
  "finish_segment cur pipeline = (let seg = trim (rev cur) in if seg \<noteq> [] then pipeline @ [seg] else pipeline)"

definition finish_pipeline :: "string \<Rightarrow> string list \<Rightarrow> string list list \<Rightarrow> string list list" where
  "finish_pipeline cur pipeline pipelines =
     (let p = finish_segment cur pipeline in if 1 < length p then pipelines @ [p] else pipelines)"

text \<open>The loop of \<open>shellPipelines\<close>: finished pipelines, current pipeline, current segment (reversed), quote.\<close>

fun pipelines_loop :: "string list list \<Rightarrow> string list \<Rightarrow> string \<Rightarrow> char option \<Rightarrow> string \<Rightarrow> string list list" where
  "pipelines_loop ps p cur q [] = finish_pipeline cur p ps"
| "pipelines_loop ps p cur q (c # s) =
     (if c = CHR 0x5C then
        (case s of [] \<Rightarrow> pipelines_loop ps p (c # cur) q [] | x # r \<Rightarrow> pipelines_loop ps p (x # c # cur) q r)
      else if q \<noteq> None then pipelines_loop ps p (c # cur) (if q = Some c then None else q) s
      else if c = CHR 0x27 \<or> c = CHR 0x22 \<or> c = CHR 0x60 then pipelines_loop ps p (c # cur) (Some c) s
      else if (c = CHR ''|'' \<or> c = CHR ''&'') \<and> starts_with s [c] then
        (case s of [] \<Rightarrow> [] | _ # r \<Rightarrow> pipelines_loop (finish_pipeline cur p ps) [] [] None r)
      else if c = CHR ''|'' then
        (case s of
           x # r \<Rightarrow> if x = CHR ''&'' then pipelines_loop ps (finish_segment cur p) [] None r
                     else pipelines_loop ps (finish_segment cur p) [] None (x # r)
         | [] \<Rightarrow> pipelines_loop ps (finish_segment cur p) [] None [])
      else if c = CHR '';'' \<or> c = CHR 0x0A \<or> c = CHR ''&'' then
        pipelines_loop (finish_pipeline cur p ps) [] [] None s
      else pipelines_loop ps p (c # cur) None s)"

definition shellPipelines :: "string \<Rightarrow> string list list" where
  "shellPipelines input = pipelines_loop [] [] [] None input"

section \<open>Commands that read a script from standard input\<close>

definition stdin_scripts :: "string list" where
  "stdin_scripts = [''-'', ''/dev/stdin'', ''/dev/fd/0'', ''/proc/self/fd/0'']"

fun shell_reads_stdin :: "string list \<Rightarrow> bool" where
  "shell_reads_stdin [] = True"
| "shell_reads_stdin (a # as) =
     (if has_c_option a then False
      else if a = ''-s'' then True
      else if a \<in> set SHELL_VALUE_OPTIONS then (case as of [] \<Rightarrow> True | _ # r \<Rightarrow> shell_reads_stdin r)
      else if a = ''--'' then (case as of [] \<Rightarrow> True | x # _ \<Rightarrow> x \<in> set stdin_scripts)
      else if \<not> starts_with a ''-'' \<or> a = ''-'' then a \<in> set stdin_scripts
      else shell_reads_stdin as)"

datatype consume_kind = CDone bool | CRecurse "string list"

definition consume_step :: "(string \<Rightarrow> string) \<Rightarrow> string list \<Rightarrow> consume_kind" where
  "consume_step dec words =
     (case command_words words of
        None \<Rightarrow> CDone False
      | Some (word, args) \<Rightarrow>
          (let executable = basename word
           in if executable \<in> set SHELLS then CDone (shell_reads_stdin args)
              else if executable = ''env'' then
                (case envSplitWords dec args of
                   Some ws \<Rightarrow> CRecurse ws
                 | None \<Rightarrow> CRecurse (dropWhile is_assignment (after_options args ENV_OPTIONS)))
              else if executable = ''command'' then CRecurse (after_options args [])
              else if executable = ''exec'' then CRecurse (after_options args [''-a''])
              else if executable = ''sudo'' then CRecurse (after_options args SUDO_OPTIONS)
              else if executable = ''nice'' then CRecurse (after_options args NICE_OPTIONS)
              else if executable = ''timeout'' then CRecurse (drop (optionCommand args 0 TIMEOUT_OPTIONS + 1) args)
              else if executable = ''time'' then CRecurse (after_options args TIME_OPTIONS)
              else if executable = ''nohup'' then CRecurse (after_options args [])
              else if executable = ''stdbuf'' then CRecurse (after_options args STDBUF_OPTIONS)
              else CDone False))"

partial_function (option) segmentConsumesShellStdin :: "(string \<Rightarrow> string) \<Rightarrow> string list \<Rightarrow> bool option" where
  "segmentConsumesShellStdin dec words =
     (case consume_step dec words of CDone b \<Rightarrow> Some b | CRecurse r \<Rightarrow> segmentConsumesShellStdin dec r)"

section \<open>Commands that print a literal\<close>

definition echo_flags :: "string \<Rightarrow> bool" where
  "echo_flags w \<longleftrightarrow> (case w of [] \<Rightarrow> False | c # r \<Rightarrow> c = CHR ''-'' \<and> r \<noteq> [] \<and> list_all (\<lambda>x. x \<in> set ''neE'') r)"

definition echo_decode :: "string \<Rightarrow> bool \<Rightarrow> bool" where
  "echo_decode w d = fold (\<lambda>c b. if c = CHR ''e'' then True else if c = CHR ''E'' then False else b) (tl w) d"

fun echo_args :: "bool \<Rightarrow> string list \<Rightarrow> bool \<times> string list" where
  "echo_args d [] = (d, [])"
| "echo_args d (a # as) = (if echo_flags a then echo_args (echo_decode a d) as else (d, a # as))"

text \<open>\<open>replace(/%([%sb])/g, ...)\<close> with the values still to be used.\<close>

fun printf_render :: "(string \<Rightarrow> string) \<Rightarrow> string \<Rightarrow> string list \<Rightarrow> string \<times> string list" where
  "printf_render dec [] vs = ([], vs)"
| "printf_render dec [c] vs = ([c], vs)"
| "printf_render dec (c # d # s) vs =
     (if c = CHR ''%'' \<and> d = CHR ''%'' then map_prod ((#) d) id (printf_render dec s vs)
      else if c = CHR ''%'' \<and> (d = CHR ''s'' \<or> d = CHR ''b'') then
        (let v = (case vs of [] \<Rightarrow> [] | x # _ \<Rightarrow> x)
         in map_prod ((@) (if d = CHR ''b'' then dec v else v)) id (printf_render dec s (tl vs)))
      else map_prod ((#) c) id (printf_render dec (d # s) vs))"

definition echo_or_printf :: "(string \<Rightarrow> string) \<Rightarrow> string \<Rightarrow> string list \<Rightarrow> string option" where
  "echo_or_printf dec executable args0 =
     (let args = (case args0 of [] \<Rightarrow> [] | a # as \<Rightarrow> if a = ''--'' then as else args0)
      in if executable = ''echo'' then
           (case echo_args False args of (d, as) \<Rightarrow> Some (if d then dec (joined as) else joined as))
         else if executable \<noteq> ''printf'' \<or> args = [] then None
         else case printf_render dec (dec (hd args)) (tl args) of
           (rendered, rest) \<Rightarrow> Some (join_with [CHR 0x0A] (rendered # rest @ [joined args])))"

datatype producer_kind = PDone "string option" | PRecurse "string list"

definition producer_step :: "(string \<Rightarrow> string) \<Rightarrow> string list \<Rightarrow> producer_kind" where
  "producer_step dec words =
     (case command_words words of
        None \<Rightarrow> PDone None
      | Some (word, args) \<Rightarrow>
          (let executable = basename word
           in if executable = ''command'' then
                (case command_args args of None \<Rightarrow> PDone None | Some r \<Rightarrow> PRecurse r)
              else if executable = ''builtin'' then
                (case args of
                   [] \<Rightarrow> PRecurse []
                 | a # as \<Rightarrow> if a = ''--'' then PRecurse as
                             else if starts_with a ''-'' then PDone None else PRecurse args)
              else if executable = ''exec'' then PRecurse (after_options args [''-a''])
              else if executable = ''env'' then
                (case envSplitWords dec args of
                   Some ws \<Rightarrow> PRecurse ws
                 | None \<Rightarrow> PRecurse (dropWhile is_assignment
                     (after_options args [''-u'', ''--unset'', ''-C'', ''--chdir''])))
              else if executable = ''sudo'' then PRecurse (after_options args SUDO_OPTIONS)
              else if executable = ''nice'' then PRecurse (after_options args NICE_OPTIONS)
              else if executable = ''timeout'' then PRecurse (drop (optionCommand args 0 TIMEOUT_OPTIONS + 1) args)
              else if executable = ''time'' then PRecurse (after_options args TIME_OPTIONS)
              else if executable = ''nohup'' then PRecurse (after_options args [])
              else if executable = ''stdbuf'' then PRecurse (after_options args STDBUF_OPTIONS)
              else PDone (echo_or_printf dec executable args)))"

partial_function (option) literalProducerPayload :: "(string \<Rightarrow> string) \<Rightarrow> string list \<Rightarrow> string option option" where
  "literalProducerPayload dec words =
     (case producer_step dec words of PDone p \<Rightarrow> Some p | PRecurse r \<Rightarrow> literalProducerPayload dec r)"

declare segmentConsumesShellStdin.simps [code] literalProducerPayload.simps [code]

section \<open>SQL clients\<close>

text \<open>\<open>SQL_CLIENT_SPECS\<close>: the options that carry SQL and the number of leading positionals that do not.
  The table's own entries; names that a JavaScript object inherits are not commands people have.\<close>

definition SQL_CLIENT_SPECS :: "(string list \<times> nat option) jsmap" where
  "SQL_CLIENT_SPECS =
     [(''psql'', ([''-c'', ''--command''], None)), (''pgcli'', ([''-c'', ''--command''], None)),
      (''mysql'', ([''-e'', ''--execute''], None)), (''mariadb'', ([''-e'', ''--execute''], None)),
      (''mycli'', ([''-e'', ''--execute''], None)), (''sqlite3'', ([''-cmd''], Some 1)),
      (''duckdb'', ([''-c'', ''-s'', ''--command''], Some 1)), (''clickhouse-client'', ([''-q'', ''--query''], None))]"

definition sqlClientSpec :: "string list \<Rightarrow> ((string list \<times> nat option) \<times> string list) option" where
  "sqlClientSpec words =
     (case command_words words of
        None \<Rightarrow> None
      | Some (word, args) \<Rightarrow>
          map_option (\<lambda>spec. (spec, args)) (map_of SQL_CLIENT_SPECS (toLowerCase (basename word))))"

datatype sql_match = MNext | MValue string | MNone

fun sql_option :: "string list \<Rightarrow> string \<Rightarrow> sql_match" where
  "sql_option [] arg = MNone"
| "sql_option (opt # opts) arg =
     (if arg = opt then MNext
      else if starts_with arg (opt @ ''='') then MValue (drop (length opt + 1) arg)
      else if length opt = 2 \<and> \<not> starts_with arg ''--'' \<and> starts_with arg opt \<and> 2 < length arg
      then MValue (drop 2 arg)
      else sql_option opts arg)"

fun sql_args :: "string list \<Rightarrow> string list \<Rightarrow> string list \<times> string list" where
  "sql_args opts [] = ([], [])"
| "sql_args opts (a # as) =
     (case sql_option opts a of
        MNext \<Rightarrow> (case as of [] \<Rightarrow> ([], []) | x # r \<Rightarrow> map_prod ((#) x) id (sql_args opts r))
      | MValue v \<Rightarrow> map_prod ((#) v) id (sql_args opts as)
      | MNone \<Rightarrow> map_prod id (\<lambda>ps. if starts_with a ''-'' then ps else a # ps) (sql_args opts as))"

definition sqlClientPayloads :: "string list \<Rightarrow> string list" where
  "sqlClientPayloads words =
     (case sqlClientSpec words of
        None \<Rightarrow> []
      | Some ((options, positionalsAfter), args) \<Rightarrow>
          (case sql_args options args of
             (payloads, positionals) \<Rightarrow>
               payloads @ (case positionalsAfter of None \<Rightarrow> [] | Some n \<Rightarrow> drop n positionals)))"

section \<open>Everything a command line executes\<close>

text \<open>A loop that appends what each round yields, when every round returns.\<close>

fun collect :: "('a \<Rightarrow> 'b list option) \<Rightarrow> 'a list \<Rightarrow> 'b list option" where
  "collect f [] = Some []"
| "collect f (x # xs) =
     (case f x of None \<Rightarrow> None
      | Some ys \<Rightarrow> (case collect f xs of None \<Rightarrow> None | Some zs \<Rightarrow> Some (ys @ zs)))"

text \<open>One producer and consumer of a pipeline, where \<open>test\<close> says whether the consumer executes its input.\<close>

definition piped_payload ::
    "(string \<Rightarrow> string) \<Rightarrow> (string list \<Rightarrow> bool option) \<Rightarrow> string \<times> string \<Rightarrow> string list option" where
  "piped_payload dec test pc =
     (case sc_commands (scanShell dec (snd pc)) of
        [] \<Rightarrow> Some []
      | consumer # _ \<Rightarrow>
          (case test consumer of
             None \<Rightarrow> None
           | Some False \<Rightarrow> Some []
           | Some True \<Rightarrow>
               (let producers = sc_commands (scanShell dec (fst pc))
                in if producers = [] then Some []
                   else case literalProducerPayload dec (last producers) of
                     None \<Rightarrow> None
                   | Some None \<Rightarrow> Some []
                   | Some (Some p) \<Rightarrow> Some (if p \<noteq> [] then [p] else []))))"

definition adjacent :: "'a list \<Rightarrow> ('a \<times> 'a) list" where
  "adjacent xs = zip xs (tl xs)"

definition pipedShellPayloads :: "(string \<Rightarrow> string) \<Rightarrow> string \<Rightarrow> string list option" where
  "pipedShellPayloads dec input =
     collect (piped_payload dec (segmentConsumesShellStdin dec)) (concat (map adjacent (shellPipelines input)))"

definition pipedSqlPayloads :: "(string \<Rightarrow> string) \<Rightarrow> string \<Rightarrow> string list option" where
  "pipedSqlPayloads dec input =
     collect (piped_payload dec (\<lambda>c. Some (sqlClientSpec c \<noteq> None))) (concat (map adjacent (shellPipelines input)))"

fun here_spaced :: "char option \<Rightarrow> string \<Rightarrow> string" where
  "here_spaced q [] = []"
| "here_spaced q (c # s) =
     (if c = CHR 0x5C then (case s of [] \<Rightarrow> [c] | x # r \<Rightarrow> c # x # here_spaced q r)
      else if q \<noteq> None then c # here_spaced (if q = Some c then None else q) s
      else if c = CHR 0x27 \<or> c = CHR 0x22 \<or> c = CHR 0x60 then c # here_spaced (Some c) s
      else if starts_with (c # s) ''<<<'' then
        (case s of x # y # r \<Rightarrow> '' <<< '' @ here_spaced None r | _ \<Rightarrow> [])
      else c # here_spaced None s)"

definition here_string_payload :: "(string \<Rightarrow> string) \<Rightarrow> string list \<Rightarrow> string list option" where
  "here_string_payload dec words =
     (case find_index (\<lambda>w. w = ''<<<'') words of
        None \<Rightarrow> Some []
      | Some redirect \<Rightarrow>
          (if redirect = 0 then Some []
           else case segmentConsumesShellStdin dec (take redirect words) of
             None \<Rightarrow> None
           | Some False \<Rightarrow> Some []
           | Some True \<Rightarrow>
               Some (case drop (Suc redirect) words of [] \<Rightarrow> [] | p # _ \<Rightarrow> if p \<noteq> [] then [p] else [])))"

definition hereStringShellPayloads :: "(string \<Rightarrow> string) \<Rightarrow> string \<Rightarrow> string list option" where
  "hereStringShellPayloads dec input =
     collect (here_string_payload dec) (sc_commands (scanShell dec (here_spaced None input)))"

text \<open>\<open>executableIndex\<close>: the position of the command behind wrappers; one round gives the position, or the
  words still to look at and how far they are shifted.\<close>

datatype index_kind = IDone "nat option" | IRecurse "string list" nat

definition index_step :: "string list \<Rightarrow> index_kind" where
  "index_step words =
     (case command_words words of
        None \<Rightarrow> IDone None
      | Some (word, args) \<Rightarrow>
          (let executable = basename word;
               start = commandStart words;
               nxt = (if executable = ''command'' \<or> executable = ''nohup'' then Some (optionCommand args 0 [])
                      else if executable = ''exec'' then Some (optionCommand args 0 [''-a''])
                      else if executable = ''env'' then
                        Some (let n = optionCommand args 0 ENV_OPTIONS
                              in n + length (takeWhile is_assignment (drop n args)))
                      else if executable = ''sudo'' then Some (optionCommand args 0 SUDO_OPTIONS)
                      else if executable = ''nice'' then Some (optionCommand args 0 NICE_OPTIONS)
                      else if executable = ''timeout'' then Some (optionCommand args 0 TIMEOUT_OPTIONS + 1)
                      else if executable = ''time'' then Some (optionCommand args 0 TIME_OPTIONS)
                      else if executable = ''stdbuf'' then Some (optionCommand args 0 STDBUF_OPTIONS)
                      else None)
           in case nxt of None \<Rightarrow> IDone (Some start) | Some n \<Rightarrow> IRecurse (drop n args) (start + 1 + n)))"

lemma index_step_length: "index_step words = IRecurse r k \<Longrightarrow> length r < length words"
  by (auto simp: index_step_def Let_def split: option.splits prod.splits dest!: command_words_length)

function executableIndex :: "string list \<Rightarrow> nat \<Rightarrow> nat option" where
  "executableIndex words offset =
     (case index_step words of
        IDone i \<Rightarrow> map_option ((+) offset) i
      | IRecurse r k \<Rightarrow> executableIndex r (offset + k))"
  by pat_completeness auto

termination
  by (relation "measure (\<lambda>(ws, _). length ws)") (simp_all add: index_step_length)

declare executableIndex.simps [simp del]

definition value_char :: "char \<Rightarrow> bool" where
  "value_char c \<longleftrightarrow> is_word_char c \<or> c \<in> set ''./-''"

text \<open>\<open>/^([A-Za-z_]\w*)=([\w./-]+)$/\<close> and \<open>/^\$(?:\{([A-Za-z_]\w*)\}|([A-Za-z_]\w*))$/\<close>.\<close>

definition is_identifier :: "string \<Rightarrow> bool" where
  "is_identifier s \<longleftrightarrow> s \<noteq> [] \<and> is_ident_start (hd s) \<and> list_all is_word_char s"

definition simple_assignment :: "string \<Rightarrow> (string \<times> string) option" where
  "simple_assignment w =
     (case split_once (CHR ''='') w of
        None \<Rightarrow> None
      | Some (name, v) \<Rightarrow> if is_identifier name \<and> v \<noteq> [] \<and> list_all value_char v then Some (name, v) else None)"

definition variable_reference :: "string \<Rightarrow> string option" where
  "variable_reference w =
     (case w of
        [] \<Rightarrow> None
      | c # r \<Rightarrow>
          (if c \<noteq> CHR ''$'' then None
           else if starts_with r ''{'' \<and> r \<noteq> [] \<and> last r = CHR ''}'' \<and> is_identifier (butlast (tl r))
           then Some (butlast (tl r))
           else if is_identifier r then Some r else None))"

fun variables_loop :: "string jsmap \<Rightarrow> string list list \<Rightarrow> string list" where
  "variables_loop values [] = []"
| "variables_loop values (words # rest) =
     (if length words \<le> commandStart words
      then variables_loop (fold (\<lambda>w m. case simple_assignment w of None \<Rightarrow> m | Some (n, v) \<Rightarrow> AList.update n v m) words values) rest
      else case executableIndex words 0 of
        None \<Rightarrow> variables_loop values rest
      | Some i \<Rightarrow>
          (case map_of values (nullish (variable_reference (words ! i)) []) of
             None \<Rightarrow> variables_loop values rest
           | Some v \<Rightarrow> (if v \<noteq> [] then [joined (take i words @ [v] @ drop (Suc i) words)] else []) @
               variables_loop values rest))"

definition simpleVariablePayloads :: "(string \<Rightarrow> string) \<Rightarrow> string \<Rightarrow> string list" where
  "simpleVariablePayloads dec input = variables_loop [] (sc_commands (scanShell dec input))"

definition executedShellPayloads :: "(string \<Rightarrow> string) \<Rightarrow> string \<Rightarrow> string list option" where
  "executedShellPayloads dec input =
     (let scan = scanShell dec input
      in case (pipedShellPayloads dec input, pipedSqlPayloads dec input, hereStringShellPayloads dec input) of
           (Some a, Some b, Some c) \<Rightarrow>
             Some (sc_nested scan @ concat (map segmentShellPayloads (sc_commands scan)) @
               concat (map sqlClientPayloads (sc_commands scan)) @ a @ b @ c @ simpleVariablePayloads dec input)
         | _ \<Rightarrow> None)"

end
