(* ===== verification/Shell_Termination.thy ===== *)
theory Shell_Termination
  imports Shell_Payloads
begin

text \<open>
  The extraction of executed payloads returns. The words scanned out of an argument are no longer
  than the argument, provided decoding an escape sequence does not lengthen the text; so each
  wrapper that is peeled off, \<open>env -S\<close> included, leaves less to look at.
\<close>

definition non_expanding :: "(string \<Rightarrow> string) \<Rightarrow> bool" where
  "non_expanding dec \<longleftrightarrow> (\<forall>s. length (dec s) \<le> length s)"

definition text_size :: "string list \<Rightarrow> nat" where
  "text_size ws = sum_list (map (\<lambda>w. Suc (length w)) ws)"

lemma text_size_simps [simp]:
  "text_size [] = 0" "text_size (w # ws) = Suc (length w) + text_size ws"
  "text_size (xs @ ys) = text_size xs + text_size ys"
  by (simp_all add: text_size_def)

lemma text_size_drop: "text_size (drop n ws) \<le> text_size ws"
  by (metis append_take_drop_id le_add2 text_size_simps(3))

lemma text_size_dropWhile: "text_size (dropWhile p ws) \<le> text_size ws"
  by (metis dropWhile_eq_drop text_size_drop)

lemma joined_size: "ws \<noteq> [] \<Longrightarrow> Suc (length (joined ws)) = text_size ws"
  unfolding joined_def by (induction ws rule: induct_list012) auto

section \<open>Scanned words are no longer than the input\<close>

lemma word_round_size:
  assumes "non_expanding dec" and "word_round dec w b n c s = (w', b', n', r)"
  shows "length w' + length r \<le> Suc (length w + length s)"
proof -
  have so: "length q + length r' < length x \<and> length (dec q) + length r' < length x"
    if "split_once a x = Some (q, r')" for a x q r'
    using split_once_length[OF that] assms(1) unfolding non_expanding_def by (meson add_le_mono1 le_less_trans)
  show ?thesis using assms(2)
    by (auto simp: word_round_def le_diff_conv split: if_splits option.splits prod.splits
        dest!: commandSubstitution_length so dquoted_size)
qed

lemma word_loop_size:
  "non_expanding dec \<Longrightarrow> word_loop dec w b n s = (w', b', n', r) \<Longrightarrow> length w' + length r \<le> length w + length s \<and>
    (r = [] \<or> is_space (hd r) \<or> separator (hd r))"
proof (induction dec w b n s rule: word_loop.induct)
  case (2 dec w started n c s)
  obtain w1 b1 n1 r1 where r: "word_round dec w started n c s = (w1, b1, n1, r1)" by (metis prod_cases4)
  show ?case
  proof (cases "word_ends w c")
    case True
    with 2(3) show ?thesis by (auto simp: word_ends_def)
  next
    case False
    then have "word_loop dec w1 b1 n1 r1 = (w', b', n', r)" using 2(3) r by simp
    from 2(1)[OF False r[symmetric] refl refl 2(2) this] word_round_size[OF 2(2) r] show ?thesis by auto
  qed
qed simp

text \<open>Before a word is read, the words of the current command and the rest of the input fit into the
  input; right after a word, one more character is allowed for, which the next blank or separator
  gives back.\<close>

definition fits :: "nat \<Rightarrow> string list \<Rightarrow> string \<Rightarrow> bool" where
  "fits L ws s \<longleftrightarrow> text_size ws + length s \<le> L \<or>
     (text_size ws + length s \<le> Suc L \<and> (s = [] \<or> is_space (hd s) \<or> separator (hd s)))"

lemma flush_size:
  assumes "\<forall>c \<in> set commands. text_size c \<le> Suc L" and "text_size words \<le> Suc L"
  shows "\<forall>c \<in> set (flush commands words). text_size c \<le> Suc L"
  using assms by (auto simp: flush_def)

lemma scan_loop_size:
  assumes "non_expanding dec"
  shows "\<forall>c \<in> set commands. text_size c \<le> Suc L \<Longrightarrow> fits L words s \<Longrightarrow>
    \<forall>c \<in> set (sc_commands (scan_loop dec commands nested words s)). text_size c \<le> Suc L"
  using assms
proof (induction dec commands nested words s rule: scan_loop.induct)
  case (1 dec commands nested words)
  then show ?case by (auto simp: fits_def flush_def)
next
  case (2 dec commands nested words c s)
  note ih = 2(1-5) and cmds = 2(6) and ft = 2(7) and ne = 2(8)
  have w: "text_size words \<le> Suc L" and rest: "length s \<le> L" using ft by (auto simp: fits_def)
  note fl = flush_size[OF cmds w]
  have empty: "fits L [] r" if "length r \<le> length s" for r using that rest by (simp add: fits_def)
  consider (nl) "is_space c" "c = newline" | (blank) "is_space c" "c \<noteq> newline"
    | (comment) "\<not> is_space c" "c = CHR ''#'' \<and> words = []"
    | (sep) "\<not> is_space c" "\<not> (c = CHR ''#'' \<and> words = [])" "separator c"
    | (word) "\<not> is_space c" "\<not> (c = CHR ''#'' \<and> words = [])" "\<not> separator c" by blast
  then show ?case
  proof cases
    case nl
    then show ?thesis using ih(1)[OF nl fl empty[of s] ne] by simp
  next
    case blank
    have "fits L words s" using ft by (auto simp: fits_def)
    then show ?thesis using ih(2)[OF blank cmds _ ne] blank by simp
  next
    case comment
    have "fits L words (dropWhile (\<lambda>x. x \<noteq> newline) s)"
      using empty[OF length_dropWhile_le] comment by simp
    then show ?thesis using ih(3)[OF comment cmds _ ne] comment by simp
  next
    case sep
    then show ?thesis using ih(4)[OF sep fl empty[OF length_dropWhile_le] ne] by auto
  next
    case word
    obtain w1 b1 n1 r1 where wl: "word_loop dec [] False nested (c # s) = (w1, b1, n1, r1)" by (metis prod_cases4)
    have L: "text_size words + Suc (length s) \<le> L" using ft word by (auto simp: fits_def)
    note ws = word_loop_size[OF ne wl] and sh = word_loop_shrinks[OF _ wl]
    have "length r1 \<le> length s" using sh word by (simp add: word_ends_Nil)
    with ws L have "fits L (if b1 then words @ [w1] else words) r1" by (auto simp: fits_def)
    then show ?thesis using ih(5)[OF word wl[symmetric] refl refl cmds _ ne] word wl by (auto simp del: word_loop.simps)
  qed
qed

lemma scanShell_size:
  "non_expanding dec \<Longrightarrow> c \<in> set (sc_commands (scanShell dec s)) \<Longrightarrow> text_size c \<le> Suc (length s)"
  using scan_loop_size[of dec "[]" "length s" "[]" s "[]"] by (simp add: scanShell_def fits_def)

section \<open>Peeling off a wrapper leaves less\<close>

lemma command_words_size: "command_words ws = Some (x, args) \<Longrightarrow> text_size args < text_size ws"
proof -
  assume "command_words ws = Some (x, args)"
  then have "commandStart ws < length ws" "args = drop (Suc (commandStart ws)) ws"
    by (auto simp: command_words_def split: if_splits)
  then have "drop (commandStart ws) ws = ws ! commandStart ws # args" by (simp add: Cons_nth_drop_Suc)
  then show ?thesis using text_size_drop[of "commandStart ws" ws] by simp
qed

lemma command_args_size: "command_args as = Some r \<Longrightarrow> text_size r \<le> text_size as"
  by (induction as) (auto split: if_splits)

lemma splitStringPayload_size:
  assumes "i < length args" and "splitStringPayload args i = (Some v, rest)"
  shows "text_size (v # rest) \<le> text_size args"
proof -
  have d: "drop i args = args ! i # drop (Suc i) args" using assms(1) by (simp add: Cons_nth_drop_Suc)
  have le: "text_size (args ! i # drop (Suc i) args) \<le> text_size args" using text_size_drop[of i args] d by simp
  have suffix: "length (tl (dropWhile p a)) \<le> length a" for p and a :: string
    by (metis length_dropWhile_le length_tl diff_le_self le_trans)
  consider (own) "rest = drop (Suc i) args" "length v \<le> length (args ! i)"
    | (nxt) "rest = drop (i + 2) args" "Suc i < length args" "v = args ! Suc i"
    using assms(2) suffix by (auto simp: splitStringPayload_def Let_def split: if_splits)
  then show ?thesis
  proof cases
    case own
    with le show ?thesis by simp
  next
    case nxt
    then have "drop (Suc i) args = v # rest" by (simp add: Cons_nth_drop_Suc)
    with le show ?thesis by simp
  qed
qed

lemma envSplitWords_size:
  assumes "non_expanding dec" and "envSplitWords dec args = Some ws"
  shows "text_size ws \<le> text_size args"
proof -
  from assms(2) obtain i where i: "split_string_index args = Some i" by (auto simp: envSplitWords_def split: option.splits)
  then have lt: "i < length args" by (auto simp: split_string_index_def dest: find_index_Some)
  show ?thesis
  proof (cases "splitStringPayload args i")
    case (Pair v rest)
    show ?thesis
    proof (cases v)
      case None
      with assms(2) i Pair show ?thesis by (simp add: envSplitWords_def)
    next
      case (Some x)
      let ?cs = "sc_commands (scanShell dec (joined (x # rest)))"
      have ws: "ws = (case ?cs of [] \<Rightarrow> [] | c # _ \<Rightarrow> c)" using assms(2) i Pair Some by (simp add: envSplitWords_def)
      have "text_size ws \<le> Suc (length (joined (x # rest)))"
        using scanShell_size[OF assms(1), of _ "joined (x # rest)"] ws by (cases ?cs) auto
      then show ?thesis using joined_size[of "x # rest"] splitStringPayload_size[OF lt, of x rest] Pair Some by simp
    qed
  qed
qed

lemma after_options_size: "text_size (after_options args opts) \<le> text_size args"
  by (simp add: after_options_def text_size_drop)

lemmas peel_sizes = after_options_size text_size_drop order_trans[OF text_size_dropWhile after_options_size]

lemma consume_step_size:
  assumes "non_expanding dec" and "consume_step dec words = CRecurse r"
  shows "text_size r < text_size words"
proof -
  obtain x args where cw: "command_words words = Some (x, args)"
    using assms(2) by (auto simp: consume_step_def split: option.splits)
  have "text_size r \<le> text_size args"
    using assms(2) cw envSplitWords_size[OF assms(1)] peel_sizes
    by (auto simp: consume_step_def Let_def split: if_splits option.splits)
  with command_words_size[OF cw] show ?thesis by simp
qed

lemma producer_step_size:
  assumes "non_expanding dec" and "producer_step dec words = PRecurse r"
  shows "text_size r < text_size words"
proof -
  obtain x args where cw: "command_words words = Some (x, args)"
    using assms(2) by (auto simp: producer_step_def split: option.splits)
  have "text_size r \<le> text_size args"
    using assms(2) cw envSplitWords_size[OF assms(1)] command_args_size peel_sizes
    by (auto simp: producer_step_def Let_def split: if_splits option.splits list.splits)
  with command_words_size[OF cw] show ?thesis by simp
qed

lemma segmentConsumes_returns: "non_expanding dec \<Longrightarrow> \<exists>b. segmentConsumesShellStdin dec words = Some b"
proof (induction "text_size words" arbitrary: words rule: less_induct)
  case less
  show ?case
  proof (cases "consume_step dec words")
    case (CDone b)
    then show ?thesis by (simp add: segmentConsumesShellStdin.simps)
  next
    case (CRecurse r)
    with less(1)[OF consume_step_size[OF less(2) CRecurse] less(2)] show ?thesis
      by (simp add: segmentConsumesShellStdin.simps[of dec words])
  qed
qed

lemma literalProducer_returns: "non_expanding dec \<Longrightarrow> \<exists>p. literalProducerPayload dec words = Some p"
proof (induction "text_size words" arbitrary: words rule: less_induct)
  case less
  show ?case
  proof (cases "producer_step dec words")
    case (PDone p)
    then show ?thesis by (simp add: literalProducerPayload.simps)
  next
    case (PRecurse r)
    with less(1)[OF producer_step_size[OF less(2) PRecurse] less(2)] show ?thesis
      by (simp add: literalProducerPayload.simps[of dec words])
  qed
qed

lemma collect_returns: "(\<And>x. x \<in> set xs \<Longrightarrow> \<exists>y. f x = Some y) \<Longrightarrow> \<exists>ys. collect f xs = Some ys"
  by (induction xs) fastforce+

lemma piped_payload_returns:
  assumes "non_expanding dec" and "\<And>c. \<exists>b. test c = Some b"
  shows "\<exists>ps. piped_payload dec test pc = Some ps"
proof (cases "sc_commands (scanShell dec (snd pc))")
  case (Cons consumer cs)
  obtain b where b: "test consumer = Some b" using assms(2) by blast
  obtain p where "literalProducerPayload dec (last (sc_commands (scanShell dec (fst pc)))) = Some p"
    using literalProducer_returns[OF assms(1)] by blast
  with b Cons show ?thesis by (cases b; cases p) (auto simp: piped_payload_def Let_def)
qed (simp add: piped_payload_def)

lemma here_string_returns:
  assumes "non_expanding dec"
  shows "\<exists>ps. here_string_payload dec words = Some ps"
proof (cases "find_index (\<lambda>w. w = ''<<<'') words")
  case (Some i)
  obtain b where "segmentConsumesShellStdin dec (take i words) = Some b"
    using segmentConsumes_returns[OF assms] by blast
  with Some show ?thesis by (cases b) (auto simp: here_string_payload_def)
qed (simp add: here_string_payload_def)

lemma executedShellPayloads_returns:
  assumes "non_expanding dec"
  shows "\<exists>ps. executedShellPayloads dec input = Some ps"
proof -
  obtain a where "pipedShellPayloads dec input = Some a"
    using collect_returns piped_payload_returns[OF assms] segmentConsumes_returns[OF assms]
    unfolding pipedShellPayloads_def by metis
  moreover obtain b where "pipedSqlPayloads dec input = Some b"
    using collect_returns piped_payload_returns[OF assms] unfolding pipedSqlPayloads_def by (metis (no_types, lifting))
  moreover obtain c where "hereStringShellPayloads dec input = Some c"
    using collect_returns here_string_returns[OF assms] unfolding hereStringShellPayloads_def by metis
  ultimately show ?thesis by (simp add: executedShellPayloads_def Let_def)
qed

end
