(* ===== verification/Command_Policy.thy ===== *)
theory Command_Policy
  imports Shell_Termination
begin

text \<open>
  The command policy (\<open>src/src/policy/command-policy.ts\<close>, \<open>src/src/util/safe-regex.ts\<close>): rules are matched
  in order against the text of a command that a shell would execute. Parameters stand for what is
  not modelled: \<open>rx\<close> compiles a pattern with JavaScript's \<open>RegExp\<close> (case-insensitively) and returns its
  first match, \<open>dec\<close> is \<open>decodeAnsiC\<close>, and \<open>strip\<close> is \<open>stripWrittenHeredocs\<close>, a single replacement by a
  multi-line pattern with a back reference. Two exceptions of the source are left out, so that the
  definitions describe the evaluations in which they are not thrown: \<open>decodeAnsiC\<close> throws on an escape beyond the last code
  point, and a simple command whose name is inherited by every object, such as \<open>constructor\<close>, is taken for an SQL
  client without options.
\<close>

datatype command_decision = Allow | Deny | RequireApproval
datatype policy_mode = Denylist | Allowlist

record command_rule =
  cr_pattern :: string
  cr_decision :: command_decision
  cr_reason :: "string option"

record command_policy =
  cp_mode :: policy_mode
  cp_rules :: "command_rule list"

section \<open>The executed text of a command\<close>

definition bare_char :: "char \<Rightarrow> bool" where
  "bare_char c \<longleftrightarrow> is_word_char c \<or> c \<in> set ''@%+=:,./-''"

definition unquoteBareWord :: "string \<Rightarrow> string option" where
  "unquoteBareWord inner = (if list_all bare_char inner then Some inner else None)"

text \<open>\<open>/\$\([^)]*\)|`[^`]*`/g\<close>: the command substitutions in a text.\<close>

function substitutions :: "string \<Rightarrow> string list" where
  "substitutions [] = []"
| "substitutions (c # s) =
     (if c = CHR ''$'' \<and> starts_with s ''('' then
        (case split_once (CHR '')'') (tl s) of
           None \<Rightarrow> substitutions s
         | Some (b, r) \<Rightarrow> (''$('' @ b @ '')'') # substitutions r)
      else if c = CHR 0x60 then
        (case split_once (CHR 0x60) s of
           None \<Rightarrow> substitutions s
         | Some (b, r) \<Rightarrow> (c # b @ [c]) # substitutions r)
      else substitutions s)"
  by pat_completeness auto

termination
  by (relation "measure length") (auto dest!: split_once_length simp: le_diff_conv)

text \<open>What a pattern \<open>q(?:[^q\\]|\\.)*q\<close> matches after the opening quote: the inside, and the rest.\<close>

fun quoted_with_escapes :: "char \<Rightarrow> string \<Rightarrow> (string \<times> string) option" where
  "quoted_with_escapes q [] = None"
| "quoted_with_escapes q (c # s) =
     (if c = q then Some ([], s)
      else if c = CHR 0x5C then
        (case s of [] \<Rightarrow> None
         | x # r \<Rightarrow> if line_end x then None
                     else map_option (map_prod (\<lambda>i. c # x # i) id) (quoted_with_escapes q r))
      else map_option (map_prod ((#) c) id) (quoted_with_escapes q s))"

lemma quoted_with_escapes_length: "quoted_with_escapes q s = Some (i, r) \<Longrightarrow> length r < length s"
  by (induction q s arbitrary: i rule: quoted_with_escapes.induct)
    (fastforce split: if_splits list.splits)+

definition dquoted_replacement :: "string \<Rightarrow> string" where
  "dquoted_replacement inner =
     (if substitutions inner \<noteq> [] then joined (substitutions inner)
      else nullish (unquoteBareWord inner) [CHR 0x22, CHR 0x22])"

function replace_dquoted :: "string \<Rightarrow> string" where
  "replace_dquoted [] = []"
| "replace_dquoted (c # s) =
     (if c = CHR 0x22 then
        (case quoted_with_escapes (CHR 0x22) s of
           None \<Rightarrow> c # replace_dquoted s
         | Some (i, r) \<Rightarrow> dquoted_replacement i @ replace_dquoted r)
      else c # replace_dquoted s)"
  by pat_completeness auto

termination
  by (relation "measure length") (auto dest!: quoted_with_escapes_length)

function replace_ansi :: "(string \<Rightarrow> string) \<Rightarrow> string \<Rightarrow> string" where
  "replace_ansi dec [] = []"
| "replace_ansi dec (c # s) =
     (if c = CHR ''$'' \<and> starts_with s [CHR 0x27] then
        (case quoted_with_escapes (CHR 0x27) (tl s) of
           None \<Rightarrow> c # replace_ansi dec s
         | Some (i, r) \<Rightarrow> nullish (unquoteBareWord (dec i)) [CHR 0x27, CHR 0x27] @ replace_ansi dec r)
      else c # replace_ansi dec s)"
  by pat_completeness auto

termination
  by (relation "measure (length \<circ> snd)") (auto dest!: quoted_with_escapes_length simp: le_diff_conv)

function replace_squoted :: "string \<Rightarrow> string" where
  "replace_squoted [] = []"
| "replace_squoted (c # s) =
     (if c = CHR 0x27 then
        (case split_once (CHR 0x27) s of
           None \<Rightarrow> c # replace_squoted s
         | Some (i, r) \<Rightarrow> nullish (unquoteBareWord i) [CHR 0x27, CHR 0x27] @ replace_squoted r)
      else c # replace_squoted s)"
  by pat_completeness auto

termination
  by (relation "measure length") (auto dest!: split_once_length)

fun replace_escapes :: "string \<Rightarrow> string" where
  "replace_escapes [] = []"
| "replace_escapes [c] = [c]"
| "replace_escapes (c # d # s) =
     (if c = CHR 0x5C \<and> bare_char d then d # replace_escapes s else c # replace_escapes (d # s))"

definition scannable_base :: "(string \<Rightarrow> string) \<Rightarrow> string \<Rightarrow> string" where
  "scannable_base dec stripped = replace_escapes (replace_squoted (replace_ansi dec (replace_dquoted stripped)))"

text \<open>\<open>scannableCommandAtDepth\<close>, by the number of levels that remain (\<open>8 - depth\<close>).\<close>

fun scannable_levels :: "(string \<Rightarrow> string) \<Rightarrow> (string \<Rightarrow> string) \<Rightarrow> nat \<Rightarrow> string \<Rightarrow> string option" where
  "scannable_levels dec strip 0 command = Some (scannable_base dec (strip command))"
| "scannable_levels dec strip (Suc k) command =
     (case executedShellPayloads dec (strip command) of
        None \<Rightarrow> None
      | Some payloads \<Rightarrow>
          (case collect (\<lambda>p. map_option (\<lambda>t. [t]) (scannable_levels dec strip k p)) payloads of
             None \<Rightarrow> None
           | Some texts \<Rightarrow> Some (join_with [CHR 0x0A] (scannable_base dec (strip command) # texts))))"

definition scannableCommand :: "(string \<Rightarrow> string) \<Rightarrow> (string \<Rightarrow> string) \<Rightarrow> string \<Rightarrow> string option" where
  "scannableCommand dec strip command = scannable_levels dec strip 8 command"

section \<open>Patterns that may be stored\<close>

definition MAX_PATTERN_CHARS :: nat where
  "MAX_PATTERN_CHARS = 256"

text \<open>\<open>/\\[1-9]|\\k<|\(\?[=!<]/\<close> matches at the start of the text.\<close>

definition unsupported_at :: "string \<Rightarrow> bool" where
  "unsupported_at s =
     ((starts_with s [CHR 0x5C] \<and> (case tl s of c # _ \<Rightarrow> is_digit c \<and> c \<noteq> CHR ''0'' | [] \<Rightarrow> False)) \<or>
      starts_with s [CHR 0x5C, CHR ''k'', CHR ''<''] \<or>
      starts_with s ''(?='' \<or> starts_with s ''(?!'' \<or> starts_with s ''(?<'')"

fun unsupported_somewhere :: "string \<Rightarrow> bool" where
  "unsupported_somewhere [] = False"
| "unsupported_somewhere (c # s) = (unsupported_at (c # s) \<or> unsupported_somewhere s)"

record group_state =
  g_quantified :: bool
  g_alternation :: bool

record pattern_state =
  ps_groups :: "group_state list"
  ps_escaped :: bool
  ps_inClass :: bool
  ps_previousQuantifier :: bool
  ps_closed :: "group_state option"

definition mark_top :: "(group_state \<Rightarrow> group_state) \<Rightarrow> group_state list \<Rightarrow> group_state list" where
  "mark_top f gs = (case gs of [] \<Rightarrow> [] | g # r \<Rightarrow> f g # r)"

text \<open>One round of the loop, with the preceding character; the innermost group is the head of the
  list. \<^const>\<open>None\<close>: nested or ambiguous repetition.\<close>

definition pattern_round :: "char option \<Rightarrow> char \<Rightarrow> pattern_state \<Rightarrow> pattern_state option" where
  "pattern_round prev ch st =
     (if ps_escaped st then Some (st\<lparr>ps_escaped := False, ps_previousQuantifier := False, ps_closed := None\<rparr>)
      else if ch = CHR 0x5C then Some (st\<lparr>ps_escaped := True\<rparr>)
      else if ch = CHR ''['' then Some (st\<lparr>ps_inClass := True, ps_previousQuantifier := False, ps_closed := None\<rparr>)
      else if ch = CHR '']'' \<and> ps_inClass st then Some (st\<lparr>ps_inClass := False\<rparr>)
      else if ps_inClass st then Some st
      else if ch = CHR ''('' then
        Some (st\<lparr>ps_groups := \<lparr>g_quantified = False, g_alternation = False\<rparr> # ps_groups st,
                ps_previousQuantifier := False, ps_closed := None\<rparr>)
      else if ch = CHR ''|'' then
        Some (st\<lparr>ps_groups := mark_top (\<lambda>g. g\<lparr>g_alternation := True\<rparr>) (ps_groups st),
                ps_previousQuantifier := False, ps_closed := None\<rparr>)
      else if ch = CHR '')'' then
        Some (st\<lparr>ps_closed := Some (case ps_groups st of [] \<Rightarrow> \<lparr>g_quantified = False, g_alternation = False\<rparr> | g # _ \<Rightarrow> g),
                ps_groups := tl (ps_groups st), ps_previousQuantifier := False\<rparr>)
      else if ch = CHR ''*'' \<or> ch = CHR ''+'' \<or> (ch = CHR ''?'' \<and> prev \<noteq> Some (CHR ''('')) \<or> ch = CHR ''{'' then
        (if ps_previousQuantifier st \<or>
            (case ps_closed st of None \<Rightarrow> False | Some g \<Rightarrow> g_quantified g \<or> g_alternation g) then None
         else Some (st\<lparr>ps_groups := mark_top (\<lambda>g. g\<lparr>g_quantified := True\<rparr>) (ps_groups st),
                      ps_previousQuantifier := True, ps_closed := None\<rparr>))
      else Some (st\<lparr>ps_previousQuantifier := False, ps_closed := None\<rparr>))"

fun pattern_loop :: "char option \<Rightarrow> string \<Rightarrow> pattern_state \<Rightarrow> bool" where
  "pattern_loop prev [] st = True"
| "pattern_loop prev (c # s) st =
     (case pattern_round prev c st of None \<Rightarrow> False | Some st' \<Rightarrow> pattern_loop (Some c) s st')"

definition safe_pattern :: "string \<Rightarrow> bool" where
  "safe_pattern p \<longleftrightarrow> p \<noteq> [] \<and> length p \<le> MAX_PATTERN_CHARS \<and> \<not> unsupported_somewhere p \<and>
     pattern_loop None p \<lparr>ps_groups = [], ps_escaped = False, ps_inClass = False,
       ps_previousQuantifier = False, ps_closed = None\<rparr>"

text \<open>The compiled pattern, \<^const>\<open>None\<close> when it throws; \<open>rx\<close> is \<open>new RegExp(pattern, "i")\<close> with \<open>exec\<close>.\<close>

type_synonym regexp_compiler = "string \<Rightarrow> (string \<Rightarrow> string option) option"

definition compileSafeRegex :: "regexp_compiler \<Rightarrow> string \<Rightarrow> (string \<Rightarrow> string option) option" where
  "compileSafeRegex rx p = (if safe_pattern p then rx p else None)"

section \<open>Policies\<close>

definition ORG_FLOOR_RULES :: "command_rule list" where
  "ORG_FLOOR_RULES =
     [\<lparr>cr_pattern = [CHR 0x5C] @ ''brm'' @ [CHR 0x5C] @ ''b[^'' @ [CHR 0x5C] @ ''n]*(?:-[a-zA-Z]*r|--recursive)'',
       cr_decision = RequireApproval, cr_reason = Some ''recursive delete''\<rparr>,
      \<lparr>cr_pattern = [CHR 0x5C] @ ''bgit'' @ [CHR 0x5C] @ ''s+push'' @ [CHR 0x5C] @ ''b.*(?:--force'' @ [CHR 0x5C] @
         ''b|(?:^|'' @ [CHR 0x5C] @ ''s)-[a-zA-Z]*f'' @ [CHR 0x5C] @ ''b)'',
       cr_decision = RequireApproval, cr_reason = Some ''force push''\<rparr>,
      \<lparr>cr_pattern = [CHR 0x5C] @ ''b(drop|truncate)'' @ [CHR 0x5C] @ ''s+table'' @ [CHR 0x5C] @ ''b'',
       cr_decision = RequireApproval, cr_reason = Some ''destructive SQL''\<rparr>,
      \<lparr>cr_pattern = [CHR 0x5C] @ ''bmkfs'' @ [CHR 0x5C] @ ''b|:'' @ [CHR 0x5C] @ ''('' @ [CHR 0x5C] @ '')'' @ [CHR 0x5C] @
         ''s*'' @ [CHR 0x5C] @ ''{'', cr_decision = Deny, cr_reason = Some ''destructive / fork bomb''\<rparr>,
      \<lparr>cr_pattern = [CHR 0x5C] @ ''bcurl'' @ [CHR 0x5C] @ ''b.*'' @ [CHR 0x5C] @ ''|'' @ [CHR 0x5C] @ ''s*(sh|bash)'' @
         [CHR 0x5C] @ ''b'', cr_decision = RequireApproval, cr_reason = Some ''pipe-to-shell''\<rparr>]"

definition defaultOrgPolicy :: command_policy where
  "defaultOrgPolicy = \<lparr>cp_mode = Denylist, cp_rules = ORG_FLOOR_RULES\<rparr>"

definition composePolicy :: "command_policy \<Rightarrow> command_policy option \<Rightarrow> command_policy" where
  "composePolicy orgFloor scope =
     (case scope of
        None \<Rightarrow> orgFloor
      | Some s \<Rightarrow> \<lparr>cp_mode = (if cp_mode orgFloor = Allowlist then Allowlist else cp_mode s),
                   cp_rules = cp_rules orgFloor @ cp_rules s\<rparr>)"

text \<open>The errors of \<open>parseCommandPolicy\<close>, with the index of the offending rule.\<close>

datatype policy_error = NotAnObject | BadMode | RulesNotArray | RuleNotObject nat | BadPattern nat
  | InvalidRegex nat | BadDecision nat | BadReason nat

fun decision_of :: "json option \<Rightarrow> command_decision option" where
  "decision_of (Some (JStr s)) =
     (if s = ''allow'' then Some Allow else if s = ''deny'' then Some Deny
      else if s = ''require_approval'' then Some RequireApproval else None)"
| "decision_of _ = None"

text \<open>One rule of the input; an array is an object here, without the fields.\<close>

definition parse_rule :: "regexp_compiler \<Rightarrow> nat \<Rightarrow> json \<Rightarrow> policy_error + command_rule" where
  "parse_rule rx i raw =
     (case raw of
        JNull \<Rightarrow> Inl (RuleNotObject i) | JBool _ \<Rightarrow> Inl (RuleNotObject i) | JNum _ \<Rightarrow> Inl (RuleNotObject i)
      | JStr _ \<Rightarrow> Inl (RuleNotObject i)
      | _ \<Rightarrow>
          (case jstr (jget raw ''pattern'') of
             None \<Rightarrow> Inl (BadPattern i)
           | Some p \<Rightarrow>
               (if p = [] then Inl (BadPattern i)
                else if compileSafeRegex rx p = None then Inl (InvalidRegex i)
                else case decision_of (jget raw ''decision'') of
                  None \<Rightarrow> Inl (BadDecision i)
                | Some d \<Rightarrow>
                    (case jget raw ''reason'' of
                       None \<Rightarrow> Inr \<lparr>cr_pattern = p, cr_decision = d, cr_reason = None\<rparr>
                     | Some (JStr r) \<Rightarrow> Inr \<lparr>cr_pattern = p, cr_decision = d, cr_reason = Some r\<rparr>
                     | Some _ \<Rightarrow> Inl (BadReason i)))))"

fun parse_rules :: "regexp_compiler \<Rightarrow> nat \<Rightarrow> json list \<Rightarrow> policy_error + command_rule list" where
  "parse_rules rx i [] = Inr []"
| "parse_rules rx i (raw # rest) =
     (case parse_rule rx i raw of
        Inl e \<Rightarrow> Inl e
      | Inr r \<Rightarrow> (case parse_rules rx (Suc i) rest of Inl e \<Rightarrow> Inl e | Inr rs \<Rightarrow> Inr (r # rs)))"

definition parseCommandPolicy :: "regexp_compiler \<Rightarrow> json \<Rightarrow> policy_error + command_policy" where
  "parseCommandPolicy rx input =
     (case input of
        JObj fs \<Rightarrow>
          (let mode = (if jget input ''mode'' = Some (JStr ''denylist'') then Some Denylist
                       else if jget input ''mode'' = Some (JStr ''allowlist'') then Some Allowlist else None)
           in case mode of
                None \<Rightarrow> Inl BadMode
              | Some m \<Rightarrow>
                  (case jget input ''rules'' of
                     Some (JArr rules) \<Rightarrow>
                       (case parse_rules rx 0 rules of
                          Inl e \<Rightarrow> Inl e | Inr rs \<Rightarrow> Inr \<lparr>cp_mode = m, cp_rules = rs\<rparr>)
                   | _ \<Rightarrow> Inl RulesNotArray))
      | _ \<Rightarrow> Inl NotAnObject)"

section \<open>Evaluation\<close>

record command_evaluation =
  ce_decision :: command_decision
  ce_reason :: "string option"
  ce_matched :: "string option"
  ce_approvalKey :: "string option"

fun firstMatch :: "regexp_compiler \<Rightarrow> string \<Rightarrow> command_rule list \<Rightarrow> command_evaluation option" where
  "firstMatch rx scannable [] = None"
| "firstMatch rx scannable (rule # rules) =
     (case compileSafeRegex rx (cr_pattern rule) of
        None \<Rightarrow> firstMatch rx scannable rules
      | Some re \<Rightarrow>
          (case re scannable of
             None \<Rightarrow> firstMatch rx scannable rules
           | Some hit \<Rightarrow> Some \<lparr>ce_decision = cr_decision rule,
                 ce_reason = (if truthy (cr_reason rule) then cr_reason rule else None),
                 ce_matched = Some hit, ce_approvalKey = Some (cr_pattern rule)\<rparr>))"

definition not_in_allowlist :: command_evaluation where
  "not_in_allowlist = \<lparr>ce_decision = Deny, ce_reason = Some ''not in allowlist'', ce_matched = None, ce_approvalKey = None\<rparr>"

definition allowed :: command_evaluation where
  "allowed = \<lparr>ce_decision = Allow, ce_reason = None, ce_matched = None, ce_approvalKey = None\<rparr>"

text \<open>The evaluation of an already scanned text.\<close>

definition evaluate_text :: "regexp_compiler \<Rightarrow> string \<Rightarrow> command_policy \<Rightarrow> command_evaluation" where
  "evaluate_text rx scannable policy =
     (case firstMatch rx scannable (cp_rules policy) of
        Some m \<Rightarrow> m
      | None \<Rightarrow> if cp_mode policy = Allowlist then not_in_allowlist else allowed)"

definition evaluateCommand ::
    "regexp_compiler \<Rightarrow> (string \<Rightarrow> string) \<Rightarrow> (string \<Rightarrow> string) \<Rightarrow> string \<Rightarrow> command_policy \<Rightarrow> command_evaluation option" where
  "evaluateCommand rx dec strip command policy =
     map_option (\<lambda>t. evaluate_text rx t policy) (scannableCommand dec strip command)"

definition evaluateCommandWithLayer ::
    "regexp_compiler \<Rightarrow> (string \<Rightarrow> string) \<Rightarrow> (string \<Rightarrow> string) \<Rightarrow> string \<Rightarrow> command_policy \<Rightarrow> command_rule list \<Rightarrow>
     command_evaluation option" where
  "evaluateCommandWithLayer rx dec strip command policy layerRules =
     map_option (\<lambda>t.
       case firstMatch rx t (cp_rules policy) of
         Some m \<Rightarrow> m
       | None \<Rightarrow> if cp_mode policy = Allowlist then not_in_allowlist
                 else (case firstMatch rx t layerRules of Some m \<Rightarrow> m | None \<Rightarrow> allowed))
       (scannableCommand dec strip command)"

end
