(* ===== verification/Acl.thy ===== *)
theory Acl
  imports Scopes
begin

text \<open>
  Grants of resources between scopes (\<open>src/src/acl/acl-store.ts\<close>). The store is written against the
  interface \<open>GrantPersistence\<close>; here that interface is a record of operations on a state, the store's
  operations take it as an argument, and what they rely on is the locale \<open>grant_persistence\<close>,
  interpreted on the persistence in memory. Each operation of the store is one step: the awaits inside
  an operation are not interleaved with other operations. \<open>opts.manages\<close> and the entitlement test of
  the queries are arguments, as they are in the code.
\<close>

section \<open>Grants\<close>

datatype Permission = perm_read | perm_write

record Grant =
  g_ownerScopeId :: ScopeId
  g_ref :: string
  g_granteeScopeId :: ScopeId
  g_permission :: Permission
  g_grantedBy :: string

record GrantedHandle =
  h_carried :: bool
  h_handlePath :: string
  h_ownerScopeId :: ScopeId
  h_ownerPath :: string
  h_permission :: Permission

definition isFileGrant :: "Grant \<Rightarrow> bool" where
  "isFileGrant g = (rr_kind (parseRef (g_ref g)) = file_kind)"

text \<open>The last piece of \<open>p.split("/")\<close>, or all of \<open>p\<close> when that piece is empty.\<close>

definition path_basename :: "string \<Rightarrow> string" where
  "path_basename p =
     (let t = rev (takeWhile (\<lambda>c. c \<noteq> CHR ''/'') (rev p)) in if t = [] then p else t)"

definition toHandle :: "Grant \<Rightarrow> GrantedHandle" where
  "toHandle g = \<lparr>h_carried = False, h_handlePath = ''shared/'' @ path_basename (g_ref g), h_ownerScopeId = g_ownerScopeId g,
     h_ownerPath = g_ref g, h_permission = g_permission g\<rparr>"

definition ownerOf :: "ScopeId \<Rightarrow> string option" where
  "ownerOf s = (case parseScopeId s of (kind, r) \<Rightarrow> if kind = Some personal then Some r else None)"

definition isMembershipManaged :: "ScopeId \<Rightarrow> bool" where
  "isMembershipManaged s = (fst (parseScopeId s) \<in> {Some channel, Some group})"

definition sameGrant :: "Grant \<Rightarrow> Grant \<Rightarrow> bool" where
  "sameGrant a b = (g_ownerScopeId a = g_ownerScopeId b \<and> g_ref a = g_ref b \<and>
     g_granteeScopeId a = g_granteeScopeId b \<and> g_permission a = g_permission b)"

definition sameGrantTuple :: "Grant \<Rightarrow> Grant \<Rightarrow> bool" where
  "sameGrantTuple a b = (sameGrant a b \<and> g_grantedBy a = g_grantedBy b)"

definition sameGrantSet :: "Grant list \<Rightarrow> Grant list \<Rightarrow> bool" where
  "sameGrantSet a b =
     (length a = length b \<and> list_all (\<lambda>grant. list_ex (\<lambda>candidate. sameGrantTuple grant candidate) b) a)"

definition of_resource :: "ScopeId \<Rightarrow> string \<Rightarrow> Grant \<Rightarrow> bool" where
  "of_resource owner r g = (g_ownerScopeId g = owner \<and> g_ref g = r)"

section \<open>The persistence interface and its implementation in memory\<close>

record 's GrantPersistence =
  all_grants :: "'s \<Rightarrow> Grant list"
  put :: "Grant \<Rightarrow> 's \<Rightarrow> 's"
  remove :: "Grant \<Rightarrow> 's \<Rightarrow> 's"
  replaceForResourceIfCurrent :: "ScopeId \<Rightarrow> string \<Rightarrow> Grant list \<Rightarrow> Grant list \<Rightarrow> 's \<Rightarrow> 's \<times> bool"

fun permission_name :: "Permission \<Rightarrow> string" where
  "permission_name perm_read = ''read''"
| "permission_name perm_write = ''write''"

definition grant_key :: "Grant \<Rightarrow> string" where
  "grant_key g = g_ownerScopeId g @ CHR 0x0A # g_ref g @ CHR 0x0A # g_granteeScopeId g @ CHR 0x0A #
     permission_name (g_permission g)"

definition memory_all :: "Grant list \<Rightarrow> Grant list" where
  "memory_all grants = sort_key grant_key grants"

definition memory_put :: "Grant \<Rightarrow> Grant list \<Rightarrow> Grant list" where
  "memory_put g grants = (if list_ex (\<lambda>x. sameGrant x g) grants then grants else grants @ [g])"

definition memory_remove :: "Grant \<Rightarrow> Grant list \<Rightarrow> Grant list" where
  "memory_remove g grants = filter (\<lambda>x. \<not> sameGrant x g) grants"

definition memory_replace ::
  "ScopeId \<Rightarrow> string \<Rightarrow> Grant list \<Rightarrow> Grant list \<Rightarrow> Grant list \<Rightarrow> Grant list \<times> bool" where
  "memory_replace owner r expected replacement grants =
     (let current = filter (of_resource owner r) grants in
      if \<not> sameGrantSet current expected then (grants, False)
      else (filter (\<lambda>g. \<not> of_resource owner r g) grants @ replacement, True))"

definition createMemoryGrantPersistence :: "Grant list GrantPersistence" where
  "createMemoryGrantPersistence =
     \<lparr>all_grants = memory_all, put = memory_put, remove = memory_remove,
      replaceForResourceIfCurrent = memory_replace\<rparr>"

section \<open>The store\<close>

type_synonym ScopeManagement = "string \<Rightarrow> ScopeId \<Rightarrow> string option \<Rightarrow> bool"
type_synonym ScopeEntitlement = "Principal \<Rightarrow> ScopeId \<Rightarrow> ScopeId \<Rightarrow> ScopeId \<Rightarrow> bool"

datatype acl_error = GrantForbidden | RevokeForbidden | ReplaceForbidden | ForeignGrants

definition canManage :: "ScopeManagement option \<Rightarrow> ScopeId \<Rightarrow> string \<Rightarrow> string option \<Rightarrow> bool" where
  "canManage manages s principalId authoredBy =
     (case ownerOf s of
        Some owner \<Rightarrow> samePerson (Some principalId) (Some owner)
      | None \<Rightarrow>
          (case manages of
             Some f \<Rightarrow> if isMembershipManaged s then f principalId s authoredBy else True
           | None \<Rightarrow> True))"

definition acl_grant ::
  "'s GrantPersistence \<Rightarrow> ScopeManagement option \<Rightarrow> Grant \<Rightarrow> string option \<Rightarrow> 's \<Rightarrow> acl_error + 's" where
  "acl_grant P manages g authoredBy s =
     (if \<not> canManage manages (g_ownerScopeId g) (g_grantedBy g) authoredBy then Inl GrantForbidden
      else Inr (put P g s))"

definition acl_revoke ::
  "'s GrantPersistence \<Rightarrow> ScopeManagement option \<Rightarrow> ScopeId \<Rightarrow> string \<Rightarrow> ScopeId \<Rightarrow> string \<Rightarrow>
   string option \<Rightarrow> 's \<Rightarrow> acl_error + 's" where
  "acl_revoke P manages owner r grantee revokedBy authoredBy s =
     (if \<not> canManage manages owner revokedBy authoredBy then Inl RevokeForbidden
      else Inr (fold (remove P)
        (filter (\<lambda>g. of_resource owner r g \<and> g_granteeScopeId g = grantee) (all_grants P s)) s))"

definition replaceGrantsIfCurrent ::
  "'s GrantPersistence \<Rightarrow> ScopeManagement option \<Rightarrow> ScopeId \<Rightarrow> string \<Rightarrow> Grant list \<Rightarrow> Grant list \<Rightarrow>
   string \<Rightarrow> string option \<Rightarrow> 's \<Rightarrow> acl_error + 's \<times> bool" where
  "replaceGrantsIfCurrent P manages owner r expected replacement changedBy authoredBy s =
     (if \<not> canManage manages owner changedBy authoredBy then Inl ReplaceForbidden
      else if list_ex (\<lambda>g. \<not> of_resource owner r g) expected \<or>
              list_ex (\<lambda>g. \<not> of_resource owner r g) replacement then Inl ForeignGrants
      else Inr (replaceForResourceIfCurrent P owner r expected replacement s))"

definition handlesFor :: "'s GrantPersistence \<Rightarrow> ScopeId list \<Rightarrow> 's \<Rightarrow> GrantedHandle list" where
  "handlesFor P scopeIds s =
     map toHandle (filter (\<lambda>g. isFileGrant g \<and> g_granteeScopeId g \<in> set scopeIds) (all_grants P s))"

definition reaches :: "ScopeEntitlement \<Rightarrow> ScopeId \<Rightarrow> ScopeId \<Rightarrow> Principal \<Rightarrow> Grant \<Rightarrow> bool" where
  "reaches entitled session orgScope p g =
     (entitled p (g_granteeScopeId g) session orgScope \<or> entitled p (g_ownerScopeId g) session orgScope)"

definition shared_with ::
  "ScopeEntitlement \<Rightarrow> ScopeId \<Rightarrow> ScopeId \<Rightarrow> Principal list \<Rightarrow> Grant \<Rightarrow> bool" where
  "shared_with entitled session orgScope audience g =
     (list_ex (\<lambda>p. entitled p (g_granteeScopeId g) session orgScope) audience \<and>
      list_all (\<lambda>p. reaches entitled session orgScope p g) audience)"

definition handlesForAudience ::
  "'s GrantPersistence \<Rightarrow> Principal list \<Rightarrow> ScopeId \<Rightarrow> ScopeId \<Rightarrow> ScopeEntitlement \<Rightarrow> 's \<Rightarrow> GrantedHandle list" where
  "handlesForAudience P audience session orgScope entitled s =
     (if audience = [] then []
      else map toHandle
        (filter (\<lambda>g. isFileGrant g \<and> shared_with entitled session orgScope audience g) (all_grants P s)))"

definition grantsFor :: "'s GrantPersistence \<Rightarrow> ScopeId \<Rightarrow> string \<Rightarrow> 's \<Rightarrow> Grant list" where
  "grantsFor P owner r s = filter (of_resource owner r) (all_grants P s)"

definition grantsOfKind ::
  "'s GrantPersistence \<Rightarrow> ResourceKind \<Rightarrow> Principal list \<Rightarrow> ScopeId \<Rightarrow> ScopeId \<Rightarrow> ScopeEntitlement \<Rightarrow>
   's \<Rightarrow> Grant list" where
  "grantsOfKind P kind audience session orgScope entitled s =
     (if audience = [] then []
      else filter (\<lambda>g. starts_with (g_ref g) (refPrefix kind) \<and> g_ownerScopeId g = orgScope \<and>
             list_all (\<lambda>p. entitled p (g_granteeScopeId g) session orgScope) audience) (all_grants P s))"

definition sharedOfKindForAudience ::
  "'s GrantPersistence \<Rightarrow> ResourceKind \<Rightarrow> Principal list \<Rightarrow> ScopeId \<Rightarrow> ScopeId \<Rightarrow> ScopeEntitlement \<Rightarrow>
   's \<Rightarrow> Grant list" where
  "sharedOfKindForAudience P kind audience session orgScope entitled s =
     (if audience = [] then []
      else filter (\<lambda>g. starts_with (g_ref g) (refPrefix kind) \<and>
             shared_with entitled session orgScope audience g) (all_grants P s))"

text \<open>The store used by a set of people \<open>B\<close>: whoever acts is the grantor, the revoker or the one who
  replaces; a refused call leaves the state as it is.\<close>

inductive acl_step :: "'s GrantPersistence \<Rightarrow> ScopeManagement option \<Rightarrow> string set \<Rightarrow> 's \<Rightarrow> 's \<Rightarrow> bool"
  for P manages B where
  step_grant: "g_grantedBy g \<in> B \<Longrightarrow> acl_grant P manages g a s = Inr s' \<Longrightarrow> acl_step P manages B s s'"
| step_revoke: "by_whom \<in> B \<Longrightarrow> acl_revoke P manages owner r grantee by_whom a s = Inr s' \<Longrightarrow>
    acl_step P manages B s s'"
| step_replace: "by_whom \<in> B \<Longrightarrow>
    replaceGrantsIfCurrent P manages owner r expected replacement by_whom a s = Inr (s', b) \<Longrightarrow>
    acl_step P manages B s s'"

section \<open>What the store relies on\<close>

text \<open>
  What a persistence promises, in terms of the grants it reads back: a put adds at most the new grant and
  leaves a grant of the same key, a remove takes away every grant of the key, a replacement
  that reports success leaves exactly the new grants of the resource and one that reports failure
  changes nothing; nothing else is touched.
\<close>

locale grant_persistence =
  fixes P :: "'s GrantPersistence"
  assumes put_present: "\<exists>x \<in> set (all_grants P (put P g s)). sameGrant x g"
    and put_other: "\<not> sameGrant x g \<Longrightarrow> x \<in> set (all_grants P (put P g s)) \<longleftrightarrow> x \<in> set (all_grants P s)"
    and remove_exact: "set (all_grants P (remove P g s)) = {x \<in> set (all_grants P s). \<not> sameGrant x g}"
    and replace_success: "replaceForResourceIfCurrent P owner r e n s = (s', True) \<Longrightarrow>
      set (all_grants P s') = {x \<in> set (all_grants P s). \<not> of_resource owner r x} \<union> set n"
    and replace_failure: "replaceForResourceIfCurrent P owner r e n s = (s', False) \<Longrightarrow>
      set (all_grants P s') = set (all_grants P s)"
begin

lemma remove_all:
  "set (all_grants P (fold (remove P) gs s)) =
     {x \<in> set (all_grants P s). \<forall>g \<in> set gs. \<not> sameGrant x g}"
  by (induction gs arbitrary: s) (auto simp: remove_exact)

lemma revoke_exact:
  assumes "acl_revoke P manages owner r grantee by_whom a s = Inr s'"
  shows "set (all_grants P s') =
    {x \<in> set (all_grants P s). \<not> (of_resource owner r x \<and> g_granteeScopeId x = grantee)}"
  using assms
  by (auto simp: acl_revoke_def remove_all of_resource_def sameGrant_def split: if_splits)

lemma scope_untouched_step:
  assumes "acl_step P manages B s s'" and "\<And>b a. b \<in> B \<Longrightarrow> \<not> canManage manages scope b a"
    and "g_ownerScopeId x = scope"
  shows "x \<in> set (all_grants P s') \<longleftrightarrow> x \<in> set (all_grants P s)"
  using assms(1)
proof cases
  case (step_grant g a)
  then have "g_ownerScopeId g \<noteq> scope" using assms(2) by (auto simp: acl_grant_def split: if_splits)
  then have "\<not> sameGrant x g" using assms(3) by (auto simp: sameGrant_def)
  from put_other[OF this] step_grant show ?thesis by (auto simp: acl_grant_def split: if_splits)
next
  case (step_revoke b owner r grantee a)
  then have "owner \<noteq> scope" using assms(2) by (auto simp: acl_revoke_def split: if_splits)
  with revoke_exact[OF step_revoke(2)] assms(3) show ?thesis by (auto simp: of_resource_def)
next
  case (step_replace b owner r e n a c)
  then have o: "owner \<noteq> scope" using assms(2) by (auto simp: replaceGrantsIfCurrent_def split: if_splits)
  from step_replace have call: "replaceForResourceIfCurrent P owner r e n s = (s', c)"
    and n: "\<forall>y \<in> set n. of_resource owner r y"
    by (auto simp: replaceGrantsIfCurrent_def list_ex_iff split: if_splits)
  show ?thesis
  proof (cases c)
    case True
    with replace_success[of owner r e n s s'] call n o assms(3) show ?thesis
      by (auto simp: of_resource_def)
  next
    case False
    with replace_failure[of owner r e n s s'] call show ?thesis by simp
  qed
qed

lemma scope_untouched:
  assumes "(acl_step P manages B)\<^sup>*\<^sup>* s s'" and "\<And>b a. b \<in> B \<Longrightarrow> \<not> canManage manages scope b a"
  shows "{x \<in> set (all_grants P s'). g_ownerScopeId x = scope} = {x \<in> set (all_grants P s). g_ownerScopeId x = scope}"
  using assms(1)
proof (induction rule: rtranclp_induct)
  case (step t u)
  have "x \<in> set (all_grants P u) \<longleftrightarrow> x \<in> set (all_grants P t)" if "g_ownerScopeId x = scope" for x
    using scope_untouched_step[OF step(2) assms(2) that] by blast
  with step(3) show ?case by blast
qed simp

end

lemma memory_replace_cases:
  "memory_replace owner r e n s = (s', b) \<Longrightarrow>
   (if b then set s' = {x \<in> set s. \<not> of_resource owner r x} \<union> set n else s' = s)"
  by (auto simp: memory_replace_def Let_def split: if_splits)

interpretation mem: grant_persistence createMemoryGrantPersistence
  by unfold_locales
    (auto simp: createMemoryGrantPersistence_def memory_all_def memory_put_def memory_remove_def
      list_ex_iff sameGrant_def dest!: memory_replace_cases)

section \<open>Properties\<close>

lemma canManage_personal:
  "canManage manages (personalScope owner) b a = samePerson (Some b) (Some owner)"
  by (simp add: canManage_def ownerOf_def personalScope_def)

lemma canManage_member:
  "isMembershipManaged s \<Longrightarrow> canManage (Some f) s b a = f b s a"
  by (auto simp: canManage_def isMembershipManaged_def ownerOf_def split: prod.splits)

text \<open>C13: There is no transitive re-sharing: whatever the people of a group do with grants, revocations
  and replacements, in any order, the grants of a personal scope are exactly what they were unless one
  of them is its owner, and those of a channel or group are unless one of them manages it.\<close>

theorem no_transitive_reshare:
  assumes "(acl_step createMemoryGrantPersistence (Some manages) B)\<^sup>*\<^sup>* s s'"
    and "scope = personalScope owner \<and> (\<forall>b \<in> B. \<not> samePerson (Some b) (Some owner))
      \<or> isMembershipManaged scope \<and> (\<forall>b \<in> B. \<forall>a. \<not> manages b scope a)"
  shows "{g \<in> set (all_grants createMemoryGrantPersistence s'). g_ownerScopeId g = scope} =
         {g \<in> set (all_grants createMemoryGrantPersistence s). g_ownerScopeId g = scope}"
  by (rule mem.scope_untouched[OF assms(1)])
    (use assms(2) canManage_personal canManage_member in auto)

definition sample_grant :: "string \<Rightarrow> string \<Rightarrow> string \<Rightarrow> string \<Rightarrow> Grant" where
  "sample_grant owner r grantee by_whom =
     \<lparr>g_ownerScopeId = owner, g_ref = r, g_granteeScopeId = grantee, g_permission = perm_read, g_grantedBy = by_whom\<rparr>"

text \<open>Bob, who was granted Ann's file, grants something of his own; Ann's grants stay as they were.\<close>

theorem no_transitive_reshare_witness:
  "let s = [sample_grant ''personal:ann'' ''a.txt'' ''personal:bob'' ''ann''];
       s' = s @ [sample_grant ''personal:bob'' ''b.txt'' ''personal:cy'' ''bob'']
   in {g \<in> set (all_grants createMemoryGrantPersistence s'). g_ownerScopeId g = personalScope ''ann''} =
      {g \<in> set (all_grants createMemoryGrantPersistence s). g_ownerScopeId g = personalScope ''ann''}"
proof -
  let ?s = "[sample_grant ''personal:ann'' ''a.txt'' ''personal:bob'' ''ann'']"
  let ?g = "sample_grant ''personal:bob'' ''b.txt'' ''personal:cy'' ''bob''"
  have "acl_grant createMemoryGrantPersistence (Some (\<lambda>_ _ _. False)) ?g None ?s = Inr (?s @ [?g])"
    by code_simp
  then have "acl_step createMemoryGrantPersistence (Some (\<lambda>_ _ _. False)) {''bob''} ?s (?s @ [?g])"
    by (rule step_grant[rotated]) (simp add: sample_grant_def)
  then have r: "(acl_step createMemoryGrantPersistence (Some (\<lambda>_ _ _. False)) {''bob''})\<^sup>*\<^sup>* ?s (?s @ [?g])"
    by (rule r_into_rtranclp)
  have "\<not> samePerson (Some ''bob'') (Some ''ann'')" by code_simp
  with no_transitive_reshare[OF r, of "personalScope ''ann''" "''ann''"] show ?thesis
    unfolding Let_def by blast
qed

text \<open>A successful revocation takes away exactly the grants of this resource to this grantee: after
  it, a handle of the resource that the file lookups give an audience comes from a grant to another
  scope that somebody in the audience is entitled to, every other grant is still there, and revoking again
  changes nothing. Whoever may not manage the owning scope gets an error.\<close>

theorem revoke_takes_effect:
  assumes "acl_revoke createMemoryGrantPersistence manages owner r grantee b a s = Inr s'"
  shows "canManage manages owner b a
   \<and> set (grantsFor createMemoryGrantPersistence owner r s') =
       {g \<in> set (grantsFor createMemoryGrantPersistence owner r s). g_granteeScopeId g \<noteq> grantee}
   \<and> {g \<in> set (all_grants createMemoryGrantPersistence s'). \<not> of_resource owner r g} =
       {g \<in> set (all_grants createMemoryGrantPersistence s). \<not> of_resource owner r g}
   \<and> (\<forall>h \<in> set (handlesForAudience createMemoryGrantPersistence audience session orgScope entitled s').
        h_ownerScopeId h = owner \<and> h_ownerPath h = r \<longrightarrow>
        (\<exists>g \<in> set (grantsFor createMemoryGrantPersistence owner r s). g_granteeScopeId g \<noteq> grantee
          \<and> (\<exists>p \<in> set audience. entitled p (g_granteeScopeId g) session orgScope)))
   \<and> acl_revoke createMemoryGrantPersistence manages owner r grantee b a s' = Inr s'"
proof (intro conjI)
  note ex = mem.revoke_exact[OF assms]
  show m: "canManage manages owner b a" using assms by (simp add: acl_revoke_def split: if_splits)
  show "set (grantsFor createMemoryGrantPersistence owner r s') =
       {g \<in> set (grantsFor createMemoryGrantPersistence owner r s). g_granteeScopeId g \<noteq> grantee}"
    using ex by (auto simp: grantsFor_def)
  show "{g \<in> set (all_grants createMemoryGrantPersistence s'). \<not> of_resource owner r g} =
       {g \<in> set (all_grants createMemoryGrantPersistence s). \<not> of_resource owner r g}"
    using ex by auto
  show "\<forall>h \<in> set (handlesForAudience createMemoryGrantPersistence audience session orgScope entitled s').
        h_ownerScopeId h = owner \<and> h_ownerPath h = r \<longrightarrow>
        (\<exists>g \<in> set (grantsFor createMemoryGrantPersistence owner r s). g_granteeScopeId g \<noteq> grantee
          \<and> (\<exists>p \<in> set audience. entitled p (g_granteeScopeId g) session orgScope))"
    using ex by (auto simp: handlesForAudience_def shared_with_def list_ex_iff toHandle_def grantsFor_def
        of_resource_def)
  have "filter (\<lambda>g. of_resource owner r g \<and> g_granteeScopeId g = grantee)
      (all_grants createMemoryGrantPersistence s') = []"
    using ex by (auto simp: filter_empty_conv)
  then show "acl_revoke createMemoryGrantPersistence manages owner r grantee b a s' = Inr s'"
    using m by (simp add: acl_revoke_def)
qed

theorem revoke_takes_effect_witness:
  "let s = [sample_grant ''personal:ann'' ''a.txt'' ''personal:bob'' ''ann'',
            sample_grant ''personal:ann'' ''a.txt'' ''personal:cy'' ''ann'']
   in set (grantsFor createMemoryGrantPersistence ''personal:ann'' ''a.txt'' [s ! 1]) =
       {g \<in> set (grantsFor createMemoryGrantPersistence ''personal:ann'' ''a.txt'' s).
          g_granteeScopeId g \<noteq> ''personal:bob''}"
proof -
  let ?g = "sample_grant ''personal:ann'' ''a.txt''"
  let ?s = "[?g ''personal:bob'' ''ann'', ?g ''personal:cy'' ''ann'']"
  have "acl_revoke createMemoryGrantPersistence None ''personal:ann'' ''a.txt'' ''personal:bob'' ''ann'' None ?s
      = Inr [?s ! 1]" by code_simp
  from revoke_takes_effect[OF this] show ?thesis by (simp add: Let_def)
qed

lemma sameGrantTuple_eq: "sameGrantTuple a b \<longleftrightarrow> a = b"
  by (auto simp: sameGrantTuple_def sameGrant_def)

text \<open>The comparison by length and inclusion decides equality when the current grants are distinct.\<close>

lemma sameGrantSet_iff:
  assumes "distinct cur"
  shows "sameGrantSet cur e \<longleftrightarrow> set e = set cur \<and> distinct e"
proof
  assume "sameGrantSet cur e"
  then have len: "length cur = length e" and sub: "set cur \<subseteq> set e"
    by (auto simp: sameGrantSet_def list_all_iff list_ex_iff sameGrantTuple_eq)
  have "card (set e) \<le> card (set cur)" using len card_length[of e] distinct_card[OF assms] by simp
  with sub have eq: "set cur = set e" using card_seteq[OF finite_set sub] by blast
  with len distinct_card[OF assms] have "distinct e" by (metis card_distinct)
  with eq show "set e = set cur \<and> distinct e" by simp
next
  assume "set e = set cur \<and> distinct e"
  with assms show "sameGrantSet cur e"
    by (auto simp: sameGrantSet_def list_all_iff list_ex_iff sameGrantTuple_eq dest: distinct_card[symmetric])
       (metis distinct_card)
qed

lemma memory_all_set [simp]: "set (all_grants createMemoryGrantPersistence s) = set s"
  by (simp add: createMemoryGrantPersistence_def memory_all_def)

lemma replace_memory:
  assumes "replaceGrantsIfCurrent createMemoryGrantPersistence manages owner r e n b a s = Inr (s', ok)"
  shows "memory_replace owner r e n s = (s', ok) \<and> (\<forall>g \<in> set n. of_resource owner r g)"
  using assms
  by (auto simp: replaceGrantsIfCurrent_def createMemoryGrantPersistence_def list_ex_iff split: if_splits)

lemma memory_replace_ok_iff:
  "distinct s \<Longrightarrow> memory_replace owner r e n s = (s', ok) \<Longrightarrow>
   ok \<longleftrightarrow> set e = set (filter (of_resource owner r) s) \<and> distinct e"
  using sameGrantSet_iff[of "filter (of_resource owner r) s" e]
  by (auto simp: memory_replace_def Let_def split: if_splits)

text \<open>Replacing the grants of a resource is a compare-and-set: it succeeds exactly when the
  expected grants are the current ones, as a set and without repetition; on success the resource has
  exactly the new grants and every other resource its old ones, on failure nothing changes; and of
  two callers that read the same grants the second fails, whoever it is, unless the first replaced them
  by themselves. The stored grants stay distinct if the new ones are.\<close>

theorem grant_cas:
  assumes "distinct s" and "distinct n"
    and "replaceGrantsIfCurrent createMemoryGrantPersistence manages owner r e n b a s = Inr (s', ok)"
  shows "(ok \<longleftrightarrow> set e = set (grantsFor createMemoryGrantPersistence owner r s) \<and> distinct e)
   \<and> (if ok then set (grantsFor createMemoryGrantPersistence owner r s') = set n
          \<and> filter (\<lambda>g. \<not> of_resource owner r g) s' = filter (\<lambda>g. \<not> of_resource owner r g) s
      else s' = s)
   \<and> distinct s'
   \<and> (ok \<and> set n \<noteq> set e \<longrightarrow>
       replaceGrantsIfCurrent createMemoryGrantPersistence manages' owner r e n' b' a' s' \<noteq> Inr (s'', True))"
proof -
  from replace_memory[OF assms(3)] have call: "memory_replace owner r e n s = (s', ok)"
    and n: "\<forall>g \<in> set n. of_resource owner r g" by auto
  have gf: "set (grantsFor createMemoryGrantPersistence owner r t) = set (filter (of_resource owner r) t)" for t
    by (auto simp: grantsFor_def)
  have iff: "ok \<longleftrightarrow> set e = set (grantsFor createMemoryGrantPersistence owner r s) \<and> distinct e"
    using memory_replace_ok_iff[OF assms(1) call] gf by simp
  have s': "s' = (if ok then filter (\<lambda>g. \<not> of_resource owner r g) s @ n else s)"
    using call by (auto simp: memory_replace_def Let_def split: if_splits)
  have d: "distinct s'" using s' n assms(1,2) by auto
  have res: "if ok then set (grantsFor createMemoryGrantPersistence owner r s') = set n
          \<and> filter (\<lambda>g. \<not> of_resource owner r g) s' = filter (\<lambda>g. \<not> of_resource owner r g) s
      else s' = s"
    using s' n gf by (auto simp: filter_empty_conv)
  have "replaceGrantsIfCurrent createMemoryGrantPersistence manages' owner r e n' b' a' s' \<noteq> Inr (s'', True)"
    if "ok" "set n \<noteq> set e"
  proof
    assume "replaceGrantsIfCurrent createMemoryGrantPersistence manages' owner r e n' b' a' s' = Inr (s'', True)"
    from memory_replace_ok_iff[OF d conjunct1[OF replace_memory[OF this]]] gf that res show False by simp
  qed
  with iff res d show ?thesis by blast
qed

text \<open>A grant is replaced once; the same call again reports that the grants have changed.\<close>

theorem grant_cas_witness:
  "let g = sample_grant ''org:x'' ''a.txt'' ''personal:bob'' ''ann'';
       g' = sample_grant ''org:x'' ''a.txt'' ''personal:cy'' ''ann''
   in set (grantsFor createMemoryGrantPersistence ''org:x'' ''a.txt'' [g']) = {g'}
      \<and> replaceGrantsIfCurrent createMemoryGrantPersistence None ''org:x'' ''a.txt'' [g] [g'] ''ann'' None [g']
          \<noteq> Inr ([g'], True)"
proof -
  let ?g = "sample_grant ''org:x'' ''a.txt'' ''personal:bob'' ''ann''"
  let ?g' = "sample_grant ''org:x'' ''a.txt'' ''personal:cy'' ''ann''"
  have r: "replaceGrantsIfCurrent createMemoryGrantPersistence None ''org:x'' ''a.txt'' [?g] [?g'] ''ann'' None [?g]
    = Inr ([?g'], True)" by code_simp
  have "set [?g'] \<noteq> set [?g]" by (simp add: sample_grant_def)
  then show ?thesis
    using grant_cas[OF _ _ r, of None "[?g']" "''ann''" None "[?g']"] by (simp add: Let_def)
qed

text \<open>Widening an audience never widens what an audience reads: a resource that the whole
  organisation shares with the wider audience is shared with the narrower one; a file handle, or a
  shared resource, for the wider audience is one for the narrower audience too, or is
  owned by scopes that everybody in the narrower audience is entitled to anyway. An empty
  audience is given nothing.\<close>

theorem audience_grants_tighten:
  assumes "A \<noteq> []" and "set A \<subseteq> set A'"
  shows "set (grantsOfKind P k A' session orgScope entitled s) \<subseteq> set (grantsOfKind P k A session orgScope entitled s)
   \<and> (\<forall>h \<in> set (handlesForAudience P A' session orgScope entitled s).
        h \<in> set (handlesForAudience P A session orgScope entitled s)
        \<or> (\<forall>p \<in> set A. entitled p (h_ownerScopeId h) session orgScope))
   \<and> (\<forall>g \<in> set (sharedOfKindForAudience P k A' session orgScope entitled s).
        g \<in> set (sharedOfKindForAudience P k A session orgScope entitled s)
        \<or> (\<forall>p \<in> set A. entitled p (g_ownerScopeId g) session orgScope))
   \<and> grantsOfKind P k [] session orgScope entitled s = []
   \<and> handlesForAudience P [] session orgScope entitled s = []
   \<and> sharedOfKindForAudience P k [] session orgScope entitled s = []"
proof -
  have A': "A' \<noteq> []" using assms by auto
  have share: "shared_with entitled session orgScope A g \<or> (\<forall>p \<in> set A. entitled p (g_ownerScopeId g) session orgScope)"
    if "shared_with entitled session orgScope A' g" for g
    using that assms(2) by (auto simp: shared_with_def list_ex_iff list_all_iff reaches_def)
  have "set (grantsOfKind P k A' session orgScope entitled s) \<subseteq> set (grantsOfKind P k A session orgScope entitled s)"
    using assms A' by (auto simp: grantsOfKind_def list_all_iff)
  moreover have "h \<in> set (handlesForAudience P A session orgScope entitled s)
        \<or> (\<forall>p \<in> set A. entitled p (h_ownerScopeId h) session orgScope)"
    if "h \<in> set (handlesForAudience P A' session orgScope entitled s)" for h
    using that assms(1) A' share by (fastforce simp: handlesForAudience_def toHandle_def)
  moreover have "g \<in> set (sharedOfKindForAudience P k A session orgScope entitled s)
        \<or> (\<forall>p \<in> set A. entitled p (g_ownerScopeId g) session orgScope)"
    if "g \<in> set (sharedOfKindForAudience P k A' session orgScope entitled s)" for g
    using that assms(1) A' share by (auto simp: sharedOfKindForAudience_def)
  ultimately show ?thesis
    by (simp add: grantsOfKind_def handlesForAudience_def sharedOfKindForAudience_def)
qed

theorem audience_grants_tighten_witness:
  "let p = \<lparr>p_id = ''ann'', p_type = internal, teamIds = None, displayName = None\<rparr>;
       q = \<lparr>p_id = ''bob'', p_type = guest, teamIds = None, displayName = None\<rparr>;
       E = (\<lambda>u scope _ _. p_type u = internal \<or> scope = ''org:x'');
       s = [sample_grant ''org:x'' ''skill:a'' ''org:x'' ''ann'', sample_grant ''org:x'' ''skill:b'' ''team:t'' ''ann''];
       P = createMemoryGrantPersistence
   in set (grantsOfKind P skill_kind [p, q] ''channel:c'' ''org:x'' E s)
        \<subseteq> set (grantsOfKind P skill_kind [p] ''channel:c'' ''org:x'' E s)
      \<and> length (grantsOfKind P skill_kind [p, q] ''channel:c'' ''org:x'' E s) = 1
      \<and> length (grantsOfKind P skill_kind [p] ''channel:c'' ''org:x'' E s) = 2"
  unfolding Let_def
  by (intro conjI, rule conjunct1[OF audience_grants_tighten]) (simp, simp, code_simp, code_simp)

end
