(* ===== verification/Security_Screen.thy ===== *)
theory Security_Screen
  imports Scopes
begin

text \<open>
  Security postures and the screening of untrusted text (\<open>src/src/security/security-posture.ts\<close>,
  \<open>src/src/resolution/sharing-posture.ts\<close>): how an organisation's floor and a scope's choice are
  composed, what is put before the classifier and in which pieces, and how its answer is read. The
  prompts themselves are text and are left out. \<open>JSON.parse\<close> is an argument \<open>parse\<close>, \<^const>\<open>None\<close> where
  it throws; a value of type \<open>unknown\<close> is a \<^typ>\<open>json\<close>.
\<close>

section \<open>Postures\<close>

datatype SecurityPosture = dangerous | auto_posture | strict

datatype InboundScreening = screening_off | screening_external
datatype ToolApprovalBehavior = approvals_none | approvals_all

record ResolvedSecurityPolicy =
  inboundScreening :: InboundScreening
  denyPrivateNetworks :: bool
  toolApprovals :: ToolApprovalBehavior

fun resolveSecurityPolicy :: "SecurityPosture \<Rightarrow> ResolvedSecurityPolicy" where
  "resolveSecurityPolicy dangerous =
     \<lparr>inboundScreening = screening_off, denyPrivateNetworks = False, toolApprovals = approvals_none\<rparr>"
| "resolveSecurityPolicy auto_posture =
     \<lparr>inboundScreening = screening_external, denyPrivateNetworks = True, toolApprovals = approvals_none\<rparr>"
| "resolveSecurityPolicy strict =
     \<lparr>inboundScreening = screening_off, denyPrivateNetworks = False, toolApprovals = approvals_all\<rparr>"

fun POSTURE_RANK :: "SecurityPosture \<Rightarrow> nat" where
  "POSTURE_RANK dangerous = 0"
| "POSTURE_RANK auto_posture = 1"
| "POSTURE_RANK strict = 2"

fun posture_name :: "SecurityPosture \<Rightarrow> string" where
  "posture_name dangerous = ''dangerous''"
| "posture_name auto_posture = ''auto''"
| "posture_name strict = ''strict''"

definition SECURITY_POSTURES :: "SecurityPosture list" where
  "SECURITY_POSTURES = [dangerous, auto_posture, strict]"

definition parseSecurityPosture :: "json option \<Rightarrow> SecurityPosture option" where
  "parseSecurityPosture v =
     (case jstr v of None \<Rightarrow> None
      | Some s \<Rightarrow> find (\<lambda>p. posture_name p = toLowerCase (trim s)) SECURITY_POSTURES)"

definition composeSecurityPosture :: "SecurityPosture \<Rightarrow> SecurityPosture option \<Rightarrow> SecurityPosture" where
  "composeSecurityPosture orgFloor scope =
     (case scope of None \<Rightarrow> orgFloor
      | Some p \<Rightarrow> if POSTURE_RANK orgFloor \<ge> POSTURE_RANK p then orgFloor else p)"

datatype SharingPosture = isolated | open_posture

fun sharing_name :: "SharingPosture \<Rightarrow> string" where
  "sharing_name isolated = ''isolated''"
| "sharing_name open_posture = ''open''"

definition parseSharingPosture :: "json option \<Rightarrow> SharingPosture option" where
  "parseSharingPosture v =
     (case jstr v of None \<Rightarrow> None
      | Some s \<Rightarrow> find (\<lambda>p. sharing_name p = toLowerCase (trim s)) [isolated, open_posture])"

definition composeSharingPosture :: "SharingPosture \<Rightarrow> SharingPosture option \<Rightarrow> SharingPosture" where
  "composeSharingPosture ceiling narrower =
     (if ceiling = isolated \<or> narrower = Some isolated then isolated else open_posture)"

definition composeSharingPostures :: "SharingPosture \<Rightarrow> SharingPosture option list \<Rightarrow> SharingPosture" where
  "composeSharingPostures ceiling narrower = foldl composeSharingPosture ceiling narrower"

section \<open>What a tool's result is and what is screened\<close>

definition screenPayloadFromEnvelope :: "json \<Rightarrow> string option" where
  "screenPayloadFromEnvelope envelope =
     (case jget envelope ''messages'' of
        Some (JArr [only]) \<Rightarrow>
          if jget only ''role'' \<noteq> Some (JStr ''user'') then None
          else (case jget only ''content'' of
                  Some (JStr c) \<Rightarrow> let payload = trim c in if payload \<noteq> [] then Some payload else None
                | _ \<Rightarrow> None)
      | _ \<Rightarrow> None)"

datatype ToolResultProvenance = internal_result | workspace_result | external_result

definition INTERNAL_RESULT_TOOLS :: "string list" where
  "INTERNAL_RESULT_TOOLS =
     [''background'', ''cron'', ''create_goal'', ''get_goal'', ''update_goal'', ''finish_silently'',
      ''stay_silent'', ''guidance'', ''webhook'', ''share'', ''publish'', ''miniapp'', ''write'']"

definition toolResultProvenance :: "string \<Rightarrow> ToolResultProvenance" where
  "toolResultProvenance tool =
     (if tool \<in> set INTERNAL_RESULT_TOOLS then internal_result
      else if tool = ''read'' then workspace_result else external_result)"

text \<open>\<open>tool.replace(/[^A-Za-z0-9_-]/g, "_")\<close>.\<close>

definition label_char :: "char \<Rightarrow> bool" where
  "label_char c = (let n = of_char c :: nat in
     (65 \<le> n \<and> n \<le> 90) \<or> (97 \<le> n \<and> n \<le> 122) \<or> (48 \<le> n \<and> n \<le> 57) \<or> n = 95 \<or> n = 45)"

definition toolLabelOf :: "string \<Rightarrow> string" where
  "toolLabelOf tool = map (\<lambda>c. if label_char c then c else CHR ''_'') tool"

definition quarantineReleaseKey :: "string \<Rightarrow> string" where
  "quarantineReleaseKey tool = ''quarantine:'' @ toolLabelOf tool"

section \<open>Reading the verdict\<close>

record SecurityScreenVerdict =
  v_decision :: SecurityPosture
  v_reason :: "string option"
  v_unscreened :: bool

record brace_state =
  bs_depth :: nat
  bs_start :: nat
  bs_inStr :: bool
  bs_esc :: bool

text \<open>One round of the loop of \<open>firstJsonObject\<close> at index \<open>i\<close>: the new state, and whether an object
  ends here.\<close>

definition brace_round :: "char \<Rightarrow> nat \<Rightarrow> brace_state \<Rightarrow> brace_state \<times> bool" where
  "brace_round ch i b =
     (if bs_inStr b then
        (if bs_esc b then b\<lparr>bs_esc := False\<rparr>
         else if ch = CHR 0x5C then b\<lparr>bs_esc := True\<rparr>
         else if ch = CHR 0x22 then b\<lparr>bs_inStr := False\<rparr>
         else b, False)
      else if ch = CHR 0x22 then (b\<lparr>bs_inStr := True\<rparr>, False)
      else if ch = CHR ''{'' then
        (b\<lparr>bs_depth := bs_depth b + 1, bs_start := (if bs_depth b = 0 then i else bs_start b)\<rparr>, False)
      else if ch = CHR ''}'' \<and> bs_depth b > 0 then
        (b\<lparr>bs_depth := bs_depth b - 1\<rparr>, bs_depth b = 1)
      else (b, False))"

fun brace_loop :: "string \<Rightarrow> nat \<Rightarrow> brace_state \<Rightarrow> (nat \<times> nat) option" where
  "brace_loop [] i b = None"
| "brace_loop (ch # r) i b =
     (case brace_round ch i b of (b', ends) \<Rightarrow>
        if ends then Some (bs_start b', i + 1) else brace_loop r (i + 1) b')"

definition firstJsonObject :: "(string \<Rightarrow> json option) \<Rightarrow> string \<Rightarrow> json option" where
  "firstJsonObject parse text =
     (case brace_loop text 0 \<lparr>bs_depth = 0, bs_start = 0, bs_inStr = False, bs_esc = False\<rparr> of
        None \<Rightarrow> None
      | Some (start, e) \<Rightarrow> parse (take (e - start) (drop start text)))"

fun json_truthy :: "json \<Rightarrow> bool" where
  "json_truthy JNull = False"
| "json_truthy (JBool b) = b"
| "json_truthy (JNum n) = (n \<noteq> 0)"
| "json_truthy (JStr s) = (s \<noteq> [])"
| "json_truthy _ = True"

definition control_char :: "char \<Rightarrow> bool" where
  "control_char c = (let n = of_char c :: nat in n \<le> 31 \<or> n = 127)"

definition clean_reason :: "string \<Rightarrow> string" where
  "clean_reason r = take 160 (trim (map (\<lambda>c. if control_char c then CHR '' '' else c) r))"

definition invalid_verdict :: SecurityScreenVerdict where
  "invalid_verdict =
     \<lparr>v_decision = auto_posture, v_reason = Some ''invalid security screen verdict'', v_unscreened = True\<rparr>"

definition parseSecurityScreenVerdict ::
  "(string \<Rightarrow> json option) \<Rightarrow> string option \<Rightarrow> SecurityScreenVerdict option" where
  "parseSecurityScreenVerdict parse output =
     (if \<not> truthy output \<or> trim (the output) = [] then None
      else Some
        (case firstJsonObject parse (the output) of
           None \<Rightarrow> invalid_verdict
         | Some parsed \<Rightarrow>
             if \<not> json_truthy parsed then invalid_verdict
             else if jget parsed ''decision'' = Some (JStr ''auto'') then
               \<lparr>v_decision = auto_posture, v_reason = None, v_unscreened = False\<rparr>
             else if jget parsed ''decision'' \<noteq> Some (JStr ''strict'') then invalid_verdict
             else
               (let reason = (case jget parsed ''reason'' of Some (JStr r) \<Rightarrow> clean_reason r | _ \<Rightarrow> []) in
                \<lparr>v_decision = strict, v_reason = (if reason = [] then None else Some reason),
                 v_unscreened = False\<rparr>)))"

section \<open>What is put before the classifier\<close>

record OverheardMessage =
  o_role :: string
  o_name :: "string option"
  o_text :: string

record screen_datum =
  d_source :: string
  d_content :: string

record SecurityScreenInput =
  si_surface :: "string option"
  si_text :: string
  si_triggered :: bool
  si_securityScreenData :: "string option"
  si_verifiedSwarm :: bool
  si_verifiedSessionMessage :: bool
  si_overheard :: "OverheardMessage list"
  si_externalPromptData :: "screen_datum list"

record SecurityScreenPayload =
  sp_content :: string
  sp_truncated :: bool

definition DATA_BEARING_SURFACES :: "string list" where
  "DATA_BEARING_SURFACES = [''monitor'', ''webhook'']"

definition MAX_SCREEN_CHARS :: nat where "MAX_SCREEN_CHARS = 16000"
definition SCREEN_CHUNK_CHARS :: nat where "SCREEN_CHUNK_CHARS = 7500"
definition SCREEN_CHUNK_OVERLAP :: nat where "SCREEN_CHUNK_OVERLAP = 500"

definition truncation_marker :: string where
  "truncation_marker = CHR 0x0A # ''...[security screen input truncated]...'' @ [CHR 0x0A]"

definition own_data :: "SecurityScreenInput \<Rightarrow> screen_datum list" where
  "own_data input =
     (if si_triggered input \<and> truthy (si_surface input) \<and>
         (si_securityScreenData input \<noteq> None \<or> the (si_surface input) \<in> set DATA_BEARING_SURFACES)
      then
        (let content = nullish (si_securityScreenData input) (si_text input);
             source = (if si_verifiedSwarm input then ''swarm-delegation''
                       else if si_verifiedSessionMessage input then ''session-delegation''
                       else the (si_surface input))
         in if trim content \<noteq> [] then [\<lparr>d_source = source, d_content = content\<rparr>] else [])
      else [])"

definition overheard_data :: "SecurityScreenInput \<Rightarrow> screen_datum list" where
  "overheard_data input =
     map (\<lambda>m. \<lparr>d_source = ''overheard:'' @ nullish (o_name m) ''participant'', d_content = o_text m\<rparr>)
       (filter (\<lambda>m. o_role m = ''user'' \<and> trim (o_text m) \<noteq> []) (si_overheard input))"

definition external_data :: "SecurityScreenInput \<Rightarrow> screen_datum list" where
  "external_data input = filter (\<lambda>d. trim (d_content d) \<noteq> []) (si_externalPromptData input)"

text \<open>The filter that keeps the first datum of each trimmed content.\<close>

fun unique_data :: "string list \<Rightarrow> screen_datum list \<Rightarrow> screen_datum list" where
  "unique_data seen [] = []"
| "unique_data seen (d # ds) =
     (let key = trim (d_content d) in
      if key \<in> set seen then unique_data seen ds else d # unique_data (key # seen) ds)"

definition datum_json :: "screen_datum \<Rightarrow> json" where
  "datum_json d = JObj [(''source'', JStr (d_source d)), (''content'', JStr (d_content d))]"

definition securityScreenPayload :: "SecurityScreenInput \<Rightarrow> SecurityScreenPayload option" where
  "securityScreenPayload input =
     (let unique = unique_data [] (own_data input @ overheard_data input @ external_data input) in
      if unique = [] then None
      else
        (let serialized = stringify (JArr (map datum_json unique)) in
         if length serialized \<le> MAX_SCREEN_CHARS then Some \<lparr>sp_content = serialized, sp_truncated = False\<rparr>
         else
           (let half = (MAX_SCREEN_CHARS - length truncation_marker) div 2 in
            Some \<lparr>sp_content = take half serialized @ truncation_marker @ slice_neg (int half) serialized,
                  sp_truncated = True\<rparr>)))"

definition chunk_payload :: "string \<Rightarrow> string \<Rightarrow> SecurityScreenPayload option" where
  "chunk_payload surface slice = securityScreenPayload
     \<lparr>si_surface = Some surface, si_text = [], si_triggered = True, si_securityScreenData = Some slice,
      si_verifiedSwarm = False, si_verifiedSessionMessage = False, si_overheard = [], si_externalPromptData = []\<rparr>"

lemma chunk_split_decreases:
  fixes n m :: nat
  assumes "n > 1" and "m \<le> n div 4"
  shows "(n + 1) div 2 + m < n" and "m < (n + 1) div 2"
proof -
  obtain q r where n: "n = 4 * q + r" "r < 4" by (metis mod_less_divisor mult_div_mod_eq zero_less_numeral)
  then have "n div 4 = q" and h: "(n + 1) div 2 = 2 * q + (r + 1) div 2" by auto
  moreover have "(r + 1) div 2 \<le> r" "q = 0 \<Longrightarrow> (r + 1) div 2 < r \<and> 0 < (r + 1) div 2"
    using n assms(1) by auto
  ultimately show "(n + 1) div 2 + m < n" and "m < (n + 1) div 2"
    using n assms by (cases "q = 0"; simp)+
qed

function boundedChunk :: "string \<Rightarrow> string \<Rightarrow> string list" where
  "boundedChunk surface slice =
     (case chunk_payload surface slice of
        None \<Rightarrow> []
      | Some payload \<Rightarrow>
          if \<not> sp_truncated payload \<or> length slice \<le> 1 then [sp_content payload]
          else
            (let mid = (length slice + 1) div 2;
                 overlap = min SCREEN_CHUNK_OVERLAP (length slice div 4)
             in boundedChunk surface (take (mid + overlap) slice) @
                boundedChunk surface (drop (mid - overlap) slice)))"
  by pat_completeness auto
termination
  by (relation "measure (\<lambda>(surface, slice). length slice)") (use chunk_split_decreases in \<open>auto simp: not_le\<close>)

function chunk_loop :: "string \<Rightarrow> string \<Rightarrow> nat \<Rightarrow> string list" where
  "chunk_loop surface data start =
     (if start = 0 \<or> start + SCREEN_CHUNK_OVERLAP < length data then
        boundedChunk surface (take SCREEN_CHUNK_CHARS (drop start data)) @
        chunk_loop surface data (start + (SCREEN_CHUNK_CHARS - SCREEN_CHUNK_OVERLAP))
      else [])"
  by pat_completeness auto
termination
  by (relation "measure (\<lambda>(surface, data, start). length data + 7001 - start)")
     (auto simp: SCREEN_CHUNK_OVERLAP_def SCREEN_CHUNK_CHARS_def)

definition securityScreenChunks :: "string \<Rightarrow> string \<Rightarrow> string list" where
  "securityScreenChunks surface data = chunk_loop surface data 0"

declare boundedChunk.simps [simp del] chunk_loop.simps [simp del]

end
