(* ===== verification/Item_Ledger.thy ===== *)
theory Item_Ledger
  imports Durable_Map Json
begin

text \<open>
  The work items of a loop (\<open>src/src/loops/item-ledger.ts\<close>, \<open>src/src/loops/ledger-view.ts\<close>): items are
  enqueued or ingested once per source key, claimed by one worker under a token that lapses, and moved
  through a small state machine by workers and people. The ledger is the memory map of
  \<open>Durable_Map\<close> together with the list of the events handed to \<open>onEvent\<close>; every operation on one item
  goes through the map's atomic \<open>update\<close>. The hash behind an item's id is an argument \<open>sha\<close>; what
  \<open>randomUUID()\<close> returns and the clock are arguments, one value of the clock for all its reads in an
  operation.
\<close>

section \<open>Canonical JSON and mentions\<close>

text \<open>\<open>canonicalJson\<close> sorts the fields of every object by name; \<open>Object.fromEntries\<close> then moves the names
  that are array indices to the front, in numeric order.\<close>

fun digits_value :: "string \<Rightarrow> nat" where
  "digits_value s = foldl (\<lambda>n c. 10 * n + (of_char c - 48)) 0 s"

definition array_index :: "string \<Rightarrow> bool" where
  "array_index s = (show_nat (digits_value s) = s \<and> digits_value s < 4294967295)"

definition canonical_fields :: "(string \<times> json) list \<Rightarrow> (string \<times> json) list" where
  "canonical_fields fs =
     sort_key (\<lambda>f. digits_value (fst f)) (filter (\<lambda>f. array_index (fst f)) fs) @
     sort_key fst (filter (\<lambda>f. \<not> array_index (fst f)) fs)"

fun canonical :: "json \<Rightarrow> json" where
  "canonical (JArr xs) = JArr (map canonical xs)"
| "canonical (JObj fs) = JObj (canonical_fields (map (\<lambda>f. (fst f, canonical (snd f))) fs))"
| "canonical v = v"

definition canonicalJson :: "json option \<Rightarrow> string" where
  "canonicalJson v = (case v of None \<Rightarrow> [] | Some j \<Rightarrow> stringify (canonical j))"

text \<open>One match of \<open>/<(@[UW]\w+|!(?:here|channel|everyone|subteam\^\w+))(?:\|([^>]*))?>/i\<close> at the start of
  the text: the matched kind and the rest. No class of the expression contains the character that must
  follow it, so the greedy reading is the only one.\<close>

definition wire_word :: "char \<Rightarrow> bool" where
  "wire_word c = (let n = of_char c :: nat in
     (48 \<le> n \<and> n \<le> 57) \<or> (65 \<le> n \<and> n \<le> 90) \<or> n = 95 \<or> (97 \<le> n \<and> n \<le> 122))"

definition wire_kind :: "string \<Rightarrow> (string \<times> string) option" where
  "wire_kind s =
     (let l = toLowerCase s;
          word = (\<lambda>p. let w = takeWhile wire_word (drop p s) in
                    if w = [] then None else Some (take p s @ w, drop (p + length w) s))
      in if starts_with l ''@u'' \<or> starts_with l ''@w'' then word 2
         else if starts_with l ''!here'' then Some (take 5 s, drop 5 s)
         else if starts_with l ''!channel'' then Some (take 8 s, drop 8 s)
         else if starts_with l ''!everyone'' then Some (take 9 s, drop 9 s)
         else if starts_with l ''!subteam^'' then word 9
         else None)"

fun wire_end :: "string \<Rightarrow> string option" where
  "wire_end [] = None"
| "wire_end (c # s) =
     (if c = CHR ''>'' then Some s
      else if c = CHR ''|'' then
        (case dropWhile (\<lambda>d. d \<noteq> CHR ''>'') s of [] \<Rightarrow> None | d # r \<Rightarrow> Some r)
      else None)"

definition wire_match :: "string \<Rightarrow> (string \<times> string) option" where
  "wire_match s =
     (case s of [] \<Rightarrow> None
      | c # t \<Rightarrow> if c \<noteq> CHR ''<'' then None
               else Option.bind (wire_kind t) (\<lambda>(k, r). map_option (\<lambda>r'. (k, r')) (wire_end r)))"

lemma length_dropWhile_less: "dropWhile P s = d # r \<Longrightarrow> length r < length s"
  by (metis length_Cons length_dropWhile_le less_eq_Suc_le)

lemma wire_end_length: "wire_end s = Some r \<Longrightarrow> length r < length s"
  by (cases s) (auto split: if_splits list.splits dest: length_dropWhile_less)

lemma wire_kind_length: "wire_kind s = Some (k, r) \<Longrightarrow> length r \<le> length s"
  by (auto simp: wire_kind_def Let_def split: if_splits)

lemma wire_match_length: "wire_match s = Some (k, r) \<Longrightarrow> length r < length s"
  by (cases s) (auto simp: wire_match_def bind_eq_Some_conv split: if_splits
      dest!: wire_end_length wire_kind_length)

function wire_mentions :: "string \<Rightarrow> string list" where
  "wire_mentions s =
     (case wire_match s of
        Some (k, r) \<Rightarrow> k # wire_mentions r
      | None \<Rightarrow> (case s of [] \<Rightarrow> [] | c # t \<Rightarrow> wire_mentions t))"
  by pat_completeness auto
termination
  by (relation "measure length") (auto dest: wire_match_length)

declare wire_mentions.simps [simp del]

definition wireMentionKeys :: "string \<Rightarrow> string list" where
  "wireMentionKeys s = dedupe (map toLowerCase (wire_mentions s))"

section \<open>Items\<close>

datatype LoopItemStatus = queued_item | in_progress | ready_item | shipped_item | failed_item | skipped_item

datatype proposer = by_agent | by_human

record LoopProposal =
  lp_data :: "(string \<times> json) list"
  lp_summary :: "string option"
  lp_by :: proposer
  lp_at :: int
  lp_sessionId :: "string option"

record LoopThreadMessage =
  tm_id :: string
  tm_role :: string
  tm_text :: string
  tm_at :: int
  tm_actorId :: "string option"

record LoopItem =
  li_id :: string
  li_loopId :: string
  li_sourceKey :: string
  li_sourceSummary :: "string option"
  li_source :: "string option"
  li_sourcePayload :: "(string \<times> json) list option"
  li_sourceAt :: "int option"
  li_proposal :: "LoopProposal option"
  li_agentDrafts :: "LoopProposal list option"
  li_agentMentionKeys :: "string list option"
  li_thread :: "LoopThreadMessage list option"
  li_status :: LoopItemStatus
  li_attempts :: nat
  li_runIds :: "string list"
  li_outputIds :: "string list"
  li_parkedReason :: "string option"
  li_guidance :: "string option"
  li_actedAt :: "int option"
  li_actionKind :: "string option"
  li_actionResult :: "string option"
  li_claimedAt :: "int option"
  li_claimToken :: "string option"
  li_decisionAt :: "int option"
  li_decisionToken :: "string option"
  li_createdAt :: int
  li_updatedAt :: int

datatype LedgerState = pending_state | processed | held | actioned | dismissed | failed_state

fun state_of_status :: "LoopItemStatus \<Rightarrow> LedgerState" where
  "state_of_status queued_item = pending_state"
| "state_of_status in_progress = processed"
| "state_of_status ready_item = held"
| "state_of_status shipped_item = actioned"
| "state_of_status skipped_item = dismissed"
| "state_of_status failed_item = failed_state"

definition ledgerState :: "LoopItem \<Rightarrow> LedgerState" where
  "ledgerState item = state_of_status (li_status item)"

fun state_name :: "LedgerState \<Rightarrow> string" where
  "state_name pending_state = ''pending''"
| "state_name processed = ''processed''"
| "state_name held = ''held''"
| "state_name actioned = ''actioned''"
| "state_name dismissed = ''dismissed''"
| "state_name failed_state = ''failed''"

definition isLedgerState :: "json \<Rightarrow> bool" where
  "isLedgerState v =
     (case v of JStr s \<Rightarrow> s \<in> set (map state_name [pending_state, processed, held, actioned, dismissed, failed_state])
      | _ \<Rightarrow> False)"

definition isResolved :: "LoopItem \<Rightarrow> bool" where
  "isResolved item = (ledgerState item = actioned \<or> ledgerState item = dismissed)"

record LedgerItemView =
  iv_id :: string
  iv_loopId :: string
  iv_dedupeKey :: string
  iv_state :: LedgerState
  iv_source :: "string option"
  iv_summary :: "string option"
  iv_sourcePayload :: "(string \<times> json) list"
  iv_sourceAt :: "int option"
  iv_proposal :: "LoopProposal option"
  iv_thread :: "LoopThreadMessage list"
  iv_attempts :: nat
  iv_parkedReason :: "string option"
  iv_guidance :: "string option"
  iv_actedAt :: "int option"
  iv_actionKind :: "string option"
  iv_actionResult :: "string option"
  iv_outputIds :: "string list"
  iv_createdAt :: int
  iv_updatedAt :: int

definition ledgerItemView :: "LoopItem \<Rightarrow> LedgerItemView" where
  "ledgerItemView item =
     \<lparr>iv_id = li_id item, iv_loopId = li_loopId item, iv_dedupeKey = li_sourceKey item,
      iv_state = ledgerState item, iv_source = li_source item, iv_summary = li_sourceSummary item,
      iv_sourcePayload = nullish (li_sourcePayload item) [], iv_sourceAt = li_sourceAt item,
      iv_proposal = li_proposal item, iv_thread = nullish (li_thread item) [], iv_attempts = li_attempts item,
      iv_parkedReason = li_parkedReason item, iv_guidance = li_guidance item, iv_actedAt = li_actedAt item,
      iv_actionKind = li_actionKind item, iv_actionResult = li_actionResult item,
      iv_outputIds = li_outputIds item, iv_createdAt = li_createdAt item, iv_updatedAt = li_updatedAt item\<rparr>"

definition sortLedgerItems :: "LoopItem list \<Rightarrow> LoopItem list" where
  "sortLedgerItems items =
     sort_key (\<lambda>i. (if isResolved i then 1 else 0 :: int, - nullish (li_sourceAt i) (li_createdAt i))) items"

section \<open>Ids, drafts and ingestion\<close>

definition hashId :: "(string \<Rightarrow> string) \<Rightarrow> string list \<Rightarrow> nat \<Rightarrow> string" where
  "hashId sha parts len = take len (sha (join_with [CHR 0x00] parts))"

definition contentPart :: "json option \<Rightarrow> string" where
  "contentPart v = canonicalJson v"

definition loopItemId :: "(string \<Rightarrow> string) \<Rightarrow> string \<Rightarrow> string \<Rightarrow> string" where
  "loopItemId sha loopId sourceKey =
     hashId sha [contentPart (Some (JStr loopId)), contentPart (Some (JStr sourceKey))] 16"

definition CLAIM_LEASE_MS :: int where "CLAIM_LEASE_MS = 600000"
definition LEDGER_THREAD_MAX :: nat where "LEDGER_THREAD_MAX = 200"
definition DECISION_LEASE_MS :: int where "DECISION_LEASE_MS = 300000"
definition AGENT_DRAFT_HISTORY :: nat where "AGENT_DRAFT_HISTORY = 10"

record IngestEntryInput =
  ie_loopId :: string
  ie_dedupeKey :: string
  ie_source :: "string option"
  ie_summary :: "string option"
  ie_sourcePayload :: "(string \<times> json) list"
  ie_sourceAt :: "int option"
  ie_proposal :: "LoopProposal option"

definition nextIngestStatus :: "LoopItem \<Rightarrow> LoopProposal option \<Rightarrow> LoopItemStatus" where
  "nextIngestStatus item proposal =
     (if li_status item = in_progress then in_progress
      else if proposal \<noteq> None then ready_item
      else if isResolved item then queued_item else li_status item)"

definition sameDraft :: "LoopProposal option \<Rightarrow> LoopProposal \<Rightarrow> bool" where
  "sameDraft a b =
     (case a of None \<Rightarrow> False
      | Some p \<Rightarrow> canonicalJson (Some (JObj (lp_data p))) = canonicalJson (Some (JObj (lp_data b))))"

definition last_draft :: "LoopProposal list \<Rightarrow> LoopProposal option" where
  "last_draft ds = (if ds = [] then None else Some (last ds))"

definition agentDraftsOf :: "LoopProposal option \<Rightarrow> LoopProposal list option \<Rightarrow> LoopProposal list" where
  "agentDraftsOf proposal drafts =
     (let kept = nullish drafts [] in
      case proposal of
        None \<Rightarrow> kept
      | Some p \<Rightarrow> if lp_by p \<noteq> by_agent \<or> sameDraft (last_draft kept) p then kept else kept @ [p])"

definition agentDraftOf :: "LoopItem \<Rightarrow> LoopProposal option" where
  "agentDraftOf item = last_draft (agentDraftsOf (li_proposal item) (li_agentDrafts item))"

definition draft_keys :: "LoopProposal list \<Rightarrow> string list" where
  "draft_keys ds = concat (map (\<lambda>d. wireMentionKeys (canonicalJson (Some (JObj (lp_data d))))) ds)"

text \<open>The drafts and the mention keys after a proposal.\<close>

definition withAgentDraft ::
  "LoopProposal option \<Rightarrow> LoopProposal list option \<Rightarrow> string list option \<Rightarrow> LoopProposal option \<Rightarrow>
   LoopProposal list \<times> string list" where
  "withAgentDraft oldProposal oldDrafts oldKeys proposal =
     (let drafts = agentDraftsOf oldProposal oldDrafts;
          nxt = (case proposal of
                   Some p \<Rightarrow> if lp_by p = by_agent \<and> \<not> sameDraft (last_draft drafts) p then drafts @ [p] else drafts
                 | None \<Rightarrow> drafts)
      in (slice_neg (int AGENT_DRAFT_HISTORY) nxt, dedupe (nullish oldKeys [] @ draft_keys nxt)))"

definition set_drafts :: "LoopItem \<Rightarrow> LoopProposal option \<Rightarrow> LoopItem \<Rightarrow> LoopItem" where
  "set_drafts old proposal item =
     (case withAgentDraft (li_proposal old) (li_agentDrafts old) (li_agentMentionKeys old) proposal of
        (drafts, ks) \<Rightarrow> item\<lparr>li_agentDrafts := Some drafts, li_agentMentionKeys := Some ks\<rparr>)"

definition newer_source :: "LoopItem \<Rightarrow> IngestEntryInput \<Rightarrow> bool" where
  "newer_source item entry =
     (case ie_sourceAt entry of None \<Rightarrow> False | Some t \<Rightarrow> t > nullish (li_sourceAt item) 0)"

definition merged_proposal :: "LoopItem \<Rightarrow> IngestEntryInput \<Rightarrow> int \<Rightarrow> LoopProposal option" where
  "merged_proposal item entry now =
     (let incoming = (case ie_proposal entry of Some p \<Rightarrow> Some (p\<lparr>lp_at := now\<rparr>) | None \<Rightarrow> li_proposal item);
          keepHuman = (map_option lp_by (li_proposal item) = Some by_human \<and> \<not> newer_source item entry);
          same = (map_option lp_by (li_proposal item) = Some by_agent \<and>
                  (case incoming of None \<Rightarrow> False | Some p \<Rightarrow> sameDraft (li_proposal item) p))
      in if keepHuman \<or> same then li_proposal item else incoming)"

definition mergeIngest :: "LoopItem \<Rightarrow> IngestEntryInput \<Rightarrow> int \<Rightarrow> LoopItem option" where
  "mergeIngest item entry now =
     (if isResolved item \<and> \<not> newer_source item entry then None
      else if \<not> isResolved item \<and> \<not> newer_source item entry \<and> ie_proposal entry = None then None
      else
        (let proposal = merged_proposal item entry now in
         Some (set_drafts item proposal
           (item\<lparr>li_status := nextIngestStatus item proposal,
             li_sourcePayload := Some (ie_sourcePayload entry),
             li_sourceAt := (if ie_sourceAt entry \<noteq> None then ie_sourceAt entry else li_sourceAt item),
             li_actedAt := None, li_actionKind := None, li_actionResult := None, li_parkedReason := None,
             li_updatedAt := now,
             li_source := (if ie_source entry \<noteq> None then ie_source entry else li_source item),
             li_sourceSummary := (if ie_summary entry \<noteq> None then ie_summary entry else li_sourceSummary item),
             li_proposal := proposal\<rparr>))))"

section \<open>The ledger\<close>

datatype LedgerEventOp = ev_ingest | ev_proposal | ev_annotate | ev_thread | ev_action | ev_reopen | ev_ready
  | ev_shipped | ev_returned | ev_parked | ev_skipped

record LedgerEvent =
  ev_loopId :: string
  ev_itemId :: string
  ev_op :: LedgerEventOp
  ev_at :: int

record ledger =
  ld_items :: "LoopItem jsmap"
  ld_events :: "LedgerEvent list"

definition emit_event :: "LoopItem \<Rightarrow> LedgerEventOp \<Rightarrow> int \<Rightarrow> ledger \<Rightarrow> ledger" where
  "emit_event item op now s = s\<lparr>ld_events := ld_events s @
     [\<lparr>ev_loopId = li_loopId item, ev_itemId = li_id item, ev_op = op, ev_at = now\<rparr>]\<rparr>"

text \<open>The idiom of every operation on one item: \<open>update\<close> with a function that either returns the item
  unchanged or marks the change as applied; then an event, and the new item, when it was applied.\<close>

definition update_if ::
  "string \<Rightarrow> (LoopItem \<Rightarrow> LoopItem option) \<Rightarrow> LedgerEventOp option \<Rightarrow> int \<Rightarrow> ledger \<Rightarrow> ledger \<times> LoopItem option" where
  "update_if i change op now s =
     (let s' = s\<lparr>ld_items := fst (dm_update (ld_items s) i
                 (\<lambda>item. Inr (nullish (change item) item) :: unit + LoopItem))\<rparr>;
          applied = Option.bind (dm_get (ld_items s) i) change
      in case applied of
           None \<Rightarrow> (s', None)
         | Some item \<Rightarrow> (case op of None \<Rightarrow> s' | Some e \<Rightarrow> emit_event item e now s', Some item))"

definition item_transition ::
  "string \<Rightarrow> LoopItemStatus list \<Rightarrow> (LoopItem \<Rightarrow> LoopItem) \<Rightarrow> string option \<Rightarrow> LedgerEventOp option \<Rightarrow> int \<Rightarrow>
   ledger \<Rightarrow> ledger \<times> LoopItem option" where
  "item_transition i allowed change claimToken op now s =
     update_if i (\<lambda>item.
       if li_status item \<notin> set allowed then None
       else if li_status item = in_progress \<and> li_claimToken item \<noteq> claimToken then None
       else Some (change item)) op now s"

definition forLoop :: "string \<Rightarrow> ledger \<Rightarrow> LoopItem list" where
  "forLoop loopId s = filter (\<lambda>item. li_loopId item = loopId) (dm_all (ld_items s))"

definition new_item :: "string \<Rightarrow> string \<Rightarrow> string \<Rightarrow> int \<Rightarrow> LoopItem" where
  "new_item i loopId sourceKey now =
     \<lparr>li_id = i, li_loopId = loopId, li_sourceKey = sourceKey, li_sourceSummary = None, li_source = None,
      li_sourcePayload = None, li_sourceAt = None, li_proposal = None, li_agentDrafts = None,
      li_agentMentionKeys = None, li_thread = None, li_status = queued_item, li_attempts = 0, li_runIds = [],
      li_outputIds = [], li_parkedReason = None, li_guidance = None, li_actedAt = None, li_actionKind = None,
      li_actionResult = None, li_claimedAt = None, li_claimToken = None, li_decisionAt = None,
      li_decisionToken = None, li_createdAt = now, li_updatedAt = now\<rparr>"

definition enqueue_item ::
  "(string \<Rightarrow> string) \<Rightarrow> string \<Rightarrow> string \<Rightarrow> string option \<Rightarrow> int \<Rightarrow> ledger \<Rightarrow> ledger \<times> LoopItem \<times> bool" where
  "enqueue_item sha loopId sourceKey sourceSummary now s =
     (let i = loopItemId sha loopId sourceKey;
          candidate = (new_item i loopId sourceKey now)\<lparr>li_sourceSummary := sourceSummary\<rparr>
      in case dm_insertIfAbsent (ld_items s) i candidate of (items, created) \<Rightarrow>
           (s\<lparr>ld_items := items\<rparr>, if created then candidate else nullish (dm_get items i) candidate, created))"

definition ingest_candidate :: "(string \<Rightarrow> string) \<Rightarrow> IngestEntryInput \<Rightarrow> int \<Rightarrow> LoopItem" where
  "ingest_candidate sha entry now =
     (let proposal = map_option (\<lambda>p. p\<lparr>lp_at := now\<rparr>) (ie_proposal entry);
          base = new_item (loopItemId sha (ie_loopId entry) (ie_dedupeKey entry)) (ie_loopId entry) (ie_dedupeKey entry) now
      in case withAgentDraft None (Some []) None proposal of (drafts, ks) \<Rightarrow>
           base\<lparr>li_status := (if ie_proposal entry \<noteq> None then ready_item else queued_item),
             li_sourcePayload := Some (ie_sourcePayload entry), li_source := ie_source entry,
             li_sourceSummary := ie_summary entry, li_sourceAt := ie_sourceAt entry, li_proposal := proposal,
             li_agentDrafts := Some drafts, li_agentMentionKeys := Some ks\<rparr>)"

datatype ingest_result = Created | Updated | Skipped

definition ingest_one ::
  "(string \<Rightarrow> string) \<Rightarrow> IngestEntryInput \<Rightarrow> int \<Rightarrow> ledger \<Rightarrow> ledger \<times> ingest_result" where
  "ingest_one sha entry now s =
     (let candidate = ingest_candidate sha entry now; i = li_id candidate in
      case dm_insertIfAbsent (ld_items s) i candidate of (items, inserted) \<Rightarrow>
        if inserted then (emit_event candidate ev_ingest now (s\<lparr>ld_items := items\<rparr>), Created)
        else (case update_if i (\<lambda>item. mergeIngest item entry now) (Some ev_ingest) now s of
                (s', Some item) \<Rightarrow> (s', Updated)
              | (s', None) \<Rightarrow> (s', Skipped)))"

fun ingest ::
  "(string \<Rightarrow> string) \<Rightarrow> (IngestEntryInput \<times> int) list \<Rightarrow> ledger \<Rightarrow> ledger \<times> ingest_result list" where
  "ingest sha [] s = (s, [])"
| "ingest sha ((entry, now) # es) s =
     (case ingest_one sha entry now s of (s1, r) \<Rightarrow>
        case ingest sha es s1 of (s2, rs) \<Rightarrow> (s2, r # rs))"

definition setProposal ::
  "string \<Rightarrow> LoopProposal \<Rightarrow> int option \<Rightarrow> int \<Rightarrow> ledger \<Rightarrow> ledger \<times> LoopItem option" where
  "setProposal i proposal expectedAt now s =
     update_if i (\<lambda>item.
       if li_status item = shipped_item then None
       else if expectedAt \<noteq> None \<and> map_option lp_at (li_proposal item) \<noteq> expectedAt then None
       else
         (let stamped = proposal\<lparr>lp_at := now\<rparr> in
          Some (set_drafts item (Some stamped)
            (item\<lparr>li_proposal := Some stamped,
              li_status := (if li_status item = queued_item then ready_item else li_status item),
              li_updatedAt := now\<rparr>)))) (Some ev_proposal) now s"

definition annotate ::
  "string \<Rightarrow> (string \<times> json) list \<Rightarrow> string option \<Rightarrow> int \<Rightarrow> ledger \<Rightarrow> ledger \<times> LoopItem option" where
  "annotate i patch summary now s =
     update_if i (\<lambda>item. Some
       (item\<lparr>li_sourcePayload := Some (foldl (\<lambda>fs (k, v). AList.update k v fs) (nullish (li_sourcePayload item) []) patch),
         li_sourceSummary := (if summary \<noteq> None then summary else li_sourceSummary item),
         li_updatedAt := now\<rparr>)) (Some ev_annotate) now s"

text \<open>The new messages come with the ids they are given.\<close>

definition appendThread ::
  "string \<Rightarrow> LoopThreadMessage list \<Rightarrow> int \<Rightarrow> ledger \<Rightarrow> ledger \<times> LoopItem option" where
  "appendThread i messages now s =
     (if messages = [] then (s, dm_get (ld_items s) i)
      else update_if i (\<lambda>item.
        (let thread = nullish (li_thread item) [] @ map (\<lambda>m. m\<lparr>tm_at := now\<rparr>) messages in
         Some (item\<lparr>li_thread := Some (if length thread > LEDGER_THREAD_MAX
                                      then drop (length thread - LEDGER_THREAD_MAX) thread else thread),
           li_updatedAt := now\<rparr>))) (Some ev_thread) now s)"

definition recordAction ::
  "string \<Rightarrow> string \<Rightarrow> string option \<Rightarrow> bool \<Rightarrow> int \<Rightarrow> ledger \<Rightarrow> ledger \<times> LoopItem option" where
  "recordAction i kind result was_actioned now s =
     update_if i (\<lambda>item.
       if li_status item = shipped_item then None
       else Some
         (item\<lparr>li_status := (if was_actioned then shipped_item else skipped_item), li_actionKind := Some kind,
           li_actedAt := Some now, li_claimedAt := None, li_claimToken := None, li_parkedReason := None,
           li_updatedAt := now, li_actionResult := (if result \<noteq> None then result else li_actionResult item)\<rparr>))
       (Some ev_action) now s"

definition is_sent_reply :: "bool \<Rightarrow> LoopItem \<Rightarrow> bool" where
  "is_sent_reply requested item =
     (requested \<and> li_source item = Some ''gmail'' \<and>
      jtrue (Option.bind (li_sourcePayload item) (\<lambda>fs. map_of fs ''sentChat'')))"

definition reopen :: "string \<Rightarrow> bool \<Rightarrow> int \<Rightarrow> ledger \<Rightarrow> ledger \<times> LoopItem option" where
  "reopen i sentReplyRequested now s =
     update_if i (\<lambda>item.
       let sentReply = is_sent_reply sentReplyRequested item in
       if li_status item \<noteq> skipped_item \<and> li_status item \<noteq> failed_item \<and>
          \<not> (sentReply \<and> li_status item = shipped_item) then None
       else Some
         (item\<lparr>li_status := (if sentReply \<or> li_proposal item \<noteq> None then ready_item else queued_item),
           li_proposal :=
             (if sentReply then
                Some \<lparr>lp_data = [(''body'', JStr [])], lp_summary = None, lp_by = by_human,
                  lp_at = max now (nullish (map_option lp_at (li_proposal item)) 0 + 1), lp_sessionId = None\<rparr>
              else li_proposal item),
           li_actedAt := None, li_actionKind := None, li_actionResult := None, li_parkedReason := None,
           li_updatedAt := now\<rparr>)) (Some ev_reopen) now s"

definition settled_at :: "LoopItem \<Rightarrow> int" where
  "settled_at item = nullish (li_actedAt item) (li_updatedAt item)"

definition doomed_items :: "string \<Rightarrow> int \<Rightarrow> int \<Rightarrow> int \<Rightarrow> ledger \<Rightarrow> LoopItem list" where
  "doomed_items loopId maxItems retentionMs now s =
     (let items = forLoop loopId s;
          expired = filter (\<lambda>item. isResolved item \<and> now - settled_at item \<ge> retentionMs) items;
          surviving = filter (\<lambda>item. li_id item \<notin> set (map li_id expired)) items
      in expired @
         (if int (length surviving) > maxItems
          then take (nat (int (length surviving) - maxItems)) (sort_key settled_at (filter isResolved surviving))
          else []))"

definition prune_items :: "string \<Rightarrow> int \<Rightarrow> int \<Rightarrow> int \<Rightarrow> ledger \<Rightarrow> ledger \<times> nat" where
  "prune_items loopId maxItems retentionMs now s =
     (let doomed = dedupe (map li_id (doomed_items loopId maxItems retentionMs now s)) in
      (s\<lparr>ld_items := foldl dm_delete (ld_items s) doomed\<rparr>, length doomed))"

definition get_item :: "string \<Rightarrow> ledger \<Rightarrow> LoopItem option" where
  "get_item i s = dm_get (ld_items s) i"

definition queued_items :: "string \<Rightarrow> nat option \<Rightarrow> ledger \<Rightarrow> LoopItem list" where
  "queued_items loopId limit s =
     (let q = sort_key li_createdAt (filter (\<lambda>item. li_status item = queued_item) (forLoop loopId s)) in
      case limit of None \<Rightarrow> q | Some n \<Rightarrow> take n q)"

definition claim_item :: "string \<Rightarrow> int \<Rightarrow> string \<Rightarrow> ledger \<Rightarrow> ledger \<times> LoopItem option" where
  "claim_item i now uuid s =
     update_if i (\<lambda>item.
       let stale = (li_status item = in_progress \<and> nullish (li_claimedAt item) 0 + CLAIM_LEASE_MS \<le> now) in
       if li_status item \<noteq> queued_item \<and> \<not> stale then None
       else Some
         (item\<lparr>li_status := in_progress, li_attempts := li_attempts item + 1, li_claimedAt := Some now,
           li_claimToken := Some uuid, li_parkedReason := None, li_updatedAt := now\<rparr>)) None now s"

definition acquireDecision :: "string \<Rightarrow> int \<Rightarrow> string \<Rightarrow> ledger \<Rightarrow> ledger \<times> string option" where
  "acquireDecision i decisionAt uuid s =
     (case update_if i (\<lambda>item.
         if truthy (li_decisionToken item) \<and> nullish (li_decisionAt item) 0 + DECISION_LEASE_MS > decisionAt then None
         else Some (item\<lparr>li_decisionAt := Some decisionAt, li_decisionToken := Some uuid, li_updatedAt := decisionAt\<rparr>))
         None decisionAt s of
        (s', None) \<Rightarrow> (s', None) | (s', Some item) \<Rightarrow> (s', Some uuid))"

definition releaseDecision :: "string \<Rightarrow> string \<Rightarrow> int \<Rightarrow> ledger \<Rightarrow> ledger \<times> bool" where
  "releaseDecision i token now s =
     (case update_if i (\<lambda>item.
         if li_decisionToken item \<noteq> Some token then None
         else Some (item\<lparr>li_decisionAt := None, li_decisionToken := None, li_updatedAt := now\<rparr>)) None now s of
        (s', r) \<Rightarrow> (s', r \<noteq> None))"

definition recordRun :: "string \<Rightarrow> string \<Rightarrow> string \<Rightarrow> int \<Rightarrow> ledger \<Rightarrow> ledger \<times> LoopItem option" where
  "recordRun i runId claimToken now s =
     item_transition i [in_progress]
       (\<lambda>item. item\<lparr>li_runIds := dedupe (li_runIds item @ [runId]), li_updatedAt := now\<rparr>)
       (Some claimToken) None now s"

definition markReady_item :: "string \<Rightarrow> string list \<Rightarrow> string \<Rightarrow> int \<Rightarrow> ledger \<Rightarrow> ledger \<times> LoopItem option" where
  "markReady_item i outputIds claimToken now s =
     item_transition i [in_progress]
       (\<lambda>item. item\<lparr>li_status := ready_item, li_outputIds := dedupe (li_outputIds item @ outputIds),
         li_claimedAt := None, li_claimToken := None, li_updatedAt := now\<rparr>)
       (Some claimToken) (Some ev_ready) now s"

definition markShipped :: "string \<Rightarrow> string option \<Rightarrow> int \<Rightarrow> ledger \<Rightarrow> ledger \<times> LoopItem option" where
  "markShipped i claimToken now s =
     item_transition i [ready_item, in_progress]
       (\<lambda>item. item\<lparr>li_status := shipped_item, li_claimedAt := None, li_claimToken := None, li_updatedAt := now\<rparr>)
       claimToken (Some ev_shipped) now s"

definition returnToWork :: "string \<Rightarrow> string \<Rightarrow> string option \<Rightarrow> int \<Rightarrow> ledger \<Rightarrow> ledger \<times> LoopItem option" where
  "returnToWork i guidance claimToken now s =
     item_transition i [ready_item, in_progress]
       (\<lambda>item. item\<lparr>li_status := queued_item, li_guidance := Some guidance, li_claimedAt := None,
         li_claimToken := None, li_updatedAt := now\<rparr>)
       claimToken (Some ev_returned) now s"

definition park :: "string \<Rightarrow> string \<Rightarrow> string option \<Rightarrow> int \<Rightarrow> ledger \<Rightarrow> ledger \<times> LoopItem option" where
  "park i reason claimToken now s =
     item_transition i [queued_item, in_progress, ready_item]
       (\<lambda>item. item\<lparr>li_status := (if li_status item = ready_item then ready_item else failed_item),
         li_parkedReason := Some reason, li_claimedAt := None, li_claimToken := None, li_updatedAt := now\<rparr>)
       claimToken (Some ev_parked) now s"

definition skip_item :: "string \<Rightarrow> string \<Rightarrow> int \<Rightarrow> ledger \<Rightarrow> ledger \<times> LoopItem option" where
  "skip_item i reason now s =
     item_transition i [queued_item, in_progress]
       (\<lambda>item. item\<lparr>li_status := skipped_item, li_parkedReason := Some reason, li_claimedAt := None,
         li_updatedAt := now\<rparr>)
       None (Some ev_skipped) now s"

record LoopQueueStats =
  qs_queued :: nat
  qs_inProgress :: nat
  qs_ready :: nat
  qs_failed :: nat
  qs_oldestQueuedAgeMs :: "int option"

definition item_stats :: "string \<Rightarrow> int \<Rightarrow> ledger \<Rightarrow> LoopQueueStats" where
  "item_stats loopId now s =
     (let items = forLoop loopId s;
          count = (\<lambda>st. length (filter (\<lambda>item. li_status item = st) items));
          oldest = foldl (\<lambda>acc item. case acc of None \<Rightarrow> Some (li_createdAt item)
                      | Some t \<Rightarrow> if li_createdAt item < t then Some (li_createdAt item) else acc)
                    None (filter (\<lambda>item. li_status item = queued_item) items)
      in \<lparr>qs_queued = count queued_item, qs_inProgress = count in_progress, qs_ready = count ready_item,
          qs_failed = count failed_item, qs_oldestQueuedAgeMs = map_option (\<lambda>t. max 0 (now - t)) oldest\<rparr>)"

definition delete_items_of_loop :: "string \<Rightarrow> ledger \<Rightarrow> ledger" where
  "delete_items_of_loop loopId s =
     s\<lparr>ld_items := foldl dm_delete (ld_items s) (map li_id (forLoop loopId s))\<rparr>"

end
