(* ===== verification/Item_Lifecycle.thy ===== *)
theory Item_Lifecycle
  imports Item_Ledger
begin

text \<open>
  The life of a loop's items: the invariant of the ledger, its steps, and what holds along them. Every
  operation on one item is an instance of \<^const>\<open>update_if\<close>, so the lemmas are about the function each
  operation passes: what it keeps of an item (\<open>item_rel\<close>), collected in \<open>item_changes\<close>.
\<close>

named_theorems item_changes "the item changes of the ledger's operations"

section \<open>The invariant\<close>

definition item_ok :: "LoopItem \<Rightarrow> bool" where
  "item_ok it \<longleftrightarrow>
     (li_status it = in_progress \<longleftrightarrow> li_claimToken it \<noteq> None) \<and>
     (li_status it = in_progress \<longleftrightarrow> li_claimedAt it \<noteq> None) \<and>
     (li_status it = in_progress \<longrightarrow> li_attempts it \<ge> 1) \<and>
     (li_decisionAt it \<noteq> None \<longleftrightarrow> li_decisionToken it \<noteq> None) \<and>
     length (nullish (li_agentDrafts it) []) \<le> AGENT_DRAFT_HISTORY \<and>
     length (nullish (li_thread it) []) \<le> LEDGER_THREAD_MAX"

definition ledger_inv :: "ledger \<Rightarrow> bool" where
  "ledger_inv s \<longleftrightarrow> distinct (keys (ld_items s)) \<and>
     (\<forall>i it. get_item i s = Some it \<longrightarrow> li_id it = i \<and> item_ok it)"

text \<open>An item is put to work only from the queue or when a claim lapsed; it fails only while queued or in
  work; what was shipped comes back only as new work, never as failed, skipped or in progress.\<close>

fun status_edge :: "LoopItemStatus \<Rightarrow> LoopItemStatus \<Rightarrow> bool" where
  "status_edge a in_progress = (a = queued_item \<or> a = in_progress)"
| "status_edge a failed_item = (a \<in> {queued_item, in_progress, failed_item})"
| "status_edge a skipped_item = (a \<noteq> shipped_item)"
| "status_edge a _ = True"

text \<open>What moves an item out of the shipped state: a source event newer than the one it was made from, or
  the reopening of a mail that was answered.\<close>

definition reawakened :: "LoopItem \<Rightarrow> LoopItem \<Rightarrow> bool" where
  "reawakened it x \<longleftrightarrow>
     (\<exists>t. li_sourceAt x = Some t \<and> t > nullish (li_sourceAt it) 0) \<or> is_sent_reply True it"

definition item_rel :: "string set \<Rightarrow> LoopItem \<Rightarrow> LoopItem \<Rightarrow> bool" where
  "item_rel T it x \<longleftrightarrow> item_ok x \<and> li_id x = li_id it \<and> li_loopId x = li_loopId it \<and> li_sourceKey x = li_sourceKey it \<and>
     (\<forall>t. li_claimToken x = Some t \<longrightarrow> li_claimToken it = Some t \<or> t \<in> T) \<and>
     status_edge (li_status it) (li_status x) \<and>
     (li_status it = shipped_item \<and> li_status x \<noteq> shipped_item \<longrightarrow> reawakened it x)"

definition keeps_item :: "string set \<Rightarrow> (LoopItem \<Rightarrow> LoopItem option) \<Rightarrow> bool" where
  "keeps_item T change \<longleftrightarrow> (\<forall>it x. item_ok it \<longrightarrow> change it = Some x \<longrightarrow> item_rel T it x)"

lemma keeps_itemD: "keeps_item T change \<Longrightarrow> item_ok it \<Longrightarrow> change it = Some x \<Longrightarrow> item_rel T it x"
  unfolding keeps_item_def by blast

section \<open>What an update does\<close>

lemma update_if_result:
  "update_if i change op now s = (s', r) \<Longrightarrow> r = Option.bind (get_item i s) change"
  by (auto simp: update_if_def get_item_def Let_def split: option.splits)

lemma update_if_get:
  "update_if i change op now s = (s', r) \<Longrightarrow>
   get_item j s' = (if j = i \<and> r \<noteq> None then r else get_item j s)"
  by (auto simp: update_if_def get_item_def dm_update_def dm_get_def emit_event_def Let_def split: option.splits)

lemma update_if_keys:
  "update_if i change op now s = (s', r) \<Longrightarrow> distinct (keys (ld_items s)) \<Longrightarrow> distinct (keys (ld_items s'))"
  by (auto simp: update_if_def dm_update_def emit_event_def Let_def split: option.splits)

lemma update_if_refused:
  assumes "update_if i change op now s = (s', None)" and "distinct (keys (ld_items s))"
  shows "ld_events s' = ld_events s \<and> (\<forall>j. get_item j s' = get_item j s)"
  using assms update_if_get[OF assms(1)]
  by (auto simp: update_if_def emit_event_def Let_def split: option.splits)

lemma update_if_inv:
  assumes "update_if i change op now s = (s', r)" and "keeps_item T change" and "ledger_inv s"
  shows "ledger_inv s'"
proof -
  have "li_id x = i \<and> item_ok x" if "r = Some x" for x
  proof -
    from that update_if_result[OF assms(1)] have "Option.bind (get_item i s) change = Some x" by simp
    then obtain it where it: "get_item i s = Some it" "change it = Some x"
      unfolding bind_eq_Some_conv by blast
    from it(1) assms(3) have "li_id it = i" "item_ok it" unfolding ledger_inv_def by blast+
    from keeps_itemD[OF assms(2) this(2) it(2)] \<open>li_id it = i\<close> show ?thesis unfolding item_rel_def by blast
  qed
  then have new: "r \<noteq> None \<Longrightarrow> r = Some it \<Longrightarrow> li_id it = i \<and> item_ok it" for it by blast
  show ?thesis unfolding ledger_inv_def
  proof (intro conjI allI impI)
    show "distinct (keys (ld_items s'))" using update_if_keys[OF assms(1)] assms(3) by (simp add: ledger_inv_def)
    fix j it assume "get_item j s' = Some it"
    then have c: "(j = i \<and> r = Some it) \<or> get_item j s = Some it"
      unfolding update_if_get[OF assms(1), of j] by (simp split: if_splits)
    have old: "get_item j s = Some it \<Longrightarrow> li_id it = j \<and> item_ok it" using assms(3) unfolding ledger_inv_def by blast
    from c show "li_id it = j" using new[of it] old by blast
    from c show "item_ok it" using new[of it] old by blast
  qed
qed

lemma update_if_rel:
  assumes "update_if i change op now s = (s', r)" and "keeps_item T change" and "ledger_inv s"
    and "get_item j s' = Some x"
  obtains it where "get_item j s = Some it" and "it = x \<or> item_rel T it x"
proof (cases "j = i \<and> r \<noteq> None")
  case True
  then have "r = Some x" using update_if_get[OF assms(1), of j] assms(4) by simp
  then obtain it where "get_item i s = Some it" "change it = Some x"
    using update_if_result[OF assms(1)] by (auto simp: bind_eq_Some_conv dest: sym)
  moreover from this assms(3) have "item_ok it" by (simp add: ledger_inv_def)
  ultimately show ?thesis using that True assms(2) by (auto simp: keeps_item_def)
next
  case False
  then have "get_item j s = Some x" using update_if_get[OF assms(1), of j] assms(4) by auto
  then show ?thesis using that by blast
qed

section \<open>What each operation does to an item\<close>

lemma slice_neg_length: "n > 0 \<Longrightarrow> length (slice_neg n xs) \<le> nat n"
  by (simp add: slice_neg_def)

lemma drafts_bounded: "length (fst (withAgentDraft p d k q)) \<le> AGENT_DRAFT_HISTORY"
  using slice_neg_length[of "int AGENT_DRAFT_HISTORY"]
  by (simp add: withAgentDraft_def Let_def AGENT_DRAFT_HISTORY_def)

lemma set_drafts_fields [simp]:
  "li_id (set_drafts old p x) = li_id x" "li_loopId (set_drafts old p x) = li_loopId x"
  "li_sourceKey (set_drafts old p x) = li_sourceKey x" "li_status (set_drafts old p x) = li_status x"
  "li_claimToken (set_drafts old p x) = li_claimToken x" "li_claimedAt (set_drafts old p x) = li_claimedAt x"
  "li_attempts (set_drafts old p x) = li_attempts x" "li_thread (set_drafts old p x) = li_thread x"
  "li_decisionAt (set_drafts old p x) = li_decisionAt x" "li_decisionToken (set_drafts old p x) = li_decisionToken x"
  "li_sourceAt (set_drafts old p x) = li_sourceAt x" "li_proposal (set_drafts old p x) = li_proposal x"
  "length (nullish (li_agentDrafts (set_drafts old p x)) []) \<le> AGENT_DRAFT_HISTORY"
  using drafts_bounded[of "li_proposal old" "li_agentDrafts old" "li_agentMentionKeys old" p]
  by (simp_all add: set_drafts_def split_beta)

lemma keeps_itemI:
  "(\<And>it x. item_ok it \<Longrightarrow> change it = Some x \<Longrightarrow> item_rel T it x) \<Longrightarrow> keeps_item T change"
  by (simp add: keeps_item_def)

lemma item_ok_unclaimed:
  "item_ok it \<Longrightarrow> li_status it \<noteq> in_progress \<Longrightarrow> li_claimToken it = None \<and> li_claimedAt it = None"
  by (simp add: item_ok_def)

text \<open>A change that leaves the claim, the decision and the thread alone keeps an item well formed.\<close>

lemma item_ok_frame:
  assumes "item_ok it" and "li_status x = in_progress \<longleftrightarrow> li_status it = in_progress"
    and "li_claimToken x = li_claimToken it" and "li_claimedAt x = li_claimedAt it" and "li_attempts x = li_attempts it"
    and "li_decisionAt x = li_decisionAt it" and "li_decisionToken x = li_decisionToken it"
    and "li_thread x = li_thread it" and "length (nullish (li_agentDrafts x) []) \<le> AGENT_DRAFT_HISTORY"
  shows "item_ok x"
  using assms(1) unfolding item_ok_def assms(2-8) using assms(9) by blast

lemma item_relI:
  assumes "item_ok x" and "li_id x = li_id it" and "li_loopId x = li_loopId it" and "li_sourceKey x = li_sourceKey it"
    and "li_claimToken x = li_claimToken it \<or> li_claimToken x = None"
    and "status_edge (li_status it) (li_status x)"
    and "li_status it = shipped_item \<Longrightarrow> li_status x \<noteq> shipped_item \<Longrightarrow> reawakened it x"
  shows "item_rel T it x"
  unfolding item_rel_def using assms by auto

lemma status_edge_refl [simp]: "status_edge a a"
  by (cases a) simp_all

lemma nextIngestStatus_cases:
  "status_edge (li_status it) (nextIngestStatus it p)"
  "nextIngestStatus it p = in_progress \<longleftrightarrow> li_status it = in_progress"
  by (cases "li_status it"; simp add: nextIngestStatus_def isResolved_def ledgerState_def)+

lemma keeps_mergeIngest [item_changes]: "keeps_item T (\<lambda>item. mergeIngest item entry now)"
proof (rule keeps_itemI, rule item_relI)
  fix it x assume ok: "item_ok it" and m: "mergeIngest it entry now = Some x"
  define p where "p = merged_proposal it entry now"
  have c: "\<not> (isResolved it \<and> \<not> newer_source it entry)"
    and x: "x = set_drafts it p
           (it\<lparr>li_status := nextIngestStatus it p,
             li_sourcePayload := Some (ie_sourcePayload entry),
             li_sourceAt := (if ie_sourceAt entry \<noteq> None then ie_sourceAt entry else li_sourceAt it),
             li_actedAt := None, li_actionKind := None, li_actionResult := None, li_parkedReason := None,
             li_updatedAt := now,
             li_source := (if ie_source entry \<noteq> None then ie_source entry else li_source it),
             li_sourceSummary := (if ie_summary entry \<noteq> None then ie_summary entry else li_sourceSummary it),
             li_proposal := p\<rparr>)"
    using m unfolding mergeIngest_def Let_def p_def by (simp_all split: if_split_asm)
  show "item_ok x"
    by (rule item_ok_frame[OF ok]) (simp_all add: x nextIngestStatus_cases del: split_paired_Ex)
  show "li_id x = li_id it" "li_loopId x = li_loopId it" "li_sourceKey x = li_sourceKey it"
    "li_claimToken x = li_claimToken it \<or> li_claimToken x = None" "status_edge (li_status it) (li_status x)"
    by (simp_all add: x nextIngestStatus_cases)
  assume "li_status it = shipped_item"
  with c have "newer_source it entry" by (simp add: isResolved_def ledgerState_def)
  then show "reawakened it x" by (cases "ie_sourceAt entry") (simp_all add: x newer_source_def reawakened_def)
qed

lemma keeps_setProposal [item_changes]:
  "keeps_item T (\<lambda>item.
     if li_status item = shipped_item then None
     else if expectedAt \<noteq> None \<and> map_option lp_at (li_proposal item) \<noteq> expectedAt then None
     else
       (let stamped = proposal\<lparr>lp_at := now\<rparr> in
        Some (set_drafts item (Some stamped)
          (item\<lparr>li_proposal := Some stamped,
            li_status := (if li_status item = queued_item then ready_item else li_status item),
            li_updatedAt := now\<rparr>))))"
proof (rule keeps_itemI, rule item_relI)
  fix it x assume ok: "item_ok it" and x: "(if li_status it = shipped_item then None
     else if expectedAt \<noteq> None \<and> map_option lp_at (li_proposal it) \<noteq> expectedAt then None
     else
       (let stamped = proposal\<lparr>lp_at := now\<rparr> in
        Some (set_drafts it (Some stamped)
          (it\<lparr>li_proposal := Some stamped,
            li_status := (if li_status it = queued_item then ready_item else li_status it),
            li_updatedAt := now\<rparr>)))) = Some x"
  then have eq: "x = set_drafts it (Some (proposal\<lparr>lp_at := now\<rparr>))
          (it\<lparr>li_proposal := Some (proposal\<lparr>lp_at := now\<rparr>),
            li_status := (if li_status it = queued_item then ready_item else li_status it),
            li_updatedAt := now\<rparr>)" and ns: "li_status it \<noteq> shipped_item"
    unfolding Let_def by (simp_all split: if_split_asm)
  show "item_ok x" by (rule item_ok_frame[OF ok]) (simp_all add: eq)
  show "li_id x = li_id it" "li_loopId x = li_loopId it" "li_sourceKey x = li_sourceKey it"
    "li_claimToken x = li_claimToken it \<or> li_claimToken x = None" "status_edge (li_status it) (li_status x)"
    by (simp_all add: eq)
  show "reawakened it x" if "li_status it = shipped_item" using ns that by simp
qed

lemma keeps_annotate [item_changes]:
  "keeps_item T (\<lambda>item. Some (item\<lparr>li_sourcePayload := f item, li_sourceSummary := g item, li_updatedAt := now\<rparr>))"
  by (rule keeps_itemI) (auto simp: item_rel_def item_ok_def)

lemma keeps_thread [item_changes]:
  "keeps_item T (\<lambda>item.
     (let thread = nullish (li_thread item) [] @ ms in
      Some (item\<lparr>li_thread := Some (if length thread > LEDGER_THREAD_MAX
                                   then drop (length thread - LEDGER_THREAD_MAX) thread else thread),
        li_updatedAt := now\<rparr>)))"
  by (rule keeps_itemI) (auto simp: item_rel_def item_ok_def Let_def)

lemma keeps_action [item_changes]:
  "keeps_item T (\<lambda>item.
     if li_status item = shipped_item then None
     else Some
       (item\<lparr>li_status := (if was_actioned then shipped_item else skipped_item), li_actionKind := Some kind,
         li_actedAt := Some now, li_claimedAt := None, li_claimToken := None, li_parkedReason := None,
         li_updatedAt := now, li_actionResult := (if result \<noteq> None then result else li_actionResult item)\<rparr>))"
proof (rule keeps_itemI, rule item_relI)
  fix it x assume ok: "item_ok it" and x: "(if li_status it = shipped_item then None
     else Some
       (it\<lparr>li_status := (if was_actioned then shipped_item else skipped_item), li_actionKind := Some kind,
         li_actedAt := Some now, li_claimedAt := None, li_claimToken := None, li_parkedReason := None,
         li_updatedAt := now, li_actionResult := (if result \<noteq> None then result else li_actionResult it)\<rparr>)) = Some x"
  then have eq: "x = it\<lparr>li_status := (if was_actioned then shipped_item else skipped_item), li_actionKind := Some kind,
         li_actedAt := Some now, li_claimedAt := None, li_claimToken := None, li_parkedReason := None,
         li_updatedAt := now, li_actionResult := (if result \<noteq> None then result else li_actionResult it)\<rparr>"
    and ns: "li_status it \<noteq> shipped_item"
    by (simp_all split: if_split_asm)
  show "item_ok x" using ok by (simp add: eq item_ok_def)
  show "li_id x = li_id it" "li_loopId x = li_loopId it" "li_sourceKey x = li_sourceKey it"
    "li_claimToken x = li_claimToken it \<or> li_claimToken x = None" "status_edge (li_status it) (li_status x)"
    using ns by (simp_all add: eq)
  show "reawakened it x" if "li_status it = shipped_item" using ns that by simp
qed

lemma keeps_reopen [item_changes]:
  "keeps_item T (\<lambda>item.
     let sentReply = is_sent_reply requested item in
     if li_status item \<noteq> skipped_item \<and> li_status item \<noteq> failed_item \<and>
        \<not> (sentReply \<and> li_status item = shipped_item) then None
     else Some
       (item\<lparr>li_status := (if sentReply \<or> li_proposal item \<noteq> None then ready_item else queued_item),
         li_proposal := f sentReply item, li_actedAt := None, li_actionKind := None, li_actionResult := None,
         li_parkedReason := None, li_updatedAt := now\<rparr>))"
proof -
  have sent: "is_sent_reply requested it \<Longrightarrow> is_sent_reply True it" for it by (simp add: is_sent_reply_def)
  show ?thesis
  proof (intro keeps_itemI item_relI)
    fix it x assume ok: "item_ok it" and x: "(let sentReply = is_sent_reply requested it in
       if li_status it \<noteq> skipped_item \<and> li_status it \<noteq> failed_item \<and>
          \<not> (sentReply \<and> li_status it = shipped_item) then None
       else Some
         (it\<lparr>li_status := (if sentReply \<or> li_proposal it \<noteq> None then ready_item else queued_item),
           li_proposal := f sentReply it, li_actedAt := None, li_actionKind := None, li_actionResult := None,
           li_parkedReason := None, li_updatedAt := now\<rparr>)) = Some x"
    have drafts: "length (nullish (li_agentDrafts it) []) \<le> AGENT_DRAFT_HISTORY" using ok by (simp add: item_ok_def)
    show "item_ok x" by (rule item_ok_frame[OF ok]) (use x drafts in \<open>auto simp: Let_def split: if_splits\<close>)
    show "li_id x = li_id it" "li_loopId x = li_loopId it" "li_sourceKey x = li_sourceKey it"
      "li_claimToken x = li_claimToken it \<or> li_claimToken x = None" "status_edge (li_status it) (li_status x)"
      using x by (auto simp: Let_def split: if_splits)
    show "reawakened it x" if "li_status it = shipped_item"
      using x that sent by (auto simp: Let_def reawakened_def split: if_splits)
  qed
qed

lemma keeps_claim [item_changes]:
  "uuid \<in> T \<Longrightarrow> keeps_item T (\<lambda>item.
     let stale = (li_status item = in_progress \<and> nullish (li_claimedAt item) 0 + CLAIM_LEASE_MS \<le> now) in
     if li_status item \<noteq> queued_item \<and> \<not> stale then None
     else Some
       (item\<lparr>li_status := in_progress, li_attempts := li_attempts item + 1, li_claimedAt := Some now,
         li_claimToken := Some uuid, li_parkedReason := None, li_updatedAt := now\<rparr>))"
  by (rule keeps_itemI) (auto simp: item_rel_def item_ok_def Let_def split: if_splits)

lemma keeps_acquire [item_changes]:
  "keeps_item T (\<lambda>item.
     if truthy (li_decisionToken item) \<and> nullish (li_decisionAt item) 0 + DECISION_LEASE_MS > at then None
     else Some (item\<lparr>li_decisionAt := Some at, li_decisionToken := Some uuid, li_updatedAt := at\<rparr>))"
  by (rule keeps_itemI) (auto simp: item_rel_def item_ok_def split: if_splits)

lemma keeps_release [item_changes]:
  "keeps_item T (\<lambda>item.
     if li_decisionToken item \<noteq> Some token then None
     else Some (item\<lparr>li_decisionAt := None, li_decisionToken := None, li_updatedAt := now\<rparr>))"
  by (rule keeps_itemI) (auto simp: item_rel_def item_ok_def split: if_splits)

lemma keeps_transition:
  assumes "\<And>it. item_ok it \<Longrightarrow> li_status it \<in> set allowed \<Longrightarrow>
      (li_status it = in_progress \<longrightarrow> li_claimToken it = tok) \<Longrightarrow>
      item_ok (change it) \<and> li_id (change it) = li_id it \<and> li_loopId (change it) = li_loopId it \<and>
      li_sourceKey (change it) = li_sourceKey it \<and>
      (li_claimToken (change it) = li_claimToken it \<or> li_claimToken (change it) = None) \<and>
      status_edge (li_status it) (li_status (change it)) \<and> li_status it \<noteq> shipped_item"
  shows "keeps_item T (\<lambda>item.
     if li_status item \<notin> set allowed then None
     else if li_status item = in_progress \<and> li_claimToken item \<noteq> tok then None
     else Some (change item))"
proof (rule keeps_itemI, rule item_relI)
  fix it x assume ok: "item_ok it" and x: "(if li_status it \<notin> set allowed then None
     else if li_status it = in_progress \<and> li_claimToken it \<noteq> tok then None else Some (change it)) = Some x"
  then have "x = change it" "li_status it \<in> set allowed" "li_status it = in_progress \<longrightarrow> li_claimToken it = tok"
    by (auto split: if_splits)
  with assms[OF ok] show "item_ok x" "li_id x = li_id it" "li_loopId x = li_loopId it" "li_sourceKey x = li_sourceKey it"
    "li_claimToken x = li_claimToken it \<or> li_claimToken x = None" "status_edge (li_status it) (li_status x)"
    "li_status it = shipped_item \<Longrightarrow> reawakened it x" by auto
qed

lemma keeps_recordRun [item_changes]:
  "keeps_item T (\<lambda>item.
     if li_status item \<notin> set [in_progress] then None
     else if li_status item = in_progress \<and> li_claimToken item \<noteq> tok then None
     else Some (item\<lparr>li_runIds := f item, li_updatedAt := now\<rparr>))"
  by (rule keeps_transition) (auto simp: item_ok_def)

lemma keeps_markReady [item_changes]:
  "keeps_item T (\<lambda>item.
     if li_status item \<notin> set [in_progress] then None
     else if li_status item = in_progress \<and> li_claimToken item \<noteq> tok then None
     else Some (item\<lparr>li_status := ready_item, li_outputIds := dedupe (li_outputIds item @ outs),
       li_claimedAt := None, li_claimToken := None, li_updatedAt := now\<rparr>))"
  by (rule keeps_transition) (auto simp: item_ok_def)

lemma keeps_markShipped [item_changes]:
  "keeps_item T (\<lambda>item.
     if li_status item \<notin> set [ready_item, in_progress] then None
     else if li_status item = in_progress \<and> li_claimToken item \<noteq> tok then None
     else Some (item\<lparr>li_status := shipped_item, li_claimedAt := None, li_claimToken := None, li_updatedAt := now\<rparr>))"
  by (rule keeps_transition) (auto simp: item_ok_def)

lemma keeps_returnToWork [item_changes]:
  "keeps_item T (\<lambda>item.
     if li_status item \<notin> set [ready_item, in_progress] then None
     else if li_status item = in_progress \<and> li_claimToken item \<noteq> tok then None
     else Some (item\<lparr>li_status := queued_item, li_guidance := Some g, li_claimedAt := None,
       li_claimToken := None, li_updatedAt := now\<rparr>))"
  by (rule keeps_transition) (auto simp: item_ok_def)

lemma keeps_park [item_changes]:
  "keeps_item T (\<lambda>item.
     if li_status item \<notin> set [queued_item, in_progress, ready_item] then None
     else if li_status item = in_progress \<and> li_claimToken item \<noteq> tok then None
     else Some (item\<lparr>li_status := (if li_status item = ready_item then ready_item else failed_item),
       li_parkedReason := Some r, li_claimedAt := None, li_claimToken := None, li_updatedAt := now\<rparr>))"
  by (rule keeps_transition) (auto simp: item_ok_def)

text \<open>Skipping presents no token, so an item in work is never skipped.\<close>

lemma keeps_skip [item_changes]:
  "keeps_item T (\<lambda>item.
     if li_status item \<notin> set [queued_item, in_progress] then None
     else if li_status item = in_progress \<and> li_claimToken item \<noteq> None then None
     else Some (item\<lparr>li_status := skipped_item, li_parkedReason := Some r, li_claimedAt := None, li_updatedAt := now\<rparr>))"
  by (rule keeps_transition) (auto simp: item_ok_def)

section \<open>Steps\<close>

text \<open>The ledger in use: one step is one operation, with tokens for claims from the set \<open>T\<close>; a batch of
  ingested entries is as many steps.\<close>

inductive ledger_step :: "(string \<Rightarrow> string) \<Rightarrow> string set \<Rightarrow> ledger \<Rightarrow> ledger \<Rightarrow> bool" for sha T where
  "enqueue_item sha l k sm now s = (s', r) \<Longrightarrow> ledger_step sha T s s'"
| "ingest_one sha entry now s = (s', r1) \<Longrightarrow> ledger_step sha T s s'"
| "setProposal i p e now s = (s', r2) \<Longrightarrow> ledger_step sha T s s'"
| "annotate i patch sm now s = (s', r2) \<Longrightarrow> ledger_step sha T s s'"
| "appendThread i ms now s = (s', r2) \<Longrightarrow> ledger_step sha T s s'"
| "recordAction i kind result b now s = (s', r2) \<Longrightarrow> ledger_step sha T s s'"
| "reopen i b now s = (s', r2) \<Longrightarrow> ledger_step sha T s s'"
| "prune_items l m ret now s = (s', r3) \<Longrightarrow> ledger_step sha T s s'"
| "uuid \<in> T \<Longrightarrow> claim_item i now uuid s = (s', r2) \<Longrightarrow> ledger_step sha T s s'"
| "acquireDecision i now uuid s = (s', r4) \<Longrightarrow> ledger_step sha T s s'"
| "releaseDecision i tok now s = (s', r5) \<Longrightarrow> ledger_step sha T s s'"
| "recordRun i rid tok now s = (s', r2) \<Longrightarrow> ledger_step sha T s s'"
| "markReady_item i outs tok now s = (s', r2) \<Longrightarrow> ledger_step sha T s s'"
| "markShipped i otok now s = (s', r2) \<Longrightarrow> ledger_step sha T s s'"
| "returnToWork i g otok now s = (s', r2) \<Longrightarrow> ledger_step sha T s s'"
| "park i g otok now s = (s', r2) \<Longrightarrow> ledger_step sha T s s'"
| "skip_item i g now s = (s', r2) \<Longrightarrow> ledger_step sha T s s'"
| "s' = delete_items_of_loop l s \<Longrightarrow> ledger_step sha T s s'"

text \<open>Every step is an update of one item, the addition of a new one or the deletion of some.\<close>

definition fresh_item :: "LoopItem \<Rightarrow> bool" where
  "fresh_item x \<longleftrightarrow> item_ok x \<and> li_claimToken x = None"

definition small_step :: "string set \<Rightarrow> ledger \<Rightarrow> ledger \<Rightarrow> bool" where
  "small_step T s s' \<longleftrightarrow>
     (\<exists>i change op now r. update_if i change op now s = (s', r) \<and> keeps_item T change) \<or>
     (\<exists>i x. get_item i s = None \<and> li_id x = i \<and> fresh_item x \<and> ld_items s' = AList.update i x (ld_items s)) \<or>
     (\<exists>is. ld_items s' = foldl dm_delete (ld_items s) is) \<or> ld_items s' = ld_items s"

lemmas ledger_op_defs = setProposal_def annotate_def recordAction_def reopen_def claim_item_def recordRun_def
  markReady_item_def markShipped_def returnToWork_def park_def skip_item_def item_transition_def

lemma small_step_update: "update_if i change op now s = (s', r) \<Longrightarrow> keeps_item T change \<Longrightarrow> small_step T s s'"
  unfolding small_step_def by blast

lemma new_item_fresh: "fresh_item (new_item i l k now)"
  by (simp add: fresh_item_def item_ok_def new_item_def AGENT_DRAFT_HISTORY_def LEDGER_THREAD_MAX_def)

lemma ingest_candidate_fresh:
  "fresh_item (ingest_candidate sha entry now)"
  "li_id (ingest_candidate sha entry now) = loopItemId sha (ie_loopId entry) (ie_dedupeKey entry)"
  using drafts_bounded[of None "Some []" None "map_option (\<lambda>p. p\<lparr>lp_at := now\<rparr>) (ie_proposal entry)"]
  by (auto simp: fresh_item_def item_ok_def new_item_def ingest_candidate_def LEDGER_THREAD_MAX_def Let_def split_beta)

lemma small_step_enqueue:
  assumes "enqueue_item sha l k sm now s = (s', r)"
  shows "small_step T s s'"
proof (cases "get_item (loopItemId sha l k) s")
  case None
  let ?i = "loopItemId sha l k"
  let ?x = "(new_item ?i l k now)\<lparr>li_sourceSummary := sm\<rparr>"
  have "ld_items s' = AList.update ?i ?x (ld_items s)"
    using assms None by (auto simp: enqueue_item_def Let_def dm_insertIfAbsent_def get_item_def dm_get_def)
  moreover have "fresh_item ?x" "li_id ?x = ?i"
    using new_item_fresh[of ?i l k now] by (simp_all add: fresh_item_def item_ok_def new_item_def)
  ultimately show ?thesis using None unfolding small_step_def by blast
next
  case (Some x)
  then have "ld_items s' = ld_items s"
    using assms by (auto simp: enqueue_item_def Let_def dm_insertIfAbsent_def get_item_def dm_get_def)
  then show ?thesis unfolding small_step_def by blast
qed

lemma small_step_ingest:
  assumes "ingest_one sha entry now s = (s', r)"
  shows "small_step T s s'"
proof (cases "get_item (li_id (ingest_candidate sha entry now)) s")
  case None
  then have "ld_items s' = AList.update (li_id (ingest_candidate sha entry now)) (ingest_candidate sha entry now) (ld_items s)"
    using assms by (auto simp: ingest_one_def Let_def dm_insertIfAbsent_def get_item_def dm_get_def emit_event_def)
  with None ingest_candidate_fresh(1) show ?thesis unfolding small_step_def by blast
next
  case (Some x)
  then have "\<exists>r'. update_if (li_id (ingest_candidate sha entry now)) (\<lambda>item. mergeIngest item entry now) (Some ev_ingest) now s = (s', r')"
    using assms
    by (auto simp: ingest_one_def Let_def dm_insertIfAbsent_def get_item_def dm_get_def split: prod.splits option.splits)
  then show ?thesis using small_step_update keeps_mergeIngest by blast
qed

lemma ledger_step_small:
  assumes "ledger_step sha T s s'"
  shows "small_step T s s'"
  using assms
proof cases
  case 1 then show ?thesis by (rule small_step_enqueue)
next
  case 2 then show ?thesis by (rule small_step_ingest)
next
  case (5 i ms now r2)
  show ?thesis
  proof (cases "ms = []")
    case True
    with 5 show ?thesis by (simp add: appendThread_def small_step_def)
  next
    case False
    have "small_step T s (fst (appendThread i ms now s))"
      unfolding appendThread_def if_not_P[OF False]
      by (rule small_step_update[OF prod.collapse[symmetric] keeps_thread])
    with 5 show ?thesis by simp
  qed
next
  case (8 l m ret now r3)
  then show ?thesis by (auto simp: prune_items_def small_step_def Let_def)
next
  case (10 i now uuid r4)
  then show ?thesis unfolding acquireDecision_def
    by (auto split: prod.splits option.splits intro: small_step_update keeps_acquire)
next
  case (11 i tok now r5)
  then show ?thesis unfolding releaseDecision_def
    by (auto split: prod.splits intro: small_step_update keeps_release)
next
  case (18 l)
  then show ?thesis by (auto simp: delete_items_of_loop_def small_step_def)
qed (unfold ledger_op_defs, (erule small_step_update, rule item_changes, assumption?)+)

lemma get_deleted: "map_of (foldl dm_delete m is) j = (if j \<in> set is then None else map_of m j)"
  by (induction "is" arbitrary: m) (auto simp: dm_delete_def)

lemma distinct_deleted: "distinct (keys m) \<Longrightarrow> distinct (keys (foldl dm_delete m is))"
  by (induction "is" arbitrary: m) (auto simp: dm_delete_def)

text \<open>Where an item of the next state comes from.\<close>

lemma small_step_origin:
  assumes "small_step T s s'" and "ledger_inv s" and "get_item j s' = Some x"
  shows "fresh_item x \<and> get_item j s = None \<and> li_id x = j \<or> (\<exists>it. get_item j s = Some it \<and> (it = x \<or> item_rel T it x))"
  using assms(1) unfolding small_step_def
proof (elim disjE exE conjE)
  fix i change op now r assume u: "update_if i change op now s = (s', r)" and k: "keeps_item T change"
  from update_if_rel[OF u k assms(2,3)] show ?thesis by blast
next
  fix i y assume "get_item i s = None" "li_id y = i" "fresh_item y" "ld_items s' = AList.update i y (ld_items s)"
  with assms(3) show ?thesis by (auto simp: get_item_def dm_get_def split: if_splits)
next
  fix "is" assume "ld_items s' = foldl dm_delete (ld_items s) is"
  with assms(3) show ?thesis by (auto simp: get_item_def dm_get_def get_deleted split: if_splits)
next
  assume "ld_items s' = ld_items s"
  with assms(3) show ?thesis by (simp add: get_item_def)
qed

lemma small_step_keys:
  "small_step T s s' \<Longrightarrow> distinct (keys (ld_items s)) \<Longrightarrow> distinct (keys (ld_items s'))"
  unfolding small_step_def by (auto intro: update_if_keys distinct_deleted)

lemma ledger_step_inv:
  assumes "ledger_inv s" and "ledger_step sha T s s'"
  shows "ledger_inv s'"
proof -
  note small = ledger_step_small[OF assms(2)]
  have "li_id x = j \<and> item_ok x" if x: "get_item j s' = Some x" for j x
    using small_step_origin[OF small assms(1) x]
  proof (elim disjE exE conjE)
    fix it assume "get_item j s = Some it" "it = x"
    with assms(1) show ?thesis unfolding ledger_inv_def by blast
  next
    fix it assume "get_item j s = Some it" "item_rel T it x"
    with assms(1) show ?thesis unfolding ledger_inv_def item_rel_def by metis
  qed (simp add: fresh_item_def)
  with small_step_keys[OF small] assms(1) show ?thesis unfolding ledger_inv_def by blast
qed

definition empty_ledger :: ledger where
  "empty_ledger = \<lparr>ld_items = [], ld_events = []\<rparr>"

interpretation loop_items: invariant_system "\<lambda>s. s = empty_ledger" "ledger_step sha T" ledger_inv for sha T
proof unfold_locales
  show "ledger_inv s" if "s = empty_ledger" for s
    using that by (simp add: ledger_inv_def empty_ledger_def get_item_def dm_get_def)
qed (rule ledger_step_inv)

definition claim_token :: "ledger \<Rightarrow> string \<Rightarrow> string option" where
  "claim_token s i = Option.bind (get_item i s) li_claimToken"

lemma claim_token_issued:
  assumes "ledger_inv s" and "ledger_step sha T s s'" and "claim_token s' i = Some t"
  shows "claim_token s i = Some t \<or> t \<in> T"
proof -
  from assms(3) obtain x where x: "get_item i s' = Some x" "li_claimToken x = Some t"
    by (auto simp: claim_token_def bind_eq_Some_conv)
  from small_step_origin[OF ledger_step_small[OF assms(2)] assms(1) x(1)] show ?thesis
  proof (elim disjE exE conjE)
    fix it assume it: "get_item i s = Some it" "item_rel T it x"
    from it(2) x(2) have "li_claimToken it = Some t \<or> t \<in> T" unfolding item_rel_def by blast
    with it(1) show ?thesis by (auto simp: claim_token_def)
  qed (use x in \<open>auto simp: claim_token_def fresh_item_def\<close>)
qed

interpretation loop_claims: token_fencing "ledger_step sha" ledger_inv claim_token for sha
  by unfold_locales (erule (1) ledger_step_inv, erule (2) claim_token_issued)

end
