(* ===== verification/Item_Properties.thy ===== *)
theory Item_Properties
  imports Item_Lifecycle
begin

text \<open>
  What the item ledger guarantees: claims are exclusive and fenced, the state machine of an item, pruning
  spares open work, and a source key gives one item.
\<close>

section \<open>Claims\<close>

lemma transition_result:
  "item_transition i allowed change tok op now s = (s', r) \<Longrightarrow>
   r = (case get_item i s of None \<Rightarrow> None
        | Some it \<Rightarrow> if li_status it \<in> set allowed \<and> (li_status it = in_progress \<longrightarrow> li_claimToken it = tok)
                  then Some (change it) else None)"
  unfolding item_transition_def by (drule update_if_result) (auto split: option.splits)

lemma transition_refused:
  assumes "item_transition i allowed change tok op now s = (s', None)" and "ledger_inv s"
  shows "ld_events s' = ld_events s \<and> (\<forall>j. get_item j s' = get_item j s)"
  using assms update_if_refused unfolding item_transition_def ledger_inv_def by blast

lemma stale_token_refused:
  assumes "ledger_inv s" and "claim_token s i \<noteq> Some t"
    and "\<And>it. get_item i s = Some it \<Longrightarrow> li_status it \<in> set allowed \<Longrightarrow> li_status it = in_progress"
  shows "snd (item_transition i allowed change (Some t) op now s) = None
    \<and> (\<forall>j. get_item j (fst (item_transition i allowed change (Some t) op now s)) = get_item j s)"
proof -
  obtain s' r where e: "item_transition i allowed change (Some t) op now s = (s', r)" by fastforce
  from transition_result[OF e] assms(2,3) have "r = None"
    by (cases "get_item i s") (auto simp: claim_token_def)
  with transition_refused[OF _ assms(1)] e show ?thesis by simp
qed

text \<open>C15: Claims of loop items are exclusive and fenced. A claim succeeds exactly when the item is queued
  or its claim has lapsed, and the item then carries the new token; once a token is not an item's current
  one and is not issued again, it stays refused, whatever steps follow: the run and the outputs of the
  former worker are not recorded, and while the item is in work it can neither ship, return nor park it. A
  ready item is open to every caller, with whatever token.\<close>

theorem loop_claim_fenced:
  assumes "ledger_inv s" and "claim_token s i \<noteq> Some t" and "t \<notin> T" and "(ledger_step sha T)\<^sup>*\<^sup>* s s'"
  shows "snd (recordRun i rid t now s') = None \<and> snd (markReady_item i outs t now s') = None
   \<and> (\<forall>j. get_item j (fst (recordRun i rid t now s')) = get_item j s'
        \<and> get_item j (fst (markReady_item i outs t now s')) = get_item j s')
   \<and> (map_option li_status (get_item i s') = Some in_progress \<longrightarrow>
        snd (markShipped i (Some t) now s') = None \<and> snd (returnToWork i g (Some t) now s') = None
        \<and> snd (park i g (Some t) now s') = None)
   \<and> (map_option li_status (get_item i s') = Some ready_item \<longrightarrow> snd (markShipped i (Some t) now s') \<noteq> None)
   \<and> (snd (claim_item i now u s') \<noteq> None \<longleftrightarrow>
        (\<exists>it. get_item i s' = Some it \<and> (li_status it = queued_item \<or>
           li_status it = in_progress \<and> nullish (li_claimedAt it) 0 + CLAIM_LEASE_MS \<le> now)))
   \<and> (snd (claim_item i now u s') \<noteq> None \<longrightarrow> claim_token (fst (claim_item i now u s')) i = Some u)"
proof -
  have inv: "ledger_inv s'" using loop_items.steps_inv[OF assms(4,1)] .
  have stale: "claim_token s' i \<noteq> Some t" using loop_claims.stale_stays[OF assms(4,1,2,3)] .
  have a: "snd (recordRun i rid t now s') = None
      \<and> (\<forall>j. get_item j (fst (recordRun i rid t now s')) = get_item j s')"
    and b: "snd (markReady_item i outs t now s') = None
      \<and> (\<forall>j. get_item j (fst (markReady_item i outs t now s')) = get_item j s')"
    unfolding recordRun_def markReady_item_def by (rule stale_token_refused[OF inv stale]; simp)+
  have c: "snd (markShipped i (Some t) now s') = None \<and> snd (returnToWork i g (Some t) now s') = None
      \<and> snd (park i g (Some t) now s') = None" if "map_option li_status (get_item i s') = Some in_progress"
  proof -
    have "li_status it = in_progress" if "get_item i s' = Some it" for it
      using that \<open>map_option li_status (get_item i s') = Some in_progress\<close> by simp
    then show ?thesis
      using stale_token_refused[OF inv stale] unfolding markShipped_def returnToWork_def park_def by blast
  qed
  have d: "snd (markShipped i (Some t) now s') \<noteq> None" if "map_option li_status (get_item i s') = Some ready_item"
  proof -
    obtain s'' r where e: "markShipped i (Some t) now s' = (s'', r)" by fastforce
    from transition_result[OF e[unfolded markShipped_def]] that e show ?thesis by auto
  qed
  obtain s1 r1 where e: "claim_item i now u s' = (s1, r1)" by fastforce
  have r1: "r1 = Option.bind (get_item i s') (\<lambda>item.
       if li_status item \<noteq> queued_item \<and> \<not> (li_status item = in_progress \<and> nullish (li_claimedAt item) 0 + CLAIM_LEASE_MS \<le> now)
       then None
       else Some
         (item\<lparr>li_status := in_progress, li_attempts := li_attempts item + 1, li_claimedAt := Some now,
           li_claimToken := Some u, li_parkedReason := None, li_updatedAt := now\<rparr>))"
    using update_if_result[OF e[unfolded claim_item_def]] by (simp add: Let_def)
  then have f: "r1 \<noteq> None \<longleftrightarrow> (\<exists>it. get_item i s' = Some it \<and> (li_status it = queued_item \<or>
           li_status it = in_progress \<and> nullish (li_claimedAt it) 0 + CLAIM_LEASE_MS \<le> now))"
    by (cases "get_item i s'") auto
  have h: "r1 \<noteq> None \<longrightarrow> claim_token s1 i = Some u"
    using update_if_get[OF e[unfolded claim_item_def], of i] r1
    by (cases "get_item i s'") (auto simp: claim_token_def split: if_splits)
  from a b c d f h show ?thesis unfolding e by simp
qed

definition demo_ledger :: ledger where
  "demo_ledger = fst (claim_item (loopItemId (\<lambda>x. x) ''loop'' ''mail-1'') 0 ''t1''
     (fst (enqueue_item (\<lambda>x. x) ''loop'' ''mail-1'' None 0 empty_ledger)))"

definition demo_item_id :: string where
  "demo_item_id = loopItemId (\<lambda>x. x) ''loop'' ''mail-1''"

lemma demo_ledger_reachable: "(ledger_step (\<lambda>x. x) {''t1''})\<^sup>*\<^sup>* empty_ledger demo_ledger"
proof -
  let ?s = "fst (enqueue_item (\<lambda>x. x) ''loop'' ''mail-1'' None 0 empty_ledger)"
  have "ledger_step (\<lambda>x. x) {''t1''} empty_ledger ?s"
    by (rule ledger_step.intros(1)[OF prod.collapse[symmetric]])
  moreover have "ledger_step (\<lambda>x. x) {''t1''} ?s demo_ledger"
    unfolding demo_ledger_def by (rule ledger_step.intros(9)[OF _ prod.collapse[symmetric]]) simp
  ultimately show ?thesis by (rule converse_rtranclp_into_rtranclp[OF _ r_into_rtranclp])
qed

text \<open>The claim of the first worker lapses and a second one claims the item; what the first worker hands
  in is refused.\<close>

theorem loop_claim_fenced_witness:
  "let s = fst (claim_item demo_item_id 600000 ''t2'' demo_ledger)
   in snd (claim_item demo_item_id 599999 ''t2'' demo_ledger) = None
      \<and> claim_token s demo_item_id = Some ''t2''
      \<and> snd (markReady_item demo_item_id [''out''] ''t1'' 600001 s) = None
      \<and> snd (park demo_item_id ''lost'' (Some ''t1'') 600001 s) = None"
proof -
  let ?s = "fst (claim_item demo_item_id 600000 ''t2'' demo_ledger)"
  have inv: "ledger_inv demo_ledger" using loop_items.reachable_inv[OF refl demo_ledger_reachable] .
  have st: "ledger_step (\<lambda>x. x) {''t2''} demo_ledger ?s"
    by (rule ledger_step.intros(9)[OF _ prod.collapse[symmetric]]) simp
  have inv2: "ledger_inv ?s" by (rule ledger_step_inv[OF inv st])
  have n: "claim_token ?s demo_item_id = Some ''t2''" "map_option li_status (get_item demo_item_id ?s) = Some in_progress"
    "snd (claim_item demo_item_id 599999 ''t2'' demo_ledger) = None" by code_simp+
  have "claim_token ?s demo_item_id \<noteq> Some ''t1''" using n by simp
  from loop_claim_fenced[OF inv2 this, of "{}" "\<lambda>x. x" ?s] n show ?thesis unfolding Let_def by simp
qed

section \<open>The state machine\<close>

text \<open>C16: Along any step an item follows its state machine: it is put to work only from the queue or by
  taking over a lapsed claim, it fails only while queued or in work, it is skipped only before it was
  shipped, and what was shipped leaves that state only for an event newer than the one it was made
  from or as the reopening of an answered mail. It keeps its id, loop and source key, its bounded thread
  and history of drafts, and it has a claim token exactly while it is in work.\<close>

theorem item_state_machine:
  assumes "(ledger_step sha T)\<^sup>*\<^sup>* empty_ledger s" and "ledger_step sha T s s'"
    and "get_item i s = Some it" and "get_item i s' = Some x"
  shows "status_edge (li_status it) (li_status x)
   \<and> (li_status it = shipped_item \<and> li_status x \<noteq> shipped_item \<longrightarrow> reawakened it x)
   \<and> li_id x = i \<and> li_loopId x = li_loopId it \<and> li_sourceKey x = li_sourceKey it
   \<and> (li_claimToken x \<noteq> None \<longleftrightarrow> li_status x = in_progress)
   \<and> length (nullish (li_agentDrafts x) []) \<le> 10 \<and> length (nullish (li_thread x) []) \<le> 200"
proof -
  have inv: "ledger_inv s" using loop_items.reachable_inv[OF refl assms(1)] .
  have "ledger_inv s'" by (rule ledger_step_inv[OF inv assms(2)])
  with assms(4) have ok: "li_id x = i" "item_ok x" unfolding ledger_inv_def by blast+
  from small_step_origin[OF ledger_step_small[OF assms(2)] inv assms(4)] assms(3)
  have "it = x \<or> item_rel T it x" by auto
  then have "status_edge (li_status it) (li_status x)
   \<and> (li_status it = shipped_item \<and> li_status x \<noteq> shipped_item \<longrightarrow> reawakened it x)
   \<and> li_loopId x = li_loopId it \<and> li_sourceKey x = li_sourceKey it"
    unfolding item_rel_def by auto
  with ok show ?thesis unfolding item_ok_def AGENT_DRAFT_HISTORY_def LEDGER_THREAD_MAX_def by blast
qed

theorem item_state_machine_witness:
  "let s' = fst (markShipped demo_item_id (Some ''t1'') 5 demo_ledger);
       x = the (get_item demo_item_id s')
   in li_status x = shipped_item \<and> (li_claimToken x \<noteq> None \<longleftrightarrow> li_status x = in_progress)
      \<and> status_edge in_progress (li_status x)"
proof -
  let ?s' = "fst (markShipped demo_item_id (Some ''t1'') 5 demo_ledger)"
  have st: "ledger_step (\<lambda>x. x) {''t1''} demo_ledger ?s'" by (rule ledger_step.intros(14)[OF prod.collapse[symmetric]])
  have n: "map_option li_status (get_item demo_item_id demo_ledger) = Some in_progress"
    "map_option li_status (get_item demo_item_id ?s') = Some shipped_item" by code_simp+
  then obtain it x where "get_item demo_item_id demo_ledger = Some it" "get_item demo_item_id ?s' = Some x"
    "li_status it = in_progress" "li_status x = shipped_item" by auto
  with item_state_machine[OF demo_ledger_reachable st this(1,2)] show ?thesis unfolding Let_def by simp
qed

section \<open>Pruning\<close>

lemma foldl_delete_filter: "foldl dm_delete m is = filter (\<lambda>p. fst p \<notin> set is) m"
proof (induction "is" arbitrary: m)
  case (Cons i "is")
  have "dm_delete m i = filter (\<lambda>p. fst p \<noteq> i) m"
    unfolding dm_delete_def AList.delete_eq by (rule filter_cong) auto
  then show ?case using Cons by (auto intro: filter_cong)
qed simp

lemma dm_all_filter: "dm_all (filter (\<lambda>p. Q (fst p)) m) = vals (filter (\<lambda>p. Q (fst p)) (dm_entries m))"
  unfolding dm_all_def dm_entries_def filter_sort ..

lemma distinct_forLoop_ids:
  assumes "ledger_inv s"
  shows "distinct (map li_id (forLoop l s))" and "set (forLoop l s) = {it. get_item (li_id it) s = Some it \<and> li_loopId it = l}"
proof -
  have d: "distinct (keys (ld_items s))" using assms by (simp add: ledger_inv_def)
  have k: "li_id (snd p) = fst p" if "p \<in> set (ld_items s)" for p
    using assms that d by (cases p) (simp add: ledger_inv_def get_item_def dm_get_def)
  have "map li_id (dm_all (ld_items s)) = keys (dm_entries (ld_items s))"
    unfolding dm_all_def dm_entries_def using k by simp
  moreover have "distinct (keys (dm_entries (ld_items s)))"
    using d unfolding dm_entries_def by (metis distinct_map distinct_sort set_sort)
  ultimately have "distinct (map li_id (dm_all (ld_items s)))" by simp
  then show "distinct (map li_id (forLoop l s))" unfolding forLoop_def by (rule distinct_map_filter)
  have "it \<in> set (dm_all (ld_items s)) \<longleftrightarrow> get_item (li_id it) s = Some it" for it
    using vals_iff_map_of[OF d, of it] k assms
    by (auto simp: dm_all_def dm_entries_def get_item_def dm_get_def ledger_inv_def)
  then show "set (forLoop l s) = {it. get_item (li_id it) s = Some it \<and> li_loopId it = l}"
    by (auto simp: forLoop_def)
qed

lemma forLoop_deleted:
  assumes "ledger_inv s"
  shows "forLoop l (s\<lparr>ld_items := foldl dm_delete (ld_items s) is\<rparr>) = filter (\<lambda>it. li_id it \<notin> set is) (forLoop l s)"
proof -
  have d: "distinct (keys (ld_items s))" using assms by (simp add: ledger_inv_def)
  have k: "li_id (snd p) = fst p" if "p \<in> set (dm_entries (ld_items s))" for p
    using assms that d by (cases p) (simp add: ledger_inv_def get_item_def dm_get_def dm_entries_def)
  have "filter (\<lambda>p. fst p \<notin> set is) (dm_entries (ld_items s)) = filter (\<lambda>p. li_id (snd p) \<notin> set is) (dm_entries (ld_items s))"
    using k by (intro filter_cong) auto
  with dm_all_filter[of "\<lambda>k. k \<notin> set is" "ld_items s"]
  have "dm_all (foldl dm_delete (ld_items s) is) = filter (\<lambda>it. li_id it \<notin> set is) (dm_all (ld_items s))"
    by (simp add: foldl_delete_filter dm_all_def filter_map o_def)
  then show ?thesis by (simp add: forLoop_def conj_commute)
qed

lemma dedupe_distinct: "distinct xs \<Longrightarrow> dedupe xs = xs"
  by (induction xs) (auto intro: filter_True)

lemma length_filter_ids:
  assumes "distinct (map f xs)" and "distinct (map f ys)" and "set ys \<subseteq> set xs"
  shows "length (filter (\<lambda>x. f x \<notin> f ` set ys) xs) = length xs - length ys"
proof -
  have "f ` set (filter (\<lambda>x. f x \<in> f ` set ys) xs) = f ` set ys" using assms(3) by auto
  moreover have "length (filter (\<lambda>x. f x \<in> f ` set ys) xs) = card (f ` set (filter (\<lambda>x. f x \<in> f ` set ys) xs))"
    using distinct_card[OF distinct_map_filter[OF assms(1)]] by (metis length_map set_map)
  moreover have "length ys = card (f ` set ys)" using distinct_card[OF assms(2)] by (metis length_map set_map)
  ultimately have "length (filter (\<lambda>x. f x \<in> f ` set ys) xs) = length ys" by simp
  with sum_length_filter_compl[of "\<lambda>x. f x \<in> f ` set ys" xs] show ?thesis by linarith
qed

text \<open>The two rounds of pruning on a list of items with distinct ids: \<open>R\<close> says which are resolved and \<open>E\<close> which
  of these have expired.\<close>

lemma doomed_list:
  fixes items :: "LoopItem list" and m :: int
  assumes ids: "distinct (map li_id items)" and m: "m \<ge> 0" and ER: "\<And>it. E it \<Longrightarrow> R it"
    and expired: "expired = filter E items"
    and surviving: "surviving = filter (\<lambda>it. li_id it \<notin> set (map li_id expired)) items"
    and extra: "extra = (if int (length surviving) > m
      then take (nat (int (length surviving) - m)) (sort_key settled_at (filter R surviving)) else [])"
  shows "distinct (map li_id (expired @ extra))" and "set (expired @ extra) \<subseteq> set (filter R items)"
    and "length items - length (expired @ extra) \<le> max (nat m) (length (filter (\<lambda>it. \<not> R it) items))"
proof -
  have surv: "surviving = filter (\<lambda>it. \<not> E it) items"
    unfolding surviving expired using ids by (intro filter_cong) (auto simp: distinct_map inj_on_def)
  have sub: "set extra \<subseteq> set (filter R surviving)"
    unfolding extra by (auto dest: in_set_takeD)
  have d_surv: "distinct (map li_id surviving)" unfolding surviving by (rule distinct_map_filter[OF ids])
  have "distinct (map li_id (sort_key settled_at (filter R surviving)))"
    using distinct_map_filter[OF d_surv, of R] by (simp add: distinct_map)
  then have d_extra: "distinct (map li_id extra)" unfolding extra by (simp add: distinct_take take_map[symmetric])
  have "li_id x \<notin> li_id ` set expired" if "x \<in> set extra" for x
    using subsetD[OF sub that] unfolding surviving by simp
  then have "li_id ` set expired \<inter> li_id ` set extra = {}" unfolding disjoint_iff by (metis imageE)
  then show "distinct (map li_id (expired @ extra))"
    using d_extra distinct_map_filter[OF ids, of E] by (simp add: expired)
  show "set (expired @ extra) \<subseteq> set (filter R items)" using sub ER by (auto simp: expired surv)
  have len: "length items = length expired + length surviving"
    unfolding surv expired by (rule sum_length_filter_compl[symmetric])
  have opens: "length surviving = length (filter R surviving) + length (filter (\<lambda>it. \<not> R it) items)"
  proof -
    have "filter (\<lambda>it. \<not> R it) surviving = filter (\<lambda>it. \<not> R it) items"
      unfolding surv filter_filter using ER by (intro filter_cong) auto
    then show ?thesis using sum_length_filter_compl[of R surviving] by simp
  qed
  show "length items - length (expired @ extra) \<le> max (nat m) (length (filter (\<lambda>it. \<not> R it) items))"
    using len opens m by (auto simp: extra min_def)
qed

lemma doomed_items_facts:
  fixes l :: string and retentionMs now :: int
  assumes "ledger_inv s" and "maxItems \<ge> 0"
  defines "D \<equiv> doomed_items l maxItems retentionMs now s"
  shows "distinct (map li_id D)" and "set D \<subseteq> set (filter isResolved (forLoop l s))"
    and "length (forLoop l s) - length D \<le> max (nat maxItems) (length (filter (\<lambda>it. \<not> isResolved it) (forLoop l s)))"
    and "set (filter (\<lambda>it. isResolved it \<and> now - settled_at it \<ge> retentionMs) (forLoop l s)) \<subseteq> set D"
  using doomed_list[OF distinct_forLoop_ids(1)[OF assms(1), of l] assms(2) _ refl refl refl,
      of "\<lambda>it. isResolved it \<and> now - settled_at it \<ge> retentionMs" isResolved]
  unfolding D_def doomed_items_def Let_def by auto

lemma prune_effect:
  fixes l :: string and retentionMs now :: int
  assumes "ledger_inv s" and "maxItems \<ge> 0" and "prune_items l maxItems retentionMs now s = (s', n)"
  defines "D \<equiv> doomed_items l maxItems retentionMs now s"
  shows "get_item i s' = (if i \<in> li_id ` set D then None else get_item i s)"
    and "n = length D" and "length (forLoop l s') = length (forLoop l s) - length D"
proof -
  note facts = doomed_items_facts[OF assms(1,2), where l = l and retentionMs = retentionMs and now = now, folded D_def]
  have s': "s' = s\<lparr>ld_items := foldl dm_delete (ld_items s) (map li_id D)\<rparr>" and n: "n = length D"
    using assms(3) dedupe_distinct[OF facts(1)] unfolding prune_items_def D_def Let_def by auto
  show "get_item i s' = (if i \<in> li_id ` set D then None else get_item i s)"
    unfolding s' by (simp add: get_item_def dm_get_def get_deleted)
  show "n = length D" by (rule n)
  have sub: "set D \<subseteq> set (forLoop l s)" using facts(2) by auto
  show "length (forLoop l s') = length (forLoop l s) - length D"
    unfolding s' forLoop_deleted[OF assms(1)]
    using length_filter_ids[OF distinct_forLoop_ids(1)[OF assms(1)] facts(1) sub] by simp
qed

text \<open>Pruning spares open work: it deletes only resolved items of the given loop, among them every
  one that has been settled for the retention time, and afterwards the loop has at most the allowed number
  of items or only open ones; it reports how many it deleted.\<close>

theorem prune_spares_open_items:
  assumes "(ledger_step sha T)\<^sup>*\<^sup>* empty_ledger s" and "prune_items l maxItems retentionMs now s = (s', n)" and "maxItems \<ge> 0"
  shows "(\<forall>i it. get_item i s = Some it \<and> (li_loopId it \<noteq> l \<or> \<not> isResolved it) \<longrightarrow> get_item i s' = Some it)
   \<and> (\<forall>i it. get_item i s' = Some it \<longrightarrow> get_item i s = Some it
        \<and> \<not> (li_loopId it = l \<and> isResolved it \<and> now - settled_at it \<ge> retentionMs))
   \<and> length (forLoop l s') \<le> max (nat maxItems) (length (filter (\<lambda>it. \<not> isResolved it) (forLoop l s)))
   \<and> length (forLoop l s') + n = length (forLoop l s)"
proof -
  have inv: "ledger_inv s" using loop_items.reachable_inv[OF refl assms(1)] .
  define D where "D = doomed_items l maxItems retentionMs now s"
  note facts = doomed_items_facts[OF inv assms(3), where l = l and retentionMs = retentionMs and now = now, folded D_def]
  note eff = prune_effect[OF inv assms(3,2), folded D_def]
  note members = distinct_forLoop_ids(2)[OF inv, of l]
  have key: "li_id it = i" if "get_item i s = Some it" for i it using inv that unfolding ledger_inv_def by blast
  have sub: "set D \<subseteq> set (forLoop l s)" using facts(2) by auto
  have "length D \<le> length (forLoop l s)"
    using card_mono[of "li_id ` set (forLoop l s)" "li_id ` set D"] sub
      distinct_card[OF facts(1)] distinct_card[OF distinct_forLoop_ids(1)[OF inv, of l]] by auto
  moreover have "get_item i s' = Some it" if g: "get_item i s = Some it" and c: "li_loopId it \<noteq> l \<or> \<not> isResolved it" for i it
  proof -
    have "i \<notin> li_id ` set D"
    proof
      assume "i \<in> li_id ` set D"
      then obtain y where "y \<in> set D" "li_id y = i" by auto
      with facts(2) members g c show False by auto
    qed
    with eff(1)[of i] g show ?thesis by simp
  qed
  moreover have "get_item i s = Some it \<and> \<not> (li_loopId it = l \<and> isResolved it \<and> now - settled_at it \<ge> retentionMs)"
    if g: "get_item i s' = Some it" for i it
  proof -
    from g eff(1)[of i] have old: "get_item i s = Some it" and "i \<notin> li_id ` set D" by (auto split: if_splits)
    with key[OF old] facts(4) members show ?thesis by auto
  qed
  moreover have "length (forLoop l s') + n = length (forLoop l s)" using eff(2,3) calculation(1) by simp
  moreover have "length (forLoop l s') \<le> max (nat maxItems) (length (filter (\<lambda>it. \<not> isResolved it) (forLoop l s)))"
    using eff(3) facts(3) by simp
  ultimately show ?thesis by blast
qed

text \<open>An item that was shipped long ago is deleted.\<close>

theorem prune_spares_open_items_witness:
  "let s = fst (markShipped demo_item_id (Some ''t1'') 5 demo_ledger)
   in length (forLoop ''loop'' (fst (prune_items ''loop'' 1 10 100 s))) \<le> 1
      \<and> snd (prune_items ''loop'' 1 10 100 s) = 1"
proof -
  let ?s = "fst (markShipped demo_item_id (Some ''t1'') 5 demo_ledger)"
  have st: "ledger_step (\<lambda>x. x) {''t1''} demo_ledger ?s" by (rule ledger_step.intros(14)[OF prod.collapse[symmetric]])
  have r: "(ledger_step (\<lambda>x. x) {''t1''})\<^sup>*\<^sup>* empty_ledger ?s"
    using demo_ledger_reachable st by (rule rtranclp.rtrancl_into_rtrancl)
  have n: "snd (prune_items ''loop'' 1 10 100 ?s) = 1" "length (filter (\<lambda>it. \<not> isResolved it) (forLoop ''loop'' ?s)) = 0"
    by code_simp+
  have "length (forLoop ''loop'' (fst (prune_items ''loop'' 1 10 100 ?s))) \<le> max (nat 1) 0"
    using conjunct1[OF conjunct2[OF conjunct2[OF prune_spares_open_items[OF r prod.collapse[symmetric],
          where maxItems = 1 and l = "''loop''" and retentionMs = 10 and now = 100]]]] n(2) by simp
  with n show ?thesis unfolding Let_def by simp
qed

end
