(* ===== verification/Loop_Outputs.thy ===== *)
theory Loop_Outputs
  imports Item_Ledger
begin

text \<open>
  The outputs of a loop's work (\<open>src/src/loops/output-store.ts\<close>): what an attempt captured is staged,
  promoted for review, shipped under a claim that lapses, or returned, superseded or expired. The store is
  the memory map of \<open>Durable_Map\<close>; every change of one output goes through the map's atomic \<open>update\<close>.
\<close>

datatype LoopOutputState = staged | ready_out | shipping | unconfirmed | shipped_out | returned_out | superseded | expired_out

record LoopShipResult =
  sr_status :: "string option"
  sr_note :: "string option"
  sr_reply :: "string option"
  sr_sessionId :: "string option"

record LoopOutput =
  lo_id :: string
  lo_loopId :: string
  lo_itemId :: string
  lo_attemptId :: string
  lo_shipAction :: string
  lo_label :: "string option"
  lo_externalRef :: "string option"
  lo_title :: string
  lo_summary :: "string option"
  lo_state :: LoopOutputState
  lo_capturedBy :: string
  lo_createdAt :: int
  lo_updatedAt :: int
  lo_decidedBy :: "string option"
  lo_decidedAt :: "int option"
  lo_decisionNote :: "string option"
  lo_claimedAt :: "int option"
  lo_claimToken :: "string option"
  lo_shipFireKey :: "string option"
  lo_shipResult :: "LoopShipResult option"
  lo_supersedesOutputIds :: "string list option"
  lo_supersededByOutputIds :: "string list option"

record CaptureOutputInput =
  co_loopId :: string
  co_itemId :: string
  co_attemptId :: string
  co_ordinal :: "int option"
  co_shipAction :: string
  co_title :: string
  co_capturedBy :: string
  co_label :: "string option"
  co_externalRef :: "string option"
  co_summary :: "string option"

record ClassifyOutputInput =
  cl_title :: "string option"
  cl_summary :: "string option"
  cl_label :: "string option"
  cl_externalRef :: "string option"

record DecideOutputInput =
  do_actorId :: string
  do_note :: "string option"

definition loopOutputId ::
  "(string \<Rightarrow> string) \<Rightarrow> string \<Rightarrow> string \<Rightarrow> string \<Rightarrow> string \<Rightarrow> int \<Rightarrow> string option \<Rightarrow> string" where
  "loopOutputId sha loopId itemId attemptId shipAction ordinal externalRef =
     hashId sha [contentPart (Some (JStr loopId)), contentPart (Some (JStr itemId)), contentPart (Some (JStr attemptId)),
       contentPart (Some (JStr shipAction)), contentPart (Some (JNum ordinal)), contentPart (map_option JStr externalRef)] 16"

definition SHIP_LEASE_MS :: int where "SHIP_LEASE_MS = 600000"

definition isDecided :: "LoopOutput \<Rightarrow> bool" where
  "isDecided out = (lo_state out \<in> {shipped_out, returned_out})"

definition unresolvedOutput :: "LoopOutput \<Rightarrow> bool" where
  "unresolvedOutput out = (lo_state out = ready_out \<or> lo_state out = shipping \<or> lo_state out = unconfirmed)"

type_synonym output_store = "LoopOutput jsmap"

definition outputs_of_loop :: "string \<Rightarrow> output_store \<Rightarrow> LoopOutput list" where
  "outputs_of_loop loopId s = filter (\<lambda>out. lo_loopId out = loopId) (dm_all s)"

definition byAttempt :: "string \<Rightarrow> string \<Rightarrow> output_store \<Rightarrow> LoopOutput list" where
  "byAttempt itemId attemptId s = filter (\<lambda>out. lo_itemId out = itemId \<and> lo_attemptId out = attemptId) (dm_all s)"

definition applyIf ::
  "string \<Rightarrow> (LoopOutput \<Rightarrow> bool) \<Rightarrow> (LoopOutput \<Rightarrow> LoopOutput) \<Rightarrow> output_store \<Rightarrow> output_store \<times> LoopOutput option" where
  "applyIf i when change s =
     (let s' = fst (dm_update s i (\<lambda>out. Inr (if when out then change out else out) :: unit + LoopOutput)) in
      (s', case dm_get s i of None \<Rightarrow> None | Some out \<Rightarrow> if when out then Some (change out) else None))"

text \<open>The loops that apply a change to each of a list of outputs, collecting those it applied to.\<close>

fun apply_each ::
  "string list \<Rightarrow> (LoopOutput \<Rightarrow> bool) \<Rightarrow> (LoopOutput \<Rightarrow> LoopOutput) \<Rightarrow> output_store \<Rightarrow> output_store \<times> LoopOutput list" where
  "apply_each [] when change s = (s, [])"
| "apply_each (i # is) when change s =
     (case applyIf i when change s of (s1, r) \<Rightarrow>
        case apply_each is when change s1 of (s2, rs) \<Rightarrow>
          (s2, case r of None \<Rightarrow> rs | Some out \<Rightarrow> out # rs))"

definition prior_outputs :: "CaptureOutputInput \<Rightarrow> output_store \<Rightarrow> LoopOutput list" where
  "prior_outputs input s =
     filter (\<lambda>out. lo_itemId out = co_itemId input \<and> lo_attemptId out \<noteq> co_attemptId input \<and>
       lo_shipAction out = co_shipAction input \<and> lo_externalRef out = co_externalRef input)
       (outputs_of_loop (co_loopId input) s)"

definition capture_candidate :: "(string \<Rightarrow> string) \<Rightarrow> CaptureOutputInput \<Rightarrow> int \<Rightarrow> output_store \<Rightarrow> LoopOutput" where
  "capture_candidate sha input now s =
     (let prior = prior_outputs input s in
      \<lparr>lo_id = loopOutputId sha (co_loopId input) (co_itemId input) (co_attemptId input) (co_shipAction input)
         (nullish (co_ordinal input) 0) (co_externalRef input),
       lo_loopId = co_loopId input, lo_itemId = co_itemId input, lo_attemptId = co_attemptId input,
       lo_shipAction = co_shipAction input, lo_label = co_label input, lo_externalRef = co_externalRef input,
       lo_title = co_title input, lo_summary = co_summary input, lo_state = staged,
       lo_capturedBy = co_capturedBy input, lo_createdAt = now, lo_updatedAt = now, lo_decidedBy = None,
       lo_decidedAt = None, lo_decisionNote = None, lo_claimedAt = None, lo_claimToken = None,
       lo_shipFireKey = None, lo_shipResult = None,
       lo_supersedesOutputIds = (if prior = [] then None else Some (map lo_id prior)),
       lo_supersededByOutputIds = None\<rparr>)"

definition link_superseded :: "string \<Rightarrow> int \<Rightarrow> LoopOutput \<Rightarrow> LoopOutput" where
  "link_superseded newId now out =
     out\<lparr>lo_supersededByOutputIds := Some (dedupe (nullish (lo_supersededByOutputIds out) [] @ [newId])), lo_updatedAt := now\<rparr>"

definition capture ::
  "(string \<Rightarrow> string) \<Rightarrow> CaptureOutputInput \<Rightarrow> int \<Rightarrow> output_store \<Rightarrow> output_store \<times> LoopOutput" where
  "capture sha input now s =
     (let candidate = capture_candidate sha input now s in
      case dm_putIfAbsent s (lo_id candidate) candidate of (s1, captured) \<Rightarrow>
        (fst (apply_each (map lo_id (prior_outputs input s)) (\<lambda>_. True) (link_superseded (lo_id captured) now) s1),
         captured))"

definition byItem :: "string \<Rightarrow> output_store \<Rightarrow> LoopOutput list" where
  "byItem itemId s = filter (\<lambda>out. lo_itemId out = itemId) (dm_all s)"

definition awaitingReview :: "string \<Rightarrow> output_store \<Rightarrow> LoopOutput list" where
  "awaitingReview loopId s = sort_key lo_createdAt (filter (\<lambda>out. lo_state out = ready_out) (outputs_of_loop loopId s))"

definition classify_output :: "string \<Rightarrow> ClassifyOutputInput \<Rightarrow> int \<Rightarrow> output_store \<Rightarrow> output_store \<times> LoopOutput option" where
  "classify_output i input now s =
     applyIf i (\<lambda>_. True)
       (\<lambda>out. out\<lparr>lo_title := nullish (cl_title input) (lo_title out),
          lo_summary := (if cl_summary input \<noteq> None then cl_summary input else lo_summary out),
          lo_label := (if cl_label input \<noteq> None then cl_label input else lo_label out),
          lo_externalRef := (if cl_externalRef input \<noteq> None then cl_externalRef input else lo_externalRef out),
          lo_updatedAt := now\<rparr>) s"

definition promoteAttempt :: "string \<Rightarrow> string \<Rightarrow> int \<Rightarrow> output_store \<Rightarrow> output_store \<times> LoopOutput list" where
  "promoteAttempt itemId attemptId now s =
     apply_each (map lo_id (byAttempt itemId attemptId s)) (\<lambda>out. lo_state out = staged)
       (\<lambda>out. out\<lparr>lo_state := ready_out, lo_updatedAt := now\<rparr>) s"

definition supersedeAttempt :: "string \<Rightarrow> string \<Rightarrow> int \<Rightarrow> output_store \<Rightarrow> output_store \<times> LoopOutput list" where
  "supersedeAttempt itemId attemptId now s =
     apply_each (map lo_id (byAttempt itemId attemptId s)) (\<lambda>out. lo_state out = staged \<or> lo_state out = ready_out)
       (\<lambda>out. out\<lparr>lo_state := superseded, lo_updatedAt := now\<rparr>) s"

definition supersedeActiveSiblings :: "string \<Rightarrow> string \<Rightarrow> int \<Rightarrow> output_store \<Rightarrow> output_store \<times> LoopOutput list" where
  "supersedeActiveSiblings itemId exceptId now s =
     apply_each
       (map lo_id (filter (\<lambda>out. lo_itemId out = itemId \<and> lo_id out \<noteq> exceptId \<and>
          (lo_state out = staged \<or> unresolvedOutput out)) (dm_all s)))
       (\<lambda>out. lo_state out = staged \<or> unresolvedOutput out)
       (\<lambda>out. out\<lparr>lo_state := superseded, lo_updatedAt := now\<rparr>) s"

definition claimShipping :: "string \<Rightarrow> int \<Rightarrow> string \<Rightarrow> output_store \<Rightarrow> output_store \<times> LoopOutput option" where
  "claimShipping i claimedAt uuid s =
     applyIf i (\<lambda>out. lo_state out = ready_out \<or>
         lo_state out = shipping \<and> nullish (lo_claimedAt out) 0 + SHIP_LEASE_MS \<le> claimedAt)
       (\<lambda>out. out\<lparr>lo_state := shipping, lo_claimedAt := Some claimedAt, lo_claimToken := Some uuid,
          lo_updatedAt := claimedAt\<rparr>) s"

definition holds_ship_claim :: "string \<Rightarrow> LoopOutput \<Rightarrow> bool" where
  "holds_ship_claim claimToken out = (lo_state out = shipping \<and> lo_claimToken out = Some claimToken)"

definition beginShipAttempt :: "string \<Rightarrow> string \<Rightarrow> string \<Rightarrow> int \<Rightarrow> output_store \<Rightarrow> output_store \<times> LoopOutput option" where
  "beginShipAttempt i claimToken shipFireKey now s =
     applyIf i (holds_ship_claim claimToken) (\<lambda>out. out\<lparr>lo_shipFireKey := Some shipFireKey, lo_updatedAt := now\<rparr>) s"

definition markUnconfirmed :: "string \<Rightarrow> string \<Rightarrow> int \<Rightarrow> output_store \<Rightarrow> output_store \<times> LoopOutput option" where
  "markUnconfirmed i claimToken now s =
     applyIf i (holds_ship_claim claimToken)
       (\<lambda>out. out\<lparr>lo_state := unconfirmed, lo_claimedAt := None, lo_claimToken := None, lo_updatedAt := now\<rparr>) s"

definition decide_output :: "LoopOutputState \<Rightarrow> DecideOutputInput \<Rightarrow> int \<Rightarrow> LoopOutput \<Rightarrow> LoopOutput" where
  "decide_output st input now out =
     out\<lparr>lo_state := st, lo_decidedBy := Some (do_actorId input), lo_decidedAt := Some now, lo_updatedAt := now,
       lo_decisionNote := (if do_note input \<noteq> None then do_note input else lo_decisionNote out)\<rparr>"

definition confirmShipped :: "string \<Rightarrow> DecideOutputInput \<Rightarrow> int \<Rightarrow> output_store \<Rightarrow> output_store \<times> LoopOutput option" where
  "confirmShipped i input now s =
     applyIf i (\<lambda>out. lo_state out = unconfirmed) (decide_output shipped_out input now) s"

definition completeShipping ::
  "string \<Rightarrow> string \<Rightarrow> DecideOutputInput \<Rightarrow> LoopShipResult \<Rightarrow> int \<Rightarrow> output_store \<Rightarrow> output_store \<times> LoopOutput option" where
  "completeShipping i claimToken input result now s =
     applyIf i (holds_ship_claim claimToken)
       (\<lambda>out. (decide_output shipped_out input now out)
          \<lparr>lo_shipResult := Some result, lo_claimedAt := None, lo_claimToken := None\<rparr>) s"

definition failShipping :: "string \<Rightarrow> string \<Rightarrow> int \<Rightarrow> output_store \<Rightarrow> output_store \<times> LoopOutput option" where
  "failShipping i claimToken now s =
     applyIf i (holds_ship_claim claimToken)
       (\<lambda>out. out\<lparr>lo_state := ready_out, lo_claimedAt := None, lo_claimToken := None, lo_updatedAt := now\<rparr>) s"

definition returnToLoop :: "string \<Rightarrow> DecideOutputInput \<Rightarrow> int \<Rightarrow> output_store \<Rightarrow> output_store \<times> LoopOutput option" where
  "returnToLoop i input now s =
     applyIf i (\<lambda>out. lo_state out = ready_out \<or> lo_state out = unconfirmed) (decide_output returned_out input now) s"

definition expireOlderThan :: "string \<Rightarrow> int \<Rightarrow> int \<Rightarrow> output_store \<Rightarrow> output_store \<times> LoopOutput list" where
  "expireOlderThan loopId cutoff now s =
     apply_each
       (map lo_id (filter (\<lambda>out. lo_state out = ready_out \<and> lo_createdAt out < cutoff) (outputs_of_loop loopId s)))
       (\<lambda>out. lo_state out = ready_out) (\<lambda>out. out\<lparr>lo_state := expired_out, lo_updatedAt := now\<rparr>) s"

definition delete_outputs_of_loop :: "string \<Rightarrow> output_store \<Rightarrow> output_store" where
  "delete_outputs_of_loop loopId s = foldl dm_delete s (map lo_id (outputs_of_loop loopId s))"

section \<open>What a change may do to an output\<close>

text \<open>Shipped, returned, superseded and expired outputs are settled.\<close>

definition settled_output :: "LoopOutput \<Rightarrow> bool" where
  "settled_output out = (lo_state out \<in> {shipped_out, returned_out, superseded, expired_out})"

definition output_rel :: "string set \<Rightarrow> LoopOutput \<Rightarrow> LoopOutput \<Rightarrow> bool" where
  "output_rel T out x \<longleftrightarrow> lo_id x = lo_id out \<and> lo_loopId x = lo_loopId out \<and> lo_itemId x = lo_itemId out \<and>
     (settled_output out \<longrightarrow> lo_state x = lo_state out \<and> lo_decidedBy x = lo_decidedBy out \<and>
        lo_decidedAt x = lo_decidedAt out \<and> lo_shipResult x = lo_shipResult out) \<and>
     (lo_claimToken x = lo_claimToken out \<or> lo_claimToken x = None \<or> lo_claimToken x \<in> Some ` T) \<and>
     (lo_state x = shipping \<longrightarrow> lo_state out = shipping \<or> lo_claimToken x \<in> Some ` T) \<and>
     (lo_state x = shipped_out \<longrightarrow> lo_state out \<in> {shipping, unconfirmed, shipped_out})"

definition keeps_output :: "string set \<Rightarrow> (LoopOutput \<Rightarrow> bool) \<Rightarrow> (LoopOutput \<Rightarrow> LoopOutput) \<Rightarrow> bool" where
  "keeps_output T when change \<longleftrightarrow> (\<forall>out. when out \<longrightarrow> output_rel T out (change out))"

text \<open>The elementary steps behind the operations: a conditional change, a new staged output, a deletion
  with its loop.\<close>

inductive out_small :: "string set \<Rightarrow> string set \<Rightarrow> output_store \<Rightarrow> output_store \<Rightarrow> bool" for T D where
  small_change: "keeps_output T when change \<Longrightarrow> out_small T D s (fst (applyIf i when change s))"
| small_add: "dm_get s (lo_id x) = None \<Longrightarrow> lo_state x = staged \<Longrightarrow> lo_claimToken x = None \<Longrightarrow>
    out_small T D s (AList.update (lo_id x) x s)"
| small_delete: "(\<And>x. dm_get s i = Some x \<Longrightarrow> lo_loopId x \<in> D) \<Longrightarrow> out_small T D s (dm_delete s i)"

text \<open>The operations, with shipping tokens from \<open>T\<close> and deletions of the loops in \<open>D\<close>.\<close>

inductive output_op :: "(string \<Rightarrow> string) \<Rightarrow> string set \<Rightarrow> string set \<Rightarrow> output_store \<Rightarrow> output_store \<Rightarrow> bool" for sha D T where
  "output_op sha D T s (fst (capture sha input now s))"
| "output_op sha D T s (fst (classify_output i cinput now s))"
| "output_op sha D T s (fst (promoteAttempt item att now s))"
| "output_op sha D T s (fst (supersedeAttempt item att now s))"
| "output_op sha D T s (fst (supersedeActiveSiblings item ex now s))"
| "uuid \<in> T \<Longrightarrow> output_op sha D T s (fst (claimShipping i now uuid s))"
| "output_op sha D T s (fst (beginShipAttempt i tok key now s))"
| "output_op sha D T s (fst (markUnconfirmed i tok now s))"
| "output_op sha D T s (fst (confirmShipped i dinput now s))"
| "output_op sha D T s (fst (completeShipping i tok dinput res now s))"
| "output_op sha D T s (fst (failShipping i tok now s))"
| "output_op sha D T s (fst (returnToLoop i dinput now s))"
| "output_op sha D T s (fst (expireOlderThan l cutoff now s))"
| "l \<in> D \<Longrightarrow> output_op sha D T s (delete_outputs_of_loop l s)"

definition output_inv :: "output_store \<Rightarrow> bool" where
  "output_inv s \<longleftrightarrow> distinct (keys s) \<and> (\<forall>i x. dm_get s i = Some x \<longrightarrow> lo_id x = i)"

definition ship_token :: "output_store \<Rightarrow> string \<Rightarrow> string option" where
  "ship_token s i = Option.bind (dm_get s i) lo_claimToken"

lemma applyIf_get:
  "dm_get (fst (applyIf i when change s)) j =
     (case dm_get s j of None \<Rightarrow> None | Some out \<Rightarrow> if j = i \<and> when out then Some (change out) else Some out)"
  by (auto simp: applyIf_def dm_update_def dm_get_def Let_def split: option.splits)

lemma applyIf_keys: "distinct (keys s) \<Longrightarrow> distinct (keys (fst (applyIf i when change s)))"
  by (auto simp: applyIf_def dm_update_def Let_def split: option.splits)

lemma output_rel_refl [simp]: "output_rel T out out"
  by (simp add: output_rel_def)

section \<open>The operations are sequences of elementary steps\<close>

lemma keeps_output_changes:
  "keeps_output T (\<lambda>_. True) (link_superseded n now)"
  "keeps_output T (\<lambda>_. True) (\<lambda>out. out\<lparr>lo_title := f1 out, lo_summary := f2 out, lo_label := f3 out, lo_externalRef := f4 out, lo_updatedAt := now\<rparr>)"
  "keeps_output T (\<lambda>out. lo_state out = staged) (\<lambda>out. out\<lparr>lo_state := ready_out, lo_updatedAt := now\<rparr>)"
  "keeps_output T (\<lambda>out. lo_state out = staged \<or> lo_state out = ready_out) (\<lambda>out. out\<lparr>lo_state := superseded, lo_updatedAt := now\<rparr>)"
  "keeps_output T (\<lambda>out. lo_state out = staged \<or> unresolvedOutput out) (\<lambda>out. out\<lparr>lo_state := superseded, lo_updatedAt := now\<rparr>)"
  "keeps_output T (\<lambda>out. lo_state out = ready_out) (\<lambda>out. out\<lparr>lo_state := expired_out, lo_updatedAt := now\<rparr>)"
  "keeps_output T (holds_ship_claim tok) (\<lambda>out. out\<lparr>lo_shipFireKey := Some key, lo_updatedAt := now\<rparr>)"
  "keeps_output T (holds_ship_claim tok) (\<lambda>out. out\<lparr>lo_state := unconfirmed, lo_claimedAt := None, lo_claimToken := None, lo_updatedAt := now\<rparr>)"
  "keeps_output T (holds_ship_claim tok) (\<lambda>out. out\<lparr>lo_state := ready_out, lo_claimedAt := None, lo_claimToken := None, lo_updatedAt := now\<rparr>)"
  "keeps_output T (holds_ship_claim tok) (\<lambda>out. (decide_output shipped_out input now out)\<lparr>lo_shipResult := Some res, lo_claimedAt := None, lo_claimToken := None\<rparr>)"
  "keeps_output T (\<lambda>out. lo_state out = unconfirmed) (decide_output shipped_out input now)"
  "keeps_output T (\<lambda>out. lo_state out = ready_out \<or> lo_state out = unconfirmed) (decide_output returned_out input now)"
  by (auto simp: keeps_output_def output_rel_def settled_output_def unresolvedOutput_def holds_ship_claim_def
      decide_output_def link_superseded_def)

lemma keeps_claimShipping:
  "uuid \<in> T \<Longrightarrow> keeps_output T (\<lambda>out. lo_state out = ready_out \<or>
      lo_state out = shipping \<and> nullish (lo_claimedAt out) 0 + SHIP_LEASE_MS \<le> at)
    (\<lambda>out. out\<lparr>lo_state := shipping, lo_claimedAt := Some at, lo_claimToken := Some uuid, lo_updatedAt := at\<rparr>)"
  by (auto simp: keeps_output_def output_rel_def settled_output_def)

lemma apply_each_small:
  "keeps_output T when change \<Longrightarrow> (out_small T D)\<^sup>*\<^sup>* s (fst (apply_each is when change s))"
proof (induction "is" arbitrary: s)
  case (Cons i "is")
  have "out_small T D s (fst (applyIf i when change s))" by (rule small_change[OF Cons.prems])
  moreover have "(out_small T D)\<^sup>*\<^sup>* (fst (applyIf i when change s)) (fst (apply_each is when change (fst (applyIf i when change s))))"
    by (rule Cons.IH[OF Cons.prems])
  ultimately show ?case by (simp add: split_beta converse_rtranclp_into_rtranclp)
qed simp

lemma delete_small:
  "(\<And>i x. i \<in> set is \<Longrightarrow> dm_get s i = Some x \<Longrightarrow> lo_loopId x \<in> D) \<Longrightarrow> (out_small T D)\<^sup>*\<^sup>* s (foldl dm_delete s is)"
proof (induction "is" arbitrary: s)
  case (Cons i "is")
  have "out_small T D s (dm_delete s i)" by (rule small_delete) (rule Cons.prems, simp_all)
  moreover have "(out_small T D)\<^sup>*\<^sup>* (dm_delete s i) (foldl dm_delete (dm_delete s i) is)"
    by (rule Cons.IH) (use Cons.prems in \<open>auto simp: dm_delete_def dm_get_def split: if_splits\<close>)
  ultimately show ?case by (simp add: converse_rtranclp_into_rtranclp)
qed simp

lemma capture_small: "(out_small T D)\<^sup>*\<^sup>* s (fst (capture sha input now s))"
proof -
  define x where "x = capture_candidate sha input now s"
  define s1 where "s1 = fst (dm_putIfAbsent s (lo_id x) x)"
  have "out_small T D s s1 \<or> s1 = s"
    using small_add[of s x T D]
    by (cases "dm_get s (lo_id x)")
      (auto simp: s1_def dm_putIfAbsent_def dm_get_def x_def capture_candidate_def Let_def)
  moreover have "(out_small T D)\<^sup>*\<^sup>* s1 (fst (capture sha input now s))"
    unfolding capture_def Let_def x_def[symmetric]
    using apply_each_small[OF keeps_output_changes(1)] by (simp add: s1_def split_beta)
  ultimately show ?thesis by (metis converse_rtranclp_into_rtranclp)
qed

lemma outputs_of_loop_ids:
  "output_inv s \<Longrightarrow> i \<in> set (map lo_id (outputs_of_loop l s)) \<Longrightarrow> dm_get s i = Some x \<Longrightarrow> lo_loopId x = l"
  by (auto simp: output_inv_def outputs_of_loop_def dm_all_def dm_entries_def dm_get_def dest: eq_key_imp_eq_value)

lemma output_op_small:
  assumes "output_inv s" and "output_op sha D T s s'"
  shows "(out_small T D)\<^sup>*\<^sup>* s s'"
  using assms(2)
proof cases
  case (1 input now) then show ?thesis using capture_small by simp
next
  case (2 i cinput now)
  show ?thesis unfolding 2 classify_output_def
    by (intro r_into_rtranclp small_change keeps_output_changes)
next
  case (6 uuid i now) then show ?thesis
    unfolding claimShipping_def by (auto intro: small_change keeps_claimShipping)
next
  case (14 l) then show ?thesis
    unfolding delete_outputs_of_loop_def using outputs_of_loop_ids[OF assms(1)] by (auto intro!: delete_small)
qed (auto simp: promoteAttempt_def supersedeAttempt_def supersedeActiveSiblings_def
    beginShipAttempt_def markUnconfirmed_def confirmShipped_def completeShipping_def failShipping_def
    returnToLoop_def expireOlderThan_def intro: apply_each_small r_into_rtranclp small_change keeps_output_changes)

section \<open>Invariant and fencing\<close>

text \<open>Where an output of the next state comes from.\<close>

lemma out_small_origin:
  assumes "out_small T D s s'" and "dm_get s' j = Some x"
  shows "dm_get s j = None \<and> lo_state x = staged \<and> lo_claimToken x = None \<and> lo_id x = j
    \<or> (\<exists>out. dm_get s j = Some out \<and> output_rel T out x)"
  using assms
proof cases
  case (small_change "when" change i)
  with assms(2) show ?thesis
    by (auto simp: applyIf_get keeps_output_def split: option.splits if_splits)
qed (use assms(2) in \<open>auto simp: dm_get_def dm_delete_def split: if_splits\<close>)

lemma out_small_kept:
  assumes "out_small T D s s'" and "dm_get s j = Some x" and "lo_loopId x \<notin> D"
  shows "\<exists>y. dm_get s' j = Some y"
  using assms(1)
proof cases
  case (small_change "when" change i)
  with assms(2) show ?thesis by (auto simp: applyIf_get)
qed (use assms in \<open>auto simp: dm_get_def dm_delete_def\<close>)

lemma out_small_inv:
  assumes "output_inv s" and "out_small T D s s'"
  shows "output_inv s'"
proof -
  have "distinct (keys s')"
    using assms(2,1) by cases (auto simp: output_inv_def applyIf_keys dm_delete_def)
  moreover have "lo_id x = j" if "dm_get s' j = Some x" for j x
    using out_small_origin[OF assms(2) that] assms(1) by (auto simp: output_inv_def output_rel_def)
  ultimately show ?thesis by (simp add: output_inv_def)
qed

lemma out_small_token:
  assumes "out_small T D s s'" and "ship_token s' i = Some t"
  shows "ship_token s i = Some t \<or> t \<in> T"
proof -
  from assms(2) obtain x where x: "dm_get s' i = Some x" "lo_claimToken x = Some t"
    by (auto simp: ship_token_def bind_eq_Some_conv)
  from out_small_origin[OF assms(1) x(1)] x(2) show ?thesis
    by (auto simp: ship_token_def output_rel_def)
qed

lemma out_smalls_token:
  "(out_small T D)\<^sup>*\<^sup>* s s' \<Longrightarrow> ship_token s' i = Some t \<Longrightarrow> ship_token s i = Some t \<or> t \<in> T"
  by (induction rule: rtranclp_induct) (auto dest: out_small_token)

lemma out_smalls_inv: "(out_small T D)\<^sup>*\<^sup>* s s' \<Longrightarrow> output_inv s \<Longrightarrow> output_inv s'"
  by (induction rule: rtranclp_induct) (auto intro: out_small_inv)

lemma output_op_inv: "output_inv s \<Longrightarrow> output_op sha D T s s' \<Longrightarrow> output_inv s'"
  by (rule out_smalls_inv[OF output_op_small])

interpretation loop_outputs: invariant_system "\<lambda>s. s = []" "output_op sha D T" output_inv for sha D T
proof unfold_locales
  show "output_inv s" if "s = []" for s using that by (simp add: output_inv_def dm_get_def)
qed (rule output_op_inv)

interpretation ship_claims: token_fencing "output_op sha D" output_inv ship_token for sha D
  by unfold_locales (erule (1) output_op_inv, blast dest: output_op_small out_smalls_token)

lemma output_ops_small:
  "(output_op sha D T)\<^sup>*\<^sup>* s s' \<Longrightarrow> output_inv s \<Longrightarrow> (out_small T D)\<^sup>*\<^sup>* s s'"
proof (induction rule: rtranclp_induct)
  case (step u v)
  have "output_inv u" using loop_outputs.steps_inv[OF step(1) step(4)] .
  with step show ?case using output_op_small by (meson rtranclp_trans)
qed simp

text \<open>What elementary steps leave of an output whose loop is not deleted.\<close>

definition output_kept :: "LoopOutput \<Rightarrow> LoopOutput \<Rightarrow> bool" where
  "output_kept x y \<longleftrightarrow> lo_id y = lo_id x \<and> lo_loopId y = lo_loopId x \<and> lo_itemId y = lo_itemId x \<and>
     (settled_output x \<longrightarrow> lo_state y = lo_state x \<and> lo_decidedBy y = lo_decidedBy x \<and>
        lo_decidedAt y = lo_decidedAt x \<and> lo_shipResult y = lo_shipResult x)"

lemma out_smalls_kept:
  assumes "(out_small T D)\<^sup>*\<^sup>* s s'" and "dm_get s i = Some x" and "lo_loopId x \<notin> D"
  shows "\<exists>y. dm_get s' i = Some y \<and> output_kept x y"
  using assms(1)
proof (induction rule: rtranclp_induct)
  case base
  show ?case using assms(2) by (simp add: output_kept_def)
next
  case (step u v)
  then obtain y where y: "dm_get u i = Some y" "output_kept x y" by blast
  then have "lo_loopId y \<notin> D" using assms(3) by (simp add: output_kept_def)
  from out_small_kept[OF step(2) y(1) this] obtain z where z: "dm_get v i = Some z" by blast
  from out_small_origin[OF step(2) z] y(1) have "output_rel T y z" by auto
  with y(2) have "output_kept x z" by (auto simp: output_kept_def output_rel_def settled_output_def)
  with z show ?case by blast
qed

text \<open>An output is settled once. Whatever operations follow, and as long as its loop is not deleted,
  an output that was shipped, returned, superseded or expired stays so, with the same decision and the same
  result; a token that is not the output's current one and is not issued again can neither begin,
  confirm, complete nor give up shipping it; and shipping is claimed exactly when the output is ready or a
  claim has lapsed.\<close>

theorem output_settled_once:
  assumes "(output_op sha D T)\<^sup>*\<^sup>* [] s" and "(output_op sha D T)\<^sup>*\<^sup>* s s'"
    and "dm_get s i = Some x" and "lo_loopId x \<notin> D" and "ship_token s i \<noteq> Some t" and "t \<notin> T"
  shows "(\<exists>y. dm_get s' i = Some y \<and> output_kept x y)
   \<and> snd (beginShipAttempt i t key now s') = None \<and> snd (markUnconfirmed i t now s') = None
   \<and> snd (completeShipping i t dec res now s') = None \<and> snd (failShipping i t now s') = None
   \<and> (snd (claimShipping i now u s') \<noteq> None \<longleftrightarrow>
        (\<exists>y. dm_get s' i = Some y \<and> (lo_state y = ready_out \<or>
           lo_state y = shipping \<and> nullish (lo_claimedAt y) 0 + SHIP_LEASE_MS \<le> now)))"
proof -
  have inv: "output_inv s" using loop_outputs.reachable_inv[OF refl assms(1)] .
  have "ship_token s' i \<noteq> Some t" using ship_claims.stale_stays[OF assms(2) inv assms(5,6)] .
  then have "\<not> holds_ship_claim t y" if "dm_get s' i = Some y" for y
    using that by (auto simp: ship_token_def holds_ship_claim_def)
  then have "snd (applyIf i (holds_ship_claim t) change s') = None" for change
    by (simp add: applyIf_def Let_def split: option.splits)
  moreover have "\<exists>y. dm_get s' i = Some y \<and> output_kept x y"
    using out_smalls_kept[OF output_ops_small[OF assms(2) inv] assms(3,4)] .
  moreover have "snd (claimShipping i now u s') \<noteq> None \<longleftrightarrow>
        (\<exists>y. dm_get s' i = Some y \<and> (lo_state y = ready_out \<or>
           lo_state y = shipping \<and> nullish (lo_claimedAt y) 0 + SHIP_LEASE_MS \<le> now))"
    by (auto simp: claimShipping_def applyIf_def Let_def split: option.splits)
  ultimately show ?thesis
    unfolding beginShipAttempt_def markUnconfirmed_def completeShipping_def failShipping_def by blast
qed

definition demo_capture :: CaptureOutputInput where
  "demo_capture = \<lparr>co_loopId = ''loop'', co_itemId = ''item'', co_attemptId = ''run'', co_ordinal = None,
     co_shipAction = ''send'', co_title = ''Reply'', co_capturedBy = ''agent'', co_label = None,
     co_externalRef = None, co_summary = None\<rparr>"

definition demo_output_id :: string where
  "demo_output_id = loopOutputId (\<lambda>x. x) ''loop'' ''item'' ''run'' ''send'' 0 None"

definition demo_returned :: output_store where
  "demo_returned = fst (returnToLoop demo_output_id \<lparr>do_actorId = ''ann'', do_note = None\<rparr> 3
     (fst (promoteAttempt ''item'' ''run'' 2 (fst (capture (\<lambda>x. x) demo_capture 1 [])))))"

text \<open>An output that was returned cannot be shipped any more: it stays returned when somebody tries.\<close>

theorem output_settled_once_witness:
  "let s' = fst (claimShipping demo_output_id 4 ''t'' demo_returned)
   in (\<exists>y. dm_get s' demo_output_id = Some y \<and> output_kept (the (dm_get demo_returned demo_output_id)) y)
      \<and> snd (claimShipping demo_output_id 4 ''t'' demo_returned) = None
      \<and> lo_state (the (dm_get demo_returned demo_output_id)) = returned_out"
proof -
  let ?R = "output_op (\<lambda>x. x) {} {''t''}"
  let ?a = "fst (capture (\<lambda>x. x) demo_capture 1 [])"
  let ?b = "fst (promoteAttempt ''item'' ''run'' 2 ?a)"
  have steps: "?R [] ?a" "?R ?a ?b" "?R ?b demo_returned" unfolding demo_returned_def by (rule output_op.intros)+
  then have r: "?R\<^sup>*\<^sup>* [] demo_returned"
    by (rule converse_rtranclp_into_rtranclp[OF _ converse_rtranclp_into_rtranclp[OF _ r_into_rtranclp]])
  have "?R demo_returned (fst (claimShipping demo_output_id 4 ''t'' demo_returned))"
    by (rule output_op.intros(6)) simp
  then have r': "?R\<^sup>*\<^sup>* demo_returned (fst (claimShipping demo_output_id 4 ''t'' demo_returned))"
    by (rule r_into_rtranclp)
  have st: "map_option lo_state (dm_get demo_returned demo_output_id) = Some returned_out"
    "snd (claimShipping demo_output_id 4 ''t'' demo_returned) = None" "ship_token demo_returned demo_output_id = None"
    by code_simp+
  then obtain x where x: "dm_get demo_returned demo_output_id = Some x" "lo_state x = returned_out" by auto
  have "lo_loopId x \<notin> {}" "ship_token demo_returned demo_output_id \<noteq> Some ''u''" "''u'' \<notin> {''t''}" using st by simp_all
  from conjunct1[OF output_settled_once[OF r r' x(1) this]] x st show ?thesis unfolding Let_def by simp
qed

end
