(* ===== verification/Loop_Store.thy ===== *)
theory Loop_Store
  imports Complex_Main Item_Ledger Scopes
begin

text \<open>
  The loops themselves (\<open>src/src/loops/loop-store.ts\<close>) on the base of every trigger
  (\<open>src/src/triggers/trigger-store.ts\<close>), and the gate in front of what a loop ships
  (\<open>src/src/loops/ship-gate.ts\<close>, \<open>src/src/loops/ship-grant-store.ts\<close>): an action is shipped without a person
  when the loop declares it automatic or a standing grant covers it, and a grant is bound to the version of
  the policy, that is of the playbook and the declared actions, it was given for. Rates are exact rationals
  where the code has doubles; how JavaScript prints such a number is the argument \<open>rate\<close>.
\<close>

section \<open>Triggers\<close>

datatype ConsentStatus = consent_pending | consent_accepted | consent_declined

record RecipientConsent =
  rc_recipientId :: string
  rc_status :: ConsentStatus
  rc_decidedAt :: "int option"

text \<open>The nested options of a destination (\<open>taskList\<close> to \<open>webTranscript\<close>) are carried along as JSON.\<close>

record Destination =
  d_type :: string
  d_target :: string
  d_audienceScopeId :: "string option"
  d_onBehalfOf :: "string option"
  d_relaySender :: "string option"
  d_threadTs :: "string option"
  d_editRef :: "string option"
  d_options :: "(string \<times> json) list"

record TriggerBase =
  tb_id :: string
  tb_ownerScopeId :: string
  tb_owner :: string
  tb_createdBy :: string
  tb_ownerConsentedAt :: "int option"
  tb_destination :: "Destination option"
  tb_enabled :: bool
  tb_createdAt :: int
  tb_lastFiredAt :: "int option"
  tb_recipientConsent :: "RecipientConsent option"

record CreateTriggerInput =
  ct_ownerScopeId :: string
  ct_owner :: string
  ct_createdBy :: string
  ct_destination :: "Destination option"
  ct_ownerConsentedAt :: "int option"
  ct_recipientConsent :: "RecipientConsent option"

definition consentRequiredRecipient :: "string \<Rightarrow> bool \<Rightarrow> Destination option \<Rightarrow> string option" where
  "consentRequiredRecipient owner standing destination =
     (if \<not> standing then None
      else case destination of
        None \<Rightarrow> None
      | Some d \<Rightarrow> if d_type d = ''principal'' \<and> \<not> samePerson (Some (d_target d)) (Some owner) then Some (d_target d) else None)"

definition recipientConsentSatisfied :: "RecipientConsent option \<Rightarrow> string option \<Rightarrow> bool" where
  "recipientConsentSatisfied consent requiredRecipient =
     (if \<not> truthy requiredRecipient then consent = None \<or> map_option rc_status consent = Some consent_accepted
      else map_option rc_status consent = Some consent_accepted \<and>
           samePerson (map_option rc_recipientId consent) requiredRecipient)"

datatype consent_refusal = no_consent | not_recipient

definition decideRecipientConsent ::
  "RecipientConsent option \<Rightarrow> string \<Rightarrow> bool \<Rightarrow> int \<Rightarrow> consent_refusal + RecipientConsent" where
  "decideRecipientConsent current actorId accept now =
     (case current of
        None \<Rightarrow> Inl no_consent
      | Some c \<Rightarrow>
          if \<not> samePerson (Some (rc_recipientId c)) (Some actorId) then Inl not_recipient
          else Inr (c\<lparr>rc_status := (if accept then consent_accepted else consent_declined), rc_decidedAt := Some now\<rparr>))"

definition truthy_number :: "int option \<Rightarrow> bool" where
  "truthy_number n = (n \<noteq> None \<and> n \<noteq> Some 0)"

definition assertNoEscalation :: "CreateTriggerInput \<Rightarrow> string + unit" where
  "assertNoEscalation input =
     (if \<not> samePerson (Some (ct_owner input)) (Some (ct_createdBy input)) \<and> \<not> truthy_number (ct_ownerConsentedAt input)
      then Inl ''assigning a different owner requires that owner's consent''
      else Inr ())"

definition buildTriggerBase :: "CreateTriggerInput \<Rightarrow> string \<Rightarrow> int \<Rightarrow> TriggerBase" where
  "buildTriggerBase input i createdAt =
     \<lparr>tb_id = i, tb_ownerScopeId = ct_ownerScopeId input, tb_owner = ct_owner input, tb_createdBy = ct_createdBy input,
      tb_ownerConsentedAt = (if truthy_number (ct_ownerConsentedAt input) then ct_ownerConsentedAt input else None),
      tb_destination = ct_destination input, tb_enabled = True, tb_createdAt = createdAt,
      tb_lastFiredAt = None, tb_recipientConsent = ct_recipientConsent input\<rparr>"

definition setTriggerEnabled :: "('a TriggerBase_scheme) jsmap \<Rightarrow> string \<Rightarrow> bool \<Rightarrow> ('a TriggerBase_scheme) jsmap" where
  "setTriggerEnabled m i b = fst (dm_merge m i (\<lambda>v. v\<lparr>tb_enabled := b\<rparr>))"

definition setTriggerRecipientConsent :: "('a TriggerBase_scheme) jsmap \<Rightarrow> string \<Rightarrow> RecipientConsent \<Rightarrow> ('a TriggerBase_scheme) jsmap" where
  "setTriggerRecipientConsent m i c = fst (dm_merge m i (\<lambda>v. v\<lparr>tb_recipientConsent := Some c\<rparr>))"

section \<open>Loops\<close>

datatype LoopState = loop_enabled | loop_paused | loop_quarantined | loop_archived

datatype LoopHealth = healthy | degraded | failing | quarantined

datatype ShipGate = gate_hold | gate_auto

record ShipActionPolicy =
  sp_action :: string
  sp_gate :: ShipGate

record LoopCaps =
  cap_maxItemsPerFire :: "nat option"
  cap_maxOpenOutputs :: "nat option"
  cap_maxItemAttempts :: "nat option"

record LoopGovernorConfig =
  gc_maxConsecutiveFailedFires :: "int option"
  gc_maxQueueDepth :: "int option"
  gc_maxQueueAgeMs :: "int option"
  gc_maxReturnRate :: "rat option"
  gc_returnRateMinDecisions :: "int option"
  gc_staleFireMs :: "int option"

record LoopPlaybookRevision =
  pr_version :: int
  pr_at :: int
  pr_by :: string
  pr_note :: "string option"

datatype RunAs = run_owner | run_scopeFloor | run_scopeShared

record Loop = TriggerBase +
  lp_name :: string
  lp_purpose :: "string option"
  lp_surface :: "string option"
  lp_sources :: "string list option"
  lp_playbook :: string
  lp_playbookVersion :: int
  lp_playbookHistory :: "LoopPlaybookRevision list"
  lp_policyVersion :: "int option"
  lp_successCondition :: string
  lp_successChecks :: "string list option"
  lp_shipActions :: "ShipActionPolicy list"
  lp_caps :: "LoopCaps option"
  lp_governor :: "LoopGovernorConfig option"
  lp_state :: LoopState
  lp_health :: LoopHealth
  lp_healthReason :: "string option"
  lp_throttle :: bool
  lp_cronId :: "string option"
  lp_runAs :: "RunAs option"
  lp_consecutiveFailedFires :: "nat option"
  lp_quarantineClearedBy :: "string option"
  lp_quarantineClearedAt :: "int option"

record CreateLoopInput = CreateTriggerInput +
  cl_name :: string
  cl_surface :: "string option"
  cl_sources :: "string list option"
  cl_playbook :: string
  cl_successCondition :: string
  cl_purpose :: "string option"
  cl_successChecks :: "string list option"
  cl_shipActions :: "ShipActionPolicy list option"
  cl_caps :: "LoopCaps option"
  cl_governor :: "LoopGovernorConfig option"
  cl_cronId :: "string option"
  cl_runAs :: "RunAs option"
  cl_schedule :: "json option"

record PlaybookEdit =
  pe_playbook :: string
  pe_by :: string
  pe_note :: "string option"

text \<open>A patch: \<^const>\<open>None\<close> for an absent field, and an inner \<^const>\<open>None\<close> for \<open>null\<close>.\<close>

record LoopPatch =
  pt_name :: "string option"
  pt_purpose :: "string option"
  pt_successCondition :: "string option"
  pt_successChecks :: "string list option"
  pt_destination :: "Destination option option"
  pt_recipientConsent :: "RecipientConsent option option"
  pt_shipActions :: "ShipActionPolicy list option"
  pt_caps :: "LoopCaps option"
  pt_governor :: "LoopGovernorConfig option"
  pt_cronId :: "string option"
  pt_runAs :: "RunAs option"
  pt_state :: "LoopState option"
  pt_playbookEdit :: "PlaybookEdit option"
  pt_restore :: "Loop option"
  pt_quarantineClearedBy :: "string option"
  pt_quarantineClearedAt :: "int option"

definition isRunnable :: "Loop \<Rightarrow> bool" where
  "isRunnable lp = (lp_state lp \<in> {loop_enabled})"

definition normalizeName :: "string \<Rightarrow> string + string" where
  "normalizeName name =
     (let trimmed = collapse_spaces (trim name) in
      if trimmed = [] then Inl ''a loop needs a name''
      else Inr (if length trimmed > 80 then take 79 trimmed @ ''...'' else trimmed))"

definition normalizeShipActions :: "ShipActionPolicy list option \<Rightarrow> ShipActionPolicy list" where
  "normalizeShipActions actions =
     vals (foldl (\<lambda>m policy.
       let action = trim (sp_action policy) in
       if action = [] then m else AList.update action \<lparr>sp_action = action, sp_gate = sp_gate policy\<rparr> m)
       [] (nullish actions []))"

definition set_state :: "LoopState \<Rightarrow> Loop \<Rightarrow> Loop" where
  "set_state st lp = lp\<lparr>lp_state := st, tb_enabled := (st = loop_enabled)\<rparr>"

type_synonym loop_store = "Loop jsmap"

subsection \<open>The content of a loop as JSON\<close>

text \<open>An object literal: absent fields do not appear.\<close>

definition jobj :: "(string \<times> json option) list \<Rightarrow> json" where
  "jobj fs = JObj (map (\<lambda>f. (fst f, the (snd f))) (filter (\<lambda>f. snd f \<noteq> None) fs))"

fun gate_name :: "ShipGate \<Rightarrow> string" where
  "gate_name gate_hold = ''hold''"
| "gate_name gate_auto = ''auto''"

definition ship_actions_json :: "ShipActionPolicy list \<Rightarrow> json" where
  "ship_actions_json ps =
     JArr (map (\<lambda>p. JObj [(''action'', JStr (sp_action p)), (''gate'', JStr (gate_name (sp_gate p)))]) ps)"

definition caps_json :: "LoopCaps \<Rightarrow> json" where
  "caps_json c = jobj
     [(''maxItemsPerFire'', map_option (\<lambda>n. JNum (int n)) (cap_maxItemsPerFire c)),
      (''maxOpenOutputs'', map_option (\<lambda>n. JNum (int n)) (cap_maxOpenOutputs c)),
      (''maxItemAttempts'', map_option (\<lambda>n. JNum (int n)) (cap_maxItemAttempts c))]"

definition destination_json :: "Destination \<Rightarrow> json" where
  "destination_json d = jobj
     ([(''type'', Some (JStr (d_type d))), (''target'', Some (JStr (d_target d))),
       (''audienceScopeId'', map_option JStr (d_audienceScopeId d)), (''onBehalfOf'', map_option JStr (d_onBehalfOf d)),
       (''relaySender'', map_option JStr (d_relaySender d)), (''threadTs'', map_option JStr (d_threadTs d)),
       (''editRef'', map_option JStr (d_editRef d))] @ map (\<lambda>f. (fst f, Some (snd f))) (d_options d))"

fun consent_name :: "ConsentStatus \<Rightarrow> string" where
  "consent_name consent_pending = ''pending''"
| "consent_name consent_accepted = ''accepted''"
| "consent_name consent_declined = ''declined''"

definition consent_json :: "RecipientConsent \<Rightarrow> json" where
  "consent_json c = jobj
     [(''recipientId'', Some (JStr (rc_recipientId c))), (''status'', Some (JStr (consent_name (rc_status c)))),
      (''decidedAt'', map_option JNum (rc_decidedAt c))]"

fun runAs_name :: "RunAs \<Rightarrow> string" where
  "runAs_name run_owner = ''owner''"
| "runAs_name run_scopeFloor = ''scopeFloor''"
| "runAs_name run_scopeShared = ''scopeShared''"

text \<open>The canonical text of a governor configuration, its fields in the order of their names.\<close>

definition governor_text :: "(rat \<Rightarrow> string) \<Rightarrow> LoopGovernorConfig \<Rightarrow> string" where
  "governor_text rate g =
     ''{'' @ join_with '','' (map (\<lambda>f. json_quote (fst f) @ '':'' @ the (snd f)) (filter (\<lambda>f. snd f \<noteq> None)
       [(''maxConsecutiveFailedFires'', map_option show_int (gc_maxConsecutiveFailedFires g)),
        (''maxQueueAgeMs'', map_option show_int (gc_maxQueueAgeMs g)),
        (''maxQueueDepth'', map_option show_int (gc_maxQueueDepth g)),
        (''maxReturnRate'', map_option rate (gc_maxReturnRate g)),
        (''returnRateMinDecisions'', map_option show_int (gc_returnRateMinDecisions g)),
        (''staleFireMs'', map_option show_int (gc_staleFireMs g))])) @ ''}''"

definition loop_content_id :: "(string \<Rightarrow> string) \<Rightarrow> (rat \<Rightarrow> string) \<Rightarrow> CreateLoopInput \<Rightarrow> string \<Rightarrow> string" where
  "loop_content_id sha rate input name = hashId sha
     [contentPart (Some (JStr (ct_owner input))), contentPart (Some (JStr (ct_ownerScopeId input))),
      contentPart (Some (JStr name)), contentPart (map_option JStr (cl_surface input)),
      contentPart (map_option (\<lambda>xs. JArr (map JStr xs)) (cl_sources input)),
      contentPart (Some (JStr (cl_playbook input))), contentPart (Some (JStr (cl_successCondition input))),
      contentPart (map_option JStr (cl_purpose input)),
      contentPart (map_option (\<lambda>xs. JArr (map JStr xs)) (cl_successChecks input)),
      contentPart (map_option ship_actions_json (cl_shipActions input)),
      contentPart (map_option caps_json (cl_caps input)),
      (case cl_governor input of None \<Rightarrow> [] | Some g \<Rightarrow> governor_text rate g),
      contentPart (map_option destination_json (ct_destination input)),
      contentPart (map_option JNum (ct_ownerConsentedAt input)),
      contentPart (map_option consent_json (ct_recipientConsent input)),
      contentPart (map_option JStr (cl_cronId input)),
      contentPart (map_option (\<lambda>r. JStr (runAs_name r)) (cl_runAs input)),
      contentPart (cl_schedule input)] 16"

subsection \<open>The operations\<close>

definition loop_candidate :: "CreateLoopInput \<Rightarrow> string \<Rightarrow> string \<Rightarrow> int \<Rightarrow> Loop" where
  "loop_candidate input name contentId now =
     (let base = buildTriggerBase (CreateTriggerInput.truncate input) contentId now in
      TriggerBase.extend base
        \<lparr>lp_name = name, lp_purpose = cl_purpose input, lp_surface = cl_surface input, lp_sources = cl_sources input,
         lp_playbook = cl_playbook input, lp_playbookVersion = 1,
         lp_playbookHistory = [\<lparr>pr_version = 1, pr_at = now, pr_by = ct_createdBy input, pr_note = None\<rparr>],
         lp_policyVersion = Some 1, lp_successCondition = cl_successCondition input,
         lp_successChecks = cl_successChecks input, lp_shipActions = normalizeShipActions (cl_shipActions input),
         lp_caps = cl_caps input, lp_governor = cl_governor input, lp_state = loop_enabled, lp_health = healthy,
         lp_healthReason = None, lp_throttle = False,
         lp_cronId = (if truthy (cl_cronId input) then cl_cronId input else None), lp_runAs = cl_runAs input,
         lp_consecutiveFailedFires = None, lp_quarantineClearedBy = None, lp_quarantineClearedAt = None\<rparr>)"

definition create_loop ::
  "(string \<Rightarrow> string) \<Rightarrow> (rat \<Rightarrow> string) \<Rightarrow> CreateLoopInput \<Rightarrow> int \<Rightarrow> loop_store \<Rightarrow> string + (loop_store \<times> Loop \<times> bool)" where
  "create_loop sha rate input now s =
     (case assertNoEscalation (CreateTriggerInput.truncate input) of
        Inl e \<Rightarrow> Inl e
      | Inr _ \<Rightarrow> (case normalizeName (cl_name input) of
          Inl e \<Rightarrow> Inl e
        | Inr name \<Rightarrow>
            let contentId = loop_content_id sha rate input name;
                candidate = loop_candidate input name contentId now;
                (s', created) = dm_insertIfAbsent s contentId candidate
            in Inr (s', if created then candidate else nullish (dm_get s' contentId) candidate, created)))"

definition loop_byCron :: "string \<Rightarrow> loop_store \<Rightarrow> Loop option" where
  "loop_byCron cronId s = find (\<lambda>lp. lp_cronId lp = Some cronId) (dm_all s)"

definition patch_opt :: "'a option \<Rightarrow> ('a \<Rightarrow> Loop \<Rightarrow> Loop) \<Rightarrow> Loop \<Rightarrow> Loop" where
  "patch_opt v upd lp = (case v of None \<Rightarrow> lp | Some x \<Rightarrow> upd x lp)"

definition current_policy :: "Loop \<Rightarrow> int" where
  "current_policy lp = nullish (lp_policyVersion lp) 1"

definition playbook_edited :: "LoopPatch \<Rightarrow> Loop \<Rightarrow> bool" where
  "playbook_edited patch lp =
     (case pt_playbookEdit patch of None \<Rightarrow> False | Some e \<Rightarrow> pe_playbook e \<noteq> lp_playbook lp)"

definition ship_actions_changed :: "LoopPatch \<Rightarrow> Loop \<Rightarrow> bool" where
  "ship_actions_changed patch lp =
     (case pt_shipActions patch of None \<Rightarrow> False
      | Some acts \<Rightarrow> canonicalJson (Some (ship_actions_json (normalizeShipActions (Some acts))))
                  \<noteq> canonicalJson (Some (ship_actions_json (lp_shipActions lp))))"

definition edit_playbook :: "PlaybookEdit \<Rightarrow> int \<Rightarrow> Loop \<Rightarrow> Loop" where
  "edit_playbook e now lp =
     (let version = lp_playbookVersion lp + 1 in
      lp\<lparr>lp_playbook := pe_playbook e, lp_playbookVersion := version,
         lp_playbookHistory := lp_playbookHistory lp @
           [\<lparr>pr_version = version, pr_at = now, pr_by = pe_by e, pr_note = pe_note e\<rparr>]\<rparr>)"

definition patch_fields :: "LoopPatch \<Rightarrow> Loop \<Rightarrow> Loop" where
  "patch_fields patch =
     patch_opt (pt_quarantineClearedAt patch) (\<lambda>x. lp_quarantineClearedAt_update (\<lambda>_. Some x)) \<circ>
     patch_opt (pt_quarantineClearedBy patch) (\<lambda>x. lp_quarantineClearedBy_update (\<lambda>_. Some x)) \<circ>
     patch_opt (pt_state patch) set_state \<circ>
     patch_opt (pt_runAs patch) (\<lambda>x. lp_runAs_update (\<lambda>_. Some x)) \<circ>
     patch_opt (pt_cronId patch) (\<lambda>x. lp_cronId_update (\<lambda>_. Some x)) \<circ>
     patch_opt (pt_governor patch) (\<lambda>x. lp_governor_update (\<lambda>_. Some x)) \<circ>
     patch_opt (pt_caps patch) (\<lambda>x. lp_caps_update (\<lambda>_. Some x)) \<circ>
     patch_opt (pt_shipActions patch) (\<lambda>x. lp_shipActions_update (\<lambda>_. normalizeShipActions (Some x))) \<circ>
     patch_opt (pt_recipientConsent patch) (\<lambda>x. tb_recipientConsent_update (\<lambda>_. x)) \<circ>
     patch_opt (pt_destination patch) (\<lambda>x. tb_destination_update (\<lambda>_. x)) \<circ>
     patch_opt (pt_successChecks patch) (\<lambda>x. lp_successChecks_update (\<lambda>_. Some x)) \<circ>
     patch_opt (pt_successCondition patch) (\<lambda>x. lp_successCondition_update (\<lambda>_. x)) \<circ>
     patch_opt (pt_purpose patch) (\<lambda>x. lp_purpose_update (\<lambda>_. Some x))"

definition apply_loop_patch :: "LoopPatch \<Rightarrow> int \<Rightarrow> Loop \<Rightarrow> string + Loop" where
  "apply_loop_patch patch now lp =
     (case pt_restore patch of
        Some old \<Rightarrow> Inr old
      | None \<Rightarrow>
        (case (case pt_name patch of None \<Rightarrow> Inr (lp_name lp) | Some n \<Rightarrow> normalizeName n) of
           Inl e \<Rightarrow> Inl e
         | Inr name \<Rightarrow>
             let fields = patch_fields patch (lp\<lparr>lp_name := name\<rparr>);
                 edited = (if playbook_edited patch lp then edit_playbook (the (pt_playbookEdit patch)) now fields else fields);
                 policyChanged = (ship_actions_changed patch lp \<or> playbook_edited patch lp)
             in Inr (if policyChanged then edited\<lparr>lp_policyVersion := Some (current_policy lp + 1)\<rparr> else edited)))"

definition update_loop :: "string \<Rightarrow> LoopPatch \<Rightarrow> int \<Rightarrow> loop_store \<Rightarrow> loop_store \<times> (string + Loop option)" where
  "update_loop i patch now s = dm_update s i (apply_loop_patch patch now)"

definition empty_patch :: LoopPatch where
  "empty_patch = \<lparr>pt_name = None, pt_purpose = None, pt_successCondition = None, pt_successChecks = None,
     pt_destination = None, pt_recipientConsent = None, pt_shipActions = None, pt_caps = None, pt_governor = None,
     pt_cronId = None, pt_runAs = None, pt_state = None, pt_playbookEdit = None, pt_restore = None,
     pt_quarantineClearedBy = None, pt_quarantineClearedAt = None\<rparr>"

definition editPlaybook :: "string \<Rightarrow> PlaybookEdit \<Rightarrow> int \<Rightarrow> loop_store \<Rightarrow> loop_store \<times> (string + Loop option)" where
  "editPlaybook i edit now s = update_loop i (empty_patch\<lparr>pt_playbookEdit := Some edit\<rparr>) now s"

definition loop_merge :: "string \<Rightarrow> (Loop \<Rightarrow> Loop) \<Rightarrow> loop_store \<Rightarrow> loop_store \<times> (string + Loop option)" where
  "loop_merge i f s = dm_update s i (\<lambda>lp. Inr (f lp))"

definition setState :: "string \<Rightarrow> LoopState \<Rightarrow> loop_store \<Rightarrow> loop_store \<times> (string + Loop option)" where
  "setState i st s = loop_merge i (set_state st) s"

definition setHealth ::
  "string \<Rightarrow> LoopHealth \<Rightarrow> string option \<Rightarrow> bool \<Rightarrow> loop_store \<Rightarrow> loop_store \<times> (string + Loop option)" where
  "setHealth i health reason throttle s =
     loop_merge i (\<lambda>lp. lp\<lparr>lp_health := health, lp_healthReason := reason, lp_throttle := throttle\<rparr>) s"

definition recordFireOutcome :: "string \<Rightarrow> bool \<Rightarrow> int \<Rightarrow> loop_store \<Rightarrow> loop_store \<times> (string + Loop option)" where
  "recordFireOutcome i failed now s =
     loop_merge i (\<lambda>lp. lp
       \<lparr>lp_consecutiveFailedFires := Some (if failed then nullish (lp_consecutiveFailedFires lp) 0 + 1 else 0),
        tb_lastFiredAt := Some now\<rparr>) s"

definition delete_loop :: "string \<Rightarrow> loop_store \<Rightarrow> loop_store" where
  "delete_loop i s = dm_delete s i"

section \<open>The ship gate and standing grants\<close>

record revocation =
  rv_revokedAt :: int
  rv_revokedBy :: string

record ShipGrant =
  sg_id :: string
  sg_loopId :: string
  sg_shipAction :: string
  sg_label :: "string option"
  sg_actorId :: string
  sg_policyVersion :: int
  sg_createdAt :: int
  sg_revokedAt :: "int option"
  sg_revokedBy :: "string option"
  sg_revocationHistory :: "revocation list option"

datatype ShipDecision = ship_by_policy | ship_by_grant string | ship_hold | ship_undeclared

fun auto_outcome :: "ShipDecision \<Rightarrow> bool" where
  "auto_outcome ship_by_policy = True"
| "auto_outcome (ship_by_grant _) = True"
| "auto_outcome _ = False"

record ShipCandidate =
  sc_shipAction :: string
  sc_label :: "string option"

definition declaredGate :: "Loop \<Rightarrow> string \<Rightarrow> ShipGate option" where
  "declaredGate lp shipAction = map_option sp_gate (find (\<lambda>p. sp_action p = shipAction) (lp_shipActions lp))"

definition grantCovers :: "ShipGrant \<Rightarrow> Loop \<Rightarrow> ShipCandidate \<Rightarrow> bool" where
  "grantCovers g lp cand =
     (if sg_loopId g \<noteq> tb_id lp \<or> sg_policyVersion g \<noteq> current_policy lp \<or> sg_revokedAt g \<noteq> None \<or>
         sg_shipAction g \<noteq> sc_shipAction cand then False
      else sg_label g = None \<or> sg_label g = sc_label cand)"

definition decideShip :: "Loop \<Rightarrow> ShipCandidate \<Rightarrow> ShipGrant list \<Rightarrow> ShipDecision" where
  "decideShip lp cand grants =
     (case declaredGate lp (sc_shipAction cand) of
        None \<Rightarrow> ship_undeclared
      | Some gate_auto \<Rightarrow> ship_by_policy
      | Some gate_hold \<Rightarrow>
          (case find (\<lambda>g. grantCovers g lp cand) grants of Some g \<Rightarrow> ship_by_grant (sg_id g) | None \<Rightarrow> ship_hold))"

record ApprovalGrantModes =
  gm_session :: bool
  gm_always :: bool

definition graduationAllowed :: "ApprovalGrantModes option \<Rightarrow> bool" where
  "graduationAllowed modes = (map_option gm_always modes \<noteq> Some False)"

definition buildShipGrant ::
  "(string \<Rightarrow> string) \<Rightarrow> string \<Rightarrow> string \<Rightarrow> string \<Rightarrow> int \<Rightarrow> string option \<Rightarrow> ApprovalGrantModes option \<Rightarrow> int \<Rightarrow> string + ShipGrant" where
  "buildShipGrant sha loopId shipAction actorId policyVersion label modes now =
     (if \<not> graduationAllowed modes then Inl ''standing ship grants are disabled for this org''
      else Inr \<lparr>sg_id = hashId sha [contentPart (Some (JStr loopId)), contentPart (Some (JNum policyVersion)),
                  contentPart (Some (JStr shipAction)), contentPart (map_option JStr label)] 16,
                sg_loopId = loopId, sg_shipAction = shipAction, sg_label = label, sg_actorId = actorId,
                sg_policyVersion = policyVersion, sg_createdAt = now, sg_revokedAt = None, sg_revokedBy = None,
                sg_revocationHistory = None\<rparr>)"

text \<open>\<open>undeclaredShipActions\<close> on the ship actions of the outputs.\<close>

definition undeclaredShipActions :: "Loop \<Rightarrow> string list \<Rightarrow> string list" where
  "undeclaredShipActions lp actions =
     dedupe (filter (\<lambda>action. action \<notin> set (map sp_action (lp_shipActions lp))) actions)"

type_synonym ship_grant_store = "ShipGrant jsmap"

definition reactivate :: "ShipGrant \<Rightarrow> ShipGrant \<Rightarrow> ShipGrant" where
  "reactivate grant current =
     (case sg_revokedAt current of
        None \<Rightarrow> current
      | Some t \<Rightarrow> current
          \<lparr>sg_revokedAt := None, sg_revokedBy := None, sg_actorId := sg_actorId grant, sg_createdAt := sg_createdAt grant,
           sg_revocationHistory := Some (nullish (sg_revocationHistory current) [] @
             [\<lparr>rv_revokedAt = t, rv_revokedBy = nullish (sg_revokedBy current) ''unknown''\<rparr>])\<rparr>)"

definition put_ship_grant :: "ShipGrant \<Rightarrow> ship_grant_store \<Rightarrow> ship_grant_store \<times> ShipGrant" where
  "put_ship_grant grant s =
     (case dm_putIfAbsent s (sg_id grant) grant of
        (s', existing) \<Rightarrow>
          if sg_revokedAt existing = None then (s', existing)
          else case dm_update s' (sg_id grant) (\<lambda>current. Inr (reactivate grant current) :: unit + ShipGrant) of
            (s'', Inr (Some g)) \<Rightarrow> (s'', g)
          | (s'', _) \<Rightarrow> (s'', grant))"

definition ship_grants_of_loop :: "string \<Rightarrow> ship_grant_store \<Rightarrow> ShipGrant list" where
  "ship_grants_of_loop loopId s = filter (\<lambda>g. sg_loopId g = loopId) (dm_all s)"

definition revoke_ship_grant :: "string \<Rightarrow> string \<Rightarrow> int \<Rightarrow> ship_grant_store \<Rightarrow> ship_grant_store" where
  "revoke_ship_grant i actorId now s =
     fst (dm_update s i (\<lambda>g. Inr (if sg_revokedAt g = None
       then g\<lparr>sg_revokedAt := Some now, sg_revokedBy := Some actorId\<rparr> else g) :: unit + ShipGrant))"

definition delete_ship_grant :: "string \<Rightarrow> ship_grant_store \<Rightarrow> ship_grant_store" where
  "delete_ship_grant i s = dm_delete s i"

definition delete_ship_grants_of_loop :: "string \<Rightarrow> ship_grant_store \<Rightarrow> ship_grant_store" where
  "delete_ship_grants_of_loop loopId s = foldl dm_delete s (map sg_id (ship_grants_of_loop loopId s))"

end
