(* ===== verification/Loop_Runner.thy ===== *)
theory Loop_Runner
  imports Loop_Store Loop_Outputs Item_Lifecycle
begin

text \<open>
  What drives a loop: the governor that judges its vital signs (\<open>src/src/loops/governor.ts\<close>), the evaluation
  of an attempt (\<open>src/src/loops/success-evaluation.ts\<close>) and the fire that takes in work, claims items, has
  them worked on and ships or holds what comes out (\<open>src/src/loops/runner.ts\<close>). The effects the runner is
  given (\<open>LoopRunnerEffects\<close>) are functions on the world that may also throw. Whatever other processes do
  to the stores, and the clock, between two of the runner's steps is the function \<open>others\<close>, applied before
  every operation on a store; what \<open>randomUUID()\<close> returns is the function \<open>newid\<close> of the world.
\<close>

section \<open>The governor\<close>

record LoopVitals =
  vt_queue :: LoopQueueStats
  vt_openOutputs :: nat
  vt_decidedOutputs :: nat
  vt_returnedOutputs :: nat
  vt_undeclaredShipActions :: "string list option"

datatype GovernorActionType = act_quarantine | act_throttle | act_ping

record GovernorAction =
  ga_type :: GovernorActionType
  ga_reason :: string
  ga_recommendation :: "string option"

record GovernorVerdict =
  gv_health :: LoopHealth
  gv_reason :: "string option"
  gv_actions :: "GovernorAction list"
  gv_throttle :: bool
  gv_escalate :: bool

fun SEVERITY :: "LoopHealth \<Rightarrow> nat" where
  "SEVERITY healthy = 0"
| "SEVERITY degraded = 1"
| "SEVERITY failing = 2"
| "SEVERITY quarantined = 3"

definition healthWorsened :: "LoopHealth \<Rightarrow> LoopHealth \<Rightarrow> bool" where
  "healthWorsened previous nxt = (SEVERITY nxt > SEVERITY previous)"

definition returnRate :: "LoopVitals \<Rightarrow> rat" where
  "returnRate vitals =
     (if vt_decidedOutputs vitals = 0 then 0 else of_nat (vt_returnedOutputs vitals) / of_nat (vt_decidedOutputs vitals))"

text \<open>\<open>{ ...DEFAULTS, ...loop.governor }\<close>.\<close>

definition config_maxFailed :: "Loop \<Rightarrow> int" where
  "config_maxFailed lp = nullish (Option.bind (lp_governor lp) gc_maxConsecutiveFailedFires) 3"

definition config_maxReturnRate :: "Loop \<Rightarrow> rat" where
  "config_maxReturnRate lp = nullish (Option.bind (lp_governor lp) gc_maxReturnRate) (1 / 2)"

definition config_minDecisions :: "Loop \<Rightarrow> int" where
  "config_minDecisions lp = nullish (Option.bind (lp_governor lp) gc_returnRateMinDecisions) 4"

definition math_round :: "rat \<Rightarrow> int" where
  "math_round x = \<lfloor>x + 1 / 2\<rfloor>"

type_synonym governor_state = "LoopHealth \<times> string option \<times> GovernorAction list"

definition raise_health :: "LoopHealth \<Rightarrow> string \<Rightarrow> governor_state \<Rightarrow> governor_state" where
  "raise_health nxt why st =
     (case st of (health, reason, actions) \<Rightarrow>
        if SEVERITY nxt > SEVERITY health then (nxt, Some why, actions) else st)"

definition push_action :: "GovernorActionType \<Rightarrow> string \<Rightarrow> string \<Rightarrow> governor_state \<Rightarrow> governor_state" where
  "push_action ty why recommendation st =
     (case st of (health, reason, actions) \<Rightarrow>
        (health, reason, actions @ [\<lparr>ga_type = ty, ga_reason = why, ga_recommendation = Some recommendation\<rparr>]))"

definition judge_undeclared :: "LoopVitals \<Rightarrow> governor_state \<Rightarrow> governor_state" where
  "judge_undeclared vitals st =
     (let undeclared = nullish (vt_undeclaredShipActions vitals) [];
          why = ''undeclared ship action: '' @ join_with '', '' undeclared in
      if undeclared \<noteq> []
      then raise_health quarantined why
             (push_action act_quarantine why ''declare the action in the playbook or narrow the loop'' st)
      else st)"

definition judge_fires :: "Loop \<Rightarrow> governor_state \<Rightarrow> governor_state" where
  "judge_fires lp st =
     (let failedFires = nullish (lp_consecutiveFailedFires lp) 0;
          why = show_nat failedFires @ '' consecutive failed fires'' in
      if config_maxFailed lp \<le> int failedFires
      then raise_health quarantined why (push_action act_quarantine why ''inspect the latest run before resuming'' st)
      else if 2 \<le> failedFires then raise_health failing why st
      else st)"

text \<open>The recommendation holds an em dash in the code; here it is spelled with two hyphens.\<close>

definition judge_returns :: "Loop \<Rightarrow> LoopVitals \<Rightarrow> governor_state \<Rightarrow> governor_state" where
  "judge_returns lp vitals st =
     (let rate = returnRate vitals;
          why = show_int (math_round (rate * 100)) @ ''% of reviewed outputs were returned'' in
      if config_minDecisions lp \<le> int (vt_decidedOutputs vitals) \<and> config_maxReturnRate lp < rate
      then raise_health failing why
             (push_action act_throttle why ''the playbook is producing work people don't want -- revise it'' st)
      else st)"

definition judge_depth :: "Loop \<Rightarrow> LoopVitals \<Rightarrow> governor_state \<Rightarrow> governor_state" where
  "judge_depth lp vitals st =
     (case Option.bind (lp_governor lp) gc_maxQueueDepth of
        None \<Rightarrow> st
      | Some depth \<Rightarrow>
          let why = show_nat (qs_queued (vt_queue vitals)) @ '' items queued'' in
          if depth < int (qs_queued (vt_queue vitals))
          then raise_health degraded why (push_action act_throttle why ''intake is outrunning the work stage'' st)
          else st)"

definition judge_age :: "Loop \<Rightarrow> LoopVitals \<Rightarrow> governor_state \<Rightarrow> governor_state" where
  "judge_age lp vitals st =
     (case Option.bind (lp_governor lp) gc_maxQueueAgeMs of
        None \<Rightarrow> st
      | Some maxAge \<Rightarrow>
          let age = nullish (qs_oldestQueuedAgeMs (vt_queue vitals)) 0;
              why = ''oldest queued item is '' @ show_int (math_round (of_int age / 60000)) @ '' minutes old'' in
          if maxAge < age
          then raise_health degraded why (push_action act_ping why ''work is not draining'' st)
          else st)"

definition judge_stale :: "Loop \<Rightarrow> int \<Rightarrow> governor_state \<Rightarrow> governor_state" where
  "judge_stale lp now st =
     (case Option.bind (lp_governor lp) gc_staleFireMs of
        None \<Rightarrow> st
      | Some stale \<Rightarrow>
          let idle = now - nullish (tb_lastFiredAt lp) (tb_createdAt lp);
              why = ''no fire in '' @ show_int (math_round (of_int idle / 60000)) @ '' minutes'' in
          if stale < idle
          then raise_health degraded why (push_action act_ping why ''the trigger looks dead'' st)
          else st)"

definition judge_outputs :: "Loop \<Rightarrow> LoopVitals \<Rightarrow> governor_state \<Rightarrow> governor_state" where
  "judge_outputs lp vitals st =
     (case Option.bind (lp_caps lp) cap_maxOpenOutputs of
        None \<Rightarrow> st
      | Some maxOpen \<Rightarrow>
          let why = show_nat (vt_openOutputs vitals) @ '' outputs waiting for review'' in
          if maxOpen \<le> vt_openOutputs vitals
          then raise_health degraded why (push_action act_ping why ''reviewer saturation -- throttle intake?'' st)
          else st)"

definition evaluateGovernor :: "Loop \<Rightarrow> LoopVitals \<Rightarrow> int \<Rightarrow> GovernorVerdict" where
  "evaluateGovernor lp vitals now =
     (case judge_outputs lp vitals (judge_stale lp now (judge_age lp vitals (judge_depth lp vitals
             (judge_returns lp vitals (judge_fires lp (judge_undeclared vitals (healthy, None, []))))))) of
        (health, reason, actions) \<Rightarrow>
          \<lparr>gv_health = health, gv_reason = reason, gv_actions = actions,
           gv_throttle = list_ex (\<lambda>a. ga_type a = act_throttle) actions,
           gv_escalate = healthWorsened (lp_health lp) health\<rparr>)"

definition collectVitals :: "Loop \<Rightarrow> ledger \<Rightarrow> output_store \<Rightarrow> int \<Rightarrow> LoopVitals" where
  "collectVitals lp items outputs now =
     (let outs = outputs_of_loop (tb_id lp) outputs;
          decided = filter isDecided outs;
          undeclared = undeclaredShipActions lp (map lo_shipAction
            (filter (\<lambda>out. lo_state out = staged \<or> unresolvedOutput out) outs))
      in \<lparr>vt_queue = item_stats (tb_id lp) now items, vt_openOutputs = length (filter unresolvedOutput outs),
          vt_decidedOutputs = length decided,
          vt_returnedOutputs = length (filter (\<lambda>out. lo_state out = returned_out) decided),
          vt_undeclaredShipActions = (if undeclared = [] then None else Some undeclared)\<rparr>)"

section \<open>The evaluation of an attempt\<close>

record SuccessCheckResult =
  cr_command :: string
  cr_passed :: bool
  cr_detail :: "string option"

record JudgeVerdict =
  jv_met :: bool
  jv_reason :: string

datatype SuccessOutcome = outcome_met | outcome_continue | outcome_park

record SuccessVerdict =
  sv_outcome :: SuccessOutcome
  sv_reason :: string
  sv_checks :: "SuccessCheckResult list"
  sv_judged :: bool

definition bounded_outcome :: "nat \<Rightarrow> nat option \<Rightarrow> string \<Rightarrow> SuccessOutcome \<times> string" where
  "bounded_outcome attempt maxAttempts reason =
     (case maxAttempts of
        Some m \<Rightarrow> if m \<le> attempt then (outcome_park, ''attempt cap ('' @ show_nat m @ '') reached: '' @ reason)
                  else (outcome_continue, reason)
      | None \<Rightarrow> (outcome_continue, reason))"

text \<open>The loop over the checks: the results so far, and the first failure if there is one.\<close>

fun run_checks ::
  "(string \<Rightarrow> SuccessCheckResult) \<Rightarrow> string list \<Rightarrow> SuccessCheckResult list \<Rightarrow>
   SuccessCheckResult list \<times> (string \<times> SuccessCheckResult) option" where
  "run_checks runCheck [] done_checks = (done_checks, None)"
| "run_checks runCheck (command # commands) done_checks =
     (let result = runCheck command in
      if \<not> cr_passed result then (done_checks @ [result], Some (command, result))
      else run_checks runCheck commands (done_checks @ [result]))"

definition evaluateSuccess ::
  "(string \<Rightarrow> SuccessCheckResult) \<Rightarrow> (string \<Rightarrow> SuccessCheckResult list \<Rightarrow> JudgeVerdict) \<Rightarrow>
   string \<Rightarrow> nat \<Rightarrow> string list option \<Rightarrow> nat option \<Rightarrow> SuccessVerdict" where
  "evaluateSuccess runCheck judge condition attempt checks maxAttempts =
     (case run_checks runCheck (nullish checks []) [] of
        (results, Some (command, result)) \<Rightarrow>
          (case bounded_outcome attempt maxAttempts
             (if truthy (cr_detail result) then ''check failed: '' @ command @ '' -- '' @ nullish (cr_detail result) []
              else ''check failed: '' @ command) of
             (outcome, reason) \<Rightarrow> \<lparr>sv_outcome = outcome, sv_reason = reason, sv_checks = results, sv_judged = False\<rparr>)
      | (results, None) \<Rightarrow>
          let verdict = judge condition results in
          if jv_met verdict
          then \<lparr>sv_outcome = outcome_met, sv_reason = jv_reason verdict, sv_checks = results, sv_judged = True\<rparr>
          else (case bounded_outcome attempt maxAttempts (jv_reason verdict) of
             (outcome, reason) \<Rightarrow> \<lparr>sv_outcome = outcome, sv_reason = reason, sv_checks = results, sv_judged = True\<rparr>))"

section \<open>The fire\<close>

record IntakeCandidate =
  ic_sourceKey :: string
  ic_sourceSummary :: "string option"

record FireSummary =
  fs_loopId :: string
  fs_ran :: bool
  fs_enqueued :: nat
  fs_worked :: nat
  fs_ready :: "string list"
  fs_shipped :: "string list"
  fs_parked :: "string list"
  fs_continued :: "string list"
  fs_undeclaredShipActions :: "string list"
  fs_failures :: "string list"
  fs_throttled :: "string option"

definition DEFAULT_MAX_ATTEMPTS :: nat where "DEFAULT_MAX_ATTEMPTS = 3"

text \<open>What an effect may throw: a \<open>DuplicateLoopFireError\<close> or another error, with its message.\<close>

datatype fire_error = DuplicateLoopFireError string | OtherError string

fun error_message :: "fire_error \<Rightarrow> string" where
  "error_message (DuplicateLoopFireError m) = m"
| "error_message (OtherError m) = m"

record 'x world =
  w_loops :: loop_store
  w_items :: ledger
  w_outputs :: output_store
  w_now :: int
  w_env :: 'x

record 'x effects =
  ef_others :: "'x world \<Rightarrow> 'x world"
  ef_newid :: "'x world \<Rightarrow> string"
  ef_enumerate :: "Loop \<Rightarrow> 'x world \<Rightarrow> 'x world \<times> (fire_error + IntakeCandidate list)"
  ef_work :: "Loop \<Rightarrow> LoopItem \<Rightarrow> string option \<Rightarrow> 'x world \<Rightarrow> 'x world \<times> (fire_error + string)"
  ef_captureOutputs :: "Loop \<Rightarrow> LoopItem \<Rightarrow> string \<Rightarrow> 'x world \<Rightarrow> 'x world \<times> (fire_error + CaptureOutputInput list)"
  ef_evaluate :: "Loop \<Rightarrow> LoopItem \<Rightarrow> nat \<Rightarrow> string \<Rightarrow> 'x world \<Rightarrow> 'x world \<times> (fire_error + SuccessVerdict)"
  ef_ship :: "Loop \<Rightarrow> LoopOutput \<Rightarrow> 'x world \<Rightarrow> 'x world \<times> (fire_error + LoopOutput option)"
  ef_authorizeAutoShip :: "(LoopOutput \<Rightarrow> 'x world \<Rightarrow> 'x world \<times> (fire_error + Loop option)) option"

definition emptySummary :: "Loop \<Rightarrow> bool \<Rightarrow> FireSummary" where
  "emptySummary lp runs =
     \<lparr>fs_loopId = tb_id lp, fs_ran = runs, fs_enqueued = 0, fs_worked = 0, fs_ready = [], fs_shipped = [], fs_parked = [],
      fs_continued = [], fs_undeclaredShipActions = [], fs_failures = [], fs_throttled = None\<rparr>"

definition fireNeedsAttention :: "FireSummary \<Rightarrow> bool" where
  "fireNeedsAttention summary =
     (fs_ready summary \<noteq> [] \<or> fs_parked summary \<noteq> [] \<or> fs_failures summary \<noteq> [] \<or> fs_undeclaredShipActions summary \<noteq> [])"

text \<open>An awaited operation on one of the stores: others may act first.\<close>

definition on_items :: "'x effects \<Rightarrow> (int \<Rightarrow> ledger \<Rightarrow> ledger \<times> 'r) \<Rightarrow> 'x world \<Rightarrow> 'x world \<times> 'r" where
  "on_items ef oper w =
     (let w1 = ef_others ef w in
      case oper (w_now w1) (w_items w1) of (s, r) \<Rightarrow> (w1\<lparr>w_items := s\<rparr>, r))"

definition on_outputs :: "'x effects \<Rightarrow> (int \<Rightarrow> output_store \<Rightarrow> output_store \<times> 'r) \<Rightarrow> 'x world \<Rightarrow> 'x world \<times> 'r" where
  "on_outputs ef oper w =
     (let w1 = ef_others ef w in
      case oper (w_now w1) (w_outputs w1) of (s, r) \<Rightarrow> (w1\<lparr>w_outputs := s\<rparr>, r))"

definition record_fire :: "'x effects \<Rightarrow> string \<Rightarrow> bool \<Rightarrow> 'x world \<Rightarrow> 'x world" where
  "record_fire ef i failed w =
     (let w1 = ef_others ef w in w1\<lparr>w_loops := fst (recordFireOutcome i failed (w_now w1) (w_loops w1))\<rparr>)"

definition outputCandidate :: "LoopOutput \<Rightarrow> ShipCandidate" where
  "outputCandidate out = \<lparr>sc_shipAction = lo_shipAction out, sc_label = lo_label out\<rparr>"

definition auto_ship :: "Loop \<Rightarrow> ShipGrant list \<Rightarrow> LoopOutput \<Rightarrow> bool" where
  "auto_ship lp grants out = auto_outcome (decideShip lp (outputCandidate out) grants)"

definition authorize :: "'x effects \<Rightarrow> Loop \<Rightarrow> LoopOutput \<Rightarrow> 'x world \<Rightarrow> 'x world \<times> (fire_error + Loop option)" where
  "authorize ef lp out w = (case ef_authorizeAutoShip ef of None \<Rightarrow> (w, Inr (Some lp)) | Some f \<Rightarrow> f out w)"

text \<open>The loop over the outputs that are ready: the ids shipped so far, also when an effect throws.\<close>

fun ship_ready ::
  "'x effects \<Rightarrow> Loop \<Rightarrow> ShipGrant list \<Rightarrow> LoopOutput list \<Rightarrow> string list \<Rightarrow> 'x world \<Rightarrow>
   'x world \<times> string list \<times> fire_error option" where
  "ship_ready ef lp grants [] autoShipped w = (w, autoShipped, None)"
| "ship_ready ef lp grants (out # outs) autoShipped w =
     (if \<not> auto_ship lp grants out then ship_ready ef lp grants outs autoShipped w
      else case authorize ef lp out w of
        (w1, Inl e) \<Rightarrow> (w1, autoShipped, Some e)
      | (w1, Inr None) \<Rightarrow> ship_ready ef lp grants outs autoShipped w1
      | (w1, Inr (Some currentLoop)) \<Rightarrow>
          (case ef_ship ef currentLoop out w1 of
             (w2, Inl e) \<Rightarrow> (w2, autoShipped, Some e)
           | (w2, Inr shipped) \<Rightarrow>
               ship_ready ef lp grants outs
                 (if map_option lo_state shipped = Some shipped_out then autoShipped @ [lo_id out] else autoShipped) w2))"

text \<open>The outcome of the \<open>try\<close> block: the summary, or the error with the counts the handler reads.\<close>

datatype attempt_end = Ended FireSummary | Threw fire_error nat nat

definition finish_ready ::
  "'x effects \<Rightarrow> Loop \<Rightarrow> ShipGrant list \<Rightarrow> LoopItem \<Rightarrow> string \<Rightarrow> FireSummary \<Rightarrow> 'x world \<Rightarrow> 'x world \<times> attempt_end" where
  "finish_ready ef lp grants item runId summary w =
     (case on_outputs ef (promoteAttempt (li_id item) runId) w of
        (w1, ready) \<Rightarrow>
          let autoOutputCount = length (filter (auto_ship lp grants) ready) in
          case ship_ready ef lp grants ready [] w1 of
            (w2, autoShipped, Some e) \<Rightarrow> (w2, Threw e (length autoShipped) autoOutputCount)
          | (w2, autoShipped, None) \<Rightarrow>
              if length autoShipped = length ready
              then (fst (on_items ef (markShipped (li_id item) None) w2),
                    Ended (summary\<lparr>fs_shipped := fs_shipped summary @ [li_id item]\<rparr>))
              else (w2, Ended (summary\<lparr>fs_ready := fs_ready summary @ [li_id item]\<rparr>)))"

definition supersede_attempt :: "'x effects \<Rightarrow> LoopItem \<Rightarrow> string \<Rightarrow> 'x world \<Rightarrow> 'x world" where
  "supersede_attempt ef item runId w = fst (on_outputs ef (supersedeAttempt (li_id item) runId) w)"

definition settle_attempt ::
  "'x effects \<Rightarrow> Loop \<Rightarrow> ShipGrant list \<Rightarrow> LoopItem \<Rightarrow> string \<Rightarrow> string \<Rightarrow> LoopOutput list \<Rightarrow> FireSummary \<Rightarrow> 'x world \<Rightarrow>
   'x world \<times> attempt_end" where
  "settle_attempt ef lp grants item tok runId captured summary w =
     (case ef_evaluate ef lp item (li_attempts item) runId w of
        (w1, Inl e) \<Rightarrow> (w1, Threw e 0 0)
      | (w1, Inr verdict) \<Rightarrow>
          (case sv_outcome verdict of
             outcome_park \<Rightarrow>
               (fst (on_items ef (park (li_id item) (sv_reason verdict) (Some tok)) (supersede_attempt ef item runId w1)),
                Ended (summary\<lparr>fs_parked := fs_parked summary @ [li_id item]\<rparr>))
           | outcome_continue \<Rightarrow>
               (fst (on_items ef (returnToWork (li_id item) (sv_reason verdict) (Some tok)) (supersede_attempt ef item runId w1)),
                Ended (summary\<lparr>fs_continued := fs_continued summary @ [li_id item]\<rparr>))
           | outcome_met \<Rightarrow>
               if captured = []
               then (fst (on_items ef (markShipped (li_id item) (Some tok)) w1),
                     Ended (summary\<lparr>fs_shipped := fs_shipped summary @ [li_id item]\<rparr>))
               else (case on_items ef (markReady_item (li_id item) (map lo_id captured) tok) w1 of
                  (w2, None) \<Rightarrow> (supersede_attempt ef item runId w2, Ended summary)
                | (w2, Some _) \<Rightarrow> finish_ready ef lp grants item runId summary w2)))"

fun capture_all ::
  "(string \<Rightarrow> string) \<Rightarrow> 'x effects \<Rightarrow> Loop \<Rightarrow> LoopItem \<Rightarrow> string \<Rightarrow> nat \<Rightarrow> CaptureOutputInput list \<Rightarrow> 'x world \<Rightarrow>
   'x world \<times> LoopOutput list" where
  "capture_all sha ef lp item runId ordinal [] w = (w, [])"
| "capture_all sha ef lp item runId ordinal (artifact # artifacts) w =
     (case on_outputs ef (capture sha (artifact\<lparr>co_loopId := tb_id lp, co_itemId := li_id item,
             co_attemptId := runId, co_ordinal := Some (int ordinal)\<rparr>)) w of
        (w1, out) \<Rightarrow> (case capture_all sha ef lp item runId (Suc ordinal) artifacts w1 of (w2, outs) \<Rightarrow> (w2, out # outs)))"

definition still_held :: "string \<Rightarrow> LoopItem option \<Rightarrow> bool" where
  "still_held tok heldItem = (map_option li_status heldItem = Some in_progress \<and> Option.bind heldItem li_claimToken = Some tok)"

definition attempt_item ::
  "(string \<Rightarrow> string) \<Rightarrow> 'x effects \<Rightarrow> Loop \<Rightarrow> ShipGrant list \<Rightarrow> LoopItem \<Rightarrow> string \<Rightarrow> FireSummary \<Rightarrow> 'x world \<Rightarrow>
   'x world \<times> attempt_end" where
  "attempt_item sha ef lp grants item tok summary w =
     (case ef_work ef lp item (li_guidance item) w of
        (w1, Inl e) \<Rightarrow> (w1, Threw e 0 0)
      | (w1, Inr runId) \<Rightarrow>
          (case on_items ef (recordRun (li_id item) runId tok) w1 of
             (w2, None) \<Rightarrow> (w2, Ended summary)
           | (w2, Some _) \<Rightarrow>
               (case ef_captureOutputs ef lp item runId w2 of
                  (w3, Inl e) \<Rightarrow> (w3, Threw e 0 0)
                | (w3, Inr artifacts) \<Rightarrow>
                    (case capture_all sha ef lp item runId 0 artifacts w3 of
                       (w4, captured) \<Rightarrow>
                         (case on_items ef (\<lambda>now s. (s, get_item (li_id item) s)) w4 of
                            (w5, heldItem) \<Rightarrow>
                              if \<not> still_held tok heldItem then (supersede_attempt ef item runId w5, Ended summary)
                              else let undeclared = undeclaredShipActions lp (map lo_shipAction captured) in
                                if undeclared \<noteq> []
                                then (fst (on_items ef (park (li_id item)
                                          (''undeclared ship action: '' @ join_with '', '' undeclared) (Some tok))
                                        (supersede_attempt ef item runId w5)),
                                      Ended (summary\<lparr>fs_undeclaredShipActions := fs_undeclaredShipActions summary @ undeclared,
                                        fs_parked := fs_parked summary @ [li_id item]\<rparr>))
                                else settle_attempt ef lp grants item tok runId captured summary w5)))))"

text \<open>The handler.\<close>

definition recover ::
  "'x effects \<Rightarrow> nat \<Rightarrow> LoopItem \<Rightarrow> string \<Rightarrow> fire_error \<Rightarrow> nat \<Rightarrow> nat \<Rightarrow> FireSummary \<Rightarrow> 'x world \<Rightarrow> 'x world \<times> FireSummary" where
  "recover ef maxAttempts item tok e autoShippedCount autoOutputCount summary0 w =
     (let reason = error_message e;
          summary = summary0\<lparr>fs_failures := fs_failures summary0 @ [li_sourceKey item @ '': '' @ reason]\<rparr>;
          parked = summary\<lparr>fs_parked := fs_parked summary @ [li_id item]\<rparr> in
      if 0 < autoShippedCount
      then (fst (on_items ef (park (li_id item)
              (''partial auto-ship: '' @ show_nat autoShippedCount @ '' of '' @ show_nat autoOutputCount @
               '' actions completed before failure -- needs human review'') None) w), parked)
      else
        (case on_items ef (\<lambda>now s. (s, get_item (li_id item) s)) w of
           (w1, latest) \<Rightarrow>
             let latestRunId = Option.bind latest (\<lambda>it. if li_runIds it = [] then None else Some (last (li_runIds it)));
                 w2 = (if truthy latestRunId then supersede_attempt ef item (the latestRunId) w1 else w1) in
             if maxAttempts \<le> li_attempts item
             then (fst (on_items ef (park (li_id item) reason (Some tok)) w2), parked)
             else (fst (on_items ef (returnToWork (li_id item) reason (Some tok)) w2),
                   summary\<lparr>fs_continued := fs_continued summary @ [li_id item]\<rparr>)))"

definition claim_for_fire :: "'x effects \<Rightarrow> string \<Rightarrow> 'x world \<Rightarrow> 'x world \<times> LoopItem option" where
  "claim_for_fire ef i w =
     (let w1 = ef_others ef w in
      case claim_item i (w_now w1) (ef_newid ef w1) (w_items w1) of (s, r) \<Rightarrow> (w1\<lparr>w_items := s\<rparr>, r))"

definition fire_round ::
  "(string \<Rightarrow> string) \<Rightarrow> 'x effects \<Rightarrow> Loop \<Rightarrow> ShipGrant list \<Rightarrow> nat \<Rightarrow> string \<Rightarrow> FireSummary \<Rightarrow> 'x world \<Rightarrow> 'x world \<times> FireSummary" where
  "fire_round sha ef lp grants maxAttempts i summary w =
     (case claim_for_fire ef i w of
        (w1, None) \<Rightarrow> (w1, summary)
      | (w1, Some item) \<Rightarrow>
          let tok = the (li_claimToken item); worked = summary\<lparr>fs_worked := fs_worked summary + 1\<rparr> in
          (case attempt_item sha ef lp grants item tok worked w1 of
             (w2, Ended result) \<Rightarrow> (w2, result)
           | (w2, Threw e shippedCount outputCount) \<Rightarrow>
               recover ef maxAttempts item tok e shippedCount outputCount worked w2))"

fun fire_batch ::
  "(string \<Rightarrow> string) \<Rightarrow> 'x effects \<Rightarrow> Loop \<Rightarrow> ShipGrant list \<Rightarrow> nat \<Rightarrow> string list \<Rightarrow> FireSummary \<Rightarrow> 'x world \<Rightarrow> 'x world \<times> FireSummary" where
  "fire_batch sha ef lp grants maxAttempts [] summary w = (w, summary)"
| "fire_batch sha ef lp grants maxAttempts (i # is) summary w =
     (case fire_round sha ef lp grants maxAttempts i summary w of
        (w1, summary1) \<Rightarrow> fire_batch sha ef lp grants maxAttempts is summary1 w1)"

fun enqueue_all ::
  "(string \<Rightarrow> string) \<Rightarrow> 'x effects \<Rightarrow> Loop \<Rightarrow> IntakeCandidate list \<Rightarrow> nat \<Rightarrow> 'x world \<Rightarrow> 'x world \<times> nat" where
  "enqueue_all sha ef lp [] n w = (w, n)"
| "enqueue_all sha ef lp (c # cs) n w =
     (case on_items ef (enqueue_item sha (tb_id lp) (ic_sourceKey c) (ic_sourceSummary c)) w of
        (w1, _, created) \<Rightarrow> enqueue_all sha ef lp cs (if created then n + 1 else n) w1)"

definition intake ::
  "(string \<Rightarrow> string) \<Rightarrow> 'x effects \<Rightarrow> Loop \<Rightarrow> FireSummary \<Rightarrow> 'x world \<Rightarrow> 'x world \<times> (fire_error + FireSummary)" where
  "intake sha ef lp summary w =
     (case ef_enumerate ef lp w of
        (w1, Inl (DuplicateLoopFireError m)) \<Rightarrow> (w1, Inl (DuplicateLoopFireError m))
      | (w1, Inl (OtherError m)) \<Rightarrow> (w1, Inr (summary\<lparr>fs_failures := fs_failures summary @ [''intake: '' @ m]\<rparr>))
      | (w1, Inr candidates) \<Rightarrow>
          (case enqueue_all sha ef lp candidates (fs_enqueued summary) w1 of
             (w2, n) \<Rightarrow> (w2, Inr (summary\<lparr>fs_enqueued := n\<rparr>))))"

definition fire_batch_ids :: "Loop \<Rightarrow> LoopItem list \<Rightarrow> string list" where
  "fire_batch_ids lp queued =
     map li_id (if lp_throttle lp then take (max 1 (length queued div 2)) queued else queued)"

definition runLoopFire ::
  "(string \<Rightarrow> string) \<Rightarrow> 'x effects \<Rightarrow> Loop \<Rightarrow> ShipGrant list \<Rightarrow> 'x world \<Rightarrow> 'x world \<times> (fire_error + FireSummary)" where
  "runLoopFire sha ef lp grants w =
     (let summary = emptySummary lp (isRunnable lp) in
      if \<not> isRunnable lp then (w, Inr summary)
      else case on_outputs ef (\<lambda>now s. (s, length (filter unresolvedOutput (outputs_of_loop (tb_id lp) s)))) w of
        (w1, openOutputs) \<Rightarrow>
          if (case Option.bind (lp_caps lp) cap_maxOpenOutputs of None \<Rightarrow> False | Some m \<Rightarrow> m \<le> openOutputs)
          then (record_fire ef (tb_id lp) False w1,
                Inr (summary\<lparr>fs_throttled := Some (show_nat openOutputs @ '' outputs waiting for review'')\<rparr>))
          else (case intake sha ef lp summary w1 of
             (w2, Inl e) \<Rightarrow> (w2, Inl e)
           | (w2, Inr summary1) \<Rightarrow>
               (case on_items ef (\<lambda>now s. (s, queued_items (tb_id lp) (Option.bind (lp_caps lp) cap_maxItemsPerFire) s)) w2 of
                  (w3, queued) \<Rightarrow>
                    (case fire_batch sha ef lp grants
                            (nullish (Option.bind (lp_caps lp) cap_maxItemAttempts) DEFAULT_MAX_ATTEMPTS)
                            (fire_batch_ids lp queued) summary1 w3 of
                       (w4, summary2) \<Rightarrow>
                         (record_fire ef (tb_id lp) (fs_failures summary2 \<noteq> []) w4, Inr summary2)))))"

end
