(* ===== verification/Ship_Policy.thy ===== *)
theory Ship_Policy
  imports Loop_Store
begin

text \<open>
  Standing grants end with the policy they were given for. The version of a loop's policy grows with every
  update that changes the playbook or the declared actions, as long as no update restores an earlier loop;
  that the update notices every change of the actions rests on the injectivity of their canonical text.
\<close>

section \<open>Canonical texts are injective\<close>

definition hex_value :: "char \<Rightarrow> nat" where
  "hex_value c = (if of_char c < (58 :: nat) then of_char c - 48 else of_char c - 87)"

lemma hex_value_digit: "d < 16 \<Longrightarrow> hex_value (hex_digit d) = d"
  by (simp add: hex_value_def hex_digit_def of_char_of take_bit_eq_mod)

text \<open>A decoder of one escaped character, as \<open>JSON.parse\<close> reads it.\<close>

definition unescape :: "string \<Rightarrow> char \<times> string" where
  "unescape s =
     (if hd s \<noteq> CHR 0x5C then (hd s, tl s)
      else if s ! 1 = CHR ''u'' then (char_of (16 * hex_value (s ! 4) + hex_value (s ! 5)), drop 6 s)
      else (the (map_of [(CHR 0x22, CHR 0x22), (CHR 0x5C, CHR 0x5C), (CHR ''b'', CHR 0x08), (CHR ''f'', CHR 0x0C),
              (CHR ''n'', CHR 0x0A), (CHR ''r'', CHR 0x0D), (CHR ''t'', CHR 0x09)] (s ! 1)), drop 2 s))"

lemma unescape_plain:
  assumes "c \<noteq> CHR 0x5C"
  shows "unescape ([c] @ xs) = (c, xs)"
  using assms by (simp add: unescape_def)

lemma unescape_control:
  assumes "n < 32"
  shows "unescape ([CHR 0x5C, CHR ''u'', CHR ''0'', CHR ''0'', hex_digit (n div 16), hex_digit (n mod 16)] @ xs) =
    (char_of n, xs)"
proof -
  have "n div 16 < 16" "n mod 16 < 16" using assms by auto
  then show ?thesis by (simp add: unescape_def hex_value_digit)
qed

lemma unescape_named:
  "unescape ([CHR 0x5C, CHR 0x22] @ xs) = (CHR 0x22, xs)" "unescape ([CHR 0x5C, CHR 0x5C] @ xs) = (CHR 0x5C, xs)"
  "unescape ([CHR 0x5C, CHR ''b''] @ xs) = (CHR 0x08, xs)" "unescape ([CHR 0x5C, CHR ''f''] @ xs) = (CHR 0x0C, xs)"
  "unescape ([CHR 0x5C, CHR ''n''] @ xs) = (CHR 0x0A, xs)" "unescape ([CHR 0x5C, CHR ''r''] @ xs) = (CHR 0x0D, xs)"
  "unescape ([CHR 0x5C, CHR ''t''] @ xs) = (CHR 0x09, xs)"
  by (simp_all add: unescape_def)

lemma of_char_eqI: "(of_char c :: nat) = of_char d \<Longrightarrow> d = c"
  by (simp add: of_char_eq_iff)

lemma named_chars:
  "of_char c = (34 :: nat) \<Longrightarrow> CHR 0x22 = c" "of_char c = (92 :: nat) \<Longrightarrow> CHR 0x5C = c"
  "of_char c = (8 :: nat) \<Longrightarrow> CHR 0x08 = c" "of_char c = (12 :: nat) \<Longrightarrow> CHR 0x0C = c"
  "of_char c = (10 :: nat) \<Longrightarrow> CHR 0x0A = c" "of_char c = (13 :: nat) \<Longrightarrow> CHR 0x0D = c"
  "of_char c = (9 :: nat) \<Longrightarrow> CHR 0x09 = c"
  by (rule of_char_eqI, simp)+

lemma json_escape_char_cases:
  "c \<in> {CHR 0x22, CHR 0x5C, CHR 0x08, CHR 0x0C, CHR 0x0A, CHR 0x0D, CHR 0x09} \<and>
     json_escape_char c = [CHR 0x5C, the (map_of [(CHR 0x22, CHR 0x22), (CHR 0x5C, CHR 0x5C), (CHR 0x08, CHR ''b''),
       (CHR 0x0C, CHR ''f''), (CHR 0x0A, CHR ''n''), (CHR 0x0D, CHR ''r''), (CHR 0x09, CHR ''t'')] c)]
   \<or> of_char c < (32 :: nat) \<and> json_escape_char c = [CHR 0x5C, CHR ''u'', CHR ''0'', CHR ''0'',
       hex_digit (of_char c div 16), hex_digit (of_char c mod 16)]
   \<or> c \<noteq> CHR 0x5C \<and> json_escape_char c = [c]"
proof (cases "c \<in> {CHR 0x22, CHR 0x5C, CHR 0x08, CHR 0x0C, CHR 0x0A, CHR 0x0D, CHR 0x09}")
  case True
  then show ?thesis by (elim insertE emptyE) (simp_all add: json_escape_char_def)
next
  case False
  then have "CHR 0x22 \<noteq> c" "CHR 0x5C \<noteq> c" "CHR 0x08 \<noteq> c" "CHR 0x0C \<noteq> c" "CHR 0x0A \<noteq> c" "CHR 0x0D \<noteq> c" "CHR 0x09 \<noteq> c"
    by blast+
  then have "of_char c \<noteq> (34 :: nat)" "of_char c \<noteq> (92 :: nat)" "of_char c \<noteq> (8 :: nat)" "of_char c \<noteq> (12 :: nat)"
    "of_char c \<noteq> (10 :: nat)" "of_char c \<noteq> (13 :: nat)" "of_char c \<noteq> (9 :: nat)"
    by (blast dest: named_chars)+
  then have "json_escape_char c = (if of_char c < (32 :: nat)
      then [CHR 0x5C, CHR ''u'', CHR ''0'', CHR ''0'', hex_digit (of_char c div 16), hex_digit (of_char c mod 16)] else [c])"
    unfolding json_escape_char_def Let_def by (simp only: if_False)
  then show ?thesis using False by (cases "of_char c < (32 :: nat)") (simp_all only: if_True if_False insert_iff simp_thms de_Morgan_disj)
qed

lemma unescape_escape: "unescape (json_escape_char c @ xs) = (c, xs)"
  using json_escape_char_cases[of c]
proof (elim disjE conjE)
  assume "of_char c < (32 :: nat)" and esc: "json_escape_char c = [CHR 0x5C, CHR ''u'', CHR ''0'', CHR ''0'',
       hex_digit (of_char c div 16), hex_digit (of_char c mod 16)]"
  then show ?thesis unfolding esc using unescape_control[of "of_char c" xs] by simp
qed (auto simp: unescape_def)

lemma json_escape_char_prefix:
  assumes "json_escape_char c @ xs = json_escape_char d @ ys"
  shows "c = d \<and> xs = ys"
  using unescape_escape assms by (metis prod.inject)

lemma json_escape_char_not_quote: "json_escape_char c @ xs \<noteq> CHR 0x22 # ys"
  by (auto simp: json_escape_char_def Let_def)

lemma json_quote_prefix:
  assumes "json_quote s @ xs = json_quote t @ ys"
  shows "s = t \<and> xs = ys"
proof -
  have "concat (map json_escape_char s) @ CHR 0x22 # xs = concat (map json_escape_char t) @ CHR 0x22 # ys"
    using assms by (simp add: json_quote_def)
  then show ?thesis
  proof (induction s arbitrary: t)
    case Nil
    then show ?case using json_escape_char_not_quote by (cases t) (auto dest: sym)
  next
    case (Cons c s)
    then obtain d u where t: "t = d # u"
      using json_escape_char_not_quote by (cases t) auto
    from Cons.prems json_escape_char_prefix[of c _ d] have "c = d"
      "concat (map json_escape_char s) @ CHR 0x22 # xs = concat (map json_escape_char u) @ CHR 0x22 # ys"
      by (simp_all add: t)
    then show ?case using Cons.IH t by blast
  qed
qed

lemma join_with_Cons: "join_with sep (x # xs) = x @ (if xs = [] then [] else sep @ join_with sep xs)"
  by (cases xs) simp_all

lemma join_with_prefix:
  assumes "\<And>p q xs ys. f p @ xs = f q @ ys \<Longrightarrow> p = q \<and> xs = ys" and "\<And>p xs ys. f p @ xs \<noteq> CHR '']'' # ys"
    and "join_with '','' (map f ps) @ '']'' = join_with '','' (map f qs) @ '']''"
  shows "ps = qs"
  using assms(3)
proof (induction ps arbitrary: qs)
  case Nil
  show ?case
  proof (cases qs)
    case (Cons q rs)
    then have "f q @ (if rs = [] then [] else '','' @ join_with '','' (map f rs)) @ '']'' = CHR '']'' # []"
      using Nil by (simp add: join_with_Cons)
    then show ?thesis using assms(2) by blast
  qed simp
next
  case (Cons p ps)
  have "f p @ (if ps = [] then [] else '','' @ join_with '','' (map f ps)) @ '']'' = join_with '','' (map f qs) @ '']''"
    using Cons.prems by (simp add: join_with_Cons)
  with assms(2) obtain q rs where qs: "qs = q # rs" by (cases qs) fastforce+
  have eq: "f p @ (if ps = [] then [] else '','' @ join_with '','' (map f ps)) @ '']'' =
      f q @ (if rs = [] then [] else '','' @ join_with '','' (map f rs)) @ '']''"
    using Cons.prems by (simp add: qs join_with_Cons)
  then have "p = q" and "(if ps = [] then [] else '','' @ join_with '','' (map f ps)) @ '']'' =
      (if rs = [] then [] else '','' @ join_with '','' (map f rs)) @ '']''"
    using assms(1) by blast+
  then show ?case using Cons.IH[of rs] by (auto simp: qs split: if_split_asm)
qed

definition ship_action_text :: "ShipActionPolicy \<Rightarrow> string" where
  "ship_action_text p =
     ''{'' @ json_quote ''action'' @ '':'' @ json_quote (sp_action p) @ '','' @ json_quote ''gate'' @ '':'' @
     json_quote (gate_name (sp_gate p)) @ ''}''"

lemma gate_name_inj: "gate_name a = gate_name b \<Longrightarrow> a = b"
  by (cases a; cases b) simp_all

lemma ship_action_text_prefix:
  assumes "ship_action_text p @ xs = ship_action_text q @ ys"
  shows "p = q \<and> xs = ys"
proof -
  from assms have "json_quote (sp_action p) @ '','' @ json_quote ''gate'' @ '':'' @ json_quote (gate_name (sp_gate p)) @ ''}'' @ xs =
      json_quote (sp_action q) @ '','' @ json_quote ''gate'' @ '':'' @ json_quote (gate_name (sp_gate q)) @ ''}'' @ ys"
    unfolding ship_action_text_def append_assoc same_append_eq .
  from json_quote_prefix[OF this] have a: "sp_action p = sp_action q"
    and "json_quote (gate_name (sp_gate p)) @ ''}'' @ xs = json_quote (gate_name (sp_gate q)) @ ''}'' @ ys"
    unfolding same_append_eq by blast+
  from json_quote_prefix[OF this(2)] have "sp_gate p = sp_gate q" "xs = ys" using gate_name_inj by auto
  with a show ?thesis by simp
qed

lemma show_nat_digits: "c \<in> set (show_nat n) \<Longrightarrow> of_char c < (58 :: nat)"
proof (induction n rule: show_nat.induct)
  case (1 n)
  then show ?case by (subst (asm) (2) show_nat.simps) (auto simp: of_char_digit split: if_split_asm)
qed

lemma array_index_digits: "array_index s \<Longrightarrow> c \<in> set s \<Longrightarrow> of_char c < (58 :: nat)"
  by (metis array_index_def show_nat_digits)

lemma not_index: "\<not> array_index ''action''" "\<not> array_index ''gate''"
  using array_index_digits[of "''action''" "CHR ''a''"] array_index_digits[of "''gate''" "CHR ''g''"] by auto

lemma ship_actions_text:
  "canonicalJson (Some (ship_actions_json ps)) = ''['' @ join_with '','' (map ship_action_text ps) @ '']''"
proof -
  have "canonical_fields [(''action'', a), (''gate'', g)] = [(''action'', a), (''gate'', g)]" for a g
    by (simp add: canonical_fields_def not_index)
  then have "stringify (canonical (JObj [(''action'', JStr (sp_action p)), (''gate'', JStr (gate_name (sp_gate p)))])) =
      ship_action_text p" for p
    by (simp add: ship_action_text_def)
  then show ?thesis
    by (simp add: canonicalJson_def ship_actions_json_def comp_def del: canonical.simps(2) stringify.simps(6))
qed

lemma ship_actions_text_inj:
  assumes "canonicalJson (Some (ship_actions_json ps)) = canonicalJson (Some (ship_actions_json qs))"
  shows "ps = qs"
proof (rule join_with_prefix[of ship_action_text])
  show "join_with '','' (map ship_action_text ps) @ '']'' = join_with '','' (map ship_action_text qs) @ '']''"
    using assms unfolding ship_actions_text same_append_eq .
  show "ship_action_text p @ xs \<noteq> CHR '']'' # ys" for p xs ys by (simp add: ship_action_text_def)
qed (rule ship_action_text_prefix)

section \<open>Policy versions\<close>

lemma patch_opt_frame:
  assumes "\<And>x lp. f (upd x lp) = f lp"
  shows "f (patch_opt v upd lp) = f lp"
  using assms by (simp add: patch_opt_def split: option.split)

lemmas patch_frames = patch_opt_frame[where f = tb_id] patch_opt_frame[where f = lp_playbook]
  patch_opt_frame[where f = lp_policyVersion] patch_opt_frame[where f = lp_shipActions]

lemma patch_fields_frame:
  "tb_id (patch_fields patch lp) = tb_id lp" "lp_playbook (patch_fields patch lp) = lp_playbook lp"
  "lp_policyVersion (patch_fields patch lp) = lp_policyVersion lp"
  by (simp_all add: patch_fields_def patch_frames set_state_def)

lemma patch_fields_shipActions:
  "lp_shipActions (patch_fields patch lp) =
     (case pt_shipActions patch of None \<Rightarrow> lp_shipActions lp | Some acts \<Rightarrow> normalizeShipActions (Some acts))"
  by (simp add: patch_fields_def patch_frames set_state_def) (simp add: patch_frames patch_opt_def split: option.split)

text \<open>What no update without a restore breaks: the version never falls, and where it did not grow the policy is
  the same.\<close>

definition policy_grows :: "Loop \<Rightarrow> Loop \<Rightarrow> bool" where
  "policy_grows lp lp' \<longleftrightarrow> tb_id lp' = tb_id lp \<and> current_policy lp \<le> current_policy lp' \<and>
     (current_policy lp' = current_policy lp \<longrightarrow> lp_playbook lp' = lp_playbook lp \<and> lp_shipActions lp' = lp_shipActions lp)"

lemma policy_grows_refl: "policy_grows lp lp"
  by (simp add: policy_grows_def)

lemma policy_grows_trans: "policy_grows a b \<Longrightarrow> policy_grows b c \<Longrightarrow> policy_grows a c"
  unfolding policy_grows_def by (metis order_antisym order_trans)

lemma policy_grows_frame:
  assumes "tb_id lp' = tb_id lp" "lp_policyVersion lp' = lp_policyVersion lp" "lp_playbook lp' = lp_playbook lp"
    "lp_shipActions lp' = lp_shipActions lp"
  shows "policy_grows lp lp'"
  using assms by (simp add: policy_grows_def current_policy_def)

lemma apply_loop_patch_grows:
  assumes "apply_loop_patch patch now lp = Inr lp'" and "pt_restore patch = None"
  shows "policy_grows lp lp'"
proof -
  obtain name where lp': "lp' = (let fields = patch_fields patch (lp\<lparr>lp_name := name\<rparr>);
      edited = (if playbook_edited patch lp then edit_playbook (the (pt_playbookEdit patch)) now fields else fields)
    in if ship_actions_changed patch lp \<or> playbook_edited patch lp
       then edited\<lparr>lp_policyVersion := Some (current_policy lp + 1)\<rparr> else edited)"
    using assms by (auto simp: apply_loop_patch_def Let_def split: sum.split_asm option.split_asm)
  show ?thesis
  proof (cases "ship_actions_changed patch lp \<or> playbook_edited patch lp")
    case True
    then show ?thesis unfolding lp' policy_grows_def
      by (simp add: Let_def current_policy_def edit_playbook_def patch_fields_frame)
  next
    case False
    then have "lp_shipActions (patch_fields patch (lp\<lparr>lp_name := name\<rparr>)) = lp_shipActions lp"
      using ship_actions_text_inj
      by (auto simp: patch_fields_shipActions ship_actions_changed_def split: option.split)
    then show ?thesis using False unfolding lp' by (intro policy_grows_frame) (simp_all add: patch_fields_frame)
  qed
qed

text \<open>The operations on the store other than deleting and restoring a loop.\<close>

inductive loop_step :: "(string \<Rightarrow> string) \<Rightarrow> (rat \<Rightarrow> string) \<Rightarrow> loop_store \<Rightarrow> loop_store \<Rightarrow> bool" for sha rate where
  step_create: "create_loop sha rate input now s = Inr (s', r) \<Longrightarrow> loop_step sha rate s s'"
| step_update: "pt_restore patch = None \<Longrightarrow> loop_step sha rate s (fst (update_loop i patch now s))"
| step_editPlaybook: "loop_step sha rate s (fst (editPlaybook i edit now s))"
| step_setState: "loop_step sha rate s (fst (setState i st s))"
| step_setHealth: "loop_step sha rate s (fst (setHealth i health reason throttle s))"
| step_recordFire: "loop_step sha rate s (fst (recordFireOutcome i failed now s))"

lemma dm_update_grows:
  assumes "dm_get s j = Some lp" and "\<And>v v'. f v = Inr v' \<Longrightarrow> policy_grows v v'"
  shows "\<exists>lp'. dm_get (fst (dm_update s i f)) j = Some lp' \<and> policy_grows lp lp'"
  using assms policy_grows_refl
  by (cases "i = j"; cases "f lp") (auto simp: dm_update_def dm_get_def split: option.split sum.split)

lemma loop_merge_grows:
  assumes "dm_get s j = Some lp" and "\<And>v. policy_grows v (f v)"
  shows "\<exists>lp'. dm_get (fst (loop_merge i f s)) j = Some lp' \<and> policy_grows lp lp'"
  unfolding loop_merge_def by (rule dm_update_grows[OF assms(1)]) (use assms(2) in auto)

lemma loop_step_grows:
  assumes "loop_step sha rate s s'" and "dm_get s j = Some lp"
  shows "\<exists>lp'. dm_get s' j = Some lp' \<and> policy_grows lp lp'"
  using assms(1)
proof cases
  case (step_create input now r)
  then show ?thesis using assms(2) policy_grows_refl
    by (auto simp: create_loop_def dm_insertIfAbsent_def dm_get_def Let_def
      split: sum.split_asm option.split_asm if_split_asm prod.split_asm)
next
  case (step_update patch i now)
  then show ?thesis unfolding update_loop_def
    using dm_update_grows[OF assms(2)] apply_loop_patch_grows by blast
next
  case (step_editPlaybook i edit now)
  moreover have "pt_restore (empty_patch\<lparr>pt_playbookEdit := Some edit\<rparr>) = None" by (simp add: empty_patch_def)
  ultimately show ?thesis unfolding editPlaybook_def update_loop_def
    using dm_update_grows[OF assms(2)] apply_loop_patch_grows by blast
next
  case (step_setState i st)
  show ?thesis unfolding step_setState setState_def
    by (rule loop_merge_grows[OF assms(2)], rule policy_grows_frame) (simp_all add: set_state_def)
next
  case (step_setHealth i health reason throttle)
  show ?thesis unfolding step_setHealth setHealth_def
    by (rule loop_merge_grows[OF assms(2)], rule policy_grows_frame) simp_all
next
  case (step_recordFire i failed now)
  show ?thesis unfolding step_recordFire recordFireOutcome_def
    by (rule loop_merge_grows[OF assms(2)], rule policy_grows_frame) simp_all
qed

lemma loop_steps_grow:
  assumes "(loop_step sha rate)\<^sup>*\<^sup>* s s'" and "dm_get s j = Some lp"
  shows "\<exists>lp'. dm_get s' j = Some lp' \<and> policy_grows lp lp'"
  using assms(1)
proof (induction rule: rtranclp_induct)
  case base
  show ?case using assms(2) policy_grows_refl by blast
next
  case (step t u)
  then obtain lp1 where "dm_get t j = Some lp1" "policy_grows lp lp1" by blast
  moreover obtain lp2 where "dm_get u j = Some lp2" "policy_grows lp1 lp2"
    using loop_step_grows[OF step.hyps(2) calculation(1)] by blast
  ultimately show ?case using policy_grows_trans by blast
qed

lemma decideShip_by_grant:
  assumes "decideShip lp cand grants = ship_by_grant gid"
  shows "\<exists>g \<in> set grants. grantCovers g lp cand"
  using assms find_SomeD
  by (fastforce simp: decideShip_def split: option.split_asm ShipGate.split_asm)

text \<open>C17: A standing grant ends with the policy it was given for. Whatever operations other than a
  restore or a deletion follow, the version of a loop's policy does not fall; when an output is then
  shipped because of a grant that was given at some version up to the one the loop had before, the
  playbook and the declared actions are still those of that time, and the grant is unrevoked and for this
  action and label.\<close>

theorem ship_grants_end_with_policy:
  assumes "(loop_step sha rate)\<^sup>*\<^sup>* s s'"
    and "dm_get s i = Some lp" and "dm_get s' i = Some lp'"
    and "\<forall>g \<in> set grants. sg_loopId g = tb_id lp \<longrightarrow> sg_policyVersion g \<le> current_policy lp"
  shows "current_policy lp \<le> current_policy lp' \<and>
    (decideShip lp' cand grants = ship_by_grant gid \<longrightarrow>
      lp_playbook lp' = lp_playbook lp \<and> lp_shipActions lp' = lp_shipActions lp \<and>
      (\<exists>g \<in> set grants. sg_revokedAt g = None \<and> sg_shipAction g = sc_shipAction cand \<and>
         (sg_label g = None \<or> sg_label g = sc_label cand)))"
proof -
  from loop_steps_grow[OF assms(1,2)] assms(3) have grows: "policy_grows lp lp'" by simp
  then have "current_policy lp \<le> current_policy lp'" by (simp add: policy_grows_def)
  moreover have "decideShip lp' cand grants = ship_by_grant gid \<longrightarrow>
      lp_playbook lp' = lp_playbook lp \<and> lp_shipActions lp' = lp_shipActions lp \<and>
      (\<exists>g \<in> set grants. sg_revokedAt g = None \<and> sg_shipAction g = sc_shipAction cand \<and>
         (sg_label g = None \<or> sg_label g = sc_label cand))"
  proof
    assume "decideShip lp' cand grants = ship_by_grant gid"
    then obtain g where g: "g \<in> set grants" "grantCovers g lp' cand" using decideShip_by_grant by blast
    then have facts: "sg_loopId g = tb_id lp'" "sg_policyVersion g = current_policy lp'" "sg_revokedAt g = None"
      "sg_shipAction g = sc_shipAction cand" "sg_label g = None \<or> sg_label g = sc_label cand"
      by (auto simp: grantCovers_def split: if_split_asm)
    moreover have "sg_loopId g = tb_id lp" using facts(1) grows by (simp add: policy_grows_def)
    ultimately have "current_policy lp' \<le> current_policy lp" using assms(4) g(1) by auto
    with grows facts g(1) show "lp_playbook lp' = lp_playbook lp \<and> lp_shipActions lp' = lp_shipActions lp \<and>
      (\<exists>g \<in> set grants. sg_revokedAt g = None \<and> sg_shipAction g = sc_shipAction cand \<and>
         (sg_label g = None \<or> sg_label g = sc_label cand))"
      by (auto simp: policy_grows_def)
  qed
  ultimately show ?thesis by blast
qed

subsection \<open>A concrete loop\<close>

definition demo_loop_input :: CreateLoopInput where
  "demo_loop_input = \<lparr>ct_ownerScopeId = ''u'', ct_owner = ''u'', ct_createdBy = ''u'', ct_destination = None,
     ct_ownerConsentedAt = None, ct_recipientConsent = None, cl_name = ''mail'', cl_surface = None, cl_sources = None,
     cl_playbook = ''A'', cl_successCondition = ''c'', cl_purpose = None, cl_successChecks = None,
     cl_shipActions = Some [\<lparr>sp_action = ''send'', sp_gate = gate_hold\<rparr>], cl_caps = None, cl_governor = None,
     cl_cronId = None, cl_runAs = None, cl_schedule = None\<rparr>"

definition demo_loop :: Loop where
  "demo_loop = loop_candidate demo_loop_input ''mail'' ''L'' 0"

definition demo_loops :: loop_store where
  "demo_loops = [(''L'', demo_loop)]"

definition demo_candidate :: ShipCandidate where
  "demo_candidate = \<lparr>sc_shipAction = ''send'', sc_label = None\<rparr>"

definition demo_ship_grant :: "int \<Rightarrow> ShipGrant" where
  "demo_ship_grant v = \<lparr>sg_id = ''g'', sg_loopId = ''L'', sg_shipAction = ''send'', sg_label = None, sg_actorId = ''u'',
     sg_policyVersion = v, sg_createdAt = 0, sg_revokedAt = None, sg_revokedBy = None, sg_revocationHistory = None\<rparr>"

definition demo_edit :: "string \<Rightarrow> PlaybookEdit" where
  "demo_edit p = \<lparr>pe_playbook = p, pe_by = ''u'', pe_note = None\<rparr>"

text \<open>The loop at version 1 was granted to send; paused, it still sends under the grant.\<close>

theorem ship_grants_end_with_policy_witness:
  "\<exists>lp'. dm_get (fst (setState ''L'' loop_paused demo_loops)) ''L'' = Some lp' \<and>
     decideShip lp' demo_candidate [demo_ship_grant 1] = ship_by_grant ''g'' \<and> lp_playbook lp' = ''A''"
proof -
  have step: "(loop_step (\<lambda>s. s) (\<lambda>r. [])) \<^sup>*\<^sup>* demo_loops (fst (setState ''L'' loop_paused demo_loops))"
    by (rule r_into_rtranclp) (rule step_setState)
  have get: "dm_get demo_loops ''L'' = Some demo_loop" by (simp add: demo_loops_def dm_get_def)
  have get': "dm_get (fst (setState ''L'' loop_paused demo_loops)) ''L'' = Some (set_state loop_paused demo_loop)"
    by (simp add: demo_loops_def dm_get_def setState_def loop_merge_def dm_update_def)
  have hyp: "\<forall>g \<in> set [demo_ship_grant 1]. sg_loopId g = tb_id demo_loop \<longrightarrow> sg_policyVersion g \<le> current_policy demo_loop"
    by code_simp
  have ship: "decideShip (set_state loop_paused demo_loop) demo_candidate [demo_ship_grant 1] = ship_by_grant ''g''"
    by code_simp
  have "lp_playbook (set_state loop_paused demo_loop) = lp_playbook demo_loop"
    using ship_grants_end_with_policy[OF step get get' hyp] ship by blast
  moreover have "lp_playbook demo_loop = ''A''" by code_simp
  ultimately show ?thesis using get' ship by simp
qed

text \<open>Restoring the loop that was read before reuses a version: a grant given for the playbook \<open>B\<close> covers
  the playbook \<open>C\<close> that is written after the restore.\<close>

theorem restore_revives_grants:
  "\<exists>s1 s2 s3 lp1 lp3. editPlaybook ''L'' (demo_edit ''B'') 1 demo_loops = (s1, Inr (Some lp1)) \<and>
     update_loop ''L'' (empty_patch\<lparr>pt_restore := Some demo_loop\<rparr>) 2 s1 = (s2, Inr (Some demo_loop)) \<and>
     editPlaybook ''L'' (demo_edit ''C'') 3 s2 = (s3, Inr (Some lp3)) \<and> lp_playbook lp3 = ''C'' \<and>
     decideShip lp3 demo_candidate [demo_ship_grant (current_policy lp1)] = ship_by_grant ''g''"
proof -
  define lp where "lp p = demo_loop\<lparr>lp_playbook := p, lp_playbookVersion := 2, lp_policyVersion := Some 2,
    lp_playbookHistory := lp_playbookHistory demo_loop @ [\<lparr>pr_version = 2, pr_at = (if p = ''B'' then 1 else 3), pr_by = ''u'', pr_note = None\<rparr>]\<rparr>" for p
  have edit: "editPlaybook ''L'' (demo_edit ''B'') 1 demo_loops = ([(''L'', lp ''B'')], Inr (Some (lp ''B'')))"
    and edit': "editPlaybook ''L'' (demo_edit ''C'') 3 demo_loops = ([(''L'', lp ''C'')], Inr (Some (lp ''C'')))"
    unfolding lp_def by code_simp+
  have restore: "update_loop ''L'' (empty_patch\<lparr>pt_restore := Some demo_loop\<rparr>) 2 [(''L'', lp ''B'')] =
      (demo_loops, Inr (Some demo_loop))"
    by (simp add: update_loop_def apply_loop_patch_def empty_patch_def dm_update_def demo_loops_def)
  have "decideShip (lp ''C'') demo_candidate [demo_ship_grant (current_policy (lp ''B''))] = ship_by_grant ''g''"
    unfolding lp_def by code_simp
  moreover have "lp_playbook (lp ''C'') = ''C''" by (simp add: lp_def)
  ultimately show ?thesis using edit edit' restore by blast
qed

end
