(* ===== verification/Runner_Properties.thy ===== *)
theory Runner_Properties
  imports Loop_Runner Item_Properties Ship_Policy
begin

text \<open>
  What a fire of a loop guarantees, whatever the effects it calls and the other processes do to the stores
  in the meantime: it leaves no claim behind, and it ships only what the gate lets through. Then the
  governor's verdict as a function of the vital signs.
\<close>

section \<open>Claims during a fire\<close>

text \<open>The ledger holds claims with tokens of others, those in \<open>T\<close>, and at most the claims in \<open>X\<close>.\<close>

definition claims_in :: "string set \<Rightarrow> (string \<times> string) set \<Rightarrow> ledger \<Rightarrow> bool" where
  "claims_in T X s \<longleftrightarrow> ledger_inv s \<and> (\<forall>i t. claim_token s i = Some t \<longrightarrow> t \<in> T \<or> (i, t) \<in> X)"

text \<open>Others and the effects change the items only by operations of the ledger, with tokens from \<open>T\<close>, and the
  runner's own tokens are not among these.\<close>

definition effects_use_ledger :: "(string \<Rightarrow> string) \<Rightarrow> string set \<Rightarrow> 'x effects \<Rightarrow> bool" where
  "effects_use_ledger sha T ef \<longleftrightarrow>
     (\<forall>w. (ledger_step sha T)\<^sup>*\<^sup>* (w_items w) (w_items (ef_others ef w)) \<and> ef_newid ef w \<notin> T) \<and>
     (\<forall>lp w. (ledger_step sha T)\<^sup>*\<^sup>* (w_items w) (w_items (fst (ef_enumerate ef lp w)))) \<and>
     (\<forall>lp it g w. (ledger_step sha T)\<^sup>*\<^sup>* (w_items w) (w_items (fst (ef_work ef lp it g w)))) \<and>
     (\<forall>lp it r w. (ledger_step sha T)\<^sup>*\<^sup>* (w_items w) (w_items (fst (ef_captureOutputs ef lp it r w)))) \<and>
     (\<forall>lp it n r w. (ledger_step sha T)\<^sup>*\<^sup>* (w_items w) (w_items (fst (ef_evaluate ef lp it n r w)))) \<and>
     (\<forall>lp out w. (ledger_step sha T)\<^sup>*\<^sup>* (w_items w) (w_items (fst (ef_ship ef lp out w)))) \<and>
     (\<forall>f out w. ef_authorizeAutoShip ef = Some f \<longrightarrow> (ledger_step sha T)\<^sup>*\<^sup>* (w_items w) (w_items (fst (f out w))))"

lemma claims_in_mono: "claims_in T {} s \<Longrightarrow> claims_in T X s"
  unfolding claims_in_def by blast

lemma claims_in_steps:
  assumes "claims_in T X s" and "(ledger_step sha T)\<^sup>*\<^sup>* s s'"
  shows "claims_in T X s'"
  unfolding claims_in_def
proof (intro conjI allI impI)
  from assms(1) have inv: "ledger_inv s" by (simp add: claims_in_def)
  show "ledger_inv s'" using loop_items.steps_inv[OF assms(2) inv] .
  fix i t assume now: "claim_token s' i = Some t"
  show "t \<in> T \<or> (i, t) \<in> X"
  proof (rule ccontr)
    assume out: "\<not> (t \<in> T \<or> (i, t) \<in> X)"
    then have "claim_token s i \<noteq> Some t" "t \<notin> T" using assms(1) unfolding claims_in_def by blast+
    from loop_claims.stale_stays[OF assms(2) inv this] now show False by simp
  qed
qed

lemma claims_in_shift: "claims_in T X s \<longleftrightarrow> claims_in {} (X \<union> UNIV \<times> T) s"
  unfolding claims_in_def by blast

lemma claims_in_release:
  assumes "claims_in T {(i, t)} s" and "claim_token s i \<noteq> Some t"
  shows "claims_in T {} s"
  using assms unfolding claims_in_def by blast

abbreviation world_ok :: "string set \<Rightarrow> (string \<times> string) set \<Rightarrow> 'x world \<Rightarrow> bool" where
  "world_ok T X w \<equiv> claims_in T X (w_items w)"

lemma effect_ok:
  assumes "effects_use_ledger sha T ef" and "world_ok T X w"
  shows "world_ok T X (ef_others ef w)" "world_ok T X (fst (ef_enumerate ef lp w))" "world_ok T X (fst (ef_work ef lp it g w))"
    "world_ok T X (fst (ef_captureOutputs ef lp it r w))" "world_ok T X (fst (ef_evaluate ef lp it n r w))"
    "world_ok T X (fst (ef_ship ef lp out w))"
proof -
  have "(ledger_step sha T)\<^sup>*\<^sup>* (w_items w) (w_items (ef_others ef w))"
    "(ledger_step sha T)\<^sup>*\<^sup>* (w_items w) (w_items (fst (ef_enumerate ef lp w)))"
    "(ledger_step sha T)\<^sup>*\<^sup>* (w_items w) (w_items (fst (ef_work ef lp it g w)))"
    "(ledger_step sha T)\<^sup>*\<^sup>* (w_items w) (w_items (fst (ef_captureOutputs ef lp it r w)))"
    "(ledger_step sha T)\<^sup>*\<^sup>* (w_items w) (w_items (fst (ef_evaluate ef lp it n r w)))"
    "(ledger_step sha T)\<^sup>*\<^sup>* (w_items w) (w_items (fst (ef_ship ef lp out w)))"
    using assms(1) by (simp_all add: effects_use_ledger_def)
  from this[THEN claims_in_steps[OF assms(2)]]
  show "world_ok T X (ef_others ef w)" "world_ok T X (fst (ef_enumerate ef lp w))" "world_ok T X (fst (ef_work ef lp it g w))"
    "world_ok T X (fst (ef_captureOutputs ef lp it r w))" "world_ok T X (fst (ef_evaluate ef lp it n r w))"
    "world_ok T X (fst (ef_ship ef lp out w))" by simp_all
qed

lemma authorize_ok:
  assumes "effects_use_ledger sha T ef" and "world_ok T X w"
  shows "world_ok T X (fst (authorize ef lp out w))"
proof (cases "ef_authorizeAutoShip ef")
  case (Some f)
  with assms(1) have "(ledger_step sha T)\<^sup>*\<^sup>* (w_items w) (w_items (fst (f out w)))"
    unfolding effects_use_ledger_def by blast
  from claims_in_steps[OF assms(2) this] show ?thesis by (simp add: authorize_def Some)
qed (use assms(2) in \<open>simp add: authorize_def\<close>)

lemma on_outputs_ok:
  assumes "effects_use_ledger sha T ef" and "world_ok T X w"
  shows "world_ok T X (fst (on_outputs ef oper w))" "world_ok T X (supersede_attempt ef item rid w)"
  using effect_ok(1)[OF assms] by (simp_all add: on_outputs_def supersede_attempt_def Let_def split: prod.split)

text \<open>Operations of the ledger that issue no claim; reads leave the ledger as it is.\<close>

definition ledger_op :: "(string \<Rightarrow> string) \<Rightarrow> (int \<Rightarrow> ledger \<Rightarrow> ledger \<times> 'r) \<Rightarrow> bool" where
  "ledger_op sha oper \<longleftrightarrow> (\<forall>now s. fst (oper now s) = s \<or> ledger_step sha {} s (fst (oper now s)))"

lemma ledger_opI: "(\<And>now s s' r. oper now s = (s', r) \<Longrightarrow> ledger_step sha {} s s') \<Longrightarrow> ledger_op sha oper"
  unfolding ledger_op_def by (metis prod.collapse)

lemma ledger_ops:
  "ledger_op sha (enqueue_item sha l k sm)" "ledger_op sha (recordRun i rid tok)"
  "ledger_op sha (markReady_item i outs tok)" "ledger_op sha (markShipped i otok)"
  "ledger_op sha (returnToWork i g otok)" "ledger_op sha (park i g otok)"
  by (rule ledger_opI, erule ledger_step.intros)+

lemma on_items_ok:
  assumes "effects_use_ledger sha T ef" and "world_ok T X w" and "ledger_op sha oper"
  shows "world_ok T X (fst (on_items ef oper w))"
proof -
  let ?w = "ef_others ef w" and ?s = "fst (oper (w_now (ef_others ef w)) (w_items (ef_others ef w)))"
  have ok: "world_ok T X ?w" using effect_ok(1)[OF assms(1,2)] .
  have "(ledger_step sha {})\<^sup>*\<^sup>* (w_items ?w) ?s" using assms(3) 
    unfolding ledger_op_def by (metis r_into_rtranclp rtranclp.rtrancl_refl)
  from claims_in_steps[OF ok[unfolded claims_in_shift[of T]] this] have "claims_in T X ?s" by (simp only: claims_in_shift[of T])
  then show ?thesis by (simp add: on_items_def Let_def case_prod_beta)
qed

lemma read_items_ok:
  assumes "on_items ef (\<lambda>now s. (s, f s)) w = (w', r)" and "effects_use_ledger sha T ef" and "world_ok T X w"
  shows "world_ok T X w'" and "r = f (w_items w')"
proof -
  have w': "w' = ef_others ef w" "r = f (w_items (ef_others ef w))"
    using assms(1) by (simp_all add: on_items_def Let_def) (metis world.surjective world.update_convs(2))
  show "world_ok T X w'" unfolding w'(1) by (rule effect_ok(1)[OF assms(2,3)])
  show "r = f (w_items w')" by (simp add: w')
qed

text \<open>An operation that ends a claim with the claim's token.\<close>

definition ends_claim :: "string \<Rightarrow> string \<Rightarrow> (int \<Rightarrow> ledger \<Rightarrow> ledger \<times> 'r) \<Rightarrow> bool" where
  "ends_claim i t oper \<longleftrightarrow> (\<forall>now s. ledger_inv s \<longrightarrow> claim_token (fst (oper now s)) i \<noteq> Some t)"

lemma claimed_in_progress:
  assumes "ledger_inv s" and "claim_token s i = Some t"
  obtains it where "get_item i s = Some it" "li_claimToken it = Some t" "li_status it = in_progress"
proof -
  from assms(2) obtain it where it: "get_item i s = Some it" "li_claimToken it = Some t"
    unfolding claim_token_def bind_eq_Some_conv by blast
  moreover from this assms(1) have "item_ok it" unfolding ledger_inv_def by blast
  ultimately show ?thesis using that unfolding item_ok_def by fastforce
qed

lemma transition_ends_claim:
  assumes "in_progress \<in> set allowed" and "\<And>it. li_claimToken (change now it) = None" and "ledger_inv s"
  shows "claim_token (fst (item_transition i allowed (change now) (Some t) e now s)) i \<noteq> Some t"
proof -
  obtain s' r where tr: "item_transition i allowed (change now) (Some t) e now s = (s', r)" by fastforce
  then have get: "get_item i s' = (if r \<noteq> None then r else get_item i s)"
    using update_if_get[of i _ e now s s' r i] by (simp add: item_transition_def)
  show ?thesis
  proof (cases "claim_token s i = Some t")
    case True
    from claimed_in_progress[OF assms(3) this] obtain it
      where it: "get_item i s = Some it" "li_claimToken it = Some t" "li_status it = in_progress" .
    with transition_result[OF tr] assms(1) have "r = Some (change now it)" by simp
    then show ?thesis using get assms(2) by (simp add: tr claim_token_def)
  next
    case False
    show ?thesis
    proof (cases "get_item i s")
      case None
      then show ?thesis using transition_result[OF tr] get by (simp add: tr claim_token_def)
    next
      case (Some it)
      then show ?thesis using transition_result[OF tr] get False assms(2)
        by (simp add: tr claim_token_def split: if_split_asm)
    qed
  qed
qed

lemma ends_claims:
  "ends_claim i t (markReady_item i outs t)" "ends_claim i t (markShipped i (Some t))"
  "ends_claim i t (returnToWork i g (Some t))" "ends_claim i t (park i g (Some t))"
  unfolding ends_claim_def markReady_item_def markShipped_def returnToWork_def park_def
  by (intro allI impI, rule transition_ends_claim, simp_all)+

lemma on_items_ends_claim:
  assumes "effects_use_ledger sha T ef" and "world_ok T {(i, t)} w" and "ledger_op sha oper" and "ends_claim i t oper"
  shows "world_ok T {} (fst (on_items ef oper w))"
proof (rule claims_in_release)
  show "world_ok T {(i, t)} (fst (on_items ef oper w))" using on_items_ok[OF assms(1-3)] .
  have "ledger_inv (w_items (ef_others ef w))" using effect_ok(1)[OF assms(1,2)] by (simp add: claims_in_def)
  then show "claim_token (w_items (fst (on_items ef oper w))) i \<noteq> Some t"
    using assms(4) by (simp add: ends_claim_def on_items_def Let_def case_prod_beta)
qed

section \<open>The parts of a fire\<close>

lemma capture_all_ok:
  assumes "effects_use_ledger sha T ef"
  shows "world_ok T X w \<Longrightarrow> world_ok T X (fst (capture_all sha ef lp item rid n arts w))"
proof (induction arts arbitrary: n w)
  case (Cons a arts)
  obtain w1 out where 1: "on_outputs ef (capture sha (a\<lparr>co_loopId := tb_id lp, co_itemId := li_id item,
      co_attemptId := rid, co_ordinal := Some (int n)\<rparr>)) w = (w1, out)" by fastforce
  with on_outputs_ok(1)[OF assms Cons.prems] have "world_ok T X w1" by (metis fst_conv)
  from Cons.IH[OF this] show ?case by (simp add: 1 case_prod_beta)
qed simp

lemma ship_ready_ok:
  assumes "effects_use_ledger sha T ef"
  shows "world_ok T X w \<Longrightarrow> world_ok T X (fst (ship_ready ef lp grants outs shipped w))"
proof (induction outs arbitrary: shipped w)
  case (Cons out outs)
  obtain w1 r where 1: "authorize ef lp out w = (w1, r)" by fastforce
  with authorize_ok[OF assms Cons.prems] have w1: "world_ok T X w1" by (metis fst_conv)
  have w2: "world_ok T X w2" if "ef_ship ef l out w1 = (w2, q)" for l w2 q
    using effect_ok(6)[OF assms w1] that by (metis fst_conv)
  show ?case using Cons w1
    by (auto simp: 1 split: sum.split option.split prod.split dest!: w2)
qed simp

lemma enqueue_all_ok:
  assumes "effects_use_ledger sha T ef"
  shows "world_ok T X w \<Longrightarrow> world_ok T X (fst (enqueue_all sha ef lp cs n w))"
proof (induction cs arbitrary: n w)
  case (Cons c cs)
  obtain w1 it b where 1: "on_items ef (enqueue_item sha (tb_id lp) (ic_sourceKey c) (ic_sourceSummary c)) w = (w1, it, b)"
    by (metis prod_cases3)
  with on_items_ok[OF assms Cons.prems ledger_ops(1)] have "world_ok T X w1" by (metis fst_conv)
  from Cons.IH[OF this] show ?case by (simp add: 1)
qed simp

text \<open>After the \<open>try\<close> block the claim is over, unless an effect threw before anything was shipped.\<close>

fun attempt_post :: "string set \<Rightarrow> string \<Rightarrow> string \<Rightarrow> 'x world \<times> attempt_end \<Rightarrow> bool" where
  "attempt_post T i t (w, Ended _) = world_ok T {} w"
| "attempt_post T i t (w, Threw e n m) = (world_ok T {(i, t)} w \<and> (0 < n \<longrightarrow> world_ok T {} w))"

lemma finish_ready_post:
  assumes "effects_use_ledger sha T ef" and "world_ok T {} w"
  shows "attempt_post T i t (finish_ready ef lp grants item rid summary w)"
proof -
  obtain w1 ready where 1: "on_outputs ef (promoteAttempt (li_id item) rid) w = (w1, ready)" by fastforce
  with on_outputs_ok(1)[OF assms] have w1: "world_ok T {} w1" by (metis fst_conv)
  obtain w2 shipped e where 2: "ship_ready ef lp grants ready [] w1 = (w2, shipped, e)" by (metis prod_cases3)
  with ship_ready_ok[OF assms(1) w1] have w2: "world_ok T {} w2" by (metis fst_conv)
  show ?thesis
    using w2 claims_in_mono[OF w2] on_items_ok[OF assms(1) w2 ledger_ops(4)]
    by (simp add: finish_ready_def 1 2 Let_def split: option.split)
qed

lemma settle_attempt_post:
  assumes "effects_use_ledger sha T ef" and "world_ok T {(li_id item, t)} w"
  shows "attempt_post T (li_id item) t (settle_attempt ef lp grants item t rid captured summary w)"
proof -
  obtain w1 r where 1: "ef_evaluate ef lp item (li_attempts item) rid w = (w1, r)" by fastforce
  with effect_ok(5)[OF assms] have w1: "world_ok T {(li_id item, t)} w1" by (metis fst_conv)
  have sup: "world_ok T {(li_id item, t)} (supersede_attempt ef item rid w1)" using on_outputs_ok(2)[OF assms(1) w1] .
  note over = on_items_ends_claim[OF assms(1)]
  show ?thesis
  proof (cases r)
    case (Inl e)
    then show ?thesis using w1 by (simp add: settle_attempt_def 1)
  next
    case (Inr verdict)
    obtain w2 q where 2: "on_items ef (markReady_item (li_id item) (map lo_id captured) t) w1 = (w2, q)" by fastforce
    with over[OF w1 ledger_ops(3) ends_claims(1)] have w2: "world_ok T {} w2" by (metis fst_conv)
    show ?thesis
      using over[OF sup ledger_ops(6) ends_claims(4)] over[OF sup ledger_ops(5) ends_claims(3)]
        over[OF w1 ledger_ops(4) ends_claims(2)] on_outputs_ok(2)[OF assms(1) w2] finish_ready_post[OF assms(1) w2]
      by (simp add: settle_attempt_def 1 2 Inr split: SuccessOutcome.split option.split)
  qed
qed

lemma recordRun_refused:
  assumes "effects_use_ledger sha T ef" and "world_ok T {(i, t)} w" and "on_items ef (recordRun i rid t) w = (w', None)"
  shows "world_ok T {} w'"
proof (rule claims_in_release)
  show ok: "world_ok T {(i, t)} w'" using on_items_ok[OF assms(1,2) ledger_ops(2)] assms(3) by (metis fst_conv)
  obtain now s where rr: "recordRun i rid t now s = (w_items w', None)" "ledger_inv s"
    using assms(3) effect_ok(1)[OF assms(1,2)]
    by (auto simp: on_items_def Let_def claims_in_def split: prod.split_asm)
  then have "get_item i (w_items w') = get_item i s" using transition_refused unfolding recordRun_def by blast
  moreover have "claim_token s i \<noteq> Some t"
  proof
    assume "claim_token s i = Some t"
    from claimed_in_progress[OF rr(2) this] obtain it
      where "get_item i s = Some it" "li_claimToken it = Some t" "li_status it = in_progress" .
    with transition_result[OF rr(1)[unfolded recordRun_def]] show False by simp
  qed
  ultimately show "claim_token (w_items w') i \<noteq> Some t" by (simp add: claim_token_def)
qed

lemma not_held_released:
  assumes "effects_use_ledger sha T ef" and "world_ok T {(i, t)} w"
    and "on_items ef (\<lambda>now s. (s, get_item i s)) w = (w', it)" and "\<not> still_held t it"
  shows "world_ok T {} w'"
proof (rule claims_in_release)
  show ok: "world_ok T {(i, t)} w'" by (rule read_items_ok(1)[OF assms(3,1,2)])
  have it: "it = get_item i (w_items w')" by (rule read_items_ok(2)[OF assms(3,1,2)])
  have inv: "ledger_inv (w_items w')" using ok by (simp add: claims_in_def)
  show "claim_token (w_items w') i \<noteq> Some t"
  proof
    assume "claim_token (w_items w') i = Some t"
    from claimed_in_progress[OF inv this] obtain x
      where "get_item i (w_items w') = Some x" "li_claimToken x = Some t" "li_status x = in_progress" .
    with assms(4) show False by (simp add: it still_held_def)
  qed
qed

lemma attempt_item_post:
  assumes "effects_use_ledger sha T ef" and "world_ok T {(li_id item, t)} w"
  shows "attempt_post T (li_id item) t (attempt_item sha ef lp grants item t summary w)"
proof -
  obtain w1 r where 1: "ef_work ef lp item (li_guidance item) w = (w1, r)" by fastforce
  with effect_ok(3)[OF assms] have w1: "world_ok T {(li_id item, t)} w1" by (metis fst_conv)
  show ?thesis
  proof (cases r)
    case (Inl e)
    then show ?thesis using w1 by (simp add: attempt_item_def 1)
  next
    case (Inr rid)
    obtain w2 q where 2: "on_items ef (recordRun (li_id item) rid t) w1 = (w2, q)" by fastforce
    with on_items_ok[OF assms(1) w1 ledger_ops(2)] have w2: "world_ok T {(li_id item, t)} w2" by (metis fst_conv)
    obtain w3 arts where 3: "ef_captureOutputs ef lp item rid w2 = (w3, arts)" by fastforce
    with effect_ok(4)[OF assms(1) w2] have w3: "world_ok T {(li_id item, t)} w3" by (metis fst_conv)
    obtain w4 captured where 4: "capture_all sha ef lp item rid 0 (projr arts) w3 = (w4, captured)" by fastforce
    with capture_all_ok[OF assms(1) w3] have w4: "world_ok T {(li_id item, t)} w4" by (metis fst_conv)
    obtain w5 it where 5: "on_items ef (\<lambda>now s. (s, get_item (li_id item) s)) w4 = (w5, it)" by fastforce
    have w5: "world_ok T {(li_id item, t)} w5" by (rule read_items_ok(1)[OF 5 assms(1) w4])
    have lost: "q = None \<Longrightarrow> world_ok T {} w2" using recordRun_refused[OF assms(1) w1] 2 by simp
    have gone: "\<not> still_held t it \<Longrightarrow> world_ok T {} (supersede_attempt ef item rid w5)"
      using on_outputs_ok(2)[OF assms(1) not_held_released[OF assms(1) w4 5]] .
    have sup: "world_ok T {(li_id item, t)} (supersede_attempt ef item rid w5)" using on_outputs_ok(2)[OF assms(1) w5] .
    note parked = on_items_ends_claim[OF assms(1) sup ledger_ops(6) ends_claims(4)]
    show ?thesis
    proof (cases arts)
      case (Inl e)
      then show ?thesis using w3 lost by (simp add: attempt_item_def 1 2 3 Inr split: option.split)
    next
      case arts: (Inr as)
      with 4 have 4: "capture_all sha ef lp item rid 0 as w3 = (w4, captured)" by simp
      show ?thesis using lost gone parked settle_attempt_post[OF assms(1) w5]
        by (simp add: attempt_item_def 1 2 3 4 5 Inr arts Let_def split: option.split)
    qed
  qed
qed

lemma recover_ok:
  assumes "effects_use_ledger sha T ef" and "attempt_post T (li_id item) t (w, Threw e n m)"
  shows "world_ok T {} (fst (recover ef maxAttempts item t e n m summary w))"
proof (cases "0 < n")
  case True
  then have "world_ok T {} w" using assms(2) by simp
  from on_items_ok[OF assms(1) this ledger_ops(6)] show ?thesis using True by (simp add: recover_def Let_def)
next
  case False
  have w: "world_ok T {(li_id item, t)} w" using assms(2) by simp
  obtain w1 latest where 1: "on_items ef (\<lambda>now s. (s, get_item (li_id item) s)) w = (w1, latest)" by fastforce
  have w1: "world_ok T {(li_id item, t)} w1" by (rule read_items_ok(1)[OF 1 assms(1) w])
  have w2: "world_ok T {(li_id item, t)} (if b then supersede_attempt ef item r w1 else w1)" for b r
    using w1 on_outputs_ok(2)[OF assms(1) w1] by simp
  show ?thesis
    using False on_items_ends_claim[OF assms(1) w2 ledger_ops(6) ends_claims(4)]
      on_items_ends_claim[OF assms(1) w2 ledger_ops(5) ends_claims(3)]
    by (simp add: recover_def Let_def 1)
qed

lemma claim_for_fire_ok:
  assumes "effects_use_ledger sha T ef" and "world_ok T {} w" and "claim_for_fire ef i w = (w1, r)"
  shows "r = None \<Longrightarrow> world_ok T {} w1"
    and "r = Some item \<Longrightarrow> world_ok T {(li_id item, the (li_claimToken item))} w1"
proof -
  let ?w = "ef_others ef w" and ?t = "ef_newid ef (ef_others ef w)"
  have ok: "world_ok T {} ?w" using effect_ok(1)[OF assms(1,2)] .
  obtain s where s: "claim_item i (w_now ?w) ?t (w_items ?w) = (s, r)" "w1 = ?w\<lparr>w_items := s\<rparr>"
    using assms(3) by (auto simp: claim_for_fire_def Let_def split: prod.split_asm)
  have step: "ledger_step sha {?t} (w_items ?w) s" using ledger_step.intros(9)[OF _ s(1)] by simp
  have inv: "ledger_inv (w_items ?w)" "ledger_inv s"
    using ok ledger_step_inv[OF _ step] by (auto simp: claims_in_def)
  have get: "get_item j s = (if j = i \<and> r \<noteq> None then r else get_item j (w_items ?w))" for j
    using update_if_get s(1) unfolding claim_item_def by blast
  show "world_ok T {} w1" if "r = None"
    using ok inv(2) get that by (simp add: s(2) claims_in_def claim_token_def)
  show "world_ok T {(li_id item, the (li_claimToken item))} w1" if r: "r = Some item"
  proof -
    have "get_item i s = Some item" using get[of i] r by simp
    then have "li_id item = i" using inv(2) by (auto simp: ledger_inv_def)
    then show ?thesis using ok inv(2) get r by (auto simp: s(2) claims_in_def claim_token_def)
  qed
qed

lemma fire_round_ok:
  assumes "effects_use_ledger sha T ef" and "world_ok T {} w"
  shows "world_ok T {} (fst (fire_round sha ef lp grants maxAttempts i summary w))"
proof -
  obtain w1 r where 1: "claim_for_fire ef i w = (w1, r)" by fastforce
  show ?thesis
  proof (cases r)
    case None
    then show ?thesis using claim_for_fire_ok(1)[OF assms 1] by (simp add: fire_round_def 1)
  next
    case (Some item)
    let ?t = "the (li_claimToken item)" and ?sum = "summary\<lparr>fs_worked := Suc (fs_worked summary)\<rparr>"
    obtain w2 q where 2: "attempt_item sha ef lp grants item ?t ?sum w1 = (w2, q)" by fastforce
    from attempt_item_post[OF assms(1) claim_for_fire_ok(2)[OF assms 1 Some]] 2
    have post: "attempt_post T (li_id item) ?t (w2, q)" by metis
    then show ?thesis using recover_ok[OF assms(1)]
      by (cases q) (simp_all add: fire_round_def 1 Some 2 Let_def)
  qed
qed

lemma fire_batch_ok:
  assumes "effects_use_ledger sha T ef"
  shows "world_ok T {} w \<Longrightarrow> world_ok T {} (fst (fire_batch sha ef lp grants maxAttempts is summary w))"
proof (induction "is" arbitrary: summary w)
  case (Cons i "is")
  from fire_round_ok[OF assms Cons.prems] Cons.IH show ?case by (simp add: case_prod_beta)
qed simp

lemma intake_ok:
  assumes "effects_use_ledger sha T ef" and "world_ok T {} w"
  shows "world_ok T {} (fst (intake sha ef lp summary w))"
proof -
  obtain w1 r where 1: "ef_enumerate ef lp w = (w1, r)" by fastforce
  with effect_ok(2)[OF assms] have w1: "world_ok T {} w1" by (metis fst_conv)
  then show ?thesis using enqueue_all_ok[OF assms(1) w1]
    by (auto simp: intake_def 1 case_prod_beta split: sum.split fire_error.split)
qed

text \<open>C18: A fire leaves no claim behind. Whatever the effects return or throw, and whatever other processes do
  to the items between the runner's steps by operations of the ledger with tokens of their own, all
  claims that are left when the fire is over carry tokens of others: every item the fire claimed was
  shipped, held for review, returned to the queue, parked, or taken over.\<close>

theorem fire_leaves_no_claim:
  assumes "effects_use_ledger sha T ef" and "ledger_inv (w_items w)"
    and "\<forall>i t. claim_token (w_items w) i = Some t \<longrightarrow> t \<in> T"
  shows "\<forall>i t. claim_token (w_items (fst (runLoopFire sha ef lp grants w))) i = Some t \<longrightarrow>
      t \<in> T \<and> (\<forall>v. ef_newid ef v \<noteq> t)"
proof -
  have w: "world_ok T {} w" using assms(2,3) by (simp add: claims_in_def)
  have rec: "world_ok T {} (record_fire ef i b v)" if "world_ok T {} v" for i b v
    using effect_ok(1)[OF assms(1) that] by (simp add: record_fire_def Let_def)
  obtain w1 n where 1: "on_outputs ef (\<lambda>now s. (s, length (filter unresolvedOutput (outputs_of_loop (tb_id lp) s)))) w = (w1, n)"
    by fastforce
  with on_outputs_ok(1)[OF assms(1) w] have w1: "world_ok T {} w1" by (metis fst_conv)
  obtain w2 r where 2: "intake sha ef lp (emptySummary lp True) w1 = (w2, r)" by fastforce
  with intake_ok[OF assms(1) w1] have w2: "world_ok T {} w2" by (metis fst_conv)
  obtain w3 queued where 3: "on_items ef (\<lambda>now s. (s, queued_items (tb_id lp) (Option.bind (lp_caps lp) cap_maxItemsPerFire) s)) w2 =
      (w3, queued)" by fastforce
  have w3: "world_ok T {} w3" by (rule read_items_ok(1)[OF 3 assms(1) w2])
  have "world_ok T {} (fst (runLoopFire sha ef lp grants w))"
    using w w2 rec[OF w1] rec[OF fire_batch_ok[OF assms(1) w3]]
    by (auto simp: runLoopFire_def Let_def 1 2 3 case_prod_beta split: sum.split option.split)
  moreover have "ef_newid ef v \<notin> T" for v using assms(1) by (simp add: effects_use_ledger_def)
  ultimately show ?thesis unfolding claims_in_def by blast
qed

definition demo_effects :: "unit effects" where
  "demo_effects = \<lparr>ef_others = (\<lambda>w. w), ef_newid = (\<lambda>w. ''t''),
     ef_enumerate = (\<lambda>lp w. (w, Inr [\<lparr>ic_sourceKey = ''k'', ic_sourceSummary = None\<rparr>])),
     ef_work = (\<lambda>lp it g w. (w, Inl (OtherError ''boom''))), ef_captureOutputs = (\<lambda>lp it r w. (w, Inr [])),
     ef_evaluate = (\<lambda>lp it n r w. (w, Inl (OtherError ''unused''))), ef_ship = (\<lambda>lp out w. (w, Inr None)),
     ef_authorizeAutoShip = None\<rparr>"

definition demo_fire_world :: "unit world" where
  "demo_fire_world = \<lparr>w_loops = [], w_items = empty_ledger, w_outputs = [], w_now = 5, w_env = ()\<rparr>"

text \<open>A fire whose work throws: the item it claimed is back in the queue.\<close>

theorem fire_leaves_no_claim_witness:
  "let r = runLoopFire (\<lambda>s. s) demo_effects demo_loop [] demo_fire_world; i = loopItemId (\<lambda>s. s) ''L'' ''k'' in
   claim_token (w_items (fst r)) i = None \<and> map_option li_status (get_item i (w_items (fst r))) = Some queued_item \<and>
   map_sum error_message fs_continued (snd r) = Inr [i]"
proof -
  have ef: "effects_use_ledger (\<lambda>s. s) {} demo_effects"
    by (simp add: effects_use_ledger_def demo_effects_def)
  have "claim_token (w_items demo_fire_world) i = None" for i
    by (simp add: demo_fire_world_def empty_ledger_def claim_token_def get_item_def dm_get_def)
  then have none: "\<forall>i t. claim_token (w_items demo_fire_world) i = Some t \<longrightarrow> t \<in> {}" by simp
  have inv: "ledger_inv (w_items demo_fire_world)"
    by (simp add: demo_fire_world_def empty_ledger_def ledger_inv_def get_item_def dm_get_def)
  have "claim_token (w_items (fst (runLoopFire (\<lambda>s. s) demo_effects demo_loop [] demo_fire_world))) i = None" for i
    using fire_leaves_no_claim[OF ef inv none, of demo_loop "[]"] by (metis empty_iff not_None_eq)
  moreover have "map_option li_status (get_item (loopItemId (\<lambda>s. s) ''L'' ''k'')
      (w_items (fst (runLoopFire (\<lambda>s. s) demo_effects demo_loop [] demo_fire_world)))) = Some queued_item"
    by code_simp
  moreover have "map_sum error_message fs_continued (snd (runLoopFire (\<lambda>s. s) demo_effects demo_loop [] demo_fire_world)) =
      Inr [loopItemId (\<lambda>s. s) ''L'' ''k'']"
    by code_simp
  ultimately show ?thesis by (simp only: Let_def)
qed

section \<open>What a fire ships\<close>

text \<open>A fire with another way to ship, equal to the first on the outputs the gate lets through.\<close>

lemma ship_ready_cong:
  assumes "\<And>l out v. auto_ship lp grants out \<Longrightarrow> ef_ship ef l out v = ship' l out v"
  shows "ship_ready (ef\<lparr>ef_ship := ship'\<rparr>) lp grants outs shipped w = ship_ready ef lp grants outs shipped w"
proof (induction outs arbitrary: shipped w)
  case (Cons out outs)
  have "authorize (ef\<lparr>ef_ship := ship'\<rparr>) lp out w = authorize ef lp out w" by (simp add: authorize_def)
  then show ?case using Cons assms by (simp split: prod.split sum.split option.split)
qed simp

lemma store_ops_cong:
  "on_items (ef\<lparr>ef_ship := ship'\<rparr>) = on_items ef" "on_outputs (ef\<lparr>ef_ship := ship'\<rparr>) = on_outputs ef"
  "record_fire (ef\<lparr>ef_ship := ship'\<rparr>) = record_fire ef" "supersede_attempt (ef\<lparr>ef_ship := ship'\<rparr>) = supersede_attempt ef"
  "claim_for_fire (ef\<lparr>ef_ship := ship'\<rparr>) = claim_for_fire ef"
  by (simp_all add: on_items_def on_outputs_def record_fire_def supersede_attempt_def claim_for_fire_def fun_eq_iff)

lemma capture_all_cong:
  "capture_all sha (ef\<lparr>ef_ship := ship'\<rparr>) lp item rid n arts w = capture_all sha ef lp item rid n arts w"
  by (induction arts arbitrary: n w) (simp_all add: store_ops_cong split: prod.split)

lemma enqueue_all_cong:
  "enqueue_all sha (ef\<lparr>ef_ship := ship'\<rparr>) lp cs n w = enqueue_all sha ef lp cs n w"
  by (induction cs arbitrary: n w) (simp_all add: store_ops_cong split: prod.split)

lemma other_parts_cong:
  "recover (ef\<lparr>ef_ship := ship'\<rparr>) = recover ef" "intake sha (ef\<lparr>ef_ship := ship'\<rparr>) = intake sha ef"
  unfolding recover_def intake_def fun_eq_iff store_ops_cong enqueue_all_cong by simp_all

lemma attempt_item_cong:
  assumes "\<And>l out v. auto_ship lp grants out \<Longrightarrow> ef_ship ef l out v = ship' l out v"
  shows "attempt_item sha (ef\<lparr>ef_ship := ship'\<rparr>) lp grants = attempt_item sha ef lp grants"
proof -
  have ship: "ship_ready (ef\<lparr>ef_ship := ship'\<rparr>) lp grants outs shipped w = ship_ready ef lp grants outs shipped w"
    for outs shipped w by (rule ship_ready_cong) (rule assms)
  have finish: "finish_ready (ef\<lparr>ef_ship := ship'\<rparr>) lp grants = finish_ready ef lp grants"
    unfolding finish_ready_def fun_eq_iff store_ops_cong ship by simp
  have settle: "settle_attempt (ef\<lparr>ef_ship := ship'\<rparr>) lp grants = settle_attempt ef lp grants"
    unfolding settle_attempt_def fun_eq_iff store_ops_cong finish by simp
  show ?thesis unfolding attempt_item_def fun_eq_iff store_ops_cong capture_all_cong settle by simp
qed

lemma fire_batch_cong:
  assumes "\<And>l out v. auto_ship lp grants out \<Longrightarrow> ef_ship ef l out v = ship' l out v"
  shows "fire_batch sha (ef\<lparr>ef_ship := ship'\<rparr>) lp grants n is summary w = fire_batch sha ef lp grants n is summary w"
proof (induction "is" arbitrary: summary w)
  case (Cons i "is")
  have attempt: "attempt_item sha (ef\<lparr>ef_ship := ship'\<rparr>) lp grants = attempt_item sha ef lp grants"
    by (rule attempt_item_cong) (rule assms)
  have "fire_round sha (ef\<lparr>ef_ship := ship'\<rparr>) lp grants = fire_round sha ef lp grants"
    unfolding fire_round_def fun_eq_iff store_ops_cong other_parts_cong attempt by simp
  then show ?case by (simp add: Cons)
qed simp

text \<open>A fire ships only what the gate lets through. Its course and its result do not depend on what
  shipping would do with an output whose action the loop has not declared, or declared to be held and
  without a standing grant: the effect is never called on such an output.\<close>

theorem fire_ships_only_gated:
  assumes "\<forall>l out v. decideShip lp (outputCandidate out) grants \<noteq> ship_hold \<and>
      decideShip lp (outputCandidate out) grants \<noteq> ship_undeclared \<longrightarrow> ef_ship ef l out v = ship' l out v"
  shows "runLoopFire sha (ef\<lparr>ef_ship := ship'\<rparr>) lp grants w = runLoopFire sha ef lp grants w"
proof -
  have agree: "ef_ship ef l out v = ship' l out v" if "auto_ship lp grants out" for l out v
    using that assms unfolding auto_ship_def
    by (cases "decideShip lp (outputCandidate out) grants") auto
  have batch: "fire_batch sha (ef\<lparr>ef_ship := ship'\<rparr>) lp grants n is summary v = fire_batch sha ef lp grants n is summary v"
    for n "is" summary v by (rule fire_batch_cong) (rule agree)
  show ?thesis unfolding runLoopFire_def store_ops_cong other_parts_cong batch ..
qed

text \<open>The loop holds what it sends: shipping may as well throw.\<close>

theorem fire_ships_only_gated_witness:
  "runLoopFire (\<lambda>s. s) (demo_effects\<lparr>ef_ship := (\<lambda>l out v. (v, Inl (OtherError ''shipped'')))\<rparr>) demo_loop [] demo_fire_world =
   runLoopFire (\<lambda>s. s) demo_effects demo_loop [] demo_fire_world"
proof (rule fire_ships_only_gated)
  have "lp_shipActions demo_loop = [\<lparr>sp_action = ''send'', sp_gate = gate_hold\<rparr>]" by code_simp
  then show "\<forall>l out v. decideShip demo_loop (outputCandidate out) [] \<noteq> ship_hold \<and>
      decideShip demo_loop (outputCandidate out) [] \<noteq> ship_undeclared \<longrightarrow>
      ef_ship demo_effects l out v = (v, Inl (OtherError ''shipped''))"
    by (simp add: decideShip_def declaredGate_def)
qed

section \<open>The governor's verdict\<close>

definition quarantine_sign :: "Loop \<Rightarrow> LoopVitals \<Rightarrow> bool" where
  "quarantine_sign lp v \<longleftrightarrow> nullish (vt_undeclaredShipActions v) [] \<noteq> [] \<or>
     config_maxFailed lp \<le> int (nullish (lp_consecutiveFailedFires lp) 0)"

definition returns_sign :: "Loop \<Rightarrow> LoopVitals \<Rightarrow> bool" where
  "returns_sign lp v \<longleftrightarrow> config_minDecisions lp \<le> int (vt_decidedOutputs v) \<and> config_maxReturnRate lp < returnRate v"

definition depth_sign :: "Loop \<Rightarrow> LoopVitals \<Rightarrow> bool" where
  "depth_sign lp v \<longleftrightarrow>
     (\<exists>d. Option.bind (lp_governor lp) gc_maxQueueDepth = Some d \<and> d < int (qs_queued (vt_queue v)))"

definition waiting_sign :: "Loop \<Rightarrow> LoopVitals \<Rightarrow> int \<Rightarrow> bool" where
  "waiting_sign lp v now \<longleftrightarrow>
     (\<exists>a. Option.bind (lp_governor lp) gc_maxQueueAgeMs = Some a \<and> a < nullish (qs_oldestQueuedAgeMs (vt_queue v)) 0) \<or>
     (\<exists>t. Option.bind (lp_governor lp) gc_staleFireMs = Some t \<and> t < now - nullish (tb_lastFiredAt lp) (tb_createdAt lp)) \<or>
     (\<exists>m. Option.bind (lp_caps lp) cap_maxOpenOutputs = Some m \<and> m \<le> vt_openOutputs v)"

text \<open>What the governor keeps of a judgement: its severity, whether it throttles, and a reason exactly for a loop
  that is not healthy.\<close>

definition severity :: "governor_state \<Rightarrow> nat" where
  "severity st = SEVERITY (fst st)"

definition throttles :: "governor_state \<Rightarrow> bool" where
  "throttles st = list_ex (\<lambda>a. ga_type a = act_throttle) (snd (snd st))"

definition reasoned :: "governor_state \<Rightarrow> bool" where
  "reasoned st \<longleftrightarrow> (fst (snd st) = None \<longleftrightarrow> fst st = healthy)"

lemma raise_health_effect:
  "severity (raise_health h why st) = max (severity st) (SEVERITY h)"
  "throttles (raise_health h why st) = throttles st"
  "reasoned st \<Longrightarrow> reasoned (raise_health h why st)"
  by (cases st; cases h; auto simp: raise_health_def severity_def throttles_def reasoned_def max_def)+

lemma push_action_effect:
  "severity (push_action ty why rec st) = severity st"
  "throttles (push_action ty why rec st) \<longleftrightarrow> throttles st \<or> ty = act_throttle"
  "reasoned (push_action ty why rec st) = reasoned st"
  by (cases st; simp add: push_action_def severity_def throttles_def reasoned_def)+

lemmas judge_effects = raise_health_effect push_action_effect

lemma judge_steps:
  "severity (judge_undeclared v st) = max (severity st) (if nullish (vt_undeclaredShipActions v) [] \<noteq> [] then 3 else 0)"
  "severity (judge_fires lp st) = max (severity st) (if config_maxFailed lp \<le> int (nullish (lp_consecutiveFailedFires lp) 0)
      then 3 else if 2 \<le> nullish (lp_consecutiveFailedFires lp) 0 then 2 else 0)"
  "severity (judge_returns lp v st) = max (severity st) (if returns_sign lp v then 2 else 0)"
  "severity (judge_depth lp v st) = max (severity st) (if depth_sign lp v then 1 else 0)"
  "severity (judge_outputs lp v (judge_stale lp now (judge_age lp v st))) = max (severity st) (if waiting_sign lp v now then 1 else 0)"
  by (auto simp: judge_undeclared_def judge_fires_def judge_returns_def judge_depth_def judge_age_def judge_stale_def
      judge_outputs_def returns_sign_def depth_sign_def waiting_sign_def Let_def judge_effects split: option.split)

lemma judge_throttles:
  "throttles (judge_undeclared v st) = throttles st" "throttles (judge_fires lp st) = throttles st"
  "throttles (judge_returns lp v st) \<longleftrightarrow> throttles st \<or> returns_sign lp v"
  "throttles (judge_depth lp v st) \<longleftrightarrow> throttles st \<or> depth_sign lp v"
  "throttles (judge_age lp v st) = throttles st" "throttles (judge_stale lp now st) = throttles st"
  "throttles (judge_outputs lp v st) = throttles st"
  by (auto simp: judge_undeclared_def judge_fires_def judge_returns_def judge_depth_def judge_age_def judge_stale_def
      judge_outputs_def returns_sign_def depth_sign_def Let_def judge_effects split: option.split)

lemma judge_reasoned:
  assumes "reasoned st"
  shows "reasoned (judge_undeclared v st)" "reasoned (judge_fires lp st)" "reasoned (judge_returns lp v st)"
    "reasoned (judge_depth lp v st)" "reasoned (judge_age lp v st)" "reasoned (judge_stale lp now st)"
    "reasoned (judge_outputs lp v st)"
  using assms by (auto simp: judge_undeclared_def judge_fires_def judge_returns_def judge_depth_def judge_age_def
      judge_stale_def judge_outputs_def Let_def judge_effects split: option.split)

lemma SEVERITY_inj: "SEVERITY a = SEVERITY b \<Longrightarrow> a = b"
  by (cases a; cases b) simp_all

lemma max_levels:
  "max (max (max (max (max 0 (if a then 3 else 0)) (if b then 3 else if c then 2 else 0)) (if d then 2 else 0))
     (if e then 1 else 0)) (if f then 1 else 0) =
   SEVERITY (if a \<or> b then quarantined else if c \<or> d then failing else if e \<or> f then degraded else healthy)"
  by (cases a; cases b; cases c; cases d; cases e; cases f; simp)

text \<open>The governor's verdict. A loop is quarantined exactly when it staged an undeclared action or failed too
  often in a row; otherwise it fails exactly when it failed twice or people return too much of its work;
  otherwise it is degraded exactly when its queue is too deep or too old, no fire came for too long, or
  too much waits for review. Intake is throttled exactly for returned work and a deep queue, a reason is
  given exactly for a loop that is not healthy, and it escalates exactly when the health got worse.\<close>

theorem governor_verdict:
  "gv_health (evaluateGovernor lp v now) =
      (if quarantine_sign lp v then quarantined
       else if 2 \<le> nullish (lp_consecutiveFailedFires lp) 0 \<or> returns_sign lp v then failing
       else if depth_sign lp v \<or> waiting_sign lp v now then degraded
       else healthy)
    \<and> (gv_throttle (evaluateGovernor lp v now) \<longleftrightarrow> returns_sign lp v \<or> depth_sign lp v)
    \<and> (gv_reason (evaluateGovernor lp v now) = None \<longleftrightarrow> gv_health (evaluateGovernor lp v now) = healthy)
    \<and> (gv_escalate (evaluateGovernor lp v now) \<longleftrightarrow>
         SEVERITY (lp_health lp) < SEVERITY (gv_health (evaluateGovernor lp v now)))"
proof -
  define verdict where "verdict = evaluateGovernor lp v now"
  define twice where "twice = (2 \<le> nullish (lp_consecutiveFailedFires lp) 0)"
  define st where "st = judge_outputs lp v (judge_stale lp now (judge_age lp v (judge_depth lp v
             (judge_returns lp v (judge_fires lp (judge_undeclared v (healthy, None, [])))))))"
  have verdict: "gv_health verdict = fst st" "gv_reason verdict = fst (snd st)" "gv_throttle verdict = throttles st"
    "gv_escalate verdict \<longleftrightarrow> SEVERITY (lp_health lp) < SEVERITY (fst st)"
    unfolding verdict_def evaluateGovernor_def st_def[symmetric]
    by (simp_all add: throttles_def healthWorsened_def case_prod_beta)
  have start: "severity (healthy, None, []) = 0" "\<not> throttles (healthy, None, [])" "reasoned (healthy, None, [])"
    by (simp_all add: severity_def throttles_def reasoned_def)
  have "severity st = SEVERITY (if quarantine_sign lp v then quarantined else if twice \<or> returns_sign lp v then failing
       else if depth_sign lp v \<or> waiting_sign lp v now then degraded else healthy)"
    unfolding st_def judge_steps start(1) quarantine_sign_def twice_def by (rule max_levels)
  then have "fst st = (if quarantine_sign lp v then quarantined else if twice \<or> returns_sign lp v then failing
       else if depth_sign lp v \<or> waiting_sign lp v now then degraded else healthy)"
    unfolding severity_def by (rule SEVERITY_inj)
  moreover have "throttles st \<longleftrightarrow> returns_sign lp v \<or> depth_sign lp v"
    unfolding st_def judge_throttles using start(2) by simp
  moreover have "reasoned st" unfolding st_def using start(3) by (intro judge_reasoned)
  ultimately show ?thesis unfolding verdict_def[symmetric] twice_def[symmetric] verdict reasoned_def by blast
qed

end
