(* ===== verification/Cron_Store.thy ===== *)
theory Cron_Store
  imports Loop_Store
begin

text \<open>
  Scheduled triggers: schedules (\<open>src/src/cron/schedule.ts\<close>), the log of fires
  (\<open>createMemoryCronFireStore\<close> of \<open>src/src/cron/fire-store.ts\<close>) and the store of crons
  (\<open>src/src/cron/cron-store.ts\<close>) over the memory map. When a calendar expression fires next is answered by
  the package \<open>croner\<close>, the argument \<open>nextRun\<close> of an expression, a time zone and a time, which may throw;
  whether \<open>Intl\<close> knows a time zone is the argument \<open>zone_ok\<close>. Numbers are integers, so of the finiteness
  checks the test for a safe integer remains. An error is its message.
\<close>

type_synonym calendar = "string \<Rightarrow> string \<Rightarrow> int \<Rightarrow> string + int option"

section \<open>Schedules\<close>

record CronSchedule =
  cs_cron :: "string option"
  cs_timezone :: "string option"
  cs_everyMs :: "int option"
  cs_firstFireAt :: "int option"

definition DEFAULT_CRON_TIMEZONE :: string where "DEFAULT_CRON_TIMEZONE = ''America/Los_Angeles''"
definition DAY_MS :: int where "DAY_MS = 24 * 60 * 60 * 1000"
definition MIN_RECURRING_CRON_MS :: int where "MIN_RECURRING_CRON_MS = 60000"
definition PAST_FIRE_GRACE_MS :: int where "PAST_FIRE_GRACE_MS = 5 * 60000"

definition userScheduleFromBody :: "json \<Rightarrow> string \<Rightarrow> CronSchedule option" where
  "userScheduleFromBody value defaultTimezone =
     (case value of
        JObj fs \<Rightarrow>
          let has = (\<lambda>k. map_of fs k \<noteq> None) in
          if has ''cron'' then
            (if jstr (map_of fs ''cron'') = None \<or> has ''everyMs'' \<or> has ''firstFireAt'' then None
             else case (if has ''timezone'' then jstr (map_of fs ''timezone'') else Some defaultTimezone) of
               None \<Rightarrow> None
             | Some timezone \<Rightarrow> Some \<lparr>cs_cron = jstr (map_of fs ''cron''), cs_timezone = Some timezone,
                 cs_everyMs = None, cs_firstFireAt = None\<rparr>)
          else if has ''timezone'' \<or> (\<not> has ''everyMs'' \<and> \<not> has ''firstFireAt'') then None
          else if has ''everyMs'' \<and> jnum (map_of fs ''everyMs'') = None then None
          else if has ''firstFireAt'' \<and> jnum (map_of fs ''firstFireAt'') = None then None
          else Some \<lparr>cs_cron = None, cs_timezone = None, cs_everyMs = jnum (map_of fs ''everyMs''),
                 cs_firstFireAt = jnum (map_of fs ''firstFireAt'')\<rparr>
      | _ \<Rightarrow> None)"

definition isCalendarSchedule :: "CronSchedule \<Rightarrow> bool" where
  "isCalendarSchedule schedule = (cs_cron schedule \<noteq> None)"

definition finiteEpochMs :: "int option \<Rightarrow> string \<Rightarrow> string + int option" where
  "finiteEpochMs value name =
     (case value of
        None \<Rightarrow> Inr None
      | Some v \<Rightarrow> if \<bar>v\<bar> > MAX_SAFE_INTEGER then Inl (name @ '' must be a finite integer timestamp in ms'') else Inr (Some v))"

definition finitePositiveMs :: "int option \<Rightarrow> string \<Rightarrow> string + int option" where
  "finitePositiveMs value name =
     (case value of
        None \<Rightarrow> Inr None
      | Some v \<Rightarrow> if \<bar>v\<bar> > MAX_SAFE_INTEGER \<or> v \<le> 0 then Inl (name @ '' must be a positive integer number of ms'')
                 else Inr (Some v))"

definition normalizeTimezone :: "(string \<Rightarrow> bool) \<Rightarrow> string option \<Rightarrow> string \<Rightarrow> string + string" where
  "normalizeTimezone zone_ok input fallback =
     (let given = trim (nullish input []); tz = trim (if given \<noteq> [] then given else fallback) in
      if zone_ok tz then Inr tz else Inl (''invalid IANA timezone: '' @ tz))"

text \<open>\<open>cron.split(" ")\<close>: one piece more than there are blanks.\<close>

definition normalizeCronExpression :: "string \<Rightarrow> string + string" where
  "normalizeCronExpression input =
     (let cron = collapse_spaces (trim input) in
      if Suc (count_list cron (CHR '' '')) \<noteq> 5 then Inl ''schedule.cron must be a 5-field cron expression'' else Inr cron)"

definition nextCalendarFireAfter :: "calendar \<Rightarrow> (string \<Rightarrow> bool) \<Rightarrow> CronSchedule \<Rightarrow> int \<Rightarrow> string + int option" where
  "nextCalendarFireAfter nextRun zone_ok schedule after =
     (if \<not> truthy (cs_cron schedule) then Inl ''schedule.cron is required''
      else case normalizeTimezone zone_ok (cs_timezone schedule) DEFAULT_CRON_TIMEZONE of
        Inl e \<Rightarrow> Inl e
      | Inr tz \<Rightarrow> nextRun (the (cs_cron schedule)) tz after)"

definition normalize_calendar ::
  "calendar \<Rightarrow> (string \<Rightarrow> bool) \<Rightarrow> CronSchedule \<Rightarrow> int \<Rightarrow> string \<Rightarrow> string + (CronSchedule \<times> int option)" where
  "normalize_calendar nextRun zone_ok input now defaultTimezone =
     (if trim (nullish (cs_cron input) []) = [] then Inl ''schedule.cron must be a non-empty string''
      else if cs_everyMs input \<noteq> None \<or> cs_firstFireAt input \<noteq> None
      then Inl ''schedule.cron cannot be combined with everyMs or firstFireAt''
      else case normalizeCronExpression (nullish (cs_cron input) []) of
        Inl e \<Rightarrow> Inl e
      | Inr cron \<Rightarrow> (case normalizeTimezone zone_ok (cs_timezone input) defaultTimezone of
          Inl e \<Rightarrow> Inl e
        | Inr timezone \<Rightarrow>
            let schedule = \<lparr>cs_cron = Some cron, cs_timezone = Some timezone, cs_everyMs = None, cs_firstFireAt = None\<rparr> in
            (case nextCalendarFireAfter nextRun zone_ok schedule now of
               Inl e \<Rightarrow> Inl e
             | Inr None \<Rightarrow> Inl ''schedule.cron has no future fire time''
             | Inr (Some t) \<Rightarrow> Inr (schedule, Some t))))"

text \<open>The message about intervals of a day and more is abridged.\<close>

definition normalizeSchedule ::
  "calendar \<Rightarrow> (string \<Rightarrow> bool) \<Rightarrow> CronSchedule \<Rightarrow> int \<Rightarrow> string \<Rightarrow> string + (CronSchedule \<times> int option)" where
  "normalizeSchedule nextRun zone_ok input now defaultTimezone =
     (if cs_cron input \<noteq> None then normalize_calendar nextRun zone_ok input now defaultTimezone
      else if cs_timezone input \<noteq> None then Inl ''schedule.timezone requires schedule.cron''
      else if (case cs_everyMs input of None \<Rightarrow> False | Some e \<Rightarrow> DAY_MS \<le> e) then Inl ''schedule.everyMs >= 24h''
      else case finitePositiveMs (cs_everyMs input) ''schedule.everyMs'' of
        Inl e \<Rightarrow> Inl e
      | Inr everyMs \<Rightarrow> (case finiteEpochMs (cs_firstFireAt input) ''schedule.firstFireAt'' of
          Inl e \<Rightarrow> Inl e
        | Inr first \<Rightarrow>
            let firstFireAt = nullish first (case everyMs of Some e \<Rightarrow> now + e | None \<Rightarrow> now) in
            Inr (\<lparr>cs_cron = None, cs_timezone = None, cs_everyMs = everyMs, cs_firstFireAt = Some firstFireAt\<rparr>, Some firstFireAt)))"

text \<open>The messages of \<open>validateUserSchedule\<close> are abridged.\<close>

definition validateUserSchedule :: "CronSchedule \<Rightarrow> int \<Rightarrow> string + unit" where
  "validateUserSchedule schedule now =
     (if (case cs_everyMs schedule of None \<Rightarrow> False | Some e \<Rightarrow> e < MIN_RECURRING_CRON_MS)
      then Inl (''schedule.everyMs must be at least '' @ show_int MIN_RECURRING_CRON_MS @ ''ms'')
      else if (case cs_firstFireAt schedule of None \<Rightarrow> False | Some t \<Rightarrow> t < now - PAST_FIRE_GRACE_MS)
      then Inl ''schedule.firstFireAt is in the past''
      else Inr ())"

definition plus_interval :: "CronSchedule \<Rightarrow> int \<Rightarrow> string + int option" where
  "plus_interval schedule t =
     (case finitePositiveMs (cs_everyMs schedule) ''schedule.everyMs'' of
        Inl e \<Rightarrow> Inl e | Inr everyMs \<Rightarrow> Inr (map_option (\<lambda>e. t + e) everyMs))"

definition recoverNextFireAt ::
  "calendar \<Rightarrow> (string \<Rightarrow> bool) \<Rightarrow> CronSchedule \<Rightarrow> int \<Rightarrow> int option \<Rightarrow> int option \<Rightarrow> string + int option" where
  "recoverNextFireAt nextRun zone_ok schedule createdAt lastFiredAt nextFireAt =
     (if nextFireAt \<noteq> None then finiteEpochMs nextFireAt ''nextFireAt''
      else if isCalendarSchedule schedule
      then nextCalendarFireAfter nextRun zone_ok schedule (nullish lastFiredAt createdAt)
      else case lastFiredAt of
        None \<Rightarrow> (case finiteEpochMs (cs_firstFireAt schedule) ''schedule.firstFireAt'' of
                  Inl e \<Rightarrow> Inl e | Inr t \<Rightarrow> Inr (Some (nullish t createdAt)))
      | Some t \<Rightarrow> plus_interval schedule t)"

definition advanceNextFireAt :: "calendar \<Rightarrow> (string \<Rightarrow> bool) \<Rightarrow> CronSchedule \<Rightarrow> int \<Rightarrow> string + int option" where
  "advanceNextFireAt nextRun zone_ok schedule firedAt =
     (if isCalendarSchedule schedule then nextCalendarFireAfter nextRun zone_ok schedule firedAt
      else plus_interval schedule firedAt)"

section \<open>The log of fires\<close>

record CronFireLogEntry =
  fe_fireKey :: string
  fe_threadRef :: string
  fe_firedAt :: int
  fe_scheduledAt :: "int option"
  fe_status :: "string option"
  fe_endedAt :: "int option"
  fe_note :: "string option"
  fe_reply :: "string option"
  fe_sessionId :: "string option"

type_synonym fire_log = "CronFireLogEntry jsmap"
type_synonym fire_store = "fire_log jsmap"

definition fireOrder :: "CronFireLogEntry list \<Rightarrow> CronFireLogEntry list" where
  "fireOrder es = sort_key (\<lambda>e. (fe_firedAt e, fe_fireKey e)) es"

definition backfillMayReplace :: "CronFireLogEntry \<Rightarrow> CronFireLogEntry \<Rightarrow> bool" where
  "backfillMayReplace existing incoming =
     (if fe_firedAt incoming < fe_firedAt existing then False
      else fe_endedAt existing = None \<or> fe_endedAt incoming \<noteq> None)"

definition firesOf :: "fire_store \<Rightarrow> string \<Rightarrow> fire_log" where
  "firesOf s cronId = nullish (map_of s cronId) []"

definition record_entry :: "string \<Rightarrow> CronFireLogEntry \<Rightarrow> fire_store \<Rightarrow> fire_store" where
  "record_entry cronId entry s = AList.update cronId (AList.update (fe_fireKey entry) entry (firesOf s cronId)) s"

definition blocks_fire :: "CronFireLogEntry \<Rightarrow> int \<Rightarrow> CronFireLogEntry \<Rightarrow> bool" where
  "blocks_fire entry staleRunningMs e =
     (fe_fireKey e \<noteq> fe_fireKey entry \<and> fe_status e = Some ''running'' \<and> fe_firedAt entry - fe_firedAt e < staleRunningMs)"

datatype BeginFireResult = Begun | NotBegun "CronFireLogEntry option"

definition beginExclusive :: "string \<Rightarrow> CronFireLogEntry \<Rightarrow> int \<Rightarrow> fire_store \<Rightarrow> fire_store \<times> BeginFireResult" where
  "beginExclusive cronId entry staleRunningMs s =
     (case find (blocks_fire entry staleRunningMs) (rev (fireOrder (vals (firesOf s cronId)))) of
        Some running \<Rightarrow> (AList.update cronId (firesOf s cronId) s, NotBegun (Some running))
      | None \<Rightarrow> (record_entry cronId entry s, Begun))"

definition stranded :: "int \<Rightarrow> int \<Rightarrow> CronFireLogEntry \<Rightarrow> bool" where
  "stranded now staleRunningMs e = (\<not> (fe_status e \<noteq> Some ''running'' \<or> now - fe_firedAt e < staleRunningMs))"

definition sweep_entry :: "int \<Rightarrow> int \<Rightarrow> string \<Rightarrow> CronFireLogEntry \<Rightarrow> CronFireLogEntry" where
  "sweep_entry now staleRunningMs note e =
     (if stranded now staleRunningMs e
      then e\<lparr>fe_status := Some ''failed'', fe_endedAt := Some now, fe_note := Some note\<rparr> else e)"

definition sweepStranded :: "int \<Rightarrow> int \<Rightarrow> string \<Rightarrow> fire_store \<Rightarrow> fire_store \<times> nat" where
  "sweepStranded now staleRunningMs note s =
     (map (\<lambda>(i, fires). (i, map (\<lambda>(k, e). (k, sweep_entry now staleRunningMs note e)) fires)) s,
      sum_list (map (\<lambda>(i, fires). length (filter (stranded now staleRunningMs) (vals fires))) s))"

definition prunable :: "int \<Rightarrow> int \<Rightarrow> fire_log \<Rightarrow> CronFireLogEntry list" where
  "prunable endedBefore keepPerCron fires =
     filter (\<lambda>e. \<not> (case fe_endedAt e of None \<Rightarrow> True | Some t \<Rightarrow> endedBefore \<le> t))
       (drop (nat (max keepPerCron 0)) (rev (fireOrder (vals fires))))"

definition prune_log :: "int \<Rightarrow> int \<Rightarrow> fire_log \<Rightarrow> fire_log" where
  "prune_log endedBefore keepPerCron fires =
     foldl (\<lambda>m e. AList.delete (fe_fireKey e) m) fires (prunable endedBefore keepPerCron fires)"

definition pruneEnded :: "int \<Rightarrow> int \<Rightarrow> fire_store \<Rightarrow> fire_store \<times> nat" where
  "pruneEnded endedBefore keepPerCron s =
     (map (\<lambda>(i, fires). (i, prune_log endedBefore keepPerCron fires)) s,
      sum_list (map (\<lambda>(i, fires). length (prunable endedBefore keepPerCron fires)) s))"

definition backfill_entry :: "fire_log \<Rightarrow> CronFireLogEntry \<Rightarrow> fire_log" where
  "backfill_entry fires entry =
     (case map_of fires (fe_fireKey entry) of
        Some existing \<Rightarrow> if \<not> backfillMayReplace existing entry then fires else AList.update (fe_fireKey entry) entry fires
      | None \<Rightarrow> AList.update (fe_fireKey entry) entry fires)"

definition backfill :: "string \<Rightarrow> CronFireLogEntry list \<Rightarrow> fire_store \<Rightarrow> fire_store" where
  "backfill cronId entries s = AList.update cronId (foldl backfill_entry (firesOf s cronId) entries) s"

definition listByCron :: "string \<Rightarrow> int option \<Rightarrow> fire_store \<Rightarrow> CronFireLogEntry list \<times> nat" where
  "listByCron cronId limit s =
     (let all = fireOrder (vals (firesOf s cronId)) in
      (case limit of None \<Rightarrow> all | Some n \<Rightarrow> if n > 0 then drop (length all - nat n) all else [], length all))"

definition listByThreadRefs :: "string list \<Rightarrow> fire_store \<Rightarrow> (string \<times> CronFireLogEntry) list" where
  "listByThreadRefs threadRefs s =
     sort_key (\<lambda>(i, e). (fe_firedAt e, fe_fireKey e))
       (concat (map (\<lambda>(i, fires). map (\<lambda>e. (i, e)) (filter (\<lambda>e. fe_threadRef e \<in> set threadRefs) (vals fires))) s))"

definition latestForThread :: "string \<Rightarrow> string \<Rightarrow> fire_store \<Rightarrow> CronFireLogEntry option" where
  "latestForThread cronId threadRef s =
     (let matches = fireOrder (filter (\<lambda>e. fe_threadRef e = threadRef) (vals (firesOf s cronId))) in
      if matches = [] then None else Some (last matches))"

section \<open>Crons\<close>

record CronFireNote =
  fn_text :: string
  fn_at :: int
  fn_by :: "string option"

record Cron = TriggerBase +
  cn_schedule :: CronSchedule
  cn_nextFireAt :: "int option"
  cn_lastAttemptAt :: "int option"
  cn_deferUntil :: "int option"
  cn_title :: "string option"
  cn_archived :: bool
  cn_action :: "string option"
  cn_message :: "string option"
  cn_loopId :: "string option"
  cn_runAs :: "RunAs option"
  cn_members :: "Principal list option"
  cn_unattendedGrants :: "string list option"
  cn_fireLog :: "CronFireLogEntry list option"
  cn_lastFireNote :: "CronFireNote option"

record CreateCronInput = CreateTriggerInput +
  cc_schedule :: CronSchedule
  cc_title :: "string option"
  cc_action :: "string option"
  cc_message :: "string option"
  cc_runAs :: "RunAs option"
  cc_members :: "Principal list option"
  cc_unattendedGrants :: "string list option"
  cc_loopId :: "string option"

record CronPatch =
  cp_title :: "string option"
  cp_action :: "string option"
  cp_message :: "string option"
  cp_schedule :: "CronSchedule option"
  cp_enabled :: "bool option"
  cp_archived :: "bool option"
  cp_destination :: "Destination option"
  cp_members :: "Principal list option"
  cp_runAs :: "RunAs option"
  cp_unattendedGrants :: "string list option"

definition DEFAULT_FIRE_RUNNING_STALE_MS :: int where "DEFAULT_FIRE_RUNNING_STALE_MS = 24 * 60 * 60 * 1000"
definition STRANDED_FIRE_NOTE :: string where
  "STRANDED_FIRE_NOTE = ''fire never completed -- stranded by a restart or crash''"
definition FIRE_RETENTION_MS :: int where "FIRE_RETENTION_MS = 90 * 24 * 60 * 60 * 1000"
definition FIRE_RETENTION_KEEP_PER_CRON :: int where "FIRE_RETENTION_KEEP_PER_CRON = 100"

record cron_store =
  cr_crons :: "Cron jsmap"
  cr_fires :: fire_store
  cr_staleRunningMs :: int

definition isDeferred :: "int option \<Rightarrow> int \<Rightarrow> bool" where
  "isDeferred deferUntil now = (case deferUntil of None \<Rightarrow> False | Some t \<Rightarrow> now < t)"

definition normalizeTitle :: "string option \<Rightarrow> string option" where
  "normalizeTitle title =
     (let trimmed = collapse_spaces (trim (nullish title [])) in
      if trimmed = [] then None
      else Some (if length trimmed > 80 then take 79 trimmed @ ''...'' else trimmed))"

definition schedule_json :: "CronSchedule \<Rightarrow> json" where
  "schedule_json c = jobj [(''cron'', map_option JStr (cs_cron c)), (''timezone'', map_option JStr (cs_timezone c)),
     (''everyMs'', map_option JNum (cs_everyMs c)), (''firstFireAt'', map_option JNum (cs_firstFireAt c))]"

definition principal_json :: "Principal \<Rightarrow> json" where
  "principal_json p = jobj [(''id'', Some (JStr (p_id p))),
     (''type'', Some (JStr (if p_type p = internal then ''internal'' else ''guest''))),
     (''teamIds'', map_option (\<lambda>xs. JArr (map JStr xs)) (teamIds p)), (''displayName'', map_option JStr (displayName p))]"

definition cron_content_id :: "(string \<Rightarrow> string) \<Rightarrow> CreateCronInput \<Rightarrow> string option \<Rightarrow> string" where
  "cron_content_id sha input title = hashId sha
     ([contentPart (Some (JStr (ct_owner input))), contentPart (Some (JStr (ct_ownerScopeId input))),
       contentPart (Some (schedule_json (cc_schedule input))), contentPart (map_option JStr (cc_action input)),
       contentPart (map_option JStr (cc_message input)), contentPart (map_option destination_json (ct_destination input)),
       contentPart (map_option (\<lambda>r. JStr (runAs_name r)) (cc_runAs input)),
       contentPart (map_option (\<lambda>ms. JArr (map principal_json ms)) (cc_members input)),
       contentPart (map_option (\<lambda>xs. JArr (map JStr xs)) (cc_unattendedGrants input)),
       contentPart (map_option JStr title)] @
      (case cc_loopId input of None \<Rightarrow> [] | Some l \<Rightarrow> [contentPart (Some (JStr l))])) 16"

definition create_cron ::
  "(string \<Rightarrow> string) \<Rightarrow> calendar \<Rightarrow> (string \<Rightarrow> bool) \<Rightarrow> CreateCronInput \<Rightarrow> int \<Rightarrow> cron_store \<Rightarrow> string + (cron_store \<times> Cron)" where
  "create_cron sha nextRun zone_ok input now s =
     (case assertNoEscalation (CreateTriggerInput.truncate input) of
        Inl e \<Rightarrow> Inl e
      | Inr _ \<Rightarrow> (case normalizeSchedule nextRun zone_ok (cc_schedule input) now DEFAULT_CRON_TIMEZONE of
          Inl e \<Rightarrow> Inl e
        | Inr (schedule, nextFireAt) \<Rightarrow>
            let title = normalizeTitle (cc_title input);
                contentId = cron_content_id sha input title;
                cron = TriggerBase.extend (buildTriggerBase (CreateTriggerInput.truncate input) contentId now)
                  \<lparr>cn_schedule = schedule, cn_nextFireAt = nextFireAt, cn_lastAttemptAt = None, cn_deferUntil = None,
                   cn_title = title, cn_archived = False, cn_action = cc_action input, cn_message = cc_message input,
                   cn_loopId = (if truthy (cc_loopId input) then cc_loopId input else None), cn_runAs = cc_runAs input,
                   cn_members = cc_members input, cn_unattendedGrants = cc_unattendedGrants input, cn_fireLog = None,
                   cn_lastFireNote = None\<rparr>
            in case dm_putIfAbsent (cr_crons s) contentId cron of (m, c) \<Rightarrow> Inr (s\<lparr>cr_crons := m\<rparr>, c)))"

definition patch_field :: "'a option \<Rightarrow> ('a \<Rightarrow> Cron \<Rightarrow> Cron) \<Rightarrow> Cron \<Rightarrow> Cron" where
  "patch_field v upd c = (case v of None \<Rightarrow> c | Some x \<Rightarrow> upd x c)"

definition cron_fields :: "CronPatch \<Rightarrow> (CronSchedule \<times> int option) option \<Rightarrow> Cron \<Rightarrow> Cron" where
  "cron_fields patch normalized =
     patch_field (cp_unattendedGrants patch) (\<lambda>x. cn_unattendedGrants_update (\<lambda>_. Some x)) \<circ>
     patch_field (cp_runAs patch) (\<lambda>x. cn_runAs_update (\<lambda>_. Some x)) \<circ>
     patch_field (cp_members patch) (\<lambda>x. cn_members_update (\<lambda>_. Some x)) \<circ>
     (if cp_archived patch = Some True then tb_enabled_update (\<lambda>_. False) else (\<lambda>c. c)) \<circ>
     patch_field (cp_destination patch) (\<lambda>x. tb_destination_update (\<lambda>_. Some x)) \<circ>
     patch_field (cp_archived patch) (\<lambda>x. cn_archived_update (\<lambda>_. x)) \<circ>
     patch_field (cp_enabled patch) (\<lambda>x. tb_enabled_update (\<lambda>_. x)) \<circ>
     patch_field normalized (\<lambda>(schedule, t) c. c\<lparr>cn_schedule := schedule, cn_nextFireAt := t\<rparr>) \<circ>
     patch_field (cp_message patch) (\<lambda>x. cn_message_update (\<lambda>_. Some x)) \<circ>
     patch_field (cp_action patch) (\<lambda>x. cn_action_update (\<lambda>_. Some x)) \<circ>
     patch_field (cp_title patch) (\<lambda>x. cn_title_update (\<lambda>_. normalizeTitle (Some x)))"

definition merge_cron :: "string \<Rightarrow> (Cron \<Rightarrow> Cron) \<Rightarrow> cron_store \<Rightarrow> cron_store \<times> Cron option" where
  "merge_cron i f s = (case dm_merge (cr_crons s) i f of (m, r) \<Rightarrow> (s\<lparr>cr_crons := m\<rparr>, r))"

definition update_cron ::
  "calendar \<Rightarrow> (string \<Rightarrow> bool) \<Rightarrow> string \<Rightarrow> CronPatch \<Rightarrow> int \<Rightarrow> cron_store \<Rightarrow> string + (cron_store \<times> Cron option)" where
  "update_cron nextRun zone_ok i patch now s =
     (case cp_schedule patch of
        None \<Rightarrow> Inr (merge_cron i (cron_fields patch None) s)
      | Some sch \<Rightarrow> (case normalizeSchedule nextRun zone_ok sch now DEFAULT_CRON_TIMEZONE of
          Inl e \<Rightarrow> Inl e
        | Inr normalized \<Rightarrow> Inr (merge_cron i (cron_fields patch (Some normalized)) s)))"

definition delete_cron :: "string \<Rightarrow> cron_store \<Rightarrow> cron_store" where
  "delete_cron i s = s\<lparr>cr_crons := dm_delete (cr_crons s) i\<rparr>"

definition setEnabled_cron :: "string \<Rightarrow> bool \<Rightarrow> cron_store \<Rightarrow> cron_store" where
  "setEnabled_cron i enabled s =
     fst (merge_cron i (\<lambda>c. if enabled then c\<lparr>tb_enabled := True, cn_archived := False\<rparr> else c\<lparr>tb_enabled := False\<rparr>) s)"

definition setDestination_cron :: "string \<Rightarrow> Destination option \<Rightarrow> cron_store \<Rightarrow> cron_store" where
  "setDestination_cron i destination s = fst (merge_cron i (\<lambda>c. c\<lparr>tb_destination := destination\<rparr>) s)"

definition setRecipientConsent_cron :: "string \<Rightarrow> RecipientConsent \<Rightarrow> cron_store \<Rightarrow> cron_store" where
  "setRecipientConsent_cron i consent s = fst (merge_cron i (\<lambda>c. c\<lparr>tb_recipientConsent := Some consent\<rparr>) s)"

definition beginFire :: "string \<Rightarrow> CronFireLogEntry \<Rightarrow> bool \<Rightarrow> cron_store \<Rightarrow> cron_store \<times> BeginFireResult" where
  "beginFire i entry exclusive s =
     (if dm_get (cr_crons s) i = None then (s, NotBegun None)
      else if exclusive
      then (case beginExclusive i entry (cr_staleRunningMs s) (cr_fires s) of (fs, r) \<Rightarrow> (s\<lparr>cr_fires := fs\<rparr>, r))
      else (s\<lparr>cr_fires := record_entry i entry (cr_fires s)\<rparr>, Begun))"

definition sweepStrandedFires :: "int \<Rightarrow> cron_store \<Rightarrow> cron_store \<times> nat" where
  "sweepStrandedFires now s =
     (case sweepStranded now (cr_staleRunningMs s) STRANDED_FIRE_NOTE (cr_fires s) of (fs, n) \<Rightarrow> (s\<lparr>cr_fires := fs\<rparr>, n))"

definition pruneFires :: "int \<Rightarrow> cron_store \<Rightarrow> cron_store \<times> nat" where
  "pruneFires now s =
     (case pruneEnded (now - FIRE_RETENTION_MS) FIRE_RETENTION_KEEP_PER_CRON (cr_fires s) of (fs, n) \<Rightarrow> (s\<lparr>cr_fires := fs\<rparr>, n))"

definition recordFire :: "string \<Rightarrow> CronFireLogEntry \<Rightarrow> cron_store \<Rightarrow> cron_store" where
  "recordFire i entry s = s\<lparr>cr_fires := record_entry i entry (cr_fires s)\<rparr>"

fun backfill_crons :: "(string \<times> Cron) list \<Rightarrow> nat \<Rightarrow> cron_store \<Rightarrow> cron_store \<times> nat" where
  "backfill_crons [] n s = (s, n)"
| "backfill_crons ((i, cron) # cs) n s =
     (case cn_fireLog cron of
        None \<Rightarrow> backfill_crons cs n s
      | Some legacy \<Rightarrow>
          let s1 = (if legacy = [] then s else s\<lparr>cr_fires := backfill i legacy (cr_fires s)\<rparr>);
              s2 = s1\<lparr>cr_crons := fst (dm_update (cr_crons s1) i (\<lambda>c. Inr (c\<lparr>cn_fireLog := None\<rparr>) :: unit + Cron))\<rparr>
          in backfill_crons cs (n + length legacy) s2)"

definition backfillFires :: "cron_store \<Rightarrow> cron_store \<times> nat" where
  "backfillFires s = backfill_crons (dm_entries (cr_crons s)) 0 s"

datatype note_result = note_applied | note_superseded | note_missing

definition setFireNote :: "string \<Rightarrow> CronFireNote \<Rightarrow> cron_store \<Rightarrow> cron_store \<times> note_result" where
  "setFireNote i note s =
     (let applies = (\<lambda>c. \<not> (case cn_lastFireNote c of None \<Rightarrow> False | Some old \<Rightarrow> fn_at old > fn_at note)) in
      (s\<lparr>cr_crons := fst (dm_update (cr_crons s) i
           (\<lambda>c. Inr (if applies c then c\<lparr>cn_lastFireNote := Some note\<rparr> else c) :: unit + Cron))\<rparr>,
       case dm_get (cr_crons s) i of None \<Rightarrow> note_missing | Some c \<Rightarrow> if applies c then note_applied else note_superseded))"

definition advance_from :: "CronSchedule \<Rightarrow> int \<Rightarrow> int \<Rightarrow> int" where
  "advance_from schedule scheduledAt fired = (if isCalendarSchedule schedule then scheduledAt else fired)"

definition markFired ::
  "calendar \<Rightarrow> (string \<Rightarrow> bool) \<Rightarrow> string \<Rightarrow> int \<Rightarrow> int option \<Rightarrow> cron_store \<Rightarrow> string + cron_store" where
  "markFired nextRun zone_ok i fired scheduledAt s =
     (case dm_get (cr_crons s) i of
        None \<Rightarrow> Inr s
      | Some cron \<Rightarrow>
          (case advanceNextFireAt nextRun zone_ok (cn_schedule cron) (advance_from (cn_schedule cron) (nullish scheduledAt fired) fired) of
             Inl e \<Rightarrow> Inl e
           | Inr nxt \<Rightarrow> Inr (fst (merge_cron i
               (\<lambda>c. c\<lparr>tb_lastFiredAt := Some fired, cn_nextFireAt := nxt, cn_deferUntil := None\<rparr>) s))))"

definition cron_slot :: "calendar \<Rightarrow> (string \<Rightarrow> bool) \<Rightarrow> Cron \<Rightarrow> string + int option" where
  "cron_slot nextRun zone_ok c =
     recoverNextFireAt nextRun zone_ok (cn_schedule c) (tb_createdAt c) (tb_lastFiredAt c) (cn_nextFireAt c)"

definition claimSlot ::
  "calendar \<Rightarrow> (string \<Rightarrow> bool) \<Rightarrow> string \<Rightarrow> int \<Rightarrow> int \<Rightarrow> cron_store \<Rightarrow> cron_store \<times> (string + bool)" where
  "claimSlot nextRun zone_ok i scheduledAt fired s =
     (case dm_get (cr_crons s) i of
        None \<Rightarrow> (s, Inr False)
      | Some cron \<Rightarrow>
          if cn_archived cron \<or> \<not> tb_enabled cron then (s, Inr False)
          else (case cron_slot nextRun zone_ok cron of
            Inl e \<Rightarrow> (s, Inl e)
          | Inr slot \<Rightarrow>
              if slot \<noteq> Some scheduledAt then (s, Inr False)
              else (case advanceNextFireAt nextRun zone_ok (cn_schedule cron) (advance_from (cn_schedule cron) scheduledAt fired) of
                Inl e \<Rightarrow> (s, Inl e)
              | Inr nxt \<Rightarrow>
                  (s\<lparr>cr_crons := dm_put (cr_crons s) i
                      (cron\<lparr>cn_nextFireAt := nxt, cn_deferUntil := None, tb_lastFiredAt := Some fired\<rparr>)\<rparr>, Inr True))))"

definition unclaimSlot :: "string \<Rightarrow> int \<Rightarrow> int \<Rightarrow> int option \<Rightarrow> cron_store \<Rightarrow> cron_store" where
  "unclaimSlot i scheduledAt fired priorLastFiredAt s =
     s\<lparr>cr_crons := fst (dm_update (cr_crons s) i (\<lambda>c. Inr
        (if tb_lastFiredAt c \<noteq> Some fired then c
         else c\<lparr>tb_lastFiredAt := priorLastFiredAt, cn_nextFireAt := Some scheduledAt\<rparr>) :: unit + Cron))\<rparr>"

definition markAttempted :: "string \<Rightarrow> int \<Rightarrow> cron_store \<Rightarrow> cron_store" where
  "markAttempted i fired s = fst (merge_cron i (\<lambda>c. c\<lparr>cn_lastAttemptAt := Some fired\<rparr>) s)"

definition defer_cron :: "string \<Rightarrow> int \<Rightarrow> cron_store \<Rightarrow> cron_store" where
  "defer_cron i until s = fst (merge_cron i (\<lambda>c. c\<lparr>cn_deferUntil := Some until\<rparr>) s)"

fun due_crons :: "calendar \<Rightarrow> (string \<Rightarrow> bool) \<Rightarrow> int \<Rightarrow> Cron list \<Rightarrow> string + (Cron \<times> int) list" where
  "due_crons nextRun zone_ok now [] = Inr []"
| "due_crons nextRun zone_ok now (c # cs) =
     (if cn_archived c \<or> \<not> tb_enabled c \<or> isDeferred (cn_deferUntil c) now then due_crons nextRun zone_ok now cs
      else case cron_slot nextRun zone_ok c of
        Inl e \<Rightarrow> Inl e
      | Inr slot \<Rightarrow> (case due_crons nextRun zone_ok now cs of
          Inl e \<Rightarrow> Inl e
        | Inr rest \<Rightarrow> (case slot of
            Some t \<Rightarrow> if t \<le> now then Inr ((c\<lparr>cn_nextFireAt := Some t\<rparr>, t) # rest) else Inr rest
          | None \<Rightarrow> Inr rest)))"

definition due :: "calendar \<Rightarrow> (string \<Rightarrow> bool) \<Rightarrow> int \<Rightarrow> cron_store \<Rightarrow> string + (Cron \<times> int) list" where
  "due nextRun zone_ok now s = due_crons nextRun zone_ok now (dm_all (cr_crons s))"

end
