(* ===== verification/Cron_Properties.thy ===== *)
theory Cron_Properties
  imports Cron_Store
begin

text \<open>
  What the cron store guarantees: a slot of a schedule is claimed once, and exclusive fires of a cron exclude
  each other until they are stale. About the calendar it is assumed that the next run after a time is later
  than that time.
\<close>

definition calendar_later :: "calendar \<Rightarrow> bool" where
  "calendar_later nextRun \<longleftrightarrow> (\<forall>e tz t n. nextRun e tz t = Inr (Some n) \<longrightarrow> t < n)"

section \<open>Slots\<close>

text \<open>The cron has left the slot \<open>t0\<close> behind.\<close>

definition past :: "int \<Rightarrow> Cron \<Rightarrow> bool" where
  "past t0 c \<longleftrightarrow> (\<exists>t. tb_lastFiredAt c = Some t \<and> t0 \<le> t) \<and> (\<forall>n. cn_nextFireAt c = Some n \<longrightarrow> t0 < n)"

definition past_at :: "int \<Rightarrow> string \<Rightarrow> cron_store \<Rightarrow> bool" where
  "past_at t0 i s \<longleftrightarrow> (\<exists>c. dm_get (cr_crons s) i = Some c \<and> past t0 c)"

lemma plus_interval_later: "plus_interval sch t = Inr (Some n) \<Longrightarrow> t < n"
  by (auto simp: plus_interval_def finitePositiveMs_def split: sum.split_asm option.split_asm if_split_asm)

lemma calendar_fire_later:
  "calendar_later nextRun \<Longrightarrow> nextCalendarFireAfter nextRun zone_ok sch t = Inr (Some n) \<Longrightarrow> t < n"
  by (auto simp: nextCalendarFireAfter_def calendar_later_def split: sum.split_asm if_split_asm)

lemma advance_later:
  "calendar_later nextRun \<Longrightarrow> advanceNextFireAt nextRun zone_ok sch t = Inr (Some n) \<Longrightarrow> t < n"
  by (auto simp: advanceNextFireAt_def dest: plus_interval_later calendar_fire_later split: if_split_asm)

lemma past_slot_later:
  assumes "calendar_later nextRun" and "past t0 c" and "cron_slot nextRun zone_ok c = Inr (Some n)"
  shows "t0 < n"
proof -
  from assms(2) obtain t where t: "tb_lastFiredAt c = Some t" "t0 \<le> t" by (auto simp: past_def)
  show ?thesis
  proof (cases "cn_nextFireAt c")
    case None
    then have "t < n" using assms(1,3) t(1)
      by (auto simp: cron_slot_def recoverNextFireAt_def dest: plus_interval_later calendar_fire_later split: if_split_asm)
    with t(2) show ?thesis by simp
  next
    case (Some m)
    then have "n = m" using assms(3)
      by (auto simp: cron_slot_def recoverNextFireAt_def finiteEpochMs_def split: if_split_asm)
    with Some assms(2) show ?thesis by (simp add: past_def)
  qed
qed

lemma past_frame:
  "past t0 c \<Longrightarrow> tb_lastFiredAt c' = tb_lastFiredAt c \<Longrightarrow> cn_nextFireAt c' = cn_nextFireAt c \<Longrightarrow> past t0 c'"
  by (simp add: past_def)

lemma advanced_past:
  assumes "calendar_later nextRun" and "advanceNextFireAt nextRun zone_ok sch from_t = Inr nxt" and "t0 \<le> from_t" "t0 \<le> fired"
  shows "past t0 (c\<lparr>cn_nextFireAt := nxt, cn_deferUntil := None, tb_lastFiredAt := Some fired\<rparr>)"
proof -
  have "t0 < n" if "nxt = Some n" for n using advance_later[OF assms(1)] assms(2,3) that by fastforce
  with assms(4) show ?thesis by (auto simp: past_def)
qed

lemma claimSlot_cases:
  assumes "claimSlot nextRun zone_ok i sched fired s = (s', r)"
  obtains (refused) "s' = s" "r \<noteq> Inr True"
  | (claimed) c nxt where "dm_get (cr_crons s) i = Some c" "cron_slot nextRun zone_ok c = Inr (Some sched)" "r = Inr True"
      "advanceNextFireAt nextRun zone_ok (cn_schedule c) (advance_from (cn_schedule c) sched fired) = Inr nxt"
      "s' = s\<lparr>cr_crons := dm_put (cr_crons s) i
         (c\<lparr>cn_nextFireAt := nxt, cn_deferUntil := None, tb_lastFiredAt := Some fired\<rparr>)\<rparr>"
  using assms unfolding claimSlot_def
  by (auto split: option.split_asm if_split_asm sum.split_asm)

lemma claimSlot_past:
  assumes "calendar_later nextRun" and "claimSlot nextRun zone_ok i sched fired s = (s', Inr True)" and "sched \<le> fired"
  shows "past_at sched i s'"
  using assms(2)
proof (cases rule: claimSlot_cases)
  case (claimed c nxt)
  have "past sched (c\<lparr>cn_nextFireAt := nxt, cn_deferUntil := None, tb_lastFiredAt := Some fired\<rparr>)"
    using advanced_past[OF assms(1) claimed(4)] assms(3) by (simp add: advance_from_def)
  then show ?thesis by (simp add: claimed(5) past_at_def dm_get_def dm_put_def)
qed simp

section \<open>Steps\<close>

text \<open>What else happens to the store while the slot \<open>t0\<close> of the cron \<open>i\<close> stays claimed: everything but giving the
  slot back, deleting the cron or setting its schedule anew, with times that are not before the slot.\<close>

inductive cron_step :: "calendar \<Rightarrow> (string \<Rightarrow> bool) \<Rightarrow> int \<Rightarrow> string \<Rightarrow> cron_store \<Rightarrow> cron_store \<Rightarrow> bool"
  for nextRun zone_ok t0 i where
  step_claim: "sched \<le> fired \<Longrightarrow> claimSlot nextRun zone_ok j sched fired s = (s', r) \<Longrightarrow> cron_step nextRun zone_ok t0 i s s'"
| step_fired: "t0 \<le> fired \<Longrightarrow> t0 \<le> nullish sched fired \<Longrightarrow> markFired nextRun zone_ok j fired sched s = Inr s' \<Longrightarrow>
    cron_step nextRun zone_ok t0 i s s'"
| step_update: "j \<noteq> i \<or> cp_schedule patch = None \<Longrightarrow> update_cron nextRun zone_ok j patch now s = Inr (s', r') \<Longrightarrow>
    cron_step nextRun zone_ok t0 i s s'"
| step_create: "create_cron sha nextRun zone_ok input now s = Inr (s', c) \<Longrightarrow> cron_step nextRun zone_ok t0 i s s'"
| step_delete: "j \<noteq> i \<Longrightarrow> cron_step nextRun zone_ok t0 i s (delete_cron j s)"
| step_unclaim: "j \<noteq> i \<Longrightarrow> cron_step nextRun zone_ok t0 i s (unclaimSlot j sched fired prior s)"
| step_enabled: "cron_step nextRun zone_ok t0 i s (setEnabled_cron j b s)"
| step_destination: "cron_step nextRun zone_ok t0 i s (setDestination_cron j d s)"
| step_consent: "cron_step nextRun zone_ok t0 i s (setRecipientConsent_cron j consent s)"
| step_attempt: "cron_step nextRun zone_ok t0 i s (markAttempted j fired s)"
| step_defer: "cron_step nextRun zone_ok t0 i s (defer_cron j until s)"
| step_note: "cron_step nextRun zone_ok t0 i s (fst (setFireNote j note s))"
| step_begin: "cron_step nextRun zone_ok t0 i s (fst (beginFire j entry b s))"
| step_record: "cron_step nextRun zone_ok t0 i s (recordFire j entry s)"
| step_sweep: "cron_step nextRun zone_ok t0 i s (fst (sweepStrandedFires now s))"
| step_prune: "cron_step nextRun zone_ok t0 i s (fst (pruneFires now s))"
| step_backfill: "cron_step nextRun zone_ok t0 i s (fst (backfillFires s))"

lemma merge_past:
  assumes "past_at t0 i s" and "\<And>c. j = i \<Longrightarrow> past t0 c \<Longrightarrow> past t0 (f c)"
  shows "past_at t0 i (fst (merge_cron j f s))"
  using assms by (cases "j = i") (auto simp: past_at_def merge_cron_def dm_merge_def dm_get_def split: option.split)

lemma update_past:
  assumes "past_at t0 i s" and "\<And>c. j = i \<Longrightarrow> past t0 c \<Longrightarrow> past t0 (f c)"
  shows "past_at t0 i (s\<lparr>cr_crons := fst (dm_update (cr_crons s) j (\<lambda>c. Inr (f c) :: unit + Cron))\<rparr>)"
  using assms by (cases "j = i") (auto simp: past_at_def dm_update_def dm_get_def split: option.split)

lemma patch_field_frame:
  assumes "\<And>x c. g (upd x c) = g c"
  shows "g (patch_field v upd c) = g c"
  using assms by (simp add: patch_field_def split: option.split)

lemma patch_field_None [simp]: "patch_field None upd c = c"
  by (simp add: patch_field_def)

lemma cron_fields_frame:
  "tb_lastFiredAt (cron_fields patch None c) = tb_lastFiredAt c"
  "cn_nextFireAt (cron_fields patch None c) = cn_nextFireAt c"
  by (simp_all add: cron_fields_def patch_field_frame[where g = tb_lastFiredAt] patch_field_frame[where g = cn_nextFireAt])

lemma backfill_past: "past_at t0 i s \<Longrightarrow> past_at t0 i (fst (backfill_crons cs n s))"
proof (induction cs arbitrary: n s)
  case (Cons p cs)
  obtain j c where p: "p = (j, c)" by fastforce
  have fires: "past_at t0 i (s\<lparr>cr_fires := f\<rparr>) = past_at t0 i s" for f and s :: cron_store by (simp add: past_at_def)
  have "past_at t0 i (v\<lparr>cr_crons := fst (dm_update (cr_crons v) j (\<lambda>c. Inr (c\<lparr>cn_fireLog := None\<rparr>) :: unit + Cron))\<rparr>)"
    if "past_at t0 i v" for v using update_past[OF that] past_frame by simp
  then show ?case using Cons by (simp add: p Let_def fires split: option.split)
qed simp

lemma markFired_past:
  assumes "calendar_later nextRun" and "past_at t0 i s" and "markFired nextRun zone_ok j fired sched s = Inr s'"
    and "t0 \<le> fired" and "t0 \<le> nullish sched fired"
  shows "past_at t0 i s'"
proof (cases "dm_get (cr_crons s) j")
  case None
  then show ?thesis using assms(2,3) by (simp add: markFired_def)
next
  case (Some c)
  let ?from = "advance_from (cn_schedule c) (nullish sched fired) fired"
  obtain nxt where nxt: "advanceNextFireAt nextRun zone_ok (cn_schedule c) ?from = Inr nxt"
    and s': "s' = fst (merge_cron j (\<lambda>c. c\<lparr>tb_lastFiredAt := Some fired, cn_nextFireAt := nxt, cn_deferUntil := None\<rparr>) s)"
    using assms(3) unfolding markFired_def Some by (cases "advanceNextFireAt nextRun zone_ok (cn_schedule c) ?from") simp_all
  have "t0 \<le> ?from" using assms(4,5) by (simp add: advance_from_def)
  moreover have "?from < n" if "nxt = Some n" for n using advance_later[OF assms(1) nxt[unfolded that]] .
  ultimately have "t0 < n" if "nxt = Some n" for n using that by force
  then have "past t0 (v\<lparr>tb_lastFiredAt := Some fired, cn_nextFireAt := nxt, cn_deferUntil := None\<rparr>)" for v
    using assms(4) by (simp add: past_def)
  then show ?thesis unfolding s' by (rule merge_past[OF assms(2)])
qed

lemma claimSlot_keeps_past:
  assumes "calendar_later nextRun" and "past_at t0 i s" and "claimSlot nextRun zone_ok j sched fired s = (s', r)" and "sched \<le> fired"
  shows "past_at t0 i s'"
  using assms(3)
proof (cases rule: claimSlot_cases)
  case (claimed c nxt)
  have "past t0 (c\<lparr>cn_nextFireAt := nxt, cn_deferUntil := None, tb_lastFiredAt := Some fired\<rparr>)" if "j = i"
  proof -
    have "t0 < sched" using past_slot_later[OF assms(1) _ claimed(2)] assms(2) claimed(1) that by (auto simp: past_at_def)
    then show ?thesis using advanced_past[OF assms(1) claimed(4)] assms(4) by (simp add: advance_from_def)
  qed
  then show ?thesis using assms(2) by (auto simp: claimed(5) past_at_def dm_get_def dm_put_def)
qed (use assms(2) in simp)

lemma cron_step_past:
  assumes "calendar_later nextRun" and "cron_step nextRun zone_ok t0 i s s'" and "past_at t0 i s"
  shows "past_at t0 i s'"
  using assms(2)
proof cases
  case (step_claim sched fired j r)
  then show ?thesis using claimSlot_keeps_past[OF assms(1,3)] by blast
next
  case (step_fired fired sched j)
  then show ?thesis using markFired_past[OF assms(1,3)] by blast
next
  case (step_update j patch now r')
  obtain f where f: "merge_cron j f s = (s', r')" "cp_schedule patch = None \<longrightarrow> f = cron_fields patch None"
  proof (cases "cp_schedule patch")
    case (Some sch)
    then obtain x where "merge_cron j (cron_fields patch (Some x)) s = (s', r')"
      using step_update(2) by (auto simp: update_cron_def split: sum.split_asm)
    then show ?thesis using that Some by simp
  qed (use that step_update(2) in \<open>simp add: update_cron_def\<close>)
  then have f': "s' = fst (merge_cron j f s)" by simp
  show ?thesis unfolding f'
    by (rule merge_past[OF assms(3)]) (use step_update(1) f(2) in \<open>auto intro: past_frame simp: cron_fields_frame\<close>)
next
  case (step_create sha input now c)
  then show ?thesis using assms(3)
    by (auto simp: create_cron_def past_at_def dm_putIfAbsent_def dm_get_def Let_def
      split: sum.split_asm option.split_asm prod.split_asm if_split_asm)
next
  case (step_delete j)
  then show ?thesis using assms(3) by (simp add: delete_cron_def past_at_def dm_delete_def dm_get_def)
next
  case (step_unclaim j sched fired prior)
  then show ?thesis unfolding unclaimSlot_def using update_past[OF assms(3)] by simp
next
  case (step_note j nt)
  then show ?thesis unfolding setFireNote_def Let_def fst_conv by (simp, intro update_past[OF assms(3)]) (auto simp: past_def)
next
  case (step_begin j entry b)
  then show ?thesis using assms(3) by (auto simp: beginFire_def past_at_def split: prod.split)
next
  case (step_backfill)
  then show ?thesis using backfill_past[OF assms(3)] by (simp add: backfillFires_def)
next
  case (step_enabled j b)
  then show ?thesis unfolding setEnabled_cron_def by (simp, intro merge_past[OF assms(3)]) (simp add: past_def)
next
  case (step_destination j d)
  then show ?thesis unfolding setDestination_cron_def by (simp, intro merge_past[OF assms(3)]) (simp add: past_def)
next
  case (step_consent j consent)
  then show ?thesis unfolding setRecipientConsent_cron_def by (simp, intro merge_past[OF assms(3)]) (simp add: past_def)
next
  case (step_attempt j fired)
  then show ?thesis unfolding markAttempted_def by (simp, intro merge_past[OF assms(3)]) (simp add: past_def)
next
  case (step_defer j until)
  then show ?thesis unfolding defer_cron_def by (simp, intro merge_past[OF assms(3)]) (simp add: past_def)
qed (use assms(3) in \<open>simp_all add: past_at_def recordFire_def sweepStrandedFires_def pruneFires_def case_prod_beta\<close>)

text \<open>C19: A slot of a schedule is claimed once. After a claim of a slot that is due, whatever happens to the crons with
  times that are not before the slot, as long as nobody gives the slot back, deletes the cron or sets its
  schedule anew, no further claim of the slot succeeds; two schedulers that saw the same cron due fire it once.\<close>

theorem slot_claimed_once:
  assumes "calendar_later nextRun" and "claimSlot nextRun zone_ok i slot fired s = (s1, Inr True)" and "slot \<le> fired"
    and "(cron_step nextRun zone_ok slot i)\<^sup>*\<^sup>* s1 s2"
  shows "snd (claimSlot nextRun zone_ok i slot fired' s2) \<noteq> Inr True \<and> fst (claimSlot nextRun zone_ok i slot fired' s2) = s2"
proof -
  have "past_at slot i s2" using assms(4)
    by (induction rule: rtranclp_induct) (use claimSlot_past[OF assms(1-3)] cron_step_past[OF assms(1)] in blast)+
  obtain s3 r where claim: "claimSlot nextRun zone_ok i slot fired' s2 = (s3, r)" by fastforce
  then show ?thesis
  proof (cases rule: claimSlot_cases)
    case refused
    then show ?thesis using claim by simp
  next
    case (claimed c nxt)
    with \<open>past_at slot i s2\<close> past_slot_later[OF assms(1) _ claimed(2)] show ?thesis by (auto simp: past_at_def)
  qed
qed

definition demo_cron :: Cron where
  "demo_cron = TriggerBase.extend
     (buildTriggerBase \<lparr>ct_ownerScopeId = ''s'', ct_owner = ''u'', ct_createdBy = ''u'', ct_destination = None,
        ct_ownerConsentedAt = None, ct_recipientConsent = None\<rparr> ''c'' 0)
     \<lparr>cn_schedule = \<lparr>cs_cron = None, cs_timezone = None, cs_everyMs = Some 60000, cs_firstFireAt = Some 100\<rparr>,
      cn_nextFireAt = Some 100, cn_lastAttemptAt = None, cn_deferUntil = None, cn_title = None, cn_archived = False,
      cn_action = None, cn_message = None, cn_loopId = None, cn_runAs = None, cn_members = None, cn_unattendedGrants = None,
      cn_fireLog = None, cn_lastFireNote = None\<rparr>"

definition demo_crons :: cron_store where
  "demo_crons = \<lparr>cr_crons = [(''c'', demo_cron)], cr_fires = [], cr_staleRunningMs = DEFAULT_FIRE_RUNNING_STALE_MS\<rparr>"

abbreviation no_calendar :: calendar where
  "no_calendar \<equiv> (\<lambda>e tz t. Inr None)"

text \<open>The slot at 100 of a cron that runs every minute is claimed at 150; a second scheduler is refused at 160.\<close>

theorem slot_claimed_once_witness:
  "let s1 = fst (claimSlot no_calendar (\<lambda>_. True) ''c'' 100 150 demo_crons) in
   snd (claimSlot no_calendar (\<lambda>_. True) ''c'' 100 150 demo_crons) = Inr True \<and>
   snd (claimSlot no_calendar (\<lambda>_. True) ''c'' 100 160 (markAttempted ''c'' 155 s1)) \<noteq> Inr True"
proof -
  define s1 where "s1 = fst (claimSlot no_calendar (\<lambda>_. True) ''c'' 100 150 demo_crons)"
  have cal: "calendar_later no_calendar" by (simp add: calendar_later_def)
  have snd: "snd (claimSlot no_calendar (\<lambda>_. True) ''c'' 100 150 demo_crons) = Inr True" by code_simp
  then have claim: "claimSlot no_calendar (\<lambda>_. True) ''c'' 100 150 demo_crons = (s1, Inr True)"
    by (simp add: s1_def prod_eq_iff)
  have "(cron_step no_calendar (\<lambda>_. True) 100 ''c'')\<^sup>*\<^sup>* s1 (markAttempted ''c'' 155 s1)"
    by (rule r_into_rtranclp) (rule step_attempt)
  from slot_claimed_once[OF cal claim _ this, of 160] snd show ?thesis by (simp add: s1_def Let_def)
qed

section \<open>Exclusive fires\<close>

lemma set_fireOrder [simp]: "set (fireOrder es) = set es"
  by (simp add: fireOrder_def)

lemma beginExclusive_begun:
  "snd (beginExclusive i entry stale s) = Begun \<longleftrightarrow> \<not> (\<exists>e \<in> set (vals (firesOf s i)). blocks_fire entry stale e)"
proof (cases "find (blocks_fire entry stale) (rev (fireOrder (vals (firesOf s i))))")
  case None
  then show ?thesis using find_NoneD[OF None] by (auto simp: beginExclusive_def)
next
  case (Some e)
  then show ?thesis using find_SomeD[OF Some] by (auto simp: beginExclusive_def)
qed

lemma firesOf_update: "firesOf (AList.update i fires s) j = (if j = i then fires else firesOf s j)"
  by (simp add: firesOf_def)

lemma find_rev_sorted_greatest:
  assumes "sorted (map f xs)" and "find P (rev xs) = Some x" and "y \<in> set xs" and "P y"
  shows "f y \<le> f x"
  using assms
proof (induction xs rule: rev_induct)
  case (snoc z xs)
  then show ?case by (auto simp: sorted_append split: if_split_asm)
qed simp

lemma beginExclusive_latest:
  assumes "snd (beginExclusive i entry stale s) = NotBegun (Some e)"
  shows "e \<in> set (vals (firesOf s i)) \<and> blocks_fire entry stale e \<and>
    (\<forall>e' \<in> set (vals (firesOf s i)). blocks_fire entry stale e' \<longrightarrow> fe_firedAt e' \<le> fe_firedAt e)"
proof -
  let ?es = "fireOrder (vals (firesOf s i))"
  have found: "find (blocks_fire entry stale) (rev ?es) = Some e"
    using assms by (auto simp: beginExclusive_def split: option.split_asm)
  have sorted: "sorted (map (\<lambda>e. (fe_firedAt e, fe_fireKey e)) ?es)" by (simp add: fireOrder_def)
  have "fe_firedAt e' \<le> fe_firedAt e" if "e' \<in> set (vals (firesOf s i))" "blocks_fire entry stale e'" for e'
    using find_rev_sorted_greatest[OF sorted found, of e'] that by (auto simp: less_eq_prod_simp)
  then show ?thesis using find_SomeD[OF found] by simp
qed

lemma swept_blocks:
  "blocks_fire entry stale (sweep_entry (fe_firedAt entry) stale nt e) \<longleftrightarrow> blocks_fire entry stale e"
  by (auto simp: blocks_fire_def sweep_entry_def stranded_def)

lemma map_of_map_snd: "map_of (map (\<lambda>(k, v). (k, g v)) m) i = map_option g (map_of m i)"
  by (induction m) auto

lemma firesOf_swept:
  "vals (firesOf (fst (sweepStranded now stale nt s)) i) = map (sweep_entry now stale nt) (vals (firesOf s i))"
  unfolding sweepStranded_def firesOf_def fst_conv map_of_map_snd by (cases "map_of s i") auto

text \<open>Exclusive fires of a cron exclude each other. A fire begins exactly when no other fire of the cron is
  running for less than the stale time, and otherwise the refusal names the latest such fire and leaves the
  log as it is. What begins is in the log, so while it runs no other fire begins before it is stale, other
  crons are not affected, and after a sweep no stranded fire stands in the way of a new one.\<close>

theorem fires_exclusive:
  assumes "beginExclusive i entry stale s = (s', r)"
  shows "(r = Begun \<longleftrightarrow> \<not> (\<exists>e \<in> set (vals (firesOf s i)). fe_fireKey e \<noteq> fe_fireKey entry \<and>
            fe_status e = Some ''running'' \<and> fe_firedAt entry - fe_firedAt e < stale))
    \<and> (r \<noteq> Begun \<longrightarrow> firesOf s' i = firesOf s i \<and> (\<exists>e \<in> set (vals (firesOf s i)). r = NotBegun (Some e) \<and>
          (\<forall>e' \<in> set (vals (firesOf s i)). blocks_fire entry stale e' \<longrightarrow> fe_firedAt e' \<le> fe_firedAt e)))
    \<and> (r = Begun \<and> fe_status entry = Some ''running'' \<and> fe_fireKey other \<noteq> fe_fireKey entry \<and>
         fe_firedAt other - fe_firedAt entry < stale \<longrightarrow> snd (beginExclusive i other stale s') \<noteq> Begun)
    \<and> (\<forall>j. j \<noteq> i \<longrightarrow> firesOf s' j = firesOf s j)
    \<and> (snd (beginExclusive i entry stale (fst (sweepStranded (fe_firedAt entry) stale nt s))) = Begun \<longleftrightarrow>
         \<not> (\<exists>e \<in> set (vals (firesOf s i)). fe_fireKey e \<noteq> fe_fireKey entry \<and>
            fe_status e = Some ''running'' \<and> fe_firedAt entry - fe_firedAt e < stale))"
proof -
  have begun: "r = Begun \<longleftrightarrow> \<not> (\<exists>e \<in> set (vals (firesOf s i)). blocks_fire entry stale e)"
    using beginExclusive_begun[of i entry stale s] assms by simp
  have store: "s' = AList.update i (if r = Begun then AList.update (fe_fireKey entry) entry (firesOf s i) else firesOf s i) s"
    using assms by (auto simp: beginExclusive_def record_entry_def split: option.split_asm)
  have refused: "\<exists>e. r = NotBegun (Some e)" if "r \<noteq> Begun"
    using assms that by (auto simp: beginExclusive_def split: option.split_asm)
  have latest: "\<exists>e \<in> set (vals (firesOf s i)). r = NotBegun (Some e) \<and>
      (\<forall>e' \<in> set (vals (firesOf s i)). blocks_fire entry stale e' \<longrightarrow> fe_firedAt e' \<le> fe_firedAt e)" if "r \<noteq> Begun"
    using refused[OF that] beginExclusive_latest[of i entry stale s] assms by auto
  have fires: "firesOf s' i = (if r = Begun then AList.update (fe_fireKey entry) entry (firesOf s i) else firesOf s i)"
    "j \<noteq> i \<Longrightarrow> firesOf s' j = firesOf s j" for j
    unfolding store firesOf_update by simp_all
  have stored: "entry \<in> set (vals (firesOf s' i))" if "r = Begun"
  proof -
    have "map_of (firesOf s' i) (fe_fireKey entry) = Some entry" using fires(1) that by simp
    then show ?thesis by (force dest: map_of_SomeD)
  qed
  have excluded: "snd (beginExclusive i other stale s') \<noteq> Begun" if "r = Begun" "blocks_fire other stale entry"
    using beginExclusive_begun[of i other stale s'] stored[OF that(1)] that(2) by blast
  have swept: "snd (beginExclusive i entry stale (fst (sweepStranded (fe_firedAt entry) stale nt s))) = Begun \<longleftrightarrow>
      \<not> (\<exists>e \<in> set (vals (firesOf s i)). blocks_fire entry stale e)"
    unfolding beginExclusive_begun firesOf_swept by (simp add: swept_blocks)
  have "r = Begun \<and> fe_status entry = Some ''running'' \<and> fe_fireKey other \<noteq> fe_fireKey entry \<and>
         fe_firedAt other - fe_firedAt entry < stale \<longrightarrow> snd (beginExclusive i other stale s') \<noteq> Begun"
    using excluded unfolding blocks_fire_def by metis
  with begun latest fires swept show ?thesis unfolding blocks_fire_def[of entry stale] by presburger
qed

definition demo_fire :: "string \<Rightarrow> int \<Rightarrow> CronFireLogEntry" where
  "demo_fire k t = \<lparr>fe_fireKey = k, fe_threadRef = ''r'', fe_firedAt = t, fe_scheduledAt = None, fe_status = Some ''running'',
     fe_endedAt = None, fe_note = None, fe_reply = None, fe_sessionId = None\<rparr>"

text \<open>The fire \<open>a\<close> runs since 10, so with a stale time of 100 no fire begins at 20.\<close>

theorem fires_exclusive_witness:
  "snd (beginExclusive ''c'' (demo_fire ''a'' 10) 100 []) = Begun \<and>
   snd (beginExclusive ''c'' (demo_fire ''b'' 20) 100 (fst (beginExclusive ''c'' (demo_fire ''a'' 10) 100 []))) \<noteq> Begun"
proof -
  obtain s' r where e: "beginExclusive ''c'' (demo_fire ''a'' 10) 100 [] = (s', r)" by fastforce
  have "r = Begun" using fires_exclusive[OF e, of "demo_fire ''b'' 20" "[]"] by (simp add: firesOf_def)
  with fires_exclusive[OF e, of "demo_fire ''b'' 20" "[]"] e show ?thesis by (simp add: demo_fire_def)
qed

end
