(* ===== verification/Delivery_Store.thy ===== *)
theory Delivery_Store
  imports Loop_Store Session_Model
begin

text \<open>
  The outbox (\<open>createDeliveryStore\<close> of \<open>src/src/delivery/delivery-store.ts\<close>): messages are enqueued once per
  idempotency key, claimed for a while by a deliverer, acknowledged, or dropped when they are too old. The
  listeners of \<open>onEnqueue\<close> are represented by the number of wake-ups they got.
\<close>

section \<open>Data\<close>

record DeliveryProvenance =
  dp_sourceTitle :: "string option"
  dp_trigger :: string
  dp_surface :: string
  dp_fireKey :: string
  dp_sourceScopeId :: string
  dp_sourceThreadRef :: string
  dp_sourceSessionId :: "string option"
  dp_sourceUserSeq :: "int option"
  dp_sourceAssistantEntrySeq :: "int option"

text \<open>Attachments are carried along as JSON.\<close>

record Delivery =
  dv_id :: string
  dv_destination :: Destination
  dv_text :: string
  dv_attachments :: "json list option"
  dv_provenance :: "DeliveryProvenance option"
  dv_idempotencyKey :: string
  dv_createdAt :: int
  dv_deliveredAt :: "int option"
  dv_expiredAt :: "int option"
  dv_shadow :: bool
  dv_recipientThreadRef :: "string option"
  dv_deliverLatencyMs :: "int option"
  dv_slackApiMs :: "int option"

record EnqueueDelivery =
  ed_destination :: Destination
  ed_text :: string
  ed_attachments :: "json list option"
  ed_provenance :: "DeliveryProvenance option"
  ed_idempotencyKey :: string
  ed_shadow :: bool

definition DELIVERY_MAX_AGE_MS :: int where "DELIVERY_MAX_AGE_MS = 6 * 3600000"

definition turnDeliveryProvenance ::
  "bool \<Rightarrow> string option \<Rightarrow> string \<Rightarrow> string \<Rightarrow> string \<Rightarrow> string option \<Rightarrow> int option \<Rightarrow> int option \<Rightarrow> DeliveryProvenance" where
  "turnDeliveryProvenance automation surface fireKey sourceScopeId sourceThreadRef sourceSessionId userSeq entrySeq =
     \<lparr>dp_sourceTitle = None, dp_trigger = (if automation then nullish surface ''wake'' else ''conversation''),
      dp_surface = nullish surface ''unknown'', dp_fireKey = fireKey, dp_sourceScopeId = sourceScopeId,
      dp_sourceThreadRef = sourceThreadRef, dp_sourceSessionId = sourceSessionId, dp_sourceUserSeq = userSeq,
      dp_sourceAssistantEntrySeq = entrySeq\<rparr>"

record delivery_store =
  ds_maxAgeMs :: int
  ds_deliveries :: "Delivery jsmap"
  ds_byKey :: "string jsmap"
  ds_claimedUntil :: "int jsmap"
  ds_wakeups :: nat

section \<open>Operations\<close>

definition claimed_until :: "delivery_store \<Rightarrow> string \<Rightarrow> int" where
  "claimed_until s i = nullish (map_of (ds_claimedUntil s) i) 0"

definition overaged :: "delivery_store \<Rightarrow> int \<Rightarrow> Delivery \<Rightarrow> bool" where
  "overaged s now d =
     (if dv_deliveredAt d \<noteq> None \<or> dv_shadow d \<or> dv_expiredAt d \<noteq> None then False
      else if claimed_until s (dv_id d) > now then False
      else if now - dv_createdAt d < ds_maxAgeMs s then False
      else True)"

definition expireOveraged :: "int \<Rightarrow> delivery_store \<Rightarrow> delivery_store" where
  "expireOveraged now s =
     s\<lparr>ds_deliveries := map (\<lambda>(i, d). (i, if overaged s now d then d\<lparr>dv_expiredAt := Some now\<rparr> else d)) (ds_deliveries s)\<rparr>"

definition wake :: "bool \<Rightarrow> delivery_store \<Rightarrow> delivery_store" where
  "wake shadow s = (if shadow then s else s\<lparr>ds_wakeups := ds_wakeups s + 1\<rparr>)"

definition some_attachments :: "json list option \<Rightarrow> json list option" where
  "some_attachments xs = (case xs of None \<Rightarrow> None | Some ys \<Rightarrow> if ys = [] then None else Some ys)"

definition put_delivery :: "Delivery \<Rightarrow> delivery_store \<Rightarrow> delivery_store" where
  "put_delivery d s = s\<lparr>ds_deliveries := AList.update (dv_id d) d (ds_deliveries s)\<rparr>"

definition new_delivery :: "EnqueueDelivery \<Rightarrow> int \<Rightarrow> string \<Rightarrow> Delivery" where
  "new_delivery input now uuid =
     \<lparr>dv_id = uuid, dv_destination = ed_destination input, dv_text = ed_text input,
      dv_attachments = some_attachments (ed_attachments input), dv_provenance = ed_provenance input,
      dv_idempotencyKey = ed_idempotencyKey input, dv_createdAt = now, dv_deliveredAt = None, dv_expiredAt = None,
      dv_shadow = ed_shadow input, dv_recipientThreadRef = None, dv_deliverLatencyMs = None, dv_slackApiMs = None\<rparr>"

definition revive :: "EnqueueDelivery \<Rightarrow> int \<Rightarrow> Delivery \<Rightarrow> Delivery" where
  "revive input now d =
     d\<lparr>dv_destination := ed_destination input, dv_text := ed_text input,
       dv_attachments := some_attachments (ed_attachments input), dv_provenance := ed_provenance input,
       dv_createdAt := now, dv_expiredAt := None, dv_shadow := ed_shadow input\<rparr>"

text \<open>A key always leads to a stored delivery (part of the invariant below), so the failure of the code on a key
  without one is not represented.\<close>

definition enqueue_delivery :: "EnqueueDelivery \<Rightarrow> int \<Rightarrow> string \<Rightarrow> delivery_store \<Rightarrow> delivery_store \<times> Delivery" where
  "enqueue_delivery input now uuid s =
     (case (if truthy (map_of (ds_byKey s) (ed_idempotencyKey input))
            then map_of (ds_deliveries s) (the (map_of (ds_byKey s) (ed_idempotencyKey input))) else None) of
        Some existing \<Rightarrow>
          if dv_deliveredAt existing = None \<and> dv_expiredAt existing \<noteq> None
          then let d = revive input now existing in
            (wake (dv_shadow d) ((put_delivery d s)\<lparr>ds_claimedUntil := AList.delete (dv_id d) (ds_claimedUntil s)\<rparr>), d)
          else (s, existing)
      | None \<Rightarrow>
          let d = new_delivery input now uuid in
          (wake (dv_shadow d) ((put_delivery d s)\<lparr>ds_byKey := AList.update (dv_idempotencyKey d) (dv_id d) (ds_byKey s)\<rparr>), d))"

definition awaiting :: "string \<Rightarrow> Delivery \<Rightarrow> bool" where
  "awaiting type d = (dv_deliveredAt d = None \<and> dv_expiredAt d = None \<and> \<not> dv_shadow d \<and> d_type (dv_destination d) = type)"

definition pending_deliveries :: "string \<Rightarrow> delivery_store \<Rightarrow> Delivery list" where
  "pending_deliveries type s = filter (awaiting type) (vals (ds_deliveries s))"

definition claimPending :: "string \<Rightarrow> int \<Rightarrow> int \<Rightarrow> delivery_store \<Rightarrow> delivery_store \<times> Delivery list" where
  "claimPending type ttlMs now s =
     (let s1 = expireOveraged now s;
          rows = filter (\<lambda>d. awaiting type d \<and> claimed_until s1 (dv_id d) \<le> now) (vals (ds_deliveries s1))
      in (s1\<lparr>ds_claimedUntil := foldl (\<lambda>m d. AList.update (dv_id d) (now + ttlMs) m) (ds_claimedUntil s1) rows\<rparr>, rows))"

definition listShadow :: "int option \<Rightarrow> delivery_store \<Rightarrow> Delivery list" where
  "listShadow limit s =
     take (nat (max 1 (nullish limit 100)))
       (sort_desc dv_createdAt (filter (\<lambda>d. dv_shadow d \<and> dv_deliveredAt d = None) (vals (ds_deliveries s))))"

definition deliver :: "int \<Rightarrow> Delivery \<Rightarrow> Delivery" where
  "deliver t d = d\<lparr>dv_deliveredAt := Some t, dv_expiredAt := None\<rparr>"

definition ack_delivery :: "string \<Rightarrow> int \<Rightarrow> int option \<Rightarrow> delivery_store \<Rightarrow> delivery_store" where
  "ack_delivery i t slackApiMs s =
     (case map_of (ds_deliveries s) i of
        None \<Rightarrow> s
      | Some d \<Rightarrow>
          if dv_deliveredAt d = None
          then s\<lparr>ds_deliveries := AList.update i ((deliver t d)
                 \<lparr>dv_deliverLatencyMs := Some (max 0 (t - dv_createdAt d)),
                  dv_slackApiMs := (if slackApiMs = None then dv_slackApiMs d else slackApiMs)\<rparr>) (ds_deliveries s)\<rparr>
          else s)"

definition tombstone :: "string \<Rightarrow> int \<Rightarrow> string \<Rightarrow> Delivery" where
  "tombstone idempotencyKey t uuid =
     \<lparr>dv_id = uuid, dv_destination = \<lparr>d_type = ''ack-tombstone'', d_target = [], d_audienceScopeId = None, d_onBehalfOf = None,
        d_relaySender = None, d_threadTs = None, d_editRef = None, d_options = []\<rparr>, dv_text = [], dv_attachments = None,
      dv_provenance = None, dv_idempotencyKey = idempotencyKey, dv_createdAt = t, dv_deliveredAt = Some t,
      dv_expiredAt = None, dv_shadow = False, dv_recipientThreadRef = None, dv_deliverLatencyMs = None, dv_slackApiMs = None\<rparr>"

definition ackByKey :: "string \<Rightarrow> int \<Rightarrow> string \<Rightarrow> delivery_store \<Rightarrow> delivery_store" where
  "ackByKey idempotencyKey t uuid s =
     (if truthy (map_of (ds_byKey s) idempotencyKey)
      then (case map_of (ds_deliveries s) (the (map_of (ds_byKey s) idempotencyKey)) of
              None \<Rightarrow> s
            | Some d \<Rightarrow>
                if dv_deliveredAt d = None
                then s\<lparr>ds_deliveries := AList.update (the (map_of (ds_byKey s) idempotencyKey)) (deliver t d) (ds_deliveries s)\<rparr>
                else s)
      else (put_delivery (tombstone idempotencyKey t uuid) s)\<lparr>ds_byKey := AList.update idempotencyKey uuid (ds_byKey s)\<rparr>)"

definition setEditRefByKey :: "string \<Rightarrow> string \<Rightarrow> delivery_store \<Rightarrow> delivery_store" where
  "setEditRefByKey idempotencyKey editRef s =
     (if truthy (map_of (ds_byKey s) idempotencyKey)
      then (case map_of (ds_deliveries s) (the (map_of (ds_byKey s) idempotencyKey)) of
              None \<Rightarrow> s
            | Some d \<Rightarrow>
                if dv_deliveredAt d = None
                then s\<lparr>ds_deliveries := AList.update (the (map_of (ds_byKey s) idempotencyKey))
                       (d\<lparr>dv_destination := (dv_destination d)\<lparr>d_editRef := Some editRef\<rparr>\<rparr>) (ds_deliveries s)\<rparr>
                else s)
      else s)"

definition recordRecipientThread :: "string \<Rightarrow> string \<Rightarrow> int \<Rightarrow> delivery_store \<Rightarrow> delivery_store" where
  "recordRecipientThread i recipientThreadRef t s =
     (case map_of (ds_deliveries s) i of
        None \<Rightarrow> s
      | Some d \<Rightarrow>
          if d_type (dv_destination d) \<noteq> ''principal'' then s
          else let d1 = d\<lparr>dv_recipientThreadRef := Some recipientThreadRef\<rparr>;
                   d2 = (if dv_deliveredAt d = None then deliver t d1 else d1)
               in s\<lparr>ds_deliveries := AList.update i d2 (ds_deliveries s)\<rparr>)"

definition last_of :: "int option \<Rightarrow> 'a list \<Rightarrow> 'a list" where
  "last_of limit xs = drop (length xs - nat (max 1 (nullish limit 20))) xs"

definition listByRecipientThread :: "string \<Rightarrow> int option \<Rightarrow> delivery_store \<Rightarrow> Delivery list" where
  "listByRecipientThread recipientThreadRef limit s =
     last_of limit (sort_key dv_createdAt (filter (\<lambda>d. dv_recipientThreadRef d = Some recipientThreadRef \<and>
       d_type (dv_destination d) = ''principal'') (vals (ds_deliveries s))))"

definition listBySourceSession :: "string \<Rightarrow> string \<Rightarrow> int option \<Rightarrow> delivery_store \<Rightarrow> Delivery list" where
  "listBySourceSession sourceSessionId sourceThreadRef limit s =
     last_of limit (sort_key dv_createdAt (filter (\<lambda>d.
       Option.bind (dv_provenance d) dp_sourceSessionId = Some sourceSessionId \<or>
       map_option dp_sourceThreadRef (dv_provenance d) = Some sourceThreadRef) (vals (ds_deliveries s))))"

definition bump_count :: "string \<Rightarrow> nat jsmap \<Rightarrow> nat jsmap" where
  "bump_count i m = AList.update i (nullish (map_of m i) 0 + 1) m"

text \<open>\<open>new Map(sources.map(...))\<close>: of several sources with one thread the last wins.\<close>

definition sent_source :: "(string \<times> string) list \<Rightarrow> Delivery \<Rightarrow> string option" where
  "sent_source sources d =
     (if dv_shadow d \<or> dv_expiredAt d \<noteq> None then None
      else case dv_provenance d of
        None \<Rightarrow> None
      | Some p \<Rightarrow>
          if truthy (dp_sourceSessionId p)
          then (if the (dp_sourceSessionId p) \<in> set (map fst sources) then dp_sourceSessionId p else None)
          else if dp_sourceThreadRef p \<noteq> []
          then map_of (rev (map (\<lambda>(sid, ref). (ref, sid)) sources)) (dp_sourceThreadRef p)
          else None)"

definition sentCountsBySourceSessions :: "(string \<times> string) list \<Rightarrow> delivery_store \<Rightarrow> nat jsmap" where
  "sentCountsBySourceSessions sources s =
     foldl (\<lambda>m d. if truthy (sent_source sources d) then bump_count (the (sent_source sources d)) m else m)
       [] (vals (ds_deliveries s))"

definition sent_run :: "string list \<Rightarrow> Delivery \<Rightarrow> (string \<times> string) option" where
  "sent_run cronIds d =
     (if dv_shadow d \<or> dv_expiredAt d \<noteq> None then None
      else case dv_provenance d of
        None \<Rightarrow> None
      | Some p \<Rightarrow>
          if dp_sourceThreadRef p = [] then None
          else (case cronIdOf (dp_sourceThreadRef p) of
            None \<Rightarrow> None
          | Some cronId \<Rightarrow> if cronId = [] \<or> cronId \<notin> set cronIds then None
                          else Some (cronId, nullish (dp_sourceSessionId p) (dp_sourceThreadRef p))))"

definition add_run :: "string list jsmap \<Rightarrow> string \<times> string \<Rightarrow> string list jsmap" where
  "add_run m run = AList.update (fst run) (dedupe (nullish (map_of m (fst run)) [] @ [snd run])) m"

definition sentRunCountsByCron :: "string list \<Rightarrow> delivery_store \<Rightarrow> nat jsmap" where
  "sentRunCountsByCron cronIds s =
     map (\<lambda>(i, runs). (i, length runs)) (foldl add_run [] (List.map_filter (sent_run cronIds) (vals (ds_deliveries s))))"

end
