(* ===== verification/Delivery_Properties.thy ===== *)
theory Delivery_Properties
  imports Delivery_Store
begin

text \<open>
  What the outbox guarantees: one delivery per idempotency key, a delivery that was acknowledged stays so and is
  not handed out again, and deliverers that claim at overlapping times get disjoint deliveries.
\<close>

section \<open>The invariant\<close>

definition delivery_inv :: "delivery_store \<Rightarrow> bool" where
  "delivery_inv s \<longleftrightarrow> distinct (keys (ds_deliveries s)) \<and>
     (\<forall>i d. map_of (ds_deliveries s) i = Some d \<longrightarrow>
        dv_id d = i \<and> i \<noteq> [] \<and> map_of (ds_byKey s) (dv_idempotencyKey d) = Some i) \<and>
     (\<forall>k i. map_of (ds_byKey s) k = Some i \<longrightarrow>
        (\<exists>d. map_of (ds_deliveries s) i = Some d \<and> dv_idempotencyKey d = k))"

definition empty_outbox :: "int \<Rightarrow> delivery_store" where
  "empty_outbox maxAge = \<lparr>ds_maxAgeMs = maxAge, ds_deliveries = [], ds_byKey = [], ds_claimedUntil = [], ds_wakeups = 0\<rparr>"

text \<open>The operations that change the store, with ids that were not used before and with claims before the time \<open>hi\<close>.\<close>

definition fresh_id :: "delivery_store \<Rightarrow> string \<Rightarrow> bool" where
  "fresh_id s uuid \<longleftrightarrow> uuid \<noteq> [] \<and> map_of (ds_deliveries s) uuid = None"

inductive delivery_step :: "int \<Rightarrow> delivery_store \<Rightarrow> delivery_store \<Rightarrow> bool" for hi where
  step_enqueue: "fresh_id s uuid \<Longrightarrow> delivery_step hi s (fst (enqueue_delivery input now uuid s))"
| step_claim: "now < hi \<Longrightarrow> delivery_step hi s (fst (claimPending type ttl now s))"
| step_ack: "delivery_step hi s (ack_delivery i t ms s)"
| step_ackByKey: "fresh_id s uuid \<Longrightarrow> delivery_step hi s (ackByKey k t uuid s)"
| step_editRef: "delivery_step hi s (setEditRefByKey k ref s)"
| step_recipient: "delivery_step hi s (recordRecipientThread i ref t s)"

text \<open>What a step does to one delivery: nothing that takes back a delivery; only an expired one is filled anew.\<close>

definition delivery_rel :: "Delivery \<Rightarrow> Delivery \<Rightarrow> bool" where
  "delivery_rel d d' \<longleftrightarrow> dv_id d' = dv_id d \<and> dv_idempotencyKey d' = dv_idempotencyKey d \<and>
     (\<forall>t. dv_deliveredAt d = Some t \<longrightarrow> dv_deliveredAt d' = Some t \<and> dv_text d' = dv_text d \<and>
        dv_destination d' = dv_destination d \<and> dv_createdAt d' = dv_createdAt d) \<and>
     (dv_expiredAt d = None \<longrightarrow> dv_text d' = dv_text d \<and> dv_createdAt d' = dv_createdAt d)"

lemma delivery_rel_refl [simp]: "delivery_rel d d"
  by (simp add: delivery_rel_def)

lemma delivery_rel_deliver [simp]:
  "dv_deliveredAt d = None \<Longrightarrow> delivery_rel d (deliver t d)"
  by (simp add: delivery_rel_def deliver_def)

lemma expire_get:
  "map_of (ds_deliveries (expireOveraged now s)) i =
     map_option (\<lambda>d. if overaged s now d then d\<lparr>dv_expiredAt := Some now\<rparr> else d) (map_of (ds_deliveries s) i)"
proof -
  have "map_of (map (\<lambda>(i, d). (i, g d)) m) i = map_option g (map_of m i)" for g and m :: "Delivery jsmap" by (induction m) auto
  then show ?thesis by (simp add: expireOveraged_def)
qed

lemma expire_keys: "keys (ds_deliveries (expireOveraged now s)) = keys (ds_deliveries s)"
  by (simp add: expireOveraged_def comp_def case_prod_beta)

lemma claim_get:
  "map_of (ds_deliveries (fst (claimPending type ttl now s))) i =
     map_option (\<lambda>d. if overaged s now d then d\<lparr>dv_expiredAt := Some now\<rparr> else d) (map_of (ds_deliveries s) i)"
  by (simp add: claimPending_def Let_def expire_get)

lemma claim_byKey: "ds_byKey (fst (claimPending type ttl now s)) = ds_byKey s"
  "keys (ds_deliveries (fst (claimPending type ttl now s))) = keys (ds_deliveries s)"
  by (simp_all add: claimPending_def Let_def expireOveraged_def comp_def case_prod_beta)

lemma wake_fields [simp]: "ds_deliveries (wake b s) = ds_deliveries s" "ds_byKey (wake b s) = ds_byKey s"
  "ds_claimedUntil (wake b s) = ds_claimedUntil s"
  by (simp_all add: wake_def)

text \<open>Enqueueing either changes nothing, fills an expired delivery of the key anew, or adds a delivery.\<close>

lemma enqueue_cases:
  assumes "delivery_inv s" and "enqueue_delivery input now uuid s = (s', r)"
  obtains (kept) "s' = s" "map_of (ds_deliveries s) (dv_id r) = Some r" "dv_idempotencyKey r = ed_idempotencyKey input"
  | (revived) d where "map_of (ds_deliveries s) (dv_id d) = Some d" "dv_idempotencyKey d = ed_idempotencyKey input"
      "dv_deliveredAt d = None" "dv_expiredAt d \<noteq> None" "r = revive input now d"
      "ds_deliveries s' = AList.update (dv_id d) (revive input now d) (ds_deliveries s)" "ds_byKey s' = ds_byKey s"
      "ds_claimedUntil s' = AList.delete (dv_id d) (ds_claimedUntil s)"
  | (added) "map_of (ds_byKey s) (ed_idempotencyKey input) = None" "r = new_delivery input now uuid"
      "ds_deliveries s' = AList.update uuid (new_delivery input now uuid) (ds_deliveries s)"
      "ds_byKey s' = AList.update (ed_idempotencyKey input) uuid (ds_byKey s)" "ds_claimedUntil s' = ds_claimedUntil s"
proof (cases "map_of (ds_byKey s) (ed_idempotencyKey input)")
  case None
  then show ?thesis using assms(2) added
    by (auto simp: enqueue_delivery_def Let_def put_delivery_def new_delivery_def)
next
  case (Some i)
  then obtain d where d: "map_of (ds_deliveries s) i = Some d" "dv_idempotencyKey d = ed_idempotencyKey input"
    using assms(1) unfolding delivery_inv_def by blast
  then have i: "dv_id d = i" "i \<noteq> []" using assms(1) unfolding delivery_inv_def by blast+
  show ?thesis
  proof (cases "dv_deliveredAt d = None \<and> dv_expiredAt d \<noteq> None")
    case True
    then show ?thesis using assms(2) revived[of d] Some d i
      by (auto simp: enqueue_delivery_def Let_def put_delivery_def revive_def)
  next
    case False
    then have "s' = s" "r = d" using assms(2) Some d i by (auto simp: enqueue_delivery_def)
    then show ?thesis using kept d i by simp
  qed
qed

lemma delivery_invD:
  assumes "delivery_inv s" and "map_of (ds_deliveries s) i = Some d"
  shows "dv_id d = i" "i \<noteq> []" "map_of (ds_byKey s) (dv_idempotencyKey d) = Some i"
  using assms unfolding delivery_inv_def by blast+

lemma delivery_inv_key:
  assumes "delivery_inv s" and "map_of (ds_byKey s) k = Some i"
  obtains d where "map_of (ds_deliveries s) i = Some d" "dv_idempotencyKey d = k"
  using assms unfolding delivery_inv_def by blast

lemma delivery_inv_update:
  assumes "delivery_inv s" and "map_of (ds_deliveries s) i = Some d" and "dv_id d' = i"
    and "dv_idempotencyKey d' = dv_idempotencyKey d" and "ds_byKey s' = ds_byKey s"
    and "ds_deliveries s' = AList.update i d' (ds_deliveries s)"
  shows "delivery_inv s'"
  unfolding delivery_inv_def
proof (intro conjI allI impI)
  show "distinct (keys (ds_deliveries s'))" using assms(1,6) by (simp add: delivery_inv_def)
next
  fix j x assume "map_of (ds_deliveries s') j = Some x"
  then have "j = i \<and> x = d' \<or> map_of (ds_deliveries s) j = Some x" using assms(6) by (auto split: if_split_asm)
  then show "dv_id x = j" "j \<noteq> []" "map_of (ds_byKey s') (dv_idempotencyKey x) = Some j"
    using assms unfolding delivery_inv_def by metis+
next
  fix k j assume "map_of (ds_byKey s') k = Some j"
  then obtain x where "map_of (ds_deliveries s) j = Some x" "dv_idempotencyKey x = k"
    using assms(1,5) unfolding delivery_inv_def by metis
  then show "\<exists>x. map_of (ds_deliveries s') j = Some x \<and> dv_idempotencyKey x = k" using assms(2,4,6) by (cases "j = i") auto
qed

lemma delivery_inv_add:
  assumes "delivery_inv s" and "fresh_id s i" and "map_of (ds_byKey s) k = None" and "dv_id d = i" and "dv_idempotencyKey d = k"
    and "ds_deliveries s' = AList.update i d (ds_deliveries s)" and "ds_byKey s' = AList.update k i (ds_byKey s)"
  shows "delivery_inv s'"
  unfolding delivery_inv_def
proof (intro conjI allI impI)
  show "distinct (keys (ds_deliveries s'))" using assms(1,6) by (simp add: delivery_inv_def)
next
  fix j x assume x: "map_of (ds_deliveries s') j = Some x"
  have "dv_id x = j \<and> j \<noteq> [] \<and> map_of (ds_byKey s') (dv_idempotencyKey x) = Some j"
  proof (cases "j = i")
    case True
    then show ?thesis using x assms(2,4-7) by (simp add: fresh_id_def)
  next
    case False
    then have old: "map_of (ds_deliveries s) j = Some x" using x assms(6) by simp
    note old = delivery_invD[OF assms(1) old]
    then have "dv_idempotencyKey x \<noteq> k" using assms(3) by auto
    then show ?thesis using old assms(7) by simp
  qed
  then show "dv_id x = j" "j \<noteq> []" "map_of (ds_byKey s') (dv_idempotencyKey x) = Some j" by simp_all
next
  fix k' j assume now: "map_of (ds_byKey s') k' = Some j"
  show "\<exists>x. map_of (ds_deliveries s') j = Some x \<and> dv_idempotencyKey x = k'"
  proof (cases "k' = k")
    case True
    then show ?thesis using now assms by simp
  next
    case False
    then have "map_of (ds_byKey s) k' = Some j" using now assms(7) by simp
    from delivery_inv_key[OF assms(1) this] obtain x where x: "map_of (ds_deliveries s) j = Some x" "dv_idempotencyKey x = k'" .
    moreover from x(1) assms(2) have "j \<noteq> i" by (auto simp: fresh_id_def)
    ultimately show ?thesis using assms(6) by simp
  qed
qed

text \<open>An update of one stored delivery.\<close>

definition touches :: "delivery_store \<Rightarrow> delivery_store \<Rightarrow> bool" where
  "touches s s' \<longleftrightarrow> s' = s \<or> (\<exists>i d d'. map_of (ds_deliveries s) i = Some d \<and> delivery_rel d d' \<and>
     (dv_expiredAt d = None \<longrightarrow> dv_expiredAt d' = None) \<and>
     s' = s\<lparr>ds_deliveries := AList.update i d' (ds_deliveries s)\<rparr>)"

lemma touchesI:
  "map_of (ds_deliveries s) i = Some d \<Longrightarrow> delivery_rel d d' \<Longrightarrow> (dv_expiredAt d = None \<longrightarrow> dv_expiredAt d' = None) \<Longrightarrow>
   touches s (s\<lparr>ds_deliveries := AList.update i d' (ds_deliveries s)\<rparr>)"
  unfolding touches_def by (intro disjI2 exI conjI) (assumption | rule refl)+

lemma touches_cases:
  assumes "touches s s'"
  obtains (same) "s' = s"
  | (update) i d d' where "map_of (ds_deliveries s) i = Some d" "delivery_rel d d'"
      "dv_expiredAt d = None \<longrightarrow> dv_expiredAt d' = None" "s' = s\<lparr>ds_deliveries := AList.update i d' (ds_deliveries s)\<rparr>"
  using assms unfolding touches_def by (elim disjE exE conjE)

lemma touches_refl: "touches s s"
  by (simp add: touches_def)

lemma touching_ops:
  "touches s (ack_delivery i t ms s)" "touches s (setEditRefByKey k ref s)" "touches s (recordRecipientThread i ref t s)"
  "truthy (map_of (ds_byKey s) k) \<Longrightarrow> touches s (ackByKey k t uuid s)"
proof -
  show "touches s (ack_delivery i t ms s)"
    unfolding ack_delivery_def
    by (auto simp: touches_refl delivery_rel_def deliver_def intro!: touchesI split: option.split)
  show "touches s (setEditRefByKey k ref s)"
    unfolding setEditRefByKey_def
    by (auto simp: touches_refl delivery_rel_def intro!: touchesI split: option.split)
  show "touches s (recordRecipientThread i ref t s)"
    unfolding recordRecipientThread_def Let_def
    by (auto simp: touches_refl delivery_rel_def deliver_def intro!: touchesI split: option.split)
  show "truthy (map_of (ds_byKey s) k) \<Longrightarrow> touches s (ackByKey k t uuid s)"
    unfolding ackByKey_def
    by (auto simp: touches_refl intro!: touchesI simp: delivery_rel_def deliver_def split: option.split)
qed

lemma touches_get:
  assumes "touches s s'" and "map_of (ds_deliveries s) i = Some d"
  shows "\<exists>d'. map_of (ds_deliveries s') i = Some d' \<and> delivery_rel d d' \<and> (dv_expiredAt d = None \<longrightarrow> dv_expiredAt d' = None)"
  using assms(1)
proof (cases rule: touches_cases)
  case (update j x x')
  then show ?thesis using assms(2) by (cases "i = j") simp_all
qed (use assms(2) in simp)

lemma touches_inv:
  assumes "touches s s'" and "delivery_inv s"
  shows "delivery_inv s'"
  using assms(1)
proof (cases rule: touches_cases)
  case (update j x x')
  have "dv_id x' = j" "dv_idempotencyKey x' = dv_idempotencyKey x"
    using update(2) delivery_invD(1)[OF assms(2) update(1)] by (simp_all add: delivery_rel_def)
  from delivery_inv_update[OF assms(2) update(1) this] show ?thesis by (simp add: update(4))
qed (use assms(2) in simp)

lemma touches_claims: "touches s s' \<Longrightarrow> ds_claimedUntil s' = ds_claimedUntil s"
  by (erule touches_cases) simp_all

lemma ackByKey_fresh:
  assumes "delivery_inv s" and "\<not> truthy (map_of (ds_byKey s) k)"
  shows "map_of (ds_byKey s) k = None"
    and "ackByKey k t uuid s = s\<lparr>ds_deliveries := AList.update uuid (tombstone k t uuid) (ds_deliveries s),
      ds_byKey := AList.update k uuid (ds_byKey s)\<rparr>"
proof -
  show "map_of (ds_byKey s) k = None"
  proof (cases "map_of (ds_byKey s) k")
    case (Some i)
    from delivery_inv_key[OF assms(1) Some] obtain d where "map_of (ds_deliveries s) i = Some d" .
    from delivery_invD(2)[OF assms(1) this] assms(2) Some show ?thesis by simp
  qed simp
  show "ackByKey k t uuid s = s\<lparr>ds_deliveries := AList.update uuid (tombstone k t uuid) (ds_deliveries s),
      ds_byKey := AList.update k uuid (ds_byKey s)\<rparr>"
    using assms(2) by (simp add: ackByKey_def put_delivery_def tombstone_def)
qed

lemma claim_inv:
  assumes "delivery_inv s"
  shows "delivery_inv (fst (claimPending type ttl now s))"
proof -
  have keep: "dv_id (if b then d\<lparr>dv_expiredAt := e\<rparr> else d) = dv_id d"
    "dv_idempotencyKey (if b then d\<lparr>dv_expiredAt := e\<rparr> else d) = dv_idempotencyKey d" for b d e by simp_all
  show ?thesis unfolding delivery_inv_def claim_get claim_byKey
  proof (intro conjI allI impI)
    show "distinct (keys (ds_deliveries s))" using assms by (simp add: delivery_inv_def)
  next
    fix i x assume "map_option (\<lambda>d. if overaged s now d then d\<lparr>dv_expiredAt := Some now\<rparr> else d) (map_of (ds_deliveries s) i) = Some x"
    then obtain d where d: "map_of (ds_deliveries s) i = Some d"
      and x: "x = (if overaged s now d then d\<lparr>dv_expiredAt := Some now\<rparr> else d)" by (cases "map_of (ds_deliveries s) i") auto
    show "dv_id x = i" "i \<noteq> []" "map_of (ds_byKey s) (dv_idempotencyKey x) = Some i"
      using delivery_invD[OF assms d] unfolding x keep by blast+
  next
    fix k i assume "map_of (ds_byKey s) k = Some i"
    from delivery_inv_key[OF assms this] obtain d where "map_of (ds_deliveries s) i = Some d" "dv_idempotencyKey d = k" .
    then show "\<exists>x. map_option (\<lambda>d. if overaged s now d then d\<lparr>dv_expiredAt := Some now\<rparr> else d) (map_of (ds_deliveries s) i) = Some x \<and>
        dv_idempotencyKey x = k" by simp
  qed
qed

lemma enqueue_inv:
  assumes "delivery_inv s" and "fresh_id s uuid"
  shows "delivery_inv (fst (enqueue_delivery input now uuid s))"
proof -
  obtain s' r where e: "enqueue_delivery input now uuid s = (s', r)" by fastforce
  from assms(1) e have "delivery_inv s'"
  proof (cases rule: enqueue_cases)
    case (revived d)
    show ?thesis by (rule delivery_inv_update[OF assms(1) revived(1) _ _ revived(7,6)]) (simp_all add: revive_def)
  next
    case added
    show ?thesis by (rule delivery_inv_add[OF assms added(1) _ _ added(3,4)]) (simp_all add: new_delivery_def)
  qed (use assms(1) in simp)
  with e show ?thesis by simp
qed

lemma ackByKey_inv:
  assumes "delivery_inv s" and "fresh_id s uuid"
  shows "delivery_inv (ackByKey k t uuid s)"
proof (cases "truthy (map_of (ds_byKey s) k)")
  case True
  from touches_inv[OF touching_ops(4)[OF this] assms(1)] show ?thesis .
next
  case False
  note key = ackByKey_fresh[OF assms(1) False]
  show ?thesis by (rule delivery_inv_add[OF assms key(1), of "tombstone k t uuid"]) (simp_all add: key(2) tombstone_def)
qed

lemma delivery_step_inv:
  assumes "delivery_inv s" and "delivery_step hi s s'"
  shows "delivery_inv s'"
  using assms(2)
  by cases (simp_all add: assms(1) enqueue_inv claim_inv ackByKey_inv touches_inv[OF touching_ops(1) assms(1)]
    touches_inv[OF touching_ops(2) assms(1)] touches_inv[OF touching_ops(3) assms(1)])

interpretation outbox: invariant_system "\<lambda>s. \<exists>m. s = empty_outbox m" "delivery_step hi" delivery_inv for hi
proof unfold_locales
  show "delivery_inv s" if "\<exists>m. s = empty_outbox m" for s
    using that by (auto simp: delivery_inv_def empty_outbox_def)
qed (rule delivery_step_inv)

section \<open>What happens to one delivery\<close>

lemma step_keeps_delivery:
  assumes "delivery_inv s" and "delivery_step hi s s'" and "map_of (ds_deliveries s) i = Some d"
  shows "\<exists>d'. map_of (ds_deliveries s') i = Some d' \<and> delivery_rel d d'"
  using assms(2)
proof cases
  case (step_enqueue uuid input now)
  obtain r where e: "enqueue_delivery input now uuid s = (s', r)" using step_enqueue(1) by (metis prod.collapse)
  from assms(1) e show ?thesis
  proof (cases rule: enqueue_cases)
    case (revived x)
    then show ?thesis using assms(3) by (cases "i = dv_id x") (auto simp: delivery_rel_def revive_def)
  next
    case added
    then have "i \<noteq> uuid" using step_enqueue(2) assms(3) by (auto simp: fresh_id_def)
    then show ?thesis using added(3) assms(3) by simp
  qed (use assms(3) in simp)
next
  case (step_claim now type ttl)
  then show ?thesis using assms(3) by (simp add: claim_get delivery_rel_def overaged_def split: if_split_asm)
next
  case (step_ackByKey uuid k t)
  show ?thesis
  proof (cases "truthy (map_of (ds_byKey s) k)")
    case True
    from touches_get[OF touching_ops(4)[OF this] assms(3)] show ?thesis using step_ackByKey(1) by blast
  next
    case False
    have "i \<noteq> uuid" using step_ackByKey(2) assms(3) by (auto simp: fresh_id_def)
    then show ?thesis using assms(3) step_ackByKey(1) by (simp add: ackByKey_fresh(2)[OF assms(1) False])
  qed
qed (use touches_get[OF touching_ops(1) assms(3)] touches_get[OF touching_ops(2) assms(3)]
    touches_get[OF touching_ops(3) assms(3)] in blast)+

lemma steps_keep_delivered:
  assumes "(delivery_step hi)\<^sup>*\<^sup>* s s'" and "delivery_inv s" and "map_of (ds_deliveries s) i = Some d" and "dv_deliveredAt d = Some t"
  shows "\<exists>d'. map_of (ds_deliveries s') i = Some d' \<and> dv_deliveredAt d' = Some t \<and> dv_text d' = dv_text d \<and>
    dv_destination d' = dv_destination d \<and> dv_idempotencyKey d' = dv_idempotencyKey d"
  using assms(1,2)
proof (rule outbox.stable_steps[where Q = "\<lambda>v. \<exists>d'. map_of (ds_deliveries v) i = Some d' \<and> dv_deliveredAt d' = Some t \<and>
    dv_text d' = dv_text d \<and> dv_destination d' = dv_destination d \<and> dv_idempotencyKey d' = dv_idempotencyKey d"])
  show "\<exists>d'. map_of (ds_deliveries s) i = Some d' \<and> dv_deliveredAt d' = Some t \<and> dv_text d' = dv_text d \<and>
    dv_destination d' = dv_destination d \<and> dv_idempotencyKey d' = dv_idempotencyKey d" using assms(3,4) by simp
next
  fix u v assume u: "delivery_inv u" "\<exists>d'. map_of (ds_deliveries u) i = Some d' \<and> dv_deliveredAt d' = Some t \<and>
    dv_text d' = dv_text d \<and> dv_destination d' = dv_destination d \<and> dv_idempotencyKey d' = dv_idempotencyKey d"
    and step: "delivery_step hi u v"
  from u(2) obtain x where x: "map_of (ds_deliveries u) i = Some x" "dv_deliveredAt x = Some t" "dv_text x = dv_text d"
    "dv_destination x = dv_destination d" "dv_idempotencyKey x = dv_idempotencyKey d" by blast
  from step_keeps_delivery[OF u(1) step x(1)] obtain y where "map_of (ds_deliveries v) i = Some y" "delivery_rel x y" by blast
  with x show "\<exists>d'. map_of (ds_deliveries v) i = Some d' \<and> dv_deliveredAt d' = Some t \<and>
    dv_text d' = dv_text d \<and> dv_destination d' = dv_destination d \<and> dv_idempotencyKey d' = dv_idempotencyKey d"
    by (auto simp: delivery_rel_def)
qed

lemma claim_rows:
  assumes "delivery_inv s" and "claimPending type ttl now s = (s', rows)" and "d \<in> set rows"
  shows "map_of (ds_deliveries s') (dv_id d) = Some d" "awaiting type d" "claimed_until s (dv_id d) \<le> now"
proof -
  let ?s1 = "expireOveraged now s"
  have s': "ds_deliveries s' = ds_deliveries ?s1" and rows: "d \<in> set (vals (ds_deliveries ?s1))" "awaiting type d"
    "claimed_until ?s1 (dv_id d) \<le> now"
    using assms(2,3) by (auto simp: claimPending_def Let_def)
  show "awaiting type d" by fact
  show "claimed_until s (dv_id d) \<le> now" using rows(3) by (simp add: claimed_until_def expireOveraged_def)
  have inv: "delivery_inv s'" using claim_inv[OF assms(1), of type ttl now] assms(2) by simp
  from rows(1) obtain i where "(i, d) \<in> set (ds_deliveries s')" unfolding s' by auto
  then have "map_of (ds_deliveries s') i = Some d" using inv by (simp add: delivery_inv_def)
  with delivery_invD(1)[OF inv this] show "map_of (ds_deliveries s') (dv_id d) = Some d" by simp
qed

lemma foldl_claims:
  "map_of (foldl (\<lambda>m d. AList.update (dv_id d) t m) m rows) i = (if i \<in> dv_id ` set rows then Some t else map_of m i)"
  by (induction rows arbitrary: m) auto

lemma claim_until:
  assumes "claimPending type ttl now s = (s', rows)"
  shows "claimed_until s' i = (if i \<in> dv_id ` set rows then now + ttl else claimed_until s i)"
  using assms by (auto simp: claimPending_def Let_def claimed_until_def foldl_claims expireOveraged_def)

text \<open>A delivery that is claimed until \<open>hi\<close> at least.\<close>

definition held_until :: "int \<Rightarrow> string \<Rightarrow> delivery_store \<Rightarrow> bool" where
  "held_until hi i s \<longleftrightarrow> hi \<le> claimed_until s i \<and> (\<exists>d. map_of (ds_deliveries s) i = Some d \<and> dv_expiredAt d = None)"

lemma held_until_other:
  assumes "held_until hi i s" and "claimed_until s' i = claimed_until s i"
    and "map_of (ds_deliveries s') i = map_of (ds_deliveries s) i"
  shows "held_until hi i s'"
  using assms by (simp add: held_until_def)

lemma held_until_touched:
  assumes "held_until hi i s" and "touches s s'"
  shows "held_until hi i s'"
proof -
  from assms(1) obtain d where "map_of (ds_deliveries s) i = Some d" "dv_expiredAt d = None" by (auto simp: held_until_def)
  with touches_get[OF assms(2) this(1)] touches_claims[OF assms(2)] assms(1) show ?thesis
    by (auto simp: held_until_def claimed_until_def)
qed

lemma held_until_step:
  assumes "delivery_inv s" and "held_until hi i s" and "delivery_step hi s s'"
  shows "held_until hi i s'"
  using assms(3)
proof cases
  case (step_enqueue uuid input now)
  obtain r where e: "enqueue_delivery input now uuid s = (s', r)" using step_enqueue(1) by (metis prod.collapse)
  from assms(2) obtain d where d: "map_of (ds_deliveries s) i = Some d" "dv_expiredAt d = None" by (auto simp: held_until_def)
  from assms(1) e show ?thesis
  proof (cases rule: enqueue_cases)
    case (revived x)
    then have "i \<noteq> dv_id x" using d by auto
    then show ?thesis using held_until_other[OF assms(2)] revived(6,8) by (simp add: claimed_until_def)
  next
    case added
    then have "i \<noteq> uuid" using step_enqueue(2) d by (auto simp: fresh_id_def)
    then show ?thesis using held_until_other[OF assms(2)] added(3,5) by (simp add: claimed_until_def)
  qed (use assms(2) in simp)
next
  case (step_claim now type ttl)
  obtain rows where c: "claimPending type ttl now s = (s', rows)" using step_claim(1) by (metis prod.collapse)
  have late: "now < claimed_until s i" using assms(2) step_claim(2) by (simp add: held_until_def)
  then have "i \<notin> dv_id ` set rows" using claim_rows(3)[OF assms(1) c] by force
  then have "claimed_until s' i = claimed_until s i" using claim_until[OF c] by simp
  moreover have "map_of (ds_deliveries s') i = map_of (ds_deliveries s) i"
  proof (cases "map_of (ds_deliveries s) i")
    case (Some d)
    then have "dv_id d = i" using delivery_invD(1)[OF assms(1)] by blast
    then have "\<not> overaged s now d" using late by (simp add: overaged_def)
    then show ?thesis using claim_get[of type ttl now s i] c Some by simp
  qed (use claim_get[of type ttl now s i] c in simp)
  ultimately show ?thesis by (rule held_until_other[OF assms(2)])
next
  case (step_ackByKey uuid k t)
  show ?thesis
  proof (cases "truthy (map_of (ds_byKey s) k)")
    case True
    from held_until_touched[OF assms(2) touching_ops(4)[OF this]] show ?thesis using step_ackByKey(1) by simp
  next
    case False
    have "i \<noteq> uuid" using step_ackByKey(2) assms(2) by (auto simp: fresh_id_def held_until_def)
    then show ?thesis using held_until_other[OF assms(2)] step_ackByKey(1)
      by (simp add: ackByKey_fresh(2)[OF assms(1) False] claimed_until_def)
  qed
qed (use held_until_touched[OF assms(2) touching_ops(1)] held_until_touched[OF assms(2) touching_ops(2)]
    held_until_touched[OF assms(2) touching_ops(3)] in simp)+

section \<open>The properties\<close>

text \<open>C20: What was delivered stays delivered and is not sent again. From any reachable outbox on and whatever
  operations follow, an acknowledged delivery keeps its time, text and destination, no claim hands it
  out, and enqueueing its idempotency key again returns it and changes nothing.\<close>

theorem delivered_once:
  assumes "(delivery_step hi0)\<^sup>*\<^sup>* (empty_outbox maxAge) s" and "map_of (ds_deliveries s) i = Some d" and "dv_deliveredAt d = Some t"
    and "(delivery_step hi)\<^sup>*\<^sup>* s s'"
  shows "\<exists>d'. map_of (ds_deliveries s') i = Some d' \<and> dv_deliveredAt d' = Some t \<and> dv_text d' = dv_text d \<and>
      dv_destination d' = dv_destination d
    \<and> i \<notin> dv_id ` set (snd (claimPending type ttl now s'))
    \<and> (ed_idempotencyKey input = dv_idempotencyKey d \<longrightarrow> enqueue_delivery input now uuid s' = (s', d'))"
proof -
  have inv: "delivery_inv s" using outbox.reachable_inv[OF _ assms(1)] by blast
  have inv': "delivery_inv s'" using outbox.steps_inv[OF assms(4) inv] .
  from steps_keep_delivered[OF assms(4) inv assms(2,3)] obtain d' where d': "map_of (ds_deliveries s') i = Some d'"
    "dv_deliveredAt d' = Some t" "dv_text d' = dv_text d" "dv_destination d' = dv_destination d"
    "dv_idempotencyKey d' = dv_idempotencyKey d" by blast
  obtain s2 rows where c: "claimPending type ttl now s' = (s2, rows)" by fastforce
  have "i \<notin> dv_id ` set rows"
  proof
    assume "i \<in> dv_id ` set rows"
    then obtain x where x: "x \<in> set rows" "dv_id x = i" by blast
    with claim_rows[OF inv' c x(1)] have "map_of (ds_deliveries s2) i = Some x" "dv_deliveredAt x = None"
      by (auto simp: awaiting_def)
    then show False using claim_get[of type ttl now s' i] c d'(1,2) by (auto split: if_split_asm)
  qed
  moreover have "enqueue_delivery input now uuid s' = (s', d')" if "ed_idempotencyKey input = dv_idempotencyKey d"
    using delivery_invD[OF inv' d'(1)] d' that by (simp add: enqueue_delivery_def)
  ultimately show ?thesis using d' c by auto
qed

text \<open>Deliverers do not collide. What one claim hands out is handed out by no other claim before the claim
  runs out, whatever operations, claims for other destinations and expiries among them, happen in between.\<close>

theorem delivery_claims_disjoint:
  assumes "(delivery_step hi0)\<^sup>*\<^sup>* (empty_outbox maxAge) s" and "claimPending type ttl now s = (s1, rows)"
    and "(delivery_step (now + ttl))\<^sup>*\<^sup>* s1 s2" and "now' < now + ttl"
  shows "dv_id ` set rows \<inter> dv_id ` set (snd (claimPending type' ttl' now' s2)) = {}"
proof -
  have inv: "delivery_inv s" using outbox.reachable_inv[OF _ assms(1)] by blast
  then have inv1: "delivery_inv s1" using claim_inv[of s type ttl now] assms(2) by simp
  have inv2: "delivery_inv s2" using outbox.steps_inv[OF assms(3) inv1] .
  obtain s3 rows' where c: "claimPending type' ttl' now' s2 = (s3, rows')" by fastforce
  have "i \<notin> dv_id ` set rows'" if "i \<in> dv_id ` set rows" for i
  proof -
    from that obtain d where d: "d \<in> set rows" "dv_id d = i" by blast
    have "held_until (now + ttl) i s1"
      using claim_rows(1,2)[OF inv assms(2) d(1)] claim_until[OF assms(2), of i] that d(2) by (auto simp: held_until_def awaiting_def)
    then have "held_until (now + ttl) i s2"
      using outbox.stable_steps[OF assms(3) inv1, of "held_until (now + ttl) i"] held_until_step by blast
    then have "now' < claimed_until s2 i" using assms(4) by (simp add: held_until_def)
    then show ?thesis using claim_rows(3)[OF inv2 c] by force
  qed
  then show ?thesis using c by auto
qed

subsection \<open>Instances\<close>

definition demo_message :: EnqueueDelivery where
  "demo_message = \<lparr>ed_destination = \<lparr>d_type = ''slack'', d_target = ''C1'', d_audienceScopeId = None, d_onBehalfOf = None,
      d_relaySender = None, d_threadTs = None, d_editRef = None, d_options = []\<rparr>, ed_text = ''hi'', ed_attachments = None,
     ed_provenance = None, ed_idempotencyKey = ''k'', ed_shadow = False\<rparr>"

definition demo_outbox :: delivery_store where
  "demo_outbox = fst (enqueue_delivery demo_message 10 ''d1'' (empty_outbox 1000))"

lemma demo_outbox_reachable: "(delivery_step 0)\<^sup>*\<^sup>* (empty_outbox 1000) demo_outbox"
  unfolding demo_outbox_def by (rule r_into_rtranclp, rule step_enqueue) (simp add: fresh_id_def empty_outbox_def)

text \<open>The message is acknowledged at 20; sending it again returns the delivered one.\<close>

theorem delivered_once_witness:
  "\<exists>d'. map_of (ds_deliveries (ack_delivery ''d1'' 20 None demo_outbox)) ''d1'' = Some d' \<and> dv_deliveredAt d' = Some 20 \<and>
     enqueue_delivery demo_message 30 ''d2'' (ack_delivery ''d1'' 20 None demo_outbox) =
       (ack_delivery ''d1'' 20 None demo_outbox, d')"
proof -
  let ?s = "ack_delivery ''d1'' 20 None demo_outbox"
  have reach: "(delivery_step 0)\<^sup>*\<^sup>* (empty_outbox 1000) ?s"
    using demo_outbox_reachable step_ack by (rule rtranclp.rtrancl_into_rtrancl)
  obtain d where d: "map_of (ds_deliveries ?s) ''d1'' = Some d" "dv_deliveredAt d = Some 20" "dv_idempotencyKey d = ''k''"
    by (simp add: ack_delivery_def demo_outbox_def enqueue_delivery_def empty_outbox_def demo_message_def new_delivery_def
        put_delivery_def wake_def deliver_def Let_def)
  have "ed_idempotencyKey demo_message = dv_idempotencyKey d" using d(3) by (simp add: demo_message_def)
  with delivered_once[OF reach d(1,2) rtranclp.rtrancl_refl, of "''slack''" 0 30 demo_message "''d2''"] show ?thesis by blast
qed

text \<open>Claimed at 20 for 60, the message is not handed out at 50.\<close>

theorem delivery_claims_disjoint_witness:
  "map dv_id (snd (claimPending ''slack'' 60 20 demo_outbox)) = [''d1''] \<and>
   ''d1'' \<notin> dv_id ` set (snd (claimPending ''slack'' 60 50 (fst (claimPending ''slack'' 60 20 demo_outbox))))"
proof -
  obtain s1 rows where c: "claimPending ''slack'' 60 20 demo_outbox = (s1, rows)" by fastforce
  have ids: "map dv_id (snd (claimPending ''slack'' 60 20 demo_outbox)) = [''d1'']" by code_simp
  then have "''d1'' \<in> dv_id ` set rows" unfolding c snd_conv by (metis image_set list.set_intros(1))
  with delivery_claims_disjoint[OF demo_outbox_reachable c rtranclp.rtrancl_refl, of 50 "''slack''" 60] ids c show ?thesis by auto
qed

end
