(* ===== verification/Service_Guards.thy ===== *)
theory Service_Guards
  imports Complex_Main Durable_Map
begin

text \<open>
  Small guards around the work of the service: the rate limiter (\<open>src/src/ratelimit/rate-limiter.ts\<close>), the
  budget tracker (\<open>src/src/ratelimit/budget.ts\<close>), the idempotency store
  (\<open>src/src/idempotency/idempotency-store.ts\<close>) and the task store in memory
  (\<open>src/src/tasks/memory-task-store.ts\<close>). Amounts of money are exact rationals where the code has doubles.
\<close>

section \<open>The rate limiter\<close>

record rate_window =
  rw_start :: int
  rw_count :: nat

record rate_limiter =
  rl_max :: nat
  rl_windowMs :: int
  rl_state :: "rate_window jsmap"

datatype RateDecision = RateAllowed | RateRefused int

definition rate_check :: "string \<Rightarrow> int \<Rightarrow> rate_limiter \<Rightarrow> rate_limiter \<times> RateDecision" where
  "rate_check principalId t s =
     (let fresh = (s\<lparr>rl_state := AList.update principalId \<lparr>rw_start = t, rw_count = 1\<rparr> (rl_state s)\<rparr>, RateAllowed) in
      case map_of (rl_state s) principalId of
        None \<Rightarrow> fresh
      | Some w \<Rightarrow>
          if t - rw_start w \<ge> rl_windowMs s then fresh
          else if rw_count w \<ge> rl_max s then (s, RateRefused (rl_windowMs s - (t - rw_start w)))
          else (s\<lparr>rl_state := AList.update principalId (w\<lparr>rw_count := rw_count w + 1\<rparr>) (rl_state s)\<rparr>, RateAllowed))"

text \<open>A sequence of checks and how many of a principal were allowed.\<close>

fun rate_checks :: "(string \<times> int) list \<Rightarrow> rate_limiter \<Rightarrow> rate_limiter \<times> RateDecision list" where
  "rate_checks [] s = (s, [])"
| "rate_checks ((p, t) # cs) s =
     (case rate_check p t s of (s1, r) \<Rightarrow> (case rate_checks cs s1 of (s2, rs) \<Rightarrow> (s2, r # rs)))"

definition allowed_for :: "string \<Rightarrow> (string \<times> int) list \<Rightarrow> rate_limiter \<Rightarrow> nat" where
  "allowed_for p cs s = length (filter (\<lambda>(c, r). fst c = p \<and> r = RateAllowed) (zip cs (snd (rate_checks cs s))))"

section \<open>The budget\<close>

record spend_entry =
  sp_at :: int
  sp_usd :: rat

record budget =
  bg_limitUsd :: "rat option"
  bg_orgLimitUsd :: "rat option"
  bg_windowMs :: int
  bg_spend :: "spend_entry list jsmap"

record BudgetCheck =
  bc_allowed :: bool
  bc_spentUsd :: rat
  bc_limitUsd :: "rat option"

definition orgKey :: string where "orgKey = ''@org''"

definition DEFAULT_BUDGET_WINDOW_MS :: int where "DEFAULT_BUDGET_WINDOW_MS = 86400000"

definition estimateCostUsd :: "nat \<Rightarrow> rat \<Rightarrow> rat" where
  "estimateCostUsd inputTokens usdPerMTok = (of_nat inputTokens / 1000000) * usdPerMTok"

definition spentIn :: "string \<Rightarrow> int \<Rightarrow> budget \<Rightarrow> budget \<times> rat" where
  "spentIn principalId now s =
     (let kept = filter (\<lambda>e. sp_at e \<ge> now - bg_windowMs s) (nullish (map_of (bg_spend s) principalId) []) in
      (s\<lparr>bg_spend := AList.update principalId kept (bg_spend s)\<rparr>, sum_list (map sp_usd kept)))"

text \<open>A limit that is not configured is \<open>Infinity\<close>.\<close>

definition reaches_limit :: "rat \<Rightarrow> rat option \<Rightarrow> bool" where
  "reaches_limit spent limit = (case limit of None \<Rightarrow> False | Some l \<Rightarrow> l \<le> spent)"

definition budget_check :: "string \<Rightarrow> int \<Rightarrow> budget \<Rightarrow> budget \<times> BudgetCheck" where
  "budget_check principalId now s =
     (case spentIn principalId now s of (s1, spentUsd) \<Rightarrow>
        if reaches_limit spentUsd (bg_limitUsd s)
        then (s1, \<lparr>bc_allowed = False, bc_spentUsd = spentUsd, bc_limitUsd = bg_limitUsd s\<rparr>)
        else (case spentIn orgKey now s1 of (s2, orgSpent) \<Rightarrow>
          (s2, \<lparr>bc_allowed = (\<not> reaches_limit orgSpent (bg_orgLimitUsd s)), bc_spentUsd = orgSpent,
                bc_limitUsd = bg_orgLimitUsd s\<rparr>)))"

definition push_spend :: "string \<Rightarrow> rat \<Rightarrow> int \<Rightarrow> budget \<Rightarrow> budget" where
  "push_spend key costUsd now s =
     s\<lparr>bg_spend := AList.update key (nullish (map_of (bg_spend s) key) [] @ [\<lparr>sp_at = now, sp_usd = costUsd\<rparr>]) (bg_spend s)\<rparr>"

definition budget_record :: "string \<Rightarrow> rat \<Rightarrow> int \<Rightarrow> budget \<Rightarrow> budget" where
  "budget_record principalId costUsd now s = push_spend orgKey costUsd now (push_spend principalId costUsd now s)"

section \<open>The idempotency store\<close>

text \<open>A call of \<open>once\<close> is cut where it awaits: it enters, or is refused; it resumes with what the backing map held when it was
  read, and starts the effect or not; then it commits, or the effect threw. A prune clears the cache at once; the backing
  map it prunes in the background, first reading all records and then deleting those that were too old, one by one and whatever
  has become of them. \<open>id_lookups\<close> are the calls that wait for the map, with the time before which a record is too old;
  \<open>id_prunes\<close> the prunes that have not read the map yet, \<open>id_deletes\<close> the keys that are still to be deleted.\<close>

record idempotency =
  id_retentionMs :: int
  id_pruneIntervalMs :: int
  id_done :: "int jsmap"
  id_inflight :: "string list"
  id_lastPruneAt :: int
  id_backing :: "int jsmap option"
  id_lookups :: "int jsmap"
  id_prunes :: "int list"
  id_deletes :: "string list"

definition DEFAULT_RETENTION_MS :: int where "DEFAULT_RETENTION_MS = 14 * 24 * 60 * 60000"
definition DEFAULT_PRUNE_INTERVAL_MS :: int where "DEFAULT_PRUNE_INTERVAL_MS = 60 * 60000"

definition drop_before :: "int \<Rightarrow> int jsmap \<Rightarrow> int jsmap" where
  "drop_before cutoff m = filter (\<lambda>(k, t). \<not> t < cutoff) m"

definition pruneIfDue :: "int \<Rightarrow> idempotency \<Rightarrow> idempotency" where
  "pruneIfDue t s =
     (if t - id_lastPruneAt s < id_pruneIntervalMs s then s
      else s\<lparr>id_lastPruneAt := t, id_done := drop_before (t - id_retentionMs s) (id_done s),
             id_prunes := (if id_backing s = None then id_prunes s else id_prunes s @ [t - id_retentionMs s])\<rparr>)"

definition prune_read :: "idempotency \<Rightarrow> idempotency" where
  "prune_read s =
     (case id_prunes s of
        [] \<Rightarrow> s
      | cutoff # rest \<Rightarrow> s\<lparr>id_prunes := rest,
          id_deletes := id_deletes s @ map fst (filter (\<lambda>(k, t). t < cutoff) (nullish (id_backing s) []))\<rparr>)"

definition prune_delete :: "string \<Rightarrow> idempotency \<Rightarrow> idempotency" where
  "prune_delete key s =
     (if key \<in> set (id_deletes s)
      then s\<lparr>id_deletes := remove1 key (id_deletes s), id_backing := map_option (AList.delete key) (id_backing s)\<rparr> else s)"

definition cache_hit :: "string \<Rightarrow> int \<Rightarrow> idempotency \<Rightarrow> bool" where
  "cache_hit key cutoff s = (case map_of (id_done s) key of None \<Rightarrow> False | Some t \<Rightarrow> t \<ge> cutoff)"

text \<open>The rest of \<open>isCommitted\<close>, given the record that was read.\<close>

definition committed_read :: "string \<Rightarrow> int \<Rightarrow> int option \<Rightarrow> idempotency \<Rightarrow> idempotency \<times> bool" where
  "committed_read key cutoff record s =
     (case record of
        None \<Rightarrow> (s, False)
      | Some t \<Rightarrow> if t \<ge> cutoff then (s\<lparr>id_done := AList.update key t (id_done s)\<rparr>, True) else (s, False))"

definition record_of :: "string \<Rightarrow> idempotency \<Rightarrow> int option" where
  "record_of key s = Option.bind (id_backing s) (\<lambda>m. map_of m key)"

definition isCommitted :: "string \<Rightarrow> int \<Rightarrow> idempotency \<Rightarrow> idempotency \<times> bool" where
  "isCommitted key now s =
     (let cutoff = now - id_retentionMs s
      in if cache_hit key cutoff s then (s, True) else committed_read key cutoff (record_of key s) s)"

datatype once_answer = once_refused | once_waits

definition once_enter :: "string \<Rightarrow> int \<Rightarrow> idempotency \<Rightarrow> idempotency \<times> once_answer" where
  "once_enter key now s =
     (let cutoff = now - id_retentionMs s
      in if key \<in> set (id_inflight s) \<or> cache_hit key cutoff s then (s, once_refused)
         else (s\<lparr>id_inflight := id_inflight s @ [key], id_lookups := AList.update key cutoff (id_lookups s)\<rparr>, once_waits))"

definition once_looked :: "string \<Rightarrow> int option \<Rightarrow> idempotency \<Rightarrow> idempotency \<times> bool" where
  "once_looked key record s =
     (case map_of (id_lookups s) key of
        None \<Rightarrow> (s, False)
      | Some cutoff \<Rightarrow>
          (case committed_read key cutoff record (s\<lparr>id_lookups := AList.delete key (id_lookups s)\<rparr>) of
             (s1, True) \<Rightarrow> (s1\<lparr>id_inflight := removeAll key (id_inflight s1)\<rparr>, False)
           | (s1, False) \<Rightarrow> (s1, True)))"

text \<open>A call that nothing comes between, up to the start of its effect.\<close>

definition once_begin :: "string \<Rightarrow> int \<Rightarrow> idempotency \<Rightarrow> idempotency \<times> bool" where
  "once_begin key now s =
     (case once_enter key now s of
        (s1, once_refused) \<Rightarrow> (s1, False)
      | (s1, once_waits) \<Rightarrow> once_looked key (record_of key s1) s1)"

text \<open>After the effect: the record is put into the map, then the cache is set and the call ends.\<close>

definition once_store :: "string \<Rightarrow> int \<Rightarrow> idempotency \<Rightarrow> idempotency" where
  "once_store key t s = s\<lparr>id_backing := map_option (AList.update key t) (id_backing s)\<rparr>"

definition once_settle :: "string \<Rightarrow> int \<Rightarrow> idempotency \<Rightarrow> idempotency" where
  "once_settle key t s =
     (let s1 = pruneIfDue t (s\<lparr>id_done := AList.update key t (id_done s)\<rparr>)
      in s1\<lparr>id_inflight := removeAll key (id_inflight s1)\<rparr>)"

definition once_commit :: "string \<Rightarrow> int \<Rightarrow> idempotency \<Rightarrow> idempotency" where
  "once_commit key t s = once_settle key t (once_store key t s)"

text \<open>A new process starts with empty caches over the same backing map.\<close>

definition once_restart :: "int \<Rightarrow> idempotency \<Rightarrow> idempotency" where
  "once_restart now s = s\<lparr>id_done := [], id_inflight := [], id_lastPruneAt := now, id_lookups := [], id_prunes := [], id_deletes := []\<rparr>"

definition once_throw :: "string \<Rightarrow> idempotency \<Rightarrow> idempotency" where
  "once_throw key s = s\<lparr>id_inflight := removeAll key (id_inflight s)\<rparr>"

section \<open>Tasks\<close>

datatype TaskStatus = task_pending | task_in_progress | task_completed | task_skipped | task_failed

record Task =
  tk_id :: string
  tk_sessionId :: string
  tk_originRunId :: string
  tk_title :: string
  tk_status :: TaskStatus
  tk_createdAt :: int
  tk_updatedAt :: int

record TaskEvent =
  te_id :: string
  te_taskId :: string
  te_runId :: string
  te_created :: bool
  te_fromStatus :: "TaskStatus option"
  te_toStatus :: TaskStatus
  te_createdAt :: int

record CreateTaskInput =
  ti_id :: "string option"
  ti_sessionId :: string
  ti_originRunId :: string
  ti_title :: string
  ti_status :: "TaskStatus option"

record task_store =
  ts_tasks :: "Task jsmap"
  ts_events :: "TaskEvent list jsmap"
  ts_nextEventId :: nat

definition isOpenTask :: "TaskStatus \<Rightarrow> bool" where
  "isOpenTask status = (status \<in> {task_pending, task_in_progress})"

definition events_of :: "string \<Rightarrow> task_store \<Rightarrow> TaskEvent list" where
  "events_of taskId s = nullish (map_of (ts_events s) taskId) []"

definition appendEvent :: "string \<Rightarrow> string \<Rightarrow> TaskStatus option \<Rightarrow> TaskStatus \<Rightarrow> int \<Rightarrow> task_store \<Rightarrow> task_store" where
  "appendEvent taskId runId fromStatus toStatus t s =
     s\<lparr>ts_events := AList.update taskId (events_of taskId s @
          [\<lparr>te_id = show_nat (ts_nextEventId s), te_taskId = taskId, te_runId = runId, te_created = (fromStatus = None),
            te_fromStatus = fromStatus, te_toStatus = toStatus, te_createdAt = t\<rparr>]) (ts_events s),
       ts_nextEventId := ts_nextEventId s + 1\<rparr>"

definition task_matches :: "string option \<Rightarrow> string option \<Rightarrow> Task \<Rightarrow> bool" where
  "task_matches sessionId originRunId task =
     ((sessionId = None \<or> sessionId = Some (tk_sessionId task)) \<and> (originRunId = None \<or> originRunId = Some (tk_originRunId task)))"

text \<open>The order of ids by \<open>localeCompare\<close> is that of the collation keys \<open>collate\<close>.\<close>

definition task_order :: "(string \<Rightarrow> string) \<Rightarrow> Task list \<Rightarrow> Task list" where
  "task_order collate ts = sort_key tk_createdAt (sort_key (\<lambda>t. collate (tk_id t)) ts)"

definition create_task :: "CreateTaskInput \<Rightarrow> int \<Rightarrow> string \<Rightarrow> task_store \<Rightarrow> string + (task_store \<times> Task)" where
  "create_task input now uuid s =
     (let i = nullish (ti_id input) uuid in
      if map_of (ts_tasks s) i \<noteq> None then Inl (''task '' @ i @ '' already exists'')
      else let task = \<lparr>tk_id = i, tk_sessionId = ti_sessionId input, tk_originRunId = ti_originRunId input,
                       tk_title = ti_title input, tk_status = nullish (ti_status input) task_pending,
                       tk_createdAt = now, tk_updatedAt = now\<rparr>
           in Inr (appendEvent i (ti_originRunId input) None (tk_status task) now
                     (s\<lparr>ts_tasks := AList.update i task (ts_tasks s)\<rparr>), task))"

definition list_tasks ::
  "(string \<Rightarrow> string) \<Rightarrow> string option \<Rightarrow> string option \<Rightarrow> TaskStatus list option \<Rightarrow> task_store \<Rightarrow> Task list" where
  "list_tasks collate sessionId originRunId statuses s =
     task_order collate (filter (\<lambda>t. task_matches sessionId originRunId t \<and>
       (case statuses of None \<Rightarrow> True | Some xs \<Rightarrow> tk_status t \<in> set xs)) (vals (ts_tasks s)))"

definition listOpen_tasks :: "(string \<Rightarrow> string) \<Rightarrow> string option \<Rightarrow> string option \<Rightarrow> task_store \<Rightarrow> Task list" where
  "listOpen_tasks collate sessionId originRunId s =
     task_order collate (filter (\<lambda>t. task_matches sessionId originRunId t \<and> isOpenTask (tk_status t)) (vals (ts_tasks s)))"

definition transitionStatus ::
  "string \<Rightarrow> TaskStatus \<Rightarrow> TaskStatus \<Rightarrow> string \<Rightarrow> int \<Rightarrow> task_store \<Rightarrow> task_store \<times> Task option" where
  "transitionStatus i expectedStatus nextStatus runId now s =
     (case map_of (ts_tasks s) i of
        None \<Rightarrow> (s, None)
      | Some task \<Rightarrow>
          if tk_status task \<noteq> expectedStatus then (s, None)
          else let task' = task\<lparr>tk_status := nextStatus, tk_updatedAt := now\<rparr> in
            (appendEvent i runId (Some expectedStatus) nextStatus now (s\<lparr>ts_tasks := AList.update i task' (ts_tasks s)\<rparr>), Some task'))"

end
