(* ===== verification/Guard_Properties.thy ===== *)
theory Guard_Properties
  imports Service_Guards
begin

text \<open>
  What the guards promise: an idempotent effect runs once within the retention time, a principal is let through at
  most twice its quota in any stretch of one window, the budget is the exact sum of what was recorded in the window,
  and the events of a task replay to its status.
\<close>

section \<open>Idempotent effects\<close>

text \<open>What happens to the guard, in any order: whole calls, and calls cut at each point where they wait. \<open>Looked\<close> resumes a call of \<open>once\<close>
  and \<open>Resumed\<close> a call of \<open>committed\<close> with a record that was read at any time before.\<close>

datatype once_event =
  Begin string int
| Enter string int
| Looked string "int option"
| Commit string int
| Stored string int
| Settled string int
| Throw string
| Committed string int
| Resumed string int "int option"
| PruneRead
| PruneDelete string
| Restart int

fun once_event_time :: "once_event \<Rightarrow> int option" where
  "once_event_time (Begin k t) = Some t"
| "once_event_time (Enter k t) = Some t"
| "once_event_time (Commit k t) = Some t"
| "once_event_time (Settled k t) = Some t"
| "once_event_time (Committed k t) = Some t"
| "once_event_time (Restart t) = Some t"
| "once_event_time _ = None"

fun once_do :: "once_event \<Rightarrow> idempotency \<Rightarrow> idempotency" where
  "once_do (Begin k t) s = fst (once_begin k t s)"
| "once_do (Enter k t) s = fst (once_enter k t s)"
| "once_do (Looked k r) s = fst (once_looked k r s)"
| "once_do (Commit k t) s = once_commit k t s"
| "once_do (Stored k t) s = once_store k t s"
| "once_do (Settled k t) s = once_settle k t s"
| "once_do (Throw k) s = once_throw k s"
| "once_do (Committed k t) s = fst (isCommitted k t s)"
| "once_do (Resumed k c r) s = fst (committed_read k c r s)"
| "once_do PruneRead s = prune_read s"
| "once_do (PruneDelete k) s = prune_delete k s"
| "once_do (Restart t) s = once_restart t s"

definition recent :: "int jsmap \<Rightarrow> string \<Rightarrow> int \<Rightarrow> bool" where
  "recent m key cutoff \<longleftrightarrow> (\<exists>t. map_of m key = Some t \<and> cutoff \<le> t)"

definition kept :: "idempotency \<Rightarrow> string \<Rightarrow> int \<Rightarrow> bool" where
  "kept s key now \<longleftrightarrow> (\<exists>m. id_backing s = Some m \<and> recent m key (now - id_retentionMs s))"

definition cached :: "idempotency \<Rightarrow> string \<Rightarrow> int \<Rightarrow> bool" where
  "cached s key now \<longleftrightarrow> recent (id_done s) key (now - id_retentionMs s)"

lemma recent_drop: "recent m key cutoff \<Longrightarrow> c \<le> cutoff \<Longrightarrow> recent (drop_before c m) key cutoff"
  unfolding drop_before_def recent_def by (induction m) auto

lemma recent_update: "recent (AList.update k t m) key cutoff \<longleftrightarrow> (if k = key then cutoff \<le> t else recent m key cutoff)"
  by (simp add: recent_def)

lemma recent_mono: "recent m key cutoff \<Longrightarrow> c \<le> cutoff \<Longrightarrow> recent m key c"
  by (fastforce simp: recent_def)

lemma cache_hit_recent: "cache_hit key cutoff s \<longleftrightarrow> recent (id_done s) key cutoff"
  by (auto simp: cache_hit_def recent_def split: option.splits)

lemma cached_mono: "cached s key now \<Longrightarrow> t \<le> now \<Longrightarrow> cache_hit key (t - id_retentionMs s) s"
  unfolding cache_hit_recent cached_def by (erule recent_mono) simp

text \<open>Only what enters the cache under the key with a time that is too old takes a fresh entry away.\<close>

definition by_now :: "int \<Rightarrow> once_event \<Rightarrow> bool" where
  "by_now now e \<longleftrightarrow> (case once_event_time e of None \<Rightarrow> True | Some t \<Rightarrow> t \<le> now)"

definition overwrites :: "string \<Rightarrow> int \<Rightarrow> int \<Rightarrow> once_event \<Rightarrow> bool" where
  "overwrites key retention now e \<longleftrightarrow> (\<exists>t. t + retention < now \<and>
     (e = Commit key t \<or> e = Settled key t \<or> e = Stored key t \<or> e = Looked key (Some t) \<or> (\<exists>c. e = Resumed key c (Some t))))"

lemma committed_read_keeps [simp]:
  "id_backing (fst (committed_read k c r s)) = id_backing s" "id_inflight (fst (committed_read k c r s)) = id_inflight s"
  "id_retentionMs (fst (committed_read k c r s)) = id_retentionMs s" "id_lookups (fst (committed_read k c r s)) = id_lookups s"
  by (simp_all add: committed_read_def split: option.splits)

lemma committed_read_cached:
  "cached s key now \<Longrightarrow> k \<noteq> key \<or> (\<forall>t. r = Some t \<and> c \<le> t \<longrightarrow> now \<le> t + id_retentionMs s) \<Longrightarrow> cached (fst (committed_read k c r s)) key now"
  by (auto simp: committed_read_def cached_def recent_update split: option.splits)

lemma isCommitted_keeps [simp]:
  "id_backing (fst (isCommitted k t s)) = id_backing s" "id_inflight (fst (isCommitted k t s)) = id_inflight s"
  "id_retentionMs (fst (isCommitted k t s)) = id_retentionMs s" "id_lookups (fst (isCommitted k t s)) = id_lookups s"
  by (simp_all add: isCommitted_def Let_def)

lemma isCommitted_cached: "cached s key now \<Longrightarrow> t \<le> now \<Longrightarrow> cached (fst (isCommitted k t s)) key now"
  using cached_mono[of s key now t] by (auto simp: isCommitted_def Let_def intro: committed_read_cached)

lemma isCommitted_iff: "snd (isCommitted key now s) \<longleftrightarrow> cached s key now \<or> kept s key now"
  by (auto simp: isCommitted_def committed_read_def record_of_def cache_hit_recent cached_def kept_def recent_def Let_def
      split: option.splits bind_splits)

lemma once_enter_keeps [simp]:
  "id_backing (fst (once_enter k t s)) = id_backing s" "id_retentionMs (fst (once_enter k t s)) = id_retentionMs s"
  "id_done (fst (once_enter k t s)) = id_done s"
  by (simp_all add: once_enter_def Let_def)

lemma once_looked_keeps [simp]:
  "id_backing (fst (once_looked k r s)) = id_backing s" "id_retentionMs (fst (once_looked k r s)) = id_retentionMs s"
  by (auto simp: once_looked_def committed_read_def split: option.splits)

lemma once_looked_cached:
  assumes "cached s key now" "k \<noteq> key \<or> (\<forall>t c. map_of (id_lookups s) k = Some c \<and> r = Some t \<and> c \<le> t \<longrightarrow> now \<le> t + id_retentionMs s)"
  shows "cached (fst (once_looked k r s)) key now"
proof (cases "map_of (id_lookups s) k")
  case (Some c)
  have "cached (fst (committed_read k c r (s\<lparr>id_lookups := AList.delete k (id_lookups s)\<rparr>))) key now"
    using assms Some by (intro committed_read_cached) (auto simp: cached_def)
  with Some show ?thesis
    by (cases "committed_read k c r (s\<lparr>id_lookups := AList.delete k (id_lookups s)\<rparr>)")
      (auto simp: once_looked_def cached_def split: bool.splits)
qed (simp add: once_looked_def assms)

lemma pruneIfDue_keeps [simp]:
  "id_retentionMs (pruneIfDue t s) = id_retentionMs s" "id_inflight (pruneIfDue t s) = id_inflight s"
  "id_backing (pruneIfDue t s) = id_backing s" "id_lookups (pruneIfDue t s) = id_lookups s"
  by (simp_all add: pruneIfDue_def)

lemma pruneIfDue_cached: "t \<le> now \<Longrightarrow> cached s key now \<Longrightarrow> cached (pruneIfDue t s) key now"
  by (auto simp: pruneIfDue_def cached_def intro!: recent_drop)

lemma once_settle_cached:
  assumes "t \<le> now" "k = key \<Longrightarrow> now \<le> t + id_retentionMs s" "cached s key now \<or> k = key"
  shows "cached (once_settle k t s) key now"
proof -
  have "cached (s\<lparr>id_done := AList.update k t (id_done s)\<rparr>) key now" using assms(2,3) by (auto simp: cached_def recent_update)
  from pruneIfDue_cached[OF assms(1) this] show ?thesis by (simp add: once_settle_def cached_def Let_def)
qed

lemma once_settle_keeps [simp]:
  "id_backing (once_settle k t s) = id_backing s" "id_retentionMs (once_settle k t s) = id_retentionMs s"
  "id_lookups (once_settle k t s) = id_lookups s" "set (id_inflight (once_settle k t s)) = set (id_inflight s) - {k}"
  by (simp_all add: once_settle_def Let_def)

lemma once_store_keeps [simp]:
  "id_done (once_store k t s) = id_done s" "id_retentionMs (once_store k t s) = id_retentionMs s"
  "id_lookups (once_store k t s) = id_lookups s" "id_inflight (once_store k t s) = id_inflight s"
  by (simp_all add: once_store_def)

lemma once_begin_cached:
  assumes "cached s key now" "t \<le> now"
  shows "cached (fst (once_begin k t s)) key now"
proof (cases "snd (once_enter k t s)")
  case once_waits
  obtain s1 where e: "once_enter k t s = (s1, once_waits)" using once_waits by (cases "once_enter k t s") auto
  then have "k \<noteq> key" using cached_mono[OF assms] by (auto simp: once_enter_def Let_def split: if_splits)
  moreover have "cached s1 key now" using assms(1) once_enter_keeps[of k t s] e by (simp add: cached_def)
  ultimately have "cached (fst (once_looked k (record_of k s1) s1)) key now" by (intro once_looked_cached) auto
  then show ?thesis by (simp add: once_begin_def e)
next
  case once_refused
  then obtain s1 where e: "once_enter k t s = (s1, once_refused)" by (cases "once_enter k t s") auto
  then show ?thesis using assms(1) once_enter_keeps[of k t s] by (simp add: once_begin_def cached_def)
qed

lemma prune_keeps [simp]:
  "id_done (prune_read s) = id_done s" "id_inflight (prune_read s) = id_inflight s" "id_lookups (prune_read s) = id_lookups s"
  "id_retentionMs (prune_read s) = id_retentionMs s" "id_backing (prune_read s) = id_backing s"
  "id_done (prune_delete k s) = id_done s" "id_inflight (prune_delete k s) = id_inflight s"
  "id_lookups (prune_delete k s) = id_lookups s" "id_retentionMs (prune_delete k s) = id_retentionMs s"
  by (simp_all add: prune_read_def prune_delete_def split: list.splits)

lemma once_begin_keeps [simp]:
  "id_retentionMs (fst (once_begin k t s)) = id_retentionMs s" "id_backing (fst (once_begin k t s)) = id_backing s"
  using once_enter_keeps[of k t s] by (auto simp: once_begin_def simp del: once_enter_keeps split: prod.splits once_answer.splits)

lemma once_do_retention [simp]: "id_retentionMs (once_do e s) = id_retentionMs s"
  by (cases e) (simp_all add: once_commit_def once_throw_def once_restart_def)

lemma cached_step:
  assumes "cached s key now" "by_now now e" "\<not> overwrites key (id_retentionMs s) now e" "\<nexists>t. e = Restart t"
  shows "cached (once_do e s) key now"
proof (cases e)
  case (Begin k t)
  with assms(1,2) show ?thesis by (simp add: by_now_def once_begin_cached)
next
  case (Looked k r)
  with assms(1,3) show ?thesis by (auto simp: overwrites_def not_less intro!: once_looked_cached)
next
  case (Commit k t)
  have "cached (once_store k t s) key now" using assms(1) by (simp add: cached_def)
  with Commit assms(2,3) show ?thesis by (auto simp: by_now_def overwrites_def once_commit_def not_less intro!: once_settle_cached)
next
  case (Settled k t)
  with assms show ?thesis by (auto simp: by_now_def overwrites_def not_less intro!: once_settle_cached)
next
  case (Committed k t)
  with assms(1,2) show ?thesis by (simp add: by_now_def isCommitted_cached)
next
  case (Resumed k c r)
  with assms(1,3) show ?thesis by (auto simp: overwrites_def not_less intro!: committed_read_cached)
qed (use assms in \<open>auto simp: cached_def once_throw_def\<close>)

lemma cached_run:
  assumes "cached s key now" "\<forall>e \<in> set es. by_now now e \<and> \<not> overwrites key (id_retentionMs s) now e \<and> (\<nexists>t. e = Restart t)"
  shows "cached (fold once_do es s) key now"
  using assms by (induction es arbitrary: s) (simp_all add: cached_step)

lemma kept_step:
  assumes "kept s key now" "\<not> overwrites key (id_retentionMs s) now e" "e \<noteq> PruneDelete key"
  shows "kept (once_do e s) key now"
proof (cases e)
  case (Commit k t)
  with assms show ?thesis by (auto simp: kept_def once_commit_def once_store_def recent_update overwrites_def)
next
  case (Stored k t)
  with assms show ?thesis by (auto simp: kept_def once_store_def recent_update overwrites_def)
next
  case (PruneDelete k)
  with assms show ?thesis by (auto simp: kept_def prune_delete_def recent_def)
qed (use assms in \<open>simp_all add: kept_def once_throw_def once_restart_def\<close>)

lemma kept_run:
  assumes "kept s key now" "\<forall>e \<in> set es. \<not> overwrites key (id_retentionMs s) now e \<and> e \<noteq> PruneDelete key"
  shows "kept (fold once_do es s) key now"
  using assms by (induction es arbitrary: s) (simp_all add: kept_step)

lemma enter_refuses: "cached s key now \<or> key \<in> set (id_inflight s) \<Longrightarrow> once_enter key now s = (s, once_refused)"
  by (auto simp: once_enter_def cache_hit_recent cached_def Let_def)

lemma begin_refuses: "cached s key now \<or> kept s key now \<Longrightarrow> \<not> snd (once_begin key now s)"
proof -
  assume a: "cached s key now \<or> kept s key now"
  show ?thesis
  proof (cases "cached s key now \<or> key \<in> set (id_inflight s)")
    case False
    with a have "\<not> cache_hit key (now - id_retentionMs s) s" "kept s key now" "key \<notin> set (id_inflight s)"
      by (auto simp: cached_def cache_hit_recent)
    then show ?thesis by (auto simp: once_begin_def once_enter_def once_looked_def record_of_def committed_read_def kept_def recent_def Let_def)
  qed (simp add: once_begin_def enter_refuses)
qed

text \<open>An effect that has started is in flight, no longer waiting for the map, until it throws or ends; then it is in the cache.\<close>

definition blocked :: "idempotency \<Rightarrow> string \<Rightarrow> int \<Rightarrow> bool" where
  "blocked s key now \<longleftrightarrow> map_of (id_lookups s) key = None \<and> (key \<in> set (id_inflight s) \<or> cached s key now)"

text \<open>The times at which an event enters the key into the cache.\<close>

definition enters_cache :: "string \<Rightarrow> int \<Rightarrow> once_event \<Rightarrow> bool" where
  "enters_cache key t e \<longleftrightarrow> e = Commit key t \<or> e = Settled key t \<or> (\<exists>c. e = Resumed key c (Some t))"

lemma blocked_looked:
  assumes "blocked s key now"
  shows "blocked (fst (once_looked k r s)) key now"
proof (cases "map_of (id_lookups s) k")
  case (Some c)
  then have k: "k \<noteq> key" using assms by (auto simp: blocked_def)
  then have "cached s key now \<Longrightarrow> cached (fst (once_looked k r s)) key now" by (intro once_looked_cached) auto
  with assms k Some show ?thesis by (auto simp: blocked_def once_looked_def committed_read_def split: option.splits)
qed (simp add: once_looked_def assms)

lemma blocked_enter:
  assumes "blocked s key now" "t \<le> now"
  shows "blocked (fst (once_enter k t s)) key now"
proof (cases "k = key")
  case True
  have "key \<in> set (id_inflight s) \<or> cache_hit key (t - id_retentionMs s) s"
    using assms cached_mono[of s key now t] by (auto simp: blocked_def)
  with True assms(1) show ?thesis by (simp add: once_enter_def Let_def)
qed (use assms(1) in \<open>auto simp: once_enter_def blocked_def cached_def Let_def\<close>)

lemma blocked_step:
  assumes "blocked s key now" "by_now now e" "\<nexists>t. enters_cache key t e \<and> t + id_retentionMs s < now" "e \<noteq> Throw key" "\<nexists>t. e = Restart t"
  shows "blocked (once_do e s) key now"
proof (cases e)
  case (Begin k t)
  have "blocked (fst (once_enter k t s)) key now" using assms(1,2) Begin by (intro blocked_enter) (simp_all add: by_now_def)
  then show ?thesis using Begin blocked_looked[of "fst (once_enter k t s)"]
    by (auto simp: once_begin_def split: prod.splits once_answer.splits)
next
  case (Enter k t)
  with assms(1,2) show ?thesis by (simp add: by_now_def blocked_enter)
next
  case (Looked k r)
  with assms(1) show ?thesis by (simp add: blocked_looked)
next
  case (Commit k t)
  have "cached (once_store k t s) key now = cached s key now" by (simp add: cached_def)
  then have "cached s key now \<or> k = key \<Longrightarrow> cached (once_commit k t s) key now"
    using assms(2,3) Commit by (auto simp: once_commit_def by_now_def enters_cache_def not_less intro!: once_settle_cached)
  with Commit assms(1) show ?thesis by (auto simp: blocked_def once_commit_def)
next
  case (Settled k t)
  have "cached s key now \<or> k = key \<Longrightarrow> cached (once_settle k t s) key now"
    using assms(2,3) Settled by (auto simp: by_now_def enters_cache_def not_less intro!: once_settle_cached)
  with Settled assms(1) show ?thesis by (auto simp: blocked_def)
next
  case (Committed k t)
  with assms(1,2) isCommitted_cached[of s key now t k] show ?thesis by (auto simp: blocked_def by_now_def)
next
  case (Resumed k c r)
  have "cached s key now \<Longrightarrow> cached (fst (committed_read k c r s)) key now"
    using assms(3) Resumed by (auto simp: enters_cache_def not_less intro!: committed_read_cached)
  with Resumed assms(1) show ?thesis by (auto simp: blocked_def)
qed (use assms in \<open>auto simp: blocked_def cached_def once_throw_def\<close>)

lemma blocked_run:
  assumes "blocked s key now" "\<forall>e \<in> set es. by_now now e \<and> (\<nexists>t. enters_cache key t e \<and> t + id_retentionMs s < now) \<and> e \<noteq> Throw key \<and> (\<nexists>t. e = Restart t)"
  shows "blocked (fold once_do es s) key now"
  using assms
proof (induction es arbitrary: s)
  case (Cons e es)
  have "blocked (once_do e s) key now" using Cons.prems by (intro blocked_step) auto
  with Cons show ?case by simp
qed simp

lemma started_blocks: "once_looked key r s = (s0, True) \<Longrightarrow> blocked s0 key now \<or> key \<notin> set (id_inflight s)"
  by (auto simp: blocked_def once_looked_def committed_read_def split: option.splits if_splits)

text \<open>C21: An effect runs once. Say a call for a key, in flight, has read the backing map and starts its effect. Whatever happens
  after that, in whatever order, calls of other keys, calls of this key at any of the points where they wait, lookups with records
  read at any time, prunes of the map in the background: if a later call of the key gets past its entry at the time \<open>now\<close>, and
  only such a call can start the effect again, then in between the effect threw, or the process was restarted, or the key was entered into the cache
  with a time older than the retention time, by its commit or by a lookup of \<open>committed\<close> that read such a record. What is promised here is about one
  process: the record in the map may be lost to a prune that began before it was written.\<close>

theorem effect_once:
  assumes "\<forall>e \<in> set es. by_now now e" and "key \<in> set (id_inflight s)" and "once_looked key r s = (s0, True)"
    and "snd (once_enter key now (fold once_do es s0)) = once_waits"
  shows "Throw key \<in> set es \<or> (\<exists>t. Restart t \<in> set es) \<or> (\<exists>e \<in> set es. \<exists>t. enters_cache key t e \<and> t + id_retentionMs s < now)"
proof (rule ccontr)
  assume no: "\<not> ?thesis"
  have "id_retentionMs s0 = id_retentionMs s" using once_looked_keeps(2)[of key r s] assms(3) by simp
  moreover have "blocked s0 key now" using started_blocks[OF assms(3)] assms(2) by blast
  ultimately have "blocked (fold once_do es s0) key now" using no assms(1) by (intro blocked_run) auto
  then show False using enter_refuses[of _ key now] assms(4) by (auto simp: blocked_def)
qed

text \<open>A prune deletes by key what was too old when it read the map: a record written since goes with it, and after a restart the effect
  starts again well within the retention time.\<close>

theorem fresh_record_pruned:
  "let s = \<lparr>id_retentionMs = 10, id_pruneIntervalMs = 5, id_done = [], id_inflight = [''k''], id_lastPruneAt = 0,
         id_backing = Some [(''k'', 1)], id_lookups = [], id_prunes = [2], id_deletes = []\<rparr>
   in snd (once_begin ''k'' 15 (fold once_do [PruneRead, Commit ''k'' 13, PruneDelete ''k'', Restart 14] s))"
  by code_simp

section \<open>The rate limit\<close>

lemma rate_check_keeps [simp]:
  "rl_max (fst (rate_check p t s)) = rl_max s" "rl_windowMs (fst (rate_check p t s)) = rl_windowMs s"
  by (simp_all add: rate_check_def Let_def split: option.splits)

lemma rate_check_other: "p' \<noteq> p \<Longrightarrow> map_of (rl_state (fst (rate_check p' t s))) p = map_of (rl_state s) p"
  by (simp add: rate_check_def Let_def split: option.splits)

definition quota :: "rate_limiter \<Rightarrow> nat" where
  "quota s = max 1 (rl_max s)"

lemma quota_check [simp]: "quota (fst (rate_check p t s)) = quota s"
  by (simp add: quota_def)

text \<open>How many more checks the open window of a principal lets through, if the window began at \<open>a\<close> or later.\<close>

definition window_left :: "rate_limiter \<Rightarrow> string \<Rightarrow> nat" where
  "window_left s p = (case map_of (rl_state s) p of None \<Rightarrow> 0 | Some w \<Rightarrow> quota s - rw_count w)"

definition begun_since :: "int \<Rightarrow> rate_limiter \<Rightarrow> string \<Rightarrow> bool" where
  "begun_since a s p \<longleftrightarrow> (\<exists>w. map_of (rl_state s) p = Some w \<and> a \<le> rw_start w)"

lemma rate_check_within:
  assumes "begun_since a s p" and "t < a + rl_windowMs s"
  shows "begun_since a (fst (rate_check p t s)) p"
    and "window_left (fst (rate_check p t s)) p + of_bool (snd (rate_check p t s) = RateAllowed) \<le> window_left s p"
proof -
  from assms(1) obtain w where w: "map_of (rl_state s) p = Some w" "a \<le> rw_start w" by (auto simp: begun_since_def)
  then have "\<not> t - rw_start w \<ge> rl_windowMs s" using assms(2) by simp
  with w show "begun_since a (fst (rate_check p t s)) p"
    "window_left (fst (rate_check p t s)) p + of_bool (snd (rate_check p t s) = RateAllowed) \<le> window_left s p"
    by (auto simp: rate_check_def Let_def begun_since_def window_left_def quota_def)
qed

lemma rate_check_any:
  assumes "a \<le> t"
  shows "begun_since a (fst (rate_check p t s)) p \<and> snd (rate_check p t s) = RateAllowed \<and>
      window_left (fst (rate_check p t s)) p + 1 \<le> quota s \<or>
    window_left (fst (rate_check p t s)) p + of_bool (snd (rate_check p t s) = RateAllowed) \<le> window_left s p"
proof (cases "map_of (rl_state s) p")
  case None
  then show ?thesis using assms by (auto simp: rate_check_def Let_def begun_since_def window_left_def quota_def)
next
  case (Some w)
  then show ?thesis using assms by (auto simp: rate_check_def Let_def begun_since_def window_left_def quota_def)
qed

lemma rate_checks_Cons:
  "allowed_for p ((q, t) # cs) s = (if q = p then of_bool (snd (rate_check q t s) = RateAllowed) else 0)
     + allowed_for p cs (fst (rate_check q t s))"
  by (auto simp: allowed_for_def split: prod.splits)

lemma fst_rate_checks_Cons: "fst (rate_checks ((q, t) # cs) s) = fst (rate_checks cs (fst (rate_check q t s)))"
  by (simp split: prod.split)

lemma rate_checks_keeps: "rl_max (fst (rate_checks cs s)) = rl_max s \<and> rl_windowMs (fst (rate_checks cs s)) = rl_windowMs s"
  by (induction cs arbitrary: s) (auto simp: fst_rate_checks_Cons simp del: rate_checks.simps(2))

lemma window_left_other: "q \<noteq> p \<Longrightarrow> window_left (fst (rate_check q t s)) p = window_left s p"
  by (simp add: window_left_def rate_check_other split: option.split)

lemma begun_since_other: "q \<noteq> p \<Longrightarrow> begun_since a (fst (rate_check q t s)) p = begun_since a s p"
  by (simp add: begun_since_def rate_check_other)

lemma allowed_within:
  assumes "begun_since a s p" and "\<forall>(q, t) \<in> set cs. t < a + rl_windowMs s"
  shows "allowed_for p cs s \<le> window_left s p"
  using assms
proof (induction cs arbitrary: s)
  case (Cons c cs)
  obtain q t where c: "c = (q, t)" by fastforce
  let ?s = "fst (rate_check q t s)"
  from Cons.prems c have t: "t < a + rl_windowMs s" and rest: "\<forall>(q, t) \<in> set cs. t < a + rl_windowMs ?s" by auto
  show ?case
  proof (cases "q = p")
    case True
    with rate_check_within[OF Cons.prems(1) t] Cons.IH[OF _ rest] show ?thesis by (simp add: c rate_checks_Cons)
  next
    case False
    with Cons.prems(1) Cons.IH[OF _ rest] show ?thesis by (simp add: c rate_checks_Cons begun_since_other window_left_other)
  qed
qed (simp add: allowed_for_def)

lemma allowed_span:
  assumes "\<forall>(q, t) \<in> set cs. a \<le> t \<and> t < a + rl_windowMs s"
  shows "allowed_for p cs s \<le> window_left s p + quota s"
  using assms
proof (induction cs arbitrary: s)
  case (Cons c cs)
  obtain q t where c: "c = (q, t)" by fastforce
  let ?s = "fst (rate_check q t s)"
  from Cons.prems c have t: "a \<le> t" and rest: "\<forall>(q, t) \<in> set cs. a \<le> t \<and> t < a + rl_windowMs ?s"
    and rest': "\<forall>(q, t) \<in> set cs. t < a + rl_windowMs ?s" by auto
  have ih: "allowed_for p cs ?s \<le> window_left ?s p + quota s" using Cons.IH[OF rest] by simp
  show ?case
  proof (cases "q = p")
    case True
    with rate_check_any[OF t, of p s] ih allowed_within[OF _ rest', of p] show ?thesis
      by (auto simp: c rate_checks_Cons)
  next
    case False
    with ih show ?thesis by (simp add: c rate_checks_Cons window_left_other)
  qed
qed (simp add: allowed_for_def)

lemma window_left_open:
  assumes "\<forall>w. map_of (rl_state s) p = Some w \<longrightarrow> 1 \<le> rw_count w"
  shows "window_left s p + 1 \<le> quota s"
  using assms by (auto simp: window_left_def quota_def split: option.splits)

lemma rate_counts_positive:
  assumes "\<forall>p w. map_of (rl_state s) p = Some w \<longrightarrow> 1 \<le> rw_count w"
  shows "\<forall>p w. map_of (rl_state (fst (rate_checks cs s))) p = Some w \<longrightarrow> 1 \<le> rw_count w"
  using assms
proof (induction cs arbitrary: s)
  case (Cons c cs)
  obtain q t where c: "c = (q, t)" by fastforce
  have "\<forall>p w. map_of (rl_state (fst (rate_check q t s))) p = Some w \<longrightarrow> 1 \<le> rw_count w"
    using Cons.prems by (auto simp: rate_check_def Let_def split: option.splits if_splits)
  from Cons.IH[OF this] show ?case by (simp add: c fst_rate_checks_Cons del: rate_checks.simps(2))
qed simp

text \<open>The rate limit bounds every stretch of time. Whatever was checked before, the checks of a principal that
  fall into any one stretch of the length of a window are let through at most twice the quota less one: the rest of
  the window that is open and one whole new window. With no window open it is at most the quota.\<close>

theorem rate_bound:
  assumes "\<forall>(q, t) \<in> set cs. a \<le> t \<and> t < a + windowMs"
  shows "allowed_for p cs (fst (rate_checks before \<lparr>rl_max = m, rl_windowMs = windowMs, rl_state = []\<rparr>)) + 1 \<le> 2 * max 1 m
    \<and> allowed_for p cs \<lparr>rl_max = m, rl_windowMs = windowMs, rl_state = []\<rparr> \<le> max 1 m"
proof -
  let ?init = "\<lparr>rl_max = m, rl_windowMs = windowMs, rl_state = []\<rparr>"
  let ?s = "fst (rate_checks before ?init)"
  note keeps = rate_checks_keeps
  have "\<forall>p w. map_of (rl_state ?s) p = Some w \<longrightarrow> 1 \<le> rw_count w" by (rule rate_counts_positive) simp
  then have "window_left ?s p + 1 \<le> quota ?s" using window_left_open by blast
  moreover have "allowed_for p cs ?s \<le> window_left ?s p + quota ?s" using allowed_span[of cs a ?s p] assms keeps[of before ?init] by simp
  moreover have "quota ?s = max 1 m" "quota ?init = max 1 m" using keeps[of before ?init] by (simp_all add: quota_def)
  moreover have "allowed_for p cs ?init \<le> window_left ?init p + quota ?init" using allowed_span[of cs a ?init p] assms by simp
  moreover have "window_left ?init p = 0" by (simp add: window_left_def)
  ultimately show ?thesis by simp
qed

section \<open>The budget\<close>

text \<open>The reference: every charge ever recorded, in order. A check reports the sum of the charges of the window.\<close>

datatype budget_event = Charge string rat int | Check string int

type_synonym charges = "(string \<times> rat \<times> int) list"

fun charged :: "budget_event list \<Rightarrow> charges" where
  "charged [] = []"
| "charged (Charge p usd t # es) = (p, usd, t) # charged es"
| "charged (Check p t # es) = charged es"

fun budget_do :: "budget_event \<Rightarrow> budget \<Rightarrow> budget" where
  "budget_do (Charge p usd t) s = budget_record p usd t s"
| "budget_do (Check p t) s = fst (budget_check p t s)"

fun budget_event_time :: "budget_event \<Rightarrow> int" where
  "budget_event_time (Charge p usd t) = t"
| "budget_event_time (Check p t) = t"

fun budget_event_who :: "budget_event \<Rightarrow> string" where
  "budget_event_who (Charge p usd t) = p"
| "budget_event_who (Check p t) = p"

definition spent_by :: "charges \<Rightarrow> string \<Rightarrow> int \<Rightarrow> rat" where
  "spent_by cs p cutoff = sum_list (map (\<lambda>(q, usd, t). usd) (filter (\<lambda>(q, usd, t). (p = orgKey \<or> q = p) \<and> cutoff \<le> t) cs))"

definition spends :: "budget \<Rightarrow> string \<Rightarrow> spend_entry list" where
  "spends s p = nullish (map_of (bg_spend s) p) []"

definition sum_since :: "int \<Rightarrow> spend_entry list \<Rightarrow> rat" where
  "sum_since cutoff es = sum_list (map sp_usd (filter (\<lambda>e. cutoff \<le> sp_at e) es))"

lemma sum_since_simps [simp]:
  "sum_since c [] = 0" "sum_since c (es @ fs) = sum_since c es + sum_since c fs"
  "sum_since c [e] = (if c \<le> sp_at e then sp_usd e else 0)"
  by (simp_all add: sum_since_def)

lemma sum_since_kept: "d \<le> c \<Longrightarrow> sum_since c (filter (\<lambda>e. d \<le> sp_at e) es) = sum_since c es"
  unfolding sum_since_def filter_filter by (rule arg_cong[where f = "\<lambda>xs. sum_list (map sp_usd xs)"], rule filter_cong) auto

lemma spentIn_eq:
  "spentIn p now s = (s\<lparr>bg_spend := AList.update p (filter (\<lambda>e. now - bg_windowMs s \<le> sp_at e) (spends s p)) (bg_spend s)\<rparr>,
     sum_since (now - bg_windowMs s) (spends s p))"
  by (simp add: spentIn_def spends_def sum_since_def Let_def)

lemma spentIn_keeps [simp]:
  "bg_windowMs (fst (spentIn p now s)) = bg_windowMs s" "bg_limitUsd (fst (spentIn p now s)) = bg_limitUsd s"
  "bg_orgLimitUsd (fst (spentIn p now s)) = bg_orgLimitUsd s"
  by (simp_all add: spentIn_eq)

lemma spentIn_sum:
  assumes "now \<le> c + bg_windowMs s"
  shows "sum_since c (spends (fst (spentIn p now s)) q) = sum_since c (spends s q)"
  using assms by (cases "p = q") (simp_all add: spentIn_eq spends_def sum_since_kept)

lemma budget_check_keeps [simp]:
  "bg_windowMs (fst (budget_check p now s)) = bg_windowMs s" "bg_limitUsd (fst (budget_check p now s)) = bg_limitUsd s"
  "bg_orgLimitUsd (fst (budget_check p now s)) = bg_orgLimitUsd s"
  by (simp_all add: budget_check_def spentIn_eq)

lemma budget_check_sum:
  assumes "now \<le> c + bg_windowMs s"
  shows "sum_since c (spends (fst (budget_check p now s)) q) = sum_since c (spends s q)"
proof -
  let ?s1 = "fst (spentIn p now s)"
  have "fst (budget_check p now s) = ?s1 \<or> fst (budget_check p now s) = fst (spentIn orgKey now ?s1)"
    by (simp add: budget_check_def split: prod.splits)
  with spentIn_sum[OF assms, of p q] spentIn_sum[of now c ?s1 orgKey q] assms show ?thesis by auto
qed

lemma budget_record_keeps [simp]:
  "bg_windowMs (budget_record p usd t s) = bg_windowMs s" "bg_limitUsd (budget_record p usd t s) = bg_limitUsd s"
  "bg_orgLimitUsd (budget_record p usd t s) = bg_orgLimitUsd s"
  by (simp_all add: budget_record_def push_spend_def)

lemma budget_record_sum:
  assumes "p \<noteq> orgKey"
  shows "sum_since c (spends (budget_record p usd t s) q) =
    sum_since c (spends s q) + (if (q = orgKey \<or> p = q) \<and> c \<le> t then usd else 0)"
  using assms by (auto simp: budget_record_def push_spend_def spends_def)

lemma spent_by_Cons: "spent_by ((q, usd, t) # cs) p c = (if (p = orgKey \<or> q = p) \<and> c \<le> t then usd else 0) + spent_by cs p c"
  by (simp add: spent_by_def)

lemma budget_do_keeps [simp]:
  "bg_windowMs (budget_do e s) = bg_windowMs s" "bg_limitUsd (budget_do e s) = bg_limitUsd s"
  "bg_orgLimitUsd (budget_do e s) = bg_orgLimitUsd s"
  by (cases e; simp)+

lemma budget_run_keeps [simp]:
  "bg_windowMs (fold budget_do es s) = bg_windowMs s" "bg_limitUsd (fold budget_do es s) = bg_limitUsd s"
  "bg_orgLimitUsd (fold budget_do es s) = bg_orgLimitUsd s"
  by (induction es arbitrary: s) simp_all

lemma budget_run_sum:
  assumes "\<forall>e \<in> set es. budget_event_time e \<le> c + bg_windowMs s \<and> budget_event_who e \<noteq> orgKey"
  shows "sum_since c (spends (fold budget_do es s) p) = sum_since c (spends s p) + spent_by (charged es) p c"
  using assms
proof (induction es arbitrary: s)
  case (Cons e es)
  then show ?case
    by (cases e) (simp_all add: budget_check_sum budget_record_sum spent_by_Cons)
qed (simp add: spent_by_def)

text \<open>The budget is exact. After any charges and checks up to now, a check lets a principal through exactly if
  what all its charges of the window come to is below its limit and what everyone's charges of the window come to is
  below the limit of the organisation; it reports the sum that decided and its limit.\<close>

theorem budget_exact:
  assumes "\<forall>e \<in> set es. budget_event_time e \<le> now \<and> budget_event_who e \<noteq> orgKey" and "p \<noteq> orgKey"
  shows "snd (budget_check p now (fold budget_do es \<lparr>bg_limitUsd = l, bg_orgLimitUsd = ol, bg_windowMs = w, bg_spend = []\<rparr>)) =
    (let mine = spent_by (charged es) p (now - w); total = spent_by (charged es) orgKey (now - w) in
     if reaches_limit mine l then \<lparr>bc_allowed = False, bc_spentUsd = mine, bc_limitUsd = l\<rparr>
     else \<lparr>bc_allowed = (\<not> reaches_limit total ol), bc_spentUsd = total, bc_limitUsd = ol\<rparr>)"
proof -
  let ?s = "fold budget_do es \<lparr>bg_limitUsd = l, bg_orgLimitUsd = ol, bg_windowMs = w, bg_spend = []\<rparr>"
  have sum: "sum_since (now - w) (spends ?s q) = spent_by (charged es) q (now - w)" for q
    using budget_run_sum[of es "now - w" "\<lparr>bg_limitUsd = l, bg_orgLimitUsd = ol, bg_windowMs = w, bg_spend = []\<rparr>" q] assms(1)
    by (simp add: spends_def)
  have "spends (fst (spentIn p now ?s)) orgKey = spends ?s orgKey" using assms(2) by (simp add: spentIn_eq spends_def)
  then have org: "snd (spentIn orgKey now (fst (spentIn p now ?s))) = spent_by (charged es) orgKey (now - w)"
    using sum by (simp add: spentIn_eq[of orgKey])
  have mine: "snd (spentIn p now ?s) = spent_by (charged es) p (now - w)" using sum by (simp add: spentIn_eq)
  obtain s1 x where 1: "spentIn p now ?s = (s1, x)" by fastforce
  obtain s2 y where 2: "spentIn orgKey now s1 = (s2, y)" by fastforce
  show ?thesis using org mine by (simp add: budget_check_def Let_def 1 2)
qed

section \<open>Tasks\<close>

inductive task_step :: "task_store \<Rightarrow> task_store \<Rightarrow> bool" where
  step_create: "create_task input now uuid s = Inr (s', task) \<Longrightarrow> task_step s s'"
| step_transition: "transitionStatus i expected next runId now s = (s', r) \<Longrightarrow> task_step s s'"

text \<open>Replaying events: each starts from the status the one before it ended in, the first from none.\<close>

fun replay :: "TaskStatus option \<Rightarrow> TaskEvent list \<Rightarrow> TaskStatus option option" where
  "replay st [] = Some st"
| "replay st (e # es) =
     (if te_fromStatus e = st \<and> te_created e = (st = None) then replay (Some (te_toStatus e)) es else None)"

lemma replay_append: "replay st (es @ fs) = Option.bind (replay st es) (\<lambda>st'. replay st' fs)"
proof (induction es arbitrary: st)
  case (Cons e es)
  then show ?case by (cases st) simp_all
qed simp

definition task_ok :: "Task option \<Rightarrow> string \<Rightarrow> TaskEvent list \<Rightarrow> bool" where
  "task_ok task i es = (case task of
       None \<Rightarrow> es = []
     | Some t \<Rightarrow> tk_id t = i \<and> es \<noteq> [] \<and> replay None es = Some (Some (tk_status t)) \<and>
         te_createdAt (hd es) = tk_createdAt t \<and> te_createdAt (last es) = tk_updatedAt t)"

definition task_inv :: "task_store \<Rightarrow> bool" where
  "task_inv s \<longleftrightarrow> (\<forall>i. task_ok (map_of (ts_tasks s) i) i (events_of i s))"

lemma task_ok_simps [simp]:
  "task_ok None i es \<longleftrightarrow> es = []"
  "task_ok (Some t) i es \<longleftrightarrow> tk_id t = i \<and> es \<noteq> [] \<and> replay None es = Some (Some (tk_status t)) \<and>
     te_createdAt (hd es) = tk_createdAt t \<and> te_createdAt (last es) = tk_updatedAt t"
  by (simp_all add: task_ok_def)

lemma task_inv_change:
  assumes "task_inv s" and "\<And>j. j \<noteq> i \<Longrightarrow> map_of (ts_tasks s') j = map_of (ts_tasks s) j \<and> events_of j s' = events_of j s"
    and "task_ok (map_of (ts_tasks s') i) i (events_of i s')"
  shows "task_inv s'"
  unfolding task_inv_def
proof
  fix j
  show "task_ok (map_of (ts_tasks s') j) j (events_of j s')"
    using assms by (cases "j = i") (simp_all add: task_inv_def)
qed

lemma events_of_append [simp]:
  "events_of j (appendEvent i r f t' now s) = (if j = i then events_of i s @
     [\<lparr>te_id = show_nat (ts_nextEventId s), te_taskId = i, te_runId = r, te_created = (f = None),
       te_fromStatus = f, te_toStatus = t', te_createdAt = now\<rparr>] else events_of j s)"
  "ts_tasks (appendEvent i r f t' now s) = ts_tasks s"
  by (simp_all add: appendEvent_def events_of_def)

lemma events_of_tasks [simp]: "events_of j (s\<lparr>ts_tasks := m\<rparr>) = events_of j s"
  by (simp add: events_of_def)

lemma task_inv_create:
  assumes "task_inv s" and "create_task input now uuid s = Inr (s', task)"
  shows "task_inv s'"
proof -
  let ?i = "nullish (ti_id input) uuid"
  from assms(2) have new: "map_of (ts_tasks s) ?i = None" and
    s': "s' = appendEvent ?i (ti_originRunId input) None (tk_status task) now (s\<lparr>ts_tasks := AList.update ?i task (ts_tasks s)\<rparr>)"
    and task: "tk_id task = ?i" "tk_createdAt task = now" "tk_updatedAt task = now"
    by (auto simp: create_task_def Let_def split: if_splits)
  have "events_of ?i s = []" using assms(1) new by (auto simp: task_inv_def dest: spec[of _ ?i])
  then show ?thesis by (intro task_inv_change[OF assms(1), of ?i]) (simp_all add: s' task)
qed

lemma task_inv_transition:
  assumes "task_inv s" and "transitionStatus i expected next runId now s = (s', r)"
  shows "task_inv s'"
proof (cases "\<exists>t. map_of (ts_tasks s) i = Some t \<and> tk_status t = expected")
  case False
  then have "s' = s" using assms(2) by (auto simp: transitionStatus_def split: option.splits)
  then show ?thesis using assms(1) by simp
next
  case True
  then obtain t where t: "map_of (ts_tasks s) i = Some t" "tk_status t = expected" by blast
  have ok: "task_ok (Some t) i (events_of i s)" using assms(1) t(1) unfolding task_inv_def by metis
  have s': "s' = appendEvent i runId (Some expected) next now
      (s\<lparr>ts_tasks := AList.update i (t\<lparr>tk_status := next, tk_updatedAt := now\<rparr>) (ts_tasks s)\<rparr>)"
    using assms(2) t by (simp add: transitionStatus_def Let_def)
  show ?thesis using ok t(2) by (intro task_inv_change[OF assms(1), of i]) (simp_all add: s' replay_append)
qed

definition empty_tasks :: task_store where
  "empty_tasks = \<lparr>ts_tasks = [], ts_events = [], ts_nextEventId = 1\<rparr>"

interpretation tasks: invariant_system "\<lambda>s. s = empty_tasks" task_step task_inv
proof
  show "task_inv s" if "s = empty_tasks" for s :: task_store using that by (simp add: task_inv_def empty_tasks_def events_of_def)
  show "task_inv s'" if "task_inv s" "task_step s s'" for s s' :: task_store
    using that(2,1) by cases (auto intro: task_inv_create task_inv_transition)
qed

text \<open>The events of a task are its history. In every reachable store the events of a task, replayed from no status,
  each start where the one before ended and end in the status the task has; the first is of its creation and the last
  of its last change. A transition takes place exactly if the task has the expected status, and of two that expect the
  same status and leave it only the first takes place.\<close>

theorem task_history:
  assumes "task_step\<^sup>*\<^sup>* empty_tasks s" and "map_of (ts_tasks s) i = Some t"
  shows "replay None (events_of i s) = Some (Some (tk_status t))
    \<and> te_createdAt (hd (events_of i s)) = tk_createdAt t \<and> te_createdAt (last (events_of i s)) = tk_updatedAt t
    \<and> (snd (transitionStatus i expected next runId now s) \<noteq> None \<longleftrightarrow> tk_status t = expected)
    \<and> (expected \<noteq> next \<longrightarrow> snd (transitionStatus i expected next' runId' now'
         (fst (transitionStatus i expected next runId now s))) = None)"
proof -
  have "task_inv s" using tasks.reachable_inv[OF _ assms(1)] by simp
  then have "task_ok (Some t) i (events_of i s)" using assms(2) unfolding task_inv_def by metis
  with assms(2) show ?thesis by (simp add: transitionStatus_def Let_def)
qed

subsection \<open>Instances\<close>

text \<open>Started at 1 and committed at 2, the effect is refused at its entry at 9.\<close>

definition starting_guard :: idempotency where
  "starting_guard = \<lparr>id_retentionMs = 10, id_pruneIntervalMs = 5, id_done = [], id_inflight = [''k''], id_lastPruneAt = 0, id_backing = Some [],
     id_lookups = [(''k'', - 9)], id_prunes = [], id_deletes = []\<rparr>"

theorem effect_once_witness:
  "snd (once_looked ''k'' None starting_guard) \<and>
   snd (once_enter ''k'' 9 (fold once_do [Commit ''k'' 2, PruneRead] (fst (once_looked ''k'' None starting_guard)))) \<noteq> once_waits"
proof -
  let ?es = "[Commit ''k'' 2, PruneRead]"
  have st: "snd (once_looked ''k'' None starting_guard)" "''k'' \<in> set (id_inflight starting_guard)" "id_retentionMs starting_guard = 10"
    by code_simp+
  then have "once_looked ''k'' None starting_guard = (fst (once_looked ''k'' None starting_guard), True)" by (simp add: prod_eq_iff)
  moreover have "\<forall>e \<in> set ?es. by_now 9 e" by (simp add: by_now_def)
  ultimately have "snd (once_enter ''k'' 9 (fold once_do ?es (fst (once_looked ''k'' None starting_guard)))) \<noteq> once_waits"
    using effect_once[of ?es 9 "''k''" starting_guard None] st(2,3) by (auto simp: enters_cache_def simp del: fold_simps)
  with st(1) show ?thesis by blast
qed

theorem rate_bound_witness:
  "allowed_for ''u'' [(''u'', 9), (''u'', 10), (''u'', 11), (''u'', 12)]
     (fst (rate_checks [(''u'', 0)] \<lparr>rl_max = 2, rl_windowMs = 10, rl_state = []\<rparr>)) + 1 \<le> 4"
  using rate_bound[of "[(''u'', 9), (''u'', 10), (''u'', 11), (''u'', 12)]" 9 10 "''u''" "[(''u'', 0)]" 2] by simp

text \<open>Of two charges the older is out of the window.\<close>

theorem budget_exact_witness:
  "bc_spentUsd (snd (budget_check ''u'' 20 (fold budget_do [Charge ''u'' 3 5, Check ''u'' 14, Charge ''u'' 4 15]
     \<lparr>bg_limitUsd = Some 4, bg_orgLimitUsd = None, bg_windowMs = 10, bg_spend = []\<rparr>))) = 4"
proof -
  let ?es = "[Charge ''u'' 3 5, Check ''u'' 14, Charge ''u'' 4 15]"
  have "\<forall>e \<in> set ?es. budget_event_time e \<le> 20 \<and> budget_event_who e \<noteq> orgKey" by (simp add: orgKey_def)
  from budget_exact[OF this, of "''u''" "Some 4" None 10] show ?thesis
    by (simp add: orgKey_def spent_by_def reaches_limit_def Let_def)
qed

theorem task_history_witness:
  "replay None (events_of ''t'' (fst (projr (create_task \<lparr>ti_id = Some ''t'', ti_sessionId = ''s'', ti_originRunId = ''r'',
     ti_title = ''x'', ti_status = None\<rparr> 3 ''u'' empty_tasks)))) = Some (Some task_pending)"
proof -
  let ?c = "create_task \<lparr>ti_id = Some ''t'', ti_sessionId = ''s'', ti_originRunId = ''r'', ti_title = ''x'', ti_status = None\<rparr> 3 ''u'' empty_tasks"
  obtain s t where c: "?c = Inr (s, t)" and t: "map_of (ts_tasks s) ''t'' = Some t" "tk_status t = task_pending"
    by (simp add: create_task_def empty_tasks_def Let_def)
  have "task_step\<^sup>*\<^sup>* empty_tasks s" using step_create[OF c] by (rule r_into_rtranclp)
  from task_history[OF this t(1)] t(2) c show ?thesis by simp
qed

end
