(* ===== verification/Egress.thy ===== *)
theory Egress
  imports Scopes "HOL-Library.Word"
begin

text \<open>
  Which hosts a sandbox may talk to: policies over host names (\<open>src/src/resolution/egress-policy.ts\<close>), the floor of an
  audience (\<open>src/src/resolution/audience-floor.ts\<close>), the claim put into the token of the sandbox
  (\<open>egressClaimAllowingControlPlane\<close> of \<open>src/src/core/orchestrator/turn-helpers.ts\<close>) and the gate that decides a
  connection (\<open>src/src/egress-authz-main.ts\<close>, \<open>src/src/util/network.ts\<close>).

  The host name \<open>new URL(\<dots>).hostname\<close> of a text is the argument \<open>url_host\<close>, \<^const>\<open>None\<close> when the constructor throws;
  the address a text denotes, with its family (\<open>isIP\<close>), is the argument \<open>parse_ip\<close>; resolving a name is the argument
  \<open>lookup\<close>, \<^const>\<open>None\<close> when it fails. Block lists are modelled as in Node, addresses as words: a rule for one family
  also applies to the addresses of the other through the IPv4-mapped addresses.
\<close>

section \<open>Policies over host names\<close>

record EgressPolicy =
  eg_allowedHosts :: "string list"
  eg_denyPrivateNetworks :: bool
  eg_privateNetworkAllowedHosts :: "string list option"
  eg_deniedHosts :: "string list option"

definition ends_with :: "'a list \<Rightarrow> 'a list \<Rightarrow> bool" where
  "ends_with s p = starts_with (rev s) (rev p)"

text \<open>\<open>.replace(/\.$/, "")\<close> and \<open>.replace(/^\[(.*)\]$/, "$1")\<close>; a dot of a regular expression is no line break.\<close>

definition strip_dot :: "string \<Rightarrow> string" where
  "strip_dot s = (if s \<noteq> [] \<and> last s = CHR ''.'' then butlast s else s)"

definition strip_brackets :: "string \<Rightarrow> string" where
  "strip_brackets s =
     (if 2 \<le> length s \<and> hd s = CHR ''['' \<and> last s = CHR '']'' \<and> CHR 0x0A \<notin> set s \<and> CHR 0x0D \<notin> set s
      then butlast (tl s) else s)"

definition strip_star :: "string \<Rightarrow> string" where
  "strip_star s = (if starts_with s ''*.'' then drop 2 s else s)"

definition normalizeHost :: "(string \<Rightarrow> string option) \<Rightarrow> string \<Rightarrow> string" where
  "normalizeHost url_host host =
     (let s = strip_brackets (strip_dot (strip_star (toLowerCase (trim host)))) in
      if s = [] then []
      else let isIPv6 = 2 \<le> count_list s (CHR '':'') in
        case url_host (''https://'' @ (if isIPv6 then ''['' @ s @ '']'' else s)) of
          None \<Rightarrow> s
        | Some h \<Rightarrow> strip_dot (strip_brackets h))"

definition host_label :: "string \<Rightarrow> bool" where
  "host_label l = (1 \<le> length l \<and> length l \<le> 63 \<and> is_alnum (hd l) \<and> is_alnum (last l) \<and>
     list_all (\<lambda>c. is_alnum c \<or> c = CHR ''-'') l)"

definition host_name :: "string \<Rightarrow> bool" where
  "host_name s = list_all host_label (split_char (CHR ''.'') s)"

definition not_host_char :: "char \<Rightarrow> bool" where
  "not_host_char c = (is_space c \<or> c \<in> {CHR ''*'', CHR ''/'', CHR ''?'', CHR ''#'', CHR ''@''})"

fun parse_hosts :: "(string \<Rightarrow> string option) \<Rightarrow> string \<Rightarrow> json list \<Rightarrow> string list \<Rightarrow> string + string list" where
  "parse_hosts url_host name [] hosts = Inr hosts"
| "parse_hosts url_host name (item # items) hosts =
     (case item of
        JStr text0 \<Rightarrow>
          let candidate = trim text0 in
          if candidate = [] then parse_hosts url_host name items hosts
          else if list_ex not_host_char candidate
          then Inl (candidate @ '' is not a host name; omit schemes, wildcards, ports, paths, and credentials'')
          else let colonCount = count_list candidate (CHR '':'') in
          if colonCount = 1 then Inl (candidate @ '' includes a port; enter a host name only'')
          else let normalized = normalizeHost url_host candidate in
          if normalized = [] \<or> (colonCount < 2 \<and> \<not> host_name normalized)
          then Inl (candidate @ '' is not a valid host name'')
          else if normalized \<in> set hosts then Inl (name @ '' contains duplicate host '' @ normalized)
          else parse_hosts url_host name items (hosts @ [normalized])
      | _ \<Rightarrow> Inl (name @ '' must contain only host names''))"

definition parse_list :: "(string \<Rightarrow> string option) \<Rightarrow> string \<Rightarrow> json option \<Rightarrow> string + string list" where
  "parse_list url_host name raw =
     (case raw of
        None \<Rightarrow> Inr []
      | Some JNull \<Rightarrow> Inr []
      | Some (JArr items) \<Rightarrow> parse_hosts url_host name items []
      | Some _ \<Rightarrow> Inl (name @ '' must be an array of host names''))"

definition parseEgressPolicy :: "(string \<Rightarrow> string option) \<Rightarrow> json option \<Rightarrow> string + EgressPolicy" where
  "parseEgressPolicy url_host input =
     (case input of
        Some (JObj fs) \<Rightarrow>
          (case parse_list url_host ''allowedHosts'' (map_of fs ''allowedHosts'') of
             Inl e \<Rightarrow> Inl e
           | Inr allowedHosts \<Rightarrow>
               (case parse_list url_host ''deniedHosts'' (map_of fs ''deniedHosts'') of
                  Inl e \<Rightarrow> Inl e
                | Inr deniedHosts \<Rightarrow>
                    (case find (\<lambda>h. h \<in> set deniedHosts) allowedHosts of
                       Some h \<Rightarrow> Inl (h @ '' cannot appear in both allowedHosts and deniedHosts'')
                     | None \<Rightarrow> Inr \<lparr>eg_allowedHosts = allowedHosts, eg_denyPrivateNetworks = False,
                                    eg_privateNetworkAllowedHosts = None, eg_deniedHosts = Some deniedHosts\<rparr>)))
      | _ \<Rightarrow> Inl ''egress requires { allowedHosts, deniedHosts }'')"

definition hostMatches :: "(string \<Rightarrow> string option) \<Rightarrow> string \<Rightarrow> string \<Rightarrow> bool" where
  "hostMatches url_host requestHost ruleHost =
     (let h = normalizeHost url_host requestHost; r = normalizeHost url_host ruleHost in
      if h = [] \<or> r = [] then False else h = r \<or> ends_with h (CHR ''.'' # r))"

definition isHostDenied :: "(string \<Rightarrow> string option) \<Rightarrow> string \<Rightarrow> string list option \<Rightarrow> bool" where
  "isHostDenied url_host host deniedHosts =
     (case deniedHosts of None \<Rightarrow> False | Some ds \<Rightarrow> list_ex (\<lambda>d. d \<noteq> [] \<and> hostMatches url_host host d) ds)"

datatype EgressVerdict = verdict_ok | verdict_denied | verdict_not_allowlisted

text \<open>The verdict; \<open>allow\<close> is whether it is \<^const>\<open>verdict_ok\<close>.\<close>

definition egressDecision :: "(string \<Rightarrow> string option) \<Rightarrow> string \<Rightarrow> EgressPolicy option \<Rightarrow> EgressVerdict" where
  "egressDecision url_host host policy =
     (case policy of
        None \<Rightarrow> verdict_ok
      | Some p \<Rightarrow>
          if isHostDenied url_host host (eg_deniedHosts p) then verdict_denied
          else if eg_allowedHosts p \<noteq> [] \<and> \<not> list_ex (hostMatches url_host host) (eg_allowedHosts p)
          then verdict_not_allowlisted
          else verdict_ok)"

section \<open>The floor of an audience\<close>

text \<open>The egress policies of the configuration store, one per scope.\<close>

type_synonym egress_config = "(ScopeId \<times> EgressPolicy) list"

definition getEgress :: "egress_config \<Rightarrow> ScopeId \<Rightarrow> EgressPolicy option" where
  "getEgress config s = map_of config s"

definition principalScopes :: "Principal \<Rightarrow> ScopeId \<Rightarrow> ScopeId option \<Rightarrow> ScopeId list" where
  "principalScopes p orgScope contextScope =
     dedupe (filter (\<lambda>s. s \<noteq> []) ([orgScope] @ (case contextScope of None \<Rightarrow> [] | Some c \<Rightarrow> [c]) @ [scopeId personal (p_id p)] @
       map (scopeId team) (nullish (teamIds p) [])))"

definition principalEgressHosts :: "Principal \<Rightarrow> egress_config \<Rightarrow> ScopeId \<Rightarrow> ScopeId option \<Rightarrow> string list" where
  "principalEgressHosts p config orgScope contextScope =
     dedupe (concat (map (\<lambda>s. case getEgress config s of None \<Rightarrow> [] | Some e \<Rightarrow> eg_allowedHosts e) (principalScopes p orgScope contextScope)))"

definition principalDeniedHosts :: "Principal \<Rightarrow> egress_config \<Rightarrow> ScopeId \<Rightarrow> ScopeId option \<Rightarrow> string list" where
  "principalDeniedHosts p config orgScope contextScope =
     dedupe (concat (map (\<lambda>s. case getEgress config s of None \<Rightarrow> [] | Some e \<Rightarrow> nullish (eg_deniedHosts e) [])
       (principalScopes p orgScope contextScope)))"

definition audienceEgressFloor :: "Principal list \<Rightarrow> egress_config \<Rightarrow> ScopeId \<Rightarrow> ScopeId option \<Rightarrow> string list" where
  "audienceEgressFloor audience config orgScope contextScope =
     (case audience of
        [] \<Rightarrow> []
      | p # ps \<Rightarrow> filter (\<lambda>h. list_all (\<lambda>q. h \<in> set (principalEgressHosts q config orgScope contextScope)) ps)
          (principalEgressHosts p config orgScope contextScope))"

definition audienceDeniedFloor :: "Principal list \<Rightarrow> egress_config \<Rightarrow> ScopeId \<Rightarrow> ScopeId option \<Rightarrow> string list" where
  "audienceDeniedFloor audience config orgScope contextScope =
     dedupe (concat (map (\<lambda>p. principalDeniedHosts p config orgScope contextScope) audience))"

text \<open>The policy of a turn (\<open>src/src/resolution/resolution-service.ts\<close>).\<close>

definition resolve_egress :: "Principal list \<Rightarrow> egress_config \<Rightarrow> ScopeId \<Rightarrow> ScopeId \<Rightarrow> EgressPolicy" where
  "resolve_egress audience config orgScope scope =
     \<lparr>eg_allowedHosts = audienceEgressFloor audience config orgScope (Some scope), eg_denyPrivateNetworks = False,
      eg_privateNetworkAllowedHosts = None, eg_deniedHosts = Some (audienceDeniedFloor audience config orgScope (Some scope))\<rparr>"

definition egressClaimAllowingControlPlane ::
  "(string \<Rightarrow> string option) \<Rightarrow> EgressPolicy \<Rightarrow> string \<Rightarrow> bool \<Rightarrow> EgressPolicy option" where
  "egressClaimAllowingControlPlane url_host egress apiBaseUrl denyPrivateNetworks =
     (let allowedHosts = eg_allowedHosts egress; deniedHosts = nullish (eg_deniedHosts egress) [] in
      if allowedHosts = [] \<and> deniedHosts = [] \<and> \<not> denyPrivateNetworks then None
      else let coreHost = (if apiBaseUrl = [] then [] else nullish (url_host apiBaseUrl) []);
               safeDenied = (if coreHost \<noteq> [] then filter (\<lambda>d. \<not> hostMatches url_host coreHost d) deniedHosts else deniedHosts);
               allowedWithCore = (if coreHost \<noteq> [] \<and> allowedHosts \<noteq> [] \<and> coreHost \<notin> set allowedHosts
                 then allowedHosts @ [coreHost] else allowedHosts)
           in if allowedWithCore \<noteq> [] \<or> safeDenied \<noteq> [] \<or> denyPrivateNetworks
              then Some \<lparr>eg_allowedHosts = allowedWithCore, eg_denyPrivateNetworks = denyPrivateNetworks,
                         eg_privateNetworkAllowedHosts = (if denyPrivateNetworks \<and> coreHost \<noteq> [] then Some [coreHost] else None),
                         eg_deniedHosts = (if safeDenied \<noteq> [] then Some safeDenied else None)\<rparr>
              else None)"

section \<open>Addresses\<close>

datatype ip = V4 "32 word" | V6 "128 word"

definition ip4 :: "nat \<Rightarrow> nat \<Rightarrow> nat \<Rightarrow> nat \<Rightarrow> 32 word" where
  "ip4 a b c d = of_nat (((a * 256 + b) * 256 + c) * 256 + d)"

text \<open>The first group of an IPv6 address, the second, the third, and the last.\<close>

definition ip6 :: "nat \<Rightarrow> nat \<Rightarrow> nat \<Rightarrow> nat \<Rightarrow> 128 word" where
  "ip6 a b c z = of_nat (a * 2 ^ 112 + b * 2 ^ 96 + c * 2 ^ 80 + z)"

text \<open>\<open>::ffff:a.b.c.d\<close>.\<close>

definition mapped :: "32 word \<Rightarrow> 128 word" where
  "mapped a = of_nat (0xFFFF * 2 ^ 32 + unat a)"

definition is_mapped :: "128 word \<Rightarrow> bool" where
  "is_mapped a = (unat a div 2 ^ 32 = 0xFFFF)"

definition same_prefix :: "nat \<Rightarrow> nat \<Rightarrow> 'a::len word \<Rightarrow> 'a word \<Rightarrow> bool" where
  "same_prefix width prefix a b = (unat a div 2 ^ (width - prefix) = unat b div 2 ^ (width - prefix))"

text \<open>A rule of a block list: a network and the length of its prefix.\<close>

fun in_network :: "ip \<Rightarrow> ip \<times> nat \<Rightarrow> bool" where
  "in_network (V4 a) (V4 n, prefix) = same_prefix 32 prefix a n"
| "in_network (V6 a) (V6 n, prefix) = same_prefix 128 prefix a n"
| "in_network (V6 a) (V4 n, prefix) = (is_mapped a \<and> same_prefix 32 prefix (of_nat (unat a mod 2 ^ 32)) n)"
| "in_network (V4 a) (V6 n, prefix) = same_prefix 128 prefix (mapped a) n"

definition PRIVATE_NETWORKS :: "(ip \<times> nat) list" where
  "PRIVATE_NETWORKS =
     [(V4 (ip4 0 0 0 0), 8), (V4 (ip4 10 0 0 0), 8), (V4 (ip4 100 64 0 0), 10), (V4 (ip4 127 0 0 0), 8), (V4 (ip4 169 254 0 0), 16),
      (V4 (ip4 172 16 0 0), 12), (V4 (ip4 192 0 0 0), 24), (V4 (ip4 192 0 2 0), 24), (V4 (ip4 192 168 0 0), 16),
      (V4 (ip4 198 18 0 0), 15), (V4 (ip4 198 51 100 0), 24), (V4 (ip4 203 0 113 0), 24), (V4 (ip4 224 0 0 0), 4), (V4 (ip4 240 0 0 0), 4),
      (V6 (ip6 0 0 0 0), 128), (V6 (ip6 0 0 0 1), 128), (V6 (ip6 0x64 0xff9b 1 0), 48), (V6 (ip6 0xfc00 0 0 0), 7),
      (V6 (ip6 0xfec0 0 0 0), 10), (V6 (ip6 0xfe80 0 0 0), 10), (V6 (ip6 0xff00 0 0 0), 8), (V6 (ip6 0x2001 0xdb8 0 0), 32)]"

definition BLOCKED :: "(ip \<times> nat) list" where
  "BLOCKED =
     [(V4 (ip4 169 254 0 0), 16), (V6 (ip6 0xfe80 0 0 0), 10), (V6 (ip6 0xfd00 0xec2 0 0x254), 128), (V4 (ip4 127 0 0 0), 8),
      (V4 (ip4 0 0 0 0), 8), (V6 (ip6 0 0 0 1), 128), (V6 (ip6 0 0 0 0), 128)]"

text \<open>\<open>.replace(/%.*$/, "")\<close>, for a text without line breaks.\<close>

definition strip_zone :: "string \<Rightarrow> string" where
  "strip_zone s = takeWhile (\<lambda>c. c \<noteq> CHR ''%'') s"

definition normalizedIp :: "(string \<Rightarrow> ip option) \<Rightarrow> string \<Rightarrow> ip option" where
  "normalizedIp parse_ip raw = parse_ip (strip_zone (strip_brackets (toLowerCase (trim raw))))"

definition isPrivateNetworkIp :: "(string \<Rightarrow> ip option) \<Rightarrow> string \<Rightarrow> bool" where
  "isPrivateNetworkIp parse_ip raw =
     (case normalizedIp parse_ip raw of None \<Rightarrow> False | Some a \<Rightarrow> list_ex (in_network a) PRIVATE_NETWORKS)"

definition isBlockedDestinationIp :: "(string \<Rightarrow> ip option) \<Rightarrow> string \<Rightarrow> bool" where
  "isBlockedDestinationIp parse_ip raw =
     (case normalizedIp parse_ip raw of None \<Rightarrow> False | Some a \<Rightarrow> list_ex (in_network a) BLOCKED)"

section \<open>The gate\<close>

definition OPEN :: EgressPolicy where
  "OPEN = \<lparr>eg_allowedHosts = [], eg_denyPrivateNetworks = False, eg_privateNetworkAllowedHosts = None, eg_deniedHosts = Some []\<rparr>"

definition DENY_ALL :: EgressPolicy where
  "DENY_ALL = \<lparr>eg_allowedHosts = [''deny.invalid''], eg_denyPrivateNetworks = False, eg_privateNetworkAllowedHosts = None,
     eg_deniedHosts = Some []\<rparr>"

definition METADATA_HOSTS :: "string list" where
  "METADATA_HOSTS = [''metadata.google.internal'', ''metadata.goog'']"

definition isAlwaysBlockedHost :: "(string \<Rightarrow> ip option) \<Rightarrow> string \<Rightarrow> bool" where
  "isAlwaysBlockedHost parse_ip host =
     (let h = strip_dot (strip_brackets (toLowerCase (trim host))) in
      if parse_ip h \<noteq> None then isBlockedDestinationIp parse_ip h
      else list_ex (\<lambda>m. h = m \<or> ends_with h (CHR ''.'' # m)) METADATA_HOSTS)"

definition is_digits :: "string \<Rightarrow> bool" where
  "is_digits s = (s \<noteq> [] \<and> list_all (\<lambda>c. CHR ''0'' \<le> c \<and> c \<le> CHR ''9'') s)"

definition bracketed_host :: "string \<Rightarrow> string option" where
  "bracketed_host a =
     (if a \<noteq> [] \<and> hd a = CHR ''['' then
        (case split_last (CHR '']'') (tl a) of
           None \<Rightarrow> None
         | Some (inner, rest) \<Rightarrow>
             if inner \<noteq> [] \<and> CHR 0x0A \<notin> set inner \<and> CHR 0x0D \<notin> set inner \<and>
                (rest = [] \<or> (hd rest = CHR '':'' \<and> is_digits (tl rest))) then Some inner else None)
      else None)"

definition hostFromAuthority :: "string \<Rightarrow> string option" where
  "hostFromAuthority authority =
     (let a = trim authority in
      if a = [] then None
      else case bracketed_host a of
        Some h \<Rightarrow> Some h
      | None \<Rightarrow> (case split_last (CHR '':'') a of
          Some (h, p) \<Rightarrow> if h \<noteq> [] \<and> is_digits p then Some h else Some a
        | None \<Rightarrow> Some a))"

definition decimal_value :: "string \<Rightarrow> nat" where
  "decimal_value s = foldl (\<lambda>n c. 10 * n + (of_char c - 48)) 0 s"

definition port_of :: "string \<Rightarrow> string option \<Rightarrow> nat" where
  "port_of authority scheme =
     (case split_last (CHR '':'') authority of
        Some (h, p) \<Rightarrow> if is_digits p then decimal_value p else if scheme = Some ''http'' then 80 else 443
      | None \<Rightarrow> if scheme = Some ''http'' then 80 else 443)"

definition decide ::
  "(string \<Rightarrow> string option) \<Rightarrow> (string \<Rightarrow> ip option) \<Rightarrow> (string \<Rightarrow> string list option) \<Rightarrow> string \<Rightarrow> EgressPolicy option
    \<Rightarrow> EgressVerdict \<times> string option" where
  "decide url_host parse_ip lookup host policy =
     (if isAlwaysBlockedHost parse_ip host then (verdict_denied, None)
      else let byName = egressDecision url_host host policy in
      if byName \<noteq> verdict_ok then (byName, None)
      else case lookup host of
        None \<Rightarrow> (verdict_denied, None)
      | Some ips \<Rightarrow>
          if ips = [] then (verdict_denied, None)
          else let privateAllowed = (case Option.bind policy eg_privateNetworkAllowedHosts of
                   None \<Rightarrow> False | Some rules \<Rightarrow> list_ex (hostMatches url_host host) rules) in
          if list_ex (\<lambda>i. isBlockedDestinationIp parse_ip i \<or> isHostDenied url_host i (Option.bind policy eg_deniedHosts) \<or>
               (policy \<noteq> None \<and> eg_denyPrivateNetworks (the policy) \<and> \<not> privateAllowed \<and> isPrivateNetworkIp parse_ip i)) ips
          then (verdict_denied, None)
          else (verdict_ok, Some (hd ips)))"

record egress_claims =
  ec_actorId :: string
  ec_scopeId :: ScopeId
  ec_egress :: "EgressPolicy option"

record EgressAuditRecord =
  ar_host :: string
  ar_verdict :: EgressVerdict
  ar_scopeLabel :: ScopeId
  ar_principalId :: string

text \<open>\<open>claims\<close> are those of the token of the request, \<^const>\<open>None\<close> when there is none or it does not verify. The
  answer is the upstream address of an allowed connection, and what was written to the audit log.\<close>

definition egress_policy_of :: "bool \<Rightarrow> bool \<Rightarrow> egress_claims option \<Rightarrow> EgressPolicy option" where
  "egress_policy_of has_token tokenless_open claims =
     (case claims of
        Some c \<Rightarrow> ec_egress c
      | None \<Rightarrow> if \<not> has_token \<and> tokenless_open then Some OPEN else Some DENY_ALL)"

definition checkStatus ::
  "(string \<Rightarrow> string option) \<Rightarrow> (string \<Rightarrow> ip option) \<Rightarrow> (string \<Rightarrow> string list option) \<Rightarrow> bool \<Rightarrow> bool \<Rightarrow> egress_claims option
    \<Rightarrow> string option \<Rightarrow> string \<Rightarrow> string option \<times> EgressAuditRecord option" where
  "checkStatus url_host parse_ip lookup tokenless_open has_token claims scheme authority =
     (case hostFromAuthority authority of
        None \<Rightarrow> (None, None)
      | Some host \<Rightarrow>
          if host = [] then (None, None)
          else let port = port_of authority scheme in
          if port < 1 \<or> 65535 < port then (None, None)
          else (case decide url_host parse_ip lookup host (egress_policy_of has_token tokenless_open claims) of (verdict, address) \<Rightarrow>
            (if verdict \<noteq> verdict_ok \<or> \<not> truthy address then None
             else Some ((case parse_ip (the address) of Some (V6 a) \<Rightarrow> ''['' @ the address @ '']'' | _ \<Rightarrow> the address) @ '':'' @ show_nat port),
             Some \<lparr>ar_host = host, ar_verdict = verdict, ar_scopeLabel = (case claims of None \<Rightarrow> ''unknown'' | Some c \<Rightarrow> ec_scopeId c),
                   ar_principalId = (case claims of None \<Rightarrow> ''unknown'' | Some c \<Rightarrow> ec_actorId c)\<rparr>)))"

end
