(* ===== verification/Egress_Properties.thy ===== *)
theory Egress_Properties
  imports Egress
begin

text \<open>
  What the egress policies guarantee: a parsed policy is well formed, the gate lets a connection through only to
  addresses that are not blocked and hosts the policy admits, and the floor of an audience keeps every denial and, as
  long as it is not empty, every restriction of its members.
\<close>

section \<open>Parsed policies\<close>








section \<open>Block lists\<close>

lemma unat_small: "n < 2 ^ LENGTH('a::len) \<Longrightarrow> unat (of_nat n :: 'a word) = n"
  by (simp add: unat_of_nat)

lemma unat_ip4:
  assumes "a < 256" "b < 256" "c < 256" "d < 256"
  shows "unat (ip4 a b c d) = ((a * 256 + b) * 256 + c) * 256 + d"
proof -
  have "((a * 256 + b) * 256 + c) * 256 + d < 2 ^ LENGTH(32)" using assms by simp
  then show ?thesis unfolding ip4_def by (rule unat_small)
qed

lemma unat_mapped: "unat (mapped a) = 0xFFFF * 2 ^ 32 + unat a"
proof -
  have "unat a < 2 ^ LENGTH(32)" by (rule unsigned_less)
  then have "0xFFFF * 2 ^ 32 + unat a < 2 ^ LENGTH(128)" by simp
  then show ?thesis unfolding mapped_def by (rule unat_small)
qed

lemma mapped_low: "(of_nat (unat (mapped a) mod 2 ^ 32) :: 32 word) = a" and mapped_is: "is_mapped (mapped a)"
proof -
  have "unat a < 2 ^ LENGTH(32)" by (rule unsigned_less)
  then have lt: "unat a < 2 ^ 32" by simp
  have "unat (mapped a) mod 2 ^ 32 = unat a" "unat (mapped a) div 2 ^ 32 = 0xFFFF"
    unfolding unat_mapped using lt by (simp_all only: mod_mult_self3 div_mult_self3 mod_less div_less add_0_right power_not_zero
      zero_neq_numeral[symmetric] not_False_eq_True)
  then show "(of_nat (unat (mapped a) mod 2 ^ 32) :: 32 word) = a" "is_mapped (mapped a)"
    unfolding is_mapped_def by (simp_all only: of_nat_unat ucast_id)
qed

text \<open>Block lists do not tell an IPv4 address from its IPv6 form.\<close>

lemma in_network_mapped: "in_network (V6 (mapped a)) r = in_network (V4 a) r"
proof -
  obtain n prefix where r: "r = (n, prefix)" by fastforce
  show ?thesis by (cases n) (simp_all only: r in_network.simps mapped_low mapped_is simp_thms)
qed

text \<open>The networks, as ranges of numbers. \<open>dotted\<close> is the number of an IPv4 address, \<open>groups\<close> that of an IPv6 address by its
  first three groups and its last.\<close>

definition dotted :: "nat \<Rightarrow> nat \<Rightarrow> nat \<Rightarrow> nat \<Rightarrow> nat" where
  "dotted a b c d = ((a * 256 + b) * 256 + c) * 256 + d"

definition groups :: "nat \<Rightarrow> nat \<Rightarrow> nat \<Rightarrow> nat \<Rightarrow> nat" where
  "groups a b c z = a * 2 ^ 112 + b * 2 ^ 96 + c * 2 ^ 80 + z"

definition blocked4 :: "nat \<Rightarrow> bool" where
  "blocked4 n \<longleftrightarrow> n \<in> {dotted 0 0 0 0..dotted 0 255 255 255} \<or> n \<in> {dotted 127 0 0 0..dotted 127 255 255 255} \<or>
     n \<in> {dotted 169 254 0 0..dotted 169 254 255 255}"

definition private4 :: "nat \<Rightarrow> bool" where
  "private4 n \<longleftrightarrow> n \<in> {dotted 0 0 0 0..dotted 0 255 255 255} \<or> n \<in> {dotted 10 0 0 0..dotted 10 255 255 255} \<or>
     n \<in> {dotted 100 64 0 0..dotted 100 127 255 255} \<or> n \<in> {dotted 127 0 0 0..dotted 127 255 255 255} \<or>
     n \<in> {dotted 169 254 0 0..dotted 169 254 255 255} \<or> n \<in> {dotted 172 16 0 0..dotted 172 31 255 255} \<or>
     n \<in> {dotted 192 0 0 0..dotted 192 0 0 255} \<or> n \<in> {dotted 192 0 2 0..dotted 192 0 2 255} \<or>
     n \<in> {dotted 192 168 0 0..dotted 192 168 255 255} \<or> n \<in> {dotted 198 18 0 0..dotted 198 19 255 255} \<or>
     n \<in> {dotted 198 51 100 0..dotted 198 51 100 255} \<or> n \<in> {dotted 203 0 113 0..dotted 203 0 113 255} \<or>
     n \<in> {dotted 224 0 0 0..dotted 255 255 255 255}"

definition blocked6 :: "nat \<Rightarrow> bool" where
  "blocked6 n \<longleftrightarrow> n = groups 0 0 0 0 \<or> n = groups 0 0 0 1 \<or> n \<in> {groups 0xfe80 0 0 0..<groups 0xfec0 0 0 0} \<or>
     n = groups 0xfd00 0xec2 0 0x254 \<or> (\<exists>m < 2 ^ 32. blocked4 m \<and> n = 0xFFFF * 2 ^ 32 + m)"

definition private6 :: "nat \<Rightarrow> bool" where
  "private6 n \<longleftrightarrow> n = groups 0 0 0 0 \<or> n = groups 0 0 0 1 \<or> n \<in> {groups 0x64 0xff9b 1 0..<groups 0x64 0xff9b 2 0} \<or>
     n \<in> {groups 0xfc00 0 0 0..<groups 0xfe00 0 0 0} \<or> n \<in> {groups 0xfe80 0 0 0..<groups 0xff00 0 0 0} \<or>
     n \<in> {groups 0xff00 0 0 0..<2 ^ 128} \<or> n \<in> {groups 0x2001 0xdb8 0 0..<groups 0x2001 0xdb9 0 0} \<or>
     (\<exists>m < 2 ^ 32. private4 m \<and> n = 0xFFFF * 2 ^ 32 + m)"

fun blocked_ip :: "ip \<Rightarrow> bool" where
  "blocked_ip (V4 a) = blocked4 (unat a)"
| "blocked_ip (V6 a) = blocked6 (unat a)"

fun private_ip :: "ip \<Rightarrow> bool" where
  "private_ip (V4 a) = private4 (unat a)"
| "private_ip (V6 a) = private6 (unat a)"

lemma same_prefix_range:
  assumes "unat n = k * 2 ^ s" "width - prefix = s" "k * 2 ^ s \<le> unat a" "unat a < (k + 1) * 2 ^ s"
  shows "same_prefix width prefix a n"
proof -
  have "unat a div 2 ^ s = k" using assms(3,4) by (intro div_nat_eqI) (simp_all add: algebra_simps)
  then show ?thesis using assms(1,2) by (simp add: same_prefix_def)
qed

lemma unat_ip6:
  assumes "a < 2 ^ 16" "b < 2 ^ 16" "c < 2 ^ 16" "z < 2 ^ 80"
  shows "unat (ip6 a b c z) = groups a b c z"
proof -
  have "groups a b c z < 2 ^ LENGTH(128)" using assms by (simp add: groups_def)
  then show ?thesis unfolding ip6_def groups_def by (rule unat_small)
qed

lemma net4:
  assumes "dotted a b c d \<le> unat x" "unat x < dotted a b c d + 2 ^ (32 - p)" "a < 256" "b < 256" "c < 256" "d < 256"
    and "2 ^ (32 - p) dvd dotted a b c d"
  shows "in_network (V4 x) (V4 (ip4 a b c d), p)"
proof -
  obtain k where k: "dotted a b c d = k * 2 ^ (32 - p)" using assms(7) by (metis dvdE mult.commute)
  have "unat (ip4 a b c d) = k * 2 ^ (32 - p)" using unat_ip4[OF assms(3-6)] k by (simp add: dotted_def)
  then have "same_prefix 32 p x (ip4 a b c d)"
    by (rule same_prefix_range) (use assms(1,2) k in \<open>simp_all add: algebra_simps\<close>)
  then show ?thesis by simp
qed

lemma net6:
  assumes "groups a b c z \<le> unat x" "unat x < groups a b c z + 2 ^ (128 - p)" "a < 2 ^ 16" "b < 2 ^ 16" "c < 2 ^ 16" "z < 2 ^ 80"
    and "2 ^ (128 - p) dvd groups a b c z"
  shows "in_network (V6 x) (V6 (ip6 a b c z), p)"
proof -
  obtain k where k: "groups a b c z = k * 2 ^ (128 - p)" using assms(7) by (metis dvdE mult.commute)
  have "unat (ip6 a b c z) = k * 2 ^ (128 - p)" using unat_ip6[OF assms(3-6)] k by simp
  then have "same_prefix 128 p x (ip6 a b c z)"
    by (rule same_prefix_range) (use assms(1,2) k in \<open>simp_all add: algebra_simps\<close>)
  then show ?thesis by simp
qed

lemma listed4:
  assumes "(V4 (ip4 a b c d), p) \<in> set nets" "unat x \<in> {dotted a b c d..hi}" "hi < dotted a b c d + 2 ^ (32 - p)"
    and "a < 256" "b < 256" "c < 256" "d < 256" "2 ^ (32 - p) dvd dotted a b c d"
  shows "list_ex (in_network (V4 x)) nets"
  using net4[of a b c d x p] assms by (auto simp: list_ex_iff simp del: in_network.simps)

lemma listed6:
  assumes "(V6 (ip6 a b c z), p) \<in> set nets" "unat x \<in> {groups a b c z..<hi}" "hi \<le> groups a b c z + 2 ^ (128 - p)"
    and "a < 2 ^ 16" "b < 2 ^ 16" "c < 2 ^ 16" "z < 2 ^ 80" "2 ^ (128 - p) dvd groups a b c z"
  shows "list_ex (in_network (V6 x)) nets"
  using net6[of a b c z x p] assms by (auto simp: list_ex_iff simp del: in_network.simps)

lemma listed6_one:
  assumes "(V6 (ip6 a b c z), 128) \<in> set nets" "unat x = groups a b c z" "a < 2 ^ 16" "b < 2 ^ 16" "c < 2 ^ 16" "z < 2 ^ 80"
  shows "list_ex (in_network (V6 x)) nets"
  by (rule listed6[OF assms(1), of x "groups a b c z + 1"]) (use assms in simp_all)

lemma listed_mapped:
  assumes "m < 2 ^ 32" "unat x = 0xFFFF * 2 ^ 32 + m" "\<And>y. unat y = m \<Longrightarrow> list_ex (in_network (V4 y)) nets"
  shows "list_ex (in_network (V6 x)) nets"
proof -
  have m: "unat (of_nat m :: 32 word) = m" using assms(1) by (intro unat_small) simp
  then have "x = mapped (of_nat m)" using assms(2) unat_mapped[of "of_nat m"] by (metis word_unat_eq_iff)
  then show ?thesis using assms(3)[OF m] by (simp add: in_network_mapped cong: list_ex_cong)
qed

lemma blocked4_listed:
  assumes "blocked4 (unat x)"
  shows "list_ex (in_network (V4 x)) BLOCKED"
  using assms unfolding blocked4_def
proof (elim disjE)
  assume "unat x \<in> {dotted 0 0 0 0..dotted 0 255 255 255}"
  then show ?thesis by (rule listed4[of _ _ _ _ 8, rotated]) (simp_all add: BLOCKED_def dotted_def)
next
  assume "unat x \<in> {dotted 127 0 0 0..dotted 127 255 255 255}"
  then show ?thesis by (rule listed4[of _ _ _ _ 8, rotated]) (simp_all add: BLOCKED_def dotted_def)
next
  assume "unat x \<in> {dotted 169 254 0 0..dotted 169 254 255 255}"
  then show ?thesis by (rule listed4[of _ _ _ _ 16, rotated]) (simp_all add: BLOCKED_def dotted_def)
qed

lemma blocked6_listed:
  assumes "blocked6 (unat x)"
  shows "list_ex (in_network (V6 x)) BLOCKED"
  using assms unfolding blocked6_def
proof (elim disjE exE conjE)
  assume "unat x = groups 0 0 0 0"
  then show ?thesis by (rule listed6_one[rotated]) (simp_all add: BLOCKED_def)
next
  assume "unat x = groups 0 0 0 1"
  then show ?thesis by (rule listed6_one[rotated]) (simp_all add: BLOCKED_def)
next
  assume "unat x = groups 0xfd00 0xec2 0 0x254"
  then show ?thesis by (rule listed6_one[rotated]) (simp_all add: BLOCKED_def)
next
  assume "unat x \<in> {groups 0xfe80 0 0 0..<groups 0xfec0 0 0 0}"
  then show ?thesis by (rule listed6[of _ _ _ _ 10, rotated]) (simp_all add: BLOCKED_def groups_def)
next
  fix m
  assume "m < 2 ^ 32" "blocked4 m" "unat x = 0xFFFF * 2 ^ 32 + m"
  then show ?thesis using blocked4_listed by (intro listed_mapped[of m]) auto
qed

lemma private4_listed:
  assumes "private4 (unat x)"
  shows "list_ex (in_network (V4 x)) PRIVATE_NETWORKS"
proof -
  have P: "list_ex (in_network (V4 x)) PRIVATE_NETWORKS"
    if "(V4 (ip4 a b c d), p) \<in> set PRIVATE_NETWORKS" "unat x \<in> {dotted a b c d..hi}" "hi < dotted a b c d + 2 ^ (32 - p)"
      "a < 256 \<and> b < 256 \<and> c < 256 \<and> d < 256" "2 ^ (32 - p) dvd dotted a b c d" for a b c d p hi
    using listed4[OF that(1-3)] that(4,5) by blast
  have top: "{dotted 224 0 0 0..dotted 255 255 255 255} = {dotted 224 0 0 0..dotted 239 255 255 255} \<union> {dotted 240 0 0 0..dotted 255 255 255 255}"
    by (auto simp: dotted_def)
  note ps = P[of 0 0 0 0 8] P[of 10 0 0 0 8] P[of 100 64 0 0 10] P[of 127 0 0 0 8] P[of 169 254 0 0 16] P[of 172 16 0 0 12]
    P[of 192 0 0 0 24] P[of 192 0 2 0 24] P[of 192 168 0 0 16] P[of 198 18 0 0 15] P[of 198 51 100 0 24] P[of 203 0 113 0 24]
    P[of 224 0 0 0 4] P[of 240 0 0 0 4]
  from assms show ?thesis unfolding private4_def top Un_iff
    by (elim disjE) (erule ps[rotated]; simp add: PRIVATE_NETWORKS_def dotted_def)+
qed

lemma private6_listed:
  assumes "private6 (unat x)"
  shows "list_ex (in_network (V6 x)) PRIVATE_NETWORKS"
proof -
  have fe: "{groups 0xfe80 0 0 0..<groups 0xff00 0 0 0} = {groups 0xfe80 0 0 0..<groups 0xfec0 0 0 0} \<union> {groups 0xfec0 0 0 0..<groups 0xff00 0 0 0}"
    by (auto simp: groups_def)
  from assms show ?thesis unfolding private6_def fe Un_iff
  proof (elim disjE exE conjE)
    assume "unat x = groups 0 0 0 0"
    then show ?thesis by (rule listed6_one[rotated]) (simp_all add: PRIVATE_NETWORKS_def)
  next
    assume "unat x = groups 0 0 0 1"
    then show ?thesis by (rule listed6_one[rotated]) (simp_all add: PRIVATE_NETWORKS_def)
  next
    assume "unat x \<in> {groups 0x64 0xff9b 1 0..<groups 0x64 0xff9b 2 0}"
    then show ?thesis by (rule listed6[of _ _ _ _ 48, rotated]) (simp_all add: PRIVATE_NETWORKS_def groups_def)
  next
    assume "unat x \<in> {groups 0xfc00 0 0 0..<groups 0xfe00 0 0 0}"
    then show ?thesis by (rule listed6[of _ _ _ _ 7, rotated]) (simp_all add: PRIVATE_NETWORKS_def groups_def)
  next
    assume "unat x \<in> {groups 0xfe80 0 0 0..<groups 0xfec0 0 0 0}"
    then show ?thesis by (rule listed6[of _ _ _ _ 10, rotated]) (simp_all add: PRIVATE_NETWORKS_def groups_def)
  next
    assume "unat x \<in> {groups 0xfec0 0 0 0..<groups 0xff00 0 0 0}"
    then show ?thesis by (rule listed6[of _ _ _ _ 10, rotated]) (simp_all add: PRIVATE_NETWORKS_def groups_def)
  next
    assume "unat x \<in> {groups 0xff00 0 0 0..<2 ^ 128}"
    then show ?thesis by (rule listed6[of _ _ _ _ 8, rotated]) (simp_all add: PRIVATE_NETWORKS_def groups_def)
  next
    assume "unat x \<in> {groups 0x2001 0xdb8 0 0..<groups 0x2001 0xdb9 0 0}"
    then show ?thesis by (rule listed6[of _ _ _ _ 32, rotated]) (simp_all add: PRIVATE_NETWORKS_def groups_def)
  next
    fix m
    assume "m < 2 ^ 32" "private4 m" "unat x = 0xFFFF * 2 ^ 32 + m"
    then show ?thesis using private4_listed by (intro listed_mapped[of m]) auto
  qed
qed

lemma blocked_ip_listed: "blocked_ip a \<Longrightarrow> list_ex (in_network a) BLOCKED"
  by (cases a) (simp_all add: blocked4_listed blocked6_listed del: in_network.simps)

lemma private_ip_listed: "private_ip a \<Longrightarrow> list_ex (in_network a) PRIVATE_NETWORKS"
  by (cases a) (simp_all add: private4_listed private6_listed del: in_network.simps)

section \<open>The gate\<close>

lemma decide_ok:
  assumes "decide url_host parse_ip lookup host policy = (verdict_ok, address)"
  shows "\<not> isAlwaysBlockedHost parse_ip host" and "egressDecision url_host host policy = verdict_ok"
    and "\<exists>ips. lookup host = Some ips \<and> ips \<noteq> [] \<and> address = Some (hd ips) \<and>
      (\<forall>i \<in> set ips. \<not> isBlockedDestinationIp parse_ip i \<and> \<not> isHostDenied url_host i (Option.bind policy eg_deniedHosts) \<and>
         (\<forall>p. policy = Some p \<and> eg_denyPrivateNetworks p \<and> (\<forall>rule \<in> set (nullish (eg_privateNetworkAllowedHosts p) []). \<not> hostMatches url_host host rule) \<longrightarrow>
            \<not> isPrivateNetworkIp parse_ip i))"
  using assms by (auto simp: decide_def Let_def list_ex_iff split: if_split_asm option.split_asm)

lemma checkStatus_allowed:
  assumes "checkStatus url_host parse_ip lookup tokenless_open has_token claims scheme authority = (Some upstream, r)"
  obtains host address where "hostFromAuthority authority = Some host"
    "decide url_host parse_ip lookup host (egress_policy_of has_token tokenless_open claims) = (verdict_ok, Some address)"
  using assms by (auto simp: checkStatus_def Let_def split: option.split_asm if_split_asm prod.split_asm elim: truthy_SomeE)

lemma egressDecision_ok:
  "egressDecision url_host host (Some p) = verdict_ok \<longleftrightarrow>
     \<not> isHostDenied url_host host (eg_deniedHosts p) \<and> (eg_allowedHosts p = [] \<or> list_ex (hostMatches url_host host) (eg_allowedHosts p))"
  by (auto simp: egressDecision_def)

lemma not_denied: "\<not> isHostDenied url_host h ds \<Longrightarrow> d \<in> set (nullish ds []) \<Longrightarrow> d \<noteq> [] \<Longrightarrow> \<not> hostMatches url_host h d"
  by (cases ds) (auto simp: isHostDenied_def list_ex_iff)

lemma not_blocked: "\<not> isBlockedDestinationIp parse_ip i \<Longrightarrow> normalizedIp parse_ip i = Some a \<Longrightarrow> \<not> blocked_ip a"
  using blocked_ip_listed[of a] by (auto simp: isBlockedDestinationIp_def)

lemma not_private: "\<not> isPrivateNetworkIp parse_ip i \<Longrightarrow> normalizedIp parse_ip i = Some a \<Longrightarrow> \<not> private_ip a"
  using private_ip_listed[of a] by (auto simp: isPrivateNetworkIp_def)

text \<open>C23: The gate is closed where it must be. If a connection is let through then, of the host that was asked for and the
  addresses it resolves to, all of them and not only the one that is used:
  the host is neither a name of a metadata service nor a subdomain of one; with a token that does not verify it is
  \<open>deny.invalid\<close>; by the policy of the token no denied host covers the host or an address, and if the policy lists allowed hosts one of
  them covers the host; no address, nor the host where it is an address itself, is loopback (127/8, \<open>::1\<close>), unspecified (0/8, \<open>::\<close>), link-local
  (169.254/16, \<open>fe80::/10\<close>) or the metadata address \<open>fd00:ec2::254\<close>, neither as such nor as an IPv4 address in IPv6 form; and where
  the policy denies private networks, with no exception for this host, no address is in any of the private, shared, reserved,
  documentation, benchmarking or multicast networks.\<close>

theorem egress_gate:
  assumes "checkStatus url_host parse_ip lookup tokenless_open has_token claims scheme authority = (Some upstream, r)"
    and "policy = egress_policy_of has_token tokenless_open claims"
  shows "\<exists>host ips name. hostFromAuthority authority = Some host \<and> lookup host = Some ips \<and> ips \<noteq> [] \<and>
    name = strip_dot (strip_brackets (toLowerCase (trim host))) \<and>
    (parse_ip name = None \<longrightarrow> (\<forall>m \<in> {''metadata.google.internal'', ''metadata.goog''}. name \<noteq> m \<and> \<not> ends_with name (CHR ''.'' # m))) \<and>
    (claims = None \<and> has_token \<longrightarrow> hostMatches url_host host ''deny.invalid'') \<and>
    (\<forall>p. policy = Some p \<longrightarrow>
       (\<forall>d \<in> set (nullish (eg_deniedHosts p) []). d \<noteq> [] \<longrightarrow> (\<forall>h \<in> set (host # ips). \<not> hostMatches url_host h d)) \<and>
       (eg_allowedHosts p \<noteq> [] \<longrightarrow> (\<exists>rule \<in> set (eg_allowedHosts p). hostMatches url_host host rule)) \<and>
       (eg_denyPrivateNetworks p \<and> (\<forall>rule \<in> set (nullish (eg_privateNetworkAllowedHosts p) []). \<not> hostMatches url_host host rule) \<longrightarrow>
          (\<forall>i \<in> set ips. \<forall>a. normalizedIp parse_ip i = Some a \<longrightarrow> \<not> private_ip a))) \<and>
    (parse_ip name \<noteq> None \<longrightarrow> (\<forall>a. normalizedIp parse_ip name = Some a \<longrightarrow> \<not> blocked_ip a)) \<and>
    (\<forall>i \<in> set ips. \<forall>a. normalizedIp parse_ip i = Some a \<longrightarrow> \<not> blocked_ip a)"
proof -
  from assms obtain host address where h: "hostFromAuthority authority = Some host" and
    d: "decide url_host parse_ip lookup host policy = (verdict_ok, Some address)"
    using checkStatus_allowed by metis
  define name where "name = strip_dot (strip_brackets (toLowerCase (trim host)))"
  from decide_ok(3)[OF d] obtain ips where ips: "lookup host = Some ips" "ips \<noteq> []" and
    each: "\<And>i. i \<in> set ips \<Longrightarrow> \<not> isBlockedDestinationIp parse_ip i" "\<And>i. i \<in> set ips \<Longrightarrow> \<not> isHostDenied url_host i (Option.bind policy eg_deniedHosts)"
    and priv: "\<And>i p. i \<in> set ips \<Longrightarrow> policy = Some p \<Longrightarrow> eg_denyPrivateNetworks p \<Longrightarrow>
      \<forall>rule \<in> set (nullish (eg_privateNetworkAllowedHosts p) []). \<not> hostMatches url_host host rule \<Longrightarrow> \<not> isPrivateNetworkIp parse_ip i" by blast
  have host: "parse_ip name \<noteq> None \<longrightarrow> \<not> isBlockedDestinationIp parse_ip name"
    "parse_ip name = None \<longrightarrow> (\<forall>m \<in> set METADATA_HOSTS. name \<noteq> m \<and> \<not> ends_with name (CHR ''.'' # m))"
    using decide_ok(1)[OF d] by (auto simp: isAlwaysBlockedHost_def name_def[symmetric] Let_def list_ex_iff split: if_splits)
  have pol: "(\<forall>d \<in> set (nullish (eg_deniedHosts p) []). d \<noteq> [] \<longrightarrow> (\<forall>h \<in> set (host # ips). \<not> hostMatches url_host h d)) \<and>
       (eg_allowedHosts p \<noteq> [] \<longrightarrow> (\<exists>rule \<in> set (eg_allowedHosts p). hostMatches url_host host rule))" if "policy = Some p" for p
    using decide_ok(2)[OF d] each(2) that by (auto simp: egressDecision_ok list_ex_iff dest: not_denied)
  have deny: "hostMatches url_host host ''deny.invalid''" if "claims = None \<and> has_token"
    using decide_ok(2)[OF d] that assms(2) by (simp add: egress_policy_of_def DENY_ALL_def egressDecision_ok)
  have npriv: "\<not> private_ip a" if "policy = Some p" "eg_denyPrivateNetworks p"
      "\<forall>rule \<in> set (nullish (eg_privateNetworkAllowedHosts p) []). \<not> hostMatches url_host host rule" "i \<in> set ips" "normalizedIp parse_ip i = Some a" for p i a
    using not_private[OF priv[OF that(4,1-3)] that(5)] .
  have ips_ok: "\<forall>i \<in> set ips. \<forall>a. normalizedIp parse_ip i = Some a \<longrightarrow> \<not> blocked_ip a" using each(1) not_blocked by blast
  have name_ok: "parse_ip name \<noteq> None \<longrightarrow> (\<forall>a. normalizedIp parse_ip name = Some a \<longrightarrow> \<not> blocked_ip a)" using host(1) not_blocked by blast
  show ?thesis
    by (rule exI[of _ host], rule exI[of _ ips], rule exI[of _ name], intro conjI)
      (use h ips name_def host(2) ips_ok name_ok pol deny npriv in \<open>simp_all add: METADATA_HOSTS_def\<close>)
qed

section \<open>Audiences\<close>

lemma floor_iff:
  assumes "audience \<noteq> []"
  shows "h \<in> set (audienceEgressFloor audience config orgScope contextScope) \<longleftrightarrow>
    (\<forall>p \<in> set audience. h \<in> set (principalEgressHosts p config orgScope contextScope))"
  using assms by (cases audience) (auto simp: audienceEgressFloor_def list_all_iff)

lemma denied_floor: "set (audienceDeniedFloor audience config orgScope contextScope) =
    (\<Union>p \<in> set audience. set (principalDeniedHosts p config orgScope contextScope))"
  by (simp add: audienceDeniedFloor_def)

lemma isHostDenied_mono: "set ds \<subseteq> set es \<Longrightarrow> isHostDenied url_host host (Some ds) \<Longrightarrow> isHostDenied url_host host (Some es)"
  by (auto simp: isHostDenied_def list_ex_iff)

text \<open>The floor of an audience is its strictest member. A host that a turn may talk to is denied to nobody in the
  audience, and, if the floor lists any host at all, is one each of them is allowed; so nobody who joins an audience
  lifts a denial, or a restriction that leaves a host.\<close>

theorem audience_floor:
  assumes "egressDecision url_host host (Some (resolve_egress audience config orgScope scope)) = verdict_ok" and "p \<in> set audience"
  shows "\<not> isHostDenied url_host host (Some (principalDeniedHosts p config orgScope (Some scope))) \<and>
    (audienceEgressFloor audience config orgScope (Some scope) \<noteq> [] \<longrightarrow>
       (\<exists>rule \<in> set (principalEgressHosts p config orgScope (Some scope)). hostMatches url_host host rule)) \<and>
    (set audience' \<subseteq> set audience \<and> audience' \<noteq> [] \<and> audienceEgressFloor audience config orgScope (Some scope) \<noteq> [] \<longrightarrow>
       egressDecision url_host host (Some (resolve_egress audience' config orgScope scope)) = verdict_ok)"
proof -
  let ?floor = "\<lambda>a. audienceEgressFloor a config orgScope (Some scope)"
  let ?denied = "\<lambda>a. audienceDeniedFloor a config orgScope (Some scope)"
  have ok: "\<not> isHostDenied url_host host (Some (?denied audience))"
    "?floor audience = [] \<or> list_ex (hostMatches url_host host) (?floor audience)"
    using assms(1) by (simp_all add: egressDecision_ok resolve_egress_def)
  have ne: "audience \<noteq> []" using assms(2) by auto
  have "\<not> isHostDenied url_host host (Some (principalDeniedHosts p config orgScope (Some scope)))"
    using ok(1) isHostDenied_mono[of "principalDeniedHosts p config orgScope (Some scope)" "?denied audience"] assms(2)
    by (auto simp: denied_floor)
  moreover have "\<exists>rule \<in> set (principalEgressHosts p config orgScope (Some scope)). hostMatches url_host host rule"
    if "?floor audience \<noteq> []"
    using ok(2) that assms(2) floor_iff[OF ne] by (auto simp: list_ex_iff)
  moreover have "egressDecision url_host host (Some (resolve_egress audience' config orgScope scope)) = verdict_ok"
    if sub: "set audience' \<subseteq> set audience" "audience' \<noteq> []" and nonempty: "?floor audience \<noteq> []"
  proof -
    have "\<not> isHostDenied url_host host (Some (?denied audience'))"
      using ok(1) isHostDenied_mono[of "?denied audience'" "?denied audience"] sub(1) by (auto simp: denied_floor)
    moreover have "set (?floor audience) \<subseteq> set (?floor audience')" using sub floor_iff[OF ne] floor_iff[OF sub(2)] by blast
    then have "list_ex (hostMatches url_host host) (?floor audience')" using ok(2) nonempty by (auto simp: list_ex_iff)
    ultimately show ?thesis by (simp add: egressDecision_ok resolve_egress_def)
  qed
  ultimately show ?thesis by blast
qed

lemma claim_fields:
  assumes "egressClaimAllowingControlPlane url_host e api deny = Some c" and "eg_allowedHosts e = []"
  shows "eg_allowedHosts c = []" and "set (nullish (eg_deniedHosts c) []) \<subseteq> set (nullish (eg_deniedHosts e) [])"
proof -
  define core where "core = (if api = [] then [] else nullish (url_host api) [])"
  define safe where "safe = (if core \<noteq> [] then filter (\<lambda>d. \<not> hostMatches url_host core d) (nullish (eg_deniedHosts e) [])
    else nullish (eg_deniedHosts e) [])"
  have "eg_allowedHosts c = [] \<and> eg_deniedHosts c = (if safe \<noteq> [] then Some safe else None)"
    using assms unfolding egressClaimAllowingControlPlane_def Let_def core_def[symmetric] safe_def[symmetric]
    by (auto split: if_split_asm)
  moreover have "set safe \<subseteq> set (nullish (eg_deniedHosts e) [])" by (auto simp: safe_def)
  ultimately show "eg_allowedHosts c = []" "set (nullish (eg_deniedHosts c) []) \<subseteq> set (nullish (eg_deniedHosts e) [])" by simp_all
qed

lemma isHostDenied_nullish: "isHostDenied url_host host ds \<longleftrightarrow> isHostDenied url_host host (Some (nullish ds []))"
  by (cases ds) (simp_all add: isHostDenied_def)

lemma claim_open:
  assumes "eg_allowedHosts e = []" and "\<not> isHostDenied url_host host (Some (nullish (eg_deniedHosts e) []))"
  shows "egressDecision url_host host (egressClaimAllowingControlPlane url_host e api deny) = verdict_ok"
proof (cases "egressClaimAllowingControlPlane url_host e api deny")
  case (Some c)
  note c = claim_fields[OF Some assms(1)]
  have "\<not> isHostDenied url_host host (eg_deniedHosts c)"
    using isHostDenied_mono[OF c(2)] assms(2) isHostDenied_nullish by blast
  then show ?thesis unfolding Some by (simp add: egressDecision_ok c(1))
qed (simp add: egressDecision_def)

text \<open>An empty floor is no floor. If two members of an audience share no allowed host, each may have an allow list
  of its own, yet the turn, and the claim in the token of its sandbox, allow every host that nobody is denied.\<close>

theorem empty_floor_allows_all:
  assumes "p \<in> set audience" and "q \<in> set audience"
    and "set (principalEgressHosts p config orgScope (Some scope)) \<inter> set (principalEgressHosts q config orgScope (Some scope)) = {}"
    and "\<not> isHostDenied url_host host (Some (audienceDeniedFloor audience config orgScope (Some scope)))"
  shows "egressDecision url_host host (Some (resolve_egress audience config orgScope scope)) = verdict_ok \<and>
    egressDecision url_host host (egressClaimAllowingControlPlane url_host (resolve_egress audience config orgScope scope) api deny) = verdict_ok"
proof -
  have ne: "audience \<noteq> []" using assms(1) by auto
  have "h \<notin> set (audienceEgressFloor audience config orgScope (Some scope))" for h
    unfolding floor_iff[OF ne] using assms(1-3) by blast
  then have floor: "audienceEgressFloor audience config orgScope (Some scope) = []" by (metis list.set_intros(1) neq_Nil_conv)
  have claim: "egressDecision url_host host (egressClaimAllowingControlPlane url_host (resolve_egress audience config orgScope scope) api deny) = verdict_ok"
    using floor assms(4) by (intro claim_open) (simp_all add: resolve_egress_def)
  have "egressDecision url_host host (Some (resolve_egress audience config orgScope scope)) = verdict_ok"
    unfolding egressDecision_ok using floor assms(4) by (simp add: resolve_egress_def)
  with claim show ?thesis by (rule conjI[rotated])
qed

subsection \<open>Instances\<close>

text \<open>A URL constructor that returns what follows the scheme, and a parser of no address.\<close>

definition demo_url :: "string \<Rightarrow> string option" where
  "demo_url u = (if starts_with u ''https://'' then Some (drop 8 u) else None)"

definition demo_person :: "string \<Rightarrow> Principal" where
  "demo_person i = \<lparr>p_id = i, p_type = internal, teamIds = None, displayName = None\<rparr>"

definition demo_policy :: "string list \<Rightarrow> EgressPolicy" where
  "demo_policy hosts = \<lparr>eg_allowedHosts = hosts, eg_denyPrivateNetworks = False, eg_privateNetworkAllowedHosts = None, eg_deniedHosts = None\<rparr>"

definition demo_egress :: egress_config where
  "demo_egress = [(''personal:ann'', demo_policy [''a.test'']), (''personal:bob'', demo_policy [''b.test''])]"


definition demo_ip :: "string \<Rightarrow> ip option" where
  "demo_ip s = (if s = ''8.8.8.8'' then Some (V4 (ip4 8 8 8 8)) else None)"

text \<open>A name that resolves to a public address is let through under a token without a policy, so that address is
  not one of those never reached.\<close>

theorem egress_gate_witness:
  "hostFromAuthority ''a.test'' = Some ''a.test'' \<and> normalizedIp demo_ip ''8.8.8.8'' = Some (V4 (ip4 8 8 8 8)) \<and>
     \<not> blocked_ip (V4 (ip4 8 8 8 8))"
proof -
  let ?claims = "Some \<lparr>ec_actorId = ''u'', ec_scopeId = ''s'', ec_egress = None\<rparr>"
  have host: "hostFromAuthority ''a.test'' = Some ''a.test''" by code_simp
  have clean: "strip_zone (strip_brackets (toLowerCase (trim ''8.8.8.8''))) = ''8.8.8.8''" by code_simp
  have ip: "normalizedIp demo_ip ''8.8.8.8'' = Some (V4 (ip4 8 8 8 8))" by (simp add: normalizedIp_def clean demo_ip_def)
  have "\<not> list_ex (in_network (V4 (ip4 8 8 8 8))) BLOCKED"
    by (simp add: BLOCKED_def same_prefix_def ip4_def ip6_def mapped_def unat_word_ariths)
  moreover have name: "strip_dot (strip_brackets (toLowerCase (trim ''a.test''))) = ''a.test''" by code_simp
  have "\<not> list_ex (\<lambda>m. ''a.test'' = m \<or> ends_with ''a.test'' (CHR ''.'' # m)) METADATA_HOSTS" by code_simp
  then have "\<not> isAlwaysBlockedHost demo_ip ''a.test''" unfolding isAlwaysBlockedHost_def name Let_def by (simp add: demo_ip_def)
  ultimately have "decide demo_url demo_ip (\<lambda>h. Some [''8.8.8.8'']) ''a.test'' None = (verdict_ok, Some ''8.8.8.8'')"
    by (simp add: decide_def isBlockedDestinationIp_def ip egressDecision_def isHostDenied_def)
  then obtain upstream r where
    "checkStatus demo_url demo_ip (\<lambda>h. Some [''8.8.8.8'']) False True ?claims None ''a.test'' = (Some upstream, r)"
    by (simp add: checkStatus_def host port_of_def split_last_def egress_policy_of_def)
  from egress_gate[OF this refl] host ip show ?thesis by auto
qed

theorem audience_floor_witness:
  "\<exists>rule \<in> set (principalEgressHosts (demo_person ''ann'') demo_egress ''org:o'' (Some ''personal:ann'')). hostMatches demo_url ''www.a.test'' rule"
proof -
  let ?A = "[demo_person ''ann'']"
  have "egressDecision demo_url ''www.a.test'' (Some (resolve_egress ?A demo_egress ''org:o'' ''personal:ann'')) = verdict_ok" by code_simp
  moreover have "demo_person ''ann'' \<in> set ?A" by simp
  moreover have "audienceEgressFloor ?A demo_egress ''org:o'' (Some ''personal:ann'') \<noteq> []" by code_simp
  ultimately show ?thesis using audience_floor[of demo_url "''www.a.test''" ?A demo_egress "''org:o''" "''personal:ann''"] by blast
qed

text \<open>Ann alone may not talk to \<open>evil.test\<close>; Ann and Bob together may.\<close>

theorem empty_floor_allows_all_witness:
  "egressDecision demo_url ''evil.test'' (Some (resolve_egress [demo_person ''ann''] demo_egress ''org:o'' ''group:g'')) = verdict_not_allowlisted \<and>
   egressDecision demo_url ''evil.test'' (Some (resolve_egress [demo_person ''ann'', demo_person ''bob''] demo_egress ''org:o'' ''group:g'')) = verdict_ok"
proof -
  let ?A = "[demo_person ''ann'', demo_person ''bob'']"
  have alone: "egressDecision demo_url ''evil.test'' (Some (resolve_egress [demo_person ''ann''] demo_egress ''org:o'' ''group:g'')) = verdict_not_allowlisted"
    by code_simp
  have "set (principalEgressHosts (demo_person ''ann'') demo_egress ''org:o'' (Some ''group:g'')) \<inter>
      set (principalEgressHosts (demo_person ''bob'') demo_egress ''org:o'' (Some ''group:g'')) = {}" by code_simp
  moreover have "\<not> isHostDenied demo_url ''evil.test'' (Some (audienceDeniedFloor ?A demo_egress ''org:o'' (Some ''group:g'')))" by code_simp
  moreover have "demo_person ''ann'' \<in> set ?A" "demo_person ''bob'' \<in> set ?A" by simp_all
  ultimately have "egressDecision demo_url ''evil.test'' (Some (resolve_egress ?A demo_egress ''org:o'' ''group:g'')) = verdict_ok"
    using empty_floor_allows_all[of "demo_person ''ann''" ?A "demo_person ''bob''" demo_egress "''org:o''" "''group:g''" demo_url "''evil.test''" "[]" False]
    by blast
  with alone show ?thesis by simp
qed

end
