(* ===== verification/Directory.thy ===== *)
theory Directory
  imports Durable_Map Scopes
begin

text \<open>
  Who is who and who is where: the identity service (\<open>src/src/identity/identity-service.ts\<close>), which decides who is
  internal, the directory of people, channels and group conversations in memory
  (\<open>src/src/directory/directory-store.ts\<close>) with its synchronisations, and what of it a person may see
  (\<open>src/src/directory/visibility.ts\<close>, \<open>src/src/resolution/scope-reach.ts\<close>). A JavaScript \<open>Set\<close> is the list of its
  elements in insertion order. Dashes in messages are spelled \<open>--\<close>.
\<close>

definition js_add :: "'a \<Rightarrow> 'a list \<Rightarrow> 'a list" where
  "js_add x xs = (if x \<in> set xs then xs else xs @ [x])"

lemma set_js_add [simp]: "set (js_add x xs) = insert x (set xs)"
  by (auto simp: js_add_def)

section \<open>Identity\<close>

datatype ExternalRole = ext_member | ext_org_admin

record ExternalMember =
  em_email :: string
  em_role :: ExternalRole
  em_expiresAt :: int
  em_invitedBy :: string
  em_createdAt :: int
  em_updatedAt :: int

definition externalMemberActive :: "ExternalMember \<Rightarrow> int \<Rightarrow> bool" where
  "externalMemberActive m now = (now < em_expiresAt m)"

datatype DeactivationSource = manual | directory_sync

record DeactivationRecord =
  de_principalId :: string
  de_source :: DeactivationSource
  de_at :: int

text \<open>The service keeps both stores cached; the maps behind them are the durable ones. \<open>isOverridden\<close> and the
  protected ids are configuration.\<close>

record identity =
  ij_isOverridden :: "string \<Rightarrow> bool"
  ij_protected :: "string list"
  ij_deactivated :: "DeactivationRecord jsmap"
  ij_externals :: "ExternalMember jsmap"
  ij_store :: "DeactivationRecord jsmap"
  ij_externalStore :: "ExternalMember jsmap"
  ij_refreshedAt :: int

definition REFRESH_TTL_MS :: int where "REFRESH_TTL_MS = 10000"

definition keptByDirectorySync :: "identity \<Rightarrow> string \<Rightarrow> bool" where
  "keptByDirectorySync s key \<longleftrightarrow> key \<in> set (ij_protected s) \<or> map_of (ij_externals s) key \<noteq> None"

definition load_into :: "bool \<Rightarrow> ('v \<Rightarrow> string) \<Rightarrow> 'v list \<Rightarrow> 'v jsmap \<Rightarrow> 'v jsmap" where
  "load_into overwrite key rows m =
     foldl (\<lambda>m r. if overwrite \<or> map_of m (personKey (Some (key r))) = None
        then AList.update (personKey (Some (key r))) r m else m) (if overwrite then [] else m) rows"

definition load_identity :: "bool \<Rightarrow> identity \<Rightarrow> identity" where
  "load_identity overwrite s =
     s\<lparr>ij_deactivated := load_into overwrite de_principalId (dm_all (ij_store s)) (ij_deactivated s),
       ij_externals := load_into overwrite em_email (dm_all (ij_externalStore s)) (ij_externals s)\<rparr>"

definition classify :: "string \<Rightarrow> bool \<Rightarrow> int \<Rightarrow> identity \<Rightarrow> Principal" where
  "classify externalId isExternalGuest now s =
     (if ij_isOverridden s externalId then \<lparr>p_id = externalId, p_type = internal, teamIds = None, displayName = None\<rparr>
      else let key = personKey (Some externalId);
               source = map_option de_source (map_of (ij_deactivated s) key);
               inactive = source = Some manual \<or> (source = Some directory_sync \<and> \<not> keptByDirectorySync s key) \<or>
                 (case map_of (ij_externals s) key of None \<Rightarrow> False | Some m \<Rightarrow> \<not> externalMemberActive m now)
           in \<lparr>p_id = externalId, p_type = (if inactive \<or> isExternalGuest then guest else internal),
               teamIds = None, displayName = None\<rparr>)"

definition deactivate :: "string \<Rightarrow> DeactivationSource \<Rightarrow> int \<Rightarrow> identity \<Rightarrow> identity" where
  "deactivate externalId source now s =
     (let key = personKey (Some externalId) in
      if (case map_of (ij_deactivated s) key of None \<Rightarrow> False | Some r \<Rightarrow> de_source r = manual \<or> de_source r = source) then s
      else let r = \<lparr>de_principalId = externalId, de_source = source, de_at = now\<rparr> in
        s\<lparr>ij_deactivated := AList.update key r (ij_deactivated s), ij_store := dm_put (ij_store s) key r\<rparr>)"

definition reactivate_person :: "string \<Rightarrow> identity \<Rightarrow> identity" where
  "reactivate_person externalId s =
     (let key = personKey (Some externalId) in
      s\<lparr>ij_deactivated := AList.delete key (ij_deactivated s), ij_store := dm_delete (ij_store s) key\<rparr>)"

definition refresh_identity :: "bool \<Rightarrow> int \<Rightarrow> identity \<Rightarrow> identity" where
  "refresh_identity force now s =
     (if \<not> force \<and> now - ij_refreshedAt s < REFRESH_TTL_MS then s
      else (load_identity True s)\<lparr>ij_refreshedAt := now\<rparr>)"

fun sync_removed :: "int \<Rightarrow> string list \<Rightarrow> identity \<Rightarrow> identity \<times> string list" where
  "sync_removed now [] s = (s, [])"
| "sync_removed now (i # ids) s =
     (if keptByDirectorySync s (personKey (Some i)) \<or> map_of (ij_deactivated s) (personKey (Some i)) \<noteq> None
      then sync_removed now ids s
      else case sync_removed now ids (deactivate i directory_sync now s) of (s', out) \<Rightarrow> (s', i # out))"

fun sync_present :: "string list \<Rightarrow> identity \<Rightarrow> identity \<times> string list" where
  "sync_present [] s = (s, [])"
| "sync_present (i # ids) s =
     (if map_option de_source (map_of (ij_deactivated s) (personKey (Some i))) \<noteq> Some directory_sync then sync_present ids s
      else case sync_present ids (reactivate_person i s) of (s', out) \<Rightarrow> (s', i # out))"

definition recordDirectorySync ::
  "string list \<Rightarrow> string list \<Rightarrow> int \<Rightarrow> identity \<Rightarrow> identity \<times> string list \<times> string list" where
  "recordDirectorySync removedIds presentIds now s =
     (case sync_removed now removedIds s of (s1, deactivated) \<Rightarrow>
      case sync_present presentIds s1 of (s2, reactivated) \<Rightarrow> (s2, deactivated, reactivated))"

definition putExternalMember :: "ExternalMember \<Rightarrow> identity \<Rightarrow> identity" where
  "putExternalMember m s =
     (let key = personKey (Some (em_email m)) in
      s\<lparr>ij_externals := AList.update key m (ij_externals s), ij_externalStore := dm_put (ij_externalStore s) key m\<rparr>)"

definition removeExternalMember :: "string \<Rightarrow> identity \<Rightarrow> identity" where
  "removeExternalMember principalId s =
     (let key = personKey (Some principalId) in
      s\<lparr>ij_externals := AList.delete key (ij_externals s), ij_externalStore := dm_delete (ij_externalStore s) key\<rparr>)"

record ActorAssertion =
  aa_externalId :: string
  aa_isExternalGuest :: bool
  aa_teamIds :: "string list option"
  aa_displayName :: "string option"

definition resolve_actor :: "ActorAssertion \<Rightarrow> int \<Rightarrow> identity \<Rightarrow> Principal" where
  "resolve_actor actor now s =
     (classify (aa_externalId actor) (aa_isExternalGuest actor) now s)
       \<lparr>teamIds := aa_teamIds actor, displayName := (if truthy (aa_displayName actor) then aa_displayName actor else None)\<rparr>"

definition actorAssertionActive :: "ActorAssertion option \<Rightarrow> int \<Rightarrow> identity \<Rightarrow> bool" where
  "actorAssertionActive actor now s =
     (case actor of None \<Rightarrow> False
      | Some a \<Rightarrow> aa_externalId a \<noteq> [] \<and> p_type (classify (aa_externalId a) (aa_isExternalGuest a) now s) = internal)"

definition audienceIsAllInternal :: "Principal list \<Rightarrow> bool" where
  "audienceIsAllInternal audience = (audience \<noteq> [] \<and> list_all (\<lambda>p. p_type p = internal) audience)"

section \<open>The directory\<close>

record DirectoryMember =
  dm_principalId :: string
  dm_displayName :: string
  dm_type :: PrincipalType
  dm_slackId :: "string option"

record DirectoryChannel =
  dc_channelId :: string
  dc_name :: string
  dc_isPrivate :: "bool option"
  dc_isExternal :: "bool option"

text \<open>A membership is a pair of the id of the room and the id of the person.\<close>

type_synonym membership = "string \<times> string"

record directory =
  dr_members :: "DirectoryMember list"
  dr_channels :: "DirectoryChannel list"
  dr_channelMembers :: "string list jsmap option"
  dr_knownChannelRosters :: "string list option"
  dr_groupMembers :: "string list jsmap option"
  dr_listedGroupIds :: "string list option"
  dr_knownGroupRosters :: "string list option"
  dr_groupsSynced :: bool
  dr_workspaceUrl :: "string option"
  dr_syncedAts :: "int jsmap"

definition empty_directory :: directory where
  "empty_directory = \<lparr>dr_members = [], dr_channels = [], dr_channelMembers = None, dr_knownChannelRosters = None,
     dr_groupMembers = None, dr_listedGroupIds = None, dr_knownGroupRosters = None, dr_groupsSynced = False,
     dr_workspaceUrl = None, dr_syncedAts = []\<rparr>"

definition groupParticipantsKey :: "string list \<Rightarrow> string" where
  "groupParticipantsKey participants = join_with '','' (sort (dedupe (filter (\<lambda>p. p \<noteq> []) participants)))"

definition MAX_CANDIDATES :: nat where "MAX_CANDIDATES = 10"

definition normDirectoryQuery :: "string \<Rightarrow> string" where
  "normDirectoryQuery s = (case toLowerCase (trim s) of [] \<Rightarrow> [] | c # cs \<Rightarrow> if c = CHR ''@'' \<or> c = CHR ''#'' then cs else c # cs)"

text \<open>\<open>s.includes(p)\<close>.\<close>

fun includes_str :: "string \<Rightarrow> string \<Rightarrow> bool" where
  "includes_str [] p = (p = [])"
| "includes_str (c # cs) p = (starts_with (c # cs) p \<or> includes_str cs p)"

datatype 'a match = Match_one 'a | Match_ambiguous "'a list" | Match_none

definition pickMatch :: "'a list \<Rightarrow> string \<Rightarrow> ('a \<Rightarrow> string) \<Rightarrow> ('a \<Rightarrow> string) \<Rightarrow> 'a match" where
  "pickMatch items query ident label =
     (let q = normDirectoryQuery query in
      if q = [] then Match_none
      else case find (\<lambda>t. toLowerCase (ident t) = q) items of
        Some t \<Rightarrow> Match_one t
      | None \<Rightarrow>
          let exact = filter (\<lambda>t. normDirectoryQuery (label t) = q) items in
          if length exact = 1 then Match_one (hd exact)
          else if length exact > 1 then Match_ambiguous (take MAX_CANDIDATES exact)
          else let prefix = filter (\<lambda>t. starts_with (normDirectoryQuery (label t)) q) items;
                   pool = (if prefix \<noteq> [] then prefix else filter (\<lambda>t. includes_str (normDirectoryQuery (label t)) q) items)
               in if pool = [] then Match_none
                  else if length pool = 1 then Match_one (hd pool)
                  else Match_ambiguous (take MAX_CANDIDATES pool))"

definition acceptSync :: "string \<Rightarrow> int option \<Rightarrow> directory \<Rightarrow> directory option" where
  "acceptSync sect syncedAt s =
     (case syncedAt of
        None \<Rightarrow> Some s
      | Some t \<Rightarrow>
          if (case map_of (dr_syncedAts s) sect of None \<Rightarrow> False | Some stored \<Rightarrow> stored > t) then None
          else Some (s\<lparr>dr_syncedAts := AList.update sect t (dr_syncedAts s)\<rparr>))"

definition setWorkspaceUrl :: "string \<Rightarrow> directory \<Rightarrow> directory" where
  "setWorkspaceUrl url s = s\<lparr>dr_workspaceUrl := Some url\<rparr>"

definition replace_members :: "DirectoryMember list \<Rightarrow> int option \<Rightarrow> directory \<Rightarrow> directory \<times> bool" where
  "replace_members members syncedAt s =
     (case acceptSync ''members'' syncedAt s of
        None \<Rightarrow> (s, False)
      | Some s1 \<Rightarrow> (s1\<lparr>dr_members := filter (\<lambda>m. dm_principalId m \<noteq> [] \<and> dm_type m = internal) members\<rparr>, True))"

text \<open>\<open>(map.get(k) ?? map.set(k, new Set()).get(k)).add(v)\<close>.\<close>

definition add_member :: "string list jsmap \<Rightarrow> membership \<Rightarrow> string list jsmap" where
  "add_member m kp = AList.update (fst kp) (js_add (snd kp) (nullish (map_of m (fst kp)) [])) m"

definition roster_map :: "string list \<Rightarrow> string list \<Rightarrow> membership list \<Rightarrow> string list jsmap \<Rightarrow> string list jsmap" where
  "roster_map listed rosterIds rows old =
     foldl add_member
       (foldl (\<lambda>m i. AList.update i [] m) (filter (\<lambda>(i, ps). i \<in> set listed \<and> i \<notin> set rosterIds) old)
          (filter (\<lambda>i. i \<in> set listed) rosterIds))
       (filter (\<lambda>(i, p). i \<noteq> [] \<and> p \<noteq> [] \<and> i \<in> set rosterIds \<and> i \<in> set listed) rows)"

definition revoke_member :: "string list jsmap \<Rightarrow> membership \<Rightarrow> string list jsmap" where
  "revoke_member m kp = (case map_of m (fst kp) of None \<Rightarrow> m | Some ps \<Rightarrow> AList.update (fst kp) (removeAll (snd kp) ps) m)"

definition replaceChannels ::
  "DirectoryChannel list \<Rightarrow> membership list option \<Rightarrow> int option \<Rightarrow> string list option \<Rightarrow> membership list
    \<Rightarrow> directory \<Rightarrow> directory \<times> bool" where
  "replaceChannels nextChannels nextChannelMembers syncedAt nextChannelRosterIds revocations s =
     (case acceptSync ''channels'' syncedAt s of
        None \<Rightarrow> (s, False)
      | Some s1 \<Rightarrow>
          let channels = filter (\<lambda>c. dc_channelId c \<noteq> [] \<and> dc_name c \<noteq> []) nextChannels;
              listed = dedupe (map dc_channelId channels);
              known = map_option (filter (\<lambda>i. i \<in> set listed)) (dr_knownChannelRosters s1);
              s2 = s1\<lparr>dr_channels := channels, dr_knownChannelRosters := known\<rparr>;
              s3 = (case nextChannelMembers of
                  None \<Rightarrow> s2
                | Some rows \<Rightarrow>
                    let rosterIds = dedupe (nullish nextChannelRosterIds (map dc_channelId channels)) in
                    s2\<lparr>dr_channelMembers := Some (roster_map listed rosterIds rows (nullish (dr_channelMembers s2) [])),
                       dr_knownChannelRosters :=
                         Some (foldl (\<lambda>ks i. js_add i ks) (nullish known []) (filter (\<lambda>i. i \<in> set listed) rosterIds))\<rparr>);
              revoked = filter (\<lambda>(i, p). i \<in> set listed \<and> p \<noteq> []) revocations
          in (s3\<lparr>dr_channelMembers := map_option (\<lambda>m. foldl revoke_member m revoked) (dr_channelMembers s3)\<rparr>, True))"

text \<open>\<open>m?.get(k)?.has(p) ?? false\<close>.\<close>

definition in_roster :: "string list jsmap option \<Rightarrow> string \<Rightarrow> string \<Rightarrow> bool" where
  "in_roster m i p = (case Option.bind m (\<lambda>m. map_of m i) of None \<Rightarrow> False | Some ps \<Rightarrow> p \<in> set ps)"

definition known_roster :: "string list option \<Rightarrow> string \<Rightarrow> bool" where
  "known_roster ks i = (case ks of None \<Rightarrow> False | Some xs \<Rightarrow> i \<in> set xs)"

definition find_channel :: "string \<Rightarrow> directory \<Rightarrow> DirectoryChannel option" where
  "find_channel channelId s = find (\<lambda>c. dc_channelId c = channelId) (dr_channels s)"

definition channelMember :: "directory \<Rightarrow> string \<Rightarrow> string \<Rightarrow> bool" where
  "channelMember s channelId principalId =
     (\<not> list_ex (\<lambda>c. dc_channelId c = channelId \<and> dc_isPrivate c = Some True \<and> dc_isExternal c = Some True) (dr_channels s) \<and>
      in_roster (dr_channelMembers s) channelId principalId)"

definition channelMemberIds :: "directory \<Rightarrow> string \<Rightarrow> string list option" where
  "channelMemberIds s channelId =
     (if \<not> known_roster (dr_knownChannelRosters s) channelId then None
      else Some (nullish (Option.bind (dr_channelMembers s) (\<lambda>m. map_of m channelId)) []))"

definition channelMembership :: "directory \<Rightarrow> string \<Rightarrow> string \<Rightarrow> bool option" where
  "channelMembership s channelId principalId =
     (case find_channel channelId s of
        None \<Rightarrow> None
      | Some c \<Rightarrow>
          if \<not> known_roster (dr_knownChannelRosters s) channelId then None
          else let member = in_roster (dr_channelMembers s) channelId principalId in
            if member \<or> dc_isPrivate c = Some True then Some member else None)"

definition channelPrivacy :: "directory \<Rightarrow> string \<Rightarrow> bool option" where
  "channelPrivacy s channelId = map_option (\<lambda>c. dc_isPrivate c = Some True) (find_channel channelId s)"

definition replaceGroups ::
  "membership list \<Rightarrow> int option \<Rightarrow> string list option \<Rightarrow> string list option \<Rightarrow> directory \<Rightarrow> directory \<times> bool" where
  "replaceGroups nextGroupMembers syncedAt nextGroupIds nextGroupRosterIds s =
     (case acceptSync ''groups'' syncedAt s of
        None \<Rightarrow> (s, False)
      | Some s1 \<Rightarrow>
          let legacy = nextGroupIds = None \<or> nextGroupRosterIds = None;
              listed = dedupe (filter (\<lambda>i. i \<noteq> []) (nullish nextGroupIds (map fst nextGroupMembers)));
              rosterIds = dedupe (filter (\<lambda>i. i \<in> set listed) (nullish nextGroupRosterIds listed));
              known = (if legacy then rosterIds else filter (\<lambda>i. i \<in> set listed) (nullish (dr_knownGroupRosters s1) []))
          in (s1\<lparr>dr_groupMembers := Some (roster_map listed rosterIds nextGroupMembers (nullish (dr_groupMembers s1) [])),
                 dr_listedGroupIds := Some listed,
                 dr_knownGroupRosters := Some (foldl (\<lambda>ks i. js_add i ks) known rosterIds), dr_groupsSynced := True\<rparr>, True))"

definition upsertGroup :: "string \<Rightarrow> string list \<Rightarrow> int \<Rightarrow> directory \<Rightarrow> directory" where
  "upsertGroup groupId principalIds now s =
     (let ids = filter (\<lambda>i. i \<noteq> []) principalIds in
      if groupId = [] \<or> ids = [] then s
      else s\<lparr>dr_groupMembers := Some (AList.update groupId (dedupe ids) (nullish (dr_groupMembers s) [])),
             dr_listedGroupIds := Some (js_add groupId (nullish (dr_listedGroupIds s) [])),
             dr_knownGroupRosters := Some (js_add groupId (nullish (dr_knownGroupRosters s) [])),
             dr_syncedAts := AList.update ''groups'' (max (nullish (map_of (dr_syncedAts s) ''groups'') 0) now) (dr_syncedAts s)\<rparr>)"

definition resolveGroupByParticipants :: "directory \<Rightarrow> string list \<Rightarrow> string option" where
  "resolveGroupByParticipants s participants =
     (let key = groupParticipantsKey participants in
      if key = [] then None
      else map_option fst (find (\<lambda>(i, ms). groupParticipantsKey ms = key) (nullish (dr_groupMembers s) [])))"

definition groupMember :: "directory \<Rightarrow> string \<Rightarrow> string \<Rightarrow> bool" where
  "groupMember s groupId principalId = in_roster (dr_groupMembers s) groupId principalId"

definition groupMembership :: "directory \<Rightarrow> string \<Rightarrow> string \<Rightarrow> bool option" where
  "groupMembership s groupId principalId =
     (if \<not> dr_groupsSynced s then None
      else if \<not> known_roster (dr_listedGroupIds s) groupId then Some False
      else if \<not> known_roster (dr_knownGroupRosters s) groupId then None
      else Some (in_roster (dr_groupMembers s) groupId principalId))"

definition listGroupsFor :: "directory \<Rightarrow> string \<Rightarrow> string list" where
  "listGroupsFor s principalId = map fst (filter (\<lambda>(i, ms). principalId \<in> set ms) (nullish (dr_groupMembers s) []))"

definition get_member :: "directory \<Rightarrow> string \<Rightarrow> DirectoryMember option" where
  "get_member s principalId = find (\<lambda>m. samePerson (Some (dm_principalId m)) (Some principalId)) (dr_members s)"

definition roster_members :: "directory \<Rightarrow> string list \<Rightarrow> DirectoryMember list option" where
  "roster_members s ids =
     (if ids = [] then None
      else let roster = List.map_filter (get_member s) ids in
        if length roster = length ids then Some roster else None)"

definition conversationMembers :: "directory \<Rightarrow> bool \<Rightarrow> string \<Rightarrow> DirectoryMember list option" where
  "conversationMembers s is_channel i =
     (if is_channel
      then (case find_channel i s of
          None \<Rightarrow> None
        | Some c \<Rightarrow>
            if dc_isExternal c = Some True \<or> \<not> known_roster (dr_knownChannelRosters s) i then None
            else roster_members s (nullish (Option.bind (dr_channelMembers s) (\<lambda>m. map_of m i)) []))
      else if \<not> known_roster (dr_knownGroupRosters s) i then None
      else roster_members s (nullish (Option.bind (dr_groupMembers s) (\<lambda>m. map_of m i)) []))"

definition listChannelsFor :: "directory \<Rightarrow> string \<Rightarrow> DirectoryChannel list" where
  "listChannelsFor s principalId =
     filter (\<lambda>c. dc_isPrivate c \<noteq> Some True \<or>
       (dc_isExternal c \<noteq> Some True \<and> in_roster (dr_channelMembers s) (dc_channelId c) principalId)) (dr_channels s)"

definition resolve_member :: "directory \<Rightarrow> string \<Rightarrow> DirectoryMember match" where
  "resolve_member s query =
     (case find (\<lambda>m. truthy (dm_slackId m) \<and> dm_slackId m = Some (trim query)) (dr_members s) of
        Some m \<Rightarrow> Match_one m
      | None \<Rightarrow> pickMatch (dr_members s) query dm_principalId dm_displayName)"

definition resolveChannel :: "directory \<Rightarrow> string \<Rightarrow> DirectoryChannel match" where
  "resolveChannel s query = pickMatch (dr_channels s) query dc_channelId dc_name"

section \<open>Visibility\<close>

datatype VisibilityTarget =
  Dm_of string
| Group_room string
| Channel_room string "bool option"

record VisibilityDirectory =
  vd_channelMember :: "string \<Rightarrow> string \<Rightarrow> bool"
  vd_groupMember :: "string \<Rightarrow> string \<Rightarrow> bool"
  vd_listChannelsFor :: "(string \<Rightarrow> DirectoryChannel list) option"

fun isVisible :: "('a) VisibilityDirectory_scheme \<Rightarrow> string \<Rightarrow> VisibilityTarget \<Rightarrow> bool" where
  "isVisible dir actorId (Dm_of ownerId) = samePerson (Some actorId) (Some ownerId)"
| "isVisible dir actorId (Group_room groupId) = vd_groupMember dir groupId actorId"
| "isVisible dir actorId (Channel_room channelId isPrivate) =
     (case isPrivate of
        Some True \<Rightarrow> vd_channelMember dir channelId actorId
      | Some False \<Rightarrow> True
      | None \<Rightarrow> (case vd_listChannelsFor dir of None \<Rightarrow> False
          | Some list \<Rightarrow> list_ex (\<lambda>c. dc_channelId c = channelId) (list actorId)))"

definition visibility_of :: "directory \<Rightarrow> VisibilityDirectory" where
  "visibility_of s = \<lparr>vd_channelMember = channelMember s, vd_groupMember = groupMember s, vd_listChannelsFor = Some (listChannelsFor s)\<rparr>"

record reachable_channel =
  rch_scopeId :: ScopeId
  rch_channelId :: string
  rch_channelName :: string
  rch_isPrivate :: bool

definition resolveReachableChannel :: "string \<Rightarrow> directory \<Rightarrow> string \<Rightarrow> string + reachable_channel" where
  "resolveReachableChannel query s actorId =
     (case resolveChannel s query of
        Match_none \<Rightarrow> Inl (''I can't see a channel matching \"'' @ query @ ''\" -- either I'm not in it, or it hasn't synced yet (the channel list refreshes when messages arrive).'')
      | Match_ambiguous cs \<Rightarrow>
          Inl (''\"'' @ query @ ''\" matches more than one channel -- name one of: '' @ join_with '', '' (map (\<lambda>c. ''#'' @ dc_name c) cs) @ ''.'')
      | Match_one c \<Rightarrow>
          let isPrivate = (dc_isPrivate c = Some True) in
          if \<not> isVisible (visibility_of s) actorId (Channel_room (dc_channelId c) (Some isPrivate))
          then Inl (if get_member s actorId \<noteq> None
            then ''#'' @ dc_name c @ '' is private and I can't confirm you're a member, so I can't go there from here.''
            else ''I can't confirm your identity in this workspace -- your login may not be linked to Slack -- so I can't check whether you're in #''
              @ dc_name c @ ''. Connecting / signing in with Slack should fix it.'')
          else Inr \<lparr>rch_scopeId = scopeId channel (dc_channelId c), rch_channelId = dc_channelId c, rch_channelName = dc_name c,
                     rch_isPrivate = isPrivate\<rparr>)"

end
