(* ===== verification/Project_Store.thy ===== *)
theory Project_Store
  imports Directory
begin

text \<open>
  Projects (\<open>src/src/projects/project-store.ts\<close>): groups managed by the service itself, with an owner, members, and
  members derived from a linked Slack channel. The lock per project makes every operation one step. The callback an
  operation runs after its change (\<open>effect\<close>) does not touch the store and is left out; who is an active member is
  the argument \<open>active\<close>, the organisation of the process the argument \<open>orgId\<close>.
\<close>

definition PROJECT_GROUP_PREFIX :: string where "PROJECT_GROUP_PREFIX = ''web-project-''"

record ProjectSlackChannel =
  ps_channelId :: string
  ps_channelName :: string
  ps_linkedBy :: string
  ps_linkedAt :: int

record Project =
  pj_id :: string
  pj_orgId :: string
  pj_name :: string
  pj_ownerId :: string
  pj_memberIds :: "string list"
  pj_channelMemberIds :: "string list option"
  pj_slackChannel :: "ProjectSlackChannel option"
  pj_createdAt :: int
  pj_updatedAt :: int

type_synonym project_store = "Project jsmap"

datatype ProjectMutation = Mutated Project bool | Not_found | Forbidden | Invalid_member | Invalid_name

definition projectGroupRef :: "string \<Rightarrow> string" where
  "projectGroupRef i = PROJECT_GROUP_PREFIX @ i"

definition projectScopeId :: "string \<Rightarrow> ScopeId" where
  "projectScopeId i = scopeId group (projectGroupRef i)"

definition isProjectGroupRef :: "string \<Rightarrow> bool" where
  "isProjectGroupRef r = starts_with r PROJECT_GROUP_PREFIX"

definition projectIdFromGroupRef :: "string \<Rightarrow> string option" where
  "projectIdFromGroupRef r =
     (if \<not> isProjectGroupRef r then None
      else let i = drop (length PROJECT_GROUP_PREFIX) r in
        if i \<noteq> [] \<and> CHR '':'' \<notin> set i then Some i else None)"

definition cleanName :: "string \<Rightarrow> string" where
  "cleanName n = take 200 (collapse_spaces (trim n))"

definition projectForGroup :: "string \<Rightarrow> string \<Rightarrow> project_store \<Rightarrow> Project option" where
  "projectForGroup orgId groupRef s =
     (case projectIdFromGroupRef groupRef of
        None \<Rightarrow> None
      | Some i \<Rightarrow> (case dm_get s i of None \<Rightarrow> None | Some p \<Rightarrow> if pj_orgId p = orgId then Some p else None))"

definition effectiveMemberIds :: "Project \<Rightarrow> string list" where
  "effectiveMemberIds p = dedupe (pj_memberIds p @ nullish (pj_channelMemberIds p) [])"

text \<open>\<open>backing.update\<close> with the status the update function leaves in \<open>outcome\<close> and whether it \<open>changed\<close> anything.\<close>

definition update_project :: "string \<Rightarrow> (Project \<Rightarrow> ProjectMutation \<times> Project) \<Rightarrow> project_store \<Rightarrow> project_store \<times> ProjectMutation" where
  "update_project i f s =
     (case dm_get s i of
        None \<Rightarrow> (s, Not_found)
      | Some p \<Rightarrow> (case f p of (r, p') \<Rightarrow> (dm_put s i p', r)))"

definition touched :: "int \<Rightarrow> Project \<Rightarrow> int" where
  "touched now p = max now (pj_updatedAt p + 1)"

definition change_roster :: "(string \<Rightarrow> bool) \<Rightarrow> string \<Rightarrow> string \<Rightarrow> bool \<Rightarrow> int \<Rightarrow> Project \<Rightarrow> ProjectMutation \<times> Project" where
  "change_roster active actorId memberId add now p =
     (let canChangeRoster = (if add then list_ex (\<lambda>m. samePerson (Some m) (Some actorId)) (pj_memberIds p)
                             else samePerson (Some (pj_ownerId p)) (Some actorId)) in
      if \<not> canChangeRoster \<or> \<not> active (pj_ownerId p) \<or> \<not> active actorId then (Forbidden, p)
      else if samePerson (Some memberId) (Some (pj_ownerId p)) then (Invalid_member, p)
      else let memberIds = (if add then dedupe (pj_memberIds p @ [memberId]) else filter (\<lambda>m. m \<noteq> memberId) (pj_memberIds p)) in
        if memberIds = pj_memberIds p then (Mutated p False, p)
        else let p' = p\<lparr>pj_memberIds := memberIds, pj_updatedAt := touched now p\<rparr> in (Mutated p' True, p'))"

definition mutate_roster ::
  "(string \<Rightarrow> bool) \<Rightarrow> string \<Rightarrow> string \<Rightarrow> string \<Rightarrow> bool \<Rightarrow> int \<Rightarrow> project_store \<Rightarrow> project_store \<times> ProjectMutation" where
  "mutate_roster active i actorId memberId add now s =
     (if memberId = [] then (s, Invalid_member)
      else update_project i (change_roster active actorId memberId add now) s)"

definition addMember where
  "addMember active i actorId memberId now s = mutate_roster active i actorId memberId True now s"

definition removeMember where
  "removeMember active i actorId memberId now s = mutate_roster active i actorId memberId False now s"

definition create_project :: "string \<Rightarrow> string \<Rightarrow> string \<Rightarrow> string \<Rightarrow> int \<Rightarrow> project_store \<Rightarrow> project_store \<times> (string + Project)" where
  "create_project orgId name ownerId i now s =
     (let clean = cleanName name in
      if clean = [] \<or> ownerId = [] then (s, Inl ''project requires name and ownerId'')
      else let project = \<lparr>pj_id = i, pj_orgId = orgId, pj_name = clean, pj_ownerId = ownerId, pj_memberIds = [ownerId],
                          pj_channelMemberIds = None, pj_slackChannel = None, pj_createdAt = now, pj_updatedAt = now\<rparr> in
        (case dm_putIfAbsent s i project of (s', stored) \<Rightarrow>
           if pj_createdAt stored \<noteq> now \<or> pj_ownerId stored \<noteq> ownerId then (s', Inl ''project id collision'')
           else (s', Inr stored)))"

definition project_member :: "(string \<Rightarrow> bool) \<Rightarrow> Project \<Rightarrow> string \<Rightarrow> bool" where
  "project_member active p principalId =
     (active (pj_ownerId p) \<and> active principalId \<and> principalId \<in> set (effectiveMemberIds p))"

definition listForMember :: "(string \<Rightarrow> bool) \<Rightarrow> string \<Rightarrow> string \<Rightarrow> project_store \<Rightarrow> Project list" where
  "listForMember active orgId principalId s =
     sort_desc pj_updatedAt (filter (\<lambda>p. pj_orgId p = orgId \<and> project_member active p principalId) (dm_all s))"

definition rename_project ::
  "(string \<Rightarrow> bool) \<Rightarrow> string \<Rightarrow> string \<Rightarrow> string \<Rightarrow> project_store \<Rightarrow> project_store \<times> ProjectMutation" where
  "rename_project active i ownerId name s =
     (let clean = cleanName name in
      if clean = [] then (s, Invalid_name)
      else update_project i (\<lambda>p.
        if pj_ownerId p \<noteq> ownerId \<or> \<not> active ownerId then (Forbidden, p)
        else if pj_name p = clean then (Mutated p False, p)
        else (Mutated (p\<lparr>pj_name := clean\<rparr>) True, p\<lparr>pj_name := clean\<rparr>)) s)"

definition link_channel :: "(string \<Rightarrow> bool) \<Rightarrow> string \<Rightarrow> (string \<times> string) option \<Rightarrow> int \<Rightarrow> Project \<Rightarrow> ProjectMutation \<times> Project" where
  "link_channel active actorId link now p =
     (if \<not> list_ex (\<lambda>m. samePerson (Some m) (Some actorId)) (pj_memberIds p) \<or> \<not> active (pj_ownerId p) \<or> \<not> active actorId
      then (Forbidden, p)
      else case link of
        None \<Rightarrow>
          if pj_slackChannel p = None then (Mutated p False, p)
          else let p' = p\<lparr>pj_slackChannel := None, pj_channelMemberIds := None\<rparr> in (Mutated p' True, p')
      | Some (channelId, channelName) \<Rightarrow>
          if (case pj_slackChannel p of None \<Rightarrow> False | Some c \<Rightarrow> ps_channelId c = channelId \<and> ps_channelName c = channelName)
          then (Mutated p False, p)
          else let p' = p\<lparr>pj_slackChannel := Some \<lparr>ps_channelId = channelId, ps_channelName = channelName,
                           ps_linkedBy = actorId, ps_linkedAt = now\<rparr>\<rparr> in (Mutated p' True, p'))"

definition setSlackChannel where
  "setSlackChannel active i actorId link now s = update_project i (link_channel active actorId link now) s"

definition sync_members :: "(string \<Rightarrow> bool) \<Rightarrow> string list \<Rightarrow> string option \<Rightarrow> int \<Rightarrow> Project \<Rightarrow> ProjectMutation \<times> Project" where
  "sync_members active memberIds channelName now p =
     (case pj_slackChannel p of
        None \<Rightarrow> (Forbidden, p)
      | Some c \<Rightarrow>
          if \<not> active (pj_ownerId p) then (Forbidden, p)
          else let next = sort (dedupe memberIds);
                   sameMembers = (sort (nullish (pj_channelMemberIds p) []) = next);
                   nextName = nullish channelName (ps_channelName c);
                   sameName = (nextName = ps_channelName c)
               in if sameMembers \<and> sameName then (Mutated p False, p)
                  else let p1 = p\<lparr>pj_channelMemberIds := Some next, pj_slackChannel := Some (c\<lparr>ps_channelName := nextName\<rparr>)\<rparr>;
                           p' = (if sameMembers then p1 else p1\<lparr>pj_updatedAt := touched now p\<rparr>)
                       in (Mutated p' True, p'))"

definition syncChannelMembers where
  "syncChannelMembers active i memberIds channelName now s = update_project i (sync_members active memberIds channelName now) s"

definition listLinked :: "(string \<Rightarrow> bool) \<Rightarrow> string \<Rightarrow> project_store \<Rightarrow> Project list" where
  "listLinked active orgId s =
     filter (\<lambda>p. pj_orgId p = orgId \<and> pj_slackChannel p \<noteq> None \<and> active (pj_ownerId p)) (dm_all s)"

definition slackChannel_of :: "(string \<Rightarrow> bool) \<Rightarrow> string \<Rightarrow> string \<Rightarrow> project_store \<Rightarrow> ProjectSlackChannel option" where
  "slackChannel_of active orgId groupRef s =
     (case projectForGroup orgId groupRef s of
        None \<Rightarrow> None | Some p \<Rightarrow> if active (pj_ownerId p) then pj_slackChannel p else None)"

definition project_membership :: "(string \<Rightarrow> bool) \<Rightarrow> string \<Rightarrow> project_store \<Rightarrow> string \<Rightarrow> string \<Rightarrow> bool option" where
  "project_membership active orgId s groupRef principalId =
     map_option (\<lambda>p. project_member active p principalId) (projectForGroup orgId groupRef s)"

definition project_members :: "(string \<Rightarrow> bool) \<Rightarrow> string \<Rightarrow> project_store \<Rightarrow> string \<Rightarrow> string list option" where
  "project_members active orgId s groupRef =
     map_option (\<lambda>p. if active (pj_ownerId p) then filter active (effectiveMemberIds p) else []) (projectForGroup orgId groupRef s)"

definition project_version :: "string \<Rightarrow> project_store \<Rightarrow> string \<Rightarrow> string option" where
  "project_version orgId s groupRef = map_option (\<lambda>p. show_int (pj_updatedAt p)) (projectForGroup orgId groupRef s)"

text \<open>Whether \<open>withVersion\<close> runs what it is given.\<close>

definition withVersion_runs :: "string \<Rightarrow> string \<Rightarrow> string option \<Rightarrow> project_store \<Rightarrow> bool" where
  "withVersion_runs orgId groupRef version s =
     (case projectIdFromGroupRef groupRef of
        None \<Rightarrow> False
      | Some i \<Rightarrow> (case dm_get s i of
          None \<Rightarrow> False
        | Some p \<Rightarrow> pj_orgId p = orgId \<and> Some (show_int (pj_updatedAt p)) = version))"

definition project_name :: "(string \<Rightarrow> bool) \<Rightarrow> string \<Rightarrow> string \<Rightarrow> project_store \<Rightarrow> string option" where
  "project_name active orgId groupRef s =
     (case projectForGroup orgId groupRef s of None \<Rightarrow> None | Some p \<Rightarrow> if active (pj_ownerId p) then Some (pj_name p) else None)"

end
