(* ===== verification/Membership.thy ===== *)
theory Membership
  imports Project_Store Turn_Request
begin

text \<open>
  Who may read, write and manage a scope (\<open>src/src/resolution/scope-membership.ts\<close>), whether a capability still
  authorises its scope (\<open>src/src/api/app-helpers.ts\<close>), what of a history an audience sees
  (\<open>src/src/resolution/context-filter.ts\<close>) and with whom something published in a conversation is shared
  (\<open>src/src/resolution/publish-audience.ts\<close>). The services the checks ask are records of functions, as in the code;
  a lookup that fails (a rejected promise) is \<^const>\<open>None\<close>, an answer \<open>undefined\<close> is \<open>Some None\<close>.
\<close>

section \<open>The services asked\<close>

record ManagedGroupDirectory =
  mg_recognizes :: "string \<Rightarrow> bool"
  mg_membership :: "string \<Rightarrow> string \<Rightarrow> bool option option"
  mg_members :: "string \<Rightarrow> string list option option"

record membership_directory =
  sd_channelMember :: "string \<Rightarrow> string \<Rightarrow> bool option"
  sd_groupMember :: "string \<Rightarrow> string \<Rightarrow> bool option"
  sd_channelMembership :: "(string \<Rightarrow> string \<Rightarrow> bool option option) option"
  sd_groupMembership :: "(string \<Rightarrow> string \<Rightarrow> bool option option) option"
  sd_channelPrivacy :: "(string \<Rightarrow> bool option option) option"
  sd_list :: "(string \<times> string option) list option option"
  sd_get :: "(string \<Rightarrow> RosterPerson option option) option"

record classified =
  cf_type :: "PrincipalType option"
  cf_teamIds :: "string list option"

record ScopeMembershipDeps =
  sm_managedGroups :: "ManagedGroupDirectory option"
  sm_directory :: "membership_directory option"
  sm_identity :: "(string \<Rightarrow> classified) option"
  sm_sessions :: "(string \<Rightarrow> ScopeId list option) option"

section \<open>Membership\<close>

definition activePrincipal :: "ScopeMembershipDeps \<Rightarrow> string \<Rightarrow> bool" where
  "activePrincipal deps principalId =
     (case sm_identity deps of
        None \<Rightarrow> True
      | Some cls \<Rightarrow> cf_type (cls principalId) = None \<or> cf_type (cls principalId) = Some internal)"

definition recognized :: "ScopeMembershipDeps \<Rightarrow> string \<Rightarrow> bool" where
  "recognized deps r = (case sm_managedGroups deps of None \<Rightarrow> False | Some g \<Rightarrow> mg_recognizes g r)"

definition managed_member :: "ScopeMembershipDeps \<Rightarrow> string \<Rightarrow> string \<Rightarrow> bool" where
  "managed_member deps r i =
     (case sm_managedGroups deps of None \<Rightarrow> False | Some g \<Rightarrow> mg_membership g r i = Some (Some True))"

text \<open>\<open>(await direct?.call(\<dots>).catch(() => false)) === true\<close>; \<open>kind\<close> is \<^const>\<open>channel\<close> or \<^const>\<open>group\<close>.\<close>

definition direct_member :: "ScopeMembershipDeps \<Rightarrow> ScopeKind \<Rightarrow> string \<Rightarrow> string \<Rightarrow> bool" where
  "direct_member deps kind r i =
     (case sm_directory deps of
        None \<Rightarrow> False
      | Some d \<Rightarrow> (if kind = channel then sd_channelMember d r i else sd_groupMember d r i) = Some True)"

definition person_ids :: "ScopeMembershipDeps \<Rightarrow> string \<Rightarrow> string list" where
  "person_ids deps principalId =
     (let member = Option.bind (Option.bind (sm_directory deps) sd_get) (\<lambda>get. Option.bind (get principalId) (\<lambda>m. m)) in
      dedupe (filter (\<lambda>i. i \<noteq> []) (principalId # List.map_filter (\<lambda>x. x)
        [Option.bind member r_principalId, Option.bind member r_slackId])))"

definition currentSharedScopeMember :: "ScopeMembershipDeps \<Rightarrow> ScopeKind \<Rightarrow> string \<Rightarrow> string \<Rightarrow> bool" where
  "currentSharedScopeMember deps kind r principalId =
     (if \<not> activePrincipal deps principalId then False
      else let ids = person_ids deps principalId in
        if kind = group \<and> recognized deps r then list_ex (managed_member deps r) ids
        else list_ex (direct_member deps kind r) ids)"

definition channel_privacy :: "ScopeMembershipDeps \<Rightarrow> string \<Rightarrow> bool option" where
  "channel_privacy deps r =
     Option.bind (Option.bind (sm_directory deps) sd_channelPrivacy) (\<lambda>privacy. Option.bind (privacy r) (\<lambda>x. x))"

definition sharedScopeMembership :: "ScopeMembershipDeps \<Rightarrow> ScopeKind \<Rightarrow> string \<Rightarrow> string \<Rightarrow> bool option" where
  "sharedScopeMembership deps kind r principalId =
     (if \<not> activePrincipal deps principalId then Some False
      else if kind = group \<and> recognized deps r then Some (managed_member deps r principalId)
      else case Option.bind (sm_directory deps) (if kind = channel then sd_channelMembership else sd_groupMembership) of
        Some triState \<Rightarrow> Option.bind (triState r principalId) (\<lambda>x. x)
      | None \<Rightarrow>
          if direct_member deps kind r principalId then Some True
          else if kind = channel \<and> channel_privacy deps r \<noteq> None then Some False
          else None)"

definition memberOfSharedScope :: "ScopeMembershipDeps \<Rightarrow> ScopeKind \<Rightarrow> string \<Rightarrow> string \<Rightarrow> ScopeId \<Rightarrow> bool" where
  "memberOfSharedScope deps kind r principalId fullScope =
     (case sharedScopeMembership deps kind r principalId of
        Some current \<Rightarrow> current
      | None \<Rightarrow> (case sm_sessions deps of
          None \<Rightarrow> False
        | Some listByParticipant \<Rightarrow> fullScope \<in> set (nullish (listByParticipant principalId) [])))"

definition isCurrentSharedScopeMember :: "ScopeMembershipDeps \<Rightarrow> string \<Rightarrow> ScopeId \<Rightarrow> bool" where
  "isCurrentSharedScopeMember deps principalId scope =
     (if principalId = [] then False
      else case parseScopeId scope of
        (Some kind, r) \<Rightarrow> kind \<in> {channel, group} \<and> currentSharedScopeMember deps kind r principalId
      | (None, r) \<Rightarrow> False)"

definition member_principal :: "ScopeMembershipDeps \<Rightarrow> string \<Rightarrow> string option \<Rightarrow> Principal option" where
  "member_principal deps i name =
     (let c = map_option (\<lambda>cls. cls i) (sm_identity deps) in
      if Option.bind c cf_type \<noteq> None \<and> Option.bind c cf_type \<noteq> Some internal then None
      else Some \<lparr>p_id = i, p_type = internal, teamIds = Option.bind c cf_teamIds, displayName = (if truthy name then name else None)\<rparr>)"

text \<open>The outer \<^const>\<open>None\<close> is a lookup that failed, which this function does not catch.\<close>

fun included :: "ScopeMembershipDeps \<Rightarrow> (string \<Rightarrow> bool option) \<Rightarrow> (string \<times> string option) list \<Rightarrow> Principal list option" where
  "included deps membership [] = Some []"
| "included deps membership ((i, name) # cs) =
     (case membership i of
        None \<Rightarrow> None
      | Some m \<Rightarrow> (case included deps membership cs of
          None \<Rightarrow> None
        | Some ps \<Rightarrow> Some ((if m then (case member_principal deps i name of None \<Rightarrow> [] | Some p \<Rightarrow> [p]) else []) @ ps)))"

definition directory_members :: "ScopeMembershipDeps \<Rightarrow> ScopeKind \<Rightarrow> string \<Rightarrow> membership_directory \<Rightarrow> Principal list option option" where
  "directory_members deps kind r d =
     (case sd_list d of
        None \<Rightarrow> Some None
      | Some listed \<Rightarrow>
          (case (if kind = channel then (case sd_channelPrivacy d of None \<Rightarrow> Some None | Some privacy \<Rightarrow> privacy r) else Some (Some True)) of
             None \<Rightarrow> None
           | Some private \<Rightarrow>
               if private \<noteq> Some True then Some None
               else (case listed of
                   None \<Rightarrow> None
                 | Some candidates \<Rightarrow>
                     (case included deps (\<lambda>i. if kind = channel then sd_channelMember d r i else sd_groupMember d r i) candidates of
                        None \<Rightarrow> None
                      | Some present \<Rightarrow> if kind = group \<and> present = [] then Some None else Some (Some present)))))"

definition currentScopeMembers :: "ScopeMembershipDeps \<Rightarrow> ScopeId \<Rightarrow> Principal list option option" where
  "currentScopeMembers deps scope =
     (case parseScopeId scope of
        (Some kind, r) \<Rightarrow>
          if kind \<notin> {channel, group} then Some None
          else if kind = group \<and> recognized deps r
          then (case sm_managedGroups deps of
              None \<Rightarrow> Some None
            | Some g \<Rightarrow> map_option (\<lambda>ms. Some (List.map_filter (\<lambda>i. member_principal deps i None) (nullish ms []))) (mg_members g r))
          else (case sm_directory deps of None \<Rightarrow> Some None | Some d \<Rightarrow> directory_members deps kind r d)
      | (None, r) \<Rightarrow> Some None)"

section \<open>Reading, writing, managing\<close>

definition in_team :: "ScopeMembershipDeps \<Rightarrow> string \<Rightarrow> string \<Rightarrow> bool" where
  "in_team deps principalId r =
     (case Option.bind (map_option (\<lambda>cls. cls principalId) (sm_identity deps)) cf_teamIds of
        None \<Rightarrow> False | Some ts \<Rightarrow> r \<in> set ts)"

definition canReadScope :: "ScopeMembershipDeps \<Rightarrow> string \<Rightarrow> ScopeId \<Rightarrow> bool" where
  "canReadScope deps principalId targetScope =
     (if principalId = [] then False
      else case parseScopeId targetScope of
        (Some org, r) \<Rightarrow> Option.bind (map_option (\<lambda>cls. cls principalId) (sm_identity deps)) cf_type = Some internal
      | (Some personal, r) \<Rightarrow> samePerson (Some r) (Some principalId)
      | (Some team, r) \<Rightarrow> in_team deps principalId r
      | (Some group, r) \<Rightarrow> memberOfSharedScope deps group r principalId targetScope
      | (Some channel, r) \<Rightarrow>
          if memberOfSharedScope deps channel r principalId targetScope then True
          else if channel_privacy deps r = Some False then activePrincipal deps principalId
          else False
      | (None, r) \<Rightarrow> False)"

definition canWriteScope :: "ScopeMembershipDeps \<Rightarrow> string \<Rightarrow> ScopeId \<Rightarrow> bool" where
  "canWriteScope deps principalId targetScope =
     (if principalId = [] \<or> \<not> activePrincipal deps principalId then False
      else case parseScopeId targetScope of
        (Some org, r) \<Rightarrow> True
      | (Some personal, r) \<Rightarrow> samePerson (Some r) (Some principalId)
      | (Some team, r) \<Rightarrow> in_team deps principalId r
      | (Some kind, r) \<Rightarrow> currentSharedScopeMember deps kind r principalId
      | (None, r) \<Rightarrow> False)"

definition membershipControlsScope :: "ScopeMembershipDeps \<Rightarrow> ScopeId \<Rightarrow> bool" where
  "membershipControlsScope deps scope =
     (case parseScopeId scope of
        (Some group, r) \<Rightarrow> True
      | (Some channel, r) \<Rightarrow> channel_privacy deps r = Some True
      | _ \<Rightarrow> False)"

definition canManageScope :: "ScopeMembershipDeps \<Rightarrow> string \<Rightarrow> ScopeId \<Rightarrow> bool" where
  "canManageScope deps principalId scope =
     (if principalId = [] \<or> \<not> activePrincipal deps principalId then False
      else case parseScopeId scope of
        (Some personal, r) \<Rightarrow> samePerson (Some r) (Some principalId)
      | (Some group, r) \<Rightarrow> currentSharedScopeMember deps group r principalId
      | (Some channel, r) \<Rightarrow> channel_privacy deps r = Some True \<and> currentSharedScopeMember deps channel r principalId
      | _ \<Rightarrow> False)"

definition managesArtifactHome :: "ScopeMembershipDeps \<Rightarrow> (string \<Rightarrow> ScopeId \<Rightarrow> bool) \<Rightarrow> ScopeId \<Rightarrow> string \<Rightarrow> string \<Rightarrow> bool" where
  "managesArtifactHome deps manages homeScopeId createdBy principalId =
     (if principalId = [] \<or> \<not> activePrincipal deps principalId then False
      else if manages principalId homeScopeId then True
      else if \<not> samePerson (Some createdBy) (Some principalId) then False
      else case parseScopeId homeScopeId of
        (Some personal, r) \<Rightarrow> True
      | (Some channel, r) \<Rightarrow> channel_privacy deps r = Some False
      | _ \<Rightarrow> False)"

section \<open>The services of the process\<close>

text \<open>The directory in memory, the identity service and the projects as the services asked
  (\<open>src/src/wiring.ts\<close>): lookups in memory do not fail.\<close>

definition memory_directory :: "directory \<Rightarrow> membership_directory" where
  "memory_directory d =
     \<lparr>sd_channelMember = (\<lambda>c p. Some (channelMember d c p)), sd_groupMember = (\<lambda>g p. Some (groupMember d g p)),
      sd_channelMembership = Some (\<lambda>c p. Some (channelMembership d c p)),
      sd_groupMembership = Some (\<lambda>g p. Some (groupMembership d g p)),
      sd_channelPrivacy = Some (\<lambda>c. Some (channelPrivacy d c)),
      sd_list = Some (Some (map (\<lambda>m. (dm_principalId m, Some (dm_displayName m))) (dr_members d))),
      sd_get = Some (\<lambda>p. Some (map_option (\<lambda>m. \<lparr>r_principalId = Some (dm_principalId m), r_slackId = dm_slackId m\<rparr>) (get_member d p)))\<rparr>"

definition classified_by :: "identity \<Rightarrow> int \<Rightarrow> string \<Rightarrow> classified" where
  "classified_by idy now i = (let p = classify i False now idy in \<lparr>cf_type = Some (p_type p), cf_teamIds = teamIds p\<rparr>)"

definition is_active :: "identity \<Rightarrow> int \<Rightarrow> string \<Rightarrow> bool" where
  "is_active idy now i = (p_type (classify i False now idy) = internal)"

definition managed_projects :: "(string \<Rightarrow> bool) \<Rightarrow> string \<Rightarrow> project_store \<Rightarrow> ManagedGroupDirectory" where
  "managed_projects active orgId ps =
     \<lparr>mg_recognizes = isProjectGroupRef, mg_membership = (\<lambda>g p. Some (project_membership active orgId ps g p)),
      mg_members = (\<lambda>g. Some (project_members active orgId ps g))\<rparr>"

definition wired :: "string \<Rightarrow> int \<Rightarrow> identity \<Rightarrow> directory \<Rightarrow> project_store \<Rightarrow> (string \<Rightarrow> ScopeId list option) option \<Rightarrow> ScopeMembershipDeps" where
  "wired orgId now idy d ps sessions =
     \<lparr>sm_managedGroups = Some (managed_projects (is_active idy now) orgId ps), sm_directory = Some (memory_directory d),
      sm_identity = Some (classified_by idy now), sm_sessions = sessions\<rparr>"

section \<open>Capabilities\<close>

definition canAccessCurrentScope :: "ScopeMembershipDeps \<Rightarrow> string \<Rightarrow> ScopeId \<Rightarrow> bool" where
  "canAccessCurrentScope deps principalId targetScope =
     (if canWriteScope deps principalId targetScope then True
      else case parseScopeId targetScope of
        (Some channel, r) \<Rightarrow>
          Option.bind (map_option (\<lambda>cls. cls principalId) (sm_identity deps)) cf_type = Some internal \<and>
          channel_privacy deps r = Some False \<and> canReadScope deps principalId targetScope
      | _ \<Rightarrow> False)"

definition canUseWriteGrant :: "ScopeMembershipDeps \<Rightarrow> string \<Rightarrow> ScopeId \<Rightarrow> bool" where
  "canUseWriteGrant deps principalId targetScope =
     (let publicChannel = (case parseScopeId targetScope of (Some channel, r) \<Rightarrow> channel_privacy deps r = Some False | _ \<Rightarrow> False) in
      if publicChannel then canAccessCurrentScope deps principalId targetScope else canWriteScope deps principalId targetScope)"

record scope_claims =
  sc_actorId :: string
  sc_scopeId :: ScopeId
  sc_scopeVersion :: "string option"
  sc_botActor :: bool
  sc_liveActor :: bool
  sc_members :: "Principal list option"

text \<open>The scopes are the ones of the process, so the services are \<^const>\<open>wired\<close> ones without sessions.\<close>

definition authorizesCapabilityScope :: "string \<Rightarrow> int \<Rightarrow> identity \<Rightarrow> directory \<Rightarrow> project_store \<Rightarrow> scope_claims \<Rightarrow> bool" where
  "authorizesCapabilityScope orgId now idy d ps claims =
     (let deps = wired orgId now idy d ps None; actor = sc_actorId claims; scope = sc_scopeId claims in
      case parseScopeId scope of
        (Some channel, r) \<Rightarrow>
          if \<not> is_active idy now actor then False
          else let privateChannel = (channelPrivacy d r = Some True);
                   capabilityMembership = (if privateChannel then channelMembership d r actor else None);
                   attestedBot = privateChannel \<and> sc_botActor claims \<and> sc_liveActor claims \<and>
                     list_ex (\<lambda>m. p_id m = actor \<and> p_type m = internal) (nullish (sc_members claims) [])
               in attestedBot \<or> (case capabilityMembership of Some b \<Rightarrow> b | None \<Rightarrow> canAccessCurrentScope deps actor scope)
      | (Some group, r) \<Rightarrow>
          canWriteScope deps actor scope \<and>
          (if isProjectGroupRef r
           then canManageScope deps actor scope \<and> sc_scopeVersion claims = project_version orgId ps r
           else True)
      | _ \<Rightarrow> True)"

section \<open>Audiences\<close>

definition principalEntitledToScope :: "Principal \<Rightarrow> ScopeId \<Rightarrow> ScopeId \<Rightarrow> ScopeId \<Rightarrow> bool" where
  "principalEntitledToScope p label sessionScopeId orgScopeId =
     (if label = orgScopeId then True
      else if label = sessionScopeId then True
      else case parseScopeId label of
        (Some personal, r) \<Rightarrow> p_id p = r
      | (Some team, r) \<Rightarrow> r \<in> set (nullish (teamIds p) [])
      | _ \<Rightarrow> False)"

text \<open>Entries are taken with the function that reads their label.\<close>

definition filterHistoryForAudience ::
  "('e \<Rightarrow> ScopeId) \<Rightarrow> 'e list \<Rightarrow> Principal list \<Rightarrow> ScopeId \<Rightarrow> ScopeId \<Rightarrow> 'e list" where
  "filterHistoryForAudience label entries audience sessionScopeId orgScopeId =
     (if audience = [] then []
      else filter (\<lambda>e. list_all (\<lambda>p. principalEntitledToScope p (label e) sessionScopeId orgScopeId) audience) entries)"

datatype PublishAudienceKind = publish_org | publish_members | publish_owner

record PublishAudience =
  pa_kind :: PublishAudienceKind
  pa_grantees :: "ScopeId list"
  pa_memberCount :: "nat option"
  pa_incomplete :: bool
  pa_reason :: string

record DefaultPublishAudienceArgs =
  pb_kind :: ConversationKind
  pb_isPrivate :: "bool option"
  pb_isMpim :: bool
  pb_members :: "Principal list option"
  pb_orgScopeId :: ScopeId
  pb_ownerId :: string

definition publish_grantees :: "string \<Rightarrow> Principal list \<Rightarrow> ScopeId list" where
  "publish_grantees ownerId members =
     map (scopeId personal) (dedupe (map p_id (filter (\<lambda>m. p_type m = internal \<and> p_id m \<noteq> ownerId) members)))"

definition owner_only :: "bool \<Rightarrow> string \<Rightarrow> PublishAudience" where
  "owner_only incomplete reason =
     \<lparr>pa_kind = publish_owner, pa_grantees = [], pa_memberCount = None, pa_incomplete = incomplete, pa_reason = reason\<rparr>"

definition defaultPublishAudience :: "DefaultPublishAudienceArgs \<Rightarrow> PublishAudience" where
  "defaultPublishAudience a =
     (if pb_kind a = conv_dm then owner_only False ''owner-only (direct message)''
      else if pb_kind a = conv_group \<or> pb_isMpim a then owner_only False ''owner-only (group DM -- auto-share deferred)''
      else case pb_isPrivate a of
        Some False \<Rightarrow> \<lparr>pa_kind = publish_org, pa_grantees = [pb_orgScopeId a], pa_memberCount = None, pa_incomplete = False,
                       pa_reason = ''everyone in the org''\<rparr>
      | None \<Rightarrow> owner_only True ''owner-only (couldn't read the channel's public/private status -- leaving reach unchanged; share manually if needed)''
      | Some True \<Rightarrow>
          (case pb_members a of
             None \<Rightarrow> owner_only True ''owner-only (couldn't enumerate the channel's members to auto-share -- share manually)''
           | Some members \<Rightarrow>
               let grantees = publish_grantees (pb_ownerId a) members in
               if grantees = [] then owner_only False ''owner-only (no other current members)''
               else \<lparr>pa_kind = publish_members, pa_grantees = grantees, pa_memberCount = Some (length grantees), pa_incomplete = False,
                     pa_reason = show_nat (length grantees) @ '' channel member'' @ (if length grantees = 1 then [] else ''s'')\<rparr>))"

end
