(* ===== verification/Membership_Properties.thy ===== *)
theory Membership_Properties
  imports Membership
begin

text \<open>
  What membership guarantees: whoever a synchronisation of the directory leaves out of a private channel can neither
  read, write nor manage its scope afterwards; a capability for a project ends with every change of its roster, except
  when the channel is unlinked; and whoever is listed as a member of a scope passes the check of membership.
\<close>

section \<open>Rosters\<close>

lemma map_of_filter_key: "map_of (filter (\<lambda>(k, v). P k) m) k = (if P k then map_of m k else None)"
  by (induction m) auto

lemma map_of_clear: "map_of (foldl (\<lambda>m i. AList.update i v m) m xs) k = (if k \<in> set xs then Some v else map_of m k)"
  by (induction xs arbitrary: m) auto

lemma in_roster_Some: "in_roster (Some m) i p \<longleftrightarrow> (\<exists>ps. map_of m i = Some ps \<and> p \<in> set ps)"
  by (auto simp: in_roster_def split: option.split)

lemma in_roster_add: "in_roster (Some (add_member m kp)) i p \<longleftrightarrow> (i, p) = kp \<or> in_roster (Some m) i p"
  by (cases kp) (auto simp: in_roster_Some add_member_def nullish_def split: option.splits)

lemma in_roster_adds: "in_roster (Some (foldl add_member m rows)) i p \<longleftrightarrow> (i, p) \<in> set rows \<or> in_roster (Some m) i p"
  by (induction rows arbitrary: m) (auto simp: in_roster_add)

lemma in_roster_map:
  "in_roster (Some (roster_map listed rosterIds rows old)) i p \<longleftrightarrow>
    (if i \<in> set listed \<and> i \<in> set rosterIds then (i, p) \<in> set rows \<and> i \<noteq> [] \<and> p \<noteq> []
     else i \<in> set listed \<and> in_roster (Some old) i p)"
  unfolding roster_map_def in_roster_adds
  by (auto simp: in_roster_Some map_of_clear map_of_filter_key)

lemma in_roster_revoke: "in_roster (Some (revoke_member m kp)) i p \<longleftrightarrow> in_roster (Some m) i p \<and> (i, p) \<noteq> kp"
  by (cases kp) (auto simp: in_roster_Some revoke_member_def split: option.splits)

lemma in_roster_revokes:
  "in_roster (map_option (\<lambda>m. foldl revoke_member m rv) rosters) i p \<longleftrightarrow> in_roster rosters i p \<and> (i, p) \<notin> set rv"
proof (cases rosters)
  case (Some m)
  have "in_roster (Some (foldl revoke_member m rv)) i p \<longleftrightarrow> in_roster (Some m) i p \<and> (i, p) \<notin> set rv" for m
    by (induction rv arbitrary: m) (auto simp: in_roster_revoke)
  then show ?thesis by (simp add: Some)
qed (simp add: in_roster_def)

lemma set_adds: "set (foldl (\<lambda>ks i. js_add i ks) ks xs) = set ks \<union> set xs"
  by (induction xs arbitrary: ks) auto

text \<open>A synchronisation that lists a private channel with its roster determines its members.\<close>

definition roster_given :: "string list option \<Rightarrow> string \<Rightarrow> bool" where
  "roster_given rosterIds i = (case rosterIds of None \<Rightarrow> True | Some rs \<Rightarrow> i \<in> set rs)"

lemma replaceChannels_roster:
  assumes "replaceChannels chs (Some rows) syncedAt rosterIds revs d = (d', True)"
    and "c \<in> set chs" "dc_channelId c = i" "i \<noteq> []" "dc_name c \<noteq> []" "roster_given rosterIds i"
  shows "dr_channels d' = filter (\<lambda>c. dc_channelId c \<noteq> [] \<and> dc_name c \<noteq> []) chs"
    and "known_roster (dr_knownChannelRosters d') i"
    and "in_roster (dr_channelMembers d') i p \<longleftrightarrow> (i, p) \<in> set rows \<and> p \<noteq> [] \<and> (i, p) \<notin> set revs"
proof -
  let ?chs = "filter (\<lambda>c. dc_channelId c \<noteq> [] \<and> dc_name c \<noteq> []) chs"
  let ?listed = "dedupe (map dc_channelId ?chs)"
  let ?ids = "dedupe (nullish rosterIds (map dc_channelId ?chs))"
  from assms(1) obtain s1 where s1: "acceptSync ''channels'' syncedAt d = Some s1"
    by (auto simp: replaceChannels_def split: option.splits)
  have listed: "i \<in> set ?listed" using assms(2-5) by auto
  have given: "i \<in> set ?ids" using assms(6) listed by (cases rosterIds) (simp_all add: roster_given_def)
  from assms(1) s1 have d': "dr_channels d' = ?chs"
    "dr_channelMembers d' = map_option (\<lambda>m. foldl revoke_member m (filter (\<lambda>(i, p). i \<in> set ?listed \<and> p \<noteq> []) revs))
       (Some (roster_map ?listed ?ids rows (nullish (dr_channelMembers s1) [])))"
    "dr_knownChannelRosters d' = Some (foldl (\<lambda>ks i. js_add i ks)
       (nullish (map_option (filter (\<lambda>i. i \<in> set ?listed)) (dr_knownChannelRosters s1)) []) (filter (\<lambda>i. i \<in> set ?listed) ?ids))"
    by (auto simp: replaceChannels_def Let_def simp del: set_dedupe)
  show "dr_channels d' = ?chs" by (rule d'(1))
  show "known_roster (dr_knownChannelRosters d') i" using listed given by (simp add: d'(3) known_roster_def set_adds)
  show "in_roster (dr_channelMembers d') i p \<longleftrightarrow> (i, p) \<in> set rows \<and> p \<noteq> [] \<and> (i, p) \<notin> set revs"
    unfolding d'(2) in_roster_revokes using listed given assms(4) by (auto simp: in_roster_map simp del: set_dedupe)
qed

section \<open>Leaving a private channel\<close>

lemma self_in_person_ids: "p \<noteq> [] \<Longrightarrow> p \<in> set (person_ids deps p)"
  by (simp add: person_ids_def Let_def)

lemma wired_simps:
  "direct_member (wired orgId now idy d ps sessions) channel r i = channelMember d r i"
  "direct_member (wired orgId now idy d ps sessions) group r i = groupMember d r i"
  "channel_privacy (wired orgId now idy d ps sessions) r = channelPrivacy d r"
  "sharedScopeMembership (wired orgId now idy d ps sessions) channel r i =
     (if activePrincipal (wired orgId now idy d ps sessions) i then channelMembership d r i else Some False)"
  "recognized (wired orgId now idy d ps sessions) r = isProjectGroupRef r"
  "managed_member (wired orgId now idy d ps sessions) r i = (project_membership (is_active idy now) orgId ps r i = Some True)"
  by (simp_all add: wired_def direct_member_def memory_directory_def channel_privacy_def sharedScopeMembership_def recognized_def
      managed_projects_def managed_member_def)

lemma authorizes_channel:
  assumes "sc_scopeId claims = scopeId channel r" and "channelPrivacy d r = Some True"
    and "\<not> (sc_botActor claims \<and> sc_liveActor claims)" and "authorizesCapabilityScope orgId now idy d ps claims"
  shows "channelMembership d r (sc_actorId claims) = Some True \<or>
    canWriteScope (wired orgId now idy d ps None) (sc_actorId claims) (scopeId channel r)"
proof -
  have acc: "canAccessCurrentScope (wired orgId now idy d ps None) (sc_actorId claims) (scopeId channel r) =
      canWriteScope (wired orgId now idy d ps None) (sc_actorId claims) (scopeId channel r)"
    by (simp add: canAccessCurrentScope_def wired_simps(3) assms(2))
  have "case channelMembership d r (sc_actorId claims) of Some b \<Rightarrow> b
      | None \<Rightarrow> canAccessCurrentScope (wired orgId now idy d ps None) (sc_actorId claims) (scopeId channel r)"
    using assms(4) unfolding authorizesCapabilityScope_def Let_def assms(1) parse_scopeId
    using assms(2,3) by (simp split: if_split_asm) blast
  then show ?thesis unfolding acc by (simp split: option.split_asm)
qed

text \<open>A private channel of which a person is on no roster under any of their ids.\<close>

definition shut_out :: "directory \<Rightarrow> string \<Rightarrow> string list \<Rightarrow> bool" where
  "shut_out d i ids \<longleftrightarrow> channelPrivacy d i = Some True \<and> known_roster (dr_knownChannelRosters d) i \<and>
     (\<forall>q \<in> set ([] # ids). \<not> in_roster (dr_channelMembers d) i q)"

lemma replaceChannels_shuts_out:
  assumes "replaceChannels chs (Some rows) syncedAt rosterIds revs d = (d', True)" and "roster_given rosterIds i"
    and "c \<in> set chs" "dc_channelId c = i" "i \<noteq> []" "dc_name c \<noteq> []"
    and priv: "\<forall>c \<in> set chs. dc_channelId c = i \<longrightarrow> dc_isPrivate c = Some True"
    and out: "\<forall>q \<in> set ids. (i, q) \<notin> set rows \<or> (i, q) \<in> set revs"
  shows "shut_out d' i ids"
proof -
  note roster = replaceChannels_roster[OF assms(1,3,4,5,6,2)]
  have "find_channel i d' \<noteq> None" unfolding find_channel_def roster(1) using assms(3-6) by (auto simp: find_None_iff)
  then obtain c' where f: "find_channel i d' = Some c'" by blast
  from find_SomeD[OF f[unfolded find_channel_def]] have "c' \<in> set chs" "dc_channelId c' = i" by (simp_all add: roster(1))
  then have "channelPrivacy d' i = Some True" using priv f by (simp add: channelPrivacy_def)
  then show ?thesis using roster(2,3) out by (auto simp: shut_out_def)
qed

lemma shut_out_membership:
  assumes "shut_out d i ids" and "p \<in> set ([] # ids)"
  shows "channelMembership d i p = Some False"
proof -
  from assms(1) obtain c where c: "find_channel i d = Some c" "dc_isPrivate c = Some True"
    by (auto simp: shut_out_def channelPrivacy_def)
  have "\<not> in_roster (dr_channelMembers d) i p" "known_roster (dr_knownChannelRosters d) i" using assms by (auto simp: shut_out_def)
  then show ?thesis by (simp add: channelMembership_def c Let_def)
qed

lemma shut_out_current:
  assumes "shut_out d i (person_ids (wired orgId now idy d ps sessions) p)"
  shows "\<not> currentSharedScopeMember (wired orgId now idy d ps sessions) channel i p"
proof -
  have "\<not> channelMember d i q" if "q \<in> set (person_ids (wired orgId now idy d ps sessions) p)" for q
    using assms that by (simp add: shut_out_def channelMember_def)
  then show ?thesis by (simp add: currentSharedScopeMember_def Let_def list_ex_iff wired_simps)
qed

lemma shut_out_access:
  assumes "shut_out d i (person_ids (wired orgId now idy d ps sessions) p)"
  shows "\<not> canReadScope (wired orgId now idy d ps sessions) p (scopeId channel i)"
    and "\<not> canWriteScope (wired orgId now idy d ps sessions) p (scopeId channel i)"
    and "\<not> canManageScope (wired orgId now idy d ps sessions) p (scopeId channel i)"
proof -
  have priv: "channelPrivacy d i = Some True" using assms by (simp add: shut_out_def)
  show "\<not> canReadScope (wired orgId now idy d ps sessions) p (scopeId channel i)"
  proof (cases "p = []")
    case False
    then have "channelMembership d i p = Some False" using shut_out_membership[OF assms] self_in_person_ids by simp
    then have "\<not> memberOfSharedScope (wired orgId now idy d ps sessions) channel i p (scopeId channel i)"
      by (simp add: memberOfSharedScope_def wired_simps)
    then show ?thesis by (simp add: canReadScope_def wired_simps priv)
  qed (simp add: canReadScope_def)
  show "\<not> canWriteScope (wired orgId now idy d ps sessions) p (scopeId channel i)"
    using shut_out_current[OF assms] by (simp add: canWriteScope_def)
  show "\<not> canManageScope (wired orgId now idy d ps sessions) p (scopeId channel i)"
    using shut_out_current[OF assms] by (simp add: canManageScope_def)
qed

text \<open>Who leaves a private channel loses its scope at once. After a synchronisation of the directory that lists a
  private channel with its roster, a person none of whose ids is in the roster, or all of whose ids are among the
  revocations, can neither read, write nor manage the scope of the channel, whatever sessions they took part in, and
  no capability of theirs for it is honoured, an attested bot's apart.\<close>

theorem leaver_loses_channel:
  assumes "replaceChannels chs (Some rows) syncedAt rosterIds revs d = (d', True)" and "roster_given rosterIds i"
    and "\<exists>c \<in> set chs. dc_channelId c = i \<and> i \<noteq> [] \<and> dc_name c \<noteq> []"
    and "\<forall>c \<in> set chs. dc_channelId c = i \<longrightarrow> dc_isPrivate c = Some True"
    and "\<forall>q \<in> set (person_ids (wired orgId now idy d' ps None) p). (i, q) \<notin> set rows \<or> (i, q) \<in> set revs"
  shows "\<not> canReadScope (wired orgId now idy d' ps sessions) p (scopeId channel i)
    \<and> \<not> canWriteScope (wired orgId now idy d' ps sessions) p (scopeId channel i)
    \<and> \<not> canManageScope (wired orgId now idy d' ps sessions) p (scopeId channel i)
    \<and> (sc_actorId claims = p \<and> sc_scopeId claims = scopeId channel i \<and> \<not> (sc_botActor claims \<and> sc_liveActor claims) \<longrightarrow>
        \<not> authorizesCapabilityScope orgId now idy d' ps claims)"
proof -
  from assms(3) obtain c where c: "c \<in> set chs" "dc_channelId c = i" "i \<noteq> []" "dc_name c \<noteq> []" by (elim bexE conjE)
  have out: "shut_out d' i (person_ids (wired orgId now idy d' ps None) p)"
    by (rule replaceChannels_shuts_out[OF assms(1,2) c assms(4,5)])
  have "person_ids (wired orgId now idy d' ps sessions) p = person_ids (wired orgId now idy d' ps None) p"
    by (simp add: person_ids_def wired_def)
  then have out': "shut_out d' i (person_ids (wired orgId now idy d' ps sessions) p)" using out by simp
  have "\<not> authorizesCapabilityScope orgId now idy d' ps claims"
    if "sc_actorId claims = p" "sc_scopeId claims = scopeId channel i" "\<not> (sc_botActor claims \<and> sc_liveActor claims)"
  proof
    assume a: "authorizesCapabilityScope orgId now idy d' ps claims"
    have "channelPrivacy d' i = Some True" using out by (simp add: shut_out_def)
    from authorizes_channel[OF that(2) this that(3) a] have "channelMembership d' i p = Some True"
      using shut_out_access(2)[OF out] that(1) by simp
    moreover have "p \<in> set ([] # person_ids (wired orgId now idy d' ps None) p)" using self_in_person_ids by (cases "p = []") simp_all
    ultimately show False using shut_out_membership[OF out] by simp
  qed
  then show ?thesis using shut_out_access[OF out'] by simp
qed

section \<open>Rosters of projects\<close>

lemma show_int_inj: "show_int a = show_int b \<Longrightarrow> a = b"
proof -
  assume eq: "show_int a = show_int b"
  have no_minus: "show_nat n \<noteq> CHR ''-'' # xs" for n xs
  proof
    assume "show_nat n = CHR ''-'' # xs"
    moreover have "hd (show_nat n) \<in> digit_char ` {..<10}"
      by (induction n rule: show_nat.induct) (subst show_nat.simps, auto simp: hd_append)
    ultimately obtain k where "k < 10" "digit_char k = CHR ''-''" by auto
    then have "of_char (CHR ''-'') = 48 + k" using of_char_digit by metis
    then show False by simp
  qed
  show "a = b"
  proof (cases "a < 0"; cases "b < 0")
    assume "a < 0" "b < 0"
    with eq have "nat (- a) = nat (- b)" by (intro show_nat_inj) (simp add: show_int_def)
    with \<open>a < 0\<close> \<open>b < 0\<close> show ?thesis by simp
  next
    assume "\<not> a < 0" "\<not> b < 0"
    with eq have "nat a = nat b" by (intro show_nat_inj) (simp add: show_int_def)
    with \<open>\<not> a < 0\<close> \<open>\<not> b < 0\<close> show ?thesis by simp
  next
    assume "a < 0" "\<not> b < 0"
    with eq no_minus[of "nat b" "show_nat (nat (- a))", symmetric] show ?thesis by (simp add: show_int_def)
  next
    assume "\<not> a < 0" "b < 0"
    with eq no_minus[of "nat a"] show ?thesis by (simp add: show_int_def)
  qed
qed

datatype roster_op =
  Op_add string string
| Op_remove string string
| Op_rename string string
| Op_link string string string
| Op_unlink string
| Op_sync "string list" "string option"

fun roster_do :: "(string \<Rightarrow> bool) \<Rightarrow> string \<Rightarrow> roster_op \<Rightarrow> int \<Rightarrow> project_store \<Rightarrow> project_store \<times> ProjectMutation" where
  "roster_do active i (Op_add actor m) now s = addMember active i actor m now s"
| "roster_do active i (Op_remove actor m) now s = removeMember active i actor m now s"
| "roster_do active i (Op_rename actor n) now s = rename_project active i actor n s"
| "roster_do active i (Op_link actor c n) now s = setSlackChannel active i actor (Some (c, n)) now s"
| "roster_do active i (Op_unlink actor) now s = setSlackChannel active i actor None now s"
| "roster_do active i (Op_sync ms n) now s = syncChannelMembers active i ms n now s"

lemma update_project_get:
  assumes "dm_get s i = Some p"
  shows "dm_get (fst (update_project i f s)) i = Some (snd (f p))"
  using assms by (simp add: update_project_def dm.get_put split: prod.split)

definition version_grows :: "Project \<Rightarrow> Project \<Rightarrow> bool" where
  "version_grows p p' \<longleftrightarrow> pj_orgId p' = pj_orgId p \<and> (pj_updatedAt p < pj_updatedAt p' \<or>
     (pj_updatedAt p' = pj_updatedAt p \<and> set (effectiveMemberIds p') = set (effectiveMemberIds p)))"

lemma version_grows_refl [simp]: "version_grows p p"
  by (simp add: version_grows_def)

lemma effective_members: "set (effectiveMemberIds p) = set (pj_memberIds p) \<union> set (nullish (pj_channelMemberIds p) [])"
  by (simp add: effectiveMemberIds_def)

lemma change_roster_grows: "version_grows p (snd (change_roster active actor m add now p))"
  by (auto simp: change_roster_def Let_def version_grows_def touched_def)

lemma link_channel_grows: "version_grows p (snd (link_channel active actor (Some cn) now p))"
  by (auto simp: link_channel_def Let_def version_grows_def effectiveMemberIds_def split: prod.split option.split)

lemma sync_members_grows: "version_grows p (snd (sync_members active ms n now p))"
proof (cases "pj_slackChannel p")
  case (Some c)
  have same: "set (sort (dedupe ms)) = set (nullish (pj_channelMemberIds p) [])"
    if "sort (nullish (pj_channelMemberIds p) []) = sort (dedupe ms)"
    using that by (metis set_sort)
  show ?thesis using same by (auto simp: sync_members_def Some Let_def version_grows_def touched_def effective_members)
qed (simp add: sync_members_def version_grows_def)

lemma roster_do_grows:
  assumes "dm_get s i = Some p" and "dm_get (fst (roster_do active i op now s)) i = Some p'" and "\<nexists>actor. op = Op_unlink actor"
  shows "version_grows p p'"
proof (cases op)
  case (Op_rename actor n)
  then show ?thesis using assms update_project_get[OF assms(1)]
    by (auto simp: rename_project_def Let_def version_grows_def effectiveMemberIds_def split: if_splits)
qed (use assms update_project_get[OF assms(1)] change_roster_grows link_channel_grows sync_members_grows in
  \<open>auto simp: addMember_def removeMember_def mutate_roster_def setSlackChannel_def syncChannelMembers_def
    split: if_splits\<close>)

lemma projectIdFromGroupRef_ref:
  assumes "i \<noteq> []" and "CHR '':'' \<notin> set i"
  shows "projectIdFromGroupRef (projectGroupRef i) = Some i"
  using assms by (simp add: projectIdFromGroupRef_def projectGroupRef_def isProjectGroupRef_def Let_def)

lemma authorizes_project:
  assumes "sc_scopeId claims = projectScopeId i" and "authorizesCapabilityScope orgId now idy d s claims"
  shows "sc_scopeVersion claims = project_version orgId s (projectGroupRef i)"
    and "projectForGroup orgId (projectGroupRef i) s \<noteq> None"
proof -
  have ref: "isProjectGroupRef (projectGroupRef i)" by (simp add: isProjectGroupRef_def projectGroupRef_def)
  from assms ref have w: "canWriteScope (wired orgId now idy d s None) (sc_actorId claims) (scopeId group (projectGroupRef i))"
    and v: "sc_scopeVersion claims = project_version orgId s (projectGroupRef i)"
    by (simp_all add: authorizesCapabilityScope_def projectScopeId_def Let_def)
  show "sc_scopeVersion claims = project_version orgId s (projectGroupRef i)" by (rule v)
  from w ref obtain q where "managed_member (wired orgId now idy d s None) (projectGroupRef i) q"
    by (auto simp: canWriteScope_def currentSharedScopeMember_def Let_def wired_simps(5) list_ex_iff split: if_split_asm)
  then show "projectForGroup orgId (projectGroupRef i) s \<noteq> None" by (auto simp: wired_simps(6) project_membership_def)
qed

text \<open>C22: A capability for a project ends with the roster it was given for. If an operation on a project, other than
  unlinking its channel, changes who its members are, then a capability that carries the version from before is no
  longer honoured, and nothing guarded by that version runs. Unlinking the channel is the exception: it drops the
  members derived from the channel and leaves the version as it was.\<close>

theorem roster_change_ends_capabilities:
  assumes "dm_get s i = Some p" and "i \<noteq> []" and "CHR '':'' \<notin> set i" and "pj_orgId p = orgId"
    and "roster_do active i op now s = (s', r)" and "dm_get s' i = Some p'"
    and "sc_scopeId claims = projectScopeId i" and "sc_scopeVersion claims = project_version orgId s (projectGroupRef i)"
  shows "((\<nexists>actor. op = Op_unlink actor) \<and> set (effectiveMemberIds p') \<noteq> set (effectiveMemberIds p) \<longrightarrow>
      \<not> authorizesCapabilityScope orgId t idy d s' claims \<and> \<not> withVersion_runs orgId (projectGroupRef i) (sc_scopeVersion claims) s')
    \<and> (op = Op_unlink actor \<longrightarrow> project_version orgId s' (projectGroupRef i) = sc_scopeVersion claims \<and>
        (r = Mutated p' True \<longrightarrow> set (effectiveMemberIds p') = set (pj_memberIds p)))"
proof -
  note ref = projectIdFromGroupRef_ref[OF assms(2,3)]
  have old: "sc_scopeVersion claims = Some (show_int (pj_updatedAt p))"
    using assms(1,4,8) by (simp add: project_version_def projectForGroup_def ref)
  have "\<not> authorizesCapabilityScope orgId t idy d s' claims \<and> \<not> withVersion_runs orgId (projectGroupRef i) (sc_scopeVersion claims) s'"
    if "\<nexists>actor. op = Op_unlink actor" "set (effectiveMemberIds p') \<noteq> set (effectiveMemberIds p)"
  proof -
    have "dm_get (fst (roster_do active i op now s)) i = Some p'" using assms(5,6) by simp
    then have "version_grows p p'" by (rule roster_do_grows[OF assms(1) _ that(1)])
    then have lt: "pj_updatedAt p < pj_updatedAt p'" "pj_orgId p' = orgId" using that(2) assms(4) by (simp_all add: version_grows_def)
    then have neq: "sc_scopeVersion claims \<noteq> Some (show_int (pj_updatedAt p'))" using old show_int_inj by fastforce
    have "\<not> authorizesCapabilityScope orgId t idy d s' claims"
    proof
      assume "authorizesCapabilityScope orgId t idy d s' claims"
      from authorizes_project(1)[OF assms(7) this] neq lt(2) show False
        by (simp add: project_version_def projectForGroup_def ref assms(6))
    qed
    moreover have "\<not> withVersion_runs orgId (projectGroupRef i) (sc_scopeVersion claims) s'"
      using neq by (simp add: withVersion_runs_def ref assms(6))
    ultimately show ?thesis ..
  qed
  moreover have "project_version orgId s' (projectGroupRef i) = sc_scopeVersion claims \<and>
      (r = Mutated p' True \<longrightarrow> set (effectiveMemberIds p') = set (pj_memberIds p))" if "op = Op_unlink actor"
  proof -
    from assms(5) that have e: "s' = fst (update_project i (link_channel active actor None now) s)"
      "r = snd (update_project i (link_channel active actor None now) s)" by (simp_all add: setSlackChannel_def)
    have p': "p' = snd (link_channel active actor None now p)" using update_project_get[OF assms(1)] assms(6) e(1) by simp
    have r: "r = fst (link_channel active actor None now p)" using assms(1) e(2) by (simp add: update_project_def split: prod.split)
    have "pj_updatedAt p' = pj_updatedAt p" "pj_orgId p' = pj_orgId p" unfolding p' by (simp_all add: link_channel_def Let_def)
    moreover have "r = Mutated p' True \<longrightarrow> set (effectiveMemberIds p') = set (pj_memberIds p)"
      unfolding p' r by (simp add: link_channel_def Let_def effective_members)
    ultimately show ?thesis using old assms(4) by (simp add: project_version_def projectForGroup_def ref assms(6))
  qed
  ultimately show ?thesis by blast
qed

section \<open>Listed members\<close>

text \<open>What the checks rely on in the directory of managed groups: it answers for whom it lists.\<close>

locale managed_group_directory =
  fixes recognizes :: "string \<Rightarrow> bool"
    and membership :: "string \<Rightarrow> string \<Rightarrow> bool option option"
    and members :: "string \<Rightarrow> string list option option"
  assumes listed_answer: "members g = Some (Some ms) \<Longrightarrow> i \<in> set ms \<Longrightarrow> membership g i = Some (Some True)"
begin

definition as_deps :: "ManagedGroupDirectory" where
  "as_deps = \<lparr>mg_recognizes = recognizes, mg_membership = membership, mg_members = members\<rparr>"

lemma managed_listed:
  assumes "sm_managedGroups deps = Some as_deps" and "recognized deps r"
    and "currentScopeMembers deps (scopeId group r) = Some (Some ps)" and "p \<in> set ps" and "p_id p \<noteq> []"
  shows "isCurrentSharedScopeMember deps (p_id p) (scopeId group r)"
proof -
  from assms(1-3) obtain ms where ms: "members r = Some ms" "ps = List.map_filter (\<lambda>i. member_principal deps i None) (nullish ms [])"
    by (auto simp: currentScopeMembers_def as_deps_def)
  then obtain i where i: "i \<in> set (nullish ms [])" "member_principal deps i None = Some p"
    using assms(4) by (auto simp: List.map_filter_def)
  then obtain ms' where "ms = Some ms'" "i \<in> set ms'" by (cases ms) auto
  then have answer: "membership r i = Some (Some True)" using listed_answer ms(1) by blast
  have p: "p_id p = i" "activePrincipal deps i" using i(2)
    by (auto simp: member_principal_def activePrincipal_def Let_def split: if_split_asm option.split bind_splits)
  then have "managed_member deps r i" using answer assms(1) by (simp add: managed_member_def as_deps_def)
  then have "currentSharedScopeMember deps group r i"
    using p assms(2,5) self_in_person_ids[of i deps] by (auto simp: currentSharedScopeMember_def Let_def list_ex_iff)
  then show ?thesis using assms(5) p(1) by (simp add: isCurrentSharedScopeMember_def)
qed

end

interpretation projects: managed_group_directory isProjectGroupRef "\<lambda>g p. Some (project_membership active orgId s g p)"
    "\<lambda>g. Some (project_members active orgId s g)" for active orgId s
  by unfold_locales (auto simp: project_members_def project_membership_def project_member_def split: if_split_asm)

lemma managed_projects_eq: "managed_projects active orgId s = projects.as_deps active orgId s"
  by (simp add: managed_projects_def projects.as_deps_def)

lemma included_sound:
  "included deps f cs = Some ps \<Longrightarrow> p \<in> set ps \<Longrightarrow> \<exists>i nm. f i = Some True \<and> member_principal deps i nm = Some p"
  by (induction cs arbitrary: ps) (auto split: option.split_asm if_split_asm prod.split_asm, blast+)

lemma member_principal_SomeD:
  "member_principal deps i name = Some p \<Longrightarrow> p_id p = i \<and> p_type p = internal \<and> activePrincipal deps i"
  by (auto simp: member_principal_def activePrincipal_def Let_def split: if_split_asm option.split bind_splits)

lemma directory_listed:
  assumes "directory_members deps kind r d = Some (Some ps)" and "sm_directory deps = Some d" and "kind \<in> {channel, group}"
    and "\<not> (kind = group \<and> recognized deps r)" and "p \<in> set ps" and "p_id p \<noteq> []"
  shows "currentSharedScopeMember deps kind r (p_id p)"
proof -
  from assms(1) obtain cs where "included deps (\<lambda>i. if kind = channel then sd_channelMember d r i else sd_groupMember d r i) cs = Some ps"
    by (auto simp: directory_members_def split: option.split_asm if_split_asm)
  from included_sound[OF this assms(5)] obtain i name where
    "(if kind = channel then sd_channelMember d r i else sd_groupMember d r i) = Some True" "member_principal deps i name = Some p" by blast
  moreover from this(2) have "p_id p = i" "activePrincipal deps i" using member_principal_SomeD by blast+
  ultimately have "direct_member deps kind r (p_id p)" "activePrincipal deps (p_id p)" using assms(2) by (simp_all add: direct_member_def)
  then show ?thesis using self_in_person_ids[OF assms(6), of deps] assms(4) by (auto simp: currentSharedScopeMember_def Let_def list_ex_iff)
qed

text \<open>Whoever is listed is a member. If the members of a channel, a group or a project can be listed, then each one
  listed is an internal person who passes the check of current membership and may write to the scope.\<close>

theorem listed_members_are_members:
  assumes "currentScopeMembers (wired orgId now idy d ps sessions) scope = Some (Some members)"
    and "p \<in> set members" and "p_id p \<noteq> []"
  shows "isCurrentSharedScopeMember (wired orgId now idy d ps sessions) (p_id p) scope
    \<and> canWriteScope (wired orgId now idy d ps sessions) (p_id p) scope"
proof -
  let ?deps = "wired orgId now idy d ps sessions"
  from assms(1) obtain kind r where scope: "parseScopeId scope = (Some kind, r)" and kind: "kind \<in> {channel, group}"
    by (auto simp: currentScopeMembers_def split: prod.split_asm option.split_asm if_split_asm)
  have cur: "currentSharedScopeMember ?deps kind r (p_id p)"
  proof (cases "kind = group \<and> recognized ?deps r")
    case True
    have "currentScopeMembers ?deps (scopeId group r) = currentScopeMembers ?deps scope"
      using True scope by (simp add: currentScopeMembers_def)
    with projects.managed_listed[of ?deps "is_active idy now" orgId ps r members p] True assms
    have "isCurrentSharedScopeMember ?deps (p_id p) (scopeId group r)" by (simp add: wired_def managed_projects_eq)
    then show ?thesis using True by (simp add: isCurrentSharedScopeMember_def split: if_split_asm)
  next
    case False
    then have "directory_members ?deps kind r (memory_directory d) = Some (Some members)"
      using assms(1) scope kind by (auto simp: currentScopeMembers_def wired_def)
    then show ?thesis by (rule directory_listed) (use False kind assms(2,3) in \<open>simp_all add: wired_def\<close>)
  qed
  then have "activePrincipal ?deps (p_id p)" by (simp add: currentSharedScopeMember_def split: if_split_asm)
  then show ?thesis using cur kind scope assms(3) by (auto simp: isCurrentSharedScopeMember_def canWriteScope_def)
qed

subsection \<open>Instances\<close>

definition demo_identity :: identity where
  "demo_identity = \<lparr>ij_isOverridden = (\<lambda>i. False), ij_protected = [], ij_deactivated = [], ij_externals = [], ij_store = [],
     ij_externalStore = [], ij_refreshedAt = 0\<rparr>"

definition demo_channel :: DirectoryChannel where
  "demo_channel = \<lparr>dc_channelId = ''C1'', dc_name = ''one'', dc_isPrivate = Some True, dc_isExternal = None\<rparr>"

definition demo_directory :: directory where
  "demo_directory = fst (replaceChannels [demo_channel] (Some [(''C1'', ''ann''), (''C1'', ''bob'')]) None None []
     (fst (replace_members [\<lparr>dm_principalId = ''ann'', dm_displayName = ''Ann'', dm_type = internal, dm_slackId = None\<rparr>] None empty_directory)))"

text \<open>Bob is no longer on the roster of the channel.\<close>

theorem leaver_loses_channel_witness:
  "canReadScope (wired ''o'' 0 demo_identity demo_directory [] None) ''bob'' ''channel:C1'' \<and>
   \<not> canReadScope (wired ''o'' 0 demo_identity
       (fst (replaceChannels [demo_channel] (Some [(''C1'', ''ann'')]) None None [] demo_directory)) [] None) ''bob'' ''channel:C1''"
proof -
  let ?r = "replaceChannels [demo_channel] (Some [(''C1'', ''ann'')]) None None [] demo_directory"
  obtain d' where r: "?r = (d', True)" by (simp add: replaceChannels_def acceptSync_def Let_def)
  have d': "d' = fst ?r" by (simp add: r)
  have read: "canReadScope (wired ''o'' 0 demo_identity demo_directory [] None) ''bob'' ''channel:C1''" by code_simp
  have "\<forall>q \<in> set (person_ids (wired ''o'' 0 demo_identity d' [] None) ''bob''). (''C1'', q) \<notin> set [(''C1'', ''ann'')] \<or> (''C1'', q) \<in> set []"
    unfolding d' by code_simp
  from leaver_loses_channel[OF r _ _ _ this, of None]
  have "\<not> canReadScope (wired ''o'' 0 demo_identity d' [] None) ''bob'' (scopeId channel ''C1'')"
    by (simp add: roster_given_def demo_channel_def)
  moreover have "scopeId channel ''C1'' = ''channel:C1''" by (simp add: scopeId_def)
  ultimately show ?thesis using read d' by simp
qed

definition demo_project :: Project where
  "demo_project = \<lparr>pj_id = ''p'', pj_orgId = ''o'', pj_name = ''P'', pj_ownerId = ''ann'', pj_memberIds = [''ann'', ''bob''],
     pj_channelMemberIds = None, pj_slackChannel = None, pj_createdAt = 1, pj_updatedAt = 1\<rparr>"

definition demo_claims :: scope_claims where
  "demo_claims = \<lparr>sc_actorId = ''ann'', sc_scopeId = ''group:web-project-p'', sc_scopeVersion = Some ''1'', sc_botActor = False,
     sc_liveActor = False, sc_members = None\<rparr>"

text \<open>Removing Bob ends Ann's capability.\<close>

theorem roster_change_ends_capabilities_witness:
  "authorizesCapabilityScope ''o'' 0 demo_identity demo_directory [(''p'', demo_project)] demo_claims \<and>
   \<not> authorizesCapabilityScope ''o'' 0 demo_identity demo_directory
       (fst (removeMember (\<lambda>i. True) ''p'' ''ann'' ''bob'' 5 [(''p'', demo_project)])) demo_claims"
proof -
  let ?s = "[(''p'', demo_project)]"
  let ?p' = "demo_project\<lparr>pj_memberIds := [''ann''], pj_updatedAt := 5\<rparr>"
  obtain s' r where op: "roster_do (\<lambda>i. True) ''p'' (Op_remove ''ann'' ''bob'') 5 ?s = (s', r)" by fastforce
  have s': "s' = fst (removeMember (\<lambda>i. True) ''p'' ''ann'' ''bob'' 5 ?s)" using op by simp
  have get: "dm_get ?s ''p'' = Some demo_project" by (simp add: dm_get_def)
  have get': "dm_get s' ''p'' = Some ?p'" unfolding s' by code_simp
  have "pj_orgId demo_project = ''o''" "sc_scopeId demo_claims = projectScopeId ''p''"
    "sc_scopeVersion demo_claims = project_version ''o'' ?s (projectGroupRef ''p'')"
    "set (effectiveMemberIds ?p') \<noteq> set (effectiveMemberIds demo_project)" by code_simp+
  with roster_change_ends_capabilities[OF get _ _ _ op get', of "''o''" demo_claims 0 demo_identity demo_directory]
  have "\<not> authorizesCapabilityScope ''o'' 0 demo_identity demo_directory s' demo_claims" by simp
  moreover have "authorizesCapabilityScope ''o'' 0 demo_identity demo_directory ?s demo_claims" by code_simp
  ultimately show ?thesis unfolding s' by simp
qed

theorem listed_members_are_members_witness:
  "isCurrentSharedScopeMember (wired ''o'' 0 demo_identity demo_directory [] None) ''ann'' ''channel:C1''"
proof -
  let ?ann = "\<lparr>p_id = ''ann'', p_type = internal, teamIds = None, displayName = Some ''Ann''\<rparr>"
  have "currentScopeMembers (wired ''o'' 0 demo_identity demo_directory [] None) ''channel:C1'' = Some (Some [?ann])" by code_simp
  from listed_members_are_members[OF this, of ?ann] show ?thesis by simp
qed

end
