(* ===== verification/Reach.thy ===== *)
theory Reach
  imports Delivery_Store Directory
begin

text \<open>
  Where a message may be sent (\<open>src/src/reach/reach.ts\<close>): a person, a channel or a group conversation is looked up
  in the directory, checked against what the person on whose authority it is sent may see, and enqueued in the outbox.
  Opening a new group conversation is done by the chat surface, an argument; a group that was opened is then registered
  in the directory.
\<close>

section \<open>The directory asked\<close>

record ReachDirectory = VisibilityDirectory +
  rd_resolveRecipient :: "string \<Rightarrow> DirectoryMember match"
  rd_resolveChannel :: "string \<Rightarrow> DirectoryChannel match"
  rd_resolveGroup :: "string list \<Rightarrow> string option"
  rd_directoryMember :: "string \<Rightarrow> DirectoryMember option"
  rd_openGroup :: "(string list \<Rightarrow> (string + string) option) option"

text \<open>The adapter of the service (\<open>src/src/api/app-helpers.ts\<close>); an answer \<^const>\<open>Inl\<close> of the surface is an error.\<close>

definition reachDir :: "directory \<Rightarrow> (string list \<Rightarrow> (string + string) option) option \<Rightarrow> ReachDirectory" where
  "reachDir s openGroup =
     \<lparr>vd_channelMember = channelMember s, vd_groupMember = groupMember s, vd_listChannelsFor = None,
      rd_resolveRecipient = resolve_member s, rd_resolveChannel = resolveChannel s,
      rd_resolveGroup = resolveGroupByParticipants s, rd_directoryMember = get_member s, rd_openGroup = openGroup\<rparr>"

section \<open>Destinations\<close>

definition plain_destination :: "string \<Rightarrow> string \<Rightarrow> ScopeId \<Rightarrow> Destination" where
  "plain_destination type target scope =
     \<lparr>d_type = type, d_target = target, d_audienceScopeId = Some scope, d_onBehalfOf = None, d_relaySender = None,
      d_threadTs = None, d_editRef = None, d_options = []\<rparr>"

definition principalDestination :: "string \<Rightarrow> string \<Rightarrow> Destination" where
  "principalDestination target onBehalfOf =
     (plain_destination ''principal'' target (scopeId personal target))\<lparr>d_onBehalfOf := Some onBehalfOf\<rparr>"

definition MAX_GROUP_DM_PARTICIPANTS :: nat where "MAX_GROUP_DM_PARTICIPANTS = 8"

record ReachRefusal =
  rf_status :: nat
  rf_error :: string
  rf_message :: string
  rf_candidates :: "(string \<times> string) list option"

record Reached =
  rx_destination :: Destination
  rx_recipient :: "(string \<times> string) option"
  rx_channel :: "(string \<times> string) option"
  rx_group :: "string option"

definition refuse :: "nat \<Rightarrow> string \<Rightarrow> string \<Rightarrow> ReachRefusal" where
  "refuse status error message = \<lparr>rf_status = status, rf_error = error, rf_message = message, rf_candidates = None\<rparr>"

definition groupTooLarge :: ReachRefusal where
  "groupTooLarge = refuse 400 ''group_too_large''
     (''a group DM holds at most '' @ show_nat MAX_GROUP_DM_PARTICIPANTS @ '' people including you -- use a channel instead'')"

definition openGroupViaSurface :: "string option \<Rightarrow> string option \<Rightarrow> (string + string) option" where
  "openGroupViaSurface groupId noteText =
     (if truthy groupId then map_option Inr groupId else if truthy noteText then map_option Inl noteText else None)"

definition membershipDenial :: "ReachDirectory \<Rightarrow> string \<Rightarrow> bool \<Rightarrow> ReachRefusal" where
  "membershipDenial dir authorityId is_channel =
     (if rd_directoryMember dir authorityId = None
      then refuse 403 ''identity_unverified'' ''I can't confirm your membership here -- your account isn't in this workspace's directory, so your login may not be linked to Slack (or it hasn't synced yet). Connecting / signing in with Slack should link it.''
      else refuse 403 ''not_a_member''
        (if is_channel then ''I can only post to a private channel you're in'' else ''I can only post to a group DM you're in''))"

record ReachTarget =
  rt_recipient :: "string option"
  rt_channel :: "string option"
  rt_participants :: "string list option"

definition recipient_refusal :: "string \<Rightarrow> DirectoryMember match \<Rightarrow> ReachRefusal" where
  "recipient_refusal query m =
     (case m of
        Match_ambiguous cs \<Rightarrow>
          (refuse 409 ''ambiguous_recipient'' (''\"'' @ query @ ''\" matches multiple teammates -- pass an exact name or id''))
            \<lparr>rf_candidates := Some (map (\<lambda>c. (dm_principalId c, dm_displayName c)) cs)\<rparr>
      | _ \<Rightarrow> refuse 404 ''recipient_not_found'' (''no internal teammate matches \"'' @ query @ ''\"''))"

definition reach_recipient :: "ReachDirectory \<Rightarrow> string \<Rightarrow> string \<Rightarrow> ReachRefusal + Reached" where
  "reach_recipient dir query authorityId =
     (case rd_resolveRecipient dir query of
        Match_one m \<Rightarrow> Inr \<lparr>rx_destination = principalDestination (dm_principalId m) authorityId,
          rx_recipient = Some (dm_principalId m, dm_displayName m), rx_channel = None, rx_group = None\<rparr>
      | r \<Rightarrow> Inl (recipient_refusal query r))"

definition reach_channel :: "ReachDirectory \<Rightarrow> string \<Rightarrow> string \<Rightarrow> ReachRefusal + Reached" where
  "reach_channel dir query authorityId =
     (case rd_resolveChannel dir query of
        Match_none \<Rightarrow> Inl (refuse 404 ''channel_not_found'' (''no channel I'm in matches \"'' @ query @ ''\"''))
      | Match_ambiguous cs \<Rightarrow>
          Inl ((refuse 409 ''ambiguous_channel'' (''\"'' @ query @ ''\" matches multiple channels -- pass an exact name or id''))
            \<lparr>rf_candidates := Some (map (\<lambda>c. (dc_channelId c, dc_name c)) cs)\<rparr>)
      | Match_one c \<Rightarrow>
          if \<not> isVisible dir authorityId (Channel_room (dc_channelId c) (Some (dc_isPrivate c = Some True)))
          then Inl (membershipDenial dir authorityId True)
          else Inr \<lparr>rx_destination = plain_destination ''slack'' (dc_channelId c) (scopeId channel (dc_channelId c)),
                     rx_recipient = None, rx_channel = Some (dc_channelId c, dc_name c), rx_group = None\<rparr>)"

definition groupDestination :: "string \<Rightarrow> Reached" where
  "groupDestination gid = \<lparr>rx_destination = plain_destination ''group'' gid (scopeId group gid), rx_recipient = None,
     rx_channel = None, rx_group = Some gid\<rparr>"

fun name_all :: "ReachDirectory \<Rightarrow> string list \<Rightarrow> ReachRefusal + string list" where
  "name_all dir [] = Inr []"
| "name_all dir (query # qs) =
     (case rd_resolveRecipient dir query of
        Match_one m \<Rightarrow> (case name_all dir qs of Inl e \<Rightarrow> Inl e | Inr named \<Rightarrow> Inr (dm_principalId m # named))
      | r \<Rightarrow> Inl (recipient_refusal query r))"

text \<open>The second component is the group that was opened and is to be registered, with its participants.\<close>

definition reach_group ::
  "ReachDirectory \<Rightarrow> string list \<Rightarrow> string \<Rightarrow> bool \<Rightarrow> (ReachRefusal + Reached) \<times> (string \<times> string list) option" where
  "reach_group dir asked0 authorityId mayOpenGroup =
     (if asked0 = [] then (Inl (refuse 400 ''bad_request'' ''participants must list the group DM's other members (at least one)''), None)
      else let asked = dedupe asked0 in
      if length asked > MAX_GROUP_DM_PARTICIPANTS then (Inl groupTooLarge, None)
      else case name_all dir asked of
        Inl e \<Rightarrow> (Inl e, None)
      | Inr named \<Rightarrow>
          let participants = dedupe (named @ [authorityId]) in
          if length participants < 2
          then (Inl (refuse 400 ''bad_request'' ''a group DM needs someone besides you -- name a `recipient` instead for a 1:1 DM''), None)
          else if length participants > MAX_GROUP_DM_PARTICIPANTS then (Inl groupTooLarge, None)
          else case rd_resolveGroup dir participants of
            Some gid \<Rightarrow>
              if \<not> isVisible dir authorityId (Group_room gid) then (Inl (membershipDenial dir authorityId False), None)
              else (Inr (groupDestination gid), None)
          | None \<Rightarrow>
              (case rd_openGroup dir of
                 None \<Rightarrow> (Inl (refuse 404 ''group_not_found'' ''no group DM I'm in has exactly those participants (it may not have synced yet)''), None)
               | Some openGroup \<Rightarrow>
                   if \<not> mayOpenGroup
                   then (Inl (refuse 404 ''group_not_found'' ''no group DM I'm in has exactly those participants -- post to it once with /v1/reach, which opens it, then address it here''), None)
                   else if rd_directoryMember dir authorityId = None then (Inl (membershipDenial dir authorityId False), None)
                   else (case openGroup participants of
                       Some (Inr gid) \<Rightarrow> (Inr (groupDestination gid), Some (gid, participants))
                     | Some (Inl e) \<Rightarrow> (Inl (refuse 502 ''group_open_failed'' e), None)
                     | None \<Rightarrow> (Inl (refuse 502 ''group_open_failed'' ''I couldn't open a group DM with those people just now -- try again in a moment''), None))))"

definition resolveReachTarget ::
  "ReachDirectory \<Rightarrow> ReachTarget \<Rightarrow> string \<Rightarrow> bool \<Rightarrow> (ReachRefusal + Reached) \<times> (string \<times> string list) option" where
  "resolveReachTarget dir target authorityId mayOpenGroup =
     (if length (filter (\<lambda>b. b) [rt_recipient target \<noteq> None, rt_channel target \<noteq> None, rt_participants target \<noteq> None]) > 1
      then (Inl (refuse 400 ''bad_request'' ''specify exactly one of recipient (a teammate), channel, or participants (a group DM)''), None)
      else case rt_recipient target of
        Some query \<Rightarrow> (reach_recipient dir query authorityId, None)
      | None \<Rightarrow> (case rt_channel target of
          Some query \<Rightarrow> (reach_channel dir query authorityId, None)
        | None \<Rightarrow> (case rt_participants target of
            Some ps \<Rightarrow> reach_group dir ps authorityId mayOpenGroup
          | None \<Rightarrow> (Inl (refuse 400 ''bad_request'' ''name a recipient (a teammate), a channel, or a group DM's participants''), None))))"

definition register_opened :: "(string \<times> string list) option \<Rightarrow> int \<Rightarrow> directory \<Rightarrow> directory" where
  "register_opened opened now s = (case opened of None \<Rightarrow> s | Some (gid, participants) \<Rightarrow> upsertGroup gid participants now s)"

section \<open>Enqueueing\<close>

definition set_option :: "string \<Rightarrow> json option \<Rightarrow> Destination \<Rightarrow> Destination" where
  "set_option k v d = (case v of None \<Rightarrow> d | Some j \<Rightarrow> d\<lparr>d_options := AList.update k j (d_options d)\<rparr>)"

definition withSlackUnfurlOption :: "Destination \<Rightarrow> bool option \<Rightarrow> Destination" where
  "withSlackUnfurlOption d unfurlLinks = set_option ''unfurlLinks'' (map_option JBool unfurlLinks) d"

definition withReact :: "Destination \<Rightarrow> (string \<times> string) option \<Rightarrow> Destination" where
  "withReact d react =
     set_option ''react'' (map_option (\<lambda>(ts, emoji). JObj [(''messageTs'', JStr ts), (''emoji'', JStr emoji)]) react) d"

definition withDelete :: "Destination \<Rightarrow> string option \<Rightarrow> Destination" where
  "withDelete d ts = set_option ''delete'' (map_option (\<lambda>t. JObj [(''messageTs'', JStr t)]) ts) d"

definition withThread :: "Destination \<Rightarrow> string option \<Rightarrow> Destination" where
  "withThread d threadTs =
     (if \<not> truthy threadTs then d
      else if d_type d = ''principal'' then d\<lparr>d_threadTs := threadTs\<rparr>
      else d\<lparr>d_target := d_target d @ '':'' @ the threadTs\<rparr>)"

definition withEdit :: "Destination \<Rightarrow> string option \<Rightarrow> Destination" where
  "withEdit d editRef = (if truthy editRef then d\<lparr>d_editRef := editRef\<rparr> else d)"

definition withWebTranscriptText :: "Destination \<Rightarrow> Destination" where
  "withWebTranscriptText d =
     (if d_type d = ''web'' then set_option ''webTranscript'' (Some (JObj [(''kind'', JStr ''reply'')])) d else d)"

definition isThirdPartyRelay :: "Destination \<Rightarrow> string option \<Rightarrow> bool" where
  "isThirdPartyRelay d attributeAs =
     (if attributeAs = None then False
      else if d_type d = ''group'' then True
      else if d_type d \<noteq> ''principal'' then False
      else d_onBehalfOf d \<noteq> Some (d_target d))"

record ReachEnqueueInput =
  re_destination :: Destination
  re_text :: string
  re_attachments :: "json list option"
  re_idempotencyKey :: string
  re_provenance :: "DeliveryProvenance option"
  re_attributeAs :: "string option"
  re_shadow :: bool

definition reach_delivery :: "ReachEnqueueInput \<Rightarrow> EnqueueDelivery" where
  "reach_delivery input =
     (let d = re_destination input in
      if map_of (d_options d) ''react'' \<noteq> None \<or> map_of (d_options d) ''delete'' \<noteq> None
      then \<lparr>ed_destination = d, ed_text = [], ed_attachments = None, ed_provenance = re_provenance input,
            ed_idempotencyKey = re_idempotencyKey input, ed_shadow = re_shadow input\<rparr>
      else let relaySender = (if isThirdPartyRelay d (re_attributeAs input) then map_option trim (re_attributeAs input) else None) in
        \<lparr>ed_destination = (if truthy relaySender then d\<lparr>d_relaySender := relaySender\<rparr> else d), ed_text = re_text input,
         ed_attachments = some_attachments (re_attachments input), ed_provenance = re_provenance input,
         ed_idempotencyKey = re_idempotencyKey input, ed_shadow = re_shadow input\<rparr>)"

definition reachEnqueue :: "ReachEnqueueInput \<Rightarrow> int \<Rightarrow> string \<Rightarrow> delivery_store \<Rightarrow> delivery_store \<times> Delivery" where
  "reachEnqueue input now uuid s = enqueue_delivery (reach_delivery input) now uuid s"

end
