(* ===== verification/Reach_Properties.thy ===== *)
theory Reach_Properties
  imports Reach Membership
begin

text \<open>
  What reaching out guarantees: a message goes only to internal people, to channels its authority may see and to
  groups its authority is in; and who was deactivated by hand stays out until somebody takes that back.
\<close>

declare map_of_eq_Some_iff [simp del]

section \<open>Matching\<close>

lemma pickMatch_one: "pickMatch items q ident label = Match_one x \<Longrightarrow> x \<in> set items"
proof -
  assume m: "pickMatch items q ident label = Match_one x"
  show ?thesis
  proof (cases "find (\<lambda>t. toLowerCase (ident t) = normDirectoryQuery q) items")
    case (Some t)
    then have "x = t" using m by (auto simp: pickMatch_def Let_def split: if_split_asm)
    then show ?thesis using find_SomeD[OF Some] by simp
  next
    case None
    have hd_in: "hd (filter P items) \<in> set items" if "length (filter P items) = 1" for P
      using that by (cases "filter P items") (auto simp: filter_eq_Cons_iff)
    show ?thesis using m None hd_in
      by (auto simp: pickMatch_def Let_def split: if_split_asm)
  qed
qed

lemma resolve_member_one: "resolve_member s q = Match_one m \<Longrightarrow> m \<in> set (dr_members s)"
  by (auto simp: resolve_member_def split: option.split_asm dest: pickMatch_one find_SomeD)

section \<open>Reachable directories\<close>

inductive directory_step :: "directory \<Rightarrow> directory \<Rightarrow> bool" where
  step_members: "directory_step s (fst (replace_members ms at' s))"
| step_channels: "directory_step s (fst (replaceChannels chs rows at' ids revs s))"
| step_groups: "directory_step s (fst (replaceGroups rows at' ids rids s))"
| step_upsert: "directory_step s (upsertGroup g ps now s)"
| step_url: "directory_step s (setWorkspaceUrl url s)"

definition people_internal :: "directory \<Rightarrow> bool" where
  "people_internal s \<longleftrightarrow> (\<forall>m \<in> set (dr_members s). dm_type m = internal \<and> dm_principalId m \<noteq> [])"

lemma acceptSync_members: "acceptSync sec t s = Some s' \<Longrightarrow> dr_members s' = dr_members s"
  by (auto simp: acceptSync_def split: option.split_asm if_split_asm)

lemma replaceChannels_members: "dr_members (fst (replaceChannels chs rows t ids revs s)) = dr_members s"
proof (cases "acceptSync ''channels'' t s")
  case (Some s1)
  then show ?thesis using acceptSync_members[OF Some] by (simp add: replaceChannels_def Let_def split: option.split)
qed (simp add: replaceChannels_def)

lemma replaceGroups_members: "dr_members (fst (replaceGroups rows t ids rids s)) = dr_members s"
proof (cases "acceptSync ''groups'' t s")
  case (Some s1)
  then show ?thesis using acceptSync_members[OF Some] by (simp add: replaceGroups_def Let_def)
qed (simp add: replaceGroups_def)

lemma other_members: "dr_members (upsertGroup g ps now s) = dr_members s" "dr_members (setWorkspaceUrl url s) = dr_members s"
  by (simp_all add: upsertGroup_def setWorkspaceUrl_def Let_def)

lemma replace_members_internal: "people_internal s \<Longrightarrow> people_internal (fst (replace_members ms t s))"
  by (auto simp: replace_members_def people_internal_def split: option.split)

lemma people_internal_same: "dr_members s' = dr_members s \<Longrightarrow> people_internal s \<Longrightarrow> people_internal s'"
  by (simp add: people_internal_def)

lemma directory_step_internal:
  assumes "directory_step s s'" and "people_internal s"
  shows "people_internal s'"
  using assms(1)
proof cases
  case (step_members ms t)
  then show ?thesis using replace_members_internal[OF assms(2)] by simp
next
  case (step_channels chs rows t ids revs)
  then show ?thesis using people_internal_same[OF replaceChannels_members assms(2)] by simp
next
  case (step_groups rows t ids rids)
  then show ?thesis using people_internal_same[OF replaceGroups_members assms(2)] by simp
next
  case (step_upsert g ps now)
  then show ?thesis using people_internal_same[OF other_members(1) assms(2)] by simp
next
  case (step_url url)
  then show ?thesis using people_internal_same[OF other_members(2) assms(2)] by simp
qed

interpretation people: invariant_system "\<lambda>s. s = empty_directory" directory_step people_internal
proof
  show "people_internal s" if "s = empty_directory" for s using that by (simp add: people_internal_def empty_directory_def)
  show "people_internal s'" if "people_internal s" "directory_step s s'" for s s'
    by (rule directory_step_internal[OF that(2,1)])
qed

section \<open>Where messages go\<close>

lemma reach_group_ok:
  assumes "reach_group (reachDir s og) asked authority may = (Inr r, opened)"
  obtains gid participants where "r = groupDestination gid" "authority \<in> set participants" "2 \<le> length participants"
      "length participants \<le> MAX_GROUP_DM_PARTICIPANTS" "distinct participants"
      "opened = None \<and> groupMember s gid authority \<or>
       opened = Some (gid, participants) \<and> may \<and> get_member s authority \<noteq> None"
proof -
  from assms obtain named where named: "name_all (reachDir s og) (dedupe asked) = Inr named"
    by (auto simp: reach_group_def Let_def split: if_split_asm sum.split_asm)
  let ?ps = "dedupe (named @ [authority])"
  show ?thesis
  proof (cases "rd_resolveGroup (reachDir s og) ?ps")
    case (Some gid)
    then have "r = groupDestination gid" "opened = None" "groupMember s gid authority" "2 \<le> length ?ps"
      "length ?ps \<le> MAX_GROUP_DM_PARTICIPANTS"
      using assms named by (auto simp: reach_group_def Let_def reachDir_def split: if_split_asm)
    then show ?thesis using that[of gid ?ps] by simp
  next
    case None
    then obtain gid where "r = groupDestination gid" "opened = Some (gid, ?ps)" "may" "get_member s authority \<noteq> None" "2 \<le> length ?ps"
      "length ?ps \<le> MAX_GROUP_DM_PARTICIPANTS"
      using assms named by (auto simp: reach_group_def Let_def reachDir_def split: if_split_asm option.split_asm sum.split_asm)
    then show ?thesis using that[of gid ?ps] by simp
  qed
qed

text \<open>A message stays where its authority can see it. In every reachable directory, if a target resolves then it is
  one internal person of the directory, addressed on behalf of the authority; or a listed channel that is public or has
  the authority among its members; or a group the authority is in, or one newly opened for the authority and at most
  seven others, after which the authority is a member of it.\<close>

theorem reach_stays_in_sight:
  assumes "directory_step\<^sup>*\<^sup>* empty_directory s"
    and "resolveReachTarget (reachDir s openGroup) target authority mayOpenGroup = (Inr r, opened)"
  shows "(\<exists>m \<in> set (dr_members s). rx_destination r = principalDestination (dm_principalId m) authority \<and> dm_type m = internal \<and> opened = None)
    \<or> (\<exists>c \<in> set (dr_channels s). rx_destination r = plain_destination ''slack'' (dc_channelId c) (scopeId channel (dc_channelId c)) \<and>
         (dc_isPrivate c = Some True \<longrightarrow> channelMember s (dc_channelId c) authority) \<and> opened = None)
    \<or> (\<exists>gid. rx_destination r = plain_destination ''group'' gid (scopeId group gid) \<and>
         (opened = None \<and> groupMember s gid authority \<or>
          (\<exists>ps. opened = Some (gid, ps) \<and> mayOpenGroup \<and> length ps \<le> 8 \<and> get_member s authority \<noteq> None \<and>
             (gid \<noteq> [] \<and> authority \<noteq> [] \<longrightarrow> groupMember (register_opened opened now s) gid authority))))"
proof -
  have inv: "people_internal s" using people.reachable_inv[OF _ assms(1)] by simp
  consider (recipient) q where "reach_recipient (reachDir s openGroup) q authority = Inr r" "opened = None"
    | (channel) q where "reach_channel (reachDir s openGroup) q authority = Inr r" "opened = None"
    | (group) ps where "reach_group (reachDir s openGroup) ps authority mayOpenGroup = (Inr r, opened)"
    using assms(2) unfolding resolveReachTarget_def by (auto split: if_split_asm option.split_asm)
  then show ?thesis
  proof cases
    case recipient
    then obtain m where "resolve_member s q = Match_one m" "rx_destination r = principalDestination (dm_principalId m) authority"
      by (auto simp: reach_recipient_def reachDir_def split: match.split_asm)
    then show ?thesis using resolve_member_one inv recipient(2) by (auto simp: people_internal_def)
  next
    case channel
    then obtain c where "resolveChannel s q = Match_one c" and
      r: "rx_destination r = plain_destination ''slack'' (dc_channelId c) (scopeId ScopeKind.channel (dc_channelId c))" and
      vis: "isVisible (reachDir s openGroup) authority (Channel_room (dc_channelId c) (Some (dc_isPrivate c = Some True)))"
      by (auto simp: reach_channel_def reachDir_def split: match.split_asm if_split_asm)
    then have "c \<in> set (dr_channels s)" using pickMatch_one by (auto simp: resolveChannel_def)
    moreover have "dc_isPrivate c = Some True \<longrightarrow> channelMember s (dc_channelId c) authority"
      using vis by (auto simp: reachDir_def)
    ultimately show ?thesis using r channel(2) by blast
  next
    case group
    then obtain gid ps' where g: "r = groupDestination gid" "authority \<in> set ps'" "length ps' \<le> MAX_GROUP_DM_PARTICIPANTS"
      "opened = None \<and> groupMember s gid authority \<or> opened = Some (gid, ps') \<and> mayOpenGroup \<and> get_member s authority \<noteq> None"
      by (rule reach_group_ok)
    have "groupMember (register_opened (Some (gid, ps')) now s) gid authority" if "gid \<noteq> [] \<and> authority \<noteq> []"
    proof -
      have ne: "filter (\<lambda>i. i \<noteq> []) ps' \<noteq> []" using g(2) that by (auto simp: filter_empty_conv)
      then show ?thesis using that g(2)
        by (simp add: register_opened_def upsertGroup_def Let_def groupMember_def in_roster_def)
    qed
    then show ?thesis using g by (auto simp: groupDestination_def MAX_GROUP_DM_PARTICIPANTS_def)
  qed
qed

section \<open>Deactivation\<close>

text \<open>The operations of the identity service; only the keys in \<open>R\<close> are reactivated by hand.\<close>

inductive identity_step :: "string set \<Rightarrow> identity \<Rightarrow> identity \<Rightarrow> bool" for R where
  step_deactivate: "identity_step R s (deactivate i source now s)"
| step_reactivate: "personKey (Some i) \<in> R \<Longrightarrow> identity_step R s (reactivate_person i s)"
| step_sync: "identity_step R s (fst (recordDirectorySync removed present now s))"
| step_put: "identity_step R s (putExternalMember m s)"
| step_remove: "identity_step R s (removeExternalMember i s)"
| step_refresh: "identity_step R s (refresh_identity force now s)"
| step_hydrate: "identity_step R s (load_identity False s)"

definition barred :: "string \<Rightarrow> identity \<Rightarrow> bool" where
  "barred key s \<longleftrightarrow> (\<exists>r. map_of (ij_deactivated s) key = Some r \<and> de_source r = manual)"

text \<open>The cache holds only what the store holds, and the store keeps every record under the key of its person.\<close>

definition well_keyed :: "DeactivationRecord jsmap \<Rightarrow> bool" where
  "well_keyed m \<longleftrightarrow> (\<forall>k r. map_of m k = Some r \<longrightarrow> personKey (Some (de_principalId r)) = k)"

lemma well_keyedD: "well_keyed m \<Longrightarrow> map_of m k = Some r \<Longrightarrow> personKey (Some (de_principalId r)) = k"
  unfolding well_keyed_def by blast

lemma well_keyed_update: "well_keyed m \<Longrightarrow> well_keyed (AList.update (personKey (Some (de_principalId r))) r m)"
  unfolding well_keyed_def map_of_update fun_upd_apply by (metis option.inject)

lemma well_keyed_delete: "well_keyed m \<Longrightarrow> well_keyed (AList.delete k m)"
  unfolding well_keyed_def map_of_delete fun_upd_apply by (metis option.distinct(1))

definition identity_inv :: "identity \<Rightarrow> bool" where
  "identity_inv s \<longleftrightarrow> distinct (keys (ij_store s)) \<and> well_keyed (ij_store s) \<and> map_of (ij_deactivated s) \<subseteq>\<^sub>m map_of (ij_store s)"

lemma cached_stored: "identity_inv s \<Longrightarrow> map_of (ij_deactivated s) k = Some r \<Longrightarrow> map_of (ij_store s) k = Some r"
  unfolding identity_inv_def map_le_def by (metis domI)

lemma load_fold_keeps:
  assumes "map_of m k = Some r" and "\<forall>x \<in> set rows. ow \<and> pk x = k \<longrightarrow> x = r"
  shows "map_of (foldl (\<lambda>m x. if ow \<or> map_of m (pk x) = None then AList.update (pk x) x m else m) m rows) k = Some r"
  using assms
proof (induction rows arbitrary: m)
  case (Cons x rows)
  let ?m = "if ow \<or> map_of m (pk x) = None then AList.update (pk x) x m else m"
  have "map_of ?m k = Some r" using Cons.prems by (cases "pk x = k") simp_all
  moreover have "\<forall>x \<in> set rows. ow \<and> pk x = k \<longrightarrow> x = r" using Cons.prems(2) by simp
  ultimately show ?case using Cons.IH by (simp only: foldl_Cons)
qed simp

lemma load_fold_new:
  assumes "r \<in> set rows" and "pk r = k" and "\<forall>x \<in> set rows. pk x = k \<longrightarrow> x = r" and "ow"
  shows "map_of (foldl (\<lambda>m x. if ow \<or> map_of m (pk x) = None then AList.update (pk x) x m else m) m rows) k = Some r"
  using assms
proof (induction rows arbitrary: m)
  case (Cons x rows)
  show ?case
  proof (cases "x = r")
    case True
    have "\<forall>y \<in> set rows. ow \<and> pk y = k \<longrightarrow> y = r" using Cons.prems(3) by (meson list.set_intros(2))
    from load_fold_keeps[OF _ this, of "AList.update k r m"] show ?thesis
      by (simp only: foldl_Cons True Cons.prems(2,4) simp_thms if_True map_of_update fun_upd_same)
  next
    case False
    then have "r \<in> set rows" "\<forall>x \<in> set rows. pk x = k \<longrightarrow> x = r" using Cons.prems(1,3) by simp_all
    from Cons.IH[OF this(1) Cons.prems(2) this(2) Cons.prems(4)] show ?thesis by (simp only: foldl_Cons)
  qed
qed simp

lemma load_fold_from:
  assumes "map_of (foldl (\<lambda>m x. if ow \<or> map_of m (pk x) = None then AList.update (pk x) x m else m) m rows) k = Some r"
  shows "map_of m k = Some r \<or> r \<in> set rows \<and> pk r = k"
  using assms
proof (induction rows arbitrary: m)
  case (Cons x rows)
  let ?m = "if ow \<or> map_of m (pk x) = None then AList.update (pk x) x m else m"
  from Cons.prems have "map_of ?m k = Some r \<or> r \<in> set rows \<and> pk r = k" by (intro Cons.IH) (simp only: foldl_Cons)
  then show ?case by (cases "pk x = k") (auto split: if_split_asm)
qed simp

lemma dm_all_iff:
  assumes "distinct (keys m)"
  shows "x \<in> set (dm_all m) \<longleftrightarrow> (\<exists>k. map_of m k = Some x)"
  using vals_iff_map_of[OF assms, of x] by (simp add: dm_all_def dm_entries_def)

lemma stored_rows:
  assumes "identity_inv s"
  shows "x \<in> set (dm_all (ij_store s)) \<longleftrightarrow> map_of (ij_store s) (personKey (Some (de_principalId x))) = Some x"
  using assms dm_all_iff[of "ij_store s" x] well_keyedD unfolding identity_inv_def by metis

lemma load_deactivated_eq:
  "ij_deactivated (load_identity ow s) = foldl (\<lambda>m x. if ow \<or> map_of m (personKey (Some (de_principalId x))) = None
     then AList.update (personKey (Some (de_principalId x))) x m else m) (if ow then [] else ij_deactivated s) (dm_all (ij_store s))"
  by (simp add: load_identity_def load_into_def)

lemma load_from_store:
  assumes "identity_inv s" and "map_of (ij_deactivated (load_identity ow s)) k = Some r"
  shows "map_of (ij_store s) k = Some r"
proof -
  from load_fold_from[OF assms(2)[unfolded load_deactivated_eq]]
  have "map_of (ij_deactivated s) k = Some r \<or> r \<in> set (dm_all (ij_store s)) \<and> personKey (Some (de_principalId r)) = k"
    by (cases ow) simp_all
  then show ?thesis using cached_stored[OF assms(1)] stored_rows[OF assms(1)] by blast
qed

lemma load_keeps_cached:
  assumes "identity_inv s" and "map_of (ij_deactivated s) k = Some r"
  shows "map_of (ij_deactivated (load_identity ow s)) k = Some r"
proof -
  let ?pk = "\<lambda>x. personKey (Some (de_principalId x))"
  have st: "map_of (ij_store s) k = Some r" by (rule cached_stored[OF assms])
  then have pk: "?pk r = k" using assms(1) well_keyedD unfolding identity_inv_def by blast
  then have mem: "r \<in> set (dm_all (ij_store s))" using st stored_rows[OF assms(1)] by blast
  have uniq: "\<forall>x \<in> set (dm_all (ij_store s)). ?pk x = k \<longrightarrow> x = r" using stored_rows[OF assms(1)] st by (metis option.inject)
  show ?thesis
  proof (cases ow)
    case True
    then show ?thesis unfolding load_deactivated_eq using load_fold_new[OF mem pk uniq] by simp
  next
    case False
    then show ?thesis unfolding load_deactivated_eq using load_fold_keeps[OF assms(2), of _ False ?pk] by simp
  qed
qed

lemma load_inv: "identity_inv s \<Longrightarrow> identity_inv (load_identity ow s)"
proof -
  assume inv: "identity_inv s"
  have "map_of (ij_deactivated (load_identity ow s)) \<subseteq>\<^sub>m map_of (ij_store s)"
    using load_from_store[OF inv] by (auto simp: map_le_def)
  then show ?thesis using inv by (simp add: identity_inv_def load_identity_def)
qed

lemma identity_inv_put:
  assumes "identity_inv s" and "personKey (Some (de_principalId r)) = k"
  shows "identity_inv (s\<lparr>ij_deactivated := AList.update k r (ij_deactivated s), ij_store := AList.update k r (ij_store s)\<rparr>)"
  using assms well_keyed_update[of "ij_store s" r] by (simp add: identity_inv_def)

lemma identity_inv_delete:
  assumes "identity_inv s"
  shows "identity_inv (s\<lparr>ij_deactivated := AList.delete k (ij_deactivated s), ij_store := AList.delete k (ij_store s)\<rparr>)"
  using assms well_keyed_delete[of "ij_store s" k] by (simp add: identity_inv_def)

lemma deactivate_inv: "identity_inv s \<Longrightarrow> identity_inv (deactivate i source now s)"
  unfolding deactivate_def Let_def dm_put_def using identity_inv_put[of s "\<lparr>de_principalId = i, de_source = source, de_at = now\<rparr>"]
  by simp

lemma reactivate_person_inv: "identity_inv s \<Longrightarrow> identity_inv (reactivate_person i s)"
  unfolding reactivate_person_def Let_def dm_delete_def by (rule identity_inv_delete)

lemma barred_source: "barred key s \<longleftrightarrow> map_option de_source (map_of (ij_deactivated s) key) = Some manual"
  by (auto simp: barred_def)

lemma deactivate_barred: "barred key s \<Longrightarrow> barred key (deactivate i source now s)"
  by (cases "personKey (Some i) = key") (auto simp: barred_def deactivate_def Let_def)

lemma reactivate_person_barred: "barred key s \<Longrightarrow> personKey (Some i) \<noteq> key \<Longrightarrow> barred key (reactivate_person i s)"
  by (simp add: barred_def reactivate_person_def Let_def)

lemma fst_sync_removed:
  "fst (sync_removed now (i # ids) s) = fst (sync_removed now ids
     (if keptByDirectorySync s (personKey (Some i)) \<or> map_of (ij_deactivated s) (personKey (Some i)) \<noteq> None then s
      else deactivate i directory_sync now s))"
  by (simp split: prod.split)

lemma fst_sync_present:
  "fst (sync_present (i # ids) s) = fst (sync_present ids
     (if map_option de_source (map_of (ij_deactivated s) (personKey (Some i))) \<noteq> Some directory_sync then s else reactivate_person i s))"
  by (auto split: prod.split)

lemma sync_removed_keeps:
  assumes "identity_inv s"
  shows "identity_inv (fst (sync_removed now ids s)) \<and> (barred key s \<longrightarrow> barred key (fst (sync_removed now ids s)))"
  using assms by (induction ids arbitrary: s) (simp_all add: fst_sync_removed deactivate_inv deactivate_barred del: sync_removed.simps(2))

lemma reactivate_synced_barred:
  assumes "barred key s" and "map_option de_source (map_of (ij_deactivated s) (personKey (Some i))) = Some directory_sync"
  shows "barred key (reactivate_person i s)"
  using assms by (intro reactivate_person_barred) (auto simp: barred_source)

lemma sync_present_keeps:
  assumes "identity_inv s"
  shows "identity_inv (fst (sync_present ids s)) \<and> (barred key s \<longrightarrow> barred key (fst (sync_present ids s)))"
  using assms
  by (induction ids arbitrary: s)
    (simp_all add: fst_sync_present reactivate_person_inv reactivate_synced_barred del: sync_present.simps(2) not_Some_eq map_option_eq_Some)

lemma recordDirectorySync_state:
  "fst (recordDirectorySync removed present now s) = fst (sync_present present (fst (sync_removed now removed s)))"
  by (simp add: recordDirectorySync_def split: prod.split)

lemma identity_step_keeps:
  assumes "identity_step R s s'" and "identity_inv s"
  shows "identity_inv s' \<and> (key \<notin> R \<and> barred key s \<longrightarrow> barred key s')"
  using assms(1)
proof cases
  case (step_reactivate i)
  then show ?thesis using reactivate_person_inv[OF assms(2), of i] reactivate_person_barred[of key s i] by auto
next
  case (step_sync removed present now)
  then show ?thesis using sync_removed_keeps[OF assms(2), of now removed key] sync_present_keeps by (simp add: recordDirectorySync_state)
next
  case (step_refresh force now)
  have "identity_inv ((load_identity True s)\<lparr>ij_refreshedAt := now\<rparr>)" using load_inv[OF assms(2), of True] by (simp add: identity_inv_def)
  moreover have "barred key s \<longrightarrow> barred key ((load_identity True s)\<lparr>ij_refreshedAt := now\<rparr>)"
    using load_keeps_cached[OF assms(2)] by (auto simp: barred_def)
  ultimately show ?thesis using step_refresh assms(2) by (simp add: refresh_identity_def)
next
  case step_hydrate
  then show ?thesis using load_inv[OF assms(2)] load_keeps_cached[OF assms(2)] by (auto simp: barred_def)
next
  case (step_deactivate i source now)
  then show ?thesis using deactivate_inv[OF assms(2)] deactivate_barred by simp
qed (use assms(2) in \<open>simp_all add: identity_inv_def barred_def putExternalMember_def removeExternalMember_def Let_def\<close>)

definition fresh_identity :: "(string \<Rightarrow> bool) \<Rightarrow> string list \<Rightarrow> identity" where
  "fresh_identity overridden protected = \<lparr>ij_isOverridden = overridden, ij_protected = protected, ij_deactivated = [], ij_externals = [],
     ij_store = [], ij_externalStore = [], ij_refreshedAt = 0\<rparr>"

interpretation identity: invariant_system "\<lambda>s. \<exists>overridden protected. s = fresh_identity overridden protected" "identity_step R" identity_inv for R
proof
  show "identity_inv s" if "\<exists>overridden protected. s = fresh_identity overridden protected" for s
    using that by (auto simp: identity_inv_def fresh_identity_def well_keyed_def)
  show "identity_inv s'" if "identity_inv s" "identity_step R s s'" for s s'
    using identity_step_keeps[OF that(2,1)] by blast
qed

lemma deactivate_bars: "barred (personKey (Some i)) (deactivate i manual now s)"
  by (auto simp: barred_def deactivate_def Let_def split: option.split)

lemma barred_steps:
  assumes "(identity_step R)\<^sup>*\<^sup>* s s'" and "identity_inv s" and "barred key s" and "key \<notin> R"
  shows "barred key s'"
  using assms(1-3)
  by (rule identity.stable_steps) (use identity_step_keeps assms(4) in blast)

lemma barred_guest:
  assumes "barred (personKey (Some i)) s" and "\<not> ij_isOverridden s i"
  shows "p_type (classify i g now s) = guest"
  using assms by (auto simp: classify_def Let_def barred_def)

lemma inactive_no_access:
  assumes "\<not> activePrincipal deps i"
  shows "\<not> canWriteScope deps i scope" and "\<not> canManageScope deps i scope" and "\<not> isCurrentSharedScopeMember deps i scope"
    and "\<not> managesArtifactHome deps manages scope by' i"
    and "fst (parseScopeId scope) \<in> {Some channel, Some group} \<Longrightarrow> \<not> canReadScope deps i scope"
  using assms
  by (auto simp: canWriteScope_def canManageScope_def isCurrentSharedScopeMember_def currentSharedScopeMember_def managesArtifactHome_def
      canReadScope_def memberOfSharedScope_def sharedScopeMembership_def split: prod.split option.split ScopeKind.split)

text \<open>Who was deactivated by hand stays out. From any reachable state of the identity service on, once somebody is
  deactivated by hand, no synchronisation of the directory, refresh or change of external members lets them in again
  until they are reactivated by hand: every spelling of their id is a guest's, and they can write to no scope, manage
  none, be a current member of none, and read no channel or group.\<close>

theorem deactivation_sticks:
  assumes "(identity_step R0)\<^sup>*\<^sup>* (fresh_identity overridden protected) s"
    and "(identity_step R)\<^sup>*\<^sup>* (deactivate i manual now s) s'" and "personKey (Some i) \<notin> R"
    and "personKey (Some j) = personKey (Some i)" and "\<not> ij_isOverridden s' j"
  shows "p_type (classify j g t s') = guest
    \<and> \<not> canWriteScope (wired orgId t s' d ps sessions) j scope \<and> \<not> canManageScope (wired orgId t s' d ps sessions) j scope
    \<and> \<not> isCurrentSharedScopeMember (wired orgId t s' d ps sessions) j scope
    \<and> (fst (parseScopeId scope) \<in> {Some channel, Some group} \<longrightarrow> \<not> canReadScope (wired orgId t s' d ps sessions) j scope)"
proof -
  have "identity_inv s" using identity.reachable_inv[OF _ assms(1)] by blast
  then have "identity_inv (deactivate i manual now s)" by (rule deactivate_inv)
  from barred_steps[OF assms(2) this deactivate_bars assms(3)] have bar: "barred (personKey (Some j)) s'" using assms(4) by simp
  note guest = barred_guest[OF bar assms(5)]
  have "\<not> activePrincipal (wired orgId t s' d ps sessions) j"
    using guest[of False t] by (simp add: activePrincipal_def wired_def classified_by_def Let_def)
  from inactive_no_access[OF this] guest show ?thesis by simp
qed

subsection \<open>Instances\<close>

definition demo_people :: directory where
  "demo_people = fst (replace_members [\<lparr>dm_principalId = ''ann'', dm_displayName = ''Ann'', dm_type = internal, dm_slackId = None\<rparr>] None empty_directory)"

theorem reach_stays_in_sight_witness:
  "\<exists>r. resolveReachTarget (reachDir demo_people None) \<lparr>rt_recipient = Some ''@Ann'', rt_channel = None, rt_participants = None\<rparr> ''bob'' False
       = (Inr r, None) \<and> (\<exists>m \<in> set (dr_members demo_people). rx_destination r = principalDestination (dm_principalId m) ''bob'' \<and> dm_type m = internal)"
proof -
  let ?r = "\<lparr>rx_destination = principalDestination ''ann'' ''bob'', rx_recipient = Some (''ann'', ''Ann''), rx_channel = None, rx_group = None\<rparr>"
  have reach: "directory_step\<^sup>*\<^sup>* empty_directory demo_people" unfolding demo_people_def by (rule r_into_rtranclp) (rule step_members)
  have res: "resolveReachTarget (reachDir demo_people None) \<lparr>rt_recipient = Some ''@Ann'', rt_channel = None, rt_participants = None\<rparr> ''bob'' False
      = (Inr ?r, None)" by code_simp
  have "dr_channels demo_people = []" "d_type (rx_destination ?r) = ''principal''" by code_simp+
  with reach_stays_in_sight[OF reach res] res show ?thesis by (auto simp: plain_destination_def)
qed

text \<open>Ann is deactivated by hand; a synchronisation that sees her does not bring her back.\<close>

theorem deactivation_sticks_witness:
  "p_type (classify ''Ann@x.test'' False 9 (fst (recordDirectorySync [] [''ann@x.test''] 8
     (deactivate ''ann@x.test'' manual 7 (fresh_identity (\<lambda>i. False) []))))) = guest"
proof -
  let ?s = "fresh_identity (\<lambda>i. False) []"
  let ?s' = "fst (recordDirectorySync [] [''ann@x.test''] 8 (deactivate ''ann@x.test'' manual 7 ?s))"
  have step: "(identity_step {})\<^sup>*\<^sup>* (deactivate ''ann@x.test'' manual 7 ?s) ?s'" by (rule r_into_rtranclp) (rule step_sync)
  have same: "personKey (Some ''Ann@x.test'') = personKey (Some ''ann@x.test'')" by code_simp
  have "ij_isOverridden ?s' = (\<lambda>i. False)"
    by (simp add: recordDirectorySync_def deactivate_def fresh_identity_def Let_def)
  then have "\<not> ij_isOverridden ?s' ''Ann@x.test''" by simp
  from deactivation_sticks[OF rtranclp.rtrancl_refl step _ same this] show ?thesis by simp
qed

end
