(* ===== verification/Run_Signals.thy ===== *)
theory Run_Signals
  imports Run_Store
begin

text \<open>
  Signals to a running turn (\<open>src/src/runs/run-signal-store.ts\<close>): people steer or abort a run while an agent works on
  it. The store in memory (\<open>createMemoryRunSignalStore\<close>) keeps the pending signals of each run; the poll
  (\<open>startSignalPoll\<close>) that a harness keeps for its run hands them to handlers and acknowledges what was taken. The
  receipts of the store are kept beside the signals. A pass of the poll awaits the handlers, so others act in between:
  the start of a pass, the call of a handler, its end and the end of the pass are operations of their own. Of a request
  the fields the store and the poll read are modelled.
\<close>

section \<open>The store\<close>

datatype RunSignalKind = signal_abort | signal_steer

record steer_request =
  sr_externalId :: "string option"
  sr_attachments :: "string list option"

record RunSignal =
  sg_kind :: RunSignalKind
  sg_text :: "string option"
  sg_ts :: "string option"
  sg_request :: "steer_request option"
  sg_dedupeKey :: "string option"
  sg_sessionRequest :: "orch_input option"
  sg_queuedRunId :: "string option"

text \<open>\<open>authors\<close> are kept with the time of the signal; \<open>dedupeKeys\<close> is a set in the order of insertion.\<close>

record signal_store =
  sgs_pending :: "(string \<times> RunSignal) list jsmap"
  sgs_authors :: "(int \<times> string) list jsmap"
  sgs_dedupeKeys :: "string list"

definition createMemoryRunSignalStore :: signal_store where
  "createMemoryRunSignalStore = \<lparr>sgs_pending = [], sgs_authors = [], sgs_dedupeKeys = []\<rparr>"

definition MAX_MEMORY_DEDUPE_KEYS :: nat where
  "MAX_MEMORY_DEDUPE_KEYS = 10000"

definition remember_key :: "string \<Rightarrow> string list \<Rightarrow> string list" where
  "remember_key k ks =
     (let ks' = (if k \<in> set ks then ks else ks @ [k]) in
      if length ks' > MAX_MEMORY_DEDUPE_KEYS then tl ks' else ks')"

definition signal_author :: "RunSignal \<Rightarrow> string option" where
  "signal_author sg = (if sg_kind sg = signal_steer then Option.bind (sg_request sg) sr_externalId else None)"

definition send_signal :: "string \<Rightarrow> RunSignal \<Rightarrow> string \<Rightarrow> int \<Rightarrow> signal_store \<Rightarrow> signal_store \<times> bool" where
  "send_signal runId sg uuid now s =
     (if truthy (sg_dedupeKey sg) \<and> the (sg_dedupeKey sg) \<in> set (sgs_dedupeKeys s) then (s, False)
      else let s1 = (if truthy (sg_dedupeKey sg)
                then s\<lparr>sgs_dedupeKeys := remember_key (the (sg_dedupeKey sg)) (sgs_dedupeKeys s)\<rparr> else s);
               list = nullish (map_of (sgs_pending s1) runId) [];
               s2 = s1\<lparr>sgs_pending := AList.update runId (list @ [(uuid, sg)]) (sgs_pending s1)\<rparr>;
               author = signal_author sg;
               s3 = (if truthy author
                then s2\<lparr>sgs_authors := AList.update runId (nullish (map_of (sgs_authors s2) runId) [] @ [(now, the author)]) (sgs_authors s2)\<rparr>
                else s2)
           in (s3, True))"

definition hasDedupeKey :: "signal_store \<Rightarrow> string \<Rightarrow> bool" where
  "hasDedupeKey s k = (k \<in> set (sgs_dedupeKeys s))"

definition steerAuthors :: "signal_store \<Rightarrow> string \<Rightarrow> string list" where
  "steerAuthors s runId = dedupe (map snd (nullish (map_of (sgs_authors s) runId) []))"

definition pending_signals :: "signal_store \<Rightarrow> string \<Rightarrow> (string \<times> RunSignal) list" where
  "pending_signals s runId = nullish (map_of (sgs_pending s) runId) []"

definition acknowledge :: "string \<Rightarrow> string \<Rightarrow> signal_store \<Rightarrow> signal_store" where
  "acknowledge runId i s =
     (let remaining = filter (\<lambda>p. fst p \<noteq> i) (pending_signals s runId) in
      if remaining \<noteq> [] then s\<lparr>sgs_pending := AList.update runId remaining (sgs_pending s)\<rparr>
      else s\<lparr>sgs_pending := AList.delete runId (sgs_pending s)\<rparr>)"

definition takePending :: "string \<Rightarrow> signal_store \<Rightarrow> signal_store \<times> RunSignal list" where
  "takePending runId s = (s\<lparr>sgs_pending := AList.delete runId (sgs_pending s)\<rparr>, map snd (pending_signals s runId))"

definition pendingRunIds :: "signal_store \<Rightarrow> string list" where
  "pendingRunIds s = map fst (sgs_pending s)"

definition prune_authors :: "int \<Rightarrow> int \<Rightarrow> signal_store \<Rightarrow> signal_store" where
  "prune_authors olderThanMs now s =
     s\<lparr>sgs_authors := filter (\<lambda>p. snd p \<noteq> []) (map (\<lambda>p. (fst p, filter (\<lambda>a. now - olderThanMs \<le> fst a) (snd p))) (sgs_authors s))\<rparr>"

section \<open>The poll\<close>

text \<open>
  The closure state of \<open>startSignalPoll\<close>. \<open>pl_queue\<close> is what is left of the signals the pass under way read,
  \<open>pl_current\<close> the signal whose handler is awaited; \<open>pl_log\<close> lists the ended calls of \<open>onSteer\<close> with their outcome.
\<close>

datatype steer_outcome = Delivered | Declined | Threw

record poll =
  pl_declined :: "string list"
  pl_draining :: bool
  pl_redrain :: bool
  pl_accepting :: bool
  pl_queue :: "(string \<times> RunSignal) list"
  pl_current :: "(string \<times> RunSignal) option"
  pl_abortDelivered :: bool
  pl_log :: "(string \<times> steer_outcome) list"

definition startSignalPoll :: poll where
  "startSignalPoll = \<lparr>pl_declined = [], pl_draining = False, pl_redrain = False, pl_accepting = True, pl_queue = [], pl_current = None,
     pl_abortDelivered = False, pl_log = []\<rparr>"

definition drain :: "bool \<Rightarrow> string \<Rightarrow> signal_store \<Rightarrow> poll \<Rightarrow> poll" where
  "drain forced runId s p =
     (if \<not> pl_accepting p \<and> \<not> forced then p
      else if pl_draining p then p\<lparr>pl_redrain := True\<rparr>
      else p\<lparr>pl_draining := True, pl_queue := pending_signals s runId, pl_abortDelivered := False\<rparr>)"

definition has_content :: "RunSignal \<Rightarrow> bool" where
  "has_content sg \<longleftrightarrow> truthy (sg_text sg) \<or> nullish (Option.bind (sg_request sg) sr_attachments) [] \<noteq> []"

text \<open>The body of the loop up to the call of a handler.\<close>

definition drain_next :: "string \<Rightarrow> signal_store \<times> poll \<Rightarrow> signal_store \<times> poll" where
  "drain_next runId sp =
     (case sp of (s, p) \<Rightarrow>
      case pl_queue p of
        [] \<Rightarrow> sp
      | (i, sg) # rest \<Rightarrow>
          if \<not> pl_draining p \<or> pl_current p \<noteq> None then sp
          else let p' = p\<lparr>pl_queue := rest\<rparr> in
          if sg_kind sg = signal_abort then (if pl_abortDelivered p then (s, p') else (s, p'\<lparr>pl_current := Some (i, sg)\<rparr>))
          else if i \<in> set (pl_declined p) then (s, p')
          else if has_content sg then (s, p'\<lparr>pl_current := Some (i, sg)\<rparr>)
          else (acknowledge runId i s, p'))"

text \<open>The rest of the body when the handler ends; \<open>onAbort\<close> either returns or throws.\<close>

definition drain_settle :: "string \<Rightarrow> steer_outcome \<Rightarrow> signal_store \<times> poll \<Rightarrow> signal_store \<times> poll" where
  "drain_settle runId oc sp =
     (case sp of (s, p) \<Rightarrow>
      case pl_current p of
        None \<Rightarrow> sp
      | Some (i, sg) \<Rightarrow>
          let p' = p\<lparr>pl_current := None\<rparr> in
          if sg_kind sg = signal_abort then (s, if oc = Threw then p' else p'\<lparr>pl_abortDelivered := True\<rparr>)
          else let p'' = p'\<lparr>pl_log := pl_log p @ [(i, oc)]\<rparr> in
          (case oc of
             Threw \<Rightarrow> (s, p'')
           | Declined \<Rightarrow> (s, p''\<lparr>pl_declined := pl_declined p @ [i]\<rparr>)
           | Delivered \<Rightarrow> (acknowledge runId i s, p'')))"

text \<open>The \<open>finally\<close> of a pass whose loop has ended.\<close>

definition drain_finish :: "string \<Rightarrow> signal_store \<Rightarrow> poll \<Rightarrow> poll" where
  "drain_finish runId s p =
     (if \<not> pl_draining p \<or> pl_queue p \<noteq> [] \<or> pl_current p \<noteq> None then p
      else let p' = p\<lparr>pl_draining := False\<rparr> in
      if pl_redrain p' then drain False runId s (p'\<lparr>pl_redrain := False\<rparr>) else p')"

text \<open>What \<open>stop\<close> does before it waits, and whether its wait is over.\<close>

definition stop_poll :: "bool \<Rightarrow> string \<Rightarrow> signal_store \<Rightarrow> poll \<Rightarrow> poll" where
  "stop_poll drainOnStop runId s p =
     (let p' = p\<lparr>pl_accepting := False\<rparr> in if drainOnStop then drain True runId s p' else p')"

definition stopped :: "poll \<Rightarrow> bool" where
  "stopped p \<longleftrightarrow> \<not> pl_accepting p \<and> \<not> pl_draining p"

end
