(* ===== verification/Signal_Properties.thy ===== *)
theory Signal_Properties
  imports Run_Signals
begin

text \<open>
  What the signals of a run guarantee: however a poll, its handlers, the senders and other readers of the store
  interleave, a steer that a handler took or declined is not handed to it again; and what becomes of the signals that
  arrive while a poll is being stopped.
\<close>

declare map_of_eq_Some_iff [simp del]

section \<open>Pending signals\<close>

definition pending_ids :: "signal_store \<Rightarrow> string \<Rightarrow> string list" where
  "pending_ids s r = map fst (pending_signals s r)"

lemma pending_empty [simp]: "pending_signals createMemoryRunSignalStore r = []"
  by (simp add: pending_signals_def createMemoryRunSignalStore_def)

lemma pending_ack [simp]:
  "pending_signals (acknowledge r i s) r' = (if r = r' then filter (\<lambda>p. fst p \<noteq> i) (pending_signals s r) else pending_signals s r')"
  by (auto simp: acknowledge_def pending_signals_def Let_def update_conv' delete_conv' nullish_def split: option.splits)

lemma pending_take [simp]:
  "pending_signals (fst (takePending r s)) r' = (if r = r' then [] else pending_signals s r')"
  by (simp add: takePending_def pending_signals_def delete_conv')

lemma pending_prune [simp]: "pending_signals (prune_authors age now s) r = pending_signals s r"
  by (simp add: prune_authors_def pending_signals_def)

lemma pending_send:
  "pending_signals (fst (send_signal r sg i now s)) r' =
     (if r = r' \<and> snd (send_signal r sg i now s) then pending_signals s r' @ [(i, sg)] else pending_signals s r')"
  by (auto simp: send_signal_def pending_signals_def Let_def update_conv')

lemma pending_ids_ack: "pending_ids (acknowledge r i s) r' = (if r = r' then filter (\<lambda>j. j \<noteq> i) (pending_ids s r) else pending_ids s r')"
  by (simp add: pending_ids_def filter_map o_def)

lemma dedupe_key_refused: "hasDedupeKey s k \<Longrightarrow> k \<noteq> [] \<Longrightarrow> sg_dedupeKey sg = Some k \<Longrightarrow> send_signal r sg i now s = (s, False)"
  by (simp add: send_signal_def hasDedupeKey_def)

section \<open>A poll among senders and other readers\<close>

text \<open>\<open>sy_issued\<close> collects the identifiers that were drawn, so that a new one is different from them.\<close>

record signal_sys =
  sy_store :: signal_store
  sy_poll :: poll
  sy_issued :: "string list"

definition fresh_sys :: signal_sys where
  "fresh_sys = \<lparr>sy_store = createMemoryRunSignalStore, sy_poll = startSignalPoll, sy_issued = []\<rparr>"

text \<open>A signal to the run wakes the poll; \<open>stop\<close> is called once.\<close>

inductive signal_step :: "string \<Rightarrow> signal_sys \<Rightarrow> signal_sys \<Rightarrow> bool" for r where
  step_send: "i \<notin> set (sy_issued y) \<Longrightarrow> send_signal r' sg i now (sy_store y) = (s', ok) \<Longrightarrow>
    signal_step r y \<lparr>sy_store = s', sy_poll = (if ok \<and> r' = r then drain False r s' (sy_poll y) else sy_poll y), sy_issued = i # sy_issued y\<rparr>"
| step_tick: "signal_step r y (y\<lparr>sy_poll := drain False r (sy_store y) (sy_poll y)\<rparr>)"
| step_next: "drain_next r (sy_store y, sy_poll y) = (s', p') \<Longrightarrow> signal_step r y (y\<lparr>sy_store := s', sy_poll := p'\<rparr>)"
| step_settle: "drain_settle r oc (sy_store y, sy_poll y) = (s', p') \<Longrightarrow> signal_step r y (y\<lparr>sy_store := s', sy_poll := p'\<rparr>)"
| step_finish: "signal_step r y (y\<lparr>sy_poll := drain_finish r (sy_store y) (sy_poll y)\<rparr>)"
| step_stop: "pl_accepting (sy_poll y) \<Longrightarrow> signal_step r y (y\<lparr>sy_poll := stop_poll b r (sy_store y) (sy_poll y)\<rparr>)"
| step_ack: "signal_step r y (y\<lparr>sy_store := acknowledge r' i (sy_store y)\<rparr>)"
| step_take: "signal_step r y (y\<lparr>sy_store := fst (takePending r' (sy_store y))\<rparr>)"
| step_prune: "signal_step r y (y\<lparr>sy_store := prune_authors age now (sy_store y)\<rparr>)"

text \<open>The calls of \<open>onSteer\<close> that ended without an exception.\<close>

definition answered :: "poll \<Rightarrow> string list" where
  "answered p = map fst (filter (\<lambda>c. snd c \<noteq> Threw) (pl_log p))"

definition in_hand :: "poll \<Rightarrow> string list" where
  "in_hand p = (case pl_current p of None \<Rightarrow> [] | Some c \<Rightarrow> [fst c])"

definition steering :: "poll \<Rightarrow> string list" where
  "steering p = (case pl_current p of None \<Rightarrow> [] | Some c \<Rightarrow> if sg_kind (snd c) = signal_steer then [fst c] else [])"

text \<open>Of the poll alone: what it holds was issued, and what was delivered is no longer held.\<close>

definition poll_ok :: "string set \<Rightarrow> poll \<Rightarrow> bool" where
  "poll_ok I p \<longleftrightarrow>
     distinct (in_hand p @ map fst (pl_queue p)) \<and> set (in_hand p) \<union> fst ` set (pl_queue p) \<union> fst ` set (pl_log p) \<subseteq> I \<and>
     {i. (i, Delivered) \<in> set (pl_log p)} \<inter> (set (steering p) \<union> fst ` set (pl_queue p)) = {} \<and>
     {i. (i, Declined) \<in> set (pl_log p)} \<subseteq> set (pl_declined p) \<and> set (steering p) \<inter> set (answered p) = {} \<and>
     distinct (answered p) \<and> (\<not> pl_draining p \<longrightarrow> pl_queue p = [] \<and> pl_current p = None)"

definition store_ok :: "string set \<Rightarrow> string \<Rightarrow> signal_store \<Rightarrow> poll \<Rightarrow> bool" where
  "store_ok I r s p \<longleftrightarrow> distinct (pending_ids s r) \<and> set (pending_ids s r) \<subseteq> I \<and>
     {i. (i, Delivered) \<in> set (pl_log p)} \<inter> set (pending_ids s r) = {}"

definition signal_inv :: "string \<Rightarrow> signal_sys \<Rightarrow> bool" where
  "signal_inv r y \<longleftrightarrow> poll_ok (set (sy_issued y)) (sy_poll y) \<and> store_ok (set (sy_issued y)) r (sy_store y) (sy_poll y)"

lemma poll_ok_mono: "poll_ok I p \<Longrightarrow> I \<subseteq> J \<Longrightarrow> poll_ok J p"
  by (auto simp: poll_ok_def)

lemma drain_log [simp]: "pl_log (drain b r s p) = pl_log p"
  by (simp add: drain_def)

lemma drain_ok:
  assumes "poll_ok I p" and "store_ok I r s p"
  shows "poll_ok I (drain b r s p)" and "store_ok I r s (drain b r s p)"
proof -
  show "poll_ok I (drain b r s p)"
    using assms by (auto simp: drain_def poll_ok_def store_ok_def pending_ids_def in_hand_def steering_def answered_def)
  show "store_ok I r s (drain b r s p)" using assms(2) by (simp add: store_ok_def)
qed

lemma store_ok_ack: "store_ok I r s p \<Longrightarrow> store_ok I r (acknowledge r' i s) p"
  by (auto simp: store_ok_def pending_ids_ack)

lemma answered_iff: "i \<in> set (answered p) \<longleftrightarrow> (i, Delivered) \<in> set (pl_log p) \<or> (i, Declined) \<in> set (pl_log p)"
proof -
  have "oc \<noteq> Threw \<longleftrightarrow> oc = Delivered \<or> oc = Declined" for oc by (cases oc) simp_all
  then have "filter (\<lambda>c. snd c \<noteq> Threw) xs = filter (\<lambda>c. snd c = Delivered \<or> snd c = Declined) xs" for xs :: "(string \<times> steer_outcome) list"
    by simp
  then show ?thesis unfolding answered_def by (auto simp: image_iff intro: rev_bexI)
qed

lemma pop_ok:
  assumes "poll_ok I p" and "pl_queue p = x # rest" and "pl_draining p"
  shows "poll_ok I (p\<lparr>pl_queue := rest\<rparr>)"
  using assms by (auto simp: poll_ok_def in_hand_def steering_def answered_def)

lemma take_ok:
  assumes "poll_ok I p" and q: "pl_queue p = (i, sg) # rest" and "pl_draining p" and c: "pl_current p = None"
    and "sg_kind sg = signal_abort \<or> i \<notin> set (pl_declined p)"
  shows "poll_ok I (p\<lparr>pl_queue := rest, pl_current := Some (i, sg)\<rparr>)"
proof -
  let ?p = "p\<lparr>pl_queue := rest, pl_current := Some (i, sg)\<rparr>"
  have ans: "answered ?p = answered p" by (simp add: answered_def)
  have "(i, Delivered) \<notin> set (pl_log p)" using assms(1) q by (auto simp: poll_ok_def)
  moreover have "i \<notin> set (answered p)" if "sg_kind sg = signal_steer"
    using assms that calculation by (auto simp: poll_ok_def answered_iff)
  ultimately show ?thesis
    using assms(1,3) q c unfolding poll_ok_def ans by (auto simp: in_hand_def steering_def split: RunSignalKind.splits)
qed

lemma next_cases:
  assumes "drain_next r (s, p) = (s', p')"
  obtains "s' = s" "p' = p"
  | x rest where "pl_queue p = x # rest" "pl_draining p" "p' = p\<lparr>pl_queue := rest\<rparr>" "s' = s \<or> (\<exists>i. s' = acknowledge r i s)"
  | i sg rest where "pl_queue p = (i, sg) # rest" "pl_draining p" "pl_current p = None"
      "sg_kind sg = signal_abort \<or> i \<notin> set (pl_declined p)" "s' = s" "p' = p\<lparr>pl_queue := rest, pl_current := Some (i, sg)\<rparr>"
proof (cases "pl_queue p")
  case Nil
  with assms that(1) show ?thesis by (simp add: drain_next_def)
next
  case (Cons x rest)
  obtain i sg where x: "x = (i, sg)" by fastforce
  show ?thesis
  proof (cases "\<not> pl_draining p \<or> pl_current p \<noteq> None")
    case True
    with assms Cons x that(1) show ?thesis by (simp add: drain_next_def)
  next
    case False
    then have "pl_draining p" "pl_current p = None" by blast+
    with assms Cons x that(2)[OF Cons] that(3)[of i sg rest] show ?thesis
      by (auto simp: drain_next_def Let_def split: if_splits)
  qed
qed

lemma next_ok:
  assumes "poll_ok I p" and "store_ok I r s p" and "drain_next r (s, p) = (s', p')"
  shows "poll_ok I p'" and "store_ok I r s' p'"
proof -
  from assms(3) show "poll_ok I p'"
    by (cases rule: next_cases) (use assms(1) pop_ok take_ok in auto)
  from assms(3) show "store_ok I r s' p'"
    by (cases rule: next_cases) (use assms(2) in \<open>auto simp: store_ok_def pending_ids_ack\<close>)
qed

lemma settle_cases:
  assumes "drain_settle r oc (s, p) = (s', p')"
  obtains "s' = s" "p' = p"
  | i sg b where "pl_current p = Some (i, sg)" "sg_kind sg = signal_abort" "s' = s" "p' = p\<lparr>pl_current := None, pl_abortDelivered := b\<rparr>"
  | i sg d where "pl_current p = Some (i, sg)" "sg_kind sg = signal_steer" "s' = (if oc = Delivered then acknowledge r i s else s)"
      "p' = p\<lparr>pl_current := None, pl_log := pl_log p @ [(i, oc)], pl_declined := d\<rparr>"
      "set d = (if oc = Declined then insert i (set (pl_declined p)) else set (pl_declined p))"
proof (cases "pl_current p")
  case None
  with assms that(1) show ?thesis by (simp add: drain_settle_def)
next
  case (Some c)
  obtain i sg where c: "c = (i, sg)" by fastforce
  show ?thesis
  proof (cases "sg_kind sg")
    case signal_abort
    with assms Some c that(2)[of i sg "if oc = Threw then pl_abortDelivered p else True"] show ?thesis
      by (auto simp: drain_settle_def Let_def)
  next
    case signal_steer
    with assms Some c that(3)[of i sg "if oc = Declined then pl_declined p @ [i] else pl_declined p"] show ?thesis
      by (cases oc) (auto simp: drain_settle_def Let_def)
  qed
qed

lemma answered_snoc:
  "answered (p\<lparr>pl_current := None, pl_log := pl_log p @ [(i, oc)], pl_declined := d\<rparr>) = (if oc = Threw then answered p else answered p @ [i])"
  by (simp add: answered_def)

lemma settle_ok:
  assumes ok: "poll_ok I p" "store_ok I r s p" and "drain_settle r oc (s, p) = (s', p')"
  shows "poll_ok I p'" and "store_ok I r s' p'"
proof -
  from assms(3) have "poll_ok I p' \<and> store_ok I r s' p'"
  proof (cases rule: settle_cases)
    case 2
    with ok show ?thesis by (auto simp: poll_ok_def store_ok_def in_hand_def steering_def answered_def)
  next
    case (3 i sg d)
    note ans = answered_snoc[where p = p and i = i and oc = oc and d = d, folded 3(4)]
    have held: "steering p' = []" "in_hand p' = []" using 3(4) by (simp_all add: steering_def in_hand_def)
    have mine: "in_hand p = [i]" "steering p = [i]" using 3(1,2) by (simp_all add: in_hand_def steering_def)
    have "distinct (answered p')" using ok(1) ans mine by (auto simp: poll_ok_def)
    moreover have "{j. (j, Declined) \<in> set (pl_log p')} \<subseteq> set (pl_declined p')" using ok(1) 3(4,5) by (auto simp: poll_ok_def)
    ultimately have "poll_ok I p'"
      using ok(1) mine held unfolding poll_ok_def by (auto simp: 3(4))
    moreover have "store_ok I r s' p'" using ok(2) 3(3,4) by (auto simp: store_ok_def pending_ids_ack)
    ultimately show ?thesis ..
  qed (use ok in simp)
  then show "poll_ok I p'" "store_ok I r s' p'" by simp_all
qed

lemma finish_ok:
  assumes "poll_ok I p" and "store_ok I r s p"
  shows "poll_ok I (drain_finish r s p)" and "store_ok I r s (drain_finish r s p)"
proof -
  have idle: "poll_ok I (p\<lparr>pl_draining := False\<rparr>)" "poll_ok I (p\<lparr>pl_draining := False, pl_redrain := False\<rparr>)"
    if "pl_queue p = []" "pl_current p = None"
    using assms(1) that by (simp_all add: poll_ok_def in_hand_def steering_def answered_def)
  have kept: "store_ok I r s (p\<lparr>pl_draining := False\<rparr>)" "store_ok I r s (p\<lparr>pl_draining := False, pl_redrain := False\<rparr>)"
    using assms(2) by (simp_all add: store_ok_def)
  show "poll_ok I (drain_finish r s p)" "store_ok I r s (drain_finish r s p)"
    using assms idle kept drain_ok by (auto simp: drain_finish_def Let_def simp del: not_None_eq)
qed

lemma stop_ok:
  assumes "poll_ok I p" and "store_ok I r s p"
  shows "poll_ok I (stop_poll b r s p)" and "store_ok I r s (stop_poll b r s p)"
proof -
  have "poll_ok I (p\<lparr>pl_accepting := False\<rparr>)" "store_ok I r s (p\<lparr>pl_accepting := False\<rparr>)"
    using assms by (simp_all add: poll_ok_def store_ok_def in_hand_def steering_def answered_def)
  then show "poll_ok I (stop_poll b r s p)" "store_ok I r s (stop_poll b r s p)"
    using drain_ok by (auto simp: stop_poll_def Let_def)
qed

lemma send_ok:
  assumes "poll_ok I p" and "store_ok I r s p" and "i \<notin> I" and "send_signal r' sg i now s = (s', ok)"
  shows "store_ok (insert i I) r s' p"
proof -
  have "(i, Delivered) \<notin> set (pl_log p)" using assms(1,3) by (force simp: poll_ok_def)
  then show ?thesis
    using assms(2,3,4) pending_send[of r' sg i now s r] by (auto simp: store_ok_def pending_ids_def)
qed

lemma signal_inv_step:
  assumes "signal_inv r y" and "signal_step r y y'"
  shows "signal_inv r y'"
proof -
  let ?I = "set (sy_issued y)"
  have ok: "poll_ok ?I (sy_poll y)" "store_ok ?I r (sy_store y) (sy_poll y)" using assms(1) by (simp_all add: signal_inv_def)
  show ?thesis
    using assms(2)
  proof cases
    case (step_send i r' sg now s' acc)
    have "poll_ok (insert i ?I) (sy_poll y)" using ok(1) by (rule poll_ok_mono) auto
    moreover have "store_ok (insert i ?I) r s' (sy_poll y)" using send_ok[OF ok] step_send by blast
    ultimately show ?thesis using drain_ok step_send(1) by (auto simp: signal_inv_def)
  next
    case (step_take r')
    with ok show ?thesis by (auto simp: signal_inv_def store_ok_def pending_ids_def)
  next
    case (step_prune age now)
    with ok show ?thesis by (simp add: signal_inv_def store_ok_def pending_ids_def)
  qed (use ok in \<open>auto simp: signal_inv_def intro: drain_ok next_ok settle_ok finish_ok stop_ok store_ok_ack\<close>)
qed

interpretation signals: invariant_system "\<lambda>y. y = fresh_sys" "signal_step r" "signal_inv r"
proof unfold_locales
  show "y = fresh_sys \<Longrightarrow> signal_inv r y" for y
    by (simp add: signal_inv_def fresh_sys_def startSignalPoll_def poll_ok_def store_ok_def pending_ids_def in_hand_def steering_def answered_def)
qed (rule signal_inv_step)

section \<open>Properties\<close>

text \<open>C25: A steer is handed over once. However senders, the timer, the handlers of a poll and other readers of the store
  interleave, every call of the handler that was answered, by taking or by declining the steer, was the last one for
  that steer: no two answered calls are for the same signal and none is under way for an answered one. A steer that was
  taken is no longer pending, and the end of a call takes a steer from the store only if the handler took it.\<close>

theorem steer_handed_once:
  assumes "(signal_step r)\<^sup>*\<^sup>* fresh_sys y"
  shows "distinct (answered (sy_poll y)) \<and> set (steering (sy_poll y)) \<inter> set (answered (sy_poll y)) = {} \<and>
    (\<forall>i. (i, Delivered) \<in> set (pl_log (sy_poll y)) \<longrightarrow> i \<notin> set (pending_ids (sy_store y) r)) \<and>
    (\<forall>oc s' p'. drain_settle r oc (sy_store y, sy_poll y) = (s', p') \<longrightarrow>
       set (pending_ids (sy_store y) r) - set (pending_ids s' r) \<subseteq> {i. (i, Delivered) \<in> set (pl_log p')})"
proof -
  have inv: "signal_inv r y" using assms signals.reachable_inv by blast
  have "set (pending_ids (sy_store y) r) - set (pending_ids s' r) \<subseteq> {i. (i, Delivered) \<in> set (pl_log p')}"
    if "drain_settle r oc (sy_store y, sy_poll y) = (s', p')" for oc s' p'
    using that by (cases rule: settle_cases) (auto simp: pending_ids_ack)
  with inv show ?thesis unfolding signal_inv_def poll_ok_def store_ok_def by blast
qed

definition poll_holds :: "poll \<Rightarrow> string set" where
  "poll_holds p = fst ` set (pl_log p) \<union> set (in_hand p) \<union> fst ` set (pl_queue p)"

lemma holds_next: "drain_next r (s, p) = (s', p') \<Longrightarrow> poll_holds p' \<subseteq> poll_holds p \<and> pl_accepting p' = pl_accepting p"
  by (erule next_cases) (auto simp: poll_holds_def in_hand_def)

lemma holds_settle: "drain_settle r oc (s, p) = (s', p') \<Longrightarrow> poll_holds p' \<subseteq> poll_holds p \<and> pl_accepting p' = pl_accepting p"
  by (erule settle_cases) (auto simp: poll_holds_def in_hand_def)

lemma drain_closed: "\<not> pl_accepting p \<Longrightarrow> drain False r s p = p"
  by (simp add: drain_def)

lemma holds_step:
  assumes "signal_step r y y'" and "\<not> pl_accepting (sy_poll y)"
  shows "poll_holds (sy_poll y') \<subseteq> poll_holds (sy_poll y) \<and> \<not> pl_accepting (sy_poll y')"
  using assms(1)
proof cases
  case step_finish
  with assms(2) show ?thesis by (auto simp: drain_finish_def Let_def drain_closed poll_holds_def in_hand_def)
qed (use assms(2) in \<open>auto simp: drain_closed dest: holds_next holds_settle\<close>)

lemma holds_steps:
  assumes "(signal_step r)\<^sup>*\<^sup>* y y'" and "\<not> pl_accepting (sy_poll y)"
  shows "poll_holds (sy_poll y') \<subseteq> poll_holds (sy_poll y) \<and> \<not> pl_accepting (sy_poll y')"
  using assms by (induction rule: rtranclp_induct) (auto dest: holds_step)

text \<open>What stopping a poll drains. A poll that is stopped with \<open>drainOnStop\<close> while it is idle starts a pass over
  everything that is pending. One that is stopped during a pass only finishes that pass: the forced pass is noted as a
  further drain, which the end of the pass then starts unforced and which is therefore refused. Whatever happens after,
  only signals that the pass under way had read are handed over.\<close>

theorem drain_on_stop:
  assumes "pl_accepting (sy_poll y)" and "(signal_step r)\<^sup>*\<^sup>* (y\<lparr>sy_poll := stop_poll True r (sy_store y) (sy_poll y)\<rparr>) y'"
  shows "if pl_draining (sy_poll y) then fst ` set (pl_log (sy_poll y')) \<subseteq> poll_holds (sy_poll y)
    else pl_draining (stop_poll True r (sy_store y) (sy_poll y)) \<and>
      pl_queue (stop_poll True r (sy_store y) (sy_poll y)) = pending_signals (sy_store y) r"
proof (cases "pl_draining (sy_poll y)")
  case True
  then have "poll_holds (stop_poll True r (sy_store y) (sy_poll y)) = poll_holds (sy_poll y)"
    and "\<not> pl_accepting (stop_poll True r (sy_store y) (sy_poll y))"
    by (simp_all add: stop_poll_def drain_def Let_def poll_holds_def in_hand_def)
  with holds_steps[OF assms(2)] True show ?thesis by (auto simp: poll_holds_def)
qed (simp add: stop_poll_def drain_def Let_def)

section \<open>Witnesses\<close>

definition demo_steer :: RunSignal where
  "demo_steer = \<lparr>sg_kind = signal_steer, sg_text = Some ''hi'', sg_ts = None, sg_request = None, sg_dedupeKey = None,
     sg_sessionRequest = None, sg_queuedRunId = None\<rparr>"

text \<open>One steer, read and handed over.\<close>

definition demo_sent :: signal_sys where
  "demo_sent = (let s = fst (send_signal ''r'' demo_steer ''1'' 0 createMemoryRunSignalStore) in
     \<lparr>sy_store = s, sy_poll = drain False ''r'' s startSignalPoll, sy_issued = [''1'']\<rparr>)"

definition demo_handled :: signal_sys where
  "demo_handled = (let sp = drain_settle ''r'' Delivered (drain_next ''r'' (sy_store demo_sent, sy_poll demo_sent)) in
     demo_sent\<lparr>sy_store := fst sp, sy_poll := snd sp\<rparr>)"

lemma demo_steps: "(signal_step ''r'')\<^sup>*\<^sup>* fresh_sys demo_sent" "(signal_step ''r'')\<^sup>*\<^sup>* fresh_sys demo_handled"
proof -
  have "signal_step ''r'' fresh_sys demo_sent"
    using step_send[of "''1''" fresh_sys "''r''" demo_steer 0 "sy_store demo_sent" True "''r''"]
    by (simp add: fresh_sys_def demo_sent_def Let_def send_signal_def demo_steer_def signal_author_def)
  then show sent: "(signal_step ''r'')\<^sup>*\<^sup>* fresh_sys demo_sent" by (rule r_into_rtranclp)
  obtain s1 p1 where n: "drain_next ''r'' (sy_store demo_sent, sy_poll demo_sent) = (s1, p1)" by fastforce
  obtain s2 p2 where f: "drain_settle ''r'' Delivered (s1, p1) = (s2, p2)" by fastforce
  have "signal_step ''r'' demo_sent (demo_sent\<lparr>sy_store := s1, sy_poll := p1\<rparr>)" using n by (rule step_next)
  moreover have "signal_step ''r'' (demo_sent\<lparr>sy_store := s1, sy_poll := p1\<rparr>) demo_handled"
    using step_settle[of "''r''" Delivered "demo_sent\<lparr>sy_store := s1, sy_poll := p1\<rparr>"] f by (simp add: demo_handled_def n)
  ultimately show "(signal_step ''r'')\<^sup>*\<^sup>* fresh_sys demo_handled" using sent by (meson rtranclp.rtrancl_into_rtrancl)
qed

theorem steer_handed_once_witness:
  "pending_ids (sy_store demo_sent) ''r'' = [''1''] \<and> answered (sy_poll demo_handled) = [''1''] \<and>
   ''1'' \<notin> set (pending_ids (sy_store demo_handled) ''r'')"
proof -
  have "pending_ids (sy_store demo_sent) ''r'' = [''1'']" "answered (sy_poll demo_handled) = [''1'']"
    "(''1'', Delivered) \<in> set (pl_log (sy_poll demo_handled))" by code_simp+
  with steer_handed_once[OF demo_steps(2)] show ?thesis by blast
qed

text \<open>A second steer that arrives during the pass over the first is not handed over when the poll is stopped then.\<close>

theorem drain_on_stop_witness:
  "let y = \<lparr>sy_store = fst (send_signal ''r'' demo_steer ''2'' 0 (sy_store demo_sent)), sy_poll = sy_poll demo_sent, sy_issued = [''2'', ''1'']\<rparr>;
       p = stop_poll True ''r'' (sy_store y) (sy_poll y)
   in ''2'' \<notin> fst ` set (pl_log (snd (drain_settle ''r'' Delivered (drain_next ''r'' (sy_store y, p)))))"
proof -
  define y where "y = \<lparr>sy_store = fst (send_signal ''r'' demo_steer ''2'' 0 (sy_store demo_sent)), sy_poll = sy_poll demo_sent, sy_issued = [''2'', ''1'']\<rparr>"
  define p where "p = stop_poll True ''r'' (sy_store y) (sy_poll y)"
  let ?y = "y\<lparr>sy_poll := p\<rparr>"
  obtain s1 p1 where n: "drain_next ''r'' (sy_store y, p) = (s1, p1)" by fastforce
  obtain s2 p2 where f: "drain_settle ''r'' Delivered (s1, p1) = (s2, p2)" by fastforce
  have "signal_step ''r'' ?y (?y\<lparr>sy_store := s1, sy_poll := p1\<rparr>)"
    using step_next[of "''r''" ?y s1 p1] n by simp
  moreover have "signal_step ''r'' (?y\<lparr>sy_store := s1, sy_poll := p1\<rparr>) (?y\<lparr>sy_store := s2, sy_poll := p2\<rparr>)"
    using step_settle[of "''r''" Delivered "?y\<lparr>sy_store := s1, sy_poll := p1\<rparr>" s2 p2] f by simp
  ultimately have steps: "(signal_step ''r'')\<^sup>*\<^sup>* ?y (?y\<lparr>sy_store := s2, sy_poll := p2\<rparr>)"
    by (rule converse_rtranclp_into_rtranclp[OF _ r_into_rtranclp])
  have d: "pl_draining (sy_poll y)" "pl_accepting (sy_poll y)" "''2'' \<notin> poll_holds (sy_poll y)"
    unfolding y_def by code_simp+
  have "''2'' \<notin> fst ` set (pl_log p2)" using drain_on_stop[of y "''r''", OF d(2), folded p_def, OF steps] d by auto
  then show ?thesis unfolding Let_def y_def[symmetric] p_def[symmetric] by (simp add: n f)
qed

end
