(* ===== verification/Auth.thy ===== *)
theory Auth
  imports Complex_Main Json
begin

text \<open>
  Who may call the service: signed payloads (\<open>src/src/auth/signed-token.ts\<close>) and the tokens made of them, for
  capabilities (\<open>capability-token.ts\<close>), portal users (\<open>portal-identity.ts\<close>), access to the repositories of deployments
  (\<open>src/src/deploy/access-token.ts\<close>) and viewers (\<open>src/src/deploy/viewer-session.ts\<close>); and signed requests of
  sources with protection against replays (\<open>source-auth.ts\<close>, \<open>source-auth-sign.ts\<close>, \<open>replay-dedupe.ts\<close>, with
  \<open>verifyOrReject\<close> of \<open>src/src/api/http.ts\<close> and the check of the secrets in \<open>src/src/api/server.ts\<close>). HMAC, the compact
  signatures of \<open>jose\<close>, base64 and \<open>JSON.parse\<close> are the fields of a record. Claims are JSON values, as the code casts what
  it verified. Timestamps of requests are rational numbers and printed by an argument; expirations are integers.
\<close>

section \<open>Signed payloads\<close>

record crypto =
  hmac_base64url :: "string \<Rightarrow> string \<Rightarrow> string"
  hmac_hex :: "string \<Rightarrow> string \<Rightarrow> string"
  compactSign :: "string \<Rightarrow> string \<Rightarrow> string \<Rightarrow> string"
  compactVerify :: "string \<Rightarrow> string \<Rightarrow> string option"
  protected_kid :: "string \<Rightarrow> string option option"
  json_parse :: "string \<Rightarrow> json option"
  from_base64url :: "string \<Rightarrow> string"
  session_mac :: "string \<Rightarrow> string \<Rightarrow> string"
  decodeURIComponent :: "string \<Rightarrow> string option"

text \<open>The comparison takes the same time wherever the texts differ; what it returns is equality.\<close>

definition constantTimeEqual :: "string \<Rightarrow> string \<Rightarrow> bool" where
  "constantTimeEqual a b = (a = b)"

definition signingKeyId :: "crypto \<Rightarrow> string \<Rightarrow> string" where
  "signingKeyId K secret = take 8 (hmac_base64url K secret ''qm-signing-key-id'')"

definition mintSignedPayload :: "crypto \<Rightarrow> json \<Rightarrow> string \<Rightarrow> string" where
  "mintSignedPayload K v secret = compactSign K (signingKeyId K secret) (stringify v) secret"

fun legacy_payload :: "crypto \<Rightarrow> string \<Rightarrow> string \<Rightarrow> string list \<Rightarrow> json option" where
  "legacy_payload K payload sig [] = None"
| "legacy_payload K payload sig (secret # rest) =
     (if \<not> constantTimeEqual (hmac_base64url K secret payload) sig \<and> \<not> constantTimeEqual (hmac_hex K secret payload) sig
      then legacy_payload K payload sig rest
      else json_parse K (from_base64url K payload))"

definition verifyLegacyPayload :: "crypto \<Rightarrow> string \<Rightarrow> string list \<Rightarrow> json option" where
  "verifyLegacyPayload K token secrets =
     (case split_last (CHR ''.'') token of
        None \<Rightarrow> None
      | Some (payload, sig) \<Rightarrow> if payload = [] then None else legacy_payload K payload sig secrets)"

fun first_verified :: "crypto \<Rightarrow> string \<Rightarrow> string list \<Rightarrow> json option" where
  "first_verified K token [] = None"
| "first_verified K token (candidate # rest) =
     (case Option.bind (compactVerify K token candidate) (json_parse K) of
        Some v \<Rightarrow> Some v
      | None \<Rightarrow> first_verified K token rest)"

definition candidate_order :: "crypto \<Rightarrow> string option \<Rightarrow> string list \<Rightarrow> string list" where
  "candidate_order K kid secrets =
     (case kid of None \<Rightarrow> secrets | Some k \<Rightarrow> sort_key (\<lambda>s. if signingKeyId K s = k then 0 else 1 :: nat) secrets)"

definition verifySignedPayload :: "crypto \<Rightarrow> string \<Rightarrow> string list \<Rightarrow> json option" where
  "verifySignedPayload K token secrets =
     (if count_list token (CHR ''.'') \<noteq> 2 then verifyLegacyPayload K token secrets
      else case protected_kid K token of
        None \<Rightarrow> None
      | Some kid \<Rightarrow> first_verified K token (candidate_order K kid secrets))"

section \<open>Capabilities\<close>

definition CAPABILITY_TTL_MS :: int where "CAPABILITY_TTL_MS = 60 * 60000"
definition DEPLOYMENT_CREDENTIAL_TTL_MS :: int where "DEPLOYMENT_CREDENTIAL_TTL_MS = 10 * 365 * 24 * 60 * 60000"
definition CONTROL_PLANE_AUD :: string where "CONTROL_PLANE_AUD = ''control-plane''"
definition OAUTH_CONSENT_AUD :: string where "OAUTH_CONSENT_AUD = ''oauth-consent''"
definition CREDENTIAL_BROKER_AUD :: string where "CREDENTIAL_BROKER_AUD = ''credential-broker''"
definition EGRESS_PROXY_AUD :: string where "EGRESS_PROXY_AUD = ''egress-proxy''"
definition BLOB_TRANSFER_AUD :: string where "BLOB_TRANSFER_AUD = ''blob-transfer''"
definition SECRET_DROP_AUD :: string where "SECRET_DROP_AUD = ''secret-drop''"

text \<open>\<open>{ ...base, ...fields }\<close>.\<close>

definition spread :: "json jsmap \<Rightarrow> json jsmap \<Rightarrow> json jsmap" where
  "spread base fs = fold (\<lambda>p m. AList.update (fst p) (snd p) m) fs base"

definition mintCapabilityToken :: "crypto \<Rightarrow> string \<Rightarrow> json jsmap \<Rightarrow> string \<Rightarrow> string" where
  "mintCapabilityToken K orgId claims secret = mintSignedPayload K (JObj (spread [(''orgId'', JStr orgId)] claims)) secret"

fun json_truthy :: "json \<Rightarrow> bool" where
  "json_truthy JNull = False"
| "json_truthy (JBool b) = b"
| "json_truthy (JNum n) = (n \<noteq> 0)"
| "json_truthy (JStr s) = (s \<noteq> [])"
| "json_truthy _ = True"

text \<open>\<open>typeof v === "string"\<close>, \<open>"boolean"\<close>, \<open>Array.isArray(v)\<close>, for a value that is not \<open>undefined\<close>.\<close>

definition json_string :: "json \<Rightarrow> bool" where
  "json_string v = (case v of JStr s \<Rightarrow> True | _ \<Rightarrow> False)"
definition json_text :: "json \<Rightarrow> bool" where
  "json_text v = (case v of JStr s \<Rightarrow> s \<noteq> [] | _ \<Rightarrow> False)"
definition json_bool :: "json \<Rightarrow> bool" where
  "json_bool v = (case v of JBool b \<Rightarrow> True | _ \<Rightarrow> False)"
definition json_array :: "json \<Rightarrow> bool" where
  "json_array v = (case v of JArr xs \<Rightarrow> True | _ \<Rightarrow> False)"
definition json_strings :: "json \<Rightarrow> bool" where
  "json_strings v = (case v of JArr xs \<Rightarrow> list_all json_string xs | _ \<Rightarrow> False)"

text \<open>\<open>claims.k === undefined\<close> or the value is as required.\<close>

definition optional_field :: "json \<Rightarrow> string \<Rightarrow> (json \<Rightarrow> bool) \<Rightarrow> bool" where
  "optional_field claims k ok = (case jget claims k of None \<Rightarrow> True | Some v \<Rightarrow> ok v)"

definition isValidCapabilityTimezone :: "(string \<Rightarrow> bool) \<Rightarrow> json \<Rightarrow> bool" where
  "isValidCapabilityTimezone zone_ok v =
     (case v of JStr s \<Rightarrow> s \<noteq> [] \<and> length s \<le> 64 \<and> trim s = s \<and> zone_ok s | _ \<Rightarrow> False)"

definition blob_dir_ok :: "json \<Rightarrow> bool" where
  "blob_dir_ok v \<longleftrightarrow> jget v ''dir'' = Some (JStr ''read'') \<or> jget v ''dir'' = Some (JStr ''write'')"

definition memory_ok :: "json \<Rightarrow> bool" where
  "memory_ok v = (case jget v ''read'' of Some w \<Rightarrow> json_array w | None \<Rightarrow> False)"

definition attempt_ok :: "json \<Rightarrow> bool" where
  "attempt_ok v = (case v of JNum n \<Rightarrow> 1 \<le> n \<and> n \<le> MAX_SAFE_INTEGER | _ \<Rightarrow> False)"

definition claims_valid :: "(string \<Rightarrow> bool) \<Rightarrow> json \<Rightarrow> bool" where
  "claims_valid zone_ok claims \<longleftrightarrow>
     json_truthy claims \<and> jstr (jget claims ''actorId'') \<noteq> None \<and> jstr (jget claims ''scopeId'') \<noteq> None \<and> jnum (jget claims ''exp'') \<noteq> None \<and>
     optional_field claims ''timezone'' (isValidCapabilityTimezone zone_ok) \<and> optional_field claims ''scopeVersion'' json_string \<and>
     optional_field claims ''destinations'' json_array \<and> optional_field claims ''credentials'' json_array \<and>
     optional_field claims ''grants'' json_strings \<and> optional_field claims ''keychainMembers'' json_array \<and>
     optional_field claims ''memory'' memory_ok \<and> optional_field claims ''liveActor'' json_bool \<and>
     optional_field claims ''botActor'' json_bool \<and> optional_field claims ''liveAuthor'' json_bool \<and>
     optional_field claims ''blob'' blob_dir_ok \<and> optional_field claims ''drop'' json_string \<and>
     optional_field claims ''runId'' json_string \<and> optional_field claims ''sessionId'' json_text \<and>
     optional_field claims ''runAttempt'' attempt_ok \<and> optional_field claims ''runLeaseToken'' json_text \<and>
     optional_field claims ''deployment'' json_text"

definition verifyCapabilityToken :: "crypto \<Rightarrow> (string \<Rightarrow> bool) \<Rightarrow> string \<Rightarrow> string list \<Rightarrow> int \<Rightarrow> json option" where
  "verifyCapabilityToken K zone_ok token secrets now =
     (case verifySignedPayload K token secrets of
        None \<Rightarrow> None
      | Some claims \<Rightarrow>
          if \<not> claims_valid zone_ok claims then None
          else if the (jnum (jget claims ''exp'')) \<le> now then None
          else Some claims)"

definition BLOB_ID :: "string \<Rightarrow> bool" where
  "BLOB_ID s \<longleftrightarrow> length s = 32 \<and> set s \<subseteq> set ''0123456789abcdef''"

text \<open>\<open>expected\<close>: read the blob with this identifier (\<^const>\<open>Some\<close>), or write (\<^const>\<open>None\<close>).\<close>

definition verifyBlobTransferCapability ::
  "crypto \<Rightarrow> (string \<Rightarrow> bool) \<Rightarrow> string \<Rightarrow> string list \<Rightarrow> string option \<Rightarrow> int \<Rightarrow> json option" where
  "verifyBlobTransferCapability K zone_ok token secrets expected now =
     (case verifyCapabilityToken K zone_ok token secrets now of
        None \<Rightarrow> None
      | Some claims \<Rightarrow>
          (case jget claims ''blob'' of
             None \<Rightarrow> None
           | Some grant \<Rightarrow>
               if jget claims ''aud'' \<noteq> Some (JStr BLOB_TRANSFER_AUD) \<or> \<not> json_truthy grant \<or>
                  jget grant ''dir'' \<noteq> Some (JStr (if expected = None then ''write'' else ''read'')) then None
               else if jget grant ''id'' \<noteq> None \<and> (case jstr (jget grant ''id'') of None \<Rightarrow> True | Some i \<Rightarrow> \<not> BLOB_ID i) then None
               else if (case expected of Some i \<Rightarrow> jget grant ''id'' \<noteq> Some (JStr i) | None \<Rightarrow> jget grant ''id'' \<noteq> None) then None
               else Some claims))"

section \<open>Portal users, repositories and viewers\<close>

definition mintPortalIdentity :: "crypto \<Rightarrow> json \<Rightarrow> string \<Rightarrow> string" where
  "mintPortalIdentity K claims secret = mintSignedPayload K claims secret"

definition verifyPortalIdentity :: "crypto \<Rightarrow> string \<Rightarrow> string \<Rightarrow> int \<Rightarrow> json option" where
  "verifyPortalIdentity K token secret now =
     (case verifySignedPayload K token [secret] of
        None \<Rightarrow> None
      | Some claims \<Rightarrow>
          if \<not> json_truthy claims \<or> \<not> truthy (jstr (jget claims ''p'')) \<or> jnum (jget claims ''exp'') = None then None
          else if now > the (jnum (jget claims ''exp'')) then None
          else Some claims)"

definition mintDeployGitAccess :: "crypto \<Rightarrow> string \<Rightarrow> json jsmap \<Rightarrow> string" where
  "mintDeployGitAccess K secret access = mintSignedPayload K (JObj (spread access [(''version'', JNum 1)])) secret"

definition verifyDeployGitAccess :: "crypto \<Rightarrow> string \<Rightarrow> string \<Rightarrow> int \<Rightarrow> json option" where
  "verifyDeployGitAccess K secret token now =
     (case verifySignedPayload K token [secret] of
        None \<Rightarrow> None
      | Some access \<Rightarrow>
          if \<not> json_truthy access \<or> jget access ''version'' \<noteq> Some (JNum 1) \<or> jstr (jget access ''deploymentId'') = None \<or>
             (jget access ''permission'' \<noteq> Some (JStr ''read'') \<and> jget access ''permission'' \<noteq> Some (JStr ''write'')) then None
          else if \<not> optional_field access ''principalId'' json_string then None
          else (case jnum (jget access ''exp'') of None \<Rightarrow> None | Some e \<Rightarrow> if e \<le> now then None else Some access))"

text \<open>The text before and after the first dot, both not empty.\<close>

definition at_first_dot :: "string \<Rightarrow> (string \<times> string) option" where
  "at_first_dot s =
     (let body = takeWhile (\<lambda>c. c \<noteq> CHR ''.'') s; rest = drop (Suc (length body)) s in
      if CHR ''.'' \<in> set s \<and> body \<noteq> [] \<and> rest \<noteq> [] then Some (body, rest) else None)"

definition verifySessionToken :: "crypto \<Rightarrow> string \<Rightarrow> string \<Rightarrow> int \<Rightarrow> string option" where
  "verifySessionToken K token secret now =
     (case at_first_dot token of
        None \<Rightarrow> None
      | Some (body, got) \<Rightarrow>
          if got \<noteq> session_mac K secret body then None
          else (case json_parse K (from_base64url K body) of
             None \<Rightarrow> None
           | Some claims \<Rightarrow>
               if jget claims ''k'' \<noteq> Some (JStr ''session'') then None
               else if \<not> truthy (jstr (jget claims ''sub'')) then None
               else (case jnum (jget claims ''exp'') of
                  None \<Rightarrow> None
                | Some e \<Rightarrow> if e * 1000 \<le> now then None else jstr (jget claims ''sub''))))"

definition readCookies :: "crypto \<Rightarrow> string option \<Rightarrow> string \<Rightarrow> string list" where
  "readCookies K header cookie =
     List.map_filter (\<lambda>part. let p = trim part in
        if starts_with p (cookie @ ''='') then decodeURIComponent K (drop (length cookie + 1) p) else None)
       (split_char (CHR '';'') (nullish header []))"

definition portalSessionSub :: "crypto \<Rightarrow> string option \<Rightarrow> string \<Rightarrow> int \<Rightarrow> string option" where
  "portalSessionSub K header secret now =
     (case List.map_filter (\<lambda>token. verifySessionToken K token secret now) (readCookies K header ''portal_session'') of
        [] \<Rightarrow> None | sub # _ \<Rightarrow> Some sub)"

section \<open>Signed requests\<close>

definition SOURCE_AUTH_REPLAY_WINDOW_MS :: int where "SOURCE_AUTH_REPLAY_WINDOW_MS = 5 * 60000"
definition MIN_SIGNING_SECRET_LENGTH :: nat where "MIN_SIGNING_SECRET_LENGTH = 32"

definition isStrongSigningSecret :: "string option \<Rightarrow> bool" where
  "isStrongSigningSecret secret = (MIN_SIGNING_SECRET_LENGTH \<le> (case secret of None \<Rightarrow> 0 | Some s \<Rightarrow> length (trim s)))"

definition canonicalPayload :: "string \<Rightarrow> string \<Rightarrow> string \<Rightarrow> string" where
  "canonicalPayload meth pathWithQuery body = meth @ [CHR 0x0A] @ pathWithQuery @ [CHR 0x0A] @ body"

definition signRequest :: "crypto \<Rightarrow> (rat \<Rightarrow> string) \<Rightarrow> string \<Rightarrow> rat \<Rightarrow> string \<Rightarrow> string" where
  "signRequest K show_num secret timestamp canonical =
     ''v0='' @ hmac_hex K secret (''v0:'' @ show_num timestamp @ '':'' @ canonical)"

definition signedRequestHeaders ::
  "crypto \<Rightarrow> (rat \<Rightarrow> string) \<Rightarrow> string option \<Rightarrow> string \<Rightarrow> string \<Rightarrow> string \<Rightarrow> string jsmap \<Rightarrow> rat \<Rightarrow> string jsmap" where
  "signedRequestHeaders K show_num secret meth pathWithQuery body base nowSec =
     (if \<not> truthy secret then base
      else AList.update ''x-signature'' (signRequest K show_num (the secret) nowSec (canonicalPayload meth pathWithQuery body))
        (AList.update ''x-timestamp'' (show_num nowSec) base))"

text \<open>\<open>sq_timestamp\<close> is \<^const>\<open>None\<close> for a number that is not finite.\<close>

record SourceAuthRequest =
  sq_signature :: string
  sq_timestamp :: "rat option"
  sq_body :: string
  sq_eventId :: string

datatype SourceAuthResult = auth_ok | auth_failed string

definition verifySignature :: "crypto \<Rightarrow> (rat \<Rightarrow> string) \<Rightarrow> string \<Rightarrow> SourceAuthRequest \<Rightarrow> int \<Rightarrow> int \<Rightarrow> SourceAuthResult" where
  "verifySignature K show_num secret req now window =
     (if sq_signature req = [] then auth_failed ''missing signature (unsigned request)''
      else case sq_timestamp req of
        None \<Rightarrow> auth_failed ''invalid timestamp''
      | Some ts \<Rightarrow>
          if \<bar>of_int now - ts * 1000\<bar> > of_int window then auth_failed ''stale timestamp (replay protection)''
          else if \<not> constantTimeEqual (signRequest K show_num secret ts (sq_body req)) (sq_signature req)
          then auth_failed ''signature mismatch''
          else auth_ok)"

section \<open>Replays\<close>

text \<open>The time of the next pruning is \<^const>\<open>None\<close> at first, for minus infinity.\<close>

record replay_dedupe =
  rd_seen :: "rat jsmap"
  rd_nextPruneAt :: "int option"

definition createMemoryReplayDedupe :: replay_dedupe where
  "createMemoryReplayDedupe = \<lparr>rd_seen = [], rd_nextPruneAt = None\<rparr>"

definition PRUNE_INTERVAL_MS :: int where "PRUNE_INTERVAL_MS = 60000"

definition prune_seen :: "int \<Rightarrow> replay_dedupe \<Rightarrow> replay_dedupe" where
  "prune_seen t d =
     (if (case rd_nextPruneAt d of None \<Rightarrow> True | Some n \<Rightarrow> n \<le> t)
      then d\<lparr>rd_nextPruneAt := Some (t + PRUNE_INTERVAL_MS), rd_seen := filter (\<lambda>p. \<not> snd p < of_int t) (rd_seen d)\<rparr>
      else d)"

definition claim_event :: "string \<Rightarrow> rat \<Rightarrow> int \<Rightarrow> replay_dedupe \<Rightarrow> replay_dedupe \<times> bool" where
  "claim_event eventId expiresAtMs t d =
     (let d' = prune_seen t d in
      case map_of (rd_seen d') eventId of
        Some e \<Rightarrow> if of_int t \<le> e then (d', False) else (d'\<lparr>rd_seen := AList.update eventId expiresAtMs (rd_seen d')\<rparr>, True)
      | None \<Rightarrow> (d'\<lparr>rd_seen := AList.update eventId expiresAtMs (rd_seen d')\<rparr>, True))"

text \<open>The clock is read once for the timestamp (\<open>now\<close>) and once more for the memory of events (\<open>later\<close>).\<close>

definition source_verify ::
  "crypto \<Rightarrow> (rat \<Rightarrow> string) \<Rightarrow> string \<Rightarrow> int \<Rightarrow> int \<Rightarrow> int \<Rightarrow> SourceAuthRequest \<Rightarrow> replay_dedupe \<Rightarrow> replay_dedupe \<times> SourceAuthResult" where
  "source_verify K show_num secret window now later req d =
     (case verifySignature K show_num secret req now window of
        auth_failed r \<Rightarrow> (d, auth_failed r)
      | auth_ok \<Rightarrow>
          (let (d', claimed) = claim_event (sq_eventId req) (the (sq_timestamp req) * 1000 + of_int window) later d in
           (d', if claimed then auth_ok else auth_failed ''duplicate event (already processed)'')))"

text \<open>\<open>verifyOrReject\<close>: the signature is the identifier of the event. Without a secret only an insecure server accepts. A request
  that only reads is not remembered (\<open>dedup\<close> is false).\<close>

definition verifyOrReject ::
  "crypto \<Rightarrow> (rat \<Rightarrow> string) \<Rightarrow> string option \<Rightarrow> bool \<Rightarrow> bool \<Rightarrow> int \<Rightarrow> int \<Rightarrow> string \<Rightarrow> rat option \<Rightarrow> string \<Rightarrow> replay_dedupe
    \<Rightarrow> replay_dedupe \<times> SourceAuthResult" where
  "verifyOrReject K show_num secret dedup allowUnsigned now later signature timestamp payload d =
     (if \<not> truthy secret then (d, if allowUnsigned then auth_ok else auth_failed ''source authentication is not configured'')
      else let req = \<lparr>sq_signature = signature, sq_timestamp = timestamp, sq_body = payload, sq_eventId = signature\<rparr> in
      if dedup then source_verify K show_num (the secret) SOURCE_AUTH_REPLAY_WINDOW_MS now later req d
      else (d, verifySignature K show_num (the secret) req now SOURCE_AUTH_REPLAY_WINDOW_MS))"

section \<open>Secrets of a server\<close>

record server_secrets =
  sv_signingSecret :: "string option"
  sv_capabilitySecret :: "string option"
  sv_portalIdentitySecret :: "string option"
  sv_allowUnauthenticatedCore :: bool
  sv_requireSignedPortalIdentity :: bool
  sv_production :: bool

definition shared_secret :: "server_secrets \<Rightarrow> string option \<Rightarrow> bool" where
  "shared_secret d v \<longleftrightarrow> \<not> truthy v \<or> v = sv_signingSecret d"

text \<open>Whether \<open>createServer\<close> starts a server, and whether that server accepts unsigned requests.\<close>

definition createServer :: "server_secrets \<Rightarrow> bool option" where
  "createServer d =
     (if \<not> truthy (sv_signingSecret d) \<and> sv_allowUnauthenticatedCore d then Some True
      else if \<not> isStrongSigningSecret (sv_signingSecret d) then None
      else if (sv_requireSignedPortalIdentity d \<or> sv_production d) \<and>
          (shared_secret d (sv_capabilitySecret d) \<or> shared_secret d (sv_portalIdentitySecret d) \<or>
           sv_capabilitySecret d = sv_portalIdentitySecret d) then None
      else Some False)"

end
