(* ===== verification/Auth_Properties.thy ===== *)
theory Auth_Properties
  imports Auth
begin

text \<open>
  What authentication guarantees: a request that was accepted is not accepted again, whatever else is received and
  whenever the memory of accepted requests is pruned; and a capability that was minted is accepted exactly as long as
  its claims are valid, under any list of secrets that holds the one it was signed with.
\<close>

declare map_of_eq_Some_iff [simp del]

section \<open>Replays\<close>

lemma map_of_filter_snd:
  assumes "map_of m k = Some v" and "P v"
  shows "map_of (filter (\<lambda>p. P (snd p)) m) k = Some v"
  using assms by (induction m) (auto split: if_splits)

lemma source_verify_ok:
  assumes "source_verify K show_num secret window now later req d = (d', auth_ok)"
  obtains ts where "sq_timestamp req = Some ts" "of_int now \<le> ts * 1000 + of_int window"
    "claim_event (sq_eventId req) (ts * 1000 + of_int window) later d = (d', True)"
proof -
  from assms have "verifySignature K show_num secret req now window = auth_ok"
    by (auto simp: source_verify_def split: SourceAuthResult.splits)
  then obtain ts where ts: "sq_timestamp req = Some ts" "\<not> \<bar>of_int now - ts * 1000\<bar> > of_int window"
    by (auto simp: verifySignature_def split: if_splits option.splits)
  from ts(2) have "of_int now \<le> ts * 1000 + of_int window" by linarith
  with ts(1) assms that show thesis
    by (auto simp: source_verify_def split: SourceAuthResult.splits prod.splits if_splits)
qed

text \<open>The event is remembered until a time that is at least \<open>e\<close>, or \<open>e\<close> has passed.\<close>

definition barred_until :: "string \<Rightarrow> rat \<Rightarrow> int \<Rightarrow> replay_dedupe \<Rightarrow> bool" where
  "barred_until i e t d \<longleftrightarrow> e < of_int t \<or> (\<exists>e'. map_of (rd_seen d) i = Some e' \<and> e \<le> e')"

lemma barred_later: "barred_until i e t d \<Longrightarrow> t \<le> t' \<Longrightarrow> barred_until i e t' d"
  unfolding barred_until_def by (meson le_less_trans less_le_trans of_int_le_iff)

lemma barred_prune: "barred_until i e t d \<Longrightarrow> barred_until i e t (prune_seen t d)"
proof -
  assume b: "barred_until i e t d"
  show ?thesis
  proof (cases "e < of_int t")
    case False
    with b obtain e' where e': "map_of (rd_seen d) i = Some e'" "e \<le> e'" by (auto simp: barred_until_def)
    have "\<not> e' < of_int t" using False e'(2) by linarith
    from map_of_filter_snd[OF e'(1), of "\<lambda>v. \<not> v < of_int t", OF this] e' show ?thesis
      by (auto simp: barred_until_def prune_seen_def)
  qed (simp add: barred_until_def)
qed

lemma barred_claim:
  assumes "barred_until i e t d"
  shows "barred_until i e t (fst (claim_event j ex t d))"
proof -
  note b = barred_prune[OF assms]
  let ?d = "prune_seen t d"
  show ?thesis
  proof (cases "j = i \<and> \<not> e < of_int t")
    case True
    with b obtain e' where "map_of (rd_seen ?d) i = Some e'" "e \<le> e'" by (auto simp: barred_until_def)
    moreover then have "of_int t \<le> e'" using True by linarith
    ultimately show ?thesis using True by (auto simp: claim_event_def Let_def barred_until_def)
  next
    case False
    with b show ?thesis
      by (auto simp: claim_event_def Let_def barred_until_def update_conv' split: option.splits)
  qed
qed

lemma claim_bars: "claim_event i e t d = (d', True) \<Longrightarrow> barred_until i e t d'"
  by (auto simp: claim_event_def Let_def barred_until_def update_conv' split: option.splits if_splits)

lemma barred_refused:
  assumes "barred_until i e t d" and "of_int t \<le> e"
  shows "snd (claim_event i ex t d) = False"
  using barred_prune[OF assms(1)] assms(2) by (auto simp: claim_event_def Let_def barred_until_def split: option.splits)

text \<open>A request as the server meets it: the two readings of the clock, whether it is one to be remembered, and what it carries.\<close>

record signed_request =
  rq_now :: int
  rq_later :: int
  rq_dedup :: bool
  rq_signature :: string
  rq_timestamp :: "rat option"
  rq_payload :: string

definition verify_request :: "crypto \<Rightarrow> (rat \<Rightarrow> string) \<Rightarrow> string \<Rightarrow> signed_request \<Rightarrow> replay_dedupe \<Rightarrow> replay_dedupe \<times> SourceAuthResult" where
  "verify_request K show_num secret r d =
     verifyOrReject K show_num (Some secret) (rq_dedup r) False (rq_now r) (rq_later r) (rq_signature r) (rq_timestamp r) (rq_payload r) d"

fun request_run ::
  "crypto \<Rightarrow> (rat \<Rightarrow> string) \<Rightarrow> string \<Rightarrow> signed_request list \<Rightarrow> replay_dedupe \<Rightarrow> SourceAuthResult list" where
  "request_run K show_num secret [] d = []"
| "request_run K show_num secret (r # rest) d =
     snd (verify_request K show_num secret r d) # request_run K show_num secret rest (fst (verify_request K show_num secret r d))"

text \<open>The readings of the clock in the order they are taken.\<close>

definition clock_readings :: "signed_request list \<Rightarrow> int list" where
  "clock_readings rs = concat (map (\<lambda>r. [rq_now r, rq_later r]) rs)"

lemma clock_simps [simp]: "clock_readings [] = []" "clock_readings (r # rs) = rq_now r # rq_later r # clock_readings rs"
  by (simp_all add: clock_readings_def)

definition window_end :: "rat \<Rightarrow> rat" where
  "window_end ts = ts * 1000 + of_int SOURCE_AUTH_REPLAY_WINDOW_MS"

lemma verify_request_ok:
  assumes "secret \<noteq> []" "rq_dedup r" "snd (verify_request K show_num secret r d) = auth_ok"
  obtains ts where "rq_timestamp r = Some ts" "of_int (rq_now r) \<le> window_end ts"
    "claim_event (rq_signature r) (window_end ts) (rq_later r) d = (fst (verify_request K show_num secret r d), True)"
proof -
  let ?q = "\<lparr>sq_signature = rq_signature r, sq_timestamp = rq_timestamp r, sq_body = rq_payload r, sq_eventId = rq_signature r\<rparr>"
  have "source_verify K show_num secret SOURCE_AUTH_REPLAY_WINDOW_MS (rq_now r) (rq_later r) ?q d = (fst (verify_request K show_num secret r d), auth_ok)"
    using assms by (simp add: verify_request_def verifyOrReject_def prod_eq_iff)
  then show thesis by (rule source_verify_ok) (use that in \<open>auto simp: window_end_def\<close>)
qed

lemma barred_request: "barred_until i e (rq_later r) d \<Longrightarrow> barred_until i e (rq_later r) (fst (verify_request K show_num secret r d))"
  using barred_claim[of i e "rq_later r" d]
  by (auto simp: verify_request_def verifyOrReject_def source_verify_def Let_def case_prod_beta split: SourceAuthResult.splits)

lemma barred_run:
  assumes "secret \<noteq> []" and "barred_until sig e t d" and "sorted (t # clock_readings rs)" and "j < length rs"
    and "rq_dedup (rs ! j)" "rq_signature (rs ! j) = sig" "rq_timestamp (rs ! j) = Some ts" "e = window_end ts"
    and "request_run K show_num secret rs d ! j = auth_ok"
  shows "of_int (rq_now (rs ! j)) \<le> e \<and> e < of_int (rq_later (rs ! j))"
  using assms
proof (induction rs arbitrary: d t j)
  case (Cons r rs)
  have b: "barred_until sig e (rq_later r) d" using Cons.prems(2,3) by (auto intro: barred_later)
  show ?case
  proof (cases j)
    case 0
    from Cons.prems 0 have ok: "snd (verify_request K show_num secret r d) = auth_ok" "rq_dedup r" by simp_all
    from verify_request_ok[OF Cons.prems(1) ok(2,1)] obtain x where "rq_timestamp r = Some x" "of_int (rq_now r) \<le> window_end x"
      "claim_event (rq_signature r) (window_end x) (rq_later r) d = (fst (verify_request K show_num secret r d), True)" by blast
    with Cons.prems 0 have x: "of_int (rq_now r) \<le> e" "snd (claim_event sig e (rq_later r) d)" by auto
    moreover have "\<not> of_int (rq_later r) \<le> e" using barred_refused[OF b, of e] x(2) by blast
    ultimately show ?thesis using 0 by simp
  next
    case (Suc k)
    show ?thesis unfolding Suc nth_Cons_Suc
      by (rule Cons.IH[OF Cons.prems(1) barred_request[OF b]]) (use Cons.prems Suc in \<open>auto simp: sorted_wrt_append\<close>)
  qed
qed simp

text \<open>C26: A request is accepted once. Take any requests that arrive at a server in the order of its clock, which is read twice for
  each, some of them only reading and so not remembered. If one that is remembered was accepted and a later one that is
  remembered repeats its signature and timestamp, then the later one is refused, whenever the memory is pruned in between;
  except where the window of the timestamp ends between the two readings of the clock for that later request.\<close>

theorem replay_refused:
  assumes "secret \<noteq> []" and "sorted (clock_readings rs)" and "i < j" and "j < length rs"
    and "rq_dedup (rs ! i)" and "rq_dedup (rs ! j)"
    and "rq_signature (rs ! j) = rq_signature (rs ! i)" and "rq_timestamp (rs ! j) = rq_timestamp (rs ! i)"
    and "request_run K show_num secret rs createMemoryReplayDedupe ! i = auth_ok"
    and "request_run K show_num secret rs createMemoryReplayDedupe ! j = auth_ok"
  shows "\<exists>ts. rq_timestamp (rs ! j) = Some ts \<and> of_int (rq_now (rs ! j)) \<le> ts * 1000 + of_int SOURCE_AUTH_REPLAY_WINDOW_MS \<and>
    ts * 1000 + of_int SOURCE_AUTH_REPLAY_WINDOW_MS < of_int (rq_later (rs ! j))"
proof -
  have "\<exists>ts. rq_timestamp (rs ! j) = Some ts \<and> of_int (rq_now (rs ! j)) \<le> window_end ts \<and> window_end ts < of_int (rq_later (rs ! j))"
    if "request_run K show_num secret rs d ! i = auth_ok" "request_run K show_num secret rs d ! j = auth_ok" for d
    using assms(2-8) that
  proof (induction rs arbitrary: d i j)
    case (Cons r rs)
    obtain j' where j: "j = Suc j'" using Cons.prems(2) by (cases j) auto
    show ?case
    proof (cases i)
      case 0
      with Cons.prems have ok: "snd (verify_request K show_num secret r d) = auth_ok" "rq_dedup r" by simp_all
      from verify_request_ok[OF assms(1) ok(2,1)] obtain x where x: "rq_timestamp r = Some x"
        "claim_event (rq_signature r) (window_end x) (rq_later r) d = (fst (verify_request K show_num secret r d), True)" by blast
      have "of_int (rq_now (rs ! j')) \<le> window_end x \<and> window_end x < of_int (rq_later (rs ! j'))"
        by (rule barred_run[OF assms(1) claim_bars[OF x(2)]]) (use Cons.prems 0 j x(1) in \<open>auto simp: window_end_def\<close>)
      with Cons.prems 0 j x(1) show ?thesis by (simp add: window_end_def)
    next
      case (Suc i')
      with Cons.IH[of i' j' "fst (verify_request K show_num secret r d)"] Cons.prems j show ?thesis by simp
    qed
  qed simp
  from this[OF assms(9,10)] show ?thesis by (simp add: window_end_def)
qed

section \<open>Capabilities\<close>

text \<open>What is documented of the signatures and of JSON, for one value and the secrets at hand: what was signed verifies
  with its secret and carries its payload, whichever secret verifies it; the header names the key; the token has three
  parts; and parsing undoes printing.\<close>

definition signs_faithfully :: "crypto \<Rightarrow> json \<Rightarrow> string \<Rightarrow> string list \<Rightarrow> bool" where
  "signs_faithfully K v secret secrets \<longleftrightarrow>
     compactVerify K (mintSignedPayload K v secret) secret = Some (stringify v) \<and>
     (\<forall>s \<in> set secrets. compactVerify K (mintSignedPayload K v secret) s \<in> {None, Some (stringify v)}) \<and>
     protected_kid K (mintSignedPayload K v secret) = Some (Some (signingKeyId K secret)) \<and>
     count_list (mintSignedPayload K v secret) (CHR ''.'') = 2 \<and> json_parse K (stringify v) = Some v"

lemma first_verified_found:
  assumes "\<forall>s \<in> set ss. compactVerify K t s \<in> {None, Some p}" and "s \<in> set ss" and "compactVerify K t s = Some p" and "json_parse K p = Some v"
  shows "first_verified K t ss = Some v"
  using assms by (induction ss) auto

lemma verify_minted:
  assumes "signs_faithfully K v secret secrets" and "secret \<in> set secrets"
  shows "verifySignedPayload K (mintSignedPayload K v secret) secrets = Some v"
proof -
  let ?t = "mintSignedPayload K v secret"
  have "first_verified K ?t (candidate_order K (Some (signingKeyId K secret)) secrets) = Some v"
    by (rule first_verified_found[of _ _ _ "stringify v" secret]) (use assms in \<open>auto simp: signs_faithfully_def candidate_order_def\<close>)
  with assms show ?thesis by (simp add: verifySignedPayload_def signs_faithfully_def)
qed

text \<open>C27: A capability is worth its claims. The token of a capability is accepted under every list of secrets that holds
  the secret it was signed with, wherever that stands, exactly if its claims are well formed and it has not expired, and
  yields exactly those claims; and it moves a blob only if it was made for moving blobs and names this very blob.\<close>

theorem capability_accepted_as_minted:
  assumes "v = JObj (spread [(''orgId'', JStr orgId)] claims)" and "signs_faithfully K v secret secrets" and "secret \<in> set secrets"
  shows "verifyCapabilityToken K zone_ok (mintCapabilityToken K orgId claims secret) secrets now =
      (if claims_valid zone_ok v \<and> now < the (jnum (jget v ''exp'')) then Some v else None) \<and>
    (\<forall>i c. verifyBlobTransferCapability K zone_ok (mintCapabilityToken K orgId claims secret) secrets (Some i) now = Some c \<longrightarrow>
      c = v \<and> now < the (jnum (jget v ''exp'')) \<and> jget v ''aud'' = Some (JStr BLOB_TRANSFER_AUD) \<and> BLOB_ID i \<and>
      (\<exists>g. jget v ''blob'' = Some g \<and> jget g ''dir'' = Some (JStr ''read'') \<and> jget g ''id'' = Some (JStr i)))"
proof -
  have cap: "verifyCapabilityToken K zone_ok (mintCapabilityToken K orgId claims secret) secrets now =
      (if claims_valid zone_ok v \<and> now < the (jnum (jget v ''exp'')) then Some v else None)"
    using verify_minted[OF assms(2,3)] assms(1) by (auto simp: verifyCapabilityToken_def mintCapabilityToken_def)
  moreover have "c = v \<and> now < the (jnum (jget v ''exp'')) \<and> jget v ''aud'' = Some (JStr BLOB_TRANSFER_AUD) \<and> BLOB_ID i \<and>
      (\<exists>g. jget v ''blob'' = Some g \<and> jget g ''dir'' = Some (JStr ''read'') \<and> jget g ''id'' = Some (JStr i))"
    if "verifyBlobTransferCapability K zone_ok (mintCapabilityToken K orgId claims secret) secrets (Some i) now = Some c" for i c
    using that unfolding verifyBlobTransferCapability_def cap
    by (auto split: if_splits option.splits)
  ultimately show ?thesis by blast
qed

text \<open>A server in production has a strong secret, and three different ones.\<close>

lemma production_secrets:
  assumes "createServer d = Some False" and "sv_production d"
  shows "isStrongSigningSecret (sv_signingSecret d)"
    and "distinct [sv_signingSecret d, sv_capabilitySecret d, sv_portalIdentitySecret d]"
  using assms by (auto simp: createServer_def shared_secret_def split: if_splits)

section \<open>Witnesses\<close>

definition demo_crypto :: "json \<Rightarrow> crypto" where
  "demo_crypto v = \<lparr>hmac_base64url = (\<lambda>k x. k @ x), hmac_hex = (\<lambda>k x. k @ x), compactSign = (\<lambda>kid p s. ''a.b.c''),
     compactVerify = (\<lambda>t s. if s = ''new'' then Some (stringify v) else None), protected_kid = (\<lambda>t. Some (Some ''newqm-si'')),
     json_parse = (\<lambda>t. if t = stringify v then Some v else None), from_base64url = (\<lambda>s. s), session_mac = (\<lambda>k x. k @ x),
     decodeURIComponent = (\<lambda>s. Some s)\<rparr>"

text \<open>A signed request, the same one a second later, and once more at the very end of the window: there it is accepted again, since the
  clock ticks on between its two readings.\<close>

definition demo_request :: "int \<Rightarrow> int \<Rightarrow> signed_request" where
  "demo_request t u = \<lparr>rq_now = t, rq_later = u, rq_dedup = True, rq_signature = ''v0=kv0:1:b'', rq_timestamp = Some 1, rq_payload = ''b''\<rparr>"

lemmas demo_request_simps = demo_request_def verify_request_def verifyOrReject_def source_verify_def verifySignature_def signRequest_def
  constantTimeEqual_def demo_crypto_def SOURCE_AUTH_REPLAY_WINDOW_MS_def claim_event_def createMemoryReplayDedupe_def prune_seen_def PRUNE_INTERVAL_MS_def

theorem replay_refused_witness:
  "request_run (demo_crypto JNull) (\<lambda>ts. ''1'') ''k'' [demo_request 1000 1000, demo_request 2000 2001] createMemoryReplayDedupe ! 1 \<noteq> auth_ok"
proof
  let ?rs = "[demo_request 1000 1000, demo_request 2000 2001]"
  assume a: "request_run (demo_crypto JNull) (\<lambda>ts. ''1'') ''k'' ?rs createMemoryReplayDedupe ! 1 = auth_ok"
  have "request_run (demo_crypto JNull) (\<lambda>ts. ''1'') ''k'' ?rs createMemoryReplayDedupe ! 0 = auth_ok" by (simp add: demo_request_simps)
  from replay_refused[of "''k''" ?rs 0 1, OF _ _ _ _ _ _ _ _ this a] show False
    by (simp add: demo_request_def SOURCE_AUTH_REPLAY_WINDOW_MS_def)
qed

theorem replay_at_the_edge:
  "request_run (demo_crypto JNull) (\<lambda>ts. ''1'') ''k'' [demo_request 1000 1000, demo_request 301000 301001] createMemoryReplayDedupe =
     [auth_ok, auth_ok]"
  by (simp add: demo_request_simps)

text \<open>A capability signed with the newer of two secrets.\<close>

theorem capability_accepted_as_minted_witness:
  "let cs = [(''actorId'', JStr ''u''), (''scopeId'', JStr ''s''), (''exp'', JNum 10)]; v = JObj ((''orgId'', JStr ''o'') # cs)
   in verifyCapabilityToken (demo_crypto v) (\<lambda>z. True) (mintCapabilityToken (demo_crypto v) ''o'' cs ''new'') [''old'', ''new''] 9 = Some v \<and>
      verifyCapabilityToken (demo_crypto v) (\<lambda>z. True) (mintCapabilityToken (demo_crypto v) ''o'' cs ''new'') [''old'', ''new''] 10 = None"
proof -
  let ?cs = "[(''actorId'', JStr ''u''), (''scopeId'', JStr ''s''), (''exp'', JNum 10)]"
  let ?v = "JObj ((''orgId'', JStr ''o'') # ?cs)"
  have v: "?v = JObj (spread [(''orgId'', JStr ''o'')] ?cs)" by (simp add: spread_def)
  have s: "signs_faithfully (demo_crypto ?v) ?v ''new'' [''old'', ''new'']"
    by (simp add: signs_faithfully_def demo_crypto_def mintSignedPayload_def signingKeyId_def)
  have "claims_valid (\<lambda>z. True) ?v" by (simp add: claims_valid_def optional_field_def)
  then show ?thesis
    using capability_accepted_as_minted[OF v s, of "\<lambda>z. True" 9] capability_accepted_as_minted[OF v s, of "\<lambda>z. True" 10] by simp
qed

end
