(* ===== verification/Swarm_Store.thy ===== *)
theory Swarm_Store
  imports Run_Store Session_Queries Item_Ledger
begin

text \<open>
  Swarms of agents: their settings (\<open>src/src/swarms/swarm-settings.ts\<close>), the fence that ties a write to a leased run
  (\<open>swarm-fence.ts\<close>) and the store (\<open>swarm-store.ts\<close>), over the run store and the session store. A swarm is one row of a
  durable map; every change of it is an atomic update of the row, which also notes whether work is left. The contexts of
  the members and the texts of the messages are kept as JSON texts; the model keeps the rows decoded, and encoding and
  decoding are inverse where \<open>JSON.parse\<close> is to \<open>JSON.stringify\<close>.
\<close>

datatype SwarmError = swarm_error string | non_retryable string

section \<open>Settings\<close>

record SwarmSettings =
  ws_agents :: int
  ws_depth :: int
  ws_messages :: int
  ws_notifications :: int
  ws_spawnRequests :: int
  ws_contextBytes :: int
  ws_textBytes :: int
  ws_waitMs :: int
  ws_turnMs :: int
  ws_lifetimeMs :: int

definition SWARM_DEFAULTS :: SwarmSettings where
  "SWARM_DEFAULTS = \<lparr>ws_agents = 32, ws_depth = 4, ws_messages = 128, ws_notifications = 256, ws_spawnRequests = 32,
     ws_contextBytes = 8192, ws_textBytes = 8192, ws_waitMs = 10000, ws_turnMs = 600000, ws_lifetimeMs = 3600000\<rparr>"

definition SWARM_MAXIMUMS :: SwarmSettings where
  "SWARM_MAXIMUMS = \<lparr>ws_agents = 64, ws_depth = 8, ws_messages = 256, ws_notifications = 1024, ws_spawnRequests = 64,
     ws_contextBytes = 16384, ws_textBytes = 16384, ws_waitMs = 30000, ws_turnMs = 3600000, ws_lifetimeMs = 86400000\<rparr>"

text \<open>The entries of a settings object, in the order of its keys, and the object with given entries.\<close>

definition setting_entries :: "SwarmSettings \<Rightarrow> int jsmap" where
  "setting_entries w = [(''agents'', ws_agents w), (''depth'', ws_depth w), (''messages'', ws_messages w), (''notifications'', ws_notifications w),
     (''spawnRequests'', ws_spawnRequests w), (''contextBytes'', ws_contextBytes w), (''textBytes'', ws_textBytes w), (''waitMs'', ws_waitMs w),
     (''turnMs'', ws_turnMs w), (''lifetimeMs'', ws_lifetimeMs w)]"

definition settings_of :: "(string \<Rightarrow> int) \<Rightarrow> SwarmSettings" where
  "settings_of f = \<lparr>ws_agents = f ''agents'', ws_depth = f ''depth'', ws_messages = f ''messages'', ws_notifications = f ''notifications'',
     ws_spawnRequests = f ''spawnRequests'', ws_contextBytes = f ''contextBytes'', ws_textBytes = f ''textBytes'', ws_waitMs = f ''waitMs'',
     ws_turnMs = f ''turnMs'', ws_lifetimeMs = f ''lifetimeMs''\<rparr>"

definition SETTING_KEYS :: "string list" where
  "SETTING_KEYS = map fst (setting_entries SWARM_DEFAULTS)"

definition setting_value :: "json jsmap \<Rightarrow> SwarmSettings \<Rightarrow> string \<Rightarrow> json" where
  "setting_value input defaults k = (case map_of input k of Some v \<Rightarrow> v | None \<Rightarrow> JNum (the (map_of (setting_entries defaults) k)))"

definition setting_ok :: "string \<Rightarrow> json \<Rightarrow> bool" where
  "setting_ok k v = (case v of JNum n \<Rightarrow> \<bar>n\<bar> \<le> MAX_SAFE_INTEGER \<and> 1 \<le> n \<and> n \<le> the (map_of (setting_entries SWARM_MAXIMUMS) k) | _ \<Rightarrow> False)"

definition resolveSwarmSettings :: "json \<Rightarrow> SwarmSettings \<Rightarrow> SwarmError + SwarmSettings" where
  "resolveSwarmSettings input defaults =
     (case input of
        JObj fs \<Rightarrow>
          (case find (\<lambda>k. k \<notin> set SETTING_KEYS) (map fst fs) of
             Some k \<Rightarrow> Inl (swarm_error (''unknown swarm setting: '' @ k))
           | None \<Rightarrow>
               (case find (\<lambda>k. \<not> setting_ok k (setting_value fs defaults k)) SETTING_KEYS of
                  Some k \<Rightarrow> Inl (swarm_error (''invalid swarm setting: '' @ k))
                | None \<Rightarrow>
                    let w = settings_of (\<lambda>k. the (jnum (Some (setting_value fs defaults k)))) in
                    if ws_agents w < 2 then Inl (swarm_error ''swarm settings must allow the root and a worker'') else Inr w))
      | _ \<Rightarrow> Inl (swarm_error ''invalid swarm settings''))"

section \<open>Data\<close>

datatype member_state = member_reserved | member_ready | member_failed

record SwarmMember =
  sm_id :: string
  sm_sessionId :: "string option"
  sm_sessionUrl :: "string option"
  sm_threadRef :: string
  sm_parentId :: "string option"
  sm_depth :: int
  sm_context :: json
  sm_sandboxId :: "string option"
  sm_forumSandboxId :: "string option"
  sm_state :: member_state
  sm_attempts :: nat
  sm_cleanupPending :: bool
  sm_error :: "string option"

datatype swarm_author = author_agent | author_human

datatype notification = notify_pending | notify_queued string | notify_failed

record SwarmMessage =
  wm_id :: string
  wm_seq :: nat
  wm_senderId :: string
  wm_senderSessionId :: string
  wm_author :: swarm_author
  wm_actorId :: string
  wm_text :: string
  wm_audience :: "string list"
  wm_replyTo :: "string option"
  wm_createdAt :: int
  wm_notifications :: "notification jsmap"

record Swarm =
  sw_id :: string
  sw_scopeId :: string
  sw_ownerId :: string
  sw_participants :: "string list"
  sw_createdAt :: int
  sw_expiresAt :: int
  sw_template :: orch_input
  sw_settings :: SwarmSettings
  sw_backend :: string
  sw_members :: "SwarmMember list"
  sw_messages :: "SwarmMessage list"
  sw_spawnRequests :: "(string list \<times> string) jsmap"
  sw_messageRequests :: "(string \<times> string) jsmap"
  sw_notificationCount :: int
  sw_pending :: bool

definition assertSwarmOpen :: "int \<Rightarrow> Swarm \<Rightarrow> SwarmError + unit" where
  "assertSwarmOpen now s = (if sw_expiresAt s \<le> now then Inl (non_retryable ''swarm work window expired'') else Inr ())"

section \<open>The fence\<close>

record SwarmRunFence =
  sf_runId :: string
  sf_attempt :: "nat option"
  sf_leaseToken :: "string option"
  sf_sessionId :: string
  sf_threadRef :: string
  sf_actorId :: string
  sf_scopeId :: string

definition swarm_run_ok :: "SwarmRunFence \<Rightarrow> run option \<Rightarrow> int \<Rightarrow> bool" where
  "swarm_run_ok fence r now =
     (case r of
        None \<Rightarrow> False
      | Some r \<Rightarrow> run_status r = Running \<and> sf_attempt fence = Some (run_attempts r) \<and> truthy (sf_leaseToken fence) \<and>
          run_leaseToken r = sf_leaseToken fence \<and> (case run_leaseExpiresAt r of None \<Rightarrow> False | Some e \<Rightarrow> now < e) \<and>
          run_sessionId r = sf_threadRef fence \<and> Principal.p_id (oi_actor (run_request r)) = sf_actorId fence)"

definition assertSwarmRun :: "SwarmRunFence \<Rightarrow> run option \<Rightarrow> int \<Rightarrow> SwarmError + unit" where
  "assertSwarmRun fence r now = (if swarm_run_ok fence r now then Inr () else Inl (swarm_error ''active capability run required''))"

section \<open>The store\<close>

text \<open>Rows as they are stored: the texts of JSON values beside what stays as it is.\<close>

definition encode_swarm :: "Swarm \<Rightarrow> string list \<times> string list \<times> Swarm" where
  "encode_swarm s = (map (\<lambda>m. stringify (sm_context m)) (sw_members s), map (\<lambda>m. stringify (JStr (wm_text m))) (sw_messages s),
     s\<lparr>sw_members := map (\<lambda>m. m\<lparr>sm_context := JNull\<rparr>) (sw_members s), sw_messages := map (\<lambda>m. m\<lparr>wm_text := []\<rparr>) (sw_messages s)\<rparr>)"

definition decode_swarm :: "(string \<Rightarrow> json option) \<Rightarrow> string list \<times> string list \<times> Swarm \<Rightarrow> Swarm" where
  "decode_swarm parse row = (case row of (contexts, texts, s) \<Rightarrow>
     s\<lparr>sw_members := map (\<lambda>p. (snd p)\<lparr>sm_context := the (parse (fst p))\<rparr>) (zip contexts (sw_members s)),
       sw_messages := map (\<lambda>p. (snd p)\<lparr>wm_text := the (jstr (parse (fst p)))\<rparr>) (zip texts (sw_messages s))\<rparr>)"

type_synonym swarm_rows = "Swarm jsmap"
type_synonym swarm_change = "Swarm option \<Rightarrow> SwarmError + Swarm"

definition fencedWrite ::
  "sstore \<Rightarrow> run_store \<Rightarrow> int \<Rightarrow> SwarmRunFence \<Rightarrow> string \<Rightarrow> swarm_change \<Rightarrow> swarm_rows \<Rightarrow> swarm_rows \<times> (SwarmError + Swarm)" where
  "fencedWrite sessions runs now fence i change rows =
     (case get_session sessions (sf_sessionId fence) of
        None \<Rightarrow> (rows, Inl (swarm_error ''capability session mismatch''))
      | Some se \<Rightarrow>
          if s_scopeId se \<noteq> sf_scopeId fence \<or> s_threadRef se \<noteq> sf_threadRef fence
          then (rows, Inl (swarm_error ''capability session mismatch''))
          else (case assertSwarmRun fence (get_run runs (sf_runId fence)) now of
             Inl e \<Rightarrow> (rows, Inl e)
           | Inr _ \<Rightarrow>
               (case change (dm_get rows i) of
                  Inl e \<Rightarrow> (rows, Inl e)
                | Inr s \<Rightarrow> (dm_put rows i s, Inr s))))"

definition plain_update :: "string \<Rightarrow> swarm_change \<Rightarrow> swarm_rows \<Rightarrow> swarm_rows \<times> (SwarmError + Swarm)" where
  "plain_update i change rows =
     (case dm_get rows i of
        None \<Rightarrow> (rows, Inl (swarm_error ''swarm not found''))
      | Some s \<Rightarrow> (case change (Some s) of Inl e \<Rightarrow> (rows, Inl e) | Inr s' \<Rightarrow> (dm_put rows i s', Inr s')))"

definition create_change :: "int \<Rightarrow> Swarm \<Rightarrow> swarm_change" where
  "create_change now s current =
     (case current of
        Some c \<Rightarrow> Inr c
      | None \<Rightarrow> (case assertSwarmOpen now s of Inl e \<Rightarrow> Inl e | Inr _ \<Rightarrow> Inr s))"

definition create_swarm ::
  "sstore \<Rightarrow> run_store \<Rightarrow> int \<Rightarrow> Swarm \<Rightarrow> SwarmRunFence option \<Rightarrow> swarm_rows \<Rightarrow> swarm_rows \<times> (SwarmError + Swarm)" where
  "create_swarm sessions runs now s fence rows =
     (case fence of
        Some f \<Rightarrow> fencedWrite sessions runs now f (sw_id s) (create_change now s) rows
      | None \<Rightarrow>
          (case create_change now s None of
             Inl e \<Rightarrow> (rows, Inl e)
           | Inr s' \<Rightarrow> (let (rows', v) = dm_putIfAbsent rows (sw_id s) s' in (rows', Inr v))))"

definition work_left :: "Swarm \<Rightarrow> bool" where
  "work_left s \<longleftrightarrow> list_ex (\<lambda>m. sm_state m = member_reserved \<or> sm_cleanupPending m) (sw_members s) \<or>
     list_ex (\<lambda>m. list_ex (\<lambda>n. snd n = notify_pending) (wm_notifications m)) (sw_messages s)"

definition apply_change :: "(Swarm \<Rightarrow> SwarmError + Swarm) \<Rightarrow> swarm_change" where
  "apply_change mutate current =
     (case current of
        None \<Rightarrow> Inl (swarm_error ''swarm not found'')
      | Some s \<Rightarrow> (case mutate s of Inl e \<Rightarrow> Inl e | Inr s' \<Rightarrow> Inr (s'\<lparr>sw_pending := work_left s'\<rparr>)))"

definition update_swarm ::
  "sstore \<Rightarrow> run_store \<Rightarrow> int \<Rightarrow> string \<Rightarrow> (Swarm \<Rightarrow> SwarmError + Swarm) \<Rightarrow> SwarmRunFence option \<Rightarrow> swarm_rows
    \<Rightarrow> swarm_rows \<times> (SwarmError + Swarm)" where
  "update_swarm sessions runs now i mutate fence rows =
     (case fence of
        Some f \<Rightarrow> fencedWrite sessions runs now f i (apply_change mutate) rows
      | None \<Rightarrow> plain_update i (apply_change mutate) rows)"

definition sweepBatch :: nat where "sweepBatch = 16"

definition pending_swarms :: "string option \<Rightarrow> swarm_rows \<Rightarrow> Swarm list" where
  "pending_swarms afterId rows =
     take sweepBatch (filter sw_pending (map snd (filter (\<lambda>p. case afterId of None \<Rightarrow> True | Some a \<Rightarrow> a < fst p) (dm_entries rows))))"

end
