(* ===== verification/Swarm_Service.thy ===== *)
theory Swarm_Service
  imports Swarm_Store
begin

text \<open>
  The service of swarms (\<open>src/src/swarms/swarm-service.ts\<close>): agents and people of a session spawn a pool of workers, send
  messages to each other and read them; a sweeper provides the workers with sessions and turns messages into runs. The
  operations read the sessions, the runs and the swarm before they change its row; the change itself checks everything
  again that it relies on, and is a definition of its own (\<open>reserve\<close>, \<open>post_message\<close>, \<open>set_context\<close> and the
  changes of the sweeper), so that it can be interleaved freely. Sandboxes, the authorisation of a scope, SHA-256 and the
  URI encoding are arguments. The deadlines and the concurrency of the sweeper are not modelled.
\<close>

section \<open>Checks\<close>

definition byteLength :: "string \<Rightarrow> int" where
  "byteLength s = int (length s + length (filter (\<lambda>c. 128 \<le> (of_char c :: nat)) s))"

definition boundedText :: "string \<Rightarrow> int \<Rightarrow> string \<Rightarrow> SwarmError + unit" where
  "boundedText value bound label = (if trim value = [] \<or> bound < byteLength value then Inl (swarm_error (''invalid '' @ label)) else Inr ())"

datatype swarm_audience = audience_all | audience_ids "string list"

definition canonicalAudience :: "swarm_audience \<Rightarrow> int \<Rightarrow> SwarmError + swarm_audience" where
  "canonicalAudience input bound =
     (case input of
        audience_all \<Rightarrow> Inr audience_all
      | audience_ids ids \<Rightarrow>
          if bound < int (length ids) \<or> list_ex (\<lambda>i. trim i = [] \<or> 128 < length i) ids then Inl (swarm_error ''invalid audience'')
          else Inr (audience_ids (sort (dedupe ids))))"

definition resolveAudience :: "swarm_audience \<Rightarrow> SwarmMember list \<Rightarrow> SwarmError + string list" where
  "resolveAudience input eligible =
     (case input of
        audience_all \<Rightarrow> Inr (sort (dedupe (map sm_id eligible)))
      | audience_ids ids \<Rightarrow> if list_ex (\<lambda>i. i \<notin> sm_id ` set eligible) ids then Inl (swarm_error ''invalid audience'') else Inr ids)"

text \<open>\<open>JSON.stringify\<close> gives \<open>undefined\<close> for \<open>undefined\<close>; parsing what it printed gives the value back.\<close>

definition jsonContext :: "json option \<Rightarrow> int \<Rightarrow> SwarmError + json" where
  "jsonContext value bound =
     (case value of
        None \<Rightarrow> Inl (swarm_error ''invalid context'')
      | Some v \<Rightarrow> if bound < byteLength (stringify v) then Inl (swarm_error ''invalid context'') else Inr v)"

definition rosterMatches :: "string list \<Rightarrow> string list \<Rightarrow> bool" where
  "rosterMatches current expected \<longleftrightarrow>
     length (dedupe current) = length (dedupe expected) \<and> list_all (\<lambda>i. i \<in> set expected) (dedupe current)"

text \<open>The dispatched part of a request: everything else must be left out, or belongs to the execution.\<close>

definition dispatchContract :: "orch_input \<Rightarrow> orch_input" where
  "dispatchContract input = input\<lparr>oi_displayText := None, oi_privateSessionMessage := False, oi_runId := None, oi_deliveryTarget := None,
     oi_surfaceTools := None, oi_otherKeys := []\<rparr>"

definition matchesDispatch :: "orch_input \<Rightarrow> orch_input \<Rightarrow> bool" where
  "matchesDispatch input expected \<longleftrightarrow>
     oi_displayText input = None \<and> \<not> oi_privateSessionMessage input \<and> oi_deliveryTarget input = None \<and> oi_surfaceTools input = None \<and>
     oi_otherKeys input = [] \<and> dispatchContract input = dispatchContract expected"

definition threadIdentity :: "(string \<Rightarrow> string) \<Rightarrow> string \<Rightarrow> string \<Rightarrow> SwarmError + string \<times> string" where
  "threadIdentity decodeURI threadRef sessionId =
     (if \<not> starts_with threadRef ''swarm:'' then Inr (sessionId, sessionId)
      else case split_char (CHR '':'') threadRef of
        [_, root, member] \<Rightarrow> if root = [] \<or> member = [] then Inl (swarm_error ''invalid swarm session'') else Inr (decodeURI root, member)
      | _ \<Rightarrow> Inl (swarm_error ''invalid swarm session''))"

section \<open>Who calls\<close>

record agent_claims =
  ac_actorId :: string
  ac_scopeId :: string
  ac_threadRef :: "string option"
  ac_runId :: "string option"
  ac_sessionId :: "string option"
  ac_runAttempt :: "nat option"
  ac_runLeaseToken :: "string option"
  ac_members :: "Principal list option"

datatype SwarmCaller = caller_agent agent_claims | caller_human string string "string option"

fun caller_kind :: "SwarmCaller \<Rightarrow> swarm_author" where
  "caller_kind (caller_agent c) = author_agent"
| "caller_kind (caller_human a s r) = author_human"

fun caller_actor :: "SwarmCaller \<Rightarrow> string" where
  "caller_actor (caller_agent c) = ac_actorId c"
| "caller_actor (caller_human a s r) = a"

record Authority =
  au_fence :: "SwarmRunFence option"
  au_sessionId :: string
  au_actorId :: string
  au_rootId :: string
  au_memberId :: string

record swarm_world =
  wd_swarms :: swarm_rows
  wd_sessions :: sstore
  wd_runs :: run_store

type_synonym authorizer = "string \<Rightarrow> ScopeId \<Rightarrow> string option \<Rightarrow> Principal list option \<Rightarrow> bool"

fun caller_session :: "swarm_world \<Rightarrow> SwarmCaller \<Rightarrow> session option" where
  "caller_session w (caller_agent c) = getByThread (wd_sessions w) (nullish (ac_threadRef c) [])"
| "caller_session w (caller_human a s r) = get_session (wd_sessions w) s"

text \<open>The fence of an agent's capability, if the run it names is the one at work in this session.\<close>

fun caller_fence :: "swarm_world \<Rightarrow> int \<Rightarrow> session \<Rightarrow> SwarmCaller \<Rightarrow> SwarmError + SwarmRunFence option" where
  "caller_fence w now se (caller_human a s r) = Inr None"
| "caller_fence w now se (caller_agent c) =
     (if ac_scopeId c \<noteq> s_scopeId se \<or> \<not> truthy (ac_runId c) then Inl (swarm_error ''session-bound capability required'')
      else let fence = \<lparr>sf_runId = the (ac_runId c), sf_attempt = ac_runAttempt c, sf_leaseToken = ac_runLeaseToken c, sf_sessionId = s_id se,
             sf_threadRef = s_threadRef se, sf_actorId = ac_actorId c, sf_scopeId = s_scopeId se\<rparr> in
      case get_run (wd_runs w) (the (ac_runId c)) of
        None \<Rightarrow> Inl (swarm_error ''capability run mismatch'')
      | Some r \<Rightarrow>
          if ac_sessionId c \<noteq> Some (s_id se) \<or> run_sessionId r \<noteq> s_threadRef se \<or>
             cv_threadRef (oi_conversation (run_request r)) \<noteq> s_threadRef se \<or> Principal.p_id (oi_actor (run_request r)) \<noteq> ac_actorId c \<or>
             conversationScope (oi_conversation (run_request r)) (ac_actorId c) \<noteq> s_scopeId se
          then Inl (swarm_error ''capability run mismatch'')
          else if run_leaseExpiresAt r = None \<or> run_leaseExpiresAt r = Some 0 then Inl (swarm_error ''active capability run required'')
          else (case assertSwarmRun fence (Some r) now of Inl e \<Rightarrow> Inl e | Inr _ \<Rightarrow> Inr (Some fence)))"

fun caller_members :: "SwarmCaller \<Rightarrow> Principal list option" where
  "caller_members (caller_agent c) = ac_members c"
| "caller_members (caller_human a s r) = None"

text \<open>What an existing swarm demands of the caller.\<close>

definition swarm_admits :: "swarm_world \<Rightarrow> session \<Rightarrow> string \<Rightarrow> string \<Rightarrow> Swarm \<Rightarrow> SwarmError + unit" where
  "swarm_admits w se actorId memberId s =
     (if sw_scopeId s \<noteq> s_scopeId se \<or> actorId \<notin> set (sw_participants s) then Inl (swarm_error ''swarm access denied'')
      else if \<not> rosterMatches (participantsOf (wd_sessions w) (sw_id s)) (sw_participants s) then Inl (swarm_error ''swarm roster changed'')
      else if \<not> rosterMatches (participantsOf (wd_sessions w) (s_id se)) (sw_participants s) then Inl (swarm_error ''swarm session roster changed'')
      else if \<not> list_ex (\<lambda>m. sm_id m = memberId \<and> sm_sessionId m = Some (s_id se)) (sw_members s)
      then Inl (swarm_error ''session is not a swarm member'')
      else Inr ())"

definition authority ::
  "(string \<Rightarrow> string) \<Rightarrow> authorizer \<Rightarrow> swarm_world \<Rightarrow> int \<Rightarrow> SwarmCaller \<Rightarrow> SwarmError + Authority \<times> Swarm option" where
  "authority decodeURI authorize w now caller =
     (case caller_session w caller of
        None \<Rightarrow> Inl (swarm_error ''session not found'')
      | Some se \<Rightarrow>
          if caller_actor caller \<notin> set (participantsOf (wd_sessions w) (s_id se)) then Inl (swarm_error ''session access denied'')
          else (case caller_fence w now se caller of
             Inl e \<Rightarrow> Inl e
           | Inr fence \<Rightarrow>
               (case threadIdentity decodeURI (s_threadRef se) (s_id se) of
                  Inl e \<Rightarrow> Inl e
                | Inr (rootId, memberId) \<Rightarrow>
                    let s = dm_get (wd_swarms w) rootId;
                        version = Option.bind s (\<lambda>s. keep_if (oi_scopeVersion (sw_template s)));
                        auth = \<lparr>au_fence = fence, au_sessionId = s_id se, au_actorId = caller_actor caller, au_rootId = rootId, au_memberId = memberId\<rparr> in
                    if \<not> authorize (caller_actor caller) (s_scopeId se) version (caller_members caller) then Inl (swarm_error ''scope access denied'')
                    else (case s of
                       None \<Rightarrow> if rootId \<noteq> s_id se then Inl (swarm_error ''swarm not found'') else Inr (auth, None)
                     | Some sw \<Rightarrow>
                         (case swarm_admits w se (caller_actor caller) memberId sw of Inl e \<Rightarrow> Inl e | Inr _ \<Rightarrow> Inr (auth, Some sw))))))"

definition load_swarm ::
  "(string \<Rightarrow> string) \<Rightarrow> authorizer \<Rightarrow> swarm_world \<Rightarrow> int \<Rightarrow> SwarmCaller \<Rightarrow> SwarmError + Authority \<times> Swarm \<times> SwarmMember" where
  "load_swarm decodeURI authorize w now caller =
     (case authority decodeURI authorize w now caller of
        Inl e \<Rightarrow> Inl e
      | Inr (auth, s) \<Rightarrow>
          (case (s, Option.bind s (\<lambda>s. find (\<lambda>m. sm_id m = au_memberId auth) (sw_members s))) of
             (Some s, Some self) \<Rightarrow> Inr (auth, s, self)
           | _ \<Rightarrow> Inl (swarm_error ''swarm not found; spawn an initial pool first'')))"

definition member_view :: "(string \<Rightarrow> string) \<Rightarrow> SwarmMember \<Rightarrow> SwarmMember" where
  "member_view encodeURI m = (if truthy (sm_sessionId m) then m\<lparr>sm_sessionUrl := Some (''/web-ui/s/'' @ encodeURI (the (sm_sessionId m)))\<rparr> else m)"

section \<open>Spawning\<close>

text \<open>What a spawn has settled before it changes the row; \<open>sp_ids\<close> are the identifiers it draws, one per context.\<close>

record spawn_request =
  sp_key :: string
  sp_fingerprint :: string
  sp_settings :: SwarmSettings
  sp_backend :: "string option"
  sp_auth :: Authority
  sp_kind :: swarm_author
  sp_text :: string
  sp_contexts :: "json list"
  sp_forumSandboxId :: "string option"
  sp_ids :: "string list"
  sp_messageId :: string
  sp_now :: int

definition new_member :: "(string \<Rightarrow> string) \<Rightarrow> Swarm \<Rightarrow> SwarmMember \<Rightarrow> string option \<Rightarrow> string \<times> json \<Rightarrow> SwarmMember" where
  "new_member encodeURI s parent forum p =
     \<lparr>sm_id = fst p, sm_sessionId = None, sm_sessionUrl = None, sm_threadRef = ''swarm:'' @ encodeURI (sw_id s) @ '':'' @ fst p,
      sm_parentId = Some (sm_id parent), sm_depth = sm_depth parent + 1, sm_context = snd p, sm_sandboxId = Some (fst p),
      sm_forumSandboxId = keep_if forum, sm_state = member_reserved, sm_attempts = 0, sm_cleanupPending = False, sm_error = None\<rparr>"

text \<open>\<open>parent\<close> is found by the checks of the caller; a member that is missing would raise a type error.\<close>

definition reserve :: "(string \<Rightarrow> string) \<Rightarrow> spawn_request \<Rightarrow> Swarm \<Rightarrow> SwarmError + Swarm" where
  "reserve encodeURI q s =
     (case map_of (sw_spawnRequests s) (sp_key q) of
        Some (ids, sig) \<Rightarrow>
          if sig \<noteq> sp_fingerprint q then Inl (swarm_error ''requestId reused with different content'') else Inr s
      | None \<Rightarrow>
          let count = int (length (sp_contexts q)) in
          if sp_settings q \<noteq> sw_settings s \<or> (sp_backend q \<noteq> None \<and> sp_backend q \<noteq> Some (sw_backend s))
          then Inl (swarm_error ''conflicting initial swarm settings'')
          else (case assertSwarmOpen (sp_now q) s of
             Inl e \<Rightarrow> Inl e
           | Inr _ \<Rightarrow>
               (case find (\<lambda>m. sm_id m = au_memberId (sp_auth q)) (sw_members s) of
                  None \<Rightarrow> Inl (swarm_error ''TypeError'')
                | Some parent \<Rightarrow>
                    if ws_depth (sw_settings s) \<le> sm_depth parent then Inl (swarm_error ''swarm depth budget exhausted'')
                    else if ws_agents (sw_settings s) < int (length (sw_members s)) + count then Inl (swarm_error ''swarm agent budget exhausted'')
                    else if ws_spawnRequests (sw_settings s) \<le> int (length (sw_spawnRequests s)) then Inl (swarm_error ''swarm spawn budget exhausted'')
                    else if ws_messages (sw_settings s) \<le> int (length (sw_messages s)) \<or>
                       ws_notifications (sw_settings s) < sw_notificationCount s + count then Inl (swarm_error ''swarm work budget exhausted'')
                    else let members = map (new_member encodeURI s parent (sp_forumSandboxId q)) (zip (sp_ids q) (sp_contexts q));
                             ids = map sm_id members in
                    Inr (s\<lparr>sw_members := sw_members s @ members,
                      sw_spawnRequests := AList.update (sp_key q) (ids, sp_fingerprint q) (sw_spawnRequests s),
                      sw_messages := sw_messages s @ [\<lparr>wm_id = sp_messageId q, wm_seq = length (sw_messages s) + 1, wm_senderId = sm_id parent,
                        wm_senderSessionId = au_sessionId (sp_auth q), wm_author = sp_kind q, wm_actorId = au_actorId (sp_auth q),
                        wm_text = sp_text q, wm_audience = ids, wm_replyTo = None, wm_createdAt = sp_now q,
                        wm_notifications = map (\<lambda>i. (i, notify_pending)) ids\<rparr>],
                      sw_notificationCount := sw_notificationCount s + count\<rparr>))))"

text \<open>The sandboxes of the actor in the scope, as listed, with the default backend of the scope.\<close>

record sandbox_inventory =
  iv_sandboxes :: "(string \<times> string) list"
  iv_defaultSandboxId :: "string option"
  iv_providers :: "(string \<times> string list) list"
  iv_defaultBackend :: string

definition swarm_backend :: "sandbox_inventory \<Rightarrow> string option \<Rightarrow> SwarmError + string" where
  "swarm_backend iv backend =
     (let selected = find (\<lambda>b. Some (fst b) = iv_defaultSandboxId iv) (iv_sandboxes iv);
          requested = nullish backend (nullish (map_option snd selected) (iv_defaultBackend iv)) in
      case find (\<lambda>p. fst p = requested) (iv_providers iv) of
        Some p \<Rightarrow>
          if ''create'' \<in> set (snd p) \<and> ''retire'' \<in> set (snd p) then Inr (fst p)
          else Inl (swarm_error ''sandbox backend must support creating and retiring workers'')
      | None \<Rightarrow> Inl (swarm_error ''sandbox backend must support creating and retiring workers''))"

definition only_true :: "bool option \<Rightarrow> bool option" where
  "only_true b = (if b = Some True then Some True else None)"

definition swarm_template :: "SwarmSettings \<Rightarrow> orch_input \<Rightarrow> orch_input" where
  "swarm_template settings source =
     (let c = oi_conversation source;
          channelRef = (case cv_channelRef c of Some r \<Rightarrow> Some r | None \<Rightarrow> if cv_kind c = conv_dm then None else Some (cv_threadRef c)) in
      \<lparr>oi_text = [], oi_displayText = None, oi_privateSessionMessage = False, oi_actor = oi_actor source,
       oi_conversation = c\<lparr>cv_channelRef := channelRef\<rparr>, oi_origin = origin_automation None None None, oi_surface = Some ''swarm'',
       oi_scopeVersion = keep_if (oi_scopeVersion source), oi_unattendedGrants = oi_unattendedGrants source,
       oi_readOnly = only_true (oi_readOnly source), oi_skipMemory = only_true (oi_skipMemory source), oi_harness = keep_if (oi_harness source),
       oi_model = keep_if (oi_model source), oi_thinkingLevel = oi_thinkingLevel source, oi_fastMode = oi_fastMode source,
       oi_turnWallClockMs = Some (ws_turnMs settings), oi_swarm = None, oi_sessionParticipantIds = None, oi_runId = None,
       oi_deliveryTarget = None, oi_surfaceTools = None, oi_otherKeys = []\<rparr>)"

fun caller_run :: "SwarmCaller \<Rightarrow> string option" where
  "caller_run (caller_agent c) = ac_runId c"
| "caller_run (caller_human a s r) = r"

definition root_member :: "session \<Rightarrow> SwarmMember" where
  "root_member se = \<lparr>sm_id = s_id se, sm_sessionId = Some (s_id se), sm_sessionUrl = None, sm_threadRef = s_threadRef se, sm_parentId = None,
     sm_depth = 0, sm_context = JObj [], sm_sandboxId = None, sm_forumSandboxId = None, sm_state = member_ready, sm_attempts = 0,
     sm_cleanupPending = False, sm_error = None\<rparr>"

definition prepareInitialSwarm ::
  "swarm_world \<Rightarrow> int \<Rightarrow> sandbox_inventory \<Rightarrow> SwarmCaller \<Rightarrow> Authority \<Rightarrow> SwarmSettings \<Rightarrow> string option \<Rightarrow> SwarmError + Swarm" where
  "prepareInitialSwarm w now iv caller auth settings backend =
     (let r = (if truthy (caller_run caller) then get_run (wd_runs w) (the (caller_run caller)) else None) in
      case (r, get_session (wd_sessions w) (au_sessionId auth)) of
        (Some r, Some se) \<Rightarrow>
          if cv_threadRef (oi_conversation (run_request r)) \<noteq> s_threadRef se \<or> Principal.p_id (oi_actor (run_request r)) \<noteq> au_actorId auth
          then Inl (swarm_error ''a run belonging to this session is required to initialize a swarm'')
          else if conversationScope (oi_conversation (run_request r)) (au_actorId auth) \<noteq> s_scopeId se
          then Inl (swarm_error ''run scope mismatch'')
          else (case swarm_backend iv backend of
             Inl e \<Rightarrow> Inl e
           | Inr b \<Rightarrow>
               Inr \<lparr>sw_id = s_id se, sw_scopeId = s_scopeId se, sw_ownerId = au_actorId auth,
                 sw_participants = participantsOf (wd_sessions w) (s_id se), sw_createdAt = now, sw_expiresAt = now + ws_lifetimeMs settings,
                 sw_template = swarm_template settings (run_request r), sw_settings = settings, sw_backend = b,
                 sw_members = [root_member se], sw_messages = [], sw_spawnRequests = [], sw_messageRequests = [],
                 sw_notificationCount = 0, sw_pending = True\<rparr>)
      | _ \<Rightarrow> Inl (swarm_error ''a run belonging to this session is required to initialize a swarm''))"

text \<open>\<open>si_json\<close> is the whole input, which is signed; \<open>si_context\<close> is \<^const>\<open>None\<close> when the field is missing or
  \<open>undefined\<close> (told apart by \<open>si_hasContext\<close>). The elements of \<open>si_contexts\<close> are JSON values.\<close>

record SpawnInput =
  si_requestId :: string
  si_count :: "int option"
  si_hasContext :: bool
  si_context :: "json option"
  si_contexts :: "json list option"
  si_text :: string
  si_forumSandboxId :: "string option"
  si_settings :: "json option"
  si_backend :: "string option"
  si_json :: json

definition author_name :: "swarm_author \<Rightarrow> string" where
  "author_name a = (case a of author_agent \<Rightarrow> ''agent'' | author_human \<Rightarrow> ''human'')"

definition signature_of :: "(string \<Rightarrow> string) \<Rightarrow> json \<Rightarrow> string" where
  "signature_of sha v = sha (canonicalJson (Some v))"

definition request_key :: "(string \<Rightarrow> string) \<Rightarrow> Authority \<Rightarrow> swarm_author \<Rightarrow> string \<Rightarrow> string" where
  "request_key sha auth kind requestId =
     signature_of sha (JArr [JStr (au_memberId auth), JStr (au_actorId auth), JStr (author_name kind), JStr requestId])"

fun all_right :: "('e + 'a) list \<Rightarrow> 'e + 'a list" where
  "all_right [] = Inr []"
| "all_right (Inl e # xs) = Inl e"
| "all_right (Inr x # xs) = (case all_right xs of Inl e \<Rightarrow> Inl e | Inr ys \<Rightarrow> Inr (x # ys))"

text \<open>The contexts of the workers to spawn.\<close>

definition spawn_contexts :: "SpawnInput \<Rightarrow> SwarmSettings \<Rightarrow> SwarmError + json list" where
  "spawn_contexts input settings =
     (let count = nullish (si_count input) (nullish (map_option (\<lambda>c. int (length c)) (si_contexts input)) 1) in
      if MAX_SAFE_INTEGER < \<bar>count\<bar> \<or> count < 1 \<or> ws_agents settings \<le> count then Inl (swarm_error ''invalid pool size'')
      else if (case si_contexts input of None \<Rightarrow> False | Some cs \<Rightarrow> int (length cs) \<noteq> count) then Inl (swarm_error ''contexts must match count'')
      else let defaultContext = (if si_hasContext input then si_context input else Some (JObj [])) in
      all_right (map (\<lambda>i. jsonContext (case si_contexts input of Some cs \<Rightarrow> Some (cs ! i) | None \<Rightarrow> defaultContext) (ws_contextBytes settings)) [0..<nat count]))"

definition members_listed :: "(string \<Rightarrow> string) \<Rightarrow> string list \<Rightarrow> Swarm \<Rightarrow> SwarmMember list" where
  "members_listed encodeURI ids s = map (member_view encodeURI) (filter (\<lambda>m. sm_id m \<in> set ids) (sw_members s))"

text \<open>What a spawn settles before it reserves: \<^const>\<open>Inr\<close> \<^const>\<open>None\<close> when the request was made before.
  \<open>forum\<close> is the scope that owns the forum sandbox.\<close>

definition spawn_prepare ::
  "(string \<Rightarrow> string) \<Rightarrow> SwarmSettings \<Rightarrow> swarm_world \<Rightarrow> int \<Rightarrow> (string \<Rightarrow> SwarmError + string) \<Rightarrow> SwarmCaller \<Rightarrow> SpawnInput \<Rightarrow> string list \<Rightarrow> string
    \<Rightarrow> Authority \<times> Swarm option \<Rightarrow> SwarmError + spawn_request option" where
  "spawn_prepare sha defaults w now forum caller input ids messageId auth_existing =
     (case auth_existing of (auth, existing) \<Rightarrow>
      let key = request_key sha auth (caller_kind caller) (si_requestId input); fingerprint = signature_of sha (si_json input) in
      case Option.bind existing (\<lambda>s. map_of (sw_spawnRequests s) key) of
        Some (_, sig) \<Rightarrow> if sig \<noteq> fingerprint then Inl (swarm_error ''requestId reused with different content'') else Inr None
      | None \<Rightarrow>
          if existing \<noteq> None \<and> (si_settings input \<noteq> None \<or> si_backend input \<noteq> None)
          then Inl (swarm_error ''settings are only allowed on initial swarm creation'')
          else (case (case existing of Some s \<Rightarrow> Inr (sw_settings s) | None \<Rightarrow> resolveSwarmSettings (nullish (si_settings input) (JObj [])) defaults) of
             Inl e \<Rightarrow> Inl e
           | Inr settings \<Rightarrow>
               (case boundedText (si_text input) (ws_textBytes settings) ''text'' of
                  Inl e \<Rightarrow> Inl e
                | Inr _ \<Rightarrow>
                    (case spawn_contexts input settings of
                       Inl e \<Rightarrow> Inl e
                     | Inr contexts \<Rightarrow>
                         if existing = None \<and> ws_notifications settings < int (length contexts)
                         then Inl (swarm_error ''swarm notification budget exhausted'')
                         else (case (if truthy (si_forumSandboxId input) then forum (the (si_forumSandboxId input)) else Inr []) of
                            Inl e \<Rightarrow> Inl e
                          | Inr ownerScope \<Rightarrow>
                              if truthy (si_forumSandboxId input) \<and>
                                 map_option s_scopeId (get_session (wd_sessions w) (au_sessionId auth)) \<noteq> Some ownerScope
                              then Inl (swarm_error ''forum scope mismatch'')
                              else Inr (Some \<lparr>sp_key = key, sp_fingerprint = fingerprint, sp_settings = settings, sp_backend = si_backend input,
                                sp_auth = auth, sp_kind = caller_kind caller, sp_text = si_text input, sp_contexts = contexts,
                                sp_forumSandboxId = si_forumSandboxId input, sp_ids = ids, sp_messageId = messageId, sp_now = now\<rparr>))))))"

text \<open>The change of the row: an existing swarm is updated; otherwise a new one with the reservation is created, and the
  reservation is repeated if another request had created the swarm in the meantime.\<close>

definition spawn_commit ::
  "(string \<Rightarrow> string) \<Rightarrow> swarm_world \<Rightarrow> sandbox_inventory \<Rightarrow> SwarmCaller \<Rightarrow> bool \<Rightarrow> spawn_request \<Rightarrow> swarm_world \<times> (SwarmError + Swarm)" where
  "spawn_commit encodeURI w iv caller existed q =
     (let auth = sp_auth q; now = sp_now q;
          update = (\<lambda>rows. update_swarm (wd_sessions w) (wd_runs w) now (au_rootId auth) (reserve encodeURI q) (au_fence auth) rows);
          back = (\<lambda>r. (w\<lparr>wd_swarms := fst r\<rparr>, snd r)) in
      if existed then back (update (wd_swarms w))
      else case prepareInitialSwarm w now iv caller auth (sp_settings q) (sp_backend q) of
        Inl e \<Rightarrow> (w, Inl e)
      | Inr initial \<Rightarrow>
          (case reserve encodeURI q initial of
             Inl e \<Rightarrow> (w, Inl e)
           | Inr reserved \<Rightarrow>
               (case create_swarm (wd_sessions w) (wd_runs w) now reserved (au_fence auth) (wd_swarms w) of
                  (rows, Inl e) \<Rightarrow> (w, Inl e)
                | (rows, Inr s) \<Rightarrow> if map_of (sw_spawnRequests s) (sp_key q) \<noteq> None then back (rows, Inr s) else back (update rows))))"

definition spawn_swarm ::
  "(string \<Rightarrow> string) \<Rightarrow> (string \<Rightarrow> string) \<Rightarrow> (string \<Rightarrow> string) \<Rightarrow> authorizer \<Rightarrow> SwarmSettings \<Rightarrow> swarm_world \<Rightarrow> int \<Rightarrow> sandbox_inventory
    \<Rightarrow> (string \<Rightarrow> SwarmError + string) \<Rightarrow> SwarmCaller \<Rightarrow> SpawnInput \<Rightarrow> string list \<Rightarrow> string \<Rightarrow> swarm_world \<times> (SwarmError + SwarmMember list)" where
  "spawn_swarm encodeURI decodeURI sha authorize defaults w now iv forum caller input ids messageId =
     (case boundedText (si_requestId input) 128 ''requestId'' of
        Inl e \<Rightarrow> (w, Inl e)
      | Inr _ \<Rightarrow>
          (case authority decodeURI authorize w now caller of
             Inl e \<Rightarrow> (w, Inl e)
           | Inr (auth, existing) \<Rightarrow>
               let key = request_key sha auth (caller_kind caller) (si_requestId input); fingerprint = signature_of sha (si_json input);
                   answer = (\<lambda>s. case map_of (sw_spawnRequests s) key of
                      Some (mids, sig) \<Rightarrow>
                        if sig \<noteq> fingerprint then Inl (swarm_error ''requestId reused with different content'') else Inr (members_listed encodeURI mids s)
                    | None \<Rightarrow> Inl (swarm_error ''TypeError'')) in
               (case spawn_prepare sha defaults w now forum caller input ids messageId (auth, existing) of
                  Inl e \<Rightarrow> (w, Inl e)
                | Inr None \<Rightarrow> (w, answer (the existing))
                | Inr (Some q) \<Rightarrow>
                    (case spawn_commit encodeURI w iv caller (existing \<noteq> None) q of
                       (w', Inl e) \<Rightarrow> (w', Inl e)
                     | (w', Inr s) \<Rightarrow> (w', answer s)))))"

section \<open>Messages\<close>

record MessageInput =
  mi_requestId :: string
  mi_audience :: swarm_audience
  mi_text :: string
  mi_replyTo :: "string option"
  mi_notify :: "bool option"

record post_request =
  po_key :: string
  po_fingerprint :: string
  po_auth :: Authority
  po_kind :: swarm_author
  po_audience :: "string list"
  po_input :: MessageInput
  po_messageId :: string
  po_now :: int

definition post_message :: "post_request \<Rightarrow> Swarm \<Rightarrow> SwarmError + Swarm" where
  "post_message q s =
     (case map_of (sw_messageRequests s) (po_key q) of
        Some (_, sig) \<Rightarrow> if sig \<noteq> po_fingerprint q then Inl (swarm_error ''requestId reused with different content'') else Inr s
      | None \<Rightarrow>
          (case assertSwarmOpen (po_now q) s of
             Inl e \<Rightarrow> Inl e
           | Inr _ \<Rightarrow>
               if ws_messages (sw_settings s) \<le> int (length (sw_messages s)) then Inl (swarm_error ''swarm message budget exhausted'')
               else if truthy (mi_replyTo (po_input q)) \<and> \<not> list_ex (\<lambda>m. Some (wm_id m) = mi_replyTo (po_input q)) (sw_messages s)
               then Inl (swarm_error ''reply target is not in this swarm'')
               else let recipients = (if mi_notify (po_input q) = Some False then []
                          else filter (\<lambda>p. p \<noteq> au_memberId (po_auth q)) (po_audience q)) in
               if ws_notifications (sw_settings s) < sw_notificationCount s + int (length recipients)
               then Inl (swarm_error ''swarm notification budget exhausted'')
               else Inr (s\<lparr>sw_notificationCount := sw_notificationCount s + int (length recipients),
                 sw_messages := sw_messages s @ [\<lparr>wm_id = po_messageId q, wm_seq = length (sw_messages s) + 1, wm_senderId = au_memberId (po_auth q),
                   wm_senderSessionId = au_sessionId (po_auth q), wm_author = po_kind q, wm_actorId = au_actorId (po_auth q),
                   wm_text = mi_text (po_input q), wm_audience = po_audience q, wm_replyTo = keep_if (mi_replyTo (po_input q)),
                   wm_createdAt = po_now q, wm_notifications = map (\<lambda>p. (p, notify_pending)) recipients\<rparr>],
                 sw_messageRequests := AList.update (po_key q) (po_messageId q, po_fingerprint q) (sw_messageRequests s)\<rparr>)))"

text \<open>Who can be written to: members at work whose session still has the scope and the people of the swarm.\<close>

definition eligible_members :: "swarm_world \<Rightarrow> Swarm \<Rightarrow> SwarmMember list" where
  "eligible_members w s =
     filter (\<lambda>m. sm_state m = member_ready \<and> truthy (sm_sessionId m) \<and>
         map_option s_scopeId (get_session (wd_sessions w) (the (sm_sessionId m))) = Some (sw_scopeId s) \<and>
         rosterMatches (participantsOf (wd_sessions w) (the (sm_sessionId m))) (sw_participants s)) (sw_members s)"

definition audience_json :: "swarm_audience \<Rightarrow> json" where
  "audience_json a = (case a of audience_all \<Rightarrow> JStr ''all'' | audience_ids ids \<Rightarrow> JArr (map JStr ids))"

definition message_json :: "MessageInput \<Rightarrow> json" where
  "message_json m = JObj ([(''requestId'', JStr (mi_requestId m)), (''audience'', audience_json (mi_audience m)), (''text'', JStr (mi_text m))] @
     (case mi_replyTo m of None \<Rightarrow> [] | Some r \<Rightarrow> [(''replyTo'', JStr r)]) @ (case mi_notify m of None \<Rightarrow> [] | Some b \<Rightarrow> [(''notify'', JBool b)]))"

definition message_of_request :: "string \<Rightarrow> Swarm \<Rightarrow> SwarmMessage option" where
  "message_of_request key s = Option.bind (map_of (sw_messageRequests s) key) (\<lambda>r. find (\<lambda>m. wm_id m = fst r) (sw_messages s))"

definition send_message ::
  "(string \<Rightarrow> string) \<Rightarrow> (string \<Rightarrow> string) \<Rightarrow> authorizer \<Rightarrow> swarm_world \<Rightarrow> int \<Rightarrow> SwarmCaller \<Rightarrow> MessageInput \<Rightarrow> string
    \<Rightarrow> swarm_world \<times> (SwarmError + SwarmMessage option)" where
  "send_message decodeURI sha authorize w now caller input messageId =
     (case boundedText (mi_requestId input) 128 ''requestId'' of
        Inl e \<Rightarrow> (w, Inl e)
      | Inr _ \<Rightarrow>
          (case load_swarm decodeURI authorize w now caller of
             Inl e \<Rightarrow> (w, Inl e)
           | Inr (auth, s, self) \<Rightarrow>
               (case boundedText (mi_text input) (ws_textBytes (sw_settings s)) ''text'' of
                  Inl e \<Rightarrow> (w, Inl e)
                | Inr _ \<Rightarrow>
                    (case canonicalAudience (mi_audience input) (ws_agents (sw_settings s)) of
                       Inl e \<Rightarrow> (w, Inl e)
                     | Inr to_whom \<Rightarrow>
                         let input = input\<lparr>mi_audience := to_whom\<rparr>; key = request_key sha auth (caller_kind caller) (mi_requestId input);
                             fingerprint = signature_of sha (message_json input) in
                         (case map_of (sw_messageRequests s) key of
                            Some (_, sig) \<Rightarrow>
                              (w, if sig \<noteq> fingerprint then Inl (swarm_error ''requestId reused with different content'')
                                  else Inr (message_of_request key s))
                          | None \<Rightarrow>
                              (case resolveAudience to_whom (eligible_members w s) of
                                 Inl e \<Rightarrow> (w, Inl e)
                               | Inr ids \<Rightarrow>
                                   (case update_swarm (wd_sessions w) (wd_runs w) now (au_rootId auth)
                                       (post_message \<lparr>po_key = key, po_fingerprint = fingerprint, po_auth = auth, po_kind = caller_kind caller,
                                          po_audience = ids, po_input = input, po_messageId = messageId, po_now = now\<rparr>) (au_fence auth) (wd_swarms w) of
                                      (rows, Inl e) \<Rightarrow> (w, Inl e)
                                    | (rows, Inr s') \<Rightarrow> (w\<lparr>wd_swarms := rows\<rparr>, Inr (message_of_request key s')))))))))"

text \<open>A read without waiting, the first pass of the loop.\<close>

definition read_bounds :: "Swarm \<Rightarrow> int \<Rightarrow> int \<Rightarrow> SwarmError + unit" where
  "read_bounds s waitMs afterSeq =
     (if waitMs < 0 \<or> ws_waitMs (sw_settings s) < waitMs \<or> afterSeq < 0 then Inl (swarm_error ''invalid read bounds'') else Inr ())"

definition read_messages :: "int \<Rightarrow> string option \<Rightarrow> Swarm \<Rightarrow> SwarmMessage list" where
  "read_messages afterSeq replyTo s =
     take 32 (filter (\<lambda>m. afterSeq < int (wm_seq m) \<and> (\<not> truthy replyTo \<or> wm_replyTo m = replyTo)) (sw_messages s))"

fun set_first_member :: "string \<Rightarrow> (SwarmMember \<Rightarrow> SwarmMember) \<Rightarrow> SwarmMember list \<Rightarrow> SwarmMember list" where
  "set_first_member i f [] = []"
| "set_first_member i f (m # ms) = (if sm_id m = i then f m # ms else m # set_first_member i f ms)"

definition change_member :: "string \<Rightarrow> (SwarmMember \<Rightarrow> SwarmMember) \<Rightarrow> Swarm \<Rightarrow> SwarmError + Swarm" where
  "change_member i f s =
     (if list_ex (\<lambda>m. sm_id m = i) (sw_members s) then Inr (s\<lparr>sw_members := set_first_member i f (sw_members s)\<rparr>)
      else Inl (swarm_error ''TypeError''))"

definition set_context :: "int \<Rightarrow> string \<Rightarrow> json \<Rightarrow> Swarm \<Rightarrow> SwarmError + Swarm" where
  "set_context now memberId v s =
     (case assertSwarmOpen now s of Inl e \<Rightarrow> Inl e | Inr _ \<Rightarrow> change_member memberId (\<lambda>m. m\<lparr>sm_context := v\<rparr>) s)"

definition context_swarm ::
  "(string \<Rightarrow> string) \<Rightarrow> (string \<Rightarrow> string) \<Rightarrow> authorizer \<Rightarrow> swarm_world \<Rightarrow> int \<Rightarrow> SwarmCaller \<Rightarrow> json option
    \<Rightarrow> swarm_world \<times> (SwarmError + SwarmMember option)" where
  "context_swarm encodeURI decodeURI authorize w now caller value =
     (case load_swarm decodeURI authorize w now caller of
        Inl e \<Rightarrow> (w, Inl e)
      | Inr (auth, s, self) \<Rightarrow>
          (case jsonContext value (ws_contextBytes (sw_settings s)) of
             Inl e \<Rightarrow> (w, Inl e)
           | Inr v \<Rightarrow>
               (case update_swarm (wd_sessions w) (wd_runs w) now (au_rootId auth) (set_context now (au_memberId auth) v) (au_fence auth) (wd_swarms w) of
                  (rows, Inl e) \<Rightarrow> (w, Inl e)
                | (rows, Inr s') \<Rightarrow>
                    (w\<lparr>wd_swarms := rows\<rparr>, Inr (map_option (member_view encodeURI) (find (\<lambda>m. sm_id m = au_memberId auth) (sw_members s')))))))"

section \<open>The sweeper\<close>

definition dispatchRequest :: "Swarm \<Rightarrow> SwarmMessage \<Rightarrow> SwarmMember \<Rightarrow> orch_input" where
  "dispatchRequest s m recipient =
     (sw_template s)\<lparr>oi_conversation := (oi_conversation (sw_template s))\<lparr>cv_threadRef := sm_threadRef recipient\<rparr>,
       oi_origin := origin_automation (Some (wm_text m)) None None,
       oi_text := ''Swarm '' @ author_name (wm_author m) @ '' message '' @ wm_id m @ '' from agent '' @ wm_senderId m @ '' (session '' @
         wm_senderSessionId m @ '')'' @ (if truthy (wm_replyTo m) then '' (reply to '' @ the (wm_replyTo m) @ '')'' else []) @
         ''. This is not a live human instruction.'' @ [CHR 0x0A] @ wm_text m,
       oi_swarm := Some \<lparr>st_swarmId = sw_id s, st_messageId = wm_id m, st_recipientId = sm_id recipient\<rparr>,
       oi_sessionParticipantIds := Some (sw_participants s)\<rparr>"

definition dispatch_key :: "string \<Rightarrow> string \<Rightarrow> string" where
  "dispatch_key messageId recipientId = ''swarm:'' @ messageId @ '':'' @ recipientId"

fun set_first_message :: "string \<Rightarrow> (SwarmMessage \<Rightarrow> SwarmMessage) \<Rightarrow> SwarmMessage list \<Rightarrow> SwarmMessage list" where
  "set_first_message i f [] = []"
| "set_first_message i f (m # ms) = (if wm_id m = i then f m # ms else m # set_first_message i f ms)"

definition set_notification :: "string \<Rightarrow> string \<Rightarrow> notification \<Rightarrow> Swarm \<Rightarrow> SwarmError + Swarm" where
  "set_notification messageId recipientId n s =
     (if list_ex (\<lambda>m. wm_id m = messageId) (sw_messages s)
      then Inr (s\<lparr>sw_messages := set_first_message messageId
        (\<lambda>m. m\<lparr>wm_notifications := AList.update recipientId n (wm_notifications m)\<rparr>) (sw_messages s)\<rparr>)
      else Inl (swarm_error ''TypeError''))"

text \<open>What the snapshot \<open>s\<close> of a swarm leaves to do for one notification: nothing, give it up, or dispatch it.\<close>

datatype delivery_step = deliver_nothing | deliver_give_up | deliver_dispatch SwarmMember

definition delivery_step_of :: "int \<Rightarrow> Swarm \<Rightarrow> string \<times> notification \<Rightarrow> delivery_step" where
  "delivery_step_of now s n =
     (if snd n \<noteq> notify_pending then deliver_nothing
      else case find (\<lambda>m. sm_id m = fst n) (sw_members s) of
        None \<Rightarrow> deliver_nothing
      | Some recipient \<Rightarrow>
          if sm_state recipient = member_reserved then deliver_nothing
          else if sm_state recipient = member_failed \<or> sw_expiresAt s \<le> now then deliver_give_up
          else deliver_dispatch recipient)"

definition dispatch_run :: "Swarm \<Rightarrow> SwarmMessage \<Rightarrow> SwarmMember \<Rightarrow> int \<Rightarrow> string \<Rightarrow> run_store \<Rightarrow> run_store \<times> run \<times> bool" where
  "dispatch_run s m recipient now uuid runs =
     enqueue runs now uuid \<lparr>ei_sessionId = sm_threadRef recipient, ei_request = dispatchRequest s m recipient,
       ei_dedupKey = Some (dispatch_key (wm_id m) (sm_id recipient)), ei_maxAttempts = Some 2\<rparr>"

text \<open>One notification of the snapshot, without interruption.\<close>

definition deliver_one :: "Swarm \<Rightarrow> SwarmMessage \<Rightarrow> string \<times> notification \<Rightarrow> int \<Rightarrow> string \<Rightarrow> swarm_world \<Rightarrow> swarm_world" where
  "deliver_one s m n now uuid w =
     (let mark = (\<lambda>st w. w\<lparr>wd_swarms := fst (update_swarm (wd_sessions w) (wd_runs w) now (sw_id s) (set_notification (wm_id m) (fst n) st) None (wd_swarms w))\<rparr>) in
      case delivery_step_of now s n of
        deliver_nothing \<Rightarrow> w
      | deliver_give_up \<Rightarrow> mark notify_failed w
      | deliver_dispatch recipient \<Rightarrow>
          (case dispatch_run s m recipient now uuid (wd_runs w) of (runs, r, _) \<Rightarrow> mark (notify_queued (run_id r)) (w\<lparr>wd_runs := runs\<rparr>)))"

text \<open>Providing a reserved worker: the attempt is counted, and at the end the worker is ready, or the failure is noted;
  after a timeout, three attempts or the end of the swarm the worker has failed and is to be cleaned up.\<close>

definition count_attempt :: "string \<Rightarrow> Swarm \<Rightarrow> SwarmError + Swarm" where
  "count_attempt i = change_member i (\<lambda>m. m\<lparr>sm_attempts := sm_attempts m + 1\<rparr>)"

definition make_ready :: "int \<Rightarrow> int \<Rightarrow> string \<Rightarrow> string \<Rightarrow> Swarm \<Rightarrow> SwarmError + Swarm" where
  "make_ready now deadline i sessionId s =
     (if deadline \<le> now then Inl (swarm_error ''swarm reconciliation deadline exceeded'')
      else case assertSwarmOpen now s of
        Inl e \<Rightarrow> Inl e
      | Inr _ \<Rightarrow> change_member i (\<lambda>m. m\<lparr>sm_state := member_ready, sm_sessionId := Some sessionId\<rparr>) s)"

definition note_failure :: "int \<Rightarrow> int \<Rightarrow> bool \<Rightarrow> string \<Rightarrow> string \<Rightarrow> Swarm \<Rightarrow> SwarmError + Swarm" where
  "note_failure now deadline provisioningTimedOut i err s =
     change_member i (\<lambda>m. if sm_state m \<noteq> member_reserved then m
       else let m' = m\<lparr>sm_error := Some (take 500 err)\<rparr> in
         if provisioningTimedOut \<or> deadline \<le> now \<or> 3 \<le> sm_attempts m \<or> sw_expiresAt s \<le> now
         then m'\<lparr>sm_state := member_failed, sm_cleanupPending := True\<rparr> else m') s"

definition clear_cleanup :: "string \<Rightarrow> Swarm \<Rightarrow> SwarmError + Swarm" where
  "clear_cleanup i = change_member i (\<lambda>m. m\<lparr>sm_cleanupPending := False\<rparr>)"

definition kind_of_session :: "ConversationKind \<Rightarrow> string" where
  "kind_of_session k = (case k of conv_dm \<Rightarrow> ''dm'' | conv_channel \<Rightarrow> ''channel'' | conv_group \<Rightarrow> ''group'')"

text \<open>The session of a worker, with everybody of the swarm in it.\<close>

definition worker_session :: "Swarm \<Rightarrow> SwarmMember \<Rightarrow> int \<Rightarrow> string \<Rightarrow> sstore \<Rightarrow> sstore \<times> session" where
  "worker_session s m now uuid sessions =
     (case getOrCreateByThread uuid now (sm_threadRef m) (kind_of_session (cv_kind (oi_conversation (sw_template s)))) (sw_scopeId s) None (Some ''swarm'') sessions of
        (sessions1, se) \<Rightarrow>
          (updateTitle (s_id se) (''Swarm worker '' @ take 8 (sm_id m))
             (fold (\<lambda>p st. addParticipant (s_id se) p None False now st) (sw_participants s) sessions1), se))"

definition provide_worker :: "Swarm \<Rightarrow> SwarmMember \<Rightarrow> int \<Rightarrow> int \<Rightarrow> string \<Rightarrow> swarm_world \<Rightarrow> swarm_world" where
  "provide_worker s m now deadline uuid w =
     (case worker_session s m now uuid (wd_sessions w) of (sessions, se) \<Rightarrow>
      let w' = w\<lparr>wd_sessions := sessions\<rparr> in
      w'\<lparr>wd_swarms := fst (update_swarm sessions (wd_runs w) now (sw_id s) (make_ready now deadline (sm_id m) (s_id se)) None (wd_swarms w))\<rparr>)"

text \<open>Cleaning up after a failed worker: \<open>None\<close> when its session is in use.\<close>

definition cleanup_session :: "SwarmMember \<Rightarrow> int \<Rightarrow> sstore \<Rightarrow> sstore option" where
  "cleanup_session m now sessions =
     (case getByThread sessions (sm_threadRef m) of
        None \<Rightarrow> Some sessions
      | Some se \<Rightarrow> (case deleteSessionIfEmpty (s_id se) now sessions of (st, deleted) \<Rightarrow> if deleted then Some st else None))"

section \<open>Binding a turn to its swarm\<close>

record swarm_binding =
  bd_sandboxId :: "string option"
  bd_rootSessionId :: string
  bd_member :: SwarmMember

definition bound_to :: "Swarm \<Rightarrow> SwarmMember \<Rightarrow> swarm_binding" where
  "bound_to s m = \<lparr>bd_sandboxId = sm_sandboxId m, bd_rootSessionId = sw_id s, bd_member = m\<rparr>"

text \<open>A turn in a worker's session that was not dispatched by the swarm.\<close>

definition binding_plain :: "authorizer \<Rightarrow> swarm_world \<Rightarrow> orch_input \<Rightarrow> session \<Rightarrow> Swarm \<Rightarrow> SwarmMember \<Rightarrow> SwarmError + swarm_binding option" where
  "binding_plain authorize w input se s m =
     (if Principal.p_id (oi_actor input) \<notin> set (participantsOf (wd_sessions w) (s_id se)) \<or>
         conversationScope (oi_conversation input) (Principal.p_id (oi_actor input)) \<noteq> s_scopeId se \<or>
         \<not> authorize (Principal.p_id (oi_actor input)) (s_scopeId se) (oi_scopeVersion input) (Some (cv_audience (oi_conversation input)))
      then Inl (non_retryable ''swarm session access denied'')
      else Inr (Some (bound_to s m)))"

fun forged_origin :: "TurnOrigin \<Rightarrow> bool" where
  "forged_origin (origin_automation d dest own) = (own = Some True)"
| "forged_origin _ = True"

definition binding_dispatched ::
  "authorizer \<Rightarrow> swarm_world \<Rightarrow> int \<Rightarrow> orch_input \<Rightarrow> SwarmTurn \<Rightarrow> session \<Rightarrow> Swarm \<Rightarrow> SwarmMember \<Rightarrow> SwarmError + swarm_binding option" where
  "binding_dispatched authorize w now input turn se s m =
     (case assertSwarmOpen now s of
        Inl e \<Rightarrow> Inl e
      | Inr _ \<Rightarrow>
          let actor = Principal.p_id (oi_actor input);
              msg = find (\<lambda>x. wm_id x = st_messageId turn) (sw_messages s);
              dedup = Option.bind msg (\<lambda>x. getByDedupKey (wd_runs w) (dispatch_key (wm_id x) (sm_id m))) in
          if st_swarmId turn \<noteq> sw_id s \<or> st_recipientId turn \<noteq> sm_id m \<or>
             (case msg of None \<Rightarrow> True | Some x \<Rightarrow> sm_id m \<notin> set (wm_audience x)) \<or>
             (case dedup of None \<Rightarrow> True | Some r \<Rightarrow> Some (run_id r) \<noteq> oi_runId input) \<or>
             forged_origin (oi_origin input) \<or> actor \<noteq> sw_ownerId s \<or> oi_surface input \<noteq> Some ''swarm'' \<or> truthy (oi_deliveryTarget input) \<or>
             oi_surfaceTools input = Some True \<or> \<not> matchesDispatch input (dispatchRequest s (the msg) m)
          then Inl (non_retryable ''forged swarm provenance'')
          else if \<not> rosterMatches (participantsOf (wd_sessions w) (sw_id s)) (sw_participants s) \<or>
             \<not> rosterMatches (participantsOf (wd_sessions w) (s_id se)) (sw_participants s) \<or> actor \<notin> set (sw_participants s) \<or>
             conversationScope (oi_conversation input) actor \<noteq> sw_scopeId s \<or>
             \<not> authorize actor (sw_scopeId s) (oi_scopeVersion (sw_template s)) (Some (cv_audience (oi_conversation input)))
          then Inl (non_retryable ''swarm authorization changed'')
          else Inr (Some (bound_to s m)))"

definition binding :: "(string \<Rightarrow> string) \<Rightarrow> authorizer \<Rightarrow> swarm_world \<Rightarrow> int \<Rightarrow> orch_input \<Rightarrow> SwarmError + swarm_binding option" where
  "binding decodeURI authorize w now input =
     (case getByThread (wd_sessions w) (cv_threadRef (oi_conversation input)) of
        None \<Rightarrow>
          if oi_swarm input \<noteq> None \<or> starts_with (cv_threadRef (oi_conversation input)) ''swarm:'' then Inl (non_retryable ''unknown swarm session'')
          else Inr None
      | Some se \<Rightarrow>
          (case threadIdentity decodeURI (s_threadRef se) (s_id se) of
             Inl e \<Rightarrow> Inl e
           | Inr (rootId, memberId) \<Rightarrow>
               if oi_swarm input = None \<and> rootId = s_id se then Inr None
               else (case dm_get (wd_swarms w) rootId of
                  None \<Rightarrow>
                    if oi_swarm input \<noteq> None \<or> starts_with (s_threadRef se) ''swarm:'' then Inl (non_retryable ''unknown swarm'') else Inr None
                | Some s \<Rightarrow>
                    (case find (\<lambda>m. sm_id m = memberId) (sw_members s) of
                       None \<Rightarrow> Inl (non_retryable ''invalid swarm membership'')
                     | Some m \<Rightarrow>
                         if sm_state m \<noteq> member_ready \<or> sm_sessionId m \<noteq> Some (s_id se) \<or> s_scopeId se \<noteq> sw_scopeId s
                         then Inl (non_retryable ''invalid swarm membership'')
                         else (case oi_swarm input of
                            None \<Rightarrow> binding_plain authorize w input se s m
                          | Some turn \<Rightarrow> binding_dispatched authorize w now input turn se s m)))))"

end
