(* ===== verification/Swarm_Properties.thy ===== *)
theory Swarm_Properties
  imports Swarm_Service Run_Lifecycle "HOL-Library.Sublist"
begin

text \<open>
  What swarms guarantee: the budgets of a swarm hold however its members, the people and the sweepers of several
  processes interleave; a swarm only grows, so that a request that was made is answered the same way forever; and a
  change made in the name of a run needs the lease of that run.
\<close>

declare map_of_eq_Some_iff [simp del]

section \<open>The invariant of a swarm\<close>

definition settings_bounded :: "SwarmSettings \<Rightarrow> bool" where
  "settings_bounded w \<longleftrightarrow> 2 \<le> ws_agents w \<and> ws_agents w \<le> 64 \<and> 1 \<le> ws_depth w \<and> ws_depth w \<le> 8 \<and> 1 \<le> ws_messages w \<and> ws_messages w \<le> 256 \<and>
     1 \<le> ws_notifications w \<and> ws_notifications w \<le> 1024 \<and> 1 \<le> ws_spawnRequests w \<and> ws_spawnRequests w \<le> 64"

lemma resolved_bounded:
  assumes "resolveSwarmSettings input defaults = Inr w"
  shows "settings_bounded w"
proof -
  from assms obtain fs where fs: "input = JObj fs" by (cases input) (auto simp: resolveSwarmSettings_def)
  have "find (\<lambda>k. \<not> setting_ok k (setting_value fs defaults k)) SETTING_KEYS = None"
    and w: "w = settings_of (\<lambda>k. the (jnum (Some (setting_value fs defaults k))))" and two: "2 \<le> ws_agents w"
    using assms fs by (auto simp: resolveSwarmSettings_def Let_def split: option.splits if_splits)
  then have ok: "\<forall>k \<in> set SETTING_KEYS. setting_ok k (setting_value fs defaults k)" by (simp add: find_None_iff)
  have num: "1 \<le> the (jnum (Some v)) \<and> the (jnum (Some v)) \<le> the (map_of (setting_entries SWARM_MAXIMUMS) k)" if "setting_ok k v" for k v
    using that by (cases v) (auto simp: setting_ok_def)
  have each: "1 \<le> the (jnum (Some (setting_value fs defaults k))) \<and>
      the (jnum (Some (setting_value fs defaults k))) \<le> the (map_of (setting_entries SWARM_MAXIMUMS) k)" if "k \<in> set SETTING_KEYS" for k
    using ok num that by blast
  have keys: "{''agents'', ''depth'', ''messages'', ''notifications'', ''spawnRequests''} \<subseteq> set SETTING_KEYS"
    by (simp add: SETTING_KEYS_def setting_entries_def)
  show ?thesis
    using two each[of "''agents''"] each[of "''depth''"] each[of "''messages''"] each[of "''notifications''"] each[of "''spawnRequests''"] keys
    by (simp add: settings_bounded_def w settings_of_def setting_entries_def SWARM_MAXIMUMS_def)
qed

text \<open>Members form a tree under the root, no deeper than allowed.\<close>

definition members_ok :: "int \<Rightarrow> SwarmMember list \<Rightarrow> bool" where
  "members_ok depth ms \<longleftrightarrow> distinct (map sm_id ms) \<and>
     (\<forall>m \<in> set ms. sm_depth m \<le> depth \<and> (case sm_parentId m of None \<Rightarrow> sm_depth m = 0
        | Some p \<Rightarrow> \<exists>m' \<in> set ms. sm_id m' = p \<and> sm_depth m = sm_depth m' + 1))"

definition notified :: "SwarmMessage \<Rightarrow> string list" where
  "notified m = map fst (wm_notifications m)"

definition messages_ok :: "string set \<Rightarrow> SwarmMessage list \<Rightarrow> bool" where
  "messages_ok ids ms \<longleftrightarrow> map wm_seq ms = map Suc [0..<length ms] \<and> distinct (map wm_id ms) \<and>
     (\<forall>m \<in> set ms. distinct (notified m) \<and> set (notified m) \<subseteq> set (wm_audience m) \<and> set (wm_audience m) \<subseteq> ids)"

definition swarm_ok :: "Swarm \<Rightarrow> bool" where
  "swarm_ok s \<longleftrightarrow> settings_bounded (sw_settings s) \<and> int (length (sw_members s)) \<le> ws_agents (sw_settings s) \<and>
     members_ok (ws_depth (sw_settings s)) (sw_members s) \<and> int (length (sw_messages s)) \<le> ws_messages (sw_settings s) \<and>
     messages_ok (sm_id ` set (sw_members s)) (sw_messages s) \<and>
     sw_notificationCount s = (\<Sum>m\<leftarrow>sw_messages s. int (length (notified m))) \<and>
     sw_notificationCount s \<le> ws_notifications (sw_settings s) \<and> int (length (sw_spawnRequests s)) \<le> ws_spawnRequests (sw_settings s)"

section \<open>How a swarm grows\<close>

definition member_core :: "SwarmMember \<Rightarrow> string \<times> string \<times> string option \<times> int" where
  "member_core m = (sm_id m, sm_threadRef m, sm_parentId m, sm_depth m)"

definition message_core :: "SwarmMessage \<Rightarrow> string \<times> nat \<times> string \<times> string \<times> string list \<times> string list" where
  "message_core m = (wm_id m, wm_seq m, wm_senderId m, wm_text m, wm_audience m, notified m)"

definition swarm_grows :: "Swarm \<Rightarrow> Swarm \<Rightarrow> bool" where
  "swarm_grows s s' \<longleftrightarrow> sw_id s' = sw_id s \<and> sw_scopeId s' = sw_scopeId s \<and> sw_ownerId s' = sw_ownerId s \<and> sw_participants s' = sw_participants s \<and>
     sw_template s' = sw_template s \<and> sw_settings s' = sw_settings s \<and> sw_expiresAt s' = sw_expiresAt s \<and>
     prefix (map member_core (sw_members s)) (map member_core (sw_members s')) \<and>
     prefix (map message_core (sw_messages s)) (map message_core (sw_messages s')) \<and>
     map_of (sw_spawnRequests s) \<subseteq>\<^sub>m map_of (sw_spawnRequests s') \<and> map_of (sw_messageRequests s) \<subseteq>\<^sub>m map_of (sw_messageRequests s')"

lemma grows_refl [simp]: "swarm_grows s s"
  by (simp add: swarm_grows_def)

lemma grows_trans: "swarm_grows s t \<Longrightarrow> swarm_grows t u \<Longrightarrow> swarm_grows s u"
  unfolding swarm_grows_def by (auto intro: prefix_order.trans map_le_trans)

lemma grows_pending [simp]: "swarm_grows s (s'\<lparr>sw_pending := b\<rparr>) = swarm_grows s s'"
  by (simp add: swarm_grows_def)

lemma ok_pending [simp]: "swarm_ok (s\<lparr>sw_pending := b\<rparr>) = swarm_ok s"
  by (simp add: swarm_ok_def)

lemma prefix_map_set: "prefix (map f xs) (map f ys) \<Longrightarrow> f ` set xs \<subseteq> f ` set ys"
  by (metis set_map set_mono_prefix)

lemma grows_members: "swarm_grows s s' \<Longrightarrow> sm_id ` set (sw_members s) \<subseteq> sm_id ` set (sw_members s')"
proof -
  assume "swarm_grows s s'"
  then have "member_core ` set (sw_members s) \<subseteq> member_core ` set (sw_members s')" by (simp add: swarm_grows_def prefix_map_set)
  then have "fst ` member_core ` set (sw_members s) \<subseteq> fst ` member_core ` set (sw_members s')" by (rule image_mono)
  then show ?thesis by (simp add: image_image member_core_def)
qed

text \<open>Changes of one member that keep its place in the tree.\<close>

lemma set_first_member_core:
  assumes "\<And>m. member_core (f m) = member_core m"
  shows "map member_core (set_first_member i f ms) = map member_core ms"
  by (induction ms) (simp_all add: assms)

lemma members_ok_core:
  assumes "map member_core ms = map member_core ms'"
  shows "members_ok d ms = members_ok d ms'" and "sm_id ` set ms = sm_id ` set ms'" and "length ms = length ms'"
proof -
  have core: "members_ok d ms \<longleftrightarrow> distinct (map fst (map member_core ms)) \<and>
      (\<forall>(i, t, p, k) \<in> set (map member_core ms). k \<le> d \<and> (case p of None \<Rightarrow> k = 0 | Some p \<Rightarrow> \<exists>(i', t', p', k') \<in> set (map member_core ms). i' = p \<and> k = k' + 1))" for ms
    unfolding members_ok_def by (auto simp: member_core_def o_def split: option.splits; fastforce)
  show "members_ok d ms = members_ok d ms'" unfolding core assms ..
  have "fst ` set (map member_core ms) = fst ` set (map member_core ms')" unfolding assms ..
  then show "sm_id ` set ms = sm_id ` set ms'" by (simp add: image_image member_core_def)
  show "length ms = length ms'" using assms by (rule map_eq_imp_length_eq)
qed

lemma change_member_ok:
  assumes "swarm_ok s" and "change_member i f s = Inr s'" and core: "\<And>m. member_core (f m) = member_core m"
  shows "swarm_ok s'" and "swarm_grows s s'"
proof -
  let ?ms = "set_first_member i f (sw_members s)"
  have s': "s' = s\<lparr>sw_members := ?ms\<rparr>" using assms(2) by (simp add: change_member_def split: if_splits)
  note same = set_first_member_core[of f i "sw_members s", OF core]
  show "swarm_ok s'" using assms(1) members_ok_core[OF same] by (simp add: s' swarm_ok_def)
  show "swarm_grows s s'" by (simp add: s' swarm_grows_def same)
qed

text \<open>Settling a notification that is there.\<close>

lemma set_first_message_core:
  assumes "\<And>m. m \<in> set ms \<Longrightarrow> wm_id m = i \<Longrightarrow> message_core (f m) = message_core m"
  shows "map message_core (set_first_message i f ms) = map message_core ms"
  using assms by (induction ms) auto

lemma messages_ok_core:
  assumes "map message_core ms = map message_core ms'"
  shows "messages_ok ids ms = messages_ok ids ms'" and "(\<Sum>m\<leftarrow>ms. int (length (notified m))) = (\<Sum>m\<leftarrow>ms'. int (length (notified m)))"
    and "length ms = length ms'"
proof -
  show len: "length ms = length ms'" using assms by (rule map_eq_imp_length_eq)
  have core: "messages_ok ids ms \<longleftrightarrow> map (\<lambda>c. fst (snd c)) (map message_core ms) = map Suc [0..<length ms] \<and> distinct (map fst (map message_core ms)) \<and>
      (\<forall>(i, q, sn, tx, a, n) \<in> set (map message_core ms). distinct n \<and> set n \<subseteq> set a \<and> set a \<subseteq> ids)" for ms
    unfolding messages_ok_def by (simp add: message_core_def o_def)
  show "messages_ok ids ms = messages_ok ids ms'" unfolding core assms len ..
  have sums: "(\<Sum>m\<leftarrow>ms. int (length (notified m))) = (\<Sum>c\<leftarrow>map message_core ms. int (length (snd (snd (snd (snd (snd c)))))))" for ms
    by (simp add: message_core_def o_def)
  show "(\<Sum>m\<leftarrow>ms. int (length (notified m))) = (\<Sum>m\<leftarrow>ms'. int (length (notified m)))" unfolding sums assms ..
qed

lemma update_present_keys: "k \<in> set (map fst m) \<Longrightarrow> map fst (AList.update k v m) = map fst m"
  by (induction m) auto

lemma set_notification_ok:
  assumes "swarm_ok s" and "set_notification i r n s = Inr s'" and there: "\<And>m. m \<in> set (sw_messages s) \<Longrightarrow> wm_id m = i \<Longrightarrow> r \<in> set (notified m)"
  shows "swarm_ok s'" and "swarm_grows s s'"
proof -
  let ?f = "\<lambda>m. m\<lparr>wm_notifications := AList.update r n (wm_notifications m)\<rparr>"
  let ?ms = "set_first_message i ?f (sw_messages s)"
  have s': "s' = s\<lparr>sw_messages := ?ms\<rparr>" using assms(2) by (simp add: set_notification_def split: if_splits)
  have same: "map message_core ?ms = map message_core (sw_messages s)"
  proof (rule set_first_message_core)
    fix m assume "m \<in> set (sw_messages s)" "wm_id m = i"
    from update_present_keys[OF there[OF this, unfolded notified_def]]
    show "message_core (?f m) = message_core m" by (simp add: message_core_def notified_def)
  qed
  show "swarm_ok s'" using assms(1) messages_ok_core[OF same] by (simp add: s' swarm_ok_def)
  show "swarm_grows s s'" by (simp add: s' swarm_grows_def same)
qed

text \<open>New members and new messages at the end.\<close>

lemma members_ok_append:
  assumes "members_ok d ms" and "parent \<in> set ms" and "sm_depth parent < d"
    and "distinct (map sm_id new)" and "sm_id ` set new \<inter> sm_id ` set ms = {}"
    and "\<And>m. m \<in> set new \<Longrightarrow> sm_parentId m = Some (sm_id parent) \<and> sm_depth m = sm_depth parent + 1"
  shows "members_ok d (ms @ new)"
proof -
  have "distinct (map sm_id (ms @ new))" using assms(1,4,5) by (auto simp: members_ok_def)
  moreover have "sm_depth m \<le> d \<and> (case sm_parentId m of None \<Rightarrow> sm_depth m = 0
      | Some p \<Rightarrow> \<exists>m' \<in> set (ms @ new). sm_id m' = p \<and> sm_depth m = sm_depth m' + 1)" if "m \<in> set (ms @ new)" for m
  proof (cases "m \<in> set ms")
    case True
    with assms(1) show ?thesis unfolding members_ok_def by (fastforce split: option.splits)
  next
    case False
    with that have "m \<in> set new" by simp
    from assms(6)[OF this] assms(2,3) show ?thesis by auto
  qed
  ultimately show ?thesis by (simp add: members_ok_def)
qed

lemma messages_ok_mono: "messages_ok ids ms \<Longrightarrow> ids \<subseteq> ids' \<Longrightarrow> messages_ok ids' ms"
  unfolding messages_ok_def by blast

lemma messages_ok_append:
  assumes "messages_ok ids ms" and "wm_seq m = length ms + 1" and "wm_id m \<notin> wm_id ` set ms"
    and "distinct (notified m)" and "set (notified m) \<subseteq> set (wm_audience m)" and "set (wm_audience m) \<subseteq> ids"
  shows "messages_ok ids (ms @ [m])"
  using assms by (auto simp: messages_ok_def)

lemma map_le_update: "m k = None \<Longrightarrow> m \<subseteq>\<^sub>m m(k \<mapsto> v)"
  by (auto simp: map_le_def)

lemma length_update_absent: "map_of m k = None \<Longrightarrow> length (AList.update k v m) = length m + 1"
  by (induction m) (auto split: if_splits)

lemma reserve_cases:
  assumes "reserve encodeURI q s = Inr s'"
  obtains ids where "map_of (sw_spawnRequests s) (sp_key q) = Some (ids, sp_fingerprint q)" "s' = s"
  | parent where "map_of (sw_spawnRequests s) (sp_key q) = None" "find (\<lambda>m. sm_id m = au_memberId (sp_auth q)) (sw_members s) = Some parent"
      "sm_depth parent < ws_depth (sw_settings s)" "int (length (sw_members s)) + int (length (sp_contexts q)) \<le> ws_agents (sw_settings s)"
      "int (length (sw_spawnRequests s)) < ws_spawnRequests (sw_settings s)" "int (length (sw_messages s)) < ws_messages (sw_settings s)"
      "sw_notificationCount s + int (length (sp_contexts q)) \<le> ws_notifications (sw_settings s)" "sp_now q < sw_expiresAt s"
      "let members = map (new_member encodeURI s parent (sp_forumSandboxId q)) (zip (sp_ids q) (sp_contexts q)); ids = map sm_id members in
       s' = s\<lparr>sw_members := sw_members s @ members, sw_spawnRequests := AList.update (sp_key q) (ids, sp_fingerprint q) (sw_spawnRequests s),
          sw_messages := sw_messages s @ [\<lparr>wm_id = sp_messageId q, wm_seq = length (sw_messages s) + 1, wm_senderId = sm_id parent,
            wm_senderSessionId = au_sessionId (sp_auth q), wm_author = sp_kind q, wm_actorId = au_actorId (sp_auth q),
            wm_text = sp_text q, wm_audience = ids, wm_replyTo = None, wm_createdAt = sp_now q,
            wm_notifications = map (\<lambda>i. (i, notify_pending)) ids\<rparr>],
          sw_notificationCount := sw_notificationCount s + int (length (sp_contexts q))\<rparr>"
proof (cases "map_of (sw_spawnRequests s) (sp_key q)")
  case (Some r)
  with assms that(1)[of "fst r"] show ?thesis by (cases r) (auto simp: reserve_def split: if_splits)
next
  case None
  show ?thesis
  proof (cases "find (\<lambda>m. sm_id m = au_memberId (sp_auth q)) (sw_members s)")
    case None': None
    with None assms show ?thesis by (auto simp: reserve_def Let_def assertSwarmOpen_def split: if_splits)
  next
    case (Some parent)
    show ?thesis
      by (rule that(2)[OF None Some])
        (use assms None Some in \<open>simp_all add: reserve_def Let_def assertSwarmOpen_def not_le not_less split: if_splits\<close>)
  qed
qed

lemma reserve_ok:
  assumes ok: "swarm_ok s" and "reserve encodeURI q s = Inr s'" and len: "length (sp_ids q) = length (sp_contexts q)"
    and fresh: "distinct (sp_ids q)" "set (sp_ids q) \<inter> sm_id ` set (sw_members s) = {}" "sp_messageId q \<notin> wm_id ` set (sw_messages s)"
  shows "swarm_ok s'" and "swarm_grows s s'"
proof -
  from assms(2) have "swarm_ok s' \<and> swarm_grows s s'"
  proof (cases rule: reserve_cases)
    case (2 parent)
    let ?new = "map (new_member encodeURI s parent (sp_forumSandboxId q)) (zip (sp_ids q) (sp_contexts q))"
    have ids: "map sm_id ?new = sp_ids q" using len by (simp add: o_def new_member_def)
    have parent: "parent \<in> set (sw_members s)" using 2(2) by (auto simp: find_Some_iff)
    have new: "length ?new = length (sp_contexts q)" using len by simp
    let ?msg = "\<lparr>wm_id = sp_messageId q, wm_seq = length (sw_messages s) + 1, wm_senderId = sm_id parent,
            wm_senderSessionId = au_sessionId (sp_auth q), wm_author = sp_kind q, wm_actorId = au_actorId (sp_auth q),
            wm_text = sp_text q, wm_audience = sp_ids q, wm_replyTo = None, wm_createdAt = sp_now q,
            wm_notifications = map (\<lambda>i. (i, notify_pending)) (sp_ids q)\<rparr>"
    have s': "s' = s\<lparr>sw_members := sw_members s @ ?new,
        sw_spawnRequests := AList.update (sp_key q) (sp_ids q, sp_fingerprint q) (sw_spawnRequests s),
        sw_messages := sw_messages s @ [?msg], sw_notificationCount := sw_notificationCount s + int (length (sp_contexts q))\<rparr>"
      using 2(9) unfolding Let_def ids .
    have told: "notified ?msg = sp_ids q" by (simp add: notified_def o_def)
    have named: "sm_id ` set ?new = set (sp_ids q)" using ids by (metis set_map)
    have child: "sm_parentId m = Some (sm_id parent) \<and> sm_depth m = sm_depth parent + 1" if "m \<in> set ?new" for m
      using that by (auto simp: new_member_def)
    have "members_ok (ws_depth (sw_settings s)) (sw_members s @ ?new)"
      by (rule members_ok_append[OF _ parent]) (use ok 2(3) fresh(1,2) ids named child in \<open>auto simp: swarm_ok_def simp del: set_map set_zip\<close>)
    moreover have "messages_ok (sm_id ` set (sw_members s @ ?new)) (sw_messages s @ [?msg])"
      by (rule messages_ok_append[OF messages_ok_mono[of "sm_id ` set (sw_members s)"]])
        (use ok fresh named told in \<open>auto simp: swarm_ok_def image_Un simp del: set_map set_zip\<close>)
    ultimately have "swarm_ok s'"
      using ok 2(1,4-7) new len told length_update_absent[OF 2(1)] unfolding swarm_ok_def s' by (simp del: set_map set_zip)
    moreover have "swarm_grows s s'" using 2(1) by (simp add: s' swarm_grows_def map_le_update)
    ultimately show ?thesis ..
  qed (use ok in simp)
  then show "swarm_ok s'" "swarm_grows s s'" by simp_all
qed

lemma post_cases:
  assumes "post_message q s = Inr s'"
  obtains i where "map_of (sw_messageRequests s) (po_key q) = Some (i, po_fingerprint q)" "s' = s"
  | recipients where "map_of (sw_messageRequests s) (po_key q) = None" "po_now q < sw_expiresAt s"
      "recipients = (if mi_notify (po_input q) = Some False then [] else filter (\<lambda>p. p \<noteq> au_memberId (po_auth q)) (po_audience q))"
      "int (length (sw_messages s)) < ws_messages (sw_settings s)"
      "sw_notificationCount s + int (length recipients) \<le> ws_notifications (sw_settings s)"
      "s' = s\<lparr>sw_notificationCount := sw_notificationCount s + int (length recipients),
         sw_messages := sw_messages s @ [\<lparr>wm_id = po_messageId q, wm_seq = length (sw_messages s) + 1, wm_senderId = au_memberId (po_auth q),
           wm_senderSessionId = au_sessionId (po_auth q), wm_author = po_kind q, wm_actorId = au_actorId (po_auth q),
           wm_text = mi_text (po_input q), wm_audience = po_audience q, wm_replyTo = keep_if (mi_replyTo (po_input q)),
           wm_createdAt = po_now q, wm_notifications = map (\<lambda>p. (p, notify_pending)) recipients\<rparr>],
         sw_messageRequests := AList.update (po_key q) (po_messageId q, po_fingerprint q) (sw_messageRequests s)\<rparr>"
proof (cases "map_of (sw_messageRequests s) (po_key q)")
  case (Some r)
  with assms that(1)[of "fst r"] show ?thesis by (cases r) (auto simp: post_message_def split: if_splits)
next
  case None
  show ?thesis
    by (rule that(2)[OF None _ refl])
      (use assms None in \<open>simp_all add: post_message_def Let_def assertSwarmOpen_def not_le not_less split: if_splits\<close>)
qed

lemma post_ok:
  assumes ok: "swarm_ok s" and "post_message q s = Inr s'" and aud: "distinct (po_audience q)" "set (po_audience q) \<subseteq> sm_id ` set (sw_members s)"
    and fresh: "po_messageId q \<notin> wm_id ` set (sw_messages s)"
  shows "swarm_ok s'" and "swarm_grows s s'"
proof -
  from assms(2) have "swarm_ok s' \<and> swarm_grows s s'"
  proof (cases rule: post_cases)
    case (2 recipients)
    have r: "distinct recipients" "set recipients \<subseteq> set (po_audience q)" using 2(3) aud(1) by auto
    have "messages_ok (sm_id ` set (sw_members s)) (sw_messages s @ [m])"
      if "wm_seq m = length (sw_messages s) + 1" "wm_id m = po_messageId q" "wm_audience m = po_audience q" "notified m = recipients" for m
      by (rule messages_ok_append) (use that ok r aud fresh in \<open>auto simp: swarm_ok_def\<close>)
    then have "swarm_ok s'" using ok 2(4-6) unfolding swarm_ok_def by (simp add: notified_def o_def)
    moreover have "swarm_grows s s'" using 2(1,6) by (simp add: swarm_grows_def map_le_update)
    ultimately show ?thesis ..
  qed (use ok in simp)
  then show "swarm_ok s'" "swarm_grows s s'" by simp_all
qed

section \<open>Swarms among many\<close>

text \<open>The rows, and the swarms that were read and may still be worked with.\<close>

record swarm_sys =
  zs_rows :: swarm_rows
  zs_seen :: "Swarm list"

text \<open>The identifiers a request draws are new.\<close>

definition fresh_spawn :: "swarm_rows \<Rightarrow> spawn_request \<Rightarrow> bool" where
  "fresh_spawn rows q \<longleftrightarrow> sp_contexts q \<noteq> [] \<and> length (sp_ids q) = length (sp_contexts q) \<and> distinct (sp_ids q) \<and>
     (\<forall>i s. dm_get rows i = Some s \<longrightarrow> set (sp_ids q) \<inter> sm_id ` set (sw_members s) = {} \<and> sp_messageId q \<notin> wm_id ` set (sw_messages s))"

definition fresh_post :: "swarm_rows \<Rightarrow> post_request \<Rightarrow> bool" where
  "fresh_post rows q \<longleftrightarrow> (\<forall>i s. dm_get rows i = Some s \<longrightarrow> po_messageId q \<notin> wm_id ` set (sw_messages s))"

inductive allowed_change :: "swarm_rows \<Rightarrow> Swarm list \<Rightarrow> string \<Rightarrow> (Swarm \<Rightarrow> SwarmError + Swarm) \<Rightarrow> bool" for rows seen i where
  ch_reserve: "fresh_spawn rows q \<Longrightarrow> allowed_change rows seen i (reserve encodeURI q)"
| ch_post: "fresh_post rows q \<Longrightarrow> sn \<in> set seen \<Longrightarrow> sw_id sn = i \<Longrightarrow> canonicalAudience a (ws_agents (sw_settings sn)) = Inr a' \<Longrightarrow>
    resolveAudience a' (eligible_members w sn) = Inr (po_audience q) \<Longrightarrow> allowed_change rows seen i (post_message q)"
| ch_context: "allowed_change rows seen i (set_context now memberId v)"
| ch_notify: "sn \<in> set seen \<Longrightarrow> sw_id sn = i \<Longrightarrow> m \<in> set (sw_messages sn) \<Longrightarrow> n \<in> set (wm_notifications m) \<Longrightarrow>
    allowed_change rows seen i (set_notification (wm_id m) (fst n) st)"
| ch_attempt: "allowed_change rows seen i (count_attempt memberId)"
| ch_ready: "allowed_change rows seen i (make_ready now deadline memberId sessionId)"
| ch_failure: "allowed_change rows seen i (note_failure now deadline timedOut memberId err)"
| ch_cleanup: "allowed_change rows seen i (clear_cleanup memberId)"

inductive swarm_step :: "swarm_sys \<Rightarrow> swarm_sys \<Rightarrow> bool" where
  step_create: "resolveSwarmSettings input defaults = Inr settings \<Longrightarrow> prepareInitialSwarm w now iv caller auth settings backend = Inr s0 \<Longrightarrow>
    fresh_spawn (zs_rows y) q \<Longrightarrow> sw_id s0 \<notin> set (sp_ids q) \<Longrightarrow> reserve encodeURI q s0 = Inr s \<Longrightarrow>
    swarm_step y (y\<lparr>zs_rows := fst (create_swarm (wd_sessions w) (wd_runs w) now s fence (zs_rows y))\<rparr>)"
| step_update: "allowed_change (zs_rows y) (zs_seen y) i f \<Longrightarrow>
    swarm_step y (y\<lparr>zs_rows := fst (update_swarm sessions runs now i f fence (zs_rows y))\<rparr>)"
| step_read: "dm_get (zs_rows y) i = Some s \<Longrightarrow> swarm_step y (y\<lparr>zs_seen := s # zs_seen y\<rparr>)"

definition empty_swarms :: swarm_sys where
  "empty_swarms = \<lparr>zs_rows = [], zs_seen = []\<rparr>"

definition row_ok :: "string \<Rightarrow> Swarm \<Rightarrow> bool" where
  "row_ok i s \<longleftrightarrow> swarm_ok s \<and> sw_id s = i \<and> sw_pending s = work_left s"

definition swarms_inv :: "swarm_sys \<Rightarrow> bool" where
  "swarms_inv y \<longleftrightarrow> (\<forall>i s. dm_get (zs_rows y) i = Some s \<longrightarrow> row_ok i s) \<and>
     (\<forall>sn \<in> set (zs_seen y). \<exists>s. dm_get (zs_rows y) (sw_id sn) = Some s \<and> swarm_grows sn s)"

lemma grows_notified:
  assumes "swarm_grows sn s" and "swarm_ok s" and "m \<in> set (sw_messages sn)" and "m' \<in> set (sw_messages s)" and "wm_id m' = wm_id m"
  shows "notified m' = notified m"
proof -
  have "message_core ` set (sw_messages sn) \<subseteq> message_core ` set (sw_messages s)" using assms(1) by (simp add: swarm_grows_def prefix_map_set)
  with assms(3) obtain m'' where m'': "m'' \<in> set (sw_messages s)" "message_core m'' = message_core m" by (metis imageE image_subset_iff)
  then have "wm_id m'' = wm_id m'" using assms(5) by (simp add: message_core_def)
  moreover have "distinct (map wm_id (sw_messages s))" using assms(2) by (simp add: swarm_ok_def messages_ok_def)
  ultimately have "m'' = m'" using m''(1) assms(4) by (metis distinct_map inj_onD)
  with m''(2) show ?thesis by (simp add: message_core_def)
qed

lemma resolved_audience:
  assumes "canonicalAudience a b = Inr a'" and "resolveAudience a' ms = Inr ids"
  shows "distinct ids" and "set ids \<subseteq> sm_id ` set ms"
  using assms by (auto simp: canonicalAudience_def resolveAudience_def list_ex_iff split: swarm_audience.splits if_splits)

lemma change_ok:
  assumes "allowed_change rows seen i f" and "dm_get rows i = Some s" and ok: "swarm_ok s" and "f s = Inr s'"
    and seen: "\<And>sn. sn \<in> set seen \<Longrightarrow> sw_id sn = i \<Longrightarrow> swarm_grows sn s"
  shows "swarm_ok s'" and "swarm_grows s s'"
proof -
  from assms(1) have "swarm_ok s' \<and> swarm_grows s s'"
  proof cases
    case (ch_reserve q encodeURI)
    with assms(2,4) reserve_ok[OF ok, of encodeURI q s'] show ?thesis by (auto simp: fresh_spawn_def)
  next
    case (ch_post q sn a a' w)
    note aud = resolved_audience[OF ch_post(5,6)]
    have "set (po_audience q) \<subseteq> sm_id ` set (sw_members sn)" using aud(2) by (auto simp: eligible_members_def)
    then have "set (po_audience q) \<subseteq> sm_id ` set (sw_members s)" using grows_members[OF seen[OF ch_post(3,4)]] by blast
    with post_ok[OF ok] aud(1) ch_post(1,2) assms(2,4) show ?thesis by (auto simp: fresh_post_def)
  next
    case (ch_notify sn m n st)
    have "r \<in> set (notified m')" if "m' \<in> set (sw_messages s)" "wm_id m' = wm_id m" "r = fst n" for m' r
      using grows_notified[OF seen[OF ch_notify(2,3)] ok ch_notify(4) that(1,2)] ch_notify(5) that(3) by (simp add: notified_def)
    with set_notification_ok[OF ok, of "wm_id m" "fst n" st s'] assms(4) ch_notify(1) show ?thesis by blast
  next
    case (ch_context now memberId v)
    with assms(4) have "change_member memberId (\<lambda>m. m\<lparr>sm_context := v\<rparr>) s = Inr s'" by (auto simp: set_context_def split: sum.splits)
    from change_member_ok[OF ok this] show ?thesis by (simp add: member_core_def)
  next
    case (ch_attempt memberId)
    with assms(4) change_member_ok[OF ok] show ?thesis by (simp add: count_attempt_def member_core_def)
  next
    case (ch_ready now deadline memberId sessionId)
    with assms(4) have "change_member memberId (\<lambda>m. m\<lparr>sm_state := member_ready, sm_sessionId := Some sessionId\<rparr>) s = Inr s'"
      by (auto simp: make_ready_def split: sum.splits if_splits)
    from change_member_ok[OF ok this] show ?thesis by (simp add: member_core_def)
  next
    case (ch_failure now deadline timedOut memberId err)
    with assms(4) have "note_failure now deadline timedOut memberId err s = Inr s'" by simp
    from change_member_ok[OF ok this[unfolded note_failure_def]] show ?thesis by (simp add: member_core_def Let_def)
  next
    case (ch_cleanup memberId)
    with assms(4) change_member_ok[OF ok] show ?thesis by (simp add: clear_cleanup_def member_core_def)
  qed
  then show "swarm_ok s'" "swarm_grows s s'" by simp_all
qed

lemma get_put: "dm_get (dm_put rows i s) = (dm_get rows)(i \<mapsto> s)"
  by (simp add: dm_get_def dm_put_def update_conv' fun_eq_iff)

lemma work_left_pending [simp]: "work_left (s\<lparr>sw_pending := b\<rparr>) = work_left s"
  by (simp add: work_left_def)

lemma update_cases:
  assumes "update_swarm sessions runs now i f fence rows = (rows', r)"
  obtains "rows' = rows"
  | s s' where "dm_get rows i = Some s" "f s = Inr s'" "dm_get rows' = (dm_get rows)(i \<mapsto> s'\<lparr>sw_pending := work_left s'\<rparr>)"
      "r = Inr (s'\<lparr>sw_pending := work_left s'\<rparr>)"
proof (cases "rows' = rows")
  case False
  obtain s s' where "dm_get rows i = Some s" "f s = Inr s'" "rows' = dm_put rows i (s'\<lparr>sw_pending := work_left s'\<rparr>)"
    "r = Inr (s'\<lparr>sw_pending := work_left s'\<rparr>)"
  proof (cases fence)
    case None
    with assms False that show thesis
      by (auto simp: update_swarm_def plain_update_def apply_change_def split: option.splits sum.splits)
  next
    case (Some fe)
    with assms False that show thesis
      by (auto simp: update_swarm_def fencedWrite_def apply_change_def split: option.splits sum.splits if_splits)
  qed
  with that(2) show ?thesis by (simp add: get_put)
qed (rule that(1))

lemma create_cases:
  assumes "create_swarm sessions runs now s fence rows = (rows', r)"
  obtains "dm_get rows' = dm_get rows" | "dm_get rows (sw_id s) = None" "dm_get rows' = (dm_get rows)(sw_id s \<mapsto> s)"
proof (cases fence)
  case None
  with assms that show ?thesis
    by (auto simp: create_swarm_def create_change_def assertSwarmOpen_def dm_putIfAbsent_def dm_get_def update_conv' fun_eq_iff
        split: if_splits option.splits prod.splits)
next
  case (Some f)
  show ?thesis
  proof (cases "dm_get rows (sw_id s)")
    case None
    with Some assms that show ?thesis
      by (auto simp: create_swarm_def fencedWrite_def create_change_def assertSwarmOpen_def get_put split: if_splits option.splits sum.splits)
  next
    case (Some c)
    with \<open>fence = Some f\<close> assms have "rows' = rows \<or> rows' = dm_put rows (sw_id s) c"
      by (auto simp: create_swarm_def fencedWrite_def create_change_def split: if_splits option.splits sum.splits)
    with Some that(1) show ?thesis by (auto simp: get_put fun_upd_idem)
  qed
qed

lemma seen_grow:
  assumes "swarms_inv y" and "sn \<in> set (zs_seen y)" and "\<And>i s. dm_get (zs_rows y) i = Some s \<Longrightarrow> \<exists>s'. dm_get rows' i = Some s' \<and> swarm_grows s s'"
  shows "\<exists>s. dm_get rows' (sw_id sn) = Some s \<and> swarm_grows sn s"
  using assms unfolding swarms_inv_def by (meson grows_trans)

lemma initial_ok:
  assumes "prepareInitialSwarm w now iv caller auth settings backend = Inr s" and "settings_bounded settings"
  shows "swarm_ok s \<and> sm_id ` set (sw_members s) = {sw_id s} \<and> sw_messages s = [] \<and> sw_pending s"
proof -
  obtain se where "sw_members s = [root_member se]" "sw_id s = s_id se" "sw_messages s = []" "sw_settings s = settings" "sw_notificationCount s = 0"
    "sw_spawnRequests s = []" "sw_pending s"
    using assms(1) by (auto simp: prepareInitialSwarm_def Let_def split: option.splits if_splits sum.splits)
  with assms(2) show ?thesis by (auto simp: swarm_ok_def settings_bounded_def members_ok_def messages_ok_def root_member_def)
qed

lemma created_ok:
  assumes "prepareInitialSwarm w now iv caller auth settings backend = Inr s0" and "settings_bounded settings"
    and "fresh_spawn rows q" and "sw_id s0 \<notin> set (sp_ids q)" and "reserve encodeURI q s0 = Inr s"
  shows "row_ok (sw_id s) s" and "sw_id s = sw_id s0"
proof -
  note i = initial_ok[OF assms(1,2)]
  have r: "swarm_ok s" "swarm_grows s0 s"
    using reserve_ok[OF _ assms(5)] i assms(3,4) by (auto simp: fresh_spawn_def)
  then show "sw_id s = sw_id s0" by (simp add: swarm_grows_def)
  have "sw_spawnRequests s0 = []"
    using assms(1) by (auto simp: prepareInitialSwarm_def Let_def split: option.splits if_splits sum.splits)
  with assms(5) have "sw_pending s = sw_pending s0" "\<exists>m \<in> set (sw_members s). sm_state m = member_reserved"
    by (auto elim!: reserve_cases simp: Let_def)
       (use assms(3) in \<open>cases "sp_ids q"; cases "sp_contexts q"; auto simp: fresh_spawn_def new_member_def\<close>)
  with i r(1) show "row_ok (sw_id s) s" by (auto simp: row_ok_def work_left_def list_ex_iff)
qed

lemma swarms_inv_step:
  assumes "swarms_inv y" and "swarm_step y y'"
  shows "swarms_inv y' \<and> (\<forall>i s. dm_get (zs_rows y) i = Some s \<longrightarrow> (\<exists>s'. dm_get (zs_rows y') i = Some s' \<and> swarm_grows s s'))"
  using assms(2)
proof cases
  case (step_create input defaults settings w now iv caller auth backend s0 q encodeURI s fence)
  let ?rows = "fst (create_swarm (wd_sessions w) (wd_runs w) now s fence (zs_rows y))"
  note c = created_ok[OF step_create(3) resolved_bounded[OF step_create(2)] step_create(4-6)]
  obtain r where "create_swarm (wd_sessions w) (wd_runs w) now s fence (zs_rows y) = (?rows, r)" by (metis prod.collapse)
  then have rows: "dm_get ?rows = dm_get (zs_rows y) \<or> dm_get (zs_rows y) (sw_id s) = None \<and> dm_get ?rows = (dm_get (zs_rows y))(sw_id s \<mapsto> s)"
    by (rule create_cases) simp_all
  have grow: "\<exists>s''. dm_get ?rows i = Some s'' \<and> swarm_grows s' s''" if "dm_get (zs_rows y) i = Some s'" for i s'
    using rows that by auto
  have "row_ok i s'" if "dm_get ?rows i = Some s'" for i s'
    using rows that assms(1) c(1) by (auto simp: swarms_inv_def split: if_splits)
  with seen_grow[OF assms(1) _ grow] grow step_create(1) show ?thesis by (auto simp: swarms_inv_def)
next
  case (step_update i f sessions runs now fence)
  let ?rows = "fst (update_swarm sessions runs now i f fence (zs_rows y))"
  obtain r where "update_swarm sessions runs now i f fence (zs_rows y) = (?rows, r)" by (metis prod.collapse)
  then have "(\<forall>j s'. dm_get ?rows j = Some s' \<longrightarrow> row_ok j s') \<and> (\<forall>j s'. dm_get (zs_rows y) j = Some s' \<longrightarrow> (\<exists>s''. dm_get ?rows j = Some s'' \<and> swarm_grows s' s''))"
  proof (cases rule: update_cases)
    case 1
    with assms(1) show ?thesis by (auto simp: swarms_inv_def)
  next
    case (2 s s')
    have row: "row_ok i s" using assms(1) 2(1) by (simp add: swarms_inv_def)
    have "swarm_grows sn s" if "sn \<in> set (zs_seen y)" "sw_id sn = i" for sn
      using assms(1) that 2(1) by (fastforce simp: swarms_inv_def)
    from change_ok[OF step_update(2) 2(1) _ 2(2) this] row have "swarm_ok s'" "swarm_grows s s'" by (auto simp: row_ok_def)
    with row 2(3) assms(1) 2(1) show ?thesis by (auto simp: swarms_inv_def row_ok_def swarm_grows_def)
  qed
  with seen_grow[OF assms(1), of _ ?rows] step_update(1) show ?thesis by (auto simp: swarms_inv_def)
next
  case (step_read i s)
  with assms(1) show ?thesis by (auto simp: swarms_inv_def row_ok_def)
qed

interpretation swarms: invariant_system "\<lambda>y. y = empty_swarms" swarm_step swarms_inv
proof unfold_locales
  show "y = empty_swarms \<Longrightarrow> swarms_inv y" for y by (simp add: swarms_inv_def empty_swarms_def dm_get_def)
qed (use swarms_inv_step in blast)

lemma swarms_steps_grow:
  assumes "swarm_step\<^sup>*\<^sup>* y y'" and "swarms_inv y" and "dm_get (zs_rows y) i = Some s"
  shows "\<exists>s'. dm_get (zs_rows y') i = Some s' \<and> swarm_grows s s'"
  using assms(1)
proof (induction rule: rtranclp_induct)
  case base
  with assms(3) show ?case by auto
next
  case (step u v)
  have "swarms_inv u" using step.hyps(1) assms(2) by (rule swarms.steps_inv)
  with swarms_inv_step step.hyps(2) step.IH show ?case by (meson grows_trans)
qed

section \<open>Properties\<close>

text \<open>C28: A swarm stays within its budgets. However requests, messages and sweeps interleave, every swarm has at most as
  many members, levels, messages, spawn requests and notifications as its settings allow, and these allow at most 64, 8,
  256, 64 and 1024; the count that is charged is the number of notifications there are; each goes to a member of the
  audience, once; members form a tree; and the flag by which sweepers find a swarm tells exactly whether work is left.\<close>

theorem swarm_within_budgets:
  assumes "swarm_step\<^sup>*\<^sup>* empty_swarms y" and "dm_get (zs_rows y) i = Some s"
  shows "settings_bounded (sw_settings s) \<and> int (length (sw_members s)) \<le> ws_agents (sw_settings s) \<and>
    members_ok (ws_depth (sw_settings s)) (sw_members s) \<and> int (length (sw_messages s)) \<le> ws_messages (sw_settings s) \<and>
    messages_ok (sm_id ` set (sw_members s)) (sw_messages s) \<and> int (length (sw_spawnRequests s)) \<le> ws_spawnRequests (sw_settings s) \<and>
    (\<Sum>m\<leftarrow>sw_messages s. int (length (notified m))) = sw_notificationCount s \<and> sw_notificationCount s \<le> ws_notifications (sw_settings s) \<and>
    sw_pending s = work_left s"
proof -
  have "row_ok i s" using swarms.reachable_inv[OF refl assms(1)] assms(2) by (simp add: swarms_inv_def)
  then show ?thesis by (simp add: row_ok_def swarm_ok_def)
qed

text \<open>A request is carried out once. A spawn request or a message that a swarm has recorded stays recorded with its
  outcome, whatever happens later; made again it changes nothing if the content is the same, and is refused otherwise.
  All the while the swarm keeps its people, its settings and its end, its members with their places and its messages.\<close>

theorem swarm_request_once:
  assumes "swarm_step\<^sup>*\<^sup>* empty_swarms y" and "swarm_step\<^sup>*\<^sup>* y y'" and "dm_get (zs_rows y) i = Some s"
  shows "\<exists>s'. dm_get (zs_rows y') i = Some s' \<and> swarm_grows s s' \<and>
    (\<forall>q ids sig. map_of (sw_spawnRequests s) (sp_key q) = Some (ids, sig) \<longrightarrow> map_of (sw_spawnRequests s') (sp_key q) = Some (ids, sig) \<and>
       reserve encodeURI q s' = (if sig = sp_fingerprint q then Inr s' else Inl (swarm_error ''requestId reused with different content''))) \<and>
    (\<forall>q mid sig. map_of (sw_messageRequests s) (po_key q) = Some (mid, sig) \<longrightarrow> map_of (sw_messageRequests s') (po_key q) = Some (mid, sig) \<and>
       post_message q s' = (if sig = po_fingerprint q then Inr s' else Inl (swarm_error ''requestId reused with different content'')))"
proof -
  obtain s' where s': "dm_get (zs_rows y') i = Some s'" "swarm_grows s s'"
    using swarms_steps_grow[OF assms(2) swarms.reachable_inv[OF refl assms(1)] assms(3)] by blast
  then have le: "map_of (sw_spawnRequests s) \<subseteq>\<^sub>m map_of (sw_spawnRequests s')" "map_of (sw_messageRequests s) \<subseteq>\<^sub>m map_of (sw_messageRequests s')"
    by (simp_all add: swarm_grows_def)
  have keep: "m' k = Some v" if "m \<subseteq>\<^sub>m m'" "m k = Some v" for m m' :: "string \<rightharpoonup> 'x" and k v
    using that unfolding map_le_def by (metis domI)
  show ?thesis
    by (intro exI[of _ s'] conjI allI impI s') (auto dest!: keep[OF le(1)] keep[OF le(2)] simp: reserve_def post_message_def)
qed

text \<open>A lost lease ends the authority over a swarm. Once the token that an agent's capability carries is not the
  current token of its run, no write in the name of that run changes a swarm any more, whatever the queue does next and
  whichever change is attempted.\<close>

theorem swarm_write_needs_lease:
  assumes "run_inv rs" and "token_of rs (sf_runId fence) \<noteq> Some t" and "(run_step T)\<^sup>*\<^sup>* rs rs'" and "t \<notin> T" and "sf_leaseToken fence = Some t"
  shows "\<exists>e. update_swarm sessions rs' now i f (Some fence) rows = (rows, Inl e) \<and> create_swarm sessions rs' now s (Some fence) rows = (rows, Inl e)"
proof -
  have "token_of rs' (sf_runId fence) \<noteq> Some t" using rs_tok.stale_stays[OF assms(3,1,2,4)] .
  then have "\<not> swarm_run_ok fence (get_run rs' (sf_runId fence)) now"
    using assms(5) by (auto simp: swarm_run_ok_def get_run_def token_of_def split: option.splits)
  then show ?thesis
    by (auto simp: update_swarm_def create_swarm_def fencedWrite_def assertSwarmRun_def split: option.splits)
qed

text \<open>A turn that claims to come from a swarm is the run that was dispatched for it, unchanged.\<close>

lemma bound_turn_is_dispatched:
  assumes "binding decodeURI authorize w now input = Inr (Some b)" and "oi_swarm input = Some turn"
  obtains rootId s m msg r where "dm_get (wd_swarms w) rootId = Some s" "sw_id s = bd_rootSessionId b" "m = bd_member b" "msg \<in> set (sw_messages s)" "sm_id m \<in> set (wm_audience msg)"
    "getByDedupKey (wd_runs w) (dispatch_key (wm_id msg) (sm_id m)) = Some r" "oi_runId input = Some (run_id r)"
    "dispatchContract input = dispatchContract (dispatchRequest s msg m)" "now < sw_expiresAt s"
proof -
  from assms obtain se rootId s m where d: "binding_dispatched authorize w now input turn se s m = Inr (Some b)"
    and row: "dm_get (wd_swarms w) rootId = Some s"
    by (auto simp: binding_def split: option.splits sum.splits prod.splits if_splits)
  then have b: "b = bound_to s m" and open_: "now < sw_expiresAt s"
    by (auto simp: binding_dispatched_def assertSwarmOpen_def Let_def split: if_splits)
  from d obtain msg r where msg: "find (\<lambda>x. wm_id x = st_messageId turn) (sw_messages s) = Some msg" "sm_id m \<in> set (wm_audience msg)"
    "getByDedupKey (wd_runs w) (dispatch_key (wm_id msg) (sm_id m)) = Some r" "oi_runId input = Some (run_id r)"
    "matchesDispatch input (dispatchRequest s msg m)"
    by (auto simp: binding_dispatched_def assertSwarmOpen_def Let_def split: if_splits option.splits)
  show ?thesis
    by (rule that[of rootId s m msg r]) (use b row open_ msg in \<open>auto simp: bound_to_def matchesDispatch_def find_Some_iff\<close>)
qed

text \<open>Rows are read back as they were written.\<close>

lemma decode_encode:
  assumes "\<And>m. m \<in> set (sw_members s) \<Longrightarrow> parse (stringify (sm_context m)) = Some (sm_context m)"
    and "\<And>m. m \<in> set (sw_messages s) \<Longrightarrow> parse (stringify (JStr (wm_text m))) = Some (JStr (wm_text m))"
  shows "decode_swarm parse (encode_swarm s) = s"
proof -
  have zips: "zip (map f xs) (map g xs) = map (\<lambda>x. (f x, g x)) xs" for f :: "'a \<Rightarrow> 'b" and g :: "'a \<Rightarrow> 'c" and xs
    by (induction xs) simp_all
  have "map (\<lambda>m. m\<lparr>sm_context := the (parse (stringify (sm_context m)))\<rparr>) (sw_members s) = sw_members s"
    by (rule map_idI) (simp add: assms(1))
  moreover have "map (\<lambda>m. m\<lparr>wm_text := the (jstr (parse (stringify (JStr (wm_text m)))))\<rparr>) (sw_messages s) = sw_messages s"
    by (rule map_idI) (simp add: assms(2) del: stringify.simps)
  ultimately show ?thesis
    by (simp add: decode_swarm_def encode_swarm_def zips o_def del: stringify.simps)
qed

section \<open>Witnesses\<close>

definition demo_sessions :: sstore where
  "demo_sessions = addParticipant ''S'' ''u'' None False 0
     (fst (getOrCreateByThread ''S'' 0 ''t'' ''dm'' ''personal:u'' None None (createMemorySessionStore None)))"

definition demo_world :: swarm_world where
  "demo_world = \<lparr>wd_swarms = [], wd_sessions = demo_sessions,
     wd_runs = fst (enqueue (createMemoryRunStore None) 0 ''R'' \<lparr>ei_sessionId = ''t'', ei_request = plain_request ''u'' ''t'' ''hi'', ei_dedupKey = None, ei_maxAttempts = None\<rparr>)\<rparr>"

definition demo_auth :: Authority where
  "demo_auth = \<lparr>au_fence = None, au_sessionId = ''S'', au_actorId = ''u'', au_rootId = ''S'', au_memberId = ''S''\<rparr>"

definition demo_inventory :: sandbox_inventory where
  "demo_inventory = \<lparr>iv_sandboxes = [], iv_defaultSandboxId = None, iv_providers = [(''b'', [''create'', ''retire''])], iv_defaultBackend = ''b''\<rparr>"

definition demo_spawn :: spawn_request where
  "demo_spawn = \<lparr>sp_key = ''k'', sp_fingerprint = ''f'', sp_settings = SWARM_DEFAULTS, sp_backend = None, sp_auth = demo_auth, sp_kind = author_human,
     sp_text = ''go'', sp_contexts = [JObj []], sp_forumSandboxId = None, sp_ids = [''W''], sp_messageId = ''M'', sp_now = 1\<rparr>"

definition demo_initial :: Swarm where
  "demo_initial = projr (prepareInitialSwarm demo_world 0 demo_inventory (caller_human ''u'' ''S'' (Some ''R'')) demo_auth SWARM_DEFAULTS None)"

definition demo_swarm :: Swarm where
  "demo_swarm = projr (reserve (\<lambda>s. s) demo_spawn demo_initial)"

lemma demo_created:
  "swarm_step\<^sup>*\<^sup>* empty_swarms \<lparr>zs_rows = [(''S'', demo_swarm)], zs_seen = []\<rparr>"
proof -
  have settings: "resolveSwarmSettings (JObj []) SWARM_DEFAULTS = Inr SWARM_DEFAULTS"
    by (simp add: resolveSwarmSettings_def SETTING_KEYS_def setting_entries_def SWARM_DEFAULTS_def SWARM_MAXIMUMS_def setting_value_def
        setting_ok_def settings_of_def MAX_SAFE_INTEGER_def)
  have p: "prepareInitialSwarm demo_world 0 demo_inventory (caller_human ''u'' ''S'' (Some ''R'')) demo_auth SWARM_DEFAULTS None = Inr demo_initial"
    by code_simp
  have r: "reserve (\<lambda>s. s) demo_spawn demo_initial = Inr demo_swarm" by code_simp
  have "swarm_step empty_swarms (empty_swarms\<lparr>zs_rows := fst (create_swarm (wd_sessions demo_world) (wd_runs demo_world) 0 demo_swarm None (zs_rows empty_swarms))\<rparr>)"
    by (rule step_create[OF settings p _ _ r]) (simp add: fresh_spawn_def empty_swarms_def demo_spawn_def dm_get_def, code_simp)
  moreover have "fst (create_swarm (wd_sessions demo_world) (wd_runs demo_world) 0 demo_swarm None (zs_rows empty_swarms)) = [(''S'', demo_swarm)]"
    by code_simp
  ultimately show ?thesis by (simp add: empty_swarms_def r_into_rtranclp)
qed

theorem swarm_within_budgets_witness:
  "length (sw_members demo_swarm) = 2 \<and> int (length (sw_members demo_swarm)) \<le> ws_agents (sw_settings demo_swarm) \<and>
   sw_pending demo_swarm = work_left demo_swarm"
proof -
  have "length (sw_members demo_swarm) = 2" by code_simp
  with swarm_within_budgets[OF demo_created, of "''S''" demo_swarm] show ?thesis by (simp add: dm_get_def)
qed

theorem swarm_request_once_witness:
  "reserve (\<lambda>s. s) demo_spawn demo_swarm = Inr demo_swarm"
proof -
  have "map_of (sw_spawnRequests demo_swarm) (sp_key demo_spawn) = Some ([''W''], sp_fingerprint demo_spawn)" by code_simp
  with swarm_request_once[OF demo_created rtranclp.rtrancl_refl, of "''S''" demo_swarm "\<lambda>s. s"] show ?thesis by (auto simp: dm_get_def)
qed

theorem swarm_write_needs_lease_witness:
  "\<exists>e. update_swarm demo_sessions demo_pending 5 ''S'' (count_attempt ''W'')
     (Some \<lparr>sf_runId = ''a'', sf_attempt = Some 1, sf_leaseToken = Some ''old'', sf_sessionId = ''S'', sf_threadRef = ''t'', sf_actorId = ''u'',
        sf_scopeId = ''personal:u''\<rparr>) [(''S'', demo_swarm)] = ([(''S'', demo_swarm)], Inl e)"
proof -
  let ?f = "\<lparr>sf_runId = ''a'', sf_attempt = Some 1, sf_leaseToken = Some ''old'', sf_sessionId = ''S'', sf_threadRef = ''t'', sf_actorId = ''u'',
        sf_scopeId = ''personal:u''\<rparr>"
  have "run_inv demo_pending" using rs.reachable_inv demo_pending_reachable[of "{}"] by blast
  moreover have "token_of demo_pending (sf_runId ?f) \<noteq> Some ''old''" by (simp add: token_of_def demo_defs)
  ultimately show ?thesis
    using swarm_write_needs_lease[of demo_pending ?f "''old''" "{}" demo_pending] by fastforce
qed

end
