(* ===== verification/Keychain.thy ===== *)
theory Keychain
  imports Item_Ledger Scopes
begin

text \<open>
  The keychain (\<open>src/src/credentials/keychain.ts\<close>, with \<open>src/src/credentials/paths.ts\<close> and \<open>envKey\<close> of
  \<open>connector-token.ts\<close>): people keep credentials, grant them to conversations once or for good, and are asked for them;
  organisations keep credentials for the broker; connectors keep tokens that are refreshed. The state is the three maps
  of \<open>createKeychain\<close>. Encryption, SHA-256, base64 and \<open>JSON.parse\<close> are the fields of a record; decrypting may fail. A
  refresh calls a remote service: what it reads and what it stores are two operations, and its result is an argument.
\<close>

section \<open>Data\<close>

datatype CredentialKind = kind_env | kind_file | kind_broker

record CredentialInjection =
  ij_header :: "string option"
  ij_scheme :: "string option"
  ij_actor :: "bool option"

text \<open>\<open>delivery\<close> is \<open>"env"\<close> exactly when there is an \<open>envKey\<close>, which \<open>br_env\<close> holds.\<close>

record BrokerDelivery =
  br_name :: string
  br_env :: "string option"
  br_injection :: "CredentialInjection option"
  br_allowedMethods :: "string list option"
  br_allowedPathPrefixes :: "string list option"
  br_deployments :: "bool option"
  br_enabled :: bool
  br_updatedBy :: "string option"

record CredentialRefresh =
  rf_refreshTokenEnc :: "string option"
  rf_idTokenEnc :: "string option"
  rf_accountId :: "string option"
  rf_accountType :: "string option"
  rf_clientRef :: "string option"
  rf_grantedScopes :: "string list option"
  rf_refreshFailedAt :: "int option"
  rf_refreshError :: "string option"
  rf_orgId :: "string option"

record CredentialFile =
  cf_path :: string
  cf_contentBase64 :: string
  cf_mode :: "int option"

record KeychainCredential =
  kc_id :: string
  kc_ownerId :: string
  kc_orgId :: "string option"
  kc_service :: string
  kc_kind :: CredentialKind
  kc_envKey :: "string option"
  kc_target :: "string option"
  kc_targets :: "string list option"
  kc_capturePaths :: "json option"
  kc_host :: "string option"
  kc_accountLabel :: "string option"
  kc_fields :: "(string \<times> bool) list option"
  kc_broker :: "BrokerDelivery option"
  kc_refresh :: "CredentialRefresh option"
  kc_managed :: bool
  kc_secretEnc :: string
  kc_fingerprint :: string
  kc_origin :: "string option"
  kc_expiresAt :: "int option"
  kc_createdAt :: int
  kc_updatedAt :: int
  kc_username :: "string option"

datatype GrantMode = mode_once | mode_standing
datatype GrantStatus = grant_active | grant_revoked | grant_used

record KeychainGrant =
  kg_id :: string
  kg_credentialId :: string
  kg_ownerId :: string
  kg_orgId :: "string option"
  kg_audienceScopeId :: ScopeId
  kg_mode :: GrantMode
  kg_purpose :: string
  kg_status :: GrantStatus
  kg_createdAt :: int
  kg_expiresAt :: "int option"
  kg_revokedAt :: "int option"
  kg_usedAt :: "int option"
  kg_usedBy :: "string option"
  kg_askId :: "string option"

datatype AskStatus = ask_pending | ask_approved | ask_declined | ask_expired

record KeychainAsk =
  ka_id :: string
  ka_credentialId :: string
  ka_ownerId :: string
  ka_requesterId :: string
  ka_orgId :: "string option"
  ka_requesterScopeId :: ScopeId
  ka_requesterDestination :: "json option"
  ka_requesterThreadRef :: "string option"
  ka_purpose :: string
  ka_requestedMode :: "GrantMode option"
  ka_status :: AskStatus
  ka_createdAt :: int
  ka_expiresAt :: int
  ka_resolvedAt :: "int option"
  ka_grantId :: "string option"
  ka_note :: "string option"
  ka_notifiedAt :: "int option"

definition ASK_TTL_MS :: int where "ASK_TTL_MS = 24 * 60 * 60000"
definition ASK_PRUNE_AFTER_MS :: int where "ASK_PRUNE_AFTER_MS = 14 * 24 * 60 * 60000"
definition DEVICE_FLOW_ORIGIN :: string where "DEVICE_FLOW_ORIGIN = ''device-flow-auto-capture''"

text \<open>\<open>KeychainError\<close> with its status; \<open>plain_error\<close> is any other \<open>Error\<close>.\<close>

datatype KeychainError = kc_error nat string | plain_error string

record keychain =
  ks_creds :: "KeychainCredential jsmap"
  ks_grants :: "KeychainGrant jsmap"
  ks_asks :: "KeychainAsk jsmap"

record vault =
  vt_encrypt :: "string \<Rightarrow> string"
  vt_decrypt :: "string \<Rightarrow> string option"
  vt_sha :: "string \<Rightarrow> string"
  vt_parse :: "string \<Rightarrow> json option"
  vt_base64 :: "string \<Rightarrow> string"
  vt_orgId :: string
  vt_canRefresh :: bool
  vt_oauthSkew :: int
  vt_oauthRefreshMargin :: int

section \<open>Names and checks\<close>

definition is_upper :: "char \<Rightarrow> bool" where "is_upper c \<longleftrightarrow> CHR ''A'' \<le> c \<and> c \<le> CHR ''Z''"
definition is_lower :: "char \<Rightarrow> bool" where "is_lower c \<longleftrightarrow> CHR ''a'' \<le> c \<and> c \<le> CHR ''z''"
definition is_number :: "char \<Rightarrow> bool" where "is_number c \<longleftrightarrow> CHR ''0'' \<le> c \<and> c \<le> CHR ''9''"

text \<open>\<open>s.toUpperCase().replace(/[^A-Z0-9]/g, "_")\<close>: of the units below 256 only the sharp s becomes two letters.\<close>

definition env_chars :: "char \<Rightarrow> string" where
  "env_chars c = (if is_lower c then [char_of (of_char c - (32 :: nat))] else if is_upper c \<or> is_number c then [c]
     else if of_char c = (223 :: nat) then ''SS'' else ''_'')"

definition env_name :: "string \<Rightarrow> string" where
  "env_name s = concat (map env_chars s)"

definition defaultEnvKey :: "string \<Rightarrow> string" where
  "defaultEnvKey service = env_name service @ ''_TOKEN''"

definition connector_envKey :: "string \<Rightarrow> string" where
  "connector_envKey host = ''VAULT_TOKEN_'' @ env_name host"

definition ENV_KEY_RE :: "string \<Rightarrow> bool" where
  "ENV_KEY_RE s = (case s of [] \<Rightarrow> False
     | c # r \<Rightarrow> (is_upper c \<or> is_lower c \<or> c = CHR ''_'') \<and> list_all (\<lambda>x. is_upper x \<or> is_lower x \<or> is_number x \<or> x = CHR ''_'') r)"

definition isValidCredentialSlug :: "string \<Rightarrow> bool" where
  "isValidCredentialSlug s = (case s of [] \<Rightarrow> False
     | c # r \<Rightarrow> (is_lower c \<or> is_number c) \<and> length r \<le> 62 \<and> list_all (\<lambda>x. is_lower x \<or> is_number x \<or> x = CHR ''-'') r)"

definition isValidServiceCredentialEnvKey :: "string \<Rightarrow> bool" where
  "isValidServiceCredentialEnvKey s = ((case s of [] \<Rightarrow> False
     | c # r \<Rightarrow> is_upper c \<and> list_all (\<lambda>x. is_upper x \<or> is_number x \<or> x = CHR ''_'') r) \<and> \<not> starts_with s ''AGENT_'')"

definition header_char :: "char \<Rightarrow> bool" where
  "header_char c \<longleftrightarrow> is_upper c \<or> is_lower c \<or> is_number c \<or> c \<in> set ''!#$%&*+-.^_`|~'' \<or> c = CHR 0x27"

definition credentialInjectionError :: "json option \<Rightarrow> string option" where
  "credentialInjectionError value =
     (case value of
        None \<Rightarrow> None
      | Some (JObj fs) \<Rightarrow>
          (let v = JObj fs in
           if (case jget v ''actor'' of None \<Rightarrow> False | Some (JBool b) \<Rightarrow> False | Some _ \<Rightarrow> True) then Some ''injection.actor must be boolean''
           else if (case jget v ''header'' of None \<Rightarrow> False | Some (JStr h) \<Rightarrow> h = [] \<or> \<not> list_all header_char h | Some _ \<Rightarrow> True)
           then Some ''authentication header must be a valid HTTP header name''
           else if map_option toLowerCase (jstr (jget v ''header'')) = Some ''x-qm-actor''
           then Some ''x-qm-actor is reserved for broker actor attestation''
           else if (case jget v ''scheme'' of None \<Rightarrow> False | Some (JStr s) \<Rightarrow> CHR 0x0A \<in> set s \<or> CHR 0x0D \<in> set s | Some _ \<Rightarrow> True)
           then Some ''authentication value prefix must be a single line''
           else None)
      | Some _ \<Rightarrow> Some ''injection must be an object'')"

definition restoredFileMode :: "int option \<Rightarrow> int" where
  "restoredFileMode mode = Bit_Operations.or (Bit_Operations.and (nullish mode 384) 448) 384"

definition stripHomePrefix :: "string \<Rightarrow> string" where
  "stripHomePrefix target =
     (let s = (if starts_with target ''~/'' then drop 2 target else target) in if s = ''~'' then [] else s)"

definition homeRelativePath :: "string \<Rightarrow> KeychainError + string" where
  "homeRelativePath path =
     (let s = stripHomePrefix path; rel = (if starts_with s ''./'' then drop 2 s else s) in
      if rel = [] \<or> starts_with rel ''/'' \<or> ''..'' \<in> set (split_char (CHR ''/'') rel) \<or> CHR 0x00 \<in> set rel
      then Inl (plain_error (''file path must be home-relative: '' @ path)) else Inr rel)"

definition keychainFilePath :: "string \<Rightarrow> KeychainError + string" where
  "keychainFilePath path =
     (if CHR 0x0A \<in> set path \<or> CHR 0x0D \<in> set path
      then Inl (kc_error 400 (''file path may not contain line breaks: '' @ json_quote path))
      else case homeRelativePath path of
        Inl _ \<Rightarrow> Inl (kc_error 400 (''file path must be home-relative: '' @ path))
      | Inr rel \<Rightarrow> Inr rel)"

definition fingerprintOf :: "vault \<Rightarrow> string \<Rightarrow> string" where
  "fingerprintOf V secret = hashId (vt_sha V) [secret] 16"

definition credentialHandle :: "string \<Rightarrow> string" where
  "credentialHandle i = ''kc_'' @ take 12 i"

definition credId :: "vault \<Rightarrow> string \<Rightarrow> string \<Rightarrow> string \<Rightarrow> string" where
  "credId V ownerId service slot = hashId (vt_sha V) [ownerId, service, slot] 16"

definition expired_at :: "int option \<Rightarrow> int \<Rightarrow> bool" where
  "expired_at e now = (case e of None \<Rightarrow> False | Some x \<Rightarrow> x < now)"

definition credExpired :: "KeychainCredential \<Rightarrow> int \<Rightarrow> bool" where
  "credExpired rec now \<longleftrightarrow> kc_kind rec \<noteq> kind_file \<and> expired_at (kc_expiresAt rec) now"

definition samePersonId :: "string \<Rightarrow> string \<Rightarrow> bool" where
  "samePersonId a b = samePerson (Some a) (Some b)"

definition getOwned :: "keychain \<Rightarrow> string \<Rightarrow> string \<Rightarrow> KeychainCredential option" where
  "getOwned k ownerId i = (case dm_get (ks_creds k) i of
     Some rec \<Rightarrow> if samePersonId (kc_ownerId rec) ownerId then Some rec else None | None \<Rightarrow> None)"

text \<open>The legacy user name sits beside the password under a key of its own: \<open>_PASSWORD\<close> and the like is cut off, in any case.\<close>

definition USERNAME_SUFFIXES :: "string list" where
  "USERNAME_SUFFIXES = [''_password'', ''_pass'', ''_token'', ''_secret'', ''_api_key'', ''_key'']"

fun cut_suffix :: "string \<Rightarrow> string" where
  "cut_suffix [] = []"
| "cut_suffix (c # s) = (if toLowerCase (c # s) \<in> set USERNAME_SUFFIXES then [] else c # cut_suffix s)"

definition legacyUsernameEnvKey :: "string \<Rightarrow> string" where
  "legacyUsernameEnvKey passwordEnvKey =
     (let base = cut_suffix passwordEnvKey in (if base \<noteq> [] then base else passwordEnvKey) @ ''_USERNAME'')"

text \<open>The metadata of a credential is the record without its secret, which is left empty.\<close>

definition toMeta :: "KeychainCredential \<Rightarrow> KeychainCredential" where
  "toMeta rec = rec\<lparr>kc_secretEnc := []\<rparr>"

text \<open>\<open>selectValues\<close> of \<open>durable-map.ts\<close> folds case for ASCII texts and keeps every other one.\<close>

definition fold_selected :: "string list \<Rightarrow> string \<Rightarrow> bool" where
  "fold_selected anyOfFold value \<longleftrightarrow>
     toLowerCase value \<in> set (map toLowerCase anyOfFold) \<or> \<not> list_all (\<lambda>c. of_char c \<le> (127 :: nat)) value"

definition byOwners :: "string list \<Rightarrow> KeychainCredential \<Rightarrow> bool" where
  "byOwners ownerIds c = fold_selected (map (\<lambda>i. personKey (Some i)) ownerIds) (kc_ownerId c)"

end
