(* ===== verification/Keychain_Store.thy ===== *)
theory Keychain_Store
  imports Keychain
begin

text \<open>
  The operations of \<open>createKeychain\<close> on credentials, grants and asks (\<open>src/src/credentials/keychain.ts\<close>). A request
  runs to its end before the next one reads the maps, except where \<open>Keychain_Tokens\<close> splits an operation at the call of a
  remote service; \<open>now()\<close> is one argument per request, and the messages of errors write a dash as a hyphen.
\<close>

section \<open>Selecting credentials\<close>

definition select_owned :: "keychain \<Rightarrow> string list \<Rightarrow> KeychainCredential list" where
  "select_owned k ownerIds = filter (byOwners ownerIds) (dm_all (ks_creds k))"

text \<open>\<open>bucketByOwner\<close>: of ids that are the same person the last one names the bucket.\<close>

definition owner_named :: "string list \<Rightarrow> string \<Rightarrow> string option" where
  "owner_named ownerIds i = find (\<lambda>x. personKey (Some x) = personKey (Some i)) (rev ownerIds)"

definition bucketByOwner ::
  "KeychainCredential list \<Rightarrow> string list \<Rightarrow> (KeychainCredential \<Rightarrow> bool) \<Rightarrow> (KeychainCredential \<Rightarrow> 'a) \<Rightarrow> 'a list jsmap" where
  "bucketByOwner creds ownerIds incl item =
     fold (\<lambda>c out. if \<not> incl c then out
        else case owner_named ownerIds (kc_ownerId c) of
          None \<Rightarrow> out
        | Some owner \<Rightarrow> AList.update owner (nullish (map_of out owner) [] @ [item c]) out) creds []"

definition listable :: "KeychainCredential \<Rightarrow> bool" where
  "listable c \<longleftrightarrow> \<not> kc_managed c \<and> kc_kind c \<noteq> kind_broker"

definition listAllMetadata :: "keychain \<Rightarrow> KeychainCredential list" where
  "listAllMetadata k = filter listable (map toMeta (dm_all (ks_creds k)))"

definition listByOwner :: "keychain \<Rightarrow> string \<Rightarrow> KeychainCredential list" where
  "listByOwner k ownerId =
     filter (\<lambda>c. samePersonId (kc_ownerId c) ownerId \<and> listable c) (map toMeta (select_owned k [ownerId]))"

definition listByOwners :: "keychain \<Rightarrow> string list \<Rightarrow> KeychainCredential list jsmap" where
  "listByOwners k ownerIds = bucketByOwner (map toMeta (select_owned k ownerIds)) ownerIds listable (\<lambda>c. c)"

definition getCredential :: "keychain \<Rightarrow> string \<Rightarrow> KeychainCredential option" where
  "getCredential k i = map_option toMeta (dm_get (ks_creds k) i)"

section \<open>Saving a credential\<close>

record CredentialFieldInput =
  fi_envKey :: string
  fi_value :: string
  fi_secret :: "bool option"

record SaveCredentialInput =
  sc_ownerId :: string
  sc_service :: string
  sc_secret :: "string option"
  sc_envKey :: "string option"
  sc_fields :: "CredentialFieldInput list option"
  sc_target :: "string option"
  sc_files :: "CredentialFile list option"
  sc_host :: "string option"
  sc_accountLabel :: "string option"
  sc_capturePaths :: "json option"
  sc_origin :: "string option"
  sc_expectedOrigin :: "string option"
  sc_expiresAt :: "int option"

text \<open>The paths of files in turn; the first bad one ends the request.\<close>

fun map_paths :: "(string \<Rightarrow> KeychainError + string) \<Rightarrow> CredentialFile list \<Rightarrow> KeychainError + CredentialFile list" where
  "map_paths g [] = Inr []"
| "map_paths g (f # fs) = (case g (cf_path f) of
     Inl e \<Rightarrow> Inl e
   | Inr p \<Rightarrow> (case map_paths g fs of Inl e \<Rightarrow> Inl e | Inr r \<Rightarrow> Inr (f\<lparr>cf_path := p\<rparr> # r)))"

definition input_files :: "vault \<Rightarrow> SaveCredentialInput \<Rightarrow> KeychainError + CredentialFile list option" where
  "input_files V i =
     (if nullish (sc_files i) [] \<noteq> [] then map_sum id Some (map_paths keychainFilePath (the (sc_files i)))
      else if truthy (sc_target i) \<and> truthy (sc_secret i)
      then case keychainFilePath (the (sc_target i)) of
          Inl e \<Rightarrow> Inl e
        | Inr p \<Rightarrow> Inr (Some [\<lparr>cf_path = p, cf_contentBase64 = vt_base64 V (the (sc_secret i)), cf_mode = None\<rparr>])
      else Inr None)"

definition field_of :: "CredentialFieldInput \<Rightarrow> CredentialFieldInput" where
  "field_of f = f\<lparr>fi_envKey := trim (fi_envKey f), fi_secret := Some (fi_secret f \<noteq> Some False)\<rparr>"

definition input_fields :: "SaveCredentialInput \<Rightarrow> CredentialFieldInput list option" where
  "input_fields i = (if nullish (sc_fields i) [] \<noteq> [] then Some (map field_of (the (sc_fields i))) else None)"

definition fields_error :: "CredentialFieldInput list \<Rightarrow> KeychainError option" where
  "fields_error fs =
     (if list_ex (\<lambda>f. \<not> ENV_KEY_RE (fi_envKey f)) fs
      then Some (kc_error 400 ''each credential field needs a valid environment-variable envKey'')
      else if list_ex (\<lambda>f. trim (fi_value f) = []) fs then Some (kc_error 400 ''each credential field needs a value'')
      else if length (dedupe (map fi_envKey fs)) \<noteq> length fs then Some (kc_error 400 ''credential field envKeys must be unique'')
      else None)"

definition file_json :: "CredentialFile \<Rightarrow> json" where
  "file_json f = JObj ([(''path'', JStr (cf_path f)), (''contentBase64'', JStr (cf_contentBase64 f))] @
     (case cf_mode f of None \<Rightarrow> [] | Some m \<Rightarrow> [(''mode'', JNum m)]))"

definition fields_json :: "CredentialFieldInput list \<Rightarrow> json" where
  "fields_json fs = JObj (fold (\<lambda>f m. AList.update (fi_envKey f) (JStr (fi_value f)) m) fs [])"

definition stored_secret ::
  "SaveCredentialInput \<Rightarrow> CredentialFile list option \<Rightarrow> CredentialFieldInput list option \<Rightarrow> string option" where
  "stored_secret i files flds =
     (case files of Some fs \<Rightarrow> Some (stringify (JArr (map file_json fs)))
      | None \<Rightarrow> (case flds of Some xs \<Rightarrow> Some (stringify (fields_json xs)) | None \<Rightarrow> sc_secret i))"

definition save_slot :: "CredentialFile list option \<Rightarrow> CredentialFieldInput list option \<Rightarrow> string \<Rightarrow> string" where
  "save_slot files flds key =
     (if files \<noteq> None then ''file''
      else case flds of Some xs \<Rightarrow> ''env:'' @ join_with '','' (sort (map fi_envKey xs)) | None \<Rightarrow> ''env:'' @ key)"

definition fileCredentialFingerprint :: "vault \<Rightarrow> CredentialFile list \<Rightarrow> KeychainError + string" where
  "fileCredentialFingerprint V files =
     (case map_paths homeRelativePath files of
        Inl e \<Rightarrow> Inl e | Inr fs \<Rightarrow> Inr (fingerprintOf V (stringify (JArr (map file_json fs)))))"

text \<open>What a request saves, once its checks have passed.\<close>

record save_plan =
  sp_id :: string
  sp_service :: string
  sp_kind :: CredentialKind
  sp_envKey :: "string option"
  sp_fields :: "(string \<times> bool) list option"
  sp_targets :: "string list option"
  sp_secret :: string

definition save_key :: "SaveCredentialInput \<Rightarrow> CredentialFile list option \<Rightarrow> CredentialFieldInput list option \<Rightarrow> string option" where
  "save_key i files flds =
     (if files = None \<and> flds = None
      then Some (let e = trim (nullish (sc_envKey i) []) in if e \<noteq> [] then e else defaultEnvKey (toLowerCase (trim (sc_service i))))
      else None)"

definition save_checked ::
  "vault \<Rightarrow> SaveCredentialInput \<Rightarrow> CredentialFile list option \<Rightarrow> KeychainError + save_plan" where
  "save_checked V i files =
     (let service = toLowerCase (trim (sc_service i));
          flds = (if files = None then input_fields i else None);
          secret = stored_secret i files flds;
          key = save_key i files flds in
      case Option.bind flds fields_error of
        Some e \<Rightarrow> Inl e
      | None \<Rightarrow>
          if trim (nullish secret []) = [] then Inl (kc_error 400 ''empty secret'')
          else if (case key of Some e \<Rightarrow> \<not> ENV_KEY_RE e | None \<Rightarrow> False)
          then Inl (kc_error 400 ''envKey must be a valid environment-variable name'')
          else Inr \<lparr>sp_id = credId V (sc_ownerId i) service (save_slot files flds (nullish key [])), sp_service = service,
                    sp_kind = (if files \<noteq> None then kind_file else kind_env), sp_envKey = key,
                    sp_fields = map_option (map (\<lambda>f. (fi_envKey f, fi_secret f = Some True))) flds,
                    sp_targets = map_option (map cf_path) files, sp_secret = the secret\<rparr>)"

definition save_plan_of :: "vault \<Rightarrow> SaveCredentialInput \<Rightarrow> KeychainError + save_plan" where
  "save_plan_of V i =
     (if toLowerCase (trim (sc_service i)) = [] then Inl (kc_error 400 ''service required'')
      else case input_files V i of Inl e \<Rightarrow> Inl e | Inr files \<Rightarrow> save_checked V i files)"

definition buildRec :: "vault \<Rightarrow> int \<Rightarrow> SaveCredentialInput \<Rightarrow> save_plan \<Rightarrow> KeychainCredential option \<Rightarrow> KeychainCredential" where
  "buildRec V t i p prior =
     \<lparr>kc_id = sp_id p, kc_ownerId = sc_ownerId i, kc_orgId = Some (vt_orgId V), kc_service = sp_service p, kc_kind = sp_kind p,
      kc_envKey = sp_envKey p, kc_target = None, kc_targets = sp_targets p,
      kc_capturePaths = (case sc_capturePaths i of Some c \<Rightarrow> Some c | None \<Rightarrow> Option.bind prior kc_capturePaths),
      kc_host = (if truthy (sc_host i) then sc_host i else None),
      kc_accountLabel = (if truthy (sc_accountLabel i) then sc_accountLabel i else None), kc_fields = sp_fields p,
      kc_broker = None, kc_refresh = None, kc_managed = False, kc_secretEnc = vt_encrypt V (sp_secret p),
      kc_fingerprint = fingerprintOf V (sp_secret p), kc_origin = (if truthy (sc_origin i) then sc_origin i else None),
      kc_expiresAt = sc_expiresAt i, kc_createdAt = (case prior of Some r \<Rightarrow> kc_createdAt r | None \<Rightarrow> t), kc_updatedAt = t,
      kc_username = None\<rparr>"

definition guarded_rec ::
  "vault \<Rightarrow> int \<Rightarrow> SaveCredentialInput \<Rightarrow> save_plan \<Rightarrow> string \<Rightarrow> KeychainCredential \<Rightarrow> KeychainError + KeychainCredential" where
  "guarded_rec V t i p expected prior =
     (if kc_origin prior \<noteq> Some expected
      then Inl (kc_error 409 (''a '' @ nullish (kc_origin prior) ''manually saved'' @ '' credential for '' @ sp_service p @
        '' already exists - not overwritten''))
      else Inr (buildRec V t i p (Some prior)))"

text \<open>The guarded write: update a record that is there, insert one that is not, three times at most.\<close>

fun save_attempts ::
  "nat \<Rightarrow> vault \<Rightarrow> keychain \<Rightarrow> int \<Rightarrow> SaveCredentialInput \<Rightarrow> save_plan \<Rightarrow> string \<Rightarrow> keychain \<times> (KeychainError + KeychainCredential)" where
  "save_attempts 0 V k t i p expected =
     (k, Inl (kc_error 503 (''credential for '' @ sp_service p @ '' is being written concurrently - retry'')))"
| "save_attempts (Suc n) V k t i p expected =
     (case dm_update (ks_creds k) (sp_id p) (guarded_rec V t i p expected) of
        (cs, Inl e) \<Rightarrow> (k, Inl e)
      | (cs, Inr (Some rec)) \<Rightarrow> (k\<lparr>ks_creds := cs\<rparr>, Inr (toMeta rec))
      | (cs, Inr None) \<Rightarrow>
          (let fresh = buildRec V t i p None in
           case dm_insertIfAbsent (ks_creds k) (sp_id p) fresh of
             (cs', True) \<Rightarrow> (k\<lparr>ks_creds := cs'\<rparr>, Inr (toMeta fresh))
           | (cs', False) \<Rightarrow> save_attempts n V k t i p expected))"

definition expected_origin :: "SaveCredentialInput \<Rightarrow> string option" where
  "expected_origin i = (case sc_expectedOrigin i of Some e \<Rightarrow> Some e
     | None \<Rightarrow> if sc_origin i = Some DEVICE_FLOW_ORIGIN then Some DEVICE_FLOW_ORIGIN else None)"

definition saveCredential ::
  "vault \<Rightarrow> keychain \<Rightarrow> int \<Rightarrow> SaveCredentialInput \<Rightarrow> keychain \<times> (KeychainError + KeychainCredential)" where
  "saveCredential V k t i =
     (case save_plan_of V i of
        Inl e \<Rightarrow> (k, Inl e)
      | Inr p \<Rightarrow>
          (case expected_origin i of
             None \<Rightarrow> (let rec = buildRec V t i p (dm_get (ks_creds k) (sp_id p)) in
                      (k\<lparr>ks_creds := dm_put (ks_creds k) (sp_id p) rec\<rparr>, Inr (toMeta rec)))
           | Some expected \<Rightarrow> save_attempts 3 V k t i p expected))"

definition setCapturePaths ::
  "vault \<Rightarrow> keychain \<Rightarrow> int \<Rightarrow> string \<Rightarrow> string \<Rightarrow> json \<Rightarrow> string \<Rightarrow> keychain \<times> (KeychainError + bool)" where
  "setCapturePaths V k t ownerId service capturePaths expected =
     (case dm_update (ks_creds k) (credId V ownerId service ''file'')
          (\<lambda>rec. if kc_origin rec \<noteq> Some expected
             then Inl (kc_error 409 (''credential for '' @ service @ '' was not created by a login capture - not updated''))
             else Inr (rec\<lparr>kc_capturePaths := Some capturePaths, kc_updatedAt := t\<rparr>)) of
        (cs, Inl e) \<Rightarrow> (k, Inl e)
      | (cs, Inr r) \<Rightarrow> (k\<lparr>ks_creds := cs\<rparr>, Inr (r \<noteq> None)))"

section \<open>Grants\<close>

record CreateGrantInput =
  gi_credentialId :: string
  gi_ownerId :: string
  gi_audienceScopeId :: ScopeId
  gi_mode :: GrantMode
  gi_purpose :: string
  gi_expiresAt :: "int option"
  gi_askId :: "string option"

definition grant_of :: "vault \<Rightarrow> int \<Rightarrow> CreateGrantInput \<Rightarrow> KeychainCredential \<Rightarrow> KeychainGrant" where
  "grant_of V t i cred =
     (let purpose = trim (gi_purpose i) in
      \<lparr>kg_id = hashId (vt_sha V) [kc_id cred, gi_audienceScopeId i, show_int t, purpose] 16, kg_credentialId = kc_id cred,
       kg_ownerId = kc_ownerId cred, kg_orgId = kc_orgId cred, kg_audienceScopeId = gi_audienceScopeId i, kg_mode = gi_mode i,
       kg_purpose = purpose, kg_status = grant_active, kg_createdAt = t, kg_expiresAt = gi_expiresAt i, kg_revokedAt = None,
       kg_usedAt = None, kg_usedBy = None, kg_askId = (if truthy (gi_askId i) then gi_askId i else None)\<rparr>)"

text \<open>What \<open>mintGrant\<close> makes of the credential it read; the grant is written afterwards.\<close>

definition checked_grant :: "vault \<Rightarrow> int \<Rightarrow> CreateGrantInput \<Rightarrow> KeychainCredential option \<Rightarrow> KeychainError + KeychainGrant" where
  "checked_grant V t i read =
     (case read of
        None \<Rightarrow> Inl (kc_error 404 ''unknown credential'')
      | Some cred \<Rightarrow>
          if kc_kind cred = kind_broker
          then Inl (kc_error 400 ''broker credentials are org-owned and used via the credential broker, not grants'')
          else if \<not> samePersonId (kc_ownerId cred) (gi_ownerId i)
          then Inl (kc_error 403 ''only the credential's owner can grant it - and only on a turn the owner themself sent'')
          else if trim (gi_purpose i) = []
          then Inl (kc_error 400 ''purpose required - record the owner's approval verbatim'')
          else if \<not> kc_managed cred \<and> credExpired cred t then Inl (kc_error 410 ''credential is expired'')
          else Inr (grant_of V t i cred))"

definition write_grant :: "KeychainGrant \<Rightarrow> keychain \<Rightarrow> keychain" where
  "write_grant g k = k\<lparr>ks_grants := dm_put (ks_grants k) (kg_id g) g\<rparr>"

definition mintGrant :: "vault \<Rightarrow> keychain \<Rightarrow> int \<Rightarrow> CreateGrantInput \<Rightarrow> keychain \<times> (KeychainError + KeychainGrant)" where
  "mintGrant V k t i =
     (case checked_grant V t i (dm_get (ks_creds k) (gi_credentialId i)) of
        Inl e \<Rightarrow> (k, Inl e)
      | Inr grant \<Rightarrow> (write_grant grant k, Inr grant))"

definition revoke_patch :: "int \<Rightarrow> KeychainGrant \<Rightarrow> KeychainGrant" where
  "revoke_patch t g = g\<lparr>kg_status := grant_revoked, kg_revokedAt := Some t\<rparr>"

text \<open>Deleting a credential revokes the active grants of a snapshot one after the other, and then deletes the record. Before
  each of these writes other requests may have changed the maps (\<open>others\<close>); \<open>now\<close> is the clock at each write.\<close>

definition revoke_write :: "int \<Rightarrow> string \<Rightarrow> keychain \<Rightarrow> keychain" where
  "revoke_write t grantId k = k\<lparr>ks_grants := fst (dm_merge (ks_grants k) grantId (revoke_patch t))\<rparr>"

definition delete_write :: "string \<Rightarrow> keychain \<Rightarrow> keychain" where
  "delete_write i k = k\<lparr>ks_creds := dm_delete (ks_creds k) i\<rparr>"

fun revoke_grants :: "(nat \<Rightarrow> keychain \<Rightarrow> keychain) \<Rightarrow> (nat \<Rightarrow> int) \<Rightarrow> string \<Rightarrow> KeychainGrant list \<Rightarrow> keychain \<Rightarrow> keychain" where
  "revoke_grants others now i [] k = k"
| "revoke_grants others now i (g # gs) k =
     revoke_grants others now i gs
       (if kg_credentialId g = i \<and> kg_status g = grant_active
        then revoke_write (now (Suc (length gs))) (kg_id g) (others (Suc (length gs)) k) else k)"

definition deleteCredential :: "(nat \<Rightarrow> keychain \<Rightarrow> keychain) \<Rightarrow> (nat \<Rightarrow> int) \<Rightarrow> keychain \<Rightarrow> string \<Rightarrow> keychain" where
  "deleteCredential others now k i = delete_write i (others 0 (revoke_grants others now i (dm_all (ks_grants k)) k))"

definition readOwnSecret :: "vault \<Rightarrow> keychain \<Rightarrow> string \<Rightarrow> string \<Rightarrow> string option" where
  "readOwnSecret V k ownerId i =
     (case getOwned k ownerId i of
        None \<Rightarrow> None
      | Some rec \<Rightarrow> if kc_kind rec \<noteq> kind_env then None else vt_decrypt V (kc_secretEnc rec))"

text \<open>What happens between the check of the owner and the snapshot of the grants is \<open>others 0\<close>.\<close>

definition remove_credential ::
  "(nat \<Rightarrow> keychain \<Rightarrow> keychain) \<Rightarrow> (nat \<Rightarrow> int) \<Rightarrow> keychain \<Rightarrow> string \<Rightarrow> string \<Rightarrow> keychain \<times> bool" where
  "remove_credential others now k ownerId i =
     (case getOwned k ownerId i of
        None \<Rightarrow> (k, False)
      | Some rec \<Rightarrow>
          if kc_managed rec \<or> kc_kind rec = kind_broker then (k, False)
          else (deleteCredential (\<lambda>j. others (Suc j)) now (others 0 k) i, True))"

definition oauthSlot :: "string option \<Rightarrow> string" where
  "oauthSlot accountType = ''oauth:'' @ (if truthy accountType \<and> accountType \<noteq> Some ''default'' then the accountType else [])"

definition oauthId :: "vault \<Rightarrow> string \<Rightarrow> string \<Rightarrow> string option \<Rightarrow> string" where
  "oauthId V host principalId accountType = credId V principalId (toLowerCase host) (oauthSlot accountType)"

definition grantConnectorToScope ::
  "vault \<Rightarrow> keychain \<Rightarrow> int \<Rightarrow> string \<Rightarrow> string \<Rightarrow> string option \<Rightarrow> ScopeId \<Rightarrow> string \<Rightarrow> keychain \<times> (KeychainError + KeychainGrant option)" where
  "grantConnectorToScope V k t host principalId accountType audience purpose =
     (let i = oauthId V host principalId accountType in
      if dm_get (ks_creds k) i = None then (k, Inr None)
      else case find (\<lambda>g. kg_credentialId g = i \<and> kg_audienceScopeId g = audience \<and> kg_mode g = mode_standing \<and>
                       kg_status g = grant_active) (dm_all (ks_grants k)) of
        Some g \<Rightarrow> (k, Inr (Some g))
      | None \<Rightarrow>
          (case mintGrant V k t \<lparr>gi_credentialId = i, gi_ownerId = principalId, gi_audienceScopeId = audience,
                                gi_mode = mode_standing, gi_purpose = purpose, gi_expiresAt = None, gi_askId = None\<rparr> of
             (k', Inl e) \<Rightarrow> (k', Inl e) | (k', Inr g) \<Rightarrow> (k', Inr (Some g))))"

definition getGrant :: "keychain \<Rightarrow> string \<Rightarrow> KeychainGrant option" where
  "getGrant k i = dm_get (ks_grants k) i"

definition listGrants :: "keychain \<Rightarrow> string option \<Rightarrow> ScopeId option \<Rightarrow> KeychainGrant list" where
  "listGrants k ownerId audience =
     filter (\<lambda>g. (case ownerId of None \<Rightarrow> True | Some x \<Rightarrow> samePersonId (kg_ownerId g) x) \<and>
                 (case audience of None \<Rightarrow> True | Some s \<Rightarrow> kg_audienceScopeId g = s)) (dm_all (ks_grants k))"

definition revokeGrant :: "keychain \<Rightarrow> int \<Rightarrow> string \<Rightarrow> string \<Rightarrow> keychain \<times> bool" where
  "revokeGrant k t ownerId grantId =
     (case dm_get (ks_grants k) grantId of
        None \<Rightarrow> (k, False)
      | Some g \<Rightarrow>
          if \<not> samePersonId (kg_ownerId g) ownerId then (k, False)
          else if kg_status g = grant_active
          then (revoke_write t grantId k, True)
          else (k, True))"

definition activeGrantsFor :: "keychain \<Rightarrow> int \<Rightarrow> ScopeId \<Rightarrow> KeychainGrant list" where
  "activeGrantsFor k t scope =
     filter (\<lambda>g. kg_audienceScopeId g = scope \<and> kg_status g = grant_active \<and> \<not> expired_at (kg_expiresAt g) t)
       (dm_all (ks_grants k))"

definition grantsForScope :: "keychain \<Rightarrow> int \<Rightarrow> ScopeId \<Rightarrow> (KeychainGrant \<times> KeychainCredential) list" where
  "grantsForScope k t scope =
     List.map_filter (\<lambda>g. case dm_get (ks_creds k) (kg_credentialId g) of
          None \<Rightarrow> None
        | Some cred \<Rightarrow> if kc_managed cred \<or> \<not> credExpired cred t then Some (g, toMeta cred) else None)
       (activeGrantsFor k t scope)"

section \<open>Asks\<close>

definition expire_ask :: "int \<Rightarrow> KeychainAsk \<Rightarrow> KeychainAsk" where
  "expire_ask t a = a\<lparr>ka_status := ask_expired, ka_resolvedAt := Some t\<rparr>"

definition freshAsk :: "keychain \<Rightarrow> int \<Rightarrow> KeychainAsk \<Rightarrow> keychain \<times> KeychainAsk" where
  "freshAsk k t rec =
     (if ka_status rec \<noteq> ask_pending \<or> t \<le> ka_expiresAt rec then (k, rec)
      else (k\<lparr>ks_asks := fst (dm_merge (ks_asks k) (ka_id rec) (expire_ask t))\<rparr>, expire_ask t rec))"

record CreateAskInput =
  ai_credentialId :: string
  ai_requesterId :: string
  ai_requesterScopeId :: ScopeId
  ai_requesterDestination :: "json option"
  ai_requesterThreadRef :: "string option"
  ai_purpose :: string
  ai_requestedMode :: "GrantMode option"
  ai_expiresAt :: "int option"

text \<open>The pending ask of a conversation for a credential, refreshing the asks on the way.\<close>

fun pending_ask :: "keychain \<Rightarrow> int \<Rightarrow> string \<Rightarrow> ScopeId \<Rightarrow> KeychainAsk list \<Rightarrow> keychain \<times> KeychainAsk option" where
  "pending_ask k t credentialId scope [] = (k, None)"
| "pending_ask k t credentialId scope (rec # rest) =
     (case freshAsk k t rec of (k', a) \<Rightarrow>
        if ka_status a = ask_pending \<and> ka_credentialId a = credentialId \<and> ka_requesterScopeId a = scope then (k', Some a)
        else pending_ask k' t credentialId scope rest)"

definition ask_of :: "vault \<Rightarrow> int \<Rightarrow> string \<Rightarrow> CreateAskInput \<Rightarrow> KeychainCredential \<Rightarrow> KeychainAsk" where
  "ask_of V t new i cred =
     \<lparr>ka_id = new, ka_credentialId = kc_id cred, ka_ownerId = kc_ownerId cred, ka_requesterId = ai_requesterId i,
      ka_orgId = Some (vt_orgId V), ka_requesterScopeId = ai_requesterScopeId i,
      ka_requesterDestination = ai_requesterDestination i,
      ka_requesterThreadRef = (if truthy (ai_requesterThreadRef i) then ai_requesterThreadRef i else None),
      ka_purpose = trim (ai_purpose i), ka_requestedMode = ai_requestedMode i, ka_status = ask_pending, ka_createdAt = t,
      ka_expiresAt = nullish (ai_expiresAt i) (t + ASK_TTL_MS), ka_resolvedAt = None, ka_grantId = None, ka_note = None,
      ka_notifiedAt = None\<rparr>"

text \<open>\<open>new\<close> is the random id of the ask.\<close>

definition createAsk ::
  "vault \<Rightarrow> keychain \<Rightarrow> int \<Rightarrow> string \<Rightarrow> CreateAskInput \<Rightarrow> keychain \<times> (KeychainError + KeychainAsk \<times> bool)" where
  "createAsk V k t new i =
     (if trim (ai_purpose i) = [] then (k, Inl (kc_error 400 ''purpose required - record the requester's words verbatim''))
      else case dm_get (ks_creds k) (ai_credentialId i) of
        None \<Rightarrow> (k, Inl (kc_error 404 ''unknown credential''))
      | Some cred \<Rightarrow>
          if kc_kind cred = kind_broker then (k, Inl (kc_error 404 ''unknown credential''))
          else if \<not> kc_managed cred \<and> credExpired cred t
          then (k, Inl (kc_error 410 ''credential is expired - its owner must re-auth before it can be asked for''))
          else if samePersonId (kc_ownerId cred) (ai_requesterId i)
          then (k, Inl (kc_error 400 ''you own this credential - grant it directly instead of asking yourself''))
          else case pending_ask k t (kc_id cred) (ai_requesterScopeId i) (dm_all (ks_asks k)) of
            (k', Some a) \<Rightarrow> (k', Inr (a, True))
          | (k', None) \<Rightarrow>
              (let ask = ask_of V t new i cred in (k'\<lparr>ks_asks := dm_put (ks_asks k') new ask\<rparr>, Inr (ask, False))))"

definition getAsk :: "keychain \<Rightarrow> int \<Rightarrow> string \<Rightarrow> keychain \<times> KeychainAsk option" where
  "getAsk k t i = (case dm_get (ks_asks k) i of None \<Rightarrow> (k, None) | Some rec \<Rightarrow> map_prod id Some (freshAsk k t rec))"

text \<open>A loop over asks that refreshes each one and folds the refreshed asks into a result.\<close>

fun each_ask :: "(KeychainAsk \<Rightarrow> keychain \<times> 'a \<Rightarrow> keychain \<times> 'a) \<Rightarrow> int \<Rightarrow> KeychainAsk list \<Rightarrow> keychain \<times> 'a \<Rightarrow> keychain \<times> 'a" where
  "each_ask body t [] s = s"
| "each_ask body t (rec # rest) (k, out) = (case freshAsk k t rec of (k', a) \<Rightarrow> each_ask body t rest (body a (k', out)))"

definition ask_matches :: "string option \<Rightarrow> string option \<Rightarrow> ScopeId option \<Rightarrow> KeychainAsk \<Rightarrow> bool" where
  "ask_matches requesterId ownerId scope a \<longleftrightarrow>
     (case requesterId of None \<Rightarrow> True | Some r \<Rightarrow> samePersonId (ka_requesterId a) r) \<and>
     (case ownerId of None \<Rightarrow> True | Some r \<Rightarrow> samePersonId (ka_ownerId a) r) \<and>
     (case scope of None \<Rightarrow> True | Some s \<Rightarrow> ka_requesterScopeId a = s)"

definition listAsks ::
  "keychain \<Rightarrow> int \<Rightarrow> string option \<Rightarrow> string option \<Rightarrow> ScopeId option \<Rightarrow> keychain \<times> KeychainAsk list" where
  "listAsks k t requesterId ownerId scope =
     map_prod id (sort_key ka_createdAt)
       (each_ask (\<lambda>a (k', out). (k', if ask_matches requesterId ownerId scope a then out @ [a] else out)) t
          (dm_all (ks_asks k)) (k, []))"

record ApproveAskInput =
  pi_askId :: string
  pi_ownerId :: string
  pi_mode :: GrantMode
  pi_purpose :: string
  pi_expiresAt :: "int option"

fun ask_status_name :: "AskStatus \<Rightarrow> string" where
  "ask_status_name ask_pending = ''pending''"
| "ask_status_name ask_approved = ''approved''"
| "ask_status_name ask_declined = ''declined''"
| "ask_status_name ask_expired = ''expired''"

definition approve_patch :: "int \<Rightarrow> string \<Rightarrow> KeychainAsk \<Rightarrow> KeychainAsk" where
  "approve_patch t g a = a\<lparr>ka_status := ask_approved, ka_resolvedAt := Some t, ka_grantId := Some g\<rparr>"

definition approveAsk ::
  "vault \<Rightarrow> keychain \<Rightarrow> int \<Rightarrow> ApproveAskInput \<Rightarrow> keychain \<times> (KeychainError + KeychainAsk \<times> KeychainGrant)" where
  "approveAsk V k t i =
     (case dm_get (ks_asks k) (pi_askId i) of
        None \<Rightarrow> (k, Inl (kc_error 404 ''unknown ask''))
      | Some rec \<Rightarrow>
          (case freshAsk k t rec of (k1, ask) \<Rightarrow>
             if ka_status ask \<noteq> ask_pending then (k1, Inl (kc_error 410 (''ask already '' @ ask_status_name (ka_status ask))))
             else case mintGrant V k1 t \<lparr>gi_credentialId = ka_credentialId ask, gi_ownerId = pi_ownerId i,
                     gi_audienceScopeId = ka_requesterScopeId ask, gi_mode = pi_mode i, gi_purpose = pi_purpose i,
                     gi_expiresAt = pi_expiresAt i, gi_askId = Some (ka_id ask)\<rparr> of
               (k2, Inl e) \<Rightarrow> (k2, Inl e)
             | (k2, Inr grant) \<Rightarrow>
                 (k2\<lparr>ks_asks := fst (dm_merge (ks_asks k2) (ka_id ask) (approve_patch t (kg_id grant)))\<rparr>,
                  Inr (approve_patch t (kg_id grant) ask, grant))))"

definition decline_patch :: "int \<Rightarrow> string option \<Rightarrow> KeychainAsk \<Rightarrow> KeychainAsk" where
  "decline_patch t n a = (let b = a\<lparr>ka_status := ask_declined, ka_resolvedAt := Some t\<rparr> in
     if truthy n then b\<lparr>ka_note := n\<rparr> else b)"

definition declineAsk :: "keychain \<Rightarrow> int \<Rightarrow> string \<Rightarrow> string \<Rightarrow> string option \<Rightarrow> keychain \<times> (KeychainError + KeychainAsk)" where
  "declineAsk k t askId ownerId n =
     (case dm_get (ks_asks k) askId of
        None \<Rightarrow> (k, Inl (kc_error 404 ''unknown ask''))
      | Some rec \<Rightarrow>
          if \<not> samePersonId (ka_ownerId rec) ownerId
          then (k, Inl (kc_error 403 ''only the credential's owner can decline an ask''))
          else case freshAsk k t rec of (k1, ask) \<Rightarrow>
            if ka_status ask \<noteq> ask_pending then (k1, Inl (kc_error 410 (''ask already '' @ ask_status_name (ka_status ask))))
            else let patch = decline_patch t (map_option trim n) in
                 (k1\<lparr>ks_asks := fst (dm_merge (ks_asks k1) (ka_id ask) patch)\<rparr>, Inr (patch ask)))"

definition unnotifiedResolvedAsks :: "keychain \<Rightarrow> int \<Rightarrow> keychain \<times> KeychainAsk list" where
  "unnotifiedResolvedAsks k t =
     each_ask (\<lambda>a (k', out).
        if ka_status a = ask_pending then (k', out)
        else case ka_notifiedAt a of
          None \<Rightarrow> (k', out @ [a])
        | Some n \<Rightarrow> (if n < t - ASK_PRUNE_AFTER_MS then k'\<lparr>ks_asks := dm_delete (ks_asks k') (ka_id a)\<rparr> else k', out)) t
       (dm_all (ks_asks k)) (k, [])"

definition markAskNotified :: "keychain \<Rightarrow> int \<Rightarrow> string \<Rightarrow> keychain" where
  "markAskNotified k t i = k\<lparr>ks_asks := fst (dm_merge (ks_asks k) i (\<lambda>a. a\<lparr>ka_notifiedAt := Some t\<rparr>))\<rparr>"

definition resolveAsksForGrant :: "keychain \<Rightarrow> int \<Rightarrow> KeychainGrant \<Rightarrow> keychain \<times> KeychainAsk list" where
  "resolveAsksForGrant k t grant =
     each_ask (\<lambda>a (k', out).
        if ka_status a \<noteq> ask_pending \<or> ka_credentialId a \<noteq> kg_credentialId grant \<or> ka_requesterScopeId a \<noteq> kg_audienceScopeId grant
        then (k', out)
        else let patch = (\<lambda>x. (approve_patch t (kg_id grant) x)\<lparr>ka_notifiedAt := Some t\<rparr>) in
             (k'\<lparr>ks_asks := fst (dm_merge (ks_asks k') (ka_id a) patch),
                 ks_grants := fst (dm_merge (ks_grants k') (kg_id grant) (\<lambda>g. g\<lparr>kg_askId := Some (ka_id a)\<rparr>))\<rparr>,
              out @ [patch a])) t
       (dm_all (ks_asks k)) (k, [])"

end
