(* ===== verification/Keychain_Tokens.thy ===== *)
theory Keychain_Tokens
  imports Keychain_Store
begin

text \<open>
  The rest of \<open>src/src/credentials/keychain.ts\<close>: the credentials of an organisation, which the broker uses; the tokens of
  connectors, which are refreshed by a remote service; and handing secrets out. A refresh reads the record, calls the
  remote service and then writes: \<open>refresh_finish\<close> is what follows the call, on the maps as they are then. Where an operation
  is modelled whole, the remote service is a function from the host and the token to an error or a new token.
\<close>

section \<open>Credentials of an organisation\<close>

record ServiceCredentialInput =
  si_slug :: string
  si_name :: string
  si_secret :: "string option"
  si_env_delivery :: bool
  si_envKey :: "string option"
  si_host :: string
  si_injection :: "json option"
  si_allowedMethods :: "string list option"
  si_allowedPathPrefixes :: "string list option"
  si_deployments :: "bool option"
  si_enabled :: "bool option"
  si_updatedBy :: "string option"

definition brokerId :: "vault \<Rightarrow> string \<Rightarrow> string \<Rightarrow> string" where
  "brokerId V orgScopeId slug = credId V orgScopeId slug ''broker''"

definition orgIdOf :: "string \<Rightarrow> string" where
  "orgIdOf s = (if starts_with s ''org:'' then drop 4 s else s)"

definition upper_char :: "char \<Rightarrow> string" where
  "upper_char c = (let n = of_char c :: nat in
     if (97 \<le> n \<and> n \<le> 122) \<or> (224 \<le> n \<and> n \<le> 254 \<and> n \<noteq> 247) then [char_of (n - 32)] else if n = 223 then ''SS'' else [c])"

definition injection_of :: "json \<Rightarrow> CredentialInjection" where
  "injection_of v = \<lparr>ij_header = jstr (jget v ''header''), ij_scheme = jstr (jget v ''scheme''),
     ij_actor = (case jget v ''actor'' of Some (JBool b) \<Rightarrow> Some b | _ \<Rightarrow> None)\<rparr>"

definition broker_of :: "ServiceCredentialInput \<Rightarrow> BrokerDelivery" where
  "broker_of i =
     \<lparr>br_name = si_name i, br_env = (if si_env_delivery i then si_envKey i else None),
      br_injection = map_option injection_of (si_injection i),
      br_allowedMethods = map_option (map (\<lambda>s. concat (map upper_char s))) (si_allowedMethods i),
      br_allowedPathPrefixes = si_allowedPathPrefixes i,
      br_deployments = (if si_deployments i = Some False then Some False else None),
      br_enabled = (si_enabled i \<noteq> Some False), br_updatedBy = (if truthy (si_updatedBy i) then si_updatedBy i else None)\<rparr>"

definition serviceCredentialRecord ::
  "vault \<Rightarrow> int \<Rightarrow> string \<Rightarrow> ServiceCredentialInput \<Rightarrow> KeychainCredential option \<Rightarrow> KeychainError + KeychainCredential" where
  "serviceCredentialRecord V now orgScopeId i prior =
     (case credentialInjectionError (si_injection i) of
        Some e \<Rightarrow> Inl (plain_error e)
      | None \<Rightarrow>
          let secret = trim (nullish (si_secret i) []); t = Orderings.max now (nullish (map_option kc_updatedAt prior) 0 + 1) in
          if si_env_delivery i \<and> (\<not> truthy (si_envKey i) \<or> \<not> isValidServiceCredentialEnvKey (the (si_envKey i)))
          then Inl (plain_error (''env-delivery credential '' @ si_slug i @ '' needs an UPPER_SNAKE_CASE envKey outside AGENT_* (got '' @
                 (case si_envKey i of None \<Rightarrow> ''null'' | Some e \<Rightarrow> json_quote e) @ '')''))
          else if \<not> si_env_delivery i \<and> truthy (si_envKey i)
          then Inl (plain_error (''broker-delivery credential '' @ si_slug i @ '' must not carry an envKey''))
          else Inr \<lparr>kc_id = brokerId V orgScopeId (si_slug i), kc_ownerId = orgScopeId, kc_orgId = Some (orgIdOf orgScopeId),
             kc_service = si_slug i, kc_kind = kind_broker, kc_envKey = None, kc_target = None, kc_targets = None,
             kc_capturePaths = None, kc_host = Some (si_host i), kc_accountLabel = None, kc_fields = None,
             kc_broker = Some (broker_of i), kc_refresh = None, kc_managed = False,
             kc_secretEnc = (if secret \<noteq> [] then vt_encrypt V secret else nullish (map_option kc_secretEnc prior) []),
             kc_fingerprint = (if secret \<noteq> [] then fingerprintOf V secret else nullish (map_option kc_fingerprint prior) []),
             kc_origin = None, kc_expiresAt = None, kc_createdAt = nullish (map_option kc_createdAt prior) t, kc_updatedAt = t,
             kc_username = None\<rparr>)"

definition brokerRecord :: "vault \<Rightarrow> keychain \<Rightarrow> string \<Rightarrow> string \<Rightarrow> KeychainCredential option" where
  "brokerRecord V k orgScopeId slug = dm_get (ks_creds k) (brokerId V orgScopeId slug)"

definition setServiceCredential ::
  "vault \<Rightarrow> keychain \<Rightarrow> int \<Rightarrow> string \<Rightarrow> ServiceCredentialInput \<Rightarrow> keychain \<times> (KeychainError + unit)" where
  "setServiceCredential V k t orgScopeId i =
     (case serviceCredentialRecord V t orgScopeId i (brokerRecord V k orgScopeId (si_slug i)) of
        Inl e \<Rightarrow> (k, Inl e)
      | Inr rec \<Rightarrow> (k\<lparr>ks_creds := dm_put (ks_creds k) (kc_id rec) rec\<rparr>, Inr ()))"

definition setServiceCredentialIfAbsent ::
  "vault \<Rightarrow> keychain \<Rightarrow> int \<Rightarrow> string \<Rightarrow> ServiceCredentialInput \<Rightarrow> keychain \<times> (KeychainError + int option)" where
  "setServiceCredentialIfAbsent V k t orgScopeId i =
     (case serviceCredentialRecord V t orgScopeId i None of
        Inl e \<Rightarrow> (k, Inl e)
      | Inr rec \<Rightarrow> (case dm_insertIfAbsent (ks_creds k) (kc_id rec) rec of
          (cs, b) \<Rightarrow> (k\<lparr>ks_creds := cs\<rparr>, Inr (if b then Some (kc_updatedAt rec) else None))))"

definition service_current :: "string \<Rightarrow> int \<Rightarrow> KeychainCredential \<Rightarrow> bool" where
  "service_current orgScopeId expected prior \<longleftrightarrow>
     kc_kind prior = kind_broker \<and> kc_ownerId prior = orgScopeId \<and> kc_updatedAt prior = expected"

text \<open>The closure's \<open>updatedAt\<close> is set exactly when the record was current.\<close>

definition setServiceCredentialIfCurrent ::
  "vault \<Rightarrow> keychain \<Rightarrow> int \<Rightarrow> string \<Rightarrow> ServiceCredentialInput \<Rightarrow> int \<Rightarrow> keychain \<times> (KeychainError + int option)" where
  "setServiceCredentialIfCurrent V k t orgScopeId i expected =
     (let current = (case brokerRecord V k orgScopeId (si_slug i) of None \<Rightarrow> False | Some p \<Rightarrow> service_current orgScopeId expected p) in
      case dm_update (ks_creds k) (brokerId V orgScopeId (si_slug i))
          (\<lambda>prior. if \<not> service_current orgScopeId expected prior then Inr prior
                   else serviceCredentialRecord V t orgScopeId i (Some prior)) of
        (cs, Inl e) \<Rightarrow> (k, Inl e)
      | (cs, Inr r) \<Rightarrow> (k\<lparr>ks_creds := cs\<rparr>, Inr (if current then map_option kc_updatedAt r else None)))"

definition deleteServiceCredential :: "vault \<Rightarrow> keychain \<Rightarrow> string \<Rightarrow> string \<Rightarrow> keychain" where
  "deleteServiceCredential V k orgScopeId slug = k\<lparr>ks_creds := dm_delete (ks_creds k) (brokerId V orgScopeId slug)\<rparr>"

definition deleteServiceCredentialIfCurrent :: "vault \<Rightarrow> keychain \<Rightarrow> string \<Rightarrow> string \<Rightarrow> int \<Rightarrow> keychain \<times> bool" where
  "deleteServiceCredentialIfCurrent V k orgScopeId slug expected =
     (case dm_deleteIf (ks_creds k) (brokerId V orgScopeId slug) (service_current orgScopeId expected) of
        (cs, b) \<Rightarrow> (k\<lparr>ks_creds := cs\<rparr>, b))"

record PublicServiceCredential =
  pv_slug :: string
  pv_name :: string
  pv_env_delivery :: bool
  pv_envKey :: "string option"
  pv_host :: string
  pv_injection :: "CredentialInjection option"
  pv_allowedMethods :: "string list option"
  pv_allowedPathPrefixes :: "string list option"
  pv_deployments :: bool
  pv_enabled :: bool
  pv_hasSecret :: bool
  pv_updatedBy :: "string option"
  pv_updatedAt :: int

definition broker_or_default :: "KeychainCredential \<Rightarrow> BrokerDelivery" where
  "broker_or_default rec = nullish (kc_broker rec)
     \<lparr>br_name = kc_service rec, br_env = None, br_injection = None, br_allowedMethods = None, br_allowedPathPrefixes = None,
      br_deployments = None, br_enabled = True, br_updatedBy = None\<rparr>"

definition brokerToPublic :: "KeychainCredential \<Rightarrow> PublicServiceCredential" where
  "brokerToPublic rec =
     (let b = broker_or_default rec in
      \<lparr>pv_slug = kc_service rec, pv_name = br_name b, pv_env_delivery = (br_env b \<noteq> None), pv_envKey = br_env b,
       pv_host = nullish (kc_host rec) [], pv_injection = br_injection b, pv_allowedMethods = br_allowedMethods b,
       pv_allowedPathPrefixes = br_allowedPathPrefixes b, pv_deployments = (br_deployments b \<noteq> Some False),
       pv_enabled = br_enabled b, pv_hasSecret = (kc_secretEnc rec \<noteq> []), pv_updatedBy = br_updatedBy b,
       pv_updatedAt = kc_updatedAt rec\<rparr>)"

definition listServiceCredentials :: "keychain \<Rightarrow> string \<Rightarrow> PublicServiceCredential list" where
  "listServiceCredentials k orgScopeId =
     map brokerToPublic (filter (\<lambda>c. kc_kind c = kind_broker \<and> kc_ownerId c = orgScopeId) (select_owned k [orgScopeId]))"

text \<open>The secret with the public view of its record; \<^const>\<open>Inl\<close> when it does not decrypt.\<close>

definition getServiceCredentialSecret ::
  "vault \<Rightarrow> keychain \<Rightarrow> string \<Rightarrow> string \<Rightarrow> KeychainError + (string \<times> PublicServiceCredential) option" where
  "getServiceCredentialSecret V k orgScopeId slug =
     (case brokerRecord V k orgScopeId slug of
        None \<Rightarrow> Inr None
      | Some rec \<Rightarrow>
          if kc_secretEnc rec = [] then Inr None
          else case vt_decrypt V (kc_secretEnc rec) of
            None \<Rightarrow> Inl (plain_error ''decrypt'')
          | Some s \<Rightarrow> Inr (Some (s, brokerToPublic rec)))"

section \<open>Tokens of connectors\<close>

record OAuthToken =
  ot_accessToken :: string
  ot_refreshToken :: "string option"
  ot_expiresAt :: "int option"
  ot_grantedScopes :: "string list option"
  ot_clientRef :: "string option"
  ot_accountType :: "string option"
  ot_orgId :: "string option"
  ot_idToken :: "string option"
  ot_accountId :: "string option"

definition when_truthy :: "string option \<Rightarrow> string option" where
  "when_truthy s = (if truthy s then s else None)"

definition token_record :: "vault \<Rightarrow> int \<Rightarrow> string \<Rightarrow> string \<Rightarrow> OAuthToken \<Rightarrow> string option \<Rightarrow> KeychainCredential option \<Rightarrow> KeychainCredential" where
  "token_record V t host principalId token accountType prior =
     (let atype = (case ot_accountType token of Some a \<Rightarrow> Some a | None \<Rightarrow> accountType) in
      \<lparr>kc_id = oauthId V host principalId accountType, kc_ownerId = principalId,
       kc_orgId = Some (nullish (ot_orgId token) (vt_orgId V)), kc_service = toLowerCase host, kc_kind = kind_env,
       kc_envKey = None, kc_target = None, kc_targets = None, kc_capturePaths = None, kc_host = Some (toLowerCase host),
       kc_accountLabel = None, kc_fields = None, kc_broker = None,
       kc_refresh = Some \<lparr>rf_refreshTokenEnc = map_option (vt_encrypt V) (when_truthy (ot_refreshToken token)),
          rf_idTokenEnc = map_option (vt_encrypt V) (when_truthy (ot_idToken token)),
          rf_accountId = when_truthy (ot_accountId token), rf_accountType = when_truthy atype,
          rf_clientRef = when_truthy (ot_clientRef token), rf_grantedScopes = ot_grantedScopes token,
          rf_refreshFailedAt = None, rf_refreshError = None, rf_orgId = when_truthy (ot_orgId token)\<rparr>,
       kc_managed = True, kc_secretEnc = vt_encrypt V (ot_accessToken token),
       kc_fingerprint = fingerprintOf V (ot_accessToken token), kc_origin = Some ''connector-oauth'',
       kc_expiresAt = ot_expiresAt token, kc_createdAt = nullish (map_option kc_createdAt prior) t, kc_updatedAt = t,
       kc_username = None\<rparr>)"

definition putConnectorToken ::
  "vault \<Rightarrow> keychain \<Rightarrow> int \<Rightarrow> string \<Rightarrow> string \<Rightarrow> OAuthToken \<Rightarrow> string option \<Rightarrow> keychain \<times> KeychainCredential" where
  "putConnectorToken V k t host principalId token accountType =
     (let i = oauthId V host principalId accountType;
          rec = token_record V t host principalId token accountType (dm_get (ks_creds k) i) in
      (k\<lparr>ks_creds := dm_put (ks_creds k) i rec\<rparr>, rec))"

definition setConnectorToken ::
  "vault \<Rightarrow> keychain \<Rightarrow> int \<Rightarrow> string \<Rightarrow> string \<Rightarrow> OAuthToken \<Rightarrow> string option \<Rightarrow> keychain" where
  "setConnectorToken V k t host principalId token accountType = fst (putConnectorToken V k t host principalId token accountType)"

definition deleteConnectorToken ::
  "vault \<Rightarrow> (nat \<Rightarrow> keychain \<Rightarrow> keychain) \<Rightarrow> (nat \<Rightarrow> int) \<Rightarrow> keychain \<Rightarrow> string \<Rightarrow> string \<Rightarrow> string option \<Rightarrow> keychain" where
  "deleteConnectorToken V others now k host principalId accountType =
     deleteCredential others now k (oauthId V host principalId accountType)"

definition connectorRecord :: "vault \<Rightarrow> keychain \<Rightarrow> string \<Rightarrow> string \<Rightarrow> string option \<Rightarrow> KeychainCredential option" where
  "connectorRecord V k host principalId accountType = dm_get (ks_creds k) (oauthId V host principalId accountType)"

text \<open>A text that is absent or empty is left out, one that is there must decrypt.\<close>

definition decrypt_field :: "vault \<Rightarrow> string option \<Rightarrow> string option option" where
  "decrypt_field V e = (case when_truthy e of None \<Rightarrow> Some None | Some s \<Rightarrow> map_option Some (vt_decrypt V s))"

definition recToOAuthToken :: "vault \<Rightarrow> KeychainCredential \<Rightarrow> OAuthToken option" where
  "recToOAuthToken V rec =
     (case (vt_decrypt V (kc_secretEnc rec), decrypt_field V (Option.bind (kc_refresh rec) rf_refreshTokenEnc),
            decrypt_field V (Option.bind (kc_refresh rec) rf_idTokenEnc)) of
        (Some access, Some refresh, Some ident) \<Rightarrow>
          Some \<lparr>ot_accessToken = access, ot_refreshToken = refresh, ot_expiresAt = kc_expiresAt rec,
            ot_grantedScopes = Option.bind (kc_refresh rec) rf_grantedScopes,
            ot_clientRef = when_truthy (Option.bind (kc_refresh rec) rf_clientRef),
            ot_accountType = when_truthy (Option.bind (kc_refresh rec) rf_accountType),
            ot_orgId = when_truthy (Option.bind (kc_refresh rec) rf_orgId), ot_idToken = ident,
            ot_accountId = when_truthy (Option.bind (kc_refresh rec) rf_accountId)\<rparr>
      | _ \<Rightarrow> None)"

definition storedRefreshError :: "string \<Rightarrow> string" where
  "storedRefreshError e = (let msg = trim (collapse_spaces e) in if 500 < length msg then take 497 msg @ ''...'' else msg)"

text \<open>A record is unchanged since it was read when neither its time nor its fingerprint moved.\<close>

definition same_flight :: "KeychainCredential \<Rightarrow> KeychainCredential \<Rightarrow> bool" where
  "same_flight current rec \<longleftrightarrow> kc_updatedAt current = kc_updatedAt rec \<and> kc_fingerprint current = kc_fingerprint rec"

definition fail_refresh :: "int \<Rightarrow> string \<Rightarrow> CredentialRefresh option \<Rightarrow> CredentialRefresh" where
  "fail_refresh t message r =
     (nullish r \<lparr>rf_refreshTokenEnc = None, rf_idTokenEnc = None, rf_accountId = None, rf_accountType = None,
        rf_clientRef = None, rf_grantedScopes = None, rf_refreshFailedAt = None, rf_refreshError = None, rf_orgId = None\<rparr>)
       \<lparr>rf_refreshFailedAt := Some t, rf_refreshError := Some message\<rparr>"

definition markConnectorRefreshFailure :: "keychain \<Rightarrow> int \<Rightarrow> KeychainCredential \<Rightarrow> string \<Rightarrow> keychain" where
  "markConnectorRefreshFailure k t rec message =
     (case dm_get (ks_creds k) (kc_id rec) of
        None \<Rightarrow> k
      | Some current \<Rightarrow>
          if \<not> same_flight current rec then k
          else k\<lparr>ks_creds := fst (dm_merge (ks_creds k) (kc_id rec)
                 (\<lambda>c. c\<lparr>kc_refresh := Some (fail_refresh t message (kc_refresh current)), kc_updatedAt := t\<rparr>))\<rparr>)"

text \<open>\<open>a ?? b\<close> of optional texts.\<close>

definition or_else :: "'a option \<Rightarrow> 'a option \<Rightarrow> 'a option" where
  "or_else a b = (case a of Some x \<Rightarrow> Some x | None \<Rightarrow> b)"

definition merged_token :: "OAuthToken \<Rightarrow> OAuthToken \<Rightarrow> OAuthToken" where
  "merged_token stored fresh =
     fresh\<lparr>ot_clientRef := or_else (ot_clientRef fresh) (when_truthy (ot_clientRef stored)),
           ot_accountType := or_else (ot_accountType fresh) (when_truthy (ot_accountType stored)),
           ot_orgId := or_else (ot_orgId fresh) (when_truthy (ot_orgId stored)),
           ot_idToken := or_else (ot_idToken fresh) (when_truthy (ot_idToken stored)),
           ot_accountId := or_else (ot_accountId fresh) (when_truthy (ot_accountId stored))\<rparr>"

text \<open>What follows the remote call: \<open>rec\<close> is the record as it was read before the call, \<open>k\<close> the maps after it.\<close>

definition refresh_finish ::
  "vault \<Rightarrow> keychain \<Rightarrow> int \<Rightarrow> string \<Rightarrow> string \<Rightarrow> string option \<Rightarrow> KeychainCredential \<Rightarrow> OAuthToken \<Rightarrow> string + OAuthToken \<Rightarrow>
     keychain \<times> string option" where
  "refresh_finish V k t host principalId accountType rec stored result =
     (case (case result of Inl e \<Rightarrow> Inl e
            | Inr fresh \<Rightarrow> if ot_accessToken fresh = [] then Inl ''refresh returned an empty access token'' else Inr fresh) of
        Inl e \<Rightarrow> (markConnectorRefreshFailure k t rec (storedRefreshError e), None)
      | Inr fresh \<Rightarrow>
          (case dm_get (ks_creds k) (kc_id rec) of
             Some current \<Rightarrow>
               if \<not> same_flight current rec then (k, map_option ot_accessToken (recToOAuthToken V current))
               else (setConnectorToken V k t host principalId (merged_token stored fresh) accountType, Some (ot_accessToken fresh))
           | None \<Rightarrow>
               (setConnectorToken V k t host principalId (merged_token stored fresh) accountType, Some (ot_accessToken fresh))))"

type_synonym remote = "string \<Rightarrow> OAuthToken \<Rightarrow> string + OAuthToken"

definition refreshAndStore ::
  "vault \<Rightarrow> remote \<Rightarrow> keychain \<Rightarrow> int \<Rightarrow> string \<Rightarrow> string \<Rightarrow> string option \<Rightarrow> KeychainCredential \<Rightarrow> keychain \<times> string option" where
  "refreshAndStore V R k t host principalId accountType rec =
     (if \<not> vt_canRefresh V then (k, None)
      else case recToOAuthToken V rec of
        None \<Rightarrow> (k, None)
      | Some stored \<Rightarrow> refresh_finish V k t host principalId accountType rec stored (R host stored))"

definition oauthExpired :: "vault \<Rightarrow> KeychainCredential \<Rightarrow> int \<Rightarrow> bool" where
  "oauthExpired V rec t = (case kc_expiresAt rec of None \<Rightarrow> False | Some e \<Rightarrow> e - vt_oauthSkew V \<le> t)"

definition refreshable_host :: "vault \<Rightarrow> KeychainCredential \<Rightarrow> string option" where
  "refreshable_host V rec =
     (if truthy (Option.bind (kc_refresh rec) rf_refreshTokenEnc) \<and> vt_canRefresh V \<and> truthy (kc_host rec) then kc_host rec else None)"

definition connectorTokenForRecord :: "vault \<Rightarrow> remote \<Rightarrow> keychain \<Rightarrow> int \<Rightarrow> KeychainCredential \<Rightarrow> keychain \<times> string option" where
  "connectorTokenForRecord V R k t rec =
     (case (refreshable_host V rec, kc_expiresAt rec) of
        (Some host, Some e) \<Rightarrow>
          if e - vt_oauthRefreshMargin V \<le> t
          then refreshAndStore V R k t host (kc_ownerId rec) (Option.bind (kc_refresh rec) rf_accountType) rec
          else (k, vt_decrypt V (kc_secretEnc rec))
      | (None, _) \<Rightarrow> if oauthExpired V rec t then (k, None) else (k, vt_decrypt V (kc_secretEnc rec))
      | (Some host, None) \<Rightarrow> (k, vt_decrypt V (kc_secretEnc rec)))"

record ConnectorMeta =
  cm_credentialId :: string
  cm_ownerId :: string
  cm_host :: string
  cm_accountType :: "string option"
  cm_expiresAt :: "int option"
  cm_needsReconnect :: bool

definition needs_reconnect :: "vault \<Rightarrow> KeychainCredential \<Rightarrow> int \<Rightarrow> bool" where
  "needs_reconnect V rec t \<longleftrightarrow> oauthExpired V rec t \<and>
     (\<not> truthy (Option.bind (kc_refresh rec) rf_refreshTokenEnc) \<or> Option.bind (kc_refresh rec) rf_refreshFailedAt \<noteq> None)"

definition connectorMeta :: "vault \<Rightarrow> int \<Rightarrow> KeychainCredential \<Rightarrow> ConnectorMeta" where
  "connectorMeta V t rec =
     \<lparr>cm_credentialId = kc_id rec, cm_ownerId = kc_ownerId rec, cm_host = nullish (kc_host rec) (kc_service rec),
      cm_accountType = when_truthy (Option.bind (kc_refresh rec) rf_accountType), cm_expiresAt = kc_expiresAt rec,
      cm_needsReconnect = needs_reconnect V rec t\<rparr>"

definition listConnectorsByOwners :: "vault \<Rightarrow> keychain \<Rightarrow> int \<Rightarrow> string list \<Rightarrow> ConnectorMeta list jsmap" where
  "listConnectorsByOwners V k t ownerIds =
     bucketByOwner (map toMeta (select_owned k ownerIds)) ownerIds kc_managed (connectorMeta V t)"

record OAuthTokenStatus =
  os_expiresAt :: "int option"
  os_hasRefreshToken :: bool
  os_needsReconnect :: bool
  os_refreshFailedAt :: "int option"
  os_refreshError :: "string option"
  os_accountType :: "string option"
  os_grantedScopes :: "string list option"

text \<open>\<^const>\<open>None\<close> is \<open>{connected: false}\<close>.\<close>

definition connectorTokenStatus :: "vault \<Rightarrow> keychain \<Rightarrow> int \<Rightarrow> string \<Rightarrow> string \<Rightarrow> string option \<Rightarrow> OAuthTokenStatus option" where
  "connectorTokenStatus V k t host principalId accountType =
     map_option (\<lambda>rec. let failed = Option.bind (kc_refresh rec) rf_refreshFailedAt in
        \<lparr>os_expiresAt = kc_expiresAt rec, os_hasRefreshToken = truthy (Option.bind (kc_refresh rec) rf_refreshTokenEnc),
         os_needsReconnect = needs_reconnect V rec t, os_refreshFailedAt = failed,
         os_refreshError = (if failed \<noteq> None then when_truthy (Option.bind (kc_refresh rec) rf_refreshError) else None),
         os_accountType = when_truthy (Option.bind (kc_refresh rec) rf_accountType),
         os_grantedScopes = Option.bind (kc_refresh rec) rf_grantedScopes\<rparr>)
       (connectorRecord V k host principalId accountType)"

definition connectorAccessToken ::
  "vault \<Rightarrow> remote \<Rightarrow> keychain \<Rightarrow> int \<Rightarrow> string \<Rightarrow> string \<Rightarrow> string option \<Rightarrow> keychain \<times> string option" where
  "connectorAccessToken V R k t host principalId accountType =
     (case connectorRecord V k host principalId accountType of
        None \<Rightarrow> (k, None) | Some rec \<Rightarrow> connectorTokenForRecord V R k t rec)"

record DerivedOAuthAuth =
  da_accessToken :: string
  da_idToken :: "string option"
  da_accountId :: "string option"
  da_expiresAt :: "int option"

definition connectorDerivedAuth ::
  "vault \<Rightarrow> remote \<Rightarrow> keychain \<Rightarrow> int \<Rightarrow> string \<Rightarrow> string \<Rightarrow> string option \<Rightarrow> keychain \<times> DerivedOAuthAuth option" where
  "connectorDerivedAuth V R k t host principalId accountType =
     (case connectorRecord V k host principalId accountType of
        None \<Rightarrow> (k, None)
      | Some rec \<Rightarrow>
          (case connectorTokenForRecord V R k t rec of
             (k', None) \<Rightarrow> (k', None)
           | (k', Some access) \<Rightarrow>
               (k', map_option (\<lambda>token. \<lparr>da_accessToken = ot_accessToken token, da_idToken = when_truthy (ot_idToken token),
                       da_accountId = when_truthy (ot_accountId token), da_expiresAt = ot_expiresAt token\<rparr>)
                     (recToOAuthToken V (nullish (connectorRecord V k' host principalId accountType) rec)))))"

section \<open>Handing secrets out\<close>

text \<open>The values of fields and the files are what \<open>JSON.parse\<close> reads in the decrypted text; \<open>extra\<close> is a grant's id and purpose.\<close>

record MaterializedEnvCred =
  me_credentialId :: string
  me_ownerId :: string
  me_service :: string
  me_env :: "(string \<times> json) list"
  me_extra :: "(string \<times> string) option"

record MaterializedFileCred =
  mf_credentialId :: string
  mf_ownerId :: string
  mf_service :: string
  mf_files :: json
  mf_origin :: "string option"
  mf_extra :: "(string \<times> string) option"

datatype MaterializedCred = mat_env MaterializedEnvCred | mat_file MaterializedFileCred

definition field_value :: "json \<Rightarrow> string \<Rightarrow> json" where
  "field_value v key = (case jget v key of None \<Rightarrow> JStr [] | Some JNull \<Rightarrow> JStr [] | Some x \<Rightarrow> x)"

definition env_of :: "vault \<Rightarrow> KeychainCredential \<Rightarrow> string \<Rightarrow> (string \<times> json) list option" where
  "env_of V rec raw =
     (case kc_fields rec of
        Some fs \<Rightarrow>
          (case vt_parse V raw of
             None \<Rightarrow> None
           | Some v \<Rightarrow> if v = JNull \<and> fs \<noteq> [] then None else Some (map (\<lambda>(key, secret). (key, field_value v key)) fs))
      | None \<Rightarrow>
          (let key = nullish (kc_envKey rec) (defaultEnvKey (kc_service rec)) in
           Some ((key, JStr raw) # (if truthy (kc_username rec) then [(legacyUsernameEnvKey key, JStr (the (kc_username rec)))] else []))))"

definition decryptToEnv :: "vault \<Rightarrow> (string \<times> string) option \<Rightarrow> KeychainCredential \<Rightarrow> MaterializedEnvCred option" where
  "decryptToEnv V extra rec =
     map_option (\<lambda>env. \<lparr>me_credentialId = kc_id rec, me_ownerId = kc_ownerId rec, me_service = kc_service rec, me_env = env,
                       me_extra = extra\<rparr>)
       (Option.bind (vt_decrypt V (kc_secretEnc rec)) (env_of V rec))"

definition files_of :: "vault \<Rightarrow> KeychainCredential \<Rightarrow> string \<Rightarrow> json option" where
  "files_of V rec raw =
     (if kc_targets rec \<noteq> None then vt_parse V raw
      else case keychainFilePath (nullish (kc_target rec) []) of
        Inl _ \<Rightarrow> None
      | Inr p \<Rightarrow> Some (JArr [JObj [(''path'', JStr p), (''contentBase64'', JStr (vt_base64 V raw))]]))"

definition decryptToFiles :: "vault \<Rightarrow> (string \<times> string) option \<Rightarrow> KeychainCredential \<Rightarrow> MaterializedFileCred option" where
  "decryptToFiles V extra rec =
     map_option (\<lambda>files. \<lparr>mf_credentialId = kc_id rec, mf_ownerId = kc_ownerId rec, mf_service = kc_service rec,
                         mf_files = files, mf_origin = when_truthy (kc_origin rec), mf_extra = extra\<rparr>)
       (Option.bind (vt_decrypt V (kc_secretEnc rec)) (files_of V rec))"

definition connector_env :: "KeychainCredential \<Rightarrow> string \<Rightarrow> (string \<times> string) option \<Rightarrow> MaterializedEnvCred" where
  "connector_env cred value extra =
     \<lparr>me_credentialId = kc_id cred, me_ownerId = kc_ownerId cred, me_service = kc_service cred,
      me_env = [(connector_envKey (the (kc_host cred)), JStr value)], me_extra = extra\<rparr>"

definition materializeConnectorEnv ::
  "vault \<Rightarrow> remote \<Rightarrow> keychain \<Rightarrow> int \<Rightarrow> KeychainCredential \<Rightarrow> (string \<times> string) option \<Rightarrow> keychain \<times> (KeychainError + MaterializedCred)" where
  "materializeConnectorEnv V R k t cred extra =
     (case (if truthy (kc_host cred) then connectorTokenForRecord V R k t cred else (k, None)) of
        (k', value) \<Rightarrow>
          if truthy value \<and> truthy (kc_host cred) then (k', Inr (mat_env (connector_env cred (the value) extra)))
          else (k', Inl (kc_error 410 ''connector token expired and could not be refreshed - its owner must reconnect the app'')))"

definition materializeDecrypted :: "vault \<Rightarrow> KeychainCredential \<Rightarrow> (string \<times> string) option \<Rightarrow> KeychainError + MaterializedCred" where
  "materializeDecrypted V cred extra =
     (case (if kc_kind cred = kind_file then map_option mat_file (decryptToFiles V extra cred)
            else map_option mat_env (decryptToEnv V extra cred)) of
        None \<Rightarrow> Inl (kc_error 422 ''credential does not decrypt under the current key'')
      | Some m \<Rightarrow> Inr m)"

text \<open>The checks a grant passes before it is used, which the atomic claim of a one-time grant repeats.\<close>

definition grant_error :: "KeychainGrant \<Rightarrow> int \<Rightarrow> ScopeId \<Rightarrow> KeychainError option" where
  "grant_error g t scope =
     (if kg_audienceScopeId g \<noteq> scope then Some (kc_error 403 ''grant is for a different conversation'')
      else if kg_status g = grant_revoked then Some (kc_error 410 ''grant was revoked'')
      else if kg_status g = grant_used then Some (kc_error 410 ''one-time grant already used'')
      else if expired_at (kg_expiresAt g) t then Some (kc_error 410 ''grant is expired'')
      else None)"

definition use_grant :: "int \<Rightarrow> ScopeId \<Rightarrow> string \<Rightarrow> KeychainGrant \<Rightarrow> KeychainError + KeychainGrant" where
  "use_grant t scope usedBy current =
     (case grant_error current t scope of
        Some e \<Rightarrow> Inl e
      | None \<Rightarrow> Inr (current\<lparr>kg_status := grant_used, kg_usedAt := Some t, kg_usedBy := Some usedBy\<rparr>))"

definition claimOnceGrant :: "keychain \<Rightarrow> int \<Rightarrow> KeychainGrant \<Rightarrow> ScopeId \<Rightarrow> string \<Rightarrow> keychain \<times> KeychainError option" where
  "claimOnceGrant k t grant scope usedBy =
     (if kg_mode grant \<noteq> mode_once then (k, None)
      else case dm_update (ks_grants k) (kg_id grant) (use_grant t scope usedBy) of
        (gs, Inl e) \<Rightarrow> (k, Some e)
      | (gs, Inr None) \<Rightarrow> (k, Some (kc_error 404 ''unknown grant''))
      | (gs, Inr (Some g)) \<Rightarrow> (k\<lparr>ks_grants := gs\<rparr>, None))"

definition usable_grant :: "keychain \<Rightarrow> int \<Rightarrow> string \<Rightarrow> ScopeId \<Rightarrow> KeychainError + KeychainGrant" where
  "usable_grant k t grantId scope =
     (case dm_get (ks_grants k) grantId of
        None \<Rightarrow> Inl (kc_error 404 ''unknown grant'')
      | Some grant \<Rightarrow> (case grant_error grant t scope of Some e \<Rightarrow> Inl e | None \<Rightarrow> Inr grant))"

definition granted_credential :: "keychain \<Rightarrow> KeychainGrant \<Rightarrow> KeychainError + KeychainCredential" where
  "granted_credential k grant =
     (case dm_get (ks_creds k) (kg_credentialId grant) of
        None \<Rightarrow> Inl (kc_error 404 ''credential no longer exists'')
      | Some cred \<Rightarrow>
          if kc_kind cred = kind_broker
          then Inl (kc_error 403 ''broker credentials are not grantable - they are used via the credential broker'')
          else Inr cred)"

text \<open>The material of a credential: a connector's token, or what the record holds unless it has expired.\<close>

definition material ::
  "vault \<Rightarrow> remote \<Rightarrow> keychain \<Rightarrow> int \<Rightarrow> KeychainCredential \<Rightarrow> (string \<times> string) option \<Rightarrow> keychain \<times> (KeychainError + MaterializedCred)" where
  "material V R k t cred extra =
     (if kc_managed cred then materializeConnectorEnv V R k t cred extra
      else if credExpired cred t then (k, Inl (kc_error 410 ''credential is expired''))
      else (k, materializeDecrypted V cred extra))"

text \<open>\<open>materialize\<close> reads the grant, then the credential, refreshes a connector's token over the network, and claims a
  one-time grant; other requests run between these accesses. \<open>seen j\<close> is the keychain as the \<open>j\<close>-th access finds it and
  \<open>now j\<close> the clock there. The result comes with the keychain after each of its own writes, the refresh and the claim.\<close>

definition materialize ::
  "vault \<Rightarrow> remote \<Rightarrow> (nat \<Rightarrow> keychain) \<Rightarrow> (nat \<Rightarrow> int) \<Rightarrow> string \<Rightarrow> ScopeId \<Rightarrow> string \<Rightarrow>
     keychain list \<times> (KeychainError + MaterializedCred)" where
  "materialize V R seen now grantId scope usedBy =
     (case usable_grant (seen 0) (now 0) grantId scope of
        Inl e \<Rightarrow> ([], Inl e)
      | Inr grant \<Rightarrow>
          (case granted_credential (seen 1) grant of
             Inl e \<Rightarrow> ([], Inl e)
           | Inr cred \<Rightarrow>
               (case material V R (seen 2) (now 2) cred (Some (kg_id grant, kg_purpose grant)) of
                  (k1, Inl e) \<Rightarrow> ([k1], Inl e)
                | (k1, Inr m) \<Rightarrow>
                    (case claimOnceGrant (seen 3) (now 3) grant scope usedBy of
                       (k2, Some e) \<Rightarrow> ([k1, k2], Inl e)
                     | (k2, None) \<Rightarrow> ([k1, k2], Inr m)))))"

definition materializeOwnById ::
  "vault \<Rightarrow> remote \<Rightarrow> keychain \<Rightarrow> int \<Rightarrow> string \<Rightarrow> string \<Rightarrow> ScopeId \<Rightarrow> keychain \<times> (KeychainError + MaterializedCred)" where
  "materializeOwnById V R k t ownerId credentialId scope =
     (if scope \<noteq> personalScope ownerId
      then (k, Inl (kc_error 403 ''a credential id loads only in its owner's own personal conversation - anywhere else needs a grant from the owner''))
      else case getOwned k ownerId credentialId of
        None \<Rightarrow> (k, Inl (kc_error 404 ''unknown credential''))
      | Some cred \<Rightarrow>
          if kc_kind cred = kind_broker
          then (k, Inl (kc_error 403 ''broker credentials are used via the credential broker, never materialized''))
          else material V R k t cred None)"

definition materializeOwn :: "vault \<Rightarrow> keychain \<Rightarrow> int \<Rightarrow> string \<Rightarrow> MaterializedEnvCred list" where
  "materializeOwn V k t ownerId =
     List.map_filter (decryptToEnv V None)
       (filter (\<lambda>c. samePersonId (kc_ownerId c) ownerId \<and> kc_kind c = kind_env \<and> \<not> kc_managed c \<and> \<not> expired_at (kc_expiresAt c) t)
          (select_owned k [ownerId]))"

definition materializeOwnFiles :: "vault \<Rightarrow> keychain \<Rightarrow> string \<Rightarrow> MaterializedFileCred list" where
  "materializeOwnFiles V k ownerId =
     List.map_filter (decryptToFiles V None)
       (filter (\<lambda>c. samePersonId (kc_ownerId c) ownerId \<and> kc_kind c = kind_file \<and> \<not> kc_managed c) (select_owned k [ownerId]))"

text \<open>\<open>materializeStanding\<close> goes through a snapshot of the grants. For each it reads the credential, on the keychain \<open>k\<close>, and
  may refresh a connector's token, on the keychain \<open>k'\<close>; again the result comes with the keychain after the write.\<close>

definition standing_one ::
  "vault \<Rightarrow> remote \<Rightarrow> keychain \<Rightarrow> keychain \<Rightarrow> int \<Rightarrow> KeychainGrant \<Rightarrow> keychain list \<times> MaterializedEnvCred option" where
  "standing_one V R k k' t grant =
     (if kg_mode grant \<noteq> mode_standing then ([], None)
      else case dm_get (ks_creds k) (kg_credentialId grant) of
        None \<Rightarrow> ([], None)
      | Some cred \<Rightarrow>
          let extra = Some (kg_id grant, kg_purpose grant) in
          if kc_kind cred \<noteq> kind_env then ([], None)
          else if kc_managed cred
          then case (if truthy (kc_host cred) then connectorTokenForRecord V R k' t cred else (k', None)) of
              (k1, value) \<Rightarrow> ([k1], if truthy value \<and> truthy (kc_host cred) then Some (connector_env cred (the value) extra) else None)
          else if credExpired cred t then ([], None)
          else ([], decryptToEnv V extra cred))"

fun standing_all ::
  "vault \<Rightarrow> remote \<Rightarrow> (nat \<Rightarrow> keychain) \<Rightarrow> (nat \<Rightarrow> int) \<Rightarrow> nat \<Rightarrow> KeychainGrant list \<Rightarrow> keychain list \<times> MaterializedEnvCred list" where
  "standing_all V R seen now n [] = ([], [])"
| "standing_all V R seen now n (g # gs) =
     (case standing_one V R (seen n) (seen (n + 1)) (now (n + 1)) g of (ks, m) \<Rightarrow>
        (case standing_all V R seen now (n + 2) gs of
           (ks', ms) \<Rightarrow> (ks @ ks', (case m of None \<Rightarrow> ms | Some x \<Rightarrow> x # ms))))"

definition materializeStanding ::
  "vault \<Rightarrow> remote \<Rightarrow> (nat \<Rightarrow> keychain) \<Rightarrow> (nat \<Rightarrow> int) \<Rightarrow> ScopeId \<Rightarrow> keychain list \<times> MaterializedEnvCred list" where
  "materializeStanding V R seen now scope = standing_all V R seen now 1 (activeGrantsFor (seen 0) (now 0) scope)"

end
