(* ===== verification/Keychain_Properties.thy ===== *)
theory Keychain_Properties
  imports Keychain_Tokens
begin

text \<open>
  What the keychain promises. The steps are its operations, each run alone, and the single writes its operations consist of:
  a request that waits between its accesses is a sequence of these writes with the steps of others in between, each built
  from what the request read before. A log beside the maps records who minted a grant, when it was revoked and when a
  one-time grant was claimed. A function \<open>own\<close> gives each credential id its owner: it says that the truncated hashes of
  the ids in use do not collide across owners.
\<close>

section \<open>The log\<close>

datatype kc_event =
    ev_mint string string ScopeId GrantMode string
  | ev_revoke string
  | ev_use string

text \<open>The last minting of a grant id (credential, conversation, mode, person), and what was logged after it.\<close>

fun last_mint :: "kc_event list \<Rightarrow> string \<Rightarrow> (string \<times> ScopeId \<times> GrantMode \<times> string) option" where
  "last_mint [] g = None"
| "last_mint (ev_mint g' c s m p # l) g = (if g' = g then Some (c, s, m, p) else last_mint l g)"
| "last_mint (e # l) g = last_mint l g"

fun since_mint :: "kc_event list \<Rightarrow> string \<Rightarrow> kc_event list" where
  "since_mint [] g = []"
| "since_mint (ev_mint g' c s m p # l) g = (if g' = g then [] else ev_mint g' c s m p # since_mint l g)"
| "since_mint (e # l) g = e # since_mint l g"

definition minted :: "string \<Rightarrow> KeychainGrant \<Rightarrow> kc_event" where
  "minted p g = ev_mint (kg_id g) (kg_credentialId g) (kg_audienceScopeId g) (kg_mode g) p"

section \<open>The steps\<close>

definition refresh_id :: "vault \<Rightarrow> KeychainCredential \<Rightarrow> string" where
  "refresh_id V c = oauthId V (nullish (kc_host c) []) (kc_ownerId c) (Option.bind (kc_refresh c) rf_accountType)"

inductive kc_step :: "vault \<Rightarrow> (string \<Rightarrow> string) \<Rightarrow> keychain \<times> kc_event list \<Rightarrow> keychain \<times> kc_event list \<Rightarrow> bool"
  for V own where
  step_save: "save_plan_of V i = Inr p \<Longrightarrow> own (sp_id p) = sc_ownerId i \<Longrightarrow> kc_step V own (k, l) (fst (saveCredential V k t i), l)"
| step_capture: "kc_step V own (k, l) (fst (setCapturePaths V k t ownerId service paths expected), l)"
| step_revoke_write: "kc_step V own (k, l) (revoke_write t g k, ev_revoke g # l)"
| step_delete_write: "kc_step V own (k, l) (delete_write i k, l)"
| step_cred_write: "own (kc_id c) = kc_ownerId c \<Longrightarrow> kc_step V own (k, l) (k\<lparr>ks_creds := dm_put (ks_creds k) (kc_id c) c\<rparr>, l)"
| step_asks_write: "kc_step V own (k, l) (k\<lparr>ks_asks := asks\<rparr>, l)"
| step_mint_write: "checked_grant V t gi (Some cred) = Inr g \<Longrightarrow> own (kc_id cred) = kc_ownerId cred \<Longrightarrow>
    kc_step V own (k, l) (write_grant g k, minted (gi_ownerId gi) g # l)"
| step_answer_write: "kc_step V own (k, l) (k\<lparr>ks_grants := fst (dm_merge (ks_grants k) i (\<lambda>g. g\<lparr>kg_askId := Some a\<rparr>))\<rparr>, l)"
| step_mint: "mintGrant V k t gi = (k', Inr g) \<Longrightarrow> kc_step V own (k, l) (k', minted (gi_ownerId gi) g # l)"
| step_connector_grant: "grantConnectorToScope V k t host person account scope purpose = (k', Inr (Some g)) \<Longrightarrow> k' \<noteq> k \<Longrightarrow>
    kc_step V own (k, l) (k', minted person g # l)"
| step_revoke: "revokeGrant k t ownerId g = (k', True) \<Longrightarrow> k' \<noteq> k \<Longrightarrow> kc_step V own (k, l) (k', ev_revoke g # l)"
| step_ask: "kc_step V own (k, l) (fst (createAsk V k t new ai), l)"
| step_get_ask: "kc_step V own (k, l) (fst (getAsk k t a), l)"
| step_list_asks: "kc_step V own (k, l) (fst (listAsks k t requester ownerIdo scopeo), l)"
| step_approve: "approveAsk V k t ap = (k', Inr (a, g)) \<Longrightarrow> kc_step V own (k, l) (k', minted (pi_ownerId ap) g # l)"
| step_approve_error: "approveAsk V k t ap = (k', Inl e) \<Longrightarrow> kc_step V own (k, l) (k', l)"
| step_decline: "kc_step V own (k, l) (fst (declineAsk k t a ownerId n), l)"
| step_unnotified: "kc_step V own (k, l) (fst (unnotifiedResolvedAsks k t), l)"
| step_notified: "kc_step V own (k, l) (markAskNotified k t a, l)"
| step_resolve: "kc_step V own (k, l) (fst (resolveAsksForGrant k t grant), l)"
| step_service: "own (brokerId V osc (si_slug si)) = osc \<Longrightarrow> kc_step V own (k, l) (fst (setServiceCredential V k t osc si), l)"
| step_service_absent: "own (brokerId V osc (si_slug si)) = osc \<Longrightarrow>
    kc_step V own (k, l) (fst (setServiceCredentialIfAbsent V k t osc si), l)"
| step_service_current: "own (brokerId V osc (si_slug si)) = osc \<Longrightarrow>
    kc_step V own (k, l) (fst (setServiceCredentialIfCurrent V k t osc si expectedAt), l)"
| step_service_delete: "kc_step V own (k, l) (deleteServiceCredential V k osc slug, l)"
| step_service_delete_current: "kc_step V own (k, l) (fst (deleteServiceCredentialIfCurrent V k osc slug expectedAt), l)"
| step_token: "own (oauthId V host person account) = person \<Longrightarrow>
    kc_step V own (k, l) (setConnectorToken V k t host person token account, l)"
| step_refresh_finish: "own (oauthId V host person account) = person \<Longrightarrow>
    kc_step V own (k, l) (fst (refresh_finish V k t host person account rec stored result), l)"
| step_material: "own (refresh_id V cred) = kc_ownerId cred \<Longrightarrow> kc_step V own (k, l) (fst (material V R k t cred extra), l)"
| step_claim: "claimOnceGrant k t grant scope usedBy = (k', None) \<Longrightarrow> kg_mode grant = mode_once \<Longrightarrow>
    kc_step V own (k, l) (k', ev_use (kg_id grant) # l)"

definition empty_keychain :: keychain where
  "empty_keychain = \<lparr>ks_creds = [], ks_grants = [], ks_asks = []\<rparr>"

definition kc_reach :: "vault \<Rightarrow> (string \<Rightarrow> string) \<Rightarrow> keychain \<Rightarrow> kc_event list \<Rightarrow> bool" where
  "kc_reach V own k l \<longleftrightarrow> (kc_step V own)\<^sup>*\<^sup>* (empty_keychain, []) (k, l)"

section \<open>The invariant\<close>

definition creds_ok :: "(string \<Rightarrow> string) \<Rightarrow> KeychainCredential jsmap \<Rightarrow> bool" where
  "creds_ok own cs \<longleftrightarrow> (\<forall>i c. dm_get cs i = Some c \<longrightarrow> kc_id c = i \<and> own i = kc_ownerId c)"

definition unspent :: "kc_event list \<Rightarrow> KeychainGrant \<Rightarrow> bool" where
  "unspent l r \<longleftrightarrow> (kg_status r = grant_active \<longrightarrow> ev_revoke (kg_id r) \<notin> set (since_mint l (kg_id r))) \<and>
     (kg_mode r = mode_once \<longrightarrow>
        count_list (since_mint l (kg_id r)) (ev_use (kg_id r)) \<le> (if kg_status r = grant_active then 0 else 1))"

fun grant_logged :: "(string \<Rightarrow> string) \<Rightarrow> kc_event list \<Rightarrow> string \<Rightarrow> KeychainGrant option \<Rightarrow> bool" where
  "grant_logged own l g None = (last_mint l g = None)"
| "grant_logged own l g (Some r) =
     (kg_id r = g \<and> unspent l r \<and>
      (\<exists>p. last_mint l g = Some (kg_credentialId r, kg_audienceScopeId r, kg_mode r, p) \<and> samePersonId (own (kg_credentialId r)) p))"

definition grants_ok :: "(string \<Rightarrow> string) \<Rightarrow> kc_event list \<Rightarrow> KeychainGrant jsmap \<Rightarrow> bool" where
  "grants_ok own l gs \<longleftrightarrow> distinct (keys gs) \<and> (\<forall>g. grant_logged own l g (dm_get gs g))"

definition kc_inv :: "(string \<Rightarrow> string) \<Rightarrow> keychain \<times> kc_event list \<Rightarrow> bool" where
  "kc_inv own s \<longleftrightarrow> creds_ok own (ks_creds (fst s)) \<and> grants_ok own (snd s) (ks_grants (fst s))"

subsection \<open>Credentials\<close>

lemma creds_okD: "creds_ok own cs \<Longrightarrow> dm_get cs i = Some c \<Longrightarrow> kc_id c = i \<and> own i = kc_ownerId c"
  by (simp add: creds_ok_def)

lemma creds_ok_put: "creds_ok own cs \<Longrightarrow> kc_id c = i \<Longrightarrow> own i = kc_ownerId c \<Longrightarrow> creds_ok own (dm_put cs i c)"
  by (simp add: creds_ok_def dm.get_put)

lemma creds_ok_delete: "creds_ok own cs \<Longrightarrow> creds_ok own (dm_delete cs i)"
  by (simp add: creds_ok_def dm.get_del)

lemma creds_ok_insert: "creds_ok own cs \<Longrightarrow> kc_id c = i \<Longrightarrow> own i = kc_ownerId c \<Longrightarrow> creds_ok own (fst (dm_insertIfAbsent cs i c))"
  by (auto simp: creds_ok_def dm_defs split: option.splits)

lemma creds_ok_deleteIf: "creds_ok own cs \<Longrightarrow> creds_ok own (fst (dm_deleteIf cs i p))"
  by (auto simp: creds_ok_def dm_defs split: option.splits)

lemma creds_ok_merge:
  "creds_ok own cs \<Longrightarrow> (\<And>c. kc_id (f c) = kc_id c \<and> kc_ownerId (f c) = kc_ownerId c) \<Longrightarrow> creds_ok own (fst (dm_merge cs i f))"
  by (auto simp: creds_ok_def dm_defs split: option.splits)

lemma creds_ok_update:
  assumes "creds_ok own cs" "\<And>c c'. dm_get cs i = Some c \<Longrightarrow> f c = Inr c' \<Longrightarrow> kc_id c' = i \<and> own i = kc_ownerId c'"
  shows "creds_ok own (fst (dm_update cs i f))"
proof (cases "dm_get cs i")
  case (Some c)
  show ?thesis
  proof (cases "f c")
    case (Inr c')
    from assms(2)[OF Some Inr] creds_okD[OF assms(1)] show ?thesis
      by (simp add: creds_ok_def dm.get_update[where f = f, OF Some Inr])
  qed (simp add: dm.update_throw[OF Some] assms(1))
qed (simp add: dm.update_None assms(1))

lemmas creds_ok_ops = creds_ok_put creds_ok_delete creds_ok_insert creds_ok_deleteIf creds_ok_merge

lemma buildRec_ids [simp]: "kc_id (buildRec V t i p prior) = sp_id p" "kc_ownerId (buildRec V t i p prior) = sc_ownerId i"
  by (simp_all add: buildRec_def)

lemma guarded_recD: "guarded_rec V t i p e prior = Inr c \<Longrightarrow> c = buildRec V t i p (Some prior)"
  by (simp add: guarded_rec_def split: if_splits)

lemma save_attempts_creds:
  assumes "creds_ok own (ks_creds k)" "own (sp_id p) = sc_ownerId i"
  shows "creds_ok own (ks_creds (fst (save_attempts n V k t i p e)))"
proof (induction n)
  case (Suc n)
  have "creds_ok own (fst (dm_update (ks_creds k) (sp_id p) (guarded_rec V t i p e)))"
    by (rule creds_ok_update[OF assms(1)]) (auto dest!: guarded_recD simp: assms(2))
  moreover have "creds_ok own (fst (dm_insertIfAbsent (ks_creds k) (sp_id p) (buildRec V t i p None)))"
    by (rule creds_ok_insert[OF assms(1)]) (simp_all add: assms(2))
  ultimately show ?case using Suc assms(1)
    by (auto simp: Let_def split: prod.splits sum.splits option.splits bool.splits)
qed (simp add: assms(1))

lemma save_attempts_frame [simp]:
  "ks_grants (fst (save_attempts n V k t i p e)) = ks_grants k" "ks_asks (fst (save_attempts n V k t i p e)) = ks_asks k"
  by (induction n) (auto simp: Let_def split: prod.splits sum.splits option.splits bool.splits)

lemma saveCredential_creds:
  assumes "creds_ok own (ks_creds k)" "save_plan_of V i = Inr p" "own (sp_id p) = sc_ownerId i"
  shows "creds_ok own (ks_creds (fst (saveCredential V k t i)))"
  using creds_ok_put[OF assms(1), of "buildRec V t i p (dm_get (ks_creds k) (sp_id p))" "sp_id p"] assms
    save_attempts_creds[OF assms(1,3)]
  by (auto simp: saveCredential_def Let_def split: option.splits)

lemma saveCredential_frame [simp]: "ks_grants (fst (saveCredential V k t i)) = ks_grants k"
  by (auto simp: saveCredential_def Let_def split: sum.splits option.splits)

lemma setCapturePaths_creds:
  assumes "creds_ok own (ks_creds k)"
  shows "creds_ok own (ks_creds (fst (setCapturePaths V k t ownerId service paths e)))"
proof -
  let ?f = "\<lambda>rec. if kc_origin rec \<noteq> Some e
             then Inl (kc_error 409 (''credential for '' @ service @ '' was not created by a login capture - not updated''))
             else Inr (rec\<lparr>kc_capturePaths := Some paths, kc_updatedAt := t\<rparr>)"
  have "creds_ok own (fst (dm_update (ks_creds k) (credId V ownerId service ''file'') ?f))"
    by (rule creds_ok_update[OF assms]) (auto dest: creds_okD[OF assms] split: if_splits)
  then show ?thesis using assms by (auto simp: setCapturePaths_def split: prod.splits sum.splits)
qed

lemma setCapturePaths_frame [simp]: "ks_grants (fst (setCapturePaths V k t ownerId service paths e)) = ks_grants k"
  by (auto simp: setCapturePaths_def split: prod.splits sum.splits)

lemma serviceCredentialRecord_ids:
  "serviceCredentialRecord V t osc si prior = Inr c \<Longrightarrow> kc_id c = brokerId V osc (si_slug si) \<and> kc_ownerId c = osc \<and> kc_kind c = kind_broker"
  by (auto simp: serviceCredentialRecord_def Let_def split: option.splits if_splits)

lemma service_creds:
  assumes ok: "creds_ok own (ks_creds k)" and own: "own (brokerId V osc (si_slug si)) = osc"
  shows "creds_ok own (ks_creds (fst (setServiceCredential V k t osc si)))"
    and "creds_ok own (ks_creds (fst (setServiceCredentialIfAbsent V k t osc si)))"
    and "creds_ok own (ks_creds (fst (setServiceCredentialIfCurrent V k t osc si e)))"
proof -
  note ids = serviceCredentialRecord_ids
  show "creds_ok own (ks_creds (fst (setServiceCredential V k t osc si)))"
    using ok own by (auto simp: setServiceCredential_def dest!: ids intro!: creds_ok_put split: sum.splits)
  show "creds_ok own (ks_creds (fst (setServiceCredentialIfAbsent V k t osc si)))"
  proof (cases "serviceCredentialRecord V t osc si None")
    case (Inr rec)
    from creds_ok_insert[OF ok, of rec "kc_id rec"] ids[OF Inr] own
    have "creds_ok own (fst (dm_insertIfAbsent (ks_creds k) (kc_id rec) rec))" by simp
    then show ?thesis by (simp add: setServiceCredentialIfAbsent_def Inr case_prod_beta)
  qed (simp add: setServiceCredentialIfAbsent_def ok)
  let ?f = "\<lambda>prior. if \<not> service_current osc e prior then Inr prior else serviceCredentialRecord V t osc si (Some prior)"
  have "creds_ok own (fst (dm_update (ks_creds k) (brokerId V osc (si_slug si)) ?f))"
    by (rule creds_ok_update[OF ok]) (auto dest: creds_okD[OF ok] ids simp: own split: if_splits)
  then show "creds_ok own (ks_creds (fst (setServiceCredentialIfCurrent V k t osc si e)))"
    using ok by (auto simp: setServiceCredentialIfCurrent_def Let_def split: prod.splits sum.splits)
qed

lemma service_frame [simp]:
  "ks_grants (fst (setServiceCredential V k t osc si)) = ks_grants k"
  "ks_grants (fst (setServiceCredentialIfAbsent V k t osc si)) = ks_grants k"
  "ks_grants (fst (setServiceCredentialIfCurrent V k t osc si e)) = ks_grants k"
  "ks_grants (deleteServiceCredential V k osc slug) = ks_grants k"
  "ks_grants (fst (deleteServiceCredentialIfCurrent V k osc slug e)) = ks_grants k"
  by (auto simp: setServiceCredential_def setServiceCredentialIfAbsent_def setServiceCredentialIfCurrent_def
      deleteServiceCredential_def deleteServiceCredentialIfCurrent_def Let_def split: sum.splits prod.splits)

lemma service_delete_creds:
  assumes "creds_ok own (ks_creds k)"
  shows "creds_ok own (ks_creds (deleteServiceCredential V k osc slug))"
    and "creds_ok own (ks_creds (fst (deleteServiceCredentialIfCurrent V k osc slug e)))"
  using creds_ok_deleteIf[OF assms, of "brokerId V osc slug" "service_current osc e"] creds_ok_delete[OF assms]
  by (auto simp: deleteServiceCredential_def deleteServiceCredentialIfCurrent_def split: prod.splits)

lemma setConnectorToken_creds:
  "creds_ok own (ks_creds k) \<Longrightarrow> own (oauthId V host person account) = person \<Longrightarrow>
   creds_ok own (ks_creds (setConnectorToken V k t host person token account))"
  by (auto simp: setConnectorToken_def putConnectorToken_def token_record_def Let_def intro!: creds_ok_put)

lemma setConnectorToken_frame [simp]: "ks_grants (setConnectorToken V k t host person token account) = ks_grants k"
  by (simp add: setConnectorToken_def putConnectorToken_def Let_def)

lemma markFailure_creds:
  "creds_ok own (ks_creds k) \<Longrightarrow> creds_ok own (ks_creds (markConnectorRefreshFailure k t rec msg))"
  by (auto simp: markConnectorRefreshFailure_def intro!: creds_ok_merge split: option.splits)

lemma markFailure_frame [simp]: "ks_grants (markConnectorRefreshFailure k t rec msg) = ks_grants k"
  by (auto simp: markConnectorRefreshFailure_def split: option.splits)

lemma refresh_finish_creds:
  "creds_ok own (ks_creds k) \<Longrightarrow> own (oauthId V host person account) = person \<Longrightarrow>
   creds_ok own (ks_creds (fst (refresh_finish V k t host person account rec stored result)))"
  by (auto simp: refresh_finish_def markFailure_creds setConnectorToken_creds split: sum.splits option.splits)

lemma refresh_finish_frame [simp]: "ks_grants (fst (refresh_finish V k t host person account rec stored result)) = ks_grants k"
  by (auto simp: refresh_finish_def split: sum.splits option.splits)

lemma refreshable_hostD: "refreshable_host V rec = Some h \<Longrightarrow> kc_host rec = Some h"
  by (auto simp: refreshable_host_def split: if_splits)

lemma token_for_record_creds:
  assumes "creds_ok own (ks_creds k)" "own (refresh_id V rec) = kc_ownerId rec"
  shows "creds_ok own (ks_creds (fst (connectorTokenForRecord V R k t rec)))"
  using assms refresh_finish_creds[OF assms(1), where host = "nullish (kc_host rec) []"]
  by (auto simp: connectorTokenForRecord_def refreshAndStore_def refresh_id_def dest: refreshable_hostD
      split: prod.splits option.splits)

lemma token_for_record_frame [simp]: "ks_grants (fst (connectorTokenForRecord V R k t rec)) = ks_grants k"
  by (auto simp: connectorTokenForRecord_def refreshAndStore_def split: prod.splits option.splits)

lemma material_creds:
  assumes "creds_ok own (ks_creds k)" "own (refresh_id V cred) = kc_ownerId cred"
  shows "creds_ok own (ks_creds (fst (material V R k t cred extra)))"
  using assms token_for_record_creds[OF assms, of R t]
  by (auto simp: material_def materializeConnectorEnv_def split: prod.splits if_splits)

lemma material_frame [simp]: "ks_grants (fst (material V R k t cred extra)) = ks_grants k"
  using token_for_record_frame[of V R k t cred]
  by (auto simp: material_def materializeConnectorEnv_def simp del: token_for_record_frame split: prod.splits if_splits)

subsection \<open>Grants and the log\<close>

lemma log_revokes [simp]:
  "last_mint (map (\<lambda>x. ev_revoke (f x)) xs @ l) g = last_mint l g"
  "since_mint (map (\<lambda>x. ev_revoke (f x)) xs @ l) g = map (\<lambda>x. ev_revoke (f x)) xs @ since_mint l g"
  by (induction xs) simp_all

lemma log_minted [simp]:
  "last_mint (minted p r # l) g =
     (if g = kg_id r then Some (kg_credentialId r, kg_audienceScopeId r, kg_mode r, p) else last_mint l g)"
  "since_mint (minted p r # l) (kg_id r) = []"
  "g \<noteq> kg_id r \<Longrightarrow> since_mint (minted p r # l) g = minted p r # since_mint l g"
  by (simp_all add: minted_def)

lemma minted_not [simp]: "ev_revoke g \<noteq> minted p r" "ev_use g \<noteq> minted p r" "minted p r \<noteq> ev_revoke g" "minted p r \<noteq> ev_use g"
  by (simp_all add: minted_def)

lemma grants_okI:
  "distinct (keys gs) \<Longrightarrow> (\<And>g. grant_logged own l g (dm_get gs g)) \<Longrightarrow> grants_ok own l gs"
  by (simp add: grants_ok_def)

lemma grants_okD:
  assumes "grants_ok own l gs"
  shows "distinct (keys gs)" and "grant_logged own l g (dm_get gs g)"
  using assms by (simp_all add: grants_ok_def)

lemma grants_ok_id: "grants_ok own l gs \<Longrightarrow> dm_get gs g = Some r \<Longrightarrow> kg_id r = g"
  using grants_okD(2)[of own l gs g] by simp

lemma grants_ok_unspent: "grants_ok own l gs \<Longrightarrow> dm_get gs g = Some r \<Longrightarrow> unspent l r"
  using grants_okD(2)[of own l gs g] by simp

text \<open>What a log entry about other grants leaves alone.\<close>

lemma grant_logged_minted_other:
  "g \<noteq> kg_id r \<Longrightarrow> grant_logged own l g o1 \<Longrightarrow> grant_logged own (minted p r # l) g o1"
  by (cases o1) (auto simp: unspent_def)

lemma grant_logged_use_other: "g \<noteq> g' \<Longrightarrow> grant_logged own l g o1 \<Longrightarrow> grant_logged own (ev_use g' # l) g o1"
  by (cases o1) (auto simp: unspent_def)

lemma grant_logged_revoke_other: "g \<noteq> g' \<Longrightarrow> grant_logged own l g o1 \<Longrightarrow> grant_logged own (ev_revoke g' # l) g o1"
  by (cases o1) (auto simp: unspent_def)

text \<open>Minting: the grant is new in the log, and its person is the owner's.\<close>

lemma grants_ok_minted:
  assumes ok: "grants_ok own l gs" and act: "kg_status r = grant_active" and p: "samePersonId (own (kg_credentialId r)) p"
  shows "grants_ok own (minted p r # l) (dm_put gs (kg_id r) r)"
proof (rule grants_okI)
  show "distinct (keys (dm_put gs (kg_id r) r))" using grants_okD(1)[OF ok] by (simp add: dm_put_def)
  fix g
  show "grant_logged own (minted p r # l) g (dm_get (dm_put gs (kg_id r) r) g)"
    using grants_okD(2)[OF ok, of g] act p
    by (cases "g = kg_id r") (auto simp: dm.get_put unspent_def intro: grant_logged_minted_other)
qed

text \<open>A change of one grant that keeps what the log is about, after an entry for it.\<close>

lemma grants_ok_changed:
  assumes ok: "grants_ok own l gs" and g: "dm_get gs g = Some r"
    and same: "kg_id r' = kg_id r" "kg_credentialId r' = kg_credentialId r" "kg_audienceScopeId r' = kg_audienceScopeId r" "kg_mode r' = kg_mode r"
    and log: "\<And>j o1. j \<noteq> g \<Longrightarrow> grant_logged own l j o1 \<Longrightarrow> grant_logged own l' j o1" "last_mint l' g = last_mint l g"
    and un: "unspent l' r'"
  shows "grants_ok own l' (AList.update g r' gs)"
proof (rule grants_okI)
  show "distinct (keys (AList.update g r' gs))" using grants_okD(1)[OF ok] by simp
  fix j
  show "grant_logged own l' j (dm_get (AList.update g r' gs) j)"
    using grants_okD(2)[OF ok, of j] g same log un by (cases "j = g") (auto simp: dm_get_def)
qed

lemma dm_merge_fst: "fst (dm_merge m i f) = (case dm_get m i of None \<Rightarrow> m | Some v \<Rightarrow> AList.update i (f v) m)"
  by (simp add: dm_defs split: option.splits)

lemma grants_ok_askId:
  assumes "grants_ok own l gs"
  shows "grants_ok own l (fst (dm_merge gs i (\<lambda>g. g\<lparr>kg_askId := Some a\<rparr>)))"
proof (cases "dm_get gs i")
  case (Some r)
  have "unspent l (r\<lparr>kg_askId := Some a\<rparr>)" using grants_ok_unspent[OF assms Some] by (simp add: unspent_def)
  then show ?thesis using grants_ok_changed[OF assms Some, of "r\<lparr>kg_askId := Some a\<rparr>" l] by (simp add: dm_merge_fst Some)
qed (simp add: dm_merge_fst assms)

lemma grants_ok_revoked:
  assumes ok: "grants_ok own l gs" and g: "dm_get gs g = Some r"
  shows "grants_ok own (ev_revoke g # l) (fst (dm_merge gs g (revoke_patch t)))"
proof -
  have un: "unspent (ev_revoke g # l) (revoke_patch t r)" using grants_ok_unspent[OF ok g] grants_ok_id[OF ok g]
    by (auto simp: unspent_def revoke_patch_def split: if_splits)
  from grants_ok_changed[OF ok g _ _ _ _ grant_logged_revoke_other _ un] show ?thesis
    by (simp add: dm_merge_fst g revoke_patch_def)
qed

lemma grants_ok_used:
  assumes ok: "grants_ok own l gs" and g: "dm_get gs g = Some r" and u: "use_grant t scope who r = Inr r'"
  shows "grants_ok own (ev_use g # l) (AList.update g r' gs)"
proof -
  have r': "r' = r\<lparr>kg_status := grant_used, kg_usedAt := Some t, kg_usedBy := Some who\<rparr>" and act: "kg_status r = grant_active"
    using u by (auto simp: use_grant_def grant_error_def split: if_splits option.splits intro: GrantStatus.exhaust)
  have un: "unspent (ev_use g # l) r'" using grants_ok_unspent[OF ok g] grants_ok_id[OF ok g] act
    by (simp add: unspent_def r')
  from grants_ok_changed[OF ok g _ _ _ _ grant_logged_use_other _ un] show ?thesis by (simp add: r')
qed

lemma get_merge: "dm_get (fst (dm_merge m i f)) j = (if j = i then map_option f (dm_get m j) else dm_get m j)"
  by (simp add: dm_defs split: option.splits)

lemma dm_all_get:
  assumes "distinct (keys m)" "v \<in> set (dm_all m)"
  obtains i where "dm_get m i = Some v"
  using assms by (auto simp: dm_all_def dm_entries_def dm_get_def)

lemma grants_ok_all: "grants_ok own l gs \<Longrightarrow> g \<in> set (dm_all gs) \<Longrightarrow> dm_get gs (kg_id g) = Some g"
  by (metis dm_all_get grants_okD(1) grants_ok_id)

lemma grants_ok_revoke_write:
  assumes ok: "grants_ok own l (ks_grants k)"
  shows "grants_ok own (ev_revoke g # l) (ks_grants (revoke_write t g k))"
proof (cases "dm_get (ks_grants k) g")
  case None
  with grants_okD[OF ok] show ?thesis
    by (auto simp: revoke_write_def dm_merge_fst intro!: grants_okI)
       (metis grant_logged.simps(1) grant_logged_revoke_other last_mint.simps(3))
next
  case (Some r)
  from grants_ok_revoked[OF ok Some] show ?thesis by (simp add: revoke_write_def)
qed

subsection \<open>Asks\<close>

text \<open>Requests about asks leave the credentials alone, and of a grant change at most the ask it answers.\<close>

lemma freshAsk_frame [simp]: "ks_grants (fst (freshAsk k t rec)) = ks_grants k" "ks_creds (fst (freshAsk k t rec)) = ks_creds k"
  by (simp_all add: freshAsk_def)

lemma pending_ask_frame [simp]:
  "ks_grants (fst (pending_ask k t c s rs)) = ks_grants k" "ks_creds (fst (pending_ask k t c s rs)) = ks_creds k"
proof (induction rs arbitrary: k)
  case (Cons rec rs)
  { case 1 show ?case using Cons freshAsk_frame[of k t rec] by (auto simp del: freshAsk_frame split: prod.splits) }
  { case 2 show ?case using Cons freshAsk_frame[of k t rec] by (auto simp del: freshAsk_frame split: prod.splits) }
qed simp_all

definition ask_frame :: "(string \<Rightarrow> string) \<Rightarrow> kc_event list \<Rightarrow> keychain \<Rightarrow> keychain \<Rightarrow> bool" where
  "ask_frame own l k k' \<longleftrightarrow> ks_creds k' = ks_creds k \<and> (grants_ok own l (ks_grants k) \<longrightarrow> grants_ok own l (ks_grants k'))"

lemma ask_frameI [intro]: "ks_creds k' = ks_creds k \<Longrightarrow> ks_grants k' = ks_grants k \<Longrightarrow> ask_frame own l k k'"
  by (simp add: ask_frame_def)

lemma each_ask_frame:
  assumes "\<And>a k out. ask_frame own l k (fst (body a (k, out)))"
  shows "ask_frame own l k (fst (each_ask body t rs (k, out)))"
proof (induction rs arbitrary: k out)
  case (Cons rec rs)
  obtain k1 a where f: "freshAsk k t rec = (k1, a)" by (cases "freshAsk k t rec")
  obtain k2 out2 where b: "body a (k1, out) = (k2, out2)" by (cases "body a (k1, out)")
  have "ask_frame own l k k1" using freshAsk_frame[of k t rec] by (auto simp: f)
  with assms[of k1 a out] Cons.IH[of k2 out2] show ?case by (simp add: ask_frame_def f b)
qed (simp add: ask_frame_def)

lemma asks_frame:
  "ask_frame own l k (fst (createAsk V k t new ai))"
  "ask_frame own l k (fst (getAsk k t a))"
  "ask_frame own l k (fst (listAsks k t r0 o0 s0))"
  "ask_frame own l k (fst (declineAsk k t a ownerId n))"
  "ask_frame own l k (fst (unnotifiedResolvedAsks k t))"
  "ask_frame own l k (markAskNotified k t a)"
  "ask_frame own l k (fst (resolveAsksForGrant k t grant))"
proof -
  show "ask_frame own l k (fst (createAsk V k t new ai))"
    by (auto simp: createAsk_def Let_def case_prod_beta split: option.splits)
  show "ask_frame own l k (fst (getAsk k t a))" by (auto simp: getAsk_def split: option.splits)
  show "ask_frame own l k (fst (listAsks k t r0 o0 s0))"
    unfolding listAsks_def fst_map_prod by (simp, rule each_ask_frame) (auto)
  show "ask_frame own l k (fst (declineAsk k t a ownerId n))"
    by (auto simp: declineAsk_def Let_def case_prod_beta split: option.splits)
  show "ask_frame own l k (fst (unnotifiedResolvedAsks k t))"
    unfolding unnotifiedResolvedAsks_def by (rule each_ask_frame) (auto split: option.splits)
  show "ask_frame own l k (markAskNotified k t a)" by (auto simp: markAskNotified_def)
  show "ask_frame own l k (fst (resolveAsksForGrant k t grant))"
    unfolding resolveAsksForGrant_def
    by (rule each_ask_frame) (auto simp: Let_def ask_frame_def intro: grants_ok_askId)
qed

subsection \<open>Every step keeps the invariant\<close>

lemma kc_invI: "creds_ok own (ks_creds k) \<Longrightarrow> grants_ok own l (ks_grants k) \<Longrightarrow> kc_inv own (k, l)"
  by (simp add: kc_inv_def)

lemma kc_invD: "kc_inv own (k, l) \<Longrightarrow> creds_ok own (ks_creds k) \<and> grants_ok own l (ks_grants k)"
  by (simp add: kc_inv_def)

lemma ask_frame_inv: "ask_frame own l k k' \<Longrightarrow> kc_inv own (k, l) \<Longrightarrow> kc_inv own (k', l)"
  by (simp add: ask_frame_def kc_inv_def)

lemma checked_grant_Inr:
  assumes "checked_grant V t gi (Some cred) = Inr g"
  shows "kc_kind cred \<noteq> kind_broker" "samePersonId (kc_ownerId cred) (gi_ownerId gi)" "g = grant_of V t gi cred"
  using assms by (auto simp: checked_grant_def split: if_splits)

lemma mintGrant_Inr:
  assumes "mintGrant V k t gi = (k', Inr g)"
  obtains cred where "dm_get (ks_creds k) (gi_credentialId gi) = Some cred" "checked_grant V t gi (Some cred) = Inr g" "k' = write_grant g k"
  using assms by (cases "dm_get (ks_creds k) (gi_credentialId gi)") (auto simp: mintGrant_def checked_grant_def split: if_splits)

lemma mint_write_inv:
  assumes inv: "kc_inv own (k, l)" and g: "checked_grant V t gi (Some cred) = Inr g" and c: "own (kc_id cred) = kc_ownerId cred"
  shows "kc_inv own (write_grant g k, minted (gi_ownerId gi) g # l)"
proof -
  note g' = checked_grant_Inr[OF g]
  have "kg_credentialId g = kc_id cred" "kg_status g = grant_active" by (simp_all add: g'(3) grant_of_def Let_def)
  with c kc_invD[OF inv] g'(2) grants_ok_minted[of own l "ks_grants k" g "gi_ownerId gi"]
  show ?thesis by (auto simp: write_grant_def intro!: kc_invI)
qed

lemma mint_inv:
  assumes inv: "kc_inv own (k, l)" and m: "mintGrant V k t gi = (k', Inr g)"
  shows "kc_inv own (k', minted (gi_ownerId gi) g # l)"
  using m
proof (rule mintGrant_Inr)
  fix cred
  assume "dm_get (ks_creds k) (gi_credentialId gi) = Some cred" "checked_grant V t gi (Some cred) = Inr g" "k' = write_grant g k"
  with creds_okD[of own "ks_creds k"] kc_invD[OF inv] mint_write_inv[OF inv] show ?thesis by auto
qed

lemma mintGrant_Inl: "mintGrant V k t gi = (k', Inl e) \<Longrightarrow> k' = k"
  by (auto simp: mintGrant_def split: sum.splits)

lemma approve_inv:
  assumes inv: "kc_inv own (k, l)"
  shows "approveAsk V k t ap = (k', Inr (a, g)) \<Longrightarrow> kc_inv own (k', minted (pi_ownerId ap) g # l)"
    and "approveAsk V k t ap = (k', Inl e) \<Longrightarrow> kc_inv own (k', l)"
proof -
  have f: "kc_inv own (k1, l)" if "freshAsk k t rec = (k1, ask)" for rec k1 ask
    using that inv freshAsk_frame[of k t rec] by (simp add: kc_inv_def)
  show "kc_inv own (k', minted (pi_ownerId ap) g # l)" if "approveAsk V k t ap = (k', Inr (a, g))"
    using that mint_inv[OF f] by (fastforce simp: approveAsk_def kc_inv_def split: option.splits prod.splits sum.splits if_splits)
  show "kc_inv own (k', l)" if "approveAsk V k t ap = (k', Inl e)"
    using that f inv by (auto simp: approveAsk_def dest: mintGrant_Inl split: option.splits prod.splits sum.splits if_splits)
qed

lemma connector_grant_inv:
  assumes inv: "kc_inv own (k, l)" and g: "grantConnectorToScope V k t host person account scope purpose = (k', Inr (Some g))" "k' \<noteq> k"
  shows "kc_inv own (k', minted person g # l)"
  using g mint_inv[OF inv]
  by (fastforce simp: grantConnectorToScope_def Let_def split: option.splits prod.splits sum.splits if_splits)

lemma revoke_write_inv: "kc_inv own (k, l) \<Longrightarrow> kc_inv own (revoke_write t g k, ev_revoke g # l)"
  using grants_ok_revoke_write[of own l k g t] by (auto simp: kc_inv_def revoke_write_def)

lemma revoke_inv:
  assumes inv: "kc_inv own (k, l)" and g: "revokeGrant k t ownerId g = (k', True)" "k' \<noteq> k"
  shows "kc_inv own (k', ev_revoke g # l)"
  using g revoke_write_inv[OF inv, of t g] by (auto simp: revokeGrant_def split: option.splits if_splits)

lemma delete_write_inv: "kc_inv own (k, l) \<Longrightarrow> kc_inv own (delete_write i k, l)"
  by (simp add: kc_inv_def delete_write_def creds_ok_delete)

lemma claimOnce_None:
  assumes "claimOnceGrant k t grant scope who = (k', None)"
  obtains "kg_mode grant \<noteq> mode_once" "k' = k"
  | r r' where "kg_mode grant = mode_once" "dm_get (ks_grants k) (kg_id grant) = Some r" "use_grant t scope who r = Inr r'"
      "k' = k\<lparr>ks_grants := AList.update (kg_id grant) r' (ks_grants k)\<rparr>"
  using assms by (auto simp: claimOnceGrant_def dm_defs split: if_splits option.splits sum.splits prod.splits)

lemma claim_once_inv:
  assumes inv: "kc_inv own (k, l)" and c: "claimOnceGrant k t grant scope who = (k', None)" and m: "kg_mode grant = mode_once"
  shows "kc_inv own (k', ev_use (kg_id grant) # l)"
  using c
proof (cases rule: claimOnce_None)
  case (2 r r')
  then show ?thesis using kc_invD[OF inv] grants_ok_used[of own l "ks_grants k" "kg_id grant" r t scope who r']
    by (auto intro!: kc_invI)
qed (simp add: m)

lemma usable_grantD:
  assumes "usable_grant k t g scope = Inr grant"
  shows "dm_get (ks_grants k) g = Some grant" "kg_audienceScopeId grant = scope" "kg_status grant = grant_active"
    "\<not> expired_at (kg_expiresAt grant) t"
  using assms by (auto simp: usable_grant_def grant_error_def split: option.splits if_splits intro: GrantStatus.exhaust)

lemma granted_credentialD:
  assumes "granted_credential k grant = Inr cred"
  shows "dm_get (ks_creds k) (kg_credentialId grant) = Some cred" "kc_kind cred \<noteq> kind_broker"
  using assms by (auto simp: granted_credential_def split: option.splits if_splits)

lemma materialize_Inr:
  assumes "snd (materialize V R seen now g scope who) = Inr m"
  obtains grant cred k1 k2 where "usable_grant (seen 0) (now 0) g scope = Inr grant" "granted_credential (seen 1) grant = Inr cred"
    "material V R (seen 2) (now 2) cred (Some (kg_id grant, kg_purpose grant)) = (k1, Inr m)"
    "claimOnceGrant (seen 3) (now 3) grant scope who = (k2, None)" "fst (materialize V R seen now g scope who) = [k1, k2]"
  using assms by (auto simp: materialize_def split: sum.splits prod.splits option.splits)

lemma creds_step_inv:
  "kc_inv own (k, l) \<Longrightarrow> (creds_ok own (ks_creds k) \<Longrightarrow> creds_ok own (ks_creds k')) \<Longrightarrow> ks_grants k' = ks_grants k \<Longrightarrow> kc_inv own (k', l)"
  by (simp add: kc_inv_def)

lemmas creds_steps = creds_ok_put saveCredential_creds setCapturePaths_creds service_creds service_delete_creds setConnectorToken_creds
  refresh_finish_creds material_creds

lemma kc_step_inv: "kc_step V own s s' \<Longrightarrow> kc_inv own s \<Longrightarrow> kc_inv own s'"
proof (induction rule: kc_step.induct)
  case (step_answer_write k l i a) then show ?case by (simp add: kc_inv_def grants_ok_askId)
next
  case (step_asks_write k l asks) then show ?case by (simp add: kc_inv_def)
next
  case (step_mint k t gi k' g l) then show ?case by (rule mint_inv[rotated])
next
  case (step_claim k t grant scope usedBy k' l) then show ?case by (intro claim_once_inv)
qed (auto intro: approve_inv connector_grant_inv revoke_inv revoke_write_inv delete_write_inv mint_write_inv ask_frame_inv[OF asks_frame(1)] ask_frame_inv[OF asks_frame(2)]
    ask_frame_inv[OF asks_frame(3)] ask_frame_inv[OF asks_frame(4)] ask_frame_inv[OF asks_frame(5)] ask_frame_inv[OF asks_frame(6)]
    ask_frame_inv[OF asks_frame(7)], (rule creds_step_inv, assumption, auto intro: creds_steps)+)

lemma kc_init_inv: "kc_inv own (empty_keychain, [])"
  by (simp add: kc_inv_def empty_keychain_def creds_ok_def grants_ok_def dm_get_def)

text \<open>The steps as an instance of the invariant systems of the prelude.\<close>

interpretation kc: invariant_system "\<lambda>s. s = (empty_keychain, [])" "kc_step V own" "kc_inv own" for V own
  by unfold_locales (auto intro: kc_step_inv kc_init_inv)

lemma kc_reach_inv: "kc_reach V own k l \<Longrightarrow> kc_inv own (k, l)"
  by (rule kc.reachable_inv[OF refl]) (simp add: kc_reach_def)

section \<open>Handing out needs the owner's grant\<close>

fun mat_owner :: "MaterializedCred \<Rightarrow> string \<times> string" where
  "mat_owner (mat_env m) = (me_credentialId m, me_ownerId m)"
| "mat_owner (mat_file m) = (mf_credentialId m, mf_ownerId m)"

text \<open>Deleting a credential, with any steps of others in between, is a sequence of steps.\<close>

definition others_step :: "vault \<Rightarrow> (string \<Rightarrow> string) \<Rightarrow> (nat \<Rightarrow> keychain \<Rightarrow> keychain) \<Rightarrow> bool" where
  "others_step V own others \<longleftrightarrow> (\<forall>j k l. \<exists>l'. (kc_step V own)\<^sup>*\<^sup>* (k, l) (others j k, l'))"

lemma revoke_grants_steps:
  assumes "others_step V own others"
  shows "\<exists>l'. (kc_step V own)\<^sup>*\<^sup>* (k, l) (revoke_grants others now i gs k, l')"
proof (induction gs arbitrary: k l)
  case (Cons g gs)
  show ?case
  proof (cases "kg_credentialId g = i \<and> kg_status g = grant_active")
    case True
    from assms obtain l1 where "(kc_step V own)\<^sup>*\<^sup>* (k, l) (others (Suc (length gs)) k, l1)" unfolding others_step_def by blast
    from rtranclp.rtrancl_into_rtrancl[OF this step_revoke_write[of V own _ l1 "now (Suc (length gs))" "kg_id g"]]
      Cons.IH[of "revoke_write (now (Suc (length gs))) (kg_id g) (others (Suc (length gs)) k)" "ev_revoke (kg_id g) # l1"]
    show ?thesis using True by (auto intro: rtranclp_trans)
  qed (use Cons.IH[of k l] in auto)
qed auto

lemma deleteCredential_steps:
  assumes "others_step V own others"
  shows "\<exists>l'. (kc_step V own)\<^sup>*\<^sup>* (k, l) (deleteCredential others now k i, l')"
proof -
  let ?k = "revoke_grants others now i (dm_all (ks_grants k)) k"
  obtain l1 where 1: "(kc_step V own)\<^sup>*\<^sup>* (k, l) (?k, l1)" using revoke_grants_steps[OF assms] by blast
  obtain l2 where 2: "(kc_step V own)\<^sup>*\<^sup>* (?k, l1) (others 0 ?k, l2)" using assms unfolding others_step_def by blast
  from rtranclp.rtrancl_into_rtrancl[OF rtranclp_trans[OF 1 2] step_delete_write] show ?thesis
    unfolding deleteCredential_def by blast
qed

text \<open>A run as one request sees it: \<open>seen j\<close> and \<open>log j\<close> are the keychain and its log at the request's \<open>j\<close>-th access, and
  between two accesses any steps are taken, those of others and the request's own writes.\<close>

definition kc_run :: "vault \<Rightarrow> (string \<Rightarrow> string) \<Rightarrow> (nat \<Rightarrow> keychain) \<Rightarrow> (nat \<Rightarrow> kc_event list) \<Rightarrow> bool" where
  "kc_run V own seen log \<longleftrightarrow> kc_reach V own (seen 0) (log 0) \<and>
     (\<forall>j. (kc_step V own)\<^sup>*\<^sup>* (seen j, log j) (seen (Suc j), log (Suc j)))"

lemma kc_run_inv: "kc_run V own seen log \<Longrightarrow> kc_inv own (seen j, log j)"
proof -
  assume r: "kc_run V own seen log"
  have "kc_reach V own (seen j) (log j)"
    using r unfolding kc_run_def kc_reach_def by (induction j) (auto intro: rtranclp_trans)
  then show ?thesis by (rule kc_reach_inv)
qed

text \<open>A secret is handed out under a grant id in a conversation: by \<open>materialize\<close>, or when a turn's standing grants are loaded.\<close>

definition handed_out ::
  "vault \<Rightarrow> remote \<Rightarrow> (nat \<Rightarrow> keychain) \<Rightarrow> (nat \<Rightarrow> int) \<Rightarrow> string \<Rightarrow> ScopeId \<Rightarrow> string \<Rightarrow> MaterializedCred \<Rightarrow> bool" where
  "handed_out V R seen now g scope who m \<longleftrightarrow>
     snd (materialize V R seen now g scope who) = Inr m \<or>
     list_ex (\<lambda>x. mat_env x = m \<and> map_option fst (me_extra x) = Some g) (snd (materializeStanding V R seen now scope))"

text \<open>What a log says of a grant in a conversation: for which credential, how and by whom it was last minted, and that
  since then it was not revoked and, if it is a one-time grant, not used.\<close>

definition granted :: "kc_event list \<Rightarrow> string \<Rightarrow> ScopeId \<Rightarrow> string \<Rightarrow> GrantMode \<Rightarrow> string \<Rightarrow> bool" where
  "granted l g scope c mode p \<longleftrightarrow> last_mint l g = Some (c, scope, mode, p) \<and> ev_revoke g \<notin> set (since_mint l g) \<and>
     (mode = mode_once \<longrightarrow> ev_use g \<notin> set (since_mint l g))"

lemma material_owner: "material V R k t cred extra = (k', Inr m) \<Longrightarrow> mat_owner m = (kc_id cred, kc_ownerId cred)"
  by (auto simp: material_def materializeConnectorEnv_def materializeDecrypted_def connector_env_def decryptToFiles_def
      decryptToEnv_def split: if_splits prod.splits option.splits)

lemma standing_owner:
  assumes "snd (standing_one V R k k' t r) = Some x"
  obtains cred where "dm_get (ks_creds k) (kg_credentialId r) = Some cred" "mat_owner (mat_env x) = (kc_id cred, kc_ownerId cred)"
    "me_extra x = Some (kg_id r, kg_purpose r)" "kg_mode r = mode_standing"
  using assms
  by (auto simp: standing_one_def connector_env_def decryptToEnv_def Let_def split: option.splits if_splits prod.splits)

lemma standing_all_one:
  assumes "x \<in> set (snd (standing_all V R seen now n gs))"
  obtains r j k' t where "r \<in> set gs" "snd (standing_one V R (seen j) k' t r) = Some x"
proof -
  have "\<exists>r j k' t. r \<in> set gs \<and> snd (standing_one V R (seen j) k' t r) = Some x"
    using assms
  proof (induction gs arbitrary: n)
    case (Cons g gs)
    obtain ks m where o: "standing_one V R (seen n) (seen (n + 1)) (now (n + 1)) g = (ks, m)" by fastforce
    obtain ks' ms where a: "standing_all V R seen now (n + 2) gs = (ks', ms)" by fastforce
    show ?case
    proof (cases "m = Some x")
      case True
      with o show ?thesis by (metis list.set_intros(1) snd_conv)
    next
      case False
      with Cons.prems o a have "x \<in> set (snd (standing_all V R seen now (n + 2) gs))" by (auto split: option.splits)
      from Cons.IH[OF this] show ?thesis by auto
    qed
  qed simp
  then show ?thesis using that by blast
qed

lemma active_granted:
  assumes inv: "kc_inv own (k, l)" and r: "dm_get (ks_grants k) g = Some r" "kg_status r = grant_active"
  obtains p where "granted l g (kg_audienceScopeId r) (kg_credentialId r) (kg_mode r) p" "samePersonId (own (kg_credentialId r)) p"
proof -
  from kc_invD[OF inv] have ok: "grants_ok own l (ks_grants k)" by auto
  obtain p where p: "last_mint l g = Some (kg_credentialId r, kg_audienceScopeId r, kg_mode r, p)" "samePersonId (own (kg_credentialId r)) p"
    using grants_okD(2)[OF ok, of g] r by auto
  have "ev_revoke g \<notin> set (since_mint l g)" "kg_mode r = mode_once \<Longrightarrow> ev_use g \<notin> set (since_mint l g)"
    using grants_ok_unspent[OF ok r(1)] grants_ok_id[OF ok r(1)] r(2) by (auto simp: unspent_def count_list_0_iff)
  with p that show ?thesis by (auto simp: granted_def)
qed

text \<open>A one-time grant is checked again where it is claimed.\<close>

lemma claimed_granted:
  assumes inv: "kc_inv own (k, l)" and c: "claimOnceGrant k t grant scope who = (k', None)" "kg_mode grant = mode_once"
  shows "\<exists>c mode p. granted l (kg_id grant) scope c mode p"
  using c(1)
proof (cases rule: claimOnce_None)
  case (2 r r')
  then have "kg_status r = grant_active" "kg_audienceScopeId r = scope"
    by (auto simp: use_grant_def grant_error_def split: if_splits option.splits intro: GrantStatus.exhaust)
  with active_granted[OF inv 2(2)] show ?thesis by metis
qed (simp add: c(2))

text \<open>C29: A secret leaves the keychain in a conversation only with the consent of its owner. Take any run in which other
  requests act between the accesses of the one that hands the secret out, be it \<open>materialize\<close> or the loading of a turn's
  standing grants. When the request read the grant, it was one for that very conversation and for the credential handed
  out, last minted by the person who owns that credential, and not revoked since; a one-time grant had not been used since. A
  one-time grant was still neither revoked nor used when it was claimed, after the secret had been read or refreshed and
  before it was returned. A standing grant is not checked again: it may have been revoked while the request was under way.
  The ids of credentials are assumed not to collide across owners (\<open>own\<close>).\<close>

theorem secret_needs_owner_grant:
  assumes run: "kc_run V own seen log" and out: "handed_out V R seen now g scope who m"
  shows "\<exists>j cred mode p. dm_get (ks_creds (seen j)) (fst (mat_owner m)) = Some cred \<and> kc_ownerId cred = snd (mat_owner m) \<and>
    granted (log 0) g scope (fst (mat_owner m)) mode p \<and> samePersonId (snd (mat_owner m)) p \<and>
    (mode = mode_once \<longrightarrow> (\<exists>c mode' p'. granted (log 3) g scope c mode' p'))"
  using out[unfolded handed_out_def]
proof
  assume "snd (materialize V R seen now g scope who) = Inr m"
  then show ?thesis
  proof (rule materialize_Inr)
    fix grant cred k1 k2
    assume "usable_grant (seen 0) (now 0) g scope = Inr grant" and c: "granted_credential (seen 1) grant = Inr cred"
      and m: "material V R (seen 2) (now 2) cred (Some (kg_id grant, kg_purpose grant)) = (k1, Inr m)"
      and cl: "claimOnceGrant (seen 3) (now 3) grant scope who = (k2, None)"
    note u = usable_grantD[OF this(1)]
    have g: "kg_id grant = g" using kc_run_inv[OF run, of 0] u(1) grants_ok_id by (auto simp: kc_inv_def)
    have own: "kc_id cred = kg_credentialId grant" "own (kg_credentialId grant) = kc_ownerId cred"
      using creds_okD[OF _ granted_credentialD(1)[OF c]] kc_run_inv[OF run, of 1] by (auto simp: kc_inv_def)
    obtain p where p: "granted (log 0) g scope (kg_credentialId grant) (kg_mode grant) p" "samePersonId (own (kg_credentialId grant)) p"
      using active_granted[OF kc_run_inv[OF run, of 0] u(1,3)] u(2) by auto
    moreover have "\<exists>c mode' p'. granted (log 3) g scope c mode' p'" if "kg_mode grant = mode_once"
      using claimed_granted[OF kc_run_inv[OF run, of 3] cl that] g by simp
    ultimately show ?thesis using granted_credentialD(1)[OF c] material_owner[OF m] own
      by (intro exI[of _ 1] exI[of _ cred] exI[of _ "kg_mode grant"] exI[of _ p]) auto
  qed
next
  assume "list_ex (\<lambda>x. mat_env x = m \<and> map_option fst (me_extra x) = Some g) (snd (materializeStanding V R seen now scope))"
  then obtain x where x: "mat_env x = m" "map_option fst (me_extra x) = Some g"
    "x \<in> set (snd (standing_all V R seen now 1 (activeGrantsFor (seen 0) (now 0) scope)))"
    unfolding list_ex_iff materializeStanding_def by blast
  from standing_all_one[OF x(3)] obtain r j k' t where r: "r \<in> set (activeGrantsFor (seen 0) (now 0) scope)"
    and one: "snd (standing_one V R (seen j) k' t r) = Some x" by blast
  from standing_owner[OF one] obtain cred where c: "dm_get (ks_creds (seen j)) (kg_credentialId r) = Some cred"
    "mat_owner m = (kc_id cred, kc_ownerId cred)" "kg_id r = g" "kg_mode r = mode_standing"
    using x(1,2) by (metis fst_conv option.inject option.simps(9))
  from r have act: "r \<in> set (dm_all (ks_grants (seen 0)))" "kg_status r = grant_active" "kg_audienceScopeId r = scope"
    by (auto simp: activeGrantsFor_def)
  have own: "kc_id cred = kg_credentialId r" "own (kg_credentialId r) = kc_ownerId cred"
    using creds_okD[OF _ c(1)] kc_run_inv[OF run, of j] by (auto simp: kc_inv_def)
  have "dm_get (ks_grants (seen 0)) g = Some r" using grants_ok_all[OF _ act(1)] kc_run_inv[OF run, of 0] c(3) by (auto simp: kc_inv_def)
  from active_granted[OF kc_run_inv[OF run, of 0] this act(2)] obtain p where
    "granted (log 0) g scope (kg_credentialId r) mode_standing p" "samePersonId (own (kg_credentialId r)) p"
    using act(3) c(4) by auto
  with c own show ?thesis by (intro exI[of _ j] exI[of _ cred] exI[of _ mode_standing] exI[of _ p]) auto
qed

text \<open>A run in which somebody saves a token and grants it once to a channel, with a hash that keeps what it is given.\<close>

definition plain_vault :: vault where
  "plain_vault = \<lparr>vt_encrypt = (\<lambda>s. s), vt_decrypt = Some, vt_sha = (\<lambda>s. s), vt_parse = (\<lambda>s. Some JNull), vt_base64 = (\<lambda>s. s),
     vt_orgId = ''o'', vt_canRefresh = False, vt_oauthSkew = 60, vt_oauthRefreshMargin = 600\<rparr>"

definition token_input :: SaveCredentialInput where
  "token_input = \<lparr>sc_ownerId = ''ann'', sc_service = ''git'', sc_secret = Some ''s3'', sc_envKey = None, sc_fields = None,
     sc_target = None, sc_files = None, sc_host = None, sc_accountLabel = None, sc_capturePaths = None, sc_origin = None,
     sc_expectedOrigin = None, sc_expiresAt = None\<rparr>"

definition saved_keychain :: keychain where
  "saved_keychain = fst (saveCredential plain_vault empty_keychain 5 token_input)"

definition once_input :: CreateGrantInput where
  "once_input = \<lparr>gi_credentialId = credId plain_vault ''ann'' ''git'' ''env:GIT_TOKEN'', gi_ownerId = ''ann'',
     gi_audienceScopeId = ''channel:c'', gi_mode = mode_once, gi_purpose = ''deploy'', gi_expiresAt = None, gi_askId = None\<rparr>"

definition granted_keychain :: keychain where
  "granted_keychain = fst (mintGrant plain_vault saved_keychain 6 once_input)"

definition once_grant :: KeychainGrant where
  "once_grant = hd (dm_all (ks_grants granted_keychain))"

definition once_material :: MaterializedCred where
  "once_material = mat_env \<lparr>me_credentialId = credId plain_vault ''ann'' ''git'' ''env:GIT_TOKEN'', me_ownerId = ''ann'',
     me_service = ''git'', me_env = [(''GIT_TOKEN'', JStr ''s3'')], me_extra = Some (kg_id once_grant, ''deploy'')\<rparr>"

lemma granted_reach: "kc_reach plain_vault (\<lambda>i. ''ann'') granted_keychain [minted ''ann'' once_grant]"
proof -
  have save: "kc_step plain_vault (\<lambda>i. ''ann'') (empty_keychain, []) (saved_keychain, [])"
  proof -
    obtain p where "save_plan_of plain_vault token_input = Inr p"
      by (cases "save_plan_of plain_vault token_input") (code_simp, simp)
    from step_save[OF this, of "\<lambda>i. ''ann''" empty_keychain "[]" 5] show ?thesis
      by (simp add: saved_keychain_def token_input_def)
  qed
  have "mintGrant plain_vault saved_keychain 6 once_input = (granted_keychain, Inr once_grant)" by code_simp
  from step_mint[OF this, of "\<lambda>i. ''ann''" "[]"]
  have "kc_step plain_vault (\<lambda>i. ''ann'') (saved_keychain, []) (granted_keychain, [minted ''ann'' once_grant])"
    by (simp add: once_input_def)
  with save show ?thesis unfolding kc_reach_def by (meson converse_rtranclp_into_rtranclp rtranclp.rtrancl_refl)
qed

text \<open>Another request writes the asks after the grant has been read.\<close>

definition once_seen :: "nat \<Rightarrow> keychain" where
  "once_seen j = (if j = 0 then granted_keychain else granted_keychain\<lparr>ks_asks := []\<rparr>)"

lemma once_run: "kc_run plain_vault (\<lambda>i. ''ann'') once_seen (\<lambda>j. [minted ''ann'' once_grant])"
proof -
  have "kc_step plain_vault (\<lambda>i. ''ann'') (once_seen j, [minted ''ann'' once_grant]) (once_seen (Suc j), [minted ''ann'' once_grant])" for j
    using step_asks_write[of plain_vault "\<lambda>i. ''ann''" "once_seen j" "[minted ''ann'' once_grant]" "[]"]
    by (auto simp: once_seen_def)
  then show ?thesis using granted_reach unfolding kc_run_def
    by (intro conjI allI r_into_rtranclp) (simp_all add: once_seen_def)
qed

theorem secret_needs_owner_grant_witness:
  "handed_out plain_vault (\<lambda>h tk. Inl []) once_seen (\<lambda>j. 7) (kg_id once_grant) ''channel:c'' ''bob'' once_material \<and>
   (\<exists>mode p. granted [minted ''ann'' once_grant] (kg_id once_grant) ''channel:c'' (fst (mat_owner once_material)) mode p \<and>
      samePersonId ''ann'' p)"
proof -
  have h: "handed_out plain_vault (\<lambda>h tk. Inl []) once_seen (\<lambda>j. 7) (kg_id once_grant) ''channel:c'' ''bob'' once_material"
    by code_simp
  have "snd (mat_owner once_material) = ''ann''" by (simp add: once_material_def)
  with h secret_needs_owner_grant[OF once_run h] show ?thesis by metis
qed

text \<open>The gap that is left: a standing grant that its owner revokes after the request has read it still hands the secret out.\<close>

definition standing_input :: CreateGrantInput where
  "standing_input = once_input\<lparr>gi_mode := mode_standing\<rparr>"

definition standing_keychain :: keychain where
  "standing_keychain = fst (mintGrant plain_vault saved_keychain 6 standing_input)"

definition revoked_seen :: "nat \<Rightarrow> keychain" where
  "revoked_seen j = (if j = 0 then standing_keychain else fst (revokeGrant standing_keychain 7 ''ann'' (kg_id once_grant)))"

theorem revoked_grant_still_used:
  "getGrant (revoked_seen 0) (kg_id once_grant) \<noteq> None \<and>
   map_option kg_status (getGrant (revoked_seen 1) (kg_id once_grant)) = Some grant_revoked \<and>
   snd (materialize plain_vault (\<lambda>h tk. Inl []) revoked_seen (\<lambda>j. 7 + int j) (kg_id once_grant) ''channel:c'' ''bob'') = Inr once_material"
  by (intro conjI) code_simp+

text \<open>And the same when a credential is deleted: a grant minted after the snapshot of the grants stays active.\<close>

theorem grant_survives_deletion:
  "let k = deleteCredential (\<lambda>j k. fst (mintGrant plain_vault k 6 standing_input)) (\<lambda>j. 7) saved_keychain (gi_credentialId standing_input) in
   dm_get (ks_creds k) (gi_credentialId standing_input) = None \<and>
   map_option kg_status (getGrant k (kg_id once_grant)) = Some grant_active"
  unfolding Let_def by (intro conjI) code_simp+

text \<open>A one-time grant hands its credential out at most once. After any operations, including claims made on
  records of grants read long before and the same grant claimed by several requests, the log since a one-time grant was
  minted has at most one use of it; and a grant id the keychain knows was minted.\<close>

theorem once_grant_used_once:
  assumes "kc_reach V own k l" "last_mint l g = Some (c, scope, mode_once, p)"
  shows "count_list (since_mint l g) (ev_use g) \<le> 1 \<and>
    (\<exists>r. dm_get (ks_grants k) g = Some r \<and> kg_credentialId r = c \<and> kg_audienceScopeId r = scope \<and>
       (kg_status r = grant_active \<longrightarrow> ev_use g \<notin> set (since_mint l g)))"
proof -
  from kc_reach_inv[OF assms(1)] have ok: "grants_ok own l (ks_grants k)" by (simp add: kc_inv_def)
  with assms(2) obtain r where r: "dm_get (ks_grants k) g = Some r" using grants_okD(2)[OF ok, of g] by (cases "dm_get (ks_grants k) g") auto
  then have "kg_mode r = mode_once" "kg_credentialId r = c" "kg_audienceScopeId r = scope" using grants_okD(2)[OF ok, of g] assms(2) by auto
  with grants_ok_unspent[OF ok r] grants_ok_id[OF ok r] r show ?thesis
    by (auto simp: unspent_def count_list_0_iff split: if_splits)
qed

definition used_keychain :: keychain where
  "used_keychain = fst (claimOnceGrant granted_keychain 7 once_grant ''channel:c'' ''bob'')"

theorem once_grant_used_once_witness:
  "count_list (since_mint [ev_use (kg_id once_grant), minted ''ann'' once_grant] (kg_id once_grant)) (ev_use (kg_id once_grant)) = 1 \<and>
   (\<exists>r. dm_get (ks_grants used_keychain) (kg_id once_grant) = Some r) \<and>
   claimOnceGrant used_keychain 8 once_grant ''channel:c'' ''eve'' = (used_keychain, Some (kc_error 410 ''one-time grant already used''))"
proof -
  have c: "claimOnceGrant granted_keychain 7 once_grant ''channel:c'' ''bob'' = (used_keychain, None)" by code_simp
  have m: "kg_mode once_grant = mode_once" "kg_credentialId once_grant = credId plain_vault ''ann'' ''git'' ''env:GIT_TOKEN''"
    "kg_audienceScopeId once_grant = ''channel:c''" by code_simp+
  have "kc_reach plain_vault (\<lambda>i. ''ann'') used_keychain [ev_use (kg_id once_grant), minted ''ann'' once_grant]"
    using granted_reach step_claim[OF c m(1), of plain_vault "\<lambda>i. ''ann''"] unfolding kc_reach_def by (rule rtranclp.rtrancl_into_rtrancl)
  from once_grant_used_once[OF this, of "kg_id once_grant" "credId plain_vault ''ann'' ''git'' ''env:GIT_TOKEN''" "''channel:c''" "''ann''"]
  have "\<exists>r. dm_get (ks_grants used_keychain) (kg_id once_grant) = Some r" by (auto simp: m)
  moreover have "claimOnceGrant used_keychain 8 once_grant ''channel:c'' ''eve'' = (used_keychain, Some (kc_error 410 ''one-time grant already used''))"
    by code_simp
  ultimately show ?thesis by simp
qed

section \<open>What is saved is what is read\<close>

lemma saveCredential_Inr:
  assumes "saveCredential V k t i = (k', Inr meta)"
  obtains p prior where "save_plan_of V i = Inr p" "dm_get (ks_creds k') (sp_id p) = Some (buildRec V t i p prior)"
    "meta = toMeta (buildRec V t i p prior)"
proof -
  have att: "\<exists>prior. dm_get (ks_creds k') (sp_id p) = Some (buildRec V t i p prior) \<and> meta = toMeta (buildRec V t i p prior)"
    if "save_attempts n V k t i p e = (k', Inr meta)" for n p e
    using that
  proof (induction n)
    case (Suc n)
    show ?case
    proof (cases "dm_get (ks_creds k) (sp_id p)")
      case None
      then show ?thesis using Suc.prems by (auto simp: dm_defs Let_def intro: exI[of _ None])
    next
      case (Some c)
      then show ?thesis using Suc.prems
        by (auto simp: dm_defs split: sum.splits dest!: guarded_recD)
    qed
  qed simp
  from assms obtain p where p: "save_plan_of V i = Inr p" by (auto simp: saveCredential_def split: sum.splits)
  show ?thesis
  proof (cases "expected_origin i")
    case None
    with assms p show ?thesis by (intro that[OF p, of "dm_get (ks_creds k) (sp_id p)"]) (auto simp: saveCredential_def Let_def dm.get_put)
  next
    case (Some e)
    with assms p att[of 3 p e] that[OF p] show ?thesis by (auto simp: saveCredential_def)
  qed
qed

lemma fields_error_None:
  assumes "fields_error fs = None"
  shows "distinct (map fi_envKey fs)"
proof -
  have "length (dedupe (map fi_envKey fs)) = length fs" using assms by (auto simp: fields_error_def split: if_splits)
  then have "card (set (map fi_envKey fs)) = length (map fi_envKey fs)"
    by (metis distinct_card distinct_dedupe length_map set_dedupe)
  then show ?thesis by (rule card_distinct)
qed

lemma map_of_fold_fields:
  "map_of (fold (\<lambda>f m. AList.update (fi_envKey f) (JStr (fi_value f)) m) fs m) k =
     (case find (\<lambda>f. fi_envKey f = k) (rev fs) of Some f \<Rightarrow> Some (JStr (fi_value f)) | None \<Rightarrow> map_of m k)"
  by (induction fs rule: rev_induct) auto

lemma field_value_saved:
  assumes "distinct (map fi_envKey fs)" "f \<in> set fs"
  shows "field_value (fields_json fs) (fi_envKey f) = JStr (fi_value f)"
proof -
  have "find (\<lambda>x. fi_envKey x = fi_envKey f) (rev fs) = Some f"
  proof (cases "find (\<lambda>x. fi_envKey x = fi_envKey f) (rev fs)")
    case None
    then show ?thesis using assms(2) by (auto simp: find_None_iff)
  next
    case (Some x)
    with find_SomeD[OF Some] assms show ?thesis by (auto simp: distinct_map inj_on_def)
  qed
  then show ?thesis by (simp add: field_value_def fields_json_def map_of_fold_fields)
qed

text \<open>What reading a saved credential gives: its field values, its files, or its one value under its key.\<close>

definition saved_material :: "SaveCredentialInput \<Rightarrow> CredentialFile list option \<Rightarrow> save_plan \<Rightarrow> MaterializedCred" where
  "saved_material i files p =
     (case files of
        Some fs \<Rightarrow> mat_file \<lparr>mf_credentialId = sp_id p, mf_ownerId = sc_ownerId i, mf_service = sp_service p,
            mf_files = JArr (map file_json fs), mf_origin = when_truthy (sc_origin i), mf_extra = None\<rparr>
      | None \<Rightarrow> mat_env \<lparr>me_credentialId = sp_id p, me_ownerId = sc_ownerId i, me_service = sp_service p,
            me_env = (case input_fields i of
                Some fs \<Rightarrow> map (\<lambda>f. (fi_envKey f, JStr (fi_value f))) fs
              | None \<Rightarrow> [(nullish (save_key i None None) [], JStr (nullish (sc_secret i) []))]), me_extra = None\<rparr>)"

text \<open>\<open>JSON.parse\<close> reads back the text a request stores, when it stores JSON.\<close>

definition parse_back :: "vault \<Rightarrow> SaveCredentialInput \<Rightarrow> CredentialFile list option \<Rightarrow> bool" where
  "parse_back V i files \<longleftrightarrow>
     (case (files, input_fields i) of
        (Some fs, _) \<Rightarrow> vt_parse V (stringify (JArr (map file_json fs))) = Some (JArr (map file_json fs))
      | (None, Some fs) \<Rightarrow> vt_parse V (stringify (fields_json fs)) = Some (fields_json fs)
      | (None, None) \<Rightarrow> True)"

lemma save_checked_Inr:
  assumes "save_checked V i files = Inr p" and flds: "flds = (if files = None then input_fields i else None)"
  shows "Option.bind flds fields_error = None" "trim (nullish (stored_secret i files flds) []) \<noteq> []"
    "p = \<lparr>sp_id = sp_id p, sp_service = sp_service p, sp_kind = (if files \<noteq> None then kind_file else kind_env),
      sp_envKey = save_key i files flds, sp_fields = map_option (map (\<lambda>f. (fi_envKey f, fi_secret f = Some True))) flds,
      sp_targets = map_option (map cf_path) files, sp_secret = the (stored_secret i files flds)\<rparr>"
proof -
  note eq = assms(1)[unfolded save_checked_def Let_def, folded flds]
  show n: "Option.bind flds fields_error = None" using eq by (cases "Option.bind flds fields_error") simp_all
  show "trim (nullish (stored_secret i files flds) []) \<noteq> []" using eq unfolding n by (simp split: if_split_asm)
  show "p = \<lparr>sp_id = sp_id p, sp_service = sp_service p, sp_kind = (if files \<noteq> None then kind_file else kind_env),
      sp_envKey = save_key i files flds, sp_fields = map_option (map (\<lambda>f. (fi_envKey f, fi_secret f = Some True))) flds,
      sp_targets = map_option (map cf_path) files, sp_secret = the (stored_secret i files flds)\<rparr>"
    using eq unfolding n option.case(1) by (auto simp only: sum.inject sum.distinct save_plan.simps simp_thms if_True if_False split: if_split_asm)
qed

lemma save_plan_Inr:
  assumes "save_plan_of V i = Inr p" "input_files V i = Inr files" and flds: "flds = (if files = None then input_fields i else None)"
  shows "sp_kind p = (if files \<noteq> None then kind_file else kind_env)" "sp_targets p = map_option (map cf_path) files"
    "sp_envKey p = save_key i files flds"
    "sp_fields p = map_option (map (\<lambda>f. (fi_envKey f, fi_secret f = Some True))) flds"
    "stored_secret i files flds = Some (sp_secret p)"
    "flds = Some fs \<Longrightarrow> distinct (map fi_envKey fs)"
proof -
  have "save_checked V i files = Inr p" using assms(1,2) by (simp add: save_plan_of_def split: if_split_asm)
  note c = save_checked_Inr[OF this flds]
  show "sp_kind p = (if files \<noteq> None then kind_file else kind_env)" "sp_targets p = map_option (map cf_path) files"
    "sp_envKey p = save_key i files flds" "sp_fields p = map_option (map (\<lambda>f. (fi_envKey f, fi_secret f = Some True))) flds"
    by (subst c(3), simp)+
  show "stored_secret i files flds = Some (sp_secret p)"
    using c(2) by (subst c(3)) (cases "stored_secret i files flds"; simp add: trim_def)
  show "distinct (map fi_envKey fs)" if "flds = Some fs" using c(1) that fields_error_None by simp
qed

text \<open>C30: What a person saves is what the person reads back. Once \<open>saveCredential\<close> has returned, the owner's own personal
  conversation gets from \<open>materializeOwnById\<close> the very value under its key, the values of all fields, or the files that
  were saved, whatever was stored before and whichever of the two ways of writing was taken, as long as the credential
  has not expired (files never do); and the metadata returned carries no secret. Decrypting inverts encrypting, and
  \<open>JSON.parse\<close> reads back what was stringified.\<close>

theorem saved_secret_read_back:
  assumes saved: "saveCredential V k t i = (k', Inr meta)" and files: "input_files V i = Inr files" and p: "save_plan_of V i = Inr p"
    and dec: "\<And>s. vt_decrypt V (vt_encrypt V s) = Some s" and parse: "parse_back V i files"
    and live: "files \<noteq> None \<or> \<not> expired_at (sc_expiresAt i) t'" and who: "samePersonId (sc_ownerId i) (sc_ownerId i)"
  shows "materializeOwnById V R k' t' (sc_ownerId i) (kc_id meta) (personalScope (sc_ownerId i)) = (k', Inr (saved_material i files p)) \<and>
    kc_secretEnc meta = []"
  using saved
proof (rule saveCredential_Inr)
  fix p' prior
  assume "save_plan_of V i = Inr p'" and g: "dm_get (ks_creds k') (sp_id p') = Some (buildRec V t i p' prior)"
    and meta: "meta = toMeta (buildRec V t i p' prior)"
  with p have p': "p' = p" by simp
  let ?c = "buildRec V t i p prior"
  note plan = save_plan_Inr[OF p files refl]
  have c: "getOwned k' (sc_ownerId i) (sp_id p) = Some ?c" using g who by (simp add: getOwned_def p')
  have kind: "kc_kind ?c = sp_kind p" "\<not> kc_managed ?c" "\<not> credExpired ?c t'"
    using live plan(1) by (auto simp: buildRec_def credExpired_def)
  have "materializeDecrypted V ?c None = Inr (saved_material i files p)"
  proof (cases files)
    case (Some fs)
    then show ?thesis using plan parse
      by (auto simp: materializeDecrypted_def decryptToFiles_def files_of_def buildRec_def dec saved_material_def parse_back_def
          stored_secret_def when_truthy_def)
  next
    case None
    show ?thesis
    proof (cases "input_fields i")
      case fld: (Some fs)
      have d: "distinct (map fi_envKey fs)" by (rule plan(6)) (simp add: None fld)
      have "fields_json fs \<noteq> JNull" by (simp add: fields_json_def)
      then show ?thesis using plan(1-5) parse field_value_saved[OF d]
        by (auto simp: materializeDecrypted_def decryptToEnv_def env_of_def buildRec_def dec saved_material_def parse_back_def
            stored_secret_def None fld)
    next
      case fld: None
      then show ?thesis using plan(1-5)
        by (auto simp: materializeDecrypted_def decryptToEnv_def env_of_def buildRec_def dec saved_material_def stored_secret_def
            save_key_def None)
    qed
  qed
  then show ?thesis using c kind plan(1) by (auto simp: materializeOwnById_def material_def meta toMeta_def p')
qed

definition token_plan :: save_plan where
  "token_plan = (case save_plan_of plain_vault token_input of Inr p \<Rightarrow> p)"

theorem saved_secret_read_back_witness:
  "materializeOwnById plain_vault (\<lambda>h tk. Inl []) saved_keychain 7 ''ann'' (sp_id token_plan) ''personal:ann'' =
     (saved_keychain, Inr (mat_env \<lparr>me_credentialId = sp_id token_plan, me_ownerId = ''ann'', me_service = ''git'',
        me_env = [(''GIT_TOKEN'', JStr ''s3'')], me_extra = None\<rparr>))"
proof -
  obtain meta where m: "saveCredential plain_vault empty_keychain 5 token_input = (saved_keychain, Inr meta)" "kc_id meta = sp_id token_plan"
  proof -
    have "(case snd (saveCredential plain_vault empty_keychain 5 token_input) of Inr m \<Rightarrow> kc_id m = sp_id token_plan | Inl e \<Rightarrow> False)"
      by code_simp
    then show ?thesis by (cases "saveCredential plain_vault empty_keychain 5 token_input")
        (auto intro: that simp: saved_keychain_def split: sum.splits)
  qed
  have e: "input_files plain_vault token_input = Inr None" "save_plan_of plain_vault token_input = Inr token_plan"
    "samePersonId ''ann'' ''ann''" "personalScope ''ann'' = ''personal:ann''"
    "saved_material token_input None token_plan = mat_env \<lparr>me_credentialId = sp_id token_plan, me_ownerId = ''ann'', me_service = ''git'',
        me_env = [(''GIT_TOKEN'', JStr ''s3'')], me_extra = None\<rparr>" by code_simp+
  have i: "sc_ownerId token_input = ''ann''" "sc_expiresAt token_input = None" "input_fields token_input = None"
    by (simp_all add: token_input_def input_fields_def)
  have "materializeOwnById plain_vault (\<lambda>h tk. Inl []) saved_keychain 7 (sc_ownerId token_input) (kc_id meta) (personalScope (sc_ownerId token_input)) =
      (saved_keychain, Inr (saved_material token_input None token_plan)) \<and> kc_secretEnc meta = []"
    by (rule saved_secret_read_back[OF m(1) e(1,2)]) (simp_all add: plain_vault_def parse_back_def i expired_at_def e(3))
  then show ?thesis by (simp add: i e m(2))
qed

section \<open>Refreshing a connector's token\<close>

definition refresh_failed :: "string + OAuthToken \<Rightarrow> bool" where
  "refresh_failed result = (case result of Inl e \<Rightarrow> True | Inr f \<Rightarrow> ot_accessToken f = [])"

lemma token_record_read:
  assumes dec: "\<And>s. vt_decrypt V (vt_encrypt V s) = Some s" and enc: "\<And>s. s \<noteq> [] \<Longrightarrow> vt_encrypt V s \<noteq> []"
  shows "map_option (\<lambda>k. (ot_accessToken k, ot_refreshToken k, ot_idToken k)) (recToOAuthToken V (token_record V t host person token account prior)) =
     Some (ot_accessToken token, when_truthy (ot_refreshToken token), when_truthy (ot_idToken token))"
proof -
  have f: "decrypt_field V (map_option (vt_encrypt V) (when_truthy x)) = Some (when_truthy x)" for x
    by (cases x) (auto simp: decrypt_field_def when_truthy_def truthy_def dec enc)
  show ?thesis by (simp add: recToOAuthToken_def token_record_def Let_def dec f)
qed

lemma refresh_fail_secrets:
  "map_option kc_secretEnc (dm_get (ks_creds (markConnectorRefreshFailure k t rec e)) i) = map_option kc_secretEnc (dm_get (ks_creds k) i)"
  by (auto simp: markConnectorRefreshFailure_def get_merge option.map_comp comp_def split: option.splits)

lemma refresh_stored:
  assumes dec: "\<And>s. vt_decrypt V (vt_encrypt V s) = Some s" and enc: "\<And>s. s \<noteq> [] \<Longrightarrow> vt_encrypt V s \<noteq> []"
    and ok: "\<not> refresh_failed (Inr fresh)"
    and cur: "\<And>c. dm_get (ks_creds k) (kc_id rec) = Some c \<Longrightarrow> same_flight c rec"
    and r: "refresh_finish V k t host person account rec stored (Inr fresh) = (k', tok)"
  shows "tok = Some (ot_accessToken fresh) \<and>
    Option.bind (connectorRecord V k' host person account) (\<lambda>c. map_option (\<lambda>x. (ot_accessToken x, ot_refreshToken x)) (recToOAuthToken V c)) =
      Some (ot_accessToken fresh, when_truthy (ot_refreshToken fresh))"
proof -
  have "(k', tok) = (setConnectorToken V k t host person (merged_token stored fresh) account, Some (ot_accessToken fresh))"
    using r ok cur by (auto simp: refresh_finish_def refresh_failed_def split: option.splits)
  moreover have "connectorRecord V (setConnectorToken V k t host person (merged_token stored fresh) account) host person account =
      Some (token_record V t host person (merged_token stored fresh) account (dm_get (ks_creds k) (oauthId V host person account)))"
    by (simp add: connectorRecord_def setConnectorToken_def putConnectorToken_def Let_def dm.get_put)
  moreover obtain x where "recToOAuthToken V (token_record V t host person (merged_token stored fresh) account
      (dm_get (ks_creds k) (oauthId V host person account))) = Some x" "ot_accessToken x = ot_accessToken fresh"
      "ot_refreshToken x = when_truthy (ot_refreshToken fresh)"
    using token_record_read[where V = V and token = "merged_token stored fresh", OF dec enc, of t host person account "dm_get (ks_creds k) (oauthId V host person account)"]
    by (auto simp: merged_token_def)
  ultimately show ?thesis by simp
qed

text \<open>What follows the remote refresh of a connector's token, whatever happened to the keychain meanwhile. If another
  request changed the record since it was read, nothing is written and the caller gets the newer token. If the refresh
  failed, or returned an empty token, no stored secret changes and nothing is returned. Otherwise the new token is returned
  and the stored record decrypts to it, with the refresh token the service sent: also when the record was deleted
  meanwhile, which brings back a connector that its owner has disconnected.\<close>

theorem refresh_outcome:
  assumes r: "refresh_finish V k t host person account rec stored result = (k', tok)"
    and dec: "\<And>s. vt_decrypt V (vt_encrypt V s) = Some s" and enc: "\<And>s. s \<noteq> [] \<Longrightarrow> vt_encrypt V s \<noteq> []"
  shows "(\<forall>c. dm_get (ks_creds k) (kc_id rec) = Some c \<and> \<not> same_flight c rec \<longrightarrow>
       k' = k \<and> tok = (if refresh_failed result then None else map_option ot_accessToken (recToOAuthToken V c))) \<and>
    (refresh_failed result \<longrightarrow> tok = None \<and>
       (\<forall>i. map_option kc_secretEnc (dm_get (ks_creds k') i) = map_option kc_secretEnc (dm_get (ks_creds k) i))) \<and>
    (\<forall>fresh. result = Inr fresh \<and> \<not> refresh_failed result \<and>
       (case dm_get (ks_creds k) (kc_id rec) of None \<Rightarrow> True | Some c \<Rightarrow> same_flight c rec) \<longrightarrow>
       tok = Some (ot_accessToken fresh) \<and>
       Option.bind (connectorRecord V k' host person account) (\<lambda>c. map_option (\<lambda>x. (ot_accessToken x, ot_refreshToken x)) (recToOAuthToken V c)) =
         Some (ot_accessToken fresh, when_truthy (ot_refreshToken fresh)))"
proof (intro conjI allI impI)
  fix c
  assume "dm_get (ks_creds k) (kc_id rec) = Some c \<and> \<not> same_flight c rec"
  then show "k' = k" "tok = (if refresh_failed result then None else map_option ot_accessToken (recToOAuthToken V c))"
    using r by (auto simp: refresh_finish_def refresh_failed_def markConnectorRefreshFailure_def split: sum.splits)
next
  assume f: "refresh_failed result"
  then obtain e where e: "(k', tok) = (markConnectorRefreshFailure k t rec e, None)"
    using r by (auto simp: refresh_finish_def refresh_failed_def split: sum.splits if_splits)
  then show "tok = None" by simp
  fix i
  show "map_option kc_secretEnc (dm_get (ks_creds k') i) = map_option kc_secretEnc (dm_get (ks_creds k) i)"
    using e refresh_fail_secrets by simp
next
  fix fresh
  assume a: "result = Inr fresh \<and> \<not> refresh_failed result \<and> (case dm_get (ks_creds k) (kc_id rec) of None \<Rightarrow> True | Some c \<Rightarrow> same_flight c rec)"
  then have ok: "\<not> refresh_failed (Inr fresh)" and cur: "\<And>c. dm_get (ks_creds k) (kc_id rec) = Some c \<Longrightarrow> same_flight c rec"
    and r': "refresh_finish V k t host person account rec stored (Inr fresh) = (k', tok)" using r by auto
  note stored_facts = refresh_stored[OF dec enc ok cur r']
  show "tok = Some (ot_accessToken fresh)" "Option.bind (connectorRecord V k' host person account)
      (\<lambda>c. map_option (\<lambda>x. (ot_accessToken x, ot_refreshToken x)) (recToOAuthToken V c)) = Some (ot_accessToken fresh, when_truthy (ot_refreshToken fresh))"
    using stored_facts by simp_all
qed

definition plain_token :: "string \<Rightarrow> OAuthToken" where
  "plain_token a = \<lparr>ot_accessToken = a, ot_refreshToken = Some ''r'', ot_expiresAt = Some 9, ot_grantedScopes = None, ot_clientRef = None,
     ot_accountType = None, ot_orgId = None, ot_idToken = None, ot_accountId = None\<rparr>"

definition disconnected_refresh :: "keychain \<times> string option" where
  "disconnected_refresh =
     (let (k1, rec) = putConnectorToken plain_vault empty_keychain 5 ''Api.dev'' ''ann'' (plain_token ''old'') None;
          k2 = deleteConnectorToken plain_vault (\<lambda>j k. k) (\<lambda>j. 6) k1 ''Api.dev'' ''ann'' None in
      refresh_finish plain_vault k2 7 ''api.dev'' ''ann'' None rec (plain_token ''old'') (Inr (plain_token ''new'')))"

theorem refresh_outcome_witness:
  "snd disconnected_refresh = Some ''new'' \<and>
   map_option kc_secretEnc (connectorRecord plain_vault (fst disconnected_refresh) ''api.dev'' ''ann'' None) = Some ''new''"
proof -
  let ?rec = "token_record plain_vault 5 ''Api.dev'' ''ann'' (plain_token ''old'') None None"
  obtain k1 where k1: "putConnectorToken plain_vault empty_keychain 5 ''Api.dev'' ''ann'' (plain_token ''old'') None = (k1, ?rec)"
    by (simp add: putConnectorToken_def empty_keychain_def dm_get_def Let_def)
  let ?k2 = "deleteConnectorToken plain_vault (\<lambda>j k. k) (\<lambda>j. 6) k1 ''Api.dev'' ''ann'' None"
  have gone: "dm_get (ks_creds ?k2) (kc_id ?rec) = None"
    by (simp add: deleteConnectorToken_def deleteCredential_def delete_write_def dm.get_del token_record_def Let_def)
  obtain k' tok where r: "refresh_finish plain_vault ?k2 7 ''api.dev'' ''ann'' None ?rec (plain_token ''old'') (Inr (plain_token ''new'')) = (k', tok)"
    by (cases "refresh_finish plain_vault ?k2 7 ''api.dev'' ''ann'' None ?rec (plain_token ''old'') (Inr (plain_token ''new''))")
  have d: "disconnected_refresh = (k', tok)" by (simp add: disconnected_refresh_def Let_def k1 r)
  have v: "vt_decrypt plain_vault = Some" "vt_encrypt plain_vault = (\<lambda>s. s)" by (simp_all add: plain_vault_def)
  have pt: "ot_accessToken (plain_token a) = a" "ot_refreshToken (plain_token a) = Some ''r''" for a by (simp_all add: plain_token_def)
  from refresh_outcome[OF r] have "tok = Some ''new''"
    "Option.bind (connectorRecord plain_vault k' ''api.dev'' ''ann'' None) (\<lambda>c. map_option (\<lambda>x. (ot_accessToken x, ot_refreshToken x)) (recToOAuthToken plain_vault c)) =
      Some (''new'', when_truthy (Some ''r''))"
    by (simp_all add: v gone refresh_failed_def pt)
  then show ?thesis by (auto simp: d v recToOAuthToken_def bind_eq_Some_conv split: option.splits)
qed

end
