(* ===== verification/Run_Trigger.thy ===== *)
theory Run_Trigger
  imports Reach Run_Store Service_Guards
begin

text \<open>
  Firing a trigger (\<open>src/src/triggers/run-trigger.ts\<close>): a schedule, a webhook or a monitor starts a turn in the name of a
  person and delivers its reply, once per fire key. The turn is an argument: a function from the request and the stores to
  the stores and a result, \<^const>\<open>Inl\<close> when it throws, so that whatever the turn and others do to the stores meanwhile is
  covered. The lookups of directory, sessions and members answer; of \<open>directory.get\<close>, \<open>groupMembership\<close> and
  \<open>listByParticipant\<close>, whose failures the code catches, a failure is the answer the code puts in its place.
\<close>

section \<open>Data\<close>

record TriggerDirectory = VisibilityDirectory +
  td_displayName :: "string \<Rightarrow> string option"
  td_channelPrivacy :: "(string \<Rightarrow> bool option) option"
  td_groupMembership :: "(string \<Rightarrow> string \<Rightarrow> bool option) option"

record TriggerDeps =
  tg_classify :: "string \<Rightarrow> PrincipalType"
  tg_currentScopeMembers :: "(ScopeId \<Rightarrow> Principal list option) option"
  tg_directory :: "TriggerDirectory option"
  tg_sessions :: "(string \<Rightarrow> ScopeId list) option"

record trigger_world =
  tw_idempotency :: idempotency
  tw_deliveries :: delivery_store

text \<open>\<open>onClaimed\<close> is what the callback does to the stores, or the message of the error it throws.\<close>

record TriggerSpec =
  ts_title :: "string option"
  ts_owner :: string
  ts_ownerScopeId :: ScopeId
  ts_input :: string
  ts_securityScreenData :: "string option"
  ts_fireKey :: string
  ts_surface :: string
  ts_destination :: "Destination option"
  ts_message :: "string option"
  ts_threadRef :: "string option"
  ts_runAs :: "RunAs option"
  ts_unattendedGrants :: "string list option"
  ts_members :: "Principal list option"
  ts_recipientConsent :: "RecipientConsent option"
  ts_recipientConsentRequired :: "bool option"
  ts_shadow :: bool
  ts_thinkingLevel :: "string option"
  ts_readOnly :: bool
  ts_turnWallClockMs :: "int option"
  ts_errorNotice :: "(string \<Rightarrow> string) option"
  ts_onClaimed :: "trigger_world \<Rightarrow> string + trigger_world"
  ts_deferWhenBusy :: bool

record TriggerTurnResult = turn_result +
  tr_attachments :: "json list option"
  tr_sourceUserSeq :: "int option"
  tr_sourceAssistantEntrySeq :: "int option"

record TriggerOutcome =
  to_authzFailed :: bool
  to_ran :: bool
  to_deferred :: bool
  to_status :: "turn_status option"
  to_note :: "string option"
  to_userNote :: "string option"
  to_reply :: "string option"
  to_sessionId :: "string option"

text \<open>The request of the turn, with the fields \<open>runTrigger\<close> gives it; \<open>triggered\<close> is always true.\<close>

record trigger_conversation =
  tc_kind :: ConversationKind
  tc_channelRef :: "string option"
  tc_threadRef :: string
  tc_audience :: "(string \<times> string list option) list option"

record trigger_request =
  tq_surface :: string
  tq_actor :: string
  tq_conversation :: trigger_conversation
  tq_text :: string
  tq_securityScreenData :: "string option"
  tq_unattendedGrants :: "string list option"
  tq_thinkingLevel :: "string option"
  tq_fastMode :: "bool option"
  tq_readOnly :: bool
  tq_turnWallClockMs :: "int option"
  tq_triggerDestination :: "Destination option"
  tq_live :: bool
  tq_ownerKeychainUnion :: bool
  tq_idempotencyKey :: string

type_synonym turn_effect = "trigger_request \<Rightarrow> trigger_world \<Rightarrow> trigger_world \<times> (string + TriggerTurnResult)"

section \<open>Options and texts\<close>

definition NON_INTERACTIVE_THINKING_LEVEL :: string where "NON_INTERACTIVE_THINKING_LEVEL = ''xhigh''"
definition NON_INTERACTIVE_FAST_MODE :: bool where "NON_INTERACTIVE_FAST_MODE = False"

definition turnModelOptions :: "bool \<Rightarrow> string option \<Rightarrow> bool option \<Rightarrow> string option \<times> bool option" where
  "turnModelOptions triggered thinkingLevel fastMode =
     (let level = (if \<not> truthy thinkingLevel \<and> triggered then Some NON_INTERACTIVE_THINKING_LEVEL else thinkingLevel);
          fast = (if fastMode = None \<and> triggered then Some NON_INTERACTIVE_FAST_MODE else fastMode)
      in (if truthy level then level else None, fast))"

definition GENERIC_FAILURE_CLAUSE :: string where "GENERIC_FAILURE_CLAUSE = ''something went wrong on my end''"
definition SESSION_BUSY_CLAUSE :: string where "SESSION_BUSY_CLAUSE = ''the conversation was busy with another task''"

definition SECURITY_QUARANTINE_REFUSAL_TEXT :: string where
  "SECURITY_QUARANTINE_REFUSAL_TEXT = ''I couldn't act because my security screen flagged part of this message or its conversation context. Please retry without the flagged context, or ask an admin to review the quarantine.''"

definition userFacingFailureClause :: "('a) turn_result_scheme \<Rightarrow> string" where
  "userFacingFailureClause result =
     (if tr_refusalKind result = Some SecurityQuarantine then SECURITY_QUARANTINE_REFUSAL_TEXT
      else if tr_refusalKind result = Some SessionBusy then SESSION_BUSY_CLAUSE
      else if tr_status result = TFailed \<or> \<not> truthy (tr_reason result) then GENERIC_FAILURE_CLAUSE
      else the (tr_reason result))"

definition MEMBERSHIP_SKIP_NOTE :: string where
  "MEMBERSHIP_SKIP_NOTE = ''the acting person is no longer a member of this trigger's home scope - run skipped''"

definition UNKNOWN_HOME_SKIP_NOTE :: string where
  "UNKNOWN_HOME_SKIP_NOTE = ''this trigger's home scope is missing from the directory snapshot (roster sync gap) and the acting person has no session there - run skipped''"

definition isTriggerFailure :: "TriggerOutcome \<Rightarrow> bool" where
  "isTriggerFailure outcome \<longleftrightarrow>
     to_ran outcome \<and> to_status outcome \<noteq> None \<and> to_status outcome \<noteq> Some TOk \<and> to_status outcome \<noteq> Some TSilent"

definition SILENT_POLL_MARKERS :: "string list" where
  "SILENT_POLL_MARKERS = [''[no-update]'', ''no_reply'', ''[silent]'']"

definition isPollSurface :: "string \<Rightarrow> bool" where
  "isPollSurface surface \<longleftrightarrow> surface \<in> set [''cron'', ''webhook'', ''monitor'']"

text \<open>\<open>split(/\r?\n/)\<close>: the carriage return that remains at the end of a line goes with the trimming of the line.\<close>

definition isSilentPollReply :: "string \<Rightarrow> bool" where
  "isSilentPollReply reply =
     (case find (\<lambda>line. trim line \<noteq> []) (rev (split_char (CHR 0x0A) reply)) of
        None \<Rightarrow> True
      | Some line \<Rightarrow> toLowerCase (trim line) \<in> set SILENT_POLL_MARKERS)"

fun turn_status_name :: "turn_status \<Rightarrow> string" where
  "turn_status_name TOk = ''ok''"
| "turn_status_name TRefused = ''refused''"
| "turn_status_name TFailed = ''failed''"
| "turn_status_name TPendingApproval = ''pending_approval''"
| "turn_status_name TQueued = ''queued''"
| "turn_status_name TSilent = ''silent''"
| "turn_status_name TReact = ''react''"

definition deliveryProvenance :: "TriggerSpec \<Rightarrow> string \<Rightarrow> TriggerTurnResult option \<Rightarrow> DeliveryProvenance" where
  "deliveryProvenance spec threadRef res =
     \<lparr>dp_sourceTitle = (if truthy (ts_title spec) then ts_title spec else None), dp_trigger = ts_surface spec,
      dp_surface = ts_surface spec, dp_fireKey = ts_fireKey spec, dp_sourceScopeId = ts_ownerScopeId spec,
      dp_sourceThreadRef = threadRef,
      dp_sourceSessionId = (let s = Option.bind res tr_sessionId in if truthy s then s else None),
      dp_sourceUserSeq = Option.bind res tr_sourceUserSeq,
      dp_sourceAssistantEntrySeq = Option.bind res tr_sourceAssistantEntrySeq\<rparr>"

definition relayAttribution :: "TriggerDeps \<Rightarrow> TriggerSpec \<Rightarrow> string option" where
  "relayAttribution deps spec =
     (if ts_message spec = None then None else Option.bind (tg_directory deps) (\<lambda>d. td_displayName d (ts_owner spec)))"

section \<open>Who acts, and what they may see\<close>

definition participatesInScope :: "TriggerDeps \<Rightarrow> string \<Rightarrow> ScopeId \<Rightarrow> bool" where
  "participatesInScope deps actorId scope = (case tg_sessions deps of None \<Rightarrow> False | Some f \<Rightarrow> scope \<in> set (f actorId))"

text \<open>\<^const>\<open>None\<close> is \<open>{ok: true}\<close>, otherwise the note.\<close>

definition group_access :: "TriggerDeps \<Rightarrow> TriggerDirectory \<Rightarrow> string \<Rightarrow> string \<Rightarrow> ScopeId \<Rightarrow> bool \<Rightarrow> string option" where
  "group_access deps dir actorId r scope snapshotGap =
     (if isVisible dir actorId (Group_room r) then None
      else if snapshotGap then (if participatesInScope deps actorId scope then None else Some UNKNOWN_HOME_SKIP_NOTE)
      else if Option.bind (td_groupMembership dir) (\<lambda>f. f r actorId) = None \<and> participatesInScope deps actorId scope then None
      else Some MEMBERSHIP_SKIP_NOTE)"

definition channel_access :: "TriggerDeps \<Rightarrow> TriggerDirectory \<Rightarrow> string \<Rightarrow> string \<Rightarrow> ScopeId \<Rightarrow> string option" where
  "channel_access deps dir actorId r scope =
     (case Option.bind (td_channelPrivacy dir) (\<lambda>f. f r) of
        None \<Rightarrow> if participatesInScope deps actorId scope then None else Some UNKNOWN_HOME_SKIP_NOTE
      | Some isPrivate \<Rightarrow> if isVisible dir actorId (Channel_room r (Some isPrivate)) then None else Some MEMBERSHIP_SKIP_NOTE)"

definition actorMayReadScope ::
  "TriggerDeps \<Rightarrow> string \<Rightarrow> ScopeKind option \<Rightarrow> string \<Rightarrow> ScopeId \<Rightarrow> bool \<Rightarrow> string option" where
  "actorMayReadScope deps actorId kind r scope snapshotGap =
     (if r = [] then Some MEMBERSHIP_SKIP_NOTE
      else if kind = Some personal then (if samePerson (Some actorId) (Some r) then None else Some MEMBERSHIP_SKIP_NOTE)
      else case tg_directory deps of
        None \<Rightarrow> if kind \<noteq> Some group \<and> kind \<noteq> Some channel then None else Some MEMBERSHIP_SKIP_NOTE
      | Some dir \<Rightarrow>
          if kind = Some group then group_access deps dir actorId r scope snapshotGap
          else if kind \<noteq> Some channel then None
          else channel_access deps dir actorId r scope)"

definition destinationVisible :: "TriggerDeps \<Rightarrow> string \<Rightarrow> Destination \<Rightarrow> bool" where
  "destinationVisible deps actorId destination =
     (case tg_directory deps of
        None \<Rightarrow> True
      | Some dir \<Rightarrow>
          let i = takeWhile (\<lambda>c. c \<noteq> CHR '':'') (d_target destination) in
          if d_type destination = ''slack'' then
            (case (if truthy (d_audienceScopeId destination) then parseScopeId (the (d_audienceScopeId destination)) else (None, [])) of
               (Some personal, r) \<Rightarrow> isVisible dir actorId (Dm_of r)
             | (Some group, _) \<Rightarrow> isVisible dir actorId (Group_room i)
             | _ \<Rightarrow> isVisible dir actorId (Channel_room i None))
          else if d_type destination = ''group'' then isVisible dir actorId (Group_room i)
          else True)"

text \<open>Who acts: the owner, or in a floor of members the first internal member where the owner is none.\<close>

definition acting_person :: "TriggerDeps \<Rightarrow> TriggerSpec \<Rightarrow> Principal list option \<Rightarrow> string + string" where
  "acting_person deps spec current =
     (let members = nullish current (nullish (ts_members spec) []) in
      if ts_runAs spec = Some run_scopeFloor then
        (let internals = filter (\<lambda>m. p_type m = internal \<and> tg_classify deps (p_id m) = internal) members in
         if internals = [] then Inl ''scopeFloor cron has no internal members left''
         else if list_ex (\<lambda>m. samePerson (Some (p_id m)) (Some (ts_owner spec))) internals then Inr (ts_owner spec)
         else Inr (p_id (hd internals)))
      else if tg_classify deps (ts_owner spec) \<noteq> internal then Inl ''owner is no longer an internal principal''
      else if ts_runAs spec = Some run_scopeShared \<and>
              (case current of None \<Rightarrow> False | Some ms \<Rightarrow> \<not> list_ex (\<lambda>m. samePerson (Some (p_id m)) (Some (ts_owner spec))) ms)
      then Inl ''scopeShared owner is no longer a current scope member''
      else Inr (ts_owner spec))"

definition trigger_conversation_of :: "TriggerSpec \<Rightarrow> Principal list option \<Rightarrow> trigger_conversation" where
  "trigger_conversation_of spec current =
     (let members = nullish current (nullish (ts_members spec) []);
          shared = (ts_runAs spec = Some run_scopeFloor \<or> ts_runAs spec = Some run_scopeShared);
          audience = (if shared \<and> members \<noteq> [] then Some (map (\<lambda>m. (p_id m, teamIds m)) members) else None);
          threadRef = nullish (ts_threadRef spec) (ts_fireKey spec) in
      case parseScopeId (ts_ownerScopeId spec) of
        (Some channel, r) \<Rightarrow> \<lparr>tc_kind = conv_channel, tc_channelRef = Some r, tc_threadRef = threadRef, tc_audience = audience\<rparr>
      | (Some group, r) \<Rightarrow> \<lparr>tc_kind = conv_group, tc_channelRef = Some r, tc_threadRef = threadRef, tc_audience = audience\<rparr>
      | _ \<Rightarrow> \<lparr>tc_kind = conv_dm, tc_channelRef = None, tc_threadRef = threadRef, tc_audience = None\<rparr>)"

definition home_access :: "TriggerDeps \<Rightarrow> TriggerSpec \<Rightarrow> Principal list option \<Rightarrow> string \<Rightarrow> string option" where
  "home_access deps spec current actorId =
     (case current of
        Some ms \<Rightarrow> if list_ex (\<lambda>m. samePerson (Some (p_id m)) (Some actorId)) ms then None else Some MEMBERSHIP_SKIP_NOTE
      | None \<Rightarrow>
          if tg_directory deps = None then None
          else case parseScopeId (ts_ownerScopeId spec) of
            (kind, r) \<Rightarrow> actorMayReadScope deps actorId kind r (ts_ownerScopeId spec) (tg_currentScopeMembers deps \<noteq> None))"

section \<open>The fire\<close>

record trigger_plan =
  tp_actor :: string
  tp_conversation :: trigger_conversation
  tp_homeNote :: "string option"
  tp_deliverable :: bool
  tp_consented :: bool
  tp_live :: bool

definition NOT_VISIBLE_NOTE :: string where
  "NOT_VISIBLE_NOTE = ''destination is no longer visible to the cron owner - delivery skipped''"

definition consent_note :: "TriggerSpec \<Rightarrow> string" where
  "consent_note spec =
     (if map_option rc_status (ts_recipientConsent spec) = Some consent_declined then ''recipient turned this delivery off - skipped''
      else ''awaiting the recipient's consent - delivery skipped'')"

definition destination_deliverable :: "TriggerDeps \<Rightarrow> TriggerSpec \<Rightarrow> string \<Rightarrow> string option \<Rightarrow> bool" where
  "destination_deliverable deps spec actorId homeNote =
     (case ts_destination spec of
        None \<Rightarrow> True
      | Some d \<Rightarrow> (d_audienceScopeId d = Some (ts_ownerScopeId spec) \<and> homeNote = None) \<or> destinationVisible deps actorId d)"

definition trigger_consented :: "TriggerSpec \<Rightarrow> bool" where
  "trigger_consented spec = recipientConsentSatisfied (ts_recipientConsent spec)
     (consentRequiredRecipient (ts_owner spec) (ts_recipientConsentRequired spec = Some True) (ts_destination spec))"

text \<open>Everything that is decided before the fire key is claimed; \<^const>\<open>Inl\<close> is the note of a failed authorisation.\<close>

definition plan_trigger :: "TriggerDeps \<Rightarrow> TriggerSpec \<Rightarrow> string + trigger_plan" where
  "plan_trigger deps spec =
     (let current = Option.bind (tg_currentScopeMembers deps) (\<lambda>f. f (ts_ownerScopeId spec)) in
      case acting_person deps spec current of
        Inl n \<Rightarrow> Inl n
      | Inr actorId \<Rightarrow>
          let homeNote = home_access deps spec current actorId;
              deliverable = destination_deliverable deps spec actorId homeNote in
          Inr \<lparr>tp_actor = actorId, tp_conversation = trigger_conversation_of spec current, tp_homeNote = homeNote,
               tp_deliverable = deliverable, tp_consented = trigger_consented spec,
               tp_live = (ts_surface spec = ''monitor'' \<and> ts_destination spec \<noteq> None \<and> trigger_consented spec \<and> deliverable)\<rparr>)"

definition trigger_request_of :: "TriggerSpec \<Rightarrow> trigger_plan \<Rightarrow> trigger_request" where
  "trigger_request_of spec p =
     (let opts = turnModelOptions True (if truthy (ts_thinkingLevel spec) then ts_thinkingLevel spec else None) None;
          shared = (ts_runAs spec = Some run_scopeShared) in
      \<lparr>tq_surface = ts_surface spec, tq_actor = tp_actor p, tq_conversation = tp_conversation p, tq_text = ts_input spec,
       tq_securityScreenData = ts_securityScreenData spec,
       tq_unattendedGrants = (if ts_runAs spec \<noteq> Some run_scopeFloor \<and> \<not> shared then ts_unattendedGrants spec else None),
       tq_thinkingLevel = fst opts, tq_fastMode = snd opts, tq_readOnly = ts_readOnly spec,
       tq_turnWallClockMs = ts_turnWallClockMs spec, tq_triggerDestination = ts_destination spec, tq_live = tp_live p,
       tq_ownerKeychainUnion = shared, tq_idempotencyKey = ts_fireKey spec\<rparr>)"

text \<open>What the closure of a fire leaves in the variables of the caller.\<close>

record fire_result =
  fr_status :: "turn_status option"
  fr_note :: "string option"
  fr_userNote :: "string option"
  fr_reply :: "string option"
  fr_sessionId :: "string option"

definition no_result :: fire_result where
  "no_result = \<lparr>fr_status = None, fr_note = None, fr_userNote = None, fr_reply = None, fr_sessionId = None\<rparr>"

datatype fire_failure = fire_deferred | fire_thrown string

definition enqueue_to :: "EnqueueDelivery \<Rightarrow> int \<Rightarrow> string \<Rightarrow> trigger_world \<Rightarrow> trigger_world" where
  "enqueue_to e t uuid w = w\<lparr>tw_deliveries := fst (enqueue_delivery e t uuid (tw_deliveries w))\<rparr>"

definition skip_notice :: "TriggerSpec \<Rightarrow> string \<Rightarrow> EnqueueDelivery" where
  "skip_notice spec threadRef =
     \<lparr>ed_destination = principalDestination (ts_owner spec) (ts_owner spec), ed_text = ''Scheduled delivery skipped: '' @ consent_note spec,
      ed_attachments = None, ed_provenance = Some (deliveryProvenance spec threadRef None),
      ed_idempotencyKey = ts_fireKey spec @ '':err'', ed_shadow = ts_shadow spec\<rparr>"

definition reply_delivery ::
  "TriggerSpec \<Rightarrow> Destination \<Rightarrow> string \<Rightarrow> json list option \<Rightarrow> string option \<Rightarrow> TriggerTurnResult option \<Rightarrow> EnqueueDelivery" where
  "reply_delivery spec d msg attachments attributeAs res =
     reach_delivery \<lparr>re_destination = d, re_text = msg, re_attachments = attachments, re_idempotencyKey = ts_fireKey spec,
       re_provenance = Some (deliveryProvenance spec (nullish (ts_threadRef spec) (ts_fireKey spec)) res),
       re_attributeAs = (if truthy attributeAs then attributeAs else None), re_shadow = ts_shadow spec\<rparr>"

text \<open>The gate in front of the destination: consent first, then visibility.\<close>

definition deliver_gated ::
  "TriggerSpec \<Rightarrow> trigger_plan \<Rightarrow> (Destination \<Rightarrow> EnqueueDelivery) \<Rightarrow> int \<Rightarrow> string \<Rightarrow> fire_result \<Rightarrow> trigger_world \<Rightarrow>
     trigger_world \<times> fire_result" where
  "deliver_gated spec p msg t uuid r w =
     (case ts_destination spec of
        None \<Rightarrow> (w, r)
      | Some d \<Rightarrow>
          if \<not> tp_consented p
          then (enqueue_to (skip_notice spec (nullish (ts_threadRef spec) (ts_fireKey spec))) t uuid w,
                r\<lparr>fr_status := Some TRefused, fr_note := Some (consent_note spec)\<rparr>)
          else if \<not> tp_deliverable p then (w, r\<lparr>fr_status := Some TRefused, fr_note := Some NOT_VISIBLE_NOTE\<rparr>)
          else (enqueue_to (msg d) t uuid w, r))"

definition some_reply :: "TriggerTurnResult \<Rightarrow> bool" where
  "some_reply res \<longleftrightarrow> truthy (tr_reply res) \<or> nullish (tr_attachments res) [] \<noteq> []"

text \<open>What follows the turn.\<close>

definition after_turn ::
  "TriggerSpec \<Rightarrow> trigger_plan \<Rightarrow> TriggerTurnResult \<Rightarrow> int \<Rightarrow> string \<Rightarrow> trigger_world \<Rightarrow> trigger_world \<times> (fire_failure + fire_result)" where
  "after_turn spec p res t uuid w =
     (let r = no_result\<lparr>fr_status := Some (tr_status res), fr_reply := tr_reply res, fr_sessionId := tr_sessionId res\<rparr> in
      if ts_deferWhenBusy spec \<and> tr_refusalKind res = Some SessionBusy then (w, Inl fire_deferred)
      else if tr_status res = TSilent then (w, Inr r)
      else if tr_status res = TPendingApproval
      then (w, Inr (r\<lparr>fr_note := Some ''hit a require_approval command - failed closed (no human at fire/event time)''\<rparr>))
      else if tr_status res = TOk \<and> some_reply res
      then (if tp_live p then (w, Inr r)
            else map_prod id Inr (deliver_gated spec p
                   (\<lambda>d. reply_delivery spec d (nullish (tr_reply res) []) (some_attachments (tr_attachments res)) None (Some res)) t uuid r w))
      else if tr_status res = TOk then (w, Inr (r\<lparr>fr_note := Some ''produced no reply''\<rparr>))
      else (w, Inr (r\<lparr>fr_note := Some (if truthy (tr_reason res) then turn_status_name (tr_status res) @ '': '' @ the (tr_reason res)
                                      else turn_status_name (tr_status res)),
                     fr_userNote := Some (userFacingFailureClause res)\<rparr>)))"

text \<open>The effect that \<open>once\<close> guards; \<open>uuid\<close> is the id of a delivery it makes.\<close>

definition fire_body ::
  "TriggerDeps \<Rightarrow> turn_effect \<Rightarrow> TriggerSpec \<Rightarrow> trigger_plan \<Rightarrow> int \<Rightarrow> string \<Rightarrow> trigger_world \<Rightarrow> trigger_world \<times> (fire_failure + fire_result)" where
  "fire_body deps run spec p t uuid w =
     (case ts_onClaimed spec w of
        Inl e \<Rightarrow> (w, Inl (fire_thrown e))
      | Inr w1 \<Rightarrow>
          (case ts_message spec of
             Some msg \<Rightarrow> map_prod id Inr (deliver_gated spec p
                 (\<lambda>d. reply_delivery spec d msg None (relayAttribution deps spec) None) t uuid (no_result\<lparr>fr_status := Some TOk\<rparr>) w1)
           | None \<Rightarrow>
               (case tp_homeNote p of
                  Some n \<Rightarrow> (w1, Inr (no_result\<lparr>fr_note := Some n\<rparr>))
                | None \<Rightarrow>
                    (case run (trigger_request_of spec p) w1 of
                       (w2, Inl e) \<Rightarrow> (w2, Inl (fire_thrown e))
                     | (w2, Inr res) \<Rightarrow> after_turn spec p res t uuid w2))))"

definition outcome_of_result :: "bool \<Rightarrow> bool \<Rightarrow> fire_result \<Rightarrow> TriggerOutcome" where
  "outcome_of_result was_run deferred r =
     \<lparr>to_authzFailed = False, to_ran = was_run, to_deferred = deferred, to_status = fr_status r,
      to_note = (if truthy (fr_note r) then fr_note r else None), to_userNote = (if truthy (fr_userNote r) then fr_userNote r else None),
      to_reply = fr_reply r, to_sessionId = (if truthy (fr_sessionId r) then fr_sessionId r else None)\<rparr>"

definition error_notice :: "TriggerSpec \<Rightarrow> Destination \<Rightarrow> (string \<Rightarrow> string) \<Rightarrow> fire_result \<Rightarrow> EnqueueDelivery" where
  "error_notice spec d notice r =
     \<lparr>ed_destination = d,
      ed_text = notice (case fr_userNote r of Some n \<Rightarrow> n | None \<Rightarrow> nullish (fr_note r) (turn_status_name (the (fr_status r)))),
      ed_attachments = None, ed_provenance = Some (deliveryProvenance spec (nullish (ts_threadRef spec) (ts_fireKey spec)) None),
      ed_idempotencyKey = ts_fireKey spec @ '':err'', ed_shadow = ts_shadow spec\<rparr>"

definition finish_trigger ::
  "TriggerSpec \<Rightarrow> trigger_plan \<Rightarrow> bool \<Rightarrow> bool \<Rightarrow> fire_result \<Rightarrow> int \<Rightarrow> string \<Rightarrow> trigger_world \<Rightarrow> trigger_world \<times> TriggerOutcome" where
  "finish_trigger spec p was_run deferred r t uuid w =
     (let outcome = outcome_of_result was_run deferred r in
      case (ts_errorNotice spec, ts_destination spec) of
        (Some notice, Some d) \<Rightarrow>
          if tp_consented p \<and> tp_deliverable p \<and> isTriggerFailure outcome
          then (enqueue_to (error_notice spec d notice r) t uuid w, outcome) else (w, outcome)
      | _ \<Rightarrow> (w, outcome))"

definition failed_authorisation :: "string \<Rightarrow> TriggerOutcome" where
  "failed_authorisation n =
     \<lparr>to_authzFailed = True, to_ran = False, to_deferred = False, to_status = None, to_note = Some n, to_userNote = None,
      to_reply = None, to_sessionId = None\<rparr>"

text \<open>\<open>t0\<close> is the time of the claim, \<open>t1\<close> that of what the fire delivers, \<open>t2\<close> the time of its end; \<^const>\<open>Inl\<close> is an error
  thrown. The two ids are those of deliveries.\<close>

definition runTrigger ::
  "TriggerDeps \<Rightarrow> turn_effect \<Rightarrow> TriggerSpec \<Rightarrow> int \<Rightarrow> int \<Rightarrow> int \<Rightarrow> string \<Rightarrow> string \<Rightarrow> trigger_world \<Rightarrow> trigger_world \<times> (string + TriggerOutcome)" where
  "runTrigger deps run spec t0 t1 t2 u1 u2 w =
     (case plan_trigger deps spec of
        Inl n \<Rightarrow> (w, Inr (failed_authorisation n))
      | Inr p \<Rightarrow>
          (case once_begin (ts_fireKey spec) t0 (tw_idempotency w) of
             (i, False) \<Rightarrow> map_prod id Inr (finish_trigger spec p False False no_result t2 u2 (w\<lparr>tw_idempotency := i\<rparr>))
           | (i, True) \<Rightarrow>
               (case fire_body deps run spec p t1 u1 (w\<lparr>tw_idempotency := i\<rparr>) of
                  (w1, Inl (fire_thrown e)) \<Rightarrow> (w1\<lparr>tw_idempotency := once_throw (ts_fireKey spec) (tw_idempotency w1)\<rparr>, Inl e)
                | (w1, Inl fire_deferred) \<Rightarrow>
                    map_prod id Inr (finish_trigger spec p False True no_result t2 u2
                      (w1\<lparr>tw_idempotency := once_throw (ts_fireKey spec) (tw_idempotency w1)\<rparr>))
                | (w1, Inr r) \<Rightarrow>
                    map_prod id Inr (finish_trigger spec p True False r t2 u2
                      (w1\<lparr>tw_idempotency := once_commit (ts_fireKey spec) t2 (tw_idempotency w1)\<rparr>)))))"

end
