(* ===== verification/Trigger_Properties.thy ===== *)
theory Trigger_Properties
  imports Run_Trigger Guard_Properties
begin

text \<open>
  What firing a trigger promises: what it puts into the outbox goes to the owner, or to the destination with the consent
  of the person it is for and within sight of the person who acts; a turn is run only for somebody who may act; and once
  per fire key.
\<close>

section \<open>What a fire delivers\<close>

lemma set_updateD: "x \<in> set (AList.update k v m) \<Longrightarrow> x = (k, v) \<or> x \<in> set m"
  by (induction m) (auto split: if_splits)

text \<open>An enqueued delivery adds or revives one delivery, to the destination it was enqueued for.\<close>

lemma enqueue_new:
  assumes "x \<in> set (ds_deliveries (fst (enqueue_delivery e t uuid s)))" "x \<notin> set (ds_deliveries s)"
  shows "dv_destination (snd x) = ed_destination e"
  using assms by (auto simp: enqueue_delivery_def put_delivery_def wake_def new_delivery_def revive_def Let_def
      dest!: set_updateD split: option.splits if_splits)

definition fresh_deliveries :: "trigger_world \<Rightarrow> trigger_world \<Rightarrow> Destination set" where
  "fresh_deliveries w w' = (\<lambda>x. dv_destination (snd x)) ` (set (ds_deliveries (tw_deliveries w')) - set (ds_deliveries (tw_deliveries w)))"

lemma fresh_same: "tw_deliveries w' = tw_deliveries w \<Longrightarrow> fresh_deliveries w w' = {}"
  by (simp add: fresh_deliveries_def)

lemma fresh_enqueue: "fresh_deliveries w (enqueue_to e t uuid w) \<subseteq> {ed_destination e}"
  using enqueue_new by (fastforce simp: fresh_deliveries_def enqueue_to_def)

lemma fresh_trans: "fresh_deliveries w w'' \<subseteq> fresh_deliveries w w' \<union> fresh_deliveries w' w''"
  by (auto simp: fresh_deliveries_def)

text \<open>The destinations a fire may reach: the owner's own, and its destination when consent and sight allow it.\<close>

definition may_reach :: "TriggerSpec \<Rightarrow> trigger_plan \<Rightarrow> Destination set" where
  "may_reach spec p = insert (principalDestination (ts_owner spec) (ts_owner spec))
     {d. \<exists>dest. ts_destination spec = Some dest \<and> d\<lparr>d_relaySender := d_relaySender dest\<rparr> = dest \<and> tp_consented p \<and> tp_deliverable p}"

lemma reply_destination: "(ed_destination (reply_delivery spec d msg as attr res))\<lparr>d_relaySender := d_relaySender d\<rparr> = d"
  by (simp add: reply_delivery_def reach_delivery_def Let_def)

lemma deliver_gated_fresh:
  assumes "deliver_gated spec p msg t uuid r w = (w', r')" "\<And>d. (ed_destination (msg d))\<lparr>d_relaySender := d_relaySender d\<rparr> = d"
  shows "fresh_deliveries w w' \<subseteq> may_reach spec p"
  using assms fresh_enqueue[of w "skip_notice spec (nullish (ts_threadRef spec) (ts_fireKey spec))" t uuid]
    fresh_enqueue[of w "msg (the (ts_destination spec))" t uuid]
  by (auto simp: deliver_gated_def may_reach_def skip_notice_def fresh_same split: option.splits if_splits)

lemma after_turn_fresh:
  assumes "after_turn spec p res t uuid w = (w', x)"
  shows "fresh_deliveries w w' \<subseteq> may_reach spec p"
proof -
  consider "w' = w" | r r' where "deliver_gated spec p (\<lambda>d. reply_delivery spec d (nullish (tr_reply res) []) (some_attachments (tr_attachments res)) None (Some res)) t uuid r w = (w', r')"
    using assms by (auto simp: after_turn_def Let_def map_prod_def split: if_splits prod.splits)
  then show ?thesis
  proof cases
    case 2
    then show ?thesis by (rule deliver_gated_fresh) (rule reply_destination)
  qed (simp add: fresh_same)
qed

text \<open>What the turn itself, whoever acts while it runs, and the claim put into the outbox; this is not the trigger's doing.\<close>

definition delivered_by_turn :: "turn_effect \<Rightarrow> TriggerSpec \<Rightarrow> Destination set" where
  "delivered_by_turn run spec = {d. (\<exists>q w. d \<in> fresh_deliveries w (fst (run q w))) \<or>
     (\<exists>w w'. ts_onClaimed spec w = Inr w' \<and> d \<in> fresh_deliveries w w')}"

lemma fire_body_fresh:
  assumes f: "fire_body deps run spec p t uuid w = (w', x)"
  shows "fresh_deliveries w w' \<subseteq> may_reach spec p \<union> delivered_by_turn run spec"
proof (cases "ts_onClaimed spec w")
  case (Inr w1)
  have c: "fresh_deliveries w w1 \<subseteq> delivered_by_turn run spec" using Inr by (auto simp: delivered_by_turn_def)
  show ?thesis
  proof (cases "ts_message spec")
    case (Some msg)
    with f Inr have "deliver_gated spec p (\<lambda>d. reply_delivery spec d msg None (relayAttribution deps spec) None) t uuid (no_result\<lparr>fr_status := Some TOk\<rparr>) w1 =
        (w', projr x)" by (auto simp: fire_body_def map_prod_def split: prod.splits)
    from deliver_gated_fresh[OF this reply_destination] show ?thesis using c fresh_trans[of w w' w1] by blast
  next
    case None
    obtain w2 y where r: "run (trigger_request_of spec p) w1 = (w2, y)" by (cases "run (trigger_request_of spec p) w1")
    have "fresh_deliveries w1 w2 \<subseteq> delivered_by_turn run spec"
      unfolding delivered_by_turn_def using arg_cong[OF r, of fst] by fastforce
    moreover have "w' = w1 \<or> w' = w2 \<or> fresh_deliveries w2 w' \<subseteq> may_reach spec p"
      using f Inr None r after_turn_fresh[of spec p _ t uuid w2 w' x] by (auto simp: fire_body_def split: option.splits sum.splits)
    ultimately show ?thesis using c fresh_trans[of w w' w1] fresh_trans[of w1 w' w2] by blast
  qed
qed (use f in \<open>simp add: fire_body_def fresh_same\<close>)

lemma finish_fresh:
  assumes "finish_trigger spec p b d r t uuid w = (w', out)"
  shows "fresh_deliveries w w' \<subseteq> may_reach spec p"
  using assms fresh_enqueue[of w "error_notice spec (the (ts_destination spec)) (the (ts_errorNotice spec)) r" t uuid]
  by (auto simp: finish_trigger_def Let_def may_reach_def error_notice_def fresh_same split: option.splits if_splits)

lemma fresh_idempotency [simp]: "fresh_deliveries w (w'\<lparr>tw_idempotency := i\<rparr>) = fresh_deliveries w w'"
  "fresh_deliveries (w\<lparr>tw_idempotency := i\<rparr>) w' = fresh_deliveries w w'"
  by (simp_all add: fresh_deliveries_def)

lemma runTrigger_fresh:
  assumes r: "runTrigger deps run spec t0 t1 t2 u1 u2 w = (w', out)"
  shows "case plan_trigger deps spec of Inl n \<Rightarrow> w' = w
    | Inr p \<Rightarrow> fresh_deliveries w w' \<subseteq> may_reach spec p \<union> delivered_by_turn run spec"
proof (cases "plan_trigger deps spec")
  case (Inr p)
  obtain i b where o: "once_begin (ts_fireKey spec) t0 (tw_idempotency w) = (i, b)" by (cases "once_begin (ts_fireKey spec) t0 (tw_idempotency w)")
  have fin: "fresh_deliveries w w' \<subseteq> may_reach spec p \<union> delivered_by_turn run spec"
    if "map_prod id Inr (finish_trigger spec p b' d r t2 u2 (w1\<lparr>tw_idempotency := j\<rparr>)) = (w', out)" "fresh_deliveries w w1 \<subseteq> may_reach spec p \<union> delivered_by_turn run spec"
    for b' d r w1 j
    using that finish_fresh[of spec p b' d r t2 u2 "w1\<lparr>tw_idempotency := j\<rparr>" w'] fresh_trans[of w w' w1]
    by (cases "finish_trigger spec p b' d r t2 u2 (w1\<lparr>tw_idempotency := j\<rparr>)") auto
  have "fresh_deliveries w w' \<subseteq> may_reach spec p \<union> delivered_by_turn run spec"
  proof (cases b)
    case False
    with r o Inr fin[where b' = False and d = False and r = no_result and ?w1.0 = w and j = i] show ?thesis by (simp add: runTrigger_def fresh_same)
  next
    case True
    obtain w1 x where f: "fire_body deps run spec p t1 u1 (w\<lparr>tw_idempotency := i\<rparr>) = (w1, x)"
      by (cases "fire_body deps run spec p t1 u1 (w\<lparr>tw_idempotency := i\<rparr>)")
    have w1: "fresh_deliveries w w1 \<subseteq> may_reach spec p \<union> delivered_by_turn run spec" using fire_body_fresh[OF f] by simp
    show ?thesis using r o Inr True f w1 fin[OF _ w1]
      by (auto simp: runTrigger_def split: sum.splits fire_failure.splits)
  qed
  with Inr show ?thesis by simp
qed (use r in \<open>simp add: runTrigger_def\<close>)

lemma plan_Inr:
  assumes "plan_trigger deps spec = Inr p"
  obtains current where "current = Option.bind (tg_currentScopeMembers deps) (\<lambda>f. f (ts_ownerScopeId spec))"
    "acting_person deps spec current = Inr (tp_actor p)" "tp_homeNote p = home_access deps spec current (tp_actor p)"
    "tp_deliverable p = destination_deliverable deps spec (tp_actor p) (tp_homeNote p)" "tp_consented p = trigger_consented spec"
  using assms by (auto simp: plan_trigger_def Let_def split: sum.splits)

lemma consent_of_other:
  assumes "trigger_consented spec" "ts_recipientConsentRequired spec = Some True" "ts_destination spec = Some dest"
    "d_type dest = ''principal''" "\<not> samePerson (Some (d_target dest)) (Some (ts_owner spec))" "d_target dest \<noteq> []"
  shows "\<exists>c. ts_recipientConsent spec = Some c \<and> rc_status c = consent_accepted \<and> samePerson (Some (rc_recipientId c)) (Some (d_target dest))"
  using assms by (auto simp: trigger_consented_def consentRequiredRecipient_def recipientConsentSatisfied_def)

text \<open>C31: An unattended fire reaches only whom it may. Every delivery that a fire itself adds to the outbox, its reply, a relayed
  message or the notice of a failure, goes either to the owner of the trigger or to the destination the trigger was given. In
  the latter case the acting person may act, and that destination is visible to them or is the home of the trigger, which
  they may read. A recipient who was asked has accepted. Where the trigger requires the recipient's consent
  (\<open>recipientConsentRequired\<close>) and delivers to another person, that very person was asked and has accepted; other
  triggers deliver to a person who was not asked. What the turn, others while it runs, or the claim put into the outbox is
  not counted.\<close>

theorem fire_reaches_only_allowed:
  assumes "runTrigger deps run spec t0 t1 t2 u1 u2 w = (w', out)" "d \<in> fresh_deliveries w w'" "d \<notin> delivered_by_turn run spec"
    "d \<noteq> principalDestination (ts_owner spec) (ts_owner spec)"
  shows "\<exists>dest p. ts_destination spec = Some dest \<and> d\<lparr>d_relaySender := d_relaySender dest\<rparr> = dest \<and> plan_trigger deps spec = Inr p \<and>
    (destinationVisible deps (tp_actor p) dest \<or> d_audienceScopeId dest = Some (ts_ownerScopeId spec) \<and> tp_homeNote p = None) \<and>
    (\<forall>c. ts_recipientConsent spec = Some c \<longrightarrow> rc_status c = consent_accepted) \<and>
    (ts_recipientConsentRequired spec = Some True \<and> d_type dest = ''principal'' \<and> d_target dest \<noteq> [] \<and>
       \<not> samePerson (Some (d_target dest)) (Some (ts_owner spec)) \<longrightarrow>
     (\<exists>c. ts_recipientConsent spec = Some c \<and> rc_status c = consent_accepted \<and> samePerson (Some (rc_recipientId c)) (Some (d_target dest))))"
proof (cases "plan_trigger deps spec")
  case (Inl n)
  with runTrigger_fresh[OF assms(1)] assms(2) show ?thesis by (simp add: fresh_same)
next
  case (Inr p)
  with runTrigger_fresh[OF assms(1)] assms(2-4) obtain dest where dest: "ts_destination spec = Some dest"
    "d\<lparr>d_relaySender := d_relaySender dest\<rparr> = dest" "tp_consented p" "tp_deliverable p" by (auto simp: may_reach_def)
  from Inr show ?thesis
  proof (rule plan_Inr)
    fix current
    assume pl: "tp_deliverable p = destination_deliverable deps spec (tp_actor p) (tp_homeNote p)" "tp_consented p = trigger_consented spec"
    with dest(3) have con: "trigger_consented spec" by simp
    have "rc_status c = consent_accepted" if "ts_recipientConsent spec = Some c" for c
      using con that by (auto simp: trigger_consented_def recipientConsentSatisfied_def split: if_splits)
    moreover have "destinationVisible deps (tp_actor p) dest \<or> d_audienceScopeId dest = Some (ts_ownerScopeId spec) \<and> tp_homeNote p = None"
      using pl(1) dest(1,4) by (auto simp: destination_deliverable_def)
    ultimately show ?thesis using Inr dest(1,2) consent_of_other[OF con _ dest(1)] by blast
  qed
qed

section \<open>Who a turn is run for\<close>

lemma fire_body_run:
  assumes "tp_homeNote p \<noteq> None \<or> ts_message spec \<noteq> None \<or> (\<forall>w. run1 (trigger_request_of spec p) w = run2 (trigger_request_of spec p) w)"
  shows "fire_body deps run1 spec p t uuid w = fire_body deps run2 spec p t uuid w"
  using assms by (auto simp: fire_body_def split: sum.splits option.splits)

lemma acting_internal:
  assumes "acting_person deps spec current = Inr actor"
  shows "tg_classify deps actor = internal \<or>
    (\<exists>m \<in> set (nullish current (nullish (ts_members spec) [])). p_type m = internal \<and> tg_classify deps (p_id m) = internal \<and>
       samePerson (Some (p_id m)) (Some actor))"
proof (cases "ts_runAs spec = Some run_scopeFloor")
  case True
  let ?ms = "filter (\<lambda>m. p_type m = internal \<and> tg_classify deps (p_id m) = internal) (nullish current (nullish (ts_members spec) []))"
  show ?thesis
  proof (cases "list_ex (\<lambda>m. samePerson (Some (p_id m)) (Some (ts_owner spec))) ?ms")
    case ex: True
    with assms True have "actor = ts_owner spec" by (auto simp: acting_person_def Let_def split: if_splits)
    with ex show ?thesis by (auto simp: list_ex_iff)
  next
    case False
    with assms True have ne: "?ms \<noteq> []" and a: "actor = p_id (hd ?ms)" by (auto simp: acting_person_def Let_def split: if_splits)
    from hd_in_set[OF ne] show ?thesis unfolding a by (auto simp only: set_filter mem_Collect_eq)
  qed
qed (use assms in \<open>auto simp: acting_person_def Let_def split: if_splits\<close>)

text \<open>C32: A trigger runs a turn only for somebody who may act now. If the turn makes any difference to what a fire does, the
  fire was authorised: the person in whose name it runs, who is the one named in the request, is internal (or the same
  person as an internal member of the scope), may read the home of the trigger according to the current members or the
  directory, and the only request the turn may get is the one of this trigger.\<close>

theorem turn_runs_for_authorised:
  assumes "runTrigger deps run1 spec t0 t1 t2 u1 u2 w \<noteq> runTrigger deps run2 spec t0 t1 t2 u1 u2 w"
  shows "\<exists>p current. plan_trigger deps spec = Inr p \<and> current = Option.bind (tg_currentScopeMembers deps) (\<lambda>f. f (ts_ownerScopeId spec)) \<and>
    home_access deps spec current (tp_actor p) = None \<and> tq_actor (trigger_request_of spec p) = tp_actor p \<and>
    (tg_classify deps (tp_actor p) = internal \<or>
     (\<exists>m \<in> set (nullish current (nullish (ts_members spec) [])). p_type m = internal \<and> tg_classify deps (p_id m) = internal \<and>
        samePerson (Some (p_id m)) (Some (tp_actor p)))) \<and>
    (\<exists>w. run1 (trigger_request_of spec p) w \<noteq> run2 (trigger_request_of spec p) w)"
proof (cases "plan_trigger deps spec")
  case (Inr p)
  obtain i b where o: "once_begin (ts_fireKey spec) t0 (tw_idempotency w) = (i, b)" by (cases "once_begin (ts_fireKey spec) t0 (tw_idempotency w)")
  have "b" "fire_body deps run1 spec p t1 u1 (w\<lparr>tw_idempotency := i\<rparr>) \<noteq> fire_body deps run2 spec p t1 u1 (w\<lparr>tw_idempotency := i\<rparr>)"
    using assms o Inr by (auto simp: runTrigger_def split: bool.splits)
  with fire_body_run have f: "tp_homeNote p = None" "\<exists>w. run1 (trigger_request_of spec p) w \<noteq> run2 (trigger_request_of spec p) w" by metis+
  from Inr show ?thesis
  proof (rule plan_Inr)
    fix current
    assume "current = Option.bind (tg_currentScopeMembers deps) (\<lambda>f. f (ts_ownerScopeId spec))"
      "acting_person deps spec current = Inr (tp_actor p)" "tp_homeNote p = home_access deps spec current (tp_actor p)"
    with f Inr acting_internal[of deps spec current "tp_actor p"] show ?thesis
      by (intro exI[of _ p] exI[of _ current]) (simp add: trigger_request_of_def Let_def)
  qed
qed (use assms in \<open>simp add: runTrigger_def\<close>)

section \<open>Once per fire key\<close>

lemma runTrigger_ran:
  assumes "runTrigger deps run spec t0 t1 t2 u1 u2 w = (w', Inr out)" "to_ran out"
  obtains i where "tw_idempotency w' = once_commit (ts_fireKey spec) t2 i"
proof -
  have fin: "tw_idempotency w' = tw_idempotency w1 \<and> to_ran out' = b"
    if "finish_trigger spec p b d r t2 u2 w1 = (w', out')" for p b d r w1 out'
    using that by (auto simp: finish_trigger_def outcome_of_result_def enqueue_to_def Let_def split: option.splits if_splits)
  from assms obtain p i w1 r where "finish_trigger spec p True False r t2 u2 (w1\<lparr>tw_idempotency := once_commit (ts_fireKey spec) t2 i\<rparr>) = (w', out)"
    by (auto simp: runTrigger_def failed_authorisation_def map_prod_def split: sum.splits prod.splits bool.splits fire_failure.splits dest!: fin)
  from fin[OF this] that show ?thesis by simp
qed

lemma refused_fire:
  assumes "\<not> snd (once_begin (ts_fireKey spec) t0 (tw_idempotency w))"
  shows "tw_deliveries (fst (runTrigger deps run spec t0 t1 t2 u1 u2 w)) = tw_deliveries w \<and>
    runTrigger deps run spec t0 t1 t2 u1 u2 w = runTrigger deps run' spec t0 t1 t2 u1 u2 w \<and>
    (\<exists>out. snd (runTrigger deps run spec t0 t1 t2 u1 u2 w) = Inr out \<and> \<not> to_ran out)"
proof (cases "plan_trigger deps spec")
  case (Inr p)
  obtain i where "once_begin (ts_fireKey spec) t0 (tw_idempotency w) = (i, False)"
    using assms by (cases "once_begin (ts_fireKey spec) t0 (tw_idempotency w)") auto
  moreover have "finish_trigger spec p False False no_result t2 u2 x = (x, outcome_of_result False False no_result)" for x
    by (auto simp: finish_trigger_def isTriggerFailure_def outcome_of_result_def Let_def split: option.splits)
  ultimately show ?thesis using Inr by (auto simp: runTrigger_def outcome_of_result_def)
qed (simp add: runTrigger_def failed_authorisation_def)

text \<open>The guard has seen other calls since, none of which put an old time in place of the record of the key; after a restart
  the record must be kept in a map, and not be deleted by a prune that read the map before it was written.\<close>

definition undisturbed :: "string \<Rightarrow> int \<Rightarrow> once_event list \<Rightarrow> idempotency \<Rightarrow> bool" where
  "undisturbed key now es s \<longleftrightarrow>
     (\<forall>e \<in> set es. by_now now e \<and> \<not> overwrites key (id_retentionMs s) now e) \<and>
     (id_backing s \<noteq> None \<and> PruneDelete key \<notin> set es \<or> (\<forall>e \<in> set es. \<nexists>t. e = Restart t))"

lemma committed_recorded:
  assumes "undisturbed key now es (once_commit key t s)" "t \<le> now" "now \<le> t + id_retentionMs s"
  shows "cached (fold once_do es (once_commit key t s)) key now \<or> kept (fold once_do es (once_commit key t s)) key now"
proof -
  let ?s = "once_commit key t s"
  have c: "cached ?s key now" using once_settle_cached[of t now key key "once_store key t s"] assms(2,3) by (simp add: once_commit_def)
  have k: "kept ?s key now" if "id_backing ?s \<noteq> None"
    using that assms(3) by (auto simp: kept_def once_commit_def once_store_def recent_update)
  from assms(1) consider "id_backing ?s \<noteq> None" "PruneDelete key \<notin> set es" | "\<forall>e \<in> set es. \<nexists>t. e = Restart t" by (auto simp: undisturbed_def)
  then show ?thesis
  proof cases
    case 1
    from kept_run[OF k[OF 1(1)], of es] 1(2) assms(1) show ?thesis by (auto simp: undisturbed_def)
  next
    case 2
    from cached_run[OF c, of es] 2 assms(1) show ?thesis by (auto simp: undisturbed_def)
  qed
qed

lemma committed_blocks:
  assumes "undisturbed key now es (once_commit key t s)" "t \<le> now" "now \<le> t + id_retentionMs s"
  shows "\<not> snd (once_begin key now (fold once_do es (once_commit key t s)))"
  using begin_refuses[OF committed_recorded[OF assms]] .

text \<open>C33: A trigger fires once per key. Once a fire has run, another fire with the same key, by whomever and with whatever turn,
  does not run its turn and delivers nothing, until the record of the key is older than the retention time: however many
  other fires claimed, ended or threw in between, and even after restarts where the records are kept in a map and no prune in the
  background deleted this one.\<close>

theorem trigger_fires_once:
  assumes "runTrigger deps run spec t0 t1 t2 u1 u2 w = (w1, Inr out)" "to_ran out"
    and "undisturbed (ts_fireKey spec) now es (tw_idempotency w1)" "tw_idempotency w2 = fold once_do es (tw_idempotency w1)"
    and "t2 \<le> now" "now \<le> t2 + id_retentionMs (tw_idempotency w1)" "ts_fireKey spec2 = ts_fireKey spec"
  shows "tw_deliveries (fst (runTrigger deps2 run2 spec2 now t3 t4 u3 u4 w2)) = tw_deliveries w2 \<and>
    runTrigger deps2 run2 spec2 now t3 t4 u3 u4 w2 = runTrigger deps2 run3 spec2 now t3 t4 u3 u4 w2 \<and>
    (\<exists>out2. snd (runTrigger deps2 run2 spec2 now t3 t4 u3 u4 w2) = Inr out2 \<and> \<not> to_ran out2)"
  using assms(1,2)
proof (rule runTrigger_ran)
  fix i
  assume i: "tw_idempotency w1 = once_commit (ts_fireKey spec) t2 i"
  have "id_retentionMs (tw_idempotency w1) = id_retentionMs i" unfolding i by (simp add: once_commit_def)
  with committed_blocks[of "ts_fireKey spec" now es t2 i] assms(3-7) i
  have "\<not> snd (once_begin (ts_fireKey spec2) now (tw_idempotency w2))" by simp
  from refused_fire[OF this] show ?thesis .
qed

section \<open>Examples\<close>

definition relay_spec :: TriggerSpec where
  "relay_spec = \<lparr>ts_title = None, ts_owner = ''ann'', ts_ownerScopeId = ''personal:ann'', ts_input = [], ts_securityScreenData = None,
     ts_fireKey = ''cron:1:5'', ts_surface = ''cron'', ts_destination = Some (principalDestination ''bob'' ''ann''), ts_message = Some ''hello'',
     ts_threadRef = None, ts_runAs = None, ts_unattendedGrants = None, ts_members = None,
     ts_recipientConsent = Some \<lparr>rc_recipientId = ''bob'', rc_status = consent_accepted, rc_decidedAt = Some 3\<rparr>,
     ts_recipientConsentRequired = Some True, ts_shadow = False, ts_thinkingLevel = None, ts_readOnly = False,
     ts_turnWallClockMs = None, ts_errorNotice = None, ts_onClaimed = Inr, ts_deferWhenBusy = False\<rparr>"

definition turn_spec :: TriggerSpec where
  "turn_spec = relay_spec\<lparr>ts_message := None, ts_input := ''look''\<rparr>"

definition open_deps :: TriggerDeps where
  "open_deps = \<lparr>tg_classify = (\<lambda>i. internal), tg_currentScopeMembers = None, tg_directory = None, tg_sessions = None\<rparr>"

definition quiet_world :: trigger_world where
  "quiet_world = \<lparr>tw_idempotency = \<lparr>id_retentionMs = 100, id_pruneIntervalMs = 50, id_done = [], id_inflight = [], id_lastPruneAt = 0,
       id_backing = None, id_lookups = [], id_prunes = [], id_deletes = []\<rparr>,
     tw_deliveries = \<lparr>ds_maxAgeMs = 1000, ds_deliveries = [], ds_byKey = [], ds_claimedUntil = [], ds_wakeups = 0\<rparr>\<rparr>"

definition silent_turn :: turn_effect where
  "silent_turn q w = (w, Inr \<lparr>tr_status = TSilent, tr_sessionId = None, tr_reply = None, tr_reason = None, tr_refusalKind = None,
     tr_attachments = None, tr_sourceUserSeq = None, tr_sourceAssistantEntrySeq = None\<rparr>)"

definition relayed_world :: trigger_world where
  "relayed_world = fst (runTrigger open_deps silent_turn relay_spec 5 5 6 ''d1'' ''d2'' quiet_world)"

lemma relay_outcome:
  "map_sum id to_ran (snd (runTrigger open_deps silent_turn relay_spec 5 5 6 ''d1'' ''d2'' quiet_world)) = Inr True"
  "map (\<lambda>x. dv_destination (snd x)) (ds_deliveries (tw_deliveries relayed_world)) = [principalDestination ''bob'' ''ann'']"
  "id_retentionMs (tw_idempotency relayed_world) = 100" "ts_destination relay_spec = Some (principalDestination ''bob'' ''ann'')"
  "principalDestination ''bob'' ''ann'' \<noteq> principalDestination ''ann'' ''ann''" "ts_owner relay_spec = ''ann''"
  "ts_recipientConsent relay_spec = Some \<lparr>rc_recipientId = ''bob'', rc_status = consent_accepted, rc_decidedAt = Some 3\<rparr>"
  by code_simp+

theorem fire_reaches_only_allowed_witness:
  "principalDestination ''bob'' ''ann'' \<in> fresh_deliveries quiet_world relayed_world \<and>
   (\<exists>p. plan_trigger open_deps relay_spec = Inr p \<and> destinationVisible open_deps (tp_actor p) (principalDestination ''bob'' ''ann''))"
proof -
  obtain out where r: "runTrigger open_deps silent_turn relay_spec 5 5 6 ''d1'' ''d2'' quiet_world = (relayed_world, out)"
    by (cases "runTrigger open_deps silent_turn relay_spec 5 5 6 ''d1'' ''d2'' quiet_world") (simp add: relayed_world_def)
  have q: "delivered_by_turn silent_turn relay_spec = {}"
    by (simp add: delivered_by_turn_def silent_turn_def relay_spec_def fresh_deliveries_def)
  have "principalDestination ''bob'' ''ann'' \<in> set (map (\<lambda>x. dv_destination (snd x)) (ds_deliveries (tw_deliveries relayed_world)))"
    unfolding relay_outcome(2) by simp
  then have d: "principalDestination ''bob'' ''ann'' \<in> fresh_deliveries quiet_world relayed_world"
    by (simp add: fresh_deliveries_def quiet_world_def)
  from fire_reaches_only_allowed[OF r d] q obtain p where "plan_trigger open_deps relay_spec = Inr p"
    using relay_outcome(5,6) by auto
  moreover have "destinationVisible open_deps (tp_actor p) (principalDestination ''bob'' ''ann'')" by (simp add: destinationVisible_def open_deps_def)
  ultimately show ?thesis using d by blast
qed

theorem turn_runs_for_authorised_witness:
  "\<exists>p. plan_trigger open_deps turn_spec = Inr p \<and> tg_classify open_deps (tp_actor p) = internal"
proof -
  let ?bad = "\<lambda>q w. (w, Inl ''no'')"
  have "isl (snd (runTrigger open_deps ?bad turn_spec 5 5 6 ''d1'' ''d2'' quiet_world))"
    "\<not> isl (snd (runTrigger open_deps silent_turn turn_spec 5 5 6 ''d1'' ''d2'' quiet_world))" by code_simp+
  then have "runTrigger open_deps silent_turn turn_spec 5 5 6 ''d1'' ''d2'' quiet_world \<noteq> runTrigger open_deps ?bad turn_spec 5 5 6 ''d1'' ''d2'' quiet_world"
    by auto
  from turn_runs_for_authorised[OF this] show ?thesis by (auto simp: open_deps_def)
qed

theorem trigger_fires_once_witness:
  "tw_deliveries (fst (runTrigger open_deps silent_turn turn_spec 60 60 61 ''d3'' ''d4'' relayed_world)) = tw_deliveries relayed_world \<and>
   (\<exists>out. snd (runTrigger open_deps silent_turn turn_spec 60 60 61 ''d3'' ''d4'' relayed_world) = Inr out \<and> \<not> to_ran out)"
proof -
  obtain out where r: "runTrigger open_deps silent_turn relay_spec 5 5 6 ''d1'' ''d2'' quiet_world = (relayed_world, Inr out)" "to_ran out"
    using relay_outcome(1) by (cases "runTrigger open_deps silent_turn relay_spec 5 5 6 ''d1'' ''d2'' quiet_world")
      (auto simp: relayed_world_def map_sum_def split: sum.splits)
  have u: "undisturbed (ts_fireKey relay_spec) 60 [] (tw_idempotency relayed_world)" by (simp add: undisturbed_def)
  from trigger_fires_once[OF r u, of relayed_world turn_spec open_deps silent_turn] relay_outcome(3) show ?thesis
    by (simp add: turn_spec_def)
qed

end
