(* ===== verification/Webhooks.thy ===== *)
theory Webhooks
  imports Wake_Envelope Run_Trigger Auth
begin

text \<open>
  Inbound webhooks: the signatures of five services (\<open>src/src/webhooks/verifiers.ts\<close>), the webhooks and the history of
  what they received (\<open>webhook-store.ts\<close>) and the receiver that verifies a delivery, renders it for the agent and fires the
  trigger (\<open>webhook-receiver.ts\<close>). HMAC, SHA-256, \<open>JSON.parse\<close>, \<open>URLSearchParams\<close>, \<open>Number\<close> and the order of
  \<open>localeCompare\<close> are arguments. A header with one value is a list of one; numbers in JSON are integers, and names that
  objects inherit are no fields. The warning sign before a notice is left out and an ellipsis is written as three dots.
\<close>

section \<open>Verifiers\<close>

record hook_env =
  he_hmac :: "string \<Rightarrow> string \<Rightarrow> string"
  he_sha :: "string \<Rightarrow> string"
  he_parse :: "string \<Rightarrow> json option"
  he_number :: "string \<Rightarrow> rat option"
  he_form :: "string \<Rightarrow> (string \<times> string) list"
  he_collate :: "string \<Rightarrow> string"
  he_dates :: dates

type_synonym headers = "(string \<times> string list) list"

record VerifierInput =
  vi_secret :: "string option"
  vi_headers :: headers
  vi_rawBody :: string

datatype WebhookScheme = github | slack | stripe | linear | hmacSha256

definition header :: "headers \<Rightarrow> string \<Rightarrow> string option" where
  "header hs name = Option.bind (map_of hs (toLowerCase name)) (\<lambda>v. case v of [] \<Rightarrow> None | x # xs \<Rightarrow> Some x)"

definition hmacHex :: "hook_env \<Rightarrow> string \<Rightarrow> string \<Rightarrow> string" where
  "hmacHex H secret body = he_hmac H secret body"

definition bodyHash :: "hook_env \<Rightarrow> string \<Rightarrow> string" where
  "bodyHash H rawBody = he_sha H rawBody"

fun isObj :: "json \<Rightarrow> bool" where
  "isObj (JArr xs) = True"
| "isObj (JObj fs) = True"
| "isObj v = False"

definition signedBodyId :: "hook_env \<Rightarrow> string \<Rightarrow> string \<Rightarrow> string" where
  "signedBodyId H rawBody field =
     (case he_parse H rawBody of
        Some b \<Rightarrow> (case jget b field of Some (JStr s) \<Rightarrow> s | _ \<Rightarrow> bodyHash H rawBody)
      | None \<Rightarrow> bodyHash H rawBody)"

definition SLACK_TS_TOLERANCE_SECONDS :: int where "SLACK_TS_TOLERANCE_SECONDS = 300"
definition LINEAR_TS_TOLERANCE_MS :: int where "LINEAR_TS_TOLERANCE_MS = 60000"

definition verify_github :: "hook_env \<Rightarrow> string \<Rightarrow> headers \<Rightarrow> string \<Rightarrow> bool" where
  "verify_github H secret hs rawBody =
     (let sig = header hs ''x-hub-signature-256'' in
      truthy sig \<and> constantTimeEqual (the sig) (''sha256='' @ hmacHex H secret rawBody))"

definition verify_slack :: "hook_env \<Rightarrow> int \<Rightarrow> string \<Rightarrow> headers \<Rightarrow> string \<Rightarrow> bool" where
  "verify_slack H now secret hs rawBody =
     (let sig = header hs ''x-slack-signature''; ts = header hs ''x-slack-request-timestamp'' in
      if \<not> truthy sig \<or> \<not> truthy ts then False
      else case he_number H (the ts) of
        None \<Rightarrow> False
      | Some tsSeconds \<Rightarrow>
          \<not> \<bar>of_int now / 1000 - tsSeconds\<bar> > of_int SLACK_TS_TOLERANCE_SECONDS \<and>
          constantTimeEqual (the sig) (''v0='' @ hmacHex H secret (''v0:'' @ the ts @ '':'' @ rawBody)))"

definition verify_stripe :: "hook_env \<Rightarrow> string \<Rightarrow> headers \<Rightarrow> string \<Rightarrow> bool" where
  "verify_stripe H secret hs rawBody =
     (let sig = header hs ''stripe-signature'' in
      if \<not> truthy sig then False
      else
        let parts = map (split_char (CHR ''='')) (split_char (CHR '','') (the sig));
            value = (\<lambda>p. if 1 < length p then Some (p ! 1) else None);
            t = Option.bind (find (\<lambda>p. hd p = ''t'') parts) value;
            v1s = map (\<lambda>p. p ! 1) (filter (\<lambda>p. hd p = ''v1'' \<and> truthy (value p)) parts)
        in if \<not> truthy t \<or> v1s = [] then False
           else list_ex (\<lambda>v1. constantTimeEqual v1 (hmacHex H secret (the t @ ''.'' @ rawBody))) v1s)"

definition verify_hmac :: "hook_env \<Rightarrow> string \<Rightarrow> headers \<Rightarrow> string \<Rightarrow> bool" where
  "verify_hmac H secret hs rawBody =
     (let raw = header hs ''x-signature'' in
      truthy raw \<and>
      (let sig = (if starts_with (the raw) ''sha256='' then drop (length ''sha256='') (the raw) else the raw)
       in constantTimeEqual sig (hmacHex H secret rawBody)))"

definition verify_linear :: "hook_env \<Rightarrow> int \<Rightarrow> string \<Rightarrow> headers \<Rightarrow> string \<Rightarrow> bool" where
  "verify_linear H now secret hs rawBody =
     (let sig = header hs ''linear-signature'' in
      if \<not> truthy sig \<or> \<not> constantTimeEqual (the sig) (hmacHex H secret rawBody) then False
      else case he_parse H rawBody of
        Some (JObj fs) \<Rightarrow>
          (case jget (JObj fs) ''webhookTimestamp'' of Some (JNum n) \<Rightarrow> \<bar>now - n\<bar> \<le> LINEAR_TS_TOLERANCE_MS | _ \<Rightarrow> False)
      | _ \<Rightarrow> False)"

definition verify_delivery :: "hook_env \<Rightarrow> int \<Rightarrow> WebhookScheme \<Rightarrow> VerifierInput \<Rightarrow> bool" where
  "verify_delivery H now scheme i =
     (truthy (vi_secret i) \<and>
      (let secret = the (vi_secret i); hs = vi_headers i; rawBody = vi_rawBody i in
       case scheme of
         github \<Rightarrow> verify_github H secret hs rawBody
       | slack \<Rightarrow> verify_slack H now secret hs rawBody
       | stripe \<Rightarrow> verify_stripe H secret hs rawBody
       | linear \<Rightarrow> verify_linear H now secret hs rawBody
       | hmacSha256 \<Rightarrow> verify_hmac H secret hs rawBody))"

definition delivery_id :: "hook_env \<Rightarrow> WebhookScheme \<Rightarrow> VerifierInput \<Rightarrow> string" where
  "delivery_id H scheme i =
     (case scheme of
        slack \<Rightarrow> signedBodyId H (vi_rawBody i) ''event_id''
      | stripe \<Rightarrow> signedBodyId H (vi_rawBody i) ''id''
      | _ \<Rightarrow> bodyHash H (vi_rawBody i))"

definition handshake :: "WebhookScheme \<Rightarrow> VerifierInput \<Rightarrow> json \<Rightarrow> string option" where
  "handshake scheme i parsedBody =
     (case scheme of
        github \<Rightarrow> if header (vi_headers i) ''x-github-event'' = Some ''ping'' then Some ''pong'' else None
      | slack \<Rightarrow>
          if jget parsedBody ''type'' = Some (JStr ''url_verification'') then jstr (jget parsedBody ''challenge'') else None
      | _ \<Rightarrow> None)"

definition VERIFIERS :: "(string \<times> WebhookScheme) list" where
  "VERIFIERS = [(''github'', github), (''slack'', slack), (''stripe'', stripe), (''linear'', linear), (''hmac-sha256'', hmacSha256)]"

definition WEBHOOK_SCHEMES :: "string list" where "WEBHOOK_SCHEMES = map fst VERIFIERS"

definition getVerifier :: "string \<Rightarrow> WebhookScheme option" where
  "getVerifier scheme = map_of VERIFIERS scheme"

section \<open>Webhooks and their history\<close>

record WebhookVerification =
  vf_scheme :: string
  vf_secret :: "string option"

record WebhookFilter =
  wf_path :: string
  wf_in :: "string list"

record Webhook = TriggerBase +
  wh_action :: string
  wh_verification :: WebhookVerification
  wh_filters :: "WebhookFilter list option"
  wh_lastDeliveryId :: "string option"
  wh_lastError :: "string option"

record CreateWebhookInput = CreateTriggerInput +
  cw_action :: string
  cw_verification :: WebhookVerification
  cw_filters :: "WebhookFilter list option"

record WebhookEvent =
  ev_deliveryId :: string
  ev_receivedAt :: int
  ev_payload :: string

record webhook_store =
  ws_backing :: "Webhook jsmap"
  ws_history :: "WebhookEvent list jsmap"

text \<open>By time of receipt, the newest first, and then by id.\<close>

definition event_order :: "hook_env \<Rightarrow> WebhookEvent list \<Rightarrow> WebhookEvent list" where
  "event_order H es = sort_key (\<lambda>e. - ev_receivedAt e) (sort_key (\<lambda>e. he_collate H (ev_deliveryId e)) es)"

definition add_event :: "hook_env \<Rightarrow> WebhookEvent \<Rightarrow> WebhookEvent list \<Rightarrow> WebhookEvent list" where
  "add_event H event es =
     (if list_ex (\<lambda>e. ev_deliveryId e = ev_deliveryId event) es then es
      else take 50 (event_order H (es @ [event\<lparr>ev_payload := take 16100 (ev_payload event)\<rparr>])))"

definition recordEvent :: "hook_env \<Rightarrow> string \<Rightarrow> WebhookEvent \<Rightarrow> webhook_store \<Rightarrow> webhook_store" where
  "recordEvent H i event s =
     (let m = fst (dm_putIfAbsent (ws_history s) i []);
          m' = fst (dm_update m i (\<lambda>es. Inr (add_event H event es) :: unit + WebhookEvent list))
      in s\<lparr>ws_history := m'\<rparr>)"

definition listEvents :: "string \<Rightarrow> webhook_store \<Rightarrow> WebhookEvent list" where
  "listEvents i s = nullish (dm_get (ws_history s) i) []"

definition webhook_set_enabled :: "string \<Rightarrow> bool \<Rightarrow> webhook_store \<Rightarrow> webhook_store" where
  "webhook_set_enabled i b s = s\<lparr>ws_backing := setTriggerEnabled (ws_backing s) i b\<rparr>"

definition webhook_set_consent :: "string \<Rightarrow> RecipientConsent \<Rightarrow> webhook_store \<Rightarrow> webhook_store" where
  "webhook_set_consent i c s = s\<lparr>ws_backing := setTriggerRecipientConsent (ws_backing s) i c\<rparr>"

definition bad_filter :: "WebhookFilter \<Rightarrow> bool" where
  "bad_filter f \<longleftrightarrow> trim (wf_path f) = [] \<or> wf_in f = [] \<or> list_ex (\<lambda>v. trim v = []) (wf_in f)"

definition filters_json :: "WebhookFilter list \<Rightarrow> json" where
  "filters_json fs = JArr (map (\<lambda>f. JObj [(''path'', JStr (wf_path f)), (''in'', JArr (map JStr (wf_in f)))]) fs)"

definition webhook_content_id :: "hook_env \<Rightarrow> CreateWebhookInput \<Rightarrow> WebhookFilter list option \<Rightarrow> string" where
  "webhook_content_id H input filters = hashId (he_sha H)
     [contentPart (Some (JStr (ct_owner input))), contentPart (Some (JStr (ct_ownerScopeId input))), contentPart (Some (JStr (cw_action input))),
      contentPart (Some (jobj [(''scheme'', Some (JStr (vf_scheme (cw_verification input)))),
                               (''secret'', map_option JStr (vf_secret (cw_verification input)))])),
      contentPart (map_option filters_json filters), contentPart (map_option destination_json (ct_destination input))] 16"

definition create_webhook :: "hook_env \<Rightarrow> CreateWebhookInput \<Rightarrow> int \<Rightarrow> webhook_store \<Rightarrow> string + (webhook_store \<times> Webhook)" where
  "create_webhook H input now s =
     (case assertNoEscalation (CreateTriggerInput.truncate input) of
        Inl e \<Rightarrow> Inl e
      | Inr _ \<Rightarrow>
          if getVerifier (vf_scheme (cw_verification input)) = None \<or> \<not> truthy (vf_secret (cw_verification input))
          then Inl ''webhook verification requires a supported signed scheme and secret''
          else if list_ex bad_filter (nullish (cw_filters input) []) then Inl ''every webhook filter requires a path and at least one value''
          else
            let filters = (if nullish (cw_filters input) [] \<noteq> [] then cw_filters input else None);
                contentId = webhook_content_id H input filters;
                hook = TriggerBase.extend (buildTriggerBase (CreateTriggerInput.truncate input) contentId now)
                  \<lparr>wh_action = cw_action input, wh_verification = cw_verification input, wh_filters = filters,
                   wh_lastDeliveryId = None, wh_lastError = None\<rparr>
            in case dm_putIfAbsent (ws_backing s) contentId hook of
                 (m, wh) \<Rightarrow>
                   if tb_enabled wh then Inr (s\<lparr>ws_backing := m\<rparr>, wh)
                   else Inr (webhook_set_enabled (tb_id wh) True (s\<lparr>ws_backing := m\<rparr>), wh\<lparr>tb_enabled := True\<rparr>))"

definition webhook_record_fire :: "string \<Rightarrow> int \<Rightarrow> string option \<Rightarrow> string option \<Rightarrow> webhook_store \<Rightarrow> webhook_store" where
  "webhook_record_fire i t deliveryId error s = s\<lparr>ws_backing := fst (dm_merge (ws_backing s) i (\<lambda>v.
     (if truthy deliveryId then v\<lparr>wh_lastDeliveryId := deliveryId\<rparr> else v)\<lparr>tb_lastFiredAt := Some t, wh_lastError := error\<rparr>))\<rparr>"

section \<open>Reading a body\<close>

definition form_object :: "(string \<times> string) list \<Rightarrow> json" where
  "form_object ps = JObj (fold (\<lambda>(k, v) fs. AList.update k (JStr v) fs) ps [])"

text \<open>Where the body cannot be parsed it is the text itself.\<close>

definition parseBody :: "hook_env \<Rightarrow> headers \<Rightarrow> string \<Rightarrow> json" where
  "parseBody H hs rawBody =
     (let ct = toLowerCase (nullish (Option.bind (map_of hs ''content-type'') (\<lambda>v. case v of [] \<Rightarrow> None | x # xs \<Rightarrow> Some x)) []) in
      nullish
        (if \<exists>a \<in> set (map (\<lambda>n. drop n ct) [0..<Suc (length ct)]). starts_with a ''application/x-www-form-urlencoded'' then
           (let params = he_form H rawBody; payload = map_of params ''payload'' in
            if truthy payload then he_parse H (the payload) else Some (form_object params))
         else he_parse H rawBody)
        (JStr rawBody))"

text \<open>A field of an object, or an element or the length of an array.\<close>

definition field_of :: "json \<Rightarrow> string \<Rightarrow> json option" where
  "field_of v k =
     (case v of
        JObj fs \<Rightarrow> jget v k
      | JArr xs \<Rightarrow>
          if k = ''length'' then Some (JNum (int (length xs)))
          else if array_index k \<and> digits_value k < length xs then Some (xs ! digits_value k) else None
      | _ \<Rightarrow> None)"

definition getPath :: "json \<Rightarrow> string \<Rightarrow> json option" where
  "getPath v path = foldl (\<lambda>x k. Option.bind x (\<lambda>y. field_of y k)) (Some v) (split_char (CHR ''.'') path)"

text \<open>\<open>String(v)\<close>.\<close>

fun js_string :: "json \<Rightarrow> string" where
  "js_string (JStr s) = s"
| "js_string (JNum n) = show_int n"
| "js_string (JBool b) = (if b then ''true'' else ''false'')"
| "js_string JNull = ''null''"
| "js_string (JArr xs) = join_with '','' (map (\<lambda>x. if x = JNull then [] else js_string x) xs)"
| "js_string (JObj fs) = ''[object Object]''"

definition passesFilters :: "WebhookFilter list option \<Rightarrow> json \<Rightarrow> bool" where
  "passesFilters filters parsed =
     list_all (\<lambda>f. case getPath parsed (wf_path f) of
        None \<Rightarrow> False | Some JNull \<Rightarrow> False | Some v \<Rightarrow> js_string v \<in> set (wf_in f)) (nullish filters [])"

text \<open>\<open>JSON.stringify(v, null, 2)\<close>; \<open>pad\<close> is the line break with the indentation.\<close>

fun pretty :: "string \<Rightarrow> json \<Rightarrow> string" where
  "pretty pad (JArr xs) =
     (if xs = [] then ''[]'' else ''['' @ pad @ ''  '' @ join_with ('','' @ pad @ ''  '') (map (pretty (pad @ ''  '')) xs) @ pad @ '']'')"
| "pretty pad (JObj fs) =
     (if fs = [] then ''{}''
      else ''{'' @ pad @ ''  '' @ join_with ('','' @ pad @ ''  '') (map (\<lambda>p. json_quote (fst p) @ '': '' @ pretty (pad @ ''  '') (snd p)) fs) @ pad @ ''}'')"
| "pretty pad v = stringify v"

definition MAX_EVENT_CHARS :: nat where "MAX_EVENT_CHARS = 16000"

definition render_payload :: "json \<Rightarrow> string \<Rightarrow> string" where
  "render_payload parsed rawBody =
     (let text = (if isObj parsed then pretty [CHR 0x0A] parsed else rawBody);
          kept = capForEscaping text MAX_EVENT_CHARS keep_head
      in if length kept < length text then kept @ CHR 0x0A # ''...[truncated]'' else kept)"

definition renderEvent :: "hook_env \<Rightarrow> Webhook \<Rightarrow> string \<Rightarrow> json \<Rightarrow> string \<Rightarrow> int \<Rightarrow> wake_error + string \<times> string" where
  "renderEvent H wh deliveryId parsed rawBody now =
     (let capped = render_payload parsed rawBody in
      case buildWebhookWakeEnvelope (he_dates H) \<lparr>wv_webhookId = tb_id wh, wv_scheme = vf_scheme (wh_verification wh),
             wv_deliveryId = Some deliveryId, wv_at = now, wv_action = wh_action wh, wv_payload = capped\<rparr> of
        Inl e \<Rightarrow> Inl e
      | Inr input \<Rightarrow> Inr (input, capped))"

section \<open>The receiver\<close>

datatype DeliverResult = status_202 | status_200 string | status_401 | status_404

record hook_world = trigger_world +
  hw_webhooks :: webhook_store

definition webhook_input :: "Webhook \<Rightarrow> headers \<Rightarrow> string \<Rightarrow> VerifierInput" where
  "webhook_input wh hs rawBody =
     \<lparr>vi_secret = (if truthy (vf_secret (wh_verification wh)) then vf_secret (wh_verification wh) else None), vi_headers = hs, vi_rawBody = rawBody\<rparr>"

definition webhook_fire_key :: "Webhook \<Rightarrow> string \<Rightarrow> string" where
  "webhook_fire_key wh deliveryId = ''webhook:'' @ tb_id wh @ '':'' @ deliveryId"

definition webhook_spec :: "Webhook \<Rightarrow> string \<Rightarrow> string \<times> string \<Rightarrow> TriggerSpec" where
  "webhook_spec wh deliveryId event =
     \<lparr>ts_title = None, ts_owner = tb_owner wh, ts_ownerScopeId = tb_ownerScopeId wh, ts_input = fst event,
      ts_securityScreenData = Some (snd event), ts_fireKey = webhook_fire_key wh deliveryId, ts_surface = ''webhook'',
      ts_destination = tb_destination wh, ts_message = None, ts_threadRef = None, ts_runAs = None, ts_unattendedGrants = None,
      ts_members = None, ts_recipientConsent = tb_recipientConsent wh, ts_recipientConsentRequired = Some True, ts_shadow = False,
      ts_thinkingLevel = None, ts_readOnly = False, ts_turnWallClockMs = None,
      ts_errorNotice = Some (\<lambda>s. ''Webhook did not complete: '' @ s), ts_onClaimed = Inr, ts_deferWhenBusy = False\<rparr>"

text \<open>What a delivery answers, what it leaves in the stores, and the trigger it starts with the webhook it is for. \<open>now\<close> is
  the time of the delivery.\<close>

definition deliver ::
  "hook_env \<Rightarrow> string \<Rightarrow> headers \<Rightarrow> string \<Rightarrow> int \<Rightarrow> hook_world \<Rightarrow> hook_world \<times> (wake_error + DeliverResult \<times> (Webhook \<times> string \<times> TriggerSpec) option)" where
  "deliver H i hs rawBody now w =
     (case dm_get (ws_backing (hw_webhooks w)) i of
        None \<Rightarrow> (w, Inr (status_404, None))
      | Some wh \<Rightarrow>
          if \<not> tb_enabled wh then (w, Inr (status_404, None))
          else case getVerifier (vf_scheme (wh_verification wh)) of
            None \<Rightarrow> (w, Inr (status_404, None))
          | Some verifier \<Rightarrow>
              let input = webhook_input wh hs rawBody in
              if \<not> verify_delivery H now verifier input then (w, Inr (status_401, None))
              else
                let parsed = parseBody H hs rawBody in
                case handshake verifier input parsed of
                  Some hsk \<Rightarrow> (w, Inr (status_200 hsk, None))
                | None \<Rightarrow>
                    if \<not> passesFilters (wh_filters wh) parsed then (w, Inr (status_200 ''skipped'', None))
                    else
                      let deliveryId = delivery_id H verifier input in
                      case isCommitted (webhook_fire_key wh deliveryId) now (tw_idempotency w) of
                        (d, True) \<Rightarrow> (w\<lparr>tw_idempotency := d\<rparr>, Inr (status_200 ''duplicate'', None))
                      | (d, False) \<Rightarrow>
                          (case renderEvent H wh deliveryId parsed rawBody now of
                             Inl e \<Rightarrow> (w\<lparr>tw_idempotency := d\<rparr>, Inl e)
                           | Inr event \<Rightarrow>
                               (w\<lparr>tw_idempotency := d,
                                  hw_webhooks := recordEvent H (tb_id wh) \<lparr>ev_deliveryId = deliveryId, ev_receivedAt = now, ev_payload = snd event\<rparr> (hw_webhooks w)\<rparr>,
                                Inr (status_202, Some (wh, deliveryId, webhook_spec wh deliveryId event)))))"

text \<open>What follows the trigger, which runs after the answer; \<^const>\<open>Inl\<close> is what it threw.\<close>

definition after_fire :: "Webhook \<Rightarrow> string \<Rightarrow> int \<Rightarrow> string + TriggerOutcome \<Rightarrow> webhook_store \<Rightarrow> webhook_store" where
  "after_fire wh deliveryId t r s =
     (case r of
        Inl msg \<Rightarrow> webhook_record_fire (tb_id wh) t None (Some msg) s
      | Inr outcome \<Rightarrow>
          if to_authzFailed outcome
          then webhook_record_fire (tb_id wh) t None (Some (nullish (to_note outcome) ''fail-closed'')) (webhook_set_enabled (tb_id wh) False s)
          else webhook_record_fire (tb_id wh) t (Some deliveryId) (if truthy (to_note outcome) then to_note outcome else None) s)"

text \<open>The receiver does not hand on the sessions.\<close>

definition webhook_trigger_deps :: "TriggerDeps \<Rightarrow> TriggerDeps" where
  "webhook_trigger_deps deps = deps\<lparr>tg_sessions := None\<rparr>"

definition fire_webhook ::
  "TriggerDeps \<Rightarrow> turn_effect \<Rightarrow> Webhook \<times> string \<times> TriggerSpec \<Rightarrow> int \<Rightarrow> int \<Rightarrow> int \<Rightarrow> string \<Rightarrow> string \<Rightarrow> hook_world \<Rightarrow> hook_world" where
  "fire_webhook deps run f t0 t1 t2 u1 u2 w =
     (case f of (wh, deliveryId, spec) \<Rightarrow>
       (case runTrigger (webhook_trigger_deps deps) run spec t0 t1 t2 u1 u2 (trigger_world.truncate w) of
          (v, r) \<Rightarrow> trigger_world.extend v \<lparr>hw_webhooks = after_fire wh deliveryId t2 r (hw_webhooks w)\<rparr>))"

end
