(* ===== verification/Webhook_Properties.thy ===== *)
theory Webhook_Properties
  imports Webhooks Trigger_Properties Envelope_Properties
begin

text \<open>
  What a webhook promises: nothing happens without a signature over the body made with the secret of the webhook; the same
  body does not fire again, whatever headers come with it; what was sent reaches the agent as data, cut to size; and the
  history is bounded, newest first, one entry per delivery.
\<close>

section \<open>Signatures\<close>

text \<open>What it means that a request shows a signature for a text, scheme by scheme.\<close>

inductive shows_signature :: "WebhookScheme \<Rightarrow> headers \<Rightarrow> string \<Rightarrow> string \<Rightarrow> string \<Rightarrow> bool" where
  by_github: "header hs ''x-hub-signature-256'' = Some (''sha256='' @ sig) \<Longrightarrow> shows_signature github hs body body sig"
| by_slack: "header hs ''x-slack-signature'' = Some (''v0='' @ sig) \<Longrightarrow> header hs ''x-slack-request-timestamp'' = Some ts \<Longrightarrow>
    shows_signature slack hs body (''v0:'' @ ts @ '':'' @ body) sig"
| by_stripe: "header hs ''stripe-signature'' = Some h \<Longrightarrow> p \<in> set (split_char (CHR '','') h) \<Longrightarrow> q \<in> set (split_char (CHR '','') h) \<Longrightarrow>
    split_char (CHR ''='') p = ''t'' # t # x \<Longrightarrow> split_char (CHR ''='') q = ''v1'' # sig # y \<Longrightarrow>
    shows_signature stripe hs body (t @ ''.'' @ body) sig"
| by_linear: "header hs ''linear-signature'' = Some sig \<Longrightarrow> shows_signature linear hs body body sig"
| by_hmac: "header hs ''x-signature'' = Some sig \<Longrightarrow> shows_signature hmacSha256 hs body body sig"
| by_hmac_prefixed: "header hs ''x-signature'' = Some (''sha256='' @ sig) \<Longrightarrow> shows_signature hmacSha256 hs body body sig"

lemma truthy_the: "truthy v \<Longrightarrow> v = Some (the v)"
  by (cases v) simp_all

lemma pair_part:
  assumes "1 < length p"
  shows "p = hd p # p ! 1 # drop 2 p"
  using assms by (cases p; cases "tl p") auto

lemma stripe_signs:
  assumes "verify_stripe H secret hs body"
  obtains msg where "shows_signature stripe hs body msg (he_hmac H secret msg)"
proof -
  let ?second = "\<lambda>p :: string list. if 1 < length p then Some (p ! 1) else None"
  from assms obtain h where h: "header hs ''stripe-signature'' = Some h" by (cases "header hs ''stripe-signature''") (auto simp: verify_stripe_def)
  let ?parts = "map (split_char (CHR ''='')) (split_char (CHR '','') h)"
  let ?t = "Option.bind (find (\<lambda>p. hd p = ''t'') ?parts) ?second"
  from assms h have t: "truthy ?t"
    and ex: "\<exists>v \<in> set (filter (\<lambda>p. hd p = ''v1'' \<and> truthy (?second p)) ?parts). v ! 1 = hmacHex H secret (the ?t @ ''.'' @ body)"
    by (auto simp: verify_stripe_def Let_def constantTimeEqual_def list_ex_iff split: if_splits)
  from t obtain a where f: "find (\<lambda>p. hd p = ''t'') ?parts = Some a" by (cases "find (\<lambda>p. hd p = ''t'') ?parts") auto
  from find_SomeD[OF f] have a: "a \<in> set ?parts" "hd a = ''t''" by auto
  from t f have la: "1 < length a" "the ?t = a ! 1" by (auto split: if_splits)
  from ex obtain b where b: "b \<in> set ?parts" "hd b = ''v1''" "1 < length b" "b ! 1 = hmacHex H secret (a ! 1 @ ''.'' @ body)"
    unfolding la(2) by (auto split: if_splits)
  from a(1) obtain p where p: "p \<in> set (split_char (CHR '','') h)" "split_char (CHR ''='') p = ''t'' # a ! 1 # drop 2 a"
    using pair_part[OF la(1)] a(2) by auto
  from b(1) obtain q where q: "q \<in> set (split_char (CHR '','') h)" "split_char (CHR ''='') q = ''v1'' # b ! 1 # drop 2 b"
    using pair_part[OF b(3)] b(2) by auto
  show ?thesis using by_stripe[OF h p(1) q(1) p(2) q(2), of body] unfolding b(4) hmacHex_def by (rule that)
qed

lemma verified_signs:
  assumes "verify_delivery H now scheme (webhook_input wh hs body)"
  obtains secret msg where "vf_secret (wh_verification wh) = Some secret" "secret \<noteq> []"
    "shows_signature scheme hs body msg (he_hmac H secret msg)"
proof -
  from assms obtain secret where s: "vf_secret (wh_verification wh) = Some secret" "secret \<noteq> []"
    by (cases "vf_secret (wh_verification wh)") (auto simp: verify_delivery_def webhook_input_def split: if_splits)
  then have secret: "vi_secret (webhook_input wh hs body) = Some secret" "vi_headers (webhook_input wh hs body) = hs"
    "vi_rawBody (webhook_input wh hs body) = body" by (simp_all add: webhook_input_def)
  have "\<exists>msg. shows_signature scheme hs body msg (he_hmac H secret msg)"
  proof (cases scheme)
    case github
    with assms secret have "header hs ''x-hub-signature-256'' = Some (''sha256='' @ he_hmac H secret body)"
      by (auto simp: verify_delivery_def verify_github_def Let_def constantTimeEqual_def hmacHex_def dest: truthy_the)
    then show ?thesis unfolding github by (blast intro: by_github)
  next
    case slack
    with assms secret obtain ts where "header hs ''x-slack-request-timestamp'' = Some ts"
      "header hs ''x-slack-signature'' = Some (''v0='' @ he_hmac H secret (''v0:'' @ ts @ '':'' @ body))"
      by (cases "header hs ''x-slack-request-timestamp''")
        (auto simp: verify_delivery_def verify_slack_def Let_def constantTimeEqual_def hmacHex_def dest!: truthy_the split: if_splits option.splits)
    then show ?thesis unfolding slack by (blast intro: by_slack)
  next
    case stripe
    with assms secret have "verify_stripe H secret hs body" by (simp add: verify_delivery_def)
    from stripe_signs[OF this] show ?thesis unfolding stripe by blast
  next
    case linear
    with assms secret have "header hs ''linear-signature'' = Some (he_hmac H secret body)"
      by (auto simp: verify_delivery_def verify_linear_def Let_def constantTimeEqual_def hmacHex_def dest!: truthy_the split: if_splits)
    then show ?thesis unfolding linear by (blast intro: by_linear)
  next
    case hmacSha256
    with assms secret obtain raw where raw: "header hs ''x-signature'' = Some raw"
      "(if starts_with raw ''sha256='' then drop (length ''sha256='') raw else raw) = he_hmac H secret body"
      by (cases "header hs ''x-signature''") (simp_all add: verify_delivery_def verify_hmac_def Let_def constantTimeEqual_def hmacHex_def cong del: if_weak_cong)
    show ?thesis
    proof (cases "starts_with raw ''sha256=''")
      case True
      with raw starts_with_drop[OF True] have "header hs ''x-signature'' = Some (''sha256='' @ he_hmac H secret body)" by simp
      then show ?thesis unfolding hmacSha256 by (blast intro: by_hmac_prefixed)
    next
      case False
      with raw have "header hs ''x-signature'' = Some (he_hmac H secret body)" by simp
      then show ?thesis unfolding hmacSha256 by (blast intro: by_hmac)
    qed
  qed
  with s that show ?thesis by blast
qed

lemma deliver_cases:
  assumes "deliver H i hs body now w = (w', r)"
  obtains (refused) "w' = w" "r = Inr (status_404, None) \<or> r = Inr (status_401, None)"
  | (verified) wh scheme where "dm_get (ws_backing (hw_webhooks w)) i = Some wh" "tb_enabled wh"
      "getVerifier (vf_scheme (wh_verification wh)) = Some scheme" "verify_delivery H now scheme (webhook_input wh hs body)"
proof (cases "dm_get (ws_backing (hw_webhooks w)) i")
  case None
  with assms refused show ?thesis by (simp add: deliver_def)
next
  case (Some wh)
  show ?thesis
  proof (cases "\<exists>scheme. tb_enabled wh \<and> getVerifier (vf_scheme (wh_verification wh)) = Some scheme \<and>
      verify_delivery H now scheme (webhook_input wh hs body)")
    case True
    with Some verified show ?thesis by blast
  next
    case False
    with assms Some show ?thesis
      by (intro refused) (auto simp: deliver_def Let_def split: if_splits option.splits)
  qed
qed

text \<open>C35: Nothing happens on behalf of a webhook without a valid signature. If a request changes anything or is answered otherwise
  than with \<open>not found\<close> or \<open>unauthorized\<close>, then the webhook it names is there and enabled, has a secret that is not empty, and
  the headers show, in the form of its scheme, the HMAC under that secret of a text that is the body of the request, with
  the timestamp that came with it in the schemes that sign one.\<close>

theorem webhook_needs_signature:
  assumes "deliver H i hs body now w = (w', r)" "w' \<noteq> w \<or> r \<noteq> Inr (status_404, None) \<and> r \<noteq> Inr (status_401, None)"
  shows "\<exists>wh scheme secret msg. dm_get (ws_backing (hw_webhooks w)) i = Some wh \<and> tb_enabled wh \<and>
    getVerifier (vf_scheme (wh_verification wh)) = Some scheme \<and> vf_secret (wh_verification wh) = Some secret \<and> secret \<noteq> [] \<and>
    shows_signature scheme hs body msg (he_hmac H secret msg)"
  using assms(1)
proof (cases rule: deliver_cases)
  case refused
  with assms(2) show ?thesis by blast
next
  case (verified wh scheme)
  from verified_signs[OF verified(4)] verified(1-3) show ?thesis by metis
qed

section \<open>Replays\<close>

lemma deliver_fires:
  assumes "deliver H i hs body now w = (w', Inr (a, Some (wh, did, spec)))"
  obtains scheme event where "dm_get (ws_backing (hw_webhooks w)) i = Some wh" "getVerifier (vf_scheme (wh_verification wh)) = Some scheme"
    "did = delivery_id H scheme (webhook_input wh hs body)" "spec = webhook_spec wh did event" "a = status_202"
    "renderEvent H wh did (parseBody H hs body) body now = Inr event"
    "\<not> snd (isCommitted (ts_fireKey spec) now (tw_idempotency w))"
  using assms by (auto simp: deliver_def Let_def webhook_spec_def split: if_splits option.splits prod.splits bool.splits sum.splits)

lemma committed_known:
  assumes "undisturbed key now es (once_commit key t s)" "t \<le> now" "now \<le> t + id_retentionMs s"
  shows "snd (isCommitted key now (fold once_do es (once_commit key t s)))"
  using committed_recorded[OF assms] by (simp add: isCommitted_iff)

lemma deliver_answers:
  assumes "deliver H i hs body now w = (w', r)" "\<nexists>a f. r = Inr (a, Some f)"
  shows "tw_deliveries w' = tw_deliveries w \<and> hw_webhooks w' = hw_webhooks w \<and> (\<exists>a. r = Inr (a, None) \<and> a \<noteq> status_202 \<or> isl r)"
  using assms by (auto simp: deliver_def Let_def split: if_splits option.splits prod.splits bool.splits sum.splits)

text \<open>C36: A captured delivery cannot be replayed. After a delivery started a trigger and that ran, the same body sent again to the
  same webhook, with whatever headers, at any time until the record of the first is older than the retention time, starts
  nothing, delivers nothing and leaves the webhooks and their history alone: the key of the fire depends on the signed
  body only. Others may use the guard in between, and restarts do not matter where it is backed by a map.\<close>

theorem webhook_replay_inert:
  assumes "deliver H i hs body n0 w = (w0, Inr (a, Some (wh, did, spec)))"
    and "runTrigger deps run spec t0 t1 t2 u1 u2 v = (v1, Inr out)" "to_ran out"
    and "undisturbed (ts_fireKey spec) now es (tw_idempotency v1)" "tw_idempotency w2 = fold once_do es (tw_idempotency v1)"
    and "t2 \<le> now" "now \<le> t2 + id_retentionMs (tw_idempotency v1)"
    and "dm_get (ws_backing (hw_webhooks w2)) i = Some wh2" "tb_id wh2 = tb_id wh" "vf_scheme (wh_verification wh2) = vf_scheme (wh_verification wh)"
  shows "(\<nexists>a f. snd (deliver H i hs2 body now w2) = Inr (a, Some f)) \<and>
    tw_deliveries (fst (deliver H i hs2 body now w2)) = tw_deliveries w2 \<and> hw_webhooks (fst (deliver H i hs2 body now w2)) = hw_webhooks w2"
proof -
  obtain w' r where d: "deliver H i hs2 body now w2 = (w', r)" by (cases "deliver H i hs2 body now w2")
  have no: "\<nexists>a f. r = Inr (a, Some f)"
  proof
    assume "\<exists>a f. r = Inr (a, Some f)"
    then obtain a' x did' spec' where "r = Inr (a', Some (x, did', spec'))" by (metis prod_cases3)
    from deliver_fires[OF d[unfolded this]] obtain scheme event where
      s: "getVerifier (vf_scheme (wh_verification x)) = Some scheme" "x = wh2" "did' = delivery_id H scheme (webhook_input x hs2 body)"
        "spec' = webhook_spec x did' event" "\<not> snd (isCommitted (ts_fireKey spec') now (tw_idempotency w2))"
      using assms(8) by (metis option.inject)
    from deliver_fires[OF assms(1)] obtain scheme0 event0 where
      s0: "getVerifier (vf_scheme (wh_verification wh)) = Some scheme0" "did = delivery_id H scheme0 (webhook_input wh hs body)"
        "spec = webhook_spec wh did event0" by metis
    have "scheme = scheme0" using s(1,2) s0(1) assms(10) by simp
    then have "did' = did" using s(3) s0(2) by (simp add: delivery_id_def webhook_input_def split: WebhookScheme.splits)
    then have key: "ts_fireKey spec' = ts_fireKey spec" using s(2,4) s0(3) assms(9) by (simp add: webhook_spec_def webhook_fire_key_def)
    from runTrigger_ran[OF assms(2,3)] obtain c where c: "tw_idempotency v1 = once_commit (ts_fireKey spec) t2 c" by blast
    have "id_retentionMs (tw_idempotency v1) = id_retentionMs c" unfolding c by (simp add: once_commit_def)
    with committed_known[of "ts_fireKey spec" now es t2 c] assms(4-7) c
    have "snd (isCommitted (ts_fireKey spec) now (tw_idempotency w2))" by simp
    with s(5) key show False by simp
  qed
  from deliver_answers[OF d no] no d show ?thesis by simp
qed

section \<open>What the agent is given\<close>

text \<open>C37: What arrives through a webhook reaches the agent as data of bounded size. The text of the turn a delivery starts reads,
  by its tags, as a wake with the action of the owner as its orders and one event whose text is exactly the payload that is
  screened as well; that payload is the beginning of the body, or of its JSON in readable form, with at most 16000
  characters once escaped, and is marked where it was cut.\<close>

theorem webhook_payload_is_data:
  assumes "deliver H i hs body now w = (w', Inr (a, Some (wh, did, spec)))" "iso_plain (he_dates H)"
  shows "\<exists>payload kept whole rest. ts_securityScreenData spec = Some payload \<and>
    read_envelope (ts_input spec) = map piece_read (envelope_pieces (he_dates H) (webhook_opts \<lparr>wv_webhookId = tb_id wh,
      wv_scheme = vf_scheme (wh_verification wh), wv_deliveryId = Some did, wv_at = now, wv_action = wh_action wh, wv_payload = payload\<rparr>) []) \<and>
    (whole = body \<or> whole = pretty [CHR 0x0A] (parseBody H hs body)) \<and> whole = kept @ rest \<and> length (xmlEscape kept) \<le> 16000 \<and>
    payload = (if rest = [] then kept else kept @ CHR 0x0A # ''...[truncated]'')"
  using assms(1)
proof (rule deliver_fires)
  fix scheme event
  assume e: "renderEvent H wh did (parseBody H hs body) body now = Inr event" and s: "spec = webhook_spec wh did event"
  let ?payload = "render_payload (parseBody H hs body) body"
  let ?whole = "if isObj (parseBody H hs body) then pretty [CHR 0x0A] (parseBody H hs body) else body"
  let ?kept = "capForEscaping ?whole MAX_EVENT_CHARS keep_head"
  let ?o = "webhook_opts \<lparr>wv_webhookId = tb_id wh, wv_scheme = vf_scheme (wh_verification wh), wv_deliveryId = Some did, wv_at = now,
      wv_action = wh_action wh, wv_payload = ?payload\<rparr>"
  from e obtain input where inp: "buildEventWakeEnvelope (he_dates H) ?o = Inr input" "event = (input, ?payload)"
    by (auto simp: renderEvent_def buildWebhookWakeEnvelope_def Let_def split: sum.splits)
  have r: "read_envelope input = map piece_read (envelope_pieces (he_dates H) ?o [])"
    using envelope_read[OF inp(1) _ _ assms(2), of "[]"] by (simp add: webhook_opts_def says_Nil)
  have fit: "length (xmlEscape ?kept) \<le> 16000" "\<exists>rest. ?whole = ?kept @ rest"
    using cap_loop_fits[of MAX_EVENT_CHARS keep_head "take MAX_EVENT_CHARS ?whole"] part_trans[of keep_head _ "take MAX_EVENT_CHARS ?whole" ?whole]
      part_cut[of keep_head MAX_EVENT_CHARS ?whole]
    by (simp_all add: capForEscaping_def part_of_def MAX_EVENT_CHARS_def)
  then obtain rest where rest: "?whole = ?kept @ rest" by blast
  have pay: "?payload = (if rest = [] then ?kept else ?kept @ CHR 0x0A # ''...[truncated]'')"
    using arg_cong[OF rest, of length] by (simp add: render_payload_def Let_def del: length_greater_0_conv)
  show ?thesis using r fit(1) rest pay inp(2) s by (intro exI[of _ ?payload] exI[of _ ?kept] exI[of _ ?whole] exI[of _ rest]) (simp add: webhook_spec_def)
qed

section \<open>The history\<close>

definition history_ok :: "WebhookEvent list \<Rightarrow> bool" where
  "history_ok es \<longleftrightarrow> length es \<le> 50 \<and> distinct (map ev_deliveryId es) \<and> sorted (map (\<lambda>e. - ev_receivedAt e) es) \<and>
     (\<forall>e \<in> set es. length (ev_payload e) \<le> 16100)"

lemma distinct_event_order: "distinct (map ev_deliveryId (event_order H es)) = distinct (map ev_deliveryId es)"
proof -
  have "mset (map ev_deliveryId (event_order H es)) = mset (map ev_deliveryId es)" by (simp add: event_order_def)
  then show ?thesis by (metis mset_eq_imp_distinct_iff)
qed

text \<open>Whatever is recorded, the history of a webhook holds at most fifty events, no delivery twice, the newest first, each with
  at most 16100 characters, and a delivery that is recorded already changes nothing.\<close>

theorem webhook_history_bounded:
  assumes "history_ok (listEvents i s)"
  shows "history_ok (listEvents i (recordEvent H i event s)) \<and>
    (\<forall>j. j \<noteq> i \<longrightarrow> listEvents j (recordEvent H i event s) = listEvents j s) \<and>
    (ev_deliveryId event \<in> ev_deliveryId ` set (listEvents i s) \<longrightarrow> listEvents i (recordEvent H i event s) = listEvents i s)"
proof -
  have eq: "listEvents j (recordEvent H i event s) = (if j = i then add_event H event (listEvents i s) else listEvents j s)" for j
    by (auto simp: listEvents_def recordEvent_def Let_def dm_defs map_of_update split: option.splits)
  let ?es = "event_order H (listEvents i s @ [event\<lparr>ev_payload := take 16100 (ev_payload event)\<rparr>])"
  have "history_ok (take 50 ?es)" if "ev_deliveryId event \<notin> ev_deliveryId ` set (listEvents i s)"
  proof -
    have "distinct (map ev_deliveryId ?es)" using assms that by (simp add: distinct_event_order history_ok_def)
    moreover have "sorted (map (\<lambda>e. - ev_receivedAt e) ?es)" by (simp add: event_order_def)
    moreover have "\<forall>e \<in> set ?es. length (ev_payload e) \<le> 16100" using assms by (auto simp: event_order_def history_ok_def)
    ultimately show ?thesis by (auto simp: history_ok_def take_map[symmetric] sorted_wrt_take dest: in_set_takeD)
  qed
  then have "history_ok (add_event H event (listEvents i s))" using assms
    by (cases "ev_deliveryId event \<in> ev_deliveryId ` set (listEvents i s)") (auto simp: add_event_def list_ex_iff image_iff)
  moreover have "add_event H event (listEvents i s) = listEvents i s" if "ev_deliveryId event \<in> ev_deliveryId ` set (listEvents i s)"
    using that by (auto simp: add_event_def list_ex_iff)
  ultimately show ?thesis by (simp add: eq)
qed

section \<open>Examples\<close>

definition demo_env :: hook_env where
  "demo_env = \<lparr>he_hmac = (\<lambda>k b. k @ ''.'' @ b), he_sha = (\<lambda>b. b), he_parse = (\<lambda>b. None), he_number = (\<lambda>t. None), he_form = (\<lambda>b. []),
     he_collate = (\<lambda>i. i), he_dates = plain_dates\<rparr>"

definition demo_hook :: Webhook where
  "demo_hook = \<lparr>tb_id = ''w1'', tb_ownerScopeId = ''personal:ann'', tb_owner = ''ann'', tb_createdBy = ''ann'', tb_ownerConsentedAt = None,
     tb_destination = None, tb_enabled = True, tb_createdAt = 0, tb_lastFiredAt = None, tb_recipientConsent = None, wh_action = ''look'',
     wh_verification = \<lparr>vf_scheme = ''github'', vf_secret = Some ''key''\<rparr>, wh_filters = None, wh_lastDeliveryId = None, wh_lastError = None\<rparr>"

definition demo_world :: hook_world where
  "demo_world = trigger_world.extend quiet_world \<lparr>hw_webhooks = \<lparr>ws_backing = [(''w1'', demo_hook)], ws_history = []\<rparr>\<rparr>"

definition demo_headers :: headers where
  "demo_headers = [(''x-hub-signature-256'', [''sha256=key.hi''])]"

definition demo_fire :: "Webhook \<times> string \<times> TriggerSpec" where
  "demo_fire = (case snd (deliver demo_env ''w1'' demo_headers ''hi'' 5 demo_world) of Inr (a, Some f) \<Rightarrow> f | _ \<Rightarrow> undefined)"

lemma demo_delivery:
  "map_sum id (map_prod id (map_option fst)) (snd (deliver demo_env ''w1'' demo_headers ''hi'' 5 demo_world)) = Inr (status_202, Some demo_hook)"
  by code_simp

lemma demo_delivered:
  obtains w where "deliver demo_env ''w1'' demo_headers ''hi'' 5 demo_world = (w, Inr (status_202, Some demo_fire))" "fst demo_fire = demo_hook"
proof -
  obtain w r where d: "deliver demo_env ''w1'' demo_headers ''hi'' 5 demo_world = (w, r)" by (cases "deliver demo_env ''w1'' demo_headers ''hi'' 5 demo_world")
  from demo_delivery d obtain f where "r = Inr (status_202, Some f)" "fst f = demo_hook" by (cases r) auto
  moreover from this d have "demo_fire = f" by (simp add: demo_fire_def)
  ultimately show ?thesis using d that by simp
qed

theorem webhook_needs_signature_witness:
  "\<exists>msg. shows_signature github demo_headers ''hi'' msg (''key.'' @ msg)"
proof (rule demo_delivered)
  fix w
  assume d: "deliver demo_env ''w1'' demo_headers ''hi'' 5 demo_world = (w, Inr (status_202, Some demo_fire))"
  have "dm_get (ws_backing (hw_webhooks demo_world)) ''w1'' = Some demo_hook" "getVerifier (vf_scheme (wh_verification demo_hook)) = Some github"
    "vf_secret (wh_verification demo_hook) = Some ''key''" "he_hmac demo_env = (\<lambda>k b. k @ ''.'' @ b)"
    by (simp_all add: demo_world_def trigger_world.defs quiet_world_def demo_hook_def getVerifier_def VERIFIERS_def demo_env_def dm_get_def)
  with webhook_needs_signature[OF d] show ?thesis by auto
qed

theorem webhook_payload_is_data_witness:
  "\<exists>payload. ts_securityScreenData (snd (snd demo_fire)) = Some payload \<and> map fst (read_envelope (ts_input (snd (snd demo_fire)))) =
     [''wake'', ''why'', ''/why'', ''standing-orders'', ''/standing-orders'', ''event'', ''/event'', ''instructions'', ''/instructions'', ''/wake'']"
proof (rule demo_delivered)
  fix w
  assume d: "deliver demo_env ''w1'' demo_headers ''hi'' 5 demo_world = (w, Inr (status_202, Some demo_fire))"
  obtain wh did spec where f: "demo_fire = (wh, did, spec)" by (cases demo_fire)
  have "iso_plain (he_dates demo_env)" using plain_dates_plain by (simp add: demo_env_def)
  from webhook_payload_is_data[OF d[unfolded f] this] obtain payload e where p: "ts_securityScreenData spec = Some payload"
    "read_envelope (ts_input spec) = map piece_read (envelope_pieces (he_dates demo_env) (webhook_opts e) [])" by blast
  have "map fst (map piece_read (envelope_pieces D (webhook_opts e) [])) =
     [''wake'', ''why'', ''/why'', ''standing-orders'', ''/standing-orders'', ''event'', ''/event'', ''instructions'', ''/instructions'', ''/wake'']" for D
    by (simp add: envelope_pieces_def event_pieces_def orders_pieces_def closing_def webhook_opts_def piece_read_def)
  with p show ?thesis unfolding f by simp
qed

lemma demo_runs:
  "map_sum id to_ran (snd (runTrigger open_deps silent_turn (webhook_spec demo_hook did event) 5 5 6 ''d1'' ''d2'' quiet_world)) = Inr True"
  "id_retentionMs (tw_idempotency (fst (runTrigger open_deps silent_turn (webhook_spec demo_hook did event) 5 5 6 ''d1'' ''d2'' quiet_world))) = 100"
  by (simp_all add: runTrigger_def plan_trigger_def acting_person_def home_access_def open_deps_def webhook_spec_def Let_def once_begin_def
      quiet_world_def isCommitted_def fire_body_def silent_turn_def after_turn_def finish_trigger_def outcome_of_result_def
      demo_hook_def no_result_def once_commit_def once_store_def once_settle_def once_enter_def once_looked_def cache_hit_def
      committed_read_def record_of_def pruneIfDue_def)

definition later_world :: "trigger_world \<Rightarrow> hook_world" where
  "later_world v = demo_world\<lparr>tw_idempotency := tw_idempotency v\<rparr>"

theorem webhook_replay_inert_witness:
  "\<exists>v. id_retentionMs (tw_idempotency v) = 100 \<and>
     hw_webhooks (fst (deliver demo_env ''w1'' (demo_headers @ [(''x-new'', [''1''])]) ''hi'' 60 (later_world v))) = hw_webhooks (later_world v)"
proof (rule demo_delivered)
  fix w
  assume d: "deliver demo_env ''w1'' demo_headers ''hi'' 5 demo_world = (w, Inr (status_202, Some demo_fire))" "fst demo_fire = demo_hook"
  obtain wh did spec where f: "demo_fire = (wh, did, spec)" by (cases demo_fire)
  have wh: "wh = demo_hook" using d(2) unfolding f by simp
  from deliver_fires[OF d(1)[unfolded f]] obtain event where spec: "spec = webhook_spec demo_hook did event" unfolding wh by metis
  obtain v out where r: "runTrigger open_deps silent_turn spec 5 5 6 ''d1'' ''d2'' quiet_world = (v, Inr out)" "to_ran out"
    and t: "id_retentionMs (tw_idempotency v) = 100"
    using demo_runs[of did event] unfolding spec[symmetric]
    by (cases "runTrigger open_deps silent_turn spec 5 5 6 ''d1'' ''d2'' quiet_world";
        cases "snd (runTrigger open_deps silent_turn spec 5 5 6 ''d1'' ''d2'' quiet_world)") auto
  have "undisturbed (ts_fireKey spec) 60 [] (tw_idempotency v)" by (simp add: undisturbed_def)
  moreover have "tw_idempotency (later_world v) = fold once_do [] (tw_idempotency v)" by (simp add: later_world_def)
  moreover have "dm_get (ws_backing (hw_webhooks (later_world v))) ''w1'' = Some demo_hook"
    by (simp add: later_world_def demo_world_def trigger_world.defs quiet_world_def dm_get_def)
  ultimately have "hw_webhooks (fst (deliver demo_env ''w1'' (demo_headers @ [(''x-new'', [''1''])]) ''hi'' 60 (later_world v))) = hw_webhooks (later_world v)"
    using webhook_replay_inert[OF d(1)[unfolded f] r, of 60 "[]" "later_world v" demo_hook "demo_headers @ [(''x-new'', [''1''])]"] t wh by simp
  with t show ?thesis by blast
qed

end
