(* ===== verification/Monitors.thy ===== *)
theory Monitors
  imports Wake_Envelope Run_Trigger
begin

text \<open>
  Watches on background jobs: the registry of processes in memory (\<open>src/src/processes/process-registry.ts\<close>), the store of
  monitors (\<open>src/src/monitors/monitor-store.ts\<close>), the broker through which an agent watches a job (\<open>monitor-broker.ts\<close>) and
  the poller that reads the output of jobs and wakes the agent (\<open>monitor-poller.ts\<close>). What the sandbox answers to a read is
  an argument, and so is what others do to the monitors while a trigger runs. A long dash in a text is written as a
  hyphen, an ellipsis as three dots, and the warning sign before a notice is left out.
\<close>

section \<open>Processes\<close>

datatype ProcessKind = proc_build | proc_dev_server | proc_background
datatype ProcessStatus = proc_running | proc_exited | proc_reaped

record ProcessRecord =
  pr_processId :: string
  pr_scopeId :: string
  pr_sandboxId :: "string option"
  pr_kind :: ProcessKind
  pr_command :: string
  pr_startedAt :: int
  pr_expiresAt :: int
  pr_status :: ProcessStatus
  pr_sessionRef :: "string option"
  pr_runId :: "string option"

record NewProcessRecord =
  np_processId :: string
  np_scopeId :: string
  np_sandboxId :: "string option"
  np_kind :: ProcessKind
  np_command :: string
  np_ttlMs :: int
  np_sessionRef :: "string option"
  np_runId :: "string option"

definition some_text :: "string option \<Rightarrow> string option" where
  "some_text v = (if truthy v then v else None)"

text \<open>The kind of a process is one of the declared kinds by its type.\<close>

definition newRecord :: "NewProcessRecord \<Rightarrow> int \<Rightarrow> ProcessRecord" where
  "newRecord r now =
     \<lparr>pr_processId = np_processId r, pr_scopeId = np_scopeId r, pr_sandboxId = some_text (np_sandboxId r), pr_kind = np_kind r,
      pr_command = np_command r, pr_startedAt = now, pr_expiresAt = now + np_ttlMs r, pr_status = proc_running,
      pr_sessionRef = some_text (np_sessionRef r), pr_runId = some_text (np_runId r)\<rparr>"

definition register_process :: "NewProcessRecord \<Rightarrow> int \<Rightarrow> ProcessRecord jsmap \<Rightarrow> ProcessRecord jsmap \<times> ProcessRecord" where
  "register_process r now rows = (let row = newRecord r now in (AList.update (pr_processId row) row rows, row))"

definition get_process :: "ProcessRecord jsmap \<Rightarrow> string \<Rightarrow> ProcessRecord option" where
  "get_process rows i = map_of rows i"

definition listByScope_processes :: "string \<Rightarrow> ProcessRecord jsmap \<Rightarrow> ProcessRecord list" where
  "listByScope_processes scope rows = filter (\<lambda>r. pr_scopeId r = scope) (vals rows)"

definition live_process :: "int \<Rightarrow> ProcessRecord \<Rightarrow> bool" where
  "live_process now r \<longleftrightarrow> pr_status r = proc_running \<and> pr_expiresAt r > now"

definition liveByScope_processes :: "string \<Rightarrow> int \<Rightarrow> ProcessRecord jsmap \<Rightarrow> ProcessRecord list" where
  "liveByScope_processes scope now rows = filter (\<lambda>r. pr_scopeId r = scope \<and> live_process now r) (vals rows)"

definition listLive_processes :: "int \<Rightarrow> ProcessRecord jsmap \<Rightarrow> ProcessRecord list" where
  "listLive_processes now rows = filter (live_process now) (vals rows)"

definition markStatus :: "string \<Rightarrow> ProcessStatus \<Rightarrow> ProcessRecord jsmap \<Rightarrow> ProcessRecord jsmap \<times> bool" where
  "markStatus i st rows =
     (case map_of rows i of None \<Rightarrow> (rows, False) | Some row \<Rightarrow> (AList.update i (row\<lparr>pr_status := st\<rparr>) rows, True))"

definition listExpired_processes :: "int \<Rightarrow> ProcessRecord jsmap \<Rightarrow> ProcessRecord list" where
  "listExpired_processes now rows = filter (\<lambda>r. pr_status r = proc_running \<and> pr_expiresAt r \<le> now) (vals rows)"

definition delete_process :: "string \<Rightarrow> ProcessRecord jsmap \<Rightarrow> ProcessRecord jsmap" where
  "delete_process i rows = AList.delete i rows"

section \<open>The store of monitors\<close>

record Monitor = TriggerBase +
  mn_processId :: string
  mn_command :: string
  mn_threadRef :: string
  mn_instructions :: "string option"
  mn_pattern :: "string option"
  mn_cursor :: int
  mn_tail :: "string option"
  mn_expiresAt :: int
  mn_lastError :: "string option"

record CreateMonitorInput = CreateTriggerInput +
  cm_processId :: string
  cm_command :: string
  cm_threadRef :: string
  cm_instructions :: "string option"
  cm_pattern :: "string option"
  cm_cursor :: "int option"
  cm_expiresAt :: int

definition DEFUNCT_MONITOR_GRACE_MS :: int where "DEFUNCT_MONITOR_GRACE_MS = 7 * 24 * 60 * 60000"

definition lastActivityAt :: "Monitor \<Rightarrow> int" where
  "lastActivityAt m = max (max (mn_expiresAt m) (nullish (tb_lastFiredAt m) 0)) (tb_createdAt m)"

definition defunctBefore :: "int \<Rightarrow> Monitor \<Rightarrow> bool" where
  "defunctBefore cutoff m \<longleftrightarrow> \<not> tb_enabled m \<and> lastActivityAt m \<le> cutoff"

definition create_monitor :: "CreateMonitorInput \<Rightarrow> int \<Rightarrow> string \<Rightarrow> Monitor jsmap \<Rightarrow> string + Monitor jsmap \<times> Monitor" where
  "create_monitor input now uuid s =
     (case assertNoEscalation (CreateTriggerInput.truncate input) of
        Inl e \<Rightarrow> Inl e
      | Inr _ \<Rightarrow>
          let m = TriggerBase.extend (buildTriggerBase (CreateTriggerInput.truncate input) uuid now)
                \<lparr>mn_processId = cm_processId input, mn_command = cm_command input, mn_threadRef = cm_threadRef input,
                 mn_instructions = cm_instructions input, mn_pattern = cm_pattern input, mn_cursor = nullish (cm_cursor input) 0,
                 mn_tail = None, mn_expiresAt = cm_expiresAt input, mn_lastError = None\<rparr>
          in Inr (dm_put s (tb_id m) m, m))"

definition enabled_monitors :: "Monitor jsmap \<Rightarrow> Monitor list" where
  "enabled_monitors s = filter tb_enabled (dm_all s)"

definition deleteDefunct :: "int \<Rightarrow> Monitor jsmap \<Rightarrow> Monitor jsmap \<times> nat" where
  "deleteDefunct now s =
     (let defunct = defunctBefore (now - DEFUNCT_MONITOR_GRACE_MS) in
      fold (\<lambda>m (s, n). case dm_deleteIf s (tb_id m) defunct of (s', b) \<Rightarrow> (s', if b then n + 1 else n)) (filter defunct (dm_all s)) (s, 0))"

definition advance_monitor :: "string \<Rightarrow> int \<Rightarrow> string option \<Rightarrow> int option \<Rightarrow> Monitor jsmap \<Rightarrow> Monitor jsmap" where
  "advance_monitor i cursor tail firedAt s = fst (dm_merge s i (\<lambda>m.
     (case firedAt of None \<Rightarrow> m | Some t \<Rightarrow> m\<lparr>tb_lastFiredAt := Some t\<rparr>)\<lparr>mn_cursor := cursor, mn_tail := tail\<rparr>))"

definition update_monitor :: "string \<Rightarrow> string option \<Rightarrow> string option \<Rightarrow> int option \<Rightarrow> Monitor jsmap \<Rightarrow> Monitor jsmap" where
  "update_monitor i instructions pattern cursor s =
     (if instructions = None \<and> pattern = None \<and> cursor = None then s
      else fst (dm_merge s i (\<lambda>m.
        let m1 = (if instructions = None then m else m\<lparr>mn_instructions := instructions\<rparr>);
            m2 = (if pattern = None then m1 else m1\<lparr>mn_pattern := pattern\<rparr>)
        in case cursor of None \<Rightarrow> m2 | Some c \<Rightarrow> m2\<lparr>mn_cursor := c, mn_tail := None\<rparr>)))"

definition recordError :: "string \<Rightarrow> string \<Rightarrow> Monitor jsmap \<Rightarrow> Monitor jsmap" where
  "recordError i error s = fst (dm_merge s i (\<lambda>m. m\<lparr>mn_lastError := Some error\<rparr>))"

section \<open>Patterns\<close>

definition MAX_PATTERN_CHARS :: nat where "MAX_PATTERN_CHARS = 256"

record alternative =
  al_literal :: string
  al_starts :: bool
  al_ends :: bool

definition compile_alternative :: "string \<Rightarrow> string + alternative" where
  "compile_alternative raw =
     (if raw = [] then Inl ''pattern alternatives must not be empty''
      else
        let starts = (hd raw = CHR ''^''); ends = (last raw = CHR ''$'');
            body = drop (if starts then 1 else 0) raw;
            literal = (if ends then butlast body else body)
        in if literal = [] \<or> CHR ''^'' \<in> set literal \<or> CHR ''$'' \<in> set literal
           then Inl ''^ and $ are supported only as alternative anchors''
           else Inr \<lparr>al_literal = literal, al_starts = starts, al_ends = ends\<rparr>)"

fun compile_alternatives :: "string list \<Rightarrow> string + alternative list" where
  "compile_alternatives [] = Inr []"
| "compile_alternatives (r # rs) =
     (case compile_alternative r of
        Inl e \<Rightarrow> Inl e
      | Inr a \<Rightarrow> (case compile_alternatives rs of Inl e \<Rightarrow> Inl e | Inr as \<Rightarrow> Inr (a # as)))"

definition PATTERN_SPECIAL :: string where
  "PATTERN_SPECIAL = [CHR 0x5C] @ ''[](){}'' @ [CHR 0x60] @ ''*+?''"

definition compileMonitorPattern :: "string \<Rightarrow> string + alternative list" where
  "compileMonitorPattern pattern =
     (if pattern = [] \<or> MAX_PATTERN_CHARS < length pattern then Inl ''pattern must be 1-256 characters''
      else if list_ex (\<lambda>c. c \<in> set PATTERN_SPECIAL) pattern
      then Inl ''pattern must use literal alternatives, with optional ^ and $ anchors''
      else compile_alternatives (split_char (CHR ''|'') pattern))"

definition text_includes :: "string \<Rightarrow> string \<Rightarrow> bool" where
  "text_includes s t = list_ex (\<lambda>n. starts_with (drop n s) t) [0..<Suc (length s)]"

definition matches_alternative :: "alternative \<Rightarrow> string \<Rightarrow> bool" where
  "matches_alternative a line =
     (if al_starts a \<and> al_ends a then line = al_literal a
      else if al_starts a then starts_with line (al_literal a)
      else if al_ends a then starts_with (rev line) (rev (al_literal a))
      else text_includes line (al_literal a))"

definition matches_pattern :: "alternative list \<Rightarrow> string \<Rightarrow> bool" where
  "matches_pattern as line = list_ex (\<lambda>a. matches_alternative a line) as"

section \<open>The broker\<close>

definition EXPIRY_GRACE_MS :: int where "EXPIRY_GRACE_MS = 5 * 60000"
definition WATCH_COMPLETED_TAIL_BYTES :: nat where "WATCH_COMPLETED_TAIL_BYTES = 4 * 1024"

record BackgroundOutputTail =
  ot_outputTail :: string
  ot_cursor :: "int option"
  ot_exitCode :: "int option"

record MonitorBrokerDeps =
  bd_readOutputTail :: "string \<Rightarrow> nat \<Rightarrow> BackgroundOutputTail"
  bd_scopeId :: string
  bd_owner :: string
  bd_ownerScopeId :: ScopeId
  bd_threadRef :: string
  bd_destination :: "Destination option"
  bd_graceMs :: "int option"

record watch_opts =
  wt_instructions :: "string option"
  wt_pattern :: "string option"
  wt_sinceCursor :: "int option"

datatype BackgroundWatchResult =
  watch_armed (armed_monitor: string) (armed_process: string) (armed_reattached: bool) (armed_expiresAt: int)
| watch_completed string ProcessStatus BackgroundOutputTail

definition watch :: "MonitorBrokerDeps \<Rightarrow> ProcessRecord jsmap \<Rightarrow> string \<Rightarrow> watch_opts \<Rightarrow> int \<Rightarrow> string \<Rightarrow> Monitor jsmap \<Rightarrow>
    string + Monitor jsmap \<times> BackgroundWatchResult" where
  "watch deps registry processId opts now uuid s =
     (case get_process registry processId of
        None \<Rightarrow> Inl ''no such background job to watch''
      | Some r \<Rightarrow>
          if pr_scopeId r \<noteq> bd_scopeId deps \<or> pr_kind r \<noteq> proc_background then Inl ''no such background job to watch''
          else if pr_status r \<noteq> proc_running
          then Inr (s, watch_completed processId (pr_status r) (bd_readOutputTail deps processId WATCH_COMPLETED_TAIL_BYTES))
          else case (case wt_pattern opts of None \<Rightarrow> Inr [] | Some p \<Rightarrow> compileMonitorPattern p) of
            Inl e \<Rightarrow> Inl (''invalid pattern: '' @ e)
          | Inr _ \<Rightarrow>
              (case find (\<lambda>m. tb_enabled m \<and> mn_processId m = processId \<and> mn_threadRef m = bd_threadRef deps) (dm_all s) of
                 Some existing \<Rightarrow>
                   Inr (update_monitor (tb_id existing) (wt_instructions opts) (wt_pattern opts) (wt_sinceCursor opts) s,
                        watch_armed (tb_id existing) processId True (mn_expiresAt existing))
               | None \<Rightarrow>
                   (case create_monitor (CreateTriggerInput.extend
                       \<lparr>ct_ownerScopeId = bd_ownerScopeId deps, ct_owner = bd_owner deps, ct_createdBy = bd_owner deps,
                        ct_destination = bd_destination deps, ct_ownerConsentedAt = None, ct_recipientConsent = None\<rparr>
                       \<lparr>cm_processId = processId, cm_command = pr_command r, cm_threadRef = bd_threadRef deps,
                        cm_instructions = wt_instructions opts, cm_pattern = wt_pattern opts, cm_cursor = wt_sinceCursor opts,
                        cm_expiresAt = pr_expiresAt r + nullish (bd_graceMs deps) EXPIRY_GRACE_MS\<rparr>) now uuid s of
                      Inl e \<Rightarrow> Inl e
                    | Inr (s', m) \<Rightarrow> Inr (s', watch_armed (tb_id m) processId False (mn_expiresAt m)))))"

definition unwatch :: "MonitorBrokerDeps \<Rightarrow> string \<Rightarrow> Monitor jsmap \<Rightarrow> Monitor jsmap \<times> bool" where
  "unwatch deps i s =
     (case dm_get s i of
        None \<Rightarrow> (s, False)
      | Some m \<Rightarrow> if tb_ownerScopeId m \<noteq> bd_ownerScopeId deps then (s, False) else (dm_delete s i, True))"

definition list_watches :: "MonitorBrokerDeps \<Rightarrow> Monitor jsmap \<Rightarrow> Monitor list" where
  "list_watches deps s = filter (\<lambda>m. tb_ownerScopeId m = bd_ownerScopeId deps) (dm_all s)"

end
