(* ===== verification/Monitor_Properties.thy ===== *)
theory Monitor_Properties
  imports Monitor_Poller Envelope_Properties
begin

text \<open>
  What watching a job promises: however the output arrives, the lines that match the pattern are picked out of it as if it
  had been filtered at once; the place in the output is moved on only past what was reported or is blank; and a watch
  ends with the job.
\<close>

section \<open>Lines\<close>

text \<open>The lines of a text that match, and the lines there are in what a poll reports.\<close>

definition matching_lines :: "alternative list \<Rightarrow> string \<Rightarrow> string list" where
  "matching_lines as s = filter (\<lambda>l. l \<noteq> [] \<and> matches_pattern as l) (split_char (CHR 0x0A) s)"

definition reported_lines :: "string \<Rightarrow> string list" where
  "reported_lines s = filter (\<lambda>l. l \<noteq> []) (split_char (CHR 0x0A) s)"

lemma split_char_pieces: "l \<in> set (split_char c s) \<Longrightarrow> c \<notin> set l"
  by (induction s arbitrary: l) (auto split: if_splits list.splits)

lemma split_join:
  assumes "ls \<noteq> []" "\<forall>l \<in> set ls. c \<notin> set l"
  shows "split_char c (join_with [c] ls) = ls"
  using assms
proof (induction ls rule: induct_list012)
  case (3 x y zs)
  then show ?case by (simp add: split_char_at split_char_free)
qed (simp_all add: split_char_free)

lemma reported_join:
  assumes "\<forall>l \<in> set ls. l \<noteq> [] \<and> CHR 0x0A \<notin> set l"
  shows "reported_lines (join_with [CHR 0x0A] ls) = ls"
proof (cases "ls = []")
  case False
  then show ?thesis using assms split_join[of ls "CHR 0x0A"] by (simp add: reported_lines_def)
qed (simp add: reported_lines_def)

lemma reported_filter:
  assumes "compileMonitorPattern p = Inr as"
  shows "reported_lines (filterLines s p) = matching_lines as s"
  using assms split_char_pieces[of _ "CHR 0x0A" s]
  by (auto simp: filterLines_def matching_lines_def intro!: reported_join)

lemma matching_at: "matching_lines as (a @ CHR 0x0A # b) = matching_lines as a @ matching_lines as b"
  by (simp add: matching_lines_def split_char_at)

lemma matching_Nil [simp]: "matching_lines as [] = []"
  by (simp add: matching_lines_def)

lemma split_last_Some:
  assumes "split_last c s = Some (a, b)"
  shows "s = a @ c # b \<and> c \<notin> set b"
proof -
  let ?r = "rev s"
  have cs: "c \<in> set s" and ab: "a = rev (tl (dropWhile (\<lambda>x. x \<noteq> c) ?r))" "b = rev (takeWhile (\<lambda>x. x \<noteq> c) ?r)"
    using assms by (auto simp: split_last_def split: if_splits)
  have "dropWhile (\<lambda>x. x \<noteq> c) ?r \<noteq> []" using cs by (simp add: dropWhile_eq_Nil_conv)
  moreover have "hd (dropWhile (\<lambda>x. x \<noteq> c) ?r) = c" using calculation hd_dropWhile[of "\<lambda>x. x \<noteq> c" ?r] by blast
  ultimately have "?r = takeWhile (\<lambda>x. x \<noteq> c) ?r @ c # tl (dropWhile (\<lambda>x. x \<noteq> c) ?r)" by (metis list.collapse takeWhile_dropWhile_id)
  then have "s = rev (takeWhile (\<lambda>x. x \<noteq> c) ?r @ c # tl (dropWhile (\<lambda>x. x \<noteq> c) ?r))" by (metis rev_rev_ident)
  moreover have "c \<notin> set b" unfolding ab by (auto dest: set_takeWhileD)
  ultimately show ?thesis unfolding ab by simp
qed

lemma split_last_None: "split_last c s = None \<Longrightarrow> c \<notin> set s"
  by (simp add: split_last_def split: if_splits)

text \<open>The reports of the polls of a watch: one per chunk of output, and the last when the job is over.\<close>

fun poll_reports :: "Monitor \<Rightarrow> string list \<Rightarrow> string \<Rightarrow> string list" where
  "poll_reports m [] final = [fst (poll_events m (nullish (mn_tail m) [] @ final) True)]"
| "poll_reports m (c # cs) final =
     (case poll_events m (nullish (mn_tail m) [] @ c) False of
        (events, tail) \<Rightarrow> events # poll_reports (m\<lparr>mn_tail := tail\<rparr>) cs final)"

definition short_lines :: "string \<Rightarrow> bool" where
  "short_lines s = list_all (\<lambda>l. length l \<le> MAX_TAIL_CHARS) (split_char (CHR 0x0A) s)"

lemma short_at: "short_lines (a @ CHR 0x0A # b) \<longleftrightarrow> short_lines a \<and> short_lines b"
  by (simp add: short_lines_def split_char_at)

lemma short_prefix:
  assumes "short_lines (a @ b)" "CHR 0x0A \<notin> set a"
  shows "length a \<le> MAX_TAIL_CHARS"
proof -
  have "split_char (CHR 0x0A) (a @ b) = (a @ hd (split_char (CHR 0x0A) b)) # tl (split_char (CHR 0x0A) b)"
    using assms(2) split_char_nonempty[of "CHR 0x0A" b] by (induction a) (auto split: list.splits)
  with assms(1) show ?thesis by (simp add: short_lines_def)
qed

lemma keep_tail_whole: "length s \<le> MAX_TAIL_CHARS \<Longrightarrow> nullish (keep_tail_of s) [] = s"
  by (simp add: keep_tail_of_def Let_def slice_neg_def MAX_TAIL_CHARS_def)

lemma poll_events_open:
  assumes "mn_pattern m = Some p" "p \<noteq> []" "compileMonitorPattern p = Inr as" "poll_events m raw False = (events, tail)" "short_lines (raw @ further)"
  shows "reported_lines events @ matching_lines as (nullish tail [] @ further) = matching_lines as (raw @ further) \<and> short_lines (nullish tail [] @ further)"
proof (cases "split_last (CHR 0x0A) raw")
  case None
  from split_last_None[OF this] have n: "CHR 0x0A \<notin> set raw" .
  have "tail = keep_tail_of raw" "events = []" using None assms(1,2,4) by (simp_all add: poll_events_def)
  with keep_tail_whole[OF short_prefix[OF assms(5) n]] assms(5) show ?thesis by (simp add: reported_lines_def)
next
  case (Some ab)
  obtain a b where ab: "ab = (a, b)" by (cases ab)
  from split_last_Some[OF Some[unfolded ab]] have r: "raw = a @ CHR 0x0A # b" and n: "CHR 0x0A \<notin> set b" by auto
  have t: "tail = keep_tail_of b" "events = filterLines (a @ [CHR 0x0A]) p" using Some ab assms(1,2,4) by (simp_all add: poll_events_def)
  have sh: "short_lines (b @ further)" using assms(5) unfolding r by (simp add: short_at)
  have "reported_lines events = matching_lines as a" unfolding t reported_filter[OF assms(3)] using matching_at[of as a "[]"] by simp
  then show ?thesis using keep_tail_whole[OF short_prefix[OF sh n]] sh unfolding t(1) r by (simp add: matching_at)
qed

text \<open>C38: Picking lines out of the output chunk by chunk misses nothing and invents nothing. Cut a text into the chunks that
  successive polls read, the last of them at the end of the watch. The lines that \<open>poll_events\<close> picks out of the chunks,
  over all polls together, are, in order, exactly the lines of the whole text that match the pattern and are not empty: an
  unfinished line is kept for the next poll and picked once. The lines must not be longer than the 4096 characters that are
  kept. This is about the picking only: a single report is then capped at 16000 characters, a read returns at most 64 KB (what
  the job wrote beyond them before it ended is not read), and a wake whose fire key was used before is dropped.\<close>

theorem monitor_lines_complete:
  assumes "mn_pattern m = Some p" "p \<noteq> []" "compileMonitorPattern p = Inr as"
    and "short_lines (nullish (mn_tail m) [] @ concat chunks @ final)"
  shows "concat (map reported_lines (poll_reports m chunks final)) = matching_lines as (nullish (mn_tail m) [] @ concat chunks @ final)"
  using assms(1,4)
proof (induction chunks arbitrary: m)
  case Nil
  then show ?case using assms(2,3) by (simp add: poll_events_def reported_filter)
next
  case (Cons c cs)
  obtain events tail where e: "poll_events m (nullish (mn_tail m) [] @ c) False = (events, tail)" by (cases "poll_events m (nullish (mn_tail m) [] @ c) False")
  from poll_events_open[OF Cons.prems(1) assms(2,3) e, of "concat cs @ final"] Cons.prems(2)
  have s: "reported_lines events @ matching_lines as (nullish tail [] @ concat cs @ final) =
      matching_lines as (nullish (mn_tail m) [] @ concat (c # cs) @ final)" "short_lines (nullish tail [] @ concat cs @ final)" by simp_all
  have "concat (map reported_lines (poll_reports (m\<lparr>mn_tail := tail\<rparr>) cs final)) = matching_lines as (nullish tail [] @ concat cs @ final)"
    using Cons.IH[of "m\<lparr>mn_tail := tail\<rparr>"] Cons.prems(1) s(2) by simp
  with e s(1) show ?case by simp
qed

section \<open>The place in the output and the end of a watch\<close>

lemma monitors_on [simp]: "mw_monitors (on_monitors f w) = f (mw_monitors w)"
  by (simp add: on_monitors_def)

lemma get_merged: "dm_get (fst (dm_merge s i f)) j = (if j = i then map_option f (dm_get s i) else dm_get s j)"
  by (simp add: dm_get_def dm_merge_def map_of_update split: option.splits)

lemma get_advance: "dm_get (advance_monitor i c tail f s) i = map_option (\<lambda>m. (case f of None \<Rightarrow> m | Some t \<Rightarrow> m\<lparr>tb_lastFiredAt := Some t\<rparr>)\<lparr>mn_cursor := c, mn_tail := tail\<rparr>) (dm_get s i)"
  by (simp add: advance_monitor_def get_merged)

lemma get_enabled: "dm_get (setTriggerEnabled s i b) i = map_option (\<lambda>m. m\<lparr>tb_enabled := b\<rparr>) (dm_get s i)"
  by (simp add: setTriggerEnabled_def get_merged)

lemma get_error: "dm_get (recordError i e s) i = map_option (\<lambda>m. m\<lparr>mn_lastError := Some e\<rparr>) (dm_get s i)"
  by (simp add: recordError_def get_merged)

lemma get_noted: "\<exists>f. (\<forall>m. tb_enabled (f m) = tb_enabled m \<and> mn_cursor (f m) = mn_cursor m \<and> mn_tail (f m) = mn_tail m) \<and>
    dm_get (mw_monitors (note_error m out w)) (tb_id m) = map_option f (dm_get (mw_monitors w) (tb_id m))"
proof (cases "truthy (to_note out)")
  case True
  then show ?thesis by (intro exI[of _ "\<lambda>x. x\<lparr>mn_lastError := Some (the (to_note out))\<rparr>"]) (simp add: note_error_def get_error)
next
  case False
  then show ?thesis by (intro exI[of _ id]) (simp add: note_error_def option.map_id0)
qed

lemma disabled_not_live: "mw_monitors w = setTriggerEnabled s (tb_id m) False \<Longrightarrow> \<not> stillLive m w"
  by (cases "dm_get s (tb_id m)") (simp_all add: stillLive_def get_enabled)

lemma fire_monitors: "fire_monitor P m k ou ev b t w = (w1, Inr out) \<Longrightarrow> mw_monitors w1 = po_others P (mw_monitors w)"
  by (auto simp: fire_monitor_def trigger_world.defs split: sum.splits prod.splits)

lemma ended_after_fire:
  assumes "poll_fire P m t events cursor tail st expired w = (w', Inr b)" "st \<noteq> state_running \<or> expired"
  shows "\<not> stillLive m w'"
proof -
  from assms(1) obtain w1 out ev k where f: "fire_monitor P m k events ev True t w = (w1, Inr out)"
    and r: "if to_authzFailed out then w' = on_monitors (\<lambda>s. setTriggerEnabled s (tb_id m) False) w1
      else \<exists>w3. mw_monitors w' = mw_monitors w3 \<and> w3 = (if dm_get (mw_monitors (note_error m out w1)) (tb_id m) \<noteq> None
        then on_monitors (\<lambda>s. let s' = advance_monitor (tb_id m) cursor tail (Some t) s in if st \<noteq> state_running \<or> expired then setTriggerEnabled s' (tb_id m) False else s') (note_error m out w1)
        else note_error m out w1)"
    by (auto simp: poll_fire_def Let_def split: prod.splits sum.splits if_splits)
  show ?thesis
  proof (cases "to_authzFailed out")
    case True
    with r show ?thesis by (intro disabled_not_live[of _ "mw_monitors w1"]) simp
  next
    case False
    with r assms(2) show ?thesis by (auto simp: stillLive_def get_enabled Let_def option.case_eq_if)
  qed
qed

definition watch_over :: "Monitor \<Rightarrow> int \<Rightarrow> process_read \<Rightarrow> bool" where
  "watch_over m t r = (case r of read_failed msg \<Rightarrow> processIsGone msg | read_ok c n st \<Rightarrow> st \<noteq> state_running \<or> t \<ge> mn_expiresAt m)"

text \<open>A watch ends with its job. When a poll finds that the process has exited, is gone or that the watch has expired, and does
  not throw, the monitor is disabled or deleted afterwards, whatever others did to the monitors during the last wake; and
  from then on, polling it reads nothing, fires nothing and changes nothing.\<close>

theorem watch_ends:
  assumes "poll P m t w = (w', Inr b)" "watch_over m t (po_read P m)"
  shows "\<not> stillLive m w' \<and> poll P2 m t2 w' = (w', Inr False)"
proof -
  have "\<not> stillLive m w'"
  proof (cases "stillLive m w")
    case False
    with assms(1) show ?thesis by (simp add: poll_def)
  next
    case live: True
    show ?thesis
    proof (cases "po_read P m")
      case (read_failed msg)
      with assms live obtain w1 where "reportLost P m t w = (w', Inr ())"
        by (cases "reportLost P m t w") (auto simp: poll_def watch_over_def map_sum_def split: sum.splits)
      then obtain w2 where "w' = on_monitors (\<lambda>s. setTriggerEnabled s (tb_id m) False) w2"
        by (auto simp: reportLost_def split: prod.splits sum.splits)
      then show ?thesis by (intro disabled_not_live[of _ "mw_monitors w2"]) simp
    next
      case (read_ok c n st)
      with assms live have "poll_fire P m t (fst (poll_events m (nullish (mn_tail m) [] @ c) True)) n (snd (poll_events m (nullish (mn_tail m) [] @ c) True)) st
          (\<not> st \<noteq> state_running \<and> t \<ge> mn_expiresAt m) w = (w', Inr b)"
        by (auto simp: poll_def watch_over_def Let_def split: prod.splits if_splits)
      with ended_after_fire assms(2) read_ok show ?thesis by (auto simp: watch_over_def)
    qed
  qed
  then show ?thesis by (simp add: poll_def)
qed

text \<open>The place of a monitor in the output of its job, with the unfinished line.\<close>

definition place :: "Monitor \<Rightarrow> monitor_world \<Rightarrow> (int \<times> string option) option" where
  "place m w = map_option (\<lambda>x. (mn_cursor x, mn_tail x)) (dm_get (mw_monitors w) (tb_id m))"

lemma place_simps [simp]:
  "place m (on_monitors (recordError (tb_id m) e) w) = place m w"
  "place m (on_monitors (\<lambda>s. setTriggerEnabled s (tb_id m) b) w) = place m w"
  "place m (on_monitors (advance_monitor (tb_id m) c tail f) w) = map_option (\<lambda>_. (c, tail)) (place m w)"
  "place m (note_error m out w) = place m w"
  "place m (w\<lparr>mw_processes := ps\<rparr>) = place m w"
  by (cases "dm_get (mw_monitors w) (tb_id m)"; simp add: place_def note_error_def get_error get_enabled get_advance split: option.splits)+

lemma place_fire: "fire_monitor P m k ou ev b t w = (w1, x) \<Longrightarrow> po_others P = id \<Longrightarrow> place m w1 = place m w"
  by (auto simp: fire_monitor_def place_def trigger_world.defs split: sum.splits prod.splits)

lemma place_lost: "po_others P = id \<Longrightarrow> place m (fst (reportLost P m t w)) = place m w"
  by (auto simp: reportLost_def dest: place_fire split: prod.splits sum.splits)

lemma place_quiet: "poll_quiet P m t raw c tail w = (w', r) \<Longrightarrow> po_others P = id \<Longrightarrow>
    place m w' = place m w \<or> place m w' = map_option (\<lambda>_. (c, tail)) (place m w)"
  by (auto simp: poll_quiet_def Let_def dest: place_fire split: prod.splits sum.splits if_splits)

lemma place_ended:
  "place m (on_monitors (\<lambda>s. setTriggerEnabled (advance_monitor (tb_id m) c tail f s) (tb_id m) e) w) = map_option (\<lambda>_. (c, tail)) (place m w)"
  "place m (on_monitors (\<lambda>s. if b then setTriggerEnabled (advance_monitor (tb_id m) c tail f s) (tb_id m) e else advance_monitor (tb_id m) c tail f s) w) =
   map_option (\<lambda>_. (c, tail)) (place m w)"
  by (cases "dm_get (mw_monitors w) (tb_id m)"; cases b; simp add: place_def get_enabled get_advance split: option.splits)+

lemma place_fired:
  assumes "poll_fire P m t events c tail st expired w = (w', r)" "po_others P = id"
  shows "place m w' = place m w \<or> place m w' = map_option (\<lambda>_. (c, tail)) (place m w) \<and>
    (\<exists>k ev w1 out. fire_monitor P m k events ev True t w = (w1, Inr out) \<and> \<not> to_authzFailed out)"
proof -
  obtain ev k where e: "event_of m st expired = (ev, k)" by (cases "event_of m st expired")
  obtain w1 x where f: "fire_monitor P m k events ev True t w = (w1, x)" by (cases "fire_monitor P m k events ev True t w")
  note pl = place_fire[OF f assms(2)]
  show ?thesis
  proof (cases x)
    case (Inl err)
    with assms(1) e f pl show ?thesis by (simp add: poll_fire_def)
  next
    case (Inr out)
    show ?thesis
    proof (cases "to_authzFailed out")
      case True
      with assms(1) e f pl Inr show ?thesis by (auto simp: poll_fire_def)
    next
      case False
      with assms(1) e f Inr have "place m w' = place m w1 \<or> place m w' = map_option (\<lambda>_. (c, tail)) (place m w1)"
        by (auto simp: poll_fire_def place_ended Let_def split: if_splits)
      with pl f Inr False show ?thesis by auto
    qed
  qed
qed

text \<open>No output is passed over in silence. Where a poll moves the place of a monitor that nobody else changes meanwhile, it moves
  it to where the read ended, and what lies between is blank once filtered, or was handed to a trigger that returned and
  was authorised.\<close>

theorem poll_skips_nothing:
  assumes "poll P m t w = (w', r)" "po_others P = id" "place m w' \<noteq> place m w"
  shows "\<exists>chunks cursor st events tail. po_read P m = read_ok chunks cursor st \<and> place m w' = Some (cursor, tail) \<and>
    poll_events m (nullish (mn_tail m) [] @ chunks) (st \<noteq> state_running \<or> t \<ge> mn_expiresAt m) = (events, tail) \<and>
    (trim events = [] \<or> (\<exists>k ev w1 out. fire_monitor P m k events ev True t w = (w1, Inr out) \<and> \<not> to_authzFailed out))"
proof -
  have live: "stillLive m w" using assms(1,3) by (cases "stillLive m w") (auto simp: poll_def)
  then have some: "place m w \<noteq> None" by (auto simp: stillLive_def place_def split: option.splits)
  show ?thesis
  proof (cases "po_read P m")
    case (read_failed msg)
    with assms(1) live have "w' = fst (reportLost P m t w) \<or> w' = on_monitors (recordError (tb_id m) msg) w"
      by (cases "reportLost P m t w") (auto simp: poll_def split: if_splits)
    with assms(3) place_lost[OF assms(2), of m t w] show ?thesis by auto
  next
    case (read_ok chunks cursor st)
    obtain events tail where e: "poll_events m (nullish (mn_tail m) [] @ chunks) (st \<noteq> state_running \<or> t \<ge> mn_expiresAt m) = (events, tail)"
      by (cases "poll_events m (nullish (mn_tail m) [] @ chunks) (st \<noteq> state_running \<or> t \<ge> mn_expiresAt m)")
    have eq: "(st \<noteq> state_running \<or> \<not> st \<noteq> state_running \<and> t \<ge> mn_expiresAt m) = (st \<noteq> state_running \<or> t \<ge> mn_expiresAt m)" by blast
    have p: "(w', r) = (if trim events = [] \<and> \<not> st \<noteq> state_running \<and> \<not> (\<not> st \<noteq> state_running \<and> t \<ge> mn_expiresAt m)
        then poll_quiet P m t (nullish (mn_tail m) [] @ chunks) cursor tail w
        else if \<not> st \<noteq> state_running \<and> \<not> (\<not> st \<noteq> state_running \<and> t \<ge> mn_expiresAt m) \<and> too_soon P m t then (w, Inr False)
        else poll_fire P m t events cursor tail st (\<not> st \<noteq> state_running \<and> t \<ge> mn_expiresAt m) w)"
      using assms(1) live read_ok e unfolding poll_def Let_def eq by simp
    have "place m w' = map_option (\<lambda>_. (cursor, tail)) (place m w) \<and>
        (trim events = [] \<or> (\<exists>k ev w1 out. fire_monitor P m k events ev True t w = (w1, Inr out) \<and> \<not> to_authzFailed out))"
    proof (cases "trim events = [] \<and> \<not> st \<noteq> state_running \<and> \<not> (\<not> st \<noteq> state_running \<and> t \<ge> mn_expiresAt m)")
      case True
      from p have "poll_quiet P m t (nullish (mn_tail m) [] @ chunks) cursor tail w = (w', r)" unfolding if_P[OF True] by (rule sym)
      from place_quiet[OF this assms(2)] assms(3) True show ?thesis by blast
    next
      case False
      from p have pf: "(w', r) = (w, Inr False) \<or> poll_fire P m t events cursor tail st (\<not> st \<noteq> state_running \<and> t \<ge> mn_expiresAt m) w = (w', r)"
        unfolding if_not_P[OF False] by (metis (no_types))
      with assms(3) have "poll_fire P m t events cursor tail st (\<not> st \<noteq> state_running \<and> t \<ge> mn_expiresAt m) w = (w', r)" by blast
      from place_fired[OF this assms(2)] assms(3) show ?thesis by blast
    qed
    with some read_ok e show ?thesis by auto
  qed
qed

section \<open>Examples\<close>

definition demo_monitor :: Monitor where
  "demo_monitor = \<lparr>tb_id = ''m1'', tb_ownerScopeId = ''personal:ann'', tb_owner = ''ann'', tb_createdBy = ''ann'', tb_ownerConsentedAt = None,
     tb_destination = None, tb_enabled = True, tb_createdAt = 0, tb_lastFiredAt = None, tb_recipientConsent = None, mn_processId = ''p1'',
     mn_command = ''make'', mn_threadRef = ''t1'', mn_instructions = None, mn_pattern = Some ''^err'', mn_cursor = 0, mn_tail = None,
     mn_expiresAt = 1000, mn_lastError = None\<rparr>"

theorem monitor_lines_complete_witness:
  "concat (map reported_lines (poll_reports demo_monitor [''ok'' @ [CHR 0x0A] @ ''er'', ''ror 1'' @ [CHR 0x0A]] ''err 2'')) = [''error 1'', ''err 2'']"
proof -
  have c: "mn_pattern demo_monitor = Some ''^err''" "''^err'' \<noteq> []"
    "compileMonitorPattern ''^err'' = Inr [\<lparr>al_literal = ''err'', al_starts = True, al_ends = False\<rparr>]" by code_simp+
  have s: "short_lines (nullish (mn_tail demo_monitor) [] @ concat [''ok'' @ [CHR 0x0A] @ ''er'', ''ror 1'' @ [CHR 0x0A]] @ ''err 2'')" by code_simp
  have "matching_lines [\<lparr>al_literal = ''err'', al_starts = True, al_ends = False\<rparr>]
      (nullish (mn_tail demo_monitor) [] @ concat [''ok'' @ [CHR 0x0A] @ ''er'', ''ror 1'' @ [CHR 0x0A]] @ ''err 2'') = [''error 1'', ''err 2'']" by code_simp
  with monitor_lines_complete[OF c s] show ?thesis by simp
qed

end
