(* ===== verification/Scheduler.thy ===== *)
theory Scheduler
  imports Wake_Envelope Run_Trigger Cron_Store
begin

text \<open>
  The scheduler of crons (\<open>src/src/cron/scheduler.ts\<close>): what a fire tells the agent, how it is recorded, and the two ways in
  which due crons are fired, by a tick over all that are due and by a job of a queue that claims one slot. The turn, a
  loop that a cron drives, what others do to the crons while a fire is under way, the calendar, the hash and the dates are
  arguments. The callback \<open>onClaimed\<close> of a fire, which notes that it has begun, takes effect exactly when the trigger is
  authorised and its key is claimed. The queue is the list of the jobs it was given; timers, the lease of a tick and
  stopping the service are left out, except that a flag says whether the scheduler still runs.
\<close>

section \<open>What a fire says\<close>

definition CRON_FIRE_REPLY_MAX_CHARS :: nat where "CRON_FIRE_REPLY_MAX_CHARS = 2000"
definition STRANDED_SWEEP_INTERVAL_MS :: int where "STRANDED_SWEEP_INTERVAL_MS = 10 * 60000"
definition FIRE_GC_INTERVAL_MS :: int where "FIRE_GC_INTERVAL_MS = 6 * 60 * 60000"
definition BUSY_DEFER_MS :: int where "BUSY_DEFER_MS = 30000"
definition BUSY_DEFER_MAX_LATE_MS :: int where "BUSY_DEFER_MAX_LATE_MS = 10 * 60000"
definition CRON_MENTION_ROSTER_MAX :: nat where "CRON_MENTION_ROSTER_MAX = 40"

definition truncate_text :: "string \<Rightarrow> nat \<Rightarrow> string" where
  "truncate_text s maxChars = (if length s \<le> maxChars then s else take (maxChars - 3) s @ ''...'')"

definition CRON_CONTEXT_MARKERS :: "string list" where
  "CRON_CONTEXT_MARKERS = [''[Cron runtime context]'', ''[End cron runtime context]'']"

definition contains_text :: "string \<Rightarrow> string \<Rightarrow> bool" where
  "contains_text s t = list_ex (\<lambda>n. starts_with (drop n s) t) [0..<Suc (length s)]"

definition echoesCronContextMarkers :: "string \<Rightarrow> bool" where
  "echoesCronContextMarkers s = list_ex (contains_text s) CRON_CONTEXT_MARKERS"

definition cronFireLogReply :: "string \<Rightarrow> string" where
  "cronFireLogReply s =
     (if echoesCronContextMarkers s then ''[reply echoed cron runtime context; omitted]'' else truncate_text s CRON_FIRE_REPLY_MAX_CHARS)"

definition isOneShotSchedule :: "CronSchedule \<Rightarrow> bool" where
  "isOneShotSchedule schedule \<longleftrightarrow> cs_everyMs schedule = None \<and> cs_cron schedule = None"

text \<open>\<open>/^!(run|scratch)\s/\<close>.\<close>

definition command_task :: "string \<Rightarrow> bool" where
  "command_task s = list_ex (\<lambda>p. starts_with s p \<and> drop (length p) s \<noteq> [] \<and> is_space (hd (drop (length p) s))) [''!run'', ''!scratch'']"

definition plain_task :: "Cron \<Rightarrow> bool" where
  "plain_task cron \<longleftrightarrow> trim (nullish (cn_action cron) []) = [] \<or> command_task (trimStart (nullish (cn_action cron) []))"

definition cronFireReadsNotes :: "Cron \<Rightarrow> bool" where
  "cronFireReadsNotes cron \<longleftrightarrow> \<not> (truthy (cn_loopId cron) \<or> plain_task cron) \<and> \<not> isOneShotSchedule (cn_schedule cron)"

definition flattenFireNote :: "string \<Rightarrow> string" where
  "flattenFireNote s = trim (collapse_spaces s)"

text \<open>\<open>utcMinute\<close>: the date to the minute, with a blank in place of the first \<open>T\<close>; \<^const>\<open>None\<close> is \<open>RangeError\<close>.\<close>

fun blank_for_T :: "string \<Rightarrow> string" where
  "blank_for_T [] = []"
| "blank_for_T (c # s) = (if c = CHR ''T'' then CHR '' '' # s else c # blank_for_T s)"

definition utcMinute :: "dates \<Rightarrow> int \<Rightarrow> string option" where
  "utcMinute D t = map_option (\<lambda>s. blank_for_T (take 16 s) @ ''Z'') (dt_iso D t)"

definition fireNoteLine :: "dates \<Rightarrow> CronFireNote option \<Rightarrow> string list option" where
  "fireNoteLine D n =
     (case n of
        None \<Rightarrow> Some []
      | Some note \<Rightarrow>
          let flat = flattenFireNote (fn_text note) in
          if flat = [] \<or> echoesCronContextMarkers flat then Some []
          else map_option (\<lambda>t. [if truthy (fn_by note) then ''Note left for this fire by '' @ the (fn_by note) @ '' ('' @ t @ ''): '' @ flat
                               else ''Notes from last fire agent ('' @ t @ ''): '' @ flat]) (utcMinute D (fn_at note)))"

definition cronFireThreadRef :: "(string \<Rightarrow> string) \<Rightarrow> string \<Rightarrow> string \<Rightarrow> string" where
  "cronFireThreadRef sha cronId fireKey = ''cron:'' @ cronId @ '':fire:'' @ hashId sha [fireKey] 12"

definition mention_char :: "char \<Rightarrow> bool" where
  "mention_char c = (let n = of_char c :: nat in (48 \<le> n \<and> n \<le> 57) \<or> (65 \<le> n \<and> n \<le> 90) \<or> (97 \<le> n \<and> n \<le> 122))"

definition mentionable :: "DirectoryMember \<Rightarrow> string" where
  "mentionable m =
     (let pid = dm_principalId m;
          mentionId = (case dm_slackId m of Some s \<Rightarrow> Some s | None \<Rightarrow> if pid \<noteq> [] \<and> list_all mention_char pid then Some pid else None)
      in ''@'' @ dm_displayName m @ (if truthy mentionId then '' (<@'' @ the mentionId @ ''>)'' else []))"

text \<open>\<open>listed\<close> is what the directory lists, where there is one.\<close>

definition cronMentionRoster :: "DirectoryMember list option \<Rightarrow> Cron \<Rightarrow> string option" where
  "cronMentionRoster listed cron =
     (case (listed, Option.bind (tb_destination cron) d_audienceScopeId) of
        (Some ms, Some scope) \<Rightarrow>
          let kind = fst (parseScopeId scope); members = nullish (cn_members cron) [] in
          if scope = [] \<or> kind \<noteq> Some channel \<and> kind \<noteq> Some group \<or> members = [] \<or> CRON_MENTION_ROSTER_MAX < length members then None
          else
            let byId = fold (\<lambda>m. AList.update (dm_principalId m) m) ms [];
                roster = map mentionable (filter (\<lambda>m. dm_type m = internal) (List.map_filter (\<lambda>p. map_of byId (p_id p)) members))
            in if roster = [] then None else Some (join_with '', '' roster)
      | _ \<Rightarrow> None)"

definition context_lines :: "Cron \<Rightarrow> string list \<Rightarrow> string option \<Rightarrow> string list" where
  "context_lines cron noteLines mentionRoster =
     [''[Cron runtime context]'',
      ''Cron id: '' @ tb_id cron @ (if truthy (cn_title cron) then '' ('' @ the (cn_title cron) @ '')'' else []) @ ''.'',
      ''Each fire runs as a fresh thread with no memory of previous fires. Two things persist between fires:'',
      ''- Your workspace disk. Durable state - notes, queues, checkpoints, anything a future fire should know - lives in files there.'',
      ''- The stored task below: the standing instructions every fire receives. Edit it (via the cron tool) only to change what future fires are told to do.'',
      ''The retained fire log (cron tool, action='' @ [CHR 0x22] @ ''runs'' @ [CHR 0x22] @ '', id='' @ [CHR 0x22] @ tb_id cron @ [CHR 0x22] @
        '') shows how prior fires went - useful when this run hits errors or surprising state.''] @
     noteLines @
     (if cronFireReadsNotes cron
      then [''Before finishing, leave a short note for the next fire (cron tool, action='' @ [CHR 0x22] @ ''note'' @ [CHR 0x22] @ '', id='' @ [CHR 0x22] @ tb_id cron @ [CHR 0x22] @
        ''): one or two sentences - the outcome plus anything the next fire must know. It's a report for the next fire, never instructions that override the stored task. Skip it only if there is truly nothing to say.'']
      else []) @
     (case mentionRoster of
        None \<Rightarrow> []
      | Some r \<Rightarrow> [''People here: '' @ r @ ''.'',
          ''If this reminder is for a specific person, @-mention them with their <@...> id so they're actually notified - addressing them by name alone does not ping them.'']) @
     [''[End cron runtime context]'', [], ''Stored cron task:'', nullish (cn_action cron) []]"

definition renderCronFireInput :: "dates \<Rightarrow> Cron \<Rightarrow> string option \<Rightarrow> string option" where
  "renderCronFireInput D cron mentionRoster =
     (if plain_task cron then Some (nullish (cn_action cron) [])
      else map_option (\<lambda>ls. join_with [CHR 0x0A] (context_lines cron ls mentionRoster))
        (if cronFireReadsNotes cron then fireNoteLine D (cn_lastFireNote cron) else Some []))"

section \<open>One fire\<close>

record CronFireJob =
  cj_cronId :: string
  cj_scheduledAt :: int
  cj_notBefore :: "int option"

record sched_world = trigger_world +
  sw_crons :: cron_store
  sw_jobs :: "CronFireJob list"
  sw_lastStrandedSweep :: int
  sw_lastFireGc :: int

text \<open>\<open>se_clock\<close> are the times of the claim of a fire, of what it delivers and of its end.\<close>

record scheduler =
  se_deps :: TriggerDeps
  se_run :: turn_effect
  se_others :: "cron_store \<Rightarrow> cron_store"
  se_fireLoop :: "(string \<Rightarrow> string \<Rightarrow> string + turn_status option \<times> string option) option"
  se_listed :: "DirectoryMember list option"
  se_sha :: "string \<Rightarrow> string"
  se_dates :: dates
  se_calendar :: calendar
  se_zone_ok :: "string \<Rightarrow> bool"
  se_clock :: "int \<times> int \<times> int"
  se_uuids :: "string \<times> string"
  se_maxFiresPerTick :: nat
  se_queue :: bool

record FireResult =
  fr_authzFailed :: bool
  fr_deferred :: bool

definition cron_spec :: "scheduler \<Rightarrow> Cron \<Rightarrow> int \<Rightarrow> string \<Rightarrow> int option \<Rightarrow> string \<Rightarrow> TriggerSpec" where
  "cron_spec S cron t fireKey scheduledAt input =
     \<lparr>ts_title = (if truthy (cn_title cron) then cn_title cron else None), ts_owner = tb_owner cron, ts_ownerScopeId = tb_ownerScopeId cron,
      ts_input = input, ts_securityScreenData = None, ts_fireKey = fireKey, ts_surface = ''cron'', ts_destination = tb_destination cron,
      ts_message = cn_message cron, ts_threadRef = Some (cronFireThreadRef (se_sha S) (tb_id cron) fireKey), ts_runAs = cn_runAs cron,
      ts_unattendedGrants = cn_unattendedGrants cron, ts_members = cn_members cron, ts_recipientConsent = tb_recipientConsent cron,
      ts_recipientConsentRequired = Some (cs_everyMs (cn_schedule cron) \<noteq> None \<or> cs_cron (cn_schedule cron) \<noteq> None),
      ts_shadow = False, ts_thinkingLevel = None, ts_readOnly = False, ts_turnWallClockMs = None, ts_errorNotice = None, ts_onClaimed = Inr,
      ts_deferWhenBusy = (case scheduledAt of None \<Rightarrow> False | Some s \<Rightarrow> t - s \<le> BUSY_DEFER_MAX_LATE_MS)\<rparr>"

text \<open>The trigger is authorised and claims its key: then \<open>onClaimed\<close> is called.\<close>

definition claims_fire :: "TriggerDeps \<Rightarrow> TriggerSpec \<Rightarrow> int \<Rightarrow> trigger_world \<Rightarrow> bool" where
  "claims_fire deps spec t0 w =
     (case plan_trigger deps spec of Inl n \<Rightarrow> False | Inr p \<Rightarrow> snd (once_begin (ts_fireKey spec) t0 (tw_idempotency w)))"

definition fire_entry :: "scheduler \<Rightarrow> Cron \<Rightarrow> int \<Rightarrow> string \<Rightarrow> int option \<Rightarrow> CronFireLogEntry" where
  "fire_entry S cron t fireKey scheduledAt =
     \<lparr>fe_fireKey = fireKey, fe_threadRef = cronFireThreadRef (se_sha S) (tb_id cron) fireKey, fe_firedAt = t, fe_scheduledAt = scheduledAt,
      fe_status = Some ''running'', fe_endedAt = None, fe_note = None, fe_reply = None, fe_sessionId = None\<rparr>"

definition ended_entry ::
  "scheduler \<Rightarrow> Cron \<Rightarrow> int \<Rightarrow> string \<Rightarrow> int option \<Rightarrow> string \<Rightarrow> string option \<Rightarrow> CronFireLogEntry" where
  "ended_entry S cron t fireKey scheduledAt status note =
     (fire_entry S cron t fireKey scheduledAt)\<lparr>fe_status := Some status, fe_endedAt := Some (snd (snd (se_clock S))),
       fe_note := (if truthy note then Some (truncate_text (the note) CRON_FIRE_REPLY_MAX_CHARS) else None)\<rparr>"

definition on_crons :: "(cron_store \<Rightarrow> cron_store) \<Rightarrow> sched_world \<Rightarrow> sched_world" where
  "on_crons f w = w\<lparr>sw_crons := f (sw_crons w)\<rparr>"

definition fire_loop :: "scheduler \<Rightarrow> Cron \<Rightarrow> int \<Rightarrow> string \<Rightarrow> int option \<Rightarrow> string \<Rightarrow> sched_world \<Rightarrow> sched_world \<times> FireResult" where
  "fire_loop S cron t fireKey scheduledAt loopId w =
     (let w1 = on_crons (\<lambda>s. se_others S (fst (beginFire (tb_id cron) (fire_entry S cron t fireKey scheduledAt) False s))) w;
          result = (case se_fireLoop S of
             None \<Rightarrow> (Some TFailed, Some ''loop service unavailable'')
           | Some f \<Rightarrow> (case f loopId fireKey of Inl e \<Rightarrow> (Some TFailed, Some e) | Inr r \<Rightarrow> r));
          w2 = on_crons (recordFire (tb_id cron) (ended_entry S cron t fireKey scheduledAt (turn_status_name (nullish (fst result) TOk)) (snd result))) w1
      in (if isOneShotSchedule (cn_schedule cron) then on_crons (setEnabled_cron (tb_id cron) False) w2 else w2,
          \<lparr>fr_authzFailed = False, fr_deferred = False\<rparr>))"

text \<open>What follows the trigger of a fire.\<close>

definition after_cron_fire ::
  "scheduler \<Rightarrow> Cron \<Rightarrow> int \<Rightarrow> string \<Rightarrow> int option \<Rightarrow> TriggerOutcome \<Rightarrow> sched_world \<Rightarrow> sched_world \<times> (string + FireResult)" where
  "after_cron_fire S cron t fireKey scheduledAt outcome w =
     (if to_deferred outcome then
        (let deferUntil = snd (snd (se_clock S)) + BUSY_DEFER_MS in
         case utcMinute (se_dates S) deferUntil of
           None \<Rightarrow> (w, Inl ''Invalid time value'')
         | Some u \<Rightarrow>
             (on_crons (\<lambda>s. defer_cron (tb_id cron) deferUntil (recordFire (tb_id cron)
                ((ended_entry S cron t fireKey scheduledAt ''deferred'' None)\<lparr>fe_note := Some (''session busy - retrying at '' @ u)\<rparr>) s)) w,
              Inr \<lparr>fr_authzFailed = False, fr_deferred = True\<rparr>))
      else
        let entry = (ended_entry S cron t fireKey scheduledAt
                       (case to_status outcome of Some st \<Rightarrow> turn_status_name st | None \<Rightarrow> if to_authzFailed outcome then ''refused'' else ''ok'')
                       (to_note outcome))
                    \<lparr>fe_reply := map_option cronFireLogReply (to_reply outcome),
                     fe_sessionId := (if truthy (to_sessionId outcome) then to_sessionId outcome else None)\<rparr>;
            w1 = (if to_ran outcome \<or> to_authzFailed outcome then on_crons (recordFire (tb_id cron) entry) w else w)
        in if to_authzFailed outcome
           then (on_crons (setEnabled_cron (tb_id cron) False) w1, Inr \<lparr>fr_authzFailed = True, fr_deferred = False\<rparr>)
           else (if isOneShotSchedule (cn_schedule cron) then on_crons (setEnabled_cron (tb_id cron) False) w1 else w1,
                 Inr \<lparr>fr_authzFailed = False, fr_deferred = False\<rparr>))"

definition fire_failed :: "scheduler \<Rightarrow> Cron \<Rightarrow> int \<Rightarrow> string \<Rightarrow> int option \<Rightarrow> string \<Rightarrow> sched_world \<Rightarrow> sched_world \<times> (string + FireResult)" where
  "fire_failed S cron t fireKey scheduledAt e w =
     (on_crons (recordFire (tb_id cron) ((ended_entry S cron t fireKey scheduledAt ''failed'' None)
        \<lparr>fe_note := Some (truncate_text e CRON_FIRE_REPLY_MAX_CHARS)\<rparr>)) w, Inl e)"

definition fire_cron :: "scheduler \<Rightarrow> Cron \<Rightarrow> int \<Rightarrow> string \<Rightarrow> int option \<Rightarrow> sched_world \<Rightarrow> sched_world \<times> (string + FireResult)" where
  "fire_cron S cron t fireKey scheduledAt w =
     (if truthy (cn_loopId cron) then map_prod id Inr (fire_loop S cron t fireKey scheduledAt (the (cn_loopId cron)) w)
      else case renderCronFireInput (se_dates S) cron (cronMentionRoster (se_listed S) cron) of
        None \<Rightarrow> fire_failed S cron t fireKey scheduledAt ''Invalid time value'' w
      | Some input \<Rightarrow>
          (case se_clock S of (t0, t1, t2) \<Rightarrow>
             let spec = cron_spec S cron t fireKey scheduledAt input;
                 begun = (if claims_fire (se_deps S) spec t0 (trigger_world.truncate w)
                          then fst (beginFire (tb_id cron) (fire_entry S cron t fireKey scheduledAt) False (sw_crons w)) else sw_crons w)
             in case runTrigger (se_deps S) (se_run S) spec t0 t1 t2 (fst (se_uuids S)) (snd (se_uuids S)) (trigger_world.truncate w) of
                  (v, r) \<Rightarrow>
                    let w1 = trigger_world.extend v \<lparr>sw_crons = se_others S begun, sw_jobs = sw_jobs w,
                               sw_lastStrandedSweep = sw_lastStrandedSweep w, sw_lastFireGc = sw_lastFireGc w\<rparr>
                    in case r of
                         Inl e \<Rightarrow> fire_failed S cron t fireKey scheduledAt e w1
                       | Inr outcome \<Rightarrow> after_cron_fire S cron t fireKey scheduledAt outcome w1))"

section \<open>Sweeps and ticks\<close>

definition sweep_stranded :: "int \<Rightarrow> sched_world \<Rightarrow> sched_world" where
  "sweep_stranded t w =
     (if t - sw_lastStrandedSweep w < STRANDED_SWEEP_INTERVAL_MS then w
      else on_crons (\<lambda>s. fst (sweepStrandedFires t s)) (w\<lparr>sw_lastStrandedSweep := t\<rparr>))"

definition gc_fires :: "int \<Rightarrow> sched_world \<Rightarrow> sched_world" where
  "gc_fires t w =
     (if t - sw_lastFireGc w < FIRE_GC_INTERVAL_MS then w else on_crons (\<lambda>s. fst (pruneFires t s)) (w\<lparr>sw_lastFireGc := t\<rparr>))"

definition slot_key :: "string \<Rightarrow> int \<Rightarrow> string" where
  "slot_key cronId slot = ''cron:'' @ cronId @ '':'' @ show_int slot"

text \<open>The crons a tick fires: where there are too many, those attempted longest ago, which are marked.\<close>

definition tick_batch :: "nat \<Rightarrow> (Cron \<times> int) list \<Rightarrow> (Cron \<times> int) list" where
  "tick_batch n ds = (if n < length ds then take n (sort_key (\<lambda>(c, s). nullish (cn_lastAttemptAt c) 0) ds) else ds)"

definition fire_one :: "scheduler \<Rightarrow> int \<Rightarrow> Cron \<times> int \<Rightarrow> sched_world \<Rightarrow> sched_world" where
  "fire_one S t d w =
     (case d of (cron, slot) \<Rightarrow>
       (case fire_cron S cron t (slot_key (tb_id cron) slot) (Some slot) w of
          (w1, Inl e) \<Rightarrow> w1
        | (w1, Inr r) \<Rightarrow>
            if fr_authzFailed r \<or> fr_deferred r then w1
            else on_crons (\<lambda>s. case markFired (se_calendar S) (se_zone_ok S) (tb_id cron) t (Some slot) s of Inl e \<Rightarrow> s | Inr s' \<Rightarrow> s') w1))"

fun fire_due_batch :: "scheduler \<Rightarrow> int \<Rightarrow> bool list \<Rightarrow> (Cron \<times> int) list \<Rightarrow> sched_world \<Rightarrow> sched_world" where
  "fire_due_batch S t go [] w = w"
| "fire_due_batch S t go (d # ds) w = (if go = [] \<or> \<not> hd go then w else fire_due_batch S t (tl go) ds (fire_one S t d w))"

definition fireDue :: "scheduler \<Rightarrow> int \<Rightarrow> bool list \<Rightarrow> sched_world \<Rightarrow> sched_world \<times> (string + unit)" where
  "fireDue S t go w =
     (case due (se_calendar S) (se_zone_ok S) t (sw_crons w) of
        Inl e \<Rightarrow> (w, Inl e)
      | Inr ds \<Rightarrow>
          let batch = tick_batch (se_maxFiresPerTick S) ds;
              w1 = (if se_maxFiresPerTick S < length ds then on_crons (fold (\<lambda>d. markAttempted (tb_id (fst d)) t) batch) w else w)
          in (fire_due_batch S t go batch w1, Inr ()))"

definition tick :: "scheduler \<Rightarrow> int \<Rightarrow> bool list \<Rightarrow> sched_world \<Rightarrow> sched_world \<times> (string + unit)" where
  "tick S t go w = (case fireDue S t go w of (w1, Inl e) \<Rightarrow> (w1, Inl e) | (w1, Inr _) \<Rightarrow> (gc_fires t (sweep_stranded t w1), Inr ()))"

section \<open>Jobs\<close>

definition nextJob :: "scheduler \<Rightarrow> Cron \<Rightarrow> string + CronFireJob option" where
  "nextJob S cron =
     (case cron_slot (se_calendar S) (se_zone_ok S) cron of
        Inl e \<Rightarrow> Inl e
      | Inr slot \<Rightarrow> Inr (map_option (\<lambda>t. \<lparr>cj_cronId = tb_id cron, cj_scheduledAt = t, cj_notBefore = cn_deferUntil cron\<rparr>) slot))"

definition enqueueFire :: "CronFireJob \<Rightarrow> sched_world \<Rightarrow> sched_world" where
  "enqueueFire job w = w\<lparr>sw_jobs := sw_jobs w @ [job]\<rparr>"

definition runnable :: "Cron \<Rightarrow> bool" where
  "runnable cron \<longleftrightarrow> \<not> cn_archived cron \<and> tb_enabled cron"

definition enqueueNext :: "scheduler \<Rightarrow> string \<Rightarrow> sched_world \<Rightarrow> sched_world \<times> (string + unit)" where
  "enqueueNext S cronId w =
     (case dm_get (cr_crons (sw_crons w)) cronId of
        None \<Rightarrow> (w, Inr ())
      | Some cron \<Rightarrow>
          if \<not> runnable cron then (w, Inr ())
          else case nextJob S cron of
            Inl e \<Rightarrow> (w, Inl e)
          | Inr None \<Rightarrow> (w, Inr ())
          | Inr (Some job) \<Rightarrow> (enqueueFire job w, Inr ()))"

definition unclaim :: "CronFireJob \<Rightarrow> Cron \<Rightarrow> int \<Rightarrow> sched_world \<Rightarrow> sched_world" where
  "unclaim job cron t = on_crons (unclaimSlot (cj_cronId job) (cj_scheduledAt job) t (tb_lastFiredAt cron))"

text \<open>The slot is claimed: it is fired and given back unless the fire went through. \<open>running\<close> says whether the scheduler still
  runs then.\<close>

definition fire_claimed :: "scheduler \<Rightarrow> CronFireJob \<Rightarrow> Cron \<Rightarrow> int \<Rightarrow> bool \<Rightarrow> sched_world \<Rightarrow> sched_world \<times> (string + unit)" where
  "fire_claimed S job cron t running w =
     (if \<not> running then (unclaim job cron t w, Inr ())
      else case fire_cron S cron t (slot_key (tb_id cron) (cj_scheduledAt job)) (Some (cj_scheduledAt job)) w of
        (w1, Inl e) \<Rightarrow> (unclaim job cron t w1, Inr ())
      | (w1, Inr r) \<Rightarrow>
          if fr_deferred r then enqueueNext S (cj_cronId job) (unclaim job cron t w1)
          else if fr_authzFailed r then (unclaim job cron t w1, Inr ())
          else enqueueNext S (cj_cronId job) w1)"

definition fireJob :: "scheduler \<Rightarrow> CronFireJob \<Rightarrow> int \<Rightarrow> bool \<Rightarrow> bool \<Rightarrow> sched_world \<Rightarrow> sched_world \<times> (string + unit)" where
  "fireJob S job t running1 running2 w =
     (case dm_get (cr_crons (sw_crons w)) (cj_cronId job) of
        None \<Rightarrow> (w, Inr ())
      | Some cron \<Rightarrow>
          if \<not> runnable cron then (w, Inr ())
          else case cron_slot (se_calendar S) (se_zone_ok S) cron of
            Inl e \<Rightarrow> (w, Inl e)
          | Inr slot \<Rightarrow>
              if slot \<noteq> Some (cj_scheduledAt job) then (w, Inr ())
              else if t < cj_scheduledAt job then (enqueueFire job w, Inr ())
              else if isDeferred (cn_deferUntil cron) t then (enqueueFire (job\<lparr>cj_notBefore := cn_deferUntil cron\<rparr>) w, Inr ())
              else if \<not> running1 then (w, Inr ())
              else case claimSlot (se_calendar S) (se_zone_ok S) (cj_cronId job) (cj_scheduledAt job) t (sw_crons w) of
                (s, Inl e) \<Rightarrow> (w\<lparr>sw_crons := s\<rparr>, Inl e)
              | (s, Inr False) \<Rightarrow> (w\<lparr>sw_crons := s\<rparr>, Inr ())
              | (s, Inr True) \<Rightarrow> fire_claimed S job cron t running2 (w\<lparr>sw_crons := s\<rparr>))"

text \<open>\<open>go\<close> says of every cron whether the scheduler still runs; an error ends the enqueueing.\<close>

fun enqueue_jobs :: "scheduler \<Rightarrow> bool list \<Rightarrow> Cron list \<Rightarrow> sched_world \<Rightarrow> sched_world" where
  "enqueue_jobs S go [] w = w"
| "enqueue_jobs S go (c # cs) w =
     (if go = [] \<or> \<not> hd go then w
      else if \<not> runnable c then enqueue_jobs S (tl go) cs w
      else case nextJob S c of
        Inl e \<Rightarrow> w
      | Inr None \<Rightarrow> enqueue_jobs S (tl go) cs w
      | Inr (Some job) \<Rightarrow> enqueue_jobs S (tl go) cs (enqueueFire job w))"

definition reconcile :: "scheduler \<Rightarrow> int \<Rightarrow> bool list \<Rightarrow> sched_world \<Rightarrow> sched_world" where
  "reconcile S t go w = gc_fires t (sweep_stranded t (enqueue_jobs S go (dm_all (cr_crons (sw_crons w))) w))"

section \<open>On demand\<close>

datatype RunNowResult = now_started string | now_unavailable | now_running CronFireLogEntry

definition runNow_begin :: "scheduler \<Rightarrow> string \<Rightarrow> int \<Rightarrow> string \<Rightarrow> sched_world \<Rightarrow> sched_world \<times> RunNowResult \<times> Cron option" where
  "runNow_begin S cronId t uuid w =
     (case dm_get (cr_crons (sw_crons w)) cronId of
        None \<Rightarrow> (w, now_unavailable, None)
      | Some cron \<Rightarrow>
          if \<not> runnable cron then (w, now_unavailable, None)
          else
            let fireKey = ''cron:'' @ tb_id cron @ '':manual:'' @ uuid in
            case beginFire cronId (fire_entry S cron t fireKey None) True (sw_crons w) of
              (s, Begun) \<Rightarrow> (w\<lparr>sw_crons := s\<rparr>, now_started fireKey, Some cron)
            | (s, NotBegun (Some running)) \<Rightarrow> (w\<lparr>sw_crons := s\<rparr>, now_running running, None)
            | (s, NotBegun None) \<Rightarrow> (w\<lparr>sw_crons := s\<rparr>, now_unavailable, None))"

text \<open>The fire itself goes on after the answer.\<close>

definition runNow :: "scheduler \<Rightarrow> string \<Rightarrow> int \<Rightarrow> string \<Rightarrow> sched_world \<Rightarrow> sched_world \<times> RunNowResult" where
  "runNow S cronId t uuid w =
     (case runNow_begin S cronId t uuid w of
        (w1, r, None) \<Rightarrow> (w1, r)
      | (w1, r, Some cron) \<Rightarrow> (fst (fire_cron S cron t (''cron:'' @ tb_id cron @ '':manual:'' @ uuid) None w1), r))"

definition describeRunNowRefusal :: "string \<Rightarrow> RunNowResult \<Rightarrow> int \<Rightarrow> (string \<times> string) option" where
  "describeRunNowRefusal i r now =
     (case r of
        now_started k \<Rightarrow> None
      | now_running e \<Rightarrow>
          Some (''already_running'', ''cron '' @ i @ '' is already firing (fire '' @ fe_fireKey e @ '', started '' @
            show_int ((2 * (now - fe_firedAt e) + 60000) div 120000) @ ''m ago) - wait for it to finish instead of firing again'')
      | now_unavailable \<Rightarrow> Some (''bad_request'', ''cron '' @ i @ '' can't be fired on demand right now''))"

end
