(* ===== verification/Scheduler_Properties.thy ===== *)
theory Scheduler_Properties
  imports Scheduler
begin

text \<open>
  What the scheduler promises about the times of a cron: a claimed slot is used up only by a fire that returned and was neither
  deferred nor refused authorisation. Where a fire throws or is put off, or the scheduler stops, the slot is given back, unless
  somebody else has fired the cron meanwhile.
\<close>

section \<open>The times of a cron\<close>

definition cron_times :: "cron_store \<Rightarrow> string \<Rightarrow> (int option \<times> int option) option" where
  "cron_times s i = map_option (\<lambda>c. (cn_nextFireAt c, tb_lastFiredAt c)) (dm_get (cr_crons s) i)"

lemma get_merge_cron: "dm_get (cr_crons (fst (merge_cron i f s))) j = (if j = i then map_option f (dm_get (cr_crons s) i) else dm_get (cr_crons s) j)"
  by (simp add: merge_cron_def dm_get_def dm_merge_def map_of_update split: option.splits prod.splits)

lemma times_merge:
  assumes "\<And>c. cn_nextFireAt (f c) = cn_nextFireAt c \<and> tb_lastFiredAt (f c) = tb_lastFiredAt c"
  shows "cron_times (fst (merge_cron i f s)) j = cron_times s j"
  using assms by (cases "dm_get (cr_crons s) i") (auto simp: cron_times_def get_merge_cron)

lemma times_simps [simp]:
  "cron_times (setEnabled_cron i b s) j = cron_times s j" "cron_times (defer_cron i u s) j = cron_times s j"
  "cron_times (markAttempted i u s) j = cron_times s j" "cron_times (recordFire i e s) j = cron_times s j"
  "cron_times (fst (beginFire i e x s)) j = cron_times s j"
  by (simp_all add: setEnabled_cron_def defer_cron_def markAttempted_def times_merge)
    (simp_all add: cron_times_def recordFire_def beginFire_def split: prod.splits)

lemma crons_on [simp]: "sw_crons (on_crons f w) = f (sw_crons w)"
  by (simp add: on_crons_def)

lemma after_fire_times: "cron_times (sw_crons (fst (after_cron_fire S cron t k sl out w))) i = cron_times (sw_crons w) i"
  by (simp add: after_cron_fire_def Let_def split: option.splits)

text \<open>What others leave of the times of a cron while a fire is under way, which does not change them itself.\<close>

definition times_left :: "scheduler \<Rightarrow> cron_store \<Rightarrow> string \<Rightarrow> (int option \<times> int option) option \<Rightarrow> bool" where
  "times_left S s i left \<longleftrightarrow> left = cron_times s i \<or> (\<exists>x. cron_times x i = cron_times s i \<and> left = cron_times (se_others S x) i)"

lemma fire_times: "times_left S (sw_crons w) i (cron_times (sw_crons (fst (fire_cron S cron t k sl w))) i)"
proof (cases "truthy (cn_loopId cron)")
  case True
  then show ?thesis
    by (auto simp: times_left_def fire_cron_def fire_loop_def Let_def
        intro!: exI[of _ "fst (beginFire (tb_id cron) (fire_entry S cron t k sl) False (sw_crons w))"])
next
  case False
  let ?begun = "fst (beginFire (tb_id cron) (fire_entry S cron t k sl) False (sw_crons w))"
  from False have "cron_times (sw_crons (fst (fire_cron S cron t k sl w))) i \<in>
      {cron_times (sw_crons w) i, cron_times (se_others S ?begun) i, cron_times (se_others S (sw_crons w)) i}"
    by (auto simp: fire_cron_def fire_failed_def Let_def after_fire_times trigger_world.defs split: option.splits prod.splits sum.splits)
  then show ?thesis unfolding times_left_def
    by (auto intro: exI[of _ ?begun] exI[of _ "sw_crons w"])
qed

lemma enqueue_crons [simp]: "sw_crons (fst (enqueueNext S i w)) = sw_crons w"
  by (simp add: enqueueNext_def enqueueFire_def split: option.splits sum.splits)

lemma times_claimed:
  assumes "claimSlot nr z i sl t s = (s', Inr True)"
  obtains cron nxt where "dm_get (cr_crons s) i = Some cron" "cron_slot nr z cron = Inr (Some sl)" "cron_times s' i = Some (nxt, Some t)"
  using assms by (auto simp: claimSlot_def cron_times_def dm_defs map_of_update split: option.splits if_splits sum.splits)

text \<open>Giving a slot back: unless the last fire is no longer the one that claimed it.\<close>

definition given_back :: "CronFireJob \<Rightarrow> Cron \<Rightarrow> int \<Rightarrow> (int option \<times> int option) option \<Rightarrow> (int option \<times> int option) option" where
  "given_back job cron t left =
     map_option (\<lambda>(nxt, last). if last = Some t then (Some (cj_scheduledAt job), tb_lastFiredAt cron) else (nxt, last)) left"

lemma times_unclaimed:
  "cron_times (sw_crons (unclaim job cron t w)) (cj_cronId job) = given_back job cron t (cron_times (sw_crons w) (cj_cronId job))"
  by (auto simp: unclaim_def unclaimSlot_def cron_times_def given_back_def dm_defs map_of_update split: option.splits)

text \<open>The fire of a claimed slot went through: it returned, was not deferred and was authorised.\<close>

definition went_through :: "scheduler \<Rightarrow> CronFireJob \<Rightarrow> Cron \<Rightarrow> int \<Rightarrow> sched_world \<Rightarrow> bool" where
  "went_through S job cron t w =
     (case snd (fire_cron S cron t (slot_key (tb_id cron) (cj_scheduledAt job)) (Some (cj_scheduledAt job)) w) of
        Inl e \<Rightarrow> False | Inr r \<Rightarrow> \<not> fr_deferred r \<and> \<not> fr_authzFailed r)"

lemma claimed_times:
  assumes "fire_claimed S job cron t running w = (w', res)"
  shows "\<exists>left. times_left S (sw_crons w) (cj_cronId job) left \<and> cron_times (sw_crons w') (cj_cronId job) =
    (if running \<and> went_through S job cron t w then left else given_back job cron t left)"
proof -
  obtain w1 x where f: "fire_cron S cron t (slot_key (tb_id cron) (cj_scheduledAt job)) (Some (cj_scheduledAt job)) w = (w1, x)"
    by (cases "fire_cron S cron t (slot_key (tb_id cron) (cj_scheduledAt job)) (Some (cj_scheduledAt job)) w")
  have t1: "times_left S (sw_crons w) (cj_cronId job) (cron_times (sw_crons w1) (cj_cronId job))"
    using fire_times[of S w "cj_cronId job" cron t "slot_key (tb_id cron) (cj_scheduledAt job)" "Some (cj_scheduledAt job)"] f by simp
  have enq: "sw_crons v = sw_crons u" if "enqueueNext S i u = (v, y)" for i u v y using enqueue_crons[of S i u] that by simp
  show ?thesis
  proof (cases running)
    case False
    with assms have "w' = unclaim job cron t w" by (simp add: fire_claimed_def)
    with False show ?thesis by (intro exI[of _ "cron_times (sw_crons w) (cj_cronId job)"]) (simp add: times_left_def times_unclaimed)
  next
    case True
    with assms f have "cron_times (sw_crons w') (cj_cronId job) = (if went_through S job cron t w then cron_times (sw_crons w1) (cj_cronId job)
        else given_back job cron t (cron_times (sw_crons w1) (cj_cronId job)))"
      by (auto simp: fire_claimed_def went_through_def times_unclaimed[symmetric] dest!: enq split: if_splits sum.splits)
    with True t1 show ?thesis by auto
  qed
qed

text \<open>C39: A scheduled slot is not lost to a fire that throws or is put off. After a job of the queue was worked off, the times of
  the cron, its next fire and its last, are as they were; or the job's slot was the cron's, was due and was claimed, with
  \<open>t\<close> as the last fire. In the second case let \<open>left\<close> be what others left of these times while the fire was under way. If the
  fire went through, the times are \<open>left\<close>. Otherwise the slot is given back: where the last fire is still \<open>t\<close>, the next
  fire is the slot again and the last fire the one before; where it is not, because somebody else fired the cron, or where
  the cron is gone, nothing is changed. A fire went through when the scheduler was running and the fire returned, was not deferred for a
  busy conversation and was authorised. This includes a turn that ended as failed and a loop that threw: these use up their
  slot.\<close>

theorem slot_kept_unless_fired:
  assumes "fireJob S job t r1 r2 w = (w', res)" "dm_get (cr_crons (sw_crons w)) (cj_cronId job) = Some cron"
  shows "cron_times (sw_crons w') (cj_cronId job) = Some (cn_nextFireAt cron, tb_lastFiredAt cron) \<or>
    cron_slot (se_calendar S) (se_zone_ok S) cron = Inr (Some (cj_scheduledAt job)) \<and> cj_scheduledAt job \<le> t \<and>
    (\<exists>s nxt left. claimSlot (se_calendar S) (se_zone_ok S) (cj_cronId job) (cj_scheduledAt job) t (sw_crons w) = (s, Inr True) \<and>
       cron_times s (cj_cronId job) = Some (nxt, Some t) \<and> times_left S s (cj_cronId job) left \<and>
       cron_times (sw_crons w') (cj_cronId job) =
         (if r2 \<and> went_through S job cron t (w\<lparr>sw_crons := s\<rparr>) then left else given_back job cron t left))"
proof -
  have refused: "s = sw_crons w" if "claimSlot (se_calendar S) (se_zone_ok S) (cj_cronId job) (cj_scheduledAt job) t (sw_crons w) = (s, x)" "x \<noteq> Inr True" for s x
    using that by (auto simp: claimSlot_def split: option.splits if_splits sum.splits)
  consider (same) "sw_crons w' = sw_crons w"
    | (claimed) s where "cj_scheduledAt job \<le> t" "claimSlot (se_calendar S) (se_zone_ok S) (cj_cronId job) (cj_scheduledAt job) t (sw_crons w) = (s, Inr True)"
        "fire_claimed S job cron t r2 (w\<lparr>sw_crons := s\<rparr>) = (w', res)"
    using assms refused by (auto simp: fireJob_def enqueueFire_def split: if_splits sum.splits prod.splits bool.splits)
  then show ?thesis
  proof cases
    case same
    with assms(2) show ?thesis by (simp add: cron_times_def)
  next
    case claimed
    from times_claimed[OF claimed(2)] assms(2) obtain nxt where
      "cron_slot (se_calendar S) (se_zone_ok S) cron = Inr (Some (cj_scheduledAt job))" "cron_times s (cj_cronId job) = Some (nxt, Some t)"
      by (metis option.inject)
    with claimed(1,2) claimed_times[OF claimed(3)] show ?thesis by auto
  qed
qed

section \<open>Examples\<close>

definition demo_cron :: Cron where
  "demo_cron = \<lparr>tb_id = ''c1'', tb_ownerScopeId = ''personal:ann'', tb_owner = ''ann'', tb_createdBy = ''ann'', tb_ownerConsentedAt = None,
     tb_destination = None, tb_enabled = True, tb_createdAt = 0, tb_lastFiredAt = Some 40, tb_recipientConsent = None,
     cn_schedule = \<lparr>cs_cron = None, cs_timezone = None, cs_everyMs = Some 60, cs_firstFireAt = None\<rparr>, cn_nextFireAt = Some 100,
     cn_lastAttemptAt = None, cn_deferUntil = None, cn_title = None, cn_archived = False, cn_action = Some ''look'', cn_message = None,
     cn_loopId = None, cn_runAs = None, cn_members = None, cn_unattendedGrants = None, cn_fireLog = None, cn_lastFireNote = None\<rparr>"

definition failing_scheduler :: scheduler where
  "failing_scheduler = \<lparr>se_deps = \<lparr>tg_classify = (\<lambda>i. internal), tg_currentScopeMembers = None, tg_directory = None, tg_sessions = None\<rparr>,
     se_run = (\<lambda>q w. (w, Inl ''no'')), se_others = id, se_fireLoop = None, se_listed = None, se_sha = id,
     se_dates = \<lparr>dt_millis = (\<lambda>x. None), dt_iso = (\<lambda>n. Some ''2026-01-01T00:00:00.000Z'')\<rparr>, se_calendar = (\<lambda>e z t. Inr None),
     se_zone_ok = (\<lambda>z. True), se_clock = (120, 120, 130), se_uuids = (''d1'', ''d2''), se_maxFiresPerTick = 100, se_queue = True\<rparr>"

definition demo_sched_world :: sched_world where
  "demo_sched_world = \<lparr>tw_idempotency = \<lparr>id_retentionMs = 100, id_pruneIntervalMs = 50, id_done = [], id_inflight = [], id_lastPruneAt = 0, id_backing = None,
       id_lookups = [], id_prunes = [], id_deletes = []\<rparr>,
     tw_deliveries = \<lparr>ds_maxAgeMs = 1000, ds_deliveries = [], ds_byKey = [], ds_claimedUntil = [], ds_wakeups = 0\<rparr>,
     sw_crons = \<lparr>cr_crons = [(''c1'', demo_cron)], cr_fires = [], cr_staleRunningMs = 1000\<rparr>, sw_jobs = [], sw_lastStrandedSweep = 0, sw_lastFireGc = 0\<rparr>"

definition demo_job :: CronFireJob where
  "demo_job = \<lparr>cj_cronId = ''c1'', cj_scheduledAt = 100, cj_notBefore = None\<rparr>"

lemma demo_fails:
  "isl (snd (fire_cron failing_scheduler demo_cron 120 (slot_key (tb_id demo_cron) 100) (Some 100)
     (demo_sched_world\<lparr>sw_crons := fst (claimSlot (se_calendar failing_scheduler) (se_zone_ok failing_scheduler) ''c1'' 100 120 (sw_crons demo_sched_world))\<rparr>)))"
  by code_simp

theorem slot_kept_unless_fired_witness:
  "cron_times (sw_crons (fst (fireJob failing_scheduler demo_job 120 True True demo_sched_world))) ''c1'' = Some (Some 100, Some 40)"
proof -
  obtain w' res where f: "fireJob failing_scheduler demo_job 120 True True demo_sched_world = (w', res)"
    by (cases "fireJob failing_scheduler demo_job 120 True True demo_sched_world")
  have o: "se_others failing_scheduler = id" by (simp add: failing_scheduler_def)
  have c: "dm_get (cr_crons (sw_crons demo_sched_world)) (cj_cronId demo_job) = Some demo_cron"
    by (simp add: demo_sched_world_def demo_job_def dm_get_def)
  have d: "cj_cronId demo_job = ''c1''" "cj_scheduledAt demo_job = 100" "cn_nextFireAt demo_cron = Some 100" "tb_lastFiredAt demo_cron = Some 40"
    by (simp_all add: demo_job_def demo_cron_def)
  from slot_kept_unless_fired[OF f c] demo_fails show ?thesis unfolding d f times_left_def o
    by (auto simp: went_through_def given_back_def d isl_def)
qed

end
