(* ===== verification/Skills.thy ===== *)
theory Skills
  imports Scopes Durable_Map
begin

text \<open>
  Skills, packages of instructions that are published in a scope: the names that are accepted
  (\<open>src/src/skills/skill-name.ts\<close>), the file paths and the store with its life cycle from draft to published
  (\<open>src/src/skills/skill-store.ts\<close>), the choice of the skill a reader sees under a name, and the installation of
  skills that ship with the program or come from a pack (\<open>upsertSeedSkill\<close> of \<open>src/src/skills/seed.ts\<close>).
  The HMAC with the secret of the store is the argument \<open>sg\<close>; the time and new ids are arguments.
\<close>

section \<open>Names and paths\<close>

definition ascii_alnum :: "char \<Rightarrow> bool" where
  "ascii_alnum c = (let n = of_char c :: nat in (48 \<le> n \<and> n \<le> 57) \<or> (65 \<le> n \<and> n \<le> 90) \<or> (97 \<le> n \<and> n \<le> 122))"

text \<open>\<open>/^[A-Za-z0-9](?:[A-Za-z0-9_.-]{0,126}[A-Za-z0-9_-])?$/\<close>.\<close>

fun isSafeSkillName :: "string \<Rightarrow> bool" where
  "isSafeSkillName [] = False"
| "isSafeSkillName (c # rest) =
     (ascii_alnum c \<and>
      (rest = [] \<or>
       length (butlast rest) \<le> 126 \<and> (\<forall>x \<in> set (butlast rest). ascii_alnum x \<or> x \<in> set ''_.-'') \<and>
       (ascii_alnum (last rest) \<or> last rest \<in> set ''_-'')))"

datatype skill_error =
    Bad_name | Bad_path string | Unknown_skill string | Rename_refused | Tampered | Not_reviewed
  | Ungranted "string list" | Not_published | Unsigned_promotion | Cede_refused

definition assertSafeSkillName :: "string \<Rightarrow> skill_error + string" where
  "assertSafeSkillName name = (if isSafeSkillName name then Inr name else Inl Bad_name)"

text \<open>\<open>.replace(/^\.\/+/, "")\<close> and \<open>.replace(/\/+$/, "")\<close>.\<close>

definition strip_dot_slash :: "string \<Rightarrow> string" where
  "strip_dot_slash p = (if starts_with p ''./'' then dropWhile (\<lambda>c. c = CHR ''/'') (tl p) else p)"

definition strip_slashes :: "string \<Rightarrow> string" where
  "strip_slashes p = rev (dropWhile (\<lambda>c. c = CHR ''/'') (rev p))"

definition path_parts :: "string \<Rightarrow> string list" where
  "path_parts path =
     filter (\<lambda>w. w \<noteq> []) (split_char (CHR ''/'')
       (strip_slashes (strip_dot_slash (map (\<lambda>c. if c = CHR 0x5C then CHR ''/'' else c) path))))"

definition bad_part :: "string \<Rightarrow> bool" where
  "bad_part part = (part = ''.'' \<or> part = ''..'' \<or> CHR 0x00 \<in> set part)"

definition safeSkillFilePath :: "string \<Rightarrow> skill_error + string" where
  "safeSkillFilePath path =
     (let parts = path_parts path
      in if parts = [] \<or> starts_with path ''/'' \<or> list_ex bad_part parts then Inl (Bad_path path)
         else Inr (join_with ''/'' parts))"

section \<open>Records\<close>

datatype SkillStatus = draft | reviewed | published | archived

record SkillFile =
  sf_path :: string
  sf_content :: string
  sf_executable :: bool

record SkillManifest =
  sm_name :: string
  sm_description :: string
  sm_requiredCapabilities :: "string list"
  sm_body :: string
  sm_files :: "SkillFile list option"

record skill_pack_ref =
  pr_packId :: string
  pr_commit :: string
  pr_upstreamName :: string

record Skill =
  sk_id :: string
  sk_scopeId :: ScopeId
  sk_manifest :: SkillManifest
  sk_signature :: string
  sk_status :: SkillStatus
  sk_createdBy :: string
  sk_version :: nat
  sk_grantedCapabilities :: "string list"
  sk_approvals :: "string list"
  sk_createdAt :: "int option"
  sk_updatedAt :: "int option"
  sk_lastUsedAt :: "int option"
  sk_pack :: "skill_pack_ref option"

record GrantedSkillRef =
  gs_id :: string
  gs_ownerScopeId :: ScopeId

record SkillResolution =
  rs_skill :: "Skill option"
  rs_shadowed :: "Skill list"

abbreviation sk_name :: "Skill \<Rightarrow> string" where
  "sk_name s \<equiv> sm_name (sk_manifest s)"

section \<open>Signatures\<close>

definition canonicalFiles :: "SkillFile list option \<Rightarrow> (string \<times> string \<times> bool) list" where
  "canonicalFiles files = sort_key fst (map (\<lambda>f. (sf_path f, sf_content f, sf_executable f)) (nullish files []))"

definition canonical_manifest :: "SkillManifest \<Rightarrow> json" where
  "canonical_manifest m =
     (let files = canonicalFiles (sm_files m)
      in JObj ([(''name'', JStr (sm_name m)), (''description'', JStr (sm_description m)),
                (''requiredCapabilities'', JArr (map JStr (sort (sm_requiredCapabilities m)))),
                (''body'', JStr (sm_body m))] @
               (if files = [] then []
                else [(''files'', JArr (map (\<lambda>(p, c, x). JArr [JStr p, JStr c, JBool x]) files))])))"

definition sign_manifest :: "(string \<Rightarrow> string) \<Rightarrow> SkillManifest \<Rightarrow> string" where
  "sign_manifest sg m = sg (stringify (canonical_manifest m))"

definition verify_skill :: "(string \<Rightarrow> string) \<Rightarrow> Skill \<Rightarrow> bool" where
  "verify_skill sg s = (sign_manifest sg (sk_manifest s) = sk_signature s)"

section \<open>Who sees which skill\<close>

definition scope_name_key :: "ScopeId \<Rightarrow> string \<Rightarrow> string" where
  "scope_name_key scope name = scope @ CHR 0x00 # name"

fun index_published :: "Skill list \<Rightarrow> Skill jsmap \<Rightarrow> Skill jsmap" where
  "index_published [] index = index"
| "index_published (s # rest) index =
     (if sk_status s \<noteq> published then index_published rest index
      else let key = scope_name_key (sk_scopeId s) (sk_name s)
           in index_published rest (if map_of index key = None then AList.update key s index else index))"

definition publishedByScopeAndName :: "Skill list \<Rightarrow> Skill jsmap" where
  "publishedByScopeAndName all = index_published all []"

definition resolveFromIndex :: "Skill jsmap \<Rightarrow> string \<Rightarrow> ScopeId list \<Rightarrow> SkillResolution" where
  "resolveFromIndex index name orderedScopes =
     (if \<not> isSafeSkillName name then \<lparr>rs_skill = None, rs_shadowed = []\<rparr>
      else case List.map_filter (\<lambda>sc. map_of index (scope_name_key sc name)) orderedScopes of
             [] \<Rightarrow> \<lparr>rs_skill = None, rs_shadowed = []\<rparr>
           | skill # shadowed \<Rightarrow> \<lparr>rs_skill = Some skill, rs_shadowed = shadowed\<rparr>)"

record skill_row =
  rw_skill :: Skill
  rw_shadowed :: "Skill list"

abbreviation rw_name :: "skill_row \<Rightarrow> string" where
  "rw_name r \<equiv> sk_name (rw_skill r)"

definition row_of :: "SkillResolution \<Rightarrow> skill_row option" where
  "row_of r = map_option (\<lambda>s. \<lparr>rw_skill = s, rw_shadowed = rs_shadowed r\<rparr>) (rs_skill r)"

definition visible_names :: "Skill list \<Rightarrow> ScopeId list \<Rightarrow> string list" where
  "visible_names all orderedScopes =
     dedupe (map sk_name (filter (\<lambda>s. sk_status s = published \<and> sk_scopeId s \<in> set orderedScopes \<and>
       isSafeSkillName (sk_name s)) all))"

text \<open>\<open>new Map(all.map((skill) => [skill.id, skill]))\<close>: of two skills with one id the last counts.\<close>

definition skill_by_id :: "Skill list \<Rightarrow> string \<Rightarrow> Skill option" where
  "skill_by_id all i = find (\<lambda>s. sk_id s = i) (rev all)"

text \<open>\<open>byName.get(name)\<close> returns the row itself, so pushing to \<open>existing.shadowed\<close> changes the row of
  \<open>visible\<close>; the rows have distinct names, so this is the row with that name.\<close>

definition shadow_row :: "Skill \<Rightarrow> skill_row \<Rightarrow> skill_row" where
  "shadow_row s r =
     (if rw_name r = sk_name s \<and> sk_id (rw_skill r) \<noteq> sk_id s \<and> \<not> list_ex (\<lambda>x. sk_id x = sk_id s) (rw_shadowed r)
      then r\<lparr>rw_shadowed := rw_shadowed r @ [s]\<rparr> else r)"

fun add_granted :: "Skill list \<Rightarrow> GrantedSkillRef list \<Rightarrow> string list \<Rightarrow> skill_row list \<Rightarrow> skill_row list" where
  "add_granted all [] seen visible = visible"
| "add_granted all (ref # rest) seen visible =
     (if gs_id ref \<in> set seen then add_granted all rest seen visible
      else case skill_by_id all (gs_id ref) of
        None \<Rightarrow> add_granted all rest (gs_id ref # seen) visible
      | Some s \<Rightarrow>
          if sk_status s \<noteq> published \<or> sk_scopeId s \<noteq> gs_ownerScopeId ref \<or> \<not> isSafeSkillName (sk_name s)
          then add_granted all rest (gs_id ref # seen) visible
          else if list_ex (\<lambda>r. rw_name r = sk_name s) visible
          then add_granted all rest (gs_id ref # seen) (map (shadow_row s) visible)
          else add_granted all rest (gs_id ref # seen) (visible @ [\<lparr>rw_skill = s, rw_shadowed = []\<rparr>]))"

definition visibleSkillRows :: "Skill list \<Rightarrow> ScopeId list \<Rightarrow> GrantedSkillRef list \<Rightarrow> skill_row list" where
  "visibleSkillRows all orderedScopes granted =
     (let index = publishedByScopeAndName all;
          visible = List.map_filter (\<lambda>n. row_of (resolveFromIndex index n orderedScopes)) (visible_names all orderedScopes)
      in add_granted all granted [] visible)"

section \<open>The store\<close>

type_synonym skill_store = "Skill jsmap"

type_synonym skill_result = "skill_store \<times> (skill_error + Skill)"

definition scopeKind :: "ScopeId \<Rightarrow> string" where
  "scopeKind s = (case fst (parseScopeId s) of None \<Rightarrow> s | Some k \<Rightarrow> kind_name k)"

record new_skill =
  ns_scopeId :: ScopeId
  ns_manifest :: SkillManifest
  ns_createdBy :: string
  ns_pack :: "skill_pack_ref option"

definition create_skill :: "(string \<Rightarrow> string) \<Rightarrow> new_skill \<Rightarrow> string \<Rightarrow> int \<Rightarrow> skill_store \<Rightarrow> skill_result" where
  "create_skill sg input uuid now m =
     (case assertSafeSkillName (sm_name (ns_manifest input)) of
        Inl e \<Rightarrow> (m, Inl e)
      | Inr _ \<Rightarrow>
          let skill = \<lparr>sk_id = uuid, sk_scopeId = ns_scopeId input, sk_manifest = ns_manifest input,
                sk_signature = sign_manifest sg (ns_manifest input), sk_status = draft, sk_createdBy = ns_createdBy input,
                sk_version = 1, sk_grantedCapabilities = [], sk_approvals = [], sk_createdAt = Some now,
                sk_updatedAt = Some now, sk_lastUsedAt = None, sk_pack = ns_pack input\<rparr>
          in (dm_put m uuid skill, Inr skill))"

definition with_skill :: "string \<Rightarrow> skill_store \<Rightarrow> (Skill \<Rightarrow> skill_error + Skill) \<Rightarrow> skill_result" where
  "with_skill i m f =
     (case dm_get m i of
        None \<Rightarrow> (m, Inl (Unknown_skill i))
      | Some s \<Rightarrow> (case f s of Inl e \<Rightarrow> (m, Inl e) | Inr s' \<Rightarrow> (dm_put m (sk_id s') s', Inr s')))"

definition update_skill :: "(string \<Rightarrow> string) \<Rightarrow> string \<Rightarrow> SkillManifest \<Rightarrow> int \<Rightarrow> skill_store \<Rightarrow> skill_result" where
  "update_skill sg i manifest now m =
     (if \<not> isSafeSkillName (sm_name manifest) then (m, Inl Bad_name)
      else with_skill i m (\<lambda>s.
        if sm_name manifest \<noteq> sk_name s then Inl Rename_refused
        else Inr (s\<lparr>sk_manifest := manifest, sk_signature := sign_manifest sg manifest,
               sk_status := (if scopeKind (sk_scopeId s) \<noteq> ''personal'' then draft else sk_status s),
               sk_version := sk_version s + 1, sk_updatedAt := Some now\<rparr>)))"

definition review_skill :: "(string \<Rightarrow> string) \<Rightarrow> string \<Rightarrow> string \<Rightarrow> string list \<Rightarrow> int \<Rightarrow> skill_store \<Rightarrow> skill_result" where
  "review_skill sg i reviewer grantCapabilities now m =
     with_skill i m (\<lambda>s.
       if \<not> isSafeSkillName (sk_name s) then Inl Bad_name
       else if \<not> verify_skill sg s then Inl Tampered
       else Inr (s\<lparr>sk_grantedCapabilities := dedupe (sk_grantedCapabilities s @ grantCapabilities),
              sk_approvals := (if reviewer \<in> set (sk_approvals s) then sk_approvals s else sk_approvals s @ [reviewer]),
              sk_status := reviewed, sk_updatedAt := Some now\<rparr>))"

definition missing_capabilities :: "Skill \<Rightarrow> string list" where
  "missing_capabilities s =
     filter (\<lambda>c. c \<notin> set (sk_grantedCapabilities s)) (sm_requiredCapabilities (sk_manifest s))"

definition publish_skill :: "string \<Rightarrow> int \<Rightarrow> skill_store \<Rightarrow> skill_result" where
  "publish_skill i now m =
     with_skill i m (\<lambda>s.
       if \<not> isSafeSkillName (sk_name s) then Inl Bad_name
       else if sk_status s = draft then Inl Not_reviewed
       else if missing_capabilities s \<noteq> [] then Inl (Ungranted (missing_capabilities s))
       else Inr (s\<lparr>sk_status := published, sk_updatedAt := Some now\<rparr>))"

definition archive_skill :: "string \<Rightarrow> int \<Rightarrow> skill_store \<Rightarrow> skill_result" where
  "archive_skill i now m =
     (case dm_get m i of
        None \<Rightarrow> (m, Inl (Unknown_skill i))
      | Some s \<Rightarrow>
          if sk_status s = archived then (m, Inr s)
          else let s' = s\<lparr>sk_status := archived, sk_updatedAt := Some now\<rparr> in (dm_put m (sk_id s') s', Inr s'))"

definition restore_skill :: "Skill \<Rightarrow> skill_store \<Rightarrow> skill_store \<times> (skill_error + unit)" where
  "restore_skill skill m =
     (if isSafeSkillName (sk_name skill) then (dm_put m (sk_id skill) skill, Inr ()) else (m, Inl Bad_name))"

definition delete_skill :: "string \<Rightarrow> skill_store \<Rightarrow> skill_store" where
  "delete_skill i m = dm_delete m i"

definition recordUse :: "string \<Rightarrow> int option \<Rightarrow> int \<Rightarrow> skill_store \<Rightarrow> skill_store" where
  "recordUse i at now m = fst (dm_merge m i (\<lambda>s. s\<lparr>sk_lastUsedAt := Some (nullish at now)\<rparr>))"

definition resolve_skill :: "string \<Rightarrow> ScopeId list \<Rightarrow> skill_store \<Rightarrow> SkillResolution" where
  "resolve_skill name orderedScopes m = resolveFromIndex (publishedByScopeAndName (dm_all m)) name orderedScopes"

definition visibleFor :: "ScopeId list \<Rightarrow> GrantedSkillRef list \<Rightarrow> skill_store \<Rightarrow> skill_row list" where
  "visibleFor orderedScopes granted m = visibleSkillRows (dm_all m) orderedScopes granted"

text \<open>Promoting reads the skill first and looks for a published one of the same name in the target scope afterwards.\<close>

definition promoted_skill :: "(string \<Rightarrow> string) \<Rightarrow> Skill \<Rightarrow> Skill option \<Rightarrow> ScopeId \<Rightarrow> string \<Rightarrow> int \<Rightarrow> Skill" where
  "promoted_skill sg s existing targetScopeId uuid now =
     \<lparr>sk_id = nullish (map_option sk_id existing) uuid, sk_scopeId = targetScopeId,
      sk_manifest = sk_manifest s, sk_signature = sign_manifest sg (sk_manifest s), sk_status = published,
      sk_createdBy = sk_createdBy s, sk_version = nullish (map_option sk_version existing) 0 + 1,
      sk_grantedCapabilities = sk_grantedCapabilities s, sk_approvals = sk_approvals s,
      sk_createdAt = Some now, sk_updatedAt = Some now, sk_lastUsedAt = None, sk_pack = None\<rparr>"

definition promotable :: "(string \<Rightarrow> string) \<Rightarrow> string \<Rightarrow> skill_store \<Rightarrow> skill_error + Skill" where
  "promotable sg i m =
     (case dm_get m i of
        None \<Rightarrow> Inl (Unknown_skill i)
      | Some s \<Rightarrow>
          if \<not> isSafeSkillName (sk_name s) then Inl Bad_name
          else if sk_status s \<noteq> published then Inl Not_published
          else if \<not> verify_skill sg s then Inl Unsigned_promotion
          else Inr s)"

definition promote_skill :: "(string \<Rightarrow> string) \<Rightarrow> string \<Rightarrow> ScopeId \<Rightarrow> string \<Rightarrow> int \<Rightarrow> skill_store \<Rightarrow> skill_result" where
  "promote_skill sg i targetScopeId uuid now m =
     (case promotable sg i m of
        Inl e \<Rightarrow> (m, Inl e)
      | Inr s \<Rightarrow>
          let existing = find (\<lambda>x. sk_status x = published \<and> sk_scopeId x = targetScopeId \<and> sk_name x = sk_name s) (dm_all m);
              promoted = promoted_skill sg s existing targetScopeId uuid now
          in (dm_put m (sk_id promoted) promoted, Inr promoted))"

definition move_skill :: "string \<Rightarrow> ScopeId \<Rightarrow> int \<Rightarrow> skill_store \<Rightarrow> skill_result" where
  "move_skill i toScopeId now m =
     with_skill i m (\<lambda>s.
       if \<not> isSafeSkillName (sk_name s) then Inl Bad_name
       else if scopeKind toScopeId = ''org'' then Inl Cede_refused
       else Inr (s\<lparr>sk_scopeId := toScopeId, sk_updatedAt := Some now\<rparr>))"

section \<open>Installing skills\<close>

definition file_line :: "SkillFile \<Rightarrow> string" where
  "file_line f = sf_path f @ CHR 0x00 # sf_content f @ CHR 0x00 # (if sf_executable f then ''1'' else ''0'')"

definition canonicalFilesKey :: "SkillFile list option \<Rightarrow> string" where
  "canonicalFilesKey files = concat (sort (map file_line (nullish files [])))"

definition sameManifest :: "SkillManifest \<Rightarrow> SkillManifest \<Rightarrow> bool" where
  "sameManifest a b =
     (sm_description a = sm_description b \<and> sm_body a = sm_body b \<and>
      join_with [CHR 0x00] (sort (sm_requiredCapabilities a)) = join_with [CHR 0x00] (sort (sm_requiredCapabilities b)) \<and>
      canonicalFilesKey (sm_files a) = canonicalFilesKey (sm_files b))"

datatype UpsertOutcome = installed | updated | skipped | foreign

definition foreignSkillCollision :: "Skill list \<Rightarrow> ScopeId \<Rightarrow> string \<Rightarrow> string \<Rightarrow> Skill option" where
  "foreignSkillCollision all scope name createdBy =
     find (\<lambda>s. sk_scopeId s = scope \<and> sk_name s = name \<and> sk_createdBy s \<noteq> createdBy \<and> sk_status s \<noteq> archived) all"

definition own_skill :: "new_skill \<Rightarrow> Skill \<Rightarrow> bool" where
  "own_skill input s =
     (sk_scopeId s = ns_scopeId input \<and> sk_name s = sm_name (ns_manifest input) \<and> sk_createdBy s = ns_createdBy input)"

definition review_and_publish ::
    "(string \<Rightarrow> string) \<Rightarrow> string \<Rightarrow> string \<Rightarrow> string list \<Rightarrow> int \<Rightarrow> UpsertOutcome \<Rightarrow> skill_store \<Rightarrow> skill_store \<times> (skill_error + UpsertOutcome)" where
  "review_and_publish sg i reviewer caps now outcome m =
     (case review_skill sg i reviewer caps now m of
        (m1, Inl e) \<Rightarrow> (m1, Inl e)
      | (m1, Inr _) \<Rightarrow>
          (case publish_skill i now m1 of (m2, Inl e) \<Rightarrow> (m2, Inl e) | (m2, Inr _) \<Rightarrow> (m2, Inr outcome)))"

definition upsertSeedSkill ::
    "(string \<Rightarrow> string) \<Rightarrow> new_skill \<Rightarrow> string \<Rightarrow> string \<Rightarrow> int \<Rightarrow> skill_store \<Rightarrow> skill_store \<times> (skill_error + UpsertOutcome)" where
  "upsertSeedSkill sg input reviewer uuid now m =
     (let manifest = ns_manifest input; all = dm_all m; caps = sm_requiredCapabilities manifest
      in case find (own_skill input) all of
           None \<Rightarrow>
             if foreignSkillCollision all (ns_scopeId input) (sm_name manifest) (ns_createdBy input) \<noteq> None
             then (m, Inr foreign)
             else (case create_skill sg input uuid now m of
                     (m1, Inl e) \<Rightarrow> (m1, Inl e)
                   | (m1, Inr skill) \<Rightarrow> review_and_publish sg (sk_id skill) reviewer caps now installed m1)
         | Some existing \<Rightarrow>
             let changed = \<not> sameManifest (sk_manifest existing) manifest
             in if \<not> changed \<and> sk_status existing = published then (m, Inr skipped)
                else (case (if changed then update_skill sg (sk_id existing) manifest now m else (m, Inr existing)) of
                        (m1, Inl e) \<Rightarrow> (m1, Inl e)
                      | (m1, Inr _) \<Rightarrow> review_and_publish sg (sk_id existing) reviewer caps now updated m1))"

end
