(* ===== verification/Skill_Properties.thy ===== *)
theory Skill_Properties
  imports Skills
begin

text \<open>
  What the store of skills promises: in whatever order skills are written, reviewed, published, moved and installed, a
  skill that a reader is shown is published in a scope of the reader or was granted by its owner, carries the signature of
  the store and, unless it was updated in a personal scope to ask for more, has every capability it asks for granted; nearer scopes win over broader ones and over grants; installing the
  same skill twice changes nothing the second time.
\<close>

section \<open>Names\<close>

lemma safe_name_chars: "isSafeSkillName n \<Longrightarrow> c \<in> set n \<Longrightarrow> ascii_alnum c \<or> c \<in> set ''_.-''"
proof (cases n)
  case (Cons x rest)
  assume n: "isSafeSkillName n" and c: "c \<in> set n"
  show ?thesis
  proof (cases "rest = []")
    case False
    then have "set rest = insert (last rest) (set (butlast rest))" by (metis append_butlast_last_id insert_is_Un list.set(1) list.simps(15) set_append sup_commute)
    with n c Cons False show ?thesis by auto
  qed (use n c Cons in auto)
qed simp

lemma safe_name_no_sep: "isSafeSkillName n \<Longrightarrow> CHR 0x00 \<notin> set n \<and> CHR ''/'' \<notin> set n \<and> CHR 0x5C \<notin> set n"
  using safe_name_chars[of n] by (fastforce simp: ascii_alnum_def)

lemma scope_name_key_inj:
  "scope_name_key sc n = scope_name_key sc' n' \<Longrightarrow> isSafeSkillName n \<Longrightarrow> isSafeSkillName n' \<Longrightarrow> sc = sc' \<and> n = n'"
  unfolding scope_name_key_def by (rule split_at_last) (auto dest: safe_name_no_sep)

section \<open>What a reader sees\<close>

lemma map_of_index:
  "map_of (index_published all ix) key =
     (case map_of ix key of Some s \<Rightarrow> Some s
      | None \<Rightarrow> find (\<lambda>s. sk_status s = published \<and> scope_name_key (sk_scopeId s) (sk_name s) = key) all)"
  by (induction all ix rule: index_published.induct) (auto simp: Let_def split: option.splits)

definition published_in :: "Skill list \<Rightarrow> string \<Rightarrow> ScopeId \<Rightarrow> Skill option" where
  "published_in all name sc = find (\<lambda>s. sk_status s = published \<and> sk_scopeId s = sc \<and> sk_name s = name) all"

lemma find_cong: "(\<And>x. x \<in> set xs \<Longrightarrow> P x = Q x) \<Longrightarrow> find P xs = find Q xs"
  by (induction xs) auto

lemma mem_map_filter: "x \<in> set (List.map_filter f xs) \<longleftrightarrow> (\<exists>y \<in> set xs. f y = Some x)"
  by (auto simp: List.map_filter_def image_iff)

lemma map_filter_eqI: "(\<And>x. x \<in> set xs \<Longrightarrow> f x = g x) \<Longrightarrow> List.map_filter f xs = List.map_filter g xs"
  by (induction xs) (auto simp: List.map_filter_simps split: option.splits)

lemma index_lookup:
  assumes "isSafeSkillName name" and "\<And>s. s \<in> set all \<Longrightarrow> isSafeSkillName (sk_name s)"
  shows "map_of (publishedByScopeAndName all) (scope_name_key sc name) = published_in all name sc"
  unfolding publishedByScopeAndName_def published_in_def map_of_index
  by (simp, rule find_cong) (use assms scope_name_key_inj in blast)

lemma published_inD: "published_in all name sc = Some s \<Longrightarrow> s \<in> set all \<and> sk_status s = published \<and> sk_scopeId s = sc \<and> sk_name s = name"
  by (auto simp: published_in_def dest: find_SomeD)

text \<open>The skill a name stands for: the one of the first scope that has it, the others are shadowed.\<close>

definition nearest :: "Skill list \<Rightarrow> ScopeId list \<Rightarrow> string \<Rightarrow> Skill list" where
  "nearest all scopes name = (if isSafeSkillName name then List.map_filter (published_in all name) scopes else [])"

lemma resolve_nearest:
  assumes "\<And>s. s \<in> set all \<Longrightarrow> isSafeSkillName (sk_name s)"
  shows "resolveFromIndex (publishedByScopeAndName all) name scopes =
    (case nearest all scopes name of [] \<Rightarrow> \<lparr>rs_skill = None, rs_shadowed = []\<rparr>
     | s # ss \<Rightarrow> \<lparr>rs_skill = Some s, rs_shadowed = ss\<rparr>)"
proof (cases "isSafeSkillName name")
  case True
  then have "List.map_filter (\<lambda>sc. map_of (publishedByScopeAndName all) (scope_name_key sc name)) scopes = nearest all scopes name"
    by (simp add: nearest_def) (rule map_filter_eqI, rule index_lookup[OF True assms])
  with True show ?thesis by (simp add: resolveFromIndex_def)
qed (simp add: resolveFromIndex_def nearest_def)

lemma nearest_mem:
  "s \<in> set (nearest all scopes name) \<Longrightarrow>
     isSafeSkillName name \<and> s \<in> set all \<and> sk_status s = published \<and> sk_scopeId s \<in> set scopes \<and> sk_name s = name"
  by (auto simp: nearest_def mem_map_filter split: if_splits dest!: published_inD)

lemma nearest_nonempty:
  assumes "s \<in> set all" "sk_status s = published" "sk_scopeId s \<in> set scopes" "sk_name s = name" "isSafeSkillName name"
  shows "nearest all scopes name \<noteq> []"
proof -
  have "published_in all name (sk_scopeId s) \<noteq> None"
    using find_NoneD[of "\<lambda>x. sk_status x = published \<and> sk_scopeId x = sk_scopeId s \<and> sk_name x = name" all s] assms by (auto simp: published_in_def)
  then obtain x where "published_in all name (sk_scopeId s) = Some x" by blast
  then have "x \<in> set (nearest all scopes name)" using assms(3,5) by (auto simp: nearest_def mem_map_filter)
  then show ?thesis by auto
qed

definition in_scope_rows :: "Skill list \<Rightarrow> ScopeId list \<Rightarrow> skill_row list" where
  "in_scope_rows all scopes = map (\<lambda>n. \<lparr>rw_skill = hd (nearest all scopes n), rw_shadowed = tl (nearest all scopes n)\<rparr>)
     (visible_names all scopes)"

lemma visible_names_nearest: "n \<in> set (visible_names all scopes) \<Longrightarrow> nearest all scopes n \<noteq> []"
  by (auto simp: visible_names_def dest: nearest_nonempty)

lemma in_scope_rows_eq:
  assumes "\<And>s. s \<in> set all \<Longrightarrow> isSafeSkillName (sk_name s)"
  shows "List.map_filter (\<lambda>n. row_of (resolveFromIndex (publishedByScopeAndName all) n scopes)) (visible_names all scopes) =
    in_scope_rows all scopes"
proof -
  have "row_of (resolveFromIndex (publishedByScopeAndName all) n scopes) =
      Some \<lparr>rw_skill = hd (nearest all scopes n), rw_shadowed = tl (nearest all scopes n)\<rparr>" if "n \<in> set (visible_names all scopes)" for n
    using visible_names_nearest[OF that] by (cases "nearest all scopes n") (auto simp: resolve_nearest[OF assms] row_of_def)
  then show ?thesis by (simp add: in_scope_rows_def List.map_filter_def cong: filter_cong map_cong)
qed

text \<open>The rows grow by skills that were granted, each under a name not yet taken.\<close>

definition granted_skill :: "Skill list \<Rightarrow> GrantedSkillRef list \<Rightarrow> Skill \<Rightarrow> bool" where
  "granted_skill all granted s =
     (s \<in> set all \<and> sk_status s = published \<and> isSafeSkillName (sk_name s) \<and>
      (\<exists>g \<in> set granted. gs_id g = sk_id s \<and> gs_ownerScopeId g = sk_scopeId s))"

lemma shadow_row_skill [simp]: "rw_skill (shadow_row s r) = rw_skill r"
  by (simp add: shadow_row_def)

lemma skill_by_idD: "skill_by_id all i = Some s \<Longrightarrow> s \<in> set all \<and> sk_id s = i"
  by (auto simp: skill_by_id_def dest: find_SomeD)

lemma add_granted_rows:
  assumes "set refs \<subseteq> set granted" "distinct (map rw_name rows)"
  shows "\<exists>more. map rw_skill (add_granted all refs seen rows) = map rw_skill rows @ more \<and>
    (\<forall>s \<in> set more. granted_skill all granted s) \<and> distinct (map sk_name (map rw_skill rows @ more))"
  using assms
proof (induction all refs seen rows rule: add_granted.induct)
  case (2 all ref rest seen visible)
  show ?case
  proof (cases "gs_id ref \<in> set seen")
    case False
    show ?thesis
    proof (cases "skill_by_id all (gs_id ref)")
      case (Some s)
      consider (bad) "sk_status s \<noteq> published \<or> sk_scopeId s \<noteq> gs_ownerScopeId ref \<or> \<not> isSafeSkillName (sk_name s)"
        | (taken) "\<not> (sk_status s \<noteq> published \<or> sk_scopeId s \<noteq> gs_ownerScopeId ref \<or> \<not> isSafeSkillName (sk_name s))"
            "list_ex (\<lambda>r. rw_name r = sk_name s) visible"
        | (new) "\<not> (sk_status s \<noteq> published \<or> sk_scopeId s \<noteq> gs_ownerScopeId ref \<or> \<not> isSafeSkillName (sk_name s))"
            "\<not> list_ex (\<lambda>r. rw_name r = sk_name s) visible" by blast
      then show ?thesis
      proof cases
        case bad
        then show ?thesis using 2 False Some by simp
      next
        case taken
        then show ?thesis using "2.IH"(4)[OF False Some taken] "2.prems" False Some by (simp add: comp_def)
      next
        case new
        let ?vis = "visible @ [\<lparr>rw_skill = s, rw_shadowed = []\<rparr>]"
        have d: "distinct (map rw_name ?vis)" using new(2) "2.prems"(2) by (auto simp: list_ex_iff)
        obtain more where m: "map rw_skill (add_granted all rest (gs_id ref # seen) ?vis) = map rw_skill ?vis @ more"
          "\<forall>s \<in> set more. granted_skill all granted s" "distinct (map sk_name (map rw_skill ?vis @ more))"
          using "2.IH"(5)[OF False Some new] d "2.prems" by auto
        have "granted_skill all granted s" using new(1) skill_by_idD[OF Some] "2.prems"(1) by (auto simp: granted_skill_def)
        with m new False Some show ?thesis by (intro exI[of _ "s # more"]) simp
      qed
    qed (use 2 False in simp)
  qed (use 2 in simp)
qed (auto simp: comp_def)

section \<open>The state of the store\<close>

text \<open>A skill in order has a safe name and the signature of its manifest, and is published only with every capability granted.\<close>

definition signed_skill :: "(string \<Rightarrow> string) \<Rightarrow> Skill \<Rightarrow> bool" where
  "signed_skill sg s = (isSafeSkillName (sk_name s) \<and> verify_skill sg s)"

definition good_skill :: "(string \<Rightarrow> string) \<Rightarrow> Skill \<Rightarrow> bool" where
  "good_skill sg s = (signed_skill sg s \<and> (sk_status s = published \<longrightarrow> missing_capabilities s = []))"

text \<open>\<open>X\<close> holds the skills that may be published without their capabilities, for the middle of an installation.\<close>

definition skills_ok_but :: "string set \<Rightarrow> (string \<Rightarrow> string) \<Rightarrow> skill_store \<Rightarrow> bool" where
  "skills_ok_but X sg m = (distinct (keys m) \<and> (\<forall>i s. dm_get m i = Some s \<longrightarrow>
     sk_id s = i \<and> signed_skill sg s \<and> (i \<notin> X \<longrightarrow> good_skill sg s)))"

abbreviation skills_ok :: "(string \<Rightarrow> string) \<Rightarrow> skill_store \<Rightarrow> bool" where
  "skills_ok \<equiv> skills_ok_but {}"

lemma skills_okD:
  "skills_ok_but X sg m \<Longrightarrow> dm_get m i = Some s \<Longrightarrow> sk_id s = i \<and> signed_skill sg s \<and> (i \<notin> X \<longrightarrow> good_skill sg s)"
  by (simp add: skills_ok_but_def)

lemma skills_ok_put:
  "skills_ok_but X sg m \<Longrightarrow> sk_id s = i \<Longrightarrow> signed_skill sg s \<Longrightarrow> (i \<notin> Y \<longrightarrow> good_skill sg s) \<Longrightarrow> X \<subseteq> insert i Y \<Longrightarrow>
     skills_ok_but Y sg (dm_put m i s)"
  by (auto simp: skills_ok_but_def dm.get_put) (auto simp: dm_put_def)

lemma skills_ok_with:
  assumes "skills_ok_but X sg m" "X \<subseteq> Y"
    and "\<And>s s'. dm_get m i = Some s \<Longrightarrow> sk_id s = i \<Longrightarrow> signed_skill sg s \<Longrightarrow> (i \<notin> X \<longrightarrow> good_skill sg s) \<Longrightarrow> f s = Inr s' \<Longrightarrow>
      sk_id s' = i \<and> signed_skill sg s' \<and> (i \<notin> Y \<longrightarrow> good_skill sg s')"
  shows "skills_ok_but Y sg (fst (with_skill i m f))"
proof (cases "dm_get m i")
  case (Some s)
  show ?thesis
  proof (cases "f s")
    case (Inl e)
    with Some assms(1,2) show ?thesis by (auto simp: with_skill_def skills_ok_but_def)
  next
    case (Inr s')
    with assms(3)[OF Some _ _ _ Inr] skills_okD[OF assms(1) Some] have s': "sk_id s' = i" "signed_skill sg s'" "i \<notin> Y \<longrightarrow> good_skill sg s'" by auto
    with Some Inr skills_ok_put[OF assms(1) s'] assms(2) show ?thesis by (auto simp: with_skill_def)
  qed
qed (use assms in \<open>auto simp: with_skill_def skills_ok_but_def\<close>)

lemma all_skills_get: "skills_ok_but X sg m \<Longrightarrow> s \<in> set (dm_all m) \<longleftrightarrow> dm_get m (sk_id s) = Some s"
proof -
  assume ok: "skills_ok_but X sg m"
  then have d: "distinct (keys m)" by (simp add: skills_ok_but_def)
  have "s \<in> set (dm_all m) \<longleftrightarrow> s \<in> set (vals m)" by (simp add: dm_all_def dm_entries_def)
  also have "\<dots> \<longleftrightarrow> (\<exists>k. dm_get m k = Some s)" using vals_iff_map_of[OF d] by (simp add: dm_get_def)
  also have "\<dots> \<longleftrightarrow> dm_get m (sk_id s) = Some s" using ok by (auto simp: skills_ok_but_def)
  finally show ?thesis .
qed

lemmas skill_parts = signed_skill_def good_skill_def verify_skill_def missing_capabilities_def

lemma create_ok: "skills_ok sg m \<Longrightarrow> skills_ok sg (fst (create_skill sg input uuid now m))"
  by (auto simp: create_skill_def assertSafeSkillName_def Let_def skill_parts intro!: skills_ok_put)

lemma skills_ok_mono: "skills_ok_but X sg m \<Longrightarrow> X \<subseteq> Y \<Longrightarrow> skills_ok_but Y sg m"
  by (auto simp: skills_ok_but_def)

lemma update_signed:
  assumes "skills_ok sg m" "update_skill sg i manifest now m = (m1, r)"
  shows "(case r of Inl _ \<Rightarrow> m1 = m | Inr _ \<Rightarrow> dm_get m1 i \<noteq> None) \<and> skills_ok_but {i} sg m1"
proof (cases "isSafeSkillName (sm_name manifest)")
  case True
  let ?f = "\<lambda>s. if sm_name manifest \<noteq> sk_name s then Inl Rename_refused
        else Inr (s\<lparr>sk_manifest := manifest, sk_signature := sign_manifest sg manifest,
               sk_status := (if scopeKind (sk_scopeId s) \<noteq> ''personal'' then draft else sk_status s),
               sk_version := sk_version s + 1, sk_updatedAt := Some now\<rparr>)"
  have "skills_ok_but {i} sg (fst (with_skill i m ?f))"
    by (rule skills_ok_with[OF assms(1)]) (use True in \<open>auto simp: skill_parts split: if_splits\<close>)
  with True assms show ?thesis
    by (auto simp: update_skill_def with_skill_def dm.get_put split: option.splits if_splits dest!: skills_okD)
qed (use assms skills_ok_mono[OF assms(1), of "{i}"] in \<open>auto simp: update_skill_def\<close>)

text \<open>An update outside a personal scope makes a draft; in a personal scope the skill stays published, in order only when it
  asks for nothing new.\<close>

definition keeps_capabilities :: "string \<Rightarrow> SkillManifest \<Rightarrow> skill_store \<Rightarrow> bool" where
  "keeps_capabilities i manifest m =
     (case dm_get m i of None \<Rightarrow> True
      | Some s \<Rightarrow> scopeKind (sk_scopeId s) = ''personal'' \<longrightarrow>
          set (sm_requiredCapabilities manifest) \<subseteq> set (sm_requiredCapabilities (sk_manifest s)))"

lemma update_ok:
  assumes "skills_ok sg m" "keeps_capabilities i manifest m"
  shows "skills_ok sg (fst (update_skill sg i manifest now m))"
proof (cases "isSafeSkillName (sm_name manifest)")
  case True
  show ?thesis unfolding update_skill_def using True
    by simp (rule skills_ok_with[OF assms(1)], use assms(2) in \<open>auto simp: skill_parts filter_empty_conv keeps_capabilities_def split: if_splits\<close>)
qed (use assms in \<open>simp add: update_skill_def\<close>)

lemma review_ok: "skills_ok sg m \<Longrightarrow> skills_ok sg (fst (review_skill sg i reviewer caps now m))"
  unfolding review_skill_def by (rule skills_ok_with) (auto simp: skill_parts split: if_splits)

lemma publish_ok: "skills_ok sg m \<Longrightarrow> skills_ok sg (fst (publish_skill i now m))"
  unfolding publish_skill_def by (rule skills_ok_with) (auto simp: skill_parts split: if_splits)

lemma move_ok: "skills_ok sg m \<Longrightarrow> skills_ok sg (fst (move_skill i sc now m))"
  unfolding move_skill_def by (rule skills_ok_with) (auto simp: skill_parts split: if_splits)

lemma archive_ok: "skills_ok sg m \<Longrightarrow> skills_ok sg (fst (archive_skill i now m))"
proof (cases "dm_get m i")
  case (Some s)
  assume ok: "skills_ok sg m"
  from skills_okD[OF ok Some] ok show ?thesis by (auto simp: archive_skill_def Some Let_def skill_parts intro!: skills_ok_put)
qed (simp add: archive_skill_def)

lemma delete_ok: "skills_ok sg m \<Longrightarrow> skills_ok sg (delete_skill i m)"
  by (auto simp: skills_ok_but_def delete_skill_def dm.get_del) (auto simp: dm_delete_def)

lemma use_ok: "skills_ok sg m \<Longrightarrow> skills_ok sg (recordUse i at now m)"
proof (cases "dm_get m i")
  case (Some s)
  assume ok: "skills_ok sg m"
  have "recordUse i at now m = dm_put m i (s\<lparr>sk_lastUsedAt := Some (nullish at now)\<rparr>)"
    using Some by (simp add: recordUse_def dm_merge_def dm_get_def dm_put_def)
  with skills_okD[OF ok Some] ok show ?thesis by (auto simp: skill_parts intro!: skills_ok_put)
qed (simp add: recordUse_def dm_merge_def dm_get_def)

lemma review_clears:
  assumes "skills_ok_but {i} sg m" "dm_get m i = Some s"
  obtains m1 s1 where "review_skill sg i reviewer caps now m = (m1, Inr s1)" "skills_ok sg m1"
proof -
  from skills_okD[OF assms] have "sk_id s = i" "signed_skill sg s" by auto
  with assms show ?thesis
    by (intro that) (auto simp: review_skill_def with_skill_def skill_parts intro!: skills_ok_put)
qed

lemma review_and_publish_ok:
  assumes "skills_ok_but {i} sg m" "dm_get m i \<noteq> None"
  shows "skills_ok sg (fst (review_and_publish sg i reviewer caps now out m))"
proof -
  obtain s where "dm_get m i = Some s" using assms(2) by blast
  then obtain m1 s1 where "review_skill sg i reviewer caps now m = (m1, Inr s1)" "skills_ok sg m1" using review_clears[OF assms(1)] by metis
  moreover from this(2) have "skills_ok sg (fst (publish_skill i now m1))" by (rule publish_ok)
  ultimately show ?thesis by (auto simp: review_and_publish_def split: prod.splits sum.splits)
qed

lemma upsert_ok:
  assumes "skills_ok sg m"
  shows "skills_ok sg (fst (upsertSeedSkill sg input reviewer uuid now m))"
proof (cases "find (own_skill input) (dm_all m)")
  case None
  obtain m1 r where c: "create_skill sg input uuid now m = (m1, r)" by fastforce
  then have ok: "skills_ok sg m1" using create_ok[OF assms] by (metis fst_conv)
  show ?thesis
  proof (cases r)
    case (Inr s)
    with c have "dm_get m1 (sk_id s) \<noteq> None" by (auto simp: create_skill_def Let_def dm.get_put split: sum.splits)
    from review_and_publish_ok[OF skills_ok_mono[OF ok] this] None c Inr assms show ?thesis by (simp add: upsertSeedSkill_def Let_def)
  qed (use None c ok assms in \<open>simp add: upsertSeedSkill_def Let_def\<close>)
next
  case (Some s)
  then have get: "dm_get m (sk_id s) = Some s" using all_skills_get[OF assms] find_SomeD by metis
  obtain m1 r where u: "update_skill sg (sk_id s) (ns_manifest input) now m = (m1, r)" by fastforce
  have "skills_ok sg (fst (case r of Inl e \<Rightarrow> (m1, Inl e)
      | Inr _ \<Rightarrow> review_and_publish sg (sk_id s) reviewer (sm_requiredCapabilities (ns_manifest input)) now updated m1))"
    using update_signed[OF assms u] assms by (cases r) (auto intro: review_and_publish_ok)
  moreover have "skills_ok sg (fst (review_and_publish sg (sk_id s) reviewer (sm_requiredCapabilities (ns_manifest input)) now updated m))"
    using get skills_ok_mono[OF assms, of "{sk_id s}"] by (auto intro: review_and_publish_ok)
  ultimately show ?thesis using Some u assms by (auto simp: upsertSeedSkill_def Let_def split: sum.splits)
qed

section \<open>Histories\<close>

text \<open>What is done to the store. Every operation reads a skill and writes a whole record later, while others write too: the record
  is computed from some earlier state of the store and put into the present one. A history is the list of the states, the
  latest first. A skill in a personal scope is updated without asking for more capabilities than it has, since such an update
  leaves it published; a skill is restored as it was in an earlier state. An installation is a sequence of these steps.\<close>

definition written :: "(skill_store \<Rightarrow> skill_result) \<Rightarrow> skill_store \<Rightarrow> Skill \<Rightarrow> bool" where
  "written f m0 s \<longleftrightarrow> (\<exists>m1. f m0 = (m1, Inr s))"

inductive skill_step :: "(string \<Rightarrow> string) \<Rightarrow> skill_store list \<Rightarrow> skill_store list \<Rightarrow> bool" for sg where
  create_step: "m0 \<in> set h \<Longrightarrow> written (create_skill sg input uuid now) m0 s \<Longrightarrow> skill_step sg h (dm_put (hd h) (sk_id s) s # h)"
| update_step: "m0 \<in> set h \<Longrightarrow> keeps_capabilities i manifest m0 \<Longrightarrow> written (update_skill sg i manifest now) m0 s \<Longrightarrow>
    skill_step sg h (dm_put (hd h) (sk_id s) s # h)"
| review_step: "m0 \<in> set h \<Longrightarrow> written (review_skill sg i reviewer caps now) m0 s \<Longrightarrow> skill_step sg h (dm_put (hd h) (sk_id s) s # h)"
| publish_step: "m0 \<in> set h \<Longrightarrow> written (publish_skill i now) m0 s \<Longrightarrow> skill_step sg h (dm_put (hd h) (sk_id s) s # h)"
| archive_step: "m0 \<in> set h \<Longrightarrow> map_option sk_status (dm_get m0 i) \<noteq> Some archived \<Longrightarrow> written (archive_skill i now) m0 s \<Longrightarrow>
    skill_step sg h (dm_put (hd h) (sk_id s) s # h)"
| move_step: "m0 \<in> set h \<Longrightarrow> written (move_skill i sc now) m0 s \<Longrightarrow> skill_step sg h (dm_put (hd h) (sk_id s) s # h)"
| promote_step: "m0 \<in> set h \<Longrightarrow> m1 \<in> set h \<Longrightarrow> promotable sg i m0 = Inr s \<Longrightarrow>
    p = promoted_skill sg s (find (\<lambda>x. sk_status x = published \<and> sk_scopeId x = sc \<and> sk_name x = sk_name s) (dm_all m1)) sc uuid now \<Longrightarrow>
    skill_step sg h (dm_put (hd h) (sk_id p) p # h)"
| restore_step: "m0 \<in> set h \<Longrightarrow> dm_get m0 i = Some s \<Longrightarrow> skill_step sg h (fst (restore_skill s (hd h)) # h)"
| delete_step: "skill_step sg h (delete_skill i (hd h) # h)"
| use_step: "skill_step sg h (recordUse i at now (hd h) # h)"

definition skill_history_ok :: "(string \<Rightarrow> string) \<Rightarrow> skill_store list \<Rightarrow> bool" where
  "skill_history_ok sg h \<longleftrightarrow> h \<noteq> [] \<and> (\<forall>m \<in> set h. skills_ok sg m)"

lemma history_now: "skill_history_ok sg h \<Longrightarrow> skills_ok sg (hd h)"
  by (simp add: skill_history_ok_def)

lemma written_good:
  assumes "\<And>m. skills_ok sg m \<Longrightarrow> skills_ok sg (fst (f m))" "\<And>m1. f m0 = (m1, Inr s) \<Longrightarrow> dm_get m1 (sk_id s) = Some s"
    and "skill_history_ok sg h" "m0 \<in> set h" "written f m0 s"
  shows "good_skill sg s"
proof -
  obtain m1 where w: "f m0 = (m1, Inr s)" using assms(5) by (auto simp: written_def)
  have "skills_ok sg m1" using assms(1)[of m0] assms(3,4) w by (auto simp: skill_history_ok_def)
  from skills_okD[OF this assms(2)[OF w]] show ?thesis by simp
qed

lemma history_put: "skill_history_ok sg h \<Longrightarrow> good_skill sg s \<Longrightarrow> skill_history_ok sg (dm_put (hd h) (sk_id s) s # h)"
  using history_now[of sg h] by (auto simp: skill_history_ok_def good_skill_def intro!: skills_ok_put)

lemma history_add: "skill_history_ok sg h \<Longrightarrow> skills_ok sg m \<Longrightarrow> skill_history_ok sg (m # h)"
  by (simp add: skill_history_ok_def)

lemma with_skill_writes: "with_skill i m f = (m1, Inr s) \<Longrightarrow> dm_get m1 (sk_id s) = Some s"
  by (auto simp: with_skill_def dm.get_put split: option.splits sum.splits)

lemmas write_defs = update_skill_def review_skill_def publish_skill_def move_skill_def

lemma op_writes:
  "create_skill sg input uuid now m = (m1, Inr s) \<Longrightarrow> dm_get m1 (sk_id s) = Some s"
  "review_skill sg i reviewer caps now m = (m1, Inr s) \<Longrightarrow> dm_get m1 (sk_id s) = Some s"
  "publish_skill i now m = (m1, Inr s) \<Longrightarrow> dm_get m1 (sk_id s) = Some s"
  "move_skill i sc now m = (m1, Inr s) \<Longrightarrow> dm_get m1 (sk_id s) = Some s"
  "archive_skill i now m = (m1, Inr s) \<Longrightarrow> map_option sk_status (dm_get m i) \<noteq> Some archived \<Longrightarrow> dm_get m1 (sk_id s) = Some s"
  by (auto simp: write_defs create_skill_def archive_skill_def Let_def dm.get_put dest: with_skill_writes split: if_splits option.splits sum.splits)

lemma update_good:
  assumes "skill_history_ok sg h" "m0 \<in> set h" "keeps_capabilities i manifest m0" "written (update_skill sg i manifest now) m0 s"
  shows "good_skill sg s"
proof -
  obtain m1 where w: "update_skill sg i manifest now m0 = (m1, Inr s)" using assms(4) by (auto simp: written_def)
  have "skills_ok sg m1" using update_ok[of sg m0 i manifest now] assms(1-3) w by (auto simp: skill_history_ok_def)
  moreover have "dm_get m1 (sk_id s) = Some s" using w by (auto simp: update_skill_def dest: with_skill_writes split: if_splits)
  ultimately show ?thesis using skills_okD by blast
qed

lemma promoted_good:
  assumes "skill_history_ok sg h" "m0 \<in> set h" "promotable sg i m0 = Inr s"
  shows "good_skill sg (promoted_skill sg s existing sc uuid now)"
proof -
  have "dm_get m0 i = Some s" "sk_status s = published" using assms(3) by (auto simp: promotable_def split: option.splits if_splits)
  with skills_okD[of "{}" sg m0 i s] assms(1,2) show ?thesis by (auto simp: skill_history_ok_def promoted_skill_def skill_parts)
qed

lemma restore_ok: "skills_ok sg m \<Longrightarrow> good_skill sg s \<Longrightarrow> skills_ok sg (fst (restore_skill s m))"
  by (auto simp: restore_skill_def good_skill_def intro!: skills_ok_put)

lemma skill_step_ok:
  assumes "skill_history_ok sg h" "skill_step sg h h'"
  shows "skill_history_ok sg h'"
  using assms(2)
proof cases
  case (create_step m0 input uuid now s)
  from written_good[OF create_ok op_writes(1) assms(1) create_step(2,3)] show ?thesis unfolding create_step(1) by (rule history_put[OF assms(1)])
next
  case (update_step m0 i manifest now s)
  from update_good[OF assms(1) update_step(2-4)] show ?thesis unfolding update_step(1) by (rule history_put[OF assms(1)])
next
  case (review_step m0 i reviewer caps now s)
  from written_good[OF review_ok op_writes(2) assms(1) review_step(2,3)] show ?thesis unfolding review_step(1) by (rule history_put[OF assms(1)])
next
  case (publish_step m0 i now s)
  from written_good[OF publish_ok op_writes(3) assms(1) publish_step(2,3)] show ?thesis unfolding publish_step(1) by (rule history_put[OF assms(1)])
next
  case (archive_step m0 i now s)
  from written_good[OF archive_ok op_writes(5)[OF _ archive_step(3)] assms(1) archive_step(2,4)] show ?thesis unfolding archive_step(1) by (rule history_put[OF assms(1)])
next
  case (move_step m0 i sc now s)
  from written_good[OF move_ok op_writes(4) assms(1) move_step(2,3)] show ?thesis unfolding move_step(1) by (rule history_put[OF assms(1)])
next
  case (promote_step m0 m1 i s p sc uuid now)
  from promoted_good[OF assms(1) promote_step(2,4)] show ?thesis unfolding promote_step(1,5) by (rule history_put[OF assms(1)])
next
  case (restore_step m0 i s)
  have "good_skill sg s" using skills_okD[of "{}" sg m0 i s] assms(1) restore_step(2,3) by (auto simp: skill_history_ok_def)
  from restore_ok[OF history_now[OF assms(1)] this] show ?thesis unfolding restore_step(1) by (rule history_add[OF assms(1)])
qed (use delete_ok use_ok history_now[OF assms(1)] in \<open>auto intro: history_add[OF assms(1)]\<close>)

definition empty_history :: "skill_store list" where
  "empty_history = [[]]"

lemma no_skills_ok: "skill_history_ok sg empty_history"
  by (simp add: skill_history_ok_def empty_history_def skills_ok_but_def dm_get_def)

interpretation skill_history: invariant_system "\<lambda>h. h = empty_history" "skill_step sg" "skill_history_ok sg" for sg
  by unfold_locales (auto intro: skill_step_ok no_skills_ok)

text \<open>The present store of a history.\<close>

definition skills_reach :: "(string \<Rightarrow> string) \<Rightarrow> skill_store \<Rightarrow> bool" where
  "skills_reach sg m \<longleftrightarrow> (\<exists>h. (skill_step sg)\<^sup>*\<^sup>* empty_history h \<and> m = hd h)"

lemma skills_reach_ok: "skills_reach sg m \<Longrightarrow> skills_ok sg m"
  using skill_history.reachable_inv[OF refl] history_now by (auto simp: skills_reach_def)

lemma visible_rows:
  assumes "skills_ok sg m"
  shows "rw_skill ` set (in_scope_rows (dm_all m) scopes) \<subseteq> rw_skill ` set (visibleFor scopes granted m)"
    and "r \<in> set (visibleFor scopes granted m) \<Longrightarrow>
      rw_skill r \<in> rw_skill ` set (in_scope_rows (dm_all m) scopes) \<or> granted_skill (dm_all m) granted (rw_skill r)"
    and "distinct (map rw_name (visibleFor scopes granted m))"
proof -
  have safe: "isSafeSkillName (sk_name s)" if "s \<in> set (dm_all m)" for s
    using that all_skills_get[OF assms] skills_okD[OF assms] by (auto simp: skill_parts)
  have d: "distinct (map rw_name (in_scope_rows (dm_all m) scopes))"
  proof -
    have "map rw_name (in_scope_rows (dm_all m) scopes) = visible_names (dm_all m) scopes"
      unfolding in_scope_rows_def map_map comp_def
      by (rule map_idI) (use visible_names_nearest in \<open>fastforce dest: nearest_mem[OF hd_in_set]\<close>)
    then show ?thesis by (simp add: visible_names_def)
  qed
  have v: "visibleFor scopes granted m = add_granted (dm_all m) granted [] (in_scope_rows (dm_all m) scopes)"
    using in_scope_rows_eq[of "dm_all m"] safe by (simp add: visibleFor_def visibleSkillRows_def Let_def)
  obtain more where m: "map rw_skill (visibleFor scopes granted m) = map rw_skill (in_scope_rows (dm_all m) scopes) @ more"
    "\<forall>s \<in> set more. granted_skill (dm_all m) granted s" "distinct (map sk_name (map rw_skill (in_scope_rows (dm_all m) scopes) @ more))"
    using add_granted_rows[of granted granted "in_scope_rows (dm_all m) scopes" "dm_all m" "[]"] d unfolding v by auto
  from m(1) have s: "rw_skill ` set (visibleFor scopes granted m) = rw_skill ` set (in_scope_rows (dm_all m) scopes) \<union> set more"
    by (metis list.set_map set_append)
  show "rw_skill ` set (in_scope_rows (dm_all m) scopes) \<subseteq> rw_skill ` set (visibleFor scopes granted m)" using s by blast
  show "rw_skill r \<in> rw_skill ` set (in_scope_rows (dm_all m) scopes) \<or> granted_skill (dm_all m) granted (rw_skill r)"
    if "r \<in> set (visibleFor scopes granted m)" using that s m(2) by blast
  have "map rw_name (visibleFor scopes granted m) = map sk_name (map rw_skill (visibleFor scopes granted m))" by simp
  then show "distinct (map rw_name (visibleFor scopes granted m))" using m(1,3) by simp
qed

section \<open>Examples\<close>

definition some_manifest :: SkillManifest where
  "some_manifest = \<lparr>sm_name = ''notes'', sm_description = ''d'', sm_requiredCapabilities = [''net''], sm_body = ''b'', sm_files = None\<rparr>"

definition some_new_skill :: "ScopeId \<Rightarrow> new_skill" where
  "some_new_skill sc = \<lparr>ns_scopeId = sc, ns_manifest = some_manifest, ns_createdBy = ''ann'', ns_pack = None\<rparr>"

definition some_skills :: skill_store where
  "some_skills = fst (upsertSeedSkill id (some_new_skill ''team:t'') ''rev'' ''i1'' 5 [])"

text \<open>The installation is a creation, a review and a publication.\<close>

definition created_skills :: skill_store where
  "created_skills = fst (create_skill id (some_new_skill ''team:t'') ''i1'' 5 [])"

definition reviewed_skills :: skill_store where
  "reviewed_skills = fst (review_skill id ''i1'' ''rev'' [''net''] 5 created_skills)"

lemma some_skills_reached: "skills_reach id some_skills"
proof -
  obtain s1 where s1: "create_skill id (some_new_skill ''team:t'') ''i1'' 5 [] = (created_skills, Inr s1)" "dm_put [] (sk_id s1) s1 = created_skills"
    by (simp add: created_skills_def create_skill_def assertSafeSkillName_def some_new_skill_def some_manifest_def ascii_alnum_def Let_def)
  have "snd (review_skill id ''i1'' ''rev'' [''net''] 5 created_skills) = Inr (snd (hd reviewed_skills))" 
    "dm_put created_skills (sk_id (snd (hd reviewed_skills))) (snd (hd reviewed_skills)) = reviewed_skills" "reviewed_skills \<noteq> created_skills" by code_simp+
  note s2 = this
  have "snd (publish_skill ''i1'' 5 reviewed_skills) = Inr (snd (hd some_skills))" "fst (publish_skill ''i1'' 5 reviewed_skills) = some_skills"
    "dm_put reviewed_skills (sk_id (snd (hd some_skills))) (snd (hd some_skills)) = some_skills" "some_skills \<noteq> reviewed_skills" "created_skills \<noteq> []" by code_simp+
  note s3 = this
  have "skill_step id empty_history (created_skills # empty_history)"
    using create_step[of "[]" empty_history id "some_new_skill ''team:t''" "''i1''" 5 s1] s1 s3(5) by (auto simp: empty_history_def written_def)
  moreover have "skill_step id (created_skills # empty_history) (reviewed_skills # created_skills # empty_history)"
    using review_step[of created_skills "created_skills # empty_history" id "''i1''" "''rev''" "[''net'']" 5 "snd (hd reviewed_skills)"] s2
    by (auto simp: written_def reviewed_skills_def prod_eq_iff)
  moreover have "skill_step id (reviewed_skills # created_skills # empty_history) (some_skills # reviewed_skills # created_skills # empty_history)"
    using publish_step[of reviewed_skills "reviewed_skills # created_skills # empty_history" "''i1''" 5 "snd (hd some_skills)" id] s3
    by (auto simp: written_def prod_eq_iff)
  ultimately show ?thesis unfolding skills_reach_def
    by (intro exI[of _ "some_skills # reviewed_skills # created_skills # empty_history"]) auto
qed

definition some_row :: skill_row where
  "some_row = hd (visibleFor [''personal:x'', ''team:t''] [] some_skills)"




text \<open>A name stands for one skill: the rows a reader sees have distinct names, and where some scope of the reader has a published
  skill of that name, the row shows the one that resolving the name gives, whatever else was granted.\<close>

theorem nearest_skill_wins:
  assumes "skills_reach sg m" and "rs_skill (resolve_skill name scopes m) = Some s"
  shows "distinct (map rw_name (visibleFor scopes granted m)) \<and>
    (\<exists>r \<in> set (visibleFor scopes granted m). rw_skill r = s \<and> rw_name r = name)"
proof -
  have ok: "skills_ok sg m" using skills_reach_ok[OF assms(1)] .
  have safe: "isSafeSkillName (sk_name s)" if "s \<in> set (dm_all m)" for s
    using that all_skills_get[OF ok] skills_okD[OF ok] by (auto simp: skill_parts)
  from assms(2) obtain ss where n: "nearest (dm_all m) scopes name = s # ss"
    by (auto simp: resolve_skill_def resolve_nearest[OF safe] split: list.splits)
  then have s: "s \<in> set (dm_all m)" "sk_status s = published" "sk_scopeId s \<in> set scopes" "sk_name s = name"
    using nearest_mem[of s "dm_all m" scopes name] by auto
  then have "name \<in> set (visible_names (dm_all m) scopes)" using safe by (auto simp: visible_names_def)
  with n have "s \<in> rw_skill ` set (in_scope_rows (dm_all m) scopes)" by (force simp: in_scope_rows_def)
  with visible_rows(1)[OF ok, of scopes granted] have "s \<in> rw_skill ` set (visibleFor scopes granted m)" by blast
  with s(4) visible_rows(3)[OF ok] show ?thesis by auto
qed

theorem nearest_skill_wins_witness:
  "\<exists>r \<in> set (visibleFor [''personal:x'', ''team:t''] [] some_skills). rw_skill r = rw_skill some_row"
proof -
  have "rs_skill (resolve_skill ''notes'' [''personal:x'', ''team:t''] some_skills) = Some (rw_skill some_row)" by code_simp
  from nearest_skill_wins[OF some_skills_reached this, of "[]"] show ?thesis by blast
qed

section \<open>Installing twice\<close>

lemma sort_key_map: "(\<And>x. f (g x) = f x) \<Longrightarrow> sort_key f (map g xs) = map g (sort_key f xs)"
proof (induction xs)
  case (Cons a xs)
  have "insort_key f (g a) (map g ys) = map g (insort_key f a ys)" for ys by (induction ys) (auto simp: Cons.prems)
  with Cons show ?case by simp
qed simp

lemma update_present: "map_of m i = Some s \<Longrightarrow> distinct (keys m) \<Longrightarrow>
    AList.update i s' m = map (\<lambda>p. (fst p, if fst p = i then s' else snd p)) m"
proof (induction m)
  case (Cons p m)
  have "map (\<lambda>p. (fst p, if fst p = i then s' else snd p)) m = m" if "i \<notin> fst ` set m"
    using that by (intro map_idI) force
  with Cons show ?case by (cases p) (auto split: if_splits)
qed simp

lemma dm_all_put:
  assumes "skills_ok_but X sg m" "dm_get m i = Some s"
  shows "dm_all (dm_put m i s') = map (\<lambda>x. if sk_id x = i then s' else x) (dm_all m)"
proof -
  have d: "distinct (keys m)" and ids: "\<And>k x. map_of m k = Some x \<Longrightarrow> sk_id x = k"
    using assms(1) by (auto simp: skills_ok_but_def dm_get_def)
  have e: "sk_id (snd p) = fst p" if "p \<in> set m" for p using ids[of "fst p" "snd p"] that d by (simp add: map_of_eq_Some_iff)
  have "dm_entries (dm_put m i s') = map (\<lambda>p. (fst p, if fst p = i then s' else snd p)) (dm_entries m)"
    using assms(2) d by (simp add: dm_entries_def dm_put_def dm_get_def update_present sort_key_map)
  then show ?thesis using e by (auto simp: dm_all_def dm_entries_def)
qed

lemma find_map: "find P (map g xs) = map_option g (find (P \<circ> g) xs)"
  by (induction xs) auto

lemma find_put:
  assumes "skills_ok_but X sg m" "dm_get m i = Some s" "P s' = P s"
  shows "find P (dm_all (dm_put m i s')) = map_option (\<lambda>x. if sk_id x = i then s' else x) (find P (dm_all m))"
proof -
  have "x = s" if "x \<in> set (dm_all m)" "sk_id x = i" for x using that assms(2) all_skills_get[OF assms(1)] by auto
  then have "find (P \<circ> (\<lambda>x. if sk_id x = i then s' else x)) (dm_all m) = find P (dm_all m)"
    by (intro find_cong) (auto simp: assms(3))
  then show ?thesis by (simp add: dm_all_put[OF assms(1,2)] find_map)
qed

lemma put_put [simp]: "dm_put (dm_put m i a) i b = dm_put m i b"
  unfolding dm_put_def by (induction m) auto

lemma with_skill_Inr:
  "with_skill i m f = (m', Inr s') \<Longrightarrow> \<exists>s. dm_get m i = Some s \<and> f s = Inr s' \<and> m' = dm_put m (sk_id s') s'"
  by (auto simp: with_skill_def split: option.splits sum.splits)

text \<open>The skill an installation leaves is the one it began with in scope, name and author, and is published.\<close>

definition same_place :: "Skill \<Rightarrow> Skill \<Rightarrow> bool" where
  "same_place s s' = (sk_id s' = sk_id s \<and> sk_scopeId s' = sk_scopeId s \<and> sk_createdBy s' = sk_createdBy s \<and> sk_name s' = sk_name s)"

lemma review_and_publish_Inr:
  assumes "review_and_publish sg i reviewer caps now out m = (m', Inr x)" "dm_get m i = Some s" "sk_id s = i"
  obtains s' where "m' = dm_put m i s'" "same_place s s'" "sk_manifest s' = sk_manifest s" "sk_status s' = published" "x = out"
proof -
  from assms(1) obtain m1 s1 s2 where r: "review_skill sg i reviewer caps now m = (m1, Inr s1)"
    and p: "publish_skill i now m1 = (m', Inr s2)" and x: "x = out"
    by (auto simp: review_and_publish_def split: prod.splits sum.splits)
  from r assms(2,3) have s1: "m1 = dm_put m i s1" "same_place s s1" "sk_manifest s1 = sk_manifest s"
    by (auto simp: review_skill_def same_place_def dest!: with_skill_Inr split: if_splits)
  then have "dm_get m1 i = Some s1" "sk_id s1 = i" using assms(3) by (auto simp: dm.get_put same_place_def)
  with p have "m' = dm_put m1 i s2" "same_place s1 s2" "sk_manifest s2 = sk_manifest s1" "sk_status s2 = published"
    by (auto simp: publish_skill_def same_place_def dest!: with_skill_Inr split: if_splits)
  with s1 x show ?thesis by (intro that) (auto simp: same_place_def)
qed

lemma same_manifest_refl [simp]: "sameManifest m m"
  by (simp add: sameManifest_def)

lemma skipped_if:
  "find (own_skill input) (dm_all m) = Some s \<Longrightarrow> sameManifest (sk_manifest s) (ns_manifest input) \<Longrightarrow> sk_status s = published \<Longrightarrow>
     upsertSeedSkill sg input reviewer uuid now m = (m, Inr skipped)"
  by (simp add: upsertSeedSkill_def Let_def)

lemma own_same_place: "same_place s s' \<Longrightarrow> own_skill input s' = own_skill input s"
  by (auto simp: same_place_def own_skill_def)

lemma install_new:
  assumes "skills_ok sg m" "find (own_skill input) (dm_all m) = None" "upsertSeedSkill sg input reviewer uuid now m = (m1, Inr out)" "out \<noteq> foreign"
  obtains s where "find (own_skill input) (dm_all m1) = Some s" "sameManifest (sk_manifest s) (ns_manifest input)" "sk_status s = published"
proof -
  from assms(2-4) obtain m0 s0 where c: "create_skill sg input uuid now m = (m0, Inr s0)"
    and r: "review_and_publish sg (sk_id s0) reviewer (sm_requiredCapabilities (ns_manifest input)) now installed m0 = (m1, Inr out)"
    by (auto simp: upsertSeedSkill_def Let_def split: if_splits prod.splits sum.splits)
  from c have s0: "m0 = dm_put m (sk_id s0) s0" "own_skill input s0" "sk_manifest s0 = ns_manifest input"
    by (auto simp: create_skill_def own_skill_def Let_def split: sum.splits)
  from review_and_publish_Inr[OF r _ refl] s0(1) obtain s where s: "m1 = dm_put m0 (sk_id s0) s" "same_place s0 s" "sk_manifest s = sk_manifest s0"
    "sk_status s = published" by (auto simp: dm.get_put)
  have ok: "skills_ok sg m1" using upsert_ok[OF assms(1), of input reviewer uuid now] assms(3) by simp
  have get: "dm_get m1 x = (if x = sk_id s then Some s else dm_get m x)" for x using s s0(1) by (simp add: same_place_def dm.get_put)
  have "s \<in> set (dm_all m1)" using all_skills_get[OF ok, of s] get by simp
  moreover have own: "own_skill input s" using own_same_place[OF s(2)] s0(2) by simp
  ultimately obtain x where x: "find (own_skill input) (dm_all m1) = Some x" by (cases "find (own_skill input) (dm_all m1)") (auto dest: find_NoneD)
  have "x = s"
  proof (rule ccontr)
    assume "x \<noteq> s"
    moreover have "dm_get m1 (sk_id x) = Some x" "own_skill input x" using find_SomeD[OF x] all_skills_get[OF ok] by auto
    ultimately have "dm_get m (sk_id x) = Some x" "own_skill input x" using get[of "sk_id x"] by (auto split: if_splits)
    then show False using find_NoneD[OF assms(2), of x] all_skills_get[OF assms(1), of x] by simp
  qed
  with x s s0 show ?thesis by (intro that) auto
qed

lemma install_again:
  assumes "skills_ok sg m" "find (own_skill input) (dm_all m) = Some s" "upsertSeedSkill sg input reviewer uuid now m = (m1, Inr out)"
  obtains s' where "find (own_skill input) (dm_all m1) = Some s'" "sameManifest (sk_manifest s') (ns_manifest input)" "sk_status s' = published"
proof -
  let ?i = "sk_id s" and ?M = "ns_manifest input"
  have get: "dm_get m ?i = Some s" and own: "own_skill input s" using assms(2) all_skills_get[OF assms(1)] by (auto dest: find_SomeD)
  have put: "find (own_skill input) (dm_all (dm_put m ?i s')) = Some s'" if "same_place s s'" for s'
    using find_put[OF assms(1) get, of "own_skill input" s'] own_same_place[OF that] assms(2) by simp
  show ?thesis
  proof (cases "sameManifest (sk_manifest s) ?M")
    case True
    show ?thesis
    proof (cases "sk_status s = published")
      case False
      with assms(2,3) True have "review_and_publish sg ?i reviewer (sm_requiredCapabilities ?M) now updated m = (m1, Inr out)"
        by (simp add: upsertSeedSkill_def Let_def)
      from review_and_publish_Inr[OF this get refl] True put that show ?thesis by metis
    qed (use assms(2,3) True that in \<open>simp add: upsertSeedSkill_def Let_def\<close>)
  next
    case False
    with assms(2,3) obtain m0 s0 where u: "update_skill sg ?i ?M now m = (m0, Inr s0)"
      and r: "review_and_publish sg ?i reviewer (sm_requiredCapabilities ?M) now updated m0 = (m1, Inr out)"
      by (auto simp: upsertSeedSkill_def Let_def split: prod.splits sum.splits)
    from u get have s0: "m0 = dm_put m ?i s0" "same_place s s0" "sk_manifest s0 = ?M"
      by (auto simp: update_skill_def same_place_def dest!: with_skill_Inr split: if_splits)
    then have "dm_get m0 ?i = Some s0" "sk_id s0 = ?i" by (auto simp: dm.get_put same_place_def)
    from review_and_publish_Inr[OF r this] s0 obtain s' where "m1 = dm_put m ?i s'" "same_place s s'" "sk_manifest s' = ?M" "sk_status s' = published"
      by (auto simp: same_place_def)
    with put that show ?thesis by simp
  qed
qed

text \<open>Installing a skill that has just been installed skips it and leaves the store as it is, whether the first
  installation wrote it, changed it, published it again or found it in place.\<close>

theorem installing_twice_skips:
  assumes "skills_reach sg m" and "upsertSeedSkill sg input reviewer uuid now m = (m1, Inr out)" and "out \<noteq> foreign"
  shows "upsertSeedSkill sg input reviewer' uuid' now' m1 = (m1, Inr skipped)"
proof -
  have ok: "skills_ok sg m" using skills_reach_ok[OF assms(1)] .
  obtain s where "find (own_skill input) (dm_all m1) = Some s" "sameManifest (sk_manifest s) (ns_manifest input)" "sk_status s = published"
  proof (cases "find (own_skill input) (dm_all m)")
    case None
    then show ?thesis using that by (rule install_new[OF ok _ assms(2,3)])
  next
    case (Some s)
    then show ?thesis using that by (rule install_again[OF ok _ assms(2)])
  qed
  then show ?thesis by (rule skipped_if)
qed

theorem installing_twice_skips_witness:
  "upsertSeedSkill id (some_new_skill ''team:t'') ''other'' ''i2'' 9 some_skills = (some_skills, Inr skipped)"
proof -
  have "upsertSeedSkill id (some_new_skill ''team:t'') ''rev'' ''i1'' 5 [] = (some_skills, Inr installed)"
    unfolding some_skills_def by code_simp
  moreover have "skills_reach id []" unfolding skills_reach_def empty_history_def by (intro exI[of _ "[[]]"]) simp
  ultimately show ?thesis using installing_twice_skips by blast
qed

section \<open>Gaps\<close>

text \<open>Archiving a draft lets it be published without a review: \<open>publish\<close> refuses only drafts.\<close>

theorem archived_draft_published:
  "map_option (\<lambda>s. (sk_status s, sk_approvals s)) (dm_get (fst (publish_skill ''i1'' 7 (fst (archive_skill ''i1'' 6
     (fst (create_skill id ((some_new_skill ''team:t'')\<lparr>ns_manifest := some_manifest\<lparr>sm_requiredCapabilities := []\<rparr>\<rparr>) ''i1'' 5 [])))))) ''i1'') =
   Some (published, [])"
  by code_simp

text \<open>A published skill of a person may be updated to ask for more and be promoted as it is: neither step checks the capabilities.\<close>

theorem updated_skill_promoted_unvetted:
  "let m = fst (upsertSeedSkill id (some_new_skill ''personal:ann'') ''rev'' ''i1'' 5 []);
       m1 = fst (update_skill id ''i1'' (some_manifest\<lparr>sm_requiredCapabilities := [''net'', ''exec'']\<rparr>) 6 m);
       m2 = fst (promote_skill id ''i1'' ''org:o'' ''i2'' 7 m1)
   in map_option (\<lambda>s. (sk_scopeId s, sk_status s, missing_capabilities s)) (dm_get m2 ''i2'') = Some (''org:o'', published, [''exec''])"
  by code_simp

end
