(* ===== verification/Spec2Isabelle.thy ===== *)
theory Spec2Isabelle
  imports Prelude Run_Lifecycle Background_Ownership Session_Queries Transcript_Window Policy_Properties
    Acl Screen_Properties Item_Properties Loop_Outputs Runner_Properties Cron_Properties Delivery_Properties
    Guard_Properties Egress_Properties Membership_Properties Reach_Properties Signal_Properties Auth_Properties Swarm_Properties
    Keychain_Properties Trigger_Properties Webhook_Properties Monitor_Properties Scheduler_Properties
    Skill_Properties
begin

text \<open>
  A verification library for the core service of the agent platform whose TypeScript sources are under \<open>src/src/\<close>.
  People and triggers address agents; every message becomes a run of a session, the run is leased by a worker, the
  worker drives an agent in a sandbox, and what the agent does is decided by policies and reported through an outbox.
  This library models the stores and the decision procedures of that service, all as executable definitions, and
  proves what the rest of the service relies on.

  \<^bold>\<open>The parts and where they are modelled.\<close>

  \<^item> \<open>Prelude\<close>: JavaScript values (maps in insertion order as association lists, \<open>??\<close>, stable sorts), the locale
    \<open>invariant_system\<close> of which every component with a step relation is an instance, and the named collections of
    facts. \<open>Json\<close>: JSON values and the string functions of the language. \<open>Durable_Map\<close>: the interface \<open>DurableMap\<close> of
    \<open>persistence/durable-map.ts\<close> as a locale, and its implementation in memory as the interpretation.
  \<^item> \<open>Run_Store\<close>, \<open>Run_Lifecycle\<close>: the queue of runs (\<open>runs/run-store.ts\<close>, \<open>runs/memory-run-store.ts\<close>), with leases,
    fencing, retries, reaping and the tool ledger. One running run per session, fencing of lost leases, finality of
    results, what a reaping pass does, when a failure requeues, and that a claim takes the oldest run there is.
  \<^item> \<open>Background_Ownership\<close>: which deployment does the background work (\<open>runs/background-ownership.ts\<close>).
  \<^item> \<open>Session_Model\<close>, \<open>Session_Store\<close>, \<open>Session_Lifecycle\<close>, \<open>Session_Properties\<close>, \<open>Session_Queries\<close>,
    \<open>Transcript_Window\<close>: sessions (\<open>sessions/session-store.ts\<close>, \<open>sessions/memory-session-store.ts\<close>,
    \<open>sessions/entry-search.ts\<close>). The transcript read from the tape refines the log, the log only grows, writing is
    fenced by leases, participants see what was said while they took part, searches stay within that, and a window is the end of what was asked for.
  \<^item> \<open>Shell_Scan\<close>, \<open>Shell_Payloads\<close>, \<open>Shell_Termination\<close>, \<open>Command_Policy\<close>, \<open>Policy_Properties\<close>: the command policy
    (\<open>policy/command-policy.ts\<close>, \<open>util/safe-regex.ts\<close>), with the shell scanner. Rules of the organisation decide first,
    what a shell behind plain wrappers executes is scanned, scanning undoes quoting, and the scan ends.
  \<^item> \<open>Scopes\<close>, \<open>Acl\<close>: scopes, references, people and grants (\<open>types.ts\<close>, \<open>acl/\<close>, \<open>directory/person.ts\<close>).
  \<^item> \<open>Security_Screen\<close>, \<open>Screen_Properties\<close>: screening of untrusted text and postures (\<open>security/security-posture.ts\<close>,
    \<open>resolution/sharing-posture.ts\<close>).
  \<^item> \<open>Item_Ledger\<close>, \<open>Item_Lifecycle\<close>, \<open>Item_Properties\<close>, \<open>Loop_Outputs\<close>, \<open>Loop_Store\<close>, \<open>Ship_Policy\<close>, \<open>Loop_Runner\<close>,
    \<open>Runner_Properties\<close>: loops (\<open>loops/\<close>): items and their claims, outputs and their shipping, the loops and the grants to
    ship without asking, the governor, and the fire that works on all of these while others do too.
  \<^item> \<open>Cron_Store\<close>, \<open>Cron_Properties\<close>: schedules, fires and crons (\<open>cron/\<close>). \<open>Delivery_Store\<close>, \<open>Delivery_Properties\<close>: the
    outbox (\<open>delivery/delivery-store.ts\<close>). \<open>Service_Guards\<close>, \<open>Guard_Properties\<close>: rate limit, budget, idempotency and
    tasks (\<open>ratelimit/\<close>, \<open>idempotency/\<close>, \<open>tasks/\<close>). Calls of the idempotency guard are split where they wait for the
    backing map, and so is the prune of that map, which may delete a record written after it read the map.
  \<^item> \<open>Directory\<close>: the identity service and the directory of people, channels and groups (\<open>identity/\<close>, \<open>directory/\<close>,
    \<open>resolution/scope-reach.ts\<close>). \<open>Project_Store\<close>: projects (\<open>projects/project-store.ts\<close>). \<open>Membership\<close>,
    \<open>Membership_Properties\<close>: who may read, write and manage a scope (\<open>resolution/scope-membership.ts\<close>,
    \<open>resolution/context-filter.ts\<close>, \<open>resolution/publish-audience.ts\<close>, part of \<open>api/app-helpers.ts\<close>): leaving a
    channel or a project takes effect. \<open>Reach\<close>, \<open>Reach_Properties\<close>: where a message may go (\<open>reach/reach.ts\<close>).
  \<^item> \<open>Egress\<close>, \<open>Egress_Properties\<close>: which hosts a sandbox may talk to (\<open>resolution/egress-policy.ts\<close>,
    \<open>resolution/audience-floor.ts\<close>, \<open>egress-authz-main.ts\<close>, \<open>util/network.ts\<close>): what is let through is in none of the
    networks that are blocked, spelled out as ranges of addresses.
  \<^item> \<open>Run_Signals\<close>, \<open>Signal_Properties\<close>: what is said to a run while it runs (\<open>runs/run-signal-store.ts\<close>): a steer is
    handed to the handler once, and a stop drains what is left.
  \<^item> \<open>Auth\<close>, \<open>Auth_Properties\<close>: signed payloads, capabilities, tokens of viewers and deployments, signed requests of
    sources and the memory that refuses replays (\<open>auth/\<close>, \<open>deploy/access-token.ts\<close>, \<open>deploy/viewer-session.ts\<close>,
    \<open>verifyOrReject\<close> of \<open>api/http.ts\<close>, the secrets check of \<open>api/server.ts\<close>). The clock is read twice for a request, as
    in the code.
  \<^item> \<open>Turn_Request\<close>, \<open>Swarm_Store\<close>, \<open>Swarm_Service\<close>, \<open>Swarm_Properties\<close>: swarms of agents (\<open>swarms/\<close>): budgets, the tree
    of members, requests and messages that take effect once, and the fence of leases.
  \<^item> \<open>Keychain\<close>, \<open>Keychain_Store\<close>, \<open>Keychain_Tokens\<close>, \<open>Keychain_Properties\<close>: credentials and who may use them
    (\<open>credentials/keychain.ts\<close>, \<open>credentials/paths.ts\<close>): saving, granting, asking and approving, using grants in a
    conversation, tokens of connectors and their refresh. A request that hands a secret out, or deletes a
    credential, is split where it waits. A secret leaves the keychain for its owner or under a grant of its owner for that
    conversation, which was valid when the request read it; a one-time grant is used once, and what was saved is read back.
  \<^item> \<open>Run_Trigger\<close>, \<open>Trigger_Properties\<close>: firing a trigger (\<open>triggers/run-trigger.ts\<close>), on top of the reach, the outbox and
    the idempotency guard: who acts, whom a fire reaches, and once per key.
  \<^item> \<open>Scheduler\<close>, \<open>Scheduler_Properties\<close>: the scheduler of crons (\<open>cron/scheduler.ts\<close>), on top of the store of crons and the
    triggers: what a fire says and how it is recorded, ticks and jobs; a slot is used up only by a fire that
    returned and was neither deferred nor refused.
  \<^item> \<open>Wake_Envelope\<close>, \<open>Envelope_Properties\<close>: the text that wakes an agent (\<open>core/wake-envelope.ts\<close>, \<open>util/message-tag.ts\<close>):
    reading it by its tags gives back what was put in, and what is cut fits.
  \<^item> \<open>Webhooks\<close>, \<open>Webhook_Properties\<close>: inbound webhooks (\<open>webhooks/\<close>), composed of signatures, envelope and trigger: nothing
    without a signature, no replay, payloads stay data of bounded size.
  \<^item> \<open>Monitors\<close>, \<open>Monitor_Poller\<close>, \<open>Monitor_Properties\<close>: watches on background jobs (\<open>monitors/\<close>,
    \<open>processes/process-registry.ts\<close>): matching lines are picked out completely, the place in the output moves only past
    what was reported or is blank, and a watch ends with its job.
  \<^item> \<open>Skills\<close>, \<open>Skill_Properties\<close>: the store of skills (\<open>skills/skill-store.ts\<close>, \<open>skills/skill-name.ts\<close>, the installation of
    \<open>skills/seed.ts\<close>): what a reader is shown is published, signed and vetted, the nearest scope wins, and installing twice
    changes nothing.

  \<^bold>\<open>How the code is read.\<close> A store is a record of its maps; an operation is a function from the state (and the time
  and the random identifiers it draws, as arguments) to the new state and the result. An \<open>async\<close> operation of a store
  in memory runs to completion before another one starts, so it is one step; where an operation awaits something that
  others may use to act (the effects of a fire, an idempotent effect, the callbacks of a reaping pass, the refresh of a
  token) it is split there, the actions of the others are a function that is applied there, or the operation is given the
  states that its successive accesses find. An exception is a value of an error type. \<open>Map\<close>
  and plain objects are association lists, since their order is observable; numbers that are counters, times or lengths
  are \<open>int\<close> or \<open>nat\<close>, amounts of money exact rationals, IP addresses words of 32 and 128 bits. A string is a list of code
  units below 256; the em dash in some messages is spelled with hyphens, an ellipsis with three dots. Records that a step relation ranges over have an
  invariant, and the properties speak about all states reachable by any sequence of steps.

  \<^bold>\<open>What is a parameter.\<close> Code that is not in the sources is an argument, with what is relied upon as a named hypothesis
  and a witness: regular expressions, SHA-256, \<open>JSON.parse\<close>,
  the next time of a calendar expression and the check of a time zone, the collation of names, the parsing of URLs and of
  IP addresses, name resolution, the opening of a group conversation on the surface, the effects of a loop and the acts of
  other processes; HMAC, the compact signatures of \<open>jose\<close>, base64 and the encoding of URIs (record \<open>crypto\<close>, and \<open>hook_env\<close>
  for webhooks with \<open>URLSearchParams\<close> and \<open>Number\<close>), the encryption of the vault (record \<open>vault\<close>), the remote refresh of a
  token, the inventory and the processes of a sandbox, the turn that a trigger runs, the printing of rational numbers, and
  reading and printing dates (record \<open>dates\<close>). Some are code in the sources that a component receives as a callback: who manages a scope, who is entitled,
  who is active; and two functions of the command policy, which decode escape sequences and strip here-documents, are arguments
  that the properties quantify over.

  \<^bold>\<open>Bounds and fuel.\<close> The scanner recurses into substitutions as far as the code does, eight levels. The functions that
  peel wrappers off a command recurse on words that \<open>env -S\<close> may split anew; they are partial functions into an option
  type, and \<open>scannable_levels_returns\<close> proves that they always return if decoding escapes does not lengthen a text. All other functions are total by structural recursion
  or a termination measure, as the cutting of a text to its escaped size.

  \<^bold>\<open>Not modelled.\<close> The stores on Postgres (SQL text that a database runs; the contracts are those of the stores in memory);
  the orchestrator and the harnesses, whose behaviour is that of the models they prompt; sandboxes, connectors, Slack,
  model catalogs, the other services of credentials and deployments, which are calls to remote services; HTTP routes and the construction of the
  service from its environment; timers and promises (waiting for a lease, for a run, for a wake-up, the deadlines of the
  sweeper of swarms, the lease of a poller or scheduler, starting and stopping them). Within the modelled
  components these are left out: sampling of screened entries and search snippets in the session store, the projection
  of columns in the durable map, the prompt texts of the screening, the shell text that loads credentials, the fallback
  to tokens of the operator, reading the tail of a finished job, and two exceptions that evaluating a command may throw (an
  escape beyond the last code point, a command with the name of an inherited property).

  \<^bold>\<open>Plan.\<close> Left for later are message revisions, the folding of a tape into a prompt, the worker of
  runs, the stores of deployments, the packs of skills, and the shell text of the keychain.
\<close>

end
